(* ===== verification/Prelude.thy ===== *)
theory Prelude
  imports Main "HOL-Library.Multiset"
begin

section \<open>Prelude: the JavaScript library the sources use\<close>

text \<open>
  This theory holds what every component of the development shares: the string, array and
  \<^verbatim>\<open>Map\<close> operations of the JavaScript standard library that the sources call, and the
  generic lemmas about them.

  A string is a list of code units; the model's \<open>char\<close> covers the code units below 256.
  \<^verbatim>\<open>Array.prototype.sort\<close> is stable (ECMAScript 2019), so it is modelled by a stable
  insertion sort over the comparison function that the code passes; what it promises is
  proved once, in the locale \<open>js_comparator\<close>, for comparison functions that are consistent
  on the elements compared. \<^verbatim>\<open>String.prototype.localeCompare\<close> depends on the collation of
  the host (ICU), so it is a parameter \<open>lc\<close> of the definitions that sort by it, and the
  locale \<open>collation\<close> states what the standard documents of it.
\<close>

named_theorems wosm_simps \<open>unfolding rules of the small projections of the model\<close>

subsection \<open>Undefined values\<close>

text \<open>\<^verbatim>\<open>a ?? b\<close>, with \<open>None\<close> for \<^verbatim>\<open>undefined\<close>.\<close>

definition nullish :: "'a option \<Rightarrow> 'a \<Rightarrow> 'a" where
  "nullish a b = (case a of None \<Rightarrow> b | Some x \<Rightarrow> x)"

definition nullish_opt :: "'a option \<Rightarrow> 'a option \<Rightarrow> 'a option" where
  "nullish_opt a b = (case a of None \<Rightarrow> b | Some x \<Rightarrow> Some x)"

lemma nullish_simps [simp]:
  "nullish None b = b" "nullish (Some x) b = x"
  "nullish_opt None c = c" "nullish_opt (Some x) c = Some x"
  "nullish_opt d None = d"
  by (simp_all add: nullish_def nullish_opt_def split: option.split)

subsection \<open>Strings\<close>

definition code_unit :: "char \<Rightarrow> nat" where
  "code_unit c = of_char c"

text \<open>\<^verbatim>\<open>toLowerCase\<close> on the code units below 256 (ASCII and Latin-1).\<close>

definition lower_char :: "char \<Rightarrow> char" where
  "lower_char c =
     (let n = code_unit c in
      if (65 \<le> n \<and> n \<le> 90) \<or> (192 \<le> n \<and> n \<le> 222 \<and> n \<noteq> 215) then char_of (n + 32) else c)"

definition to_lower :: "string \<Rightarrow> string" where
  "to_lower s = map lower_char s"

definition is_white_space :: "char \<Rightarrow> bool" where
  "is_white_space c = (code_unit c \<in> {9, 10, 11, 12, 13, 32, 160})"

definition trim_start :: "string \<Rightarrow> string" where
  "trim_start s = dropWhile is_white_space s"

definition trim_end :: "string \<Rightarrow> string" where
  "trim_end s = rev (dropWhile is_white_space (rev s))"

definition trim :: "string \<Rightarrow> string" where
  "trim s = trim_end (trim_start s)"

fun starts_with :: "'a list \<Rightarrow> 'a list \<Rightarrow> bool" where
  "starts_with [] xs = True"
| "starts_with (p # ps) [] = False"
| "starts_with (p # ps) (x # xs) = (p = x \<and> starts_with ps xs)"

fun str_includes :: "'a list \<Rightarrow> 'a list \<Rightarrow> bool" where
  "str_includes p [] = (p = [])"
| "str_includes p (x # xs) = (starts_with p (x # xs) \<or> str_includes p xs)"

fun str_join :: "string \<Rightarrow> string list \<Rightarrow> string" where
  "str_join sep [] = []"
| "str_join sep [s] = s"
| "str_join sep (s # t # ss) = s @ sep @ str_join sep (t # ss)"

lemma set_str_join: "set (str_join sep ss) \<subseteq> set sep \<union> \<Union> (set ` set ss)"
  by (induction sep ss rule: str_join.induct) auto

text \<open>The decimal digits of a natural number, as in a template literal.\<close>

fun decimal :: "nat \<Rightarrow> string" where
  "decimal n = (if n < 10 then [char_of (48 + n)] else decimal (n div 10) @ [char_of (48 + n mod 10)])"

declare decimal.simps [simp del]

lemma decimal_small: "n < 10 \<Longrightarrow> decimal n = [char_of (48 + n)]"
  by (subst decimal.simps) simp

lemma decimal_large: "10 \<le> n \<Longrightarrow> decimal n = decimal (n div 10) @ [char_of (48 + n mod 10)]"
  by (subst decimal.simps) simp

lemma code_unit_char_of [simp]: "n < 256 \<Longrightarrow> code_unit (char_of n) = n"
  by (simp add: code_unit_def)

lemma char_of_code_unit [simp]: "char_of (code_unit c) = c"
  by (simp add: code_unit_def)

lemma code_unit_less: "code_unit c < 256"
  by (simp add: code_unit_def)

lemma starts_with_append: "starts_with p xs \<longleftrightarrow> (\<exists>ys. xs = p @ ys)"
  by (induction p xs rule: starts_with.induct) auto

lemma starts_with_refl [simp]: "starts_with p p"
  by (simp add: starts_with_append)

lemma starts_with_same [simp]: "starts_with p (p @ xs)"
  by (simp add: starts_with_append)

lemma starts_with_length: "starts_with p xs \<Longrightarrow> length p \<le> length xs"
  by (auto simp: starts_with_append)

lemma starts_with_trans: "starts_with p q \<Longrightarrow> starts_with q r \<Longrightarrow> starts_with p r"
  by (auto simp: starts_with_append)

lemma str_includes_append: "str_includes p xs \<longleftrightarrow> (\<exists>us vs. xs = us @ p @ vs)"
proof (induction xs)
  case Nil
  then show ?case by simp
next
  case (Cons x xs)
  have "(\<exists>us vs. x # xs = us @ p @ vs) \<longleftrightarrow>
      (\<exists>vs. x # xs = p @ vs) \<or> (\<exists>us vs. xs = us @ p @ vs)" (is "?l = ?r")
  proof
    assume ?l
    then obtain us vs where "x # xs = us @ p @ vs" by blast
    then show ?r by (cases us) auto
  next
    assume ?r
    then show ?l by (metis append_Cons append_Nil)
  qed
  with Cons.IH show ?case by (simp add: starts_with_append)
qed

lemma trim_end_trim_end [simp]: "trim_end (trim_end s) = trim_end s"
  by (simp add: trim_end_def)

lemma dropWhile_idem [simp]: "dropWhile p (dropWhile p xs) = dropWhile p xs"
  by (induction xs) auto

text \<open>\<^verbatim>\<open>[...new Set(xs)]\<close> keeps the first occurrence of each element.\<close>

fun js_unique :: "'a list \<Rightarrow> 'a list" where
  "js_unique [] = []"
| "js_unique (x # xs) = x # filter (\<lambda>y. y \<noteq> x) (js_unique xs)"

lemma set_js_unique [simp]: "set (js_unique xs) = set xs"
  by (induction xs) auto

lemma distinct_js_unique [simp]: "distinct (js_unique xs)"
  by (induction xs) auto

subsection \<open>Maps built from arrays, records as association lists\<close>

text \<open>
  \<^verbatim>\<open>new Map(xs.map((x) => [key(x), x]))\<close>: a later element overwrites an earlier one with
  the same key.
\<close>

definition js_map :: "('a \<Rightarrow> 'k) \<Rightarrow> 'a list \<Rightarrow> 'k \<rightharpoonup> 'a" where
  "js_map key xs = map_of (rev (map (\<lambda>x. (key x, x)) xs))"

lemma map_filter_mem: "y \<in> set (List.map_filter f xs) \<longleftrightarrow> (\<exists>x \<in> set xs. f x = Some y)"
  by (induction xs) (auto simp: List.map_filter_simps split: option.splits)

lemma js_map_None: "js_map key xs k = None \<longleftrightarrow> (\<forall>x \<in> set xs. key x \<noteq> k)"
  by (force simp: js_map_def map_of_eq_None_iff)

lemma js_map_Some: "js_map key xs k = Some x \<Longrightarrow> x \<in> set xs \<and> key x = k"
  by (auto simp: js_map_def dest!: map_of_SomeD)

lemma js_map_distinct:
  assumes "distinct (map key xs)"
  shows "js_map key xs k = Some x \<longleftrightarrow> x \<in> set xs \<and> key x = k"
proof
  assume "js_map key xs k = Some x"
  then show "x \<in> set xs \<and> key x = k" by (rule js_map_Some)
next
  assume x: "x \<in> set xs \<and> key x = k"
  then obtain y where y: "js_map key xs k = Some y"
    using js_map_None [of key xs k] by fastforce
  with x assms show "js_map key xs k = Some x"
    by (auto simp: distinct_map inj_on_def dest!: js_map_Some)
qed

text \<open>
  An object used as a record: assigning a present key keeps its position, a new key goes last.
\<close>

fun rec_set :: "'k \<Rightarrow> 'v \<Rightarrow> ('k \<times> 'v) list \<Rightarrow> ('k \<times> 'v) list" where
  "rec_set k v [] = [(k, v)]"
| "rec_set k v ((k', v') # r) = (if k = k' then (k, v) # r else (k', v') # rec_set k v r)"

lemma map_of_rec_set [simp]: "map_of (rec_set k v r) = (map_of r)(k \<mapsto> v)"
  by (induction r) (auto simp: fun_eq_iff)

lemma rec_set_keys: "set (map fst (rec_set k v r)) = insert k (set (map fst r))"
  by (induction k v r rule: rec_set.induct) auto

definition rec_del :: "'k \<Rightarrow> ('k \<times> 'v) list \<Rightarrow> ('k \<times> 'v) list" where
  "rec_del k r = filter (\<lambda>(k', v). k' \<noteq> k) r"

lemma rec_del_keys: "map fst (rec_del k r) = removeAll k (map fst r)"
  by (induction r) (auto simp: rec_del_def)

lemma map_of_rec_del [simp]: "map_of (rec_del k r) = (map_of r)(k := None)"
  by (induction r) (auto simp: rec_del_def fun_eq_iff)

lemma rec_del_distinct: "distinct (map fst r) \<Longrightarrow> distinct (map fst (rec_del k r))"
  by (simp add: rec_del_keys distinct_removeAll)

lemma rec_set_key_list:
  "map fst (rec_set k v r) =
     (if map_of r k = None then map fst r @ [k] else map fst r)"
  by (induction k v r rule: rec_set.induct) (auto split: if_splits)

lemma rec_set_length:
  "length (rec_set k v r) = (if map_of r k = None then Suc (length r) else length r)"
  using arg_cong [OF rec_set_key_list, of length k v r] by (auto split: if_splits)

lemma rec_del_mset_keys:
  "distinct (map fst r) \<Longrightarrow> mset (map fst (rec_del k r)) = mset (map fst r) - {#k#}"
  by (simp only: rec_del_keys flip: distinct_remove1_removeAll) simp

lemma rec_del_length:
  assumes "distinct (map fst r)" "map_of r k \<noteq> None"
  shows "Suc (length (rec_del k r)) = length r"
proof -
  have k: "k \<in># mset (map fst r)"
    using assms(2) by (simp add: map_of_eq_None_iff)
  have "length (map fst (rec_del k r)) = size (mset (map fst r) - {#k#})"
    using arg_cong [OF rec_del_mset_keys [OF assms(1)], of size k] by (simp only: size_mset)
  also have "Suc \<dots> = size (mset (map fst r))" by (rule size_Suc_Diff1 [OF k])
  finally show ?thesis by simp
qed

lemma rec_set_distinct: "distinct (map fst r) \<Longrightarrow> distinct (map fst (rec_set k v r))"
proof (induction r)
  case Nil
  then show ?case by simp
next
  case (Cons p r)
  then show ?case by (cases p) (use rec_set_keys [of k v r] in auto)
qed

subsection \<open>Comparison functions and the stable sort\<close>

text \<open>
  A comparison function returns a number; \<^verbatim>\<open>a || b\<close> on numbers is \<open>b\<close> when \<open>a\<close> is zero
  (or NaN), which is how the sources write a lexicographic comparison.
\<close>

type_synonym 'a comparison = "'a \<Rightarrow> 'a \<Rightarrow> int"

type_synonym collator = "string comparison"

definition or_else :: "int \<Rightarrow> int \<Rightarrow> int" where
  "or_else a b = (if a \<noteq> 0 then a else b)"

lemma or_else_le: "or_else a b \<le> 0 \<longleftrightarrow> a < 0 \<or> (a = 0 \<and> b \<le> 0)"
  by (auto simp: or_else_def)

fun js_insert :: "'a comparison \<Rightarrow> 'a \<Rightarrow> 'a list \<Rightarrow> 'a list" where
  "js_insert cmp x [] = [x]"
| "js_insert cmp x (y # ys) = (if cmp x y \<le> 0 then x # y # ys else y # js_insert cmp x ys)"

definition js_sort :: "'a comparison \<Rightarrow> 'a list \<Rightarrow> 'a list" where
  "js_sort cmp xs = foldr (js_insert cmp) xs []"

lemma js_sort_Nil [simp]: "js_sort cmp [] = []"
  by (simp add: js_sort_def)

lemma js_sort_Cons: "js_sort cmp (x # xs) = js_insert cmp x (js_sort cmp xs)"
  by (simp add: js_sort_def)

lemma mset_js_insert [simp]: "mset (js_insert cmp x xs) = add_mset x (mset xs)"
  by (induction xs) auto

lemma mset_js_sort [simp]: "mset (js_sort cmp xs) = mset xs"
  by (induction xs) (auto simp: js_sort_Cons)

lemma set_js_sort [simp]: "set (js_sort cmp xs) = set xs"
  by (metis mset_js_sort set_mset_mset)

lemma length_js_sort [simp]: "length (js_sort cmp xs) = length xs"
  by (metis mset_js_sort size_mset)

lemma js_sort_eq_Nil [simp]: "js_sort cmp xs = [] \<longleftrightarrow> xs = []"
  by (metis length_0_conv length_js_sort)

lemma distinct_js_sort [simp]: "distinct (map f (js_sort cmp xs)) = distinct (map f xs)"
  by (metis mset_js_sort mset_map mset_eq_imp_distinct_iff)

lemma js_insert_map:
  assumes "\<And>x y. cmp' (f x) (f y) = cmp x y"
  shows "map f (js_insert cmp x xs) = js_insert cmp' (f x) (map f xs)"
  by (induction xs) (auto simp: assms)

lemma js_sort_map:
  assumes "\<And>x y. cmp' (f x) (f y) = cmp x y"
  shows "map f (js_sort cmp xs) = js_sort cmp' (map f xs)"
  by (induction xs) (auto simp: js_sort_Cons js_insert_map [of cmp' f cmp, OF assms])

text \<open>
  What a consistent comparison function promises, on the elements that satisfy \<open>dom\<close>:
  the sign flips with the arguments and \<open>\<le> 0\<close> is transitive.
\<close>

locale js_comparator =
  fixes carrier :: "'a \<Rightarrow> bool" and cmp :: "'a comparison"
  assumes flip: "carrier x \<Longrightarrow> carrier y \<Longrightarrow> sgn (cmp y x) = - sgn (cmp x y)"
    and trans: "carrier x \<Longrightarrow> carrier y \<Longrightarrow> carrier z \<Longrightarrow>
      cmp x y \<le> 0 \<Longrightarrow> cmp y z \<le> 0 \<Longrightarrow> cmp x z \<le> 0"
begin

lemma self: "carrier x \<Longrightarrow> cmp x x = 0"
  using flip [of x x] by (simp add: sgn_if split: if_splits)

lemma total: "carrier x \<Longrightarrow> carrier y \<Longrightarrow> cmp x y \<le> 0 \<or> cmp y x \<le> 0"
  using flip [of x y] by (auto simp: sgn_if split: if_splits)

lemma pos_flip: "carrier x \<Longrightarrow> carrier y \<Longrightarrow> \<not> cmp x y \<le> 0 \<Longrightarrow> cmp y x < 0"
  using flip [of x y] by (auto simp: sgn_if split: if_splits)

lemma zero_flip: "carrier x \<Longrightarrow> carrier y \<Longrightarrow> cmp x y = 0 \<longleftrightarrow> cmp y x = 0"
  using flip [of x y] by (auto simp: sgn_if split: if_splits)

lemma neg_flip: "carrier x \<Longrightarrow> carrier y \<Longrightarrow> cmp x y < 0 \<longleftrightarrow> 0 < cmp y x"
  using flip [of x y] by (auto simp: sgn_if split: if_splits)

lemma neg_trans1:
  "carrier x \<Longrightarrow> carrier y \<Longrightarrow> carrier z \<Longrightarrow> cmp x y < 0 \<Longrightarrow> cmp y z \<le> 0 \<Longrightarrow> cmp x z < 0"
  using trans [of x y z] trans [of y z x] neg_flip [of x y] neg_flip [of x z] zero_flip [of x z]
  by fastforce

lemma neg_trans2:
  "carrier x \<Longrightarrow> carrier y \<Longrightarrow> carrier z \<Longrightarrow> cmp x y \<le> 0 \<Longrightarrow> cmp y z < 0 \<Longrightarrow> cmp x z < 0"
  using trans [of x y z] trans [of z x y] neg_flip [of y z] neg_flip [of x z] zero_flip [of x z]
  by fastforce

lemma zero_trans:
  "carrier x \<Longrightarrow> carrier y \<Longrightarrow> carrier z \<Longrightarrow> cmp x y = 0 \<Longrightarrow> cmp y z = 0 \<Longrightarrow> cmp x z = 0"
  using trans [of x y z] trans [of z y x] zero_flip [of x y] zero_flip [of y z] neg_flip [of x z]
  by fastforce

lemma sorted_js_insert:
  assumes "carrier x" "\<forall>y \<in> set ys. carrier y" "sorted_wrt (\<lambda>a b. cmp a b \<le> 0) ys"
  shows "sorted_wrt (\<lambda>a b. cmp a b \<le> 0) (js_insert cmp x ys)"
  using assms
proof (induction ys)
  case Nil
  then show ?case by simp
next
  case (Cons y ys)
  show ?case
  proof (cases "cmp x y \<le> 0")
    case True
    with Cons.prems show ?thesis by (auto intro: trans [of x y])
  next
    case False
    then have "cmp y x \<le> 0" using Cons.prems total [of x y] by auto
    moreover have "set (js_insert cmp x ys) = insert x (set ys)"
      by (metis mset_js_insert set_mset_add_mset_insert set_mset_mset)
    ultimately show ?thesis using False Cons by auto
  qed
qed

lemma sorted_js_sort:
  "\<forall>x \<in> set xs. carrier x \<Longrightarrow> sorted_wrt (\<lambda>a b. cmp a b \<le> 0) (js_sort cmp xs)"
  by (induction xs) (auto simp: js_sort_Cons sorted_js_insert)

lemma js_insert_head:
  "\<forall>y \<in> set ys. cmp x y \<le> 0 \<Longrightarrow> js_insert cmp x ys = x # ys"
  by (cases ys) auto

lemma js_sort_sorted:
  "sorted_wrt (\<lambda>a b. cmp a b \<le> 0) xs \<Longrightarrow> js_sort cmp xs = xs"
  by (induction xs) (auto simp: js_sort_Cons js_insert_head)

lemma js_sort_idem:
  "\<forall>x \<in> set xs. carrier x \<Longrightarrow> js_sort cmp (js_sort cmp xs) = js_sort cmp xs"
  by (simp add: js_sort_sorted sorted_js_sort)

text \<open>The first element after sorting is a minimum of the elements.\<close>

lemma js_sort_hd_least:
  assumes "\<forall>x \<in> set xs. carrier x" "js_sort cmp xs = y # ys" "z \<in> set xs"
  shows "cmp y z \<le> 0"
proof -
  have "z \<in> set (y # ys)" using assms(3) by (simp flip: assms(2))
  moreover have "sorted_wrt (\<lambda>a b. cmp a b \<le> 0) (y # ys)"
    using sorted_js_sort [OF assms(1)] assms(2) by simp
  moreover have "carrier y" using assms(1,2) by (metis list.set_intros(1) set_js_sort)
  ultimately show ?thesis using self [of y] by auto
qed

text \<open>Stability: elements that compare equal to \<open>x\<close> keep their order.\<close>

lemma js_insert_stable:
  assumes "carrier x" "carrier z" "\<forall>y \<in> set ys. carrier y"
  shows "filter (\<lambda>y. cmp z y = 0) (js_insert cmp x ys) = filter (\<lambda>y. cmp z y = 0) (x # ys)"
  using assms
proof (induction ys)
  case Nil
  then show ?case by simp
next
  case (Cons y ys)
  show ?case
  proof (cases "cmp x y \<le> 0")
    case False
    then have "\<not> (cmp z x = 0 \<and> cmp z y = 0)"
      using Cons.prems zero_trans [of x z y] zero_flip [of x z] by auto
    with False Cons show ?thesis by auto
  qed simp
qed

lemma js_sort_stable:
  assumes "\<forall>y \<in> set xs. carrier y" "carrier z"
  shows "filter (\<lambda>y. cmp z y = 0) (js_sort cmp xs) = filter (\<lambda>y. cmp z y = 0) xs"
  using assms by (induction xs) (auto simp: js_sort_Cons js_insert_stable)

end

subsubsection \<open>Building comparison functions\<close>

lemma js_comparator_or_else:
  assumes "js_comparator P c" "js_comparator P d"
  shows "js_comparator P (\<lambda>x y. or_else (c x y) (d x y))"
proof
  fix x y
  assume "P x" "P y"
  then show "sgn (or_else (c y x) (d y x)) = - sgn (or_else (c x y) (d x y))"
    using js_comparator.flip [OF assms(1), of x y] js_comparator.flip [OF assms(2), of x y]
      js_comparator.zero_flip [OF assms(1), of x y] by (simp add: or_else_def)
next
  fix x y z
  assume P: "P x" "P y" "P z" and xy: "or_else (c x y) (d x y) \<le> 0"
    and yz: "or_else (c y z) (d y z) \<le> 0"
  then have "c x y \<le> 0" "c y z \<le> 0" by (auto simp: or_else_def split: if_splits)
  then have "c x z \<le> 0" by (rule js_comparator.trans [OF assms(1) P])
  moreover have "c x y = 0 \<and> c y z = 0" if "c x z = 0"
    using that P js_comparator.neg_trans1 [OF assms(1), of x y z] \<open>c x y \<le> 0\<close> \<open>c y z \<le> 0\<close>
      js_comparator.neg_trans2 [OF assms(1), of x y z] by fastforce
  ultimately show "or_else (c x z) (d x z) \<le> 0"
    using xy yz P js_comparator.trans [OF assms(2), of x y z] by (auto simp: or_else_def)
qed

lemma js_comparator_diff: "js_comparator P (\<lambda>x y. f x - f y)"
  by standard (auto simp: sgn_if)

lemma js_comparator_diff_rev: "js_comparator P (\<lambda>x y. f y - f x)"
  by standard (auto simp: sgn_if)

lemma js_comparator_via:
  "js_comparator Q c \<Longrightarrow> (\<And>x. P x \<Longrightarrow> Q (f x)) \<Longrightarrow> js_comparator P (\<lambda>x y. c (f x) (f y))"
  unfolding js_comparator_def by blast

lemma js_comparator_cong:
  assumes "js_comparator P c" "\<And>x y. P x \<Longrightarrow> P y \<Longrightarrow> c x y = d x y"
  shows "js_comparator P d"
  using assms unfolding js_comparator_def by (metis assms(2))

subsubsection \<open>Collation of strings\<close>

text \<open>
  \<^verbatim>\<open>localeCompare\<close> is a consistent comparison of all strings (ECMA-402, 10.3.3).
\<close>

locale collation =
  fixes lc :: collator
  assumes lc_flip: "sgn (lc y x) = - sgn (lc x y)"
    and lc_trans: "lc x y \<le> 0 \<Longrightarrow> lc y z \<le> 0 \<Longrightarrow> lc x z \<le> 0"
begin

lemma comparator: "js_comparator (\<lambda>_. True) lc"
  by standard (auto intro: lc_flip lc_trans)

lemma comparator_via: "js_comparator P (\<lambda>x y. lc (f x) (f y))"
  by (rule js_comparator_via [OF comparator]) simp

end

text \<open>
  The comparison by code units, which is what \<^verbatim>\<open>sort()\<close> without an argument uses, and what
  \<^verbatim>\<open>localeCompare\<close> is under the collation of the C locale.
\<close>

fun code_unit_compare :: "string \<Rightarrow> string \<Rightarrow> int" where
  "code_unit_compare [] [] = 0"
| "code_unit_compare [] (y # ys) = -1"
| "code_unit_compare (x # xs) [] = 1"
| "code_unit_compare (x # xs) (y # ys) =
     (if code_unit x < code_unit y then -1
      else if code_unit y < code_unit x then 1
      else code_unit_compare xs ys)"

lemma code_unit_compare_flip: "code_unit_compare y x = - code_unit_compare x y"
  by (induction x y rule: code_unit_compare.induct) auto

lemma code_unit_compare_Nil [simp]: "code_unit_compare x [] \<le> 0 \<longleftrightarrow> x = []"
  by (cases x) auto

lemma code_unit_compare_trans:
  "code_unit_compare x y \<le> 0 \<Longrightarrow> code_unit_compare y z \<le> 0 \<Longrightarrow> code_unit_compare x z \<le> 0"
proof (induction x y arbitrary: z rule: code_unit_compare.induct)
  case (2 y ys)
  then show ?case by (cases z) auto
next
  case (4 x xs y ys)
  show ?case
  proof (cases z)
    case Nil
    with "4.prems" show ?thesis by simp
  next
    case (Cons c cs)
    with "4.prems" have le: "code_unit x \<le> code_unit y" "code_unit y \<le> code_unit c"
      by (simp_all split: if_splits)
    show ?thesis
    proof (cases "code_unit x < code_unit c")
      case True
      with Cons show ?thesis by simp
    next
      case False
      with le have eq: "code_unit x = code_unit y" "code_unit y = code_unit c" by simp_all
      with "4.prems" Cons have "code_unit_compare xs ys \<le> 0" "code_unit_compare ys cs \<le> 0"
        by simp_all
      then have "code_unit_compare xs cs \<le> 0" using "4.IH" [of cs] eq by simp
      with eq Cons show ?thesis by simp
    qed
  qed
qed auto

lemma code_unit_compare_zero: "code_unit_compare x y = 0 \<longleftrightarrow> x = y"
  by (induction x y rule: code_unit_compare.induct) (auto simp: code_unit_def)

interpretation code_units: collation code_unit_compare
proof unfold_locales
  show "sgn (code_unit_compare y x) = - sgn (code_unit_compare x y)" for x y
    by (subst code_unit_compare_flip) (simp add: sgn_minus)
qed (rule code_unit_compare_trans)

definition sort_strings :: "string list \<Rightarrow> string list" where
  "sort_strings xs = js_sort code_unit_compare xs"

lemma sort_strings_sorted:
  "sorted_wrt (\<lambda>a b. code_unit_compare a b \<le> 0) (sort_strings xs)"
  unfolding sort_strings_def
  by (rule js_comparator.sorted_js_sort [OF code_units.comparator]) simp

end
