(* ===== verification/Timestamps.thy ===== *)
theory Timestamps
  imports Prelude
begin

section \<open>Timestamps: \<^verbatim>\<open>Date.parse\<close> on ISO 8601 date-times\<close>

text \<open>
  Every timestamp of the system is a string that \<^verbatim>\<open>TimestampSchema\<close>
  (\<^verbatim>\<open>packages/contracts/src/ids.ts\<close>) accepts: an ISO 8601 date-time with an optional
  fraction and either \<^verbatim>\<open>Z\<close> or a \<^verbatim>\<open>+hh:mm\<close> offset. The code never compares the strings; it
  compares the numbers \<^verbatim>\<open>Date.parse\<close> gives. \<open>date_parse\<close> computes that number (milliseconds
  since 1970) for this format and is \<open>None\<close>, the model's NaN, on anything else. The two
  uses the code makes of the numbers are a difference under \<^verbatim>\<open>||\<close>, where NaN counts as zero
  (\<open>ts_diff\<close>), and a \<^verbatim>\<open><\<close>, which is false on NaN (\<open>ts_before\<close>).
\<close>

type_synonym timestamp = string

definition digit_value :: "char \<Rightarrow> int option" where
  "digit_value c = (let n = code_unit c in if 48 \<le> n \<and> n \<le> 57 then Some (int n - 48) else None)"

fun take_digits :: "nat \<Rightarrow> int \<Rightarrow> string \<Rightarrow> (int \<times> string) option" where
  "take_digits 0 acc s = Some (acc, s)"
| "take_digits (Suc n) acc [] = None"
| "take_digits (Suc n) acc (c # s) =
     (case digit_value c of None \<Rightarrow> None | Some d \<Rightarrow> take_digits n (10 * acc + d) s)"

definition expect_char :: "char \<Rightarrow> string \<Rightarrow> string option" where
  "expect_char c s = (case s of [] \<Rightarrow> None | x # xs \<Rightarrow> if x = c then Some xs else None)"

text \<open>The digits of a fraction, of which the first three count (milliseconds).\<close>

fun take_fraction :: "int \<Rightarrow> int \<Rightarrow> string \<Rightarrow> int \<times> string" where
  "take_fraction w acc [] = (acc, [])"
| "take_fraction w acc (c # s) =
     (case digit_value c of
        None \<Rightarrow> (acc, c # s)
      | Some d \<Rightarrow> take_fraction (w div 10) (acc + w * d) s)"

definition parse_seconds :: "string \<Rightarrow> (int \<times> string) option" where
  "parse_seconds s =
     (case expect_char (CHR '':'') s of
        None \<Rightarrow> Some (0, s)
      | Some s1 \<Rightarrow>
          (case take_digits 2 0 s1 of
             None \<Rightarrow> None
           | Some (sec, s2) \<Rightarrow>
               if sec > 59 then None
               else (case expect_char (CHR ''.'') s2 of
                       None \<Rightarrow> Some (1000 * sec, s2)
                     | Some s3 \<Rightarrow>
                         (case take_digits 1 0 s3 of
                            None \<Rightarrow> None
                          | Some _ \<Rightarrow>
                              (case take_fraction 100 0 s3 of
                                 (ms, s4) \<Rightarrow> Some (1000 * sec + ms, s4))))))"

definition parse_hours_minutes :: "string \<Rightarrow> (int \<times> string) option" where
  "parse_hours_minutes s =
     (case take_digits 2 0 s of
        None \<Rightarrow> None
      | Some (h, s1) \<Rightarrow>
          (case expect_char (CHR '':'') s1 of
             None \<Rightarrow> None
           | Some s2 \<Rightarrow>
               (case take_digits 2 0 s2 of
                  None \<Rightarrow> None
                | Some (m, s3) \<Rightarrow> if h > 23 \<or> m > 59 then None else Some (60 * h + m, s3))))"

text \<open>The offset in minutes; it must end the string.\<close>

definition parse_offset :: "string \<Rightarrow> int option" where
  "parse_offset s =
     (if s = ''Z'' then Some 0
      else case s of
        [] \<Rightarrow> None
      | c # r \<Rightarrow>
          (case parse_hours_minutes r of
             Some (m, []) \<Rightarrow>
               if c = CHR ''+'' then Some m
               else if c = CHR ''-'' then Some (- m) else None
           | _ \<Rightarrow> None))"

text \<open>Days since 1970-01-01 in the proleptic Gregorian calendar.\<close>

definition days_from_civil :: "int \<Rightarrow> int \<Rightarrow> int \<Rightarrow> int" where
  "days_from_civil y m d =
     (let y' = (if m \<le> 2 then y - 1 else y);
          era = y' div 400;
          yoe = y' mod 400;
          mp = (m + 9) mod 12;
          doy = (153 * mp + 2) div 5 + d - 1;
          doe = 365 * yoe + yoe div 4 - yoe div 100 + doy
      in 146097 * era + doe - 719468)"

definition parse_date :: "string \<Rightarrow> (int \<times> string) option" where
  "parse_date s =
     (case take_digits 4 0 s of
        None \<Rightarrow> None
      | Some (y, s1) \<Rightarrow>
          (case expect_char (CHR ''-'') s1 of
             None \<Rightarrow> None
           | Some s2 \<Rightarrow>
               (case take_digits 2 0 s2 of
                  None \<Rightarrow> None
                | Some (m, s3) \<Rightarrow>
                    (case expect_char (CHR ''-'') s3 of
                       None \<Rightarrow> None
                     | Some s4 \<Rightarrow>
                         (case take_digits 2 0 s4 of
                            None \<Rightarrow> None
                          | Some (d, s5) \<Rightarrow>
                              if m < 1 \<or> m > 12 \<or> d < 1 \<or> d > 31 then None
                              else Some (days_from_civil y m d, s5))))))"

definition date_parse :: "timestamp \<Rightarrow> int option" where
  "date_parse s =
     (case parse_date s of
        None \<Rightarrow> None
      | Some (days, s1) \<Rightarrow>
          (case expect_char (CHR ''T'') s1 of
             None \<Rightarrow> None
           | Some s2 \<Rightarrow>
               (case parse_hours_minutes s2 of
                  None \<Rightarrow> None
                | Some (minutes, s3) \<Rightarrow>
                    (case parse_seconds s3 of
                       None \<Rightarrow> None
                     | Some (ms, s4) \<Rightarrow>
                         (case parse_offset s4 of
                            None \<Rightarrow> None
                          | Some off \<Rightarrow>
                              Some (86400000 * days + 60000 * (minutes - off) + ms))))))"

definition ts_valid :: "timestamp \<Rightarrow> bool" where
  "ts_valid t = (date_parse t \<noteq> None)"

definition ts_millis :: "timestamp \<Rightarrow> int" where
  "ts_millis t = (case date_parse t of None \<Rightarrow> 0 | Some n \<Rightarrow> n)"

text \<open>\<^verbatim>\<open>Date.parse(a) - Date.parse(b)\<close> as an operand of \<^verbatim>\<open>||\<close>.\<close>

definition ts_diff :: "timestamp \<Rightarrow> timestamp \<Rightarrow> int" where
  "ts_diff a b =
     (case (date_parse a, date_parse b) of (Some x, Some y) \<Rightarrow> x - y | _ \<Rightarrow> 0)"

text \<open>\<^verbatim>\<open>Date.parse(a) < Date.parse(b)\<close>.\<close>

definition ts_before :: "timestamp \<Rightarrow> timestamp \<Rightarrow> bool" where
  "ts_before a b =
     (case (date_parse a, date_parse b) of (Some x, Some y) \<Rightarrow> x < y | _ \<Rightarrow> False)"

lemma ts_diff_valid: "ts_valid a \<Longrightarrow> ts_valid b \<Longrightarrow> ts_diff a b = ts_millis a - ts_millis b"
  by (auto simp: ts_valid_def ts_diff_def ts_millis_def)

lemma ts_before_valid: "ts_valid a \<Longrightarrow> ts_valid b \<Longrightarrow> ts_before a b \<longleftrightarrow> ts_millis a < ts_millis b"
  by (auto simp: ts_valid_def ts_before_def ts_millis_def)

lemma ts_before_irrefl [simp]: "\<not> ts_before t t"
  by (auto simp: ts_before_def split: option.splits)

lemma ts_diff_self [simp]: "ts_diff t t = 0"
  by (auto simp: ts_diff_def split: option.splits)

text \<open>Newest first, on elements whose timestamps are valid.\<close>

lemma js_comparator_newest_first:
  assumes "\<And>x. P x \<Longrightarrow> ts_valid (f x)"
  shows "js_comparator P (\<lambda>x y. ts_diff (f y) (f x))"
  by (rule js_comparator_cong [OF js_comparator_diff_rev [of P "\<lambda>x. ts_millis (f x)"]])
    (simp add: assms ts_diff_valid)

lemma js_comparator_oldest_first:
  assumes "\<And>x. P x \<Longrightarrow> ts_valid (f x)"
  shows "js_comparator P (\<lambda>x y. ts_diff (f x) (f y))"
  by (rule js_comparator_cong [OF js_comparator_diff [of P "\<lambda>x. ts_millis (f x)"]])
    (simp add: assms ts_diff_valid)

text \<open>\<^verbatim>\<open>durationMs(startedAt, finishedAt)\<close> of \<^verbatim>\<open>packages/runtime/src/boundary.ts\<close>.\<close>

definition duration_ms :: "timestamp \<Rightarrow> timestamp \<Rightarrow> int option" where
  "duration_ms startedAt finishedAt =
     (case (date_parse finishedAt, date_parse startedAt) of
        (Some f, Some s) \<Rightarrow> Some (max 0 (f - s))
      | _ \<Rightarrow> None)"

lemma duration_ms_nonneg: "duration_ms a b = Some d \<Longrightarrow> 0 \<le> d"
  by (auto simp: duration_ms_def split: option.splits)

lemma date_parse_epoch: "date_parse ''1970-01-01T00:00:00.000Z'' = Some 0"
  by code_simp

lemma date_parse_offset:
  "date_parse ''2026-06-01T12:30:15.250+02:00'' = date_parse ''2026-06-01T10:30:15.25Z''"
  by code_simp

end
