(* ===== verification/Contracts.thy ===== *)
theory Contracts
  imports Timestamps
begin

section \<open>Contracts: the shared data of observer and clients\<close>

text \<open>
  The data of \<^verbatim>\<open>packages/contracts/src\<close>: identifiers, provider observations, provider
  health, snapshots, recovery handles and harness event reports. Each Zod object schema is
  a \<open>record\<close> (an optional field is an \<open>option\<close>), each enum a \<open>datatype\<close>, each
  discriminated union a \<open>datatype\<close> with one constructor per member. What a schema demands
  beyond its shape (non-empty strings, positive process ids, text without stack frames,
  ISO timestamps) is a predicate \<open>valid_\<dots>\<close>.

  A \<^verbatim>\<open>z.unknown()\<close> payload that the code only passes on is a JSON value. An object used as a
  dictionary is an association list in insertion order, since \<^verbatim>\<open>Object.values\<close> reads it in
  that order.
\<close>

subsection \<open>Identifiers and text (ids.ts, shared.ts)\<close>

type_synonym project_id = string
type_synonym worktree_id = string
type_synonym session_id = string
type_synonym terminal_target_id = string
type_synonym harness_run_id = string
type_synonym command_id = string
type_synonym provider_id = string
type_synonym 'a dict = "(string \<times> 'a) list"

datatype json = JNull | JBool bool | JNum int | JStr string | JArr "json list"
  | JObj "(string \<times> json) list"

definition schema_version :: string where
  "schema_version = ''0.4.0''"

definition opt_ok :: "('a \<Rightarrow> bool) \<Rightarrow> 'a option \<Rightarrow> bool" where
  "opt_ok P x = (case x of None \<Rightarrow> True | Some y \<Rightarrow> P y)"

definition non_empty :: "string \<Rightarrow> bool" where
  "non_empty s = (s \<noteq> [])"

lemma opt_ok_simps [simp]: "opt_ok P None" "opt_ok P (Some x) = P x"
  by (simp_all add: opt_ok_def)

text \<open>The regular expression \<^verbatim>\<open>/\n\s*at\s+\S+/\<close>: the rest of a line after a newline is a stack frame.\<close>

definition stack_frame_line :: "string \<Rightarrow> bool" where
  "stack_frame_line s =
     (let t = dropWhile is_white_space s in
      starts_with ''at'' t \<and>
      (case drop 2 t of
         [] \<Rightarrow> False
       | c # r \<Rightarrow> is_white_space c \<and> dropWhile is_white_space r \<noteq> []))"

fun has_stack_frame :: "string \<Rightarrow> bool" where
  "has_stack_frame [] = False"
| "has_stack_frame (c # s) = ((code_unit c = 10 \<and> stack_frame_line s) \<or> has_stack_frame s)"

definition safe_text :: "string \<Rightarrow> bool" where
  "safe_text s = (non_empty s \<and> \<not> has_stack_frame s)"

subsection \<open>Enumerations (observations.ts)\<close>

datatype confidence = High | Medium | Low
datatype worktree_state = WtExists | WtMissing | WtOrphaned
datatype terminal_state = TermNone | TermOpen | TermDetached | TermStale | TermUnknown
datatype agent_state =
  AgentNone | AgentStarting | AgentIdle | AgentWorking | AgentNeedsAttention | AgentStuck
| AgentExited | AgentUnknown
datatype status_source =
  SrcHarnessHook | SrcHarnessEvent | SrcHarnessProcess | SrcTerminalCapture
| SrcWorktreeProvider | SrcObserverCommand | SrcReconcile | SrcUnknown
datatype worktree_source = FromWorktrunk | FromWosm | FromManual | FromUnknown
datatype pr_state = PrOpen | PrClosed | PrMerged | PrDraft | PrUnknown
datatype checks_state =
  ChecksPass | ChecksFail | ChecksRunning | ChecksNone | ChecksUnknown | ChecksSkipped
| ChecksCancelled

subsection \<open>Errors (errors.ts)\<close>

record safe_error =
  se_tag :: string
  se_code :: string
  se_message :: string
  se_hint :: "string option"
  se_commandId :: "command_id option"
  se_projectId :: "project_id option"
  se_worktreeId :: "worktree_id option"
  se_sessionId :: "session_id option"
  se_provider :: "provider_id option"
  se_traceId :: "string option"
  se_diagnosticId :: "string option"

definition basic_error :: "string \<Rightarrow> string \<Rightarrow> string \<Rightarrow> safe_error" where
  "basic_error tag code message =
     \<lparr>se_tag = tag, se_code = code, se_message = message, se_hint = None, se_commandId = None,
      se_projectId = None, se_worktreeId = None, se_sessionId = None, se_provider = None,
      se_traceId = None, se_diagnosticId = None\<rparr>"

definition valid_safe_error :: "safe_error \<Rightarrow> bool" where
  "valid_safe_error e =
     (non_empty (se_tag e) \<and> non_empty (se_code e) \<and> safe_text (se_message e) \<and>
      opt_ok safe_text (se_hint e) \<and> opt_ok non_empty (se_commandId e) \<and>
      opt_ok non_empty (se_projectId e) \<and> opt_ok non_empty (se_worktreeId e) \<and>
      opt_ok non_empty (se_sessionId e) \<and> opt_ok non_empty (se_provider e) \<and>
      opt_ok non_empty (se_traceId e) \<and> opt_ok non_empty (se_diagnosticId e))"

subsection \<open>Worktree metadata payloads (observations.ts)\<close>

record pull_request =
  pr_number :: int
  pr_url :: "string option"
  pr_host :: "string option"
  pr_state :: "pr_state option"
  pr_baseRef :: "string option"
  pr_headRef :: "string option"
  pr_updatedAt :: "timestamp option"
  pr_checkedAt :: "timestamp option"
  pr_stale :: "bool option"

record change_summary =
  cs_additions :: int
  cs_deletions :: int
  cs_filesChanged :: "int option"
  cs_binaryFiles :: "int option"
  cs_baseRef :: "string option"
  cs_baseSha :: "string option"
  cs_mergeBaseSha :: "string option"
  cs_headRef :: "string option"
  cs_headSha :: "string option"
  cs_source :: string
  cs_checkedAt :: timestamp
  cs_stale :: "bool option"

record checks_summary =
  ck_state :: checks_state
  ck_url :: "string option"
  ck_total :: "int option"
  ck_passed :: "int option"
  ck_failed :: "int option"
  ck_pending :: "int option"
  ck_skipped :: "int option"
  ck_cancelled :: "int option"
  ck_reason :: "string option"
  ck_source :: string
  ck_checkedAt :: timestamp
  ck_stale :: "bool option"

subsection \<open>Observations (observations.ts)\<close>

record observed_status =
  os_value :: agent_state
  os_confidence :: confidence
  os_reason :: string
  os_source :: status_source
  os_updatedAt :: timestamp

record worktree_observation =
  wo_id :: worktree_id
  wo_provider :: provider_id
  wo_projectId :: project_id
  wo_branch :: string
  wo_path :: string
  wo_state :: worktree_state
  wo_source :: worktree_source
  wo_dirty :: "bool option"
  wo_ahead :: "int option"
  wo_behind :: "int option"
  wo_pr :: "pull_request option"
  wo_changeSummary :: "change_summary option"
  wo_checks :: "checks_summary option"
  wo_confidence :: "confidence option"
  wo_reason :: "string option"
  wo_observedAt :: timestamp
  wo_providerData :: "json option"

record harness_binding =
  hb_role :: string
  hb_harnessProvider :: provider_id
  hb_worktreePath :: "string option"
  hb_currentCommand :: "string option"

record terminal_observation =
  to_id :: terminal_target_id
  to_provider :: provider_id
  to_projectId :: "project_id option"
  to_worktreeId :: "worktree_id option"
  to_sessionId :: "session_id option"
  to_harnessRunId :: "harness_run_id option"
  to_state :: terminal_state
  to_cwd :: "string option"
  to_pid :: "int option"
  to_title :: "string option"
  to_confidence :: confidence
  to_reason :: string
  to_observedAt :: timestamp
  to_harnessBinding :: "harness_binding option"
  to_providerData :: "json option"

record run_observation =
  ro_id :: harness_run_id
  ro_provider :: provider_id
  ro_projectId :: "project_id option"
  ro_worktreeId :: "worktree_id option"
  ro_sessionId :: "session_id option"
  ro_pid :: "int option"
  ro_cwd :: "string option"
  ro_state :: agent_state
  ro_confidence :: confidence
  ro_reason :: string
  ro_observedAt :: timestamp
  ro_providerData :: "json option"

record status_observation =
  so_provider :: provider_id
  so_runId :: "harness_run_id option"
  so_projectId :: "project_id option"
  so_worktreeId :: "worktree_id option"
  so_sessionId :: "session_id option"
  so_status :: observed_status
  so_observedAt :: timestamp
  so_providerData :: "json option"

text \<open>The fields of a harness event that the observer reads; the diagnostics are a JSON value.\<close>

record event_observation =
  eo_provider :: provider_id
  eo_reportId :: "string option"
  eo_eventType :: "string option"
  eo_projectId :: "project_id option"
  eo_sessionId :: "session_id option"
  eo_worktreeId :: "worktree_id option"
  eo_terminalTargetId :: "terminal_target_id option"
  eo_harnessRunId :: "harness_run_id option"
  eo_nativeSessionId :: "string option"
  eo_nativeSessionFile :: "string option"
  eo_cwd :: "string option"
  eo_pid :: "int option"
  eo_status :: "observed_status option"
  eo_rawEventType :: "string option"
  eo_diagnostics :: "json option"
  eo_providerData :: "json option"
  eo_observedAt :: timestamp

definition valid_status :: "observed_status \<Rightarrow> bool" where
  "valid_status s = (non_empty (os_reason s) \<and> ts_valid (os_updatedAt s))"

definition valid_worktree_observation :: "worktree_observation \<Rightarrow> bool" where
  "valid_worktree_observation w =
     (non_empty (wo_id w) \<and> non_empty (wo_provider w) \<and> non_empty (wo_projectId w) \<and>
      non_empty (wo_branch w) \<and> non_empty (wo_path w) \<and>
      opt_ok (\<lambda>n. 0 \<le> n) (wo_ahead w) \<and> opt_ok (\<lambda>n. 0 \<le> n) (wo_behind w) \<and>
      opt_ok non_empty (wo_reason w) \<and> ts_valid (wo_observedAt w))"

definition valid_terminal_observation :: "terminal_observation \<Rightarrow> bool" where
  "valid_terminal_observation t =
     (non_empty (to_id t) \<and> non_empty (to_provider t) \<and> opt_ok non_empty (to_projectId t) \<and>
      opt_ok non_empty (to_worktreeId t) \<and> opt_ok non_empty (to_sessionId t) \<and>
      opt_ok non_empty (to_harnessRunId t) \<and> opt_ok non_empty (to_cwd t) \<and>
      opt_ok (\<lambda>n. 0 < n) (to_pid t) \<and> opt_ok non_empty (to_title t) \<and>
      non_empty (to_reason t) \<and> ts_valid (to_observedAt t))"

definition valid_run_observation :: "run_observation \<Rightarrow> bool" where
  "valid_run_observation r =
     (non_empty (ro_id r) \<and> non_empty (ro_provider r) \<and> opt_ok non_empty (ro_projectId r) \<and>
      opt_ok non_empty (ro_worktreeId r) \<and> opt_ok non_empty (ro_sessionId r) \<and>
      opt_ok (\<lambda>n. 0 < n) (ro_pid r) \<and> opt_ok non_empty (ro_cwd r) \<and>
      non_empty (ro_reason r) \<and> ts_valid (ro_observedAt r))"

end
