(* ===== verification/Snapshots.thy ===== *)
theory Snapshots
  imports Contracts
begin

section \<open>Contracts: providers, recovery handles, reports and the snapshot\<close>

text \<open>
  The second half of the shared data: provider health and capabilities
  (\<^verbatim>\<open>providers.ts\<close>), recovery handles (\<^verbatim>\<open>recovery.ts\<close>), harness event reports
  (\<^verbatim>\<open>hooks.ts\<close>) and the snapshot that the observer publishes and every client renders
  (\<^verbatim>\<open>snapshot.ts\<close>), with the schema's demands on rows, sessions, orphans and counts.
\<close>

subsection \<open>Confidence as an order\<close>

text \<open>\<^verbatim>\<open>confidenceRank\<close> of \<^verbatim>\<open>graph.ts\<close>; the library's order on \<open>confidence\<close> is by that rank.\<close>

fun confidence_rank :: "confidence \<Rightarrow> int" where
  "confidence_rank High = 3"
| "confidence_rank Medium = 2"
| "confidence_rank Low = 1"

lemma confidence_rank_inj [simp]: "confidence_rank a = confidence_rank b \<longleftrightarrow> a = b"
  by (cases a; cases b) simp_all

instantiation confidence :: linorder
begin

definition less_eq_confidence :: "confidence \<Rightarrow> confidence \<Rightarrow> bool" where
  "less_eq_confidence a b = (confidence_rank a \<le> confidence_rank b)"

definition less_confidence :: "confidence \<Rightarrow> confidence \<Rightarrow> bool" where
  "less_confidence a b = (confidence_rank a < confidence_rank b)"

instance
  by standard (auto simp: less_eq_confidence_def less_confidence_def simp flip: confidence_rank_inj)

end

subsection \<open>Providers (providers.ts)\<close>

datatype provider_type = WorktreeProvider | TerminalProvider | HarnessProvider | RepositoryProvider
datatype health_status = Healthy | Degraded | Unavailable | HealthUnknown

record provider_health =
  ph_providerId :: provider_id
  ph_providerType :: provider_type
  ph_status :: health_status
  ph_lastCheckedAt :: timestamp
  ph_lastError :: "safe_error option"
  ph_latencyMs :: "int option"
  ph_capabilities :: "bool dict option"
  ph_diagnostics :: "string dict option"

definition valid_provider_health :: "provider_health \<Rightarrow> bool" where
  "valid_provider_health h =
     (non_empty (ph_providerId h) \<and> ts_valid (ph_lastCheckedAt h) \<and>
      opt_ok valid_safe_error (ph_lastError h) \<and> opt_ok (\<lambda>n. 0 \<le> n) (ph_latencyMs h))"

record harness_capabilities =
  canLaunch :: bool
  canDiscoverRuns :: bool
  canEmitEvents :: bool
  canClassifyStatus :: bool
  canReceivePrompt :: bool
  canResume :: bool
  canStop :: bool
  canRunNonInteractive :: bool
  canExposeApprovalState :: bool

record project_defaults =
  pd_harness :: provider_id
  pd_terminal :: provider_id
  pd_layout :: string

record worktrunk_config =
  wc_enabled :: bool
  wc_base :: "string option"
  wc_managedRoot :: "string option"
  wc_includeMain :: "bool option"
  wc_includeExternal :: "bool option"

datatype breadcrumbs_location = BcExternal | BcWorktree | BcProviderNative | BcDisabled

record project_config =
  pc_id :: project_id
  pc_label :: string
  pc_root :: string
  pc_defaultBranch :: "string option"
  pc_defaults :: project_defaults
  pc_worktrunk :: worktrunk_config
  pc_recoveryBreadcrumbs :: "(breadcrumbs_location \<times> string option) option"

definition valid_project_config :: "project_config \<Rightarrow> bool" where
  "valid_project_config p =
     (non_empty (pc_id p) \<and> non_empty (pc_label p) \<and> non_empty (pc_root p) \<and>
      opt_ok non_empty (pc_defaultBranch p) \<and>
      non_empty (pd_harness (pc_defaults p)) \<and> non_empty (pd_terminal (pc_defaults p)) \<and>
      non_empty (pd_layout (pc_defaults p)))"

subsection \<open>Recovery handles (recovery.ts)\<close>

datatype resume_target = NativeSession string | SessionFile string

record recovery_handle =
  rh_id :: string
  rh_provider :: provider_id
  rh_projectId :: project_id
  rh_worktreeId :: worktree_id
  rh_sessionId :: "session_id option"
  rh_target :: resume_target
  rh_cwd :: "string option"
  rh_terminalTargetId :: "terminal_target_id option"
  rh_harnessRunId :: "string option"
  rh_observedAt :: timestamp
  rh_lastSeenAt :: timestamp

subsection \<open>Harness event reports (hooks.ts)\<close>

record report_correlation =
  rc_harnessRunId :: "harness_run_id option"
  rc_sessionId :: "session_id option"
  rc_worktreeId :: "worktree_id option"
  rc_terminalTargetId :: "terminal_target_id option"
  rc_projectId :: "project_id option"
  rc_nativeSessionId :: "string option"
  rc_nativeSessionFile :: "string option"
  rc_cwd :: "string option"
  rc_pid :: "int option"

record event_report =
  er_reportId :: string
  er_provider :: provider_id
  er_eventType :: string
  er_observedAt :: timestamp
  er_coalesceKey :: "string option"
  er_status :: "observed_status option"
  er_correlation :: "report_correlation option"
  er_diagnostics :: "json option"
  er_providerData :: "json option"

datatype report_receipt_status = ReportAccepted | ReportSpooled | ReportRejected

record report_receipt =
  rr_reportId :: string
  rr_provider :: provider_id
  rr_eventType :: string
  rr_accepted :: bool
  rr_status :: report_receipt_status
  rr_receivedAt :: timestamp
  rr_projected :: "bool option"
  rr_scheduledReconcile :: "bool option"
  rr_deduped :: "bool option"
  rr_error :: "safe_error option"

subsection \<open>The snapshot (snapshot.ts)\<close>

record row_counts =
  rc_worktrees :: nat
  rc_agents :: nat
  rc_working :: nat
  rc_idle :: nat
  rc_attention :: nat
  rc_unknown :: nat

record project_view =
  pv_id :: project_id
  pv_label :: string
  pv_root :: string
  pv_defaults :: project_defaults
  pv_health :: provider_health
  pv_counts :: row_counts

record worktree_runtime =
  wr_state :: worktree_state
  wr_source :: worktree_source
  wr_dirty :: "bool option"
  wr_ahead :: "int option"
  wr_behind :: "int option"
  wr_pr :: "pull_request option"
  wr_changeSummary :: "change_summary option"
  wr_checks :: "checks_summary option"

record terminal_attachment =
  ta_provider :: provider_id
  ta_state :: terminal_state
  ta_focusable :: "bool option"
  ta_closeable :: "bool option"
  ta_hasWorkspace :: "bool option"
  ta_hasPrimaryAgentEndpoint :: "bool option"
  ta_confidence :: "confidence option"
  ta_reason :: "string option"
  ta_observedAt :: "timestamp option"

record worktree_agent =
  ag_harness :: provider_id
  ag_state :: agent_state
  ag_pid :: "int option"
  ag_runId :: "harness_run_id option"
  ag_sessionId :: "session_id option"
  ag_confidence :: confidence
  ag_reason :: string
  ag_updatedAt :: timestamp

datatype status_label =
  LabelNoAgent | LabelStarting | LabelIdle | LabelWorking | LabelNeedsAttention | LabelStuck
| LabelExited | LabelUnknown

record row_display =
  rd_statusLabel :: status_label
  rd_sortPriority :: int
  rd_alert :: bool
  rd_warning :: "bool option"
  rd_reason :: "string option"

datatype resume_target_kind = KindNativeSession | KindSessionFile

record recovery_action =
  ra_handleId :: string
  ra_provider :: provider_id
  ra_targetKind :: resume_target_kind
  ra_sessionId :: "session_id option"
  ra_lastSeenAt :: timestamp

record worktree_row =
  row_id :: worktree_id
  row_projectId :: project_id
  row_projectLabel :: string
  row_branch :: string
  row_path :: string
  row_worktree :: worktree_runtime
  row_terminal :: "terminal_attachment option"
  row_agent :: "worktree_agent option"
  row_recovery :: "recovery_action option"
  row_display :: row_display

datatype harness_mode = ModeInteractive | ModeExec | ModeUnknown

record session_harness =
  sh_provider :: provider_id
  sh_mode :: harness_mode
  sh_pid :: "int option"
  sh_runId :: "harness_run_id option"
  sh_capabilities :: harness_capabilities

record session_view =
  sv_id :: session_id
  sv_projectId :: project_id
  sv_worktreeId :: worktree_id
  sv_createdAt :: timestamp
  sv_updatedAt :: timestamp
  sv_harness :: session_harness
  sv_terminal :: terminal_attachment
  sv_status :: observed_status
  sv_title :: string
  sv_tags :: "string list"

datatype alert_severity = SeverityInfo | SeverityWarn | SeverityError

record wosm_alert =
  al_id :: string
  al_severity :: alert_severity
  al_message :: string
  al_code :: "string option"
  al_projectId :: "project_id option"
  al_worktreeId :: "worktree_id option"
  al_sessionId :: "session_id option"
  al_provider :: "provider_id option"
  al_createdAt :: timestamp

record snapshot_harness =
  sn_id :: provider_id
  sn_label :: string

datatype orphan_kind = OrphanTerminalTarget | OrphanHarnessRun | OrphanSession

record orphaned_state =
  or_id :: string
  or_kind :: orphan_kind
  or_provider :: provider_id
  or_projectId :: "project_id option"
  or_worktreeId :: "worktree_id option"
  or_sessionId :: "session_id option"
  or_terminalTargetId :: "terminal_target_id option"
  or_harnessRunId :: "harness_run_id option"
  or_reason :: string
  or_observedAt :: timestamp

record feature_flags =
  ff_revision :: string
  ff_sessionResumeAgent :: bool

record observer_info =
  oi_pid :: int
  oi_startedAt :: timestamp
  oi_version :: string
  oi_healthy :: bool

record snapshot =
  ss_generatedAt :: timestamp
  ss_observer :: observer_info
  ss_providerHealth :: "provider_health dict"
  ss_harnesses :: "snapshot_harness list option"
  ss_projects :: "project_view list"
  ss_rows :: "worktree_row list"
  ss_sessions :: "session_view list"
  ss_countProjects :: nat
  ss_counts :: row_counts
  ss_alerts :: "wosm_alert list"
  ss_featureFlags :: "feature_flags option"
  ss_orphans :: "orphaned_state list option"

subsection \<open>What the schemas demand of the snapshot's parts\<close>

definition valid_terminal_attachment :: "terminal_attachment \<Rightarrow> bool" where
  "valid_terminal_attachment t =
     (non_empty (ta_provider t) \<and> opt_ok non_empty (ta_reason t) \<and>
      opt_ok ts_valid (ta_observedAt t))"

definition valid_agent :: "worktree_agent \<Rightarrow> bool" where
  "valid_agent a =
     (non_empty (ag_harness a) \<and> opt_ok (\<lambda>n. 0 < n) (ag_pid a) \<and>
      opt_ok non_empty (ag_runId a) \<and> opt_ok non_empty (ag_sessionId a) \<and>
      non_empty (ag_reason a) \<and> ts_valid (ag_updatedAt a))"

definition valid_recovery :: "recovery_action \<Rightarrow> bool" where
  "valid_recovery r =
     (non_empty (ra_handleId r) \<and> non_empty (ra_provider r) \<and>
      opt_ok non_empty (ra_sessionId r) \<and> ts_valid (ra_lastSeenAt r))"

definition valid_row :: "worktree_row \<Rightarrow> bool" where
  "valid_row r =
     (non_empty (row_id r) \<and> non_empty (row_projectId r) \<and> non_empty (row_projectLabel r) \<and>
      non_empty (row_branch r) \<and> non_empty (row_path r) \<and>
      opt_ok (\<lambda>n. 0 \<le> n) (wr_ahead (row_worktree r)) \<and>
      opt_ok (\<lambda>n. 0 \<le> n) (wr_behind (row_worktree r)) \<and>
      opt_ok valid_terminal_attachment (row_terminal r) \<and>
      opt_ok valid_agent (row_agent r) \<and> opt_ok valid_recovery (row_recovery r) \<and>
      opt_ok non_empty (rd_reason (row_display r)))"

definition valid_session :: "session_view \<Rightarrow> bool" where
  "valid_session s =
     (non_empty (sv_id s) \<and> non_empty (sv_projectId s) \<and> non_empty (sv_worktreeId s) \<and>
      ts_valid (sv_createdAt s) \<and> ts_valid (sv_updatedAt s) \<and>
      non_empty (sh_provider (sv_harness s)) \<and> opt_ok (\<lambda>n. 0 < n) (sh_pid (sv_harness s)) \<and>
      opt_ok non_empty (sh_runId (sv_harness s)) \<and>
      valid_terminal_attachment (sv_terminal s) \<and> valid_status (sv_status s) \<and>
      non_empty (sv_title s) \<and> list_all non_empty (sv_tags s))"

definition valid_orphan :: "orphaned_state \<Rightarrow> bool" where
  "valid_orphan r =
     (non_empty (or_id r) \<and> non_empty (or_provider r) \<and> opt_ok non_empty (or_projectId r) \<and>
      opt_ok non_empty (or_worktreeId r) \<and> opt_ok non_empty (or_sessionId r) \<and>
      opt_ok non_empty (or_terminalTargetId r) \<and> opt_ok non_empty (or_harnessRunId r) \<and>
      non_empty (or_reason r) \<and> ts_valid (or_observedAt r))"

definition valid_project_view :: "project_view \<Rightarrow> bool" where
  "valid_project_view p =
     (non_empty (pv_id p) \<and> non_empty (pv_label p) \<and> non_empty (pv_root p) \<and>
      non_empty (pd_harness (pv_defaults p)) \<and> non_empty (pd_terminal (pv_defaults p)) \<and>
      non_empty (pd_layout (pv_defaults p)) \<and> valid_provider_health (pv_health p))"

lemma opt_okI: "(\<And>y. x = Some y \<Longrightarrow> P y) \<Longrightarrow> opt_ok P x"
  by (cases x) simp_all

lemma opt_okD: "opt_ok P x \<Longrightarrow> x = Some y \<Longrightarrow> P y"
  by simp

end
