(* ===== verification/StatusPolicy.thy ===== *)
theory StatusPolicy
  imports Snapshots
begin

section \<open>Status policy and row counts (apps/observer/src/reconcile/statusPolicy.ts)\<close>

text \<open>
  How an agent state is displayed and how rows are counted. \<open>None\<close> stands for the state
  \<^verbatim>\<open>no_agent\<close> of a worktree without a run. \<open>counts_for_rows\<close> is the code's \<^verbatim>\<open>reduce\<close>; the
  lemmas give each counter as the size of a filter and show that counting distributes over
  concatenation, is invariant under reordering and is bounded.
\<close>

record policy =
  sp_label :: status_label
  sp_priority :: int
  sp_alert :: bool
  sp_warning :: bool

fun status_policy :: "agent_state option \<Rightarrow> policy" where
  "status_policy (Some AgentNeedsAttention) =
     \<lparr>sp_label = LabelNeedsAttention, sp_priority = 10, sp_alert = True, sp_warning = False\<rparr>"
| "status_policy (Some AgentStuck) =
     \<lparr>sp_label = LabelStuck, sp_priority = 20, sp_alert = True, sp_warning = True\<rparr>"
| "status_policy (Some AgentWorking) =
     \<lparr>sp_label = LabelWorking, sp_priority = 30, sp_alert = False, sp_warning = False\<rparr>"
| "status_policy (Some AgentStarting) =
     \<lparr>sp_label = LabelStarting, sp_priority = 35, sp_alert = False, sp_warning = False\<rparr>"
| "status_policy (Some AgentIdle) =
     \<lparr>sp_label = LabelIdle, sp_priority = 40, sp_alert = False, sp_warning = False\<rparr>"
| "status_policy (Some AgentUnknown) =
     \<lparr>sp_label = LabelUnknown, sp_priority = 50, sp_alert = False, sp_warning = False\<rparr>"
| "status_policy (Some AgentExited) =
     \<lparr>sp_label = LabelExited, sp_priority = 60, sp_alert = False, sp_warning = False\<rparr>"
| "status_policy (Some AgentNone) =
     \<lparr>sp_label = LabelNoAgent, sp_priority = 70, sp_alert = False, sp_warning = False\<rparr>"
| "status_policy None =
     \<lparr>sp_label = LabelNoAgent, sp_priority = 70, sp_alert = False, sp_warning = False\<rparr>"

definition zero_counts :: row_counts where
  "zero_counts = \<lparr>rc_worktrees = 0, rc_agents = 0, rc_working = 0, rc_idle = 0,
     rc_attention = 0, rc_unknown = 0\<rparr>"

definition bump_if :: "bool \<Rightarrow> nat \<Rightarrow> nat" where
  "bump_if b n = (if b then n + 1 else n)"

fun count_row :: "row_counts \<Rightarrow> worktree_row \<Rightarrow> row_counts" where
  "count_row counts row =
     (let c = counts\<lparr>rc_worktrees := rc_worktrees counts + 1\<rparr> in
      case row_agent row of
        None \<Rightarrow> c
      | Some agent \<Rightarrow>
          c\<lparr>rc_agents := rc_agents c + 1,
            rc_working := bump_if (ag_state agent = AgentWorking) (rc_working c),
            rc_idle := bump_if (ag_state agent = AgentIdle) (rc_idle c),
            rc_attention := bump_if (ag_state agent = AgentNeedsAttention) (rc_attention c),
            rc_unknown := bump_if (ag_state agent = AgentUnknown) (rc_unknown c)\<rparr>)"

definition counts_for_rows :: "worktree_row list \<Rightarrow> row_counts" where
  "counts_for_rows rows = foldl count_row zero_counts rows"

subsection \<open>The counters as sizes of filters\<close>

definition has_state :: "agent_state \<Rightarrow> worktree_row \<Rightarrow> bool" where
  "has_state s row = (case row_agent row of None \<Rightarrow> False | Some a \<Rightarrow> ag_state a = s)"

definition has_agent :: "worktree_row \<Rightarrow> bool" where
  "has_agent row = (case row_agent row of None \<Rightarrow> False | Some a \<Rightarrow> True)"

definition count_rows :: "('a \<Rightarrow> bool) \<Rightarrow> 'a list \<Rightarrow> nat" where
  "count_rows P rows = length (filter P rows)"

lemma count_rows_simps [simp]:
  "count_rows P [] = 0"
  "count_rows P (r # rows) = (if P r then Suc (count_rows P rows) else count_rows P rows)"
  "count_rows P (xs @ ys) = count_rows P xs + count_rows P ys"
  by (simp_all add: count_rows_def)

lemma count_rows_le: "count_rows P rows \<le> length rows"
  by (simp add: count_rows_def)

lemma count_rows_mset: "mset xs = mset ys \<Longrightarrow> count_rows P xs = count_rows P ys"
  unfolding count_rows_def by (metis mset_filter size_mset)

lemma count_row_eq:
  "count_row c row =
     \<lparr>rc_worktrees = Suc (rc_worktrees c),
      rc_agents = bump_if (has_agent row) (rc_agents c),
      rc_working = bump_if (has_state AgentWorking row) (rc_working c),
      rc_idle = bump_if (has_state AgentIdle row) (rc_idle c),
      rc_attention = bump_if (has_state AgentNeedsAttention row) (rc_attention c),
      rc_unknown = bump_if (has_state AgentUnknown row) (rc_unknown c)\<rparr>"
  by (cases "row_agent row") (simp_all add: has_agent_def has_state_def bump_if_def Let_def)

lemma bump_if_count:
  "bump_if (P r) n + count_rows P rows = n + count_rows P (r # rows)"
  by (simp add: bump_if_def)

lemma foldl_count_row:
  "foldl count_row c rows =
     \<lparr>rc_worktrees = rc_worktrees c + length rows,
      rc_agents = rc_agents c + count_rows has_agent rows,
      rc_working = rc_working c + count_rows (has_state AgentWorking) rows,
      rc_idle = rc_idle c + count_rows (has_state AgentIdle) rows,
      rc_attention = rc_attention c + count_rows (has_state AgentNeedsAttention) rows,
      rc_unknown = rc_unknown c + count_rows (has_state AgentUnknown) rows\<rparr>"
proof (induction rows arbitrary: c)
  case Nil
  show ?case by simp
next
  case (Cons r rows)
  have "foldl count_row c (r # rows) = foldl count_row (count_row c r) rows" by simp
  then show ?case
    by (simp only: Cons.IH) (simp add: count_row_eq bump_if_count del: count_row.simps count_rows_simps(2))
qed

lemma counts_for_rows_eq:
  "counts_for_rows rows =
     \<lparr>rc_worktrees = length rows,
      rc_agents = count_rows has_agent rows,
      rc_working = count_rows (has_state AgentWorking) rows,
      rc_idle = count_rows (has_state AgentIdle) rows,
      rc_attention = count_rows (has_state AgentNeedsAttention) rows,
      rc_unknown = count_rows (has_state AgentUnknown) rows\<rparr>"
  by (simp add: counts_for_rows_def foldl_count_row zero_counts_def)

lemma counts_for_rows_mset:
  assumes "mset xs = mset ys"
  shows "counts_for_rows xs = counts_for_rows ys"
  by (simp add: counts_for_rows_eq mset_eq_length [OF assms] count_rows_mset [OF assms])

definition add_counts :: "row_counts \<Rightarrow> row_counts \<Rightarrow> row_counts" where
  "add_counts a b =
     \<lparr>rc_worktrees = rc_worktrees a + rc_worktrees b, rc_agents = rc_agents a + rc_agents b,
      rc_working = rc_working a + rc_working b, rc_idle = rc_idle a + rc_idle b,
      rc_attention = rc_attention a + rc_attention b, rc_unknown = rc_unknown a + rc_unknown b\<rparr>"

lemma counts_for_rows_append:
  "counts_for_rows (xs @ ys) = add_counts (counts_for_rows xs) (counts_for_rows ys)"
  by (simp add: counts_for_rows_eq add_counts_def)

lemma counts_for_rows_Nil [simp]: "counts_for_rows [] = zero_counts"
  by (simp add: counts_for_rows_def)

text \<open>The states counted are exclusive, so their counters add up to at most the agents.\<close>

lemma count_rows_states:
  "count_rows (has_state AgentWorking) rows + count_rows (has_state AgentIdle) rows
     + count_rows (has_state AgentNeedsAttention) rows + count_rows (has_state AgentUnknown) rows
   \<le> count_rows has_agent rows"
proof (induction rows)
  case Nil
  show ?case by simp
next
  case (Cons r rows)
  then show ?case by (cases "row_agent r") (simp_all add: has_state_def has_agent_def)
qed

definition counts_consistent :: "row_counts \<Rightarrow> bool" where
  "counts_consistent c =
     (rc_working c + rc_idle c + rc_attention c + rc_unknown c \<le> rc_agents c \<and>
      rc_agents c \<le> rc_worktrees c)"

lemma counts_for_rows_consistent: "counts_consistent (counts_for_rows rows)"
  by (simp add: counts_consistent_def counts_for_rows_eq count_rows_states count_rows_le)

text \<open>A row that needs attention sorts before every other; an exited agent after a live one.\<close>

lemma status_policy_attention_first:
  "s \<noteq> Some AgentNeedsAttention \<Longrightarrow>
     sp_priority (status_policy (Some AgentNeedsAttention)) < sp_priority (status_policy s)"
  by (cases s rule: status_policy.cases) simp_all

lemma status_policy_alert_iff:
  "sp_alert (status_policy s) \<longleftrightarrow> s \<in> {Some AgentNeedsAttention, Some AgentStuck}"
  by (cases s rule: status_policy.cases) simp_all

lemma status_policy_warning_iff: "sp_warning (status_policy s) \<longleftrightarrow> s = Some AgentStuck"
  by (cases s rule: status_policy.cases) simp_all

end
