(* ===== verification/HarnessStatus.thy ===== *)
theory HarnessStatus
  imports StatusPolicy
begin

section \<open>Harness event status overlays (apps/observer/src/reconcile/harnessEventStatus.ts)\<close>

text \<open>
  During a reconcile the observer overlays the status of persisted harness events on the
  runs that the providers discovered. A persisted observation's payload is the result of
  \<^verbatim>\<open>HarnessEventObservationSchema.safeParse\<close>: \<open>None\<close> when the stored JSON does not parse.
  The lemmas show that an overlay changes nothing but a run's status fields, that the
  overlay chosen for a run is the newest of all events that correlate with it, and that a
  confidently exited run is not revived by an older event.
\<close>

record harness_run =
  hr_run :: run_observation
  hr_status :: observed_status

datatype correlated_by = ByHarnessRunId | BySessionId | ByWorktreeId

datatype observation_kind = KindHarnessEvent | KindOther

record persisted_observation =
  po_id :: string
  po_provider :: provider_id
  po_entityKind :: observation_kind
  po_payload :: "event_observation option"
  po_observedAt :: timestamp
  po_expired :: bool

record status_overlay =
  sl_status :: observed_status
  sl_rawEventType :: "string option"
  sl_correlatedBy :: correlated_by
  sl_observedAt :: timestamp
  sl_observationId :: string

definition harness_run_from_run :: "run_observation \<Rightarrow> harness_run" where
  "harness_run_from_run run =
     \<lparr>hr_run = run,
      hr_status = \<lparr>os_value = ro_state run, os_confidence = ro_confidence run,
        os_reason = ro_reason run, os_source = SrcHarnessProcess,
        os_updatedAt = ro_observedAt run\<rparr>\<rparr>"

definition parse_event_observation :: "persisted_observation \<Rightarrow> event_observation option" where
  "parse_event_observation observation = po_payload observation"

definition single_correlation ::
  "harness_run list \<Rightarrow> correlated_by \<Rightarrow> (harness_run \<times> correlated_by) option" where
  "single_correlation matches correlatedBy =
     (case matches of [run] \<Rightarrow> Some (run, correlatedBy) | _ \<Rightarrow> None)"

definition correlate_harness_event ::
  "event_observation \<Rightarrow> harness_run list \<Rightarrow> (harness_run \<times> correlated_by) option" where
  "correlate_harness_event event runs =
     (let providerRuns = filter (\<lambda>run. ro_provider (hr_run run) = eo_provider event) runs in
      case eo_harnessRunId event of
        Some rid \<Rightarrow>
          single_correlation (filter (\<lambda>run. ro_id (hr_run run) = rid) providerRuns) ByHarnessRunId
      | None \<Rightarrow>
          (case eo_sessionId event of
             Some sid \<Rightarrow>
               single_correlation (filter (\<lambda>run. ro_sessionId (hr_run run) = Some sid) providerRuns)
                 BySessionId
           | None \<Rightarrow>
               (case eo_worktreeId event of
                  Some wid \<Rightarrow>
                    single_correlation
                      (filter (\<lambda>run. ro_worktreeId (hr_run run) = Some wid) providerRuns)
                      ByWorktreeId
                | None \<Rightarrow> None)))"

definition should_preserve_live_status :: "harness_run \<Rightarrow> observed_status \<Rightarrow> bool" where
  "should_preserve_live_status run status =
     (if os_value (hr_status run) \<noteq> AgentExited \<or> os_confidence (hr_status run) \<noteq> High
      then False
      else ts_before (os_updatedAt status) (os_updatedAt (hr_status run)))"

definition run_observation_with_status ::
  "run_observation \<Rightarrow> observed_status \<Rightarrow> run_observation" where
  "run_observation_with_status run status =
     \<lparr>ro_id = ro_id run, ro_provider = ro_provider run, ro_projectId = ro_projectId run,
      ro_worktreeId = ro_worktreeId run, ro_sessionId = ro_sessionId run, ro_pid = ro_pid run,
      ro_cwd = ro_cwd run, ro_state = os_value status, ro_confidence = os_confidence status,
      ro_reason = os_reason status, ro_observedAt = ro_observedAt run,
      ro_providerData = ro_providerData run\<rparr>"

definition apply_status_overlay :: "harness_run \<Rightarrow> status_overlay \<Rightarrow> harness_run" where
  "apply_status_overlay run overlay =
     \<lparr>hr_run = run_observation_with_status (hr_run run) (sl_status overlay),
      hr_status = sl_status overlay\<rparr>"

definition compare_overlays :: "collator \<Rightarrow> status_overlay comparison" where
  "compare_overlays lc left right =
     or_else (ts_diff (os_updatedAt (sl_status left)) (os_updatedAt (sl_status right)))
       (or_else (ts_diff (sl_observedAt left) (sl_observedAt right))
          (lc (sl_observationId left) (sl_observationId right)))"

text \<open>The body of the loop up to its last \<^verbatim>\<open>continue\<close>: the run and the overlay it proposes.\<close>

definition overlay_candidate ::
  "harness_run list \<Rightarrow> persisted_observation \<Rightarrow> (harness_run_id \<times> status_overlay) option" where
  "overlay_candidate runs observation =
     (if po_expired observation \<or> po_entityKind observation \<noteq> KindHarnessEvent then None
      else case parse_event_observation observation of
        None \<Rightarrow> None
      | Some event \<Rightarrow>
          if eo_provider event \<noteq> po_provider observation then None
          else (case eo_status event of
                  None \<Rightarrow> None
                | Some status \<Rightarrow>
                    if os_value status = AgentUnknown then None
                    else (case correlate_harness_event event runs of
                            None \<Rightarrow> None
                          | Some (run, correlatedBy) \<Rightarrow>
                              if should_preserve_live_status run status then None
                              else Some (ro_id (hr_run run),
                                \<lparr>sl_status = status, sl_rawEventType = eo_rawEventType event,
                                 sl_correlatedBy = correlatedBy,
                                 sl_observedAt = po_observedAt observation,
                                 sl_observationId = po_id observation\<rparr>))))"

definition overlay_step ::
  "collator \<Rightarrow> harness_run list \<Rightarrow> (harness_run_id \<rightharpoonup> status_overlay) \<Rightarrow>
     persisted_observation \<Rightarrow> (harness_run_id \<rightharpoonup> status_overlay)" where
  "overlay_step lc runs latest observation =
     (case overlay_candidate runs observation of
        None \<Rightarrow> latest
      | Some (rid, overlay) \<Rightarrow>
          (case latest rid of
             None \<Rightarrow> latest(rid \<mapsto> overlay)
           | Some previous \<Rightarrow>
               if 0 \<le> compare_overlays lc overlay previous
               then latest(rid \<mapsto> overlay) else latest))"

definition latest_overlays ::
  "collator \<Rightarrow> harness_run list \<Rightarrow> persisted_observation list \<Rightarrow>
     (harness_run_id \<rightharpoonup> status_overlay)" where
  "latest_overlays lc runs observations = foldl (overlay_step lc runs) Map.empty observations"

definition overlay_run :: "(harness_run_id \<rightharpoonup> status_overlay) \<Rightarrow> harness_run \<Rightarrow> harness_run" where
  "overlay_run latest run =
     (case latest (ro_id (hr_run run)) of
        None \<Rightarrow> run
      | Some overlay \<Rightarrow> apply_status_overlay run overlay)"

definition apply_harness_event_status_overlays ::
  "collator \<Rightarrow> harness_run list \<Rightarrow> persisted_observation list \<Rightarrow> harness_run list" where
  "apply_harness_event_status_overlays lc runs observations =
     map (overlay_run (latest_overlays lc runs observations)) runs"

subsection \<open>An overlay only writes status\<close>

lemma overlay_run_simps [simp]:
  "ro_id (hr_run (overlay_run m r)) = ro_id (hr_run r)"
  "ro_provider (hr_run (overlay_run m r)) = ro_provider (hr_run r)"
  "ro_projectId (hr_run (overlay_run m r)) = ro_projectId (hr_run r)"
  "ro_worktreeId (hr_run (overlay_run m r)) = ro_worktreeId (hr_run r)"
  "ro_sessionId (hr_run (overlay_run m r)) = ro_sessionId (hr_run r)"
  "ro_pid (hr_run (overlay_run m r)) = ro_pid (hr_run r)"
  "ro_cwd (hr_run (overlay_run m r)) = ro_cwd (hr_run r)"
  "ro_observedAt (hr_run (overlay_run m r)) = ro_observedAt (hr_run r)"
  by (simp_all add: overlay_run_def apply_status_overlay_def run_observation_with_status_def
      split: option.split)

lemma single_correlation_Some:
  "single_correlation ms c = Some (r, c') \<longleftrightarrow> ms = [r] \<and> c' = c"
  by (auto simp: single_correlation_def split: list.splits)

lemma correlate_in_runs:
  "correlate_harness_event event runs = Some (r, c) \<Longrightarrow>
     r \<in> set runs \<and> ro_provider (hr_run r) = eo_provider event"
  by (auto simp: correlate_harness_event_def Let_def single_correlation_Some filter_eq_Cons_iff
      split: option.splits)

text \<open>What a proposed overlay comes from.\<close>

lemma overlay_candidateD:
  assumes "overlay_candidate runs obs = Some (rid, ov)"
  obtains event r c where
    "\<not> po_expired obs" "po_payload obs = Some event" "eo_provider event = po_provider obs"
    "eo_status event = Some (sl_status ov)" "os_value (sl_status ov) \<noteq> AgentUnknown"
    "correlate_harness_event event runs = Some (r, c)" "ro_id (hr_run r) = rid" "r \<in> set runs"
    "\<not> should_preserve_live_status r (sl_status ov)" "sl_observedAt ov = po_observedAt obs"
proof -
  obtain event where e: "\<not> po_expired obs" "po_payload obs = Some event"
      "eo_provider event = po_provider obs"
    using assms
    by (auto simp: overlay_candidate_def parse_event_observation_def split: if_splits option.splits)
  with assms obtain status r c where
      "eo_status event = Some status" "os_value status \<noteq> AgentUnknown"
      "correlate_harness_event event runs = Some (r, c)"
      "\<not> should_preserve_live_status r status" "ro_id (hr_run r) = rid"
      "sl_status ov = status" "sl_observedAt ov = po_observedAt obs"
    by (auto simp: overlay_candidate_def parse_event_observation_def
        split: if_splits option.splits prod.splits)
  with e that correlate_in_runs [of event runs r c] show thesis by auto
qed

subsection \<open>The newest event wins\<close>

definition valid_overlay :: "status_overlay \<Rightarrow> bool" where
  "valid_overlay o' = (ts_valid (os_updatedAt (sl_status o')) \<and> ts_valid (sl_observedAt o'))"

lemma compare_overlays_comparator:
  assumes "collation lc"
  shows "js_comparator valid_overlay (compare_overlays lc)"
  unfolding compare_overlays_def
  by (intro js_comparator_or_else js_comparator_oldest_first collation.comparator_via [OF assms])
    (simp_all add: valid_overlay_def)

definition candidates :: "harness_run list \<Rightarrow> harness_run_id \<Rightarrow> persisted_observation list \<Rightarrow>
    status_overlay list" where
  "candidates runs rid observations =
     concat (map (\<lambda>obs. case overlay_candidate runs obs of
        None \<Rightarrow> [] | Some (rid', ov) \<Rightarrow> if rid' = rid then [ov] else []) observations)"

lemma candidates_snoc:
  "candidates runs rid (os @ [obs]) = candidates runs rid os @
     (case overlay_candidate runs obs of
        None \<Rightarrow> [] | Some (rid', ov) \<Rightarrow> if rid' = rid then [ov] else [])"
  by (simp add: candidates_def)

lemma latest_overlays_snoc:
  "latest_overlays lc runs (os @ [obs]) = overlay_step lc runs (latest_overlays lc runs os) obs"
  by (simp add: latest_overlays_def)

lemma latest_overlays_spec:
  assumes "collation lc" "\<forall>ov \<in> set (candidates runs rid os). valid_overlay ov"
  shows "case latest_overlays lc runs os rid of
      None \<Rightarrow> candidates runs rid os = []
    | Some w \<Rightarrow> w \<in> set (candidates runs rid os) \<and>
        (\<forall>ov \<in> set (candidates runs rid os). compare_overlays lc ov w \<le> 0)"
  using assms(2)
proof (induction os rule: rev_induct)
  case Nil
  then show ?case by (simp add: latest_overlays_def candidates_def)
next
  case (snoc obs os)
  let ?m = "latest_overlays lc runs os"
  note cmp = compare_overlays_comparator [OF assms(1)]
  from snoc.prems have valid: "\<forall>ov \<in> set (candidates runs rid os). valid_overlay ov"
    by (simp add: candidates_snoc)
  note IH = snoc.IH [OF valid]
  show ?case
  proof (cases "\<exists>ov. overlay_candidate runs obs = Some (rid, ov)")
    case False
    then have "latest_overlays lc runs (os @ [obs]) rid = ?m rid"
      and "candidates runs rid (os @ [obs]) = candidates runs rid os"
      by (auto simp: latest_overlays_snoc overlay_step_def candidates_snoc
          split: option.splits prod.splits)
    with IH show ?thesis by (simp split: option.splits)
  next
    case True
    then obtain ov where ov: "overlay_candidate runs obs = Some (rid, ov)" by blast
    then have cand: "candidates runs rid (os @ [obs]) = candidates runs rid os @ [ov]"
      by (simp add: candidates_snoc)
    with snoc.prems have vov: "valid_overlay ov" by simp
    show ?thesis
    proof (cases "?m rid")
      case None
      with IH have "candidates runs rid os = []" by simp
      with None ov cand vov show ?thesis
        by (simp add: latest_overlays_snoc overlay_step_def js_comparator.self [OF cmp])
    next
      case (Some w)
      with IH have w: "w \<in> set (candidates runs rid os)"
        and max: "\<forall>ov \<in> set (candidates runs rid os). compare_overlays lc ov w \<le> 0" by simp_all
      from w valid have vw: "valid_overlay w" by blast
      show ?thesis
      proof (cases "0 \<le> compare_overlays lc ov w")
        case True
        with vov vw have "compare_overlays lc w ov \<le> 0"
          using js_comparator.neg_flip [OF cmp, of ov w] by linarith
        then have "\<forall>x \<in> set (candidates runs rid os). compare_overlays lc x ov \<le> 0"
          using max valid vw vov js_comparator.trans [OF cmp] by blast
        with True ov cand Some vov show ?thesis
          by (simp add: latest_overlays_snoc overlay_step_def js_comparator.self [OF cmp])
      next
        case False
        with ov cand Some w max show ?thesis
          by (simp add: latest_overlays_snoc overlay_step_def)
      qed
    qed
  qed
qed

subsection \<open>Properties\<close>

definition valid_persisted :: "persisted_observation \<Rightarrow> bool" where
  "valid_persisted obs =
     (ts_valid (po_observedAt obs) \<and>
      opt_ok (\<lambda>event. opt_ok valid_status (eo_status event)) (po_payload obs))"

lemma candidate_valid:
  "valid_persisted obs \<Longrightarrow> overlay_candidate runs obs = Some (rid, ov) \<Longrightarrow> valid_overlay ov"
  by (erule overlay_candidateD) (simp add: valid_persisted_def valid_overlay_def valid_status_def)

lemma candidates_iff:
  "ov \<in> set (candidates runs rid os) \<longleftrightarrow>
     (\<exists>obs \<in> set os. overlay_candidate runs obs = Some (rid, ov))"
  by (induction os) (auto simp: candidates_def split: option.splits prod.splits if_splits)

lemma candidates_valid:
  "\<forall>obs \<in> set os. valid_persisted obs \<Longrightarrow> \<forall>ov \<in> set (candidates runs rid os). valid_overlay ov"
  using candidate_valid by (fastforce simp: candidates_iff)

lemma candidates_mem:
  "obs \<in> set os \<Longrightarrow> overlay_candidate runs obs = Some (rid, ov) \<Longrightarrow> ov \<in> set (candidates runs rid os)"
  by (auto simp: candidates_iff)

lemma candidates_empty_overlay:
  "candidates runs rid os = [] \<Longrightarrow> latest_overlays lc runs os rid = None"
proof (induction os rule: rev_induct)
  case Nil
  then show ?case by (simp add: latest_overlays_def)
next
  case (snoc obs os)
  then show ?case
    by (auto simp: candidates_snoc latest_overlays_snoc overlay_step_def
        split: option.splits prod.splits if_splits)
qed

text \<open>Overlaying persisted harness events keeps the runs, their order, and every field that
  identifies or places a run; only its status fields may change.\<close>

lemma overlays_keep_identity:
  "map (\<lambda>r. (ro_id (hr_run r), ro_provider (hr_run r), ro_projectId (hr_run r),
             ro_worktreeId (hr_run r), ro_sessionId (hr_run r), ro_pid (hr_run r),
             ro_cwd (hr_run r), ro_observedAt (hr_run r)))
       (apply_harness_event_status_overlays lc runs observations)
   = map (\<lambda>r. (ro_id (hr_run r), ro_provider (hr_run r), ro_projectId (hr_run r),
               ro_worktreeId (hr_run r), ro_sessionId (hr_run r), ro_pid (hr_run r),
               ro_cwd (hr_run r), ro_observedAt (hr_run r))) runs"
  by (simp add: apply_harness_event_status_overlays_def)

text \<open>The newest event wins. When a persisted event correlates with a run (and is not held
  back by the rule for exited runs), the run's status after the overlay is at least as new as
  that event's status.\<close>

lemma overlay_newest_event_wins:
  assumes "collation lc" and "\<forall>obs \<in> set observations. valid_persisted obs"
    and "run \<in> set (apply_harness_event_status_overlays lc runs observations)"
    and "obs \<in> set observations"
    and "overlay_candidate runs obs = Some (ro_id (hr_run run), ov)"
  shows "ts_millis (os_updatedAt (sl_status ov)) \<le> ts_millis (os_updatedAt (hr_status run))"
proof -
  let ?rid = "ro_id (hr_run run)" and ?m = "latest_overlays lc runs observations"
  note valid = candidates_valid [OF assms(2), of runs ?rid]
  have mem: "ov \<in> set (candidates runs ?rid observations)"
    by (rule candidates_mem [OF assms(4,5)])
  then obtain w where w: "?m ?rid = Some w" "w \<in> set (candidates runs ?rid observations)"
      "compare_overlays lc ov w \<le> 0"
    using latest_overlays_spec [OF assms(1) valid] by (auto split: option.splits)
  obtain r where r: "run = overlay_run ?m r"
    using assms(3) by (auto simp: apply_harness_event_status_overlays_def)
  then have "ro_id (hr_run run) = ro_id (hr_run r)" by simp
  with r w(1) have status: "hr_status run = sl_status w"
    by (simp add: overlay_run_def [of ?m r] apply_status_overlay_def)
  have "valid_overlay ov" "valid_overlay w" using mem w(2) valid by blast+
  then have "ts_diff (os_updatedAt (sl_status ov)) (os_updatedAt (sl_status w))
      = ts_millis (os_updatedAt (sl_status ov)) - ts_millis (os_updatedAt (sl_status w))"
    by (intro ts_diff_valid) (simp_all add: valid_overlay_def)
  with w(3) status show ?thesis by (auto simp: compare_overlays_def or_else_def split: if_splits)
qed

definition sample_run :: run_observation where
  "sample_run = \<lparr>ro_id = ''run1'', ro_provider = ''codex'', ro_projectId = None,
     ro_worktreeId = Some ''wt1'', ro_sessionId = Some ''s1'', ro_pid = None, ro_cwd = None,
     ro_state = AgentExited, ro_confidence = High, ro_reason = ''exited'',
     ro_observedAt = ''2026-01-01T00:00:10Z'', ro_providerData = None\<rparr>"

definition sample_event :: "agent_state \<Rightarrow> timestamp \<Rightarrow> event_observation" where
  "sample_event state at = \<lparr>eo_provider = ''codex'', eo_reportId = None, eo_eventType = None,
     eo_projectId = None, eo_sessionId = None, eo_worktreeId = None, eo_terminalTargetId = None,
     eo_harnessRunId = Some ''run1'', eo_nativeSessionId = None, eo_nativeSessionFile = None,
     eo_cwd = None, eo_pid = None,
     eo_status = Some \<lparr>os_value = state, os_confidence = Medium, os_reason = ''event'',
       os_source = SrcHarnessEvent, os_updatedAt = at\<rparr>,
     eo_rawEventType = None, eo_diagnostics = None, eo_providerData = None, eo_observedAt = at\<rparr>"

definition sample_persisted :: "string \<Rightarrow> agent_state \<Rightarrow> timestamp \<Rightarrow> persisted_observation" where
  "sample_persisted i state at = \<lparr>po_id = i, po_provider = ''codex'',
     po_entityKind = KindHarnessEvent, po_payload = Some (sample_event state at),
     po_observedAt = at, po_expired = False\<rparr>"

text \<open>A run that has exited with high confidence is not revived by events that are older than
  its exit: if every persisted status predates the run's status, the overlay leaves the run as
  it is.\<close>

lemma exited_run_not_revived:
  assumes "distinct (map (\<lambda>r. ro_id (hr_run r)) runs)" and "run \<in> set runs"
    and "os_value (hr_status run) = AgentExited" and "os_confidence (hr_status run) = High"
    and "\<forall>obs \<in> set observations. \<forall>event status. po_payload obs = Some event \<longrightarrow>
      eo_status event = Some status \<longrightarrow> ts_before (os_updatedAt status) (os_updatedAt (hr_status run))"
  shows "overlay_run (latest_overlays lc runs observations) run = run"
proof -
  have "overlay_candidate runs obs \<noteq> Some (ro_id (hr_run run), ov)"
    if "obs \<in> set observations" for obs ov
  proof
    assume "overlay_candidate runs obs = Some (ro_id (hr_run run), ov)"
    then obtain event r where e: "po_payload obs = Some event" "eo_status event = Some (sl_status ov)"
        "r \<in> set runs" "ro_id (hr_run r) = ro_id (hr_run run)"
        "\<not> should_preserve_live_status r (sl_status ov)"
      by (rule overlay_candidateD) blast
    then have "r = run" using assms(1,2) by (auto simp: distinct_map inj_on_def)
    with e assms(3-5) that show False by (auto simp: should_preserve_live_status_def)
  qed
  then have "candidates runs (ro_id (hr_run run)) observations = []"
    by (auto simp: candidates_def split: option.splits prod.splits)
  then show ?thesis by (simp add: overlay_run_def candidates_empty_overlay)
qed

end
