(* ===== verification/LocalPaths.thy ===== *)
theory LocalPaths
  imports Prelude
begin

section \<open>Local paths (packages/runtime/src/paths.ts)\<close>

text \<open>
  The path comparison that decides whether a terminal or a run belongs to a worktree. The
  code compares strings after trimming white space, dropping trailing slashes and mapping
  macOS's \<^verbatim>\<open>/private/var\<close> to \<^verbatim>\<open>/var\<close>. The lemmas show that "same or inside" is a preorder on
  paths whose equivalence is \<open>path_is_same\<close>, and that it respects path components.
\<close>

definition strip_trailing_slashes :: "string \<Rightarrow> string" where
  "strip_trailing_slashes s = rev (dropWhile (\<lambda>c. c = CHR ''/'') (rev s))"

definition normalize_local_path :: "string \<Rightarrow> string" where
  "normalize_local_path value =
     (let trimmed = trim value;
          withoutTrailingSlash =
            (if 1 < length trimmed then strip_trailing_slashes trimmed else trimmed)
      in if starts_with ''/private/var/'' withoutTrailingSlash
         then ''/var/'' @ drop (length ''/private/var/'') withoutTrailingSlash
         else withoutTrailingSlash)"

definition path_is_same :: "string \<Rightarrow> string \<Rightarrow> bool" where
  "path_is_same candidate root = (normalize_local_path candidate = normalize_local_path root)"

definition path_is_same_or_inside :: "string \<Rightarrow> string \<Rightarrow> bool" where
  "path_is_same_or_inside candidate root =
     (let normalizedCandidate = normalize_local_path candidate;
          normalizedRoot = normalize_local_path root
      in if normalizedCandidate = normalizedRoot then True
         else if normalizedRoot = ''/'' then starts_with ''/'' normalizedCandidate
         else starts_with (normalizedRoot @ ''/'') normalizedCandidate)"

lemma path_inside_refl [simp]: "path_is_same_or_inside p p"
  by (simp add: path_is_same_or_inside_def)

lemma path_inside_cases:
  "path_is_same_or_inside a b \<longleftrightarrow>
     normalize_local_path a = normalize_local_path b \<or>
     (normalize_local_path b = ''/'' \<and> (\<exists>r. normalize_local_path a = ''/'' @ r)) \<or>
     (normalize_local_path b \<noteq> ''/'' \<and>
      (\<exists>r. normalize_local_path a = normalize_local_path b @ ''/'' @ r))"
  by (auto simp: path_is_same_or_inside_def Let_def starts_with_append)

lemma path_inside_trans:
  assumes "path_is_same_or_inside a b" "path_is_same_or_inside b c"
  shows "path_is_same_or_inside a c"
  using assms unfolding path_inside_cases by (auto simp: append_eq_Cons_conv)

lemma path_inside_antisym:
  assumes "path_is_same_or_inside a b" "path_is_same_or_inside b a"
  shows "path_is_same a b"
proof (rule ccontr)
  let ?a = "normalize_local_path a" and ?b = "normalize_local_path b"
  assume "\<not> path_is_same a b"
  then have ne: "?a \<noteq> ?b" by (simp add: path_is_same_def)
  have shorter: "length (normalize_local_path y) < length (normalize_local_path x)"
    if "path_is_same_or_inside x y" "normalize_local_path x \<noteq> normalize_local_path y" for x y
    using that unfolding path_inside_cases by auto
  show False using shorter [OF assms(1) ne] shorter [OF assms(2) ne [symmetric]] by simp
qed

lemma path_is_same_inside: "path_is_same a b \<Longrightarrow> path_is_same_or_inside a b"
  by (simp add: path_is_same_def path_inside_cases)

text \<open>A sibling whose name merely starts like the root is not inside it.\<close>

lemma path_inside_component:
  assumes "path_is_same_or_inside a b" "normalize_local_path b \<noteq> ''/''"
    "normalize_local_path a = normalize_local_path b @ r"
  shows "r = [] \<or> hd r = CHR ''/''"
  using assms unfolding path_inside_cases by auto

end
