(* ===== verification/ObserverGraph.thy ===== *)
theory ObserverGraph
  imports HarnessStatus LocalPaths
begin

section \<open>The snapshot graph (apps/observer/src/reconcile/graph.ts)\<close>

text \<open>
  \<open>build_wosm_snapshot\<close> correlates what the providers observed (worktrees, terminal
  targets, harness runs) with the configured projects into the snapshot that clients see:
  one row per worktree of a configured project, a session for a row with a terminal and a
  run, counters, provider alerts, and an orphan for every piece of runtime state that no
  configured worktree claims. The definitions follow the functions of the source one by
  one; \<open>lc\<close> is the host's \<^verbatim>\<open>localeCompare\<close>.
\<close>

record session_metadata =
  sm_id :: session_id
  sm_title :: "string option"

record graph_input =
  gi_generatedAt :: timestamp
  gi_pid :: int
  gi_startedAt :: timestamp
  gi_version :: string
  gi_healthy :: "bool option"
  gi_projects :: "project_config list"
  gi_worktreeProviderId :: provider_id
  gi_providerHealth :: "provider_health dict"
  gi_harnesses :: "snapshot_harness list option"
  gi_harnessCapabilities :: "harness_capabilities dict"
  gi_worktrees :: "worktree_observation list"
  gi_terminalTargets :: "terminal_observation list"
  gi_harnessRuns :: "harness_run list"
  gi_sessionMetadata :: "session_metadata list"
  gi_recoveryHandles :: "recovery_handle list"
  gi_alerts :: "wosm_alert list"
  gi_featureFlags :: "feature_flags option"

definition empty_harness_capabilities :: harness_capabilities where
  "empty_harness_capabilities =
     \<lparr>canLaunch = False, canDiscoverRuns = False, canEmitEvents = False,
      canClassifyStatus = False, canReceivePrompt = False, canResume = False, canStop = False,
      canRunNonInteractive = False, canExposeApprovalState = False\<rparr>"

definition is_focusable_terminal_state :: "terminal_state \<Rightarrow> bool" where
  "is_focusable_terminal_state state =
     (state = TermOpen \<or> state = TermDetached \<or> state = TermUnknown)"

definition is_closeable_terminal_state :: "terminal_state \<Rightarrow> bool" where
  "is_closeable_terminal_state state =
     (state = TermOpen \<or> state = TermDetached \<or> state = TermUnknown \<or> state = TermStale)"

definition has_primary_agent_endpoint ::
  "terminal_observation \<Rightarrow> harness_run option \<Rightarrow> bool" where
  "has_primary_agent_endpoint terminal harnessRun =
     ((case to_harnessBinding terminal of
         None \<Rightarrow> False | Some binding \<Rightarrow> hb_role binding = ''main-agent'') \<or>
      to_harnessRunId terminal \<noteq> None \<or> to_sessionId terminal \<noteq> None \<or> harnessRun \<noteq> None)"

text \<open>\<^verbatim>\<open>if (b) field = true\<close> on a fresh object.\<close>

definition flag_if :: "bool \<Rightarrow> bool option" where
  "flag_if b = (if b then Some True else None)"

definition terminal_attachment_of ::
  "terminal_observation \<Rightarrow> harness_run option \<Rightarrow> terminal_attachment" where
  "terminal_attachment_of terminal harnessRun =
     \<lparr>ta_provider = to_provider terminal, ta_state = to_state terminal,
      ta_focusable = flag_if (is_focusable_terminal_state (to_state terminal)),
      ta_closeable = flag_if (is_closeable_terminal_state (to_state terminal)),
      ta_hasWorkspace = flag_if (to_worktreeId terminal \<noteq> None),
      ta_hasPrimaryAgentEndpoint = flag_if (has_primary_agent_endpoint terminal harnessRun),
      ta_confidence = Some (to_confidence terminal),
      ta_reason = Some (to_reason terminal),
      ta_observedAt = Some (to_observedAt terminal)\<rparr>"

definition row_agent_of :: "harness_run \<Rightarrow> worktree_agent" where
  "row_agent_of harnessRun =
     (let run = hr_run harnessRun; status = hr_status harnessRun in
      \<lparr>ag_harness = ro_provider run, ag_state = os_value status, ag_pid = ro_pid run,
       ag_runId = Some (ro_id run), ag_sessionId = ro_sessionId run,
       ag_confidence = os_confidence status, ag_reason = os_reason status,
       ag_updatedAt = os_updatedAt status\<rparr>)"

definition warning_for ::
  "harness_run option \<Rightarrow> terminal_observation option \<Rightarrow> bool \<Rightarrow> bool" where
  "warning_for harnessRun terminal defaultWarning =
     (if defaultWarning then True
      else case harnessRun of
        None \<Rightarrow> False
      | Some run \<Rightarrow>
          if os_value (hr_status run) \<noteq> AgentUnknown then False
          else (let reason = to_lower (os_reason (hr_status run) @ '' '' @
                      (case terminal of None \<Rightarrow> '''' | Some t \<Rightarrow> to_reason t))
                in str_includes ''conflict'' reason \<or> str_includes ''stale'' reason \<or>
                   str_includes ''failed'' reason \<or> str_includes ''invalid'' reason))"

definition display_reason :: "harness_run option \<Rightarrow> bool \<Rightarrow> string option" where
  "display_reason harnessRun warning =
     (case harnessRun of
        None \<Rightarrow> Some ''No harness run is associated with this worktree.''
      | Some run \<Rightarrow>
          if os_value (hr_status run) = AgentNeedsAttention \<or>
             os_value (hr_status run) = AgentStuck \<or> warning
          then Some (os_reason (hr_status run)) else None)"

definition worktree_runtime_of :: "worktree_observation \<Rightarrow> worktree_runtime" where
  "worktree_runtime_of w =
     \<lparr>wr_state = wo_state w, wr_source = wo_source w, wr_dirty = wo_dirty w,
      wr_ahead = wo_ahead w, wr_behind = wo_behind w, wr_pr = wo_pr w,
      wr_changeSummary = wo_changeSummary w, wr_checks = wo_checks w\<rparr>"

definition build_worktree_row ::
  "project_config \<Rightarrow> worktree_observation \<Rightarrow> terminal_observation option \<Rightarrow>
     harness_run option \<Rightarrow> worktree_row" where
  "build_worktree_row project worktree terminal harnessRun =
     (let state = map_option (\<lambda>run. os_value (hr_status run)) harnessRun;
          policy = status_policy state;
          warning = warning_for harnessRun terminal (sp_warning policy);
          reason = display_reason harnessRun warning
      in \<lparr>row_id = wo_id worktree, row_projectId = pc_id project,
          row_projectLabel = pc_label project, row_branch = wo_branch worktree,
          row_path = wo_path worktree, row_worktree = worktree_runtime_of worktree,
          row_terminal = map_option (\<lambda>t. terminal_attachment_of t harnessRun) terminal,
          row_agent = map_option row_agent_of harnessRun,
          row_recovery = None,
          row_display = \<lparr>rd_statusLabel = sp_label policy, rd_sortPriority = sp_priority policy,
            rd_alert = sp_alert policy, rd_warning = flag_if warning, rd_reason = reason\<rparr>\<rparr>)"

definition has_live_agent :: "worktree_row \<Rightarrow> bool" where
  "has_live_agent row =
     (case row_agent row of
        None \<Rightarrow> False
      | Some agent \<Rightarrow>
          if ag_state agent = AgentNone \<or> ag_state agent = AgentExited then False
          else if ag_state agent = AgentUnknown
          then (case row_terminal row of
                  None \<Rightarrow> False
                | Some terminal \<Rightarrow> ta_state terminal \<noteq> TermStale \<and> ta_state terminal \<noteq> TermNone)
          else True)"

fun resume_target_kind :: "resume_target \<Rightarrow> resume_target_kind" where
  "resume_target_kind (NativeSession i) = KindNativeSession"
| "resume_target_kind (SessionFile p) = KindSessionFile"

definition can_resume :: "harness_capabilities dict \<Rightarrow> provider_id \<Rightarrow> bool" where
  "can_resume capabilities provider =
     (case map_of capabilities provider of None \<Rightarrow> False | Some c \<Rightarrow> canResume c)"

definition recovery_action_for_row ::
  "worktree_row \<Rightarrow> recovery_handle list \<Rightarrow> harness_capabilities dict \<Rightarrow>
     feature_flags option \<Rightarrow> recovery_action option" where
  "recovery_action_for_row row recoveryHandles capabilities flags =
     (if (case flags of None \<Rightarrow> True | Some f \<Rightarrow> \<not> ff_sessionResumeAgent f) \<or> has_live_agent row
      then None
      else case filter (\<lambda>handle. rh_projectId handle = row_projectId row \<and>
                          rh_worktreeId handle = row_id row \<and>
                          can_resume capabilities (rh_provider handle)) recoveryHandles of
        [handle] \<Rightarrow>
          Some \<lparr>ra_handleId = rh_id handle, ra_provider = rh_provider handle,
                ra_targetKind = resume_target_kind (rh_target handle),
                ra_sessionId = rh_sessionId handle, ra_lastSeenAt = rh_lastSeenAt handle\<rparr>
      | _ \<Rightarrow> None)"

definition build_session ::
  "project_config \<Rightarrow> worktree_observation \<Rightarrow> terminal_observation option \<Rightarrow>
     harness_run option \<Rightarrow> harness_capabilities dict \<Rightarrow> (session_id \<rightharpoonup> session_metadata) \<Rightarrow>
     session_view option" where
  "build_session project worktree terminal harnessRun capabilities metadataById =
     (case (terminal, harnessRun) of
        (Some t, Some hr) \<Rightarrow>
          (case nullish_opt (ro_sessionId (hr_run hr)) (to_sessionId t) of
             None \<Rightarrow> None
           | Some sessionId \<Rightarrow>
               Some \<lparr>sv_id = sessionId, sv_projectId = pc_id project, sv_worktreeId = wo_id worktree,
                 sv_createdAt = ro_observedAt (hr_run hr),
                 sv_updatedAt = os_updatedAt (hr_status hr),
                 sv_harness = \<lparr>sh_provider = ro_provider (hr_run hr), sh_mode = ModeUnknown,
                   sh_pid = ro_pid (hr_run hr), sh_runId = Some (ro_id (hr_run hr)),
                   sh_capabilities = nullish (map_of capabilities (ro_provider (hr_run hr)))
                     empty_harness_capabilities\<rparr>,
                 sv_terminal = terminal_attachment_of t (Some hr),
                 sv_status = hr_status hr,
                 sv_title = nullish (Option.bind (metadataById sessionId) sm_title)
                   (wo_branch worktree),
                 sv_tags = []\<rparr>)
      | _ \<Rightarrow> None)"

subsection \<open>Choosing the terminal and the run of a worktree\<close>

definition terminal_target_matches_worktree ::
  "terminal_observation \<Rightarrow> worktree_observation \<Rightarrow> bool" where
  "terminal_target_matches_worktree terminal worktree =
     (case to_cwd terminal of
        None \<Rightarrow> True
      | Some cwd \<Rightarrow> if cwd = [] then True else path_is_same_or_inside cwd (wo_path worktree))"

definition compare_rows :: "collator \<Rightarrow> worktree_row comparison" where
  "compare_rows lc left right =
     or_else (rd_sortPriority (row_display left) - rd_sortPriority (row_display right))
       (or_else (lc (row_branch left) (row_branch right)) (lc (row_id left) (row_id right)))"

definition compare_observations :: "collator \<Rightarrow> terminal_observation comparison" where
  "compare_observations lc left right =
     or_else (confidence_rank (to_confidence right) - confidence_rank (to_confidence left))
       (or_else (ts_diff (to_observedAt right) (to_observedAt left))
          (lc (to_id left) (to_id right)))"

definition run_priority :: "harness_run \<Rightarrow> int" where
  "run_priority run = sp_priority (status_policy (Some (os_value (hr_status run))))"

definition compare_harness_runs :: "collator \<Rightarrow> harness_run comparison" where
  "compare_harness_runs lc left right =
     or_else (run_priority left - run_priority right)
       (or_else (confidence_rank (os_confidence (hr_status right))
                 - confidence_rank (os_confidence (hr_status left)))
          (or_else (ts_diff (os_updatedAt (hr_status right)) (os_updatedAt (hr_status left)))
             (lc (ro_id (hr_run left)) (ro_id (hr_run right)))))"

definition first :: "'a list \<Rightarrow> 'a option" where
  "first xs = (case xs of [] \<Rightarrow> None | x # _ \<Rightarrow> Some x)"

definition choose_terminal ::
  "collator \<Rightarrow> worktree_observation \<Rightarrow> terminal_observation list \<Rightarrow> terminal_observation option" where
  "choose_terminal lc worktree terminals =
     first (js_sort (compare_observations lc)
       (filter (\<lambda>terminal. to_worktreeId terminal = Some (wo_id worktree) \<and>
                  terminal_target_matches_worktree terminal worktree) terminals))"

definition choose_harness_run ::
  "collator \<Rightarrow> worktree_observation \<Rightarrow> terminal_observation option \<Rightarrow> harness_run list \<Rightarrow>
     harness_run option" where
  "choose_harness_run lc worktree terminal runs =
     (let fallback = first (js_sort (compare_harness_runs lc)
            (filter (\<lambda>run. ro_worktreeId (hr_run run) = Some (wo_id worktree)) runs))
      in case Option.bind terminal to_harnessRunId of
           None \<Rightarrow> fallback
         | Some rid \<Rightarrow>
             (case find (\<lambda>run. ro_id (hr_run run) = rid) runs of
                Some boundRun \<Rightarrow> Some boundRun
              | None \<Rightarrow> fallback))"

subsection \<open>Provider health and alerts\<close>

fun provider_type_name :: "provider_type \<Rightarrow> string" where
  "provider_type_name WorktreeProvider = ''worktree''"
| "provider_type_name TerminalProvider = ''terminal''"
| "provider_type_name HarnessProvider = ''harness''"
| "provider_type_name RepositoryProvider = ''repository''"

fun health_status_name :: "health_status \<Rightarrow> string" where
  "health_status_name Healthy = ''healthy''"
| "health_status_name Degraded = ''degraded''"
| "health_status_name Unavailable = ''unavailable''"
| "health_status_name HealthUnknown = ''unknown''"

definition unknown_provider_health :: "graph_input \<Rightarrow> provider_health" where
  "unknown_provider_health input =
     \<lparr>ph_providerId = gi_worktreeProviderId input, ph_providerType = WorktreeProvider,
      ph_status = HealthUnknown, ph_lastCheckedAt = gi_generatedAt input, ph_lastError = None,
      ph_latencyMs = None, ph_capabilities = None, ph_diagnostics = None\<rparr>"

definition alert_for_health :: "timestamp \<Rightarrow> provider_health \<Rightarrow> wosm_alert" where
  "alert_for_health generatedAt health =
     \<lparr>al_id = ''alert_'' @ ph_providerId health @ ''_'' @ health_status_name (ph_status health),
      al_severity = (if ph_status health = Unavailable then SeverityError else SeverityWarn),
      al_message = nullish (map_option se_message (ph_lastError health))
        (''The '' @ provider_type_name (ph_providerType health) @ '' provider '' @
         ph_providerId health @ '' is '' @ health_status_name (ph_status health) @ ''.''),
      al_code = map_option se_code (ph_lastError health),
      al_projectId = None, al_worktreeId = None, al_sessionId = None,
      al_provider = Some (ph_providerId health), al_createdAt = generatedAt\<rparr>"

definition alerts_from_provider_health ::
  "provider_health dict \<Rightarrow> timestamp \<Rightarrow> wosm_alert list" where
  "alerts_from_provider_health providerHealth generatedAt =
     map (alert_for_health generatedAt)
       (filter (\<lambda>health. ph_status health = Unavailable \<or> ph_status health = Degraded)
         (map snd providerHealth))"

definition safe_error_to_provider_health ::
  "provider_id \<Rightarrow> provider_type \<Rightarrow> timestamp \<Rightarrow> safe_error \<Rightarrow> bool dict option \<Rightarrow> int option \<Rightarrow>
     provider_health" where
  "safe_error_to_provider_health providerId providerType lastCheckedAt lastError capabilities
     latencyMs =
     \<lparr>ph_providerId = providerId, ph_providerType = providerType, ph_status = Unavailable,
      ph_lastCheckedAt = lastCheckedAt, ph_lastError = Some lastError,
      ph_latencyMs = latencyMs, ph_capabilities = capabilities, ph_diagnostics = None\<rparr>"

subsection \<open>Orphans\<close>

definition project_known :: "project_config list \<Rightarrow> project_id option \<Rightarrow> bool" where
  "project_known projects pid =
     (case pid of None \<Rightarrow> True | Some p \<Rightarrow> js_map pc_id projects p \<noteq> None)"

definition terminal_orphan ::
  "project_config list \<Rightarrow> worktree_observation list \<Rightarrow> harness_run list \<Rightarrow>
     terminal_observation \<Rightarrow> orphaned_state option" where
  "terminal_orphan projects worktrees runs terminal =
     (let hasProject = project_known projects (to_projectId terminal);
          worktree = Option.bind (to_worktreeId terminal) (js_map wo_id worktrees);
          hasWorktree = (worktree \<noteq> None);
          hasHarness = (case to_harnessRunId terminal of
              None \<Rightarrow> True
            | Some rid \<Rightarrow> js_map (\<lambda>run. ro_id (hr_run run)) runs rid \<noteq> None);
          pathMismatch = (case worktree of
              None \<Rightarrow> False
            | Some w \<Rightarrow> \<not> terminal_target_matches_worktree terminal w)
      in if \<not> hasProject \<or> \<not> hasWorktree \<or> \<not> hasHarness \<or> pathMismatch
         then Some \<lparr>or_id = ''orphan_'' @ to_id terminal, or_kind = OrphanTerminalTarget,
                or_provider = to_provider terminal, or_projectId = to_projectId terminal,
                or_worktreeId = to_worktreeId terminal, or_sessionId = to_sessionId terminal,
                or_terminalTargetId = Some (to_id terminal), or_harnessRunId = None,
                or_reason = (if pathMismatch
                  then ''Terminal target path does not match the configured worktree.''
                  else ''Terminal target has no matching configured project or worktree.''),
                or_observedAt = to_observedAt terminal\<rparr>
         else None)"

definition run_orphan ::
  "project_config list \<Rightarrow> worktree_observation list \<Rightarrow> harness_run \<Rightarrow> orphaned_state option" where
  "run_orphan projects worktrees harnessRun =
     (let run = hr_run harnessRun;
          hasProject = project_known projects (ro_projectId run);
          hasWorktree = (case ro_worktreeId run of
              None \<Rightarrow> False | Some wid \<Rightarrow> js_map wo_id worktrees wid \<noteq> None)
      in if \<not> hasProject \<or> \<not> hasWorktree
         then Some \<lparr>or_id = ''orphan_'' @ ro_id run, or_kind = OrphanHarnessRun,
                or_provider = ro_provider run, or_projectId = ro_projectId run,
                or_worktreeId = ro_worktreeId run, or_sessionId = ro_sessionId run,
                or_terminalTargetId = None, or_harnessRunId = Some (ro_id run),
                or_reason = ''Harness run has no matching configured project or worktree.'',
                or_observedAt = ro_observedAt run\<rparr>
         else None)"

definition orphan_list ::
  "project_config list \<Rightarrow> worktree_observation list \<Rightarrow> terminal_observation list \<Rightarrow>
     harness_run list \<Rightarrow> orphaned_state list" where
  "orphan_list projects worktrees terminals runs =
     List.map_filter (terminal_orphan projects worktrees runs) terminals @
     List.map_filter (run_orphan projects worktrees) runs"

subsection \<open>The snapshot\<close>

definition configured_worktrees :: "graph_input \<Rightarrow> worktree_observation list" where
  "configured_worktrees input =
     filter (\<lambda>worktree. js_map pc_id (gi_projects input) (wo_projectId worktree) \<noteq> None)
       (gi_worktrees input)"

definition project_worktrees :: "graph_input \<Rightarrow> project_config \<Rightarrow> worktree_observation list" where
  "project_worktrees input project =
     filter (\<lambda>worktree. wo_projectId worktree = pc_id project) (configured_worktrees input)"

definition worktree_terminal ::
  "collator \<Rightarrow> graph_input \<Rightarrow> worktree_observation \<Rightarrow> terminal_observation option" where
  "worktree_terminal lc input worktree = choose_terminal lc worktree (gi_terminalTargets input)"

definition worktree_run ::
  "collator \<Rightarrow> graph_input \<Rightarrow> worktree_observation \<Rightarrow> harness_run option" where
  "worktree_run lc input worktree =
     choose_harness_run lc worktree (worktree_terminal lc input worktree) (gi_harnessRuns input)"

definition graph_row ::
  "collator \<Rightarrow> graph_input \<Rightarrow> project_config \<Rightarrow> worktree_observation \<Rightarrow> worktree_row" where
  "graph_row lc input project worktree =
     (let row = build_worktree_row project worktree (worktree_terminal lc input worktree)
            (worktree_run lc input worktree)
      in row\<lparr>row_recovery := recovery_action_for_row row (gi_recoveryHandles input)
               (gi_harnessCapabilities input) (gi_featureFlags input)\<rparr>)"

definition graph_session ::
  "collator \<Rightarrow> graph_input \<Rightarrow> project_config \<Rightarrow> worktree_observation \<Rightarrow> session_view option" where
  "graph_session lc input project worktree =
     build_session project worktree (worktree_terminal lc input worktree)
       (worktree_run lc input worktree) (gi_harnessCapabilities input)
       (js_map sm_id (gi_sessionMetadata input))"

definition rows_for_project ::
  "collator \<Rightarrow> graph_input \<Rightarrow> project_config \<Rightarrow> worktree_row list" where
  "rows_for_project lc input project =
     js_sort (compare_rows lc) (map (graph_row lc input project) (project_worktrees input project))"

definition graph_rows :: "collator \<Rightarrow> graph_input \<Rightarrow> worktree_row list" where
  "graph_rows lc input = concat (map (rows_for_project lc input) (gi_projects input))"

definition graph_sessions :: "collator \<Rightarrow> graph_input \<Rightarrow> session_view list" where
  "graph_sessions lc input =
     concat (map (\<lambda>project. List.map_filter (graph_session lc input project)
       (project_worktrees input project)) (gi_projects input))"

definition project_view_of ::
  "graph_input \<Rightarrow> worktree_row list \<Rightarrow> project_config \<Rightarrow> project_view" where
  "project_view_of input allRows project =
     \<lparr>pv_id = pc_id project, pv_label = pc_label project, pv_root = pc_root project,
      pv_defaults = pc_defaults project,
      pv_health = nullish (map_of (gi_providerHealth input) (gi_worktreeProviderId input))
        (unknown_provider_health input),
      pv_counts = counts_for_rows (filter (\<lambda>row. row_projectId row = pc_id project) allRows)\<rparr>"

definition graph_alerts :: "graph_input \<Rightarrow> wosm_alert list" where
  "graph_alerts input =
     alerts_from_provider_health (gi_providerHealth input) (gi_generatedAt input) @ gi_alerts input"

definition observer_healthy :: "graph_input \<Rightarrow> bool" where
  "observer_healthy input =
     nullish (gi_healthy input)
       (\<not> list_ex (\<lambda>alert. al_severity alert = SeverityError) (graph_alerts input) \<and>
        list_all (\<lambda>health. ph_status health \<noteq> Unavailable) (map snd (gi_providerHealth input)))"

definition graph_orphans :: "graph_input \<Rightarrow> orphaned_state list option" where
  "graph_orphans input =
     (let os = orphan_list (gi_projects input) (configured_worktrees input)
            (gi_terminalTargets input) (gi_harnessRuns input)
      in if length os = 0 then None else Some os)"

definition build_wosm_snapshot :: "collator \<Rightarrow> graph_input \<Rightarrow> snapshot" where
  "build_wosm_snapshot lc input =
     (let allRows = graph_rows lc input in
      \<lparr>ss_generatedAt = gi_generatedAt input,
       ss_observer = \<lparr>oi_pid = gi_pid input, oi_startedAt = gi_startedAt input,
         oi_version = gi_version input, oi_healthy = observer_healthy input\<rparr>,
       ss_providerHealth = gi_providerHealth input,
       ss_harnesses = gi_harnesses input,
       ss_projects = map (project_view_of input allRows) (gi_projects input),
       ss_rows = allRows,
       ss_sessions = graph_sessions lc input,
       ss_countProjects = length (gi_projects input),
       ss_counts = counts_for_rows allRows,
       ss_alerts = graph_alerts input,
       ss_featureFlags = gi_featureFlags input,
       ss_orphans = graph_orphans input\<rparr>)"

end
