(* ===== verification/GraphProperties.thy ===== *)
theory GraphProperties
  imports ObserverGraph
begin

section \<open>Correctness of the snapshot graph\<close>

text \<open>
  What a snapshot built by \<open>build_wosm_snapshot\<close> guarantees: every worktree of a configured
  project has exactly one row, rows are grouped by project and sorted, the counters add up,
  no runtime state disappears, sessions agree with their rows, the terminal and run chosen
  for a row are the best candidates, a recovery action is only offered when it is safe, and
  the observer's health reflects its providers. The properties rest on the laws of the
  stable sort (locale \<open>js_comparator\<close>), instantiated for the code's comparison functions.
\<close>

subsection \<open>Partitioning worktrees by project\<close>

lemma mset_partition_by_key:
  assumes "distinct (map key ps)"
  shows "mset (concat (map (\<lambda>p. filter (\<lambda>w. f w = key p) ws) ps)) =
     mset (filter (\<lambda>w. f w \<in> key ` set ps) ws)"
  using assms
proof (induction ps)
  case Nil
  then show ?case by simp
next
  case (Cons p ps)
  then have "key p \<notin> key ` set ps" by simp
  then have "filter_mset (\<lambda>w. f w = key p) (mset ws) + filter_mset (\<lambda>w. f w \<in> key ` set ps) (mset ws)
      = filter_mset (\<lambda>w. f w \<in> key ` set (p # ps)) (mset ws)"
    by (induction ws) auto
  with Cons show ?case by simp
qed

lemma js_map_known: "js_map key xs k \<noteq> None \<longleftrightarrow> k \<in> key ` set xs"
  using js_map_None [of key xs k] by (auto simp del: not_None_eq)

lemma configured_worktrees_eq:
  "configured_worktrees input =
     filter (\<lambda>w. wo_projectId w \<in> pc_id ` set (gi_projects input)) (gi_worktrees input)"
  by (simp only: configured_worktrees_def js_map_known)

lemma project_worktrees_eq:
  "p \<in> set (gi_projects input) \<Longrightarrow>
     project_worktrees input p = filter (\<lambda>w. wo_projectId w = pc_id p) (gi_worktrees input)"
  by (auto simp: project_worktrees_def configured_worktrees_eq intro!: filter_cong)

lemma mset_project_worktrees:
  assumes "distinct (map pc_id (gi_projects input))"
  shows "mset (concat (map (project_worktrees input) (gi_projects input))) =
     mset (configured_worktrees input)"
proof -
  have "concat (map (project_worktrees input) (gi_projects input)) =
      concat (map (\<lambda>p. filter (\<lambda>w. wo_projectId w = pc_id p) (gi_worktrees input)) (gi_projects input))"
    by (rule arg_cong [of _ _ concat]) (simp add: project_worktrees_eq)
  then show ?thesis
    by (simp only: mset_partition_by_key [OF assms] configured_worktrees_eq)
qed

subsection \<open>Fields of a built snapshot and row\<close>

lemma build_snapshot_simps [simp]:
  "ss_rows (build_wosm_snapshot lc input) = graph_rows lc input"
  "ss_sessions (build_wosm_snapshot lc input) = graph_sessions lc input"
  "ss_projects (build_wosm_snapshot lc input) =
     map (project_view_of input (graph_rows lc input)) (gi_projects input)"
  "ss_counts (build_wosm_snapshot lc input) = counts_for_rows (graph_rows lc input)"
  "ss_countProjects (build_wosm_snapshot lc input) = length (gi_projects input)"
  "ss_alerts (build_wosm_snapshot lc input) = graph_alerts input"
  "oi_healthy (ss_observer (build_wosm_snapshot lc input)) = observer_healthy input"
  "ss_orphans (build_wosm_snapshot lc input) = graph_orphans input"
  by (simp_all add: build_wosm_snapshot_def Let_def)

lemma graph_row_simps [simp]:
  "row_id (graph_row lc input p w) = wo_id w"
  "row_projectId (graph_row lc input p w) = pc_id p"
  "row_branch (graph_row lc input p w) = wo_branch w"
  "row_path (graph_row lc input p w) = wo_path w"
  "row_agent (graph_row lc input p w) = map_option row_agent_of (worktree_run lc input w)"
  "row_terminal (graph_row lc input p w) =
     map_option (\<lambda>t. terminal_attachment_of t (worktree_run lc input w)) (worktree_terminal lc input w)"
  by (simp_all add: graph_row_def build_worktree_row_def Let_def)

lemma rows_for_project_mset [simp]:
  "mset (rows_for_project lc input p) =
     mset (map (graph_row lc input p) (project_worktrees input p))"
  by (simp add: rows_for_project_def)

lemma set_rows_for_project:
  "set (rows_for_project lc input p) = graph_row lc input p ` set (project_worktrees input p)"
  by (simp add: rows_for_project_def)

lemma rows_for_project_id:
  "r \<in> set (rows_for_project lc input p) \<Longrightarrow> row_projectId r = pc_id p"
  by (auto simp: set_rows_for_project)

lemma graph_row_mem:
  "r \<in> set (graph_rows lc input) \<longleftrightarrow>
     (\<exists>p \<in> set (gi_projects input). \<exists>w \<in> set (project_worktrees input p). r = graph_row lc input p w)"
  by (auto simp: graph_rows_def set_rows_for_project)

lemma mset_map_concat:
  "(\<And>x. x \<in> set xs \<Longrightarrow> mset (map f (g x)) = mset (h x)) \<Longrightarrow>
     mset (map f (concat (map g xs))) = mset (concat (map h xs))"
  by (induction xs) auto

subsection \<open>Row and session completeness\<close>

lemma graph_row_ids:
  assumes "distinct (map pc_id (gi_projects input))"
  shows "mset (map row_id (graph_rows lc input)) = mset (map wo_id (configured_worktrees input))"
proof -
  have "mset (map row_id (graph_rows lc input)) =
      mset (concat (map (\<lambda>p. map wo_id (project_worktrees input p)) (gi_projects input)))"
    unfolding graph_rows_def by (rule mset_map_concat) (simp add: multiset.map_comp comp_def)
  also have "\<dots> = mset (map wo_id (concat (map (project_worktrees input) (gi_projects input))))"
    by (simp add: map_concat comp_def)
  also have "\<dots> = mset (map wo_id (configured_worktrees input))"
    by (metis mset_map mset_project_worktrees [OF assms])
  finally show ?thesis .
qed

text \<open>C1: Every observed worktree of a configured project has exactly one row in the snapshot, and
  the snapshot has no other rows: the row identifiers are the worktree identifiers, with
  multiplicity.\<close>

theorem snapshot_rows_cover_worktrees:
  assumes "distinct (map pc_id (gi_projects input))"
  shows "mset (map row_id (ss_rows (build_wosm_snapshot lc input))) =
    mset (map wo_id (filter (\<lambda>w. wo_projectId w \<in> pc_id ` set (gi_projects input)) (gi_worktrees input)))"
  using graph_row_ids [OF assms, of lc] by (simp add: configured_worktrees_eq)


subsection \<open>Order of the rows\<close>

lemma filter_concat_key:
  assumes "distinct (map key ps)" "p \<in> set ps" "\<And>q x. q \<in> set ps \<Longrightarrow> x \<in> set (g q) \<Longrightarrow> f x = key q"
  shows "filter (\<lambda>x. f x = key p) (concat (map g ps)) = g p"
  using assms
proof (induction ps)
  case Nil
  then show ?case by simp
next
  case (Cons q ps)
  have q: "filter (\<lambda>x. f x = key p) (g q) = (if key q = key p then g q else [])"
    using Cons.prems(3) [of q] by (auto simp: filter_id_conv filter_empty_conv)
  have rest: "filter (\<lambda>x. f x = key p) (concat (map g ps)) = []" if "key q = key p"
  proof -
    have "f x \<noteq> key p" if "r \<in> set ps" "x \<in> set (g r)" for r x
    proof -
      from that Cons.prems(3) [of r x] have "f x = key r" by simp
      moreover from that(1) Cons.prems(1) have "key r \<noteq> key q" by (metis distinct.simps(2) image_eqI list.set_map list.simps(9))
      ultimately show ?thesis using \<open>key q = key p\<close> by simp
    qed
    then show ?thesis by (simp add: filter_empty_conv)
  qed
  show ?case
  proof (cases "key q = key p")
    case True
    with Cons.prems(1,2) have "p = q" by auto
    with q rest show ?thesis by simp
  next
    case False
    with Cons.prems(2) have "p \<in> set ps" by auto
    with Cons.IH Cons.prems(1,3) have "filter (\<lambda>x. f x = key p) (concat (map g ps)) = g p"
      by simp
    with False q show ?thesis by simp
  qed
qed

lemma graph_rows_of_project:
  assumes "distinct (map pc_id (gi_projects input))" "p \<in> set (gi_projects input)"
  shows "filter (\<lambda>r. row_projectId r = pc_id p) (graph_rows lc input) = rows_for_project lc input p"
  unfolding graph_rows_def
  by (rule filter_concat_key [OF assms]) (rule rows_for_project_id)

lemma compare_rows_comparator:
  assumes "collation lc"
  shows "js_comparator (\<lambda>_. True) (compare_rows lc)"
  unfolding compare_rows_def
  by (intro js_comparator_or_else js_comparator_diff collation.comparator_via [OF assms])

text \<open>Rows are grouped by project in the configured order, and within a project they are sorted
  by status priority, then branch, then identifier, given that the host's collation is a
  consistent comparison.\<close>

lemma snapshot_rows_sorted:
  assumes "collation lc" and "distinct (map pc_id (gi_projects input))"
  shows "ss_rows (build_wosm_snapshot lc input) =
      concat (map (\<lambda>p. filter (\<lambda>r. row_projectId r = pc_id p) (ss_rows (build_wosm_snapshot lc input)))
        (gi_projects input)) \<and>
    (\<forall>p \<in> set (gi_projects input). sorted_wrt (\<lambda>a b. compare_rows lc a b \<le> 0)
      (filter (\<lambda>r. row_projectId r = pc_id p) (ss_rows (build_wosm_snapshot lc input))))"
proof -
  have "map (\<lambda>p. filter (\<lambda>r. row_projectId r = pc_id p) (graph_rows lc input)) (gi_projects input)
      = map (rows_for_project lc input) (gi_projects input)"
    by (simp add: graph_rows_of_project [OF assms(2)])
  then have "concat (map (\<lambda>p. filter (\<lambda>r. row_projectId r = pc_id p)
      (graph_rows lc input)) (gi_projects input)) = graph_rows lc input"
    by (simp only:) (simp add: graph_rows_def)
  moreover have "sorted_wrt (\<lambda>a b. compare_rows lc a b \<le> 0) (rows_for_project lc input p)" for p
    unfolding rows_for_project_def
    by (rule js_comparator.sorted_js_sort [OF compare_rows_comparator [OF assms(1)]]) simp
  ultimately show ?thesis by (simp add: graph_rows_of_project [OF assms(2)])
qed

subsection \<open>Counters\<close>

definition sum_counts :: "row_counts list \<Rightarrow> row_counts" where
  "sum_counts cs = foldr add_counts cs zero_counts"

lemma counts_for_concat:
  "counts_for_rows (concat (map g ps)) = sum_counts (map (\<lambda>p. counts_for_rows (g p)) ps)"
  by (induction ps) (simp_all add: sum_counts_def counts_for_rows_append)

text \<open>The snapshot's counters are consistent: the totals are the sums of the per-project counters,
  the number of worktrees is the number of rows, and in the totals and in every project the
  counted agent states never exceed the agents, nor the agents the worktrees.\<close>

lemma snapshot_counts_consistent:
  assumes "distinct (map pc_id (gi_projects input))"
  shows "ss_counts (build_wosm_snapshot lc input) =
      sum_counts (map pv_counts (ss_projects (build_wosm_snapshot lc input))) \<and>
    rc_worktrees (ss_counts (build_wosm_snapshot lc input)) =
      length (ss_rows (build_wosm_snapshot lc input)) \<and>
    counts_consistent (ss_counts (build_wosm_snapshot lc input)) \<and>
    list_all (\<lambda>p. counts_consistent (pv_counts p)) (ss_projects (build_wosm_snapshot lc input))"
proof -
  have "map pv_counts (map (project_view_of input (graph_rows lc input)) (gi_projects input)) =
      map (\<lambda>p. counts_for_rows (rows_for_project lc input p)) (gi_projects input)"
    by (simp add: project_view_of_def graph_rows_of_project [OF assms])
  then have sum: "counts_for_rows (graph_rows lc input) =
      sum_counts (map pv_counts (map (project_view_of input (graph_rows lc input)) (gi_projects input)))"
    by (simp only:) (simp only: graph_rows_def counts_for_concat)
  have worktrees: "rc_worktrees (counts_for_rows (graph_rows lc input)) = length (graph_rows lc input)"
    by (simp add: counts_for_rows_eq)
  have projects: "list_all (\<lambda>p. counts_consistent (pv_counts p))
      (map (project_view_of input (graph_rows lc input)) (gi_projects input))"
    by (simp add: counts_for_rows_consistent list_all_iff project_view_of_def)
  show ?thesis
    unfolding build_snapshot_simps
    by (intro conjI sum worktrees projects counts_for_rows_consistent)
qed


subsection \<open>Choosing terminals and runs\<close>

lemma first_js_sort:
  assumes "first (js_sort cmp xs) = Some y"
  shows "y \<in> set xs"
  using assms by (metis (lifting) first_def list.case_eq_if list.set_sel(1) option.distinct(1)
      option.inject set_js_sort)

context js_comparator
begin

lemma first_js_sort_least:
  assumes "\<forall>x \<in> set xs. carrier x" "first (js_sort cmp xs) = Some y" "z \<in> set xs"
  shows "cmp y z \<le> 0"
  using assms js_sort_hd_least [OF assms(1), of y _ z]
  by (auto simp: first_def split: list.splits)

end

lemma compare_observations_comparator:
  assumes "collation lc"
  shows "js_comparator (\<lambda>t. ts_valid (to_observedAt t)) (compare_observations lc)"
  unfolding compare_observations_def
  by (intro js_comparator_or_else js_comparator_newest_first js_comparator_diff_rev
      collation.comparator_via [OF assms])

lemma compare_harness_runs_comparator:
  assumes "collation lc"
  shows "js_comparator (\<lambda>r. ts_valid (os_updatedAt (hr_status r))) (compare_harness_runs lc)"
  unfolding compare_harness_runs_def
  by (intro js_comparator_or_else js_comparator_newest_first js_comparator_diff_rev
      js_comparator_diff collation.comparator_via [OF assms])

definition terminal_candidate :: "worktree_observation \<Rightarrow> terminal_observation \<Rightarrow> bool" where
  "terminal_candidate w t =
     (to_worktreeId t = Some (wo_id w) \<and> terminal_target_matches_worktree t w)"

lemma choose_terminal_eq:
  "choose_terminal lc w ts =
     first (js_sort (compare_observations lc) (filter (terminal_candidate w) ts))"
proof -
  have "terminal_candidate w = (\<lambda>terminal. to_worktreeId terminal = Some (wo_id w) \<and>
      terminal_target_matches_worktree terminal w)"
    by (simp add: fun_eq_iff terminal_candidate_def)
  then show ?thesis by (simp add: choose_terminal_def)
qed

lemma choose_terminal_candidate:
  "choose_terminal lc w ts = Some t \<Longrightarrow> t \<in> set ts \<and> terminal_candidate w t"
  unfolding choose_terminal_eq by (drule first_js_sort) simp

lemma first_None: "first xs = None \<longleftrightarrow> xs = []"
  by (simp add: first_def split: list.split)

lemma choose_terminal_None:
  "choose_terminal lc w ts = None \<longleftrightarrow> (\<forall>t \<in> set ts. \<not> terminal_candidate w t)"
  by (simp add: choose_terminal_eq first_None filter_empty_conv)

lemma compare_observationsD:
  assumes "compare_observations lc t u \<le> 0" "ts_valid (to_observedAt t)" "ts_valid (to_observedAt u)"
  shows "to_confidence u \<le> to_confidence t \<and>
    (to_confidence u = to_confidence t \<longrightarrow>
      ts_millis (to_observedAt u) \<le> ts_millis (to_observedAt t))"
  using assms by (auto simp: compare_observations_def or_else_le ts_diff_valid less_eq_confidence_def)

lemma compare_harness_runsD:
  assumes "compare_harness_runs lc r u \<le> 0"
  shows "run_priority r \<le> run_priority u \<and>
    (run_priority r = run_priority u \<longrightarrow>
      os_confidence (hr_status u) \<le> os_confidence (hr_status r))"
  using assms by (auto simp: compare_harness_runs_def or_else_le less_eq_confidence_def)

text \<open>C2: The terminal chosen for a worktree is one of those that name it and whose path lies in it,
  no candidate is reported with more confidence, and among those of equal confidence none was
  observed later.\<close>

theorem chosen_terminal_is_best:
  assumes "collation lc" and "\<forall>t \<in> set terminals. valid_terminal_observation t"
    and "choose_terminal lc w terminals = Some t"
  shows "t \<in> set terminals \<and> terminal_candidate w t \<and>
    (\<forall>u \<in> set terminals. terminal_candidate w u \<longrightarrow>
      to_confidence u \<le> to_confidence t \<and>
      (to_confidence u = to_confidence t \<longrightarrow>
        ts_millis (to_observedAt u) \<le> ts_millis (to_observedAt t)))"
proof -
  let ?cs = "filter (terminal_candidate w) terminals"
  have valid: "\<forall>u \<in> set ?cs. ts_valid (to_observedAt u)"
    using assms(2) by (simp add: valid_terminal_observation_def)
  have first: "first (js_sort (compare_observations lc) ?cs) = Some t"
    using assms(3) by (simp add: choose_terminal_eq)
  have t: "t \<in> set terminals \<and> terminal_candidate w t"
    by (rule choose_terminal_candidate [OF assms(3)])
  have "to_confidence u \<le> to_confidence t \<and> (to_confidence u = to_confidence t \<longrightarrow>
      ts_millis (to_observedAt u) \<le> ts_millis (to_observedAt t))"
    if u: "u \<in> set ?cs" for u
  proof -
    have "compare_observations lc t u \<le> 0"
      by (rule js_comparator.first_js_sort_least
          [OF compare_observations_comparator [OF assms(1)] valid first u])
    moreover have "ts_valid (to_observedAt t)" "ts_valid (to_observedAt u)"
      using valid u t by auto
    ultimately show ?thesis by (rule compare_observationsD)
  qed
  with t show ?thesis by simp
qed

lemma choose_harness_run_mem:
  "choose_harness_run lc w t runs = Some r \<Longrightarrow> r \<in> set runs"
  by (auto simp: choose_harness_run_def Let_def find_Some_iff split: option.splits
      dest: first_js_sort)

text \<open>An explicit binding decides: when the chosen terminal names a run that was discovered, that
  run is the row's run, whatever other runs claim the worktree.\<close>

lemma bound_run_wins:
  assumes "to_harnessRunId t = Some rid" and "distinct (map (\<lambda>r. ro_id (hr_run r)) runs)"
    and "r \<in> set runs" and "ro_id (hr_run r) = rid"
  shows "choose_harness_run lc w (Some t) runs = Some r"
proof -
  have "find (\<lambda>run. ro_id (hr_run run) = rid) runs = Some r"
    using assms(2-4)
  proof (induction runs)
    case Nil
    then show ?case by simp
  next
    case (Cons x xs)
    then show ?case by (cases "x = r") (auto simp: image_iff)
  qed
  with assms(1) show ?thesis by (simp add: choose_harness_run_def)
qed

text \<open>Without a binding, the row's run is a run of this worktree that no other run of the
  worktree beats: none has a more urgent status, and among equally urgent ones none is reported
  with more confidence.\<close>

lemma chosen_run_is_most_urgent:
  assumes "collation lc" and "\<forall>r \<in> set runs. valid_status (hr_status r)"
    and "choose_harness_run lc w None runs = Some r"
  shows "ro_worktreeId (hr_run r) = Some (wo_id w) \<and>
    (\<forall>u \<in> set runs. ro_worktreeId (hr_run u) = Some (wo_id w) \<longrightarrow>
      run_priority r \<le> run_priority u \<and>
      (run_priority r = run_priority u \<longrightarrow>
        os_confidence (hr_status u) \<le> os_confidence (hr_status r)))"
proof -
  let ?cs = "filter (\<lambda>u. ro_worktreeId (hr_run u) = Some (wo_id w)) runs"
  have first: "first (js_sort (compare_harness_runs lc) ?cs) = Some r"
    using assms(3) by (simp add: choose_harness_run_def)
  have valid: "\<forall>u \<in> set ?cs. ts_valid (os_updatedAt (hr_status u))"
    using assms(2) by (simp add: valid_status_def)
  have "compare_harness_runs lc r u \<le> 0" if "u \<in> set ?cs" for u
    by (rule js_comparator.first_js_sort_least
        [OF compare_harness_runs_comparator [OF assms(1)] valid first that])
  then show ?thesis using first_js_sort [OF first] compare_harness_runsD by auto
qed


subsection \<open>Nothing disappears\<close>

lemma graph_orphans_mem:
  "(\<exists>os. graph_orphans input = Some os \<and> orphan \<in> set os) \<longleftrightarrow>
     (\<exists>t \<in> set (gi_terminalTargets input). terminal_orphan (gi_projects input)
        (configured_worktrees input) (gi_harnessRuns input) t = Some orphan) \<or>
     (\<exists>r \<in> set (gi_harnessRuns input). run_orphan (gi_projects input)
        (configured_worktrees input) r = Some orphan)"
proof -
  let ?os = "orphan_list (gi_projects input) (configured_worktrees input)
    (gi_terminalTargets input) (gi_harnessRuns input)"
  have "(\<exists>os. graph_orphans input = Some os \<and> orphan \<in> set os) \<longleftrightarrow> orphan \<in> set ?os"
    by (cases ?os) (simp_all add: graph_orphans_def Let_def)
  then show ?thesis by (simp add: orphan_list_def map_filter_mem)
qed

lemma terminal_orphan_None:
  assumes "terminal_orphan ps ws runs t = None"
  shows "\<exists>w \<in> set ws. terminal_candidate w t"
proof -
  from assms obtain w where w: "Option.bind (to_worktreeId t) (js_map wo_id ws) = Some w"
      and "terminal_target_matches_worktree t w"
    by (cases "Option.bind (to_worktreeId t) (js_map wo_id ws)")
      (simp_all add: terminal_orphan_def Let_def split: if_splits)
  moreover from w obtain wid where "to_worktreeId t = Some wid" "js_map wo_id ws wid = Some w"
    by (auto simp: bind_eq_Some_conv)
  ultimately show ?thesis using js_map_Some [of wo_id ws wid w] by (auto simp: terminal_candidate_def)
qed

lemma terminal_orphan_Some:
  "terminal_orphan ps ws runs t = Some orphan \<Longrightarrow>
     or_terminalTargetId orphan = Some (to_id t) \<and> or_kind orphan = OrphanTerminalTarget \<and>
     or_provider orphan = to_provider t \<and> or_projectId orphan = to_projectId t \<and>
     or_worktreeId orphan = to_worktreeId t \<and> or_sessionId orphan = to_sessionId t \<and>
     or_observedAt orphan = to_observedAt t \<and> or_harnessRunId orphan = None \<and>
     or_id orphan = ''orphan_'' @ to_id t \<and> or_reason orphan \<noteq> []"
  by (auto simp: terminal_orphan_def Let_def split: if_splits)

lemma run_orphan_Some:
  "run_orphan ps ws r = Some orphan \<Longrightarrow>
     or_harnessRunId orphan = Some (ro_id (hr_run r)) \<and> or_kind orphan = OrphanHarnessRun \<and>
     or_provider orphan = ro_provider (hr_run r) \<and> or_projectId orphan = ro_projectId (hr_run r) \<and>
     or_worktreeId orphan = ro_worktreeId (hr_run r) \<and>
     or_sessionId orphan = ro_sessionId (hr_run r) \<and>
     or_observedAt orphan = ro_observedAt (hr_run r) \<and> or_terminalTargetId orphan = None \<and>
     or_id orphan = ''orphan_'' @ ro_id (hr_run r) \<and> or_reason orphan \<noteq> []"
  by (auto simp: run_orphan_def Let_def split: if_splits)

lemma run_orphan_None:
  "run_orphan ps ws r = None \<Longrightarrow> \<exists>w \<in> set ws. ro_worktreeId (hr_run r) = Some (wo_id w)"
  by (auto simp: run_orphan_def Let_def dest!: js_map_Some split: if_splits option.splits)

text \<open>C3: No runtime state disappears from the snapshot. A terminal target either belongs to a
  worktree of a configured project (it names the worktree and its path lies in it) or is listed
  as an orphan; a harness run either names a worktree of a configured project or is listed as an
  orphan.\<close>

theorem runtime_state_never_disappears:
  "(\<forall>t \<in> set (gi_terminalTargets input).
      (\<exists>w \<in> set (configured_worktrees input). terminal_candidate w t) \<or>
      (\<exists>os orphan. ss_orphans (build_wosm_snapshot lc input) = Some os \<and> orphan \<in> set os \<and>
        or_terminalTargetId orphan = Some (to_id t))) \<and>
   (\<forall>r \<in> set (gi_harnessRuns input).
      (\<exists>w \<in> set (configured_worktrees input). ro_worktreeId (hr_run r) = Some (wo_id w)) \<or>
      (\<exists>os orphan. ss_orphans (build_wosm_snapshot lc input) = Some os \<and> orphan \<in> set os \<and>
        or_harnessRunId orphan = Some (ro_id (hr_run r))))"
proof (intro conjI ballI)
  fix t
  assume t: "t \<in> set (gi_terminalTargets input)"
  show "(\<exists>w \<in> set (configured_worktrees input). terminal_candidate w t) \<or>
      (\<exists>os orphan. ss_orphans (build_wosm_snapshot lc input) = Some os \<and> orphan \<in> set os \<and>
        or_terminalTargetId orphan = Some (to_id t))"
  proof (cases "terminal_orphan (gi_projects input) (configured_worktrees input)
      (gi_harnessRuns input) t")
    case None
    then show ?thesis using terminal_orphan_None by blast
  next
    case (Some orphan)
    with t have "\<exists>os. graph_orphans input = Some os \<and> orphan \<in> set os"
      by (auto simp: graph_orphans_mem)
    with terminal_orphan_Some [OF Some] show ?thesis by auto
  qed
next
  fix r
  assume r: "r \<in> set (gi_harnessRuns input)"
  show "(\<exists>w \<in> set (configured_worktrees input). ro_worktreeId (hr_run r) = Some (wo_id w)) \<or>
      (\<exists>os orphan. ss_orphans (build_wosm_snapshot lc input) = Some os \<and> orphan \<in> set os \<and>
        or_harnessRunId orphan = Some (ro_id (hr_run r)))"
  proof (cases "run_orphan (gi_projects input) (configured_worktrees input) r")
    case None
    then show ?thesis using run_orphan_None by blast
  next
    case (Some orphan)
    with r have "\<exists>os. graph_orphans input = Some os \<and> orphan \<in> set os"
      by (auto simp: graph_orphans_mem)
    with run_orphan_Some [OF Some] show ?thesis by auto
  qed
qed

subsection \<open>Sessions agree with rows\<close>

lemma graph_sessions_mem:
  "s \<in> set (graph_sessions lc input) \<longleftrightarrow>
     (\<exists>p \<in> set (gi_projects input). \<exists>w \<in> set (project_worktrees input p).
        graph_session lc input p w = Some s)"
  by (auto simp: graph_sessions_def map_filter_mem)

lemma build_session_Some:
  assumes "build_session p w t hr caps meta = Some s"
  obtains t' hr' where "t = Some t'" "hr = Some hr'"
    "nullish_opt (ro_sessionId (hr_run hr')) (to_sessionId t') = Some (sv_id s)"
    "sv_projectId s = pc_id p" "sv_worktreeId s = wo_id w"
    "sv_createdAt s = ro_observedAt (hr_run hr')" "sv_updatedAt s = os_updatedAt (hr_status hr')"
    "sh_provider (sv_harness s) = ro_provider (hr_run hr')" "sh_pid (sv_harness s) = ro_pid (hr_run hr')"
    "sh_runId (sv_harness s) = Some (ro_id (hr_run hr'))"
    "sv_terminal s = terminal_attachment_of t' (Some hr')" "sv_status s = hr_status hr'"
    "sv_title s = nullish (Option.bind (meta (sv_id s)) sm_title) (wo_branch w)" "sv_tags s = []"
  using assms by (auto simp: build_session_def split: option.splits)

text \<open>Every session of the snapshot agrees with a row: the row of the session's worktree and
  project shows the session's terminal, and an agent with the session's provider, run, process
  and status.\<close>

lemma sessions_agree_with_rows:
  assumes "s \<in> set (ss_sessions (build_wosm_snapshot lc input))"
  shows "\<exists>r \<in> set (ss_rows (build_wosm_snapshot lc input)).
    row_id r = sv_worktreeId s \<and> row_projectId r = sv_projectId s \<and>
    row_terminal r = Some (sv_terminal s) \<and>
    (\<exists>a. row_agent r = Some a \<and> ag_harness a = sh_provider (sv_harness s) \<and>
      ag_runId a = sh_runId (sv_harness s) \<and> ag_pid a = sh_pid (sv_harness s) \<and>
      ag_state a = os_value (sv_status s) \<and> ag_confidence a = os_confidence (sv_status s) \<and>
      ag_reason a = os_reason (sv_status s) \<and> ag_updatedAt a = sv_updatedAt s)"
proof -
  from assms obtain p w where pw: "p \<in> set (gi_projects input)" "w \<in> set (project_worktrees input p)"
      "graph_session lc input p w = Some s"
    by (auto simp: graph_sessions_mem)
  then have "graph_row lc input p w \<in> set (graph_rows lc input)"
    by (auto simp: graph_row_mem)
  moreover from pw(3) obtain t hr where "worktree_terminal lc input w = Some t"
      "worktree_run lc input w = Some hr" "sv_projectId s = pc_id p" "sv_worktreeId s = wo_id w"
      "sv_updatedAt s = os_updatedAt (hr_status hr)"
      "sh_provider (sv_harness s) = ro_provider (hr_run hr)" "sh_pid (sv_harness s) = ro_pid (hr_run hr)"
      "sh_runId (sv_harness s) = Some (ro_id (hr_run hr))"
      "sv_terminal s = terminal_attachment_of t (Some hr)" "sv_status s = hr_status hr"
    unfolding graph_session_def by (rule build_session_Some)
  ultimately show ?thesis
    by (intro bexI [of _ "graph_row lc input p w"]) (simp_all add: row_agent_of_def Let_def)
qed


subsection \<open>Recovery actions and health\<close>

lemma has_live_agent_recovery [simp]: "has_live_agent (row\<lparr>row_recovery := x\<rparr>) = has_live_agent row"
  by (simp add: has_live_agent_def cong: option.case_cong)

lemma offered_recovery:
  assumes "r \<in> set (ss_rows (build_wosm_snapshot lc input))" and "row_recovery r = Some action"
  shows "(\<exists>f. gi_featureFlags input = Some f \<and> ff_sessionResumeAgent f) \<and> \<not> has_live_agent r \<and>
    (\<exists>handle. filter (\<lambda>h. rh_projectId h = row_projectId r \<and> rh_worktreeId h = row_id r \<and>
        can_resume (gi_harnessCapabilities input) (rh_provider h)) (gi_recoveryHandles input) = [handle] \<and>
      ra_handleId action = rh_id handle \<and> ra_provider action = rh_provider handle)"
proof -
  from assms(1) obtain p w where r: "r = graph_row lc input p w" by (auto simp: graph_row_mem)
  let ?row = "build_worktree_row p w (worktree_terminal lc input w) (worktree_run lc input w)"
  have same: "has_live_agent r = has_live_agent ?row" "row_id r = row_id ?row"
      "row_projectId r = row_projectId ?row"
    by (simp_all add: r graph_row_def Let_def)
  from assms(2) have "recovery_action_for_row ?row (gi_recoveryHandles input)
      (gi_harnessCapabilities input) (gi_featureFlags input) = Some action"
    by (simp add: r graph_row_def Let_def)
  then show ?thesis unfolding same
    by (auto simp: recovery_action_for_row_def split: if_splits option.splits list.splits)
qed

text \<open>C4: A recovery action is offered only when it is safe and unambiguous: the feature flag is on,
  the row has no live agent, and exactly one recovery handle of the row's project and worktree
  belongs to a provider that can resume; the action carries that handle.\<close>

theorem recovery_offered_only_when_safe:
  assumes "r \<in> set (ss_rows (build_wosm_snapshot lc input))" and "row_recovery r = Some action"
  shows "(\<exists>f. gi_featureFlags input = Some f \<and> ff_sessionResumeAgent f) \<and> \<not> has_live_agent r \<and>
    (\<exists>handle. filter (\<lambda>h. rh_projectId h = row_projectId r \<and> rh_worktreeId h = row_id r \<and>
        can_resume (gi_harnessCapabilities input) (rh_provider h)) (gi_recoveryHandles input) = [handle] \<and>
      ra_handleId action = rh_id handle \<and> ra_provider action = rh_provider handle)"
  using assms by (rule offered_recovery)

text \<open>Health is reported faithfully. Unless the caller overrides it, the observer is healthy
  exactly when no provider is unavailable and no alert passed in is an error; and every provider
  that is unavailable or degraded has an alert that names it, with severity error exactly when it
  is unavailable.\<close>

lemma observer_health_reflects_providers:
  assumes "gi_healthy input = None"
  shows "(oi_healthy (ss_observer (build_wosm_snapshot lc input)) \<longleftrightarrow>
      (\<forall>h \<in> set (map snd (gi_providerHealth input)). ph_status h \<noteq> Unavailable) \<and>
      (\<forall>a \<in> set (gi_alerts input). al_severity a \<noteq> SeverityError)) \<and>
    (\<forall>h \<in> set (map snd (gi_providerHealth input)). ph_status h \<in> {Unavailable, Degraded} \<longrightarrow>
      (\<exists>a \<in> set (ss_alerts (build_wosm_snapshot lc input)). al_provider a = Some (ph_providerId h) \<and>
        (al_severity a = SeverityError \<longleftrightarrow> ph_status h = Unavailable)))"
proof (intro conjI ballI impI)
  show "oi_healthy (ss_observer (build_wosm_snapshot lc input)) \<longleftrightarrow>
      (\<forall>h \<in> set (map snd (gi_providerHealth input)). ph_status h \<noteq> Unavailable) \<and>
      (\<forall>a \<in> set (gi_alerts input). al_severity a \<noteq> SeverityError)"
    by (auto simp: observer_healthy_def assms graph_alerts_def alerts_from_provider_health_def
        alert_for_health_def list_all_iff list_ex_iff)
next
  fix h
  assume h: "h \<in> set (map snd (gi_providerHealth input))" "ph_status h \<in> {Unavailable, Degraded}"
  then have "alert_for_health (gi_generatedAt input) h \<in> set (graph_alerts input)"
    by (auto simp: graph_alerts_def alerts_from_provider_health_def)
  moreover have "al_provider (alert_for_health (gi_generatedAt input) h) = Some (ph_providerId h)"
    and "al_severity (alert_for_health (gi_generatedAt input) h) = SeverityError \<longleftrightarrow>
      ph_status h = Unavailable"
    by (simp_all add: alert_for_health_def)
  ultimately show "\<exists>a \<in> set (ss_alerts (build_wosm_snapshot lc input)).
      al_provider a = Some (ph_providerId h) \<and>
      (al_severity a = SeverityError \<longleftrightarrow> ph_status h = Unavailable)"
    by auto
qed

subsection \<open>Schema validity\<close>

definition valid_harness_run :: "harness_run \<Rightarrow> bool" where
  "valid_harness_run r = (valid_run_observation (hr_run r) \<and> valid_status (hr_status r))"

definition valid_handle :: "recovery_handle \<Rightarrow> bool" where
  "valid_handle h =
     (non_empty (rh_id h) \<and> non_empty (rh_provider h) \<and> opt_ok non_empty (rh_sessionId h) \<and>
      ts_valid (rh_lastSeenAt h))"

definition valid_graph_input :: "graph_input \<Rightarrow> bool" where
  "valid_graph_input input =
     (list_all valid_project_config (gi_projects input) \<and>
      list_all valid_worktree_observation (gi_worktrees input) \<and>
      list_all valid_terminal_observation (gi_terminalTargets input) \<and>
      list_all valid_harness_run (gi_harnessRuns input) \<and>
      list_all valid_handle (gi_recoveryHandles input) \<and>
      list_all (\<lambda>m. opt_ok non_empty (sm_title m)) (gi_sessionMetadata input))"

lemma valid_attachment:
  "valid_terminal_observation t \<Longrightarrow> valid_terminal_attachment (terminal_attachment_of t hr)"
  by (simp add: valid_terminal_observation_def valid_terminal_attachment_def terminal_attachment_of_def)

lemma valid_row_agent: "valid_harness_run r \<Longrightarrow> valid_agent (row_agent_of r)"
  by (simp add: valid_harness_run_def valid_run_observation_def valid_status_def valid_agent_def
      row_agent_of_def Let_def)

lemma valid_recovery_action:
  "list_all valid_handle handles \<Longrightarrow>
     recovery_action_for_row row handles caps flags = Some a \<Longrightarrow> valid_recovery a"
  by (auto simp: recovery_action_for_row_def valid_recovery_def valid_handle_def list_all_iff
      filter_eq_Cons_iff split: if_splits option.splits list.splits)

lemma project_worktrees_mem:
  "w \<in> set (project_worktrees input p) \<Longrightarrow> w \<in> set (gi_worktrees input)"
  by (auto simp: project_worktrees_def configured_worktrees_def)

lemma worktree_terminal_mem:
  "worktree_terminal lc input w = Some t \<Longrightarrow> t \<in> set (gi_terminalTargets input)"
  by (auto simp: worktree_terminal_def dest: choose_terminal_candidate)

lemma worktree_run_mem:
  "worktree_run lc input w = Some r \<Longrightarrow> r \<in> set (gi_harnessRuns input)"
  by (auto simp: worktree_run_def dest: choose_harness_run_mem)

lemma valid_display_reason:
  assumes "opt_ok valid_harness_run hr"
  shows "opt_ok non_empty (display_reason hr w)"
  using assms
  by (cases hr) (auto simp: display_reason_def valid_harness_run_def valid_status_def non_empty_def)

lemma valid_graph_row:
  assumes "valid_graph_input input" "p \<in> set (gi_projects input)" "w \<in> set (project_worktrees input p)"
  shows "valid_row (graph_row lc input p w)"
proof -
  have p: "valid_project_config p" and w: "valid_worktree_observation w"
    using assms by (auto simp: valid_graph_input_def list_all_iff dest: project_worktrees_mem)
  have hr: "opt_ok valid_harness_run (worktree_run lc input w)"
    using assms(1) by (intro opt_okI) (auto simp: valid_graph_input_def list_all_iff dest: worktree_run_mem)
  have t: "opt_ok valid_terminal_observation (worktree_terminal lc input w)"
    using assms(1)
    by (intro opt_okI) (auto simp: valid_graph_input_def list_all_iff dest: worktree_terminal_mem)
  have "opt_ok valid_terminal_attachment (row_terminal (graph_row lc input p w))"
    using t by (cases "worktree_terminal lc input w") (auto intro: valid_attachment)
  moreover have "opt_ok valid_agent (row_agent (graph_row lc input p w))"
    using hr by (cases "worktree_run lc input w") (auto intro: valid_row_agent)
  moreover have "opt_ok valid_recovery (row_recovery (graph_row lc input p w))"
    using assms(1) by (intro opt_okI)
      (auto simp: graph_row_def Let_def valid_graph_input_def intro: valid_recovery_action)
  moreover have "opt_ok non_empty (rd_reason (row_display (graph_row lc input p w)))"
    using valid_display_reason [OF hr] by (simp add: graph_row_def build_worktree_row_def Let_def)
  ultimately show ?thesis
    using p w by (simp add: valid_row_def valid_project_config_def valid_worktree_observation_def)
      (simp add: graph_row_def build_worktree_row_def worktree_runtime_of_def Let_def)
qed

lemma valid_graph_session:
  assumes "valid_graph_input input" "p \<in> set (gi_projects input)" "w \<in> set (project_worktrees input p)"
    "graph_session lc input p w = Some s"
  shows "valid_session s"
proof -
  from assms(4) obtain t hr where c: "worktree_terminal lc input w = Some t"
      "worktree_run lc input w = Some hr"
      "nullish_opt (ro_sessionId (hr_run hr)) (to_sessionId t) = Some (sv_id s)"
      "sv_projectId s = pc_id p" "sv_worktreeId s = wo_id w"
      "sv_createdAt s = ro_observedAt (hr_run hr)" "sv_updatedAt s = os_updatedAt (hr_status hr)"
      "sh_provider (sv_harness s) = ro_provider (hr_run hr)" "sh_pid (sv_harness s) = ro_pid (hr_run hr)"
      "sh_runId (sv_harness s) = Some (ro_id (hr_run hr))"
      "sv_terminal s = terminal_attachment_of t (Some hr)" "sv_status s = hr_status hr"
      "sv_title s = nullish (Option.bind (js_map sm_id (gi_sessionMetadata input) (sv_id s)) sm_title)
        (wo_branch w)" "sv_tags s = []"
    unfolding graph_session_def by (rule build_session_Some)
  have p: "valid_project_config p" and w: "valid_worktree_observation w"
    using assms by (auto simp: valid_graph_input_def list_all_iff dest: project_worktrees_mem)
  have t: "valid_terminal_observation t" and hr: "valid_harness_run hr"
    using assms(1) c(1,2)
    by (auto simp: valid_graph_input_def list_all_iff dest: worktree_terminal_mem worktree_run_mem)
  have "non_empty (sv_id s)"
    using c(3) t hr by (cases "ro_sessionId (hr_run hr)")
      (auto simp: valid_harness_run_def valid_run_observation_def valid_terminal_observation_def)
  moreover have "non_empty (sv_title s)"
  proof (cases "Option.bind (js_map sm_id (gi_sessionMetadata input) (sv_id s)) sm_title")
    case None
    with c(13) w show ?thesis by (simp add: valid_worktree_observation_def)
  next
    case (Some title)
    then obtain m where "m \<in> set (gi_sessionMetadata input)" "sm_title m = Some title"
      by (auto simp: bind_eq_Some_conv dest: js_map_Some)
    with assms(1) Some c(13) show ?thesis by (auto simp: valid_graph_input_def list_all_iff)
  qed
  moreover note valid_attachment [OF t, of "Some hr"]
  ultimately show ?thesis
    using c p w hr
    by (simp add: valid_session_def valid_project_config_def valid_worktree_observation_def
        valid_harness_run_def valid_run_observation_def valid_status_def)
qed

lemma valid_graph_orphan:
  assumes "valid_graph_input input" "graph_orphans input = Some os" "orphan \<in> set os"
  shows "valid_orphan orphan"
proof -
  have "(\<exists>t \<in> set (gi_terminalTargets input). terminal_orphan (gi_projects input)
        (configured_worktrees input) (gi_harnessRuns input) t = Some orphan) \<or>
     (\<exists>r \<in> set (gi_harnessRuns input). run_orphan (gi_projects input)
        (configured_worktrees input) r = Some orphan)"
    using assms(2,3) graph_orphans_mem by blast
  then show ?thesis
  proof (elim disjE bexE)
    fix t
    assume "t \<in> set (gi_terminalTargets input)"
      and o: "terminal_orphan (gi_projects input) (configured_worktrees input) (gi_harnessRuns input) t
        = Some orphan"
    with assms(1) have "valid_terminal_observation t" by (simp add: valid_graph_input_def list_all_iff)
    with terminal_orphan_Some [OF o] show ?thesis
      by (simp add: valid_orphan_def valid_terminal_observation_def non_empty_def)
  next
    fix r
    assume "r \<in> set (gi_harnessRuns input)"
      and o: "run_orphan (gi_projects input) (configured_worktrees input) r = Some orphan"
    with assms(1) have "valid_harness_run r" by (simp add: valid_graph_input_def list_all_iff)
    with run_orphan_Some [OF o] show ?thesis
      by (simp add: valid_orphan_def valid_harness_run_def valid_run_observation_def non_empty_def)
  qed
qed


subsection \<open>A sample input\<close>

definition sample_project :: "project_id \<Rightarrow> project_config" where
  "sample_project i = \<lparr>pc_id = i, pc_label = ''Label'', pc_root = ''/repo'', pc_defaultBranch = None,
     pc_defaults = \<lparr>pd_harness = ''codex'', pd_terminal = ''tmux'', pd_layout = ''default''\<rparr>,
     pc_worktrunk = \<lparr>wc_enabled = True, wc_base = None, wc_managedRoot = None,
       wc_includeMain = None, wc_includeExternal = None\<rparr>,
     pc_recoveryBreadcrumbs = None\<rparr>"

definition sample_worktree :: "worktree_id \<Rightarrow> project_id \<Rightarrow> string \<Rightarrow> string \<Rightarrow> worktree_observation" where
  "sample_worktree i p branch path = \<lparr>wo_id = i, wo_provider = ''worktrunk'', wo_projectId = p,
     wo_branch = branch, wo_path = path, wo_state = WtExists, wo_source = FromWorktrunk,
     wo_dirty = None, wo_ahead = None, wo_behind = None, wo_pr = None, wo_changeSummary = None,
     wo_checks = None, wo_confidence = None, wo_reason = None,
     wo_observedAt = ''2026-01-01T00:00:00Z'', wo_providerData = None\<rparr>"

definition sample_terminal ::
  "terminal_target_id \<Rightarrow> worktree_id option \<Rightarrow> harness_run_id option \<Rightarrow> string option \<Rightarrow>
     confidence \<Rightarrow> terminal_observation" where
  "sample_terminal i wid rid cwd c = \<lparr>to_id = i, to_provider = ''tmux'', to_projectId = None,
     to_worktreeId = wid, to_sessionId = None, to_harnessRunId = rid, to_state = TermOpen,
     to_cwd = cwd, to_pid = None, to_title = None, to_confidence = c, to_reason = ''pane'',
     to_observedAt = ''2026-01-01T00:00:00Z'', to_harnessBinding = None, to_providerData = None\<rparr>"

definition sample_harness_run ::
  "harness_run_id \<Rightarrow> worktree_id option \<Rightarrow> session_id option \<Rightarrow> agent_state \<Rightarrow> harness_run" where
  "sample_harness_run i wid sid state = harness_run_from_run
     \<lparr>ro_id = i, ro_provider = ''codex'', ro_projectId = None, ro_worktreeId = wid,
      ro_sessionId = sid, ro_pid = Some 7, ro_cwd = None, ro_state = state, ro_confidence = High,
      ro_reason = ''seen'', ro_observedAt = ''2026-01-01T00:00:00Z'', ro_providerData = None\<rparr>"

definition sample_handle :: recovery_handle where
  "sample_handle = \<lparr>rh_id = ''h1'', rh_provider = ''codex'', rh_projectId = ''p1'',
     rh_worktreeId = ''w2'', rh_sessionId = None, rh_target = NativeSession ''n1'', rh_cwd = None,
     rh_terminalTargetId = None, rh_harnessRunId = None, rh_observedAt = ''2026-01-01T00:00:00Z'',
     rh_lastSeenAt = ''2026-01-01T00:00:00Z''\<rparr>"

definition resume_capabilities :: harness_capabilities where
  "resume_capabilities = empty_harness_capabilities\<lparr>canResume := True\<rparr>"

definition sample_health :: "provider_id \<Rightarrow> health_status \<Rightarrow> provider_health" where
  "sample_health i st = \<lparr>ph_providerId = i, ph_providerType = WorktreeProvider, ph_status = st,
     ph_lastCheckedAt = ''2026-01-01T00:00:00Z'', ph_lastError = None, ph_latencyMs = None,
     ph_capabilities = None, ph_diagnostics = None\<rparr>"

definition sample_input :: graph_input where
  "sample_input = \<lparr>gi_generatedAt = ''2026-01-01T00:00:00Z'', gi_pid = 1,
     gi_startedAt = ''2026-01-01T00:00:00Z'', gi_version = ''0.0.0'', gi_healthy = None,
     gi_projects = [sample_project ''p1''], gi_worktreeProviderId = ''worktrunk'',
     gi_providerHealth = [(''worktrunk'', sample_health ''worktrunk'' Degraded)],
     gi_harnesses = None, gi_harnessCapabilities = [(''codex'', resume_capabilities)],
     gi_worktrees = [sample_worktree ''w2'' ''p1'' ''b'' ''/b'', sample_worktree ''w1'' ''p1'' ''a'' ''/a'',
       sample_worktree ''w3'' ''p9'' ''c'' ''/c''],
     gi_terminalTargets = [sample_terminal ''t1'' (Some ''w1'') (Some ''r1'') None High,
       sample_terminal ''t2'' (Some ''w2'') None (Some ''/elsewhere'') Low],
     gi_harnessRuns = [sample_harness_run ''r1'' (Some ''w1'') (Some ''s1'') AgentWorking,
       sample_harness_run ''r9'' (Some ''w9'') None AgentIdle],
     gi_sessionMetadata = [], gi_recoveryHandles = [sample_handle], gi_alerts = [],
     gi_featureFlags = Some \<lparr>ff_revision = ''1'', ff_sessionResumeAgent = True\<rparr>\<rparr>"

subsection \<open>Witnesses\<close>

lemma sample_facts:
  "distinct (map pc_id (gi_projects sample_input))"
  "valid_graph_input sample_input"
  "gi_healthy sample_input = None"
  "map row_id (graph_rows code_unit_compare sample_input) = [''w1'', ''w2'']"
  "map sv_id (graph_sessions code_unit_compare sample_input) = [''s1'']"
  "map (map_option ra_handleId \<circ> row_recovery) (graph_rows code_unit_compare sample_input) =
     [None, Some ''h1'']"
  "map_option (map or_id) (graph_orphans sample_input) = Some [''orphan_t2'', ''orphan_r9'']"
  by code_simp+

lemma snapshot_rows_cover_worktrees_witness:
  "mset (map row_id (ss_rows (build_wosm_snapshot code_unit_compare sample_input))) = {#''w1'', ''w2''#}"
proof -
  have "mset (map wo_id (filter (\<lambda>w. wo_projectId w \<in> pc_id ` set (gi_projects sample_input))
      (gi_worktrees sample_input))) = {#''w1'', ''w2''#}"
    by (simp add: sample_input_def sample_worktree_def sample_project_def)
  then show ?thesis
    using snapshot_rows_cover_worktrees [OF sample_facts(1), of code_unit_compare] by simp
qed

lemma chosen_terminal_is_best_witness:
  "choose_terminal code_unit_compare (sample_worktree ''w1'' ''p1'' ''a'' ''/a'')
     [sample_terminal ''t1'' (Some ''w1'') None None Low, sample_terminal ''t2'' (Some ''w1'') None None High]
   = Some (sample_terminal ''t2'' (Some ''w1'') None None High) \<and> Low \<le> High"
proof -
  let ?w = "sample_worktree ''w1'' ''p1'' ''a'' ''/a''"
  let ?ts = "[sample_terminal ''t1'' (Some ''w1'') None None Low,
    sample_terminal ''t2'' (Some ''w1'') None None High]"
  have chosen: "choose_terminal code_unit_compare ?w ?ts
      = Some (sample_terminal ''t2'' (Some ''w1'') None None High)" by code_simp
  have valid: "\<forall>t \<in> set ?ts. valid_terminal_observation t" by code_simp
  have cand: "terminal_candidate ?w (hd ?ts)" by code_simp
  from chosen_terminal_is_best [OF code_units.collation_axioms valid chosen] cand
  have "to_confidence (hd ?ts) \<le> High" by (simp add: sample_terminal_def)
  then show ?thesis using chosen by (simp add: sample_terminal_def)
qed

lemma runtime_state_never_disappears_witness:
  "\<exists>os orphan. graph_orphans sample_input = Some os \<and> orphan \<in> set os \<and>
     or_harnessRunId orphan = Some ''r9''"
proof -
  have r: "sample_harness_run ''r9'' (Some ''w9'') None AgentIdle \<in> set (gi_harnessRuns sample_input)"
    by (simp add: sample_input_def)
  have no: "\<not> (\<exists>w \<in> set (configured_worktrees sample_input).
      ro_worktreeId (hr_run (sample_harness_run ''r9'' (Some ''w9'') None AgentIdle)) = Some (wo_id w))"
    by code_simp
  have i: "ro_id (hr_run (sample_harness_run ''r9'' (Some ''w9'') None AgentIdle)) = ''r9''"
    by (simp add: sample_harness_run_def harness_run_from_run_def)
  from runtime_state_never_disappears [THEN conjunct2, THEN bspec, OF r] no
  show ?thesis unfolding i build_snapshot_simps by blast
qed

lemma recovery_offered_only_when_safe_witness:
  "\<exists>r \<in> set (graph_rows code_unit_compare sample_input).
     row_recovery r \<noteq> None \<and> \<not> has_live_agent r"
proof -
  have "\<exists>r \<in> set (graph_rows code_unit_compare sample_input). row_recovery r \<noteq> None" by code_simp
  then obtain r a where r: "r \<in> set (ss_rows (build_wosm_snapshot code_unit_compare sample_input))"
      "row_recovery r = Some a" by auto
  from recovery_offered_only_when_safe [OF this] r show ?thesis by auto
qed


end
