(* ===== verification/Commands.thy ===== *)
theory Commands
  imports Snapshots
begin

section \<open>Contracts: commands and events (commands.ts, events.ts)\<close>

text \<open>
  The commands a client dispatches, the receipts and records the observer keeps of them, and
  the events the observer publishes. A patch of a row or a session (a partial object) has an
  \<open>option\<close> per field; for the optional fields of a row that the reducer tests with
  \<^verbatim>\<open>in\<close>, the patch distinguishes an absent key (\<open>None\<close>) from a key whose value is
  \<^verbatim>\<open>undefined\<close> (\<open>Some None\<close>).
\<close>

subsection \<open>Command payloads\<close>

datatype source_kind = SourceBranch | SourcePr | SourceManual
datatype run_mode = RunInteractive | RunExec
datatype terminal_layout = LayoutDefault | LayoutAgentOnly | LayoutAgentBuildShell
datatype close_mode = CloseHarness | CloseTerminal | CloseAll
datatype prompt_delivery = HarnessNative | PasteAndFocus

record command_source =
  src_kind :: source_kind
  src_value :: string

record focus_origin =
  fo_provider :: provider_id
  fo_clientId :: "string option"

record terminal_options =
  to_opt_provider :: "provider_id option"
  to_opt_layout :: "terminal_layout option"
  to_opt_focus :: "bool option"
  to_opt_origin :: "focus_origin option"

record create_worktree_payload =
  cw_projectId :: project_id
  cw_branch :: string
  cw_base :: "string option"
  cw_path :: "string option"
  cw_source :: "command_source option"

record remove_worktree_payload =
  rw_worktreeId :: worktree_id
  rw_projectId :: "project_id option"
  rw_force :: "bool option"

record harness_options =
  ho_provider :: "provider_id option"
  ho_mode :: "run_mode option"
  ho_profile :: "string option"
  ho_approvalPolicy :: "string option"
  ho_sandboxMode :: "string option"

record create_session_payload =
  cse_projectId :: project_id
  cse_branch :: string
  cse_base :: "string option"
  cse_source :: "command_source option"
  cse_harness :: harness_options
  cse_terminal :: terminal_options
  cse_initialPrompt :: "string option"

record start_agent_payload =
  sa_projectId :: project_id
  sa_worktreeId :: worktree_id
  sa_harness :: "harness_options option"
  sa_terminal :: "terminal_options option"
  sa_initialPrompt :: "string option"

record resume_agent_payload =
  re_projectId :: project_id
  re_worktreeId :: worktree_id
  re_recoveryHandleId :: "string option"
  re_terminal :: "terminal_options option"
  re_initialPrompt :: "string option"

record terminal_focus_payload =
  tf_sessionId :: "session_id option"
  tf_worktreeId :: "worktree_id option"
  tf_origin :: "focus_origin option"

record terminal_close_payload =
  tc_sessionId :: "session_id option"
  tc_worktreeId :: "worktree_id option"
  tc_force :: "bool option"

datatype wosm_command =
  CreateWorktree create_worktree_payload
| RemoveWorktree remove_worktree_payload
| CreateSession create_session_payload
| StartAgent start_agent_payload
| ResumeAgent resume_agent_payload
| TerminalFocus terminal_focus_payload
| TerminalClose terminal_close_payload
| CloseSession session_id close_mode "bool option"
| RemoveSession session_id bool "bool option"
| SendPrompt session_id string "prompt_delivery option"
| RenameSession session_id string
| ObserverReconcile "string option"
| AddProject string "project_id option" "string option" "bool option"
| RemoveProject project_id
| InstallHooks provider_id

datatype command_type =
  TWorktreeCreate | TWorktreeRemove | TSessionCreate | TSessionStartAgent | TSessionResumeAgent
| TTerminalFocus | TTerminalClose | TSessionClose | TSessionRemove | TSessionSendPrompt
| TSessionRename | TObserverReconcile | TProjectAdd | TProjectRemove | THooksInstall

fun type_of_command :: "wosm_command \<Rightarrow> command_type" where
  "type_of_command (CreateWorktree p) = TWorktreeCreate"
| "type_of_command (RemoveWorktree p) = TWorktreeRemove"
| "type_of_command (CreateSession p) = TSessionCreate"
| "type_of_command (StartAgent p) = TSessionStartAgent"
| "type_of_command (ResumeAgent p) = TSessionResumeAgent"
| "type_of_command (TerminalFocus p) = TTerminalFocus"
| "type_of_command (TerminalClose p) = TTerminalClose"
| "type_of_command (CloseSession s m f) = TSessionClose"
| "type_of_command (RemoveSession s w f) = TSessionRemove"
| "type_of_command (SendPrompt s p d) = TSessionSendPrompt"
| "type_of_command (RenameSession s t) = TSessionRename"
| "type_of_command (ObserverReconcile r) = TObserverReconcile"
| "type_of_command (AddProject p i l a) = TProjectAdd"
| "type_of_command (RemoveProject p) = TProjectRemove"
| "type_of_command (InstallHooks p) = THooksInstall"

text \<open>The schema demands that a terminal command names a session or a worktree (\<^verbatim>\<open>refine\<close>).\<close>

fun command_well_formed :: "wosm_command \<Rightarrow> bool" where
  "command_well_formed (TerminalFocus p) =
     (case nullish_opt (tf_sessionId p) (tf_worktreeId p) of None \<Rightarrow> False | Some i \<Rightarrow> i \<noteq> [])"
| "command_well_formed (TerminalClose p) =
     (case nullish_opt (tc_sessionId p) (tc_worktreeId p) of None \<Rightarrow> False | Some i \<Rightarrow> i \<noteq> [])"
| "command_well_formed _ = True"

datatype command_receipt_status = CommandReceiptAccepted | CommandReceiptRejected

record command_receipt =
  cr_commandId :: command_id
  cr_traceId :: "string option"
  cr_spanId :: "string option"
  cr_accepted :: bool
  cr_status :: command_receipt_status
  cr_error :: "safe_error option"

subsection \<open>Events\<close>

record row_patch =
  rp_id :: "worktree_id option"
  rp_projectId :: "project_id option"
  rp_projectLabel :: "string option"
  rp_branch :: "string option"
  rp_path :: "string option"
  rp_worktree :: "worktree_runtime option"
  rp_terminal :: "terminal_attachment option option"
  rp_agent :: "worktree_agent option option"
  rp_recovery :: "recovery_action option"
  rp_display :: "row_display option"

record session_patch =
  sp_id :: "session_id option"
  sp_projectId :: "project_id option"
  sp_worktreeId :: "worktree_id option"
  sp_createdAt :: "timestamp option"
  sp_updatedAt :: "timestamp option"
  sp_harness :: "session_harness option"
  sp_terminal :: "terminal_attachment option"
  sp_status :: "observed_status option"
  sp_title :: "string option"
  sp_tags :: "string list option"

datatype change_source = FromHarnessEventReport | FromReconcile

record agent_state_change =
  sc_worktreeId :: worktree_id
  sc_agent :: "worktree_agent option"
  sc_sessionTitle :: "string option"
  sc_changeSource :: "change_source option"
  sc_harnessEventType :: "string option"
  sc_reportId :: "string option"

record trace_fields =
  tr_traceId :: "string option"
  tr_spanId :: "string option"

datatype wosm_event =
  ObserverStarted timestamp
| ObserverReconciled timestamp nat trace_fields
| ProjectUpdated project_id
| WorktreeAdded worktree_row
| WorktreeUpdated worktree_id row_patch
| WorktreeRemoved worktree_id
| AgentStateChanged agent_state_change
| SessionCreated session_view
| SessionUpdated session_id session_patch
| SessionRemoved session_id
| CommandAccepted command_id wosm_command trace_fields
| CommandStarted command_id wosm_command trace_fields
| CommandSucceeded command_id trace_fields
| CommandFailed command_id safe_error trace_fields
| ProviderHealthChanged provider_id provider_health
| ProviderHookIngested timestamp string provider_id string
| HarnessEventReported timestamp string provider_id string
| ProviderHookSpoolDrained timestamp nat nat

definition empty_row_patch :: row_patch where
  "empty_row_patch = \<lparr>rp_id = None, rp_projectId = None, rp_projectLabel = None, rp_branch = None,
     rp_path = None, rp_worktree = None, rp_terminal = None, rp_agent = None, rp_recovery = None,
     rp_display = None\<rparr>"

definition empty_session_patch :: session_patch where
  "empty_session_patch = \<lparr>sp_id = None, sp_projectId = None, sp_worktreeId = None,
     sp_createdAt = None, sp_updatedAt = None, sp_harness = None, sp_terminal = None,
     sp_status = None, sp_title = None, sp_tags = None\<rparr>"

record event_metadata =
  em_commandId :: "command_id option"
  em_traceId :: "string option"
  em_timestamp :: "timestamp option"

fun wosm_event_metadata :: "wosm_event \<Rightarrow> event_metadata" where
  "wosm_event_metadata (CommandAccepted c cmd tr) =
     \<lparr>em_commandId = Some c, em_traceId = tr_traceId tr, em_timestamp = None\<rparr>"
| "wosm_event_metadata (CommandStarted c cmd tr) =
     \<lparr>em_commandId = Some c, em_traceId = tr_traceId tr, em_timestamp = None\<rparr>"
| "wosm_event_metadata (CommandSucceeded c tr) =
     \<lparr>em_commandId = Some c, em_traceId = tr_traceId tr, em_timestamp = None\<rparr>"
| "wosm_event_metadata (CommandFailed c e tr) =
     \<lparr>em_commandId = Some c, em_traceId = tr_traceId tr, em_timestamp = None\<rparr>"
| "wosm_event_metadata (ObserverReconciled at n tr) =
     \<lparr>em_commandId = None, em_traceId = tr_traceId tr, em_timestamp = Some at\<rparr>"
| "wosm_event_metadata (ObserverStarted at) =
     \<lparr>em_commandId = None, em_traceId = None, em_timestamp = Some at\<rparr>"
| "wosm_event_metadata (ProviderHookIngested at h p e) =
     \<lparr>em_commandId = None, em_traceId = None, em_timestamp = Some at\<rparr>"
| "wosm_event_metadata (HarnessEventReported at r p e) =
     \<lparr>em_commandId = None, em_traceId = None, em_timestamp = Some at\<rparr>"
| "wosm_event_metadata (ProviderHookSpoolDrained at d f) =
     \<lparr>em_commandId = None, em_traceId = None, em_timestamp = Some at\<rparr>"
| "wosm_event_metadata _ = \<lparr>em_commandId = None, em_traceId = None, em_timestamp = None\<rparr>"

subsection \<open>Legacy event type names\<close>

definition normalize_event_type_alias :: "string \<Rightarrow> string" where
  "normalize_event_type_alias t =
     (if t = ''hook.ingested'' then ''providerHook.ingested''
      else if t = ''hook.spoolDrained'' then ''providerHook.spoolDrained'' else t)"

text \<open>
  The preprocessing of an event filter's list of types: aliases are normalized and duplicates
  dropped; an element that is not a string is passed on for the schema to reject.
\<close>

fun normalize_event_types :: "string set \<Rightarrow> json list \<Rightarrow> json list" where
  "normalize_event_types seen [] = []"
| "normalize_event_types seen (JStr t # ts) =
     (let n = normalize_event_type_alias t in
      if n \<in> seen then normalize_event_types seen ts
      else JStr n # normalize_event_types (insert n seen) ts)"
| "normalize_event_types seen (v # ts) = v # normalize_event_types seen ts"

lemma normalize_alias_idem [simp]:
  "normalize_event_type_alias (normalize_event_type_alias t) = normalize_event_type_alias t"
  by (simp add: normalize_event_type_alias_def)

lemma normalize_event_types_strings:
  "JStr t \<in> set (normalize_event_types seen ts) \<Longrightarrow>
     t \<notin> seen \<and> normalize_event_type_alias t = t"
  by (induction seen ts rule: normalize_event_types.induct) (auto simp: Let_def split: if_splits)

lemma normalize_event_types_distinct:
  "distinct (filter (\<lambda>v. case v of JStr t \<Rightarrow> True | _ \<Rightarrow> False) (normalize_event_types seen ts))"
  by (induction seen ts rule: normalize_event_types.induct)
    (auto simp: Let_def dest: normalize_event_types_strings)

lemma normalize_event_types_idem:
  "normalize_event_types seen (normalize_event_types seen ts) = normalize_event_types seen ts"
  by (induction seen ts rule: normalize_event_types.induct)
    (auto simp: Let_def dest: normalize_event_types_strings)

end
