(* ===== verification/StatusProjection.thy ===== *)
theory StatusProjection
  imports HarnessStatus Commands
begin

section \<open>Status projection (apps/observer/src/reconcile/statusProjection.ts)\<close>

text \<open>
  Between reconciles, a harness event report is projected onto the current snapshot: if it
  carries a known status and correlates with exactly one row, that row's agent and display,
  the session's status, the counters and the row order are updated and the events for the
  clients are produced. Otherwise the snapshot is left alone.
\<close>

record projection_result =
  pj_projected :: bool
  pj_snapshot :: snapshot
  pj_events :: "wosm_event list"
  pj_worktreeId :: "worktree_id option"
  pj_sessionId :: "session_id option"
  pj_correlatedBy :: "correlated_by option"

record session_projection =
  sj_sessions :: "session_view list"
  sj_changed :: bool
  sj_event :: "wosm_event option"
  sj_sessionId :: "session_id option"

definition unprojected :: "snapshot \<Rightarrow> projection_result" where
  "unprojected s = \<lparr>pj_projected = False, pj_snapshot = s, pj_events = [], pj_worktreeId = None,
     pj_sessionId = None, pj_correlatedBy = None\<rparr>"

subsection \<open>Finding the row\<close>

definition agent_is :: "(worktree_agent \<Rightarrow> bool) \<Rightarrow> worktree_row \<Rightarrow> bool" where
  "agent_is P row = (case row_agent row of None \<Rightarrow> False | Some a \<Rightarrow> P a)"

definition single_target ::
  "(nat \<times> worktree_row) list \<Rightarrow> correlated_by \<Rightarrow> (nat \<times> correlated_by) option" where
  "single_target matches correlatedBy =
     (case matches of [(i, row)] \<Rightarrow> Some (i, correlatedBy) | _ \<Rightarrow> None)"

definition find_projection_target ::
  "snapshot \<Rightarrow> event_report \<Rightarrow> (nat \<times> correlated_by) option" where
  "find_projection_target snapshot report =
     (let rows = filter (\<lambda>(i, row). agent_is (\<lambda>a. ag_harness a = er_provider report) row)
            (List.enumerate 0 (ss_rows snapshot));
          correlation = er_correlation report
      in case Option.bind correlation rc_harnessRunId of
           Some rid \<Rightarrow>
             single_target (filter (\<lambda>(i, row). agent_is (\<lambda>a. ag_runId a = Some rid) row) rows)
               ByHarnessRunId
         | None \<Rightarrow>
             (case Option.bind correlation rc_sessionId of
                Some sid \<Rightarrow>
                  single_target (filter (\<lambda>(i, row). agent_is (\<lambda>a. ag_sessionId a = Some sid) row) rows)
                    BySessionId
              | None \<Rightarrow>
                  (case Option.bind correlation rc_worktreeId of
                     Some wid \<Rightarrow>
                       single_target
                         (filter (\<lambda>(i, row). row_id row = wid \<and> row_agent row \<noteq> None) rows)
                         ByWorktreeId
                   | None \<Rightarrow> None)))"

definition should_preserve_current_agent :: "worktree_agent \<Rightarrow> observed_status \<Rightarrow> bool" where
  "should_preserve_current_agent agent status =
     (if ag_state agent \<noteq> AgentExited \<or> ag_confidence agent \<noteq> High then False
      else ts_before (os_updatedAt status) (ag_updatedAt agent))"

subsection \<open>Projecting agent, row and session\<close>

definition project_agent :: "worktree_agent \<Rightarrow> observed_status \<Rightarrow> worktree_agent" where
  "project_agent agent status =
     \<lparr>ag_harness = ag_harness agent, ag_state = os_value status, ag_pid = ag_pid agent,
      ag_runId = ag_runId agent, ag_sessionId = ag_sessionId agent,
      ag_confidence = os_confidence status, ag_reason = os_reason status,
      ag_updatedAt = os_updatedAt status\<rparr>"

definition display_for_status :: "observed_status \<Rightarrow> row_display" where
  "display_for_status status =
     (let policy = status_policy (Some (os_value status)) in
      \<lparr>rd_statusLabel = sp_label policy, rd_sortPriority = sp_priority policy,
       rd_alert = sp_alert policy,
       rd_warning = (if sp_warning policy then Some True else None),
       rd_reason = (if os_value status = AgentNeedsAttention \<or> os_value status = AgentStuck \<or>
           sp_warning policy then Some (os_reason status) else None)\<rparr>)"

definition project_row :: "worktree_row \<Rightarrow> worktree_agent \<Rightarrow> observed_status \<Rightarrow> worktree_row" where
  "project_row row agent status =
     \<lparr>row_id = row_id row, row_projectId = row_projectId row,
      row_projectLabel = row_projectLabel row, row_branch = row_branch row,
      row_path = row_path row, row_worktree = row_worktree row,
      row_terminal = row_terminal row, row_agent = Some agent, row_recovery = None,
      row_display = display_for_status status\<rparr>"

definition agents_equal :: "worktree_agent \<Rightarrow> worktree_agent \<Rightarrow> bool" where
  "agents_equal left right =
     (ag_harness left = ag_harness right \<and> ag_state left = ag_state right \<and>
      ag_pid left = ag_pid right \<and> ag_runId left = ag_runId right \<and>
      ag_sessionId left = ag_sessionId right \<and> ag_confidence left = ag_confidence right \<and>
      ag_reason left = ag_reason right \<and> ag_updatedAt left = ag_updatedAt right)"

definition display_equal :: "worktree_row \<Rightarrow> worktree_row \<Rightarrow> bool" where
  "display_equal left right =
     (rd_statusLabel (row_display left) = rd_statusLabel (row_display right) \<and>
      rd_sortPriority (row_display left) = rd_sortPriority (row_display right) \<and>
      rd_alert (row_display left) = rd_alert (row_display right) \<and>
      rd_warning (row_display left) = rd_warning (row_display right) \<and>
      rd_reason (row_display left) = rd_reason (row_display right))"

definition session_status_equal :: "session_view \<Rightarrow> session_view \<Rightarrow> bool" where
  "session_status_equal left right =
     (sv_updatedAt left = sv_updatedAt right \<and>
      os_value (sv_status left) = os_value (sv_status right) \<and>
      os_confidence (sv_status left) = os_confidence (sv_status right) \<and>
      os_reason (sv_status left) = os_reason (sv_status right) \<and>
      os_source (sv_status left) = os_source (sv_status right) \<and>
      os_updatedAt (sv_status left) = os_updatedAt (sv_status right))"

definition with_status :: "observed_status \<Rightarrow> session_view \<Rightarrow> session_view" where
  "with_status status session = session\<lparr>sv_updatedAt := os_updatedAt status, sv_status := status\<rparr>"

text \<open>
  The \<^verbatim>\<open>map\<close> over the sessions, whose callback assigns the outer variables \<^verbatim>\<open>changed\<close> and
  \<^verbatim>\<open>event\<close>: they are threaded through the recursion.
\<close>

fun project_session_loop ::
  "session_id \<Rightarrow> observed_status \<Rightarrow> bool \<Rightarrow> wosm_event option \<Rightarrow> session_view list \<Rightarrow>
     session_view list \<times> bool \<times> wosm_event option" where
  "project_session_loop sid status changed event [] = ([], changed, event)"
| "project_session_loop sid status changed event (session # rest) =
     (if sv_id session \<noteq> sid
      then (case project_session_loop sid status changed event rest of
              (next, c, e) \<Rightarrow> (session # next, c, e))
      else (let nextSession = with_status status session;
                changed' = (\<not> session_status_equal session nextSession);
                event' = (if changed'
                  then Some (SessionUpdated sid (empty_session_patch
                    \<lparr>sp_updatedAt := Some (sv_updatedAt nextSession),
                     sp_status := Some (sv_status nextSession)\<rparr>))
                  else event)
            in (case project_session_loop sid status changed' event' rest of
                  (next, c, e) \<Rightarrow> (nextSession # next, c, e))))"

definition project_session ::
  "session_view list \<Rightarrow> worktree_agent \<Rightarrow> observed_status \<Rightarrow> session_projection" where
  "project_session sessions agent status =
     (case ag_sessionId agent of
        None \<Rightarrow> \<lparr>sj_sessions = sessions, sj_changed = False, sj_event = None, sj_sessionId = None\<rparr>
      | Some sid \<Rightarrow>
          (case project_session_loop sid status False None sessions of
             (next, changed, event) \<Rightarrow>
               \<lparr>sj_sessions = next, sj_changed = changed, sj_event = event,
                sj_sessionId = Some sid\<rparr>))"

definition session_title_for_agent :: "session_view list \<Rightarrow> worktree_agent \<Rightarrow> string option" where
  "session_title_for_agent sessions agent =
     (case ag_sessionId agent of
        None \<Rightarrow> None
      | Some sid \<Rightarrow> map_option sv_title (find (\<lambda>session. sv_id session = sid) sessions))"

subsection \<open>Rebuilding the snapshot\<close>

definition max_safe_integer :: int where
  "max_safe_integer = 9007199254740991"

definition project_order :: "project_view list \<Rightarrow> project_id \<Rightarrow> int" where
  "project_order projects pid =
     (case js_map (\<lambda>(i, project). pv_id project) (List.enumerate 0 projects) pid of
        None \<Rightarrow> max_safe_integer
      | Some (i, project) \<Rightarrow> int i)"

definition compare_sorted_rows :: "collator \<Rightarrow> project_view list \<Rightarrow> worktree_row comparison" where
  "compare_sorted_rows lc projects left right =
     or_else (project_order projects (row_projectId left) - project_order projects (row_projectId right))
       (or_else (rd_sortPriority (row_display left) - rd_sortPriority (row_display right))
          (or_else (lc (row_branch left) (row_branch right)) (lc (row_id left) (row_id right))))"

definition sort_rows :: "collator \<Rightarrow> worktree_row list \<Rightarrow> project_view list \<Rightarrow> worktree_row list" where
  "sort_rows lc rows projects = js_sort (compare_sorted_rows lc projects) rows"

definition rebuild_snapshot ::
  "snapshot \<Rightarrow> worktree_row list \<Rightarrow> session_view list \<Rightarrow> timestamp \<Rightarrow> snapshot" where
  "rebuild_snapshot s rows sessions generatedAt =
     (let projects = map (\<lambda>project. project\<lparr>pv_counts :=
            counts_for_rows (filter (\<lambda>row. row_projectId row = pv_id project) rows)\<rparr>) (ss_projects s)
      in s\<lparr>ss_generatedAt := generatedAt, ss_projects := projects, ss_rows := rows,
           ss_sessions := sessions, ss_countProjects := length projects,
           ss_counts := counts_for_rows rows\<rparr>)"

definition project_report ::
  "collator \<Rightarrow> snapshot \<Rightarrow> event_report \<Rightarrow> timestamp \<Rightarrow> projection_result" where
  "project_report lc snapshot report projectedAt =
     (case er_status report of
        None \<Rightarrow> unprojected snapshot
      | Some status \<Rightarrow>
          if os_value status = AgentUnknown then unprojected snapshot
          else (case find_projection_target snapshot report of
            None \<Rightarrow> unprojected snapshot
          | Some (rowIndex, correlatedBy) \<Rightarrow>
              (let currentRow = ss_rows snapshot ! rowIndex in
               case row_agent currentRow of
                 None \<Rightarrow> unprojected snapshot
               | Some currentAgent \<Rightarrow>
                   if should_preserve_current_agent currentAgent status then unprojected snapshot
                   else (let nextAgent = project_agent currentAgent status;
                             nextRow = project_row currentRow nextAgent status;
                             agentStateValueChanged = (ag_state currentAgent \<noteq> ag_state nextAgent);
                             rowChanged = (\<not> agents_equal currentAgent nextAgent \<or>
                               \<not> display_equal currentRow nextRow);
                             sessionProjection =
                               project_session (ss_sessions snapshot) nextAgent status;
                             snapshotChanged = (rowChanged \<or> sj_changed sessionProjection)
                         in if \<not> snapshotChanged then unprojected snapshot
                            else (let rows = (ss_rows snapshot)[rowIndex := nextRow];
                                      sortedRows = sort_rows lc rows (ss_projects snapshot);
                                      snapshot' = rebuild_snapshot snapshot sortedRows
                                        (sj_sessions sessionProjection) projectedAt;
                                      stateEvents = (if agentStateValueChanged
                                        then [AgentStateChanged
                                          \<lparr>sc_worktreeId = row_id nextRow,
                                           sc_agent = Some nextAgent,
                                           sc_sessionTitle = session_title_for_agent
                                             (sj_sessions sessionProjection) nextAgent,
                                           sc_changeSource = Some FromHarnessEventReport,
                                           sc_harnessEventType = Some (er_eventType report),
                                           sc_reportId = Some (er_reportId report)\<rparr>]
                                        else []);
                                      sessionEvents = (case sj_event sessionProjection of
                                        None \<Rightarrow> [] | Some e \<Rightarrow> [e])
                                  in \<lparr>pj_projected = True, pj_snapshot = snapshot',
                                      pj_events = stateEvents @ sessionEvents,
                                      pj_worktreeId = Some (row_id nextRow),
                                      pj_sessionId = sj_sessionId sessionProjection,
                                      pj_correlatedBy = Some correlatedBy\<rparr>)))))"

end
