(* ===== verification/ProjectionProperties.thy ===== *)
theory ProjectionProperties
  imports StatusProjection GraphProperties
begin

section \<open>Correctness of the status projection\<close>

text \<open>
  What projecting a harness event report onto the snapshot guarantees: at most one row changes,
  it is the only row the report names, all counters and the row order are restored, the events
  describe the change, and projecting the same report again changes nothing.
\<close>

subsection \<open>The row a report names\<close>

definition report_names :: "event_report \<Rightarrow> worktree_row \<Rightarrow> bool" where
  "report_names report row =
     (agent_is (\<lambda>a. ag_harness a = er_provider report) row \<and>
      (case Option.bind (er_correlation report) rc_harnessRunId of
         Some rid \<Rightarrow> agent_is (\<lambda>a. ag_runId a = Some rid) row
       | None \<Rightarrow>
           (case Option.bind (er_correlation report) rc_sessionId of
              Some sid \<Rightarrow> agent_is (\<lambda>a. ag_sessionId a = Some sid) row
            | None \<Rightarrow>
                (case Option.bind (er_correlation report) rc_worktreeId of
                   Some wid \<Rightarrow> row_id row = wid \<and> row_agent row \<noteq> None
                 | None \<Rightarrow> False))))"

lemma single_target_Some:
  "single_target ms c = Some (i, c') \<longleftrightarrow> (\<exists>row. ms = [(i, row)]) \<and> c' = c"
  by (auto simp: single_target_def split: list.splits)

lemma filter_enumerate_snd:
  "map snd (filter (\<lambda>(i, r). P r) (List.enumerate n xs)) = filter P xs"
  using filter_map [of P snd "List.enumerate n xs"] by (simp add: comp_def case_prod_beta')

lemma filter_enumerate_single:
  assumes "filter (\<lambda>(i, r). P r) (List.enumerate 0 xs) = [(i, row)]"
  shows "i < length xs \<and> xs ! i = row \<and> filter P xs = [row]"
proof -
  have "(i, row) \<in> set (filter (\<lambda>(i, r). P r) (List.enumerate 0 xs))" using assms by simp
  then have "i < length xs \<and> xs ! i = row" by (auto simp: in_set_enumerate_eq)
  with filter_enumerate_snd [of P 0 xs] assms show ?thesis by simp
qed

lemma single_target_filter:
  "(\<exists>i. single_target (filter (\<lambda>(i, r). P r) (List.enumerate 0 xs)) c = Some (i, c)) \<longleftrightarrow>
     (\<exists>row. filter P xs = [row])"
proof
  assume "\<exists>row. filter P xs = [row]"
  then obtain row where "map snd (filter (\<lambda>(i, r). P r) (List.enumerate 0 xs)) = [row]"
    by (auto simp: filter_enumerate_snd)
  then obtain i where "filter (\<lambda>(i, r). P r) (List.enumerate 0 xs) = [(i, row)]" by auto
  then show "\<exists>i. single_target (filter (\<lambda>(i, r). P r) (List.enumerate 0 xs)) c = Some (i, c)"
    by (simp add: single_target_def)
qed (auto simp: single_target_Some dest: filter_enumerate_single)

lemma filter_filter_pair:
  "filter (\<lambda>(i, r). Q r) (filter (\<lambda>(i, r). P r) xs) = filter (\<lambda>(i, r). P r \<and> Q r) xs"
  by (simp add: case_prod_beta')

definition report_key :: "event_report \<Rightarrow> correlated_by option" where
  "report_key report =
     (if Option.bind (er_correlation report) rc_harnessRunId \<noteq> None then Some ByHarnessRunId
      else if Option.bind (er_correlation report) rc_sessionId \<noteq> None then Some BySessionId
      else if Option.bind (er_correlation report) rc_worktreeId \<noteq> None then Some ByWorktreeId
      else None)"

lemma find_target_eq:
  "find_projection_target s report =
     Option.bind (report_key report)
       (single_target (filter (\<lambda>(i, row). report_names report row) (List.enumerate 0 (ss_rows s))))"
proof (cases "Option.bind (er_correlation report) rc_harnessRunId")
  case (Some rid)
  then have names: "report_names report = (\<lambda>row. agent_is (\<lambda>a. ag_harness a = er_provider report) row \<and>
      agent_is (\<lambda>a. ag_runId a = Some rid) row)" by (auto simp: report_names_def)
  from Some show ?thesis
    by (simp only: find_projection_target_def Let_def filter_filter_pair names option.case)
      (simp add: report_key_def)
next
  case no_run: None
  show ?thesis
  proof (cases "Option.bind (er_correlation report) rc_sessionId")
    case (Some sid)
    with no_run have names: "report_names report = (\<lambda>row. agent_is (\<lambda>a. ag_harness a = er_provider report) row \<and>
        agent_is (\<lambda>a. ag_sessionId a = Some sid) row)" by (auto simp: report_names_def)
    from Some no_run show ?thesis
      by (simp only: find_projection_target_def Let_def filter_filter_pair names option.case)
        (simp add: report_key_def)
  next
    case no_session: None
    show ?thesis
    proof (cases "Option.bind (er_correlation report) rc_worktreeId")
      case None
      with no_run no_session show ?thesis by (simp add: find_projection_target_def report_key_def)
    next
      case (Some wid)
      with no_run no_session have names: "report_names report =
          (\<lambda>row. agent_is (\<lambda>a. ag_harness a = er_provider report) row \<and>
            (row_id row = wid \<and> row_agent row \<noteq> None))" by (auto simp: report_names_def)
      from Some no_run no_session show ?thesis
        by (simp only: find_projection_target_def Let_def filter_filter_pair names option.case)
          (simp add: report_key_def)
    qed
  qed
qed

lemma find_target_SomeD:
  assumes "find_projection_target s report = Some (i, c)"
  shows "i < length (ss_rows s) \<and> filter (report_names report) (ss_rows s) = [ss_rows s ! i] \<and>
    report_key report = Some c"
proof -
  from assms obtain row where key: "report_key report = Some c"
    and single: "filter (\<lambda>(i, row). report_names report row) (List.enumerate 0 (ss_rows s)) = [(i, row)]"
    by (auto simp: find_target_eq single_target_Some bind_eq_Some_conv)
  from filter_enumerate_single [OF single] key show ?thesis by simp
qed

subsection \<open>The outcome of a projection\<close>

text \<open>
  The guards of the projection, then its effect: a report that passes the guards has a status, a
  row and that row's agent; the projection is applied when it changes the agent, the display or
  the session.
\<close>

definition projection_context ::
  "snapshot \<Rightarrow> event_report \<Rightarrow> (observed_status \<times> nat \<times> correlated_by \<times> worktree_agent) option" where
  "projection_context s report =
     (case er_status report of
        None \<Rightarrow> None
      | Some status \<Rightarrow>
          if os_value status = AgentUnknown then None
          else (case find_projection_target s report of
            None \<Rightarrow> None
          | Some (i, c) \<Rightarrow>
              (case row_agent (ss_rows s ! i) of
                 None \<Rightarrow> None
               | Some agent \<Rightarrow>
                   if should_preserve_current_agent agent status then None
                   else Some (status, i, c, agent))))"

definition projection_changes ::
  "snapshot \<Rightarrow> observed_status \<Rightarrow> nat \<Rightarrow> worktree_agent \<Rightarrow> bool" where
  "projection_changes s status i agent =
     (\<not> agents_equal agent (project_agent agent status) \<or>
      \<not> display_equal (ss_rows s ! i) (project_row (ss_rows s ! i) (project_agent agent status) status) \<or>
      sj_changed (project_session (ss_sessions s) (project_agent agent status) status))"

lemma project_report_same:
  "projection_context s report = None \<Longrightarrow> project_report lc s report t = unprojected s"
  by (auto simp: project_report_def projection_context_def Let_def split: option.splits if_splits)

lemma projection_contextD:
  assumes "projection_context s report = Some (status, i, c, agent)"
  shows "er_status report = Some status \<and> os_value status \<noteq> AgentUnknown \<and>
    find_projection_target s report = Some (i, c) \<and> row_agent (ss_rows s ! i) = Some agent \<and>
    \<not> should_preserve_current_agent agent status"
  using assms by (auto simp: projection_context_def split: option.splits if_splits prod.splits)

lemma project_report_quiet:
  assumes "projection_context s report = Some (status, i, c, agent)"
    and "\<not> projection_changes s status i agent"
  shows "project_report lc s report t = unprojected s"
  using projection_contextD [OF assms(1)] assms(2)
  by (simp add: project_report_def Let_def projection_changes_def)

lemma project_report_applied:
  assumes "projection_context s report = Some (status, i, c, agent)"
    and "projection_changes s status i agent"
  defines "next \<equiv> project_agent agent status"
  defines "sp \<equiv> project_session (ss_sessions s) next status"
  shows "project_report lc s report t =
    \<lparr>pj_projected = True,
     pj_snapshot = rebuild_snapshot s
       (sort_rows lc ((ss_rows s)[i := project_row (ss_rows s ! i) next status]) (ss_projects s))
       (sj_sessions sp) t,
     pj_events =
       (if ag_state agent \<noteq> ag_state next
        then [AgentStateChanged
          \<lparr>sc_worktreeId = row_id (ss_rows s ! i), sc_agent = Some next,
           sc_sessionTitle = session_title_for_agent (sj_sessions sp) next,
           sc_changeSource = Some FromHarnessEventReport,
           sc_harnessEventType = Some (er_eventType report),
           sc_reportId = Some (er_reportId report)\<rparr>] else []) @
       (case sj_event sp of None \<Rightarrow> [] | Some e \<Rightarrow> [e]),
     pj_worktreeId = Some (row_id (ss_rows s ! i)),
     pj_sessionId = sj_sessionId sp,
     pj_correlatedBy = Some c\<rparr>"
proof -
  have changed: "(\<not> agents_equal agent next \<or>
      \<not> display_equal (ss_rows s ! i) (project_row (ss_rows s ! i) next status) \<or> sj_changed sp)"
    using assms(2) by (simp add: projection_changes_def next_def sp_def)
  have row: "row_id (project_row (ss_rows s ! i) next status) = row_id (ss_rows s ! i)"
    by (simp add: project_row_def)
  from changed show ?thesis
    using projection_contextD [OF assms(1)]
    by (elim disjE) (simp_all add: project_report_def Let_def row flip: next_def sp_def)
qed

lemma unprojected_simps [simp]:
  "pj_projected (unprojected s) = False" "pj_snapshot (unprojected s) = s"
  "pj_events (unprojected s) = []"
  by (simp_all add: unprojected_def)

lemma project_report_cases:
  obtains (quiet) "project_report lc s report t = unprojected s"
  | (applied) status i c agent where
      "projection_context s report = Some (status, i, c, agent)"
      "projection_changes s status i agent"
proof (cases "projection_context s report")
  case None
  then show ?thesis using project_report_same quiet by blast
next
  case (Some x)
  obtain status i c agent where x: "x = (status, i, c, agent)" by (cases x) auto
  show ?thesis
    using Some x project_report_quiet applied quiet by (cases "projection_changes s status i agent") blast+
qed

lemma rebuild_snapshot_simps [simp]:
  "ss_rows (rebuild_snapshot s rows sessions t) = rows"
  "ss_sessions (rebuild_snapshot s rows sessions t) = sessions"
  "ss_counts (rebuild_snapshot s rows sessions t) = counts_for_rows rows"
  "ss_countProjects (rebuild_snapshot s rows sessions t) = length (ss_projects s)"
  "ss_projects (rebuild_snapshot s rows sessions t) =
     map (\<lambda>p. p\<lparr>pv_counts := counts_for_rows (filter (\<lambda>r. row_projectId r = pv_id p) rows)\<rparr>)
       (ss_projects s)"
  by (simp_all add: rebuild_snapshot_def Let_def)

lemma mset_sort_rows [simp]: "mset (sort_rows lc rows projects) = mset rows"
  by (simp add: sort_rows_def)

subsection \<open>Projecting one row\<close>

definition projected_row :: "worktree_row \<Rightarrow> worktree_agent \<Rightarrow> observed_status \<Rightarrow> worktree_row" where
  "projected_row row agent status = project_row row (project_agent agent status) status"

lemma projected_row_simps [simp]:
  "row_id (projected_row row agent status) = row_id row"
  "row_projectId (projected_row row agent status) = row_projectId row"
  "row_agent (projected_row row agent status) = Some (project_agent agent status)"
  "row_display (projected_row row agent status) = display_for_status status"
  by (simp_all add: projected_row_def project_row_def)

lemma project_agent_simps [simp]:
  "ag_harness (project_agent agent status) = ag_harness agent"
  "ag_runId (project_agent agent status) = ag_runId agent"
  "ag_sessionId (project_agent agent status) = ag_sessionId agent"
  "ag_state (project_agent agent status) = os_value status"
  "ag_confidence (project_agent agent status) = os_confidence status"
  "ag_updatedAt (project_agent agent status) = os_updatedAt status"
  "project_agent (project_agent agent status) status' = project_agent agent status'"
  by (simp_all add: project_agent_def)

lemma report_names_projected:
  assumes "row_agent row = Some agent"
  shows "report_names report (projected_row row agent status) = report_names report row"
  using assms by (simp add: report_names_def agent_is_def split: option.split)

lemma projection_context_row:
  assumes "projection_context s report = Some (status, i, c, agent)"
  shows "i < length (ss_rows s) \<and> filter (report_names report) (ss_rows s) = [ss_rows s ! i] \<and>
    row_agent (ss_rows s ! i) = Some agent \<and> report_key report = Some c"
  using projection_contextD [OF assms] find_target_SomeD [of s report i c] by simp

lemma applied_rows:
  assumes "projection_context s report = Some (status, i, c, agent)"
    and "projection_changes s status i agent"
  shows "mset (ss_rows (pj_snapshot (project_report lc s report t))) =
    add_mset (projected_row (ss_rows s ! i) agent status) (mset (ss_rows s) - {#ss_rows s ! i#})"
  using projection_context_row [OF assms(1)]
  by (simp add: project_report_applied [OF assms] mset_update projected_row_def)

lemma single_mset_list: "mset xs = {#x#} \<Longrightarrow> xs = [x]"
  by (cases xs) auto

lemma applied_names:
  assumes "projection_context s report = Some (status, i, c, agent)"
    and "projection_changes s status i agent"
  shows "filter (report_names report) (ss_rows (pj_snapshot (project_report lc s report t))) =
    [projected_row (ss_rows s ! i) agent status]"
proof (rule single_mset_list)
  note row = projection_context_row [OF assms(1)]
  have "filter_mset (report_names report) (mset (ss_rows s)) = {#ss_rows s ! i#}"
    using row by (simp flip: mset_filter)
  moreover have "report_names report (ss_rows s ! i)"
    using row filter_eq_ConsD by fastforce
  moreover have "ss_rows s ! i \<in># mset (ss_rows s)" using row by simp
  ultimately show "mset (filter (report_names report)
      (ss_rows (pj_snapshot (project_report lc s report t)))) =
      {#projected_row (ss_rows s ! i) agent status#}"
    using row by (simp add: mset_filter applied_rows [OF assms] report_names_projected)
qed

subsection \<open>Sessions\<close>

lemma project_session_loop_sessions:
  "fst (project_session_loop sid status changed event sessions) =
     map (\<lambda>x. if sv_id x = sid then with_status status x else x) sessions"
proof (induction sessions arbitrary: changed event)
  case Nil
  then show ?case by simp
next
  case (Cons session rest)
  have pair: "fst (case p of (next, c, e) \<Rightarrow> (x # next, c, e)) = x # fst p"
    for p :: "session_view list \<times> bool \<times> wosm_event option" and x
    by (simp add: case_prod_beta)
  show ?case by (simp only: project_session_loop.simps Let_def pair Cons if_distrib [of fst]) simp
qed

lemma session_status_equal_self [simp]: "session_status_equal x x"
  by (simp add: session_status_equal_def)

lemma with_status_simps [simp]:
  "sv_id (with_status status x) = sv_id x"
  "with_status status (with_status status' x) = with_status status x"
  by (simp_all add: with_status_def)

lemma project_session_loop_settled:
  "\<forall>x \<in> set sessions. sv_id x = sid \<longrightarrow> with_status status x = x \<Longrightarrow>
     project_session_loop sid status False event sessions = (sessions, False, event)"
proof (induction sessions)
  case Nil
  then show ?case by simp
next
  case (Cons x rest)
  then have rest: "project_session_loop sid status False event rest = (rest, False, event)" by simp
  show ?case
  proof (cases "sv_id x = sid")
    case True
    with Cons.prems have "with_status status x = x" by simp
    with rest True show ?thesis by (simp only: project_session_loop.simps Let_def) simp
  next
    case False
    with rest show ?thesis by simp
  qed
qed

lemma project_session_settled:
  "sj_changed (project_session (sj_sessions (project_session sessions agent status))
     (project_agent agent status) status) = False"
proof (cases "ag_sessionId agent")
  case None
  then show ?thesis by (simp add: project_session_def)
next
  case (Some sid)
  obtain ss c e where first: "project_session_loop sid status False None sessions = (ss, c, e)"
    by (cases "project_session_loop sid status False None sessions") auto
  then have "ss = map (\<lambda>x. if sv_id x = sid then with_status status x else x) sessions"
    using project_session_loop_sessions [of sid status False None sessions] by simp
  then have "\<forall>x \<in> set ss. sv_id x = sid \<longrightarrow> with_status status x = x"
    by (simp add: ball_Un)
  then have "project_session_loop sid status False None ss = (ss, False, None)"
    by (rule project_session_loop_settled)
  with first Some show ?thesis by (simp add: project_session_def)
qed

subsection \<open>Properties of the projection\<close>

text \<open>A report changes at most one row: either the snapshot is returned as it was, with no
  events, or the report carries a status and names exactly one row, and the new rows are the old
  ones with that row's agent and display replaced by what the status says (its identity and
  worktree data are kept).\<close>

lemma projection_updates_one_row:
  "(\<not> pj_projected (project_report lc s report t) \<and> pj_snapshot (project_report lc s report t) = s \<and>
     pj_events (project_report lc s report t) = []) \<or>
    (\<exists>status row agent. er_status report = Some status \<and>
      filter (report_names report) (ss_rows s) = [row] \<and> row_agent row = Some agent \<and>
      pj_projected (project_report lc s report t) \<and>
      pj_worktreeId (project_report lc s report t) = Some (row_id row) \<and>
      mset (ss_rows (pj_snapshot (project_report lc s report t))) =
        add_mset (project_row row (project_agent agent status) status) (mset (ss_rows s) - {#row#}))"
proof (cases rule: project_report_cases [of lc s report t])
  case quiet
  then show ?thesis by simp
next
  case (applied status i c agent)
  note row = projection_context_row [OF applied(1)]
  have "pj_projected (project_report lc s report t) \<and>
      pj_worktreeId (project_report lc s report t) = Some (row_id (ss_rows s ! i))"
    by (simp add: project_report_applied [OF applied])
  with row projection_contextD [OF applied(1)] applied_rows [OF applied, of lc t]
  show ?thesis by (auto simp: projected_row_def)
qed

lemma compare_sorted_rows_comparator:
  assumes "collation lc"
  shows "js_comparator (\<lambda>_. True) (compare_sorted_rows lc projects)"
  unfolding compare_sorted_rows_def
  by (intro js_comparator_or_else js_comparator_diff collation.comparator_via [OF assms])

text \<open>C6: After a projection the derived state of the snapshot is right again: the rows are in the
  client's order (project, priority, branch, identifier), the totals are the counters of all
  rows, and each project's counters those of its rows.\<close>

theorem projection_restores_derived_state:
  assumes "collation lc" and "pj_projected (project_report lc s report t)"
  shows "sorted_wrt (\<lambda>a b. compare_sorted_rows lc (ss_projects s) a b \<le> 0) (ss_rows (pj_snapshot (project_report lc s report t))) \<and>
    ss_counts (pj_snapshot (project_report lc s report t)) = counts_for_rows (ss_rows (pj_snapshot (project_report lc s report t))) \<and>
    map pv_id (ss_projects (pj_snapshot (project_report lc s report t))) = map pv_id (ss_projects s) \<and>
    list_all (\<lambda>p. pv_counts p = counts_for_rows (filter (\<lambda>r. row_projectId r = pv_id p) (ss_rows (pj_snapshot (project_report lc s report t)))))
      (ss_projects (pj_snapshot (project_report lc s report t)))"
proof (cases rule: project_report_cases [of lc s report t])
  case quiet
  with assms(2) show ?thesis by simp
next
  case (applied status i c agent)
  have "sorted_wrt (\<lambda>a b. compare_sorted_rows lc (ss_projects s) a b \<le> 0) (sort_rows lc rows (ss_projects s))"
    for rows
    unfolding sort_rows_def
    by (rule js_comparator.sorted_js_sort [OF compare_sorted_rows_comparator [OF assms(1)]]) simp
  then show ?thesis
    by (simp add: project_report_applied [OF applied] list_all_iff comp_def)
qed

lemma find_target_SomeI:
  assumes "filter (report_names report) (ss_rows s) = [row]" "report_key report = Some c"
  shows "\<exists>i. find_projection_target s report = Some (i, c) \<and> ss_rows s ! i = row"
proof -
  obtain i where "single_target (filter (\<lambda>(i, r). report_names report r)
      (List.enumerate 0 (ss_rows s))) c = Some (i, c)"
    using single_target_filter [of "report_names report" "ss_rows s" c] assms(1) by auto
  then have "find_projection_target s report = Some (i, c)" by (simp add: find_target_eq assms(2))
  with find_target_SomeD [OF this] assms(1) show ?thesis by auto
qed

lemma not_preserved_again:
  "\<not> should_preserve_current_agent (project_agent agent status) status"
  by (simp add: should_preserve_current_agent_def)

text \<open>Projecting is idempotent: a report that is delivered again, at any later time, is not
  projected a second time; the snapshot and the set of clients' events stay as they are.\<close>

lemma projection_idempotent:
  "project_report lc (pj_snapshot (project_report lc s report t)) report t' =
     unprojected (pj_snapshot (project_report lc s report t))"
proof (cases rule: project_report_cases [of lc s report t])
  case quiet
  then have "\<not> pj_projected (project_report lc s report t)" by simp
  have "project_report lc s report t' = unprojected s"
  proof (cases "projection_context s report")
    case None
    then show ?thesis by (rule project_report_same)
  next
    case (Some x)
    then obtain status i c agent where x: "projection_context s report = Some (status, i, c, agent)"
      by (cases x) auto
    have "\<not> projection_changes s status i agent"
      using project_report_applied [OF x, of lc t] quiet by (auto simp: unprojected_def)
    then show ?thesis by (rule project_report_quiet [OF x])
  qed
  with quiet show ?thesis by simp
next
  case (applied status i c agent)
  let ?s = "pj_snapshot (project_report lc s report t)"
  let ?row = "projected_row (ss_rows s ! i) agent status"
  obtain j where j: "find_projection_target ?s report = Some (j, c)" "ss_rows ?s ! j = ?row"
    using find_target_SomeI [OF applied_names [OF applied]] projection_context_row [OF applied(1)]
    by blast
  then have ctx: "projection_context ?s report = Some (status, j, c, project_agent agent status)"
    using projection_contextD [OF applied(1)] by (simp add: projection_context_def not_preserved_again)
  have session: "sj_changed (project_session (ss_sessions ?s)
      (project_agent (project_agent agent status) status) status) = False"
    using project_session_settled [of "ss_sessions s" "project_agent agent status" status]
    by (simp add: project_report_applied [OF applied])
  have "\<not> projection_changes ?s status j (project_agent agent status)"
    using session by (simp add: projection_changes_def j(2) agents_equal_def display_equal_def project_row_def)
  then show ?thesis by (rule project_report_quiet [OF ctx])
qed

subsection \<open>Witnesses\<close>

definition sample_snapshot :: snapshot where
  "sample_snapshot = build_wosm_snapshot code_unit_compare sample_input"

definition sample_status :: "agent_state \<Rightarrow> observed_status" where
  "sample_status st = \<lparr>os_value = st, os_confidence = High, os_reason = ''because'',
     os_source = SrcHarnessEvent, os_updatedAt = ''2026-01-01T00:01:00Z''\<rparr>"

definition sample_report :: "agent_state \<Rightarrow> event_report" where
  "sample_report st = \<lparr>er_reportId = ''e1'', er_provider = ''codex'', er_eventType = ''turn'',
     er_observedAt = ''2026-01-01T00:01:00Z'', er_coalesceKey = None,
     er_status = Some (sample_status st),
     er_correlation = Some \<lparr>rc_harnessRunId = None, rc_sessionId = Some ''s1'', rc_worktreeId = None,
       rc_terminalTargetId = None, rc_projectId = None, rc_nativeSessionId = None,
       rc_nativeSessionFile = None, rc_cwd = None, rc_pid = None\<rparr>,
     er_diagnostics = None, er_providerData = None\<rparr>"

lemma sample_projected:
  "pj_projected (project_report code_unit_compare sample_snapshot (sample_report AgentStuck)
     ''2026-01-01T00:02:00Z'')"
  by code_simp

lemma projection_restores_derived_state_witness:
  "ss_counts (pj_snapshot (project_report code_unit_compare sample_snapshot
     (sample_report AgentStuck) ''2026-01-01T00:02:00Z'')) =
   counts_for_rows (ss_rows (pj_snapshot (project_report code_unit_compare sample_snapshot
     (sample_report AgentStuck) ''2026-01-01T00:02:00Z'')))"
  using projection_restores_derived_state [OF code_units.collation_axioms sample_projected] by simp

end
