(* ===== verification/SnapshotReducer.thy ===== *)
theory SnapshotReducer
  imports Commands StatusPolicy
begin

section \<open>The client's snapshot reducer (packages/client/src/snapshotReducer.ts)\<close>

text \<open>
  A client holds a copy of the snapshot and keeps it up to date with the observer's events; where
  an event does not carry enough, the reducer asks for a new snapshot instead. The notices it
  returns are shown to the user (packages/client/src/errors.ts, connectionState.ts).
\<close>

subsection \<open>Notices\<close>

datatype notice_kind = NoticeInfo | NoticeSuccess | NoticeError

record client_notice =
  cn_kind :: notice_kind
  cn_message :: string
  cn_hint :: "string option"
  cn_commandId :: "string option"
  cn_traceId :: "string option"
  cn_diagnosticId :: "string option"

definition is_observer_connect_error :: "safe_error \<Rightarrow> bool" where
  "is_observer_connect_error e =
     (se_code e \<in> {''PROTOCOL_CONNECT_FAILED'', ''PROTOCOL_CONNECT_TIMEOUT''})"

definition is_permanent_observer_error :: "safe_error \<Rightarrow> bool" where
  "is_permanent_observer_error e =
     (se_code e \<in> {''PROTOCOL_SCHEMA_MISMATCH'', ''PROTOCOL_RESPONSE_VALIDATION_FAILED'',
        ''PROTOCOL_EVENT_VALIDATION_FAILED'', ''PROTOCOL_SUBSCRIBE_ACK_MISMATCH''})"

definition observer_connect_notice :: client_notice where
  "observer_connect_notice =
     \<lparr>cn_kind = NoticeError, cn_message = ''Observer is reconnecting.'',
      cn_hint = Some ''Try the command again when the observer is ready.'',
      cn_commandId = None, cn_traceId = None, cn_diagnosticId = None\<rparr>"

definition safe_error_to_notice :: "safe_error \<Rightarrow> client_notice" where
  "safe_error_to_notice e =
     (if is_observer_connect_error e then observer_connect_notice
      else \<lparr>cn_kind = NoticeError, cn_message = se_message e, cn_hint = se_hint e,
        cn_commandId = se_commandId e, cn_traceId = se_traceId e,
        cn_diagnosticId = se_diagnosticId e\<rparr>)"

subsection \<open>Merging patches\<close>

text \<open>
  \<^verbatim>\<open>{ ...old, ...patch }\<close>: a field of the patch wins; an optional field the patch lacks keeps
  the old value.
\<close>

definition merge_worktree :: "worktree_runtime \<Rightarrow> worktree_runtime \<Rightarrow> worktree_runtime" where
  "merge_worktree old new =
     \<lparr>wr_state = wr_state new, wr_source = wr_source new,
      wr_dirty = nullish_opt (wr_dirty new) (wr_dirty old),
      wr_ahead = nullish_opt (wr_ahead new) (wr_ahead old),
      wr_behind = nullish_opt (wr_behind new) (wr_behind old),
      wr_pr = nullish_opt (wr_pr new) (wr_pr old),
      wr_changeSummary = nullish_opt (wr_changeSummary new) (wr_changeSummary old),
      wr_checks = nullish_opt (wr_checks new) (wr_checks old)\<rparr>"

definition merge_terminal :: "terminal_attachment \<Rightarrow> terminal_attachment \<Rightarrow> terminal_attachment" where
  "merge_terminal old new =
     \<lparr>ta_provider = ta_provider new, ta_state = ta_state new,
      ta_focusable = nullish_opt (ta_focusable new) (ta_focusable old),
      ta_closeable = nullish_opt (ta_closeable new) (ta_closeable old),
      ta_hasWorkspace = nullish_opt (ta_hasWorkspace new) (ta_hasWorkspace old),
      ta_hasPrimaryAgentEndpoint =
        nullish_opt (ta_hasPrimaryAgentEndpoint new) (ta_hasPrimaryAgentEndpoint old),
      ta_confidence = nullish_opt (ta_confidence new) (ta_confidence old),
      ta_reason = nullish_opt (ta_reason new) (ta_reason old),
      ta_observedAt = nullish_opt (ta_observedAt new) (ta_observedAt old)\<rparr>"

definition merge_display :: "row_display \<Rightarrow> row_display \<Rightarrow> row_display" where
  "merge_display old new =
     \<lparr>rd_statusLabel = rd_statusLabel new, rd_sortPriority = rd_sortPriority new,
      rd_alert = rd_alert new, rd_warning = nullish_opt (rd_warning new) (rd_warning old),
      rd_reason = nullish_opt (rd_reason new) (rd_reason old)\<rparr>"

definition merge_harness :: "session_harness \<Rightarrow> session_harness \<Rightarrow> session_harness" where
  "merge_harness old new =
     \<lparr>sh_provider = sh_provider new, sh_mode = sh_mode new,
      sh_pid = nullish_opt (sh_pid new) (sh_pid old),
      sh_runId = nullish_opt (sh_runId new) (sh_runId old),
      sh_capabilities = sh_capabilities new\<rparr>"

text \<open>
  A row patch names \<^verbatim>\<open>terminal\<close> and \<^verbatim>\<open>agent\<close> in three ways: absent (keep), present but undefined
  (delete) and present with a value. A \<^verbatim>\<open>recovery\<close> in the patch is not read, and the row's own
  is not copied.
\<close>

definition merge_row_patch :: "worktree_row \<Rightarrow> row_patch \<Rightarrow> worktree_row" where
  "merge_row_patch row patch =
     \<lparr>row_id = nullish (rp_id patch) (row_id row),
      row_projectId = nullish (rp_projectId patch) (row_projectId row),
      row_projectLabel = nullish (rp_projectLabel patch) (row_projectLabel row),
      row_branch = nullish (rp_branch patch) (row_branch row),
      row_path = nullish (rp_path patch) (row_path row),
      row_worktree = (case rp_worktree patch of
          None \<Rightarrow> row_worktree row | Some w \<Rightarrow> merge_worktree (row_worktree row) w),
      row_terminal = (case rp_terminal patch of
          None \<Rightarrow> row_terminal row
        | Some None \<Rightarrow> None
        | Some (Some t) \<Rightarrow> Some (case row_terminal row of
              None \<Rightarrow> t | Some old \<Rightarrow> merge_terminal old t)),
      row_agent = (case rp_agent patch of
          None \<Rightarrow> row_agent row | Some None \<Rightarrow> None | Some (Some a) \<Rightarrow> Some a),
      row_recovery = None,
      row_display = (case rp_display patch of
          None \<Rightarrow> row_display row | Some d \<Rightarrow> merge_display (row_display row) d)\<rparr>"

definition merge_session_patch :: "session_view \<Rightarrow> session_patch \<Rightarrow> session_view" where
  "merge_session_patch session patch =
     \<lparr>sv_id = nullish (sp_id patch) (sv_id session),
      sv_projectId = nullish (sp_projectId patch) (sv_projectId session),
      sv_worktreeId = nullish (sp_worktreeId patch) (sv_worktreeId session),
      sv_createdAt = nullish (sp_createdAt patch) (sv_createdAt session),
      sv_updatedAt = nullish (sp_updatedAt patch) (sv_updatedAt session),
      sv_harness = (case sp_harness patch of
          None \<Rightarrow> sv_harness session | Some h \<Rightarrow> merge_harness (sv_harness session) h),
      sv_terminal = (case sp_terminal patch of
          None \<Rightarrow> sv_terminal session | Some t \<Rightarrow> merge_terminal (sv_terminal session) t),
      sv_status = (case sp_status patch of None \<Rightarrow> sv_status session | Some s \<Rightarrow> s),
      sv_title = nullish (sp_title patch) (sv_title session),
      sv_tags = nullish (sp_tags patch) (sv_tags session)\<rparr>"

subsection \<open>The display of an agent's state\<close>

fun display_for_agent :: "worktree_agent \<Rightarrow> row_display" where
  "display_for_agent agent =
     (case ag_state agent of
        AgentNeedsAttention \<Rightarrow>
          \<lparr>rd_statusLabel = LabelNeedsAttention, rd_sortPriority = 10, rd_alert = True,
           rd_warning = None, rd_reason = Some (ag_reason agent)\<rparr>
      | AgentStuck \<Rightarrow>
          \<lparr>rd_statusLabel = LabelStuck, rd_sortPriority = 20, rd_alert = True,
           rd_warning = Some True, rd_reason = Some (ag_reason agent)\<rparr>
      | AgentWorking \<Rightarrow>
          \<lparr>rd_statusLabel = LabelWorking, rd_sortPriority = 30, rd_alert = False,
           rd_warning = None, rd_reason = None\<rparr>
      | AgentStarting \<Rightarrow>
          \<lparr>rd_statusLabel = LabelStarting, rd_sortPriority = 35, rd_alert = False,
           rd_warning = None, rd_reason = None\<rparr>
      | AgentIdle \<Rightarrow>
          \<lparr>rd_statusLabel = LabelIdle, rd_sortPriority = 40, rd_alert = False,
           rd_warning = None, rd_reason = None\<rparr>
      | AgentExited \<Rightarrow>
          \<lparr>rd_statusLabel = LabelExited, rd_sortPriority = 60, rd_alert = False,
           rd_warning = None, rd_reason = None\<rparr>
      | _ \<Rightarrow>
          \<lparr>rd_statusLabel = LabelUnknown, rd_sortPriority = 50, rd_alert = False,
           rd_warning = None, rd_reason = None\<rparr>)"

definition row_patch_for_agent_state :: "worktree_agent option \<Rightarrow> row_patch" where
  "row_patch_for_agent_state agent =
     (case agent of
        None \<Rightarrow> empty_row_patch
          \<lparr>rp_agent := Some None,
           rp_display := Some \<lparr>rd_statusLabel = LabelNoAgent, rd_sortPriority = 70,
             rd_alert = False, rd_warning = None,
             rd_reason = Some ''No harness run is associated with this worktree.''\<rparr>\<rparr>
      | Some a \<Rightarrow> empty_row_patch
          \<lparr>rp_agent := Some (Some a), rp_display := Some (display_for_agent a)\<rparr>)"

subsection \<open>Applying an event\<close>

definition upsert_session :: "session_view list \<Rightarrow> session_view \<Rightarrow> session_view list" where
  "upsert_session sessions session =
     (if \<not> list_ex (\<lambda>candidate. sv_id candidate = sv_id session) sessions
      then sessions @ [session]
      else map (\<lambda>candidate. if sv_id candidate = sv_id session then session else candidate) sessions)"

record apply_result =
  ar_snapshot :: snapshot
  ar_needsSnapshotRefresh :: bool
  ar_notices :: "client_notice list"

definition with_snapshot :: "snapshot \<Rightarrow> worktree_row list option \<Rightarrow> session_view list option \<Rightarrow> apply_result"
  where
  "with_snapshot s rows sessions =
     \<lparr>ar_snapshot = s\<lparr>ss_rows := nullish rows (ss_rows s),
        ss_sessions := nullish sessions (ss_sessions s)\<rparr>,
      ar_needsSnapshotRefresh = False, ar_notices = []\<rparr>"

fun apply_wosm_event :: "snapshot \<Rightarrow> wosm_event \<Rightarrow> apply_result" where
  "apply_wosm_event s (WorktreeAdded row) = with_snapshot s (Some (ss_rows s @ [row])) None"
| "apply_wosm_event s (WorktreeUpdated wid patch) =
     with_snapshot s (Some (map (\<lambda>row. if row_id row = wid then merge_row_patch row patch else row)
       (ss_rows s))) None"
| "apply_wosm_event s (WorktreeRemoved wid) =
     with_snapshot s (Some (filter (\<lambda>row. row_id row \<noteq> wid) (ss_rows s)))
       (Some (filter (\<lambda>session. sv_worktreeId session \<noteq> wid) (ss_sessions s)))"
| "apply_wosm_event s (AgentStateChanged c) =
     with_snapshot s (Some (map (\<lambda>row. if row_id row = sc_worktreeId c
       then merge_row_patch row (row_patch_for_agent_state (sc_agent c)) else row) (ss_rows s))) None"
| "apply_wosm_event s (SessionCreated session) =
     with_snapshot s None (Some (upsert_session (ss_sessions s) session))"
| "apply_wosm_event s (SessionUpdated sid patch) =
     with_snapshot s None (Some (map (\<lambda>session. if sv_id session = sid
       then merge_session_patch session patch else session) (ss_sessions s)))"
| "apply_wosm_event s (SessionRemoved sid) =
     with_snapshot s None (Some (filter (\<lambda>session. sv_id session \<noteq> sid) (ss_sessions s)))"
| "apply_wosm_event s (ProviderHealthChanged provider health) =
     \<lparr>ar_snapshot = s\<lparr>ss_providerHealth := rec_set provider health (ss_providerHealth s)\<rparr>,
      ar_needsSnapshotRefresh = True, ar_notices = []\<rparr>"
| "apply_wosm_event s (CommandFailed c e tr) =
     \<lparr>ar_snapshot = s, ar_needsSnapshotRefresh = False, ar_notices = [safe_error_to_notice e]\<rparr>"
| "apply_wosm_event s (ObserverReconciled at n tr) =
     \<lparr>ar_snapshot = s, ar_needsSnapshotRefresh = True, ar_notices = []\<rparr>"
| "apply_wosm_event s (ProjectUpdated p) =
     \<lparr>ar_snapshot = s, ar_needsSnapshotRefresh = True, ar_notices = []\<rparr>"
| "apply_wosm_event s (ProviderHookIngested at h p e) =
     \<lparr>ar_snapshot = s, ar_needsSnapshotRefresh = True, ar_notices = []\<rparr>"
| "apply_wosm_event s (ProviderHookSpoolDrained at d f) =
     \<lparr>ar_snapshot = s, ar_needsSnapshotRefresh = True, ar_notices = []\<rparr>"
| "apply_wosm_event s _ =
     \<lparr>ar_snapshot = s, ar_needsSnapshotRefresh = False, ar_notices = []\<rparr>"

text \<open>The snapshot after a sequence of events (the loop of the client's event subscription).\<close>

definition apply_events :: "snapshot \<Rightarrow> wosm_event list \<Rightarrow> snapshot" where
  "apply_events s events = foldl (\<lambda>s e. ar_snapshot (apply_wosm_event s e)) s events"

end
