(* ===== verification/ClientProperties.thy ===== *)
theory ClientProperties
  imports ProjectionProperties SnapshotReducer
begin

section \<open>Client and observer agree\<close>

text \<open>
  The observer projects a report onto its snapshot and publishes events; a client applies the
  events to its copy. Both ends must show the same thing: the same agents, status labels, alerts
  and sessions. The lemmas below relate the reducer's patches to the projection's updates.
\<close>

subsection \<open>Sessions\<close>

definition status_event :: "session_id \<Rightarrow> observed_status \<Rightarrow> wosm_event" where
  "status_event sid status = SessionUpdated sid (empty_session_patch
     \<lparr>sp_updatedAt := Some (os_updatedAt status), sp_status := Some status\<rparr>)"

lemma merge_status_patch:
  "merge_session_patch x (empty_session_patch
     \<lparr>sp_updatedAt := Some (os_updatedAt status), sp_status := Some status\<rparr>) = with_status status x"
  by (simp add: merge_session_patch_def empty_session_patch_def with_status_def)

lemma session_status_equal_with_status:
  assumes "session_status_equal x (with_status status x)"
  shows "with_status status x = x"
  using assms by (simp add: session_status_equal_def with_status_def)

lemma project_session_loop_event:
  "snd (snd (project_session_loop sid status changed event sessions)) =
     (if \<exists>x \<in> set sessions. sv_id x = sid \<and> with_status status x \<noteq> x
      then Some (status_event sid status) else event)"
proof (induction sessions arbitrary: changed event)
  case Nil
  then show ?case by simp
next
  case (Cons x rest)
  have pair: "snd (snd (case p of (next, c, e) \<Rightarrow> (y # next, c, e))) = snd (snd p)"
    for p :: "session_view list \<times> bool \<times> wosm_event option" and y
    by (simp add: case_prod_beta)
  have changed: "session_status_equal x (with_status status x) \<longleftrightarrow> with_status status x = x"
    using session_status_equal_with_status by fastforce
  have patch: "sv_updatedAt (with_status status x) = os_updatedAt status"
    "sv_status (with_status status x) = status"
    by (simp_all add: with_status_def)
  show ?case
    by (simp only: project_session_loop.simps Let_def pair Cons changed patch if_distrib [of snd])
      (auto simp: status_event_def)
qed

lemma project_session_event:
  "sj_event (project_session sessions agent status) =
     (case ag_sessionId agent of
        None \<Rightarrow> None
      | Some sid \<Rightarrow> if \<exists>x \<in> set sessions. sv_id x = sid \<and> with_status status x \<noteq> x
          then Some (status_event sid status) else None)"
  using project_session_loop_event [of "the (ag_sessionId agent)" status False None sessions]
  by (auto simp: project_session_def split: option.splits prod.splits)

lemma project_session_sessions:
  "sj_sessions (project_session sessions agent status) =
     (case ag_sessionId agent of
        None \<Rightarrow> sessions
      | Some sid \<Rightarrow> map (\<lambda>x. if sv_id x = sid then with_status status x else x) sessions)"
  using project_session_loop_sessions [of "the (ag_sessionId agent)" status False None sessions]
  by (auto simp: project_session_def split: option.splits prod.splits)

definition apply_optional :: "snapshot \<Rightarrow> wosm_event option \<Rightarrow> snapshot" where
  "apply_optional s e = (case e of None \<Rightarrow> s | Some e \<Rightarrow> ar_snapshot (apply_wosm_event s e))"

lemma apply_session_event:
  assumes "ss_sessions s' = ss_sessions s"
  shows "ss_sessions (apply_optional s' (sj_event (project_session (ss_sessions s) agent status))) =
      sj_sessions (project_session (ss_sessions s) agent status) \<and>
    ss_rows (apply_optional s' (sj_event (project_session (ss_sessions s) agent status))) = ss_rows s'"
proof (cases "ag_sessionId agent")
  case None
  then show ?thesis by (simp add: project_session_event project_session_sessions apply_optional_def assms)
next
  case (Some sid)
  show ?thesis
  proof (cases "\<exists>x \<in> set (ss_sessions s). sv_id x = sid \<and> with_status status x \<noteq> x")
    case True
    with Some show ?thesis
      by (simp add: project_session_event project_session_sessions apply_optional_def assms
          status_event_def with_snapshot_def merge_status_patch)
  next
    case False
    then have "map (\<lambda>x. if sv_id x = sid then with_status status x else x) (ss_sessions s) = ss_sessions s"
      by (intro map_idI) auto
    with Some False show ?thesis
      by (auto simp: project_session_event project_session_sessions apply_optional_def assms)
  qed
qed

subsection \<open>Rows\<close>

lemma map_if_key_update:
  assumes "distinct (map key xs)" "i < length xs"
  shows "map (\<lambda>x. if key x = key (xs ! i) then f x else x) xs = xs[i := f (xs ! i)]"
proof (rule nth_equalityI)
  fix j
  assume "j < length (map (\<lambda>x. if key x = key (xs ! i) then f x else x) xs)"
  then have "j < length xs" by simp
  moreover from this have "key (xs ! j) = key (xs ! i) \<longleftrightarrow> j = i"
    using assms by (metis length_map nth_eq_iff_index_eq nth_map)
  ultimately show "map (\<lambda>x. if key x = key (xs ! i) then f x else x) xs ! j = xs[i := f (xs ! i)] ! j"
    using assms(2) by (simp add: nth_list_update)
qed simp

text \<open>What a client shows of a row: its agent's state, its label, where it sorts, its alert.\<close>

definition row_face :: "worktree_row \<Rightarrow> worktree_id \<times> agent_state option \<times> status_label \<times> int \<times> bool" where
  "row_face row = (row_id row, map_option ag_state (row_agent row), rd_statusLabel (row_display row),
     rd_sortPriority (row_display row), rd_alert (row_display row))"

definition row_shows_state :: "worktree_row \<Rightarrow> bool" where
  "row_shows_state row =
     (let policy = status_policy (map_option ag_state (row_agent row)) in
      rd_statusLabel (row_display row) = sp_label policy \<and>
      rd_sortPriority (row_display row) = sp_priority policy \<and>
      rd_alert (row_display row) = sp_alert policy)"

lemma row_face_eq:
  "row_shows_state row \<Longrightarrow> row_face row =
     (row_id row, map_option ag_state (row_agent row),
      sp_label (status_policy (map_option ag_state (row_agent row))),
      sp_priority (status_policy (map_option ag_state (row_agent row))),
      sp_alert (status_policy (map_option ag_state (row_agent row))))"
  by (simp add: row_face_def row_shows_state_def Let_def)

lemma graph_rows_show_state: "r \<in> set (graph_rows lc input) \<Longrightarrow> row_shows_state r"
  by (auto simp: graph_row_mem row_shows_state_def graph_row_def build_worktree_row_def Let_def
      row_agent_of_def option.map_comp comp_def)

lemma projected_row_shows_state: "row_shows_state (projected_row row agent status)"
  by (simp add: row_shows_state_def display_for_status_def Let_def)

lemma merged_row_face:
  assumes "ag_state a \<noteq> AgentNone"
  shows "row_face (merge_row_patch row (row_patch_for_agent_state (Some a))) =
    (row_id row, Some (ag_state a), sp_label (status_policy (Some (ag_state a))),
      sp_priority (status_policy (Some (ag_state a))), sp_alert (status_policy (Some (ag_state a))))"
  using assms
  by (cases "ag_state a") (simp_all add: row_face_def merge_row_patch_def row_patch_for_agent_state_def
      empty_row_patch_def merge_display_def)

lemma apply_events_simps [simp]:
  "apply_events s [] = s"
  "apply_events s (e # es) = apply_events (ar_snapshot (apply_wosm_event s e)) es"
  by (simp_all add: apply_events_def)

lemma apply_agent_change:
  assumes "distinct (map row_id (ss_rows s))" "i < length (ss_rows s)"
    "sc_worktreeId c = row_id (ss_rows s ! i)"
  shows "ss_rows (ar_snapshot (apply_wosm_event s (AgentStateChanged c))) =
      (ss_rows s)[i := merge_row_patch (ss_rows s ! i) (row_patch_for_agent_state (sc_agent c))] \<and>
    ss_sessions (ar_snapshot (apply_wosm_event s (AgentStateChanged c))) = ss_sessions s"
  using map_if_key_update [OF assms(1,2)] by (simp add: with_snapshot_def assms(3))

lemma client_rows_after_projection:
  assumes "distinct (map row_id (ss_rows s))" "i < length (ss_rows s)"
    "row_agent (ss_rows s ! i) = Some agent" "row_shows_state (ss_rows s ! i)"
    "os_value status \<noteq> AgentNone"
    "rows = (if ag_state agent \<noteq> os_value status
       then (ss_rows s)[i := merge_row_patch (ss_rows s ! i)
         (row_patch_for_agent_state (Some (project_agent agent status)))]
       else ss_rows s)"
  shows "map row_face rows = map row_face ((ss_rows s)[i := projected_row (ss_rows s ! i) agent status])"
proof -
  have face: "row_face (projected_row (ss_rows s ! i) agent status) =
      (row_id (ss_rows s ! i), Some (os_value status), sp_label (status_policy (Some (os_value status))),
       sp_priority (status_policy (Some (os_value status))),
       sp_alert (status_policy (Some (os_value status))))"
    by (simp add: row_face_eq [OF projected_row_shows_state])
  show ?thesis
  proof (cases "ag_state agent = os_value status")
    case True
    then have "row_face (ss_rows s ! i) = row_face (projected_row (ss_rows s ! i) agent status)"
      using assms(3) by (simp add: face row_face_eq [OF assms(4)])
    then show ?thesis
      using True assms(2,6) by (metis list_update_id map_update)
  next
    case False
    have "ag_state (project_agent agent status) \<noteq> AgentNone" using assms(5) by simp
    from merged_row_face [OF this] False show ?thesis by (simp add: assms(6) map_update face)
  qed
qed

text \<open>C7: Clients follow the observer without a new snapshot: a client that holds the observer's
  snapshot and applies the events of a projected report shows the same rows (identity, agent
  state, label, priority and alert) and the same sessions as the observer's new snapshot. The
  status must not be "none", which the two ends label differently.\<close>

theorem client_follows_projection:
  assumes "distinct (map row_id (ss_rows s))" and "\<forall>row \<in> set (ss_rows s). row_shows_state row"
    and "er_status report = Some status" and "os_value status \<noteq> AgentNone"
  shows "mset (map row_face (ss_rows (apply_events s (pj_events (project_report lc s report t))))) =
      mset (map row_face (ss_rows (pj_snapshot (project_report lc s report t)))) \<and>
    ss_sessions (apply_events s (pj_events (project_report lc s report t))) =
      ss_sessions (pj_snapshot (project_report lc s report t))"
proof (cases rule: project_report_cases [of lc s report t])
  case quiet
  then show ?thesis by simp
next
  case (applied st i c agent)
  have st: "st = status" using projection_contextD [OF applied(1)] assms(3) by simp
  note row = projection_context_row [OF applied(1)]
  let ?next = "project_agent agent status"
  let ?change = "\<lparr>sc_worktreeId = row_id (ss_rows s ! i), sc_agent = Some ?next,
    sc_sessionTitle = session_title_for_agent (sj_sessions (project_session (ss_sessions s) ?next status)) ?next,
    sc_changeSource = Some FromHarnessEventReport, sc_harnessEventType = Some (er_eventType report),
    sc_reportId = Some (er_reportId report)\<rparr>"
  let ?s1 = "if ag_state agent \<noteq> os_value status
    then ar_snapshot (apply_wosm_event s (AgentStateChanged ?change)) else s"
  have s1: "ss_rows ?s1 = (if ag_state agent \<noteq> os_value status
       then (ss_rows s)[i := merge_row_patch (ss_rows s ! i) (row_patch_for_agent_state (Some ?next))]
       else ss_rows s) \<and> ss_sessions ?s1 = ss_sessions s"
    using apply_agent_change [OF assms(1), of i ?change] row by simp
  have events: "apply_events s (pj_events (project_report lc s report t)) =
      apply_optional ?s1 (sj_event (project_session (ss_sessions s) ?next status))"
    by (simp add: project_report_applied [OF applied] st apply_optional_def split: option.split)
  have "map row_face (ss_rows ?s1) =
      map row_face ((ss_rows s)[i := projected_row (ss_rows s ! i) agent status])"
    by (rule client_rows_after_projection [OF assms(1)]) (use row s1 assms in auto)
  moreover have "mset ((ss_rows s)[i := projected_row (ss_rows s ! i) agent status]) =
      mset (ss_rows (pj_snapshot (project_report lc s report t)))"
    by (simp add: project_report_applied [OF applied] st projected_row_def)
  ultimately have "mset (map row_face (ss_rows ?s1)) =
      mset (map row_face (ss_rows (pj_snapshot (project_report lc s report t))))"
    by (metis mset_map)
  moreover have "ss_sessions (pj_snapshot (project_report lc s report t)) =
      sj_sessions (project_session (ss_sessions s) ?next status)"
    by (simp add: project_report_applied [OF applied] st)
  ultimately show ?thesis
    using apply_session_event [of ?s1 s ?next status] s1 by (simp add: events)
qed

lemma client_follows_projection_witness:
  "mset (map row_face (ss_rows (apply_events sample_snapshot
      (pj_events (project_report code_unit_compare sample_snapshot (sample_report AgentStuck) ''2026-01-01T00:02:00Z''))))) =
   mset (map row_face (ss_rows (pj_snapshot (project_report code_unit_compare sample_snapshot
      (sample_report AgentStuck) ''2026-01-01T00:02:00Z''))))"
proof -
  have "distinct (map row_id (ss_rows sample_snapshot))" by code_simp
  moreover have "\<forall>row \<in> set (ss_rows sample_snapshot). row_shows_state row"
    by (simp add: sample_snapshot_def graph_rows_show_state)
  moreover have "er_status (sample_report AgentStuck) = Some (sample_status AgentStuck)"
    by (simp add: sample_report_def)
  moreover have "os_value (sample_status AgentStuck) \<noteq> AgentNone" by (simp add: sample_status_def)
  ultimately show ?thesis by (rule client_follows_projection [THEN conjunct1])
qed

text \<open>What the client does not follow: when an agent leaves an attention state, the client's row
  keeps the old warning and reason, because the patch is spread over the old display, while the
  observer's row has neither; and every patched row loses its recovery action.\<close>

lemma client_keeps_stale_warning:
  assumes "ag_state a = os_value status" and "os_value status \<notin> {AgentNeedsAttention, AgentStuck}"
  shows "rd_warning (row_display (merge_row_patch row (row_patch_for_agent_state (Some a)))) =
      rd_warning (row_display row) \<and>
    rd_reason (row_display (merge_row_patch row (row_patch_for_agent_state (Some a)))) =
      rd_reason (row_display row) \<and>
    rd_warning (display_for_status status) = None \<and> rd_reason (display_for_status status) = None \<and>
    row_recovery (merge_row_patch row patch) = None"
  using assms
  by (cases "os_value status")
    (simp_all add: merge_row_patch_def row_patch_for_agent_state_def empty_row_patch_def
      merge_display_def display_for_status_def nullish_opt_def)

end
