(* ===== verification/Transitions.thy ===== *)
theory Transitions
  imports Main
begin

section \<open>Transition systems\<close>

text \<open>
  The interface the asynchronous components share: a set of initial states and a step relation.
  The locales hold the induction principle for invariants and the argument that a system with a
  decreasing measure comes to rest; every queue and scheduler of the development interprets them.
\<close>

locale transition_system =
  fixes init :: "'s \<Rightarrow> bool" and step :: "'s \<Rightarrow> 's \<Rightarrow> bool"
begin

definition reachable :: "'s \<Rightarrow> bool" where
  "reachable s \<longleftrightarrow> (\<exists>s0. init s0 \<and> step\<^sup>*\<^sup>* s0 s)"

lemma reachable_init: "init s \<Longrightarrow> reachable s"
  by (auto simp: reachable_def)

lemma reachable_step: "reachable s \<Longrightarrow> step s s' \<Longrightarrow> reachable s'"
  unfolding reachable_def by (meson rtranclp.rtrancl_into_rtrancl)

lemma invariant_steps:
  assumes "step\<^sup>*\<^sup>* s s'" "ok s" "\<And>s s'. ok s \<Longrightarrow> step s s' \<Longrightarrow> ok s'"
  shows "ok s'"
  using assms(1,2) by (induction rule: rtranclp_induct) (auto intro: assms(3))

lemma invariant_reachable:
  assumes "reachable s" "\<And>s. init s \<Longrightarrow> ok s" "\<And>s s'. ok s \<Longrightarrow> step s s' \<Longrightarrow> ok s'"
  shows "ok s"
proof -
  obtain s0 where "init s0" "step\<^sup>*\<^sup>* s0 s" using assms(1) by (auto simp: reachable_def)
  then show ?thesis using invariant_steps [of s0 s ok] assms(2,3) by blast
qed

end

text \<open>
  A system that runs down: its internal steps (those that need no new input) decrease a measure
  while the invariant holds, and in a state without internal steps the goal is reached.
\<close>

locale draining_system = transition_system init step
  for init :: "'s \<Rightarrow> bool" and step :: "'s \<Rightarrow> 's \<Rightarrow> bool" +
  fixes internal :: "'s \<Rightarrow> 's \<Rightarrow> bool" and ok :: "'s \<Rightarrow> bool" and work :: "'s \<Rightarrow> nat"
    and goal :: "'s \<Rightarrow> bool"
  assumes inv_init: "init s \<Longrightarrow> ok s"
    and inv_step: "ok s \<Longrightarrow> step s s' \<Longrightarrow> ok s'"
    and internal_step: "internal s s' \<Longrightarrow> step s s'"
    and internal_work: "ok s \<Longrightarrow> internal s s' \<Longrightarrow> work s' < work s"
    and stuck_goal: "ok s \<Longrightarrow> \<not> (\<exists>s'. internal s s') \<Longrightarrow> goal s"
begin

lemma reachable_inv: "reachable s \<Longrightarrow> ok s"
  by (erule invariant_reachable) (auto intro: inv_init inv_step)

lemma internal_inv: "ok s \<Longrightarrow> internal s s' \<Longrightarrow> ok s'"
  using internal_step inv_step by blast

lemma drains_inv:
  assumes "ok s"
  shows "\<exists>s'. internal\<^sup>*\<^sup>* s s' \<and> goal s'"
  using assms
proof (induction "work s" arbitrary: s rule: less_induct)
  case less
  show ?case
  proof (cases "\<exists>s'. internal s s'")
    case True
    then obtain s1 where s1: "internal s s1" by blast
    then have "\<exists>s'. internal\<^sup>*\<^sup>* s1 s' \<and> goal s'"
      using less internal_work internal_inv by blast
    with s1 show ?thesis by (meson converse_rtranclp_into_rtranclp)
  next
    case False
    with less.prems stuck_goal show ?thesis by blast
  qed
qed

lemma drains: "reachable s \<Longrightarrow> \<exists>s'. internal\<^sup>*\<^sup>* s s' \<and> goal s'"
  by (rule drains_inv) (rule reachable_inv)

text \<open>No schedule of internal steps is longer than the work left.\<close>

lemma internal_bounded:
  "ok s \<Longrightarrow> (internal ^^ n) s s' \<Longrightarrow> n + work s' \<le> work s \<and> ok s'"
proof (induction n arbitrary: s')
  case 0
  then show ?case by simp
next
  case (Suc n)
  then obtain s1 where s1: "(internal ^^ n) s s1" "internal s1 s'" by auto
  then have "n + work s1 \<le> work s \<and> ok s1" using Suc by blast
  with internal_work [of s1 s'] internal_inv [of s1 s'] s1(2) show ?case by simp
qed

end

end
