(* ===== verification/IngressQueue.thy ===== *)
theory IngressQueue
  imports Snapshots Transitions
begin

section \<open>The harness ingress queue (apps/observer/src/hooks/harnessIngressQueue.ts)\<close>

text \<open>
  Harness event reports are accepted into a bounded queue and processed one at a time by a single
  worker. Reports with the same coalesce key replace each other while they wait; a report
  identifier seen recently is acknowledged without being queued again. The state (a \<^verbatim>\<open>Ref\<close>) is
  only changed by atomic functions, which are translated first; the worker, the drains and the
  shutdown are the step relation \<open>ingress_step\<close> over them. What \<^verbatim>\<open>processReport\<close> answers and what
  the clock shows are open: every answer and every time is a step.
\<close>

subsection \<open>State\<close>

record queued_report =
  qr_report :: event_report
  qr_receivedAt :: timestamp

record spool_drain =
  sd_scanned :: int
  sd_drained :: int
  sd_failed :: int
  sd_finishedAt :: timestamp

record queue_metrics =
  qm_enqueued :: nat
  qm_processed :: nat
  qm_coalesced :: nat
  qm_dropped :: nat
  qm_failed :: nat
  qm_lastProcessedAt :: "timestamp option"
  qm_lastError :: "safe_error option"
  qm_lastDrain :: "spool_drain option"

record queue_state =
  hq_pending :: "(string \<times> queued_report) list"
  hq_seenReportIds :: "string set"
  hq_seenReportIdOrder :: "string list"
  hq_metrics :: queue_metrics
  hq_active :: nat
  hq_shuttingDown :: bool
  hq_waiters :: "nat list"

record queue_health =
  qh_depth :: nat
  qh_metrics :: queue_metrics

record process_result =
  pr_receipt :: report_receipt
  pr_reconcileReason :: "string option"

definition max_remembered_report_ids :: int where
  "max_remembered_report_ids = 10000"

definition default_max_pending_reports :: int where
  "default_max_pending_reports = 10000"

definition initial_metrics :: queue_metrics where
  "initial_metrics = \<lparr>qm_enqueued = 0, qm_processed = 0, qm_coalesced = 0, qm_dropped = 0,
     qm_failed = 0, qm_lastProcessedAt = None, qm_lastError = None, qm_lastDrain = None\<rparr>"

definition initial_queue :: queue_state where
  "initial_queue = \<lparr>hq_pending = [], hq_seenReportIds = {}, hq_seenReportIdOrder = [],
     hq_metrics = initial_metrics, hq_active = 0, hq_shuttingDown = False, hq_waiters = []\<rparr>"

definition is_idle :: "queue_state \<Rightarrow> bool" where
  "is_idle q = (length (hq_pending q) = 0 \<and> hq_active q = 0)"

definition ingress_health :: "queue_state \<Rightarrow> queue_health" where
  "ingress_health q = \<lparr>qh_depth = length (hq_pending q) + hq_active q, qh_metrics = hq_metrics q\<rparr>"

subsection \<open>Receipts and keys\<close>

definition accepted_receipt :: "event_report \<Rightarrow> timestamp \<Rightarrow> bool \<Rightarrow> report_receipt" where
  "accepted_receipt report receivedAt deduped =
     \<lparr>rr_reportId = er_reportId report, rr_provider = er_provider report,
      rr_eventType = er_eventType report, rr_accepted = True, rr_status = ReportAccepted,
      rr_receivedAt = receivedAt, rr_projected = Some False,
      rr_scheduledReconcile = Some (\<not> deduped), rr_deduped = Some deduped, rr_error = None\<rparr>"

definition rejected_receipt :: "event_report \<Rightarrow> timestamp \<Rightarrow> safe_error \<Rightarrow> report_receipt" where
  "rejected_receipt report receivedAt error =
     \<lparr>rr_reportId = er_reportId report, rr_provider = er_provider report,
      rr_eventType = er_eventType report, rr_accepted = False, rr_status = ReportRejected,
      rr_receivedAt = receivedAt, rr_projected = Some False,
      rr_scheduledReconcile = Some False, rr_deduped = None, rr_error = Some error\<rparr>"

definition stable_agent_key :: "event_report \<Rightarrow> string" where
  "stable_agent_key report =
     (let c = er_correlation report in
      nullish (nullish_opt (Option.bind c rc_harnessRunId)
        (nullish_opt (Option.bind c rc_sessionId)
        (nullish_opt (Option.bind c rc_worktreeId)
        (nullish_opt (Option.bind c rc_terminalTargetId) (Option.bind c rc_cwd)))))
        (er_reportId report))"

definition coalesce_key :: "event_report \<Rightarrow> string" where
  "coalesce_key report = str_join '':''
     [er_provider report, stable_agent_key report, er_eventType report,
      nullish (er_coalesceKey report) ''-'']"

subsection \<open>Atomic updates\<close>

definition record_dropped :: "queue_state \<Rightarrow> safe_error \<Rightarrow> queue_state" where
  "record_dropped q error =
     q\<lparr>hq_metrics := (hq_metrics q)\<lparr>qm_dropped := qm_dropped (hq_metrics q) + 1,
       qm_lastError := Some error\<rparr>\<rparr>"

definition record_processed :: "queue_state \<Rightarrow> process_result \<Rightarrow> timestamp \<Rightarrow> queue_state" where
  "record_processed q result now =
     (let metrics = (hq_metrics q)\<lparr>qm_processed := qm_processed (hq_metrics q) + 1,
            qm_lastProcessedAt := Some now\<rparr>;
          metrics = (if rr_status (pr_receipt result) = ReportRejected
            then metrics\<lparr>qm_failed := qm_failed (hq_metrics q) + 1,
              qm_lastError := nullish_opt (rr_error (pr_receipt result)) (qm_lastError metrics)\<rparr>
            else metrics)
      in q\<lparr>hq_metrics := metrics\<rparr>)"

definition record_failed :: "queue_state \<Rightarrow> safe_error \<Rightarrow> timestamp \<Rightarrow> queue_state" where
  "record_failed q error now =
     q\<lparr>hq_metrics := (hq_metrics q)\<lparr>qm_failed := qm_failed (hq_metrics q) + 1,
       qm_lastProcessedAt := Some now, qm_lastError := Some error\<rparr>\<rparr>"

definition record_spool_drain :: "queue_state \<Rightarrow> int \<Rightarrow> int \<Rightarrow> int \<Rightarrow> timestamp \<Rightarrow> queue_state" where
  "record_spool_drain q scanned drained failed now =
     q\<lparr>hq_metrics := (hq_metrics q)\<lparr>qm_lastDrain :=
       Some \<lparr>sd_scanned = scanned, sd_drained = drained, sd_failed = failed, sd_finishedAt = now\<rparr>\<rparr>\<rparr>"

definition decrement_active :: "queue_state \<Rightarrow> queue_state" where
  "decrement_active q = q\<lparr>hq_active := hq_active q - 1\<rparr>"

text \<open>The loop that forgets the oldest identifiers while more than the limit are remembered.\<close>

fun forget_oldest :: "string set \<Rightarrow> string list \<Rightarrow> string set \<times> string list" where
  "forget_oldest ids [] = (ids, [])"
| "forget_oldest ids (x # xs) =
     (if int (length (x # xs)) > max_remembered_report_ids
      then forget_oldest (ids - {x}) xs else (ids, x # xs))"

definition remember_report_id :: "queue_state \<Rightarrow> string \<Rightarrow> string set \<times> string list" where
  "remember_report_id q reportId =
     forget_oldest (insert reportId (hq_seenReportIds q)) (hq_seenReportIdOrder q @ [reportId])"

definition shutting_down_error :: "event_report \<Rightarrow> safe_error" where
  "shutting_down_error report =
     (basic_error ''CancellationError'' ''HARNESS_INGRESS_QUEUE_SHUTTING_DOWN''
       ''Observer harness ingress queue is shutting down.'')\<lparr>se_provider := Some (er_provider report)\<rparr>"

definition queue_full_error :: "event_report \<Rightarrow> safe_error" where
  "queue_full_error report =
     (basic_error ''BackpressureError'' ''HARNESS_INGRESS_QUEUE_FULL''
       ''Observer harness ingress queue is full.'')\<lparr>se_provider := Some (er_provider report)\<rparr>"

record enqueue_result =
  eq_receipt :: report_receipt
  eq_readyKey :: "string option"

definition enqueue_in_state ::
  "queue_state \<Rightarrow> event_report \<Rightarrow> timestamp \<Rightarrow> int \<Rightarrow> enqueue_result \<times> queue_state" where
  "enqueue_in_state q report receivedAt maxPending =
     (if hq_shuttingDown q
      then (\<lparr>eq_receipt = rejected_receipt report receivedAt (shutting_down_error report),
              eq_readyKey = None\<rparr>, record_dropped q (shutting_down_error report))
      else if er_reportId report \<in> hq_seenReportIds q
      then (\<lparr>eq_receipt = accepted_receipt report receivedAt True, eq_readyKey = None\<rparr>, q)
      else
        (let key = coalesce_key report;
             alreadyPending = (map_of (hq_pending q) key \<noteq> None)
         in if \<not> alreadyPending \<and> int (length (hq_pending q) + hq_active q) \<ge> maxPending
            then (\<lparr>eq_receipt = rejected_receipt report receivedAt (queue_full_error report),
                    eq_readyKey = None\<rparr>, record_dropped q (queue_full_error report))
            else
              (let pending = rec_set key \<lparr>qr_report = report, qr_receivedAt = receivedAt\<rparr> (hq_pending q);
                   metrics = (hq_metrics q)\<lparr>qm_enqueued := qm_enqueued (hq_metrics q) + 1\<rparr>;
                   metrics = (if alreadyPending
                     then metrics\<lparr>qm_coalesced := qm_coalesced (hq_metrics q) + 1\<rparr> else metrics);
                   (ids, order) = remember_report_id q (er_reportId report)
               in (\<lparr>eq_receipt = accepted_receipt report receivedAt False,
                    eq_readyKey = (if alreadyPending then None else Some key)\<rparr>,
                   q\<lparr>hq_pending := pending, hq_seenReportIds := ids, hq_seenReportIdOrder := order,
                     hq_metrics := metrics\<rparr>))))"

definition take_queued_report :: "queue_state \<Rightarrow> string \<Rightarrow> queued_report option \<times> queue_state" where
  "take_queued_report q key =
     (case map_of (hq_pending q) key of
        None \<Rightarrow> (None, q)
      | Some queued \<Rightarrow>
          (Some queued, q\<lparr>hq_pending := rec_del key (hq_pending q), hq_active := hq_active q + 1\<rparr>))"

text \<open>
  \<^verbatim>\<open>updateState\<close>: after the change, an idle queue hands out its waiters, which are then resolved.
\<close>

definition release_waiters :: "queue_state \<Rightarrow> nat list \<times> queue_state" where
  "release_waiters q =
     (if \<not> is_idle q \<or> length (hq_waiters q) = 0 then ([], q)
      else (hq_waiters q, q\<lparr>hq_waiters := []\<rparr>))"

definition drain_request :: "queue_state \<Rightarrow> nat \<Rightarrow> bool \<times> queue_state" where
  "drain_request q waiter =
     (if is_idle q then (True, q) else (False, q\<lparr>hq_waiters := hq_waiters q @ [waiter]\<rparr>))"

subsection \<open>The running queue\<close>

text \<open>
  The worker's program counter: waiting for a key; about to look the key up; inside
  \<^verbatim>\<open>processReport\<close>; the outcome recorded but still counted as active; about to request the
  reconcile; interrupted by the shutdown.
\<close>

datatype worker =
  WorkerTaking
| WorkerLookup string
| WorkerProcessing queued_report
| WorkerSettling "string option"
| WorkerReporting "string option"
| WorkerStopped

datatype process_outcome = Returned process_result | Threw safe_error

text \<open>
  Besides the queue's own state: offers to the work queue that were forked and have not run yet,
  the work queue, the worker, and the history of what the queue did to its environment
  (reports accepted, reports handed to \<^verbatim>\<open>processReport\<close> with the outcome, reconcile requests, and
  the drains that returned).
\<close>

record ingress =
  ig_queue :: queue_state
  ig_offers :: "string list"
  ig_work :: "string list"
  ig_worker :: worker
  ig_accepted :: "event_report list"
  ig_calls :: "(event_report \<times> process_outcome) list"
  ig_reconciles :: "string list"
  ig_drained :: "nat list"

definition option_list :: "'a option \<Rightarrow> 'a list" where
  "option_list x = (case x of None \<Rightarrow> [] | Some a \<Rightarrow> [a])"

definition initial_ingress :: ingress where
  "initial_ingress = \<lparr>ig_queue = initial_queue, ig_offers = [], ig_work = [],
     ig_worker = WorkerTaking, ig_accepted = [], ig_calls = [], ig_reconciles = [], ig_drained = []\<rparr>"

definition update_ingress :: "ingress \<Rightarrow> queue_state \<Rightarrow> worker \<Rightarrow> ingress" where
  "update_ingress s q w =
     (case release_waiters q of (released, q') \<Rightarrow>
        s\<lparr>ig_queue := q', ig_worker := w, ig_drained := ig_drained s @ released\<rparr>)"

definition enqueue_report :: "int \<Rightarrow> event_report \<Rightarrow> timestamp \<Rightarrow> ingress \<Rightarrow> report_receipt \<times> ingress" where
  "enqueue_report maxPending report now s =
     (case enqueue_in_state (ig_queue s) report now maxPending of (result, q') \<Rightarrow>
        (eq_receipt result,
         s\<lparr>ig_queue := q', ig_offers := ig_offers s @ option_list (eq_readyKey result),
           ig_accepted := ig_accepted s @
             (if rr_deduped (eq_receipt result) = Some False then [report] else [])\<rparr>))"

definition worker_lookup :: "string \<Rightarrow> ingress \<Rightarrow> ingress" where
  "worker_lookup key s =
     (case take_queued_report (ig_queue s) key of
        (None, q') \<Rightarrow> update_ingress s q' WorkerTaking
      | (Some queued, q') \<Rightarrow> update_ingress s q' (WorkerProcessing queued))"

definition worker_settle :: "queued_report \<Rightarrow> process_outcome \<Rightarrow> timestamp \<Rightarrow> ingress \<Rightarrow> ingress" where
  "worker_settle queued outcome now s =
     (let s' = s\<lparr>ig_calls := ig_calls s @ [(qr_report queued, outcome)]\<rparr> in
      case outcome of
        Returned result \<Rightarrow>
          update_ingress s' (record_processed (ig_queue s) result now)
            (WorkerSettling (pr_reconcileReason result))
      | Threw error \<Rightarrow>
          update_ingress s' (record_failed (ig_queue s) error now) (WorkerSettling None))"

definition worker_finish :: "string option \<Rightarrow> ingress \<Rightarrow> ingress" where
  "worker_finish reason s = update_ingress s (decrement_active (ig_queue s)) (WorkerReporting reason)"

definition worker_report :: "string option \<Rightarrow> ingress \<Rightarrow> ingress" where
  "worker_report reason s =
     s\<lparr>ig_worker := WorkerTaking, ig_reconciles := ig_reconciles s @ option_list reason\<rparr>"

definition drain_ingress :: "nat \<Rightarrow> ingress \<Rightarrow> ingress" where
  "drain_ingress waiter s =
     (case drain_request (ig_queue s) waiter of (alreadyIdle, q') \<Rightarrow>
        s\<lparr>ig_queue := q', ig_drained := ig_drained s @ (if alreadyIdle then [waiter] else [])\<rparr>)"

definition begin_shutdown :: "ingress \<Rightarrow> ingress" where
  "begin_shutdown s =
     update_ingress s ((ig_queue s)\<lparr>hq_shuttingDown := True\<rparr>) (ig_worker s)"

text \<open>
  The worker's own steps, and the steps its environment takes. The last step of a shutdown
  interrupts the worker, after the shutdown's own drain has returned.
\<close>

inductive worker_step :: "ingress \<Rightarrow> ingress \<Rightarrow> bool" where
  offer: "ig_offers s = xs @ key # ys \<Longrightarrow>
    worker_step s (s\<lparr>ig_offers := xs @ ys, ig_work := ig_work s @ [key]\<rparr>)"
| take: "ig_worker s = WorkerTaking \<Longrightarrow> ig_work s = key # rest \<Longrightarrow>
    worker_step s (s\<lparr>ig_work := rest, ig_worker := WorkerLookup key\<rparr>)"
| lookup: "ig_worker s = WorkerLookup key \<Longrightarrow> worker_step s (worker_lookup key s)"
| settle: "ig_worker s = WorkerProcessing queued \<Longrightarrow>
    worker_step s (worker_settle queued outcome now s)"
| finish: "ig_worker s = WorkerSettling reason \<Longrightarrow> worker_step s (worker_finish reason s)"
| report: "ig_worker s = WorkerReporting reason \<Longrightarrow> worker_step s (worker_report reason s)"

inductive ingress_step :: "int \<Rightarrow> ingress \<Rightarrow> ingress \<Rightarrow> bool" for maxPending where
  work: "worker_step s s' \<Longrightarrow> ingress_step maxPending s s'"
| enqueue: "ingress_step maxPending s (snd (enqueue_report maxPending report now s))"
| drain: "ingress_step maxPending s (drain_ingress waiter s)"
| spool: "ingress_step maxPending s
    (s\<lparr>ig_queue := record_spool_drain (ig_queue s) scanned drained failed now\<rparr>)"
| shutdown: "ingress_step maxPending s (begin_shutdown s)"
| stop: "hq_shuttingDown (ig_queue s) \<Longrightarrow> is_idle (ig_queue s) \<Longrightarrow>
    ig_worker s \<in> {WorkerTaking, WorkerReporting reason} \<Longrightarrow>
    ingress_step maxPending s (s\<lparr>ig_worker := WorkerStopped\<rparr>)"

inductive_cases worker_stepE: "worker_step s s'"
inductive_cases ingress_stepE: "ingress_step maxPending s s'"

end
