(* ===== verification/IngressProperties.thy ===== *)
theory IngressProperties
  imports IngressQueue "HOL-Library.Multiset" "HOL-Library.Sublist"
begin

section \<open>Correctness of the ingress queue\<close>

text \<open>
  The invariants of the running queue, proved step by step: the work queue and the pending map
  hold the same keys, the depth stays within the limit, identifiers are remembered exactly once,
  the newest report of every key survives, the counters account for every report, and without
  new reports the queue runs idle and releases every drain.
\<close>

subsection \<open>The shape of the state\<close>

definition worker_keys :: "worker \<Rightarrow> string list" where
  "worker_keys w = (case w of WorkerLookup key \<Rightarrow> [key] | _ \<Rightarrow> [])"

definition worker_active :: "worker \<Rightarrow> nat" where
  "worker_active w = (case w of WorkerProcessing queued \<Rightarrow> 1 | WorkerSettling reason \<Rightarrow> 1 | _ \<Rightarrow> 0)"

definition worker_reports :: "worker \<Rightarrow> event_report list" where
  "worker_reports w = (case w of WorkerProcessing queued \<Rightarrow> [qr_report queued] | _ \<Rightarrow> [])"

lemma worker_views [simp]:
  "worker_keys WorkerTaking = []" "worker_keys (WorkerLookup k) = [k]"
  "worker_keys (WorkerProcessing q) = []" "worker_keys (WorkerSettling r) = []"
  "worker_keys (WorkerReporting r) = []" "worker_keys WorkerStopped = []"
  "worker_active WorkerTaking = 0" "worker_active (WorkerLookup k) = 0"
  "worker_active (WorkerProcessing q) = 1" "worker_active (WorkerSettling r) = 1"
  "worker_active (WorkerReporting r) = 0" "worker_active WorkerStopped = 0"
  "worker_reports WorkerTaking = []" "worker_reports (WorkerLookup k) = []"
  "worker_reports (WorkerProcessing q) = [qr_report q]" "worker_reports (WorkerSettling r) = []"
  "worker_reports (WorkerReporting r) = []" "worker_reports WorkerStopped = []"
  by (simp_all add: worker_keys_def worker_active_def worker_reports_def)

definition queue_ok :: "int \<Rightarrow> queue_state \<Rightarrow> bool" where
  "queue_ok maxPending q =
     (distinct (map fst (hq_pending q)) \<and>
      list_all (\<lambda>(key, queued). coalesce_key (qr_report queued) = key) (hq_pending q) \<and>
      int (length (hq_pending q) + hq_active q) \<le> max maxPending 0)"

definition seen_ok :: "queue_state \<Rightarrow> bool" where
  "seen_ok q =
     (set (hq_seenReportIdOrder q) = hq_seenReportIds q \<and> distinct (hq_seenReportIdOrder q) \<and>
      int (length (hq_seenReportIdOrder q)) \<le> max_remembered_report_ids)"

definition ingress_ok :: "int \<Rightarrow> ingress \<Rightarrow> bool" where
  "ingress_ok maxPending s =
     (queue_ok maxPending (ig_queue s) \<and> seen_ok (ig_queue s) \<and>
      mset (map fst (hq_pending (ig_queue s))) =
        mset (ig_offers s) + mset (ig_work s) + mset (worker_keys (ig_worker s)) \<and>
      hq_active (ig_queue s) = worker_active (ig_worker s) \<and>
      (is_idle (ig_queue s) \<longrightarrow> hq_waiters (ig_queue s) = []) \<and>
      (ig_worker s = WorkerStopped \<longrightarrow> hq_shuttingDown (ig_queue s) \<and> is_idle (ig_queue s)))"

subsection \<open>Atomic updates\<close>

lemma release_waiters_simps [simp]:
  "hq_pending (snd (release_waiters q)) = hq_pending q"
  "hq_active (snd (release_waiters q)) = hq_active q"
  "hq_seenReportIds (snd (release_waiters q)) = hq_seenReportIds q"
  "hq_seenReportIdOrder (snd (release_waiters q)) = hq_seenReportIdOrder q"
  "hq_metrics (snd (release_waiters q)) = hq_metrics q"
  "hq_shuttingDown (snd (release_waiters q)) = hq_shuttingDown q"
  "is_idle (snd (release_waiters q)) = is_idle q"
  by (simp_all add: release_waiters_def is_idle_def)

lemma release_waiters_idle: "is_idle q \<Longrightarrow> hq_waiters (snd (release_waiters q)) = []"
  by (simp add: release_waiters_def)

lemma update_ingress_simps [simp]:
  "ig_queue (update_ingress s q w) = snd (release_waiters q)"
  "ig_worker (update_ingress s q w) = w"
  "ig_offers (update_ingress s q w) = ig_offers s"
  "ig_work (update_ingress s q w) = ig_work s"
  "ig_accepted (update_ingress s q w) = ig_accepted s"
  "ig_calls (update_ingress s q w) = ig_calls s"
  "ig_reconciles (update_ingress s q w) = ig_reconciles s"
  "ig_drained (update_ingress s q w) = ig_drained s @ fst (release_waiters q)"
  by (simp_all add: update_ingress_def split: prod.split)

lemma record_simps [simp]:
  "hq_pending (record_processed q r now) = hq_pending q"
  "hq_active (record_processed q r now) = hq_active q"
  "hq_seenReportIds (record_processed q r now) = hq_seenReportIds q"
  "hq_seenReportIdOrder (record_processed q r now) = hq_seenReportIdOrder q"
  "hq_shuttingDown (record_processed q r now) = hq_shuttingDown q"
  "hq_waiters (record_processed q r now) = hq_waiters q"
  "hq_pending (record_failed q e now) = hq_pending q"
  "hq_active (record_failed q e now) = hq_active q"
  "hq_seenReportIds (record_failed q e now) = hq_seenReportIds q"
  "hq_seenReportIdOrder (record_failed q e now) = hq_seenReportIdOrder q"
  "hq_shuttingDown (record_failed q e now) = hq_shuttingDown q"
  "hq_waiters (record_failed q e now) = hq_waiters q"
  "hq_pending (decrement_active q) = hq_pending q"
  "hq_active (decrement_active q) = hq_active q - 1"
  "hq_seenReportIds (decrement_active q) = hq_seenReportIds q"
  "hq_seenReportIdOrder (decrement_active q) = hq_seenReportIdOrder q"
  "hq_shuttingDown (decrement_active q) = hq_shuttingDown q"
  "hq_metrics (decrement_active q) = hq_metrics q"
  "hq_pending (record_dropped q e) = hq_pending q"
  "hq_active (record_dropped q e) = hq_active q"
  "hq_seenReportIds (record_dropped q e) = hq_seenReportIds q"
  "hq_seenReportIdOrder (record_dropped q e) = hq_seenReportIdOrder q"
  "hq_shuttingDown (record_dropped q e) = hq_shuttingDown q"
  "hq_waiters (record_dropped q e) = hq_waiters q"
  by (simp_all add: record_processed_def record_failed_def decrement_active_def record_dropped_def
      Let_def)

definition remembered :: "string list \<Rightarrow> string list" where
  "remembered order = drop (length order - nat max_remembered_report_ids) order"

lemma forget_oldest_eq:
  assumes "distinct order" "set order = ids"
  shows "forget_oldest ids order = (set (remembered order), remembered order)"
  using assms
proof (induction ids order rule: forget_oldest.induct)
  case (1 ids)
  then show ?case by (simp add: remembered_def)
next
  case (2 ids x xs)
  show ?case
  proof (cases "int (length (x # xs)) > max_remembered_report_ids")
    case True
    then have "length (x # xs) - nat max_remembered_report_ids =
        Suc (length xs - nat max_remembered_report_ids)"
      by (simp add: max_remembered_report_ids_def)
    then have "remembered (x # xs) = remembered xs" by (simp add: remembered_def)
    with True 2 show ?thesis by auto
  next
    case False
    then have "remembered (x # xs) = x # xs"
      by (simp add: remembered_def max_remembered_report_ids_def)
    with False 2 show ?thesis by simp
  qed
qed

lemma remembered_simps:
  "int (length (remembered order)) \<le> max_remembered_report_ids"
  "rid \<in> set (remembered (order @ [rid]))"
  by (simp_all add: remembered_def max_remembered_report_ids_def)

lemma remember_report_id_eq:
  assumes "seen_ok q" "rid \<notin> hq_seenReportIds q"
  shows "remember_report_id q rid =
    (set (remembered (hq_seenReportIdOrder q @ [rid])), remembered (hq_seenReportIdOrder q @ [rid]))"
  unfolding remember_report_id_def
  by (rule forget_oldest_eq) (use assms in \<open>auto simp: seen_ok_def\<close>)

lemma distinct_remembered: "distinct order \<Longrightarrow> distinct (remembered order)"
  by (simp add: remembered_def)

subsection \<open>Accepting a report\<close>

text \<open>The four outcomes of an enqueue.\<close>

lemma enqueue_cases:
  assumes "enqueue_in_state q report now maxPending = (result, q')" and "seen_ok q"
  obtains (rejected) e where "q' = record_dropped q e" "eq_readyKey result = None"
      "eq_receipt result = rejected_receipt report now e"
      "hq_shuttingDown q \<or> maxPending \<le> int (length (hq_pending q) + hq_active q)"
  | (deduped) "q' = q" "eq_readyKey result = None" "eq_receipt result = accepted_receipt report now True"
      "er_reportId report \<in> hq_seenReportIds q"
  | (coalesced) old where "map_of (hq_pending q) (coalesce_key report) = Some old"
      "eq_readyKey result = None" "eq_receipt result = accepted_receipt report now False"
      "\<not> hq_shuttingDown q" "er_reportId report \<notin> hq_seenReportIds q"
      "q' = q\<lparr>hq_pending := rec_set (coalesce_key report)
          \<lparr>qr_report = report, qr_receivedAt = now\<rparr> (hq_pending q),
        hq_seenReportIds := set (remembered (hq_seenReportIdOrder q @ [er_reportId report])),
        hq_seenReportIdOrder := remembered (hq_seenReportIdOrder q @ [er_reportId report]),
        hq_metrics := (hq_metrics q)\<lparr>qm_enqueued := qm_enqueued (hq_metrics q) + 1,
          qm_coalesced := qm_coalesced (hq_metrics q) + 1\<rparr>\<rparr>"
  | (queued) "map_of (hq_pending q) (coalesce_key report) = None"
      "eq_readyKey result = Some (coalesce_key report)"
      "eq_receipt result = accepted_receipt report now False"
      "\<not> hq_shuttingDown q" "er_reportId report \<notin> hq_seenReportIds q"
      "int (length (hq_pending q) + hq_active q) < maxPending"
      "q' = q\<lparr>hq_pending := rec_set (coalesce_key report)
          \<lparr>qr_report = report, qr_receivedAt = now\<rparr> (hq_pending q),
        hq_seenReportIds := set (remembered (hq_seenReportIdOrder q @ [er_reportId report])),
        hq_seenReportIdOrder := remembered (hq_seenReportIdOrder q @ [er_reportId report]),
        hq_metrics := (hq_metrics q)\<lparr>qm_enqueued := qm_enqueued (hq_metrics q) + 1\<rparr>\<rparr>"
proof (cases "hq_shuttingDown q")
  case True
  with assms(1) show ?thesis by (intro rejected) (auto simp: enqueue_in_state_def)
next
  case running: False
  show ?thesis
  proof (cases "er_reportId report \<in> hq_seenReportIds q")
    case True
    with running assms(1) show ?thesis by (intro deduped) (auto simp: enqueue_in_state_def)
  next
    case new: False
    note remember = remember_report_id_eq [OF assms(2) new]
    show ?thesis
    proof (cases "map_of (hq_pending q) (coalesce_key report)")
      case (Some old)
      with running new assms(1) remember show ?thesis
        by (intro coalesced [OF Some]) (auto simp: enqueue_in_state_def Let_def)
    next
      case None
      show ?thesis
      proof (cases "int (length (hq_pending q) + hq_active q) < maxPending")
        case True
        with None running new assms(1) remember show ?thesis
          by (intro queued [OF None]) (auto simp: enqueue_in_state_def Let_def)
      next
        case False
        with None running new assms(1) show ?thesis
          by (intro rejected) (auto simp: enqueue_in_state_def Let_def)
      qed
    qed
  qed
qed

subsection \<open>Every step keeps the invariant\<close>

lemma rec_set_all:
  "list_all P r \<Longrightarrow> P (k, v) \<Longrightarrow> list_all P (rec_set k v r)"
  by (induction k v r rule: rec_set.induct) auto

lemma rec_del_all: "list_all P r \<Longrightarrow> list_all P (rec_del k r)"
  by (auto simp: rec_del_def list_all_iff)

lemma ingress_ok_initial: "ingress_ok maxPending initial_ingress"
  by (simp add: ingress_ok_def initial_ingress_def initial_queue_def queue_ok_def seen_ok_def
      max_remembered_report_ids_def)

lemma seen_ok_cong:
  "hq_seenReportIds q' = hq_seenReportIds q \<Longrightarrow> hq_seenReportIdOrder q' = hq_seenReportIdOrder q \<Longrightarrow>
     seen_ok q' = seen_ok q"
  by (simp add: seen_ok_def)

lemma queue_ok_cong:
  "hq_pending q' = hq_pending q \<Longrightarrow> hq_active q' = hq_active q \<Longrightarrow>
     queue_ok maxPending q' = queue_ok maxPending q"
  by (simp add: queue_ok_def)

lemma seen_ok_remembered:
  "seen_ok q \<Longrightarrow> rid \<notin> hq_seenReportIds q \<Longrightarrow>
     seen_ok (q\<lparr>hq_seenReportIds := set (remembered (hq_seenReportIdOrder q @ [rid])),
       hq_seenReportIdOrder := remembered (hq_seenReportIdOrder q @ [rid])\<rparr>)"
  by (simp add: seen_ok_def remembered_simps distinct_remembered)

lemma mset_eq_keys: "mset (map fst r) = A \<Longrightarrow> mset (map fst (rec_set k v r)) =
    (if map_of r k = None then add_mset k A else A)"
  by (simp only: rec_set_key_list) auto

lemma queued_state_ok:
  assumes "queue_ok maxPending q" "seen_ok q" "er_reportId report \<notin> hq_seenReportIds q"
    "map_of (hq_pending q) (coalesce_key report) = None \<Longrightarrow>
       int (length (hq_pending q) + hq_active q) < maxPending"
    "q' = q\<lparr>hq_pending := rec_set (coalesce_key report)
        \<lparr>qr_report = report, qr_receivedAt = now\<rparr> (hq_pending q),
      hq_seenReportIds := set (remembered (hq_seenReportIdOrder q @ [er_reportId report])),
      hq_seenReportIdOrder := remembered (hq_seenReportIdOrder q @ [er_reportId report]),
      hq_metrics := m\<rparr>"
  shows "queue_ok maxPending q'" "seen_ok q'" "hq_active q' = hq_active q"
    "hq_waiters q' = hq_waiters q" "hq_shuttingDown q' = hq_shuttingDown q" "\<not> is_idle q'"
    "mset (map fst (hq_pending q')) =
      (if map_of (hq_pending q) (coalesce_key report) = None
       then add_mset (coalesce_key report) (mset (map fst (hq_pending q)))
       else mset (map fst (hq_pending q)))"
proof -
  let ?r = "rec_set (coalesce_key report) \<lparr>qr_report = report, qr_receivedAt = now\<rparr> (hq_pending q)"
  have len: "length ?r = (if map_of (hq_pending q) (coalesce_key report) = None
      then Suc (length (hq_pending q)) else length (hq_pending q))"
    by (rule rec_set_length)
  have "distinct (map fst ?r)" using assms(1) by (simp add: queue_ok_def rec_set_distinct)
  moreover have "list_all (\<lambda>(key, queued). coalesce_key (qr_report queued) = key) ?r"
    using assms(1) by (simp add: queue_ok_def rec_set_all)
  moreover have "int (length ?r + hq_active q) \<le> max maxPending 0"
    using assms(1,4) len by (auto simp: queue_ok_def split: if_splits)
  ultimately show "queue_ok maxPending q'" by (simp add: queue_ok_def assms(5))
  show "seen_ok q'"
    using assms(2,3) by (simp add: seen_ok_def remembered_simps distinct_remembered assms(5))
  show "hq_active q' = hq_active q" "hq_waiters q' = hq_waiters q"
    "hq_shuttingDown q' = hq_shuttingDown q" by (simp_all add: assms(5))
  have "length ?r \<noteq> 0" by (cases "hq_pending q") (auto split: if_splits)
  then show "\<not> is_idle q'" by (simp add: is_idle_def assms(5))
  show "mset (map fst (hq_pending q')) =
      (if map_of (hq_pending q) (coalesce_key report) = None
       then add_mset (coalesce_key report) (mset (map fst (hq_pending q)))
       else mset (map fst (hq_pending q)))"
    by (simp add: assms(5) mset_eq_keys [OF refl] del: mset_map)
qed

lemma ingress_ok_enqueue:
  assumes "ingress_ok maxPending s"
  shows "ingress_ok maxPending (snd (enqueue_report maxPending report now s))"
proof -
  obtain result q' where eq: "enqueue_in_state (ig_queue s) report now maxPending = (result, q')"
    by fastforce
  have ok: "queue_ok maxPending (ig_queue s)" "seen_ok (ig_queue s)"
    using assms by (simp_all add: ingress_ok_def)
  from eq ok(2) show ?thesis
  proof (cases rule: enqueue_cases)
    case (rejected e)
    then show ?thesis using assms eq
      by (simp add: enqueue_report_def ingress_ok_def option_list_def queue_ok_def seen_ok_def is_idle_def)
  next
    case deduped
    then show ?thesis using assms eq by (simp add: enqueue_report_def ingress_ok_def option_list_def)
  next
    case (coalesced old)
    note q' = queued_state_ok [OF ok coalesced(5) _ coalesced(6)]
    have "map_of (hq_pending (ig_queue s)) (coalesce_key report) \<noteq> None" using coalesced(1) by simp
    with q' assms eq coalesced(2-4) show ?thesis
      by (auto simp: enqueue_report_def ingress_ok_def option_list_def)
  next
    case queued
    note q' = queued_state_ok [OF ok queued(5) queued(6) queued(7)]
    have "ig_worker s \<noteq> WorkerStopped" using assms queued(4) by (auto simp: ingress_ok_def)
    with q' assms eq queued(1-4) show ?thesis
      by (auto simp: enqueue_report_def ingress_ok_def option_list_def)
  qed
qed

lemma lookup_pending:
  assumes "ingress_ok maxPending s" "ig_worker s = WorkerLookup key"
  obtains queued where "map_of (hq_pending (ig_queue s)) key = Some queued"
    "coalesce_key (qr_report queued) = key"
proof -
  have "key \<in># mset (map fst (hq_pending (ig_queue s)))"
    using assms by (simp add: ingress_ok_def)
  then obtain queued where q: "map_of (hq_pending (ig_queue s)) key = Some queued"
    by (cases "map_of (hq_pending (ig_queue s)) key") (auto simp: map_of_eq_None_iff)
  moreover have "coalesce_key (qr_report queued) = key"
    using assms(1) map_of_SomeD [OF q] by (auto simp: ingress_ok_def queue_ok_def list_all_iff)
  ultimately show ?thesis using that by blast
qed

lemma take_queued_Some:
  "map_of (hq_pending q) key = Some queued \<Longrightarrow>
     take_queued_report q key =
       (Some queued, q\<lparr>hq_pending := rec_del key (hq_pending q), hq_active := hq_active q + 1\<rparr>)"
  by (simp add: take_queued_report_def)

lemma worker_lookup_Some:
  "map_of (hq_pending (ig_queue s)) key = Some queued \<Longrightarrow>
     worker_lookup key s = update_ingress s
       ((ig_queue s)\<lparr>hq_pending := rec_del key (hq_pending (ig_queue s)),
         hq_active := hq_active (ig_queue s) + 1\<rparr>) (WorkerProcessing queued)"
  by (simp add: worker_lookup_def take_queued_Some)

lemma ingress_ok_lookup:
  assumes "ingress_ok maxPending s" "ig_worker s = WorkerLookup key"
  shows "ingress_ok maxPending (worker_lookup key s)"
proof -
  obtain queued where q: "map_of (hq_pending (ig_queue s)) key = Some queued"
    using lookup_pending [OF assms] by blast
  have d: "distinct (map fst (hq_pending (ig_queue s)))"
    using assms(1) by (simp add: ingress_ok_def queue_ok_def)
  have len: "Suc (length (rec_del key (hq_pending (ig_queue s)))) = length (hq_pending (ig_queue s))"
    by (rule rec_del_length [OF d]) (simp add: q)
  have keys: "mset (map fst (rec_del key (hq_pending (ig_queue s)))) =
      mset (ig_offers s) + mset (ig_work s)"
    using rec_del_mset_keys [OF d, of key] assms by (simp add: ingress_ok_def)
  show ?thesis
    using assms len keys d
    by (simp add: worker_lookup_Some [OF q] ingress_ok_def queue_ok_def rec_del_all rec_del_distinct
        seen_ok_def is_idle_def)
qed

lemma ingress_ok_settle:
  assumes "ingress_ok maxPending s" "ig_worker s = WorkerProcessing queued"
  shows "ingress_ok maxPending (worker_settle queued outcome now s)"
  using assms
  by (cases outcome) (simp_all add: worker_settle_def Let_def ingress_ok_def queue_ok_def seen_ok_def
      is_idle_def)

lemma ingress_ok_finish:
  assumes "ingress_ok maxPending s" "ig_worker s = WorkerSettling reason"
  shows "ingress_ok maxPending (worker_finish reason s)"
  using assms
  by (simp add: worker_finish_def ingress_ok_def queue_ok_def seen_ok_def release_waiters_idle)

lemma ingress_ok_worker_step:
  assumes "worker_step s s'" "ingress_ok maxPending s"
  shows "ingress_ok maxPending s'"
  using assms(1)
proof cases
  case (offer xs key ys)
  with assms(2) show ?thesis by (simp add: ingress_ok_def)
next
  case (take key rest)
  with assms(2) show ?thesis by (simp add: ingress_ok_def)
next
  case (lookup key)
  then show ?thesis by (simp add: ingress_ok_lookup assms(2))
next
  case (settle queued outcome now)
  then show ?thesis by (simp add: ingress_ok_settle assms(2))
next
  case (finish reason)
  then show ?thesis by (simp add: ingress_ok_finish assms(2))
next
  case (report reason)
  with assms(2) show ?thesis by (simp add: worker_report_def ingress_ok_def)
qed

lemma ingress_ok_step:
  assumes "ingress_step maxPending s s'" "ingress_ok maxPending s"
  shows "ingress_ok maxPending s'"
  using assms(1)
proof cases
  case work
  then show ?thesis using ingress_ok_worker_step assms(2) by blast
next
  case (enqueue report now)
  then show ?thesis by (simp add: ingress_ok_enqueue assms(2))
next
  case (drain waiter)
  with assms(2) show ?thesis
    by (auto simp: drain_ingress_def drain_request_def ingress_ok_def queue_ok_def seen_ok_def is_idle_def)
next
  case (spool scanned drained failed now)
  with assms(2) show ?thesis
    by (simp add: record_spool_drain_def ingress_ok_def queue_ok_def seen_ok_def is_idle_def)
next
  case shutdown
  with assms(2) show ?thesis
    by (auto simp: begin_shutdown_def ingress_ok_def queue_ok_def seen_ok_def is_idle_def
        release_waiters_def)
next
  case (stop reason)
  with assms(2) show ?thesis by (auto simp: ingress_ok_def)
qed

subsection \<open>The newest report of every key survives\<close>

definition handled :: "ingress \<Rightarrow> string \<Rightarrow> event_report list" where
  "handled s key = filter (\<lambda>r. coalesce_key r = key) (map fst (ig_calls s) @ worker_reports (ig_worker s))"

definition waiting :: "ingress \<Rightarrow> string \<Rightarrow> event_report list" where
  "waiting s key = option_list (map_option qr_report (map_of (hq_pending (ig_queue s)) key))"

definition accepted_for :: "ingress \<Rightarrow> string \<Rightarrow> event_report list" where
  "accepted_for s key = filter (\<lambda>r. coalesce_key r = key) (ig_accepted s)"

definition trail_ok :: "event_report list \<Rightarrow> event_report list \<Rightarrow> bool" where
  "trail_ok trail accepted = (subseq trail accepted \<and>
     (accepted \<noteq> [] \<longrightarrow> trail \<noteq> [] \<and> last trail = last accepted))"

definition history_ok :: "ingress \<Rightarrow> bool" where
  "history_ok s = (\<forall>key. trail_ok (handled s key @ waiting s key) (accepted_for s key))"

lemma option_list_simps [simp]: "option_list None = []" "option_list (Some a) = [a]"
  by (simp_all add: option_list_def)

lemma trail_ok_append:
  assumes "trail_ok (xs @ ys) zs"
  shows "trail_ok (xs @ [a]) (zs @ [a])"
proof -
  have "subseq xs zs" using assms by (auto simp: trail_ok_def elim: subseq_order.trans [rotated])
  then show ?thesis by (simp add: trail_ok_def)
qed

lemma history_ok_enqueue:
  assumes "ingress_ok maxPending s" "history_ok s"
  shows "history_ok (snd (enqueue_report maxPending report now s))"
proof -
  obtain result q' where eq: "enqueue_in_state (ig_queue s) report now maxPending = (result, q')"
    by fastforce
  have seen: "seen_ok (ig_queue s)" using assms by (simp add: ingress_ok_def)
  have new: "history_ok (s\<lparr>ig_queue := q', ig_offers := offers,
      ig_accepted := ig_accepted s @ [report]\<rparr>)"
    if "hq_pending q' = rec_set (coalesce_key report)
        \<lparr>qr_report = report, qr_receivedAt = now\<rparr> (hq_pending (ig_queue s))" for offers
  proof -
    let ?s = "s\<lparr>ig_queue := q', ig_offers := offers, ig_accepted := ig_accepted s @ [report]\<rparr>"
    have "trail_ok (handled s key @ waiting s key @ [] @ []) (accepted_for s key)" for key
      using assms(2) by (simp add: history_ok_def)
    then have "trail_ok (handled s key @ [report]) (accepted_for s key @ [report])" for key
      by (rule trail_ok_append)
    then have "trail_ok (handled ?s key @ waiting ?s key) (accepted_for ?s key)" for key
      using assms(2) by (simp add: history_ok_def handled_def waiting_def accepted_for_def that)
    then show ?thesis by (simp add: history_ok_def)
  qed
  from eq seen show ?thesis
  proof (cases rule: enqueue_cases)
    case (rejected e)
    with assms(2) show ?thesis
      by (simp add: enqueue_report_def eq rejected_receipt_def history_ok_def handled_def waiting_def
          accepted_for_def)
  next
    case deduped
    with assms(2) show ?thesis
      by (simp add: enqueue_report_def eq accepted_receipt_def history_ok_def handled_def waiting_def
          accepted_for_def)
  next
    case (coalesced old)
    have "hq_pending q' = rec_set (coalesce_key report)
        \<lparr>qr_report = report, qr_receivedAt = now\<rparr> (hq_pending (ig_queue s))"
      by (simp add: coalesced(6))
    from new [OF this] show ?thesis
      by (simp add: enqueue_report_def eq coalesced(3) accepted_receipt_def)
  next
    case queued
    have "hq_pending q' = rec_set (coalesce_key report)
        \<lparr>qr_report = report, qr_receivedAt = now\<rparr> (hq_pending (ig_queue s))"
      by (simp add: queued(7))
    from new [OF this] show ?thesis
      by (simp add: enqueue_report_def eq queued(3) accepted_receipt_def)
  qed
qed

lemma history_ok_cong:
  assumes "\<And>key. handled s' key @ waiting s' key = handled s key @ waiting s key"
    "ig_accepted s' = ig_accepted s" "history_ok s"
  shows "history_ok s'"
  using assms by (simp add: history_ok_def accepted_for_def)

lemma history_ok_worker_step:
  assumes "worker_step s s'" "ingress_ok maxPending s" "history_ok s"
  shows "history_ok s'"
  using assms(1)
proof cases
  case (offer xs key ys)
  with assms(3) show ?thesis by (simp add: history_ok_def handled_def waiting_def accepted_for_def)
next
  case (take key rest)
  with assms(3) show ?thesis by (simp add: history_ok_def handled_def waiting_def accepted_for_def)
next
  case (lookup key)
  obtain queued where q: "map_of (hq_pending (ig_queue s)) key = Some queued"
    "coalesce_key (qr_report queued) = key"
    using lookup_pending [OF assms(2) lookup(2)] .
  show ?thesis
    using assms(3) by (rule history_ok_cong [rotated 2])
      (auto simp: lookup q worker_lookup_Some [OF q(1)] handled_def waiting_def)
next
  case (settle queued outcome now)
  show ?thesis
    using assms(3) by (rule history_ok_cong [rotated 2])
      (simp_all add: settle worker_settle_def Let_def handled_def waiting_def split: process_outcome.split)
next
  case (finish reason)
  with assms(3) show ?thesis
    by (simp add: worker_finish_def history_ok_def handled_def waiting_def accepted_for_def)
next
  case (report reason)
  with assms(3) show ?thesis
    by (simp add: worker_report_def history_ok_def handled_def waiting_def accepted_for_def)
qed

lemma history_ok_step:
  assumes "ingress_step maxPending s s'" "ingress_ok maxPending s" "history_ok s"
  shows "history_ok s'"
  using assms(1)
proof cases
  case work
  then show ?thesis using history_ok_worker_step assms(2,3) by blast
next
  case (enqueue report now)
  then show ?thesis by (simp add: history_ok_enqueue [OF assms(2,3)])
next
  case (drain waiter)
  with assms(3) show ?thesis
    by (auto simp: drain_ingress_def drain_request_def history_ok_def handled_def waiting_def accepted_for_def)
next
  case (spool scanned drained failed now)
  with assms(3) show ?thesis
    by (simp add: record_spool_drain_def history_ok_def handled_def waiting_def accepted_for_def)
next
  case shutdown
  with assms(3) show ?thesis
    by (simp add: begin_shutdown_def history_ok_def handled_def waiting_def accepted_for_def)
next
  case (stop reason)
  with assms(3) show ?thesis by (auto simp: history_ok_def handled_def waiting_def accepted_for_def)
qed

subsection \<open>The counters account for every report\<close>

definition counts_ok :: "ingress \<Rightarrow> bool" where
  "counts_ok s =
     (let m = hq_metrics (ig_queue s) in
      qm_enqueued m = length (ig_accepted s) \<and>
      qm_enqueued m = length (ig_calls s) + length (worker_reports (ig_worker s)) +
        length (hq_pending (ig_queue s)) + qm_coalesced m \<and>
      qm_processed m = length (filter (\<lambda>(r, outcome). case outcome of Returned _ \<Rightarrow> True | Threw _ \<Rightarrow> False)
        (ig_calls s)) \<and>
      qm_failed m = length (filter (\<lambda>(r, outcome). case outcome of
          Returned result \<Rightarrow> rr_status (pr_receipt result) = ReportRejected | Threw _ \<Rightarrow> True)
        (ig_calls s)))"

lemma counts_ok_initial: "counts_ok initial_ingress"
  by (simp add: counts_ok_def initial_ingress_def initial_queue_def initial_metrics_def)

lemma counts_ok_enqueue:
  assumes "ingress_ok maxPending s" "counts_ok s"
  shows "counts_ok (snd (enqueue_report maxPending report now s))"
proof -
  obtain result q' where eq: "enqueue_in_state (ig_queue s) report now maxPending = (result, q')"
    by fastforce
  have seen: "seen_ok (ig_queue s)" using assms by (simp add: ingress_ok_def)
  from eq seen show ?thesis
  proof (cases rule: enqueue_cases)
    case (rejected e)
    with assms(2) show ?thesis
      by (simp add: enqueue_report_def eq rejected_receipt_def counts_ok_def record_dropped_def Let_def)
  next
    case deduped
    with assms(2) show ?thesis
      by (simp add: enqueue_report_def eq accepted_receipt_def counts_ok_def)
  next
    case (coalesced old)
    with assms(2) show ?thesis
      by (simp add: enqueue_report_def eq accepted_receipt_def counts_ok_def Let_def rec_set_length)
  next
    case queued
    with assms(2) show ?thesis
      by (simp add: enqueue_report_def eq accepted_receipt_def counts_ok_def Let_def rec_set_length)
  qed
qed

lemma counts_ok_worker_step:
  assumes "worker_step s s'" "ingress_ok maxPending s" "counts_ok s"
  shows "counts_ok s'"
  using assms(1)
proof cases
  case (offer xs key ys)
  with assms(3) show ?thesis by (simp add: counts_ok_def)
next
  case (take key rest)
  with assms(3) show ?thesis by (simp add: counts_ok_def)
next
  case (lookup key)
  obtain queued where q: "map_of (hq_pending (ig_queue s)) key = Some queued"
    using lookup_pending [OF assms(2) lookup(2)] .
  have "Suc (length (rec_del key (hq_pending (ig_queue s)))) = length (hq_pending (ig_queue s))"
    using assms(2) by (intro rec_del_length) (simp_all add: ingress_ok_def queue_ok_def q)
  with assms(3) lookup show ?thesis by (simp add: worker_lookup_Some [OF q] counts_ok_def Let_def)
next
  case (settle queued outcome now)
  with assms(3) show ?thesis
    by (cases outcome) (simp_all add: worker_settle_def Let_def counts_ok_def record_processed_def record_failed_def)
next
  case (finish reason)
  with assms(3) show ?thesis by (simp add: worker_finish_def counts_ok_def)
next
  case (report reason)
  with assms(3) show ?thesis by (simp add: worker_report_def counts_ok_def)
qed

lemma counts_ok_step:
  assumes "ingress_step maxPending s s'" "ingress_ok maxPending s" "counts_ok s"
  shows "counts_ok s'"
  using assms(1)
proof cases
  case work
  then show ?thesis using counts_ok_worker_step assms(2,3) by blast
next
  case (enqueue report now)
  then show ?thesis by (simp add: counts_ok_enqueue [OF assms(2,3)])
next
  case (drain waiter)
  with assms(3) show ?thesis by (auto simp: drain_ingress_def drain_request_def counts_ok_def Let_def)
next
  case (spool scanned drained failed now)
  with assms(3) show ?thesis by (simp add: record_spool_drain_def counts_ok_def Let_def)
next
  case shutdown
  with assms(3) show ?thesis by (simp add: begin_shutdown_def counts_ok_def)
next
  case (stop reason)
  with assms(3) show ?thesis by (auto simp: counts_ok_def)
qed

subsection \<open>The queue as a draining system\<close>

definition recent_ok :: "ingress \<Rightarrow> bool" where
  "recent_ok s = (hq_seenReportIdOrder (ig_queue s) = remembered (map er_reportId (ig_accepted s)))"

lemma remembered_snoc: "remembered (remembered xs @ [x]) = remembered (xs @ [x])"
proof (cases "length xs < 10000")
  case False
  then have "Suc (length xs - 10000) = length xs - 9999" by arith
  with False show ?thesis by (simp add: remembered_def max_remembered_report_ids_def)
qed (simp add: remembered_def max_remembered_report_ids_def)

lemma recent_ok_step:
  assumes "ingress_step maxPending s s'" "ingress_ok maxPending s" "recent_ok s"
  shows "recent_ok s'"
  using assms(1)
proof cases
  case work
  then show ?thesis
  proof cases
    case (lookup key)
    obtain queued where q: "map_of (hq_pending (ig_queue s)) key = Some queued"
      using lookup_pending [OF assms(2) lookup(2)] .
    with assms(3) lookup show ?thesis by (simp add: recent_ok_def worker_lookup_Some)
  next
    case (settle queued outcome now)
    with assms(3) show ?thesis
      by (cases outcome) (simp_all add: recent_ok_def worker_settle_def Let_def)
  qed (use assms(3) in \<open>simp_all add: recent_ok_def worker_finish_def worker_report_def\<close>)
next
  case (enqueue report now)
  obtain result q' where eq: "enqueue_in_state (ig_queue s) report now maxPending = (result, q')"
    by fastforce
  have seen: "seen_ok (ig_queue s)" using assms by (simp add: ingress_ok_def)
  from eq seen show ?thesis
    by (cases rule: enqueue_cases) (use assms(3) enqueue in \<open>simp_all add: enqueue_report_def eq recent_ok_def
      accepted_receipt_def rejected_receipt_def remembered_snoc\<close>)
qed (use assms(3) in \<open>auto simp: recent_ok_def drain_ingress_def drain_request_def
  record_spool_drain_def begin_shutdown_def\<close>)

definition ingress_inv :: "int \<Rightarrow> ingress \<Rightarrow> bool" where
  "ingress_inv maxPending s = (ingress_ok maxPending s \<and> history_ok s \<and> counts_ok s \<and> recent_ok s)"

definition ingress_work :: "ingress \<Rightarrow> nat" where
  "ingress_work s = 6 * length (ig_offers s) + 5 * length (ig_work s) +
     (case ig_worker s of
        WorkerLookup key \<Rightarrow> 4 | WorkerProcessing queued \<Rightarrow> 3 | WorkerSettling reason \<Rightarrow> 2
      | WorkerReporting reason \<Rightarrow> 1 | _ \<Rightarrow> 0)"

definition ingress_at_rest :: "ingress \<Rightarrow> bool" where
  "ingress_at_rest s = (is_idle (ig_queue s) \<and> hq_waiters (ig_queue s) = [] \<and>
     ig_offers s = [] \<and> ig_work s = [])"

lemma worker_lookup_fields [simp]:
  "ig_offers (worker_lookup key s) = ig_offers s" "ig_work (worker_lookup key s) = ig_work s"
  by (simp_all add: worker_lookup_def split: prod.split option.split)

lemma worker_lookup_worker:
  "ig_worker (worker_lookup key s) = WorkerTaking \<or> (\<exists>q. ig_worker (worker_lookup key s) = WorkerProcessing q)"
  by (auto simp: worker_lookup_def split: prod.split option.split)

lemma worker_step_work: "worker_step s s' \<Longrightarrow> ingress_work s' < ingress_work s"
proof (induction rule: worker_step.induct)
  case (lookup s key)
  then show ?case using worker_lookup_worker [of key s] by (auto simp: ingress_work_def)
next
  case (settle s queued outcome now)
  then show ?case by (cases outcome) (simp_all add: ingress_work_def worker_settle_def Let_def)
qed (simp_all add: ingress_work_def worker_finish_def worker_report_def)

lemma worker_stuck:
  assumes "ingress_ok maxPending s" "\<not> (\<exists>s'. worker_step s s')"
  shows "ingress_at_rest s"
proof -
  have offers: "ig_offers s = []"
    using assms(2) worker_step.offer [of s "[]"] by (cases "ig_offers s") auto
  have worker: "ig_worker s = WorkerTaking \<or> ig_worker s = WorkerStopped"
    using assms(2) worker_step.intros by (cases "ig_worker s") blast+
  have "is_idle (ig_queue s) \<and> ig_work s = []"
  proof (cases "ig_worker s = WorkerTaking")
    case True
    then have "ig_work s = []"
      using assms(2) worker_step.take [of s] by (cases "ig_work s") auto
    with True offers assms(1) show ?thesis by (simp add: ingress_ok_def is_idle_def)
  next
    case False
    with worker assms(1) show ?thesis by (auto simp: ingress_ok_def is_idle_def)
  qed
  with assms(1) offers show ?thesis by (simp add: ingress_at_rest_def ingress_ok_def)
qed

interpretation ingress: draining_system "(=) initial_ingress" "ingress_step maxPending" worker_step
  "ingress_inv maxPending" ingress_work ingress_at_rest for maxPending
proof unfold_locales
  show "initial_ingress = s \<Longrightarrow> ingress_inv maxPending s" for s
    using ingress_ok_initial counts_ok_initial
    by (auto simp: ingress_inv_def history_ok_def handled_def waiting_def accepted_for_def trail_ok_def
        initial_ingress_def initial_queue_def recent_ok_def remembered_def)
  show "ingress_inv maxPending s \<Longrightarrow> ingress_step maxPending s s' \<Longrightarrow> ingress_inv maxPending s'" for s s'
    using ingress_ok_step history_ok_step counts_ok_step recent_ok_step by (auto simp: ingress_inv_def)
  show "worker_step s s' \<Longrightarrow> ingress_step maxPending s s'" for s s'
    by (rule ingress_step.work)
  show "ingress_inv maxPending s \<Longrightarrow> worker_step s s' \<Longrightarrow> ingress_work s' < ingress_work s" for s s'
    by (rule worker_step_work)
  show "ingress_inv maxPending s \<Longrightarrow> \<not> (\<exists>s'. worker_step s s') \<Longrightarrow> ingress_at_rest s" for s
    using worker_stuck by (auto simp: ingress_inv_def)
qed

lemma ingress_reachable_inv:
  "(ingress_step maxPending)\<^sup>*\<^sup>* initial_ingress s \<Longrightarrow> ingress_inv maxPending s"
  by (rule ingress.reachable_inv) (auto simp: ingress.reachable_def)

lemma drained_step:
  "worker_step s s' \<Longrightarrow>
     set (hq_waiters (ig_queue s)) \<union> set (ig_drained s) \<subseteq>
       set (hq_waiters (ig_queue s')) \<union> set (ig_drained s')"
proof (induction rule: worker_step.induct)
  case (lookup s key)
  then show ?case
    by (auto simp: worker_lookup_def take_queued_report_def release_waiters_def split: option.split)
next
  case (settle s queued outcome now)
  then show ?case
    by (cases outcome) (auto simp: worker_settle_def Let_def release_waiters_def)
next
  case (finish s reason)
  then show ?case by (auto simp: worker_finish_def release_waiters_def decrement_active_def)
qed (auto simp: worker_report_def)

lemma drained_steps:
  "worker_step\<^sup>*\<^sup>* s s' \<Longrightarrow>
     set (hq_waiters (ig_queue s)) \<union> set (ig_drained s) \<subseteq>
       set (hq_waiters (ig_queue s')) \<union> set (ig_drained s')"
proof (induction rule: rtranclp_induct)
  case (step s1 s2)
  with drained_step [of s1 s2] show ?case by auto
qed simp

subsection \<open>Properties of the queue\<close>

text \<open>The queue is bounded: in every reachable state the depth it reports (waiting and active
  reports) is at most the configured maximum, at most one report is being processed, and at most
  10,000 report identifiers are remembered.\<close>

lemma ingress_depth_bounded:
  assumes "(ingress_step maxPending)\<^sup>*\<^sup>* initial_ingress s" and "0 \<le> maxPending"
  shows "int (qh_depth (ingress_health (ig_queue s))) \<le> maxPending \<and>
    hq_active (ig_queue s) \<le> 1 \<and>
    int (card (hq_seenReportIds (ig_queue s))) \<le> max_remembered_report_ids"
proof -
  have ok: "ingress_ok maxPending s"
    using ingress_reachable_inv [OF assms(1)] by (simp add: ingress_inv_def)
  then have "hq_active (ig_queue s) = worker_active (ig_worker s)" by (simp add: ingress_ok_def)
  then have "hq_active (ig_queue s) \<le> 1" by (cases "ig_worker s") simp_all
  moreover have "card (hq_seenReportIds (ig_queue s)) = length (hq_seenReportIdOrder (ig_queue s))"
    using ok by (metis distinct_card ingress_ok_def seen_ok_def)
  ultimately show ?thesis
    using ok assms(2) by (simp add: ingress_ok_def queue_ok_def seen_ok_def ingress_health_def)
qed

text \<open>C8: Coalescing never loses the newest report: for every coalesce key, the reports handed to
  processing followed by the one still waiting are accepted reports of that key in the order of
  acceptance, and the last of them is the last one accepted.\<close>

theorem ingress_newest_report_survives:
  assumes "(ingress_step maxPending)\<^sup>*\<^sup>* initial_ingress s"
  shows "subseq (handled s key @ waiting s key) (accepted_for s key) \<and>
    (accepted_for s key \<noteq> [] \<longrightarrow> last (handled s key @ waiting s key) = last (accepted_for s key))"
  using ingress_reachable_inv [OF assms] by (simp add: ingress_inv_def history_ok_def trail_ok_def)

text \<open>Recent duplicates are dropped and nothing else: while the queue is open, a report is
  answered as a duplicate, without any change, exactly when its identifier is among the last
  10,000 accepted ones.\<close>

lemma ingress_dedupes_recent:
  assumes "(ingress_step maxPending)\<^sup>*\<^sup>* initial_ingress s" and "\<not> hq_shuttingDown (ig_queue s)"
  shows "(rr_deduped (fst (enqueue_report maxPending report now s)) = Some True \<longleftrightarrow>
      er_reportId report \<in> set (remembered (map er_reportId (ig_accepted s)))) \<and>
    (er_reportId report \<in> set (remembered (map er_reportId (ig_accepted s))) \<longrightarrow>
      snd (enqueue_report maxPending report now s) = s)"
proof -
  have inv: "ingress_ok maxPending s" "recent_ok s"
    using ingress_reachable_inv [OF assms(1)] by (simp_all add: ingress_inv_def)
  have seen: "er_reportId report \<in> hq_seenReportIds (ig_queue s) \<longleftrightarrow>
      er_reportId report \<in> set (remembered (map er_reportId (ig_accepted s)))"
    using inv by (auto simp: ingress_ok_def seen_ok_def recent_ok_def)
  have ids: "seen_ok (ig_queue s)" using inv by (simp add: ingress_ok_def)
  obtain result q' where
    eq: "enqueue_in_state (ig_queue s) report now maxPending = (result, q')" by fastforce
  from eq ids show ?thesis
  proof (cases rule: enqueue_cases)
    case (rejected e)
    then show ?thesis using assms(2) eq seen
      by (auto simp: enqueue_report_def rejected_receipt_def accepted_receipt_def enqueue_in_state_def
          Let_def split: if_splits)
  next
    case deduped
    then show ?thesis using eq seen by (simp add: enqueue_report_def accepted_receipt_def option_list_def)
  next
    case (coalesced old)
    then show ?thesis using eq seen by (simp add: enqueue_report_def accepted_receipt_def)
  next
    case queued
    then show ?thesis using eq seen by (simp add: enqueue_report_def accepted_receipt_def)
  qed
qed

text \<open>The health counters account for every report: those enqueued are the ones accepted, and
  each was processed, failed with an exception, is being processed, is waiting, or was coalesced
  into a newer one.\<close>

lemma ingress_counters_account:
  assumes "(ingress_step maxPending)\<^sup>*\<^sup>* initial_ingress s"
  shows "qm_enqueued (qh_metrics (ingress_health (ig_queue s))) = length (ig_accepted s) \<and>
    qm_enqueued (qh_metrics (ingress_health (ig_queue s))) =
      length (ig_calls s) + length (worker_reports (ig_worker s)) +
      length (hq_pending (ig_queue s)) + qm_coalesced (qh_metrics (ingress_health (ig_queue s))) \<and>
    qm_processed (qh_metrics (ingress_health (ig_queue s))) \<le> length (ig_calls s)"
  using ingress_reachable_inv [OF assms]
  by (simp add: ingress_inv_def counts_ok_def ingress_health_def Let_def)

text \<open>A drain returns once no new reports arrive and every processing call answers: from any
  reachable state the worker reaches a state at rest in which every drain that was waiting has
  returned, and no run of the worker takes more steps than the work it has left.\<close>

lemma ingress_drain_returns:
  assumes "(ingress_step maxPending)\<^sup>*\<^sup>* initial_ingress s"
  shows "(\<exists>s'. worker_step\<^sup>*\<^sup>* s s' \<and> ingress_at_rest s' \<and>
      set (hq_waiters (ig_queue s)) \<subseteq> set (ig_drained s')) \<and>
    (\<forall>n s'. (worker_step ^^ n) s s' \<longrightarrow> n \<le> ingress_work s)"
proof -
  have inv: "ingress_inv maxPending s" by (rule ingress_reachable_inv [OF assms])
  obtain s' where s': "worker_step\<^sup>*\<^sup>* s s'" "ingress_at_rest s'"
    using ingress.drains_inv [OF inv] by blast
  moreover have "set (hq_waiters (ig_queue s)) \<subseteq> set (ig_drained s')"
    using drained_steps [OF s'(1)] s'(2) by (auto simp: ingress_at_rest_def)
  moreover have "n \<le> ingress_work s" if "(worker_step ^^ n) s t" for n t
    using ingress.internal_bounded [OF inv that] by simp
  ultimately show ?thesis by blast
qed

text \<open>Shutting down loses nothing: once the worker is stopped no report is waiting, every key's
  newest accepted report has been processed, no drain is left waiting, and every further report
  is rejected with the shutdown error.\<close>

lemma ingress_shutdown_loses_nothing:
  assumes "(ingress_step maxPending)\<^sup>*\<^sup>* initial_ingress s" and "ig_worker s = WorkerStopped"
  shows "hq_pending (ig_queue s) = [] \<and> hq_waiters (ig_queue s) = [] \<and>
    (accepted_for s key \<noteq> [] \<longrightarrow> last (handled s key) = last (accepted_for s key)) \<and>
    rr_error (fst (enqueue_report maxPending report now s)) = Some (shutting_down_error report)"
proof -
  have inv: "ingress_ok maxPending s" "history_ok s"
    using ingress_reachable_inv [OF assms(1)] by (simp_all add: ingress_inv_def)
  then have down: "hq_shuttingDown (ig_queue s)" "hq_pending (ig_queue s) = []"
    "hq_waiters (ig_queue s) = []"
    using assms(2) by (simp_all add: ingress_ok_def is_idle_def)
  from inv(2) have "trail_ok (handled s key @ waiting s key) (accepted_for s key)"
    by (simp add: history_ok_def)
  then show ?thesis
    using down by (simp add: trail_ok_def waiting_def enqueue_report_def enqueue_in_state_def
        rejected_receipt_def)
qed

subsection \<open>Witnesses\<close>

definition queue_sample :: event_report where
  "queue_sample = \<lparr>er_reportId = ''e1'', er_provider = ''codex'', er_eventType = ''turn'',
     er_observedAt = ''2026-01-01T00:01:00Z'', er_coalesceKey = None, er_status = None,
     er_correlation = None, er_diagnostics = None, er_providerData = None\<rparr>"

definition sample_outcome :: process_outcome where
  "sample_outcome = Threw (basic_error ''E'' ''C'' ''M'')"

text \<open>A run: one report is accepted, processed with an exception, and the queue shuts down.\<close>

definition run1 :: ingress where "run1 = snd (enqueue_report 5 queue_sample ''now'' initial_ingress)"
definition run2 :: ingress where "run2 = run1\<lparr>ig_offers := [], ig_work := ig_work run1 @ [coalesce_key queue_sample]\<rparr>"
definition run3 :: ingress where "run3 = run2\<lparr>ig_work := [], ig_worker := WorkerLookup (coalesce_key queue_sample)\<rparr>"
definition run4 :: ingress where "run4 = worker_lookup (coalesce_key queue_sample) run3"
definition run5 :: ingress where "run5 = worker_settle \<lparr>qr_report = queue_sample, qr_receivedAt = ''now''\<rparr> sample_outcome ''later'' run4"
definition run6 :: ingress where "run6 = worker_finish None run5"
definition run7 :: ingress where "run7 = begin_shutdown run6"
definition run8 :: ingress where "run8 = run7\<lparr>ig_worker := WorkerStopped\<rparr>"

lemma run1_reachable: "(ingress_step 5)\<^sup>*\<^sup>* initial_ingress run1"
  unfolding run1_def by (rule r_into_rtranclp) (rule ingress_step.enqueue)

lemma run8_reachable: "(ingress_step 5)\<^sup>*\<^sup>* initial_ingress run8"
proof -
  have "ig_offers run1 = [] @ coalesce_key queue_sample # []" by code_simp
  then have "worker_step run1 run2" unfolding run2_def using worker_step.offer by fastforce
  moreover have "ig_worker run2 = WorkerTaking" "ig_work run2 = coalesce_key queue_sample # []" by code_simp+
  then have "worker_step run2 run3" unfolding run3_def by (rule worker_step.take)
  moreover have "ig_worker run3 = WorkerLookup (coalesce_key queue_sample)" by (simp add: run3_def)
  then have "worker_step run3 run4" unfolding run4_def by (rule worker_step.lookup)
  moreover have "ig_worker run4 = WorkerProcessing \<lparr>qr_report = queue_sample, qr_receivedAt = ''now''\<rparr>"
    by code_simp
  then have "worker_step run4 run5" unfolding run5_def by (rule worker_step.settle)
  moreover have "ig_worker run5 = WorkerSettling None" by code_simp
  then have "worker_step run5 run6" unfolding run6_def by (rule worker_step.finish)
  ultimately have "(ingress_step 5)\<^sup>*\<^sup>* run1 run6"
    by (meson converse_rtranclp_into_rtranclp ingress_step.work rtranclp.rtrancl_refl)
  moreover have "ingress_step 5 run6 run7" unfolding run7_def by (rule ingress_step.shutdown)
  moreover have "ingress_step 5 run7 run8"
  proof -
    have "hq_shuttingDown (ig_queue run7)" by code_simp
    moreover have "is_idle (ig_queue run7)" by code_simp
    moreover have "ig_worker run7 = WorkerReporting None" by code_simp
    ultimately show ?thesis unfolding run8_def using ingress_step.stop by simp
  qed
  ultimately show ?thesis
    using run1_reachable by (meson rtranclp.rtrancl_into_rtrancl rtranclp_trans)
qed

lemma ingress_newest_report_survives_witness:
  "last (handled run8 (coalesce_key queue_sample) @ waiting run8 (coalesce_key queue_sample)) = queue_sample"
proof -
  have "accepted_for run8 (coalesce_key queue_sample) = [queue_sample]" by code_simp
  then show ?thesis
    using ingress_newest_report_survives [OF run8_reachable, of "coalesce_key queue_sample"] by simp
qed

end
