(* ===== verification/CommandQueue.thy ===== *)
theory CommandQueue
  imports Commands Transitions
begin

section \<open>The command queue (apps/observer/src/commands/queue.ts)\<close>

text \<open>
  Commands are dispatched, recorded, and executed one after the other within a scope (session,
  worktree, project or global); scopes run in parallel. The JavaScript is a set of asynchronous
  functions whose awaits interleave, so each function is split at its awaits: the phases below
  are the points where a dispatch or an execution waits, and a step is what runs until the next
  await. A persistence or logging call may fail at any await; a handler may return, throw or
  time out at any time. Promise identities are serial numbers.
\<close>

subsection \<open>Scopes\<close>

definition scope_of_session :: "session_id \<Rightarrow> string" where
  "scope_of_session i = ''session:'' @ i"

definition scope_of_worktree :: "worktree_id \<Rightarrow> string" where
  "scope_of_worktree i = ''worktree:'' @ i"

definition terminal_command_scope :: "session_id option \<Rightarrow> worktree_id option \<Rightarrow> string" where
  "terminal_command_scope sessionId worktreeId =
     (case sessionId of
        Some s \<Rightarrow> scope_of_session s
      | None \<Rightarrow> (case worktreeId of Some w \<Rightarrow> scope_of_worktree w | None \<Rightarrow> ''global''))"

fun command_scope :: "wosm_command \<Rightarrow> string" where
  "command_scope (TerminalFocus p) = terminal_command_scope (tf_sessionId p) (tf_worktreeId p)"
| "command_scope (TerminalClose p) = terminal_command_scope (tc_sessionId p) (tc_worktreeId p)"
| "command_scope (CloseSession s mode force) = scope_of_session s"
| "command_scope (RemoveSession s removeWorktree force) = scope_of_session s"
| "command_scope (SendPrompt s prompt delivery) = scope_of_session s"
| "command_scope (RenameSession s title) = scope_of_session s"
| "command_scope (RemoveWorktree p) = scope_of_worktree (rw_worktreeId p)"
| "command_scope (StartAgent p) = scope_of_worktree (sa_worktreeId p)"
| "command_scope (ResumeAgent p) = scope_of_worktree (re_worktreeId p)"
| "command_scope (CreateWorktree p) = ''project:'' @ cw_projectId p"
| "command_scope (CreateSession p) = ''project:'' @ cse_projectId p"
| "command_scope (ObserverReconcile reason) = ''global''"
| "command_scope (AddProject a b c d) = ''global''"
| "command_scope (RemoveProject p) = ''global''"
| "command_scope (InstallHooks provider) = ''global''"

subsection \<open>Errors\<close>

definition command_cancellation_error :: safe_error where
  "command_cancellation_error =
     basic_error ''CancellationError'' ''COMMAND_CANCELLED'' ''Observer command was cancelled.''"

definition missing_command_handler_error :: safe_error where
  "missing_command_handler_error =
     (basic_error ''CommandRoutingError'' ''COMMAND_HANDLER_MISSING''
       ''Observer does not have a handler for this command.'')
     \<lparr>se_hint := Some ''Upgrade wosm or avoid this command until the command is implemented.''\<rparr>"

definition command_timeout_error :: safe_error where
  "command_timeout_error =
     basic_error ''TimeoutError'' ''COMMAND_TIMEOUT'' ''Observer command execution timed out.''"

definition shutting_down_receipt :: "command_id \<Rightarrow> command_receipt" where
  "shutting_down_receipt commandId =
     \<lparr>cr_commandId = commandId, cr_traceId = None, cr_spanId = None, cr_accepted = False,
      cr_status = CommandReceiptRejected,
      cr_error = Some (basic_error ''CancellationError'' ''COMMAND_QUEUE_SHUTTING_DOWN''
        ''Observer command queue is shutting down.'')\<rparr>"

subsection \<open>State\<close>

text \<open>
  What the queue does to its surroundings: rows stored through the persistence layer, events
  published on the bus, handlers called.
\<close>

datatype command_effect =
  AcceptedStored
| StartedStored
| SucceededStored
| FailedStored safe_error
| EventStored wosm_event
| Published wosm_event
| HandlerCalled

text \<open>The command and the identifiers its dispatch created.\<close>

record command_info =
  ci_serial :: nat
  ci_commandId :: command_id
  ci_traceId :: string
  ci_spanId :: string
  ci_command :: wosm_command

datatype dispatch_phase = RecordingAccepted | RecordingAcceptedEvent | LoggingAccepted

record dispatch_entry =
  de_info :: command_info
  de_phase :: dispatch_phase

datatype exec_phase =
  ExecWaiting
| MarkingStarted | RecordingStarted | LoggingStarted
| Handling
| MarkingSucceeded | RecordingSucceeded | LoggingSucceeded
| MarkingFailed safe_error | RecordingFailed safe_error | LoggingFailed safe_error
| ExecSettled

record exec_entry =
  ee_info :: command_info
  ee_scope :: string
  ee_previous :: "nat option"
  ee_phase :: exec_phase
  ee_aborted :: bool

record command_queue =
  cq_handlers :: "command_type set"
  cq_shuttingDown :: bool
  cq_dispatching :: "dispatch_entry list"
  cq_chains :: "(string \<times> nat) list"
  cq_pending :: "exec_entry list"
  cq_next :: nat
  cq_effects :: "(nat \<times> command_effect) list"
  cq_receipts :: "command_receipt list"
  cq_drains :: nat

definition initial_command_queue :: "command_type set \<Rightarrow> command_queue" where
  "initial_command_queue handlers =
     \<lparr>cq_handlers = handlers, cq_shuttingDown = False, cq_dispatching = [], cq_chains = [],
      cq_pending = [], cq_next = 0, cq_effects = [], cq_receipts = [], cq_drains = 0\<rparr>"

definition trace_of :: "command_info \<Rightarrow> trace_fields" where
  "trace_of c = \<lparr>tr_traceId = Some (ci_traceId c), tr_spanId = Some (ci_spanId c)\<rparr>"

definition accepted_event :: "command_info \<Rightarrow> wosm_event" where
  "accepted_event c = CommandAccepted (ci_commandId c) (ci_command c) (trace_of c)"

definition started_event :: "command_info \<Rightarrow> wosm_event" where
  "started_event c = CommandStarted (ci_commandId c) (ci_command c) (trace_of c)"

definition succeeded_event :: "command_info \<Rightarrow> wosm_event" where
  "succeeded_event c = CommandSucceeded (ci_commandId c) (trace_of c)"

text \<open>
  The error reported for a command carries the command's identifiers. The error itself is what
  the runtime boundary and the redaction made of the thrown value.
\<close>

definition command_error :: "command_info \<Rightarrow> safe_error \<Rightarrow> safe_error" where
  "command_error c e =
     e\<lparr>se_commandId := Some (ci_commandId c), se_traceId := Some (ci_traceId c)\<rparr>"

definition failed_event :: "command_info \<Rightarrow> safe_error \<Rightarrow> wosm_event" where
  "failed_event c e = CommandFailed (ci_commandId c) (command_error c e) (trace_of c)"

definition add_effects :: "command_info \<Rightarrow> command_effect list \<Rightarrow> command_queue \<Rightarrow> command_queue" where
  "add_effects c effects s = s\<lparr>cq_effects := cq_effects s @ map (Pair (ci_serial c)) effects\<rparr>"

subsection \<open>Dispatch\<close>

definition accepted_command_receipt :: "command_info \<Rightarrow> command_receipt" where
  "accepted_command_receipt c =
     \<lparr>cr_commandId = ci_commandId c, cr_traceId = Some (ci_traceId c), cr_spanId = Some (ci_spanId c),
      cr_accepted = True, cr_status = CommandReceiptAccepted, cr_error = None\<rparr>"

text \<open>The synchronous start of a dispatch, up to its first await.\<close>

definition begin_dispatch ::
  "command_id \<Rightarrow> string \<Rightarrow> string \<Rightarrow> wosm_command \<Rightarrow> command_queue \<Rightarrow> command_queue" where
  "begin_dispatch commandId traceId spanId command s =
     (if cq_shuttingDown s
      then s\<lparr>cq_receipts := cq_receipts s @ [shutting_down_receipt commandId]\<rparr>
      else s\<lparr>cq_dispatching := cq_dispatching s @
          [\<lparr>de_info = \<lparr>ci_serial = cq_next s, ci_commandId = commandId, ci_traceId = traceId,
              ci_spanId = spanId, ci_command = command\<rparr>, de_phase = RecordingAccepted\<rparr>],
        cq_next := cq_next s + 1\<rparr>)"

text \<open>
  The end of a dispatch: after the last await the accepted event is published, the execution is
  chained behind the scope's last one, and the receipt is returned. The flag is not read again.
\<close>

definition register_execution :: "command_info \<Rightarrow> command_queue \<Rightarrow> command_queue" where
  "register_execution c s =
     (let scope = command_scope (ci_command c) in
      (add_effects c [Published (accepted_event c)] s)
        \<lparr>cq_chains := rec_set scope (ci_serial c) (cq_chains s),
         cq_pending := cq_pending s @
           [\<lparr>ee_info = c, ee_scope = scope, ee_previous = map_of (cq_chains s) scope,
             ee_phase = ExecWaiting, ee_aborted = False\<rparr>],
         cq_receipts := cq_receipts s @ [accepted_command_receipt c]\<rparr>)"

text \<open>An await of a dispatch returns.\<close>

definition advance_dispatch ::
  "dispatch_entry list \<Rightarrow> dispatch_entry \<Rightarrow> dispatch_entry list \<Rightarrow> command_queue \<Rightarrow> command_queue" where
  "advance_dispatch before d after s =
     (case de_phase d of
        RecordingAccepted \<Rightarrow>
          add_effects (de_info d) [AcceptedStored]
            (s\<lparr>cq_dispatching := before @ d\<lparr>de_phase := RecordingAcceptedEvent\<rparr> # after\<rparr>)
      | RecordingAcceptedEvent \<Rightarrow>
          add_effects (de_info d) [EventStored (accepted_event (de_info d))]
            (s\<lparr>cq_dispatching := before @ d\<lparr>de_phase := LoggingAccepted\<rparr> # after\<rparr>)
      | LoggingAccepted \<Rightarrow> register_execution (de_info d) (s\<lparr>cq_dispatching := before @ after\<rparr>))"

subsection \<open>Execution\<close>

definition update_entry :: "nat \<Rightarrow> (exec_entry \<Rightarrow> exec_entry) \<Rightarrow> command_queue \<Rightarrow> command_queue" where
  "update_entry serial f s =
     s\<lparr>cq_pending := map (\<lambda>e. if ci_serial (ee_info e) = serial then f e else e) (cq_pending s)\<rparr>"

definition set_phase :: "exec_entry \<Rightarrow> exec_phase \<Rightarrow> command_queue \<Rightarrow> command_queue" where
  "set_phase e phase s = update_entry (ci_serial (ee_info e)) (\<lambda>x. x\<lparr>ee_phase := phase\<rparr>) s"

text \<open>The promise an execution is chained behind has settled, or there was none.\<close>

definition previous_settled :: "command_queue \<Rightarrow> exec_entry \<Rightarrow> bool" where
  "previous_settled s e =
     (case ee_previous e of
        None \<Rightarrow> True
      | Some p \<Rightarrow> list_all (\<lambda>x. ci_serial (ee_info x) = p \<longrightarrow> ee_phase x = ExecSettled) (cq_pending s))"

text \<open>
  Entering the runtime boundary: an aborted command or one without a handler fails before any
  handler is called.
\<close>

definition enter_handler :: "exec_entry \<Rightarrow> command_queue \<Rightarrow> command_queue" where
  "enter_handler e s =
     (let c = ee_info e; s' = add_effects c [Published (started_event c)] s in
      if ee_aborted e then set_phase e (MarkingFailed command_cancellation_error) s'
      else if type_of_command (ci_command c) \<notin> cq_handlers s
      then set_phase e (MarkingFailed missing_command_handler_error) s'
      else set_phase e Handling (add_effects c [HandlerCalled] s'))"

text \<open>An await of an execution returns.\<close>

definition advance_execution :: "exec_entry \<Rightarrow> command_queue \<Rightarrow> command_queue" where
  "advance_execution e s =
     (let c = ee_info e in
      case ee_phase e of
        MarkingStarted \<Rightarrow> set_phase e RecordingStarted (add_effects c [StartedStored] s)
      | RecordingStarted \<Rightarrow>
          set_phase e LoggingStarted (add_effects c [EventStored (started_event c)] s)
      | LoggingStarted \<Rightarrow> enter_handler e s
      | MarkingSucceeded \<Rightarrow> set_phase e RecordingSucceeded (add_effects c [SucceededStored] s)
      | RecordingSucceeded \<Rightarrow>
          set_phase e LoggingSucceeded (add_effects c [EventStored (succeeded_event c)] s)
      | LoggingSucceeded \<Rightarrow> set_phase e ExecSettled (add_effects c [Published (succeeded_event c)] s)
      | MarkingFailed err \<Rightarrow>
          set_phase e (RecordingFailed err) (add_effects c [FailedStored (command_error c err)] s)
      | RecordingFailed err \<Rightarrow>
          set_phase e (LoggingFailed err) (add_effects c [EventStored (failed_event c err)] s)
      | LoggingFailed err \<Rightarrow>
          set_phase e ExecSettled (add_effects c [Published (failed_event c err)] s)
      | _ \<Rightarrow> s)"

text \<open>The handler answers. After it returned, an abort still fails the command.\<close>

datatype handler_answer = HandlerReturned | HandlerThrew safe_error | HandlerTimedOut

definition answer_handler :: "exec_entry \<Rightarrow> handler_answer \<Rightarrow> command_queue \<Rightarrow> command_queue" where
  "answer_handler e answer s =
     (case answer of
        HandlerReturned \<Rightarrow>
          if ee_aborted e then set_phase e (MarkingFailed command_cancellation_error) s
          else set_phase e MarkingSucceeded s
      | HandlerThrew err \<Rightarrow> set_phase e (MarkingFailed err) s
      | HandlerTimedOut \<Rightarrow> set_phase e (MarkingFailed command_timeout_error) s)"

text \<open>The \<^verbatim>\<open>finally\<close> of a settled execution.\<close>

definition clean_up :: "exec_entry \<Rightarrow> command_queue \<Rightarrow> command_queue" where
  "clean_up e s =
     s\<lparr>cq_pending := filter (\<lambda>x. ci_serial (ee_info x) \<noteq> ci_serial (ee_info e)) (cq_pending s),
       cq_chains := (if map_of (cq_chains s) (ee_scope e) = Some (ci_serial (ee_info e))
         then rec_del (ee_scope e) (cq_chains s) else cq_chains s)\<rparr>"

definition shut_down :: "command_queue \<Rightarrow> command_queue" where
  "shut_down s =
     s\<lparr>cq_shuttingDown := True, cq_pending := map (\<lambda>e. e\<lparr>ee_aborted := True\<rparr>) (cq_pending s)\<rparr>"

subsection \<open>Steps\<close>

definition in_await :: "exec_phase \<Rightarrow> bool" where
  "in_await p = (p \<noteq> ExecWaiting \<and> p \<noteq> Handling \<and> p \<noteq> ExecSettled)"

inductive queue_work :: "command_queue \<Rightarrow> command_queue \<Rightarrow> bool" where
  dispatch_returns: "cq_dispatching s = before @ d # after \<Longrightarrow>
    queue_work s (advance_dispatch before d after s)"
| dispatch_throws: "cq_dispatching s = before @ d # after \<Longrightarrow>
    queue_work s (s\<lparr>cq_dispatching := before @ after\<rparr>)"
| start: "e \<in> set (cq_pending s) \<Longrightarrow> ee_phase e = ExecWaiting \<Longrightarrow> previous_settled s e \<Longrightarrow>
    queue_work s (set_phase e MarkingStarted s)"
| await_returns: "e \<in> set (cq_pending s) \<Longrightarrow> in_await (ee_phase e) \<Longrightarrow>
    queue_work s (advance_execution e s)"
| await_throws: "e \<in> set (cq_pending s) \<Longrightarrow> in_await (ee_phase e) \<Longrightarrow>
    queue_work s (set_phase e ExecSettled s)"
| handler_answers: "e \<in> set (cq_pending s) \<Longrightarrow> ee_phase e = Handling \<Longrightarrow>
    queue_work s (answer_handler e answer s)"
| settled: "e \<in> set (cq_pending s) \<Longrightarrow> ee_phase e = ExecSettled \<Longrightarrow> queue_work s (clean_up e s)"

inductive queue_step :: "command_queue \<Rightarrow> command_queue \<Rightarrow> bool" where
  work: "queue_work s s' \<Longrightarrow> queue_step s s'"
| dispatch: "command_well_formed command \<Longrightarrow>
    queue_step s (begin_dispatch commandId traceId spanId command s)"
| register_handler: "queue_step s (s\<lparr>cq_handlers := insert commandType (cq_handlers s)\<rparr>)"
| drain_returns: "cq_pending s = [] \<Longrightarrow> queue_step s (s\<lparr>cq_drains := cq_drains s + 1\<rparr>)"
| shutdown: "queue_step s (shut_down s)"

end
