(* ===== verification/CommandQueueProperties.thy ===== *)
theory CommandQueueProperties
  imports CommandQueue "HOL-Library.Sublist"
begin

section \<open>Correctness of the command queue\<close>

text \<open>
  Within a scope commands run one at a time and in the order in which they were registered; every
  command leaves a well-formed trail of rows and events; the queue runs down; a shutdown cancels
  what is registered, but a dispatch that was still being recorded overtakes it.
\<close>

subsection \<open>The scope chains\<close>

abbreviation entry_serial :: "exec_entry \<Rightarrow> nat" where
  "entry_serial e \<equiv> ci_serial (ee_info e)"

abbreviation dispatch_serial :: "dispatch_entry \<Rightarrow> nat" where
  "dispatch_serial d \<equiv> ci_serial (de_info d)"

definition in_turn :: "exec_entry \<Rightarrow> exec_entry \<Rightarrow> bool" where
  "in_turn a b = (ee_scope a = ee_scope b \<longrightarrow> ee_phase b = ExecWaiting \<or> ee_phase a = ExecSettled)"

definition unsettled :: "string \<Rightarrow> exec_entry list \<Rightarrow> bool" where
  "unsettled scope ps = (\<exists>a \<in> set ps. ee_scope a = scope \<and> ee_phase a \<noteq> ExecSettled)"

definition last_serial :: "string \<Rightarrow> exec_entry list \<Rightarrow> nat" where
  "last_serial scope ps = entry_serial (last (filter (\<lambda>e. ee_scope e = scope) ps))"

definition waits_ok :: "exec_entry list \<Rightarrow> bool" where
  "waits_ok ps = (\<forall>xs b ys. ps = xs @ b # ys \<longrightarrow>
     (ee_phase b = ExecWaiting \<and> unsettled (ee_scope b) xs \<longrightarrow>
        ee_previous b = Some (last_serial (ee_scope b) xs)) \<and>
     (\<forall>p. ee_previous b = Some p \<longrightarrow> p \<notin> entry_serial ` set (b # ys)))"

definition links_ok :: "(string \<times> nat) list \<Rightarrow> exec_entry list \<Rightarrow> bool" where
  "links_ok links ps =
     ((\<forall>scope. unsettled scope ps \<longrightarrow> map_of links scope = Some (last_serial scope ps)) \<and>
      (\<forall>scope p. map_of links scope = Some p \<longrightarrow>
         (\<exists>e \<in> set ps. entry_serial e = p \<and> ee_scope e = scope)))"

definition serials_ok :: "command_queue \<Rightarrow> bool" where
  "serials_ok s =
     (distinct (map entry_serial (cq_pending s) @ map dispatch_serial (cq_dispatching s)) \<and>
      (\<forall>e \<in> set (cq_pending s). entry_serial e < cq_next s) \<and>
      (\<forall>d \<in> set (cq_dispatching s). dispatch_serial d < cq_next s) \<and>
      (\<forall>e \<in> set (cq_pending s). \<forall>p. ee_previous e = Some p \<longrightarrow>
         p < cq_next s \<and> p \<notin> dispatch_serial ` set (cq_dispatching s)))"

definition queue_inv :: "command_queue \<Rightarrow> bool" where
  "queue_inv s =
     (sorted_wrt in_turn (cq_pending s) \<and> waits_ok (cq_pending s) \<and>
      links_ok (cq_chains s) (cq_pending s) \<and> serials_ok s)"

subsubsection \<open>Phase changes\<close>

text \<open>A change that keeps the identities and never moves an execution back.\<close>

definition forward :: "(exec_entry \<Rightarrow> exec_entry) \<Rightarrow> bool" where
  "forward f = (\<forall>e. ee_info (f e) = ee_info e \<and> ee_scope (f e) = ee_scope e \<and>
     ee_previous (f e) = ee_previous e \<and>
     (ee_phase (f e) = ExecWaiting \<longrightarrow> ee_phase e = ExecWaiting) \<and>
     (ee_phase e = ExecSettled \<longrightarrow> ee_phase (f e) = ExecSettled))"

lemma forward_simps:
  assumes "forward f"
  shows "ee_info (f e) = ee_info e" "ee_scope (f e) = ee_scope e" "ee_previous (f e) = ee_previous e"
    "map entry_serial (map f ps) = map entry_serial ps"
  using assms by (simp_all add: forward_def comp_def)

lemma forward_waiting: "forward f \<Longrightarrow> ee_phase (f e) = ExecWaiting \<Longrightarrow> ee_phase e = ExecWaiting"
  unfolding forward_def by blast

lemma forward_settled: "forward f \<Longrightarrow> ee_phase e = ExecSettled \<Longrightarrow> ee_phase (f e) = ExecSettled"
  unfolding forward_def by blast

lemma unsettled_map:
  assumes "forward f" "unsettled scope (map f ps)"
  shows "unsettled scope ps"
proof -
  from assms(2) obtain a where "a \<in> set ps" "ee_scope (f a) = scope" "ee_phase (f a) \<noteq> ExecSettled"
    unfolding unsettled_def by auto
  then show ?thesis
    unfolding unsettled_def using forward_simps(2) [OF assms(1)] forward_settled [OF assms(1)] by metis
qed

lemma last_serial_map:
  assumes "forward f" "unsettled scope ps"
  shows "last_serial scope (map f ps) = last_serial scope ps"
proof -
  from assms(2) have "filter (\<lambda>e. ee_scope e = scope) ps \<noteq> []"
    by (auto simp: unsettled_def filter_empty_conv)
  moreover have "filter (\<lambda>e. ee_scope e = scope) (map f ps) = map f (filter (\<lambda>e. ee_scope e = scope) ps)"
    by (simp add: filter_map comp_def forward_simps [OF assms(1)])
  ultimately show ?thesis
    unfolding last_serial_def
    by (simp only: last_map simp_thms forward_simps(1) [OF assms(1)])
qed

lemma waits_okD:
  assumes "waits_ok (xs @ b # ys)"
  shows "ee_phase b = ExecWaiting \<Longrightarrow> unsettled (ee_scope b) xs \<Longrightarrow>
      ee_previous b = Some (last_serial (ee_scope b) xs)"
    and "ee_previous b = Some p \<Longrightarrow> p \<notin> entry_serial ` set (b # ys)"
  using assms unfolding waits_ok_def by blast+

lemma waits_okI:
  assumes "\<And>xs b ys. ps = xs @ b # ys \<Longrightarrow> ee_phase b = ExecWaiting \<Longrightarrow> unsettled (ee_scope b) xs \<Longrightarrow>
      ee_previous b = Some (last_serial (ee_scope b) xs)"
    and "\<And>xs b ys p. ps = xs @ b # ys \<Longrightarrow> ee_previous b = Some p \<Longrightarrow> p \<notin> entry_serial ` set (b # ys)"
  shows "waits_ok ps"
  using assms unfolding waits_ok_def by blast

lemma waits_ok_map:
  assumes f: "forward f" and ok: "waits_ok ps"
  shows "waits_ok (map f ps)"
proof (rule waits_okI)
  fix xs b ys
  assume "map f ps = xs @ b # ys" and b: "ee_phase b = ExecWaiting" "unsettled (ee_scope b) xs"
  then obtain xs' b' ys' where split: "ps = xs' @ b' # ys'" "xs = map f xs'" "b = f b'"
    by (auto simp: map_eq_append_conv map_eq_Cons_conv)
  have "ee_phase b' = ExecWaiting" using b(1) forward_waiting [OF f] by (simp add: split)
  moreover have u: "unsettled (ee_scope b') xs'"
    using b(2) unsettled_map [OF f] by (simp add: split forward_simps(2) [OF f])
  ultimately have "ee_previous b' = Some (last_serial (ee_scope b') xs')"
    using ok waits_okD(1) by (simp add: split)
  then show "ee_previous b = Some (last_serial (ee_scope b) xs)"
    by (simp add: split forward_simps [OF f] last_serial_map [OF f u])
next
  fix xs b ys p
  assume "map f ps = xs @ b # ys" and b: "ee_previous b = Some p"
  then obtain xs' b' ys' where split: "ps = xs' @ b' # ys'" "b = f b'" "ys = map f ys'"
    by (auto simp: map_eq_append_conv map_eq_Cons_conv)
  have "ee_previous b' = Some p" using b by (simp add: split forward_simps(3) [OF f])
  then have "p \<notin> entry_serial ` set (b' # ys')" using ok waits_okD(2) by (simp add: split)
  then show "p \<notin> entry_serial ` set (b # ys)"
    by (simp add: split forward_simps(1) [OF f] image_image)
qed

lemma links_ok_map:
  assumes f: "forward f" and ok: "links_ok links ps"
  shows "links_ok links (map f ps)"
  unfolding links_ok_def
proof (intro conjI allI impI)
  fix scope
  assume "unsettled scope (map f ps)"
  then have u: "unsettled scope ps" by (rule unsettled_map [OF f])
  with ok show "map_of links scope = Some (last_serial scope (map f ps))"
    unfolding last_serial_map [OF f u] by (simp add: links_ok_def)
next
  fix scope p
  assume "map_of links scope = Some p"
  with ok obtain e where "e \<in> set ps" "entry_serial e = p" "ee_scope e = scope"
    unfolding links_ok_def by blast
  then show "\<exists>e \<in> set (map f ps). entry_serial e = p \<and> ee_scope e = scope"
    using forward_simps(1,2) [OF f] by (intro bexI [of _ "f e"]) auto
qed

lemma serials_ok_map:
  assumes "forward f" "serials_ok s"
  shows "serials_ok (s\<lparr>cq_pending := map f (cq_pending s)\<rparr>)"
  using assms(2) by (simp add: serials_ok_def forward_simps(1,3) [OF assms(1)] comp_def)

lemma sorted_map_in_turn:
  assumes "sorted_wrt in_turn ps" "\<And>a b. a \<in> set ps \<Longrightarrow> b \<in> set ps \<Longrightarrow> in_turn a b \<Longrightarrow> in_turn (f a) (f b)"
  shows "sorted_wrt in_turn (map f ps)"
  using assms by (auto simp: sorted_wrt_map intro: sorted_wrt_mono_rel [rotated])

lemma forward_in_turn:
  assumes f: "forward f" and "ee_phase b = ExecWaiting \<Longrightarrow> ee_phase (f b) = ExecWaiting" "in_turn a b"
  shows "in_turn (f a) (f b)"
  using assms(2,3) forward_settled [OF f, of a] by (auto simp: in_turn_def forward_simps(2) [OF f])

subsubsection \<open>Every step keeps the chains\<close>

lemma turn_comes:
  assumes sorted: "sorted_wrt in_turn (xs @ e # ys)" and waits: "waits_ok (xs @ e # ys)"
    and e: "ee_phase e = ExecWaiting"
    and prev: "\<And>p x. ee_previous e = Some p \<Longrightarrow> x \<in> set xs \<Longrightarrow> entry_serial x = p \<Longrightarrow> ee_phase x = ExecSettled"
    and a: "a \<in> set xs" "ee_scope a = ee_scope e"
  shows "ee_phase a = ExecSettled"
proof (rule ccontr)
  assume na: "ee_phase a \<noteq> ExecSettled"
  let ?fs = "filter (\<lambda>x. ee_scope x = ee_scope e) xs"
  have u: "unsettled (ee_scope e) xs" using a na by (auto simp: unsettled_def)
  have a_fs: "a \<in> set ?fs" using a by simp
  then have ne: "?fs \<noteq> []" by force
  have last_in: "last ?fs \<in> set xs" "ee_scope (last ?fs) = ee_scope e"
    using last_in_set [OF ne] by simp_all
  have settled: "ee_phase (last ?fs) = ExecSettled"
    by (rule prev [OF waits_okD(1) [OF waits e u] last_in(1)]) (simp add: last_serial_def)
  have "sorted_wrt in_turn xs" using sorted by (simp add: sorted_wrt_append)
  then have "sorted_wrt in_turn ?fs" by (rule sorted_wrt_filter)
  then have "sorted_wrt in_turn (butlast ?fs @ [last ?fs])" by (simp only: append_butlast_last_id [OF ne])
  moreover have "a \<in> set (butlast ?fs @ [last ?fs])" using a_fs by (simp only: append_butlast_last_id [OF ne])
  ultimately have "a = last ?fs \<or> in_turn a (last ?fs)" by (auto simp: sorted_wrt_append)
  with settled na a(2) last_in(2) show False by (auto simp: in_turn_def)
qed

definition at_phase :: "exec_entry \<Rightarrow> exec_phase \<Rightarrow> exec_entry \<Rightarrow> exec_entry" where
  "at_phase e phase x = (if x = e then x\<lparr>ee_phase := phase\<rparr> else x)"

lemma forward_at_phase:
  "phase \<noteq> ExecWaiting \<Longrightarrow> ee_phase e \<noteq> ExecSettled \<Longrightarrow> forward (at_phase e phase)"
  by (auto simp: forward_def at_phase_def)

lemma serial_unique:
  "distinct (map entry_serial ps) \<Longrightarrow> e \<in> set ps \<Longrightarrow> x \<in> set ps \<Longrightarrow> entry_serial x = entry_serial e \<Longrightarrow> x = e"
  by (metis (mono_tags, lifting) distinct_map inj_onD)

lemma set_phase_eq:
  assumes "serials_ok s" "e \<in> set (cq_pending s)"
  shows "set_phase e phase s = s\<lparr>cq_pending := map (at_phase e phase) (cq_pending s)\<rparr>"
proof -
  have "distinct (map entry_serial (cq_pending s))" using assms(1) by (simp add: serials_ok_def)
  then have "map (\<lambda>x. if entry_serial x = entry_serial e then x\<lparr>ee_phase := phase\<rparr> else x) (cq_pending s) =
      map (at_phase e phase) (cq_pending s)"
    using serial_unique [OF _ assms(2)] by (auto simp: at_phase_def)
  then show ?thesis by (simp add: set_phase_def update_entry_def)
qed

lemma sorted_at_phase:
  assumes sorted: "sorted_wrt in_turn ps" and waits: "waits_ok ps" and e: "e \<in> set ps" "distinct ps"
    and phase: "phase \<noteq> ExecWaiting" "ee_phase e \<noteq> ExecSettled"
    and prev: "\<And>p x. ee_phase e = ExecWaiting \<Longrightarrow> ee_previous e = Some p \<Longrightarrow> x \<in> set ps \<Longrightarrow>
      entry_serial x = p \<Longrightarrow> ee_phase x = ExecSettled"
  shows "sorted_wrt in_turn (map (at_phase e phase) ps)"
proof -
  obtain xs ys where split: "ps = xs @ e # ys" using e(1) by (auto dest: split_list)
  have f: "forward (at_phase e phase)" by (rule forward_at_phase [OF phase])
  have other: "in_turn (at_phase e phase a) (at_phase e phase b)" if "in_turn a b" "b \<noteq> e" for a b
    using forward_in_turn [OF f _ that(1)] that(2) by (simp add: at_phase_def)
  have mine: "in_turn (at_phase e phase a) (at_phase e phase e)" if "a \<in> set xs" "in_turn a e" for a
  proof (cases "ee_phase e = ExecWaiting")
    case True
    have "ee_scope a = ee_scope e \<Longrightarrow> ee_phase a = ExecSettled"
      by (rule turn_comes [OF sorted [unfolded split] waits [unfolded split] True _ that(1)])
        (use prev True in \<open>auto simp: split\<close>)
    then show ?thesis using forward_settled [OF f, of a] by (simp add: in_turn_def forward_simps(2) [OF f])
  next
    case False
    then show ?thesis using forward_in_turn [OF f _ that(2)] by simp
  qed
  have ne: "e \<notin> set xs" "e \<notin> set ys" using e(2) by (simp_all add: split)
  have other_xs: "sorted_wrt in_turn (map (at_phase e phase) zs)" if "sorted_wrt in_turn zs" "e \<notin> set zs" for zs
    using that other by (intro sorted_map_in_turn) auto
  have parts: "sorted_wrt in_turn xs" "sorted_wrt in_turn ys"
    "\<And>a. a \<in> set xs \<Longrightarrow> in_turn a e" "\<And>b. b \<in> set ys \<Longrightarrow> in_turn e b"
    "\<And>a b. a \<in> set xs \<Longrightarrow> b \<in> set ys \<Longrightarrow> in_turn a b"
    using sorted by (auto simp: split sorted_wrt_append)
  have later: "in_turn (at_phase e phase a) (at_phase e phase b)" if "in_turn a b" "b \<in> set ys" for a b
    using other [OF that(1)] that(2) ne(2) by blast
  show ?thesis
    using other_xs [OF parts(1) ne(1)] other_xs [OF parts(2) ne(2)] parts mine later
    by (auto simp: split sorted_wrt_append)
qed

lemma queue_inv_set_phase:
  assumes inv: "queue_inv s" and e: "e \<in> set (cq_pending s)"
    and phase: "phase \<noteq> ExecWaiting" "ee_phase e \<noteq> ExecSettled"
    and prev: "ee_phase e = ExecWaiting \<Longrightarrow> previous_settled s e"
  shows "queue_inv (set_phase e phase s)"
proof -
  have ok: "sorted_wrt in_turn (cq_pending s)" "waits_ok (cq_pending s)"
    "links_ok (cq_chains s) (cq_pending s)" "serials_ok s" using inv by (simp_all add: queue_inv_def)
  have d: "distinct (cq_pending s)" using ok(4) by (auto simp: serials_ok_def distinct_map)
  note f = forward_at_phase [OF phase]
  have "sorted_wrt in_turn (map (at_phase e phase) (cq_pending s))"
    by (rule sorted_at_phase [OF ok(1,2) e d phase])
      (use prev in \<open>auto simp: previous_settled_def list_all_iff\<close>)
  with waits_ok_map [OF f ok(2)] links_ok_map [OF f ok(3)] serials_ok_map [OF f ok(4)]
  show ?thesis by (simp add: set_phase_eq [OF ok(4) e] queue_inv_def)
qed

lemma queue_inv_effects [simp]: "queue_inv (add_effects c es s) = queue_inv s"
  by (simp add: queue_inv_def add_effects_def serials_ok_def)

lemma add_effects_simps [simp]:
  "cq_pending (add_effects c es s) = cq_pending s"
  "cq_dispatching (add_effects c es s) = cq_dispatching s"
  "cq_chains (add_effects c es s) = cq_chains s"
  "cq_handlers (add_effects c es s) = cq_handlers s"
  "cq_shuttingDown (add_effects c es s) = cq_shuttingDown s"
  "cq_next (add_effects c es s) = cq_next s"
  "cq_receipts (add_effects c es s) = cq_receipts s"
  by (simp_all add: add_effects_def)

lemma previous_settled_effects [simp]:
  "previous_settled (add_effects c es s) e = previous_settled s e"
  by (simp add: previous_settled_def split: option.split)

lemma waits_ok_snoc:
  assumes "waits_ok ps"
    and "unsettled (ee_scope n) ps \<Longrightarrow> ee_previous n = Some (last_serial (ee_scope n) ps)"
    and "\<And>p. ee_previous n = Some p \<Longrightarrow> p \<noteq> entry_serial n"
    and "\<And>b p. b \<in> set ps \<Longrightarrow> ee_previous b = Some p \<Longrightarrow> p \<noteq> entry_serial n"
  shows "waits_ok (ps @ [n])"
proof (rule waits_okI)
  fix xs b ys
  assume split: "ps @ [n] = xs @ b # ys" and b: "ee_phase b = ExecWaiting" "unsettled (ee_scope b) xs"
  show "ee_previous b = Some (last_serial (ee_scope b) xs)"
  proof (cases ys rule: rev_cases)
    case Nil
    with split have "xs = ps" "b = n" by simp_all
    with b assms(2) show ?thesis by simp
  next
    case (snoc ys' y)
    with split have "ps = xs @ b # ys'" by simp
    with waits_okD(1) b assms(1) show ?thesis by blast
  qed
next
  fix xs b ys p
  assume split: "ps @ [n] = xs @ b # ys" and b: "ee_previous b = Some p"
  show "p \<notin> entry_serial ` set (b # ys)"
  proof (cases ys rule: rev_cases)
    case Nil
    with split have "b = n" by simp
    with b assms(3) Nil show ?thesis by simp
  next
    case (snoc ys' y)
    with split have ps: "ps = xs @ b # ys'" and y: "y = n" by simp_all
    have "p \<notin> entry_serial ` set (b # ys')" using waits_okD(2) b assms(1) ps by blast
    moreover have "p \<noteq> entry_serial n" by (rule assms(4) [OF _ b]) (simp add: ps)
    ultimately show ?thesis by (simp add: snoc y)
  qed
qed

lemma last_serial_snoc:
  "last_serial scope (ps @ [n]) = (if ee_scope n = scope then entry_serial n else last_serial scope ps)"
  by (simp add: last_serial_def)

lemma unsettled_snoc:
  "unsettled scope (ps @ [n]) \<longleftrightarrow>
     unsettled scope ps \<or> (ee_scope n = scope \<and> ee_phase n \<noteq> ExecSettled)"
  by (auto simp: unsettled_def)

lemma links_ok_snoc:
  assumes "links_ok links ps"
  shows "links_ok (rec_set (ee_scope n) (entry_serial n) links) (ps @ [n])"
  using assms by (auto simp: links_ok_def unsettled_snoc last_serial_snoc)

lemma serials_ok_pending:
  assumes "serials_ok s" "e \<in> set (cq_pending s)"
  shows "entry_serial e < cq_next s" "entry_serial e \<notin> dispatch_serial ` set (cq_dispatching s)"
proof -
  show "entry_serial e < cq_next s" using assms by (simp add: serials_ok_def)
  have "set (map entry_serial (cq_pending s)) \<inter> set (map dispatch_serial (cq_dispatching s)) = {}"
    using assms(1) unfolding serials_ok_def distinct_append by blast
  then show "entry_serial e \<notin> dispatch_serial ` set (cq_dispatching s)"
    using assms(2) by (metis disjoint_iff imageI set_map)
qed

lemma queue_inv_register:
  assumes inv: "queue_inv s" and d: "cq_dispatching s = before @ d # after"
  shows "queue_inv (register_execution (de_info d) (s\<lparr>cq_dispatching := before @ after\<rparr>))"
proof -
  let ?scope = "command_scope (ci_command (de_info d))"
  let ?n = "\<lparr>ee_info = de_info d, ee_scope = ?scope, ee_previous = map_of (cq_chains s) ?scope,
    ee_phase = ExecWaiting, ee_aborted = False\<rparr>"
  have ok: "sorted_wrt in_turn (cq_pending s)" "waits_ok (cq_pending s)"
    "links_ok (cq_chains s) (cq_pending s)" "serials_ok s" using inv by (simp_all add: queue_inv_def)
  have new: "\<forall>e \<in> set (cq_pending s). entry_serial e \<noteq> dispatch_serial d"
    using ok(4) by (auto simp: serials_ok_def d) (metis imageI)
  have link: "\<exists>e \<in> set (cq_pending s). entry_serial e = p" if "map_of (cq_chains s) ?scope = Some p" for p
    using ok(3) that unfolding links_ok_def by blast
  have "sorted_wrt in_turn (cq_pending s @ [?n])"
    using ok(1) by (auto simp: sorted_wrt_append in_turn_def)
  moreover have "waits_ok (cq_pending s @ [?n])"
  proof (rule waits_ok_snoc [OF ok(2)])
    assume "unsettled (ee_scope ?n) (cq_pending s)"
    with ok(3) show "ee_previous ?n = Some (last_serial (ee_scope ?n) (cq_pending s))"
      by (simp add: links_ok_def)
  next
    fix p
    assume "ee_previous ?n = Some p"
    with link new show "p \<noteq> entry_serial ?n" by auto
  next
    fix b p
    assume "b \<in> set (cq_pending s)" "ee_previous b = Some p"
    with ok(4) show "p \<noteq> entry_serial ?n" by (auto simp: serials_ok_def d)
  qed
  moreover have "links_ok (rec_set ?scope (dispatch_serial d) (cq_chains s)) (cq_pending s @ [?n])"
    using links_ok_snoc [OF ok(3), of ?n] by simp
  moreover have "serials_ok (s\<lparr>cq_dispatching := before @ after, cq_pending := cq_pending s @ [?n]\<rparr>)"
  proof -
    have "p < cq_next s \<and> p \<notin> dispatch_serial ` set (before @ after)"
      if p: "map_of (cq_chains s) ?scope = Some p" for p
    proof -
      obtain e where e: "e \<in> set (cq_pending s)" "entry_serial e = p" using link [OF p] by blast
      from serials_ok_pending [OF ok(4) e(1)] show ?thesis by (simp add: e(2) d)
    qed
    then show ?thesis using ok(4) new by (auto simp: serials_ok_def d)
  qed
  ultimately show ?thesis
    by (simp add: register_execution_def Let_def queue_inv_def serials_ok_def)
qed

lemma queue_inv_advance_dispatch:
  assumes "queue_inv s" "cq_dispatching s = before @ d # after"
  shows "queue_inv (advance_dispatch before d after s)"
  using assms queue_inv_register [OF assms]
  by (cases "de_phase d") (auto simp: advance_dispatch_def queue_inv_def serials_ok_def)

lemma queue_inv_forget_dispatch:
  assumes "queue_inv s" "cq_dispatching s = before @ d # after"
  shows "queue_inv (s\<lparr>cq_dispatching := before @ after\<rparr>)"
  using assms by (auto simp: queue_inv_def serials_ok_def)

lemma queue_inv_begin_dispatch:
  assumes "queue_inv s"
  shows "queue_inv (begin_dispatch commandId traceId spanId command s)"
proof -
  have "\<forall>e \<in> set (cq_pending s). entry_serial e \<noteq> cq_next s"
    "\<forall>d \<in> set (cq_dispatching s). dispatch_serial d \<noteq> cq_next s"
    using assms by (auto simp: queue_inv_def serials_ok_def)
  with assms show ?thesis
    by (auto simp: begin_dispatch_def queue_inv_def serials_ok_def less_Suc_eq)
qed

subsubsection \<open>Cleaning up\<close>

lemma waits_ok_remove:
  assumes ok: "waits_ok (us @ e # vs)" and sorted: "sorted_wrt in_turn (us @ e # vs)"
    and settled: "ee_phase e = ExecSettled"
  shows "waits_ok (us @ vs)"
proof (rule waits_okI)
  fix xs b ys
  assume split: "us @ vs = xs @ b # ys" and b: "ee_phase b = ExecWaiting" "unsettled (ee_scope b) xs"
  show "ee_previous b = Some (last_serial (ee_scope b) xs)"
  proof (cases "length us \<le> length xs")
    case False
    then obtain ws where ws: "us = xs @ b # ws"
      using split by (auto simp: append_eq_append_conv2 append_eq_Cons_conv)
    then have "us @ e # vs = xs @ b # (ws @ e # vs)" by simp
    with waits_okD(1) b ok show ?thesis by metis
  next
    case True
    then obtain ws where ws: "xs = us @ ws" "vs = ws @ b # ys"
      using split by (auto simp: append_eq_append_conv2)
    have eq: "us @ e # vs = (us @ e # ws) @ b # ys" by (simp add: ws)
    have "unsettled (ee_scope b) (us @ e # ws)" using b(2) by (auto simp: unsettled_def ws)
    then have prev: "ee_previous b = Some (last_serial (ee_scope b) (us @ e # ws))"
      using waits_okD(1) b(1) ok eq by metis
    have "last_serial (ee_scope b) (us @ e # ws) = last_serial (ee_scope b) (us @ ws)"
    proof (cases "ee_scope e = ee_scope b")
      case True
      have "filter (\<lambda>x. ee_scope x = ee_scope b) ws \<noteq> []"
      proof
        assume "filter (\<lambda>x. ee_scope x = ee_scope b) ws = []"
        then obtain a where a: "a \<in> set us" "ee_scope a = ee_scope b" "ee_phase a \<noteq> ExecSettled"
          using b(2) by (auto simp: unsettled_def ws filter_empty_conv)
        have "in_turn a e" using sorted a(1) by (simp add: sorted_wrt_append)
        with a True settled show False by (simp add: in_turn_def)
      qed
      then show ?thesis by (simp add: last_serial_def)
    next
      case False
      then show ?thesis by (simp add: last_serial_def)
    qed
    with prev show ?thesis by (simp add: ws)
  qed
next
  fix xs b ys p
  assume split: "us @ vs = xs @ b # ys" and b: "ee_previous b = Some p"
  show "p \<notin> entry_serial ` set (b # ys)"
  proof (cases "length us \<le> length xs")
    case False
    then obtain ws where ws: "us = xs @ b # ws" "ys = ws @ vs"
      using split by (auto simp: append_eq_append_conv2 append_eq_Cons_conv)
    then have "us @ e # vs = xs @ b # (ws @ e # vs)" by simp
    then have "p \<notin> entry_serial ` set (b # (ws @ e # vs))" using waits_okD(2) b ok by metis
    with ws show ?thesis by simp
  next
    case True
    then obtain ws where ws: "xs = us @ ws" "vs = ws @ b # ys"
      using split by (auto simp: append_eq_append_conv2)
    have eq: "us @ e # vs = (us @ e # ws) @ b # ys" by (simp add: ws)
    with waits_okD(2) b ok show ?thesis by metis
  qed
qed

lemma links_ok_remove:
  assumes ok: "links_ok links (us @ e # vs)" and sorted: "sorted_wrt in_turn (us @ e # vs)"
    and settled: "ee_phase e = ExecSettled"
    and d: "distinct (map entry_serial (us @ e # vs))"
  shows "links_ok (if map_of links (ee_scope e) = Some (entry_serial e)
      then rec_del (ee_scope e) links else links) (us @ vs)"
proof -
  have last: "map_of links scope = Some (last_serial scope (us @ vs)) \<and>
      (scope = ee_scope e \<longrightarrow> map_of links scope \<noteq> Some (entry_serial e))"
    if u: "unsettled scope (us @ vs)" for scope
  proof -
    have "unsettled scope (us @ e # vs)" using u by (auto simp: unsettled_def)
    then have link: "map_of links scope = Some (last_serial scope (us @ e # vs))"
      using ok by (simp add: links_ok_def)
    show ?thesis
    proof (cases "ee_scope e = scope")
      case False
      with link show ?thesis by (simp add: last_serial_def)
    next
      case True
      have ne: "filter (\<lambda>x. ee_scope x = scope) vs \<noteq> []"
      proof
        assume "filter (\<lambda>x. ee_scope x = scope) vs = []"
        then obtain a where a: "a \<in> set us" "ee_scope a = scope" "ee_phase a \<noteq> ExecSettled"
          using u by (auto simp: unsettled_def filter_empty_conv)
        have "in_turn a e" using sorted a(1) by (simp add: sorted_wrt_append)
        with a True settled show False by (simp add: in_turn_def)
      qed
      then have "last (filter (\<lambda>x. ee_scope x = scope) vs) \<in> set vs"
        using last_in_set [OF ne] by simp
      then have "entry_serial (last (filter (\<lambda>x. ee_scope x = scope) vs)) \<in> entry_serial ` set vs"
        by (rule imageI)
      then have "last_serial scope (us @ vs) \<noteq> entry_serial e" using d ne by (auto simp: last_serial_def)
      with link ne show ?thesis by (simp add: last_serial_def)
    qed
  qed
  have mem: "\<exists>x \<in> set (us @ vs). entry_serial x = p \<and> ee_scope x = scope"
    if link: "map_of links scope = Some p" and other: "\<not> (scope = ee_scope e \<and> p = entry_serial e)"
    for scope p
  proof -
    obtain x where "x \<in> set (us @ e # vs)" "entry_serial x = p" "ee_scope x = scope"
      using ok link unfolding links_ok_def by blast
    with other show ?thesis by auto
  qed
  show ?thesis
    unfolding links_ok_def using last mem by (auto simp del: set_append)
qed

lemma filter_other_serial:
  assumes "distinct (map entry_serial (us @ e # vs))"
  shows "filter (\<lambda>x. entry_serial x \<noteq> entry_serial e) (us @ e # vs) = us @ vs"
proof -
  have "filter (\<lambda>x. entry_serial x \<noteq> entry_serial e) zs = zs" if "entry_serial e \<notin> entry_serial ` set zs" for zs
    using that by (intro filter_True ballI) (metis imageI)
  with assms show ?thesis by simp
qed

lemma queue_inv_clean_up:
  assumes inv: "queue_inv s" and e: "e \<in> set (cq_pending s)" "ee_phase e = ExecSettled"
  shows "queue_inv (clean_up e s)"
proof -
  obtain us vs where split: "cq_pending s = us @ e # vs" using e(1) by (auto dest: split_list)
  have ok: "sorted_wrt in_turn (us @ e # vs)" "waits_ok (us @ e # vs)"
    "links_ok (cq_chains s) (us @ e # vs)" "serials_ok s" using inv by (simp_all add: queue_inv_def split)
  have "distinct (map entry_serial (cq_pending s))" using ok(4) unfolding serials_ok_def distinct_append by blast
  then have d: "distinct (map entry_serial (us @ e # vs))" by (simp only: split)
  have pending: "cq_pending (clean_up e s) = us @ vs"
    using filter_other_serial [OF d] by (simp add: clean_up_def split)
  have "sorted_wrt in_turn (us @ vs)" using ok(1) by (simp add: sorted_wrt_append)
  moreover have "serials_ok (clean_up e s)"
  proof -
    have "distinct (xs @ zs)" if "distinct (xs @ x # zs)" for xs zs :: "nat list" and x
      using that by auto
    from this [of "map entry_serial us" "entry_serial e"
      "map entry_serial vs @ map dispatch_serial (cq_dispatching s)"]
    have "distinct (map entry_serial (us @ vs) @ map dispatch_serial (cq_dispatching s))"
      using ok(4) by (simp add: serials_ok_def split)
    moreover have "cq_dispatching (clean_up e s) = cq_dispatching s" "cq_next (clean_up e s) = cq_next s"
      by (simp_all add: clean_up_def)
    ultimately show ?thesis using ok(4) by (simp add: serials_ok_def pending split)
  qed
  ultimately show ?thesis
    using waits_ok_remove [OF ok(2,1) e(2)] links_ok_remove [OF ok(3,1) e(2) d]
    by (simp add: queue_inv_def pending) (simp add: clean_up_def)
qed

subsubsection \<open>The invariant\<close>

lemma queue_inv_shut_down: "queue_inv s \<Longrightarrow> queue_inv (shut_down s)"
proof -
  assume inv: "queue_inv s"
  have f: "forward (\<lambda>e. e\<lparr>ee_aborted := True\<rparr>)" by (simp add: forward_def)
  have "sorted_wrt in_turn (map (\<lambda>e. e\<lparr>ee_aborted := True\<rparr>) (cq_pending s))"
    using inv by (intro sorted_map_in_turn) (auto simp: queue_inv_def in_turn_def)
  with inv waits_ok_map [OF f] links_ok_map [OF f] serials_ok_map [OF f, of s]
  show ?thesis by (simp add: shut_down_def queue_inv_def serials_ok_def)
qed

lemma queue_inv_advance_execution:
  assumes "queue_inv s" "e \<in> set (cq_pending s)" "in_await (ee_phase e)"
  shows "queue_inv (advance_execution e s)"
proof -
  have "queue_inv (set_phase e phase (add_effects c es s))" if "phase \<noteq> ExecWaiting" for phase c es
    using assms that by (intro queue_inv_set_phase) (auto simp: in_await_def)
  with assms show ?thesis
    by (cases "ee_phase e") (auto simp: advance_execution_def enter_handler_def Let_def in_await_def
      intro!: queue_inv_set_phase)
qed

lemma queue_inv_work:
  assumes "queue_work s s'" "queue_inv s"
  shows "queue_inv s'"
  using assms(1)
proof cases
  case (dispatch_returns before d after)
  with assms(2) show ?thesis by (simp add: queue_inv_advance_dispatch)
next
  case (dispatch_throws before d after)
  with assms(2) show ?thesis by (simp add: queue_inv_forget_dispatch)
next
  case (start e)
  with assms(2) show ?thesis by (simp add: queue_inv_set_phase)
next
  case (await_returns e)
  with assms(2) show ?thesis by (simp add: queue_inv_advance_execution)
next
  case (await_throws e)
  then show ?thesis using assms(2) by (auto simp: in_await_def intro!: queue_inv_set_phase)
next
  case (handler_answers e answer)
  then show ?thesis using assms(2)
    by (cases answer) (auto simp: answer_handler_def intro!: queue_inv_set_phase)
next
  case (settled e)
  with assms(2) show ?thesis by (simp add: queue_inv_clean_up)
qed

lemma queue_inv_step:
  assumes "queue_step s s'" "queue_inv s"
  shows "queue_inv s'"
  using assms(1)
proof cases
  case work
  then show ?thesis using queue_inv_work assms(2) by blast
next
  case (register_handler commandType)
  with assms(2) show ?thesis by (simp add: queue_inv_def serials_ok_def)
next
  case drain_returns
  with assms(2) show ?thesis by (simp add: queue_inv_def serials_ok_def)
qed (use assms(2) in \<open>simp_all add: queue_inv_begin_dispatch queue_inv_shut_down\<close>)

lemma queue_inv_initial: "queue_inv (initial_command_queue handlers)"
  by (simp add: queue_inv_def initial_command_queue_def waits_ok_def links_ok_def serials_ok_def
      unsettled_def)

subsection \<open>The trail of a command\<close>

definition base_trail :: "command_info \<Rightarrow> command_effect list" where
  "base_trail c = [AcceptedStored, EventStored (accepted_event c), Published (accepted_event c),
     StartedStored, EventStored (started_event c), Published (started_event c)]"

definition success_trail :: "command_info \<Rightarrow> command_effect list" where
  "success_trail c = base_trail c @ [HandlerCalled, SucceededStored,
     EventStored (succeeded_event c), Published (succeeded_event c)]"

definition failure_trail :: "command_info \<Rightarrow> bool \<Rightarrow> safe_error \<Rightarrow> command_effect list" where
  "failure_trail c called e = base_trail c @ (if called then [HandlerCalled] else []) @
     [FailedStored (command_error c e), EventStored (failed_event c e), Published (failed_event c e)]"

definition lifecycle :: "command_info \<Rightarrow> command_effect list \<Rightarrow> bool" where
  "lifecycle c es = (prefix es (success_trail c) \<or> (\<exists>called e. prefix es (failure_trail c called e)))"

definition effects_of :: "command_queue \<Rightarrow> nat \<Rightarrow> command_effect list" where
  "effects_of s n = map snd (filter (\<lambda>p. fst p = n) (cq_effects s))"

fun phase_trail :: "command_info \<Rightarrow> exec_phase \<Rightarrow> command_effect list \<Rightarrow> bool" where
  "phase_trail c ExecWaiting es = (es = take 3 (base_trail c))"
| "phase_trail c MarkingStarted es = (es = take 3 (base_trail c))"
| "phase_trail c RecordingStarted es = (es = take 4 (base_trail c))"
| "phase_trail c LoggingStarted es = (es = take 5 (base_trail c))"
| "phase_trail c Handling es = (es = base_trail c @ [HandlerCalled])"
| "phase_trail c MarkingSucceeded es = (es = base_trail c @ [HandlerCalled])"
| "phase_trail c RecordingSucceeded es = (es = base_trail c @ [HandlerCalled, SucceededStored])"
| "phase_trail c LoggingSucceeded es =
     (es = base_trail c @ [HandlerCalled, SucceededStored, EventStored (succeeded_event c)])"
| "phase_trail c (MarkingFailed e) es = (es = base_trail c \<or> es = base_trail c @ [HandlerCalled])"
| "phase_trail c (RecordingFailed e) es =
     (es = base_trail c @ [FailedStored (command_error c e)] \<or>
      es = base_trail c @ [HandlerCalled, FailedStored (command_error c e)])"
| "phase_trail c (LoggingFailed e) es =
     (es = base_trail c @ [FailedStored (command_error c e), EventStored (failed_event c e)] \<or>
      es = base_trail c @ [HandlerCalled, FailedStored (command_error c e),
        EventStored (failed_event c e)])"
| "phase_trail c ExecSettled es = lifecycle c es"

fun dispatch_trail :: "command_info \<Rightarrow> dispatch_phase \<Rightarrow> command_effect list \<Rightarrow> bool" where
  "dispatch_trail c RecordingAccepted es = (es = [])"
| "dispatch_trail c RecordingAcceptedEvent es = (es = take 1 (base_trail c))"
| "dispatch_trail c LoggingAccepted es = (es = take 2 (base_trail c))"

definition trails_ok :: "command_queue \<Rightarrow> bool" where
  "trails_ok s =
     ((\<forall>e \<in> set (cq_pending s). phase_trail (ee_info e) (ee_phase e) (effects_of s (entry_serial e))) \<and>
      (\<forall>d \<in> set (cq_dispatching s). dispatch_trail (de_info d) (de_phase d) (effects_of s (dispatch_serial d))) \<and>
      (\<forall>n. cq_next s \<le> n \<longrightarrow> effects_of s n = []) \<and>
      (\<forall>n. \<exists>c. lifecycle c (effects_of s n)))"

lemma lifecycle_failed:
  "es = base_trail c @ fs \<Longrightarrow> prefix fs [FailedStored (command_error c e),
     EventStored (failed_event c e), Published (failed_event c e)] \<Longrightarrow> lifecycle c es"
  "es = base_trail c @ HandlerCalled # fs \<Longrightarrow> prefix fs [FailedStored (command_error c e),
     EventStored (failed_event c e), Published (failed_event c e)] \<Longrightarrow> lifecycle c es"
proof -
  have pre: "prefix (base_trail c @ us) (base_trail c @ vs) = prefix us vs" for us vs by simp
  show "lifecycle c es" if "es = base_trail c @ fs" "prefix fs [FailedStored (command_error c e),
     EventStored (failed_event c e), Published (failed_event c e)]"
    unfolding lifecycle_def
    by (rule disjI2, rule exI [of _ False], rule exI [of _ e]) (simp add: failure_trail_def pre that)
  show "lifecycle c es" if "es = base_trail c @ HandlerCalled # fs" "prefix fs [FailedStored (command_error c e),
     EventStored (failed_event c e), Published (failed_event c e)]"
    unfolding lifecycle_def
    by (rule disjI2, rule exI [of _ True], rule exI [of _ e]) (simp add: failure_trail_def pre that)
qed

lemma lifecycle_succeeded: "prefix es (success_trail c) \<Longrightarrow> lifecycle c es"
  by (simp add: lifecycle_def)

lemma phase_trail_lifecycle:
  assumes "phase_trail c phase es"
  shows "lifecycle c es"
proof (cases phase)
  case (MarkingFailed e)
  with assms show ?thesis
    using lifecycle_failed(1) [of es c "[]" e] lifecycle_failed(2) [of es c "[]" e] by auto
next
  case (RecordingFailed e)
  with assms show ?thesis
    using lifecycle_failed [of es c "[FailedStored (command_error c e)]" e] by auto
next
  case (LoggingFailed e)
  with assms show ?thesis
    using lifecycle_failed [of es c "[FailedStored (command_error c e), EventStored (failed_event c e)]" e]
    by auto
next
  case ExecSettled
  with assms show ?thesis by simp
qed (use assms in \<open>simp_all add: lifecycle_succeeded success_trail_def base_trail_def\<close>)

lemma dispatch_trail_lifecycle: "dispatch_trail c phase es \<Longrightarrow> lifecycle c es"
  by (cases phase) (simp_all add: lifecycle_succeeded success_trail_def base_trail_def)

lemma effects_of_add [simp]:
  "effects_of (add_effects c es s) n = effects_of s n @ (if ci_serial c = n then es else [])"
  by (auto simp: effects_of_def add_effects_def filter_map comp_def)

lemma effects_of_cong: "cq_effects s' = cq_effects s \<Longrightarrow> effects_of s' = effects_of s"
  by (simp add: effects_of_def fun_eq_iff)

lemma serials_ok_add [simp]: "serials_ok (add_effects c es s) = serials_ok s"
  by (simp add: serials_ok_def)

lemma trails_ok_move:
  assumes serials: "serials_ok s" and trails: "trails_ok s" and e: "e \<in> set (cq_pending s)"
    and phase: "phase_trail (ee_info e) phase (effects_of s (entry_serial e) @ es)"
  shows "trails_ok (set_phase e phase (add_effects (ee_info e) es s))"
proof -
  let ?s = "add_effects (ee_info e) es s"
  have eq: "set_phase e phase ?s = ?s\<lparr>cq_pending := map (at_phase e phase) (cq_pending s)\<rparr>"
    using set_phase_eq [of ?s e phase] serials e by simp
  have eff: "effects_of (?s\<lparr>cq_pending := ps\<rparr>) = effects_of ?s" for ps
    by (rule effects_of_cong) simp
  have d: "distinct (map entry_serial (cq_pending s))"
    using serials unfolding serials_ok_def distinct_append by blast
  have entries: "phase_trail (ee_info (at_phase e phase x)) (ee_phase (at_phase e phase x))
      (effects_of ?s (entry_serial x))" if "x \<in> set (cq_pending s)" for x
  proof (cases "x = e")
    case True
    with phase show ?thesis by (simp add: at_phase_def)
  next
    case False
    with serial_unique [OF d e that] have "entry_serial e \<noteq> entry_serial x" by auto
    with False trails that show ?thesis by (simp add: at_phase_def trails_ok_def)
  qed
  have info: "ee_info (at_phase e phase x) = ee_info x" for x by (simp add: at_phase_def)
  have dispatches: "dispatch_trail (de_info x) (de_phase x) (effects_of ?s (dispatch_serial x))"
    if "x \<in> set (cq_dispatching s)" for x
  proof -
    have "entry_serial e \<noteq> dispatch_serial x"
      using serials_ok_pending(2) [OF serials e] that by (metis imageI)
    with trails that show ?thesis by (simp add: trails_ok_def)
  qed
  have fresh: "effects_of ?s n = []" if "cq_next s \<le> n" for n
    using serials_ok_pending(1) [OF serials e] trails that by (simp add: trails_ok_def)
  have life: "\<exists>c. lifecycle c (effects_of ?s n)" for n
    using phase_trail_lifecycle [OF phase] trails by (cases "n = entry_serial e") (auto simp: trails_ok_def)
  show ?thesis
    unfolding trails_ok_def eq eff using entries life fresh dispatches by (simp add: info)
qed

lemma trails_ok_set_phase:
  assumes "serials_ok s" "trails_ok s" "e \<in> set (cq_pending s)"
    "phase_trail (ee_info e) phase (effects_of s (entry_serial e))"
  shows "trails_ok (set_phase e phase s)"
proof -
  have "add_effects (ee_info e) [] s = s" by (simp add: add_effects_def)
  with trails_ok_move [of s e phase "[]"] assms show ?thesis by simp
qed

lemma entry_trail:
  "trails_ok s \<Longrightarrow> e \<in> set (cq_pending s) \<Longrightarrow>
     phase_trail (ee_info e) (ee_phase e) (effects_of s (entry_serial e))"
  by (simp add: trails_ok_def)

lemma base_trail_take:
  "take 4 (base_trail c) = take 3 (base_trail c) @ [StartedStored]"
  "take 5 (base_trail c) = take 4 (base_trail c) @ [EventStored (started_event c)]"
  "base_trail c = take 5 (base_trail c) @ [Published (started_event c)]"
  "take 1 (base_trail c) = [AcceptedStored]"
  "take 2 (base_trail c) = take 1 (base_trail c) @ [EventStored (accepted_event c)]"
  "take 3 (base_trail c) = take 2 (base_trail c) @ [Published (accepted_event c)]"
  by (simp_all add: base_trail_def)

lemma add_effects_add: "add_effects c fs (add_effects c es s) = add_effects c (es @ fs) s"
  by (simp add: add_effects_def)

lemma trails_ok_enter_handler:
  assumes s: "serials_ok s" "trails_ok s" "e \<in> set (cq_pending s)" and phase: "ee_phase e = LoggingStarted"
  shows "trails_ok (enter_handler e s)"
proof -
  let ?c = "ee_info e"
  have es: "effects_of s (entry_serial e) = take 5 (base_trail ?c)"
    using entry_trail [OF s(2,3)] by (simp add: phase)
  have complete: "take 5 (base_trail ?c) @ [Published (started_event ?c)] = base_trail ?c"
    by (simp add: base_trail_def)
  have "trails_ok (set_phase e (MarkingFailed err) (add_effects ?c [Published (started_event ?c)] s))" for err
    by (rule trails_ok_move [OF s]) (simp add: es complete)
  moreover have "trails_ok (set_phase e Handling (add_effects ?c [Published (started_event ?c), HandlerCalled] s))"
    by (rule trails_ok_move [OF s]) (simp add: es base_trail_def)
  ultimately show ?thesis by (simp add: enter_handler_def Let_def add_effects_add)
qed

lemma trails_ok_advance:
  assumes s: "serials_ok s" "trails_ok s" "e \<in> set (cq_pending s)" and await: "in_await (ee_phase e)"
  shows "trails_ok (advance_execution e s)"
proof -
  let ?c = "ee_info e"
  note es = entry_trail [OF s(2,3)]
  note move = trails_ok_move [OF s]
  show ?thesis
  proof (cases "ee_phase e")
    case MarkingStarted
    with es show ?thesis
      by (simp add: advance_execution_def Let_def) (rule move, simp add: base_trail_def)
  next
    case RecordingStarted
    with es show ?thesis
      by (simp add: advance_execution_def Let_def) (rule move, simp add: base_trail_def)
  next
    case LoggingStarted
    with s show ?thesis by (simp add: advance_execution_def trails_ok_enter_handler)
  next
    case MarkingSucceeded
    with es show ?thesis by (simp add: advance_execution_def Let_def) (rule move, simp)
  next
    case RecordingSucceeded
    with es show ?thesis by (simp add: advance_execution_def Let_def) (rule move, simp)
  next
    case LoggingSucceeded
    with es show ?thesis
      by (simp add: advance_execution_def Let_def)
        (rule move, simp add: lifecycle_succeeded success_trail_def)
  next
    case (MarkingFailed err)
    with es show ?thesis by (simp add: advance_execution_def Let_def) (rule move, auto)
  next
    case (RecordingFailed err)
    with es show ?thesis by (simp add: advance_execution_def Let_def) (rule move, auto)
  next
    case (LoggingFailed err)
    let ?fs = "[FailedStored (command_error ?c err), EventStored (failed_event ?c err),
      Published (failed_event ?c err)]"
    have "lifecycle ?c (effects_of s (entry_serial e) @ [Published (failed_event ?c err)])"
      using es LoggingFailed lifecycle_failed [of _ ?c ?fs err] by auto
    with LoggingFailed show ?thesis by (simp add: advance_execution_def Let_def) (rule move, simp)
  qed (use await in \<open>simp_all add: in_await_def\<close>)
qed

lemma trails_ok_subset:
  assumes "trails_ok s" "cq_effects s' = cq_effects s" "cq_next s' = cq_next s"
    "\<forall>e \<in> set (cq_pending s'). \<exists>x \<in> set (cq_pending s). ee_info e = ee_info x \<and> ee_phase e = ee_phase x"
    "set (cq_dispatching s') \<subseteq> set (cq_dispatching s)"
  shows "trails_ok s'"
proof -
  have eff: "effects_of s' = effects_of s" by (rule effects_of_cong [OF assms(2)])
  show ?thesis
    unfolding trails_ok_def eff assms(3)
    using assms(1,4,5) unfolding trails_ok_def by fastforce
qed

lemma trails_ok_dispatch:
  assumes serials: "serials_ok s" and trails: "trails_ok s" and d: "cq_dispatching s = before @ d # after"
  shows "trails_ok (advance_dispatch before d after s)"
proof -
  let ?c = "de_info d"
  have d_in: "d \<in> set (cq_dispatching s)" by (simp add: d)
  have es: "dispatch_trail ?c (de_phase d) (effects_of s (dispatch_serial d))"
    using trails d_in by (simp add: trails_ok_def)
  have distinct: "distinct (map entry_serial (cq_pending s) @ map dispatch_serial (before @ d # after))"
    using serials d by (simp add: serials_ok_def)
  have below: "dispatch_serial d < cq_next s" using serials d_in by (simp add: serials_ok_def)
  have pending: "dispatch_serial d \<noteq> entry_serial x" if "x \<in> set (cq_pending s)" for x
    using serials_ok_pending(2) [OF serials that] d_in by (metis imageI)
  have others: "dispatch_serial d \<noteq> dispatch_serial x" if "x \<in> set (before @ after)" for x
    using distinct that by (auto simp: image_iff)
  have entry: "phase_trail (ee_info x) (ee_phase x) (effects_of s (entry_serial x) @
      (if dispatch_serial d = entry_serial x then fs else []))" if "x \<in> set (cq_pending s)" for x fs
    using trails pending [OF that] that by (simp add: trails_ok_def)
  have other: "dispatch_trail (de_info x) (de_phase x) (effects_of s (dispatch_serial x) @
      (if dispatch_serial d = dispatch_serial x then fs else []))" if "x \<in> set (before @ after)" for x fs
    using trails others [OF that] that by (auto simp: trails_ok_def d)
  have fresh: "effects_of s n @ (if dispatch_serial d = n then fs else []) = []" if "cq_next s \<le> n" for n fs
    using trails below that by (simp add: trails_ok_def)
  have life: "\<exists>c. lifecycle c (effects_of s n @ (if dispatch_serial d = n then fs else []))"
    if "lifecycle ?c (effects_of s (dispatch_serial d) @ fs)" for n fs
    using trails that by (cases "dispatch_serial d = n") (auto simp: trails_ok_def)
  show ?thesis
  proof (cases "de_phase d")
    case RecordingAccepted
    with es have "effects_of s (dispatch_serial d) @ [AcceptedStored] = take 1 (base_trail ?c)"
      by (simp add: base_trail_def)
    moreover have "lifecycle ?c (take 1 (base_trail ?c))"
      by (rule dispatch_trail_lifecycle [of _ RecordingAcceptedEvent]) simp
    ultimately show ?thesis
      using RecordingAccepted entry other fresh life [of "[AcceptedStored]"]
      by (simp add: advance_dispatch_def trails_ok_def effects_of_cong [of "s\<lparr>cq_dispatching := _\<rparr>" s])
  next
    case RecordingAcceptedEvent
    with es have "effects_of s (dispatch_serial d) @ [EventStored (accepted_event ?c)] = take 2 (base_trail ?c)"
      by (simp add: base_trail_def)
    moreover have "lifecycle ?c (take 2 (base_trail ?c))"
      by (rule dispatch_trail_lifecycle [of _ LoggingAccepted]) simp
    ultimately show ?thesis
      using RecordingAcceptedEvent entry other fresh life [of "[EventStored (accepted_event ?c)]"]
      by (simp add: advance_dispatch_def trails_ok_def effects_of_cong [of "s\<lparr>cq_dispatching := _\<rparr>" s])
  next
    case LoggingAccepted
    with es have "effects_of s (dispatch_serial d) @ [Published (accepted_event ?c)] = take 3 (base_trail ?c)"
      by (simp add: base_trail_def)
    moreover have "lifecycle ?c (take 3 (base_trail ?c))"
      by (rule phase_trail_lifecycle [of _ ExecWaiting]) simp
    ultimately have life3: "\<exists>c. lifecycle c (effects_of s n @
        (if dispatch_serial d = n then [Published (accepted_event ?c)] else []))" for n
      using life [of "[Published (accepted_event ?c)]"] by simp
    let ?s = "advance_dispatch before d after s"
    have eff: "effects_of ?s = (\<lambda>n. effects_of s n @
        (if dispatch_serial d = n then [Published (accepted_event ?c)] else []))"
      using LoggingAccepted
      by (auto simp: advance_dispatch_def register_execution_def Let_def add_effects_def effects_of_def
          fun_eq_iff)
    have new: "phase_trail ?c ExecWaiting (effects_of s (dispatch_serial d) @ [Published (accepted_event ?c)])"
      using es LoggingAccepted by (simp add: base_trail_def)
    let ?n = "\<lparr>ee_info = ?c, ee_scope = command_scope (ci_command ?c),
      ee_previous = map_of (cq_chains s) (command_scope (ci_command ?c)),
      ee_phase = ExecWaiting, ee_aborted = False\<rparr>"
    have fields: "cq_next ?s = cq_next s" "cq_dispatching ?s = before @ after"
      "set (cq_pending ?s) = insert ?n (set (cq_pending s))"
      using LoggingAccepted by (simp_all add: advance_dispatch_def register_execution_def Let_def)
    show ?thesis
      unfolding trails_ok_def eff fields ball_simps(7)
    proof (intro conjI)
      show "phase_trail (ee_info ?n) (ee_phase ?n) (effects_of s (entry_serial ?n) @
          (if dispatch_serial d = entry_serial ?n then [Published (accepted_event ?c)] else []))"
        using new by simp
    qed (use entry other fresh life3 in blast)+
  qed
qed

lemma trails_ok_work:
  assumes "queue_work s s'" "serials_ok s" "trails_ok s"
  shows "trails_ok s'"
  using assms(1)
proof cases
  case (dispatch_returns before d after)
  with assms(2,3) show ?thesis by (simp add: trails_ok_dispatch)
next
  case (dispatch_throws before d after)
  show ?thesis by (rule trails_ok_subset [OF assms(3)]) (auto simp: dispatch_throws)
next
  case (start e)
  then show ?thesis
    using entry_trail [OF assms(3), of e] by (simp add: trails_ok_set_phase assms(2,3))
next
  case (await_returns e)
  with assms(2,3) show ?thesis by (simp add: trails_ok_advance)
next
  case (await_throws e)
  then show ?thesis
    using phase_trail_lifecycle [OF entry_trail [OF assms(3), of e]]
    by (simp add: trails_ok_set_phase assms(2,3))
next
  case (handler_answers e answer)
  then have "effects_of s (entry_serial e) = base_trail (ee_info e) @ [HandlerCalled]"
    using entry_trail [OF assms(3), of e] by simp
  with handler_answers show ?thesis
    by (cases answer) (simp_all add: answer_handler_def trails_ok_set_phase assms(2,3))
next
  case (settled e)
  show ?thesis by (rule trails_ok_subset [OF assms(3)]) (auto simp: settled clean_up_def)
qed

lemma trails_ok_step:
  assumes "queue_step s s'" "serials_ok s" "trails_ok s"
  shows "trails_ok s'"
  using assms(1)
proof cases
  case work
  then show ?thesis using trails_ok_work assms(2,3) by blast
next
  case (dispatch command commandId traceId spanId)
  have eff: "effects_of (begin_dispatch commandId traceId spanId command s) = effects_of s"
    by (rule effects_of_cong) (simp add: begin_dispatch_def)
  show ?thesis
    using assms(3) unfolding dispatch trails_ok_def eff by (auto simp: begin_dispatch_def)
next
  case (register_handler commandType)
  show ?thesis by (rule trails_ok_subset [OF assms(3)]) (auto simp: register_handler)
next
  case drain_returns
  show ?thesis by (rule trails_ok_subset [OF assms(3)]) (auto simp: drain_returns)
next
  case shutdown
  show ?thesis by (rule trails_ok_subset [OF assms(3)]) (auto simp: shutdown shut_down_def)
qed

lemma trails_ok_initial: "trails_ok (initial_command_queue handlers)"
  by (auto simp: trails_ok_def initial_command_queue_def effects_of_def lifecycle_def)

subsection \<open>The queue as a draining system\<close>

fun phase_work :: "exec_phase \<Rightarrow> nat" where
  "phase_work ExecWaiting = 9"
| "phase_work MarkingStarted = 8"
| "phase_work RecordingStarted = 7"
| "phase_work LoggingStarted = 6"
| "phase_work Handling = 5"
| "phase_work MarkingSucceeded = 4"
| "phase_work RecordingSucceeded = 3"
| "phase_work LoggingSucceeded = 2"
| "phase_work (MarkingFailed e) = 4"
| "phase_work (RecordingFailed e) = 3"
| "phase_work (LoggingFailed e) = 2"
| "phase_work ExecSettled = 1"

fun dispatch_work :: "dispatch_phase \<Rightarrow> nat" where
  "dispatch_work RecordingAccepted = 12"
| "dispatch_work RecordingAcceptedEvent = 11"
| "dispatch_work LoggingAccepted = 10"

definition command_work :: "command_queue \<Rightarrow> nat" where
  "command_work s = sum_list (map (phase_work \<circ> ee_phase) (cq_pending s)) +
     sum_list (map (dispatch_work \<circ> de_phase) (cq_dispatching s))"

definition commands_at_rest :: "command_queue \<Rightarrow> bool" where
  "commands_at_rest s = (cq_pending s = [] \<and> cq_dispatching s = [])"

lemma work_set_phase:
  assumes "serials_ok s" "e \<in> set (cq_pending s)" "phase_work phase < phase_work (ee_phase e)"
  shows "command_work (set_phase e phase s) < command_work s"
proof -
  obtain us vs where split: "cq_pending s = us @ e # vs" using assms(2) by (auto dest: split_list)
  have "distinct (cq_pending s)"
    using assms(1) unfolding serials_ok_def distinct_append distinct_map by blast
  then have "e \<notin> set us" "e \<notin> set vs" by (simp_all add: split)
  then have "map (at_phase e phase) us = us" "map (at_phase e phase) vs = vs"
    by (auto simp: at_phase_def intro!: map_idI)
  with assms(3) show ?thesis
    by (simp add: set_phase_eq [OF assms(1,2)] command_work_def split at_phase_def)
qed

lemma command_work_effects [simp]: "command_work (add_effects c es s) = command_work s"
  by (simp add: command_work_def)

lemma queue_work_decreases:
  assumes "queue_work s s'" "serials_ok s"
  shows "command_work s' < command_work s"
  using assms(1)
proof cases
  case (dispatch_returns before d after)
  then show ?thesis
    by (cases "de_phase d") (simp_all add: advance_dispatch_def command_work_def register_execution_def Let_def)
next
  case (dispatch_throws before d after)
  then show ?thesis by (cases "de_phase d") (simp_all add: command_work_def)
next
  case (start e)
  then show ?thesis using work_set_phase [OF assms(2), of e MarkingStarted] by simp
next
  case (await_returns e)
  have "command_work (set_phase e phase (add_effects c es s)) < command_work s"
    if "phase_work phase < phase_work (ee_phase e)" for phase c es
    using work_set_phase [of "add_effects c es s" e phase] await_returns assms(2) that by simp
  with await_returns show ?thesis
    by (cases "ee_phase e")
      (simp_all add: advance_execution_def enter_handler_def Let_def in_await_def add_effects_add)
next
  case (await_throws e)
  then have "phase_work ExecSettled < phase_work (ee_phase e)"
    by (cases "ee_phase e") (simp_all add: in_await_def)
  with await_throws show ?thesis using work_set_phase [OF assms(2), of e ExecSettled] by simp
next
  case (handler_answers e answer)
  then show ?thesis
    using work_set_phase [OF assms(2), of e] by (cases answer) (simp_all add: answer_handler_def)
next
  case (settled e)
  obtain us vs where split: "cq_pending s = us @ e # vs" using settled(2) by (auto dest: split_list)
  have "distinct (map entry_serial (us @ e # vs))"
    using assms(2) unfolding serials_ok_def distinct_append split by blast
  from filter_other_serial [OF this] settled show ?thesis
    by (simp add: clean_up_def command_work_def split)
qed

lemma queue_stuck:
  assumes "queue_inv s" "\<not> (\<exists>s'. queue_work s s')"
  shows "commands_at_rest s"
proof -
  have "cq_dispatching s = []"
    using assms(2) queue_work.dispatch_returns [of s "[]"] by (cases "cq_dispatching s") auto
  moreover have "cq_pending s = []"
  proof (cases "cq_pending s")
    case (Cons e rest)
    then have e: "e \<in> set (cq_pending s)" by simp
    have "waits_ok ([] @ e # rest)" using assms(1) by (simp add: queue_inv_def Cons)
    then have "previous_settled s e"
      using waits_okD(2) [of "[]" e rest] by (auto simp: previous_settled_def Cons list_all_iff split: option.split)
    then have "ee_phase e \<noteq> ExecWaiting" using assms(2) queue_work.start [OF e] by blast
    moreover have "ee_phase e \<noteq> Handling" using assms(2) queue_work.handler_answers [OF e] by blast
    moreover have "ee_phase e \<noteq> ExecSettled" using assms(2) queue_work.settled [OF e] by blast
    ultimately have "in_await (ee_phase e)" by (simp add: in_await_def)
    then show ?thesis using assms(2) queue_work.await_returns [OF e] by blast
  qed simp
  ultimately show ?thesis by (simp add: commands_at_rest_def)
qed

definition scopes_ok :: "command_queue \<Rightarrow> bool" where
  "scopes_ok s = (\<forall>e \<in> set (cq_pending s). ee_scope e = command_scope (ci_command (ee_info e)))"

lemma scopes_ok_set_phase:
  "scopes_ok s \<Longrightarrow> scopes_ok (set_phase e phase (add_effects c es s))"
  "scopes_ok s \<Longrightarrow> scopes_ok (set_phase e phase s)"
  by (auto simp: scopes_ok_def set_phase_def update_entry_def)

lemma scopes_ok_work:
  assumes "queue_work s s'" "scopes_ok s"
  shows "scopes_ok s'"
  using assms(1)
proof cases
  case (dispatch_returns before d after)
  with assms(2) show ?thesis
    by (cases "de_phase d") (auto simp: advance_dispatch_def scopes_ok_def register_execution_def Let_def)
next
  case (await_returns e)
  with assms(2) show ?thesis
    by (cases "ee_phase e") (simp_all add: advance_execution_def enter_handler_def Let_def
      add_effects_add scopes_ok_set_phase)
next
  case (handler_answers e answer)
  with assms(2) show ?thesis by (cases answer) (simp_all add: answer_handler_def scopes_ok_set_phase)
qed (use assms(2) in \<open>auto simp: scopes_ok_def clean_up_def set_phase_def update_entry_def\<close>)

lemma scopes_ok_step:
  assumes "queue_step s s'" "scopes_ok s"
  shows "scopes_ok s'"
  using assms(1)
proof cases
  case work
  then show ?thesis using scopes_ok_work assms(2) by blast
qed (use assms(2) in \<open>auto simp: scopes_ok_def begin_dispatch_def shut_down_def\<close>)

definition commands_inv :: "command_queue \<Rightarrow> bool" where
  "commands_inv s = (queue_inv s \<and> trails_ok s \<and> scopes_ok s)"

interpretation commands: draining_system "(=) (initial_command_queue handlers)" queue_step queue_work
  commands_inv command_work commands_at_rest for handlers
proof unfold_locales
  show "initial_command_queue handlers = s \<Longrightarrow> commands_inv s" for s
    using queue_inv_initial trails_ok_initial
    by (auto simp: commands_inv_def scopes_ok_def initial_command_queue_def)
  show "commands_inv s \<Longrightarrow> queue_step s s' \<Longrightarrow> commands_inv s'" for s s'
    using queue_inv_step trails_ok_step scopes_ok_step by (auto simp: commands_inv_def queue_inv_def)
  show "queue_work s s' \<Longrightarrow> queue_step s s'" for s s' by (rule queue_step.work)
  show "commands_inv s \<Longrightarrow> queue_work s s' \<Longrightarrow> command_work s' < command_work s" for s s'
    using queue_work_decreases by (auto simp: commands_inv_def queue_inv_def)
  show "commands_inv s \<Longrightarrow> \<not> (\<exists>s'. queue_work s s') \<Longrightarrow> commands_at_rest s" for s
    using queue_stuck by (auto simp: commands_inv_def)
qed

lemma commands_reachable_inv:
  "queue_step\<^sup>*\<^sup>* (initial_command_queue handlers) s \<Longrightarrow> commands_inv s"
  by (rule commands.reachable_inv) (auto simp: commands.reachable_def)

subsection \<open>Shutting down\<close>

definition succeeding :: "exec_phase \<Rightarrow> bool" where
  "succeeding p = (p \<in> {MarkingSucceeded, RecordingSucceeded, LoggingSucceeded})"

definition cancelled :: "nat \<Rightarrow> command_queue \<Rightarrow> bool" where
  "cancelled n s =
     ((\<forall>e \<in> set (cq_pending s). entry_serial e = n \<longrightarrow> ee_aborted e \<and> \<not> succeeding (ee_phase e)) \<and>
      (\<forall>d \<in> set (cq_dispatching s). dispatch_serial d \<noteq> n) \<and> n < cq_next s \<and>
      SucceededStored \<notin> set (effects_of s n))"

lemma cancelled_set_phase:
  assumes "cancelled n s" "\<not> succeeding phase" "SucceededStored \<notin> set es \<or> entry_serial e \<noteq> n"
  shows "cancelled n (set_phase e phase (add_effects (ee_info e) es s))"
proof -
  have "effects_of (set_phase e phase (add_effects (ee_info e) es s)) = effects_of (add_effects (ee_info e) es s)"
    by (rule effects_of_cong) (simp add: set_phase_def update_entry_def)
  with assms show ?thesis by (auto simp: cancelled_def set_phase_def update_entry_def)
qed

lemma cancelled_set_phase_other:
  assumes "cancelled n s" "entry_serial e \<noteq> n"
  shows "cancelled n (set_phase e phase (add_effects (ee_info e) es s))"
proof -
  have "effects_of (set_phase e phase (add_effects (ee_info e) es s)) = effects_of (add_effects (ee_info e) es s)"
    by (rule effects_of_cong) (simp add: set_phase_def update_entry_def)
  with assms show ?thesis by (auto simp: cancelled_def set_phase_def update_entry_def)
qed

lemma set_phase_no_effects: "set_phase e phase s = set_phase e phase (add_effects (ee_info e) [] s)"
  by (simp add: add_effects_def)

lemma cancelled_work:
  assumes "queue_work s s'" "cancelled n s"
  shows "cancelled n s'"
  using assms(1)
proof cases
  case (dispatch_returns before d after)
  have "dispatch_serial d \<noteq> n" "n < cq_next s" using assms(2) dispatch_returns by (auto simp: cancelled_def)
  moreover have "effects_of s' n = effects_of s n"
    using dispatch_returns calculation(1)
    by (cases "de_phase d") (auto simp: advance_dispatch_def register_execution_def Let_def
      effects_of_def add_effects_def)
  ultimately show ?thesis
    using assms(2) dispatch_returns
    by (cases "de_phase d") (auto simp: cancelled_def advance_dispatch_def register_execution_def Let_def)
next
  case (dispatch_throws before d after)
  have "effects_of s' = effects_of s" by (rule effects_of_cong) (simp add: dispatch_throws)
  with assms(2) dispatch_throws show ?thesis by (auto simp: cancelled_def)
next
  case (start e)
  then show ?thesis
    using cancelled_set_phase [OF assms(2), of MarkingStarted "[]" e]
    by (simp add: succeeding_def flip: set_phase_no_effects)
next
  case (await_returns e)
  show ?thesis
  proof (cases "entry_serial e = n")
    case True
    then have "\<not> succeeding (ee_phase e)" "ee_aborted e"
      using assms(2) await_returns(2) by (auto simp: cancelled_def)
    with await_returns show ?thesis
      by (cases "ee_phase e") (simp_all add: advance_execution_def enter_handler_def Let_def in_await_def
        succeeding_def cancelled_set_phase [OF assms(2)])
  next
    case False
    with await_returns show ?thesis
      by (cases "ee_phase e") (simp_all add: advance_execution_def enter_handler_def Let_def in_await_def
        add_effects_add cancelled_set_phase_other [OF assms(2)])
  qed
next
  case (await_throws e)
  then show ?thesis
    using cancelled_set_phase [OF assms(2), of ExecSettled "[]" e]
    by (simp add: succeeding_def flip: set_phase_no_effects)
next
  case (handler_answers e answer)
  show ?thesis
  proof (cases "entry_serial e = n")
    case True
    then have "ee_aborted e" using assms(2) handler_answers(2) by (auto simp: cancelled_def)
    with handler_answers show ?thesis
      using cancelled_set_phase [OF assms(2), of "MarkingFailed _" "[]" e]
      by (cases answer) (simp_all add: answer_handler_def succeeding_def flip: set_phase_no_effects)
  next
    case False
    with handler_answers show ?thesis
      using cancelled_set_phase_other [OF assms(2), of e _ "[]"]
      by (cases answer) (simp_all add: answer_handler_def flip: set_phase_no_effects)
  qed
next
  case (settled e)
  have "effects_of s' = effects_of s" by (rule effects_of_cong) (simp add: settled clean_up_def)
  with assms(2) settled show ?thesis by (auto simp: cancelled_def clean_up_def)
qed

lemma cancelled_step:
  assumes "queue_step s s'" "cancelled n s"
  shows "cancelled n s'"
  using assms(1)
proof cases
  case work
  then show ?thesis using cancelled_work assms(2) by blast
next
  case (dispatch command commandId traceId spanId)
  have "effects_of s' = effects_of s" by (rule effects_of_cong) (simp add: dispatch begin_dispatch_def)
  with assms(2) dispatch show ?thesis by (auto simp: cancelled_def begin_dispatch_def)
next
  case (register_handler commandType)
  have "effects_of s' = effects_of s" by (rule effects_of_cong) (simp add: register_handler)
  with assms(2) register_handler show ?thesis by (auto simp: cancelled_def)
next
  case drain_returns
  have "effects_of s' = effects_of s" by (rule effects_of_cong) (simp add: drain_returns)
  with assms(2) drain_returns show ?thesis by (auto simp: cancelled_def)
next
  case shutdown
  have "effects_of s' = effects_of s" by (rule effects_of_cong) (simp add: shutdown shut_down_def)
  with assms(2) shutdown show ?thesis by (auto simp: cancelled_def shut_down_def)
qed

lemma cancelled_steps: "queue_step\<^sup>*\<^sup>* s s' \<Longrightarrow> cancelled n s \<Longrightarrow> cancelled n s'"
  by (induction rule: rtranclp_induct) (auto intro: cancelled_step)

lemma unfinished_trail:
  "phase_trail c phase es \<Longrightarrow> \<not> succeeding phase \<Longrightarrow> phase \<noteq> ExecSettled \<Longrightarrow> SucceededStored \<notin> set es"
  by (cases phase) (auto simp: succeeding_def base_trail_def)

subsection \<open>Properties of the queue\<close>

text \<open>C9: Commands of one scope (session, worktree, project or global) run one at a time and in order:
  of two registered commands with the same scope, the later one has not started unless the
  earlier one has settled.\<close>

theorem commands_run_in_turn:
  assumes "queue_step\<^sup>*\<^sup>* (initial_command_queue handlers) s"
    and "cq_pending s = xs @ a # ys @ b # zs"
    and "command_scope (ci_command (ee_info a)) = command_scope (ci_command (ee_info b))"
  shows "ee_phase b = ExecWaiting \<or> ee_phase a = ExecSettled"
proof -
  have inv: "sorted_wrt in_turn (cq_pending s)" "scopes_ok s"
    using commands_reachable_inv [OF assms(1)] by (simp_all add: commands_inv_def queue_inv_def)
  have "in_turn a b" using inv(1) by (simp add: assms(2) sorted_wrt_append)
  moreover have "ee_scope a = ee_scope b"
    using inv(2) assms(2,3) by (simp add: scopes_ok_def)
  ultimately show ?thesis by (simp add: in_turn_def)
qed

text \<open>C10: Every command leaves an orderly trail: what it stored and published is a beginning of the one
  sequence accepted, started, handler called, then either succeeded or failed. So no command both
  succeeds and fails, no handler runs before its command is stored as accepted and started or runs
  twice, and an outcome is published only after it is stored.\<close>

theorem command_trail_is_lifecycle:
  assumes "queue_step\<^sup>*\<^sup>* (initial_command_queue handlers) s"
  shows "\<exists>c. lifecycle c (effects_of s n)"
  using commands_reachable_inv [OF assms] by (simp add: commands_inv_def trails_ok_def)

text \<open>C11: Every dispatched command settles: when nothing new is dispatched, the queue reaches a state
  with nothing in flight (a handler that never answers is timed out), whatever fails on the way,
  and no run takes more steps than the work left.\<close>

theorem commands_all_settle:
  assumes "queue_step\<^sup>*\<^sup>* (initial_command_queue handlers) s"
  shows "(\<exists>s'. queue_work\<^sup>*\<^sup>* s s' \<and> cq_pending s' = [] \<and> cq_dispatching s' = []) \<and>
    (\<forall>n s'. (queue_work ^^ n) s s' \<longrightarrow> n \<le> command_work s)"
proof -
  have inv: "commands_inv s" by (rule commands_reachable_inv [OF assms])
  obtain s' where "queue_work\<^sup>*\<^sup>* s s'" "commands_at_rest s'"
    using commands.drains_inv [OF inv] by blast
  moreover have "n \<le> command_work s" if "(queue_work ^^ n) s t" for n t
    using commands.internal_bounded [OF inv that] by simp
  ultimately show ?thesis by (auto simp: commands_at_rest_def)
qed

text \<open>A shutdown cancels what is registered: a command that is registered when the queue shuts down
  and whose handler has not returned yet never succeeds afterwards, and a command dispatched
  after the shutdown changes nothing but is answered with the rejection.\<close>

lemma shutdown_cancels_registered:
  assumes "queue_step\<^sup>*\<^sup>* (initial_command_queue handlers) s"
    and "e \<in> set (cq_pending s)" and "\<not> succeeding (ee_phase e)" and "ee_phase e \<noteq> ExecSettled"
    and "queue_step\<^sup>*\<^sup>* (shut_down s) s'"
  shows "SucceededStored \<notin> set (effects_of s' (ci_serial (ee_info e))) \<and>
    begin_dispatch commandId traceId spanId command (shut_down s) =
      (shut_down s)\<lparr>cq_receipts := cq_receipts s @ [shutting_down_receipt commandId]\<rparr>"
proof -
  have inv: "queue_inv s" "trails_ok s"
    using commands_reachable_inv [OF assms(1)] by (simp_all add: commands_inv_def)
  then have serials: "serials_ok s" by (simp add: queue_inv_def)
  then have d: "distinct (map entry_serial (cq_pending s))"
    unfolding serials_ok_def distinct_append by blast
  have eff: "effects_of (shut_down s) = effects_of s"
    by (rule effects_of_cong) (simp add: shut_down_def)
  have "SucceededStored \<notin> set (effects_of s (entry_serial e))"
    using unfinished_trail [OF entry_trail [OF inv(2) assms(2)]] assms(3,4) by blast
  moreover have "\<forall>x \<in> set (cq_pending s). entry_serial x = entry_serial e \<longrightarrow> \<not> succeeding (ee_phase x)"
    using serial_unique [OF d assms(2)] assms(3) by blast
  moreover have "\<forall>x \<in> set (cq_dispatching s). dispatch_serial x \<noteq> entry_serial e"
    using serials_ok_pending(2) [OF serials assms(2)] by (metis imageI)
  ultimately have "cancelled (entry_serial e) (shut_down s)"
    using serials_ok_pending(1) [OF serials assms(2)]
    unfolding cancelled_def eff by (auto simp: shut_down_def)
  from cancelled_steps [OF assms(5) this] show ?thesis
    by (simp add: cancelled_def begin_dispatch_def shut_down_def)
qed

subsection \<open>A run of the queue\<close>

definition sample_info :: command_info where
  "sample_info = \<lparr>ci_serial = 0, ci_commandId = ''cmd_1'', ci_traceId = ''t1'', ci_spanId = ''s1'',
     ci_command = ObserverReconcile None\<rparr>"

definition sample_dispatch :: "dispatch_phase \<Rightarrow> dispatch_entry" where
  "sample_dispatch phase = \<lparr>de_info = sample_info, de_phase = phase\<rparr>"

definition sample_exec :: "exec_phase \<Rightarrow> exec_entry" where
  "sample_exec phase = \<lparr>ee_info = sample_info, ee_scope = ''global'', ee_previous = None,
     ee_phase = phase, ee_aborted = False\<rparr>"

definition idle_queue :: command_queue where
  "idle_queue = initial_command_queue {TObserverReconcile}"

definition dispatched :: command_queue where
  "dispatched = begin_dispatch ''cmd_1'' ''t1'' ''s1'' (ObserverReconcile None) idle_queue"

definition recorded :: "command_queue \<Rightarrow> command_queue" where
  "recorded s = advance_dispatch [] (sample_dispatch LoggingAccepted) []
     (advance_dispatch [] (sample_dispatch RecordingAcceptedEvent) []
       (advance_dispatch [] (sample_dispatch RecordingAccepted) [] s))"

definition running :: "command_queue \<Rightarrow> command_queue" where
  "running s = advance_execution (sample_exec LoggingStarted)
     (advance_execution (sample_exec RecordingStarted)
       (advance_execution (sample_exec MarkingStarted)
         (set_phase (sample_exec ExecWaiting) MarkingStarted s)))"

lemma dispatch_step:
  "cq_dispatching s = [d] \<Longrightarrow> queue_step s (advance_dispatch [] d [] s)"
  by (rule queue_step.work, rule queue_work.dispatch_returns) simp

lemma start_step:
  "cq_pending s = [e] \<Longrightarrow> ee_phase e = ExecWaiting \<Longrightarrow> ee_previous e = None \<Longrightarrow>
     queue_step s (set_phase e MarkingStarted s)"
  by (rule queue_step.work, rule queue_work.start) (simp_all add: previous_settled_def)

lemma await_step:
  "cq_pending s = [e] \<Longrightarrow> in_await (ee_phase e) \<Longrightarrow> queue_step s (advance_execution e s)"
  by (rule queue_step.work, rule queue_work.await_returns) simp_all

lemma recorded_steps:
  assumes "cq_dispatching s = [sample_dispatch RecordingAccepted]"
  shows "queue_step\<^sup>*\<^sup>* s (recorded s)"
proof -
  let ?s1 = "advance_dispatch [] (sample_dispatch RecordingAccepted) [] s"
  let ?s2 = "advance_dispatch [] (sample_dispatch RecordingAcceptedEvent) [] ?s1"
  have "queue_step s ?s1" by (rule dispatch_step [OF assms])
  moreover have "queue_step ?s1 ?s2"
    by (rule dispatch_step) (simp add: advance_dispatch_def sample_dispatch_def)
  moreover have "queue_step ?s2 (recorded s)"
    unfolding recorded_def by (rule dispatch_step) (simp add: advance_dispatch_def sample_dispatch_def)
  ultimately show ?thesis by (meson converse_rtranclp_into_rtranclp r_into_rtranclp)
qed

lemma running_steps:
  assumes "cq_pending s = [sample_exec ExecWaiting]"
  shows "queue_step\<^sup>*\<^sup>* s (running s)"
proof -
  let ?s1 = "set_phase (sample_exec ExecWaiting) MarkingStarted s"
  let ?s2 = "advance_execution (sample_exec MarkingStarted) ?s1"
  let ?s3 = "advance_execution (sample_exec RecordingStarted) ?s2"
  have "queue_step s ?s1" by (rule start_step [OF assms]) (simp_all add: sample_exec_def)
  moreover have "queue_step ?s1 ?s2"
    by (rule await_step) (simp_all add: assms set_phase_def update_entry_def sample_exec_def in_await_def)
  moreover have "queue_step ?s2 ?s3"
    by (rule await_step) (simp_all add: assms set_phase_def update_entry_def sample_exec_def in_await_def
      advance_execution_def Let_def)
  moreover have "queue_step ?s3 (running s)"
    unfolding running_def
    by (rule await_step) (simp_all add: assms set_phase_def update_entry_def sample_exec_def in_await_def
      advance_execution_def Let_def)
  ultimately show ?thesis by (meson converse_rtranclp_into_rtranclp r_into_rtranclp)
qed

lemma dispatched_step: "queue_step\<^sup>*\<^sup>* idle_queue dispatched"
  unfolding dispatched_def by (rule r_into_rtranclp, rule queue_step.dispatch) simp

lemma dispatched_fields:
  "cq_dispatching dispatched = [sample_dispatch RecordingAccepted]" "cq_pending dispatched = []"
  by (simp_all add: dispatched_def begin_dispatch_def idle_queue_def initial_command_queue_def
      sample_dispatch_def sample_info_def)

lemma shut_dispatched_fields:
  "cq_dispatching (shut_down dispatched) = [sample_dispatch RecordingAccepted]"
  "cq_pending (shut_down dispatched) = []" "cq_shuttingDown (shut_down dispatched)"
  by (simp_all add: shut_down_def dispatched_fields)

lemma recorded_pending:
  "cq_pending (recorded dispatched) = [sample_exec ExecWaiting]"
  "cq_pending (recorded (shut_down dispatched)) = [sample_exec ExecWaiting]"
  by code_simp+

text \<open>What a shutdown does not stop: a dispatch that passed the shutting-down check but is still
  being recorded. From the start there is a run in which the shutdown has returned (the flag is
  set and nothing is registered), and afterwards that command is registered, not cancelled, and
  its handler is called.\<close>

lemma dispatch_overtakes_shutdown:
  "\<exists>s s'. queue_step\<^sup>*\<^sup>* (initial_command_queue {TObserverReconcile}) s \<and>
     cq_shuttingDown s \<and> cq_pending s = [] \<and> HandlerCalled \<notin> set (effects_of s 0) \<and>
     queue_step\<^sup>*\<^sup>* s s' \<and> HandlerCalled \<in> set (effects_of s' 0)"
proof (intro exI conjI)
  let ?s = "shut_down dispatched"
  have "queue_step\<^sup>*\<^sup>* idle_queue ?s"
    using dispatched_step queue_step.shutdown [of dispatched] by (rule rtranclp.rtrancl_into_rtrancl)
  then show "queue_step\<^sup>*\<^sup>* (initial_command_queue {TObserverReconcile}) ?s" by (simp add: idle_queue_def)
  show "cq_shuttingDown ?s" "cq_pending ?s = []" by (rule shut_dispatched_fields)+
  show "HandlerCalled \<notin> set (effects_of ?s 0)" by code_simp
  have "queue_step\<^sup>*\<^sup>* ?s (recorded ?s)" by (rule recorded_steps [OF shut_dispatched_fields(1)])
  also have "queue_step\<^sup>*\<^sup>* (recorded ?s) (running (recorded ?s))"
    by (rule running_steps [OF recorded_pending(2)])
  finally show "queue_step\<^sup>*\<^sup>* ?s (running (recorded ?s))" .
  show "HandlerCalled \<in> set (effects_of (running (recorded ?s)) 0)" by code_simp
qed

subsection \<open>Witnesses\<close>

definition second_dispatched :: command_queue where
  "second_dispatched =
     begin_dispatch ''cmd_2'' ''t2'' ''s2'' (ObserverReconcile None) (recorded dispatched)"

definition second_info :: command_info where
  "second_info = \<lparr>ci_serial = 1, ci_commandId = ''cmd_2'', ci_traceId = ''t2'', ci_spanId = ''s2'',
     ci_command = ObserverReconcile None\<rparr>"

definition second_dispatch :: "dispatch_phase \<Rightarrow> dispatch_entry" where
  "second_dispatch phase = \<lparr>de_info = second_info, de_phase = phase\<rparr>"

definition two_registered :: command_queue where
  "two_registered = advance_dispatch [] (second_dispatch LoggingAccepted) []
     (advance_dispatch [] (second_dispatch RecordingAcceptedEvent) []
       (advance_dispatch [] (second_dispatch RecordingAccepted) [] second_dispatched))"

definition waiting_exec :: exec_entry where
  "waiting_exec = \<lparr>ee_info = second_info, ee_scope = ''global'', ee_previous = Some 0,
     ee_phase = ExecWaiting, ee_aborted = False\<rparr>"

lemma recorded_reachable: "queue_step\<^sup>*\<^sup>* (initial_command_queue {TObserverReconcile}) (recorded dispatched)"
  using dispatched_step recorded_steps [OF dispatched_fields(1)]
  unfolding idle_queue_def by (rule rtranclp_trans)

lemma two_registered_reachable:
  "queue_step\<^sup>*\<^sup>* (initial_command_queue {TObserverReconcile}) two_registered"
proof -
  have "queue_step (recorded dispatched) second_dispatched"
    unfolding second_dispatched_def by (rule queue_step.dispatch) simp
  moreover have "queue_step\<^sup>*\<^sup>* second_dispatched two_registered"
  proof -
    let ?s1 = "advance_dispatch [] (second_dispatch RecordingAccepted) [] second_dispatched"
    let ?s2 = "advance_dispatch [] (second_dispatch RecordingAcceptedEvent) [] ?s1"
    have "cq_dispatching second_dispatched = [second_dispatch RecordingAccepted]" by code_simp
    then have "queue_step second_dispatched ?s1" by (rule dispatch_step)
    moreover have "queue_step ?s1 ?s2"
      by (rule dispatch_step) (simp add: advance_dispatch_def second_dispatch_def)
    moreover have "queue_step ?s2 two_registered"
      unfolding two_registered_def
      by (rule dispatch_step) (simp add: advance_dispatch_def second_dispatch_def)
    ultimately show ?thesis by (meson converse_rtranclp_into_rtranclp r_into_rtranclp)
  qed
  ultimately show ?thesis
    using recorded_reachable by (meson converse_rtranclp_into_rtranclp rtranclp_trans)
qed

lemma commands_run_in_turn_witness:
  "ee_phase waiting_exec = ExecWaiting \<or> ee_phase (sample_exec ExecWaiting) = ExecSettled"
proof -
  have "cq_pending two_registered = [] @ sample_exec ExecWaiting # [] @ waiting_exec # []" by code_simp
  moreover have "command_scope (ci_command (ee_info (sample_exec ExecWaiting))) =
      command_scope (ci_command (ee_info waiting_exec))"
    by (simp add: sample_exec_def waiting_exec_def sample_info_def second_info_def)
  ultimately show ?thesis by (rule commands_run_in_turn [OF two_registered_reachable])
qed

lemma command_trail_is_lifecycle_witness: "\<exists>c. lifecycle c (effects_of two_registered 1)"
  by (rule command_trail_is_lifecycle [OF two_registered_reachable])

lemma commands_all_settle_witness:
  "\<exists>s'. queue_work\<^sup>*\<^sup>* two_registered s' \<and> cq_pending s' = [] \<and> cq_dispatching s' = []"
  using commands_all_settle [OF two_registered_reachable] by blast

end
