(* ===== verification/ReconcileScheduler.thy ===== *)
theory ReconcileScheduler
  imports Prelude Transitions
begin

section \<open>The reconcile scheduler (apps/observer/src/runtime/reconcileScheduler.ts)\<close>

text \<open>
  Requests for a reconcile are collected and run in batches: the first request starts a timer,
  requests made while the timer or a reconcile is pending join the queue, and a reconcile that
  ends with a non-empty queue starts the timer again. The clock is the argument \<open>now\<close>, which need
  not be monotonic. The functions are split at their awaits, as in the queues.

  The fields \<open>rs_requested\<close>, \<open>rs_batches\<close> and \<open>rs_escapes\<close> are a history that the code does
  not keep: the reasons requested, the batches flushed, and how often the sleep was rejected or
  the profile callback threw synchronously.
\<close>

record flush_profile =
  fp_reason :: string
  fp_queuedCount :: nat
  fp_queuedWhileRunning :: nat
  fp_waitMs :: int
  fp_durationMs :: int
  fp_queuedAfter :: nat

record scheduler_options =
  so_debounceMs :: "int option"
  so_backlogDebounceMs :: "int option"

definition debounce_of :: "scheduler_options \<Rightarrow> int" where
  "debounce_of o' = nullish (so_debounceMs o') 100"

definition backlog_debounce_of :: "scheduler_options \<Rightarrow> int" where
  "backlog_debounce_of o' = nullish (so_backlogDebounceMs o') 1000"

text \<open>The locals of a flush that waits for the reconcile.\<close>

record flush_frame =
  ff_reasons :: "string list"
  ff_reason :: string
  ff_queuedAt :: "int option"
  ff_startedAt :: int

record scheduler =
  rs_running :: "flush_frame option"
  rs_timer :: "int option"
  rs_firstQueuedAt :: "int option"
  rs_queued :: "string list"
  rs_reconciles :: "string list"
  rs_profiles :: "flush_profile list"
  rs_errors :: nat
  rs_requested :: "string list"
  rs_batches :: "string list list"
  rs_escapes :: nat

definition initial_scheduler :: scheduler where
  "initial_scheduler =
     \<lparr>rs_running = None, rs_timer = None, rs_firstQueuedAt = None, rs_queued = [],
      rs_reconciles = [], rs_profiles = [], rs_errors = 0, rs_requested = [], rs_batches = [],
      rs_escapes = 0\<rparr>"

subsection \<open>Operations\<close>

definition summarize_reasons :: "string list \<Rightarrow> string" where
  "summarize_reasons reasons =
     (let uniqueReasons = js_unique reasons in
      if length uniqueReasons = 1 then uniqueReasons ! 0
      else if list_all (starts_with ''hook:'') uniqueReasons
      then ''hook:batch('' @ decimal (length reasons) @ '')''
      else ''scheduled:batch('' @ decimal (length reasons) @ '')'')"

definition schedule_flush :: "int \<Rightarrow> scheduler \<Rightarrow> scheduler" where
  "schedule_flush delayMs s = s\<lparr>rs_timer := Some delayMs\<rparr>"

definition request_reconcile :: "scheduler_options \<Rightarrow> string \<Rightarrow> int \<Rightarrow> scheduler \<Rightarrow> scheduler" where
  "request_reconcile opts reason now s =
     (let s = s\<lparr>rs_firstQueuedAt := (if length (rs_queued s) = 0 then Some now else rs_firstQueuedAt s),
                rs_queued := rs_queued s @ [reason], rs_requested := rs_requested s @ [reason]\<rparr>
      in if rs_running s \<noteq> None \<or> rs_timer s \<noteq> None then s
         else schedule_flush (debounce_of opts) s)"

text \<open>A flush up to the call of the reconcile.\<close>

definition start_flush :: "int \<Rightarrow> scheduler \<Rightarrow> scheduler" where
  "start_flush now s =
     (if rs_running s \<noteq> None then s
      else (let reasons = rs_queued s; s = s\<lparr>rs_queued := []\<rparr> in
            if length reasons = 0 then s
            else (let reason = summarize_reasons reasons in
                  s\<lparr>rs_firstQueuedAt := None,
                    rs_running := Some \<lparr>ff_reasons = reasons, ff_reason = reason,
                      ff_queuedAt = rs_firstQueuedAt s, ff_startedAt = now\<rparr>,
                    rs_reconciles := rs_reconciles s @ [reason],
                    rs_batches := rs_batches s @ [reasons]\<rparr>)))"

text \<open>The timer's callback: the flag is cleared before the flush starts.\<close>

definition timer_fires :: "int \<Rightarrow> scheduler \<Rightarrow> scheduler" where
  "timer_fires now s = start_flush now (s\<lparr>rs_timer := None\<rparr>)"

definition flush_profile_of :: "flush_frame \<Rightarrow> nat \<Rightarrow> int \<Rightarrow> flush_profile" where
  "flush_profile_of frame queuedAfter now =
     \<lparr>fp_reason = ff_reason frame, fp_queuedCount = length (ff_reasons frame),
      fp_queuedWhileRunning = queuedAfter,
      fp_waitMs = (case ff_queuedAt frame of
          None \<Rightarrow> 0 | Some queuedAt \<Rightarrow> max 0 (ff_startedAt frame - queuedAt)),
      fp_durationMs = max 0 (now - ff_startedAt frame), fp_queuedAfter = queuedAfter\<rparr>"

text \<open>
  The \<^verbatim>\<open>finally\<close> of a flush. A profile callback that throws synchronously leaves it before the
  timer is started again, and the flush is then rejected, as it is when the reconcile was.
\<close>

definition finish_flush ::
  "scheduler_options \<Rightarrow> bool \<Rightarrow> bool \<Rightarrow> int \<Rightarrow> flush_frame \<Rightarrow> scheduler \<Rightarrow> scheduler" where
  "finish_flush opts rejected callbackThrows now frame s =
     (let s = s\<lparr>rs_running := None,
                rs_profiles := rs_profiles s @ [flush_profile_of frame (length (rs_queued s)) now],
                rs_errors := rs_errors s + (if rejected \<or> callbackThrows then 1 else 0)\<rparr>
      in if callbackThrows then s\<lparr>rs_escapes := rs_escapes s + 1\<rparr>
         else if length (rs_queued s) > 0 \<and> rs_timer s = None
         then schedule_flush (backlog_debounce_of opts) s else s)"

subsection \<open>Steps\<close>

inductive scheduler_work :: "scheduler_options \<Rightarrow> scheduler \<Rightarrow> scheduler \<Rightarrow> bool"
  for opts :: scheduler_options where
  fires: "rs_timer s = Some delay \<Longrightarrow> scheduler_work opts s (timer_fires now s)"
| ends: "rs_running s = Some frame \<Longrightarrow>
    scheduler_work opts s (finish_flush opts rejected False now frame s)"

inductive scheduler_step :: "scheduler_options \<Rightarrow> scheduler \<Rightarrow> scheduler \<Rightarrow> bool"
  for opts :: scheduler_options where
  work: "scheduler_work opts s s' \<Longrightarrow> scheduler_step opts s s'"
| request: "scheduler_step opts s (request_reconcile opts reason now s)"
| timer_rejected: "rs_timer s = Some delay \<Longrightarrow>
    scheduler_step opts s (s\<lparr>rs_timer := None, rs_escapes := rs_escapes s + 1\<rparr>)"
| callback_throws: "rs_running s = Some frame \<Longrightarrow>
    scheduler_step opts s (finish_flush opts rejected True now frame s)"

subsection \<open>The invariant\<close>

text \<open>
  The last batch is the one that runs; unless something escaped, a non-empty queue has a timer or
  a running flush that will look at it.
\<close>

definition scheduler_ok :: "scheduler \<Rightarrow> bool" where
  "scheduler_ok s =
     (concat (rs_batches s) @ rs_queued s = rs_requested s \<and>
      [] \<notin> set (rs_batches s) \<and>
      rs_reconciles s = map summarize_reasons (rs_batches s) \<and>
      length (rs_batches s) = length (rs_profiles s) + (if rs_running s = None then 0 else 1) \<and>
      map fp_reason (rs_profiles s) = take (length (rs_profiles s)) (rs_reconciles s) \<and>
      map fp_queuedCount (rs_profiles s) =
        map length (take (length (rs_profiles s)) (rs_batches s)) \<and>
      (case rs_running s of
         None \<Rightarrow> True
       | Some frame \<Rightarrow> ff_reasons frame = last (rs_batches s) \<and>
           ff_reason frame = summarize_reasons (ff_reasons frame) \<and> rs_timer s = None) \<and>
      (rs_escapes s = 0 \<and> rs_queued s \<noteq> [] \<longrightarrow> rs_running s \<noteq> None \<or> rs_timer s \<noteq> None))"

definition scheduler_work_left :: "scheduler \<Rightarrow> nat" where
  "scheduler_work_left s =
     3 * (if rs_queued s = [] then 0 else 1) + (if rs_timer s = None then 0 else 1) +
     2 * (if rs_running s = None then 0 else 1)"

definition scheduler_at_rest :: "scheduler \<Rightarrow> bool" where
  "scheduler_at_rest s = (rs_running s = None \<and> rs_timer s = None \<and> rs_queued s = [])"

lemma initial_scheduler_ok: "scheduler_ok initial_scheduler"
  by (simp add: scheduler_ok_def initial_scheduler_def)

lemma request_ok: "scheduler_ok s \<Longrightarrow> scheduler_ok (request_reconcile opts reason now s)"
  by (auto simp: scheduler_ok_def request_reconcile_def schedule_flush_def Let_def split: option.splits)

lemma timer_fires_ok: "scheduler_ok s \<Longrightarrow> rs_running s = None \<Longrightarrow> scheduler_ok (timer_fires now s)"
  by (auto simp: scheduler_ok_def timer_fires_def start_flush_def Let_def)

lemma map_take_last:
  assumes "length bs = Suc n"
  shows "map f (take n bs) @ [f (last bs)] = map f bs"
proof -
  have "take n bs @ [last bs] = bs"
    using assms by (metis append_butlast_last_id butlast_conv_take diff_Suc_1 length_0_conv nat.distinct(1))
  then have "map f (take n bs @ [last bs]) = map f bs" by simp
  then show ?thesis by simp
qed

lemma finish_flush_ok:
  assumes "scheduler_ok s" "rs_running s = Some frame"
  shows "scheduler_ok (finish_flush opts rejected throws now frame s)"
proof -
  from assms have "length (rs_batches s) = Suc (length (rs_profiles s))"
    by (simp add: scheduler_ok_def)
  note maps = map_take_last [OF this]
  with assms show ?thesis
    by (simp add: scheduler_ok_def finish_flush_def schedule_flush_def Let_def flush_profile_of_def
        take_map maps split: if_splits) auto
qed

lemma timer_set_idle: "scheduler_ok s \<Longrightarrow> rs_timer s = Some delay \<Longrightarrow> rs_running s = None"
  by (auto simp: scheduler_ok_def split: option.splits)

lemma scheduler_work_ok: "scheduler_ok s \<Longrightarrow> scheduler_work opts s s' \<Longrightarrow> scheduler_ok s'"
  by (erule scheduler_work.cases)
    (auto intro: finish_flush_ok timer_fires_ok timer_set_idle)

lemma scheduler_step_ok: "scheduler_ok s \<Longrightarrow> scheduler_step opts s s' \<Longrightarrow> scheduler_ok s'"
proof (erule scheduler_step.cases, goal_cases)
  case 1
  then show ?case using scheduler_work_ok by blast
next
  case 2
  then show ?case using request_ok by blast
next
  case (3 delay)
  then show ?case by (auto simp: scheduler_ok_def split: option.splits)
next
  case 4
  then show ?case using finish_flush_ok by blast
qed

lemma timer_fires_work:
  "scheduler_ok s \<Longrightarrow> rs_timer s = Some delay \<Longrightarrow>
    scheduler_work_left (timer_fires now s) < scheduler_work_left s"
  by (auto simp: scheduler_ok_def scheduler_work_left_def timer_fires_def start_flush_def Let_def
      split: option.splits)

lemma finish_flush_work:
  "scheduler_ok s \<Longrightarrow> rs_running s = Some frame \<Longrightarrow>
    scheduler_work_left (finish_flush opts rejected False now frame s) < scheduler_work_left s"
  by (auto simp: scheduler_ok_def scheduler_work_left_def finish_flush_def schedule_flush_def Let_def)

lemma scheduler_work_decreases:
  "scheduler_ok s \<Longrightarrow> scheduler_work opts s s' \<Longrightarrow> scheduler_work_left s' < scheduler_work_left s"
  by (erule scheduler_work.cases) (auto intro: finish_flush_work timer_fires_work)

lemma scheduler_stuck:
  assumes "scheduler_ok s" "\<nexists>s'. scheduler_work opts s s'"
  shows "rs_escapes s = 0 \<longrightarrow> scheduler_at_rest s"
proof -
  have "rs_running s = None" "rs_timer s = None"
    using assms(2) scheduler_work.intros by (metis option.exhaust)+
  with assms(1) show ?thesis by (auto simp: scheduler_ok_def scheduler_at_rest_def)
qed

text \<open>The work of the scheduler adds no requests, loses none and lets nothing escape.\<close>

lemma scheduler_work_keeps:
  "scheduler_work opts s s' \<Longrightarrow> rs_requested s' = rs_requested s \<and> rs_escapes s' = rs_escapes s"
  by (erule scheduler_work.cases)
    (auto simp: timer_fires_def start_flush_def finish_flush_def schedule_flush_def Let_def)

lemma scheduler_works_keep:
  "(scheduler_work opts)\<^sup>*\<^sup>* s s' \<Longrightarrow> rs_requested s' = rs_requested s \<and> rs_escapes s' = rs_escapes s"
  by (induction rule: rtranclp_induct) (auto dest: scheduler_work_keeps)

interpretation scheduler: draining_system "\<lambda>s. s = initial_scheduler" "scheduler_step opts"
  "scheduler_work opts" scheduler_ok scheduler_work_left
  "\<lambda>s. rs_escapes s = 0 \<longrightarrow> scheduler_at_rest s" for opts
  by unfold_locales (auto intro: initial_scheduler_ok scheduler_step_ok scheduler_step.work
      scheduler_work_decreases scheduler_stuck [rule_format])

text \<open>Whatever is queued is one reconcile away: a batch takes the whole queue.\<close>

definition batches_to_come :: "scheduler \<Rightarrow> nat" where
  "batches_to_come s = length (rs_batches s) + (if rs_queued s = [] then 0 else 1)"

lemma scheduler_work_batches:
  "scheduler_ok s \<Longrightarrow> scheduler_work opts s s' \<Longrightarrow> batches_to_come s' = batches_to_come s"
  by (erule scheduler_work.cases)
    (auto simp: batches_to_come_def timer_fires_def start_flush_def finish_flush_def
      schedule_flush_def Let_def scheduler_ok_def split: option.splits)

lemma scheduler_works_batches:
  "(scheduler_work opts)\<^sup>*\<^sup>* s s' \<Longrightarrow> scheduler_ok s \<Longrightarrow>
    batches_to_come s' = batches_to_come s \<and> scheduler_ok s'"
  by (induction rule: rtranclp_induct) (auto dest: scheduler_work_batches scheduler_work_ok)

subsection \<open>Properties\<close>

text \<open>The scheduler loses no request and repeats none: the reasons requested are, in order, those
  of the batches run so far followed by those still queued; each reconcile ran for one non-empty
  batch under its summary; at most one reconcile runs at a time, and a profile was reported for
  every other one.\<close>

lemma scheduler_loses_no_request:
  assumes "(scheduler_step opts)\<^sup>*\<^sup>* initial_scheduler s"
  shows "concat (rs_batches s) @ rs_queued s = rs_requested s \<and> [] \<notin> set (rs_batches s) \<and>
    rs_reconciles s = map summarize_reasons (rs_batches s) \<and>
    length (rs_reconciles s) = length (rs_profiles s) + (if rs_running s = None then 0 else 1) \<and>
    map fp_queuedCount (rs_profiles s) = map length (take (length (rs_profiles s)) (rs_batches s))"
proof -
  have "scheduler_ok s"
    by (rule scheduler.reachable_inv) (auto simp: scheduler.reachable_def intro: assms)
  then show ?thesis by (auto simp: scheduler_ok_def)
qed

text \<open>C12: Every request is answered: without further requests, and when no sleep was rejected and no
  profile callback threw, the scheduler comes to rest with an empty queue after at most six steps,
  whatever the reconciles answer, and everything that was queued has been run by a single further
  reconcile.\<close>

theorem scheduler_answers_every_request:
  assumes "(scheduler_step opts)\<^sup>*\<^sup>* initial_scheduler s" and "rs_escapes s = 0"
  shows "(\<exists>s'. (scheduler_work opts)\<^sup>*\<^sup>* s s' \<and> scheduler_at_rest s' \<and>
      concat (rs_batches s') = rs_requested s \<and>
      length (rs_reconciles s') = length (rs_reconciles s) + (if rs_queued s = [] then 0 else 1)) \<and>
    (\<forall>n s'. (scheduler_work opts ^^ n) s s' \<longrightarrow> n \<le> 6)"
proof -
  have s: "scheduler_ok s"
    by (rule scheduler.reachable_inv) (auto simp: scheduler.reachable_def intro: assms)
  obtain s' where s': "(scheduler_work opts)\<^sup>*\<^sup>* s s'" "rs_escapes s' = 0 \<longrightarrow> scheduler_at_rest s'"
    using scheduler.drains_inv [where opts = opts, OF s] by (elim exE conjE)
  have keep: "rs_requested s' = rs_requested s" "rs_escapes s' = 0" "batches_to_come s' = batches_to_come s"
      "scheduler_ok s'"
    by (rule scheduler_works_keep [OF s'(1), THEN conjunct1])
      (rule scheduler_works_keep [OF s'(1), THEN conjunct2, unfolded assms(2)]
        scheduler_works_batches [OF s'(1) s, THEN conjunct1]
        scheduler_works_batches [OF s'(1) s, THEN conjunct2])+
  with s'(2) have rest: "scheduler_at_rest s'" by blast
  have all: "concat (rs_batches s') = rs_requested s"
    using keep(1,4) rest by (simp add: scheduler_ok_def scheduler_at_rest_def)
  have batches: "length (rs_batches s') = length (rs_batches s) + (if rs_queued s = [] then 0 else 1)"
    using keep(3) rest by (simp add: batches_to_come_def scheduler_at_rest_def)
  have "rs_reconciles s' = map summarize_reasons (rs_batches s')"
      "rs_reconciles s = map summarize_reasons (rs_batches s)"
    using s keep(4) by (simp_all add: scheduler_ok_def)
  with batches have one: "length (rs_reconciles s') =
      length (rs_reconciles s) + (if rs_queued s = [] then 0 else 1)" by simp
  have "n \<le> 6" if "(scheduler_work opts ^^ n) s t" for n t
    using scheduler.internal_bounded [OF s that] by (simp add: scheduler_work_left_def split: if_splits)
  with s'(1) rest all one show ?thesis by (intro conjI exI [of _ s'] allI impI)
qed

text \<open>Two requests, the timer, a request during the reconcile.\<close>

definition sample_options :: scheduler_options where
  "sample_options = \<lparr>so_debounceMs = None, so_backlogDebounceMs = None\<rparr>"

definition sample_scheduler :: scheduler where
  "sample_scheduler =
     request_reconcile sample_options ''hook:c'' 130
       (timer_fires 120 (request_reconcile sample_options ''hook:b'' 20
         (request_reconcile sample_options ''hook:a'' 10 initial_scheduler)))"

lemma sample_scheduler_reachable: "(scheduler_step sample_options)\<^sup>*\<^sup>* initial_scheduler sample_scheduler"
proof -
  let ?o = sample_options
  let ?s = "request_reconcile ?o ''hook:b'' 20 (request_reconcile ?o ''hook:a'' 10 initial_scheduler)"
  have "(scheduler_step ?o)\<^sup>*\<^sup>* initial_scheduler ?s"
    by (meson rtranclp.rtrancl_refl rtranclp.rtrancl_into_rtrancl scheduler_step.request)
  moreover have "rs_timer ?s = Some 100"
    by (simp add: request_reconcile_def schedule_flush_def initial_scheduler_def sample_options_def
        debounce_of_def)
  then have "scheduler_step ?o ?s (timer_fires 120 ?s)"
    by (intro scheduler_step.work scheduler_work.fires)
  ultimately show ?thesis
    unfolding sample_scheduler_def
    by (meson rtranclp.rtrancl_into_rtrancl scheduler_step.request)
qed

lemma sample_scheduler_eq:
  "sample_scheduler =
     \<lparr>rs_running = Some \<lparr>ff_reasons = [''hook:a'', ''hook:b''], ff_reason = ''hook:batch(2)'',
        ff_queuedAt = Some 10, ff_startedAt = 120\<rparr>,
      rs_timer = None, rs_firstQueuedAt = Some 130, rs_queued = [''hook:c''],
      rs_reconciles = [''hook:batch(2)''], rs_profiles = [], rs_errors = 0,
      rs_requested = [''hook:a'', ''hook:b'', ''hook:c''], rs_batches = [[''hook:a'', ''hook:b'']],
      rs_escapes = 0\<rparr>"
  by code_simp

lemma sample_scheduler_fields:
  "rs_escapes sample_scheduler = 0" "rs_queued sample_scheduler = [''hook:c'']"
  "rs_reconciles sample_scheduler = [''hook:batch(2)'']"
  "rs_requested sample_scheduler = [''hook:a'', ''hook:b'', ''hook:c'']"
  by (simp_all add: sample_scheduler_eq)

theorem scheduler_answers_every_request_witness:
  "\<exists>s'. (scheduler_work sample_options)\<^sup>*\<^sup>* sample_scheduler s' \<and> scheduler_at_rest s' \<and>
     concat (rs_batches s') = [''hook:a'', ''hook:b'', ''hook:c''] \<and> length (rs_reconciles s') = 2"
  using scheduler_answers_every_request
    [OF sample_scheduler_reachable sample_scheduler_fields(1), THEN conjunct1]
  by (simp add: sample_scheduler_fields eval_nat_numeral)

end
