(* ===== verification/Boundary.thy ===== *)
theory Boundary
  imports Contracts
begin

section \<open>Runtime boundaries (packages/runtime/src/boundary.ts, errors.ts)\<close>

text \<open>
  A boundary runs a fallible task, with a time limit and retries, and turns whatever happens
  into a result value with its timing. A thrown JavaScript value is an object whose \<^verbatim>\<open>tag\<close>,
  \<^verbatim>\<open>code\<close> and \<^verbatim>\<open>message\<close> are strings, any other object, both with an optional cause, or a
  primitive; causes form a finite chain. The diagnostic details and the
  external-command fields that a safe error may carry are not part of the model. The task's
  behaviour is a function from the number of the attempt to its outcome; the time limit is the
  outcome \<open>AttemptTimesOut\<close>.
\<close>

subsection \<open>Errors\<close>

datatype thrown =
  ThrownObject safe_error "thrown option" | ThrownOther "thrown option" | ThrownPrimitive

record error_fallback =
  ef_tag :: string
  ef_code :: string
  ef_message :: string
  ef_hint :: "string option"
  ef_provider :: "provider_id option"
  ef_traceId :: "string option"

definition is_safe_error :: "safe_error \<Rightarrow> bool" where
  "is_safe_error e = (length (se_tag e) > 0 \<and> length (se_code e) > 0 \<and> length (se_message e) > 0)"

definition copy_safe_error :: "safe_error \<Rightarrow> safe_error" where
  "copy_safe_error e =
     \<lparr>se_tag = se_tag e, se_code = se_code e, se_message = se_message e, se_hint = se_hint e,
      se_commandId = se_commandId e, se_projectId = se_projectId e,
      se_worktreeId = se_worktreeId e, se_sessionId = se_sessionId e,
      se_provider = se_provider e, se_traceId = se_traceId e, se_diagnosticId = se_diagnosticId e\<rparr>"

text \<open>The first safe error among the causes of a thrown value, for a test of what is one.\<close>

fun first_cause :: "(safe_error \<Rightarrow> bool) \<Rightarrow> thrown \<Rightarrow> safe_error option" where
  "first_cause ok ThrownPrimitive = None"
| "first_cause ok (ThrownOther None) = None"
| "first_cause ok (ThrownObject e None) = None"
| "first_cause ok (ThrownOther (Some c)) =
     (case c of ThrownObject d _ \<Rightarrow> if ok d then Some d else first_cause ok c | _ \<Rightarrow> first_cause ok c)"
| "first_cause ok (ThrownObject e (Some c)) =
     (case c of ThrownObject d _ \<Rightarrow> if ok d then Some d else first_cause ok c | _ \<Rightarrow> first_cause ok c)"

definition safe_error_cause :: "thrown \<Rightarrow> safe_error option" where
  "safe_error_cause v = first_cause is_safe_error v"

definition fallback_error :: "error_fallback \<Rightarrow> safe_error" where
  "fallback_error f =
     (basic_error (ef_tag f) (ef_code f) (ef_message f))
       \<lparr>se_hint := ef_hint f, se_provider := ef_provider f, se_traceId := ef_traceId f\<rparr>"

definition thrown_safe_error :: "thrown \<Rightarrow> safe_error option" where
  "thrown_safe_error v =
     (case v of ThrownObject e c \<Rightarrow> if is_safe_error e then Some e else None | _ \<Rightarrow> None)"

definition safe_error_from_unknown :: "thrown \<Rightarrow> error_fallback \<Rightarrow> safe_error" where
  "safe_error_from_unknown v fallback =
     (case thrown_safe_error v of
        Some e \<Rightarrow> copy_safe_error e
      | None \<Rightarrow> (case safe_error_cause v of
          Some e \<Rightarrow> copy_safe_error e
        | None \<Rightarrow> fallback_error fallback))"

text \<open>A fallback passed where an error is expected: the object it is.\<close>

definition fallback_thrown :: "error_fallback \<Rightarrow> thrown" where
  "fallback_thrown f = ThrownObject (fallback_error f) None"

subsection \<open>Results\<close>

datatype 'a attempt = AttemptReturns 'a | AttemptThrows thrown | AttemptTimesOut

record boundary_timing =
  bt_operation :: string
  bt_startedAt :: timestamp
  bt_finishedAt :: timestamp
  bt_durationMs :: "int option"

record 'a boundary_result =
  br_outcome :: "safe_error + 'a"
  br_timing :: boundary_timing
  br_traceId :: "string option"
  br_spanId :: "string option"

record retry_options =
  rt_retries :: int
  rt_delayMs :: "int option"
  rt_shouldRetry :: "(safe_error \<Rightarrow> int \<Rightarrow> bool) option"

definition runtime_boundary_effect :: "error_fallback \<Rightarrow> thrown + 'a \<Rightarrow> safe_error + 'a" where
  "runtime_boundary_effect fallback r =
     (case r of Inl v \<Rightarrow> Inl (safe_error_from_unknown v fallback) | Inr x \<Rightarrow> Inr x)"

definition boundary_attempt ::
  "error_fallback \<Rightarrow> error_fallback option \<Rightarrow> 'a attempt \<Rightarrow> safe_error + 'a" where
  "boundary_attempt fallback timeoutError outcome =
     (case outcome of
        AttemptReturns x \<Rightarrow> runtime_boundary_effect fallback (Inr x)
      | AttemptThrows v \<Rightarrow> runtime_boundary_effect fallback (Inl v)
      | AttemptTimesOut \<Rightarrow> Inl (safe_error_from_unknown
          (fallback_thrown (nullish timeoutError fallback)) (nullish timeoutError fallback)))"

definition retry_allowed :: "retry_options \<Rightarrow> safe_error \<Rightarrow> nat \<Rightarrow> bool" where
  "retry_allowed retry e attempt =
     ((case rt_shouldRetry retry of
         None \<Rightarrow> int attempt < rt_retries retry
       | Some should \<Rightarrow> should e (int attempt)) \<and> int attempt < rt_retries retry)"

definition retry_sleep :: "retry_options \<Rightarrow> int list" where
  "retry_sleep retry =
     (case rt_delayMs retry of None \<Rightarrow> [] | Some ms \<Rightarrow> if ms \<le> 0 then [] else [ms])"

text \<open>
  \<^verbatim>\<open>runAttempt\<close>: the result, the number of attempts made and the sleeps between them. The task
  answers the attempt number with its outcome.
\<close>

function run_attempt ::
  "retry_options \<Rightarrow> (nat \<Rightarrow> safe_error + 'a) \<Rightarrow> nat \<Rightarrow> (safe_error + 'a) \<times> nat \<times> int list" where
  "run_attempt retry task attempt =
     (case task attempt of
        Inr x \<Rightarrow> (Inr x, attempt + 1, [])
      | Inl e \<Rightarrow>
          if \<not> retry_allowed retry e attempt then (Inl e, attempt + 1, [])
          else (case run_attempt retry task (attempt + 1) of
            (r, n, sleeps) \<Rightarrow> (r, n, retry_sleep retry @ sleeps)))"
  by pat_completeness auto

termination
  by (relation "measure (\<lambda>(retry, task, attempt). nat (rt_retries retry - int attempt))")
    (auto simp: retry_allowed_def)

declare run_attempt.simps [simp del]

definition retry_effect ::
  "retry_options \<Rightarrow> (nat \<Rightarrow> safe_error + 'a) \<Rightarrow> (safe_error + 'a) \<times> nat \<times> int list" where
  "retry_effect retry task = run_attempt retry task 0"

definition with_trace :: "safe_error \<Rightarrow> string option \<Rightarrow> safe_error" where
  "with_trace e traceId =
     (if traceId = None \<or> se_traceId e \<noteq> None then e else e\<lparr>se_traceId := traceId\<rparr>)"

definition finish_runtime_boundary ::
  "string \<Rightarrow> string option \<Rightarrow> string option \<Rightarrow> timestamp \<Rightarrow> timestamp \<Rightarrow> safe_error + 'a \<Rightarrow>
     'a boundary_result" where
  "finish_runtime_boundary operation traceId spanId startedAt finishedAt r =
     \<lparr>br_outcome = (case r of Inl e \<Rightarrow> Inl (with_trace e traceId) | Inr x \<Rightarrow> Inr x),
      br_timing = \<lparr>bt_operation = operation, bt_startedAt = startedAt, bt_finishedAt = finishedAt,
        bt_durationMs = duration_ms startedAt finishedAt\<rparr>,
      br_traceId = traceId, br_spanId = spanId\<rparr>"

text \<open>A call of a task through a boundary: what the clock shows before and after, and the attempts.\<close>

record 'a boundary_call =
  bc_startedAt :: timestamp
  bc_finishedAt :: timestamp
  bc_attempt :: "nat \<Rightarrow> 'a attempt"

definition run_boundary_with_retry_and_timeout ::
  "string \<Rightarrow> error_fallback \<Rightarrow> error_fallback option \<Rightarrow> retry_options \<Rightarrow> 'a boundary_call \<Rightarrow>
     'a boundary_result" where
  "run_boundary_with_retry_and_timeout operation fallback timeoutError retry call =
     finish_runtime_boundary operation None None (bc_startedAt call) (bc_finishedAt call)
       (fst (retry_effect retry
         (\<lambda>attempt. boundary_attempt fallback timeoutError (bc_attempt call attempt))))"

subsection \<open>Errors always come out safe\<close>

lemma copy_safe_error_id [simp]: "copy_safe_error e = e"
  by (simp add: copy_safe_error_def)

lemma first_cause_ok: "first_cause ok v = Some e \<Longrightarrow> ok e"
  by (induction ok v rule: first_cause.induct) (auto split: thrown.splits if_splits)

lemma safe_error_cause_safe: "safe_error_cause v = Some e \<Longrightarrow> is_safe_error e"
  unfolding safe_error_cause_def by (rule first_cause_ok)

definition safe_fallback :: "error_fallback \<Rightarrow> bool" where
  "safe_fallback f = (ef_tag f \<noteq> [] \<and> ef_code f \<noteq> [] \<and> ef_message f \<noteq> [])"

lemma fallback_error_safe: "safe_fallback f \<Longrightarrow> is_safe_error (fallback_error f)"
  by (simp add: safe_fallback_def fallback_error_def is_safe_error_def basic_error_def)

lemma safe_error_from_unknown_safe:
  "safe_fallback f \<Longrightarrow> is_safe_error (safe_error_from_unknown v f)"
  by (auto simp: safe_error_from_unknown_def thrown_safe_error_def fallback_error_safe
      split: option.split thrown.splits if_splits dest: safe_error_cause_safe)

lemma boundary_attempt_safe:
  "safe_fallback f \<Longrightarrow> opt_ok safe_fallback t \<Longrightarrow> boundary_attempt f t a = Inl e \<Longrightarrow> is_safe_error e"
  by (cases t) (auto simp: boundary_attempt_def runtime_boundary_effect_def
      intro!: safe_error_from_unknown_safe split: attempt.splits)

subsection \<open>The retry loop\<close>

lemma run_attempt_spec:
  assumes "run_attempt retry task attempt = (r, n, sleeps)"
  shows "attempt < n \<and> r = task (n - 1) \<and>
    (\<forall>i. attempt \<le> i \<and> i < n - 1 \<longrightarrow> (\<exists>e. task i = Inl e \<and> retry_allowed retry e i)) \<and>
    (\<forall>e. r = Inl e \<longrightarrow> \<not> retry_allowed retry e (n - 1)) \<and>
    length sleeps \<le> n - 1 - attempt"
  using assms
proof (induction retry task attempt arbitrary: r n sleeps rule: run_attempt.induct)
  case (1 retry task attempt)
  show ?case
  proof (cases "task attempt")
    case (Inr x)
    with "1.prems" show ?thesis by (auto simp: run_attempt.simps [of retry task attempt])
  next
    case (Inl e)
    show ?thesis
    proof (cases "retry_allowed retry e attempt")
      case False
      with Inl "1.prems" show ?thesis by (auto simp: run_attempt.simps [of retry task attempt])
    next
      case True
      obtain r' n' sleeps' where rest: "run_attempt retry task (attempt + 1) = (r', n', sleeps')"
        by (rule prod_cases3)
      with True Inl "1.prems" have eq: "r = r'" "n = n'" "sleeps = retry_sleep retry @ sleeps'"
        by (auto simp: run_attempt.simps [of retry task attempt])
      have one: "length (retry_sleep retry) \<le> 1" by (simp add: retry_sleep_def split: option.split)
      have IH: "attempt + 1 < n \<and> r = task (n - 1) \<and>
          (\<forall>i. attempt + 1 \<le> i \<and> i < n - 1 \<longrightarrow> (\<exists>e. task i = Inl e \<and> retry_allowed retry e i)) \<and>
          (\<forall>e. r = Inl e \<longrightarrow> \<not> retry_allowed retry e (n - 1)) \<and> length sleeps' \<le> n - 1 - (attempt + 1)"
        using "1.IH" [OF Inl _ rest] True eq by blast
      have "\<exists>e. task i = Inl e \<and> retry_allowed retry e i" if "attempt \<le> i" "i < n - 1" for i
        using that IH Inl True by (cases "i = attempt") auto
      with IH eq one show ?thesis by auto
    qed
  qed
qed

lemma retry_allowed_bound: "retry_allowed retry e i \<Longrightarrow> int i < rt_retries retry"
  by (simp add: retry_allowed_def)

lemma retry_effect_bound:
  assumes "retry_effect retry task = (r, n, sleeps)"
  shows "int n \<le> max 0 (rt_retries retry) + 1"
proof (cases "n = 1")
  case False
  from run_attempt_spec [OF assms [unfolded retry_effect_def]]
  have n: "0 < n" and "\<forall>i. 0 \<le> i \<and> i < n - 1 \<longrightarrow> (\<exists>e. task i = Inl e \<and> retry_allowed retry e i)"
    by blast+
  with False have "\<exists>e. retry_allowed retry e (n - 2)"
    by (metis One_nat_def Suc_lessI diff_less_mono2 le0 lessI numeral_2_eq_2)
  then have "int (n - 2) < rt_retries retry" using retry_allowed_bound by blast
  then show ?thesis using n by linarith
qed simp

text \<open>A boundary with retries makes at least one attempt and at most one more than its retries, and
  answers the outcome of the last one. Every earlier attempt failed, and it sleeps at most once between two
  attempts. Without a custom rule it gives up only after all the attempts failed, and with safe
  fallbacks the error it reports is a safe error, whatever was thrown.\<close>

lemma boundary_retries:
  assumes "retry_effect retry (\<lambda>i. boundary_attempt fallback timeoutError (outcome i)) = (r, n, sleeps)"
    and "safe_fallback fallback" and "opt_ok safe_fallback timeoutError"
  shows "1 \<le> n \<and> int n \<le> max 0 (rt_retries retry) + 1 \<and> length sleeps < n \<and>
    r = boundary_attempt fallback timeoutError (outcome (n - 1)) \<and>
    (\<forall>i < n - 1. \<exists>e. boundary_attempt fallback timeoutError (outcome i) = Inl e) \<and>
    (\<forall>e. r = Inl e \<longrightarrow> is_safe_error e \<and>
      (rt_shouldRetry retry = None \<longrightarrow> int n = max 0 (rt_retries retry) + 1))"
proof -
  let ?task = "\<lambda>i. boundary_attempt fallback timeoutError (outcome i)"
  note spec = run_attempt_spec [OF assms(1) [unfolded retry_effect_def]]
  note bound = retry_effect_bound [OF assms(1)]
  have r: "r = ?task (n - 1)" and n: "0 < n" and sleeps: "length sleeps \<le> n - 1"
    using spec by auto
  have earlier: "\<exists>e. ?task i = Inl e" if "i < n - 1" for i using spec that by blast
  have last: "is_safe_error e \<and>
      (rt_shouldRetry retry = None \<longrightarrow> int n = max 0 (rt_retries retry) + 1)" if e: "r = Inl e" for e
  proof
    show "is_safe_error e" using boundary_attempt_safe [OF assms(2,3)] e r by simp
    have "\<not> retry_allowed retry e (n - 1)" using spec e by blast
    then show "rt_shouldRetry retry = None \<longrightarrow> int n = max 0 (rt_retries retry) + 1"
      using bound n by (auto simp: retry_allowed_def of_nat_diff)
  qed
  from n sleeps have "1 \<le> n" "length sleeps < n" by linarith+
  with r bound earlier last show ?thesis by blast
qed

end
