(* ===== verification/ReconcileRun.thy ===== *)
theory ReconcileRun
  imports ObserverGraph Boundary
begin

section \<open>One reconcile (apps/observer/src/reconcile/run.ts)\<close>

text \<open>
  A reconcile reads the worktree, terminal, harness and repository providers, attributes what it
  read to the current worktrees, overlays persisted harness events and cached metadata, and
  builds the snapshot. A provider is a record of what its methods answer; every read goes
  through the runtime boundary, so that an answer is a function of the attempt. The object
  \<^verbatim>\<open>providerHealth\<close> and the array \<^verbatim>\<open>errors\<close>, which the code passes along and mutates, are the
  accumulator \<open>read_log\<close>. Logging is left out, and a provider's \<^verbatim>\<open>capabilities()\<close> returns.
\<close>

subsection \<open>Providers\<close>

record worktree_provider =
  wp_id :: provider_id
  wp_capabilities :: "bool dict"
  wp_health :: "provider_health boundary_call"
  wp_listWorktrees :: "project_config \<Rightarrow> worktree_observation list boundary_call"

record terminal_provider =
  tp_id :: provider_id
  tp_capabilities :: "bool dict"
  tp_health :: "provider_health boundary_call"
  tp_listTargets :: "terminal_observation list boundary_call"

type_synonym discovery_context =
  "project_config list \<times> worktree_observation list \<times> terminal_observation list"

record harness_provider =
  hp_id :: provider_id
  hp_capabilities :: harness_capabilities
  hp_health :: "provider_health boundary_call"
  hp_discoverRuns :: "discovery_context \<Rightarrow> run_observation list boundary_call"
  hp_classifyRun :: "run_observation \<Rightarrow> discovery_context \<Rightarrow> status_observation boundary_call"

record repository_provider =
  rp_id :: provider_id
  rp_capabilities :: "bool dict"
  rp_health :: "provider_health boundary_call"

text \<open>The values of the two registry maps, in insertion order; their keys are the identifiers.\<close>

record provider_registry =
  pr_worktree :: worktree_provider
  pr_terminal :: terminal_provider
  pr_harnesses :: "harness_provider list"
  pr_repositories :: "repository_provider list"

definition harness_capability_dict :: "harness_capabilities \<Rightarrow> bool dict" where
  "harness_capability_dict c =
     [(''canLaunch'', canLaunch c), (''canDiscoverRuns'', canDiscoverRuns c),
      (''canEmitEvents'', canEmitEvents c), (''canClassifyStatus'', canClassifyStatus c),
      (''canReceivePrompt'', canReceivePrompt c), (''canResume'', canResume c),
      (''canStop'', canStop c), (''canRunNonInteractive'', canRunNonInteractive c),
      (''canExposeApprovalState'', canExposeApprovalState c)]"

definition harnesses_from_registry :: "provider_registry \<Rightarrow> snapshot_harness list" where
  "harnesses_from_registry providers =
     map (\<lambda>provider. \<lparr>sn_id = hp_id provider, sn_label = hp_id provider\<rparr>) (pr_harnesses providers)"

subsection \<open>Reading through the boundary\<close>

record read_log =
  rl_health :: "provider_health dict"
  rl_errors :: "safe_error list"

definition push_error :: "safe_error \<Rightarrow> read_log \<Rightarrow> read_log" where
  "push_error e l = l\<lparr>rl_errors := rl_errors l @ [e]\<rparr>"

definition set_health :: "provider_id \<Rightarrow> provider_health \<Rightarrow> read_log \<Rightarrow> read_log" where
  "set_health i h l = l\<lparr>rl_health := rec_set i h (rl_health l)\<rparr>"

definition provider_fallback :: "string \<Rightarrow> string \<Rightarrow> string \<Rightarrow> provider_id \<Rightarrow> error_fallback" where
  "provider_fallback tag code message provider =
     \<lparr>ef_tag = tag, ef_code = code, ef_message = message, ef_hint = None,
      ef_provider = Some provider, ef_traceId = None\<rparr>"

definition provider_timeout :: "provider_id \<Rightarrow> error_fallback" where
  "provider_timeout provider =
     provider_fallback ''TimeoutError'' ''PROVIDER_TIMEOUT'' ''Provider operation timed out.'' provider"

definition run_provider_read_boundary ::
  "string \<Rightarrow> int \<Rightarrow> error_fallback \<Rightarrow> provider_id \<Rightarrow> 'a boundary_call \<Rightarrow> 'a boundary_result" where
  "run_provider_read_boundary operation retries fallback provider call =
     run_boundary_with_retry_and_timeout operation fallback (Some (provider_timeout provider))
       \<lparr>rt_retries = retries, rt_delayMs = Some 10, rt_shouldRetry = None\<rparr> call"

definition failed_provider_health ::
  "provider_id \<Rightarrow> provider_type \<Rightarrow> timestamp \<Rightarrow> safe_error \<Rightarrow> int option \<Rightarrow> bool dict \<Rightarrow>
     provider_health" where
  "failed_provider_health providerId providerType lastCheckedAt lastError latencyMs capabilities =
     safe_error_to_provider_health providerId providerType lastCheckedAt
       (safe_error_from_unknown (ThrownObject lastError None)
         (provider_fallback (se_tag lastError) (se_code lastError) (se_message lastError) providerId))
       (Some capabilities) latencyMs"

text \<open>What every reader does when a read fails: record the error and mark the provider failed.\<close>

definition read_failed ::
  "provider_id \<Rightarrow> provider_type \<Rightarrow> bool dict \<Rightarrow> boundary_timing \<Rightarrow> safe_error \<Rightarrow> read_log \<Rightarrow>
     read_log" where
  "read_failed providerId providerType capabilities timing e l =
     set_health providerId (failed_provider_health providerId providerType (bt_finishedAt timing) e
       (bt_durationMs timing) capabilities) (push_error e l)"

definition health_result ::
  "provider_id \<Rightarrow> int \<Rightarrow> provider_health boundary_call \<Rightarrow> provider_health boundary_result" where
  "health_result providerId retries health =
     run_provider_read_boundary (''provider.'' @ providerId @ ''.health'') retries
       (provider_fallback ''ProviderUnavailableError'' ''PROVIDER_HEALTH_FAILED''
         ''The provider health check failed.'' providerId) providerId health"

definition read_provider_health ::
  "provider_id \<Rightarrow> provider_type \<Rightarrow> bool dict \<Rightarrow> int \<Rightarrow> provider_health boundary_call \<Rightarrow> read_log \<Rightarrow>
     provider_health \<times> read_log" where
  "read_provider_health providerId providerType capabilities retries health l =
     (let result = health_result providerId retries health
      in case br_outcome result of
           Inr value \<Rightarrow>
             (value\<lparr>ph_latencyMs := nullish_opt (ph_latencyMs value) (bt_durationMs (br_timing result)),
                ph_capabilities := Some (nullish (ph_capabilities value) capabilities)\<rparr>, l)
         | Inl e \<Rightarrow>
             (failed_provider_health providerId providerType (bt_finishedAt (br_timing result)) e
                (bt_durationMs (br_timing result)) capabilities, push_error e l))"

definition check_health ::
  "provider_id \<Rightarrow> provider_type \<Rightarrow> bool dict \<Rightarrow> int \<Rightarrow> provider_health boundary_call \<Rightarrow> read_log \<Rightarrow>
     read_log" where
  "check_health providerId providerType capabilities retries health l =
     (case read_provider_health providerId providerType capabilities retries health l of
        (h, l') \<Rightarrow> set_health providerId h l')"

definition worktree_list_result ::
  "worktree_provider \<Rightarrow> int \<Rightarrow> project_config \<Rightarrow> worktree_observation list boundary_result" where
  "worktree_list_result provider retries project =
     run_provider_read_boundary (''provider.'' @ wp_id provider @ ''.listWorktrees'') retries
       (provider_fallback ''WorktreeProviderError'' ''WORKTREE_LIST_FAILED''
         ''The worktree provider failed to list worktrees.'' (wp_id provider))
       (wp_id provider) (wp_listWorktrees provider project)"

text \<open>
  The loop over the projects: a failed listing ends it, and the projects after it are not read.
\<close>

fun read_project_worktrees ::
  "worktree_provider \<Rightarrow> int \<Rightarrow> project_config list \<Rightarrow> read_log \<Rightarrow>
     worktree_observation list \<times> nat \<times> read_log" where
  "read_project_worktrees provider retries [] l = ([], 0, l)"
| "read_project_worktrees provider retries (project # projects) l =
     (let result = worktree_list_result provider retries project
      in case br_outcome result of
           Inl e \<Rightarrow> ([], 0, read_failed (wp_id provider) WorktreeProvider (wp_capabilities provider)
             (br_timing result) e l)
         | Inr value \<Rightarrow>
             (case read_project_worktrees provider retries projects l of
               (worktrees, scanned, l') \<Rightarrow> (value @ worktrees, scanned + 1, l')))"

definition read_worktree_observations ::
  "worktree_provider \<Rightarrow> int \<Rightarrow> project_config list \<Rightarrow> read_log \<Rightarrow>
     worktree_observation list \<times> nat \<times> read_log" where
  "read_worktree_observations provider retries projects l =
     read_project_worktrees provider retries projects
       (check_health (wp_id provider) WorktreeProvider (wp_capabilities provider) retries
         (wp_health provider) l)"

definition terminal_list_result ::
  "terminal_provider \<Rightarrow> int \<Rightarrow> terminal_observation list boundary_result" where
  "terminal_list_result provider retries =
     run_provider_read_boundary (''provider.'' @ tp_id provider @ ''.listTargets'') retries
       (provider_fallback ''TerminalProviderError'' ''TERMINAL_LIST_FAILED''
         ''The terminal provider failed to list targets.'' (tp_id provider))
       (tp_id provider) (tp_listTargets provider)"

definition read_terminal_target_observations ::
  "terminal_provider \<Rightarrow> int \<Rightarrow> read_log \<Rightarrow> terminal_observation list \<times> read_log" where
  "read_terminal_target_observations provider retries l =
     (let l' = check_health (tp_id provider) TerminalProvider (tp_capabilities provider) retries
            (tp_health provider) l;
          result = terminal_list_result provider retries
      in case br_outcome result of
           Inr value \<Rightarrow> (value, l')
         | Inl e \<Rightarrow> ([], read_failed (tp_id provider) TerminalProvider (tp_capabilities provider)
             (br_timing result) e l'))"

subsection \<open>Harness runs\<close>

definition run_with_status :: "run_observation \<Rightarrow> status_observation \<Rightarrow> harness_run" where
  "run_with_status run classification =
     \<lparr>hr_run =
        \<lparr>ro_id = ro_id run, ro_provider = ro_provider run,
         ro_projectId = nullish_opt (so_projectId classification) (ro_projectId run),
         ro_worktreeId = nullish_opt (so_worktreeId classification) (ro_worktreeId run),
         ro_sessionId = nullish_opt (so_sessionId classification) (ro_sessionId run),
         ro_pid = ro_pid run, ro_cwd = ro_cwd run,
         ro_state = os_value (so_status classification),
         ro_confidence = os_confidence (so_status classification),
         ro_reason = os_reason (so_status classification),
         ro_observedAt = ro_observedAt run,
         ro_providerData = nullish_opt (so_providerData classification) (ro_providerData run)\<rparr>,
      hr_status = so_status classification\<rparr>"

definition classify_result ::
  "harness_provider \<Rightarrow> int \<Rightarrow> discovery_context \<Rightarrow> run_observation \<Rightarrow>
     status_observation boundary_result" where
  "classify_result provider retries context run =
     run_provider_read_boundary (''provider.'' @ hp_id provider @ ''.classifyRun'') retries
       (provider_fallback ''HarnessProviderError'' ''HARNESS_CLASSIFY_FAILED''
         ''The harness provider failed to classify a run.'' (hp_id provider))
       (hp_id provider) (hp_classifyRun provider run context)"

definition discover_result ::
  "harness_provider \<Rightarrow> int \<Rightarrow> discovery_context \<Rightarrow> run_observation list boundary_result" where
  "discover_result provider retries context =
     run_provider_read_boundary (''provider.'' @ hp_id provider @ ''.discoverRuns'') retries
       (provider_fallback ''HarnessProviderError'' ''HARNESS_DISCOVER_FAILED''
         ''The harness provider failed to discover runs.'' (hp_id provider))
       (hp_id provider) (hp_discoverRuns provider context)"

fun classify_harness_runs ::
  "harness_provider \<Rightarrow> int \<Rightarrow> discovery_context \<Rightarrow> run_observation list \<Rightarrow> read_log \<Rightarrow>
     harness_run list \<times> read_log" where
  "classify_harness_runs provider retries context [] l = ([], l)"
| "classify_harness_runs provider retries context (run # runs) l =
     (let result = classify_result provider retries context run
      in case br_outcome result of
           Inr classification \<Rightarrow>
             (case classify_harness_runs provider retries context runs l of
               (classified, l') \<Rightarrow> (run_with_status run classification # classified, l'))
         | Inl e \<Rightarrow>
             classify_harness_runs provider retries context runs
               (read_failed (hp_id provider) HarnessProvider
                 (harness_capability_dict (hp_capabilities provider)) (br_timing result) e l))"

definition read_harness_provider ::
  "harness_provider \<Rightarrow> int \<Rightarrow> discovery_context \<Rightarrow> read_log \<Rightarrow> harness_run list \<times> read_log" where
  "read_harness_provider provider retries context l =
     (let capabilities = harness_capability_dict (hp_capabilities provider);
          l' = check_health (hp_id provider) HarnessProvider capabilities retries
            (hp_health provider) l;
          result = discover_result provider retries context
      in case br_outcome result of
           Inr runs \<Rightarrow> classify_harness_runs provider retries context runs l'
         | Inl e \<Rightarrow> ([], read_failed (hp_id provider) HarnessProvider capabilities
             (br_timing result) e l'))"

text \<open>The loop over the harnesses, with the arrays and the object it fills.\<close>

fun read_harness_observations ::
  "harness_provider list \<Rightarrow> int \<Rightarrow> discovery_context \<Rightarrow> harness_run list \<Rightarrow>
     harness_capabilities dict \<Rightarrow> read_log \<Rightarrow>
     harness_run list \<times> harness_capabilities dict \<times> read_log" where
  "read_harness_observations [] retries context harnessRuns capabilities l =
     (harnessRuns, capabilities, l)"
| "read_harness_observations (provider # providers) retries context harnessRuns capabilities l =
     (case read_harness_provider provider retries context l of
        (runs, l') \<Rightarrow> read_harness_observations providers retries context (harnessRuns @ runs)
          (rec_set (hp_id provider) (hp_capabilities provider) capabilities) l')"

fun read_repository_provider_health ::
  "repository_provider list \<Rightarrow> int \<Rightarrow> read_log \<Rightarrow> read_log" where
  "read_repository_provider_health [] retries l = l"
| "read_repository_provider_health (provider # providers) retries l =
     read_repository_provider_health providers retries
       (check_health (rp_id provider) RepositoryProvider (rp_capabilities provider) retries
         (rp_health provider) l)"

subsection \<open>Attribution to the current worktrees\<close>

text \<open>The deepest first; the last two criteria only order paths of the same length.\<close>

definition compare_path_matches :: "collator \<Rightarrow> worktree_observation comparison" where
  "compare_path_matches lc left right =
     or_else (int (length (wo_path right)) - int (length (wo_path left)))
       (or_else (lc (wo_id left) (wo_id right)) (lc (wo_path left) (wo_path right)))"

definition path_matches ::
  "project_id \<Rightarrow> string \<Rightarrow> worktree_observation list \<Rightarrow> worktree_observation list" where
  "path_matches projectId cwd worktrees =
     filter (\<lambda>worktree. wo_projectId worktree = projectId \<and>
       path_is_same_or_inside cwd (wo_path worktree)) worktrees"

definition resolve_worktree_by_project_path ::
  "collator \<Rightarrow> project_id \<Rightarrow> string \<Rightarrow> worktree_observation list \<Rightarrow> worktree_observation option" where
  "resolve_worktree_by_project_path lc projectId cwd worktrees =
     (case js_sort (compare_path_matches lc) (path_matches projectId cwd worktrees) of
        [] \<Rightarrow> None
      | [match] \<Rightarrow> Some match
      | match # other # _ \<Rightarrow>
          if length (wo_path other) = length (wo_path match) then None else Some match)"

definition resolve_by_cwd ::
  "collator \<Rightarrow> project_id option \<Rightarrow> string option \<Rightarrow> worktree_observation list \<Rightarrow>
     worktree_observation option" where
  "resolve_by_cwd lc projectId cwd worktrees =
     (case (projectId, cwd) of
        (Some p, Some c) \<Rightarrow> resolve_worktree_by_project_path lc p c worktrees
      | _ \<Rightarrow> None)"

definition claimed_worktree ::
  "worktree_id option \<Rightarrow> worktree_observation list \<Rightarrow> worktree_observation option" where
  "claimed_worktree worktreeId worktrees =
     (case worktreeId of None \<Rightarrow> None | Some i \<Rightarrow> find (\<lambda>worktree. wo_id worktree = i) worktrees)"

definition resolve_terminal_target_worktree ::
  "collator \<Rightarrow> terminal_observation \<Rightarrow> worktree_observation list \<Rightarrow> worktree_observation option" where
  "resolve_terminal_target_worktree lc target worktrees =
     nullish_opt (resolve_by_cwd lc (to_projectId target) (to_cwd target) worktrees)
       (claimed_worktree (to_worktreeId target) worktrees)"

definition normalize_terminal_target ::
  "collator \<Rightarrow> worktree_observation list \<Rightarrow> terminal_observation \<Rightarrow> terminal_observation" where
  "normalize_terminal_target lc worktrees target =
     (case resolve_terminal_target_worktree lc target worktrees of
        None \<Rightarrow> target
      | Some worktree \<Rightarrow>
          if to_worktreeId target = Some (wo_id worktree) then target
          else target\<lparr>to_worktreeId := Some (wo_id worktree)\<rparr>)"

definition normalize_terminal_targets ::
  "collator \<Rightarrow> terminal_observation list \<Rightarrow> worktree_observation list \<Rightarrow> terminal_observation list" where
  "normalize_terminal_targets lc terminalTargets worktrees =
     map (normalize_terminal_target lc worktrees) terminalTargets"

text \<open>The worktree of the first target that shares the run's session and names a worktree.\<close>

definition resolve_by_session ::
  "session_id option \<Rightarrow> worktree_observation list \<Rightarrow> terminal_observation list \<Rightarrow>
     worktree_observation option" where
  "resolve_by_session sessionId worktrees terminalTargets =
     (case sessionId of
        None \<Rightarrow> None
      | Some i \<Rightarrow>
          (case find (\<lambda>target. to_sessionId target = Some i \<and> to_worktreeId target \<noteq> None)
              terminalTargets of
             None \<Rightarrow> None
           | Some terminal \<Rightarrow> claimed_worktree (to_worktreeId terminal) worktrees))"

definition resolve_harness_run_worktree ::
  "collator \<Rightarrow> run_observation \<Rightarrow> worktree_observation list \<Rightarrow> terminal_observation list \<Rightarrow>
     worktree_observation option" where
  "resolve_harness_run_worktree lc run worktrees terminalTargets =
     nullish_opt (resolve_by_cwd lc (ro_projectId run) (ro_cwd run) worktrees)
       (nullish_opt (resolve_by_session (ro_sessionId run) worktrees terminalTargets)
         (claimed_worktree (ro_worktreeId run) worktrees))"

definition normalize_harness_run ::
  "collator \<Rightarrow> worktree_observation list \<Rightarrow> terminal_observation list \<Rightarrow> harness_run \<Rightarrow> harness_run" where
  "normalize_harness_run lc worktrees terminalTargets harnessRun =
     (case resolve_harness_run_worktree lc (hr_run harnessRun) worktrees terminalTargets of
        None \<Rightarrow> harnessRun
      | Some worktree \<Rightarrow>
          if ro_worktreeId (hr_run harnessRun) = Some (wo_id worktree) then harnessRun
          else harnessRun\<lparr>hr_run := (hr_run harnessRun)\<lparr>ro_worktreeId := Some (wo_id worktree)\<rparr>\<rparr>)"

definition normalize_harness_runs ::
  "collator \<Rightarrow> harness_run list \<Rightarrow> worktree_observation list \<Rightarrow> terminal_observation list \<Rightarrow>
     harness_run list" where
  "normalize_harness_runs lc harnessRuns worktrees terminalTargets =
     map (normalize_harness_run lc worktrees terminalTargets) harnessRuns"

subsection \<open>Cached metadata (metadata/stalePayloads.ts)\<close>

definition stale_change_summary :: "change_summary \<Rightarrow> change_summary" where
  "stale_change_summary payload =
     \<lparr>cs_additions = cs_additions payload, cs_deletions = cs_deletions payload,
      cs_filesChanged = cs_filesChanged payload, cs_binaryFiles = cs_binaryFiles payload,
      cs_baseRef = cs_baseRef payload, cs_baseSha = cs_baseSha payload,
      cs_mergeBaseSha = cs_mergeBaseSha payload, cs_headRef = cs_headRef payload,
      cs_headSha = cs_headSha payload, cs_source = cs_source payload,
      cs_checkedAt = cs_checkedAt payload, cs_stale = Some True\<rparr>"

definition stale_pull_request :: "pull_request \<Rightarrow> pull_request" where
  "stale_pull_request payload =
     \<lparr>pr_number = pr_number payload, pr_url = pr_url payload, pr_host = pr_host payload,
      pr_state = pr_state payload, pr_baseRef = pr_baseRef payload,
      pr_headRef = pr_headRef payload, pr_updatedAt = pr_updatedAt payload,
      pr_checkedAt = pr_checkedAt payload, pr_stale = Some True\<rparr>"

definition stale_checks :: "checks_summary \<Rightarrow> checks_summary" where
  "stale_checks payload =
     \<lparr>ck_state = ck_state payload, ck_url = ck_url payload, ck_total = ck_total payload,
      ck_passed = ck_passed payload, ck_failed = ck_failed payload,
      ck_pending = ck_pending payload, ck_skipped = ck_skipped payload,
      ck_cancelled = ck_cancelled payload, ck_reason = ck_reason payload,
      ck_source = ck_source payload, ck_checkedAt = ck_checkedAt payload, ck_stale = Some True\<rparr>"

record 'a metadata_row =
  mr_worktreeId :: worktree_id
  mr_payload :: 'a
  mr_stale :: bool
  mr_expired :: bool

record metadata_rows =
  mw_change :: "change_summary metadata_row list"
  mw_pullRequest :: "pull_request metadata_row list"
  mw_checks :: "checks_summary metadata_row list"

definition current_payload :: "('a \<Rightarrow> 'a) \<Rightarrow> 'a metadata_row \<Rightarrow> 'a" where
  "current_payload stale row =
     (if mr_expired row \<or> mr_stale row then stale (mr_payload row) else mr_payload row)"

definition enrich_worktree :: "metadata_rows \<Rightarrow> worktree_observation \<Rightarrow> worktree_observation" where
  "enrich_worktree rows worktree =
     (let change = js_map mr_worktreeId (mw_change rows) (wo_id worktree);
          pullRequest = js_map mr_worktreeId (mw_pullRequest rows) (wo_id worktree);
          checks = js_map mr_worktreeId (mw_checks rows) (wo_id worktree)
      in worktree
           \<lparr>wo_changeSummary := nullish_opt
              (map_option (current_payload stale_change_summary) change) (wo_changeSummary worktree),
            wo_pr := nullish_opt
              (map_option (current_payload stale_pull_request) pullRequest) (wo_pr worktree),
            wo_checks := nullish_opt
              (map_option (current_payload stale_checks) checks) (wo_checks worktree)\<rparr>)"

definition worktrees_with_metadata ::
  "metadata_rows \<Rightarrow> worktree_observation list \<Rightarrow> worktree_observation list" where
  "worktrees_with_metadata rows worktrees =
     (if mw_change rows = [] \<and> mw_pullRequest rows = [] \<and> mw_checks rows = [] then worktrees
      else map (enrich_worktree rows) worktrees)"

subsection \<open>The reconcile\<close>

text \<open>
  What the persistence layer answers; \<open>None\<close> or \<open>False\<close> is a rejected promise, which rejects the
  reconcile. The queries are given the time they are asked for.
\<close>

record persistence_answers =
  pn_pruned :: bool
  pn_harnessEvents :: "timestamp \<Rightarrow> persisted_observation list option"
  pn_metadata :: "timestamp \<Rightarrow> metadata_rows option"
  pn_sessions :: "session_metadata list option"
  pn_recoveryHandles :: "recovery_handle list option"
  pn_resultStored :: bool
  pn_eventStored :: bool

record reconcile_input =
  ri_reason :: string
  ri_pid :: int
  ri_startedAt :: timestamp
  ri_version :: string
  ri_projects :: "project_config list"
  ri_providers :: provider_registry
  ri_retries :: int
  ri_persistence :: "persistence_answers option"
  ri_featureFlags :: "feature_flags option"

record reconcile_timing =
  rg_reason :: string
  rg_startedAt :: timestamp
  rg_finishedAt :: timestamp
  rg_durationMs :: "int option"
  rg_projectsScanned :: nat
  rg_worktreesObserved :: nat
  rg_terminalTargetsObserved :: nat
  rg_harnessRunsObserved :: nat
  rg_eventsEmitted :: nat
  rg_errors :: "safe_error list"

text \<open>The argument of \<^verbatim>\<open>persistence.persistReconcileResult\<close>.\<close>

record persisted_result =
  pz_projects :: "project_config list"
  pz_worktrees :: "worktree_observation list"
  pz_terminalTargets :: "terminal_observation list"
  pz_harnessRuns :: "run_observation list"
  pz_providerHealth :: "provider_health dict"
  pz_observedAt :: timestamp

record reconcile_result =
  rz_snapshot :: snapshot
  rz_providerHealth :: "provider_health dict"
  rz_lastReconcile :: reconcile_timing
  rz_persisted :: "persisted_result option"

text \<open>What the readers deliver, attributed to the worktrees.\<close>

record reconcile_reads =
  rx_worktrees :: "worktree_observation list"
  rx_projectsScanned :: nat
  rx_terminalTargets :: "terminal_observation list"
  rx_harnessRuns :: "harness_run list"
  rx_harnessCapabilities :: "harness_capabilities dict"
  rx_log :: read_log

definition read_providers :: "collator \<Rightarrow> reconcile_input \<Rightarrow> reconcile_reads" where
  "read_providers lc input =
     (case read_worktree_observations (pr_worktree (ri_providers input)) (ri_retries input)
         (ri_projects input) \<lparr>rl_health = [], rl_errors = []\<rparr> of
        (worktrees, scanned, l) \<Rightarrow>
      (case read_terminal_target_observations (pr_terminal (ri_providers input)) (ri_retries input) l of
        (targets, l) \<Rightarrow>
      (let terminalTargets = normalize_terminal_targets lc targets worktrees in
       case read_harness_observations (pr_harnesses (ri_providers input)) (ri_retries input)
           (ri_projects input, worktrees, terminalTargets) [] [] l of
         (runs, capabilities, l) \<Rightarrow>
           \<lparr>rx_worktrees = worktrees, rx_projectsScanned = scanned,
            rx_terminalTargets = terminalTargets, rx_harnessRuns = runs,
            rx_harnessCapabilities = capabilities,
            rx_log = read_repository_provider_health (pr_repositories (ri_providers input))
              (ri_retries input) l\<rparr>)))"

definition harness_runs_with_persisted_event_status ::
  "collator \<Rightarrow> persistence_answers option \<Rightarrow> timestamp \<Rightarrow> harness_run list \<Rightarrow>
     harness_run list option" where
  "harness_runs_with_persisted_event_status lc persistence now runs =
     (case persistence of
        None \<Rightarrow> Some runs
      | Some answers \<Rightarrow>
          map_option (apply_harness_event_status_overlays lc runs) (pn_harnessEvents answers now))"

definition worktrees_with_cached_metadata ::
  "persistence_answers option \<Rightarrow> timestamp \<Rightarrow> worktree_observation list \<Rightarrow>
     worktree_observation list option" where
  "worktrees_with_cached_metadata persistence now worktrees =
     (case persistence of
        None \<Rightarrow> Some worktrees
      | Some answers \<Rightarrow>
          if length worktrees = 0 then Some worktrees
          else map_option (\<lambda>rows. worktrees_with_metadata rows worktrees) (pn_metadata answers now))"

definition session_metadata_of :: "persistence_answers option \<Rightarrow> session_metadata list option" where
  "session_metadata_of persistence =
     (case persistence of None \<Rightarrow> Some [] | Some answers \<Rightarrow> pn_sessions answers)"

definition recovery_handles_of :: "persistence_answers option \<Rightarrow> recovery_handle list option" where
  "recovery_handles_of persistence =
     (case persistence of None \<Rightarrow> Some [] | Some answers \<Rightarrow> pn_recoveryHandles answers)"

definition reconcile_graph_input ::
  "reconcile_input \<Rightarrow> timestamp \<Rightarrow> reconcile_reads \<Rightarrow> worktree_observation list \<Rightarrow>
     harness_run list \<Rightarrow> session_metadata list \<Rightarrow> recovery_handle list \<Rightarrow> graph_input" where
  "reconcile_graph_input input finishedAt reads worktrees runs sessions handles =
     \<lparr>gi_generatedAt = finishedAt, gi_pid = ri_pid input, gi_startedAt = ri_startedAt input,
      gi_version = ri_version input, gi_healthy = None, gi_projects = ri_projects input,
      gi_worktreeProviderId = wp_id (pr_worktree (ri_providers input)),
      gi_providerHealth = rl_health (rx_log reads),
      gi_harnesses = Some (harnesses_from_registry (ri_providers input)),
      gi_harnessCapabilities = rx_harnessCapabilities reads,
      gi_worktrees = worktrees, gi_terminalTargets = rx_terminalTargets reads,
      gi_harnessRuns = runs, gi_sessionMetadata = sessions, gi_recoveryHandles = handles,
      gi_alerts = [], gi_featureFlags = ri_featureFlags input\<rparr>"

definition persist_reconcile_result ::
  "persistence_answers option \<Rightarrow> persisted_result \<Rightarrow> (nat \<times> persisted_result option) option" where
  "persist_reconcile_result persistence result =
     (case persistence of
        None \<Rightarrow> Some (0, None)
      | Some answers \<Rightarrow>
          if pn_resultStored answers \<and> pn_eventStored answers then Some (1, Some result) else None)"

definition pruned :: "persistence_answers option \<Rightarrow> bool" where
  "pruned persistence = (case persistence of None \<Rightarrow> True | Some answers \<Rightarrow> pn_pruned answers)"

definition run_reconcile_once ::
  "collator \<Rightarrow> reconcile_input \<Rightarrow> timestamp \<Rightarrow> timestamp \<Rightarrow> reconcile_result option" where
  "run_reconcile_once lc input started finishedAt =
     (if \<not> pruned (ri_persistence input) then None
      else let reads = read_providers lc input in
        (case harness_runs_with_persisted_event_status lc (ri_persistence input) finishedAt
            (rx_harnessRuns reads) of
           None \<Rightarrow> None
         | Some runsWithStatus \<Rightarrow>
        (let harnessRuns = normalize_harness_runs lc runsWithStatus (rx_worktrees reads)
               (rx_terminalTargets reads) in
         case (worktrees_with_cached_metadata (ri_persistence input) finishedAt (rx_worktrees reads),
             session_metadata_of (ri_persistence input), recovery_handles_of (ri_persistence input)) of
           (Some worktrees, Some sessions, Some handles) \<Rightarrow>
             (case persist_reconcile_result (ri_persistence input)
                 \<lparr>pz_projects = ri_projects input, pz_worktrees = rx_worktrees reads,
                  pz_terminalTargets = rx_terminalTargets reads,
                  pz_harnessRuns = map hr_run harnessRuns,
                  pz_providerHealth = rl_health (rx_log reads), pz_observedAt = finishedAt\<rparr> of
                None \<Rightarrow> None
              | Some (events, stored) \<Rightarrow>
                  Some \<lparr>rz_snapshot = build_wosm_snapshot lc (reconcile_graph_input input finishedAt
                          reads worktrees harnessRuns sessions handles),
                        rz_providerHealth = rl_health (rx_log reads),
                        rz_lastReconcile = \<lparr>rg_reason = ri_reason input, rg_startedAt = started,
                          rg_finishedAt = finishedAt, rg_durationMs = duration_ms started finishedAt,
                          rg_projectsScanned = rx_projectsScanned reads,
                          rg_worktreesObserved = length (rx_worktrees reads),
                          rg_terminalTargetsObserved = length (rx_terminalTargets reads),
                          rg_harnessRunsObserved = length harnessRuns,
                          rg_eventsEmitted = events, rg_errors = rl_errors (rx_log reads)\<rparr>,
                        rz_persisted = stored\<rparr>)
         | _ \<Rightarrow> None)))"

text \<open>The snapshot before the first reconcile.\<close>

definition build_initial_snapshot ::
  "collator \<Rightarrow> timestamp \<Rightarrow> int \<Rightarrow> timestamp \<Rightarrow> string \<Rightarrow> project_config list \<Rightarrow> provider_id \<Rightarrow>
     snapshot_harness list option \<Rightarrow> feature_flags option \<Rightarrow> snapshot" where
  "build_initial_snapshot lc generatedAt pid startedAt version projects worktreeProviderId harnesses
     featureFlags =
     build_wosm_snapshot lc
       \<lparr>gi_generatedAt = generatedAt, gi_pid = pid, gi_startedAt = startedAt, gi_version = version,
        gi_healthy = Some True, gi_projects = projects, gi_worktreeProviderId = worktreeProviderId,
        gi_providerHealth = [], gi_harnesses = harnesses, gi_harnessCapabilities = [],
        gi_worktrees = [], gi_terminalTargets = [], gi_harnessRuns = [], gi_sessionMetadata = [],
        gi_recoveryHandles = [], gi_alerts = [], gi_featureFlags = featureFlags\<rparr>"

end
