(* ===== verification/ReconcileProperties.thy ===== *)
theory ReconcileProperties
  imports ReconcileRun GraphProperties
begin

section \<open>Correctness of a reconcile\<close>

text \<open>
  A reconcile never fails because of a provider: what a reader does to the log is stated once, as
  the locale \<open>provider_reader\<close>, which every reader of the code interprets. The theory then shows
  how failures surface, how terminals and runs are attributed to worktrees, how cached metadata
  is marked, and that the snapshot is built from what was read.
\<close>

subsection \<open>The log of a reader\<close>

definition log_ids :: "read_log \<Rightarrow> provider_id set" where
  "log_ids l = set (map fst (rl_health l))"

definition logs :: "provider_id set \<Rightarrow> read_log \<Rightarrow> read_log \<Rightarrow> bool" where
  "logs I l l' =
     ((\<exists>es. rl_errors l' = rl_errors l @ es \<and> list_all is_safe_error es) \<and>
      (\<forall>j. j \<notin> I \<longrightarrow> map_of (rl_health l') j = map_of (rl_health l) j) \<and>
      (distinct (map fst (rl_health l)) \<longrightarrow> distinct (map fst (rl_health l'))) \<and>
      log_ids l \<subseteq> log_ids l' \<and> log_ids l' \<subseteq> log_ids l \<union> I)"

definition unavailable :: "provider_id \<Rightarrow> read_log \<Rightarrow> bool" where
  "unavailable i l =
     (\<exists>h. map_of (rl_health l) i = Some h \<and> ph_status h = Unavailable \<and>
        ph_providerId h = i \<and> (\<exists>e \<in> set (rl_errors l). ph_lastError h = Some e))"

lemma logs_refl [simp]: "logs I l l"
  by (simp add: logs_def)

lemma logs_trans: "logs I l l' \<Longrightarrow> logs I l' l'' \<Longrightarrow> logs I l l''"
  unfolding logs_def by (elim conjE exE) (intro conjI; auto)

lemma logs_mono: "logs I l l' \<Longrightarrow> I \<subseteq> J \<Longrightarrow> logs J l l'"
  unfolding logs_def by blast

lemma logs_ids: "logs I l l' \<Longrightarrow> log_ids l \<subseteq> log_ids l'"
  by (simp add: logs_def)

lemma logs_push_error: "is_safe_error e \<Longrightarrow> logs I l (push_error e l)"
  by (simp add: logs_def push_error_def log_ids_def)

lemma logs_set_health: "logs {i} l (set_health i h l)"
  using rec_set_keys [of i h "rl_health l"]
  by (auto simp: logs_def set_health_def log_ids_def rec_set_distinct)

lemma set_health_simps [simp]:
  "map_of (rl_health (set_health i h l)) = (map_of (rl_health l))(i \<mapsto> h)"
  "rl_errors (set_health i h l) = rl_errors l"
  "rl_health (push_error e l) = rl_health l"
  "rl_errors (push_error e l) = rl_errors l @ [e]"
  by (simp_all add: set_health_def push_error_def)

lemma set_health_ids [simp]: "log_ids (set_health i h l) = insert i (log_ids l)"
  using rec_set_keys [of i h "rl_health l"] by (simp add: log_ids_def set_health_def)

subsection \<open>Errors of a read\<close>

lemma boundary_outcome_safe:
  assumes "br_outcome (run_boundary_with_retry_and_timeout operation fallback timeoutError retry call) = Inl e"
    and "safe_fallback fallback" "opt_ok safe_fallback timeoutError"
  shows "is_safe_error e"
proof -
  let ?task = "\<lambda>attempt. boundary_attempt fallback timeoutError (bc_attempt call attempt)"
  obtain r n sleeps where run: "retry_effect retry ?task = (r, n, sleeps)" by (rule prod_cases3)
  with assms(1) have "r = Inl e"
    by (auto simp: run_boundary_with_retry_and_timeout_def finish_runtime_boundary_def with_trace_def
        split: sum.splits)
  moreover have "r = ?task (n - 1)"
    using run_attempt_spec [OF run [unfolded retry_effect_def]] by blast
  ultimately show ?thesis using boundary_attempt_safe [OF assms(2,3)] by metis
qed

text \<open>A read whose attempts all fail fails.\<close>

lemma boundary_outcome_fails:
  assumes "\<And>i. \<exists>e. boundary_attempt fallback timeoutError (bc_attempt call i) = Inl e"
  shows "\<exists>e. br_outcome (run_boundary_with_retry_and_timeout operation fallback timeoutError retry call) = Inl e"
proof -
  let ?task = "\<lambda>attempt. boundary_attempt fallback timeoutError (bc_attempt call attempt)"
  obtain r n sleeps where run: "retry_effect retry ?task = (r, n, sleeps)" by (rule prod_cases3)
  then have "r = ?task (n - 1)"
    using run_attempt_spec [OF run [unfolded retry_effect_def]] by blast
  moreover obtain e where "?task (n - 1) = Inl e" using assms by blast
  ultimately show ?thesis
    using run by (simp add: run_boundary_with_retry_and_timeout_def finish_runtime_boundary_def)
qed

lemma provider_timeout_safe: "safe_fallback (provider_timeout i)"
  by (simp add: safe_fallback_def provider_timeout_def provider_fallback_def)

lemma provider_read_safe:
  assumes "br_outcome (run_provider_read_boundary operation retries fallback provider call) = Inl e"
    and "safe_fallback fallback"
  shows "is_safe_error e"
  using boundary_outcome_safe [OF assms(1) [unfolded run_provider_read_boundary_def] assms(2)]
  by (simp add: provider_timeout_safe)

lemma read_results_safe:
  "br_outcome (health_result i n c) = Inl e \<Longrightarrow> is_safe_error e"
  "br_outcome (worktree_list_result wp n p) = Inl e \<Longrightarrow> is_safe_error e"
  "br_outcome (terminal_list_result tp n) = Inl e \<Longrightarrow> is_safe_error e"
  "br_outcome (discover_result hp n x) = Inl e \<Longrightarrow> is_safe_error e"
  "br_outcome (classify_result hp n x r) = Inl e \<Longrightarrow> is_safe_error e"
  unfolding health_result_def worktree_list_result_def terminal_list_result_def discover_result_def
    classify_result_def
  by (erule provider_read_safe, simp add: safe_fallback_def provider_fallback_def)+

lemma failed_health_simps [simp]:
  "ph_status (failed_provider_health i t c e n caps) = Unavailable"
  "ph_providerId (failed_provider_health i t c e n caps) = i"
  "is_safe_error e \<Longrightarrow> ph_lastError (failed_provider_health i t c e n caps) = Some e"
  by (simp_all add: failed_provider_health_def safe_error_to_provider_health_def
      safe_error_from_unknown_def thrown_safe_error_def)

lemma logs_read_failed: "is_safe_error e \<Longrightarrow> logs {i} l (read_failed i t caps timing e l)"
  unfolding read_failed_def by (rule logs_trans [OF logs_push_error logs_set_health])

lemma read_failed_simps [simp]:
  "is_safe_error e \<Longrightarrow> unavailable i (read_failed i t caps timing e l)"
  "rl_errors (read_failed i t caps timing e l) = rl_errors l @ [e]"
  "log_ids (read_failed i t caps timing e l) = insert i (log_ids l)"
  by (simp_all add: read_failed_def unavailable_def) (simp add: log_ids_def)

lemma check_health_logs: "logs {i} l (check_health i t caps n c l)"
  by (cases "br_outcome (health_result i n c)")
    (auto simp: check_health_def read_provider_health_def Let_def read_results_safe
      intro: logs_set_health logs_trans [OF logs_push_error logs_set_health])

lemma check_health_ids: "i \<in> log_ids (check_health i t caps n c l)"
  by (simp add: check_health_def split: prod.split)

subsection \<open>The interface of a reader\<close>

locale provider_reader =
  fixes ids :: "provider_id set" and read :: "read_log \<Rightarrow> 'r \<times> read_log"
  assumes logged: "logs ids l (snd (read l))"
    and covered: "ids \<subseteq> log_ids (snd (read l))"
begin

lemma ids_after: "log_ids (snd (read l)) = log_ids l \<union> ids"
  using logged [of l] covered [of l] by (auto simp: logs_def)

lemma distinct_after:
  "distinct (map fst (rl_health l)) \<Longrightarrow> distinct (map fst (rl_health (snd (read l))))"
  using logged [of l] by (simp add: logs_def)

lemma safe_after:
  "list_all is_safe_error (rl_errors l) \<Longrightarrow> list_all is_safe_error (rl_errors (snd (read l)))"
  using logged [of l] by (auto simp: logs_def)

lemma errors_kept: "set (rl_errors l) \<subseteq> set (rl_errors (snd (read l)))"
  using logged [of l] by (auto simp: logs_def)

lemma unavailable_kept: "j \<notin> ids \<Longrightarrow> unavailable j l \<Longrightarrow> unavailable j (snd (read l))"
  using logged [of l] by (auto simp: logs_def unavailable_def)

end

lemma read_project_worktrees_logs:
  "read_project_worktrees provider retries projects l = (ws, n, l') \<Longrightarrow> logs {wp_id provider} l l'"
  by (induction provider retries projects l arbitrary: ws n l' rule: read_project_worktrees.induct)
    (auto simp: Let_def intro: logs_read_failed read_results_safe split: sum.splits prod.splits)

interpretation worktree_reader: provider_reader "{wp_id provider}"
  "\<lambda>l. case read_worktree_observations provider retries projects l of (ws, n, l') \<Rightarrow> ((ws, n), l')"
  for provider retries projects
proof
  fix l
  obtain ws n l' where r: "read_worktree_observations provider retries projects l = (ws, n, l')"
    by (rule prod_cases3)
  let ?c = "check_health (wp_id provider) WorktreeProvider (wp_capabilities provider) retries (wp_health provider) l"
  have c: "logs {wp_id provider} l ?c" "wp_id provider \<in> log_ids ?c"
    by (rule check_health_logs check_health_ids)+
  have p: "logs {wp_id provider} ?c l'"
    by (rule read_project_worktrees_logs [OF r [unfolded read_worktree_observations_def]])
  show "logs {wp_id provider} l (snd (case read_worktree_observations provider retries projects l of
      (ws, n, l') \<Rightarrow> ((ws, n), l')))"
    using logs_trans [OF c(1) p] by (simp add: r)
  show "{wp_id provider} \<subseteq> log_ids (snd (case read_worktree_observations provider retries projects l of
      (ws, n, l') \<Rightarrow> ((ws, n), l')))"
    using logs_ids [OF p] c(2) by (auto simp: r)
qed

interpretation terminal_reader: provider_reader "{tp_id provider}"
  "read_terminal_target_observations provider retries" for provider retries
proof
  fix l
  let ?c = "check_health (tp_id provider) TerminalProvider (tp_capabilities provider) retries (tp_health provider) l"
  have c: "logs {tp_id provider} l ?c" "tp_id provider \<in> log_ids ?c"
    by (rule check_health_logs check_health_ids)+
  have p: "logs {tp_id provider} ?c (snd (read_terminal_target_observations provider retries l))"
    by (auto simp: read_terminal_target_observations_def Let_def split: sum.split
        intro: logs_read_failed read_results_safe)
  show "logs {tp_id provider} l (snd (read_terminal_target_observations provider retries l))"
    by (rule logs_trans [OF c(1) p])
  show "{tp_id provider} \<subseteq> log_ids (snd (read_terminal_target_observations provider retries l))"
    using logs_ids [OF p] c(2) by auto
qed

lemma classify_harness_runs_logs:
  "logs {hp_id provider} l (snd (classify_harness_runs provider retries context runs l))"
proof (induction runs arbitrary: l)
  case Nil
  then show ?case by simp
next
  case (Cons run runs)
  show ?case
  proof (cases "br_outcome (classify_result provider retries context run)")
    case (Inr c)
    with Cons show ?thesis by (simp add: Let_def split: prod.split) (metis snd_conv)
  next
    case (Inl e)
    have "logs {hp_id provider} l (read_failed (hp_id provider) HarnessProvider
        (harness_capability_dict (hp_capabilities provider))
        (br_timing (classify_result provider retries context run)) e l)"
      by (rule logs_read_failed) (rule read_results_safe(5) [OF Inl])
    from logs_trans [OF this Cons] Inl show ?thesis by (simp add: Let_def)
  qed
qed

interpretation harness_reader: provider_reader "{hp_id provider}"
  "read_harness_provider provider retries ctx" for provider retries ctx
proof
  fix l
  let ?c = "check_health (hp_id provider) HarnessProvider (harness_capability_dict (hp_capabilities provider))
      retries (hp_health provider) l"
  have c: "logs {hp_id provider} l ?c" "hp_id provider \<in> log_ids ?c"
    by (rule check_health_logs check_health_ids)+
  have p: "logs {hp_id provider} ?c (snd (read_harness_provider provider retries ctx l))"
    by (auto simp: read_harness_provider_def Let_def split: sum.split
        intro: logs_read_failed read_results_safe classify_harness_runs_logs)
  show "logs {hp_id provider} l (snd (read_harness_provider provider retries ctx l))"
    by (rule logs_trans [OF c(1) p])
  show "{hp_id provider} \<subseteq> log_ids (snd (read_harness_provider provider retries ctx l))"
    using logs_ids [OF p] c(2) by auto
qed

text \<open>The loops over several providers read the identifiers of them all.\<close>

abbreviation harness_loop ::
  "harness_provider list \<Rightarrow> int \<Rightarrow> discovery_context \<Rightarrow> harness_run list \<Rightarrow>
     harness_capabilities dict \<Rightarrow> read_log \<Rightarrow> (harness_run list \<times> harness_capabilities dict) \<times> read_log" where
  "harness_loop providers retries ctx runs caps l \<equiv>
     (case read_harness_observations providers retries ctx runs caps l of
        (runs', caps', l') \<Rightarrow> ((runs', caps'), l'))"

lemma harness_loop_Cons:
  "snd (harness_loop (p # ps) retries ctx runs caps l) =
     snd (harness_loop ps retries ctx (runs @ fst (read_harness_provider p retries ctx l))
       (rec_set (hp_id p) (hp_capabilities p) caps) (snd (read_harness_provider p retries ctx l)))"
  by (simp split: prod.split)

lemma harness_loop_logs:
  "logs (hp_id ` set providers) l (snd (harness_loop providers retries ctx runs caps l)) \<and>
   hp_id ` set providers \<subseteq> log_ids (snd (harness_loop providers retries ctx runs caps l))"
proof (induction providers arbitrary: runs caps l)
  case Nil
  then show ?case by simp
next
  case (Cons p ps)
  let ?l = "snd (read_harness_provider p retries ctx l)"
  let ?r = "snd (harness_loop (p # ps) retries ctx runs caps l)"
  have IH: "logs (hp_id ` set ps) ?l ?r" "hp_id ` set ps \<subseteq> log_ids ?r"
    unfolding harness_loop_Cons using Cons by blast+
  have "logs (hp_id ` set (p # ps)) l ?l"
    by (rule logs_mono [OF harness_reader.logged]) simp
  moreover have "logs (hp_id ` set (p # ps)) ?l ?r" by (rule logs_mono [OF IH(1)]) auto
  ultimately have "logs (hp_id ` set (p # ps)) l ?r" by (rule logs_trans)
  moreover have "hp_id p \<in> log_ids ?r"
    using harness_reader.covered [of p retries ctx l] logs_ids [OF IH(1)] by blast
  ultimately show ?case using IH(2) by auto
qed

interpretation harness_readers: provider_reader "hp_id ` set providers"
  "harness_loop providers retries ctx runs caps" for providers retries ctx runs caps
  by unfold_locales (use harness_loop_logs in blast)+

lemma repository_loop_logs:
  "logs (rp_id ` set providers) l (read_repository_provider_health providers retries l) \<and>
   rp_id ` set providers \<subseteq> log_ids (read_repository_provider_health providers retries l)"
proof (induction providers arbitrary: l)
  case Nil
  then show ?case by simp
next
  case (Cons p ps)
  let ?l = "check_health (rp_id p) RepositoryProvider (rp_capabilities p) retries (rp_health p) l"
  let ?r = "read_repository_provider_health ps retries ?l"
  have "logs (rp_id ` set (p # ps)) l ?l" by (rule logs_mono [OF check_health_logs]) simp
  moreover have r: "logs (rp_id ` set ps) ?l ?r" using Cons by blast
  then have "logs (rp_id ` set (p # ps)) ?l ?r" by (rule logs_mono) auto
  ultimately have "logs (rp_id ` set (p # ps)) l ?r" by (rule logs_trans)
  moreover have "rp_id p \<in> log_ids ?r" using logs_ids [OF r] check_health_ids by blast
  ultimately show ?case using Cons [of ?l] by auto
qed

interpretation repository_readers: provider_reader "rp_id ` set providers"
  "\<lambda>l. ((), read_repository_provider_health providers retries l)" for providers retries
  by unfold_locales (use repository_loop_logs in auto)

subsection \<open>All the reads of a reconcile\<close>

definition empty_log :: read_log where
  "empty_log = \<lparr>rl_health = [], rl_errors = []\<rparr>"

definition registry_ids :: "provider_registry \<Rightarrow> provider_id set" where
  "registry_ids r =
     {wp_id (pr_worktree r), tp_id (pr_terminal r)} \<union> hp_id ` set (pr_harnesses r) \<union>
     rp_id ` set (pr_repositories r)"

text \<open>The logs after each of the four readers.\<close>

definition worktree_log :: "reconcile_input \<Rightarrow> (worktree_observation list \<times> nat) \<times> read_log" where
  "worktree_log input =
     (case read_worktree_observations (pr_worktree (ri_providers input)) (ri_retries input)
         (ri_projects input) empty_log of (ws, n, l) \<Rightarrow> ((ws, n), l))"

definition terminal_log :: "reconcile_input \<Rightarrow> terminal_observation list \<times> read_log" where
  "terminal_log input =
     read_terminal_target_observations (pr_terminal (ri_providers input)) (ri_retries input)
       (snd (worktree_log input))"

definition reconcile_context :: "collator \<Rightarrow> reconcile_input \<Rightarrow> discovery_context" where
  "reconcile_context lc input =
     (ri_projects input, fst (fst (worktree_log input)),
      normalize_terminal_targets lc (fst (terminal_log input)) (fst (fst (worktree_log input))))"

definition harness_log ::
  "collator \<Rightarrow> reconcile_input \<Rightarrow> (harness_run list \<times> harness_capabilities dict) \<times> read_log" where
  "harness_log lc input =
     harness_loop (pr_harnesses (ri_providers input)) (ri_retries input) (reconcile_context lc input) [] []
       (snd (terminal_log input))"

lemma read_providers_eq:
  "read_providers lc input =
     \<lparr>rx_worktrees = fst (fst (worktree_log input)), rx_projectsScanned = snd (fst (worktree_log input)),
      rx_terminalTargets = snd (snd (reconcile_context lc input)),
      rx_harnessRuns = fst (fst (harness_log lc input)),
      rx_harnessCapabilities = snd (fst (harness_log lc input)),
      rx_log = read_repository_provider_health (pr_repositories (ri_providers input)) (ri_retries input)
        (snd (harness_log lc input))\<rparr>"
  by (simp add: read_providers_def worktree_log_def terminal_log_def reconcile_context_def
      harness_log_def empty_log_def Let_def split: prod.split)

lemma read_providers_log:
  "log_ids (rx_log (read_providers lc input)) = registry_ids (ri_providers input)"
  "distinct (map fst (rl_health (rx_log (read_providers lc input))))"
  "list_all is_safe_error (rl_errors (rx_log (read_providers lc input)))"
proof -
  have w: "log_ids (snd (worktree_log input)) = {wp_id (pr_worktree (ri_providers input))}"
      "distinct (map fst (rl_health (snd (worktree_log input))))"
      "list_all is_safe_error (rl_errors (snd (worktree_log input)))"
    unfolding worktree_log_def
    by (subst worktree_reader.ids_after) (simp add: log_ids_def empty_log_def,
        (rule worktree_reader.distinct_after worktree_reader.safe_after; simp add: empty_log_def)+)
  have t: "log_ids (snd (terminal_log input)) =
        {wp_id (pr_worktree (ri_providers input)), tp_id (pr_terminal (ri_providers input))}"
      "distinct (map fst (rl_health (snd (terminal_log input))))"
      "list_all is_safe_error (rl_errors (snd (terminal_log input)))"
    unfolding terminal_log_def
    using w by (auto simp: terminal_reader.ids_after terminal_reader.distinct_after
        terminal_reader.safe_after)
  have h: "log_ids (snd (harness_log lc input)) =
        {wp_id (pr_worktree (ri_providers input)), tp_id (pr_terminal (ri_providers input))} \<union>
        hp_id ` set (pr_harnesses (ri_providers input))"
      "distinct (map fst (rl_health (snd (harness_log lc input))))"
      "list_all is_safe_error (rl_errors (snd (harness_log lc input)))"
    unfolding harness_log_def
    using harness_readers.ids_after harness_readers.distinct_after [OF t(2)]
      harness_readers.safe_after [OF t(3)] t(1) by auto
  show "log_ids (rx_log (read_providers lc input)) = registry_ids (ri_providers input)"
    using repository_readers.ids_after h(1) by (auto simp: read_providers_eq registry_ids_def)
  show "distinct (map fst (rl_health (rx_log (read_providers lc input))))"
    using repository_readers.distinct_after [OF h(2)] by (simp add: read_providers_eq)
  show "list_all is_safe_error (rl_errors (rx_log (read_providers lc input)))"
    using repository_readers.safe_after [OF h(3)] by (simp add: read_providers_eq)
qed

subsection \<open>The result of a reconcile\<close>

definition persistence_answers_all :: "persistence_answers option \<Rightarrow> timestamp \<Rightarrow> bool" where
  "persistence_answers_all persistence now =
     (case persistence of
        None \<Rightarrow> True
      | Some a \<Rightarrow> pn_pruned a \<and> pn_harnessEvents a now \<noteq> None \<and> pn_metadata a now \<noteq> None \<and>
          pn_sessions a \<noteq> None \<and> pn_recoveryHandles a \<noteq> None \<and> pn_resultStored a \<and> pn_eventStored a)"

lemma run_reconcile_Some:
  assumes "run_reconcile_once lc input started finishedAt = Some result"
  obtains runs worktrees sessions handles events where
    "harness_runs_with_persisted_event_status lc (ri_persistence input) finishedAt
       (rx_harnessRuns (read_providers lc input)) = Some runs"
    "worktrees_with_cached_metadata (ri_persistence input) finishedAt
       (rx_worktrees (read_providers lc input)) = Some worktrees"
    "rz_snapshot result = build_wosm_snapshot lc (reconcile_graph_input input finishedAt
       (read_providers lc input) worktrees
       (normalize_harness_runs lc runs (rx_worktrees (read_providers lc input))
         (rx_terminalTargets (read_providers lc input))) sessions handles)"
    "rz_providerHealth result = rl_health (rx_log (read_providers lc input))"
    "rz_lastReconcile result = \<lparr>rg_reason = ri_reason input, rg_startedAt = started,
       rg_finishedAt = finishedAt, rg_durationMs = duration_ms started finishedAt,
       rg_projectsScanned = rx_projectsScanned (read_providers lc input),
       rg_worktreesObserved = length (rx_worktrees (read_providers lc input)),
       rg_terminalTargetsObserved = length (rx_terminalTargets (read_providers lc input)),
       rg_harnessRunsObserved = length runs, rg_eventsEmitted = events,
       rg_errors = rl_errors (rx_log (read_providers lc input))\<rparr>"
  using assms
  by (auto simp: run_reconcile_once_def Let_def normalize_harness_runs_def split: if_splits option.splits)

lemma run_reconcile_returns:
  "persistence_answers_all (ri_persistence input) finishedAt \<Longrightarrow>
    \<exists>result. run_reconcile_once lc input started finishedAt = Some result"
  by (auto simp: run_reconcile_once_def persistence_answers_all_def pruned_def Let_def
      harness_runs_with_persisted_event_status_def worktrees_with_cached_metadata_def
      session_metadata_of_def recovery_handles_of_def persist_reconcile_result_def split: option.splits)

text \<open>No provider can make a reconcile fail. Whatever the providers answer (errors of any kind,
  time-outs, in any order), a reconcile whose persistence answers returns a result; its health
  record has exactly one entry for every registered provider, and every error it reports is a safe
  error.\<close>

lemma reconcile_survives_providers:
  assumes "persistence_answers_all (ri_persistence input) finishedAt"
  shows "\<exists>result. run_reconcile_once lc input started finishedAt = Some result \<and>
    set (map fst (rz_providerHealth result)) = registry_ids (ri_providers input) \<and>
    distinct (map fst (rz_providerHealth result)) \<and>
    list_all is_safe_error (rg_errors (rz_lastReconcile result))"
proof -
  obtain result where r: "run_reconcile_once lc input started finishedAt = Some result"
    using run_reconcile_returns [OF assms] by blast
  then have "rz_providerHealth result = rl_health (rx_log (read_providers lc input)) \<and>
      rg_errors (rz_lastReconcile result) = rl_errors (rx_log (read_providers lc input))"
    by (rule run_reconcile_Some) simp
  with r read_providers_log [of lc input] show ?thesis by (simp add: log_ids_def)
qed

subsection \<open>Failures surface\<close>

lemma check_health_fails:
  "br_outcome (health_result i n c) = Inl e \<Longrightarrow> unavailable i (check_health i t caps n c l)"
  using read_results_safe(1) [of i n c e]
  by (simp add: check_health_def read_provider_health_def Let_def unavailable_def)

lemma classify_harness_runs_fails:
  "unavailable (hp_id provider) l \<or>
     (\<exists>run \<in> set runs. \<exists>e. br_outcome (classify_result provider retries context run) = Inl e) \<Longrightarrow>
   unavailable (hp_id provider) (snd (classify_harness_runs provider retries context runs l))"
proof (induction runs arbitrary: l)
  case Nil
  then show ?case by simp
next
  case (Cons run runs)
  show ?case
  proof (cases "br_outcome (classify_result provider retries context run)")
    case (Inr c)
    have "unavailable (hp_id provider) (snd (classify_harness_runs provider retries context runs l))"
      using Cons Inr by auto
    with Inr show ?thesis by (auto simp: Let_def split: prod.split)
  next
    case (Inl e)
    then show ?thesis
      using Cons.IH read_results_safe(5) [OF Inl] by (simp add: Let_def)
  qed
qed

definition harness_fails :: "harness_provider \<Rightarrow> int \<Rightarrow> discovery_context \<Rightarrow> bool" where
  "harness_fails provider retries ctx =
     ((\<exists>e. br_outcome (health_result (hp_id provider) retries (hp_health provider)) = Inl e) \<or>
      (case br_outcome (discover_result provider retries ctx) of
         Inl e \<Rightarrow> True
       | Inr runs \<Rightarrow> \<exists>run \<in> set runs. \<exists>e. br_outcome (classify_result provider retries ctx run) = Inl e))"

lemma read_harness_provider_fails:
  assumes "harness_fails provider retries ctx"
  shows "unavailable (hp_id provider) (snd (read_harness_provider provider retries ctx l))"
proof (cases "br_outcome (discover_result provider retries ctx)")
  case (Inl e)
  then show ?thesis
    using read_results_safe(4) [OF Inl] by (simp add: read_harness_provider_def Let_def)
next
  case (Inr runs)
  with assms have "unavailable (hp_id provider) (snd (classify_harness_runs provider retries ctx runs
      (check_health (hp_id provider) HarnessProvider (harness_capability_dict (hp_capabilities provider))
        retries (hp_health provider) l)))"
    by (intro classify_harness_runs_fails) (auto simp: harness_fails_def intro: check_health_fails)
  with Inr show ?thesis by (simp add: read_harness_provider_def Let_def)
qed

lemma harness_loop_fails:
  assumes "distinct (map hp_id providers)" "p \<in> set providers" "harness_fails p retries ctx"
  shows "unavailable (hp_id p) (snd (harness_loop providers retries ctx runs caps l))"
  using assms
proof (induction providers arbitrary: runs caps l)
  case Nil
  then show ?case by simp
next
  case (Cons q ps)
  show ?case
  proof (cases "p = q")
    case True
    have "hp_id p \<notin> hp_id ` set ps" using True Cons.prems(1) by simp
    then show ?thesis
      unfolding harness_loop_Cons True [symmetric]
      by (rule harness_readers.unavailable_kept) (rule read_harness_provider_fails [OF Cons.prems(3)])
  next
    case False
    then show ?thesis unfolding harness_loop_Cons using Cons by simp
  qed
qed

lemma read_project_worktrees_fails:
  assumes "unavailable (wp_id provider) l \<or>
     (\<exists>p \<in> set projects. \<exists>e. br_outcome (worktree_list_result provider retries p) = Inl e)"
    and "read_project_worktrees provider retries projects l = (ws, n, l')"
  shows "unavailable (wp_id provider) l'"
  using assms
proof (induction projects arbitrary: ws n)
  case Nil
  then show ?case by simp
next
  case (Cons p ps)
  show ?case
  proof (cases "br_outcome (worktree_list_result provider retries p)")
    case (Inl e)
    then show ?thesis using Cons.prems(2) read_results_safe(2) [OF Inl] by (auto simp: Let_def)
  next
    case (Inr v)
    then show ?thesis using Cons by (auto simp: Let_def split: prod.splits)
  qed
qed

lemma repository_loop_fails:
  assumes "distinct (map rp_id providers)" "p \<in> set providers"
    "br_outcome (health_result (rp_id p) retries (rp_health p)) = Inl e"
  shows "unavailable (rp_id p) (read_repository_provider_health providers retries l)"
  using assms
proof (induction providers arbitrary: l)
  case Nil
  then show ?case by simp
next
  case (Cons q ps)
  show ?case
  proof (cases "p = q")
    case True
    have "rp_id p \<notin> rp_id ` set ps" using True Cons.prems(1) by simp
    from repository_readers.unavailable_kept [OF this check_health_fails [OF Cons.prems(3)]]
    show ?thesis using True by simp
  next
    case False
    then show ?thesis using Cons by simp
  qed
qed

definition health_fails :: "provider_id \<Rightarrow> int \<Rightarrow> provider_health boundary_call \<Rightarrow> bool" where
  "health_fails i retries health = (\<exists>e. br_outcome (health_result i retries health) = Inl e)"

definition worktree_fails :: "worktree_provider \<Rightarrow> int \<Rightarrow> project_config list \<Rightarrow> bool" where
  "worktree_fails wp retries projects =
     (health_fails (wp_id wp) retries (wp_health wp) \<or>
      (\<exists>p \<in> set projects. \<exists>e. br_outcome (worktree_list_result wp retries p) = Inl e))"

definition terminal_fails :: "terminal_provider \<Rightarrow> int \<Rightarrow> bool" where
  "terminal_fails tp retries =
     (health_fails (tp_id tp) retries (tp_health tp) \<or>
      (\<exists>e. br_outcome (terminal_list_result tp retries) = Inl e))"

text \<open>Some read of a provider failed, for good, during the reconcile.\<close>

definition provider_fails :: "collator \<Rightarrow> reconcile_input \<Rightarrow> provider_id \<Rightarrow> bool" where
  "provider_fails lc input i =
     (let registry = ri_providers input; retries = ri_retries input
      in (i = wp_id (pr_worktree registry) \<and>
            worktree_fails (pr_worktree registry) retries (ri_projects input)) \<or>
         (i = tp_id (pr_terminal registry) \<and> terminal_fails (pr_terminal registry) retries) \<or>
         (\<exists>h \<in> set (pr_harnesses registry). i = hp_id h \<and>
            harness_fails h retries (reconcile_context lc input)) \<or>
         (\<exists>p \<in> set (pr_repositories registry). i = rp_id p \<and>
            health_fails (rp_id p) retries (rp_health p)))"

definition registry_distinct :: "provider_registry \<Rightarrow> bool" where
  "registry_distinct r =
     distinct (wp_id (pr_worktree r) # tp_id (pr_terminal r) #
       map hp_id (pr_harnesses r) @ map rp_id (pr_repositories r))"

lemma check_health_fails': "health_fails i retries health \<Longrightarrow> unavailable i (check_health i t caps retries health l)"
  by (auto simp: health_fails_def intro: check_health_fails)

lemma worktree_log_fails:
  assumes "worktree_fails (pr_worktree (ri_providers input)) (ri_retries input) (ri_projects input)"
  shows "unavailable (wp_id (pr_worktree (ri_providers input))) (snd (worktree_log input))"
proof -
  let ?wp = "pr_worktree (ri_providers input)"
  obtain ws n l' where r: "read_worktree_observations ?wp (ri_retries input) (ri_projects input) empty_log
      = (ws, n, l')"
    by (rule prod_cases3)
  have "unavailable (wp_id ?wp) l'"
    by (rule read_project_worktrees_fails [OF _ r [unfolded read_worktree_observations_def]])
      (use assms check_health_fails' in \<open>auto simp: worktree_fails_def\<close>)
  then show ?thesis by (simp add: worktree_log_def r)
qed

lemma terminal_log_fails:
  assumes "terminal_fails tp retries"
  shows "unavailable (tp_id tp) (snd (read_terminal_target_observations tp retries l))"
proof (cases "br_outcome (terminal_list_result tp retries)")
  case (Inl e)
  then show ?thesis
    using read_results_safe(3) [OF Inl] by (simp add: read_terminal_target_observations_def Let_def)
next
  case (Inr v)
  with assms have "health_fails (tp_id tp) retries (tp_health tp)" by (simp add: terminal_fails_def)
  with Inr show ?thesis
    by (simp add: read_terminal_target_observations_def Let_def check_health_fails')
qed

lemma read_providers_fails:
  assumes "registry_distinct (ri_providers input)" and "provider_fails lc input i"
  shows "unavailable i (rx_log (read_providers lc input))"
proof -
  let ?r = "ri_providers input"
  have after_harness: "unavailable i (snd (harness_log lc input)) \<Longrightarrow> i \<notin> rp_id ` set (pr_repositories ?r) \<Longrightarrow>
      unavailable i (rx_log (read_providers lc input))"
    using repository_readers.unavailable_kept by (simp add: read_providers_eq)
  have after_terminal: "unavailable i (snd (terminal_log input)) \<Longrightarrow> i \<notin> hp_id ` set (pr_harnesses ?r) \<Longrightarrow>
      unavailable i (snd (harness_log lc input))"
    using harness_readers.unavailable_kept by (simp add: harness_log_def)
  have after_worktree: "unavailable i (snd (worktree_log input)) \<Longrightarrow> i \<noteq> tp_id (pr_terminal ?r) \<Longrightarrow>
      unavailable i (snd (terminal_log input))"
    using terminal_reader.unavailable_kept by (simp add: terminal_log_def)
  from assms(2) consider
      (worktree) "i = wp_id (pr_worktree ?r)" "worktree_fails (pr_worktree ?r) (ri_retries input) (ri_projects input)"
    | (terminal) "i = tp_id (pr_terminal ?r)" "terminal_fails (pr_terminal ?r) (ri_retries input)"
    | (harness) h where "h \<in> set (pr_harnesses ?r)" "i = hp_id h"
        "harness_fails h (ri_retries input) (reconcile_context lc input)"
    | (repository) p e where "p \<in> set (pr_repositories ?r)" "i = rp_id p"
        "br_outcome (health_result (rp_id p) (ri_retries input) (rp_health p)) = Inl e"
    unfolding provider_fails_def Let_def health_fails_def by blast
  then show ?thesis
  proof cases
    case worktree
    have "unavailable i (snd (worktree_log input))"
      unfolding worktree(1) by (rule worktree_log_fails [OF worktree(2)])
    then show ?thesis using assms(1) worktree(1) after_harness after_terminal after_worktree
      by (auto simp: registry_distinct_def)
  next
    case terminal
    have "unavailable i (snd (terminal_log input))"
      unfolding terminal(1) terminal_log_def by (rule terminal_log_fails [OF terminal(2)])
    then show ?thesis using assms(1) terminal(1) after_harness after_terminal
      by (auto simp: registry_distinct_def)
  next
    case harness
    have "distinct (map hp_id (pr_harnesses ?r))" using assms(1) by (simp add: registry_distinct_def)
    from harness_loop_fails [OF this harness(1,3)] have "unavailable i (snd (harness_log lc input))"
      unfolding harness(2) harness_log_def by blast
    moreover have "i \<notin> rp_id ` set (pr_repositories ?r)"
      using assms(1) harness(1,2) by (auto simp: registry_distinct_def)
    ultimately show ?thesis by (rule after_harness)
  next
    case repository
    have "distinct (map rp_id (pr_repositories ?r))" using assms(1) by (simp add: registry_distinct_def)
    from repository_loop_fails [OF this repository(1,3)] show ?thesis
      by (simp add: read_providers_eq repository(2))
  qed
qed

text \<open>C13: A failed read always surfaces: when a health check, listing, discovery or classification of a
  provider fails for good, the result marks that provider unavailable with an error that is also
  among the reconcile's errors, the snapshot carries an error alert naming the provider, and the
  observer is reported unhealthy.\<close>

theorem provider_failures_surface:
  assumes "run_reconcile_once lc input started finishedAt = Some result"
    and "registry_distinct (ri_providers input)" and "provider_fails lc input i"
  shows "(\<exists>h. map_of (rz_providerHealth result) i = Some h \<and> ph_status h = Unavailable \<and>
      (\<exists>e \<in> set (rg_errors (rz_lastReconcile result)). ph_lastError h = Some e)) \<and>
    (\<exists>a \<in> set (ss_alerts (rz_snapshot result)). al_provider a = Some i \<and> al_severity a = SeverityError) \<and>
    \<not> oi_healthy (ss_observer (rz_snapshot result))"
proof -
  let ?log = "rx_log (read_providers lc input)"
  obtain h e where h: "map_of (rl_health ?log) i = Some h" "ph_status h = Unavailable" "ph_providerId h = i"
      "e \<in> set (rl_errors ?log)" "ph_lastError h = Some e"
    using read_providers_fails [OF assms(2,3)] by (auto simp: unavailable_def)
  then have mem: "h \<in> set (map snd (rl_health ?log))" by (force dest: map_of_SomeD)
  from assms(1) obtain g where g: "rz_snapshot result = build_wosm_snapshot lc g"
      "gi_providerHealth g = rl_health ?log" "gi_healthy g = None"
      "rz_providerHealth result = rl_health ?log" "rg_errors (rz_lastReconcile result) = rl_errors ?log"
    by (rule run_reconcile_Some) (auto simp: reconcile_graph_input_def)
  have "alert_for_health (gi_generatedAt g) h \<in> set (graph_alerts g)"
    using mem h(2) g(2) by (auto simp: graph_alerts_def alerts_from_provider_health_def)
  moreover have "al_provider (alert_for_health (gi_generatedAt g) h) = Some i"
      "al_severity (alert_for_health (gi_generatedAt g) h) = SeverityError"
    using h by (simp_all add: alert_for_health_def)
  moreover have "\<not> observer_healthy g"
    using mem h(2) g by (auto simp: observer_healthy_def list_all_iff)
  ultimately show ?thesis using h g by auto
qed

subsection \<open>What was read\<close>

definition scanned_projects :: "worktree_provider \<Rightarrow> int \<Rightarrow> project_config list \<Rightarrow> project_config list" where
  "scanned_projects wp retries projects =
     takeWhile (\<lambda>p. case br_outcome (worktree_list_result wp retries p) of Inl e \<Rightarrow> False | Inr ws \<Rightarrow> True)
       projects"

definition listed_worktrees ::
  "worktree_provider \<Rightarrow> int \<Rightarrow> project_config list \<Rightarrow> worktree_observation list" where
  "listed_worktrees wp retries projects =
     concat (map (\<lambda>p. case br_outcome (worktree_list_result wp retries p) of Inl e \<Rightarrow> [] | Inr ws \<Rightarrow> ws)
       (scanned_projects wp retries projects))"

definition discovered_runs :: "harness_provider \<Rightarrow> int \<Rightarrow> discovery_context \<Rightarrow> harness_run list" where
  "discovered_runs provider retries ctx =
     (case br_outcome (discover_result provider retries ctx) of
        Inl e \<Rightarrow> []
      | Inr runs \<Rightarrow> List.map_filter (\<lambda>run.
          case br_outcome (classify_result provider retries ctx run) of
            Inl e \<Rightarrow> None | Inr c \<Rightarrow> Some (run_with_status run c)) runs)"

lemma read_project_worktrees_reads:
  "read_project_worktrees wp retries projects l = (ws, n, l') \<Longrightarrow>
    ws = listed_worktrees wp retries projects \<and> n = length (scanned_projects wp retries projects)"
proof (induction projects arbitrary: ws n)
  case Nil
  then show ?case by (simp add: listed_worktrees_def scanned_projects_def)
next
  case (Cons p ps)
  show ?case
  proof (cases "br_outcome (worktree_list_result wp retries p)")
    case (Inl e)
    with Cons.prems show ?thesis by (auto simp: Let_def listed_worktrees_def scanned_projects_def)
  next
    case (Inr v)
    obtain ws' n' l'' where r: "read_project_worktrees wp retries ps l = (ws', n', l'')"
      by (rule prod_cases3)
    with Inr Cons.prems have "ws = v @ ws'" "n = Suc n'" "l' = l''" by (auto simp: Let_def)
    with Cons.IH [of ws' n'] r Inr show ?thesis
      by (simp add: listed_worktrees_def scanned_projects_def)
  qed
qed

lemma classify_harness_runs_reads:
  "fst (classify_harness_runs provider retries ctx runs l) =
     List.map_filter (\<lambda>run. case br_outcome (classify_result provider retries ctx run) of
       Inl e \<Rightarrow> None | Inr c \<Rightarrow> Some (run_with_status run c)) runs"
proof (induction runs arbitrary: l)
  case Nil
  then show ?case by (simp add: List.map_filter_simps)
next
  case (Cons run runs)
  then show ?case
    by (cases "br_outcome (classify_result provider retries ctx run)")
      (simp_all add: Let_def List.map_filter_simps case_prod_unfold)
qed

lemma read_harness_provider_reads:
  "fst (read_harness_provider provider retries ctx l) = discovered_runs provider retries ctx"
  by (simp add: read_harness_provider_def discovered_runs_def Let_def classify_harness_runs_reads
      split: sum.split)

lemma harness_loop_reads:
  "fst (fst (harness_loop providers retries ctx runs caps l)) =
     runs @ concat (map (\<lambda>p. discovered_runs p retries ctx) providers)"
proof (induction providers arbitrary: runs caps l)
  case Nil
  then show ?case by simp
next
  case (Cons p ps)
  have "fst (harness_loop (p # ps) retries ctx runs caps l) =
     fst (harness_loop ps retries ctx (runs @ fst (read_harness_provider p retries ctx l))
       (rec_set (hp_id p) (hp_capabilities p) caps) (snd (read_harness_provider p retries ctx l)))"
    by (simp add: case_prod_unfold)
  with Cons show ?case by (simp add: read_harness_provider_reads)
qed

lemma worktree_log_reads:
  "fst (worktree_log input) =
     (listed_worktrees (pr_worktree (ri_providers input)) (ri_retries input) (ri_projects input),
      length (scanned_projects (pr_worktree (ri_providers input)) (ri_retries input) (ri_projects input)))"
proof -
  obtain ws n l' where r: "read_worktree_observations (pr_worktree (ri_providers input)) (ri_retries input)
      (ri_projects input) empty_log = (ws, n, l')"
    by (rule prod_cases3)
  from read_project_worktrees_reads [OF r [unfolded read_worktree_observations_def]] show ?thesis
    by (simp add: worktree_log_def r)
qed

definition read_runs :: "collator \<Rightarrow> reconcile_input \<Rightarrow> harness_run list" where
  "read_runs lc input =
     concat (map (\<lambda>p. discovered_runs p (ri_retries input) (reconcile_context lc input))
       (pr_harnesses (ri_providers input)))"

definition read_worktrees :: "reconcile_input \<Rightarrow> worktree_observation list" where
  "read_worktrees input =
     listed_worktrees (pr_worktree (ri_providers input)) (ri_retries input) (ri_projects input)"

lemma read_providers_reads [simp]:
  "rx_worktrees (read_providers lc input) = read_worktrees input"
  "rx_projectsScanned (read_providers lc input) =
     length (scanned_projects (pr_worktree (ri_providers input)) (ri_retries input) (ri_projects input))"
  "rx_harnessRuns (read_providers lc input) = read_runs lc input"
  by (simp_all add: read_providers_eq worktree_log_reads read_worktrees_def read_runs_def harness_log_def
      harness_loop_reads)

lemma harness_runs_with_persisted_event_status_ids:
  "harness_runs_with_persisted_event_status lc persistence now runs = Some runs' \<Longrightarrow>
    map (ro_id \<circ> hr_run) runs' = map (ro_id \<circ> hr_run) runs"
  by (auto simp: harness_runs_with_persisted_event_status_def apply_harness_event_status_overlays_def
      split: option.splits)

lemma normalize_harness_runs_ids [simp]:
  "map (ro_id \<circ> hr_run) (normalize_harness_runs lc runs worktrees targets) = map (ro_id \<circ> hr_run) runs"
  by (simp add: normalize_harness_runs_def normalize_harness_run_def split: option.split)

lemma enrich_worktree_simps [simp]:
  "wo_id (enrich_worktree rows w) = wo_id w" "wo_projectId (enrich_worktree rows w) = wo_projectId w"
  "wo_path (enrich_worktree rows w) = wo_path w" "wo_branch (enrich_worktree rows w) = wo_branch w"
  by (simp_all add: enrich_worktree_def Let_def)

lemma worktrees_with_cached_metadata_ids:
  "worktrees_with_cached_metadata persistence now worktrees = Some worktrees' \<Longrightarrow>
    map (\<lambda>w. (wo_id w, wo_projectId w)) worktrees' = map (\<lambda>w. (wo_id w, wo_projectId w)) worktrees"
  by (auto simp: worktrees_with_cached_metadata_def worktrees_with_metadata_def split: option.splits if_splits)

lemma ids_of_configured:
  assumes "map (\<lambda>w. (wo_id w, wo_projectId w)) ws = map (\<lambda>w. (wo_id w, wo_projectId w)) ws'"
  shows "map wo_id (filter (\<lambda>w. wo_projectId w \<in> P) ws) = map wo_id (filter (\<lambda>w. wo_projectId w \<in> P) ws')"
proof -
  have ids: "map wo_id (filter (\<lambda>w. wo_projectId w \<in> P) us) =
      map fst (filter (\<lambda>(i, p). p \<in> P) (map (\<lambda>w. (wo_id w, wo_projectId w)) us))" for us
    by (induction us) auto
  show ?thesis by (simp only: ids assms)
qed


subsection \<open>Witnesses\<close>

text \<open>
  A worktree provider with one worktree, a terminal provider without targets, one harness whose
  discovery always throws, and one that discovers and classifies a run.
\<close>

definition sample_call :: "'a attempt \<Rightarrow> 'a boundary_call" where
  "sample_call answer = \<lparr>bc_startedAt = ''2026-01-01T00:00:00Z'', bc_finishedAt = ''2026-01-01T00:00:01Z'',
     bc_attempt = (\<lambda>i. answer)\<rparr>"

definition sample_harness :: "provider_id \<Rightarrow> run_observation list attempt \<Rightarrow> harness_provider" where
  "sample_harness i discovers = \<lparr>hp_id = i, hp_capabilities = empty_harness_capabilities,
     hp_health = sample_call (AttemptReturns (sample_health i Healthy)),
     hp_discoverRuns = (\<lambda>ctx. sample_call discovers),
     hp_classifyRun = (\<lambda>run ctx. sample_call (AttemptReturns
       \<lparr>so_provider = i, so_runId = None, so_projectId = None, so_worktreeId = None, so_sessionId = None,
        so_status = \<lparr>os_value = AgentIdle, os_confidence = High, os_reason = ''idle'',
          os_source = SrcHarnessProcess, os_updatedAt = ''2026-01-01T00:00:00Z''\<rparr>,
        so_observedAt = ''2026-01-01T00:00:00Z'', so_providerData = None\<rparr>))\<rparr>"

definition sample_registry :: provider_registry where
  "sample_registry = \<lparr>pr_worktree = \<lparr>wp_id = ''worktrunk'', wp_capabilities = [],
       wp_health = sample_call (AttemptReturns (sample_health ''worktrunk'' Healthy)),
       wp_listWorktrees = (\<lambda>p. sample_call (AttemptReturns [sample_worktree ''w1'' (pc_id p) ''a'' ''/a'']))\<rparr>,
     pr_terminal = \<lparr>tp_id = ''tmux'', tp_capabilities = [],
       tp_health = sample_call (AttemptReturns (sample_health ''tmux'' Healthy)),
       tp_listTargets = sample_call (AttemptReturns [])\<rparr>,
     pr_harnesses = [sample_harness ''codex'' (AttemptThrows ThrownPrimitive),
       sample_harness ''claude'' (AttemptReturns [hr_run (sample_harness_run ''r1'' (Some ''w1'') None AgentIdle)])],
     pr_repositories = []\<rparr>"

definition sample_reconcile :: reconcile_input where
  "sample_reconcile = \<lparr>ri_reason = ''manual'', ri_pid = 1, ri_startedAt = ''2026-01-01T00:00:00Z'',
     ri_version = ''0.0.0'', ri_projects = [sample_project ''p1''], ri_providers = sample_registry,
     ri_retries = 1, ri_persistence = None, ri_featureFlags = None\<rparr>"

definition sample_result :: "reconcile_result option" where
  "sample_result = run_reconcile_once code_unit_compare sample_reconcile ''2026-01-01T00:00:00Z'' ''2026-01-01T00:00:02Z''"

lemma sample_answers: "persistence_answers_all (ri_persistence sample_reconcile) now"
  by (simp add: sample_reconcile_def persistence_answers_all_def)

lemma sample_result_Some: "\<exists>result. sample_result = Some result"
  unfolding sample_result_def by (rule run_reconcile_returns [OF sample_answers])

lemma sample_reconcile_facts:
  "registry_ids (ri_providers sample_reconcile) = {''worktrunk'', ''tmux'', ''codex'', ''claude''}"
  "registry_distinct (ri_providers sample_reconcile)"
  "distinct (map pc_id (ri_projects sample_reconcile))"
  by (auto simp: sample_reconcile_def sample_registry_def registry_ids_def registry_distinct_def
      sample_harness_def)

lemma sample_provider_fails: "provider_fails code_unit_compare sample_reconcile ''codex''"
proof -
  let ?h = "sample_harness ''codex'' (AttemptThrows ThrownPrimitive)"
  have "\<exists>e. br_outcome (discover_result ?h 1 ctx) = Inl e" for ctx
    unfolding discover_result_def run_provider_read_boundary_def
    by (rule boundary_outcome_fails)
      (simp add: sample_harness_def sample_call_def boundary_attempt_def runtime_boundary_effect_def)
  then obtain e where
      "br_outcome (discover_result ?h 1 (reconcile_context code_unit_compare sample_reconcile)) = Inl e"
    by blast
  then have "harness_fails ?h 1 (reconcile_context code_unit_compare sample_reconcile)"
    by (simp add: harness_fails_def)
  moreover have "?h \<in> set (pr_harnesses (ri_providers sample_reconcile))" "hp_id ?h = ''codex''"
      "ri_retries sample_reconcile = 1"
    by (simp_all add: sample_reconcile_def sample_registry_def sample_harness_def)
  ultimately show ?thesis unfolding provider_fails_def Let_def by metis
qed

lemma provider_failures_surface_witness:
  "\<exists>result. sample_result = Some result \<and> \<not> oi_healthy (ss_observer (rz_snapshot result)) \<and>
    (\<exists>a \<in> set (ss_alerts (rz_snapshot result)). al_provider a = Some ''codex'')"
proof -
  obtain result where r: "sample_result = Some result" using sample_result_Some by blast
  from provider_failures_surface [OF r [unfolded sample_result_def] sample_reconcile_facts(2) sample_provider_fails] r
  show ?thesis by blast
qed

lemma sample_reads: "map wo_id (read_worktrees sample_reconcile) = [''w1'']"
  "map wo_projectId (read_worktrees sample_reconcile) = [''p1'']"
  by code_simp+


end
