(* ===== verification/AttributionProperties.thy ===== *)
theory AttributionProperties
  imports ReconcileRun GraphProperties
begin

section \<open>Attribution to worktrees\<close>

text \<open>
  How a reconcile attributes what it observed: a terminal or a run that reports a project and a
  working directory belongs to the deepest worktree of that project containing the directory,
  when there is exactly one; otherwise a run belongs to the worktree of its session's terminal;
  otherwise the claim of the observation stands. Cached metadata is attached by worktree.
\<close>

subsection \<open>The deepest worktree\<close>

lemma compare_path_matches_comparator: "collation lc \<Longrightarrow> js_comparator (\<lambda>_. True) (compare_path_matches lc)"
  unfolding compare_path_matches_def
  by (intro js_comparator_or_else js_comparator_diff_rev collation.comparator_via)

lemma compare_path_matches_length:
  "compare_path_matches lc a b \<le> 0 \<Longrightarrow> length (wo_path b) \<le> length (wo_path a)"
  by (auto simp: compare_path_matches_def or_else_def split: if_splits)

text \<open>\<open>w\<close> is the only worktree of the project around the directory whose path is as long as its own.\<close>

definition deepest_worktree ::
  "project_id option \<Rightarrow> string option \<Rightarrow> worktree_observation list \<Rightarrow> worktree_observation \<Rightarrow> bool" where
  "deepest_worktree projectId cwd worktrees w =
     (case (projectId, cwd) of
        (Some p, Some c) \<Rightarrow>
          filter (\<lambda>v. length (wo_path w) \<le> length (wo_path v)) (path_matches p c worktrees) = [w]
      | _ \<Rightarrow> False)"

lemma filter_singleton_mset: "mset xs = mset ys \<Longrightarrow> filter P xs = [w] \<longleftrightarrow> filter P ys = [w]"
  by (metis mset_filter mset_single_iff_right mset_single_iff)

lemma filter_eq_mem: "filter P xs = [w] \<Longrightarrow> w \<in> set xs"
  by (metis filter_is_subset list.set_intros(1) subsetD)

lemma resolve_by_project_path_iff:
  assumes "collation lc"
  shows "resolve_worktree_by_project_path lc p c worktrees = Some w \<longleftrightarrow>
    filter (\<lambda>v. length (wo_path w) \<le> length (wo_path v)) (path_matches p c worktrees) = [w]"
proof -
  let ?ms = "path_matches p c worktrees"
  let ?P = "\<lambda>w v. length (wo_path w) \<le> length (wo_path v)"
  define xs where "xs = js_sort (compare_path_matches lc) ?ms"
  have sorted: "sorted_wrt (\<lambda>a b. length (wo_path b) \<le> length (wo_path a)) xs"
    unfolding xs_def
    by (rule sorted_wrt_mono_rel [OF compare_path_matches_length js_comparator.sorted_js_sort
        [OF compare_path_matches_comparator [OF assms]]]) simp_all
  have "filter (?P w) ?ms = [w] \<longleftrightarrow> filter (?P w) xs = [w]"
    by (rule filter_singleton_mset) (simp add: xs_def)
  moreover have "resolve_worktree_by_project_path lc p c worktrees = Some w \<longleftrightarrow> filter (?P w) xs = [w]"
  proof (cases xs)
    case Nil
    then show ?thesis by (simp add: resolve_worktree_by_project_path_def xs_def [symmetric])
  next
    case (Cons m ys)
    show ?thesis
    proof (cases ys)
      case Nil
      with Cons show ?thesis by (auto simp: resolve_worktree_by_project_path_def xs_def [symmetric])
    next
      case (Cons n zs)
      note xs = \<open>xs = m # ys\<close> [unfolded Cons]
      have below: "length (wo_path v) \<le> length (wo_path n)" if "v \<in> set (n # zs)" for v
        using sorted that by (auto simp: xs)
      have n: "length (wo_path n) \<le> length (wo_path m)" using sorted by (simp add: xs)
      show ?thesis
      proof (cases "length (wo_path n) = length (wo_path m)")
        case True
        have "filter (?P w) xs \<noteq> [w]"
        proof
          assume w: "filter (?P w) xs = [w]"
          then have "w \<in> set xs" using filter_eq_mem by fast
          then have "?P w m" "?P w n" using below n True by (auto simp: xs)
          with w show False by (simp add: xs)
        qed
        with True show ?thesis
          by (simp add: resolve_worktree_by_project_path_def xs_def [symmetric] xs)
      next
        case False
        with n below have empty: "filter (?P m) (n # zs) = []"
          by (fastforce simp: filter_empty_conv)
        have "filter (?P w) xs = [w] \<longleftrightarrow> m = w"
        proof
          assume w: "filter (?P w) xs = [w]"
          then have "w \<in> set xs" using filter_eq_mem by fast
          then have "?P w m" using below n by (metis order_refl order_trans set_ConsD xs)
          with w show "m = w" by (simp add: xs)
        next
          assume "m = w"
          with empty show "filter (?P w) xs = [w]" by (simp add: xs)
        qed
        with False show ?thesis
          by (auto simp: resolve_worktree_by_project_path_def xs_def [symmetric] xs)
      qed
    qed
  qed
  ultimately show ?thesis by simp
qed

lemma resolve_by_cwd_iff:
  "collation lc \<Longrightarrow> resolve_by_cwd lc p c worktrees = Some w \<longleftrightarrow> deepest_worktree p c worktrees w"
  by (simp add: resolve_by_cwd_def deepest_worktree_def resolve_by_project_path_iff split: option.split)

lemma resolve_by_cwd_None:
  "collation lc \<Longrightarrow> resolve_by_cwd lc p c worktrees = None \<longleftrightarrow> (\<nexists>w. deepest_worktree p c worktrees w)"
  using resolve_by_cwd_iff [of lc p c worktrees] by (metis not_Some_eq)

lemma deepest_worktree_mem:
  assumes "deepest_worktree p c worktrees w"
  shows "w \<in> set worktrees \<and> p = Some (wo_projectId w) \<and> (\<exists>d. c = Some d \<and> path_is_same_or_inside d (wo_path w))"
proof -
  from assms obtain q d where pc: "p = Some q" "c = Some d"
      "filter (\<lambda>v. length (wo_path w) \<le> length (wo_path v)) (path_matches q d worktrees) = [w]"
    by (auto simp: deepest_worktree_def split: option.splits)
  then have "w \<in> set (path_matches q d worktrees)" using filter_eq_mem by fast
  with pc show ?thesis by (auto simp: path_matches_def)
qed

lemma claimed_worktree_id: "claimed_worktree i worktrees = Some w \<Longrightarrow> i = Some (wo_id w) \<and> w \<in> set worktrees"
  by (auto simp: claimed_worktree_def find_Some_iff split: option.splits)

subsection \<open>Terminals\<close>

lemma normalize_terminal_target_eq:
  "normalize_terminal_target lc worktrees t =
     (case resolve_by_cwd lc (to_projectId t) (to_cwd t) worktrees of
        None \<Rightarrow> t | Some w \<Rightarrow> t\<lparr>to_worktreeId := Some (wo_id w)\<rparr>)"
  by (auto simp: normalize_terminal_target_def resolve_terminal_target_worktree_def
      dest: claimed_worktree_id split: option.split)

lemma normalize_terminal_target_idem:
  "normalize_terminal_target lc worktrees (normalize_terminal_target lc worktrees t) =
     normalize_terminal_target lc worktrees t"
  by (simp add: normalize_terminal_target_eq split: option.split)

text \<open>A terminal belongs where it is: a target whose working directory lies in a worktree of its
  project, deeper than in any other, is attributed to that worktree whatever it claimed, changes
  in nothing else, and is a candidate for that worktree's row; any other target keeps its claim.
  Attributing again changes nothing.\<close>

lemma terminals_attributed_by_path:
  assumes "collation lc"
  shows "(\<forall>w. deepest_worktree (to_projectId t) (to_cwd t) worktrees w \<longrightarrow>
      normalize_terminal_target lc worktrees t = t\<lparr>to_worktreeId := Some (wo_id w)\<rparr> \<and>
      terminal_candidate w (normalize_terminal_target lc worktrees t)) \<and>
    ((\<nexists>w. deepest_worktree (to_projectId t) (to_cwd t) worktrees w) \<longrightarrow>
      normalize_terminal_target lc worktrees t = t) \<and>
    normalize_terminal_targets lc (normalize_terminal_targets lc targets worktrees) worktrees =
      normalize_terminal_targets lc targets worktrees"
proof (intro conjI allI impI)
  fix w
  assume w: "deepest_worktree (to_projectId t) (to_cwd t) worktrees w"
  then have "resolve_by_cwd lc (to_projectId t) (to_cwd t) worktrees = Some w"
    by (simp add: resolve_by_cwd_iff [OF assms])
  then show eq: "normalize_terminal_target lc worktrees t = t\<lparr>to_worktreeId := Some (wo_id w)\<rparr>"
    by (simp add: normalize_terminal_target_eq)
  show "terminal_candidate w (normalize_terminal_target lc worktrees t)"
    using deepest_worktree_mem [OF w]
    by (auto simp: eq terminal_candidate_def terminal_target_matches_worktree_def)
next
  assume "\<nexists>w. deepest_worktree (to_projectId t) (to_cwd t) worktrees w"
  then have "resolve_by_cwd lc (to_projectId t) (to_cwd t) worktrees = None"
    using resolve_by_cwd_None [OF assms] by simp
  then show "normalize_terminal_target lc worktrees t = t"
    by (simp add: normalize_terminal_target_eq)
next
  show "normalize_terminal_targets lc (normalize_terminal_targets lc targets worktrees) worktrees =
      normalize_terminal_targets lc targets worktrees"
    by (simp add: normalize_terminal_targets_def normalize_terminal_target_idem)
qed

subsection \<open>Runs\<close>

lemma normalize_harness_run_eq:
  "normalize_harness_run lc worktrees targets r =
     (case nullish_opt (resolve_by_cwd lc (ro_projectId (hr_run r)) (ro_cwd (hr_run r)) worktrees)
         (resolve_by_session (ro_sessionId (hr_run r)) worktrees targets) of
        None \<Rightarrow> r | Some w \<Rightarrow> r\<lparr>hr_run := (hr_run r)\<lparr>ro_worktreeId := Some (wo_id w)\<rparr>\<rparr>)"
proof -
  have "r\<lparr>hr_run := (hr_run r)\<lparr>ro_worktreeId := Some (wo_id w)\<rparr>\<rparr> = r"
    if "ro_worktreeId (hr_run r) = Some (wo_id w)" for w
    using that by (cases r; cases "hr_run r") auto
  then show ?thesis
    by (auto simp: normalize_harness_run_def resolve_harness_run_worktree_def nullish_opt_def
        dest!: claimed_worktree_id split: option.split)
qed

lemma normalize_harness_run_idem:
  "normalize_harness_run lc worktrees targets (normalize_harness_run lc worktrees targets r) =
     normalize_harness_run lc worktrees targets r"
  by (simp add: normalize_harness_run_eq split: option.split)

text \<open>A run belongs to the deepest worktree of its project around its working directory; when there
  is none, or no single one, to the known worktree of the first terminal that shares its session;
  failing that its own claim stands. Only the worktree identifier changes, and attributing again
  changes nothing.\<close>

lemma runs_attributed_in_order:
  assumes "collation lc"
  shows "(\<forall>w. deepest_worktree (ro_projectId (hr_run r)) (ro_cwd (hr_run r)) worktrees w \<longrightarrow>
      normalize_harness_run lc worktrees targets r =
        r\<lparr>hr_run := (hr_run r)\<lparr>ro_worktreeId := Some (wo_id w)\<rparr>\<rparr>) \<and>
    ((\<nexists>w. deepest_worktree (ro_projectId (hr_run r)) (ro_cwd (hr_run r)) worktrees w) \<longrightarrow>
      normalize_harness_run lc worktrees targets r =
        (case resolve_by_session (ro_sessionId (hr_run r)) worktrees targets of
           Some w \<Rightarrow> r\<lparr>hr_run := (hr_run r)\<lparr>ro_worktreeId := Some (wo_id w)\<rparr>\<rparr> | None \<Rightarrow> r)) \<and>
    normalize_harness_runs lc (normalize_harness_runs lc runs worktrees targets) worktrees targets =
      normalize_harness_runs lc runs worktrees targets"
proof (intro conjI allI impI)
  fix w
  assume "deepest_worktree (ro_projectId (hr_run r)) (ro_cwd (hr_run r)) worktrees w"
  then have "resolve_by_cwd lc (ro_projectId (hr_run r)) (ro_cwd (hr_run r)) worktrees = Some w"
    by (simp add: resolve_by_cwd_iff [OF assms])
  then show "normalize_harness_run lc worktrees targets r =
      r\<lparr>hr_run := (hr_run r)\<lparr>ro_worktreeId := Some (wo_id w)\<rparr>\<rparr>"
    by (simp add: normalize_harness_run_eq)
next
  assume "\<nexists>w. deepest_worktree (ro_projectId (hr_run r)) (ro_cwd (hr_run r)) worktrees w"
  then have "resolve_by_cwd lc (ro_projectId (hr_run r)) (ro_cwd (hr_run r)) worktrees = None"
    using resolve_by_cwd_None [OF assms] by simp
  then show "normalize_harness_run lc worktrees targets r =
      (case resolve_by_session (ro_sessionId (hr_run r)) worktrees targets of
         Some w \<Rightarrow> r\<lparr>hr_run := (hr_run r)\<lparr>ro_worktreeId := Some (wo_id w)\<rparr>\<rparr> | None \<Rightarrow> r)"
    by (simp add: normalize_harness_run_eq split: option.split)
next
  show "normalize_harness_runs lc (normalize_harness_runs lc runs worktrees targets) worktrees targets =
      normalize_harness_runs lc runs worktrees targets"
    by (simp add: normalize_harness_runs_def normalize_harness_run_idem)
qed

subsection \<open>Witnesses\<close>

text \<open>Two nested worktrees, and a terminal and a run in the inner one that claim the outer one.\<close>

definition nested_worktrees :: "worktree_observation list" where
  "nested_worktrees = [sample_worktree ''w1'' ''p1'' ''a'' ''/a'', sample_worktree ''w2'' ''p1'' ''b'' ''/a/b'']"

definition inner_terminal :: terminal_observation where
  "inner_terminal = (sample_terminal ''t1'' (Some ''w1'') None (Some ''/a/b/src'') High)
     \<lparr>to_projectId := Some ''p1''\<rparr>"

definition inner_run :: harness_run where
  "inner_run = (let r = sample_harness_run ''r1'' (Some ''w1'') None AgentIdle in
     r\<lparr>hr_run := (hr_run r)\<lparr>ro_projectId := Some ''p1'', ro_cwd := Some ''/a/b/src''\<rparr>\<rparr>)"

lemma nested_deepest:
  "deepest_worktree (to_projectId inner_terminal) (to_cwd inner_terminal) nested_worktrees
     (sample_worktree ''w2'' ''p1'' ''b'' ''/a/b'')"
  "deepest_worktree (ro_projectId (hr_run inner_run)) (ro_cwd (hr_run inner_run)) nested_worktrees
     (sample_worktree ''w2'' ''p1'' ''b'' ''/a/b'')"
  by code_simp+

end
