(* ===== verification/RowLayout.thy ===== *)
theory RowLayout
  imports Prelude
begin

section \<open>Row layout (packages/dashboard-core/src/components/WorktreeRow/layout.ts)\<close>

text \<open>
  The grid that lays the worktree rows of the dashboard out in the columns of a terminal. A text
  is a list of Unicode code points. How many cells a text takes (the package \<^verbatim>\<open>string-width\<close>) and
  how it splits into graphemes (\<^verbatim>\<open>Intl.Segmenter\<close>) are parameters, with what the code relies on as
  the locale \<open>text_metrics\<close>. Numbers of cells are integers: a fractional or infinite argument is
  floored or replaced before it is used. A thrown error is \<open>None\<close>.
\<close>

type_synonym utext = "nat list"

definition text_of :: "string \<Rightarrow> utext" where
  "text_of s = map of_char s"

record metrics =
  mt_width :: "utext \<Rightarrow> nat"
  mt_graphemes :: "utext \<Rightarrow> utext list"

subsection \<open>Segments\<close>

datatype row_color = ColorBlue | ColorGray | ColorGreen | ColorRed | ColorYellow | ColorPurple
datatype throbber = Braille | Circle

record text_run =
  tx_text :: utext
  tx_color :: "row_color option"
  tx_dimColor :: bool
  tx_underline :: bool
  tx_url :: "utext option"

datatype row_segment = TextSegment text_run | ThrobberSegment throbber

datatype row_marker = TextMarker utext | ThrobberMarker throbber

text \<open>\<^verbatim>\<open>text.replace(/[\t\n\r]+/g, " ")\<close>; the flag says that the last character was replaced.\<close>

definition is_line_space :: "nat \<Rightarrow> bool" where
  "is_line_space c = (c = 9 \<or> c = 10 \<or> c = 13)"

fun sanitize_from :: "bool \<Rightarrow> utext \<Rightarrow> utext" where
  "sanitize_from run [] = []"
| "sanitize_from run (c # cs) =
     (if is_line_space c then (if run then [] else [32]) @ sanitize_from True cs
      else c # sanitize_from False cs)"

definition sanitize_text :: "utext \<Rightarrow> utext" where
  "sanitize_text t = sanitize_from False t"

definition normalize_columns :: "int \<Rightarrow> int" where
  "normalize_columns columns = max 1 columns"

definition normalize_cells :: "int \<Rightarrow> int" where
  "normalize_cells cells = max 0 cells"

definition cell_width :: "metrics \<Rightarrow> utext \<Rightarrow> int" where
  "cell_width m t = int (mt_width m (sanitize_text t))"

definition segment_width :: "metrics \<Rightarrow> row_segment \<Rightarrow> int" where
  "segment_width m s = (case s of ThrobberSegment v \<Rightarrow> 1 | TextSegment t \<Rightarrow> cell_width m (tx_text t))"

definition segments_width :: "metrics \<Rightarrow> row_segment list \<Rightarrow> int" where
  "segments_width m segments = sum_list (map (segment_width m) segments)"

record text_style =
  ty_color :: "row_color option"
  ty_dimColor :: bool
  ty_underline :: bool
  ty_url :: "utext option"

definition no_style :: text_style where
  "no_style = \<lparr>ty_color = None, ty_dimColor = False, ty_underline = False, ty_url = None\<rparr>"

definition text_segment :: "utext \<Rightarrow> text_style \<Rightarrow> row_segment" where
  "text_segment t options = TextSegment
     \<lparr>tx_text = sanitize_text t, tx_color = ty_color options, tx_dimColor = ty_dimColor options,
      tx_underline = ty_underline options, tx_url = ty_url options\<rparr>"

definition copy_text_segment :: "text_run \<Rightarrow> utext \<Rightarrow> row_segment" where
  "copy_text_segment segment t = TextSegment
     \<lparr>tx_text = sanitize_text t, tx_color = tx_color segment, tx_dimColor = tx_dimColor segment,
      tx_underline = tx_underline segment, tx_url = tx_url segment\<rparr>"

text \<open>\<^verbatim>\<open>textSegment(" ".repeat(cells))\<close>\<close>

definition space_segment :: "int \<Rightarrow> row_segment" where
  "space_segment cells = text_segment (replicate (nat cells) 32) no_style"

definition text_style_from_segments :: "row_segment list \<Rightarrow> text_style" where
  "text_style_from_segments segments =
     (case List.map_filter (\<lambda>s. case s of TextSegment t \<Rightarrow> Some t | ThrobberSegment v \<Rightarrow> None) (rev segments) of
        [] \<Rightarrow> no_style
      | t # _ \<Rightarrow> \<lparr>ty_color = tx_color t, ty_dimColor = tx_dimColor t, ty_underline = tx_underline t,
          ty_url = tx_url t\<rparr>)"

subsection \<open>Clipping\<close>

definition graphemes :: "metrics \<Rightarrow> utext \<Rightarrow> utext list" where
  "graphemes m t = mt_graphemes m (sanitize_text t)"

fun clip_graphemes :: "metrics \<Rightarrow> int \<Rightarrow> utext list \<Rightarrow> utext" where
  "clip_graphemes m remaining [] = []"
| "clip_graphemes m remaining (g # gs) =
     (if remaining \<le> 0 then []
      else (let width = cell_width m g in
            if width > remaining then [] else g @ clip_graphemes m (remaining - width) gs))"

definition clip_cells :: "metrics \<Rightarrow> utext \<Rightarrow> int \<Rightarrow> utext" where
  "clip_cells m t cells = clip_graphemes m (normalize_cells cells) (graphemes m t)"

definition ellipsis :: utext where
  "ellipsis = [8230]"

definition truncate_cells :: "metrics \<Rightarrow> utext \<Rightarrow> int \<Rightarrow> utext" where
  "truncate_cells m t cells =
     (let normalized = sanitize_text t; limit = normalize_cells cells in
      if limit \<le> 0 then []
      else if cell_width m normalized \<le> limit then normalized
      else (let ellipsisWidth = cell_width m ellipsis in
            if limit < ellipsisWidth then clip_cells m normalized limit
            else clip_cells m normalized (limit - ellipsisWidth) @ ellipsis))"

fun clip_segments :: "metrics \<Rightarrow> int \<Rightarrow> row_segment list \<Rightarrow> row_segment list" where
  "clip_segments m remaining [] = []"
| "clip_segments m remaining (ThrobberSegment v # segments) =
     (if remaining \<le> 0 then [] else ThrobberSegment v # clip_segments m (remaining - 1) segments)"
| "clip_segments m remaining (TextSegment t # segments) =
     (if remaining \<le> 0 then []
      else (let width = cell_width m (tx_text t) in
            if width \<le> remaining then TextSegment t # clip_segments m (remaining - width) segments
            else (let clipped = clip_cells m (tx_text t) remaining in
                  if length clipped > 0 then [copy_text_segment t clipped] else [])))"

definition hard_clip_segments :: "metrics \<Rightarrow> row_segment list \<Rightarrow> int \<Rightarrow> row_segment list" where
  "hard_clip_segments m segments cells = clip_segments m (normalize_cells cells) segments"

definition truncate_segments_end :: "metrics \<Rightarrow> row_segment list \<Rightarrow> int \<Rightarrow> row_segment list" where
  "truncate_segments_end m segments width =
     (let normalizedWidth = normalize_cells width in
      if normalizedWidth \<le> 0 then []
      else (let dots = text_segment ellipsis (text_style_from_segments segments);
                ellipsisWidth = segments_width m [dots]
            in if normalizedWidth < ellipsisWidth then hard_clip_segments m segments normalizedWidth
               else hard_clip_segments m segments (normalizedWidth - ellipsisWidth) @ [dots]))"

subsection \<open>The grid\<close>

datatype grid_key = IdentityCell | TitleCell | AgentCell | ActivityCell | MetadataCell
datatype column_role = FixedColumn | FlexColumn | SoftColumn | RightColumn
datatype column_align = AlignLeft | AlignRight
datatype column_truncate = TruncateEnd | TruncateClip | TruncateNone
datatype cell_importance = RequiredCell | MeaningfulCell | OptionalCell
datatype metadata_group = DiffGroup | PrGroup
datatype metadata_mode = FullMetadata | CompactMetadata | NoMetadata
datatype width_mode = DesiredWidth | MinimumWidth

record column_spec =
  co_key :: grid_key
  co_role :: column_role
  co_minCells :: int
  co_idealCells :: "int option"
  co_maxCells :: "int option"
  co_gapBefore :: int
  co_dropPriority :: int
  co_align :: column_align
  co_truncate :: column_truncate

record grid_cell =
  gc_segments :: "row_segment list"
  gc_importance :: cell_importance
  gc_overflow :: bool

record metadata_groups =
  mg_diff :: "row_segment list"
  mg_pr :: "row_segment list"

record grid_row =
  gw_id :: string
  gw_cells :: "grid_key \<rightharpoonup> grid_cell"
  gw_metadataGroups :: "metadata_groups option"
  gw_color :: "row_color option"

record grid_layout =
  gl_id :: string
  gl_segments :: "row_segment list"
  gl_hiddenCells :: "grid_key list"
  gl_hiddenMetadata :: "metadata_group list"

record metadata_layout =
  ml_segments :: "row_segment list"
  ml_visibleGroups :: "metadata_group list"

definition column :: "grid_key \<Rightarrow> column_role \<Rightarrow> int \<Rightarrow> int option \<Rightarrow> int option \<Rightarrow> int \<Rightarrow> int \<Rightarrow> column_align \<Rightarrow>
    column_truncate \<Rightarrow> column_spec" where
  "column key role minCells idealCells maxCells gapBefore dropPriority align trunc =
     \<lparr>co_key = key, co_role = role, co_minCells = minCells, co_idealCells = idealCells,
      co_maxCells = maxCells, co_gapBefore = gapBefore, co_dropPriority = dropPriority,
      co_align = align, co_truncate = trunc\<rparr>"

definition default_worktree_row_grid :: "column_spec list" where
  "default_worktree_row_grid =
     [column IdentityCell FixedColumn 7 (Some 7) (Some 7) 0 0 AlignLeft TruncateNone,
      column TitleCell FlexColumn 3 (Some 22) (Some 32) 0 0 AlignLeft TruncateEnd,
      column AgentCell SoftColumn 1 (Some 8) (Some 10) 2 30 AlignLeft TruncateEnd,
      column ActivityCell SoftColumn 4 (Some 12) (Some 16) 2 40 AlignLeft TruncateEnd,
      column MetadataCell RightColumn 0 None None 1 20 AlignRight TruncateNone]"

definition row_grid_cell_keys :: "grid_key list" where
  "row_grid_cell_keys = [IdentityCell, TitleCell, AgentCell, ActivityCell, MetadataCell]"

definition required_spec :: "column_spec list \<Rightarrow> grid_key \<Rightarrow> column_spec option" where
  "required_spec config key = find (\<lambda>spec. co_key spec = key) config"

fun index_of :: "('a \<Rightarrow> bool) \<Rightarrow> 'a list \<Rightarrow> nat option" where
  "index_of p [] = None"
| "index_of p (x # xs) = (if p x then Some 0 else map_option Suc (index_of p xs))"

definition spec_index :: "column_spec list \<Rightarrow> grid_key \<Rightarrow> int" where
  "spec_index config key =
     (case index_of (\<lambda>spec. co_key spec = key) config of
        None \<Rightarrow> 9007199254740991 | Some i \<Rightarrow> int i)"

definition sort_keys_by_config :: "column_spec list \<Rightarrow> grid_key list \<Rightarrow> grid_key list" where
  "sort_keys_by_config config keys =
     js_sort (\<lambda>left right. spec_index config left - spec_index config right) keys"

fun importance_in :: "cell_importance \<Rightarrow> grid_key \<Rightarrow> grid_row list \<Rightarrow> cell_importance" where
  "importance_in importance key [] = importance"
| "importance_in importance key (row # rows) =
     (case gw_cells row key of
        None \<Rightarrow> importance_in importance key rows
      | Some cell \<Rightarrow>
          (case gc_importance cell of
             RequiredCell \<Rightarrow> RequiredCell
           | MeaningfulCell \<Rightarrow> importance_in MeaningfulCell key rows
           | OptionalCell \<Rightarrow> importance_in importance key rows))"

definition column_importance :: "grid_row list \<Rightarrow> grid_key \<Rightarrow> cell_importance" where
  "column_importance rows key = importance_in OptionalCell key rows"

fun importance_rank :: "cell_importance \<Rightarrow> int" where
  "importance_rank RequiredCell = 2"
| "importance_rank MeaningfulCell = 1"
| "importance_rank OptionalCell = 0"

text \<open>The keys compared come from columns, so that the specifications exist.\<close>

definition drop_priority :: "column_spec list \<Rightarrow> grid_key \<Rightarrow> int" where
  "drop_priority config key =
     (case required_spec config key of None \<Rightarrow> 0 | Some spec \<Rightarrow> co_dropPriority spec)"

definition compare_drop_order :: "column_spec list \<Rightarrow> grid_row list \<Rightarrow> grid_key comparison" where
  "compare_drop_order config rows left right =
     or_else (importance_rank (column_importance rows left) - importance_rank (column_importance rows right))
       (or_else (drop_priority config right - drop_priority config left)
         (spec_index config left - spec_index config right))"

definition has_cell :: "grid_row list \<Rightarrow> grid_key \<Rightarrow> bool" where
  "has_cell rows key = list_ex (\<lambda>row. gw_cells row key \<noteq> None) rows"

fun drop_one_by_one :: "column_spec list \<Rightarrow> grid_key list \<Rightarrow> grid_key list \<Rightarrow> grid_key list list" where
  "drop_one_by_one config active [] = []"
| "drop_one_by_one config active (key # keys) =
     (let active' = filter (\<lambda>candidate. candidate \<noteq> key) active in
      sort_keys_by_config config active' # drop_one_by_one config active' keys)"

definition droppable_keys :: "column_spec list \<Rightarrow> grid_row list \<Rightarrow> grid_key list" where
  "droppable_keys config rows =
     js_sort (compare_drop_order config rows)
       (map co_key (filter (\<lambda>spec. co_role spec = SoftColumn \<and> has_cell rows (co_key spec)) config))"

definition required_keys :: "column_spec list \<Rightarrow> grid_key list" where
  "required_keys config =
     map co_key (filter (\<lambda>spec. co_role spec = FixedColumn \<or> co_role spec = FlexColumn) config)"

definition active_left_column_sets :: "column_spec list \<Rightarrow> grid_row list \<Rightarrow> grid_key list list" where
  "active_left_column_sets config rows =
     (let active = sort_keys_by_config config (required_keys config @ droppable_keys config rows) in
      js_unique (active # drop_one_by_one config active (droppable_keys config rows)))"

definition meaningful_soft_column_keys :: "column_spec list \<Rightarrow> grid_row list \<Rightarrow> grid_key list" where
  "meaningful_soft_column_keys config rows =
     map co_key (filter (\<lambda>spec. co_role spec = SoftColumn \<and>
       column_importance rows (co_key spec) = MeaningfulCell) config)"

subsection \<open>Column widths\<close>

definition list_max :: "int list \<Rightarrow> int" where
  "list_max xs = foldr max xs 0"

definition cell_segments :: "grid_row \<Rightarrow> grid_key \<Rightarrow> row_segment list" where
  "cell_segments row key = (case gw_cells row key of None \<Rightarrow> [] | Some cell \<Rightarrow> gc_segments cell)"

definition desired_soft_column_width :: "metrics \<Rightarrow> column_spec \<Rightarrow> grid_row list \<Rightarrow> int" where
  "desired_soft_column_width m spec rows =
     (let maxVisible = list_max (map (\<lambda>row. segments_width m (cell_segments row (co_key spec))) rows);
          ideal = nullish (co_idealCells spec) (co_minCells spec);
          desired = max (normalize_cells (co_minCells spec)) (max (normalize_cells ideal) maxVisible)
      in case co_maxCells spec of
           None \<Rightarrow> desired | Some maxCells \<Rightarrow> min desired (normalize_cells maxCells))"

definition fixed_column_width :: "column_spec \<Rightarrow> int" where
  "fixed_column_width spec =
     normalize_cells (nullish (nullish_opt (co_idealCells spec) (co_maxCells spec)) (co_minCells spec))"

definition soft_column_width :: "metrics \<Rightarrow> width_mode \<Rightarrow> column_spec \<Rightarrow> grid_row list \<Rightarrow> int" where
  "soft_column_width m mode spec rows =
     (case mode of
        DesiredWidth \<Rightarrow> desired_soft_column_width m spec rows
      | MinimumWidth \<Rightarrow> normalize_cells (co_minCells spec))"

text \<open>The first loop: widths of the fixed and soft columns, the cells used, the flexible columns.\<close>

fun assign_fixed_widths ::
  "metrics \<Rightarrow> width_mode \<Rightarrow> grid_row list \<Rightarrow> column_spec list \<Rightarrow> (grid_key \<rightharpoonup> int) \<Rightarrow> int \<Rightarrow>
     column_spec list \<Rightarrow> (grid_key \<rightharpoonup> int) \<times> int \<times> column_spec list" where
  "assign_fixed_widths m mode rows [] widths nonFlexWidth flexSpecs = (widths, nonFlexWidth, flexSpecs)"
| "assign_fixed_widths m mode rows (spec # specs) widths nonFlexWidth flexSpecs =
     (let nonFlexWidth = nonFlexWidth + normalize_cells (co_gapBefore spec) in
      case co_role spec of
        FixedColumn \<Rightarrow> (let width = fixed_column_width spec in
          assign_fixed_widths m mode rows specs (widths(co_key spec \<mapsto> width)) (nonFlexWidth + width) flexSpecs)
      | SoftColumn \<Rightarrow> (let width = soft_column_width m mode spec rows in
          assign_fixed_widths m mode rows specs (widths(co_key spec \<mapsto> width)) (nonFlexWidth + width) flexSpecs)
      | FlexColumn \<Rightarrow> assign_fixed_widths m mode rows specs widths nonFlexWidth (flexSpecs @ [spec])
      | RightColumn \<Rightarrow> assign_fixed_widths m mode rows specs widths nonFlexWidth flexSpecs)"

definition later_min :: "column_spec list \<Rightarrow> int" where
  "later_min specs = sum_list (map (\<lambda>later. normalize_cells (co_minCells later)) specs)"

fun assign_flex_widths :: "int \<Rightarrow> column_spec list \<Rightarrow> (grid_key \<rightharpoonup> int) \<Rightarrow> (grid_key \<rightharpoonup> int) option" where
  "assign_flex_widths remaining [] widths = Some widths"
| "assign_flex_widths remaining (spec # specs) widths =
     (let available = remaining - later_min specs; minimum = normalize_cells (co_minCells spec) in
      if available < minimum then None
      else (let maximum = (case co_maxCells spec of None \<Rightarrow> available | Some c \<Rightarrow> normalize_cells c);
                width = min maximum (max minimum available)
            in assign_flex_widths (remaining - width) specs (widths(co_key spec \<mapsto> width))))"

text \<open>\<open>None\<close> throws, \<open>Some None\<close> is \<^verbatim>\<open>undefined\<close>: the columns do not fit.\<close>

definition assign_left_widths ::
  "metrics \<Rightarrow> grid_key list \<Rightarrow> column_spec list \<Rightarrow> int \<Rightarrow> grid_row list \<Rightarrow> width_mode \<Rightarrow>
     (grid_key \<rightharpoonup> int) option option" where
  "assign_left_widths m activeKeys config leftBudget rows mode =
     map_option (\<lambda>activeSpecs.
       case assign_fixed_widths m mode rows activeSpecs Map.empty 0 [] of
         (widths, nonFlexWidth, flexSpecs) \<Rightarrow>
           (let flexGapWidth = sum_list (map (\<lambda>spec. normalize_cells (co_gapBefore spec)) flexSpecs);
                remaining = leftBudget - nonFlexWidth - flexGapWidth
            in if remaining < 0 then None else assign_flex_widths remaining flexSpecs widths))
       (those (map (required_spec config) (sort_keys_by_config config activeKeys)))"

subsection \<open>Rendering\<close>

definition fit_cell_segments :: "metrics \<Rightarrow> row_segment list \<Rightarrow> column_spec \<Rightarrow> int \<Rightarrow> row_segment list" where
  "fit_cell_segments m segments spec width =
     (if segments_width m segments \<le> width then segments
      else if co_truncate spec = TruncateClip \<or> co_truncate spec = TruncateNone
      then hard_clip_segments m segments width
      else truncate_segments_end m segments width)"

definition render_cell :: "metrics \<Rightarrow> grid_cell option \<Rightarrow> column_spec \<Rightarrow> int \<Rightarrow> row_segment list" where
  "render_cell m cell spec width =
     (let normalizedWidth = normalize_cells width in
      if normalizedWidth \<le> 0 then []
      else case cell of
        None \<Rightarrow> [space_segment normalizedWidth]
      | Some c \<Rightarrow>
          (let fitted = fit_cell_segments m (gc_segments c) spec normalizedWidth;
               padCells = max 0 (normalizedWidth - segments_width m fitted)
           in if padCells = 0 then fitted
              else if co_align spec = AlignRight then space_segment padCells # fitted
              else fitted @ [space_segment padCells]))"

text \<open>The columns with their specifications, as \<^verbatim>\<open>requiredSpec\<close> finds them.\<close>

definition remaining_left_column_width :: "(grid_key \<rightharpoonup> int) \<Rightarrow> column_spec list \<Rightarrow> int" where
  "remaining_left_column_width widths specs =
     sum_list (map (\<lambda>spec. normalize_cells (co_gapBefore spec) +
       normalize_cells (nullish (widths (co_key spec)) 0)) specs)"

definition render_width_for_cell ::
  "metrics \<Rightarrow> grid_cell option \<Rightarrow> int \<Rightarrow> column_spec list \<Rightarrow> grid_key \<Rightarrow> int \<Rightarrow> row_segment list \<Rightarrow> int \<Rightarrow>
     (grid_key \<rightharpoonup> int) \<Rightarrow> int" where
  "render_width_for_cell m cell columns later key metadataWidth segments sharedWidth widths =
     (let sharedWidth = normalize_cells sharedWidth in
      if key \<noteq> ActivityCell \<or> (case cell of None \<Rightarrow> True | Some c \<Rightarrow> \<not> gc_overflow c) then sharedWidth
      else (let tailWidth = remaining_left_column_width widths later;
                metadataGap = (if metadataWidth > 0 then 1 else 0);
                available = columns - segments_width m segments - tailWidth - metadataGap - metadataWidth
            in max sharedWidth (normalize_cells available)))"

fun render_left_columns ::
  "metrics \<Rightarrow> int \<Rightarrow> int \<Rightarrow> grid_row \<Rightarrow> (grid_key \<rightharpoonup> int) \<Rightarrow> column_spec list \<Rightarrow> row_segment list \<Rightarrow>
     row_segment list" where
  "render_left_columns m columns metadataWidth row widths [] segments = segments"
| "render_left_columns m columns metadataWidth row widths (spec # specs) segments =
     (let gap = normalize_cells (co_gapBefore spec);
          segments = segments @ (if gap > 0 then [space_segment gap] else []);
          cell = gw_cells row (co_key spec);
          width = render_width_for_cell m cell columns specs (co_key spec) metadataWidth segments
            (nullish (widths (co_key spec)) 0) widths
      in render_left_columns m columns metadataWidth row widths specs
           (segments @ render_cell m cell spec width))"

definition metadata_groups_of :: "grid_row \<Rightarrow> metadata_groups" where
  "metadata_groups_of row =
     (case gw_metadataGroups row of
        Some groups \<Rightarrow> groups
      | None \<Rightarrow> (case gw_cells row MetadataCell of
          None \<Rightarrow> \<lparr>mg_diff = [], mg_pr = []\<rparr>
        | Some cell \<Rightarrow> \<lparr>mg_diff = [], mg_pr = gc_segments cell\<rparr>))"

definition hidden_cells :: "grid_row \<Rightarrow> grid_key set \<Rightarrow> grid_key list" where
  "hidden_cells row activeSet =
     filter (\<lambda>key. key \<noteq> MetadataCell \<and> gw_cells row key \<noteq> None \<and> key \<notin> activeSet) row_grid_cell_keys"

definition hidden_metadata :: "metadata_groups \<Rightarrow> metadata_group list \<Rightarrow> metadata_group list" where
  "hidden_metadata metadata visible =
     (if length (mg_diff metadata) > 0 \<and> DiffGroup \<notin> set visible then [DiffGroup] else []) @
     (if length (mg_pr metadata) > 0 \<and> PrGroup \<notin> set visible then [PrGroup] else [])"

fun join_segments_with_spaces :: "row_segment list \<Rightarrow> row_segment list" where
  "join_segments_with_spaces [] = []"
| "join_segments_with_spaces [s] = [s]"
| "join_segments_with_spaces (s # t # ss) = s # space_segment 1 # join_segments_with_spaces (t # ss)"

definition empty_metadata_layout :: metadata_layout where
  "empty_metadata_layout = \<lparr>ml_segments = [], ml_visibleGroups = []\<rparr>"

definition metadata_for_mode :: "grid_row \<Rightarrow> metadata_mode \<Rightarrow> metadata_layout" where
  "metadata_for_mode row mode =
     (let groups = metadata_groups_of row in
      case mode of
        NoMetadata \<Rightarrow> empty_metadata_layout
      | CompactMetadata \<Rightarrow>
          if length (mg_pr groups) = 0 then empty_metadata_layout
          else \<lparr>ml_segments = join_segments_with_spaces (mg_pr groups), ml_visibleGroups = [PrGroup]\<rparr>
      | FullMetadata \<Rightarrow>
          \<lparr>ml_segments = join_segments_with_spaces (mg_diff groups @ mg_pr groups),
           ml_visibleGroups = (if length (mg_diff groups) > 0 then [DiffGroup] else []) @
             (if length (mg_pr groups) > 0 then [PrGroup] else [])\<rparr>)"

definition render_grid_row ::
  "metrics \<Rightarrow> grid_key list \<Rightarrow> int \<Rightarrow> column_spec list \<Rightarrow> metadata_layout \<Rightarrow> grid_row \<Rightarrow>
     (grid_key \<rightharpoonup> int) \<Rightarrow> grid_layout option" where
  "render_grid_row m activeKeys columns config metadata row widths =
     map_option (\<lambda>specs.
       let metadataWidth = segments_width m (ml_segments metadata);
           left = render_left_columns m columns metadataWidth row widths specs [];
           segments = (if metadataWidth > 0
             then left @ [space_segment (max 1 (columns - segments_width m left - metadataWidth))] @
               ml_segments metadata
             else left)
       in \<lparr>gl_id = gw_id row, gl_segments = segments,
           gl_hiddenCells = hidden_cells row (set activeKeys),
           gl_hiddenMetadata = hidden_metadata (metadata_groups_of row) (ml_visibleGroups metadata)\<rparr>)
       (those (map (required_spec config) (sort_keys_by_config config activeKeys)))"

subsection \<open>Laying out\<close>

text \<open>The rows with their metadata, one for one.\<close>

fun layout_active_sets ::
  "metrics \<Rightarrow> int \<Rightarrow> column_spec list \<Rightarrow> int \<Rightarrow> metadata_layout list \<Rightarrow> grid_row list \<Rightarrow> width_mode \<Rightarrow>
     grid_key list list \<Rightarrow> grid_layout list option option" where
  "layout_active_sets m columns config leftBudget metadata rows mode [] = Some None"
| "layout_active_sets m columns config leftBudget metadata rows mode (activeKeys # activeSets) =
     (case assign_left_widths m activeKeys config leftBudget rows mode of
        None \<Rightarrow> None
      | Some None \<Rightarrow> layout_active_sets m columns config leftBudget metadata rows mode activeSets
      | Some (Some widths) \<Rightarrow>
          map_option Some (those (map (\<lambda>(row, layout).
            render_grid_row m activeKeys columns config layout row widths) (zip rows metadata))))"

definition fallback_layout :: "metrics \<Rightarrow> int \<Rightarrow> grid_row \<Rightarrow> grid_layout" where
  "fallback_layout m columns row =
     \<lparr>gl_id = gw_id row,
      gl_segments = hard_clip_segments m (cell_segments row IdentityCell @ cell_segments row TitleCell) columns,
      gl_hiddenCells = hidden_cells row {IdentityCell, TitleCell},
      gl_hiddenMetadata = hidden_metadata (metadata_groups_of row) []\<rparr>"

definition fallback_layouts :: "metrics \<Rightarrow> int \<Rightarrow> grid_row list \<Rightarrow> grid_layout list" where
  "fallback_layouts m columns rows = map (fallback_layout m columns) rows"

definition minimum_sets :: "column_spec list \<Rightarrow> grid_row list \<Rightarrow> grid_key list list" where
  "minimum_sets config rows =
     (let activeSets = active_left_column_sets config rows;
          protectedKeys = meaningful_soft_column_keys config rows
      in if length protectedKeys = 0 then activeSets
         else js_sort (\<lambda>left right. int (length left) - int (length right))
           (filter (\<lambda>keys. list_all (\<lambda>key. key \<in> set keys) protectedKeys) activeSets))"

fun layout_modes ::
  "metrics \<Rightarrow> int \<Rightarrow> column_spec list \<Rightarrow> grid_row list \<Rightarrow> metadata_mode list \<Rightarrow> grid_layout list option" where
  "layout_modes m columns config rows [] = Some (fallback_layouts m columns rows)"
| "layout_modes m columns config rows (mode # modes) =
     (let metadata = map (\<lambda>row. metadata_for_mode row mode) rows;
          rightReserve = list_max (map (\<lambda>layout. segments_width m (ml_segments layout)) metadata);
          rightGap = (case required_spec config MetadataCell of
              None \<Rightarrow> 0
            | Some spec \<Rightarrow> if rightReserve > 0 then normalize_cells (co_gapBefore spec) else 0);
          leftBudget = columns - rightReserve - rightGap
      in if leftBudget < 0 then layout_modes m columns config rows modes
         else case layout_active_sets m columns config leftBudget metadata rows DesiredWidth
             (active_left_column_sets config rows) of
           None \<Rightarrow> None
         | Some (Some layouts) \<Rightarrow> Some layouts
         | Some None \<Rightarrow>
             (case layout_active_sets m columns config leftBudget metadata rows MinimumWidth
                 (minimum_sets config rows) of
                None \<Rightarrow> None
              | Some (Some layouts) \<Rightarrow> Some layouts
              | Some None \<Rightarrow> layout_modes m columns config rows modes))"

definition metadata_modes :: "metadata_mode list" where
  "metadata_modes = [FullMetadata, CompactMetadata, NoMetadata]"

definition layout_worktree_row_grid ::
  "metrics \<Rightarrow> int \<Rightarrow> grid_row list \<Rightarrow> column_spec list option \<Rightarrow> grid_layout list option" where
  "layout_worktree_row_grid m columns rows config =
     layout_modes m (normalize_columns columns) (nullish config default_worktree_row_grid) rows metadata_modes"

subsection \<open>A single row\<close>

record row_layout_input =
  li_columns :: int
  li_id :: "string option"
  li_slot :: "utext option"
  li_marker :: row_marker
  li_title :: utext
  li_harness :: "utext option"
  li_statusText :: "utext option"
  li_color :: "row_color option"
  li_metadata :: "metadata_groups option"

definition colored :: "row_color option \<Rightarrow> text_style" where
  "colored color = no_style\<lparr>ty_color := color\<rparr>"

definition identity_segments :: "utext option \<Rightarrow> row_marker \<Rightarrow> row_color option \<Rightarrow> row_segment list" where
  "identity_segments slot marker color =
     [text_segment (text_of '' ['' @ nullish slot (text_of '' '') @ text_of ''] '') (colored color),
      (case marker of
         ThrobberMarker variant \<Rightarrow> ThrobberSegment variant
       | TextMarker t \<Rightarrow> text_segment t (colored color)),
      text_segment (text_of '' '') (colored color)]"

definition plain_cell :: "row_segment list \<Rightarrow> cell_importance \<Rightarrow> grid_cell" where
  "plain_cell segments importance =
     \<lparr>gc_segments = segments, gc_importance = importance, gc_overflow = False\<rparr>"

definition row_input_from_legacy_layout_input :: "row_layout_input \<Rightarrow> grid_row" where
  "row_input_from_legacy_layout_input input =
     (let color = li_color input in
      \<lparr>gw_id = nullish (li_id input) ''row'',
       gw_cells = (\<lambda>key. case key of
           IdentityCell \<Rightarrow> Some (plain_cell (identity_segments (li_slot input) (li_marker input) color) RequiredCell)
         | TitleCell \<Rightarrow> Some (plain_cell [text_segment (li_title input) (colored color)] RequiredCell)
         | AgentCell \<Rightarrow> map_option (\<lambda>h. plain_cell [text_segment h (colored color)] OptionalCell) (li_harness input)
         | ActivityCell \<Rightarrow>
             map_option (\<lambda>t. plain_cell [text_segment t (colored color)] MeaningfulCell) (li_statusText input)
         | MetadataCell \<Rightarrow> None),
       gw_metadataGroups = li_metadata input, gw_color = color\<rparr>)"

text \<open>The first layout of the grid, or the first fallback; the last branch throws.\<close>

definition layout_worktree_row :: "metrics \<Rightarrow> row_layout_input \<Rightarrow> grid_layout option" where
  "layout_worktree_row m input =
     (let rowInput = row_input_from_legacy_layout_input input in
      case layout_worktree_row_grid m (li_columns input) [rowInput] None of
        None \<Rightarrow> None
      | Some (layout # _) \<Rightarrow> Some layout
      | Some [] \<Rightarrow>
          (case fallback_layouts m (normalize_columns (li_columns input)) [rowInput] of
             [] \<Rightarrow> None | fallback # _ \<Rightarrow> Some fallback))"

end
