(* ===== verification/RowLayoutProperties.thy ===== *)
theory RowLayoutProperties
  imports RowLayout
begin

section \<open>Rows fit the terminal\<close>

text \<open>
  What the layout promises: it never throws, lays out every row, and no row takes more cells than
  the terminal has columns. The proof follows the budget: the widths assigned to the left columns
  stay within what the metadata leaves, a rendered cell takes exactly its width, an activity that
  may use the row's slack takes no more than is left, and clipping respects its limit.
\<close>

subsection \<open>Sanitized text\<close>

lemma sanitize_from_clean: "c \<in> set (sanitize_from run t) \<Longrightarrow> \<not> is_line_space c"
  by (induction run t rule: sanitize_from.induct) (auto simp: is_line_space_def split: if_splits)

lemma sanitize_from_id: "\<forall>c \<in> set t. \<not> is_line_space c \<Longrightarrow> sanitize_from run t = t"
  by (induction t arbitrary: run) auto

lemma sanitize_text_id: "\<forall>c \<in> set t. \<not> is_line_space c \<Longrightarrow> sanitize_text t = t"
  by (simp add: sanitize_text_def sanitize_from_id)

lemma sanitize_text_idem [simp]: "sanitize_text (sanitize_text t) = sanitize_text t"
  by (rule sanitize_text_id) (auto simp: sanitize_text_def dest: sanitize_from_clean)

lemma sanitize_spaces [simp]: "sanitize_text (replicate n 32) = replicate n 32"
  by (rule sanitize_text_id) (simp add: is_line_space_def)

lemma normalize_cells_simps [simp]:
  "0 \<le> normalize_cells n" "normalize_cells (normalize_cells n) = normalize_cells n"
  "0 \<le> n \<Longrightarrow> normalize_cells n = n" "n < 0 \<Longrightarrow> normalize_cells n = 0"
  by (simp_all add: normalize_cells_def)

lemma width_nonneg [simp]: "0 \<le> cell_width m t" "0 \<le> segment_width m s" "0 \<le> segments_width m ss"
  by (auto simp: cell_width_def segment_width_def segments_width_def intro!: sum_list_nonneg
      split: row_segment.split)

lemma segments_width_simps [simp]:
  "segments_width m [] = 0"
  "segments_width m (s # ss) = segment_width m s + segments_width m ss"
  "segments_width m (ss @ ts) = segments_width m ss + segments_width m ts"
  by (simp_all add: segments_width_def)

lemma segment_width_simps [simp]:
  "segment_width m (ThrobberSegment v) = 1"
  "segment_width m (TextSegment t) = cell_width m (tx_text t)"
  by (simp_all add: segment_width_def)

lemma copy_text_segment_width [simp]: "segment_width m (copy_text_segment t u) = cell_width m u"
  by (simp add: copy_text_segment_def cell_width_def)

subsection \<open>What the code relies on of the text libraries\<close>

text \<open>
  A run of spaces is as wide as it is long; the graphemes of a text, put together, are the text;
  and a text cut after some of its graphemes is no wider than those graphemes. The last is an
  inequality because \<^verbatim>\<open>string-width\<close> does not count escape sequences, which may span graphemes.
\<close>

locale text_metrics =
  fixes m :: metrics
  assumes width_spaces: "mt_width m (replicate n 32) = n"
    and graphemes_concat: "concat (mt_graphemes m t) = t"
    and width_prefix: "mt_width m (concat (take k (mt_graphemes m t))) \<le>
      sum_list (map (mt_width m) (take k (mt_graphemes m t)))"
begin

lemma space_segment_width [simp]: "segment_width m (space_segment n) = normalize_cells n"
  by (simp add: space_segment_def text_segment_def cell_width_def width_spaces normalize_cells_def)

text \<open>Clipping stops after a prefix of the graphemes whose widths add up to no more than the limit.\<close>

lemma clip_graphemes_prefix:
  "\<exists>k. clip_graphemes m r gs = concat (take k gs) \<and>
     (0 \<le> r \<longrightarrow> sum_list (map (cell_width m) (take k gs)) \<le> r)"
proof (induction gs arbitrary: r)
  case Nil
  then show ?case by (auto intro: exI [of _ 0])
next
  case (Cons g gs)
  show ?case
  proof (cases "r \<le> 0 \<or> cell_width m g > r")
    case True
    then have "clip_graphemes m r (g # gs) = []" by (auto simp: Let_def)
    then show ?thesis by (intro exI [of _ 0]) simp
  next
    case False
    obtain k where "clip_graphemes m (r - cell_width m g) gs = concat (take k gs)"
        "0 \<le> r - cell_width m g \<longrightarrow> sum_list (map (cell_width m) (take k gs)) \<le> r - cell_width m g"
      using Cons by blast
    with False show ?thesis by (intro exI [of _ "Suc k"]) (simp add: Let_def)
  qed
qed

lemma sum_clean_widths:
  "\<forall>g \<in> set gs. sanitize_text g = g \<Longrightarrow>
     int (sum_list (map (mt_width m) gs)) = sum_list (map (cell_width m) gs)"
  by (induction gs) (auto simp: cell_width_def)

lemma clip_cells_width: "cell_width m (clip_cells m t n) \<le> normalize_cells n"
proof -
  let ?gs = "graphemes m t"
  obtain k where k: "clip_cells m t n = concat (take k ?gs)"
      "sum_list (map (cell_width m) (take k ?gs)) \<le> normalize_cells n"
    using clip_graphemes_prefix [of "normalize_cells n" ?gs] by (auto simp: clip_cells_def)
  have clean: "\<forall>c \<in> set (concat (take k ?gs)). \<not> is_line_space c"
  proof
    fix c
    assume "c \<in> set (concat (take k ?gs))"
    then have "c \<in> set (concat ?gs)" by (auto dest: in_set_takeD)
    then show "\<not> is_line_space c"
      by (simp add: graphemes_def graphemes_concat sanitize_text_def sanitize_from_clean)
  qed
  then have each: "\<forall>g \<in> set (take k ?gs). sanitize_text g = g"
    by (auto intro: sanitize_text_id)
  have "cell_width m (concat (take k ?gs)) = int (mt_width m (concat (take k ?gs)))"
    using clean by (simp add: cell_width_def sanitize_text_id)
  also have "\<dots> \<le> int (sum_list (map (mt_width m) (take k ?gs)))"
    using width_prefix [of k "sanitize_text t"] by (simp add: graphemes_def)
  also have "\<dots> = sum_list (map (cell_width m) (take k ?gs))"
    by (rule sum_clean_widths [OF each])
  finally show ?thesis using k by simp
qed

lemma clip_segments_width: "0 \<le> r \<Longrightarrow> segments_width m (clip_segments m r ss) \<le> r"
proof (induction ss arbitrary: r)
  case Nil
  then show ?case by simp
next
  case (Cons s ss)
  show ?case
  proof (cases s)
    case (TextSegment t)
    consider "r \<le> 0" | "0 < r" "cell_width m (tx_text t) \<le> r" | "0 < r" "r < cell_width m (tx_text t)"
      by linarith
    then show ?thesis
    proof cases
      case 2
      then show ?thesis using Cons.IH [of "r - cell_width m (tx_text t)"] TextSegment by simp
    next
      case 3
      then show ?thesis using clip_cells_width [of "tx_text t" r] TextSegment by (simp add: Let_def)
    qed (use Cons.prems TextSegment in simp)
  next
    case (ThrobberSegment v)
    then show ?thesis using Cons.IH [of "r - 1"] Cons.prems by auto
  qed
qed

lemma hard_clip_width: "segments_width m (hard_clip_segments m ss n) \<le> normalize_cells n"
  by (simp add: hard_clip_segments_def clip_segments_width)

lemma truncate_segments_end_width: "segments_width m (truncate_segments_end m ss n) \<le> normalize_cells n"
proof -
  let ?e = "segment_width m (text_segment ellipsis (text_style_from_segments ss))"
  show ?thesis
    using hard_clip_width [of ss "normalize_cells n"] hard_clip_width [of ss "normalize_cells n - ?e"]
    by (auto simp: truncate_segments_end_def Let_def)
qed

subsection \<open>Cells\<close>

lemma fit_cell_segments_width: "0 \<le> n \<Longrightarrow> segments_width m (fit_cell_segments m ss spec n) \<le> n"
  using hard_clip_width [of ss n] truncate_segments_end_width [of ss n] by (simp add: fit_cell_segments_def)

lemma render_cell_width: "segments_width m (render_cell m cell spec n) = normalize_cells n"
proof (cases "normalize_cells n \<le> 0")
  case True
  then have "normalize_cells n = 0" using normalize_cells_simps(1) [of n] by linarith
  then show ?thesis by (simp add: render_cell_def Let_def)
next
  case False
  then show ?thesis
    using fit_cell_segments_width [of "normalize_cells n"]
    by (auto simp: render_cell_def Let_def max_def split: option.split)
qed

text \<open>
  The left columns take their widths, or, when the activity uses the slack, all that the metadata
  leaves; never more than the larger of the two.
\<close>

lemma render_left_columns_width:
  "segments_width m (render_left_columns m columns metadataWidth row widths specs segments) \<le>
     max (segments_width m segments + remaining_left_column_width widths specs)
       (columns - (if metadataWidth > 0 then 1 else 0) - metadataWidth)"
proof (induction specs arbitrary: segments)
  case Nil
  then show ?case by (simp add: remaining_left_column_width_def)
next
  case (Cons spec specs)
  define gapped where "gapped = segments @
    (if normalize_cells (co_gapBefore spec) > 0 then [space_segment (normalize_cells (co_gapBefore spec))] else [])"
  define shared where "shared = normalize_cells (nullish (widths (co_key spec)) 0)"
  define tail where "tail = remaining_left_column_width widths specs"
  define limit where "limit = columns - (if metadataWidth > 0 then 1 else 0) - metadataWidth"
  define width where "width = render_width_for_cell m (gw_cells row (co_key spec)) columns specs (co_key spec)
    metadataWidth gapped (nullish (widths (co_key spec)) 0) widths"
  have gap: "segments_width m gapped = segments_width m segments + normalize_cells (co_gapBefore spec)"
    by (auto simp: gapped_def normalize_cells_def)
  have width_cases: "width = shared \<or> segments_width m gapped + width + tail = limit"
    by (auto simp: width_def render_width_for_cell_def shared_def tail_def limit_def Let_def max_def
        normalize_cells_def)
  have nonneg: "0 \<le> width" by (auto simp: width_def render_width_for_cell_def Let_def max_def normalize_cells_def)
  have total: "remaining_left_column_width widths (spec # specs) =
      normalize_cells (co_gapBefore spec) + shared + tail"
    by (simp add: remaining_left_column_width_def shared_def tail_def)
  have "segments_width m (render_left_columns m columns metadataWidth row widths (spec # specs) segments) =
      segments_width m (render_left_columns m columns metadataWidth row widths specs
        (gapped @ render_cell m (gw_cells row (co_key spec)) spec width))"
    by (simp add: Let_def gapped_def width_def)
  also have "\<dots> \<le> max (segments_width m gapped + width + tail) limit"
    using Cons [of "gapped @ render_cell m (gw_cells row (co_key spec)) spec width"] nonneg
    by (simp add: render_cell_width tail_def limit_def)
  also have "\<dots> \<le> max (segments_width m segments + remaining_left_column_width widths (spec # specs)) limit"
    using width_cases gap total by auto
  finally show ?case by (simp add: limit_def)
qed

end

subsection \<open>The widths of the left columns\<close>

lemma those_Some: "those xs = Some ys \<longleftrightarrow> xs = map Some ys"
  by (induction xs arbitrary: ys) (auto split: option.splits)

lemma list_max_nonneg [simp]: "0 \<le> list_max xs"
  by (induction xs) (auto simp: list_max_def)

lemma list_max_ge: "x \<in> set xs \<Longrightarrow> x \<le> list_max xs"
  by (induction xs) (auto simp: list_max_def)

definition width_sum :: "(grid_key \<rightharpoonup> int) \<Rightarrow> column_spec list \<Rightarrow> int" where
  "width_sum widths specs = sum_list (map (\<lambda>spec. normalize_cells (nullish (widths (co_key spec)) 0)) specs)"

definition gap_sum :: "column_spec list \<Rightarrow> int" where
  "gap_sum specs = sum_list (map (\<lambda>spec. normalize_cells (co_gapBefore spec)) specs)"

lemma width_sum_simps [simp]:
  "width_sum w [] = 0"
  "width_sum w (s # ss) = normalize_cells (nullish (w (co_key s)) 0) + width_sum w ss"
  "width_sum w (ss @ ts) = width_sum w ss + width_sum w ts"
  "gap_sum [] = 0" "gap_sum (s # ss) = normalize_cells (co_gapBefore s) + gap_sum ss"
  by (simp_all add: width_sum_def gap_sum_def)

lemma gap_sum_nonneg [simp]: "0 \<le> gap_sum ss"
  by (auto simp: gap_sum_def intro!: sum_list_nonneg)

lemma later_min_nonneg [simp]: "0 \<le> later_min ss"
  by (auto simp: later_min_def intro!: sum_list_nonneg)

lemma remaining_left_column_width_eq: "remaining_left_column_width w ss = gap_sum ss + width_sum w ss"
  by (induction ss) (simp_all add: remaining_left_column_width_def)

lemma width_sum_cong: "(\<And>s. s \<in> set ss \<Longrightarrow> w (co_key s) = w' (co_key s)) \<Longrightarrow> width_sum w ss = width_sum w' ss"
  by (induction ss) auto

definition is_flex :: "column_spec \<Rightarrow> bool" where
  "is_flex spec = (co_role spec = FlexColumn)"

lemma width_sum_partition: "width_sum w ss = width_sum w (filter is_flex ss) + width_sum w (filter (\<lambda>s. \<not> is_flex s) ss)"
  by (induction ss) auto

lemma column_width_nonneg [simp]: "0 \<le> fixed_column_width s" "0 \<le> soft_column_width m mode s rows"
  by (auto simp: fixed_column_width_def soft_column_width_def desired_soft_column_width_def Let_def
      intro: max.coboundedI1 split: width_mode.split option.split)

lemma assign_fixed_widths_spec:
  assumes "assign_fixed_widths m mode rows specs w n fl = (w', n', fl')"
    and "distinct (map co_key specs)" and "\<forall>s \<in> set specs. co_role s \<noteq> RightColumn"
  shows "n' = n + gap_sum specs + width_sum w' (filter (\<lambda>s. \<not> is_flex s) specs) \<and>
    fl' = fl @ filter is_flex specs \<and> (\<forall>k. k \<notin> co_key ` set specs \<longrightarrow> w' k = w k)"
  using assms
proof (induction specs arbitrary: w n fl)
  case Nil
  then show ?case by simp
next
  case (Cons s ss)
  show ?case
  proof (cases "is_flex s")
    case True
    with Cons.prems(1) have "assign_fixed_widths m mode rows ss w (n + normalize_cells (co_gapBefore s))
        (fl @ [s]) = (w', n', fl')"
      by (simp add: is_flex_def Let_def)
    from Cons.IH [OF this] Cons.prems(2,3) True show ?thesis by auto
  next
    case False
    define width where "width = (if co_role s = FixedColumn then fixed_column_width s
      else soft_column_width m mode s rows)"
    have rest: "assign_fixed_widths m mode rows ss (w(co_key s \<mapsto> width))
        (n + normalize_cells (co_gapBefore s) + width) fl = (w', n', fl')"
      using False Cons.prems(1,3) by (cases "co_role s") (simp_all add: is_flex_def width_def Let_def)
    have "co_key s \<notin> co_key ` set ss" using Cons.prems(2) by simp
    with Cons.IH [OF rest] Cons.prems(2,3) have "w' (co_key s) = Some width" by simp
    moreover have "0 \<le> width" by (simp add: width_def)
    ultimately show ?thesis using Cons.IH [OF rest] Cons.prems(2,3) False by auto
  qed
qed

lemma assign_flex_widths_spec:
  assumes "assign_flex_widths r specs w = Some w'" and "distinct (map co_key specs)" and "0 \<le> r"
  shows "width_sum w' specs \<le> r \<and> (\<forall>k. k \<notin> co_key ` set specs \<longrightarrow> w' k = w k)"
  using assms
proof (induction specs arbitrary: r w)
  case Nil
  then show ?case by simp
next
  case (Cons s ss)
  define available where "available = r - later_min ss"
  define width where "width = min (case co_maxCells s of None \<Rightarrow> available | Some c \<Rightarrow> normalize_cells c)
    (max (normalize_cells (co_minCells s)) available)"
  have fits: "normalize_cells (co_minCells s) \<le> available"
    and rest: "assign_flex_widths (r - width) ss (w(co_key s \<mapsto> width)) = Some w'"
    using Cons.prems(1) by (auto simp: Let_def available_def width_def split: if_splits option.splits)
  have "0 \<le> available" using fits normalize_cells_simps(1) [of "co_minCells s"] by linarith
  then have width: "0 \<le> width" "width \<le> available"
    using fits by (auto simp: width_def split: option.split)
  then have "0 \<le> r - width" using later_min_nonneg [of ss] unfolding available_def by linarith
  with Cons.IH [OF rest] Cons.prems(2) have IH: "width_sum w' ss \<le> r - width"
      "\<forall>k. k \<notin> co_key ` set ss \<longrightarrow> w' k = (w(co_key s \<mapsto> width)) k" by auto
  have "co_key s \<notin> co_key ` set ss" using Cons.prems(2) by simp
  with IH(2) have "w' (co_key s) = Some width" by simp
  with IH width show ?case by auto
qed

lemma assign_left_widths_fit:
  assumes "assign_left_widths m keys config budget rows mode = Some (Some widths)"
    and "those (map (required_spec config) (sort_keys_by_config config keys)) = Some specs"
    and "distinct (map co_key specs)" and "\<forall>s \<in> set specs. co_role s \<noteq> RightColumn"
  shows "remaining_left_column_width widths specs \<le> budget"
proof -
  obtain w n fl where a: "assign_fixed_widths m mode rows specs Map.empty 0 [] = (w, n, fl)"
    by (rule prod_cases3)
  from assign_fixed_widths_spec [OF a assms(3,4)]
  have n: "n = gap_sum specs + width_sum w (filter (\<lambda>s. \<not> is_flex s) specs)" and fl: "fl = filter is_flex specs"
    by simp_all
  from assms(1,2) a have rem: "0 \<le> budget - n - gap_sum fl"
      and flex: "assign_flex_widths (budget - n - gap_sum fl) fl w = Some widths"
    by (auto simp: assign_left_widths_def Let_def gap_sum_def split: if_splits)
  have "distinct (map co_key fl)" using assms(3) by (simp add: fl distinct_map_filter)
  from assign_flex_widths_spec [OF flex this rem]
  have bound: "width_sum widths fl \<le> budget - n - gap_sum fl"
    and keep: "\<forall>k. k \<notin> co_key ` set fl \<longrightarrow> widths k = w k" by auto
  have "width_sum widths (filter (\<lambda>s. \<not> is_flex s) specs) = width_sum w (filter (\<lambda>s. \<not> is_flex s) specs)"
  proof (rule width_sum_cong)
    fix s
    assume s: "s \<in> set (filter (\<lambda>s. \<not> is_flex s) specs)"
    then have "co_key s \<notin> co_key ` set fl"
      using assms(3) by (auto simp: fl distinct_map inj_on_def)
    then show "widths (co_key s) = w (co_key s)" using keep by simp
  qed
  then show ?thesis
    using bound n gap_sum_nonneg [of fl] width_sum_partition [of widths specs]
    unfolding remaining_left_column_width_eq fl by linarith
qed

subsection \<open>The active columns\<close>

text \<open>
  A configuration as the code expects it: one column per key, and a metadata column with a gap
  before it that is on the right and alone there.
\<close>

definition valid_grid :: "column_spec list \<Rightarrow> bool" where
  "valid_grid config =
     (distinct (map co_key config) \<and>
      list_all (\<lambda>spec. co_role spec = RightColumn \<longleftrightarrow> co_key spec = MetadataCell) config \<and>
      (case required_spec config MetadataCell of None \<Rightarrow> False | Some spec \<Rightarrow> 1 \<le> co_gapBefore spec))"

lemma required_spec_key:
  assumes "distinct (map co_key config)" "spec \<in> set config"
  shows "required_spec config (co_key spec) = Some spec"
  using assms unfolding required_spec_def
  by (induction config) (auto simp: image_iff)

lemma required_spec_Some: "required_spec config key = Some spec \<Longrightarrow> spec \<in> set config \<and> co_key spec = key"
  by (auto simp: required_spec_def find_Some_iff)

definition left_keys :: "column_spec list \<Rightarrow> grid_key set" where
  "left_keys config = co_key ` {spec \<in> set config. co_role spec \<noteq> RightColumn}"

lemma specs_of_keys:
  assumes "distinct (map co_key config)" and "set keys \<subseteq> left_keys config"
  shows "\<exists>specs. those (map (required_spec config) keys) = Some specs \<and> map co_key specs = keys \<and>
    (\<forall>s \<in> set specs. co_role s \<noteq> RightColumn)"
  using assms(2)
proof (induction keys)
  case Nil
  then show ?case by simp
next
  case (Cons k ks)
  then obtain spec where spec: "spec \<in> set config" "co_role spec \<noteq> RightColumn" "k = co_key spec"
    by (auto simp: left_keys_def)
  with Cons show ?case by (auto simp: required_spec_key [OF assms(1)])
qed

definition good_keys :: "column_spec list \<Rightarrow> grid_key list \<Rightarrow> bool" where
  "good_keys config keys = (distinct keys \<and> set keys \<subseteq> left_keys config)"

lemma distinct_js_sort_iff: "distinct (js_sort cmp xs) = distinct xs"
  by (metis mset_js_sort mset_eq_imp_distinct_iff)

lemma good_keys_sort [simp]: "good_keys config (sort_keys_by_config config keys) = good_keys config keys"
  by (simp add: good_keys_def sort_keys_by_config_def distinct_js_sort_iff)

lemma good_keys_filter: "good_keys config keys \<Longrightarrow> good_keys config (filter P keys)"
  by (auto simp: good_keys_def)

lemma drop_one_by_one_good:
  "good_keys config active \<Longrightarrow> keys' \<in> set (drop_one_by_one config active keys) \<Longrightarrow> good_keys config keys'"
  by (induction config active keys rule: drop_one_by_one.induct) (auto simp: Let_def good_keys_filter)

lemma active_left_column_sets_good:
  assumes "distinct (map co_key config)" and "keys \<in> set (active_left_column_sets config rows)"
  shows "good_keys config keys"
proof -
  let ?req = "filter (\<lambda>spec. co_role spec = FixedColumn \<or> co_role spec = FlexColumn) config"
  let ?soft = "filter (\<lambda>spec. co_role spec = SoftColumn \<and> has_cell rows (co_key spec)) config"
  have same: "a = b" if "a \<in> set config" "b \<in> set config" "co_key a = co_key b" for a b
    using assms(1) that by (auto simp: distinct_map inj_on_def)
  have "co_key a \<noteq> co_key b" if "a \<in> set ?req" "b \<in> set ?soft" for a b
    using same [of a b] that by auto
  then have "set (map co_key ?req) \<inter> set (map co_key ?soft) = {}" unfolding set_map by blast
  then have "distinct (map co_key (?req @ ?soft))"
    using assms(1) by (simp add: distinct_map_filter)
  moreover have "set (map co_key (?req @ ?soft)) \<subseteq> left_keys config" by (auto simp: left_keys_def)
  ultimately have "good_keys config (required_keys config @ droppable_keys config rows)"
    by (simp add: good_keys_def required_keys_def droppable_keys_def distinct_js_sort_iff)
  then show ?thesis
    using assms(2) by (auto simp: active_left_column_sets_def Let_def intro: drop_one_by_one_good [rotated])
qed

lemma minimum_sets_good:
  "distinct (map co_key config) \<Longrightarrow> keys \<in> set (minimum_sets config rows) \<Longrightarrow> good_keys config keys"
  by (auto simp: minimum_sets_def Let_def intro: active_left_column_sets_good split: if_splits)

subsection \<open>Rows within the columns\<close>

context text_metrics
begin

lemma render_grid_row_fits:
  assumes "valid_grid config" and "good_keys config keys" and "0 < columns"
    and "assign_left_widths m keys config budget rows mode = Some (Some widths)"
    and "budget \<le> columns" and "segments_width m (ml_segments metadata) > 0 \<Longrightarrow>
      budget \<le> columns - segments_width m (ml_segments metadata) - 1"
  shows "\<exists>layout. render_grid_row m keys columns config metadata row widths = Some layout \<and>
    gl_id layout = gw_id row \<and> segments_width m (gl_segments layout) \<le> columns"
proof -
  let ?meta = "segments_width m (ml_segments metadata)"
  have good: "good_keys config (sort_keys_by_config config keys)" using assms(2) by simp
  then obtain specs where specs: "those (map (required_spec config) (sort_keys_by_config config keys)) = Some specs"
      "map co_key specs = sort_keys_by_config config keys" "\<forall>s \<in> set specs. co_role s \<noteq> RightColumn"
    using specs_of_keys [of config "sort_keys_by_config config keys"] assms(1)
    by (auto simp: valid_grid_def good_keys_def)
  have "distinct (map co_key specs)" using good specs(2) by (simp add: good_keys_def)
  from assign_left_widths_fit [OF assms(4) specs(1) this specs(3)]
  have left: "remaining_left_column_width widths specs \<le> budget" .
  define left where "left = render_left_columns m columns ?meta row widths specs []"
  have "segments_width m left \<le> max (remaining_left_column_width widths specs)
      (columns - (if ?meta > 0 then 1 else 0) - ?meta)"
    using render_left_columns_width [of columns ?meta row widths specs "[]"] by (simp add: left_def)
  with left have "segments_width m left \<le> max budget (columns - (if ?meta > 0 then 1 else 0) - ?meta)"
    by linarith
  then have "segments_width m (if ?meta > 0
      then left @ [space_segment (max 1 (columns - segments_width m left - ?meta))] @ ml_segments metadata
      else left) \<le> columns"
  proof (cases "?meta > 0")
    case True
    with \<open>segments_width m left \<le> max budget _\<close> assms(6) [OF True]
    have "segments_width m left \<le> columns - 1 - ?meta" by (simp add: max_def split: if_splits)
    with True show ?thesis by (simp add: max_def normalize_cells_def)
  next
    case False
    then have "?meta = 0" using width_nonneg(3) [of m "ml_segments metadata"] by linarith
    with \<open>segments_width m left \<le> max budget _\<close> assms(5) show ?thesis
      by (simp add: max_def split: if_splits)
  qed
  then show ?thesis using specs(1) by (auto simp: render_grid_row_def Let_def left_def split: if_splits)
qed

lemma those_map_fits:
  assumes "\<And>x. x \<in> set xs \<Longrightarrow> \<exists>y. f x = Some y \<and> P x y"
  shows "\<exists>ys. those (map f xs) = Some ys \<and> list_all2 P xs ys"
  using assms
proof (induction xs)
  case Nil
  then show ?case by simp
next
  case (Cons x xs)
  then obtain y ys where "f x = Some y" "P x y" "those (map f xs) = Some ys" "list_all2 P xs ys"
    by (metis list.set_intros(1) list.set_intros(2))
  then show ?case by simp
qed

definition row_fits :: "int \<Rightarrow> grid_row \<Rightarrow> grid_layout \<Rightarrow> bool" where
  "row_fits columns row layout =
     (gl_id layout = gw_id row \<and> segments_width m (gl_segments layout) \<le> columns)"

lemma layout_active_sets_fit:
  assumes "valid_grid config" and "\<forall>keys \<in> set activeSets. good_keys config keys" and "0 < columns"
    and "budget \<le> columns" and "length metadata = length rows"
    and "\<And>layout. layout \<in> set metadata \<Longrightarrow> segments_width m (ml_segments layout) > 0 \<Longrightarrow>
      budget \<le> columns - segments_width m (ml_segments layout) - 1"
  shows "\<exists>result. layout_active_sets m columns config budget metadata rows mode activeSets = Some result \<and>
    (\<forall>layouts. result = Some layouts \<longrightarrow> list_all2 (row_fits columns) rows layouts)"
  using assms(2)
proof (induction activeSets)
  case Nil
  then show ?case by simp
next
  case (Cons keys sets)
  then have good: "good_keys config (sort_keys_by_config config keys)" by simp
  then obtain specs where "those (map (required_spec config) (sort_keys_by_config config keys)) = Some specs"
    using specs_of_keys [of config "sort_keys_by_config config keys"] assms(1)
    by (auto simp: valid_grid_def good_keys_def)
  then obtain r where r: "assign_left_widths m keys config budget rows mode = Some r"
    by (simp add: assign_left_widths_def)
  show ?case
  proof (cases r)
    case None
    with r Cons show ?thesis by simp
  next
    case (Some widths)
    let ?f = "\<lambda>(row, layout). render_grid_row m keys columns config layout row widths"
    have "\<exists>y. ?f x = Some y \<and> row_fits columns (fst x) y" if "x \<in> set (zip rows metadata)" for x
    proof -
      obtain row layout where x: "x = (row, layout)" by (cases x)
      with that have "layout \<in> set metadata" by (auto dest: set_zip_rightD)
      then show ?thesis
        using render_grid_row_fits [OF assms(1) _ assms(3) r [unfolded Some] assms(4), of layout row]
          assms(6) [of layout] Cons.prems by (auto simp: x row_fits_def)
    qed
    from those_map_fits [of "zip rows metadata" ?f "\<lambda>x. row_fits columns (fst x)", OF this] obtain ys where ys: "those (map ?f (zip rows metadata)) = Some ys"
        "list_all2 (\<lambda>x. row_fits columns (fst x)) (zip rows metadata) ys" by blast
    then have "list_all2 (row_fits columns) (map fst (zip rows metadata)) ys"
      by (simp add: list_all2_map1)
    with ys(1) r Some assms(5) show ?thesis by (simp add: case_prod_unfold)
  qed
qed

lemma layout_modes_fit:
  assumes "valid_grid config" and "0 < columns"
  shows "\<exists>layouts. layout_modes m columns config rows modes = Some layouts \<and>
    list_all2 (row_fits columns) rows layouts"
proof (induction modes)
  case Nil
  have "row_fits columns row (fallback_layout m columns row)" for row
    using hard_clip_width [of "cell_segments row IdentityCell @ cell_segments row TitleCell" columns] assms(2)
    by (simp add: row_fits_def fallback_layout_def)
  then show ?case by (simp add: fallback_layouts_def list_all2_map2 list.rel_refl)
next
  case (Cons mode modes)
  define metadata where "metadata = map (\<lambda>row. metadata_for_mode row mode) rows"
  define reserve where "reserve = list_max (map (\<lambda>layout. segments_width m (ml_segments layout)) metadata)"
  define gap where "gap = (case required_spec config MetadataCell of
      None \<Rightarrow> 0 | Some spec \<Rightarrow> if reserve > 0 then normalize_cells (co_gapBefore spec) else 0)"
  define budget where "budget = columns - reserve - gap"
  have "0 \<le> reserve" by (simp add: reserve_def)
  have gap: "0 \<le> gap" "reserve > 0 \<longrightarrow> 1 \<le> gap"
    using assms(1) by (auto simp: gap_def valid_grid_def normalize_cells_def split: option.splits)
  then have "budget \<le> columns" using \<open>0 \<le> reserve\<close> by (simp add: budget_def)
  moreover have "budget \<le> columns - segments_width m (ml_segments layout) - 1"
    if "layout \<in> set metadata" "segments_width m (ml_segments layout) > 0" for layout
  proof -
    have "segments_width m (ml_segments layout) \<le> reserve"
      using that(1) by (auto simp: reserve_def intro!: list_max_ge)
    with that(2) gap(2) show ?thesis by (simp add: budget_def)
  qed
  moreover have "length metadata = length rows" by (simp add: metadata_def)
  ultimately have fit: "\<exists>result. layout_active_sets m columns config budget metadata rows wm sets = Some result \<and>
      (\<forall>layouts. result = Some layouts \<longrightarrow> list_all2 (row_fits columns) rows layouts)"
    if "\<forall>keys \<in> set sets. good_keys config keys" for wm sets
    using layout_active_sets_fit [OF assms(1) that assms(2)] by blast
  have distinct: "distinct (map co_key config)" using assms(1) by (simp add: valid_grid_def)
  obtain desired where desired: "layout_active_sets m columns config budget metadata rows DesiredWidth
      (active_left_column_sets config rows) = Some desired"
      "\<forall>layouts. desired = Some layouts \<longrightarrow> list_all2 (row_fits columns) rows layouts"
    using fit active_left_column_sets_good [OF distinct] by blast
  obtain minimum where minimum: "layout_active_sets m columns config budget metadata rows MinimumWidth
      (minimum_sets config rows) = Some minimum"
      "\<forall>layouts. minimum = Some layouts \<longrightarrow> list_all2 (row_fits columns) rows layouts"
    using fit minimum_sets_good [OF distinct] by blast
  have "layout_modes m columns config rows (mode # modes) =
      (if budget < 0 then layout_modes m columns config rows modes
       else case desired of Some layouts \<Rightarrow> Some layouts
         | None \<Rightarrow> (case minimum of Some layouts \<Rightarrow> Some layouts
           | None \<Rightarrow> layout_modes m columns config rows modes))"
    unfolding layout_modes.simps(2) Let_def metadata_def [symmetric] reserve_def [symmetric]
      gap_def [symmetric] budget_def [symmetric]
    by (simp only: desired(1) minimum(1) option.case split: option.split)
  then show ?case using Cons desired(2) minimum(2) by (auto split: option.split)
qed

end

lemma grid_fits:
  assumes "text_metrics m" and "valid_grid (nullish config default_worktree_row_grid)"
  shows "\<exists>layouts. layout_worktree_row_grid m columns rows config = Some layouts \<and>
    map gl_id layouts = map gw_id rows \<and>
    (\<forall>layout \<in> set layouts. segments_width m (gl_segments layout) \<le> max 1 columns)"
proof -
  have "0 < normalize_columns columns" by (simp add: normalize_columns_def)
  from text_metrics.layout_modes_fit [OF assms this, of rows metadata_modes]
  obtain layouts where l: "layout_worktree_row_grid m columns rows config = Some layouts"
      "list_all2 (text_metrics.row_fits m (normalize_columns columns)) rows layouts"
    by (auto simp: layout_worktree_row_grid_def)
  then have "map gl_id layouts = map gw_id rows"
    by (auto simp: list_all2_conv_all_nth text_metrics.row_fits_def [OF assms(1)] intro: nth_equalityI)
  moreover have "segments_width m (gl_segments layout) \<le> max 1 columns" if "layout \<in> set layouts" for layout
    using l(2) that
    by (auto simp: list_all2_conv_all_nth text_metrics.row_fits_def [OF assms(1)] in_set_conv_nth
        normalize_columns_def)
  ultimately show ?thesis using l(1) by blast
qed

lemma default_grid_valid: "valid_grid default_worktree_row_grid"
  by code_simp

text \<open>A single row fits as well, and the error for a missing fallback is never reached.\<close>

lemma single_row_fits:
  assumes "text_metrics m"
  shows "\<exists>layout. layout_worktree_row m input = Some layout \<and>
    segments_width m (gl_segments layout) \<le> max 1 (li_columns input)"
proof -
  have "valid_grid (nullish None default_worktree_row_grid)" by (simp add: default_grid_valid)
  from grid_fits [OF assms this, of "li_columns input" "[row_input_from_legacy_layout_input input]"]
  show ?thesis by (auto simp: layout_worktree_row_def Let_def)
qed

text \<open>
  The metrics of the witnesses: the graphemes are the code points, as in the fallback of
  \<open>graphemes\<close> without a segmenter, and a code point from the Hangul and ideographic planes takes
  two cells.
\<close>

definition code_point_metrics :: metrics where
  "code_point_metrics =
     \<lparr>mt_width = (\<lambda>t. sum_list (map (\<lambda>c. if 4352 \<le> c then 2 else 1) t)),
      mt_graphemes = map (\<lambda>c. [c])\<rparr>"

interpretation code_points: text_metrics code_point_metrics
proof
  show "mt_width code_point_metrics (replicate n 32) = n" for n
    by (induction n) (simp_all add: code_point_metrics_def)
  show "concat (mt_graphemes code_point_metrics t) = t" for t
    by (induction t) (simp_all add: code_point_metrics_def)
  show "mt_width code_point_metrics (concat (take k (mt_graphemes code_point_metrics t))) \<le>
      sum_list (map (mt_width code_point_metrics) (take k (mt_graphemes code_point_metrics t)))" for k t
  proof (induction t arbitrary: k)
    case Nil
    then show ?case by (simp add: code_point_metrics_def)
  next
    case (Cons c cs)
    then show ?case by (cases k) (simp_all add: code_point_metrics_def)
  qed
qed

text \<open>C40: Rows fit the terminal: for every width of the terminal and all rows, whatever their texts, the
  layout returns (it never throws) one layout per row in order, and no row is wider than the
  terminal; the default grid is one of the configurations for which this holds.\<close>

theorem rows_fit_the_terminal:
  assumes "text_metrics m" and "valid_grid (nullish config default_worktree_row_grid)"
  shows "\<exists>layouts. layout_worktree_row_grid m columns rows config = Some layouts \<and>
    map gl_id layouts = map gw_id rows \<and>
    (\<forall>layout \<in> set layouts. segments_width m (gl_segments layout) \<le> max 1 columns)"
  using assms by (rule grid_fits)

definition sample_row :: grid_row where
  "sample_row = row_input_from_legacy_layout_input
     \<lparr>li_columns = 12, li_id = Some ''w'', li_slot = Some (text_of ''1''), li_marker = ThrobberMarker Braille,
      li_title = text_of ''feature/long-branch-name'', li_harness = Some (text_of ''claude''),
      li_statusText = Some (text_of ''working''), li_color = Some ColorGreen, li_metadata = None\<rparr>"

text \<open>The row at 12 columns with the default grid.\<close>

theorem rows_fit_the_terminal_witness:
  "\<exists>layouts. layout_worktree_row_grid code_point_metrics 12 [sample_row] None = Some layouts \<and>
    map gl_id layouts = map gw_id [sample_row] \<and>
    (\<forall>layout \<in> set layouts. segments_width code_point_metrics (gl_segments layout) \<le> max 1 12)"
  by (rule rows_fit_the_terminal [OF code_points.text_metrics_axioms])
    (simp add: default_grid_valid)

end
