(* ===== verification/Effects.thy ===== *)
theory Effects
  imports Boundary
begin

section \<open>Asynchronous code against the outside world\<close>

text \<open>
  An asynchronous function that calls providers, reads the clock and may throw is an action: it
  takes a world and returns what it throws (left) or returns (right) with the world after it. A
  world is the number of things observed so far, which is the time the outside world answers at,
  and the calls made, each with its answer. Two observations never happen at the same time, so that
  an outside world which is a function of the time may answer anything anywhere. The weakest
  precondition of an action, with one rule per construct, carries the proofs.
\<close>

record 'e world =
  wd_time :: nat
  wd_events :: "'e list"

type_synonym ('e, 'a) action = "'e world \<Rightarrow> (thrown + 'a) \<times> 'e world"

definition tick :: "'e world \<Rightarrow> 'e world" where
  "tick w = w\<lparr>wd_time := wd_time w + 1\<rparr>"

definition give :: "'a \<Rightarrow> ('e, 'a) action" where
  "give x w = (Inr x, w)"

definition throw :: "thrown \<Rightarrow> ('e, 'a) action" where
  "throw v w = (Inl v, w)"

definition and_then :: "('e, 'a) action \<Rightarrow> ('a \<Rightarrow> ('e, 'b) action) \<Rightarrow> ('e, 'b) action" where
  "and_then m f w = (case m w of (Inl v, w') \<Rightarrow> (Inl v, w') | (Inr x, w') \<Rightarrow> f x w')"

definition catching :: "('e, 'a) action \<Rightarrow> (thrown \<Rightarrow> ('e, 'a) action) \<Rightarrow> ('e, 'a) action" where
  "catching m h w = (case m w of (Inl v, w') \<Rightarrow> h v w' | (Inr x, w') \<Rightarrow> (Inr x, w'))"

text \<open>Handling what an action throws and going on with what it returns, the latter outside the handler.\<close>

definition branching ::
  "('e, 'a) action \<Rightarrow> (thrown \<Rightarrow> ('e, 'b) action) \<Rightarrow> ('a \<Rightarrow> ('e, 'b) action) \<Rightarrow> ('e, 'b) action" where
  "branching m h f w = (case m w of (Inl v, w') \<Rightarrow> h v w' | (Inr x, w') \<Rightarrow> f x w')"

text \<open>An observation of the outside world: the clock, whether a signal is aborted.\<close>

definition observe :: "(nat \<Rightarrow> 'a) \<Rightarrow> ('e, 'a) action" where
  "observe f w = (Inr (f (wd_time w)), tick w)"

text \<open>A call: the outside world answers, and the call is on record with its answer.\<close>

definition ask :: "(nat \<Rightarrow> 'a) \<Rightarrow> ('a \<Rightarrow> 'e) \<Rightarrow> ('e, 'a) action" where
  "ask answer event w =
     (let x = answer (wd_time w) in (Inr x, (tick w)\<lparr>wd_events := wd_events w @ [event x]\<rparr>))"

definition settle :: "thrown + 'a \<Rightarrow> ('e, 'a) action" where
  "settle r w = (r, w)"

text \<open>A call whose answer is what it throws, if it throws.\<close>

definition ask_throwing :: "(nat \<Rightarrow> thrown option) \<Rightarrow> (thrown option \<Rightarrow> 'e) \<Rightarrow> ('e, unit) action" where
  "ask_throwing answer event =
     and_then (ask answer event) (\<lambda>x. case x of None \<Rightarrow> give () | Some v \<Rightarrow> throw v)"

text \<open>A thrown error object.\<close>

definition throw_error :: "safe_error \<Rightarrow> ('e, 'a) action" where
  "throw_error e = throw (ThrownObject e None)"

subsection \<open>Weakest preconditions\<close>

definition wp :: "('e, 'a) action \<Rightarrow> (thrown + 'a \<Rightarrow> 'e world \<Rightarrow> bool) \<Rightarrow> 'e world \<Rightarrow> bool" where
  "wp m Q w = (case m w of (r, w') \<Rightarrow> Q r w')"

named_theorems wp_rules

lemma wpI: "(\<And>r w'. m w = (r, w') \<Longrightarrow> Q r w') \<Longrightarrow> wp m Q w"
  by (simp add: wp_def split: prod.split)

lemma wpD: "wp m Q w \<Longrightarrow> m w = (r, w') \<Longrightarrow> Q r w'"
  by (simp add: wp_def)

lemma wp_mono: "wp m P w \<Longrightarrow> (\<And>r w'. P r w' \<Longrightarrow> Q r w') \<Longrightarrow> wp m Q w"
  by (simp add: wp_def split: prod.splits)

lemma wp_give [wp_rules]: "wp (give x) Q w = Q (Inr x) w"
  by (simp add: wp_def give_def)

lemma wp_throw [wp_rules]: "wp (throw v) Q w = Q (Inl v) w"
  by (simp add: wp_def throw_def)

lemma wp_settle [wp_rules]: "wp (settle r) Q w = Q r w"
  by (simp add: wp_def settle_def)

lemma wp_throw_error [wp_rules]: "wp (throw_error e) Q w = Q (Inl (ThrownObject e None)) w"
  by (simp add: throw_error_def wp_throw)

lemma wp_and_then [wp_rules]:
  "wp (and_then m f) Q w = wp m (\<lambda>r. case r of Inl v \<Rightarrow> Q (Inl v) | Inr x \<Rightarrow> wp (f x) Q) w"
  by (simp add: wp_def and_then_def split: prod.split sum.split)

lemma wp_catching [wp_rules]:
  "wp (catching m h) Q w = wp m (\<lambda>r. case r of Inl v \<Rightarrow> wp (h v) Q | Inr x \<Rightarrow> Q (Inr x)) w"
  by (simp add: wp_def catching_def split: prod.split sum.split)

lemma wp_branching [wp_rules]:
  "wp (branching m h f) Q w = wp m (\<lambda>r. case r of Inl v \<Rightarrow> wp (h v) Q | Inr x \<Rightarrow> wp (f x) Q) w"
  by (simp add: wp_def branching_def split: prod.split sum.split)

lemma wp_observe [wp_rules]: "wp (observe f) Q w = Q (Inr (f (wd_time w))) (tick w)"
  by (simp add: wp_def observe_def)

lemma wp_ask [wp_rules]:
  "wp (ask answer event) Q w =
     Q (Inr (answer (wd_time w))) ((tick w)\<lparr>wd_events := wd_events w @ [event (answer (wd_time w))]\<rparr>)"
  by (simp add: wp_def ask_def Let_def)

lemma wp_if [wp_rules]: "wp (if b then m else n) Q w = (if b then wp m Q w else wp n Q w)"
  by simp

lemma wp_option [wp_rules]:
  "wp (case x of None \<Rightarrow> m | Some y \<Rightarrow> f y) Q w = (case x of None \<Rightarrow> wp m Q w | Some y \<Rightarrow> wp (f y) Q w)"
  by (simp split: option.split)

lemma wp_sum [wp_rules]:
  "wp (case x of Inl v \<Rightarrow> f v | Inr y \<Rightarrow> g y) Q w = (case x of Inl v \<Rightarrow> wp (f v) Q w | Inr y \<Rightarrow> wp (g y) Q w)"
  by (simp split: sum.split)

lemma tick_simps [simp]: "wd_time (tick w) = wd_time w + 1" "wd_events (tick w) = wd_events w"
  by (simp_all add: tick_def)

subsection \<open>Signals\<close>

text \<open>
  An abort signal answers, at a time, the reason it was aborted for, if it was. A reason that is
  missing is the cancellation error.
\<close>

type_synonym abort_signal = "nat \<Rightarrow> thrown option"

definition throw_if_aborted :: "abort_signal \<Rightarrow> ('e, unit) action" where
  "throw_if_aborted signal =
     and_then (observe signal) (\<lambda>aborted. case aborted of None \<Rightarrow> give () | Some reason \<Rightarrow> throw reason)"

definition throw_if_present_aborted :: "abort_signal option \<Rightarrow> ('e, unit) action" where
  "throw_if_present_aborted signal =
     (case signal of None \<Rightarrow> give () | Some s \<Rightarrow> throw_if_aborted s)"

definition not_aborted :: "abort_signal option \<Rightarrow> bool" where
  "not_aborted signal = (case signal of None \<Rightarrow> True | Some s \<Rightarrow> (\<forall>t. s t = None))"

lemma wp_throw_if_aborted [wp_rules]:
  "wp (throw_if_aborted signal) Q w =
     (case signal (wd_time w) of None \<Rightarrow> Q (Inr ()) (tick w) | Some reason \<Rightarrow> Q (Inl reason) (tick w))"
  by (simp add: throw_if_aborted_def wp_rules split: option.split)

subsection \<open>Provider mutations (apps/observer/src/commands/session/shared.ts)\<close>

text \<open>
  A mutation of a provider runs in a boundary with a time limit. The signal is checked before the
  call and again after it: what a call returned is dropped when the signal was aborted meanwhile.
\<close>

record mutation_runtime =
  mr_signal :: "abort_signal option"
  mr_traceId :: "string option"

definition linked_task :: "abort_signal option \<Rightarrow> ('e, 'a attempt) action \<Rightarrow> ('e, 'a attempt) action" where
  "linked_task signal task =
     catching
       (and_then (throw_if_present_aborted signal) (\<lambda>_.
        and_then task (\<lambda>a.
          case a of
            AttemptReturns x \<Rightarrow> and_then (throw_if_present_aborted signal) (\<lambda>_. give a)
          | AttemptThrows v \<Rightarrow> give a
          | AttemptTimesOut \<Rightarrow> give a)))
       (\<lambda>v. give (AttemptThrows v))"

definition run_provider_mutation ::
  "mutation_runtime \<Rightarrow> error_fallback \<Rightarrow> error_fallback option \<Rightarrow> ('e, 'a attempt) action \<Rightarrow>
     ('e, 'a) action" where
  "run_provider_mutation runtime fallback timeoutFallback task =
     and_then (linked_task (mr_signal runtime) task) (\<lambda>a.
       case boundary_attempt fallback timeoutFallback a of
         Inl e \<Rightarrow> throw_error (with_trace e (mr_traceId runtime))
       | Inr x \<Rightarrow> give x)"

text \<open>A best-effort mutation: whatever it throws is logged and dropped; the log may throw.\<close>

definition write_log :: "abort_signal option \<Rightarrow> ('e, unit) action" where
  "write_log logger = throw_if_present_aborted logger"

definition best_effort :: "abort_signal option \<Rightarrow> ('e, 'a) action \<Rightarrow> ('e, unit) action" where
  "best_effort logger m =
     catching (and_then m (\<lambda>_. give ())) (\<lambda>_. write_log logger)"

subsection \<open>Errors for receipts (packages/observability/src/errors.ts)\<close>

record error_context =
  ec_commandId :: "command_id option"
  ec_projectId :: "project_id option"
  ec_worktreeId :: "worktree_id option"
  ec_sessionId :: "session_id option"
  ec_traceId :: "string option"
  ec_diagnosticId :: "string option"

definition no_context :: error_context where
  "no_context =
     \<lparr>ec_commandId = None, ec_projectId = None, ec_worktreeId = None, ec_sessionId = None,
      ec_traceId = None, ec_diagnosticId = None\<rparr>"

text \<open>The left value wins when it is there.\<close>

definition apply_safe_error_context :: "safe_error \<Rightarrow> error_context \<Rightarrow> safe_error" where
  "apply_safe_error_context e c =
     e\<lparr>se_commandId := nullish_opt (ec_commandId c) (se_commandId e),
       se_projectId := nullish_opt (ec_projectId c) (se_projectId e),
       se_worktreeId := nullish_opt (ec_worktreeId c) (se_worktreeId e),
       se_sessionId := nullish_opt (ec_sessionId c) (se_sessionId e),
       se_traceId := nullish_opt (ec_traceId c) (se_traceId e),
       se_diagnosticId := nullish_opt (ec_diagnosticId c) (se_diagnosticId e)\<rparr>"

definition known_safe_error :: "thrown \<Rightarrow> safe_error option" where
  "known_safe_error v =
     (case v of ThrownObject e _ \<Rightarrow> Some e | _ \<Rightarrow> first_cause (\<lambda>_. True) v)"

text \<open>A Zod error, thrown by a parse that fails, has neither tag nor code nor cause.\<close>

definition zod_error :: thrown where
  "zod_error = ThrownOther None"

definition to_safe_error ::
  "(string \<Rightarrow> string) \<Rightarrow> thrown \<Rightarrow> error_fallback \<Rightarrow> error_context \<Rightarrow> thrown + safe_error" where
  "to_safe_error redact v fallback ctx =
     (let e = (case known_safe_error v of
          Some k \<Rightarrow> (basic_error (se_tag k) (se_code k) (redact (se_message k)))
            \<lparr>se_hint := map_option redact (se_hint k), se_provider := se_provider k,
             se_projectId := se_projectId k, se_worktreeId := se_worktreeId k,
             se_sessionId := se_sessionId k, se_diagnosticId := se_diagnosticId k\<rparr>
        | None \<Rightarrow> (basic_error (ef_tag fallback) (ef_code fallback) (redact (ef_message fallback)))
            \<lparr>se_hint := map_option redact (ef_hint fallback), se_provider := ef_provider fallback\<rparr>);
          e = apply_safe_error_context e ctx
      in if valid_safe_error e then Inr e else Inl zod_error)"

lemma to_safe_error_valid: "to_safe_error redact v fallback ctx = Inr e \<Longrightarrow> valid_safe_error e"
  by (auto simp: to_safe_error_def Let_def split: if_splits)

definition error_with :: "string \<Rightarrow> string \<Rightarrow> string \<Rightarrow> provider_id option \<Rightarrow> error_fallback" where
  "error_with tag code message provider =
     \<lparr>ef_tag = tag, ef_code = code, ef_message = message, ef_hint = None, ef_provider = provider,
      ef_traceId = None\<rparr>"

end
