(* ===== verification/TerminalIntents.thy ===== *)
theory TerminalIntents
  imports Effects Commands
begin

section \<open>Terminal intents (apps/observer/src/providers/terminalIntentRunner.ts)\<close>

text \<open>
  A command asks for a terminal through an intent: open a workspace and launch an agent in it,
  focus a terminal, close one. The runner submits an intent at most once, drives the terminal and
  the harness provider and always answers with a receipt. The providers, the clock, the log and
  the abort signal are functions of the time; an answer of a provider may be a value, a thrown
  value or no answer within the time limit. The length of the time limits and the attributes of
  the log lines are not part of the model, and the redaction of texts is a parameter.
\<close>

subsection \<open>Intents and receipts (packages/contracts/src/terminalIntents.ts)\<close>

datatype intent_type = EnsureAgentWorkspaceType | TerminalFocusType | TerminalCloseType

datatype permission_mode = PermissionStandard | PermissionYolo

record resume_options =
  rs_target :: resume_target
  rs_previousSessionId :: "session_id option"
  rs_recoveryHandleId :: "string option"

record workspace_harness =
  wh_provider :: provider_id
  wh_mode :: "run_mode option"
  wh_profile :: "string option"
  wh_permissionMode :: "permission_mode option"
  wh_approvalPolicy :: "string option"
  wh_sandboxMode :: "string option"

record ensure_workspace_intent =
  ei_commandId :: command_id
  ei_terminalProvider :: provider_id
  ei_project :: project_config
  ei_worktree :: worktree_observation
  ei_sessionId :: session_id
  ei_harness :: workspace_harness
  ei_layout :: string
  ei_focus :: "bool option"
  ei_origin :: "focus_origin option"
  ei_initialPrompt :: "string option"
  ei_resume :: "resume_options option"

record intent_subject =
  sj_projectId :: "project_id option"
  sj_worktreeId :: "worktree_id option"
  sj_sessionId :: "session_id option"

record target_intent =
  ti_commandId :: command_id
  ti_terminalProvider :: provider_id
  ti_subject :: intent_subject

datatype terminal_intent =
  EnsureAgentWorkspace ensure_workspace_intent
| TerminalFocusIntent target_intent "focus_origin option"
| TerminalCloseIntent target_intent "bool option"

fun intent_command :: "terminal_intent \<Rightarrow> command_id" where
  "intent_command (EnsureAgentWorkspace i) = ei_commandId i"
| "intent_command (TerminalFocusIntent i origin) = ti_commandId i"
| "intent_command (TerminalCloseIntent i force) = ti_commandId i"

fun intent_provider :: "terminal_intent \<Rightarrow> provider_id" where
  "intent_provider (EnsureAgentWorkspace i) = ei_terminalProvider i"
| "intent_provider (TerminalFocusIntent i origin) = ti_terminalProvider i"
| "intent_provider (TerminalCloseIntent i force) = ti_terminalProvider i"

fun type_of_intent :: "terminal_intent \<Rightarrow> intent_type" where
  "type_of_intent (EnsureAgentWorkspace i) = EnsureAgentWorkspaceType"
| "type_of_intent (TerminalFocusIntent i origin) = TerminalFocusType"
| "type_of_intent (TerminalCloseIntent i force) = TerminalCloseType"

fun intent_type_name :: "intent_type \<Rightarrow> string" where
  "intent_type_name EnsureAgentWorkspaceType = ''session.ensureAgentWorkspace''"
| "intent_type_name TerminalFocusType = ''terminal.focus''"
| "intent_type_name TerminalCloseType = ''terminal.close''"

definition valid_resume_options :: "resume_options \<Rightarrow> bool" where
  "valid_resume_options r =
     ((case rs_target r of NativeSession i \<Rightarrow> non_empty i | SessionFile p \<Rightarrow> non_empty p) \<and>
      opt_ok non_empty (rs_previousSessionId r) \<and> opt_ok non_empty (rs_recoveryHandleId r))"

definition valid_focus_origin :: "focus_origin \<Rightarrow> bool" where
  "valid_focus_origin f = (non_empty (fo_provider f) \<and> opt_ok non_empty (fo_clientId f))"

definition valid_workspace_harness :: "workspace_harness \<Rightarrow> bool" where
  "valid_workspace_harness h =
     (non_empty (wh_provider h) \<and> opt_ok non_empty (wh_profile h) \<and>
      opt_ok non_empty (wh_approvalPolicy h) \<and> opt_ok non_empty (wh_sandboxMode h))"

definition valid_subject :: "intent_subject \<Rightarrow> bool" where
  "valid_subject s =
     (opt_ok non_empty (sj_projectId s) \<and> opt_ok non_empty (sj_worktreeId s) \<and>
      opt_ok non_empty (sj_sessionId s) \<and> (sj_worktreeId s \<noteq> None \<or> sj_sessionId s \<noteq> None))"

fun valid_intent :: "terminal_intent \<Rightarrow> bool" where
  "valid_intent (EnsureAgentWorkspace i) =
     (non_empty (ei_commandId i) \<and> non_empty (ei_terminalProvider i) \<and>
      valid_project_config (ei_project i) \<and> valid_worktree_observation (ei_worktree i) \<and>
      non_empty (ei_sessionId i) \<and> valid_workspace_harness (ei_harness i) \<and>
      non_empty (ei_layout i) \<and> opt_ok valid_focus_origin (ei_origin i) \<and>
      opt_ok non_empty (ei_initialPrompt i) \<and> opt_ok valid_resume_options (ei_resume i))"
| "valid_intent (TerminalFocusIntent i origin) =
     (non_empty (ti_commandId i) \<and> non_empty (ti_terminalProvider i) \<and>
      valid_subject (ti_subject i) \<and> opt_ok valid_focus_origin origin)"
| "valid_intent (TerminalCloseIntent i force) =
     (non_empty (ti_commandId i) \<and> non_empty (ti_terminalProvider i) \<and> valid_subject (ti_subject i))"

record intent_receipt =
  ir_commandId :: command_id
  ir_type :: intent_type
  ir_terminalProvider :: provider_id
  ir_timestamp :: timestamp
  ir_error :: "safe_error option"

definition receipt_accepted :: "intent_receipt \<Rightarrow> bool" where
  "receipt_accepted r = (ir_error r = None)"

definition valid_intent_receipt :: "intent_receipt \<Rightarrow> bool" where
  "valid_intent_receipt r =
     (non_empty (ir_commandId r) \<and> non_empty (ir_terminalProvider r) \<and> ts_valid (ir_timestamp r) \<and>
      opt_ok valid_safe_error (ir_error r))"

subsection \<open>The providers\<close>

record identity_binding =
  ib_provider :: provider_id
  ib_targetId :: terminal_target_id
  ib_projectId :: "project_id option"
  ib_worktreeId :: "worktree_id option"
  ib_sessionId :: "session_id option"
  ib_harnessRunId :: "harness_run_id option"
  ib_harnessBinding :: "harness_binding option"
  ib_providerData :: "json option"
  ib_confidence :: confidence
  ib_reason :: string

record open_workspace_request =
  ow_project :: project_config
  ow_worktree :: worktree_observation
  ow_harness :: provider_id
  ow_layout :: string
  ow_sessionId :: "session_id option"

record opened_workspace =
  od_target :: identity_binding
  od_agentEndpointId :: string
  od_providerData :: "json option"

record launch_request =
  lr_project :: project_config
  lr_worktree :: worktree_observation
  lr_terminalTarget :: "terminal_observation option"
  lr_sessionId :: "session_id option"
  lr_mode :: "run_mode option"
  lr_initialPrompt :: "string option"
  lr_profile :: "string option"
  lr_permissionMode :: "permission_mode option"
  lr_approvalPolicy :: "string option"
  lr_sandboxMode :: "string option"
  lr_resume :: "resume_options option"

record launch_plan =
  lp_provider :: provider_id
  lp_command :: string
  lp_args :: "string list"
  lp_cwd :: "string option"
  lp_env :: "string dict option"
  lp_mode :: run_mode
  lp_displayTitle :: "string option"
  lp_providerData :: "json option"

record launch_process_request =
  lq_project :: project_config
  lq_worktree :: worktree_observation
  lq_terminalTarget :: identity_binding
  lq_agentEndpointId :: string
  lq_launchPlan :: launch_plan

record launch_process_result =
  ls_terminalTargetId :: terminal_target_id
  ls_agentEndpointId :: string
  ls_started :: bool
  ls_providerData :: "json option"

text \<open>The terminal provider's methods and \<^verbatim>\<open>buildLaunch\<close> of a harness provider, at a time.\<close>

record terminal_calls =
  tm_id :: provider_id
  tm_openWorkspace :: "open_workspace_request \<Rightarrow> nat \<Rightarrow> opened_workspace attempt"
  tm_launchProcess :: "(launch_process_request \<Rightarrow> nat \<Rightarrow> launch_process_result attempt) option"
  tm_focusTarget :: "terminal_target_id \<Rightarrow> focus_origin option \<Rightarrow> nat \<Rightarrow> unit attempt"
  tm_closeTarget :: "terminal_target_id \<Rightarrow> nat \<Rightarrow> unit attempt"
  tm_listTargets :: "nat \<Rightarrow> terminal_observation list attempt"

record harness_calls =
  hn_id :: provider_id
  hn_buildLaunch :: "launch_request \<Rightarrow> nat \<Rightarrow> launch_plan attempt"

text \<open>What was called and how it was answered, those of the session commands included.\<close>

datatype provider_event =
  OpenedWorkspace open_workspace_request "opened_workspace attempt"
| BuiltLaunch provider_id launch_request "launch_plan attempt"
| LaunchedProcess launch_process_request "launch_process_result attempt"
| FocusedTarget terminal_target_id "focus_origin option" "unit attempt"
| ClosedTarget terminal_target_id "unit attempt"
| ListedTargets "terminal_observation list attempt"
| CreatedWorktree project_id string "worktree_observation attempt"
| RemovedWorktree worktree_id "unit attempt"
| LookedUpWorktree worktree_id "worktree_observation option attempt"
| SeededTitle session_id string "thrown option"
| DeletedTitle session_id "thrown option"
| RecordedEvent wosm_event "thrown option"
| PublishedEvent wosm_event
| StoppedRun provider_id harness_run_id "session_id option" bool "unit attempt"
| RequestedRemoval project_id worktree_id bool "bool attempt"
| RenamedTitle session_id string "thrown + bool"

record intent_runner =
  rn_terminal :: terminal_calls
  rn_harnesses :: "harness_calls dict"
  rn_clock :: "nat \<Rightarrow> timestamp"
  rn_logger :: "abort_signal option"
  rn_redact :: "string \<Rightarrow> string"

text \<open>The receipts of the submitted intents by \<^verbatim>\<open>commandId:type\<close>; a stored promise is its outcome.\<close>

type_synonym submitted = "(string \<times> (thrown + intent_receipt)) list"

subsection \<open>Choosing a terminal\<close>

definition target_matches_subject :: "terminal_observation \<Rightarrow> provider_id \<Rightarrow> intent_subject \<Rightarrow> bool" where
  "target_matches_subject target terminalProvider subject =
     (if to_provider target \<noteq> terminalProvider then False
      else if sj_projectId subject \<noteq> None \<and> to_projectId target \<noteq> None \<and>
        to_projectId target \<noteq> sj_projectId subject then False
      else if sj_sessionId subject \<noteq> None \<and> to_sessionId target = sj_sessionId subject then True
      else sj_worktreeId subject \<noteq> None \<and> to_worktreeId target = sj_worktreeId subject)"

fun target_state_rank :: "terminal_state \<Rightarrow> int option" where
  "target_state_rank TermOpen = Some 0"
| "target_state_rank TermDetached = Some 1"
| "target_state_rank TermUnknown = Some 2"
| "target_state_rank TermNone = None"
| "target_state_rank TermStale = None"

definition target_identity_rank :: "terminal_observation \<Rightarrow> intent_subject \<Rightarrow> int option" where
  "target_identity_rank target subject =
     (let mainAgent = (case to_harnessBinding target of None \<Rightarrow> False | Some b \<Rightarrow> hb_role b = ''main-agent'');
          sameSession = (sj_sessionId subject \<noteq> None \<and> to_sessionId target = sj_sessionId subject);
          sameWorktree = (sj_worktreeId subject \<noteq> None \<and> to_worktreeId target = sj_worktreeId subject)
      in if sameSession \<and> mainAgent then Some 0
         else if sameSession then Some 1
         else if sameWorktree \<and> mainAgent then Some 2
         else if sameWorktree then Some 3
         else if to_cwd target \<noteq> None then Some 4
         else None)"

text \<open>A candidate with its identity and state ranks.\<close>

definition ranked_target ::
  "terminal_observation \<Rightarrow> intent_subject \<Rightarrow> (terminal_observation \<times> int \<times> int) option" where
  "ranked_target target subject =
     (case target_state_rank (to_state target) of
        None \<Rightarrow> None
      | Some stateRank \<Rightarrow>
          (case target_identity_rank target subject of
             None \<Rightarrow> None
           | Some identityRank \<Rightarrow> Some (target, identityRank, stateRank)))"

definition compare_ranked_targets :: "(terminal_observation \<times> int \<times> int) comparison" where
  "compare_ranked_targets left right =
     (if fst (snd left) \<noteq> fst (snd right) then fst (snd left) - fst (snd right)
      else snd (snd left) - snd (snd right))"

definition assign_subject :: "safe_error \<Rightarrow> intent_subject \<Rightarrow> safe_error" where
  "assign_subject e subject =
     e\<lparr>se_projectId := nullish_opt (sj_projectId subject) (se_projectId e),
       se_worktreeId := nullish_opt (sj_worktreeId subject) (se_worktreeId e),
       se_sessionId := nullish_opt (sj_sessionId subject) (se_sessionId e)\<rparr>"

definition terminal_target_missing_error :: "provider_id \<Rightarrow> intent_subject \<Rightarrow> safe_error" where
  "terminal_target_missing_error provider subject =
     assign_subject
       ((basic_error ''TerminalProviderError'' ''TERMINAL_TARGET_MISSING''
          (if sj_sessionId subject = None then ''No terminal is open for this worktree.''
           else ''No terminal is open for this session.''))
        \<lparr>se_hint := Some (if sj_sessionId subject = None
           then ''Start an agent or open this worktree from wosm before focusing it.''
           else ''Refresh the dashboard and retry.''),
         se_provider := Some provider\<rparr>) subject"

definition terminal_target_stale_error :: "provider_id \<Rightarrow> intent_subject \<Rightarrow> safe_error" where
  "terminal_target_stale_error provider subject =
     assign_subject
       ((basic_error ''TerminalProviderError'' ''TERMINAL_TARGET_STALE''
          ''Only stale terminal targets match the requested session or worktree.'')
        \<lparr>se_hint := Some ''Refresh the dashboard or reopen the worktree before retrying.'',
         se_provider := Some provider\<rparr>) subject"

text \<open>What follows the listing of the targets.\<close>

definition select_target ::
  "provider_id \<Rightarrow> intent_subject \<Rightarrow> terminal_observation list \<Rightarrow> safe_error + terminal_observation" where
  "select_target provider subject targets =
     (let matching = filter (\<lambda>t. target_matches_subject t provider subject) targets;
          ranked = js_sort compare_ranked_targets (List.map_filter (\<lambda>t. ranked_target t subject) matching)
      in case ranked of
           selected # _ \<Rightarrow> Inr (fst selected)
         | [] \<Rightarrow>
             if list_ex (\<lambda>t. to_state t = TermStale) matching
             then Inl (terminal_target_stale_error provider subject)
             else Inl (terminal_target_missing_error provider subject))"

subsection \<open>Receipts\<close>

definition intent_failed :: error_fallback where
  "intent_failed = error_with ''TerminalIntentRunnerError'' ''TERMINAL_INTENT_FAILED''
     ''The terminal intent runner failed.'' None"

definition parse_receipt :: "intent_receipt \<Rightarrow> thrown + intent_receipt" where
  "parse_receipt r = (if valid_intent_receipt r then Inr r else Inl zod_error)"

definition accepted :: "intent_runner \<Rightarrow> terminal_intent \<Rightarrow> (provider_event, intent_receipt) action" where
  "accepted rn intent =
     and_then (observe (rn_clock rn)) (\<lambda>now.
       settle (parse_receipt
         \<lparr>ir_commandId = intent_command intent, ir_type = type_of_intent intent,
          ir_terminalProvider = intent_provider intent, ir_timestamp = now, ir_error = None\<rparr>))"

definition rejected ::
  "intent_runner \<Rightarrow> terminal_intent \<Rightarrow> thrown \<Rightarrow> error_fallback \<Rightarrow> (provider_event, intent_receipt) action" where
  "rejected rn intent v fallback =
     and_then (settle (to_safe_error (rn_redact rn) v fallback
         (no_context\<lparr>ec_commandId := Some (intent_command intent)\<rparr>))) (\<lambda>safeError.
     and_then (observe (rn_clock rn)) (\<lambda>now.
       settle (parse_receipt
         \<lparr>ir_commandId = intent_command intent, ir_type = type_of_intent intent,
          ir_terminalProvider = intent_provider intent, ir_timestamp = now,
          ir_error = Some safeError\<rparr>)))"

definition provider_unavailable ::
  "string \<Rightarrow> string \<Rightarrow> string \<Rightarrow> command_id \<Rightarrow> provider_id \<Rightarrow> thrown" where
  "provider_unavailable tag code message commandId provider =
     ThrownObject ((basic_error tag code message)
       \<lparr>se_commandId := Some commandId, se_provider := Some provider\<rparr>) None"

definition terminal_provider_unavailable_error :: "command_id \<Rightarrow> provider_id \<Rightarrow> thrown" where
  "terminal_provider_unavailable_error commandId provider =
     provider_unavailable ''TerminalProviderError'' ''TERMINAL_PROVIDER_UNAVAILABLE''
       ''The requested terminal provider is not registered.'' commandId provider"

definition harness_provider_unavailable_error :: "command_id \<Rightarrow> provider_id \<Rightarrow> thrown" where
  "harness_provider_unavailable_error commandId provider =
     provider_unavailable ''HarnessProviderError'' ''HARNESS_PROVIDER_UNAVAILABLE''
       ''The requested harness provider is not registered.'' commandId provider"

subsection \<open>Opening an agent workspace\<close>

definition build_launch_request :: "ensure_workspace_intent \<Rightarrow> terminal_observation \<Rightarrow> launch_request" where
  "build_launch_request intent target =
     \<lparr>lr_project = ei_project intent, lr_worktree = ei_worktree intent,
      lr_terminalTarget = Some target, lr_sessionId = Some (ei_sessionId intent),
      lr_mode = wh_mode (ei_harness intent), lr_initialPrompt = ei_initialPrompt intent,
      lr_profile = wh_profile (ei_harness intent),
      lr_permissionMode = wh_permissionMode (ei_harness intent),
      lr_approvalPolicy = wh_approvalPolicy (ei_harness intent),
      lr_sandboxMode = wh_sandboxMode (ei_harness intent), lr_resume = ei_resume intent\<rparr>"

definition terminal_target_observation_from_binding ::
  "identity_binding \<Rightarrow> worktree_observation \<Rightarrow> timestamp \<Rightarrow> terminal_observation" where
  "terminal_target_observation_from_binding binding worktree observedAt =
     \<lparr>to_id = ib_targetId binding, to_provider = ib_provider binding,
      to_projectId = ib_projectId binding, to_worktreeId = ib_worktreeId binding,
      to_sessionId = ib_sessionId binding, to_harnessRunId = ib_harnessRunId binding,
      to_state = TermOpen, to_cwd = (if length (wo_path worktree) > 0 then Some (wo_path worktree) else None),
      to_pid = None, to_title = None, to_confidence = ib_confidence binding,
      to_reason = ib_reason binding, to_observedAt = observedAt,
      to_harnessBinding = ib_harnessBinding binding, to_providerData = ib_providerData binding\<rparr>"

definition launch_error :: "string \<Rightarrow> string \<Rightarrow> provider_id \<Rightarrow> launch_process_request \<Rightarrow> safe_error" where
  "launch_error code message provider request =
     (basic_error ''TerminalProviderError'' code message)
       \<lparr>se_provider := Some provider, se_worktreeId := Some (wo_id (lq_worktree request)),
        se_sessionId := ib_sessionId (lq_terminalTarget request)\<rparr>"

definition launch_harness_in_terminal ::
  "mutation_runtime \<Rightarrow> terminal_calls \<Rightarrow> launch_process_request \<Rightarrow>
     (provider_event, launch_process_result) action" where
  "launch_harness_in_terminal runtime terminal request =
     (case tm_launchProcess terminal of
        None \<Rightarrow> throw_error (launch_error ''TERMINAL_LAUNCH_UNSUPPORTED''
          ''The configured terminal provider cannot launch harness processes.'' (tm_id terminal) request)
      | Some launch \<Rightarrow>
          and_then (run_provider_mutation runtime
            (error_with ''TerminalProviderError'' ''TERMINAL_LAUNCH_FAILED''
              ''The terminal provider failed to launch the harness process.'' (Some (tm_id terminal)))
            (Some (error_with ''TimeoutError'' ''TERMINAL_LAUNCH_TIMEOUT''
              ''The terminal provider timed out while launching the harness process.'' (Some (tm_id terminal))))
            (ask (launch request) (LaunchedProcess request))) (\<lambda>result.
          if ls_started result then give result
          else throw_error (launch_error ''TERMINAL_LAUNCH_NOT_STARTED''
            ''The terminal provider did not confirm that the harness process started.''
            (tm_id terminal) request)))"

definition open_workspace ::
  "intent_runner \<Rightarrow> mutation_runtime \<Rightarrow> ensure_workspace_intent \<Rightarrow> harness_calls \<Rightarrow>
     (provider_event, opened_workspace) action" where
  "open_workspace rn runtime intent harness =
     (let terminal = rn_terminal rn;
          request = \<lparr>ow_project = ei_project intent, ow_worktree = ei_worktree intent,
            ow_harness = hn_id harness, ow_layout = ei_layout intent,
            ow_sessionId = Some (ei_sessionId intent)\<rparr>
      in run_provider_mutation runtime
        (error_with ''TerminalProviderError'' ''TERMINAL_OPEN_FAILED''
          ''The terminal provider failed to open the session workspace.'' (Some (tm_id terminal))) None
        (ask (tm_openWorkspace terminal request) (OpenedWorkspace request)))"

definition build_launch ::
  "mutation_runtime \<Rightarrow> harness_calls \<Rightarrow> launch_request \<Rightarrow> (provider_event, launch_plan) action" where
  "build_launch runtime harness request =
     run_provider_mutation runtime
       (error_with ''HarnessProviderError'' ''HARNESS_BUILD_LAUNCH_FAILED''
         ''The harness provider failed to build a launch plan.'' (Some (hn_id harness))) None
       (ask (hn_buildLaunch harness request) (BuiltLaunch (hn_id harness) request))"

definition focus_target_best_effort ::
  "intent_runner \<Rightarrow> mutation_runtime \<Rightarrow> terminal_target_id \<Rightarrow> focus_origin option \<Rightarrow>
     (provider_event, unit) action" where
  "focus_target_best_effort rn runtime targetId origin =
     best_effort (rn_logger rn)
       (run_provider_mutation runtime
         (error_with ''TerminalProviderError'' ''TERMINAL_FOCUS_FAILED''
           ''The terminal provider failed to focus the session target.'' (Some (tm_id (rn_terminal rn)))) None
         (ask (tm_focusTarget (rn_terminal rn) targetId origin) (FocusedTarget targetId origin)))"

definition close_opened_target_best_effort ::
  "intent_runner \<Rightarrow> mutation_runtime \<Rightarrow> terminal_target_id \<Rightarrow> (provider_event, unit) action" where
  "close_opened_target_best_effort rn runtime targetId =
     best_effort (rn_logger rn)
       (run_provider_mutation runtime
         (error_with ''TerminalProviderError'' ''TERMINAL_CLEANUP_CLOSE_FAILED''
           ''The terminal provider failed to close a target during cleanup.''
           (Some (tm_id (rn_terminal rn)))) None
         (ask (tm_closeTarget (rn_terminal rn) targetId) (ClosedTarget targetId)))"

text \<open>The \<^verbatim>\<open>try\<close> after the workspace was opened, to the accepted receipt.\<close>

definition launch_in_workspace ::
  "intent_runner \<Rightarrow> mutation_runtime \<Rightarrow> ensure_workspace_intent \<Rightarrow> harness_calls \<Rightarrow> opened_workspace \<Rightarrow>
     (provider_event, intent_receipt) action" where
  "launch_in_workspace rn runtime intent harness opened =
     and_then (throw_if_present_aborted (mr_signal runtime)) (\<lambda>_.
     and_then (observe (rn_clock rn)) (\<lambda>now.
     and_then (build_launch runtime harness (build_launch_request intent
         (terminal_target_observation_from_binding (od_target opened) (ei_worktree intent) now))) (\<lambda>launchPlan.
     and_then (throw_if_present_aborted (mr_signal runtime)) (\<lambda>_.
     and_then (launch_harness_in_terminal runtime (rn_terminal rn)
         \<lparr>lq_project = ei_project intent, lq_worktree = ei_worktree intent,
          lq_terminalTarget = od_target opened, lq_agentEndpointId = od_agentEndpointId opened,
          lq_launchPlan = launchPlan\<rparr>) (\<lambda>_.
     and_then (if ei_focus intent = Some True
         then focus_target_best_effort rn runtime (ib_targetId (od_target opened)) (ei_origin intent)
         else give ()) (\<lambda>_.
     accepted rn (EnsureAgentWorkspace intent)))))))"

definition ensure_agent_workspace ::
  "intent_runner \<Rightarrow> mutation_runtime \<Rightarrow> ensure_workspace_intent \<Rightarrow> (provider_event, intent_receipt) action" where
  "ensure_agent_workspace rn runtime intent =
     (let reject = (\<lambda>v. rejected rn (EnsureAgentWorkspace intent) v intent_failed) in
      if tm_id (rn_terminal rn) \<noteq> ei_terminalProvider intent
      then reject (terminal_provider_unavailable_error (ei_commandId intent) (ei_terminalProvider intent))
      else case map_of (rn_harnesses rn) (wh_provider (ei_harness intent)) of
        None \<Rightarrow> reject (harness_provider_unavailable_error (ei_commandId intent) (wh_provider (ei_harness intent)))
      | Some harness \<Rightarrow>
          branching (open_workspace rn runtime intent harness) reject (\<lambda>opened.
            catching (launch_in_workspace rn runtime intent harness opened) (\<lambda>v.
              and_then (close_opened_target_best_effort rn runtime (ib_targetId (od_target opened)))
                (\<lambda>_. reject v))))"

subsection \<open>Focusing and closing\<close>

definition resolve_target_for_intent ::
  "intent_runner \<Rightarrow> mutation_runtime \<Rightarrow> intent_subject \<Rightarrow> (provider_event, terminal_observation) action" where
  "resolve_target_for_intent rn runtime subject =
     and_then (run_provider_mutation runtime
       (error_with ''TerminalProviderError'' ''TERMINAL_LIST_FAILED''
         ''The terminal provider failed to list targets.'' (Some (tm_id (rn_terminal rn))))
       (Some (error_with ''TimeoutError'' ''TERMINAL_LIST_TIMEOUT''
         ''The terminal provider timed out while listing targets.'' (Some (tm_id (rn_terminal rn)))))
       (ask (tm_listTargets (rn_terminal rn)) ListedTargets)) (\<lambda>targets.
     case select_target (tm_id (rn_terminal rn)) subject targets of
       Inl e \<Rightarrow> throw_error e
     | Inr target \<Rightarrow> give target)"

definition act_on_target ::
  "intent_runner \<Rightarrow> mutation_runtime \<Rightarrow> terminal_intent \<Rightarrow> intent_subject \<Rightarrow> error_fallback \<Rightarrow> error_fallback \<Rightarrow>
     (terminal_target_id \<Rightarrow> (provider_event, unit attempt) action) \<Rightarrow> (provider_event, intent_receipt) action" where
  "act_on_target rn runtime intent subject failure timeoutFailure act =
     (if tm_id (rn_terminal rn) \<noteq> intent_provider intent
      then rejected rn intent (terminal_provider_unavailable_error (intent_command intent) (intent_provider intent))
        intent_failed
      else catching
        (and_then (resolve_target_for_intent rn runtime subject) (\<lambda>target.
         and_then (run_provider_mutation runtime failure (Some timeoutFailure) (act (to_id target))) (\<lambda>_.
         accepted rn intent)))
        (\<lambda>v. rejected rn intent v failure))"

definition focus_terminal ::
  "intent_runner \<Rightarrow> mutation_runtime \<Rightarrow> target_intent \<Rightarrow> focus_origin option \<Rightarrow>
     (provider_event, intent_receipt) action" where
  "focus_terminal rn runtime intent origin =
     act_on_target rn runtime (TerminalFocusIntent intent origin) (ti_subject intent)
       (error_with ''TerminalProviderError'' ''TERMINAL_FOCUS_FAILED''
         ''The terminal provider failed to focus the target.'' (Some (tm_id (rn_terminal rn))))
       (error_with ''TimeoutError'' ''TERMINAL_FOCUS_TIMEOUT''
         ''The terminal provider timed out while focusing the target.'' (Some (tm_id (rn_terminal rn))))
       (\<lambda>i. ask (tm_focusTarget (rn_terminal rn) i origin) (FocusedTarget i origin))"

definition close_terminal ::
  "intent_runner \<Rightarrow> mutation_runtime \<Rightarrow> target_intent \<Rightarrow> bool option \<Rightarrow>
     (provider_event, intent_receipt) action" where
  "close_terminal rn runtime intent force =
     act_on_target rn runtime (TerminalCloseIntent intent force) (ti_subject intent)
       (error_with ''TerminalProviderError'' ''TERMINAL_CLOSE_FAILED''
         ''The terminal provider failed to close the target.'' (Some (tm_id (rn_terminal rn))))
       (error_with ''TimeoutError'' ''TERMINAL_CLOSE_TIMEOUT''
         ''The terminal provider timed out while closing the target.'' (Some (tm_id (rn_terminal rn))))
       (\<lambda>i. ask (tm_closeTarget (rn_terminal rn) i) (ClosedTarget i))"

subsection \<open>Submitting\<close>

definition run_intent ::
  "intent_runner \<Rightarrow> mutation_runtime \<Rightarrow> terminal_intent \<Rightarrow> (provider_event, intent_receipt) action" where
  "run_intent rn runtime intent =
     (case intent of
        EnsureAgentWorkspace i \<Rightarrow> ensure_agent_workspace rn runtime i
      | TerminalFocusIntent i origin \<Rightarrow> focus_terminal rn runtime i origin
      | TerminalCloseIntent i force \<Rightarrow> close_terminal rn runtime i force)"

definition submit_parsed_intent ::
  "intent_runner \<Rightarrow> mutation_runtime \<Rightarrow> terminal_intent \<Rightarrow> (provider_event, intent_receipt) action" where
  "submit_parsed_intent rn runtime intent =
     and_then (write_log (rn_logger rn)) (\<lambda>_.
     catching
       (and_then (throw_if_present_aborted (mr_signal runtime)) (\<lambda>_.
        and_then (run_intent rn runtime intent) (\<lambda>receipt.
        and_then (write_log (rn_logger rn)) (\<lambda>_. give receipt))))
       (\<lambda>v. and_then (rejected rn intent v intent_failed) (\<lambda>receipt.
        and_then (write_log (rn_logger rn)) (\<lambda>_. give receipt))))"

definition intent_key :: "terminal_intent \<Rightarrow> string" where
  "intent_key intent = intent_command intent @ '':'' @ intent_type_name (type_of_intent intent)"

text \<open>Submitting: the outcome, the receipts, and the world after it.\<close>

definition submit_intent ::
  "intent_runner \<Rightarrow> mutation_runtime \<Rightarrow> terminal_intent \<Rightarrow> submitted \<Rightarrow> provider_event world \<Rightarrow>
     ((thrown + intent_receipt) \<times> submitted) \<times> provider_event world" where
  "submit_intent rn runtime intent receipts w =
     (if \<not> valid_intent intent
      then (case rejected rn intent zod_error
              (error_with ''CommandValidationError'' ''TERMINAL_INTENT_INVALID''
                ''The terminal intent payload is invalid.'' None) w of
            (r, w') \<Rightarrow> ((r, receipts), w'))
      else case map_of receipts (intent_key intent) of
        Some existing \<Rightarrow> ((existing, receipts), w)
      | None \<Rightarrow> (case submit_parsed_intent rn runtime intent w of
            (r, w') \<Rightarrow> ((r, rec_set (intent_key intent) r receipts), w')))"

end
