(* ===== verification/TerminalIntentProperties.thy ===== *)
theory TerminalIntentProperties
  imports TerminalIntents
begin

section \<open>Terminal intents are answered, and workspaces are cleaned up\<close>

text \<open>
  What the runner promises its callers: the terminal it picks is the best that matches, an intent
  is answered with a receipt and never runs twice, and a workspace that was opened is either in use
  or was closed again, unless the command was cancelled meanwhile.
\<close>

subsection \<open>A provider mutation\<close>

text \<open>
  The three ways a mutation ends: the signal was aborted before the call, the call failed or its
  value was dropped because the signal was aborted, the call returned.
\<close>

lemma wp_present_aborted [wp_rules]:
  "wp (throw_if_present_aborted signal) Q w =
     (case signal of
        None \<Rightarrow> Q (Inr ()) w
      | Some s \<Rightarrow> (case s (wd_time w) of None \<Rightarrow> Q (Inr ()) (tick w) | Some v \<Rightarrow> Q (Inl v) (tick w)))"
  by (simp add: throw_if_present_aborted_def wp_rules split: option.split)

lemma not_abortedD: "s t = Some v \<Longrightarrow> signal = Some s \<Longrightarrow> \<not> not_aborted signal"
  by (auto simp: not_aborted_def)

lemma wp_mutation:
  assumes "\<And>v w'. \<not> not_aborted (mr_signal rt) \<Longrightarrow> wd_events w' = wd_events w \<Longrightarrow>
      wd_time w \<le> wd_time w' \<Longrightarrow> Q (Inl v) w'"
    and "\<And>v a w'. wd_events w' = wd_events w @ [event a] \<Longrightarrow> wd_time w \<le> wd_time w' \<Longrightarrow>
      (\<And>x. a = AttemptReturns x \<Longrightarrow> \<not> not_aborted (mr_signal rt)) \<Longrightarrow> Q (Inl v) w'"
    and "\<And>x w'. wd_events w' = wd_events w @ [event (AttemptReturns x)] \<Longrightarrow>
      wd_time w \<le> wd_time w' \<Longrightarrow> Q (Inr x) w'"
  shows "wp (run_provider_mutation rt failure timeoutFailure (ask answer event)) Q w"
  using not_abortedD
  by (auto simp: run_provider_mutation_def linked_task_def wp_rules boundary_attempt_def
      runtime_boundary_effect_def split: option.split attempt.split intro: assms)

text \<open>Once the signal is aborted, no provider is called any more.\<close>

lemma wp_mutation_aborted:
  assumes "mr_signal rt = Some s" and "s (wd_time w) \<noteq> None"
    and "\<And>v. Q (Inl v) (tick w)"
  shows "wp (run_provider_mutation rt failure timeoutFailure (ask answer event)) Q w"
  using assms
  by (auto simp: run_provider_mutation_def linked_task_def wp_rules boundary_attempt_def
      runtime_boundary_effect_def)

lemma wp_write_log:
  assumes "\<And>w'. wd_events w' = wd_events w \<Longrightarrow> wd_time w \<le> wd_time w' \<Longrightarrow> Q (Inr ()) w'"
    and "\<And>v w'. \<not> not_aborted logger \<Longrightarrow> wd_events w' = wd_events w \<Longrightarrow> wd_time w \<le> wd_time w' \<Longrightarrow>
      Q (Inl v) w'"
  shows "wp (write_log logger) Q w"
  using not_abortedD by (auto simp: write_log_def wp_rules split: option.split intro: assms)

lemma wp_accepted:
  assumes "\<And>v w'. wd_events w' = wd_events w \<Longrightarrow> wd_time w \<le> wd_time w' \<Longrightarrow> Q (Inl v) w'"
    and "\<And>rc w'. wd_events w' = wd_events w \<Longrightarrow> wd_time w \<le> wd_time w' \<Longrightarrow> ir_error rc = None \<Longrightarrow> Q (Inr rc) w'"
  shows "wp (accepted rn intent) Q w"
  by (auto simp: accepted_def parse_receipt_def wp_rules intro!: assms)

lemma wp_rejected:
  assumes "\<And>v w'. wd_events w' = wd_events w \<Longrightarrow> wd_time w \<le> wd_time w' \<Longrightarrow> Q (Inl v) w'"
    and "\<And>rc e w'. wd_events w' = wd_events w \<Longrightarrow> wd_time w \<le> wd_time w' \<Longrightarrow> ir_error rc = Some e \<Longrightarrow>
      Q (Inr rc) w'"
  shows "wp (rejected rn intent v failure) Q w"
  by (auto simp: rejected_def parse_receipt_def wp_rules split: sum.split intro!: assms)

subsection \<open>A workspace that was opened\<close>

fun is_open :: "provider_event \<Rightarrow> bool" where
  "is_open (OpenedWorkspace request answer) = True"
| "is_open _ = False"

fun is_close :: "provider_event \<Rightarrow> bool" where
  "is_close (ClosedTarget i answer) = True"
| "is_close _ = False"

definition launched_in :: "identity_binding \<Rightarrow> provider_event list \<Rightarrow> bool" where
  "launched_in target es =
     list_ex (\<lambda>e. case e of
         LaunchedProcess request (AttemptReturns res) \<Rightarrow> ls_started res \<and> lq_terminalTarget request = target
       | _ \<Rightarrow> False) es"

definition quiet :: "provider_event list \<Rightarrow> bool" where
  "quiet es = list_all (\<lambda>e. \<not> is_open e \<and> \<not> is_close e) es"

lemma quiet_simps [simp]:
  "quiet []" "quiet (e # es) \<longleftrightarrow> \<not> is_open e \<and> \<not> is_close e \<and> quiet es"
  "quiet (es @ fs) \<longleftrightarrow> quiet es \<and> quiet fs"
  by (simp_all add: quiet_def)

lemma launched_in_simps [simp]:
  "launched_in t (es @ fs) \<longleftrightarrow> launched_in t es \<or> launched_in t fs"
  "launched_in t [LaunchedProcess request (AttemptReturns res)] \<longleftrightarrow>
     ls_started res \<and> lq_terminalTarget request = t"
  by (simp_all add: launched_in_def)

lemma wp_build_launch:
  assumes "\<And>r w' es. wd_events w' = wd_events w @ es \<Longrightarrow> wd_time w \<le> wd_time w' \<Longrightarrow> quiet es \<Longrightarrow> Q r w'"
  shows "wp (build_launch rt harness request) Q w"
  unfolding build_launch_def by (rule wp_mutation) (auto intro!: assms)

lemma wp_launch_harness:
  assumes "\<And>v w' es. wd_events w' = wd_events w @ es \<Longrightarrow> wd_time w \<le> wd_time w' \<Longrightarrow> quiet es \<Longrightarrow> Q (Inl v) w'"
    and "\<And>x w' es. wd_events w' = wd_events w @ es \<Longrightarrow> wd_time w \<le> wd_time w' \<Longrightarrow> quiet es \<Longrightarrow>
      launched_in (lq_terminalTarget request) es \<Longrightarrow> Q (Inr x) w'"
  shows "wp (launch_harness_in_terminal rt terminal request) Q w"
  unfolding launch_harness_in_terminal_def
  by (auto simp: wp_rules split: option.split intro!: wp_mutation assms)

lemma wp_best_effort_focus:
  assumes "\<And>r w' es. wd_events w' = wd_events w @ es \<Longrightarrow> wd_time w \<le> wd_time w' \<Longrightarrow> quiet es \<Longrightarrow> Q r w'"
  shows "wp (focus_target_best_effort rn rt i origin) Q w"
  unfolding focus_target_best_effort_def best_effort_def
  by (auto simp: wp_rules intro!: wp_mutation wp_write_log assms)

definition launch_post ::
  "identity_binding \<Rightarrow> provider_event world \<Rightarrow> thrown + intent_receipt \<Rightarrow> provider_event world \<Rightarrow> bool" where
  "launch_post target w r w' =
     (wd_time w \<le> wd_time w' \<and> (\<exists>es. wd_events w' = wd_events w @ es \<and> quiet es \<and>
       (\<forall>rc. r = Inr rc \<longrightarrow> ir_error rc = None \<and> launched_in target es)))"

lemma launch_in_workspace_post:
  "wp (launch_in_workspace rn rt intent harness opened) (launch_post (od_target opened) w) w"
  unfolding launch_in_workspace_def
  by (auto simp: wp_rules launch_post_def split: option.split sum.split
      intro!: wp_build_launch wp_launch_harness wp_best_effort_focus wp_accepted)

lemma wp_close_best_effort:
  assumes "not_aborted (mr_signal rt)"
    and "\<And>r a w'. wd_events w' = wd_events w @ [ClosedTarget i a] \<Longrightarrow> wd_time w \<le> wd_time w' \<Longrightarrow> Q r w'"
  shows "wp (close_opened_target_best_effort rn rt i) Q w"
  unfolding close_opened_target_best_effort_def best_effort_def
  using assms(1) by (auto simp: wp_rules intro!: wp_mutation wp_write_log assms(2))

text \<open>
  How a workspace intent ends. Accepted: the workspace was opened, the agent was started in it and
  nothing was closed. Otherwise: no workspace was opened, or it was and the last call closed it.
\<close>

definition workspace_in_use :: "provider_event list \<Rightarrow> bool" where
  "workspace_in_use es =
     (\<exists>request opened fs. es = OpenedWorkspace request (AttemptReturns opened) # fs \<and> quiet fs \<and>
        launched_in (od_target opened) fs)"

definition workspace_gone :: "provider_event list \<Rightarrow> bool" where
  "workspace_gone es =
     ((\<forall>e \<in> set es. case e of OpenedWorkspace request (AttemptReturns opened) \<Rightarrow> False | _ \<Rightarrow> \<not> is_close e) \<or>
      (\<exists>request opened fs answer. es = OpenedWorkspace request (AttemptReturns opened) # fs @
          [ClosedTarget (ib_targetId (od_target opened)) answer] \<and> quiet fs))"

definition workspace_settled :: "thrown + intent_receipt \<Rightarrow> provider_event list \<Rightarrow> bool" where
  "workspace_settled r es =
     (case r of
        Inl v \<Rightarrow> workspace_gone es
      | Inr rc \<Rightarrow> if receipt_accepted rc then workspace_in_use es else workspace_gone es)"

lemma workspace_settled_simps [simp]:
  "workspace_settled (Inl v) es = workspace_gone es"
  "ir_error rc = None \<Longrightarrow> workspace_settled (Inr rc) es = workspace_in_use es"
  "ir_error rc = Some e \<Longrightarrow> workspace_settled (Inr rc) es = workspace_gone es"
  by (simp_all add: workspace_settled_def receipt_accepted_def)

lemma workspace_gone_intros:
  "workspace_gone []"
  "\<forall>x. a \<noteq> AttemptReturns x \<Longrightarrow> workspace_gone [OpenedWorkspace request a]"
  "quiet fs \<Longrightarrow> workspace_gone (OpenedWorkspace request (AttemptReturns opened) # fs @
     [ClosedTarget (ib_targetId (od_target opened)) answer])"
  by (auto simp: workspace_gone_def split: attempt.split)

lemma ensure_agent_workspace_settled:
  assumes "not_aborted (mr_signal rt)"
  shows "wp (ensure_agent_workspace rn rt intent)
    (\<lambda>r w'. \<exists>es. wd_events w' = wd_events w @ es \<and> workspace_settled r es) w"
    (is "wp _ ?Q w")
proof -
  have opened: "wp (catching (launch_in_workspace rn rt intent harness opened) (\<lambda>v.
      and_then (close_opened_target_best_effort rn rt (ib_targetId (od_target opened)))
        (\<lambda>_. rejected rn (EnsureAgentWorkspace intent) v intent_failed))) ?Q w'"
    if o: "wd_events w' = wd_events w @ [OpenedWorkspace request (AttemptReturns opened)]"
    for harness opened request w'
    unfolding wp_catching
  proof (rule wp_mono [OF launch_in_workspace_post])
    fix r w''
    assume post: "launch_post (od_target opened) w' r w''"
    then obtain es where es: "wd_events w'' = wd_events w @ OpenedWorkspace request (AttemptReturns opened) # es"
        "quiet es" by (auto simp: launch_post_def o)
    show "(case r of Inl v \<Rightarrow> wp (and_then (close_opened_target_best_effort rn rt (ib_targetId (od_target opened)))
        (\<lambda>_. rejected rn (EnsureAgentWorkspace intent) v intent_failed)) ?Q | Inr x \<Rightarrow> ?Q (Inr x)) w''"
    proof (cases r)
      case (Inl v)
      with es show ?thesis
        by (auto simp: wp_rules split: sum.split intro!: wp_close_best_effort [OF assms] wp_rejected
            workspace_gone_intros)
    next
      case (Inr rc)
      with es post show ?thesis
        by (auto simp: launch_post_def o workspace_in_use_def)
    qed
  qed
  have "wp (rejected rn i v failure) ?Q w" for i v failure
    by (rule wp_rejected) (auto simp: workspace_settled_def receipt_accepted_def workspace_gone_intros)
  moreover have "wp (rejected rn i v failure) ?Q w'"
    if "wd_events w' = wd_events w @ [OpenedWorkspace request a]" "\<forall>x. a \<noteq> AttemptReturns x"
    for i v failure w' request a
    using that by (intro wp_rejected)
      (auto simp: workspace_settled_def receipt_accepted_def workspace_gone_intros split: sum.split)
  ultimately show ?thesis
    unfolding ensure_agent_workspace_def Let_def wp_if wp_option wp_branching open_workspace_def
    using assms by (auto split: option.split sum.split intro!: wp_mutation opened)
qed

lemma submit_parsed_workspace_settled:
  assumes "not_aborted (mr_signal rt)" and "not_aborted (rn_logger rn)"
  shows "wp (submit_parsed_intent rn rt (EnsureAgentWorkspace intent))
    (\<lambda>r w'. \<exists>es. wd_events w' = wd_events w @ es \<and> workspace_settled r es) w"
    (is "wp _ ?Q w")
proof -
  have log: "wp (write_log (rn_logger rn)) P w'"
    if "\<And>w''. wd_events w'' = wd_events w' \<Longrightarrow> P (Inr ()) w''" for P w'
    using that assms(2) by (auto intro!: wp_write_log)
  have run: "wp (ensure_agent_workspace rn rt intent) R w'"
    if "wd_events w' = wd_events w"
      "\<And>v w'' es. wd_events w'' = wd_events w @ es \<Longrightarrow> workspace_gone es \<Longrightarrow> R (Inl v) w''"
      "\<And>rc w'' es. wd_events w'' = wd_events w @ es \<Longrightarrow> workspace_settled (Inr rc) es \<Longrightarrow> R (Inr rc) w''"
    for R w'
    by (rule wp_mono [OF ensure_agent_workspace_settled [OF assms(1)]])
      (metis that sumE workspace_settled_simps(1))
  show ?thesis
    using assms(1)
    by (auto simp: submit_parsed_intent_def run_intent_def wp_rules not_aborted_def
        split: option.split intro!: log run wp_rejected)
qed

lemma submit_workspace_settled:
  assumes "submit_intent rn rt (EnsureAgentWorkspace intent) receipts w = ((r, receipts'), w')"
    and "map_of receipts (intent_key (EnsureAgentWorkspace intent)) = None"
    and "not_aborted (mr_signal rt)" and "not_aborted (rn_logger rn)"
  shows "\<exists>es. wd_events w' = wd_events w @ es \<and>
    (if \<exists>rc. r = Inr rc \<and> receipt_accepted rc then workspace_in_use es else workspace_gone es)"
proof (cases "valid_intent (EnsureAgentWorkspace intent)")
  case True
  with assms(1,2) have "submit_parsed_intent rn rt (EnsureAgentWorkspace intent) w = (r, w')"
    by (auto simp: submit_intent_def split: prod.splits)
  with wpD [OF submit_parsed_workspace_settled [OF assms(3,4)]] show ?thesis
    by (cases r) (fastforce simp: workspace_settled_def)+
next
  case False
  then obtain v failure where "rejected rn (EnsureAgentWorkspace intent) v failure w = (r, w')"
    using assms(1) by (auto simp: submit_intent_def split: prod.splits)
  moreover have "wp (rejected rn (EnsureAgentWorkspace intent) v failure)
      (\<lambda>r w'. wd_events w' = wd_events w \<and> (\<forall>rc. r = Inr rc \<longrightarrow> \<not> receipt_accepted rc)) w"
    by (rule wp_rejected) (auto simp: receipt_accepted_def)
  ultimately have "wd_events w' = wd_events w \<and> (\<forall>rc. r = Inr rc \<longrightarrow> \<not> receipt_accepted rc)"
    using wpD by blast
  then show ?thesis by (auto intro: exI [of _ "[]"] simp: workspace_gone_intros)
qed

text \<open>C15: An agent workspace is in use or gone. An accepted intent opened a workspace, started the agent in
  it and closed nothing; after a rejected one no workspace was opened, or the last call made closes
  the one that was. The command is not cancelled and its log lines are written.\<close>

theorem opened_workspace_used_or_closed:
  assumes "submit_intent rn rt (EnsureAgentWorkspace intent) receipts w = ((r, receipts'), w')"
    and "map_of receipts (intent_key (EnsureAgentWorkspace intent)) = None"
    and "not_aborted (mr_signal rt)" and "not_aborted (rn_logger rn)"
  shows "\<exists>es. wd_events w' = wd_events w @ es \<and>
    (if \<exists>rc. r = Inr rc \<and> receipt_accepted rc then workspace_in_use es else workspace_gone es)"
  using assms by (rule submit_workspace_settled)

text \<open>A workspace of a cancelled command stays open. When the command is cancelled after the
  workspace was opened, the clean-up is refused by the same signal that made it necessary: the
  intent is not accepted, no agent runs, and no provider is called any more, so that the terminal
  is never closed.\<close>

lemma cancelled_workspace_stays_open:
  assumes "tm_id (rn_terminal rn) = ei_terminalProvider intent"
    and "map_of (rn_harnesses rn) (wh_provider (ei_harness intent)) = Some harness"
    and "open_workspace rn rt intent harness w = (Inr opened, w1)"
    and "mr_signal rt = Some s" and "\<And>t. wd_time w1 \<le> t \<Longrightarrow> s t \<noteq> None"
    and "ensure_agent_workspace rn rt intent w = (r, w2)"
  shows "wd_events w2 = wd_events w1 \<and> (\<forall>rc. r = Inr rc \<longrightarrow> \<not> receipt_accepted rc)"
proof -
  let ?R = "\<lambda>r w'. wd_events w' = wd_events w1 \<and> (\<forall>rc. r = Inr rc \<longrightarrow> \<not> receipt_accepted rc)"
  have close: "wp (close_opened_target_best_effort rn rt i) R w'"
    if "wd_time w1 \<le> wd_time w'" "\<And>r w''. wd_events w'' = wd_events w' \<Longrightarrow> R r w''" for i R w'
    unfolding close_opened_target_best_effort_def best_effort_def wp_rules
    by (rule wp_mutation_aborted [OF assms(4)])
      (auto simp: wp_rules assms(5) that(1) intro!: wp_write_log that(2))
  have "wp (catching (launch_in_workspace rn rt intent harness opened) (\<lambda>v.
      and_then (close_opened_target_best_effort rn rt (ib_targetId (od_target opened)))
        (\<lambda>_. rejected rn (EnsureAgentWorkspace intent) v intent_failed))) ?R w1"
    using assms(5) [of "wd_time w1"] unfolding launch_in_workspace_def
    by (auto simp: wp_rules assms(4) receipt_accepted_def split: sum.split intro!: close wp_rejected)
  then have "wp (ensure_agent_workspace rn rt intent) ?R w"
    using assms(1-3) by (simp add: ensure_agent_workspace_def Let_def wp_branching wp_def [of "open_workspace _ _ _ _"])
  then show ?thesis using assms(6) by (rule wpD)
qed

subsection \<open>Every intent is answered\<close>

definition answers :: "terminal_intent \<Rightarrow> intent_receipt \<Rightarrow> bool" where
  "answers intent rc =
     (valid_intent_receipt rc \<and> ir_commandId rc = intent_command intent \<and>
      ir_type rc = type_of_intent intent \<and> ir_terminalProvider rc = intent_provider intent)"

definition answered :: "terminal_intent \<Rightarrow> thrown + intent_receipt \<Rightarrow> bool" where
  "answered intent r = (case r of Inl v \<Rightarrow> v = zod_error | Inr rc \<Rightarrow> answers intent rc)"

lemma answered_simps [simp]:
  "answered intent (Inl v) \<longleftrightarrow> v = zod_error" "answered intent (Inr rc) \<longleftrightarrow> answers intent rc"
  by (simp_all add: answered_def)

lemma wp_any: "(\<And>r w'. Q r w') \<Longrightarrow> wp m Q w"
  by (simp add: wp_def split: prod.split)

lemma wp_receipt_answered:
  assumes "\<And>r w'. answered intent r \<Longrightarrow> Q r w'"
  shows "wp (accepted rn intent) Q w" "wp (rejected rn intent v failure) Q w"
  by (auto simp: accepted_def rejected_def parse_receipt_def wp_rules to_safe_error_def Let_def answers_def
      split: sum.split intro!: assms)

lemma wp_and_then_any:
  "(\<And>v w'. Q (Inl v) w') \<Longrightarrow> (\<And>x w'. wp (f x) Q w') \<Longrightarrow> wp (and_then m f) Q w"
  unfolding wp_and_then by (rule wp_any) (auto split: sum.split)

lemma wp_catching_any:
  "wp m (\<lambda>r w'. case r of Inl v \<Rightarrow> True | Inr x \<Rightarrow> Q (Inr x) w') w \<Longrightarrow> (\<And>v w'. wp (h v) Q w') \<Longrightarrow>
    wp (catching m h) Q w"
  unfolding wp_catching by (erule wp_mono) (auto split: sum.splits)

lemma wp_run_intent_answered:
  assumes "not_aborted (rn_logger rn)" and "\<And>r w'. answered intent r \<Longrightarrow> Q r w'"
  shows "wp (run_intent rn rt intent) Q w"
proof -
  have close: "wp (close_opened_target_best_effort rn rt i) P w'" if "\<And>w''. P (Inr ()) w''" for i P w'
    unfolding close_opened_target_best_effort_def best_effort_def wp_rules
    using assms(1) that by (intro wp_any) (auto simp: wp_rules split: sum.split intro!: wp_write_log)
  have reject: "wp (rejected rn intent v failure) Q w'" for v failure w'
    using assms(2) by (rule wp_receipt_answered)
  have accept: "wp (accepted rn intent) (\<lambda>r w'. case r of Inl v \<Rightarrow> True | Inr x \<Rightarrow> Q (Inr x) w') w'" for w'
    using assms(2) by (intro wp_receipt_answered) (auto split: sum.split)
  have act: "wp (act_on_target rn rt intent subject failure timeoutFailure act) Q w"
    for subject failure timeoutFailure act
    unfolding act_on_target_def wp_if
    by (auto intro!: wp_catching_any wp_and_then_any accept reject)
  show ?thesis
  proof (cases intent)
    case (EnsureAgentWorkspace i)
    have "wp (launch_in_workspace rn rt i harness opened)
        (\<lambda>r w'. case r of Inl v \<Rightarrow> True | Inr x \<Rightarrow> Q (Inr x) w') w'" for harness opened w'
      unfolding launch_in_workspace_def using accept EnsureAgentWorkspace by (auto intro!: wp_and_then_any)
    then have "wp (branching (open_workspace rn rt i harness) (\<lambda>v. rejected rn intent v intent_failed) (\<lambda>opened.
        catching (launch_in_workspace rn rt i harness opened) (\<lambda>v.
          and_then (close_opened_target_best_effort rn rt (ib_targetId (od_target opened)))
            (\<lambda>_. rejected rn intent v intent_failed)))) Q w" for harness
      unfolding wp_branching wp_and_then
      by (intro wp_any) (auto split: sum.split intro!: wp_catching_any reject close simp: wp_and_then)
    then show ?thesis
      using reject by (simp add: run_intent_def EnsureAgentWorkspace ensure_agent_workspace_def Let_def
          split: option.split)
  next
    case (TerminalFocusIntent i origin)
    with act show ?thesis by (simp add: run_intent_def focus_terminal_def)
  next
    case (TerminalCloseIntent i force)
    with act show ?thesis by (simp add: run_intent_def close_terminal_def)
  qed
qed

text \<open>Every valid intent is answered with a receipt that names it, whatever the providers do, when they
  throw or never answer, and whether the command is cancelled or not; submitting its key again
  answers the same without calling anything. The log lines are written, the clock shows ISO time,
  the reasons of a cancellation and the runner's own message are texts a receipt may hold.\<close>

lemma every_intent_answered:
  assumes "valid_intent intent" and "map_of receipts (intent_key intent) = None"
    and "not_aborted (rn_logger rn)" and "\<And>t. ts_valid (rn_clock rn t)"
    and "safe_text (rn_redact rn (ef_message intent_failed))"
    and "\<And>s t v. mr_signal rt = Some s \<Longrightarrow> s t = Some v \<Longrightarrow>
      \<exists>e. to_safe_error (rn_redact rn) v intent_failed
        (no_context\<lparr>ec_commandId := Some (intent_command intent)\<rparr>) = Inr e"
    and "submit_intent rn rt intent receipts w = ((r, receipts'), w')"
  shows "(\<exists>rc. r = Inr rc \<and> answers intent rc) \<and>
    submit_intent rn' rt' intent receipts' w'' = ((r, receipts'), w'')"
proof -
  let ?ctx = "no_context\<lparr>ec_commandId := Some (intent_command intent)\<rparr>"
  let ?Q = "\<lambda>r w'. \<exists>rc. r = Inr rc \<and> answers intent rc"
  have ids: "non_empty (intent_command intent)" "non_empty (intent_provider intent)"
    using assms(1) by (cases intent; simp)+
  have reject: "wp (and_then (rejected rn intent v intent_failed)
      (\<lambda>receipt. and_then (write_log (rn_logger rn)) (\<lambda>_. give receipt))) ?Q w'"
    if "\<exists>e. to_safe_error (rn_redact rn) v intent_failed ?ctx = Inr e" for v w'
  proof -
    from that obtain e where e: "to_safe_error (rn_redact rn) v intent_failed ?ctx = Inr e" by blast
    have "valid_safe_error e" by (rule to_safe_error_valid [OF e])
    then show ?thesis using e ids assms(3,4)
      by (auto simp: rejected_def parse_receipt_def wp_rules answers_def valid_intent_receipt_def
          intro!: wp_write_log)
  qed
  have zod: "\<exists>e. to_safe_error (rn_redact rn) zod_error intent_failed ?ctx = Inr e"
    using assms(5) ids(1) by (simp add: to_safe_error_def known_safe_error_def zod_error_def Let_def
        valid_safe_error_def basic_error_def apply_safe_error_context_def no_context_def nullish_opt_def
        intent_failed_def error_with_def non_empty_def)
  have "wp (submit_parsed_intent rn rt intent) ?Q w"
    unfolding submit_parsed_intent_def wp_and_then [of "write_log _"]
    using assms(3) reject [OF zod] assms(6) [THEN reject]
    by (auto simp: wp_rules split: option.split sum.split
        intro!: wp_write_log wp_run_intent_answered)
  with assms(1,2,7) show ?thesis
    by (auto simp: submit_intent_def wp_def split: prod.splits)
qed


subsection \<open>Choosing a terminal\<close>

lemma compare_ranked_targets_comparator: "js_comparator (\<lambda>_. True) compare_ranked_targets"
  by standard (auto simp: compare_ranked_targets_def sgn_if split: if_splits)

interpretation ranked_targets: js_comparator "\<lambda>_. True" compare_ranked_targets
  by (rule compare_ranked_targets_comparator)

lemma ranked_target_None:
  assumes "target_matches_subject t p subject"
  shows "ranked_target t subject = None \<longleftrightarrow> to_state t = TermNone \<or> to_state t = TermStale"
  using assms
  by (cases "to_state t") (auto simp: ranked_target_def target_identity_rank_def Let_def
      target_matches_subject_def split: if_splits)

lemma ranked_target_fst: "ranked_target t subject = Some x \<Longrightarrow> fst x = t"
  by (auto simp: ranked_target_def split: option.splits)

text \<open>The terminal a command acts on. The selected target belongs to the provider, matches the session
  or worktree, is neither gone nor stale, and no other usable match identifies the agent better or, when
  equally well, is in a better state. Nothing is selected only when no usable target matches, and
  the error says stale exactly when a stale one does.\<close>

lemma selected_target_is_best:
  "case select_target provider subject targets of
     Inr t \<Rightarrow> t \<in> set targets \<and> target_matches_subject t provider subject \<and>
       (\<exists>i s. ranked_target t subject = Some (t, i, s) \<and>
         (\<forall>u \<in> set targets. \<forall>j k. target_matches_subject u provider subject \<and>
           ranked_target u subject = Some (u, j, k) \<longrightarrow> i < j \<or> i = j \<and> s \<le> k))
   | Inl e \<Rightarrow> (\<forall>u \<in> set targets. target_matches_subject u provider subject \<longrightarrow>
         to_state u = TermNone \<or> to_state u = TermStale) \<and>
       (se_code e = ''TERMINAL_TARGET_STALE'' \<longleftrightarrow>
         (\<exists>u \<in> set targets. target_matches_subject u provider subject \<and> to_state u = TermStale))"
proof -
  define ms where "ms = filter (\<lambda>t. target_matches_subject t provider subject) targets"
  define rs where "rs = List.map_filter (\<lambda>t. ranked_target t subject) ms"
  have rs: "x \<in> set rs \<longleftrightarrow> (\<exists>t \<in> set ms. ranked_target t subject = Some x)" for x
    by (simp add: rs_def map_filter_mem)
  show ?thesis
  proof (cases "js_sort compare_ranked_targets rs")
    case Nil
    then have "rs = []" by simp
    then have "\<forall>u \<in> set ms. ranked_target u subject = None"
      using rs by (metis empty_iff list.set(1) not_None_eq)
    with Nil show ?thesis
      by (auto simp: select_target_def ms_def [symmetric] rs_def [symmetric] list_ex_iff
          terminal_target_stale_error_def terminal_target_missing_error_def assign_subject_def basic_error_def)
        (auto simp: ms_def ranked_target_None)
  next
    case (Cons x xs)
    then have "x \<in> set rs" by (metis list.set_intros(1) set_js_sort)
    then obtain t where t: "t \<in> set ms" "ranked_target t subject = Some x" using rs by blast
    then obtain i s where x: "x = (t, i, s)" using ranked_target_fst by (metis prod.collapse)
    have "i < j \<or> i = j \<and> s \<le> k" if "u \<in> set ms" "ranked_target u subject = Some (u, j, k)" for u j k
    proof -
      have "(u, j, k) \<in> set rs" using that rs by blast
      from ranked_targets.js_sort_hd_least [OF _ Cons this] show ?thesis
        by (auto simp: x compare_ranked_targets_def split: if_splits)
    qed
    with Cons t x show ?thesis
      by (auto simp: select_target_def ms_def [symmetric] rs_def [symmetric]) (auto simp: ms_def)
  qed
qed

subsection \<open>A runner to try the properties on\<close>

definition sample_intent :: ensure_workspace_intent where
  "sample_intent =
     \<lparr>ei_commandId = ''cmd'', ei_terminalProvider = ''tmux'',
      ei_project = \<lparr>pc_id = ''web'', pc_label = ''Web'', pc_root = ''/w'', pc_defaultBranch = None,
        pc_defaults = \<lparr>pd_harness = ''codex'', pd_terminal = ''tmux'', pd_layout = ''agent''\<rparr>,
        pc_worktrunk = \<lparr>wc_enabled = True, wc_base = None, wc_managedRoot = None, wc_includeMain = None,
          wc_includeExternal = None\<rparr>, pc_recoveryBreadcrumbs = None\<rparr>,
      ei_worktree = \<lparr>wo_id = ''wt'', wo_provider = ''worktrunk'', wo_projectId = ''web'',
        wo_branch = ''b'', wo_path = ''/w/b'', wo_state = WtExists, wo_source = FromWorktrunk,
        wo_dirty = None, wo_ahead = None, wo_behind = None, wo_pr = None, wo_changeSummary = None,
        wo_checks = None, wo_confidence = None, wo_reason = None,
        wo_observedAt = ''2024-01-01T00:00:00Z'', wo_providerData = None\<rparr>,
      ei_sessionId = ''ses'',
      ei_harness = \<lparr>wh_provider = ''codex'', wh_mode = None, wh_profile = None,
        wh_permissionMode = None, wh_approvalPolicy = None, wh_sandboxMode = None\<rparr>,
      ei_layout = ''agent'', ei_focus = Some True, ei_origin = None, ei_initialPrompt = None,
      ei_resume = None\<rparr>"

definition sample_binding :: identity_binding where
  "sample_binding =
     \<lparr>ib_provider = ''tmux'', ib_targetId = ''%1'', ib_projectId = None, ib_worktreeId = Some ''wt'',
      ib_sessionId = Some ''ses'', ib_harnessRunId = None, ib_harnessBinding = None,
      ib_providerData = None, ib_confidence = High, ib_reason = ''opened''\<rparr>"

definition sample_plan :: launch_plan where
  "sample_plan =
     \<lparr>lp_provider = ''codex'', lp_command = ''codex'', lp_args = [], lp_cwd = None, lp_env = None,
      lp_mode = RunInteractive, lp_displayTitle = None, lp_providerData = None\<rparr>"

text \<open>The agent starts or does not, and focusing the terminal times out.\<close>

definition sample_runner :: "bool \<Rightarrow> intent_runner" where
  "sample_runner starts =
     \<lparr>rn_terminal = \<lparr>tm_id = ''tmux'',
        tm_openWorkspace = (\<lambda>_ _. AttemptReturns \<lparr>od_target = sample_binding, od_agentEndpointId = ''%1'',
          od_providerData = None\<rparr>),
        tm_launchProcess = Some (\<lambda>_ _. AttemptReturns \<lparr>ls_terminalTargetId = ''%1'',
          ls_agentEndpointId = ''%1'', ls_started = starts, ls_providerData = None\<rparr>),
        tm_focusTarget = (\<lambda>_ _ _. AttemptTimesOut), tm_closeTarget = (\<lambda>_ _. AttemptReturns ()),
        tm_listTargets = (\<lambda>_. AttemptReturns [])\<rparr>,
      rn_harnesses = [(''codex'', \<lparr>hn_id = ''codex'', hn_buildLaunch = (\<lambda>_ _. AttemptReturns sample_plan)\<rparr>)],
      rn_clock = (\<lambda>_. ''2024-01-01T00:00:00Z''), rn_logger = None, rn_redact = id\<rparr>"

definition sample_runtime :: mutation_runtime where
  "sample_runtime = \<lparr>mr_signal = None, mr_traceId = Some ''t''\<rparr>"

definition new_world :: "provider_event world" where
  "new_world = \<lparr>wd_time = 0, wd_events = []\<rparr>"

definition sample_submit :: "bool \<Rightarrow> ((thrown + intent_receipt) \<times> submitted) \<times> provider_event world" where
  "sample_submit starts =
     submit_intent (sample_runner starts) sample_runtime (EnsureAgentWorkspace sample_intent) [] new_world"

lemma sample_not_aborted [simp]:
  "not_aborted (mr_signal sample_runtime)" "not_aborted (rn_logger (sample_runner starts))"
  by (simp_all add: sample_runtime_def sample_runner_def not_aborted_def)

lemma sample_outcomes:
  "case fst (fst (sample_submit True)) of Inl v \<Rightarrow> False | Inr rc \<Rightarrow> receipt_accepted rc"
  "case fst (fst (sample_submit False)) of Inl v \<Rightarrow> True | Inr rc \<Rightarrow> \<not> receipt_accepted rc"
  by code_simp+

text \<open>The agent that starts keeps its workspace; the one that does not has it closed.\<close>

theorem opened_workspace_used_or_closed_witness:
  "workspace_in_use (wd_events (snd (sample_submit True))) \<and>
   workspace_gone (wd_events (snd (sample_submit False)))"
proof -
  have used: "\<exists>es. wd_events (snd (sample_submit b)) = wd_events new_world @ es \<and>
    (if \<exists>rc. fst (fst (sample_submit b)) = Inr rc \<and> receipt_accepted rc then workspace_in_use es
     else workspace_gone es)" for b
  proof -
    obtain r rs w' where eq: "sample_submit b = ((r, rs), w')" by (metis prod.exhaust)
    from opened_workspace_used_or_closed [OF eq [unfolded sample_submit_def]] show ?thesis
      by (simp add: eq)
  qed
  show ?thesis
    using used [of True] used [of False] sample_outcomes
    by (auto simp: new_world_def split: sum.splits)
qed

text \<open>The signal is aborted right after the workspace was opened.\<close>

definition cancelled_runtime :: mutation_runtime where
  "cancelled_runtime = sample_runtime\<lparr>mr_signal := Some (\<lambda>t. if t < 3 then None else Some ThrownPrimitive)\<rparr>"

lemma cancelled_opens:
  "\<exists>opened w1. open_workspace (sample_runner True) cancelled_runtime sample_intent
       \<lparr>hn_id = ''codex'', hn_buildLaunch = (\<lambda>_ _. AttemptReturns sample_plan)\<rparr> new_world = (Inr opened, w1) \<and>
     wd_time w1 = 3 \<and> length (wd_events w1) = 1"
  by (simp add: open_workspace_def run_provider_mutation_def linked_task_def sample_runner_def
      cancelled_runtime_def new_world_def and_then_def catching_def give_def ask_def Let_def observe_def
      throw_if_present_aborted_def throw_if_aborted_def boundary_attempt_def runtime_boundary_effect_def
      tick_def)

definition sample_target :: "string \<Rightarrow> terminal_state \<Rightarrow> terminal_observation" where
  "sample_target i state =
     terminal_target_observation_from_binding (sample_binding\<lparr>ib_targetId := i\<rparr>) (ei_worktree sample_intent)
       ''2024-01-01T00:00:00Z''\<lparr>to_state := state\<rparr>"

definition sample_subject :: intent_subject where
  "sample_subject = \<lparr>sj_projectId = None, sj_worktreeId = Some ''wt'', sj_sessionId = None\<rparr>"

lemma sample_selected:
  "select_target ''tmux'' sample_subject [sample_target ''%1'' TermDetached, sample_target ''%2'' TermOpen] =
     Inr (sample_target ''%2'' TermOpen)"
  by code_simp

text \<open>Of a detached and an open terminal of the worktree the open one is selected.\<close>

end
