(* ===== verification/ObservedPaths.thy ===== *)
theory ObservedPaths
  imports LocalPaths Contracts
begin

section \<open>Observed paths and bound terminals (packages/contracts/src/harnessTerminalBinding.ts)\<close>

text \<open>
  The harness providers find their runs among the terminals that name a harness binding. A
  terminal's directories are compared with a worktree's path as observed paths, which are
  normalized with \<^verbatim>\<open>node:path\<close>: empty and \<^verbatim>\<open>.\<close> segments go, \<^verbatim>\<open>..\<close> removes the segment before it.
\<close>

subsection \<open>Normalizing a path\<close>

fun split_slash :: "string \<Rightarrow> string list" where
  "split_slash [] = [[]]"
| "split_slash (c # cs) =
     (if c = CHR ''/'' then [] # split_slash cs
      else (case split_slash cs of [] \<Rightarrow> [[c]] | s # ss \<Rightarrow> (c # s) # ss))"

text \<open>The segments kept so far, the last first; \<open>climb\<close> allows to leave the start of the path.\<close>

definition keep_segment :: "bool \<Rightarrow> string list \<Rightarrow> string \<Rightarrow> string list" where
  "keep_segment climb kept s =
     (if s = '''' \<or> s = ''.'' then kept
      else if s \<noteq> ''..'' then s # kept
      else (case kept of
          [] \<Rightarrow> if climb then [s] else []
        | k # ks \<Rightarrow> if k = ''..'' then (if climb then s # kept else kept) else ks))"

definition keep_segments :: "bool \<Rightarrow> string list \<Rightarrow> string list \<Rightarrow> string list" where
  "keep_segments climb kept ss = rev (foldl (keep_segment climb) kept ss)"

definition normalize_path :: "string \<Rightarrow> string" where
  "normalize_path p =
     (if p = [] then ''.''
      else let isAbsolute = (hd p = CHR ''/''); trailing = (last p = CHR ''/'');
               body = str_join ''/'' (keep_segments (\<not> isAbsolute) [] (split_slash p))
           in if body = [] then (if isAbsolute then ''/'' else if trailing then ''./'' else ''.'')
              else (if isAbsolute then ''/'' else '''') @ body @ (if trailing then ''/'' else ''''))"

definition normalize_observed_path :: "string \<Rightarrow> string" where
  "normalize_observed_path value =
     (let normalized = normalize_path (trim value);
          withoutTrailingSlash =
            (if 1 < length normalized then strip_trailing_slashes normalized else normalized)
      in if starts_with ''/private/var/'' withoutTrailingSlash
         then ''/var/'' @ drop (length ''/private/var/'') withoutTrailingSlash
         else withoutTrailingSlash)"

definition same_observed_path :: "string \<Rightarrow> string \<Rightarrow> bool" where
  "same_observed_path left right = (normalize_observed_path left = normalize_observed_path right)"

definition observed_path_is_same_or_inside :: "string \<Rightarrow> string \<Rightarrow> bool" where
  "observed_path_is_same_or_inside candidate root =
     (let normalizedCandidate = normalize_observed_path candidate;
          normalizedRoot = normalize_observed_path root
      in if normalizedCandidate = normalizedRoot then True
         else if normalizedRoot = ''/'' then starts_with ''/'' normalizedCandidate
         else starts_with (normalizedRoot @ ''/'') normalizedCandidate)"

subsection \<open>Bound terminals\<close>

definition terminal_target_matches_harness_binding ::
  "terminal_observation \<Rightarrow> provider_id \<Rightarrow> string option \<Rightarrow> harness_binding option" where
  "terminal_target_matches_harness_binding target harnessProvider role =
     (case to_harnessBinding target of
        None \<Rightarrow> None
      | Some binding \<Rightarrow>
          if hb_harnessProvider binding \<noteq> harnessProvider then None
          else if (case role of None \<Rightarrow> False | Some r \<Rightarrow> hb_role binding \<noteq> r) then None
          else Some binding)"

definition terminal_target_matches_known_worktree ::
  "terminal_observation \<Rightarrow> worktree_observation list \<Rightarrow> bool" where
  "terminal_target_matches_known_worktree target worktrees =
     (case to_worktreeId target of
        None \<Rightarrow> True
      | Some worktreeId \<Rightarrow>
          (case find (\<lambda>w. wo_id w = worktreeId) worktrees of
             None \<Rightarrow> True
           | Some worktree \<Rightarrow>
               if (case to_harnessBinding target of
                     None \<Rightarrow> False
                   | Some b \<Rightarrow> (case hb_worktreePath b of
                       None \<Rightarrow> False | Some p \<Rightarrow> \<not> same_observed_path p (wo_path worktree)))
               then False
               else (case to_cwd target of
                   None \<Rightarrow> True
                 | Some cwd \<Rightarrow> observed_path_is_same_or_inside cwd (wo_path worktree))))"

definition is_definitely_shell_command :: "string option \<Rightarrow> bool" where
  "is_definitely_shell_command command =
     (case command of
        None \<Rightarrow> False
      | Some c \<Rightarrow> c \<in> set [''bash'', ''dash'', ''fish'', ''sh'', ''tmux'', ''zsh''])"

definition harness_run_id_for_terminal_target :: "provider_id \<Rightarrow> terminal_target_id \<Rightarrow> harness_run_id" where
  "harness_run_id_for_terminal_target harnessProvider terminalTargetId =
     harnessProvider @ '':'' @ terminalTargetId"

definition terminal_harness_run_provider_data ::
  "provider_id \<Rightarrow> terminal_target_id \<Rightarrow> string option \<Rightarrow> json" where
  "terminal_harness_run_provider_data terminalProvider terminalTargetId command =
     JObj ([(''terminalProvider'', JStr terminalProvider), (''terminalTargetId'', JStr terminalTargetId)] @
       (case command of
          None \<Rightarrow> [] | Some c \<Rightarrow> [(''process'', JObj [(''command'', JStr c)])]))"

definition terminal_bound_harness_run_observation ::
  "provider_id \<Rightarrow> terminal_observation \<Rightarrow> string option \<Rightarrow> string \<Rightarrow> run_observation" where
  "terminal_bound_harness_run_observation harnessProvider target currentCommand reason =
     \<lparr>ro_id = nullish (to_harnessRunId target) (harness_run_id_for_terminal_target harnessProvider (to_id target)),
      ro_provider = harnessProvider, ro_projectId = to_projectId target,
      ro_worktreeId = to_worktreeId target, ro_sessionId = to_sessionId target,
      ro_pid = to_pid target, ro_cwd = to_cwd target, ro_state = AgentUnknown, ro_confidence = Low,
      ro_reason = reason, ro_observedAt = to_observedAt target,
      ro_providerData = Some (terminal_harness_run_provider_data (to_provider target) (to_id target)
        currentCommand)\<rparr>"

definition discovered_run ::
  "provider_id \<Rightarrow> string \<Rightarrow> string option \<Rightarrow> worktree_observation list \<Rightarrow> terminal_observation \<Rightarrow>
     run_observation option" where
  "discovered_run harnessProvider displayName role worktrees target =
     (case terminal_target_matches_harness_binding target harnessProvider role of
        None \<Rightarrow> None
      | Some binding \<Rightarrow>
          if is_definitely_shell_command (hb_currentCommand binding) then None
          else if \<not> terminal_target_matches_known_worktree target worktrees then None
          else Some (terminal_bound_harness_run_observation harnessProvider target
            (hb_currentCommand binding)
            (''terminal target is bound to '' @ displayName @ ''; no reliable lifecycle signal yet.'')))"

definition discover_terminal_bound_harness_runs ::
  "worktree_observation list \<Rightarrow> terminal_observation list \<Rightarrow> provider_id \<Rightarrow> string \<Rightarrow> string option \<Rightarrow>
     run_observation list" where
  "discover_terminal_bound_harness_runs worktrees terminalTargets harnessProvider displayName role =
     List.map_filter (discovered_run harnessProvider displayName role worktrees) terminalTargets"

subsection \<open>Normalizing twice\<close>

lemma split_slash_no_slash: "s \<in> set (split_slash p) \<Longrightarrow> CHR ''/'' \<notin> set s"
  by (induction p arbitrary: s) (auto split: list.splits if_splits)

lemma split_slash_not_Nil [simp]: "split_slash p \<noteq> []"
  by (cases p) (auto split: list.split)

lemma split_slash_segment: "CHR ''/'' \<notin> set s \<Longrightarrow> split_slash s = [s]"
  by (induction s) auto

lemma split_slash_append:
  "CHR ''/'' \<notin> set s \<Longrightarrow> split_slash (s @ CHR ''/'' # p) = s # split_slash p"
  by (induction s) auto

lemma split_slash_join:
  "\<forall>s \<in> set ss. CHR ''/'' \<notin> set s \<Longrightarrow> ss \<noteq> [] \<Longrightarrow> split_slash (str_join ''/'' ss) = ss"
  by (induction "''/''" ss rule: str_join.induct) (auto simp: split_slash_segment split_slash_append)

lemma split_slash_join_slash:
  "\<forall>s \<in> set ss. CHR ''/'' \<notin> set s \<Longrightarrow> ss \<noteq> [] \<Longrightarrow>
    split_slash (str_join ''/'' ss @ ''/'') = ss @ ['''']"
  by (induction "''/''" ss rule: str_join.induct) (auto simp: split_slash_append)

text \<open>The segments that are kept: proper names behind the climbing ones, if those are allowed.\<close>

definition canonical :: "bool \<Rightarrow> string list \<Rightarrow> bool" where
  "canonical climb ss =
     (\<exists>n names. ss = replicate n ''..'' @ names \<and> (n = 0 \<or> climb) \<and>
        (\<forall>s \<in> set names. s \<noteq> '''' \<and> s \<noteq> ''.'' \<and> s \<noteq> ''..''))"

lemma canonicalI:
  "ss = replicate n ''..'' @ names \<Longrightarrow> n = 0 \<or> climb \<Longrightarrow>
    \<forall>s \<in> set names. s \<noteq> '''' \<and> s \<noteq> ''.'' \<and> s \<noteq> ''..'' \<Longrightarrow> canonical climb ss"
  unfolding canonical_def by blast

lemma canonicalE:
  assumes "canonical climb ss"
  obtains n names where "ss = replicate n ''..'' @ names" "n = 0 \<or> climb"
    "\<forall>s \<in> set names. s \<noteq> '''' \<and> s \<noteq> ''.'' \<and> s \<noteq> ''..''"
  using assms unfolding canonical_def by blast

lemma canonical_not_Nil: "canonical climb ss \<Longrightarrow> \<forall>s \<in> set ss. s \<noteq> []"
  by (elim canonicalE) (metis Un_iff in_set_replicate list.distinct(1) set_append)

lemma canonical_snoc:
  assumes "canonical climb ss" and "s \<noteq> ''''" "s \<noteq> ''.''" "s \<noteq> ''..''"
  shows "canonical climb (ss @ [s])"
  using assms(1)
proof (rule canonicalE)
  fix n names
  assume "ss = replicate n ''..'' @ names" "n = 0 \<or> climb"
    "\<forall>s \<in> set names. s \<noteq> '''' \<and> s \<noteq> ''.'' \<and> s \<noteq> ''..''"
  with assms(2-) show ?thesis by (intro canonicalI [of _ n "names @ [s]"]) auto
qed

lemma canonical_climb:
  assumes "canonical True ss" and "ss = [] \<or> last ss = ''..''"
  shows "canonical True (ss @ [''..''])"
  using assms(1)
proof (rule canonicalE)
  fix n names
  assume *: "ss = replicate n ''..'' @ names" "\<forall>s \<in> set names. s \<noteq> '''' \<and> s \<noteq> ''.'' \<and> s \<noteq> ''..''"
  with assms(2) have "names = []" by (metis append_is_Nil_conv last_appendR last_in_set)
  with * show ?thesis by (intro canonicalI [of _ "Suc n" "[]"]) (simp_all add: replicate_append_same)
qed

lemma canonical_butlast:
  assumes "canonical climb (ss @ [s])" and "s \<noteq> ''..''"
  shows "canonical climb ss"
  using assms(1)
proof (rule canonicalE)
  fix n names
  assume *: "ss @ [s] = replicate n ''..'' @ names" "n = 0 \<or> climb"
    "\<forall>s \<in> set names. s \<noteq> '''' \<and> s \<noteq> ''.'' \<and> s \<noteq> ''..''"
  have "names \<noteq> []"
  proof
    assume "names = []"
    with *(1) have "s \<in> set (replicate n ''..'')" by (metis append_Nil2 in_set_conv_decomp)
    with assms(2) show False by simp
  qed
  with *(1) have "ss = replicate n ''..'' @ butlast names" by (metis butlast_append butlast_snoc)
  with * show ?thesis by (intro canonicalI [of _ n "butlast names"]) (auto dest: in_set_butlastD)
qed

lemma keep_segments_simps [simp]:
  "keep_segments climb kept [] = rev kept"
  "keep_segments climb kept (s # ss) = keep_segments climb (keep_segment climb kept s) ss"
  by (simp_all add: keep_segments_def)

lemma keep_segment_canonical: "canonical climb (rev kept) \<Longrightarrow> canonical climb (rev (keep_segment climb kept s))"
  using canonical_climb [of "rev kept"] canonical_snoc [of climb "rev kept" s]
  by (cases kept) (auto simp: keep_segment_def intro: canonical_butlast)

lemma keep_segments_canonical:
  "canonical climb (rev kept) \<Longrightarrow> canonical climb (keep_segments climb kept ss)"
  by (induction ss arbitrary: kept) (simp_all add: keep_segment_canonical)

lemma keep_segments_set: "set (keep_segments climb kept ss) \<subseteq> set kept \<union> set ss"
proof (induction ss arbitrary: kept)
  case (Cons s ss)
  have "set (keep_segment climb kept s) \<subseteq> insert s (set kept)"
    by (auto simp: keep_segment_def split: list.splits if_splits)
  with Cons.IH [of "keep_segment climb kept s"] show ?case by auto
qed simp

lemma keep_segments_names:
  "\<forall>s \<in> set names. s \<noteq> '''' \<and> s \<noteq> ''.'' \<and> s \<noteq> ''..'' \<Longrightarrow>
    keep_segments climb kept (names @ rest) = keep_segments climb (rev names @ kept) rest"
  by (induction names arbitrary: kept) (auto simp: keep_segment_def)

lemma keep_segments_climbs:
  "set kept \<subseteq> {''..''} \<Longrightarrow>
    keep_segments True kept (replicate n ''..'' @ rest) = keep_segments True (replicate n ''..'' @ kept) rest"
proof (induction n arbitrary: kept)
  case (Suc n)
  then have "keep_segment True kept ''..'' = ''..'' # kept"
    by (cases kept) (auto simp: keep_segment_def)
  with Suc.IH [of "''..'' # kept"] Suc.prems show ?case by (simp add: replicate_app_Cons_same)
qed simp

lemma keep_segments_of_canonical:
  assumes "canonical climb ss" and "set rest \<subseteq> {''''}"
  shows "keep_segments climb [] (ss @ rest) = ss"
  using assms(1)
proof (rule canonicalE)
  fix n names
  assume ss: "ss = replicate n ''..'' @ names" "n = 0 \<or> climb"
      "\<forall>s \<in> set names. s \<noteq> '''' \<and> s \<noteq> ''.'' \<and> s \<noteq> ''..''"
  have rest: "keep_segments climb kept rest = rev kept" for climb kept
    using assms(2) by (induction rest) (auto simp: keep_segment_def)
  show ?thesis
  proof (cases n)
    case 0
    with ss show ?thesis by (simp add: keep_segments_names rest)
  next
    case (Suc m)
    with ss(2) have climb by simp
    with ss show ?thesis using keep_segments_climbs [of "[]" n] by (simp add: keep_segments_names rest)
  qed
qed

lemma str_join_ends:
  assumes "\<forall>s \<in> set ss. s \<noteq> [] \<and> c \<notin> set s" and "ss \<noteq> []"
  shows "str_join sep ss \<noteq> [] \<and> hd (str_join sep ss) \<noteq> c \<and> last (str_join sep ss) \<noteq> c"
  using assms
proof (induction sep ss rule: str_join.induct)
  case (2 sep s)
  then show ?case by (metis hd_in_set last_in_set list.set_intros(1) str_join.simps(2))
next
  case (3 sep s t ss)
  then have "str_join sep (t # ss) \<noteq> [] \<and> last (str_join sep (t # ss)) \<noteq> c" by simp
  moreover have "s \<noteq> []" "hd s \<noteq> c" using "3.prems"(1) by (auto dest: hd_in_set)
  ultimately show ?case by simp
qed simp

text \<open>The path of canonical segments, from the root or not, with a slash at the end or not.\<close>

definition path_of :: "bool \<Rightarrow> bool \<Rightarrow> string list \<Rightarrow> string" where
  "path_of root trailing ss =
     (if ss = [] then (if root then ''/'' else if trailing then ''./'' else ''.'')
      else (if root then ''/'' else '''') @ str_join ''/'' ss @ (if trailing then ''/'' else ''''))"

lemma normalize_path_of:
  assumes "canonical (\<not> root) ss" and "\<forall>s \<in> set ss. CHR ''/'' \<notin> set s"
  shows "normalize_path (path_of root trailing ss) = path_of root trailing ss"
proof (cases "ss = []")
  case True
  then show ?thesis by (auto simp: path_of_def normalize_path_def keep_segment_def)
next
  case False
  have ne: "\<forall>s \<in> set ss. s \<noteq> [] \<and> CHR ''/'' \<notin> set s"
    using assms by (auto elim!: canonicalE)
  note ends = str_join_ends [OF ne False, of "''/''"]
  let ?p = "path_of root trailing ss"
  have first: "hd ?p = CHR ''/'' \<longleftrightarrow> root" and last: "last ?p = CHR ''/'' \<longleftrightarrow> trailing" and "?p \<noteq> []"
    using ends False by (auto simp: path_of_def)
  have "split_slash ?p = (if root then [''''] else []) @ ss @ (if trailing then [''''] else [])"
    using assms(2) False by (auto simp: path_of_def split_slash_join split_slash_join_slash)
  then have "keep_segments (\<not> root) [] (split_slash ?p) = ss"
    using keep_segments_of_canonical [OF assms(1), of "if trailing then [''''] else []"]
    by (auto simp: keep_segment_def)
  with first last \<open>?p \<noteq> []\<close> ends False show ?thesis
    by (auto simp: normalize_path_def path_of_def Let_def)
qed

lemma str_join_eq_Nil: "\<forall>s \<in> set ss. s \<noteq> [] \<Longrightarrow> str_join sep ss = [] \<longleftrightarrow> ss = []"
  by (induction sep ss rule: str_join.induct) auto

lemma normalize_path_canonical:
  assumes "p \<noteq> []"
  shows "normalize_path p = path_of (hd p = CHR ''/'') (last p = CHR ''/'')
    (keep_segments (hd p \<noteq> CHR ''/'') [] (split_slash p))"
proof -
  define ks where "ks = keep_segments (hd p \<noteq> CHR ''/'') [] (split_slash p)"
  have "canonical (hd p \<noteq> CHR ''/'') ks"
    unfolding ks_def by (rule keep_segments_canonical, rule canonicalI [of _ 0 "[]"]) simp_all
  then have "\<forall>s \<in> set ks. s \<noteq> []" by (rule canonical_not_Nil)
  then have "str_join ''/'' ks = [] \<longleftrightarrow> ks = []" by (rule str_join_eq_Nil)
  with assms show ?thesis
    unfolding normalize_path_def path_of_def Let_def ks_def [symmetric] by (cases "ks = []") simp_all
qed

lemma normalize_path_idem: "normalize_path (normalize_path p) = normalize_path p"
proof (cases "p = []")
  case True
  then show ?thesis by (simp add: normalize_path_def keep_segment_def)
next
  case False
  let ?a = "hd p = CHR ''/''" and ?ks = "keep_segments (hd p \<noteq> CHR ''/'') [] (split_slash p)"
  have "canonical (\<not> ?a) ?ks"
    by (rule keep_segments_canonical, rule canonicalI [of _ 0 "[]"]) simp_all
  moreover have "\<forall>s \<in> set ?ks. CHR ''/'' \<notin> set s"
    using keep_segments_set [of "\<not> ?a" "[]" "split_slash p"] split_slash_no_slash by fastforce
  ultimately show ?thesis using normalize_path_of False by (simp add: normalize_path_canonical)
qed

subsection \<open>What is discovered\<close>

lemma discovered_run_Some:
  "discovered_run harnessProvider displayName role worktrees target = Some run \<Longrightarrow>
     (\<exists>binding. to_harnessBinding target = Some binding \<and> hb_harnessProvider binding = harnessProvider \<and>
        (\<forall>r. role = Some r \<longrightarrow> hb_role binding = r) \<and>
        \<not> is_definitely_shell_command (hb_currentCommand binding)) \<and>
     terminal_target_matches_known_worktree target worktrees \<and>
     ro_provider run = harnessProvider \<and> ro_worktreeId run = to_worktreeId target \<and>
     ro_sessionId run = to_sessionId target \<and>
     ro_id run = nullish (to_harnessRunId target) (harness_run_id_for_terminal_target harnessProvider (to_id target))"
  by (auto simp: discovered_run_def terminal_target_matches_harness_binding_def
      terminal_bound_harness_run_observation_def split: option.splits if_splits)

text \<open>Terminals that carry no run of their own give different runs.\<close>

lemma discovered_run_ids_distinct:
  "distinct (map to_id targets) \<Longrightarrow> \<forall>t \<in> set targets. to_harnessRunId t = None \<Longrightarrow>
    distinct (map ro_id (discover_terminal_bound_harness_runs worktrees targets harnessProvider displayName role))"
proof (induction targets)
  case (Cons t ts)
  show ?case
  proof (cases "discovered_run harnessProvider displayName role worktrees t")
    case None
    with Cons show ?thesis
      by (simp add: discover_terminal_bound_harness_runs_def List.map_filter_simps)
  next
    case (Some run)
    have other: "ro_id run \<noteq> ro_id r"
      if "u \<in> set ts" "discovered_run harnessProvider displayName role worktrees u = Some r" for u r
    proof -
      have "to_id u \<noteq> to_id t" using Cons.prems(1) that(1) by (metis distinct.simps(2) image_eqI list.set_map list.simps(9))
      with discovered_run_Some [OF Some] discovered_run_Some [OF that(2)] Cons.prems(2) that(1) show ?thesis
        by (simp add: harness_run_id_for_terminal_target_def)
    qed
    then have "ro_id run \<notin> ro_id ` set (discover_terminal_bound_harness_runs worktrees ts harnessProvider
        displayName role)"
      by (metis (lifting) discover_terminal_bound_harness_runs_def image_iff map_filter_mem)
    with Some Cons show ?thesis
      by (simp add: discover_terminal_bound_harness_runs_def List.map_filter_simps)
  qed
qed (simp add: discover_terminal_bound_harness_runs_def List.map_filter_simps)

end
