(* ===== verification/SessionCommands.thy ===== *)
theory SessionCommands
  imports TerminalIntents ObservedPaths
begin

section \<open>Session commands (apps/observer/src/commands/session)\<close>

text \<open>
  The handlers that create a session in a new worktree and start an agent in an existing one:
  validate, make the worktree, seed the session's title, submit the terminal intent, and undo what
  was done when a later step fails. The handler is called with a payload of its own type. It
  submits one intent at most; \<open>receipts\<close> are those of the intents submitted before.
\<close>

subsection \<open>Surroundings\<close>

record persisted_worktree =
  pw_id :: worktree_id
  pw_projectId :: project_id
  pw_path :: string

record persisted_session =
  ps_id :: session_id
  ps_projectId :: project_id
  ps_worktreeId :: worktree_id
  ps_harness :: "provider_id option"
  ps_createdAt :: string
  ps_lastSeenAt :: string

record session_env =
  sn_projects :: "project_config list"
  sn_runner :: intent_runner
  sn_worktreeProvider :: provider_id
  sn_createWorktree :: "project_config \<Rightarrow> string \<Rightarrow> string option \<Rightarrow> nat \<Rightarrow> worktree_observation attempt"
  sn_removeWorktree :: "project_id \<Rightarrow> worktree_id \<Rightarrow> nat \<Rightarrow> unit attempt"
  sn_getWorktree :: "(project_id \<Rightarrow> worktree_id \<Rightarrow> nat \<Rightarrow> worktree_observation option attempt) option"
  sn_seedTitle :: "session_id \<Rightarrow> string \<Rightarrow> nat \<Rightarrow> thrown option"
  sn_deleteTitle :: "session_id \<Rightarrow> nat \<Rightarrow> thrown option"
  sn_listSessions :: "nat \<Rightarrow> thrown + persisted_session list"
  sn_listWorktrees :: "nat \<Rightarrow> thrown + persisted_worktree list"
  sn_recordEvent :: "wosm_event \<Rightarrow> nat \<Rightarrow> thrown option"
  sn_getSnapshot :: "nat \<Rightarrow> snapshot"
  sn_reconcile :: "string \<Rightarrow> nat \<Rightarrow> thrown + snapshot"
  sn_newSessionId :: "nat \<Rightarrow> session_id"
  sn_logger :: "abort_signal option"
  sn_hasEventBus :: bool

record handler_context =
  hc_commandId :: command_id
  hc_traceId :: string
  hc_spanId :: string
  hc_signal :: abort_signal

definition handler_runtime :: "handler_context \<Rightarrow> mutation_runtime" where
  "handler_runtime c = \<lparr>mr_signal = Some (hc_signal c), mr_traceId = Some (hc_traceId c)\<rparr>"

text \<open>The clean-up runs with the trace but not with the signal of the command.\<close>

definition cleanup_runtime :: "handler_context \<Rightarrow> mutation_runtime" where
  "cleanup_runtime c = \<lparr>mr_signal = None, mr_traceId = Some (hc_traceId c)\<rparr>"

definition clock_of :: "session_env \<Rightarrow> nat \<Rightarrow> timestamp" where
  "clock_of env = rn_clock (sn_runner env)"

subsection \<open>Shared steps (shared.ts, providers.ts, errors.ts, reconcile.ts)\<close>

definition find_project :: "session_env \<Rightarrow> project_id \<Rightarrow> ('e, project_config) action" where
  "find_project env projectId =
     (case find (\<lambda>p. pc_id p = projectId) (sn_projects env) of
        Some project \<Rightarrow> give project
      | None \<Rightarrow> throw_error ((basic_error ''CommandValidationError'' ''PROJECT_NOT_CONFIGURED''
          ''This project is not configured in wosm.'')
          \<lparr>se_hint := Some ''Add the project to config.toml and retry.'', se_projectId := Some projectId\<rparr>))"

definition resolve_terminal_provider :: "session_env \<Rightarrow> provider_id \<Rightarrow> ('e, unit) action" where
  "resolve_terminal_provider env providerId =
     (if tm_id (rn_terminal (sn_runner env)) = providerId then give ()
      else throw_error ((basic_error ''TerminalProviderError'' ''TERMINAL_PROVIDER_UNAVAILABLE''
        ''The requested terminal provider is not registered.'')\<lparr>se_provider := Some providerId\<rparr>))"

definition resolve_harness_provider :: "session_env \<Rightarrow> provider_id \<Rightarrow> ('e, unit) action" where
  "resolve_harness_provider env providerId =
     (if map_of (rn_harnesses (sn_runner env)) providerId \<noteq> None then give ()
      else throw_error ((basic_error ''HarnessProviderError'' ''HARNESS_PROVIDER_UNAVAILABLE''
        ''The requested harness provider is not registered.'')\<lparr>se_provider := Some providerId\<rparr>))"

definition assert_no_current_agent :: "worktree_row option \<Rightarrow> ('e, unit) action" where
  "assert_no_current_agent row =
     (case row of
        None \<Rightarrow> give ()
      | Some r \<Rightarrow> (case row_agent r of
          None \<Rightarrow> give ()
        | Some agent \<Rightarrow> throw_error ((basic_error ''CommandValidationError'' ''SESSION_ALREADY_HAS_AGENT''
            ''This worktree already has a primary agent session.'')
            \<lparr>se_hint := Some ''Focus the existing agent or close it before starting a new one.'',
             se_worktreeId := Some (row_id r), se_sessionId := ag_sessionId agent\<rparr>)))"

definition worktree_observation_from_row :: "worktree_row \<Rightarrow> provider_id \<Rightarrow> timestamp \<Rightarrow> worktree_observation" where
  "worktree_observation_from_row row provider observedAt =
     \<lparr>wo_id = row_id row, wo_provider = provider, wo_projectId = row_projectId row,
      wo_branch = row_branch row, wo_path = row_path row, wo_state = wr_state (row_worktree row),
      wo_source = wr_source (row_worktree row), wo_dirty = wr_dirty (row_worktree row),
      wo_ahead = wr_ahead (row_worktree row), wo_behind = wr_behind (row_worktree row),
      wo_pr = wr_pr (row_worktree row), wo_changeSummary = wr_changeSummary (row_worktree row),
      wo_checks = wr_checks (row_worktree row), wo_confidence = Some High,
      wo_reason = Some ''Resolved from the current observer snapshot.'', wo_observedAt = observedAt,
      wo_providerData = None\<rparr>"

definition seed_session_title ::
  "session_env \<Rightarrow> session_id \<Rightarrow> string \<Rightarrow> (provider_event, unit) action" where
  "seed_session_title env sessionId title =
     ask_throwing (sn_seedTitle env sessionId (trim title)) (SeededTitle sessionId (trim title))"

definition delete_session_title_seed_best_effort ::
  "session_env \<Rightarrow> session_id \<Rightarrow> (provider_event, unit) action" where
  "delete_session_title_seed_best_effort env sessionId =
     best_effort (sn_logger env) (ask_throwing (sn_deleteTitle env sessionId) (DeletedTitle sessionId))"

definition remove_worktree_best_effort ::
  "session_env \<Rightarrow> handler_context \<Rightarrow> project_id \<Rightarrow> worktree_id \<Rightarrow> (provider_event, unit) action" where
  "remove_worktree_best_effort env c projectId worktreeId =
     best_effort (sn_logger env)
       (run_provider_mutation (cleanup_runtime c)
         (error_with ''WorktreeProviderError'' ''WORKTREE_CLEANUP_REMOVE_FAILED''
           ''The worktree provider failed to remove a worktree during cleanup.'' (Some (sn_worktreeProvider env)))
         None (ask (sn_removeWorktree env projectId worktreeId) (RemovedWorktree worktreeId)))"

definition publish :: "session_env \<Rightarrow> wosm_event \<Rightarrow> (provider_event, unit) action" where
  "publish env event =
     (if sn_hasEventBus env then ask (\<lambda>_. ()) (\<lambda>_. PublishedEvent event) else give ())"

definition reconcile_and_publish ::
  "session_env \<Rightarrow> handler_context \<Rightarrow> string \<Rightarrow> (provider_event, snapshot) action" where
  "reconcile_and_publish env c reason =
     and_then (observe (sn_reconcile env reason)) (\<lambda>r.
     and_then (settle r) (\<lambda>snapshot.
     and_then (publish env (ObserverReconciled (ss_generatedAt snapshot) 0
         \<lparr>tr_traceId = Some (hc_traceId c), tr_spanId = Some (hc_spanId c)\<rparr>)) (\<lambda>_.
     give snapshot)))"

definition publish_session_created ::
  "session_env \<Rightarrow> snapshot \<Rightarrow> session_id \<Rightarrow> (provider_event, session_view option) action" where
  "publish_session_created env snapshot sessionId =
     (case find (\<lambda>s. sv_id s = sessionId) (ss_sessions snapshot) of
        None \<Rightarrow> give None
      | Some session \<Rightarrow>
          and_then (ask_throwing (sn_recordEvent env (SessionCreated session))
            (RecordedEvent (SessionCreated session))) (\<lambda>_.
          and_then (publish env (SessionCreated session)) (\<lambda>_. give (Some session))))"

text \<open>Submitting a workspace intent; the receipt is an error when it was rejected.\<close>

definition submit_workspace ::
  "intent_runner \<Rightarrow> mutation_runtime \<Rightarrow> submitted \<Rightarrow> ensure_workspace_intent \<Rightarrow>
     (provider_event, intent_receipt) action" where
  "submit_workspace rn runtime receipts intent w =
     (case submit_intent rn runtime (EnsureAgentWorkspace intent) receipts w of
        ((r, receipts'), w') \<Rightarrow> (r, w'))"

definition receipt_or_throw :: "(provider_event, intent_receipt) action \<Rightarrow> (provider_event, intent_receipt) action" where
  "receipt_or_throw submit =
     and_then submit (\<lambda>receipt.
       case ir_error receipt of None \<Rightarrow> give receipt | Some e \<Rightarrow> throw_error e)"

fun terminal_layout_name :: "terminal_layout \<Rightarrow> string" where
  "terminal_layout_name LayoutDefault = ''default''"
| "terminal_layout_name LayoutAgentOnly = ''agent-only''"
| "terminal_layout_name LayoutAgentBuildShell = ''agent-build-shell''"

subsection \<open>Creating a session (create.ts)\<close>

text \<open>The provider of the harness and of the terminal are required in a create payload.\<close>

definition create_session_intent ::
  "handler_context \<Rightarrow> project_config \<Rightarrow> worktree_observation \<Rightarrow> session_id \<Rightarrow> create_session_payload \<Rightarrow>
     ensure_workspace_intent" where
  "create_session_intent c project worktree sessionId payload =
     \<lparr>ei_commandId = hc_commandId c,
      ei_terminalProvider = nullish (to_opt_provider (cse_terminal payload)) [],
      ei_project = project, ei_worktree = worktree, ei_sessionId = sessionId,
      ei_harness = \<lparr>wh_provider = nullish (ho_provider (cse_harness payload)) [],
        wh_mode = ho_mode (cse_harness payload), wh_profile = ho_profile (cse_harness payload),
        wh_permissionMode = None, wh_approvalPolicy = ho_approvalPolicy (cse_harness payload),
        wh_sandboxMode = ho_sandboxMode (cse_harness payload)\<rparr>,
      ei_layout = nullish (map_option terminal_layout_name (to_opt_layout (cse_terminal payload)))
        (pd_layout (pc_defaults project)),
      ei_focus = to_opt_focus (cse_terminal payload), ei_origin = to_opt_origin (cse_terminal payload),
      ei_initialPrompt = cse_initialPrompt payload, ei_resume = None\<rparr>"

definition create_worktree ::
  "session_env \<Rightarrow> handler_context \<Rightarrow> project_config \<Rightarrow> create_session_payload \<Rightarrow>
     (provider_event, worktree_observation) action" where
  "create_worktree env c project payload =
     run_provider_mutation (handler_runtime c)
       (error_with ''WorktreeProviderError'' ''WORKTREE_CREATE_FAILED''
         ''The worktree provider failed to create the session worktree.'' (Some (sn_worktreeProvider env))) None
       (ask (sn_createWorktree env project (cse_branch payload) (cse_base payload))
         (CreatedWorktree (pc_id project) (cse_branch payload)))"

text \<open>
  The \<^verbatim>\<open>try\<close> around seeding the title and submitting the intent. When it throws, it says whether
  the title was seeded; the handlers keep this in a variable.
\<close>

definition start_session ::
  "abort_signal \<Rightarrow> (provider_event, unit) action \<Rightarrow> (provider_event, intent_receipt) action \<Rightarrow>
     (provider_event, unit + thrown \<times> bool) action" where
  "start_session signal seed submit =
     branching seed
       (\<lambda>v. give (Inr (v, False)))
       (\<lambda>_. branching
         (and_then (throw_if_aborted signal) (\<lambda>_.
          and_then (receipt_or_throw submit) (\<lambda>_. throw_if_aborted signal)))
         (\<lambda>v. give (Inr (v, True)))
         (\<lambda>_. give (Inl ())))"

definition clean_up_session ::
  "session_env \<Rightarrow> session_id \<Rightarrow> bool \<Rightarrow> (provider_event, unit) action" where
  "clean_up_session env sessionId seeded =
     (if seeded then delete_session_title_seed_best_effort env sessionId else give ())"

definition session_create ::
  "session_env \<Rightarrow> handler_context \<Rightarrow> submitted \<Rightarrow> create_session_payload \<Rightarrow> (provider_event, unit) action" where
  "session_create env c receipts payload =
     and_then (throw_if_aborted (hc_signal c)) (\<lambda>_.
     and_then (find_project env (cse_projectId payload)) (\<lambda>project.
     and_then (resolve_terminal_provider env (nullish (to_opt_provider (cse_terminal payload)) [])) (\<lambda>_.
     and_then (resolve_harness_provider env (nullish (ho_provider (cse_harness payload)) [])) (\<lambda>_.
     and_then (observe (sn_newSessionId env)) (\<lambda>sessionId.
     and_then (create_worktree env c project payload) (\<lambda>worktree.
     and_then (start_session (hc_signal c)
         (and_then (throw_if_aborted (hc_signal c)) (\<lambda>_.
          seed_session_title env sessionId (trim (cse_branch payload))))
         (submit_workspace (sn_runner env) (handler_runtime c) receipts
           (create_session_intent c project worktree sessionId payload))) (\<lambda>r.
     case r of
       Inr (v, seeded) \<Rightarrow>
         and_then (clean_up_session env sessionId seeded) (\<lambda>_.
         and_then (remove_worktree_best_effort env c (pc_id project) (wo_id worktree)) (\<lambda>_.
         throw v))
     | Inl _ \<Rightarrow>
         and_then (reconcile_and_publish env c ''command:session.create'') (\<lambda>snapshot.
         and_then (publish_session_created env snapshot sessionId) (\<lambda>_. give ())))))))))"

subsection \<open>Starting an agent (startAgent.ts)\<close>

definition start_agent_intent ::
  "handler_context \<Rightarrow> project_config \<Rightarrow> worktree_observation \<Rightarrow> session_id \<Rightarrow> provider_id \<Rightarrow> provider_id \<Rightarrow>
     start_agent_payload \<Rightarrow> ensure_workspace_intent" where
  "start_agent_intent c project worktree sessionId terminalProvider harnessProvider payload =
     (let terminal = sa_terminal payload; harness = sa_harness payload in
      \<lparr>ei_commandId = hc_commandId c, ei_terminalProvider = terminalProvider, ei_project = project,
       ei_worktree = worktree, ei_sessionId = sessionId,
       ei_harness = \<lparr>wh_provider = harnessProvider, wh_mode = Option.bind harness ho_mode,
         wh_profile = Option.bind harness ho_profile, wh_permissionMode = None,
         wh_approvalPolicy = None, wh_sandboxMode = None\<rparr>,
       ei_layout = nullish (map_option terminal_layout_name (Option.bind terminal to_opt_layout))
         (pd_layout (pc_defaults project)),
       ei_focus = Option.bind terminal to_opt_focus, ei_origin = Option.bind terminal to_opt_origin,
       ei_initialPrompt = sa_initialPrompt payload, ei_resume = None\<rparr>)"

definition validate_snapshot_row :: "worktree_row option \<Rightarrow> project_id \<Rightarrow> ('e, unit) action" where
  "validate_snapshot_row row projectId =
     (case row of
        None \<Rightarrow> give ()
      | Some r \<Rightarrow>
          if row_projectId r = projectId then give ()
          else throw_error ((basic_error ''CommandValidationError'' ''WORKTREE_PROJECT_MISMATCH''
            ''The requested worktree belongs to a different configured project.'')
            \<lparr>se_projectId := Some projectId, se_worktreeId := Some (row_id r)\<rparr>))"

definition worktree_missing_error :: "project_id \<Rightarrow> worktree_id \<Rightarrow> safe_error" where
  "worktree_missing_error projectId worktreeId =
     (basic_error ''CommandValidationError'' ''WORKTREE_NOT_FOUND''
       ''The requested worktree is not visible to the worktree provider.'')
       \<lparr>se_worktreeId := Some worktreeId, se_projectId := Some projectId\<rparr>"

definition lookup_worktree ::
  "session_env \<Rightarrow> handler_context \<Rightarrow> project_id \<Rightarrow> worktree_id \<Rightarrow> (provider_event, worktree_observation) action" where
  "lookup_worktree env c projectId worktreeId =
     (case sn_getWorktree env of
        None \<Rightarrow> throw_error (worktree_missing_error projectId worktreeId)
      | Some get \<Rightarrow>
          and_then (run_provider_mutation (handler_runtime c)
            (error_with ''WorktreeProviderError'' ''WORKTREE_LOOKUP_FAILED''
              ''The worktree provider failed to look up the worktree.'' (Some (sn_worktreeProvider env))) None
            (ask (get projectId worktreeId) (LookedUpWorktree worktreeId))) (\<lambda>worktree.
          case worktree of
            None \<Rightarrow> throw_error (worktree_missing_error projectId worktreeId)
          | Some w \<Rightarrow> give w))"

definition compare_recent_sessions :: "collator \<Rightarrow> persisted_session comparison" where
  "compare_recent_sessions lc left right =
     or_else (lc (ps_lastSeenAt right) (ps_lastSeenAt left))
       (or_else (lc (ps_createdAt right) (ps_createdAt left)) (lc (ps_id right) (ps_id left)))"

definition remembered_harness ::
  "collator \<Rightarrow> project_id \<Rightarrow> worktree_id \<Rightarrow> string \<Rightarrow> persisted_session list \<Rightarrow> persisted_worktree list \<Rightarrow>
     provider_id option" where
  "remembered_harness lc projectId worktreeId worktreePath sessions worktrees =
     (let matchingWorktreeIds = worktreeId # map pw_id (filter (\<lambda>w. pw_projectId w = projectId \<and>
            same_observed_path (pw_path w) worktreePath) worktrees);
          candidates = js_sort (compare_recent_sessions lc) (filter (\<lambda>s. ps_projectId s = projectId \<and>
            ps_worktreeId s \<in> set matchingWorktreeIds \<and> ps_harness s \<noteq> None) sessions)
      in case candidates of [] \<Rightarrow> None | s # _ \<Rightarrow> ps_harness s)"

definition remembered_harness_provider_for_worktree ::
  "collator \<Rightarrow> session_env \<Rightarrow> project_id \<Rightarrow> worktree_id \<Rightarrow> string \<Rightarrow> ('e, provider_id option) action" where
  "remembered_harness_provider_for_worktree lc env projectId worktreeId worktreePath =
     and_then (observe (sn_listSessions env)) (\<lambda>s.
     and_then (settle s) (\<lambda>sessions.
     and_then (observe (sn_listWorktrees env)) (\<lambda>w.
     and_then (settle w) (\<lambda>worktrees.
     give (remembered_harness lc projectId worktreeId worktreePath sessions worktrees)))))"

definition session_start_agent ::
  "collator \<Rightarrow> session_env \<Rightarrow> handler_context \<Rightarrow> submitted \<Rightarrow> start_agent_payload \<Rightarrow> (provider_event, unit) action" where
  "session_start_agent lc env c receipts payload =
     and_then (throw_if_aborted (hc_signal c)) (\<lambda>_.
     and_then (find_project env (sa_projectId payload)) (\<lambda>project.
     let terminalProvider = nullish (Option.bind (sa_terminal payload) to_opt_provider)
         (pd_terminal (pc_defaults project)) in
     and_then (resolve_terminal_provider env terminalProvider) (\<lambda>_.
     and_then (observe (sn_getSnapshot env)) (\<lambda>snapshot.
     let row = find (\<lambda>r. row_id r = sa_worktreeId payload) (ss_rows snapshot) in
     and_then (validate_snapshot_row row (sa_projectId payload)) (\<lambda>_.
     and_then (assert_no_current_agent row) (\<lambda>_.
     and_then (observe (sn_newSessionId env)) (\<lambda>sessionId.
     and_then (case row of
         None \<Rightarrow> lookup_worktree env c (sa_projectId payload) (sa_worktreeId payload)
       | Some r \<Rightarrow> and_then (observe (clock_of env)) (\<lambda>now.
           give (worktree_observation_from_row r (sn_worktreeProvider env) now))) (\<lambda>worktree.
     and_then (throw_if_aborted (hc_signal c)) (\<lambda>_.
     and_then (case Option.bind (sa_harness payload) ho_provider of
         Some p \<Rightarrow> give p
       | None \<Rightarrow> and_then (remembered_harness_provider_for_worktree lc env (sa_projectId payload)
           (sa_worktreeId payload) (wo_path worktree)) (\<lambda>remembered.
           give (nullish remembered (pd_harness (pc_defaults project))))) (\<lambda>harnessProvider.
     and_then (resolve_harness_provider env harnessProvider) (\<lambda>_.
     and_then (start_session (hc_signal c) (seed_session_title env sessionId (wo_branch worktree))
         (submit_workspace (sn_runner env) (handler_runtime c) receipts
           (start_agent_intent c project worktree sessionId terminalProvider harnessProvider payload))) (\<lambda>r.
     case r of
       Inr (v, seeded) \<Rightarrow> and_then (clean_up_session env sessionId seeded) (\<lambda>_. throw v)
     | Inl _ \<Rightarrow>
         and_then (reconcile_and_publish env c ''command:session.startAgent'') (\<lambda>nextSnapshot.
         and_then (publish_session_created env nextSnapshot sessionId) (\<lambda>_. give ()))))))))))))))"

end
