(* ===== verification/SessionProperties.thy ===== *)
theory SessionProperties
  imports SessionCommands TerminalIntentProperties
begin

section \<open>A session is there or nothing of it is\<close>

text \<open>
  The handlers of the session commands act on three systems: worktrees, terminals and the stored
  titles. What they rely on of the terminal intents is the locale \<open>workspace_runner\<close>: a submitted
  workspace is in use or gone. They promise the same of the whole session.
\<close>

locale workspace_runner =
  fixes submit :: "intent_runner \<Rightarrow> mutation_runtime \<Rightarrow> submitted \<Rightarrow> ensure_workspace_intent \<Rightarrow>
    (provider_event, intent_receipt) action"
  assumes settled: "not_aborted (mr_signal rt) \<Longrightarrow> not_aborted (rn_logger rn) \<Longrightarrow>
    map_of receipts (intent_key (EnsureAgentWorkspace intent)) = None \<Longrightarrow>
    wp (submit rn rt receipts intent) (\<lambda>r w'. \<exists>es. wd_events w' = wd_events w @ es \<and> workspace_settled r es) w"

text \<open>The title was seeded and the workspace is in use.\<close>

definition session_started :: "provider_event list \<Rightarrow> bool" where
  "session_started es =
     (\<exists>i t ws. es = SeededTitle i t None # ws \<and> workspace_in_use ws)"

text \<open>How far the start of a session came before it failed.\<close>

definition session_failed :: "session_id \<Rightarrow> bool \<Rightarrow> provider_event list \<Rightarrow> bool" where
  "session_failed i seeded es =
     (if seeded then \<exists>t ws. es = SeededTitle i t None # ws \<and> workspace_gone ws
      else \<exists>t v. es = [SeededTitle i t (Some v)])"

definition seeds :: "session_id \<Rightarrow> (provider_event, unit) action \<Rightarrow> bool" where
  "seeds i seed =
     (\<forall>w. wp seed (\<lambda>r w'. \<exists>t. wd_events w' = wd_events w @
       [SeededTitle i t (case r of Inl v \<Rightarrow> Some v | Inr _ \<Rightarrow> None)]) w)"

context workspace_runner
begin

lemma wp_start_session:
  assumes "\<And>t. signal t = None" and "not_aborted (mr_signal rt)" and "not_aborted (rn_logger rn)"
    and "map_of receipts (intent_key (EnsureAgentWorkspace intent)) = None" and "seeds i seed"
    and "\<And>w' es. wd_events w' = wd_events w @ es \<Longrightarrow> session_started es \<Longrightarrow> Q (Inr (Inl ())) w'"
    and "\<And>v seeded w' es. wd_events w' = wd_events w @ es \<Longrightarrow> session_failed i seeded es \<Longrightarrow>
      Q (Inr (Inr (v, seeded))) w'"
  shows "wp (start_session signal seed (submit rn rt receipts intent)) Q w"
proof -
  have submit: "wp (submit rn rt receipts intent) R w'"
    if "\<And>v w'' es. wd_events w'' = wd_events w' @ es \<Longrightarrow> workspace_gone es \<Longrightarrow> R (Inl v) w''"
      "\<And>rc w'' es. wd_events w'' = wd_events w' @ es \<Longrightarrow> workspace_settled (Inr rc) es \<Longrightarrow> R (Inr rc) w''"
    for R w'
    by (rule wp_mono [OF settled [OF assms(2-4)]]) (metis that sumE workspace_settled_simps(1))
  show ?thesis
    unfolding start_session_def wp_branching [of seed]
  proof (rule wp_mono [OF assms(5) [unfolded seeds_def, rule_format]])
    fix r :: "thrown + unit" and w' :: "provider_event world"
    assume "\<exists>t. wd_events w' = wd_events w @ [SeededTitle i t (case r of Inl v \<Rightarrow> Some v | Inr _ \<Rightarrow> None)]"
    then obtain t where w': "wd_events w' = wd_events w @ [SeededTitle i t (case r of Inl v \<Rightarrow> Some v | Inr _ \<Rightarrow> None)]"
      by blast
    show "(case r of Inl v \<Rightarrow> wp (give (Inr (v, False))) Q | Inr x \<Rightarrow> wp (branching
         (and_then (throw_if_aborted signal) (\<lambda>_.
          and_then (receipt_or_throw (submit rn rt receipts intent)) (\<lambda>_. throw_if_aborted signal)))
         (\<lambda>v. give (Inr (v, True))) (\<lambda>_. give (Inl ()))) Q) w'"
    proof (cases r)
      case (Inl v)
      have "Q (Inr (Inr (v, False))) w'"
        by (rule assms(7) [of _ "[SeededTitle i t (Some v)]"]) (use w' Inl in \<open>auto simp: session_failed_def\<close>)
      with Inl show ?thesis by (simp add: wp_rules)
    next
      case (Inr u)
      have started: "Q (Inr (Inl ())) (tick w'')" if "wd_events w'' = wd_events w' @ ws" "workspace_in_use ws" for w'' ws
        by (rule assms(6) [of _ "SeededTitle i t None # ws"])
          (use that w' Inr in \<open>auto simp: session_started_def\<close>)
      have failed: "Q (Inr (Inr (v, True))) w''" if "wd_events w'' = wd_events w' @ ws" "workspace_gone ws" for v w'' ws
        by (rule assms(7) [of _ "SeededTitle i t None # ws"])
          (use that w' Inr in \<open>auto simp: session_failed_def\<close>)
      show ?thesis
        by (auto simp: Inr wp_rules assms(1) receipt_or_throw_def split: option.split
            intro!: submit) (blast intro: started failed)+
    qed
  qed
qed

end

lemma wp_submit_workspace:
  assumes "not_aborted (mr_signal rt)" "not_aborted (rn_logger rn)"
    "map_of receipts (intent_key (EnsureAgentWorkspace intent)) = None"
  shows "wp (submit_workspace rn rt receipts intent)
      (\<lambda>r w'. \<exists>es. wd_events w' = wd_events w @ es \<and> workspace_settled r es) w"
proof (rule wpI)
  fix r w'
  assume "submit_workspace rn rt receipts intent w = (r, w')"
  then obtain rs where "submit_intent rn rt (EnsureAgentWorkspace intent) receipts w = ((r, rs), w')"
    by (auto simp: submit_workspace_def split: prod.splits)
  from submit_workspace_settled [OF this assms(3,1,2)]
  show "\<exists>es. wd_events w' = wd_events w @ es \<and> workspace_settled r es"
    by (cases r) (auto simp: workspace_settled_def)
qed

interpretation intents: workspace_runner submit_workspace
  by unfold_locales (rule wp_submit_workspace)

subsection \<open>The steps of the handlers\<close>

lemma wp_ask_throwing [wp_rules]:
  "wp (ask_throwing answer event) Q w =
     (let w' = (tick w)\<lparr>wd_events := wd_events w @ [event (answer (wd_time w))]\<rparr>
      in case answer (wd_time w) of None \<Rightarrow> Q (Inr ()) w' | Some v \<Rightarrow> Q (Inl v) w')"
  by (simp add: ask_throwing_def wp_rules Let_def split: option.split)

lemma seeds_title: "seeds i (seed_session_title env i title)"
  unfolding seeds_def seed_session_title_def
  by (auto simp: wp_rules Let_def split: option.split)

lemma seeds_after_check:
  assumes "\<And>t. signal t = None" and "seeds i seed"
  shows "seeds i (and_then (throw_if_aborted signal) (\<lambda>_. seed))"
  unfolding seeds_def
proof
  fix w
  show "wp (and_then (throw_if_aborted signal) (\<lambda>_. seed)) (\<lambda>r w'. \<exists>t. wd_events w' = wd_events w @
      [SeededTitle i t (case r of Inl v \<Rightarrow> Some v | Inr _ \<Rightarrow> None)]) w"
    using assms(2) [unfolded seeds_def, rule_format, of "tick w"] assms(1) by (simp add: wp_rules)
qed

definition published :: "provider_event list \<Rightarrow> bool" where
  "published es = list_all (\<lambda>e. case e of RecordedEvent a b \<Rightarrow> True | PublishedEvent a \<Rightarrow> True | _ \<Rightarrow> False) es"

lemma published_simps [simp]:
  "published []" "published (RecordedEvent a b # es) \<longleftrightarrow> published es"
  "published (PublishedEvent a # es) \<longleftrightarrow> published es"
  "published (es @ fs) \<longleftrightarrow> published es \<and> published fs"
  by (simp_all add: published_def)

text \<open>What the handlers do after the session was started.\<close>

lemma wp_publishing:
  assumes "\<And>r w' es. wd_events w' = wd_events w @ es \<Longrightarrow> published es \<Longrightarrow> Q r w'"
  shows "wp (and_then (reconcile_and_publish env c reason) (\<lambda>snapshot.
    and_then (publish_session_created env snapshot i) (\<lambda>_. give ()))) Q w"
  by (auto simp: reconcile_and_publish_def publish_session_created_def publish_def wp_rules Let_def
      split: option.split sum.split intro!: assms)

lemma wp_clean_up:
  assumes "not_aborted (sn_logger env)"
    and "\<And>w' d. wd_events w' = wd_events w @ (if seeded then [DeletedTitle i d] else []) \<Longrightarrow> Q (Inr ()) w'"
  shows "wp (clean_up_session env i seeded) Q w"
  using assms(1)
  by (auto simp: clean_up_session_def delete_session_title_seed_best_effort_def best_effort_def wp_rules Let_def
      split: option.split intro!: wp_write_log assms(2))

lemma wp_remove_worktree:
  assumes "not_aborted (sn_logger env)"
    and "\<And>w' x. wd_events w' = wd_events w @ [RemovedWorktree i x] \<Longrightarrow> Q (Inr ()) w'"
  shows "wp (remove_worktree_best_effort env c p i) Q w"
  unfolding remove_worktree_best_effort_def best_effort_def
  using assms(1) by (auto simp: wp_rules cleanup_runtime_def not_aborted_def [of None]
      intro!: wp_mutation wp_write_log assms(2))

lemma wp_find_project:
  assumes "\<And>v. Q (Inl v) w" and "\<And>p. Q (Inr p) w"
  shows "wp (find_project env projectId) Q w"
  using assms by (auto simp: find_project_def wp_rules split: option.split)

lemma wp_resolve:
  assumes "\<And>v. Q (Inl v) w" and "Q (Inr ()) w"
  shows "wp (resolve_terminal_provider env i) Q w" "wp (resolve_harness_provider env i) Q w"
  using assms by (auto simp: resolve_terminal_provider_def resolve_harness_provider_def wp_rules)

subsection \<open>All or nothing\<close>

text \<open>
  Undone: the title that was seeded is deleted after the workspace is gone, and the worktree that
  was created is removed last. Standing: the worktree, the title and the workspace are there, and
  only announcements follow.
\<close>

definition start_undone :: "provider_event list \<Rightarrow> bool" where
  "start_undone es =
     ((\<exists>i t v. es = [SeededTitle i t (Some v)]) \<or>
      (\<exists>i t ws d. es = SeededTitle i t None # ws @ [DeletedTitle i d] \<and> workspace_gone ws))"

definition start_standing :: "provider_event list \<Rightarrow> bool" where
  "start_standing es = (\<exists>ss ps. es = ss @ ps \<and> session_started ss \<and> published ps)"

definition create_undone :: "provider_event list \<Rightarrow> bool" where
  "create_undone es =
     (es = [] \<or>
      (\<exists>p b a. es = [CreatedWorktree p b a] \<and> (\<forall>wt. a \<noteq> AttemptReturns wt)) \<or>
      (\<exists>p b wt ms x. es = CreatedWorktree p b (AttemptReturns wt) # ms @ [RemovedWorktree (wo_id wt) x] \<and>
        start_undone ms))"

definition create_standing :: "provider_event list \<Rightarrow> bool" where
  "create_standing es =
     (\<exists>p b wt ms. es = CreatedWorktree p b (AttemptReturns wt) # ms \<and> start_standing ms)"

lemma start_undoneI:
  "session_failed i seeded es \<Longrightarrow> start_undone (es @ (if seeded then [DeletedTitle i d] else []))"
  by (auto simp: session_failed_def start_undone_def split: if_splits)

lemma wp_create_worktree:
  assumes "\<And>t. hc_signal c t = None"
    and "\<And>v w' a. wd_events w' = wd_events w @ [CreatedWorktree (pc_id project) (cse_branch payload) a] \<Longrightarrow>
      \<forall>wt. a \<noteq> AttemptReturns wt \<Longrightarrow> Q (Inl v) w'"
    and "\<And>wt w'. wd_events w' = wd_events w @
      [CreatedWorktree (pc_id project) (cse_branch payload) (AttemptReturns wt)] \<Longrightarrow> Q (Inr wt) w'"
  shows "wp (create_worktree env c project payload) Q w"
  unfolding create_worktree_def
  by (rule wp_mutation) (auto simp: handler_runtime_def not_aborted_def assms(1) intro!: assms(2,3))

lemma wp_session_create:
  assumes "\<And>t. hc_signal c t = None" and "not_aborted (sn_logger env)"
    and "not_aborted (rn_logger (sn_runner env))"
    and "map_of receipts (hc_commandId c @ '':session.ensureAgentWorkspace'') = None"
  shows "wp (session_create env c receipts payload)
    (\<lambda>r w'. \<exists>es. wd_events w' = wd_events w @ es \<and>
      (create_standing es \<or> (\<exists>v. r = Inl v) \<and> create_undone es)) w"
    (is "wp _ ?Q w")
proof -
  have start: "wp (start_session (hc_signal c)
       (and_then (throw_if_aborted (hc_signal c)) (\<lambda>_. seed_session_title env i title))
       (submit_workspace (sn_runner env) (handler_runtime c) receipts
         (create_session_intent c project worktree i payload))) R w'"
    if "\<And>w'' es. wd_events w'' = wd_events w' @ es \<Longrightarrow> session_started es \<Longrightarrow> R (Inr (Inl ())) w''"
      "\<And>v seeded w'' es. wd_events w'' = wd_events w' @ es \<Longrightarrow> session_failed i seeded es \<Longrightarrow>
        R (Inr (Inr (v, seeded))) w''" for i title project worktree R w'
    using assms that
    by (intro intents.wp_start_session [OF _ _ _ _ seeds_after_check [OF _ seeds_title]])
      (simp_all add: handler_runtime_def not_aborted_def intent_key_def create_session_intent_def)
  have failed: "wp (and_then (clean_up_session env i seeded) (\<lambda>_.
         and_then (remove_worktree_best_effort env c p (wo_id wt)) (\<lambda>_. throw v))) ?Q w'"
    if "wd_events w' = wd_events w @ CreatedWorktree q b (AttemptReturns wt) # es" "session_failed i seeded es"
    for i seeded p q b wt v w' es
    using that start_undoneI [OF that(2)]
    by (auto simp: wp_rules create_undone_def intro!: wp_clean_up wp_remove_worktree assms(2))
  have published: "wp (and_then (reconcile_and_publish env c reason) (\<lambda>snapshot.
         and_then (publish_session_created env snapshot i) (\<lambda>_. give ()))) ?Q w'"
    if "wd_events w' = wd_events w @ CreatedWorktree q b (AttemptReturns wt) # es" "session_started es"
    for i q b wt w' es reason
    using that by (intro wp_publishing) (auto simp: create_standing_def start_standing_def)
  have created: "wp (and_then (start_session (hc_signal c)
         (and_then (throw_if_aborted (hc_signal c)) (\<lambda>_. seed_session_title env i title))
         (submit_workspace (sn_runner env) (handler_runtime c) receipts
           (create_session_intent c project wt i payload))) (\<lambda>r.
     case r of
       Inr (v, seeded) \<Rightarrow>
         and_then (clean_up_session env i seeded) (\<lambda>_.
         and_then (remove_worktree_best_effort env c p (wo_id wt)) (\<lambda>_.
         throw v))
     | Inl _ \<Rightarrow>
         and_then (reconcile_and_publish env c reason) (\<lambda>snapshot.
         and_then (publish_session_created env snapshot i) (\<lambda>_. give ())))) ?Q w'"
    if "wd_events w' = wd_events w @ [CreatedWorktree q b (AttemptReturns wt)]" for i title project p q b wt w' reason
    unfolding wp_and_then [of "start_session _ _ _"]
    by (rule start) (auto simp: that intro!: failed published)
  have undone: "?Q (Inl v) w'" if "wd_events w' = wd_events w" for v w'
    using that by (auto simp: create_undone_def)
  show ?thesis
    unfolding session_create_def wp_and_then [of "throw_if_aborted _"] wp_and_then [of "find_project _ _"]
      wp_and_then [of "resolve_terminal_provider _ _"] wp_and_then [of "resolve_harness_provider _ _"]
      wp_and_then [of "observe _"] wp_and_then [of "create_worktree _ _ _ _"]
    by (auto simp: wp_throw_if_aborted wp_observe assms(1)
        intro!: wp_find_project wp_resolve wp_create_worktree undone created)
      (auto simp: create_undone_def)
qed


subsection \<open>An environment to try the property on\<close>

definition sample_env :: "bool \<Rightarrow> session_env" where
  "sample_env starts =
     \<lparr>sn_projects = [ei_project sample_intent], sn_runner = sample_runner starts,
      sn_worktreeProvider = ''worktrunk'',
      sn_createWorktree = (\<lambda>_ _ _ _. AttemptReturns (ei_worktree sample_intent)),
      sn_removeWorktree = (\<lambda>_ _ _. AttemptReturns ()), sn_getWorktree = None,
      sn_seedTitle = (\<lambda>_ _ _. None), sn_deleteTitle = (\<lambda>_ _. None),
      sn_listSessions = (\<lambda>_. Inr []), sn_listWorktrees = (\<lambda>_. Inr []), sn_recordEvent = (\<lambda>_ _. None),
      sn_getSnapshot = (\<lambda>_. undefined), sn_reconcile = (\<lambda>_ _. Inl ThrownPrimitive),
      sn_newSessionId = (\<lambda>_. ''ses''), sn_logger = None, sn_hasEventBus = True\<rparr>"

definition sample_context :: handler_context where
  "sample_context = \<lparr>hc_commandId = ''cmd'', hc_traceId = ''t'', hc_spanId = ''s'', hc_signal = (\<lambda>_. None)\<rparr>"

definition sample_create :: create_session_payload where
  "sample_create =
     \<lparr>cse_projectId = ''web'', cse_branch = ''b'', cse_base = None, cse_source = None,
      cse_harness = \<lparr>ho_provider = Some ''codex'', ho_mode = None, ho_profile = None,
        ho_approvalPolicy = None, ho_sandboxMode = None\<rparr>,
      cse_terminal = \<lparr>to_opt_provider = Some ''tmux'', to_opt_layout = None, to_opt_focus = None,
        to_opt_origin = None\<rparr>, cse_initialPrompt = None\<rparr>"

definition sample_created :: "bool \<Rightarrow> (thrown + unit) \<times> provider_event world" where
  "sample_created starts = session_create (sample_env starts) sample_context [] sample_create new_world"


end
