(* ===== verification/JsonText.thy ===== *)
theory JsonText
  imports Contracts
begin

section \<open>JSON texts: \<^verbatim>\<open>JSON.stringify\<close> and \<^verbatim>\<open>JSON.parse\<close>\<close>

text \<open>
  What the protocol puts on its sockets: the text of a JSON value and the value of a text. A string
  is a list of code units below 256, so an escape above \<^verbatim>\<open>\u00ff\<close> is outside the model, as is a
  numeral with a fraction or an exponent; the protocol's numbers are integers. The keys of an object
  keep their order of insertion. The parser is recursive descent with fuel; \<open>fuel_enough\<close> shows that
  the fuel \<open>json_parse\<close> starts with is never the reason of a failure, and \<open>json_parse_stringify\<close> that
  parsing what was printed gives the value back.
\<close>

subsection \<open>Printing\<close>

definition print_int :: "int \<Rightarrow> string" where
  "print_int i = (if i < 0 then CHR ''-'' # decimal (nat (- i)) else decimal (nat i))"

definition hex_char :: "nat \<Rightarrow> char" where
  "hex_char d = (if d < 10 then char_of (48 + d) else char_of (87 + d))"

definition quote_mark :: char where "quote_mark = CHR 0x22"
definition backslash :: char where "backslash = CHR 0x5C"

definition quote_char :: "char \<Rightarrow> string" where
  "quote_char c =
     (let n = code_unit c in
      if c = quote_mark \<or> c = backslash then [backslash, c]
      else if n = 8 then [backslash, CHR ''b'']
      else if n = 9 then [backslash, CHR ''t'']
      else if n = 10 then [backslash, CHR ''n'']
      else if n = 12 then [backslash, CHR ''f'']
      else if n = 13 then [backslash, CHR ''r'']
      else if n < 32 then [backslash, CHR ''u'', CHR ''0'', CHR ''0'', hex_char (n div 16), hex_char (n mod 16)]
      else [c])"

definition quote :: "string \<Rightarrow> string" where
  "quote s = quote_mark # concat (map quote_char s) @ [quote_mark]"

fun stringify :: "json \<Rightarrow> string" where
  "stringify JNull = ''null''"
| "stringify (JBool b) = (if b then ''true'' else ''false'')"
| "stringify (JNum i) = print_int i"
| "stringify (JStr s) = quote s"
| "stringify (JArr xs) = ''['' @ str_join '','' (map stringify xs) @ '']''"
| "stringify (JObj kvs) =
     ''{'' @ str_join '','' (map (\<lambda>(k, v). quote k @ '':'' @ stringify v) kvs) @ ''}''"

subsection \<open>Parsing\<close>

definition json_space :: "char \<Rightarrow> bool" where
  "json_space c = (code_unit c \<in> {9, 10, 13, 32})"

definition skip_space :: "string \<Rightarrow> string" where
  "skip_space s = dropWhile json_space s"

definition hex_value :: "char \<Rightarrow> nat option" where
  "hex_value c =
     (let n = code_unit c in
      if 48 \<le> n \<and> n \<le> 57 then Some (n - 48)
      else if 97 \<le> n \<and> n \<le> 102 then Some (n - 87)
      else if 65 \<le> n \<and> n \<le> 70 then Some (n - 55)
      else None)"

text \<open>The value of the four digits of an escape, when the code unit is in the model.\<close>

definition hex_escape :: "char \<Rightarrow> char \<Rightarrow> char \<Rightarrow> char \<Rightarrow> char option" where
  "hex_escape a b c d =
     (case (hex_value a, hex_value b, hex_value c, hex_value d) of
        (Some 0, Some 0, Some x, Some y) \<Rightarrow> Some (char_of (16 * x + y))
      | _ \<Rightarrow> None)"

definition simple_escape :: "char \<Rightarrow> char option" where
  "simple_escape e =
     (if e = quote_mark \<or> e = backslash \<or> e = CHR ''/'' then Some e
      else if e = CHR ''b'' then Some (char_of (8 :: nat))
      else if e = CHR ''t'' then Some (char_of (9 :: nat))
      else if e = CHR ''n'' then Some (char_of (10 :: nat))
      else if e = CHR ''f'' then Some (char_of (12 :: nat))
      else if e = CHR ''r'' then Some (char_of (13 :: nat))
      else None)"

text \<open>The characters after an opening quotation mark, and what follows the closing one.\<close>

fun parse_chars :: "string \<Rightarrow> (string \<times> string) option" where
  "parse_chars [] = None"
| "parse_chars (c # s) =
     (if c = quote_mark then Some ([], s)
      else if c = backslash then
        (case s of
           [] \<Rightarrow> None
         | e # s1 \<Rightarrow>
             if e = CHR ''u'' then
               (case s1 of
                  h1 # h2 # h3 # h4 # s2 \<Rightarrow>
                    (case (hex_escape h1 h2 h3 h4, parse_chars s2) of
                       (Some x, Some (t, r)) \<Rightarrow> Some (x # t, r)
                     | _ \<Rightarrow> None)
                | _ \<Rightarrow> None)
             else
               (case (simple_escape e, parse_chars s1) of
                  (Some x, Some (t, r)) \<Rightarrow> Some (x # t, r)
                | _ \<Rightarrow> None))
      else if code_unit c < 32 then None
      else (case parse_chars s of Some (t, r) \<Rightarrow> Some (c # t, r) | None \<Rightarrow> None))"

definition is_digit :: "char \<Rightarrow> bool" where
  "is_digit c = (48 \<le> code_unit c \<and> code_unit c \<le> 57)"

definition digits_value :: "string \<Rightarrow> nat" where
  "digits_value ds = foldl (\<lambda>acc c. 10 * acc + (code_unit c - 48)) 0 ds"

definition goes_on :: "char \<Rightarrow> bool" where
  "goes_on c = (is_digit c \<or> c = CHR ''.'' \<or> c = CHR ''e'' \<or> c = CHR ''E'')"

definition parse_digits :: "string \<Rightarrow> (nat \<times> string) option" where
  "parse_digits s =
     (let ds = takeWhile is_digit s; r = dropWhile is_digit s in
      if ds = [] \<or> (hd ds = CHR ''0'' \<and> tl ds \<noteq> []) \<or> (r \<noteq> [] \<and> goes_on (hd r)) then None
      else Some (digits_value ds, r))"

definition parse_number :: "string \<Rightarrow> (json \<times> string) option" where
  "parse_number s =
     (case s of
        [] \<Rightarrow> None
      | c # r \<Rightarrow>
          if c = CHR ''-'' then map_option (\<lambda>(n, t). (JNum (- int n), t)) (parse_digits r)
          else map_option (\<lambda>(n, t). (JNum (int n), t)) (parse_digits s))"

text \<open>The fields of an object, a later one of the same key replacing the value.\<close>

definition object_of :: "(string \<times> json) list \<Rightarrow> json" where
  "object_of kvs = JObj (foldl (\<lambda>o' (k, v). rec_set k v o') [] kvs)"

fun parse_value :: "nat \<Rightarrow> string \<Rightarrow> (json \<times> string) option"
  and parse_items :: "nat \<Rightarrow> string \<Rightarrow> (json list \<times> string) option"
  and parse_fields :: "nat \<Rightarrow> string \<Rightarrow> ((string \<times> json) list \<times> string) option"
where
  "parse_value 0 s = None"
| "parse_value (Suc n) s =
     (case skip_space s of
        [] \<Rightarrow> None
      | c # r \<Rightarrow>
          if c = quote_mark then map_option (\<lambda>(t, r'). (JStr t, r')) (parse_chars r)
          else if c = CHR ''['' then
            (if starts_with '']'' (skip_space r) then Some (JArr [], tl (skip_space r))
             else map_option (\<lambda>(xs, r'). (JArr xs, r')) (parse_items n r))
          else if c = CHR ''{'' then
            (if starts_with ''}'' (skip_space r) then Some (JObj [], tl (skip_space r))
             else map_option (\<lambda>(kvs, r'). (object_of kvs, r')) (parse_fields n r))
          else if starts_with ''null'' (c # r) then Some (JNull, drop 3 r)
          else if starts_with ''true'' (c # r) then Some (JBool True, drop 3 r)
          else if starts_with ''false'' (c # r) then Some (JBool False, drop 4 r)
          else parse_number (c # r))"
| "parse_items 0 s = None"
| "parse_items (Suc n) s =
     (case parse_value n s of
        None \<Rightarrow> None
      | Some (v, r) \<Rightarrow>
          (case skip_space r of
             [] \<Rightarrow> None
           | c # r1 \<Rightarrow>
               if c = CHR '']'' then Some ([v], r1)
               else if c = CHR '','' then map_option (\<lambda>(vs, r2). (v # vs, r2)) (parse_items n r1)
               else None))"
| "parse_fields 0 s = None"
| "parse_fields (Suc n) s =
     (case skip_space s of
        [] \<Rightarrow> None
      | c # r \<Rightarrow>
          if c \<noteq> quote_mark then None
          else (case parse_chars r of
             None \<Rightarrow> None
           | Some (k, r1) \<Rightarrow>
               (if \<not> starts_with '':'' (skip_space r1) then None
                else (case parse_value n (tl (skip_space r1)) of
                   None \<Rightarrow> None
                 | Some (v, r2) \<Rightarrow>
                     (case skip_space r2 of
                        [] \<Rightarrow> None
                      | d # r3 \<Rightarrow>
                          if d = CHR ''}'' then Some ([(k, v)], r3)
                          else if d = CHR '','' then
                            map_option (\<lambda>(kvs, r4). ((k, v) # kvs, r4)) (parse_fields n r3)
                          else None)))))"

definition json_parse :: "string \<Rightarrow> json option" where
  "json_parse s =
     (case parse_value (2 * length s + 2) s of
        None \<Rightarrow> None
      | Some (v, r) \<Rightarrow> if skip_space r = [] then Some v else None)"

subsection \<open>Numbers\<close>

definition digit_of :: "char \<Rightarrow> nat" where
  "digit_of c = code_unit c - 48"

lemma digits_value_snoc: "digits_value (ds @ [c]) = 10 * digits_value ds + digit_of c"
  by (simp add: digits_value_def digit_of_def)

lemma decimal_not_Nil [simp]: "decimal n \<noteq> []"
  by (cases "n < 10") (simp_all add: decimal_small decimal_large)

lemma decimal_induct [case_names small large]:
  assumes "\<And>n. n < 10 \<Longrightarrow> P n" and "\<And>n. 10 \<le> n \<Longrightarrow> P (n div 10) \<Longrightarrow> P n"
  shows "P (n :: nat)"
  by (induction n rule: decimal.induct) (meson assms linorder_not_less)

lemma decimal_digits: "c \<in> set (decimal n) \<Longrightarrow> is_digit c"
  by (induction n rule: decimal_induct) (auto simp: decimal_small decimal_large is_digit_def)

lemma digits_value_decimal: "digits_value (decimal n) = n"
proof (induction n rule: decimal_induct)
  case (small n)
  then show ?case by (simp add: decimal_small digits_value_def)
next
  case (large n)
  then show ?case by (simp add: decimal_large digits_value_snoc digit_of_def)
qed

lemma decimal_leading: "0 < n \<Longrightarrow> hd (decimal n) \<noteq> CHR ''0''"
proof (induction n rule: decimal_induct)
  case (small n)
  then have "code_unit (hd (decimal n)) = 48 + n" by (simp add: decimal_small)
  moreover have "code_unit (CHR ''0'') = 48" by (simp add: code_unit_def)
  ultimately show ?case using small(2) by auto
next
  case (large n)
  then show ?case by (simp add: decimal_large)
qed

definition stops :: "string \<Rightarrow> bool" where
  "stops r = (r = [] \<or> \<not> goes_on (hd r))"

lemma parse_digits_app:
  assumes "\<forall>c \<in> set ds. is_digit c" "ds \<noteq> []" "hd ds = CHR ''0'' \<longrightarrow> tl ds = []" "stops r"
  shows "parse_digits (ds @ r) = Some (digits_value ds, r)"
proof -
  have "takeWhile is_digit r = []" "dropWhile is_digit r = r"
    using assms(4) by (cases r; auto simp: stops_def goes_on_def)+
  then have "takeWhile is_digit (ds @ r) = ds" "dropWhile is_digit (ds @ r) = r"
    using assms(1) by simp_all
  with assms(2-4) show ?thesis by (auto simp: parse_digits_def Let_def stops_def)
qed

lemma parse_digits_decimal:
  assumes "stops r"
  shows "parse_digits (decimal n @ r) = Some (n, r)"
proof -
  have "hd (decimal n) = CHR ''0'' \<longrightarrow> tl (decimal n) = []"
    using decimal_leading [of n] by (cases "n = 0") (auto simp: decimal_small)
  then show ?thesis
    using parse_digits_app [of "decimal n" r] assms by (simp add: decimal_digits digits_value_decimal)
qed

lemma is_digit_minus [simp]: "\<not> is_digit (CHR ''-'')"
  by (simp add: is_digit_def code_unit_def)

lemma hd_decimal: "is_digit (hd (decimal n))"
  using decimal_digits [of "hd (decimal n)" n] by simp

lemma parse_number_print:
  assumes "stops r"
  shows "parse_number (print_int i @ r) = Some (JNum i, r)"
proof (cases "i < 0")
  case True
  then show ?thesis
    using parse_digits_decimal [OF assms, of "nat (- i)"] by (simp add: parse_number_def print_int_def)
next
  case False
  obtain c ds where d: "decimal (nat i) = c # ds" by (cases "decimal (nat i)") auto
  then have "c \<noteq> CHR ''-''" using hd_decimal [of "nat i"] by auto
  with False d show ?thesis
    using parse_digits_decimal [OF assms, of "nat i"] by (simp add: parse_number_def print_int_def)
qed

subsection \<open>Strings\<close>

lemma char_eq_code_unit: "c = d \<longleftrightarrow> code_unit c = code_unit d"
  by (metis char_of_code_unit)

lemma code_unit_marks [simp]: "code_unit quote_mark = 34" "code_unit backslash = 92"
  by (simp_all add: code_unit_def quote_mark_def backslash_def)

lemma hex_value_char: "d < 16 \<Longrightarrow> hex_value (hex_char d) = Some d"
  by (simp add: hex_value_def hex_char_def)

declare parse_chars.simps(2) [simp del]

lemma parse_chars_end [simp]: "parse_chars (quote_mark # s) = Some ([], s)"
  by (simp add: parse_chars.simps)

lemma marks_distinct [simp]: "backslash \<noteq> quote_mark"
  by (simp add: backslash_def quote_mark_def)

lemma quote_mark_other [simp]:
  "CHR ''['' \<noteq> quote_mark" "CHR ''{'' \<noteq> quote_mark" "CHR ''n'' \<noteq> quote_mark" "CHR ''t'' \<noteq> quote_mark"
  "CHR ''f'' \<noteq> quote_mark" "quote_mark \<noteq> CHR '']''" "quote_mark \<noteq> CHR ''}''" "CHR ''}'' \<noteq> quote_mark"
  by (simp_all add: quote_mark_def)

lemma simple_escape_mark [simp]:
  "simple_escape quote_mark = Some quote_mark" "simple_escape backslash = Some backslash"
  "quote_mark \<noteq> CHR ''u''" "backslash \<noteq> CHR ''u''"
  by (simp_all add: simple_escape_def quote_mark_def backslash_def)

lemma simple_escape_letter [simp]:
  "simple_escape (CHR ''b'') = Some (char_of (8 :: nat))"
  "simple_escape (CHR ''t'') = Some (char_of (9 :: nat))"
  "simple_escape (CHR ''n'') = Some (char_of (10 :: nat))"
  "simple_escape (CHR ''f'') = Some (char_of (12 :: nat))"
  "simple_escape (CHR ''r'') = Some (char_of (13 :: nat))"
  by (simp_all add: simple_escape_def quote_mark_def backslash_def)

lemma parse_chars_plain:
  assumes "c \<noteq> quote_mark" "c \<noteq> backslash" "\<not> code_unit c < 32"
  shows "parse_chars (c # s) = map_option (\<lambda>(t, r). (c # t, r)) (parse_chars s)"
  by (subst parse_chars.simps) (use assms in \<open>simp split: option.split prod.split\<close>)

lemma parse_chars_simple:
  assumes "e \<noteq> CHR ''u''" "simple_escape e = Some x"
  shows "parse_chars (backslash # e # s) = map_option (\<lambda>(t, r). (x # t, r)) (parse_chars s)"
  by (subst parse_chars.simps) (use assms in \<open>simp split: option.split prod.split\<close>)

lemma parse_chars_unicode:
  assumes "hex_escape a b c d = Some x"
  shows "parse_chars (backslash # CHR ''u'' # a # b # c # d # s) = map_option (\<lambda>(t, r). (x # t, r)) (parse_chars s)"
  by (subst parse_chars.simps) (use assms in \<open>simp split: option.split prod.split\<close>)

lemma hex_escape_control: "code_unit c < 32 \<Longrightarrow>
  hex_escape (CHR ''0'') (CHR ''0'') (hex_char (code_unit c div 16)) (hex_char (code_unit c mod 16)) = Some c"
proof -
  assume "code_unit c < 32"
  then have "code_unit c div 16 < 16" by simp
  moreover have "hex_value (CHR ''0'') = Some 0" by (simp add: hex_value_def code_unit_def)
  ultimately show ?thesis
    by (simp add: hex_escape_def hex_value_char del: of_char_of)
qed

lemma quote_char_letter:
  "code_unit c \<in> {8, 9, 10, 12, 13} \<Longrightarrow>
     \<exists>e. quote_char c = [backslash, e] \<and> e \<noteq> CHR ''u'' \<and> simple_escape e = Some c"
  by (auto simp: quote_char_def Let_def) (metis char_of_code_unit)+

lemma parse_chars_quote_char:
  "parse_chars (quote_char c @ s) = map_option (\<lambda>(t, r). (c # t, r)) (parse_chars s)"
proof -
  consider "c = quote_mark \<or> c = backslash" | "code_unit c \<in> {8, 9, 10, 12, 13}"
    | "c \<noteq> quote_mark" "c \<noteq> backslash" "code_unit c < 32" "code_unit c \<notin> {8, 9, 10, 12, 13}"
    | "c \<noteq> quote_mark" "c \<noteq> backslash" "\<not> code_unit c < 32"
    by blast
  then show ?thesis
  proof cases
    case 1
    then show ?thesis by (auto simp: quote_char_def parse_chars_simple)
  next
    case 2
    then obtain e where "quote_char c = [backslash, e]" "e \<noteq> CHR ''u''" "simple_escape e = Some c"
      using quote_char_letter by blast
    then show ?thesis by (simp add: parse_chars_simple)
  next
    case 3
    then show ?thesis by (simp add: quote_char_def Let_def parse_chars_unicode hex_escape_control)
  next
    case 4
    then show ?thesis by (auto simp: quote_char_def Let_def parse_chars_plain)
  qed
qed

lemma parse_chars_quoted: "parse_chars (concat (map quote_char s) @ quote_mark # r) = Some (s, r)"
  by (induction s) (simp_all add: parse_chars_quote_char)

subsection \<open>Parsing what was printed\<close>

text \<open>The values JavaScript can hold: an object has one value per key.\<close>

fun json_ok :: "json \<Rightarrow> bool" where
  "json_ok (JArr xs) = list_all json_ok xs"
| "json_ok (JObj kvs) = (distinct (map fst kvs) \<and> list_all (\<lambda>(k, v). json_ok v) kvs)"
| "json_ok _ = True"

lemma skip_space_Cons [simp]: "\<not> json_space c \<Longrightarrow> skip_space (c # s) = c # s"
  by (simp add: skip_space_def)

lemma skip_space_Nil [simp]: "skip_space [] = []"
  by (simp add: skip_space_def)

lemma no_space [simp]:
  "\<not> json_space quote_mark" "\<not> json_space (CHR ''['')" "\<not> json_space (CHR ''{'')"
  "\<not> json_space (CHR '']'')" "\<not> json_space (CHR ''}'')" "\<not> json_space (CHR '','')"
  "\<not> json_space (CHR '':'')" "\<not> json_space (CHR ''-'')" "\<not> json_space (CHR ''n'')"
  "\<not> json_space (CHR ''t'')" "\<not> json_space (CHR ''f'')"
  by (simp_all add: json_space_def code_unit_def quote_mark_def)

lemma digit_no_space [simp]: "is_digit c \<Longrightarrow> \<not> json_space c"
  by (auto simp: json_space_def is_digit_def)

lemma stops_simps [simp]:
  "stops []" "stops (CHR '','' # r)" "stops (CHR '']'' # r)" "stops (CHR ''}'' # r)"
  by (simp_all add: stops_def goes_on_def is_digit_def code_unit_def)

text \<open>The first character of a printed value tells the parser what follows.\<close>

lemma number_start:
  assumes "is_digit c \<or> c = CHR ''-''"
  shows "parse_value (Suc n) (c # s) = parse_number (c # s)"
proof -
  have "\<not> json_space c" using assms by auto
  moreover have "c \<noteq> quote_mark" "c \<noteq> CHR ''[''" "c \<noteq> CHR ''{''" "c \<noteq> CHR ''n''" "c \<noteq> CHR ''t''" "c \<noteq> CHR ''f''"
    using assms by (auto simp: is_digit_def code_unit_def quote_mark_def)
  ultimately show ?thesis by simp
qed

lemma print_int_start: "\<exists>c t. print_int i = c # t \<and> (is_digit c \<or> c = CHR ''-'')"
  using hd_decimal [of "nat i"] by (cases "decimal (nat i)") (auto simp: print_int_def)

lemma stringify_start:
  "\<exists>c t. stringify v = c # t \<and> \<not> json_space c \<and> c \<noteq> CHR '']'' \<and> c \<noteq> CHR ''}''"
proof (cases v)
  case (JNum i)
  then show ?thesis
    using print_int_start [of i] by (auto simp: is_digit_def code_unit_def json_space_def)
qed (auto simp: quote_def quote_mark_def json_space_def code_unit_def)

lemma str_join_Cons: "str_join sep (s # ss) = s @ (if ss = [] then [] else sep @ str_join sep ss)"
  by (cases ss) auto

definition printed :: "json \<Rightarrow> bool" where
  "printed v \<longleftrightarrow> (\<forall>n r. stops r \<longrightarrow> 2 * length (stringify v) < n \<longrightarrow>
     parse_value n (stringify v @ r) = Some (v, r))"

lemma printedD: "printed v \<Longrightarrow> stops r \<Longrightarrow> 2 * length (stringify v) < n \<Longrightarrow>
  parse_value n (stringify v @ r) = Some (v, r)"
  by (simp add: printed_def)

lemma printedI:
  "(\<And>m r. stops r \<Longrightarrow> parse_value (Suc m) (stringify v @ r) = Some (v, r)) \<Longrightarrow> printed v"
  unfolding printed_def by (metis less_nat_zero_code not0_implies_Suc)

lemma parse_items_printed:
  assumes "xs \<noteq> []" "\<forall>x \<in> set xs. printed x" "2 * length (str_join '','' (map stringify xs)) + 1 < n"
  shows "parse_items n (str_join '','' (map stringify xs) @ CHR '']'' # r) = Some (xs, r)"
  using assms
proof (induction xs arbitrary: n)
  case Nil
  then show ?case by simp
next
  case (Cons x xs)
  obtain m where n: "n = Suc m" using Cons.prems(3) by (cases n) auto
  show ?case
  proof (cases "xs = []")
    case True
    have "parse_value m (stringify x @ CHR '']'' # r) = Some (x, CHR '']'' # r)"
      by (rule printedD) (use Cons.prems True n in auto)
    with True n show ?thesis by simp
  next
    case False
    have "parse_value m (stringify x @ CHR '','' # str_join '','' (map stringify xs) @ CHR '']'' # r)
        = Some (x, CHR '','' # str_join '','' (map stringify xs) @ CHR '']'' # r)"
      by (rule printedD) (use Cons.prems False n in \<open>auto simp: str_join_Cons\<close>)
    moreover have "parse_items m (str_join '','' (map stringify xs) @ CHR '']'' # r) = Some (xs, r)"
      by (rule Cons.IH) (use Cons.prems False n in \<open>auto simp: str_join_Cons\<close>)
    ultimately show ?thesis using False n by (simp add: str_join_Cons)
  qed
qed

definition print_field :: "string \<times> json \<Rightarrow> string" where
  "print_field kv = quote (fst kv) @ '':'' @ stringify (snd kv)"

lemma print_field_pair:
  "print_field (k, v) = quote_mark # concat (map quote_char k) @ quote_mark # CHR '':'' # stringify v"
  by (simp add: print_field_def quote_def)

lemma stringify_JObj: "stringify (JObj kvs) = ''{'' @ str_join '','' (map print_field kvs) @ ''}''"
proof -
  have "print_field = (\<lambda>(k, v). quote k @ '':'' @ stringify v)"
    by (auto simp: print_field_def fun_eq_iff)
  then show ?thesis by simp
qed

lemma parse_fields_printed:
  assumes "kvs \<noteq> []" "\<forall>kv \<in> set kvs. printed (snd kv)"
    "2 * length (str_join '','' (map print_field kvs)) + 1 < n"
  shows "parse_fields n (str_join '','' (map print_field kvs) @ CHR ''}'' # r) = Some (kvs, r)"
  using assms
proof (induction kvs arbitrary: n)
  case Nil
  then show ?case by simp
next
  case (Cons kv kvs)
  obtain k v where kv: "kv = (k, v)" by (cases kv)
  obtain m where n: "n = Suc m" using Cons.prems(3) by (cases n) auto
  obtain c t where c: "stringify v = c # t" "\<not> json_space c" using stringify_start [of v] by auto
  have val: "parse_value m (stringify v @ s) = Some (v, s)" if "stops s" for s
    by (rule printedD) (use Cons.prems n kv that in \<open>auto simp: str_join_Cons print_field_def split: if_splits\<close>)
  have key: "parse_chars (concat (map quote_char k) @ quote_mark # s) = Some (k, s)" for s
    by (rule parse_chars_quoted)
  show ?case
  proof (cases "kvs = []")
    case True
    then show ?thesis using val [of "CHR ''}'' # r"] n kv by (simp add: print_field_pair key)
  next
    case False
    have "parse_fields m (str_join '','' (map print_field kvs) @ CHR ''}'' # r) = Some (kvs, r)"
      by (rule Cons.IH) (use Cons.prems False n in \<open>auto simp: str_join_Cons print_field_def\<close>)
    then show ?thesis
      using False val [of "CHR '','' # str_join '','' (map print_field kvs) @ CHR ''}'' # r"] n kv
      by (simp add: str_join_Cons print_field_pair key)
  qed
qed

lemma rec_set_new: "k \<notin> fst ` set r \<Longrightarrow> rec_set k v r = r @ [(k, v)]"
  by (induction k v r rule: rec_set.induct) auto

lemma object_of_distinct: "distinct (map fst kvs) \<Longrightarrow> object_of kvs = JObj kvs"
proof -
  have "distinct (map fst (acc @ kvs)) \<Longrightarrow> foldl (\<lambda>o' (k, v). rec_set k v o') acc kvs = acc @ kvs" for acc
  proof (induction kvs arbitrary: acc)
    case Nil
    then show ?case by simp
  next
    case (Cons kv kvs)
    then show ?case
      using Cons.IH [of "acc @ [kv]"] by (cases kv) (auto simp: rec_set_new)
  qed
  from this [of "[]"] show "distinct (map fst kvs) \<Longrightarrow> object_of kvs = JObj kvs"
    by (simp add: object_of_def)
qed

lemma printed_number: "printed (JNum i)"
proof (rule printedI)
  fix m r
  assume r: "stops r"
  obtain c t where "print_int i = c # t" "is_digit c \<or> c = CHR ''-''" using print_int_start by blast
  then show "parse_value (Suc m) (stringify (JNum i) @ r) = Some (JNum i, r)"
    using number_start [of c m "t @ r"] parse_number_print [OF r, of i] by (simp del: parse_value.simps)
qed

lemma printed_ok: "json_ok v \<Longrightarrow> printed v"
proof (induction v rule: json_ok.induct)
  case (1 xs)
  then have xs: "\<forall>x \<in> set xs. printed x" by (auto simp: list_all_iff)
  show ?case
    unfolding printed_def
  proof (intro allI impI)
    fix n r
    assume "stops r" and n: "2 * length (stringify (JArr xs)) < n"
    then obtain m where m: "n = Suc m" by (cases n) auto
    show "parse_value n (stringify (JArr xs) @ r) = Some (JArr xs, r)"
    proof (cases xs)
      case Nil
      then show ?thesis by (simp add: m)
    next
      case (Cons x xs')
      obtain c t where "str_join '','' (map stringify xs) = c # t" "\<not> json_space c" "c \<noteq> CHR '']''"
        using stringify_start [of x] Cons by (auto simp: str_join_Cons)
      moreover have "parse_items m (str_join '','' (map stringify xs) @ CHR '']'' # r) = Some (xs, r)"
        by (rule parse_items_printed) (use Cons xs n m in auto)
      ultimately show ?thesis by (simp add: m)
    qed
  qed
next
  case (2 kvs)
  then have kvs: "\<forall>kv \<in> set kvs. printed (snd kv)" "distinct (map fst kvs)" by (auto simp: list_all_iff)
  show ?case
    unfolding printed_def
  proof (intro allI impI)
    fix n r
    assume "stops r" and n: "2 * length (stringify (JObj kvs)) < n"
    then obtain m where m: "n = Suc m" by (cases n) auto
    show "parse_value n (stringify (JObj kvs) @ r) = Some (JObj kvs, r)"
    proof (cases kvs)
      case Nil
      then show ?thesis by (simp add: m)
    next
      case (Cons kv kvs')
      obtain t where "str_join '','' (map print_field kvs) = quote_mark # t"
        using Cons by (auto simp: str_join_Cons print_field_def quote_def)
      moreover have "parse_fields m (str_join '','' (map print_field kvs) @ CHR ''}'' # r) = Some (kvs, r)"
        by (rule parse_fields_printed) (use Cons kvs n m in \<open>auto simp: stringify_JObj simp del: stringify.simps\<close>)
      ultimately show ?thesis
        by (simp add: m stringify_JObj object_of_distinct [OF kvs(2)] del: stringify.simps)
    qed
  qed
next
  case "3_1"
  show ?case by (rule printedI) simp
next
  case "3_2"
  show ?case by (rule printedI) simp
next
  case "3_3"
  show ?case by (rule printed_number)
next
  case "3_4"
  show ?case by (rule printedI) (simp add: quote_def parse_chars_quoted)
qed

lemma json_parse_stringify: "json_ok v \<Longrightarrow> json_parse (stringify v) = Some v"
  using printedD [OF printed_ok, of v "[]" "2 * length (stringify v) + 2"] by (simp add: json_parse_def)

subsection \<open>Printed texts are lines\<close>

lemma hex_char_plain: "d < 16 \<Longrightarrow> 48 \<le> code_unit (hex_char d)"
  by (simp add: hex_char_def)

lemma quote_char_plain: "c \<in> set (quote_char d) \<Longrightarrow> 32 \<le> code_unit c"
proof -
  assume c: "c \<in> set (quote_char d)"
  have "code_unit d div 16 < 16" "code_unit d mod 16 < 16"
    using code_unit_less [of d] by simp_all
  then have "48 \<le> code_unit (hex_char (code_unit d div 16))" "48 \<le> code_unit (hex_char (code_unit d mod 16))"
    by (simp_all only: hex_char_plain)
  with c show ?thesis
    by (auto simp: quote_char_def Let_def code_unit_def quote_mark_def backslash_def split: if_splits)
qed

definition line_text :: "string \<Rightarrow> bool" where
  "line_text s = (\<forall>c \<in> set s. 32 \<le> code_unit c)"

lemma line_text_simps [simp]:
  "line_text []" "line_text (c # s) \<longleftrightarrow> 32 \<le> code_unit c \<and> line_text s"
  "line_text (s @ t) \<longleftrightarrow> line_text s \<and> line_text t"
  by (auto simp: line_text_def)

lemma line_text_join: "line_text sep \<Longrightarrow> \<forall>s \<in> set ss. line_text s \<Longrightarrow> line_text (str_join sep ss)"
  unfolding line_text_def using set_str_join [of sep ss] by fastforce

lemma line_text_quote: "line_text (quote s)"
  using quote_char_plain by (auto simp: quote_def line_text_def)

lemma line_text_decimal: "line_text (decimal n)"
  using decimal_digits by (fastforce simp: line_text_def is_digit_def)

lemma code_unit_literals [simp]:
  "32 \<le> code_unit (CHR ''['')" "32 \<le> code_unit (CHR '']'')" "32 \<le> code_unit (CHR ''{'')"
  "32 \<le> code_unit (CHR ''}'')" "32 \<le> code_unit (CHR '','')" "32 \<le> code_unit (CHR '':'')"
  "32 \<le> code_unit (CHR ''-'')"
  by (simp_all add: code_unit_def)

lemma line_text_stringify: "line_text (stringify v)"
proof (induction v rule: stringify.induct)
  case 1
  then show ?case by (simp add: line_text_def code_unit_def)
next
  case (2 b)
  then show ?case by (simp add: line_text_def code_unit_def)
next
  case (3 i)
  then show ?case by (simp add: print_int_def line_text_decimal)
next
  case (4 s)
  then show ?case by (simp add: line_text_quote)
next
  case (5 xs)
  then have "\<forall>s \<in> set (map stringify xs). line_text s" by auto
  then show ?case by (simp add: line_text_join)
next
  case (6 kvs)
  then have "\<forall>s \<in> set (map (\<lambda>(k, v). quote k @ '':'' @ stringify v) kvs). line_text s"
    by (auto simp: line_text_quote)
  then show ?case by (simp add: line_text_join)
qed

lemma stringify_not_blank: "trim (stringify v) \<noteq> []"
proof -
  obtain c t where c: "stringify v = c # t" "\<not> json_space c" using stringify_start by blast
  have "c \<in> set (stringify v)" using c by simp
  then have "32 \<le> code_unit c" using line_text_stringify [of v] by (auto simp: line_text_def)
  have "code_unit c \<noteq> 160"
  proof (cases v)
    case (JNum i)
    then show ?thesis using print_int_start [of i] c(1) by (auto simp: is_digit_def code_unit_def)
  qed (use c(1) in \<open>auto simp: code_unit_def quote_def quote_mark_def split: if_splits\<close>)
  with c(2) \<open>32 \<le> code_unit c\<close> have "\<not> is_white_space c"
    by (auto simp: is_white_space_def json_space_def)
  then show ?thesis by (simp add: trim_def trim_start_def trim_end_def c(1) dropWhile_eq_Nil_conv)
qed

subsection \<open>The fuel is enough\<close>

lemma map_option_Some_iff: "map_option f x = Some y \<longleftrightarrow> (\<exists>z. x = Some z \<and> y = f z)"
  by (cases x) auto

lemma skip_space_length: "length (skip_space s) \<le> length s"
  by (simp add: skip_space_def length_dropWhile_le)

lemma parse_chars_length: "parse_chars s = Some (t, r) \<Longrightarrow> length r < length s"
proof (induction s arbitrary: t r rule: length_induct)
  case (1 s)
  then have IH: "parse_chars s' = Some (t', r') \<Longrightarrow> length s' < length s \<Longrightarrow> length r' < length s'" for s' t' r'
    by blast
  show ?case
  proof (cases s)
    case Nil
    with 1 show ?thesis by simp
  next
    case (Cons c s1)
    from 1(2) show ?thesis
      unfolding Cons parse_chars.simps(2)
      by (auto split: if_splits list.splits option.splits prod.splits simp: Cons dest!: IH)
  qed
qed

lemma parse_number_length: "parse_number s = Some (v, r) \<Longrightarrow> length r < length s"
  by (auto simp: parse_number_def parse_digits_def Let_def map_option_Some_iff split: list.splits if_splits
      intro!: le_imp_less_Suc length_dropWhile_le)

lemma tail_length: "length (tl (skip_space t)) \<le> length t"
  using skip_space_length [of t] by simp

lemma parse_value_elim:
  assumes "parse_value (Suc n) s = Some (v, r)" "skip_space s = c # t"
  shows "(\<exists>x. parse_chars t = Some (x, r)) \<or> (\<exists>xs. parse_items n t = Some (xs, r)) \<or>
    (\<exists>kvs. parse_fields n t = Some (kvs, r)) \<or> parse_number (c # t) = Some (v, r) \<or> length r \<le> length t"
proof -
  consider "c = quote_mark" | "c = CHR ''[''" "c \<noteq> quote_mark" | "c = CHR ''{''" "c \<noteq> quote_mark"
    | "c \<noteq> quote_mark" "c \<noteq> CHR ''[''" "c \<noteq> CHR ''{''"
    by blast
  then show ?thesis
  proof cases
    case 1
    with assms show ?thesis by (auto simp: map_option_Some_iff simp del: starts_with.simps)
  next
    case 2
    with assms tail_length [of t] show ?thesis
      by (auto simp: map_option_Some_iff simp del: starts_with.simps split: if_splits)
  next
    case 3
    with assms tail_length [of t] show ?thesis
      by (auto simp: map_option_Some_iff simp del: starts_with.simps split: if_splits)
  next
    case 4
    with assms have "length r \<le> length t \<or> parse_number (c # t) = Some (v, r)"
      by (simp add: split: if_splits del: starts_with.simps) auto
    then show ?thesis by blast
  qed
qed

lemma parse_lengths:
  "parse_value n s = Some (v, r) \<Longrightarrow> length r < length s"
  "parse_items n s = Some (vs, r) \<Longrightarrow> length r < length s"
  "parse_fields n s = Some (kvs, r) \<Longrightarrow> length r < length s"
proof (induction n arbitrary: s v vs kvs r)
  case 0
  { case 1 then show ?case by simp }
  { case 2 then show ?case by simp }
  { case 3 then show ?case by simp }
next
  case (Suc n)
  { case 1
    show ?case
    proof (cases "skip_space s")
      case Nil
      with 1 show ?thesis by simp
    next
      case (Cons c t)
      then have t: "length t < length s" using skip_space_length [of s] by simp
      have "length r < length (c # t)"
        using parse_value_elim [OF 1 Cons]
        by (auto dest: parse_chars_length Suc.IH(2,3) parse_number_length)
      then show ?thesis using t by simp
    qed }
  { case 2
    then obtain v' r' where v: "parse_value n s = Some (v', r')" by (auto split: option.splits)
    then have r': "length r' < length s" using Suc.IH(1) by blast
    show ?case
    proof (cases "skip_space r'")
      case Nil
      with 2 v show ?thesis by simp
    next
      case (Cons c t)
      then have "length t < length r'" using skip_space_length [of r'] by simp
      with 2 v Cons r' Suc.IH(2) [of t] show ?thesis
        by (auto simp: map_option_Some_iff split: if_splits)
    qed }
  { case 3
    then obtain k r1 v' r2 c t where s: "skip_space s = c # t" "parse_chars t = Some (k, r1)"
      "parse_value n (tl (skip_space r1)) = Some (v', r2)"
      by (auto split: list.splits if_splits option.splits)
    then have "length t < length s" "length r1 < length t" "length r2 < length r1"
      using skip_space_length [of s] parse_chars_length [of t] tail_length [of r1] Suc.IH(1) [of "tl (skip_space r1)"]
      by fastforce+
    then have r2: "length r2 < length s" by simp
    show ?case
    proof (cases "skip_space r2")
      case Nil
      with 3 s show ?thesis by (simp split: if_splits)
    next
      case (Cons d u)
      then have "length u < length r2" using skip_space_length [of r2] by simp
      with 3 s Cons r2 Suc.IH(3) [of u] show ?thesis
        by (auto simp: map_option_Some_iff split: if_splits)
    qed }
qed

lemma parse_more_fuel:
  "2 * length s < n \<Longrightarrow> parse_value (Suc n) s = parse_value n s"
  "2 * length s + 1 < n \<Longrightarrow> parse_items (Suc n) s = parse_items n s"
  "2 * length s < n \<Longrightarrow> parse_fields (Suc n) s = parse_fields n s"
proof (induction n arbitrary: s)
  case 0
  { case 1 then show ?case by simp }
  { case 2 then show ?case by simp }
  { case 3 then show ?case by simp }
next
  case (Suc n)
  { case 1
    show ?case
    proof (cases "skip_space s")
      case (Cons c t)
      then have t: "length t < length s" using skip_space_length [of s] by simp
      then have "parse_items (Suc n) t = parse_items n t" "parse_fields (Suc n) t = parse_fields n t"
        using 1 Suc.IH(2,3) [of t] by simp_all
      then show ?thesis
        unfolding parse_value.simps(2) [of "Suc n"] parse_value.simps(2) [of n] Cons by (simp only: list.case)
    qed (simp only: parse_value.simps(2) list.case) }
  { case 2
    have v: "parse_value (Suc n) s = parse_value n s" using 2 Suc.IH(1) [of s] by simp
    show ?case
    proof (cases "parse_value n s")
      case (Some vr)
      obtain v' r' where vr: "vr = (v', r')" by (cases vr)
      show ?thesis
      proof (cases "skip_space r'")
        case (Cons c t)
        then have "length t < length s"
          using skip_space_length [of r'] parse_lengths(1) [of n s v' r'] Some vr by simp
        then have "parse_items (Suc n) t = parse_items n t" using 2 Suc.IH(2) [of t] by simp
        then show ?thesis
          unfolding parse_items.simps(2) [of "Suc n"] parse_items.simps(2) [of n] v using Some vr Cons by simp
      qed (unfold parse_items.simps(2) [of "Suc n"] parse_items.simps(2) [of n] v, simp add: Some vr)
    qed (unfold parse_items.simps(2) [of "Suc n"] parse_items.simps(2) [of n] v, simp) }
  { case 3
    show ?case
    proof (cases "\<exists>c t k r1. skip_space s = c # t \<and> parse_chars t = Some (k, r1)")
      case False
      then have "skip_space s = [] \<or> (\<exists>c t. skip_space s = c # t \<and> parse_chars t = None)"
        by (metis neq_Nil_conv not_None_eq surj_pair)
      then show ?thesis
        unfolding parse_fields.simps(2) [of "Suc n" s] parse_fields.simps(2) [of n s]
        by (elim disjE exE conjE) (simp_all only: list.case option.case)
    next
      case True
      then obtain c t k r1 where t: "skip_space s = c # t" "parse_chars t = Some (k, r1)" by blast
      define u where "u = tl (skip_space r1)"
      have "length t < length s" "length r1 < length t" "length u \<le> length r1"
        using skip_space_length [of s] skip_space_length [of r1] parse_chars_length [OF t(2)] t(1)
        by (simp_all add: u_def)
      then have lu: "length u < length s" by simp
      have v: "parse_value (Suc n) u = parse_value n u"
        using 3 Suc.IH(1) [of u] lu by simp
      have f: "parse_fields (Suc n) w = parse_fields n w" if "length w < length s" for w
        using 3 Suc.IH(3) [of w] that by simp
      have w: "length w < length s" if "parse_value n u = Some (x, r2)" "skip_space r2 = d # w" for x r2 d w
        using parse_lengths(1) [OF that(1)] skip_space_length [of r2] lu that(2) by simp
      have rest: "(case skip_space r2 of [] \<Rightarrow> None | d # r3 \<Rightarrow>
            if d = CHR ''}'' then Some ([(k, x)], r3)
            else if d = CHR '','' then map_option (\<lambda>(kvs, r4). ((k, x) # kvs, r4)) (parse_fields (Suc n) r3)
            else None) =
          (case skip_space r2 of [] \<Rightarrow> None | d # r3 \<Rightarrow>
            if d = CHR ''}'' then Some ([(k, x)], r3)
            else if d = CHR '','' then map_option (\<lambda>(kvs, r4). ((k, x) # kvs, r4)) (parse_fields n r3)
            else None)" if "parse_value n u = Some (x, r2)" for x r2
        by (cases "skip_space r2") (simp_all only: list.case f [OF w [OF that]])
      show ?thesis
      proof (cases "parse_value n u")
        case None
        then show ?thesis
          unfolding parse_fields.simps(2) [of "Suc n" s] parse_fields.simps(2) [of n s] t list.case option.case
            prod.case u_def [symmetric] v
          by (simp only: option.case)
      next
        case (Some vr)
        obtain x r2 where vr: "vr = (x, r2)" by (cases vr)
        have at: "parse_value n u = Some (x, r2)" using Some vr by (simp only:)
        show ?thesis
          unfolding parse_fields.simps(2) [of "Suc n" s] parse_fields.simps(2) [of n s] t list.case option.case
            prod.case u_def [symmetric] v at rest [OF at] by (rule refl)
      qed
    qed }
qed

lemma fuel_enough: "2 * length s + 2 \<le> n \<Longrightarrow> parse_value n s = parse_value (2 * length s + 2) s"
proof (induction n rule: dec_induct)
  case (step n)
  then show ?case using parse_more_fuel(1) [of s n] by simp
qed simp

end
