(* ===== verification/Ndjson.thy ===== *)
theory Ndjson
  imports JsonText Boundary "HOL-Library.Sublist"
begin

section \<open>Newline-delimited JSON (packages/protocol/src/transport.ts)\<close>

text \<open>
  A connection cuts what arrives on a socket into lines and parses every line that is not blank.
  The socket pushes chunks that end anywhere; the consumer pulls values. The theorem shows that the
  cuts do not matter: however the text of the frames is chunked, and whenever the consumer pulls,
  it gets the values that were sent, in their order. Decoding the bytes of a chunk to characters is
  the socket's.
\<close>

record connection =
  cn_buffer :: string
  cn_messages :: "json list"
  cn_done :: bool
  cn_streamError :: "thrown option"

definition new_connection :: connection where
  "new_connection = \<lparr>cn_buffer = [], cn_messages = [], cn_done = False, cn_streamError = None\<rparr>"

definition newline :: char where
  "newline = CHR 0x0A"

text \<open>The line up to the first newline and the text after it.\<close>

fun split_line :: "string \<Rightarrow> (string \<times> string) option" where
  "split_line [] = None"
| "split_line (c # s) =
     (if c = newline then Some ([], s)
      else (case split_line s of None \<Rightarrow> None | Some (l, r) \<Rightarrow> Some (c # l, r)))"

lemma split_line_length: "split_line s = Some (l, r) \<Longrightarrow> length r < length s"
  by (induction s arbitrary: l) (auto split: if_splits option.splits)

text \<open>
  A line that does not parse destroys the socket; the lines after it in the buffer are still read.
  A syntax error is an error object without a tag.
\<close>

definition syntax_error :: thrown where
  "syntax_error = ThrownOther None"

definition accept_line :: "string \<Rightarrow> connection \<Rightarrow> connection" where
  "accept_line line c =
     (if trim line = [] then c
      else (case json_parse line of
        Some v \<Rightarrow> c\<lparr>cn_messages := cn_messages c @ [v]\<rparr>
      | None \<Rightarrow> c\<lparr>cn_streamError := Some syntax_error\<rparr>))"

function read_lines :: "string \<Rightarrow> connection \<Rightarrow> connection" where
  "read_lines buffer c =
     (case split_line buffer of
        None \<Rightarrow> c\<lparr>cn_buffer := buffer\<rparr>
      | Some (line, rest) \<Rightarrow> read_lines rest (accept_line line c))"
  by pat_completeness auto
termination by (relation "measure (\<lambda>(b, c). length b)") (auto dest: split_line_length)

declare read_lines.simps [simp del]

definition on_data :: "string \<Rightarrow> connection \<Rightarrow> connection" where
  "on_data chunk c = read_lines (cn_buffer c @ chunk) c"

definition on_error :: "thrown \<Rightarrow> connection \<Rightarrow> connection" where
  "on_error e c = c\<lparr>cn_streamError := Some e, cn_done := True\<rparr>"

definition on_close :: "connection \<Rightarrow> connection" where
  "on_close c = c\<lparr>cn_done := True\<rparr>"

text \<open>One round of the generator: a value, the error, the end, or waiting for a wake-up.\<close>

datatype pulled = Pulled json | PullThrows thrown | PullDone | PullWaits

definition pull :: "connection \<Rightarrow> pulled \<times> connection" where
  "pull c =
     (case cn_messages c of
        v # vs \<Rightarrow> (Pulled v, c\<lparr>cn_messages := vs\<rparr>)
      | [] \<Rightarrow> (case cn_streamError c of
          Some e \<Rightarrow> (PullThrows e, c)
        | None \<Rightarrow> if cn_done c then (PullDone, c) else (PullWaits, c)))"

definition frame :: "json \<Rightarrow> string" where
  "frame v = stringify v @ [newline]"

subsection \<open>Cutting lines\<close>

lemma split_line_app:
  "newline \<notin> set l \<Longrightarrow> split_line (l @ newline # r) = Some (l, r)"
  by (induction l) auto

lemma split_line_None: "split_line s = None \<longleftrightarrow> newline \<notin> set s"
  by (induction s) (auto split: option.split)

lemma split_line_Some:
  "split_line s = Some (l, r) \<Longrightarrow> s = l @ newline # r \<and> newline \<notin> set l"
  by (induction s arbitrary: l) (auto split: if_splits option.splits)

lemma split_line_more: "split_line s = Some (l, r) \<Longrightarrow> split_line (s @ t) = Some (l, r @ t)"
  using split_line_Some [of s l r] split_line_app [of l "r @ t"] by simp

text \<open>Reading does not depend on what the buffer was before, and lines are read one by one.\<close>

lemma accept_line_buffer [simp]: "accept_line l (c\<lparr>cn_buffer := b\<rparr>) = (accept_line l c)\<lparr>cn_buffer := b\<rparr>"
  by (simp add: accept_line_def split: option.split)

lemma read_lines_buffer [simp]: "read_lines s (c\<lparr>cn_buffer := b\<rparr>) = read_lines s c"
proof (induction s c rule: read_lines.induct)
  case (1 s c)
  show ?case
  proof (cases "split_line s")
    case None
    then show ?thesis by (simp add: read_lines.simps [of s])
  next
    case (Some lr)
    then show ?thesis using 1 by (cases lr) (simp add: read_lines.simps [of s])
  qed
qed

lemma read_lines_app: "read_lines (s @ t) c = (let c' = read_lines s c in read_lines (cn_buffer c' @ t) c')"
proof (induction s c rule: read_lines.induct)
  case (1 s c)
  show ?case
  proof (cases "split_line s")
    case None
    then show ?thesis by (simp add: read_lines.simps [of s])
  next
    case (Some lr)
    obtain l r where lr: "lr = (l, r)" by (cases lr)
    have "read_lines (s @ t) c = read_lines (r @ t) (accept_line l c)"
      using split_line_more [of s l r t] Some lr by (simp add: read_lines.simps [of "s @ t"])
    moreover have "read_lines s c = read_lines r (accept_line l c)"
      using Some lr by (simp add: read_lines.simps [of s])
    ultimately show ?thesis using 1 Some lr by simp
  qed
qed

lemma on_data_app: "on_data (s @ t) c = on_data t (on_data s c)"
  by (simp add: on_data_def read_lines_app [of "cn_buffer c @ s" t] Let_def flip: append_assoc)

subsection \<open>Frames\<close>

lemma newline_unit: "code_unit newline = 10"
  by (simp add: newline_def code_unit_def)

lemma newline_not_printed: "newline \<notin> set (stringify v)"
  using line_text_stringify [of v] by (auto simp: line_text_def newline_unit)

lemma read_frame: "json_ok v \<Longrightarrow> read_lines (frame v @ s) c = read_lines s (c\<lparr>cn_messages := cn_messages c @ [v]\<rparr>)"
  using split_line_app [OF newline_not_printed, of v s] stringify_not_blank [of v]
  by (simp add: frame_def read_lines.simps [of "stringify v @ newline # s"] accept_line_def json_parse_stringify)

lemma read_frames:
  "list_all json_ok vs \<Longrightarrow>
     read_lines (concat (map frame vs) @ s) c = read_lines s (c\<lparr>cn_messages := cn_messages c @ vs\<rparr>)"
  by (induction vs arbitrary: c) (simp_all add: read_frame)

text \<open>A beginning of the text of some frames holds whole frames and a beginning of the next line.\<close>

lemma frames_prefix:
  assumes "s @ t = concat (map frame vs)"
  shows "\<exists>us ws l. vs = us @ ws \<and> s = concat (map frame us) @ l \<and> newline \<notin> set l \<and>
    (t = [] \<longrightarrow> ws = [] \<and> l = [])"
  using assms
proof (induction vs arbitrary: s)
  case Nil
  then show ?case by simp
next
  case (Cons v vs)
  show ?case
  proof (cases "length (frame v) \<le> length s")
    case True
    have "take (length (frame v)) (s @ t) = frame v" using Cons.prems by simp
    with True have "take (length (frame v)) s = frame v" by simp
    then obtain s' where s: "s = frame v @ s'" by (metis append_take_drop_id)
    with Cons.prems have "s' @ t = concat (map frame vs)" by simp
    from Cons.IH [OF this] obtain us ws l where
      "vs = us @ ws" "s' = concat (map frame us) @ l" "newline \<notin> set l" "t = [] \<longrightarrow> ws = [] \<and> l = []"
      by blast
    then show ?thesis
      using s by (intro exI [of _ "v # us"] exI [of _ ws] exI [of _ l]) simp
  next
    case False
    then have short: "length s \<le> length (stringify v)" by (simp add: frame_def)
    have "s @ t = stringify v @ newline # concat (map frame vs)" using Cons.prems by (simp add: frame_def [of v])
    then have "take (length s) (stringify v) = s"
      using short by (metis append_eq_conv_conj take_append take_all_iff append_Nil2 diff_is_0_eq take0)
    then obtain u where "stringify v = s @ u" by (metis append_take_drop_id)
    then have "newline \<notin> set s" using newline_not_printed [of v] by simp
    moreover have "t \<noteq> []" using Cons.prems False by auto
    ultimately show ?thesis
      by (intro exI [of _ "[]"] exI [of _ "v # vs"] exI [of _ s]) simp
  qed
qed

text \<open>What arrived and what the consumer took, one after the other.\<close>

datatype traffic = Arrives string | Takes

fun arrived :: "traffic list \<Rightarrow> string" where
  "arrived [] = []"
| "arrived (Arrives chunk # ts) = chunk @ arrived ts"
| "arrived (Takes # ts) = arrived ts"

fun consume :: "traffic list \<Rightarrow> connection \<Rightarrow> json list \<times> connection" where
  "consume [] c = ([], c)"
| "consume (Arrives chunk # ts) c = consume ts (on_data chunk c)"
| "consume (Takes # ts) c =
     (case pull c of
        (Pulled v, c') \<Rightarrow> (case consume ts c' of (vs, c'') \<Rightarrow> (v # vs, c''))
      | (p, c') \<Rightarrow> consume ts c')"

text \<open>Taking the first message commutes with reading.\<close>

lemma accept_line_front:
  "accept_line l (c\<lparr>cn_messages := ms @ cn_messages c\<rparr>) =
     (accept_line l c)\<lparr>cn_messages := ms @ cn_messages (accept_line l c)\<rparr>"
  by (simp add: accept_line_def split: option.split)

lemma read_lines_front:
  "read_lines s (c\<lparr>cn_messages := ms @ cn_messages c\<rparr>) =
     (read_lines s c)\<lparr>cn_messages := ms @ cn_messages (read_lines s c)\<rparr>"
proof (induction s c rule: read_lines.induct)
  case (1 s c)
  show ?case
  proof (cases "split_line s")
    case None
    then show ?thesis by (simp add: read_lines.simps [of s])
  next
    case (Some lr)
    then show ?thesis using 1 by (cases lr) (simp add: read_lines.simps [of s] accept_line_front)
  qed
qed

lemma on_data_front:
  "on_data s (c\<lparr>cn_messages := ms @ cn_messages c\<rparr>) =
     (on_data s c)\<lparr>cn_messages := ms @ cn_messages (on_data s c)\<rparr>"
  by (simp add: on_data_def read_lines_front)

lemma read_lines_clean: "newline \<notin> set (cn_buffer (read_lines s c))"
proof (induction s c rule: read_lines.induct)
  case (1 s c)
  show ?case
  proof (cases "split_line s")
    case None
    then show ?thesis by (simp add: read_lines.simps [of s] split_line_None [symmetric])
  next
    case (Some lr)
    then show ?thesis using 1 by (cases lr) (simp add: read_lines.simps [of s])
  qed
qed

lemma on_data_nothing: "newline \<notin> set (cn_buffer c) \<Longrightarrow> on_data [] c = c"
  by (simp add: on_data_def read_lines.simps [of "cn_buffer c"] split_line_None [symmetric])

lemma pull_cases: "pull c = (p, c') \<Longrightarrow> (\<exists>v. p = Pulled v \<and> cn_messages c = v # cn_messages c' \<and>
    c' = c\<lparr>cn_messages := cn_messages c'\<rparr>) \<or> (\<forall>v. p \<noteq> Pulled v) \<and> c' = c"
  by (auto simp: pull_def split: list.splits option.splits if_splits)

lemma consume_reads:
  "newline \<notin> set (cn_buffer c) \<Longrightarrow> consume ts c = (ys, c') \<Longrightarrow>
     c'\<lparr>cn_messages := ys @ cn_messages c'\<rparr> = on_data (arrived ts) c"
proof (induction ts c arbitrary: ys rule: consume.induct)
  case (1 c)
  then show ?case by (simp add: on_data_nothing)
next
  case (2 chunk ts c)
  have "newline \<notin> set (cn_buffer (on_data chunk c))" by (simp add: on_data_def read_lines_clean)
  with 2 show ?case by (simp add: on_data_app)
next
  case (3 ts c)
  obtain p d where p: "pull c = (p, d)" by (cases "pull c")
  from pull_cases [OF p] show ?case
  proof (elim disjE exE conjE)
    fix v assume v: "p = Pulled v" "cn_messages c = v # cn_messages d" "d = c\<lparr>cn_messages := cn_messages d\<rparr>"
    obtain zs where zs: "consume ts d = (zs, c')" "ys = v # zs"
      using "3.prems"(2) p v(1) by (auto split: prod.splits)
    have d: "newline \<notin> set (cn_buffer d)" using "3.prems"(1) v(3) by (metis connection.select_convs(1) connection.simps(5) connection.surjective connection.update_convs(2))
    have "c'\<lparr>cn_messages := zs @ cn_messages c'\<rparr> = on_data (arrived ts) d"
      using 3(1) p v(1) d zs(1) by simp
    then have "c'\<lparr>cn_messages := v # zs @ cn_messages c'\<rparr> =
        (on_data (arrived ts) d)\<lparr>cn_messages := [v] @ cn_messages (on_data (arrived ts) d)\<rparr>"
      by (metis (no_types, lifting) append_Cons append_Nil connection.select_convs(2) connection.surjective connection.update_convs(2))
    also have "\<dots> = on_data (arrived ts) (d\<lparr>cn_messages := [v] @ cn_messages d\<rparr>)"
      by (simp only: on_data_front)
    also have "d\<lparr>cn_messages := [v] @ cn_messages d\<rparr> = c"
      using v by (metis append_Cons append_Nil connection.surjective connection.update_convs(2))
    finally show ?thesis using zs(2) by simp
  next
    assume "\<forall>v. p \<noteq> Pulled v" "d = c"
    with 3 p show ?thesis by (cases p) auto
  qed
qed

subsection \<open>The round trip\<close>

lemma frames_survive:
  assumes "list_all json_ok vs" and "arrived ts @ rest = concat (map frame vs)"
    and "consume ts new_connection = (ys, c)"
  shows "prefix (ys @ cn_messages c) vs \<and> cn_streamError c = None \<and>
    (rest = [] \<longrightarrow> ys @ cn_messages c = vs \<and> cn_buffer c = [])"
proof -
  obtain us ws l where f: "vs = us @ ws" "arrived ts = concat (map frame us) @ l" "newline \<notin> set l"
    "rest = [] \<longrightarrow> ws = [] \<and> l = []"
    using frames_prefix [OF assms(2)] by blast
  have "c\<lparr>cn_messages := ys @ cn_messages c\<rparr> = on_data (arrived ts) new_connection"
    by (rule consume_reads [OF _ assms(3)]) (simp add: new_connection_def)
  also have "\<dots> = new_connection\<lparr>cn_messages := us, cn_buffer := l\<rparr>"
    using assms(1) f(1,3)
    by (simp add: on_data_def f(2) new_connection_def read_frames read_lines.simps [of l] split_line_None [symmetric])
  finally have "ys @ cn_messages c = us" "cn_streamError c = None" "cn_buffer c = l"
    by (auto simp: new_connection_def dest: arg_cong [of _ _ cn_messages] arg_cong [of _ _ cn_streamError]
        arg_cong [of _ _ cn_buffer])
  with f(1,4) show ?thesis by simp
qed

text \<open>However the text of the frames a peer sends is cut into chunks, and whenever the consumer
  pulls, what it got and what is queued for it are the values that were sent, in their order; when
  everything has arrived it is all of them, nothing is left in the buffer, and no frame is malformed.\<close>

lemma frames_survive_chunking:
  assumes "list_all json_ok vs" and "arrived ts @ rest = concat (map frame vs)"
    and "consume ts new_connection = (ys, c)"
  shows "prefix (ys @ cn_messages c) vs \<and> cn_streamError c = None \<and>
    (rest = [] \<longrightarrow> ys @ cn_messages c = vs \<and> cn_buffer c = [])"
  using assms by (rule frames_survive)

definition sample_values :: "json list" where
  "sample_values = [JObj [(''a'', JArr [JNum 1, JNum (- 20)])], JStr [newline, quote_mark]]"

definition sample_traffic :: "traffic list" where
  "sample_traffic =
     (let s = concat (map frame sample_values)
      in [Arrives (take 5 s), Takes, Arrives (take 11 (drop 5 s)), Takes, Arrives (drop 16 s)])"

end
