(* ===== verification/Protocol.thy ===== *)
theory Protocol
  imports Ndjson Effects
begin

section \<open>The observer protocol (packages/protocol/src)\<close>

text \<open>
  A client sends one request per connection as a JSON-RPC object on a line; the server answers with
  the result or an error of the same identifier, or streams events. The schemas of the methods'
  parameters and results are a parameter of the model: functions that parse a JSON value. The
  server's API and the events of a subscription are parameters, as functions of the position of the
  request on its connection. An error thrown by a Zod schema is told from every other thrown value,
  as in the code.
\<close>

subsection \<open>Messages (messages.ts)\<close>

datatype protocol_method =
  MethodHealth | MethodStop | MethodSnapshot | MethodSubscribe | MethodDispatch | MethodGetCommand
| MethodReconcile | MethodProviderHook | MethodHook | MethodHarnessReport | MethodDoctor | MethodDiagnostics

fun method_name :: "protocol_method \<Rightarrow> string" where
  "method_name MethodHealth = ''observer.health''"
| "method_name MethodStop = ''observer.stop''"
| "method_name MethodSnapshot = ''snapshot.get''"
| "method_name MethodSubscribe = ''events.subscribe''"
| "method_name MethodDispatch = ''command.dispatch''"
| "method_name MethodGetCommand = ''command.get''"
| "method_name MethodReconcile = ''observer.reconcile''"
| "method_name MethodProviderHook = ''observer.ingestProviderHookEvent''"
| "method_name MethodHook = ''observer.ingestHookEvent''"
| "method_name MethodHarnessReport = ''observer.harnessEvent.report''"
| "method_name MethodDoctor = ''doctor.run''"
| "method_name MethodDiagnostics = ''diagnostics.collect''"

definition protocol_methods :: "protocol_method list" where
  "protocol_methods =
     [MethodHealth, MethodStop, MethodSnapshot, MethodSubscribe, MethodDispatch, MethodGetCommand,
      MethodReconcile, MethodProviderHook, MethodHook, MethodHarnessReport, MethodDoctor, MethodDiagnostics]"

definition parse_method :: "string \<Rightarrow> protocol_method option" where
  "parse_method s = find (\<lambda>m. method_name m = s) protocol_methods"

record protocol_request =
  rq_id :: string
  rq_method :: protocol_method
  rq_params :: "json option"

datatype protocol_response = SuccessResponse string "json option" | ErrorResponse string safe_error

fun response_id :: "protocol_response \<Rightarrow> string" where
  "response_id (SuccessResponse i v) = i"
| "response_id (ErrorResponse i e) = i"

text \<open>An optional property is left out of the object.\<close>

definition optional_field :: "string \<Rightarrow> json option \<Rightarrow> (string \<times> json) list" where
  "optional_field k v = (case v of None \<Rightarrow> [] | Some x \<Rightarrow> [(k, x)])"

definition envelope_fields :: "string \<Rightarrow> (string \<times> json) list" where
  "envelope_fields i =
     [(''schemaVersion'', JStr schema_version), (''jsonrpc'', JStr ''2.0''), (''id'', JStr i)]"

definition request_json :: "protocol_request \<Rightarrow> json" where
  "request_json r =
     JObj (envelope_fields (rq_id r) @ [(''method'', JStr (method_name (rq_method r)))] @
       optional_field ''params'' (rq_params r))"

definition safe_error_json :: "safe_error \<Rightarrow> json" where
  "safe_error_json e =
     JObj ([(''tag'', JStr (se_tag e)), (''code'', JStr (se_code e)), (''message'', JStr (se_message e))] @
       concat (map (\<lambda>(k, v). optional_field k (map_option JStr v))
         [(''hint'', se_hint e), (''commandId'', se_commandId e), (''projectId'', se_projectId e),
          (''worktreeId'', se_worktreeId e), (''sessionId'', se_sessionId e), (''provider'', se_provider e),
          (''traceId'', se_traceId e), (''diagnosticId'', se_diagnosticId e)]))"

fun response_json :: "protocol_response \<Rightarrow> json" where
  "response_json (SuccessResponse i v) = JObj (envelope_fields i @ optional_field ''result'' v)"
| "response_json (ErrorResponse i e) = JObj (envelope_fields i @ [(''error'', safe_error_json e)])"

definition event_json :: "json \<Rightarrow> json" where
  "event_json ev = JObj [(''schemaVersion'', JStr schema_version), (''event'', ev)]"

text \<open>The strict object schemas: every key is known, every field is as its schema wants it.\<close>

definition only_keys :: "string list \<Rightarrow> (string \<times> json) list \<Rightarrow> bool" where
  "only_keys ks kvs = list_all (\<lambda>kv. fst kv \<in> set ks) kvs"

definition string_field :: "string \<Rightarrow> (string \<times> json) list \<Rightarrow> string option" where
  "string_field k kvs = (case map_of kvs k of Some (JStr s) \<Rightarrow> Some s | _ \<Rightarrow> None)"

text \<open>An optional string: absent, or there and a string.\<close>

definition optional_string_ok :: "string \<Rightarrow> (string \<times> json) list \<Rightarrow> bool" where
  "optional_string_ok k kvs = (map_of kvs k = None \<or> string_field k kvs \<noteq> None)"

definition envelope_id :: "(string \<times> json) list \<Rightarrow> string option" where
  "envelope_id kvs =
     (if string_field ''schemaVersion'' kvs = Some schema_version \<and> string_field ''jsonrpc'' kvs = Some ''2.0''
      then (case string_field ''id'' kvs of Some i \<Rightarrow> if i \<noteq> [] then Some i else None | None \<Rightarrow> None)
      else None)"

definition parse_request :: "json \<Rightarrow> protocol_request option" where
  "parse_request j =
     (case j of
        JObj kvs \<Rightarrow>
          if only_keys [''schemaVersion'', ''jsonrpc'', ''id'', ''method'', ''params''] kvs
          then (case (envelope_id kvs, Option.bind (string_field ''method'' kvs) parse_method) of
              (Some i, Some m) \<Rightarrow> Some \<lparr>rq_id = i, rq_method = m, rq_params = map_of kvs ''params''\<rparr>
            | _ \<Rightarrow> None)
          else None
      | _ \<Rightarrow> None)"

definition parse_safe_error :: "json \<Rightarrow> safe_error option" where
  "parse_safe_error j =
     (case j of
        JObj kvs \<Rightarrow>
          if only_keys [''tag'', ''code'', ''message'', ''hint'', ''commandId'', ''projectId'', ''worktreeId'',
               ''sessionId'', ''provider'', ''traceId'', ''diagnosticId''] kvs \<and>
             list_all (\<lambda>k. optional_string_ok k kvs) [''hint'', ''commandId'', ''projectId'', ''worktreeId'',
               ''sessionId'', ''provider'', ''traceId'', ''diagnosticId'']
          then (case (string_field ''tag'' kvs, string_field ''code'' kvs, string_field ''message'' kvs) of
              (Some tag, Some code, Some message) \<Rightarrow>
                (let e = \<lparr>se_tag = tag, se_code = code, se_message = message,
                       se_hint = string_field ''hint'' kvs, se_commandId = string_field ''commandId'' kvs,
                       se_projectId = string_field ''projectId'' kvs, se_worktreeId = string_field ''worktreeId'' kvs,
                       se_sessionId = string_field ''sessionId'' kvs, se_provider = string_field ''provider'' kvs,
                       se_traceId = string_field ''traceId'' kvs, se_diagnosticId = string_field ''diagnosticId'' kvs\<rparr>
                 in if valid_safe_error e then Some e else None)
            | _ \<Rightarrow> None)
          else None
      | _ \<Rightarrow> None)"

text \<open>The union: a success if it is one, otherwise an error.\<close>

definition parse_response :: "json \<Rightarrow> protocol_response option" where
  "parse_response j =
     (case j of
        JObj kvs \<Rightarrow>
          (case envelope_id kvs of
             None \<Rightarrow> None
           | Some i \<Rightarrow>
               if only_keys [''schemaVersion'', ''jsonrpc'', ''id'', ''result''] kvs
               then Some (SuccessResponse i (map_of kvs ''result''))
               else if only_keys [''schemaVersion'', ''jsonrpc'', ''id'', ''error''] kvs
               then map_option (ErrorResponse i) (Option.bind (map_of kvs ''error'') parse_safe_error)
               else None)
      | _ \<Rightarrow> None)"

record payload_schemas =
  py_params :: "protocol_method \<Rightarrow> json option \<Rightarrow> json option option"
  py_result :: "protocol_method \<Rightarrow> json option \<Rightarrow> json option option"
  py_event :: "json \<Rightarrow> json option"

text \<open>\<^verbatim>\<open>protocolSafeError\<close> on a constant text, which its schema accepts.\<close>

definition protocol_safe_error :: "string option \<Rightarrow> string option \<Rightarrow> string \<Rightarrow> string option \<Rightarrow> safe_error" where
  "protocol_safe_error tag code message hint =
     (basic_error (nullish tag ''ProtocolError'') (nullish code ''PROTOCOL_ERROR'') message)\<lparr>se_hint := hint\<rparr>"

definition method_failed_error :: safe_error where
  "method_failed_error = protocol_safe_error None None ''Observer protocol method failed.'' None"

text \<open>\<^verbatim>\<open>protocolRequest\<close> throws when the parameters do not parse or the identifier is empty.\<close>

definition build_request :: "payload_schemas \<Rightarrow> string \<Rightarrow> protocol_method \<Rightarrow> json option \<Rightarrow> protocol_request option" where
  "build_request py i m params =
     (case py_params py m params of
        None \<Rightarrow> None
      | Some p \<Rightarrow> if i = [] then None else Some \<lparr>rq_id = i, rq_method = m, rq_params = p\<rparr>)"

definition protocol_success_response ::
  "payload_schemas \<Rightarrow> string \<Rightarrow> protocol_method \<Rightarrow> json option \<Rightarrow> protocol_response option" where
  "protocol_success_response py i m result =
     (case py_result py m result of
        None \<Rightarrow> None
      | Some r \<Rightarrow> if i = [] then None else Some (SuccessResponse i r))"

text \<open>What the server sees of a thrown value: a Zod error, or any other.\<close>

datatype server_thrown = ThrownZod | ThrownValue thrown

definition schema_safe_error :: "server_thrown \<Rightarrow> safe_error option" where
  "schema_safe_error t =
     (case t of
        ThrownValue (ThrownObject e c) \<Rightarrow> if valid_safe_error e then Some e else None
      | _ \<Rightarrow> None)"

text \<open>An error response; \<open>None\<close> when the identifier is empty, which the response's schema rejects.\<close>

definition protocol_error_response :: "string \<Rightarrow> server_thrown option \<Rightarrow> protocol_response option" where
  "protocol_error_response i e =
     (if i = [] then None
      else Some (ErrorResponse i (nullish (Option.bind e schema_safe_error) method_failed_error)))"

subsection \<open>The server (server.ts)\<close>

definition error_response :: "string \<Rightarrow> string \<Rightarrow> server_thrown option \<Rightarrow> protocol_response option" where
  "error_response i message e =
     (let safeError = nullish (Option.bind e schema_safe_error) (protocol_safe_error None None message None)
      in protocol_error_response i (Some (ThrownValue (ThrownObject safeError None))))"

definition payload_invalid_error :: safe_error where
  "payload_invalid_error = protocol_safe_error None (Some ''PROTOCOL_VALIDATION_FAILED'')
     ''Observer protocol payload failed validation.''
     (Some ''If wosm was just rebuilt, restart the observer so it loads the current schema.'')"

definition protocol_safe_error_from_unknown :: "server_thrown \<Rightarrow> safe_error" where
  "protocol_safe_error_from_unknown t =
     (case schema_safe_error t of
        Some e \<Rightarrow> e
      | None \<Rightarrow> if t = ThrownZod then payload_invalid_error else method_failed_error)"

definition request_id :: "json \<Rightarrow> string" where
  "request_id message =
     (case message of JObj kvs \<Rightarrow> nullish (string_field ''id'' kvs) ''unknown'' | _ \<Rightarrow> ''unknown'')"

text \<open>What the API answers, \<open>None\<close> being \<^verbatim>\<open>undefined\<close>; and a subscription's events with their end.\<close>

datatype api_answer = ApiReturns "json option" | ApiThrows server_thrown | ApiTimesOut

datatype event_stream = StreamEnds "json list" | StreamThrows "json list" server_thrown

record observer_api =
  oa_call :: "protocol_method \<Rightarrow> json option \<Rightarrow> nat \<Rightarrow> api_answer"
  oa_subscribe :: "json option \<Rightarrow> nat \<Rightarrow> event_stream"

text \<open>Health and stop ignore the parameters; a command that is not found is \<^verbatim>\<open>null\<close>.\<close>

definition route_single_response :: "payload_schemas \<Rightarrow> observer_api \<Rightarrow> protocol_request \<Rightarrow> nat \<Rightarrow> json option attempt" where
  "route_single_response py api r k =
     (let failed = (\<lambda>t. AttemptThrows (ThrownObject (protocol_safe_error_from_unknown t) None));
          answer = (\<lambda>a. case a of
             ApiReturns v \<Rightarrow> AttemptReturns
               (if rq_method r = MethodGetCommand \<and> v = None then Some JNull else v)
           | ApiThrows t \<Rightarrow> failed t
           | ApiTimesOut \<Rightarrow> AttemptTimesOut)
      in if rq_method r = MethodHealth \<or> rq_method r = MethodStop
         then answer (oa_call api (rq_method r) None k)
         else (case py_params py (rq_method r) (rq_params r) of
             None \<Rightarrow> failed ThrownZod
           | Some p \<Rightarrow> answer (oa_call api (rq_method r) p k)))"

definition handler_failed :: error_fallback where
  "handler_failed = error_with ''ProtocolError'' ''PROTOCOL_HANDLER_FAILED'' ''Observer protocol method failed.'' None"

definition handler_timeout :: error_fallback where
  "handler_timeout = error_with ''TimeoutError'' ''PROTOCOL_HANDLER_TIMEOUT''
     ''Observer protocol method timed out.'' None"

definition route_request :: "payload_schemas \<Rightarrow> observer_api \<Rightarrow> protocol_request \<Rightarrow> nat \<Rightarrow> protocol_response option" where
  "route_request py api r k =
     (case boundary_attempt handler_failed (Some handler_timeout) (route_single_response py api r k) of
        Inl e \<Rightarrow> error_response (rq_id r) ''Observer protocol method failed.''
          (Some (ThrownValue (ThrownObject e None)))
      | Inr v \<Rightarrow> (case protocol_success_response py (rq_id r) (rq_method r) v of
          Some resp \<Rightarrow> Some resp
        | None \<Rightarrow> error_response (rq_id r) ''Observer protocol response validation failed.'' (Some ThrownZod)))"

text \<open>The events up to the first that its schema rejects, and whether there was one.\<close>

fun stream_events :: "payload_schemas \<Rightarrow> json list \<Rightarrow> json list \<times> bool" where
  "stream_events py [] = ([], False)"
| "stream_events py (ev # evs) =
     (case py_event py ev of
        None \<Rightarrow> ([], True)
      | Some ev' \<Rightarrow> (case stream_events py evs of (sent, bad) \<Rightarrow> (event_json ev' # sent, bad)))"

text \<open>The frames of a subscription; the connection is closed after them.\<close>

definition route_subscription :: "payload_schemas \<Rightarrow> observer_api \<Rightarrow> protocol_request \<Rightarrow> nat \<Rightarrow> json list" where
  "route_subscription py api r k =
     (let failed = (\<lambda>t. case error_response (rq_id r) ''Observer protocol method failed.'' (Some t) of
             None \<Rightarrow> [] | Some resp \<Rightarrow> [response_json resp])
      in case py_params py MethodSubscribe (rq_params r) of
           None \<Rightarrow> failed ThrownZod
         | Some p \<Rightarrow>
             (case protocol_success_response py (rq_id r) MethodSubscribe
                  (Some (JObj [(''subscribed'', JBool True)])) of
                None \<Rightarrow> failed ThrownZod
              | Some ack \<Rightarrow>
                  response_json ack #
                  (case oa_subscribe api p k of
                     StreamEnds evs \<Rightarrow>
                       (case stream_events py evs of (sent, bad) \<Rightarrow> sent @ (if bad then failed ThrownZod else []))
                   | StreamThrows evs t \<Rightarrow>
                       (case stream_events py evs of (sent, bad) \<Rightarrow>
                         sent @ failed (if bad then ThrownZod else t)))))"

text \<open>
  A connection is open, closed for writing while the loop still reads what is queued, or abandoned.
  What is sent after the close reaches nobody.
\<close>

datatype served = Serving | ServedClosed

definition send_frames :: "served \<Rightarrow> json list \<Rightarrow> json list" where
  "send_frames s frames = (if s = Serving then frames else [])"

fun handle_connection :: "payload_schemas \<Rightarrow> observer_api \<Rightarrow> nat \<Rightarrow> served \<Rightarrow> json list \<Rightarrow> json list" where
  "handle_connection py api k s [] = []"
| "handle_connection py api k s (message # messages) =
     (case parse_request message of
        None \<Rightarrow>
          (case error_response (request_id message) ''Invalid protocol request.'' None of
             None \<Rightarrow> []
           | Some resp \<Rightarrow> send_frames s [response_json resp] @ handle_connection py api (Suc k) s messages)
      | Some r \<Rightarrow>
          if rq_method r = MethodSubscribe
          then send_frames s (route_subscription py api r k) @
            handle_connection py api (Suc k) ServedClosed messages
          else
            (case route_request py api r k of
               None \<Rightarrow> []
             | Some resp \<Rightarrow> send_frames s [response_json resp] @ handle_connection py api (Suc k) s messages))"

subsection \<open>The client (client.ts)\<close>

definition response_invalid_error :: "protocol_method \<Rightarrow> safe_error" where
  "response_invalid_error m =
     protocol_safe_error None (Some ''PROTOCOL_RESPONSE_VALIDATION_FAILED'')
       (''Observer protocol response failed validation for '' @ method_name m @ ''.'')
       (Some ''The running observer may be from a different WOSM build. Restart it or use a config with an isolated observer socket_path and state_dir.'')"

definition socket_closed_error :: safe_error where
  "socket_closed_error = protocol_safe_error None (Some ''PROTOCOL_SOCKET_CLOSED'')
     ''Observer socket closed before a protocol response arrived.'' None"

definition schema_mismatch_error :: "string \<Rightarrow> safe_error" where
  "schema_mismatch_error version =
     protocol_safe_error None (Some ''PROTOCOL_SCHEMA_MISMATCH'')
       (''Observer protocol schema mismatch: the observer responded with schema '' @ version @
        '', but this CLI expects schema '' @ schema_version @ ''.'')
       (Some ''A different WOSM checkout may own the observer socket. Stop that observer, rebuild this checkout, or use a config with an isolated observer socket_path and state_dir.'')"

text \<open>What is thrown for a message that is no response: the mismatch of versions, or the Zod error.\<close>

definition unparsed_message :: "json \<Rightarrow> thrown" where
  "unparsed_message message =
     (let version = (case message of
          JObj kvs \<Rightarrow> (case map_of kvs ''schemaVersion'' of
              Some (JStr s) \<Rightarrow> Some s | Some (JNum i) \<Rightarrow> Some (print_int i) | _ \<Rightarrow> None)
        | _ \<Rightarrow> None)
      in case version of
           None \<Rightarrow> zod_error
         | Some v \<Rightarrow>
             if v = schema_version then zod_error
             else if valid_safe_error (schema_mismatch_error v)
             then ThrownObject (schema_mismatch_error v) None
             else zod_error)"

definition parse_response_message :: "json \<Rightarrow> thrown + protocol_response" where
  "parse_response_message message =
     (case parse_response message of Some r \<Rightarrow> Inr r | None \<Rightarrow> Inl (unparsed_message message))"

definition parse_response_result ::
  "payload_schemas \<Rightarrow> protocol_method \<Rightarrow> protocol_response \<Rightarrow> thrown + json option" where
  "parse_response_result py m r =
     (case r of
        ErrorResponse i e \<Rightarrow> Inl (ThrownObject e None)
      | SuccessResponse i v \<Rightarrow>
          (case py_result py m v of
             Some v' \<Rightarrow> Inr v'
           | None \<Rightarrow> Inl (ThrownObject (response_invalid_error m) None)))"

text \<open>
  Reading the messages up to the response. When they run out, the socket is closed or the client
  waits until its time limit.
\<close>

fun read_response ::
  "payload_schemas \<Rightarrow> string \<Rightarrow> protocol_method \<Rightarrow> bool \<Rightarrow> json list \<Rightarrow> json option attempt" where
  "read_response py i m closed [] =
     (if closed then AttemptThrows (ThrownObject socket_closed_error None) else AttemptTimesOut)"
| "read_response py i m closed (message # messages) =
     (case parse_response_message message of
        Inl t \<Rightarrow> AttemptThrows t
      | Inr r \<Rightarrow>
          if response_id r \<noteq> i then read_response py i m closed messages
          else (case parse_response_result py m r of Inl t \<Rightarrow> AttemptThrows t | Inr v \<Rightarrow> AttemptReturns v))"

definition request_failed :: error_fallback where
  "request_failed = error_with ''ProtocolError'' ''PROTOCOL_REQUEST_FAILED'' ''Observer protocol request failed.'' None"

definition request_timeout :: error_fallback where
  "request_timeout = error_with ''TimeoutError'' ''PROTOCOL_REQUEST_TIMEOUT'' ''Observer protocol request timed out.'' None"

text \<open>A request once the connection is there, given what the server sends in reply to a frame.\<close>

definition request_protocol_method ::
  "payload_schemas \<Rightarrow> string \<Rightarrow> protocol_method \<Rightarrow> json option \<Rightarrow> (json \<Rightarrow> json list \<times> bool) \<Rightarrow>
     safe_error + json option" where
  "request_protocol_method py i m params reply =
     boundary_attempt request_failed (Some request_timeout)
       (case build_request py i m params of
          None \<Rightarrow> AttemptThrows zod_error
        | Some r \<Rightarrow> (case reply (request_json r) of (messages, closed) \<Rightarrow> read_response py i m closed messages))"

end
