(* ===== verification/ProtocolProperties.thy ===== *)
theory ProtocolProperties
  imports Protocol
begin

section \<open>Requests are answered, and a remote call is a local call\<close>

text \<open>
  Every message survives being printed, sent and parsed; the server answers every request of a
  connection exactly once and in order; and a call through the client, the sockets and the server
  gives what calling the API directly would have given.
\<close>

subsection \<open>Messages\<close>

lemma parse_method_name [simp]: "parse_method (method_name m) = Some m"
  by (cases m) (simp_all add: parse_method_def protocol_methods_def)

lemma optional_field_simps [simp]:
  "optional_field k None = []" "optional_field k (Some x) = [(k, x)]"
  by (simp_all add: optional_field_def)

lemma envelope_id_fields [simp]: "envelope_id (envelope_fields i @ kvs) = (if i = [] then None else Some i)"
  by (simp add: envelope_id_def envelope_fields_def string_field_def)

lemma parse_request_json: "rq_id r \<noteq> [] \<Longrightarrow> parse_request (request_json r) = Some r"
  by (cases "rq_params r")
    (simp_all add: parse_request_def request_json_def only_keys_def string_field_def envelope_id_def
      envelope_fields_def)

text \<open>The optional fields of an error, as a dictionary.\<close>

lemma optional_fields_lookup:
  "distinct (map fst kvs) \<Longrightarrow>
     map_of (concat (map (\<lambda>(k, v). optional_field k (map_option JStr v)) kvs)) k =
       Option.bind (map_of kvs k) (map_option JStr)"
proof (induction kvs)
  case Nil
  then show ?case by simp
next
  case (Cons kv kvs)
  obtain k' v where kv: "kv = (k', v)" by (cases kv)
  have "map_of kvs k' = None" using Cons.prems kv by (simp add: map_of_eq_None_iff)
  then show ?case using Cons kv by (cases v) (auto simp: map_add_def split: option.split)
qed

lemma optional_fields_keys:
  "only_keys ks (concat (map (\<lambda>(k, v). optional_field k (map_option JStr v)) kvs))"
  if "set (map fst kvs) \<subseteq> set ks"
  using that by (induction kvs) (auto simp: only_keys_def optional_field_def split: option.splits)

lemma parse_safe_error_json:
  assumes "valid_safe_error e"
  shows "parse_safe_error (safe_error_json e) = Some e"
proof -
  define fs where "fs = [(''hint'', se_hint e), (''commandId'', se_commandId e), (''projectId'', se_projectId e),
    (''worktreeId'', se_worktreeId e), (''sessionId'', se_sessionId e), (''provider'', se_provider e),
    (''traceId'', se_traceId e), (''diagnosticId'', se_diagnosticId e)]"
  define opt where "opt = concat (map (\<lambda>(k, v). optional_field k (map_option JStr v)) fs)"
  define kvs where "kvs = [(''tag'', JStr (se_tag e)), (''code'', JStr (se_code e)), (''message'', JStr (se_message e))] @ opt"
  have json: "safe_error_json e = JObj kvs"
    by (simp only: safe_error_json_def kvs_def opt_def fs_def)
  have lookup: "map_of opt k = Option.bind (map_of fs k) (map_option JStr)" for k
    unfolding opt_def by (rule optional_fields_lookup) (simp add: fs_def)
  have "only_keys [''tag'', ''code'', ''message'', ''hint'', ''commandId'', ''projectId'', ''worktreeId'',
      ''sessionId'', ''provider'', ''traceId'', ''diagnosticId''] opt"
    unfolding opt_def by (rule optional_fields_keys) (simp add: fs_def)
  then have keys: "only_keys [''tag'', ''code'', ''message'', ''hint'', ''commandId'', ''projectId'', ''worktreeId'',
      ''sessionId'', ''provider'', ''traceId'', ''diagnosticId''] kvs"
    by (simp add: only_keys_def kvs_def)
  have base: "string_field ''tag'' kvs = Some (se_tag e)" "string_field ''code'' kvs = Some (se_code e)"
    "string_field ''message'' kvs = Some (se_message e)"
    by (simp_all add: string_field_def kvs_def)
  have fields: "string_field k kvs = Option.bind (map_of fs k) id \<and> optional_string_ok k kvs"
    if "k \<notin> {''tag'', ''code'', ''message''}" for k
  proof -
    have "map_of kvs k = map_of opt k" using that by (auto simp: kvs_def)
    then show ?thesis
      unfolding string_field_def optional_string_ok_def lookup
      by (cases "Option.bind (map_of fs k) id") (auto split: bind_splits option.splits)
  qed
  have opts: "string_field ''hint'' kvs = se_hint e" "string_field ''commandId'' kvs = se_commandId e"
    "string_field ''projectId'' kvs = se_projectId e" "string_field ''worktreeId'' kvs = se_worktreeId e"
    "string_field ''sessionId'' kvs = se_sessionId e" "string_field ''provider'' kvs = se_provider e"
    "string_field ''traceId'' kvs = se_traceId e" "string_field ''diagnosticId'' kvs = se_diagnosticId e"
    by (simp_all add: fields fs_def)
  have "list_all (\<lambda>k. optional_string_ok k kvs) [''hint'', ''commandId'', ''projectId'', ''worktreeId'',
      ''sessionId'', ''provider'', ''traceId'', ''diagnosticId'']"
    by (simp add: fields)
  moreover have valid: "valid_safe_error \<lparr>se_tag = se_tag e, se_code = se_code e, se_message = se_message e,
      se_hint = se_hint e, se_commandId = se_commandId e, se_projectId = se_projectId e,
      se_worktreeId = se_worktreeId e, se_sessionId = se_sessionId e, se_provider = se_provider e,
      se_traceId = se_traceId e, se_diagnosticId = se_diagnosticId e\<rparr>"
    using assms by (simp add: valid_safe_error_def)
  ultimately show ?thesis
    using keys
    unfolding json parse_safe_error_def json.case opts base by (simp add: Let_def)
qed

lemma parse_response_json:
  "response_id r \<noteq> [] \<Longrightarrow> (\<And>i e. r = ErrorResponse i e \<Longrightarrow> valid_safe_error e) \<Longrightarrow>
     parse_response (response_json r) = Some r"
proof (cases r)
  case (SuccessResponse i v)
  moreover assume "response_id r \<noteq> []"
  ultimately show ?thesis
    by (cases v) (simp_all add: parse_response_def only_keys_def envelope_id_def envelope_fields_def string_field_def)
next
  case (ErrorResponse i e)
  moreover assume "response_id r \<noteq> []" "\<And>i e. r = ErrorResponse i e \<Longrightarrow> valid_safe_error e"
  ultimately show ?thesis
    by (simp add: parse_response_def only_keys_def envelope_id_def envelope_fields_def string_field_def
        parse_safe_error_json)
qed

lemma request_json_ok: "opt_ok json_ok (rq_params r) \<Longrightarrow> json_ok (request_json r)"
  by (cases "rq_params r") (simp_all add: request_json_def envelope_fields_def)

lemma optional_fields_fst:
  "fst ` set (concat (map (\<lambda>(k, v). optional_field k (map_option JStr v)) kvs)) \<subseteq> fst ` set kvs"
  by (force simp: optional_field_def split: option.splits)

lemma optional_fields_ok:
  "list_all (\<lambda>(k, v). json_ok v) (concat (map (\<lambda>(k, v). optional_field k (map_option JStr v)) kvs))"
  by (induction kvs) (auto simp: optional_field_def split: option.splits)

lemma optional_fields_distinct:
  "distinct (map fst kvs) \<Longrightarrow>
     distinct (map fst (concat (map (\<lambda>(k, v). optional_field k (map_option JStr v)) kvs)))"
proof (induction kvs)
  case Nil
  then show ?case by simp
next
  case (Cons kv kvs)
  obtain k v where kv: "kv = (k, v)" by (cases kv)
  then have "k \<notin> fst ` set (concat (map (\<lambda>(k, v). optional_field k (map_option JStr v)) kvs))"
    using Cons.prems by (intro notI) (drule subsetD [OF optional_fields_fst], simp)
  then show ?case using Cons kv by (cases v) simp_all
qed

lemma safe_error_json_ok: "json_ok (safe_error_json e)"
proof -
  define fs where "fs = [(''hint'', se_hint e), (''commandId'', se_commandId e), (''projectId'', se_projectId e),
    (''worktreeId'', se_worktreeId e), (''sessionId'', se_sessionId e), (''provider'', se_provider e),
    (''traceId'', se_traceId e), (''diagnosticId'', se_diagnosticId e)]"
  define opt where "opt = concat (map (\<lambda>(k, v). optional_field k (map_option JStr v)) fs)"
  have json: "safe_error_json e =
      JObj ([(''tag'', JStr (se_tag e)), (''code'', JStr (se_code e)), (''message'', JStr (se_message e))] @ opt)"
    by (simp only: safe_error_json_def opt_def fs_def)
  have "distinct (map fst opt)" unfolding opt_def by (rule optional_fields_distinct) (simp add: fs_def)
  moreover have "fst ` set opt \<subseteq> fst ` set fs" unfolding opt_def by (rule optional_fields_fst)
  then have "''tag'' \<notin> fst ` set opt" "''code'' \<notin> fst ` set opt" "''message'' \<notin> fst ` set opt"
    by (auto simp: fs_def)
  moreover have "list_all (\<lambda>(k, v). json_ok v) opt" unfolding opt_def by (rule optional_fields_ok)
  ultimately show ?thesis unfolding json by simp
qed

lemma response_json_ok:
  "(\<And>i v. r = SuccessResponse i v \<Longrightarrow> opt_ok json_ok v) \<Longrightarrow> json_ok (response_json r)"
proof (cases r)
  case (SuccessResponse i v)
  moreover assume "\<And>i v. r = SuccessResponse i v \<Longrightarrow> opt_ok json_ok v"
  ultimately show ?thesis by (cases v) (simp_all add: envelope_fields_def)
qed (simp_all add: envelope_fields_def safe_error_json_ok)

subsection \<open>Over the wire\<close>

text \<open>
  A wire cuts a text into chunks that arrive between pulls; it loses nothing. What it delivers is
  what was pulled and what is queued in the end.
\<close>

definition lossless :: "(string \<Rightarrow> traffic list) \<Rightarrow> bool" where
  "lossless chop \<longleftrightarrow> (\<forall>s. arrived (chop s) = s)"

definition deliver :: "(string \<Rightarrow> traffic list) \<Rightarrow> json list \<Rightarrow> json list" where
  "deliver chop vs = (case consume (chop (concat (map frame vs))) new_connection of (ys, c) \<Rightarrow> ys @ cn_messages c)"

lemma deliver_all: "lossless chop \<Longrightarrow> list_all json_ok vs \<Longrightarrow> deliver chop vs = vs"
  using frames_survive [of vs "chop (concat (map frame vs))" "[]"]
  by (cases "consume (chop (concat (map frame vs))) new_connection") (simp add: deliver_def lossless_def)

lemma response_over_wire:
  assumes "lossless chop" "response_id r \<noteq> []" "\<And>i e. r = ErrorResponse i e \<Longrightarrow> valid_safe_error e"
    "\<And>i v. r = SuccessResponse i v \<Longrightarrow> opt_ok json_ok v"
  shows "map parse_response (deliver chop [response_json r]) = [Some r]"
  using assms by (simp add: deliver_all response_json_ok parse_response_json)

lemma request_over_wire:
  assumes "lossless chop" "rq_id r \<noteq> []" "opt_ok json_ok (rq_params r)"
  shows "map parse_request (deliver chop [request_json r]) = [Some r]"
  using assms by (simp add: deliver_all request_json_ok parse_request_json)

subsection \<open>The server's answers\<close>

lemma valid_fixed_errors [simp]:
  "valid_safe_error method_failed_error" "valid_safe_error payload_invalid_error"
  "valid_safe_error (protocol_safe_error None None ''Invalid protocol request.'' None)"
  "valid_safe_error (protocol_safe_error None None ''Observer protocol method failed.'' None)"
  "valid_safe_error (protocol_safe_error None None ''Observer protocol response validation failed.'' None)"
  "valid_safe_error (fallback_error handler_timeout)" "valid_safe_error (fallback_error request_failed)"
  "valid_safe_error (fallback_error request_timeout)"
  by code_simp+

lemma valid_safe: "valid_safe_error e \<Longrightarrow> is_safe_error e"
  by (simp add: valid_safe_error_def is_safe_error_def non_empty_def safe_text_def)

lemma error_response_Some:
  "i \<noteq> [] \<Longrightarrow> valid_safe_error (protocol_safe_error None None message None) \<Longrightarrow>
     \<exists>e'. error_response i message e = Some (ErrorResponse i e') \<and> valid_safe_error e'"
  by (auto simp: error_response_def protocol_error_response_def schema_safe_error_def Let_def nullish_def
      split: option.splits bind_splits server_thrown.splits thrown.splits if_splits)

lemma error_response_valid:
  "i \<noteq> [] \<Longrightarrow> valid_safe_error e \<Longrightarrow>
     error_response i message (Some (ThrownValue (ThrownObject e None))) = Some (ErrorResponse i e)"
  by (simp add: error_response_def protocol_error_response_def schema_safe_error_def)

lemma error_response_zod:
  "i \<noteq> [] \<Longrightarrow> valid_safe_error (protocol_safe_error None None message None) \<Longrightarrow>
     error_response i message (Some ThrownZod) = Some (ErrorResponse i (protocol_safe_error None None message None))"
  by (simp add: error_response_def protocol_error_response_def schema_safe_error_def)

lemma valid_from_unknown [simp]: "valid_safe_error (protocol_safe_error_from_unknown t)"
  by (auto simp: protocol_safe_error_from_unknown_def schema_safe_error_def
      split: option.splits server_thrown.splits thrown.splits if_splits)

definition response_valid :: "protocol_response \<Rightarrow> bool" where
  "response_valid r = (case r of SuccessResponse i v \<Rightarrow> True | ErrorResponse i e \<Rightarrow> valid_safe_error e)"

lemma route_request_Some:
  assumes "rq_id r \<noteq> []"
  shows "\<exists>resp. route_request py api r k = Some resp \<and> response_id resp = rq_id r \<and> response_valid resp"
proof (cases "boundary_attempt handler_failed (Some handler_timeout) (route_single_response py api r k)")
  case (Inl e)
  then show ?thesis
    using error_response_Some [OF assms, of "''Observer protocol method failed.''"]
    by (fastforce simp: route_request_def response_valid_def)
next
  case (Inr v)
  show ?thesis
  proof (cases "protocol_success_response py (rq_id r) (rq_method r) v")
    case None
    then show ?thesis
      using Inr error_response_Some [OF assms, of "''Observer protocol response validation failed.''"]
      by (fastforce simp: route_request_def response_valid_def)
  next
    case (Some resp)
    then show ?thesis
      using Inr by (auto simp: route_request_def response_valid_def protocol_success_response_def split: option.splits if_splits)
  qed
qed

lemma request_id_parsed: "parse_request m = Some r \<Longrightarrow> request_id m = rq_id r \<and> rq_id r \<noteq> []"
  by (auto simp: parse_request_def request_id_def envelope_id_def split: json.splits if_splits option.splits)

definition subscribes :: "json \<Rightarrow> bool" where
  "subscribes m = (case parse_request m of Some r \<Rightarrow> rq_method r = MethodSubscribe | None \<Rightarrow> False)"

definition answers :: "json \<Rightarrow> json \<Rightarrow> bool" where
  "answers m j = (\<exists>r. parse_response j = Some r \<and> response_id r = request_id m)"

lemma handle_connection_answers:
  "\<forall>m \<in> set ms. request_id m \<noteq> [] \<and> \<not> subscribes m \<Longrightarrow>
     list_all2 answers ms (handle_connection py api k Serving ms)"
proof (induction ms arbitrary: k)
  case Nil
  then show ?case by simp
next
  case (Cons m ms)
  have tl: "list_all2 answers ms (handle_connection py api (Suc k) Serving ms)"
    using Cons by simp
  show ?case
  proof (cases "parse_request m")
    case None
    obtain e where "error_response (request_id m) ''Invalid protocol request.'' None = Some (ErrorResponse (request_id m) e)"
      "valid_safe_error e"
      using error_response_Some [of "request_id m" "''Invalid protocol request.''" None] Cons.prems by auto
    moreover from this have "answers m (response_json (ErrorResponse (request_id m) e))"
      using Cons.prems parse_response_json [of "ErrorResponse (request_id m) e"] by (simp add: answers_def)
    ultimately show ?thesis using None tl by (simp add: send_frames_def)
  next
    case (Some r)
    have r: "request_id m = rq_id r" "rq_id r \<noteq> []" "rq_method r \<noteq> MethodSubscribe"
      using request_id_parsed [OF Some] Cons.prems Some by (auto simp: subscribes_def)
    obtain resp where resp: "route_request py api r k = Some resp" "response_id resp = rq_id r" "response_valid resp"
      using route_request_Some [OF r(2)] by blast
    then have "answers m (response_json resp)"
      using parse_response_json [of resp] r by (auto simp: answers_def response_valid_def split: protocol_response.splits)
    then show ?thesis using Some r resp tl by (simp add: send_frames_def)
  qed
qed

subsection \<open>Remote is local\<close>

text \<open>Parsing what a schema produced gives it back, and it is a JSON value.\<close>

definition schemas_stable :: "payload_schemas \<Rightarrow> bool" where
  "schemas_stable py \<longleftrightarrow>
     (\<forall>m p p'. py_params py m p = Some p' \<longrightarrow> py_params py m p' = Some p' \<and> opt_ok json_ok p') \<and>
     (\<forall>m v v'. py_result py m v = Some v' \<longrightarrow> py_result py m v' = Some v' \<and> opt_ok json_ok v')"

text \<open>What calling the API gives, checked by the schemas, with errors as safe errors.\<close>

definition local_call :: "payload_schemas \<Rightarrow> observer_api \<Rightarrow> protocol_method \<Rightarrow> json option \<Rightarrow> safe_error + json option" where
  "local_call py api m params =
     (case py_params py m params of
        None \<Rightarrow> Inl (fallback_error request_failed)
      | Some p \<Rightarrow>
          (case oa_call api m (if m = MethodHealth \<or> m = MethodStop then None else p) 0 of
             ApiReturns v \<Rightarrow>
               (case py_result py m (if m = MethodGetCommand \<and> v = None then Some JNull else v) of
                  Some v' \<Rightarrow> Inr v'
                | None \<Rightarrow> Inl (protocol_safe_error None None ''Observer protocol response validation failed.'' None))
           | ApiThrows t \<Rightarrow> Inl (protocol_safe_error_from_unknown t)
           | ApiTimesOut \<Rightarrow> Inl (fallback_error handler_timeout)))"

text \<open>The request travels to a server that handles it, and its frames travel back.\<close>

definition remote_reply ::
  "payload_schemas \<Rightarrow> observer_api \<Rightarrow> (string \<Rightarrow> traffic list) \<Rightarrow> (string \<Rightarrow> traffic list) \<Rightarrow> bool \<Rightarrow>
     json \<Rightarrow> json list \<times> bool" where
  "remote_reply py api up down closed request =
     (deliver down (handle_connection py api 0 Serving (deliver up [request])), closed)"

lemma boundary_error [simp]:
  "is_safe_error e \<Longrightarrow> boundary_attempt f t (AttemptThrows (ThrownObject e None)) = Inl e"
  by (simp add: boundary_attempt_def runtime_boundary_effect_def safe_error_from_unknown_def thrown_safe_error_def)

lemma boundary_returns [simp]: "boundary_attempt f t (AttemptReturns x) = Inr x"
  by (simp add: boundary_attempt_def runtime_boundary_effect_def)

lemma boundary_times_out:
  "safe_fallback f \<Longrightarrow> boundary_attempt g (Some f) AttemptTimesOut = Inl (fallback_error f)"
  by (simp add: boundary_attempt_def safe_error_from_unknown_def fallback_thrown_def thrown_safe_error_def
      fallback_error_safe)

definition local_outcome :: "protocol_request \<Rightarrow> safe_error + json option \<Rightarrow> protocol_response" where
  "local_outcome r x = (case x of Inl e \<Rightarrow> ErrorResponse (rq_id r) e | Inr v \<Rightarrow> SuccessResponse (rq_id r) v)"

lemma route_request_local:
  assumes "rq_id r \<noteq> []" "py_params py (rq_method r) (rq_params r) = Some (rq_params r)"
  shows "route_request py api r 0 = Some (local_outcome r (local_call py api (rq_method r) (rq_params r)))"
proof -
  have timeout: "safe_fallback handler_timeout" by code_simp
  show ?thesis
    using assms
    by (auto simp: route_request_def route_single_response_def local_call_def local_outcome_def Let_def
        boundary_times_out [OF timeout] error_response_valid error_response_zod protocol_success_response_def valid_safe
        split: option.splits api_answer.splits)
qed

lemma local_call_valid: "local_call py api m params = Inl e \<Longrightarrow> valid_safe_error e"
  by (auto simp: local_call_def split: option.splits api_answer.splits if_splits)

lemma local_call_stable:
  "schemas_stable py \<Longrightarrow> local_call py api m params = Inr v \<Longrightarrow> py_result py m v = Some v \<and> opt_ok json_ok v"
  by (auto simp: local_call_def schemas_stable_def split: option.splits api_answer.splits if_splits)

lemma local_call_params:
  "schemas_stable py \<Longrightarrow> py_params py m params = Some p \<Longrightarrow> local_call py api m p = local_call py api m params"
  by (auto simp: local_call_def schemas_stable_def)

lemma remote_call:
  assumes stable: "schemas_stable py" and i: "i \<noteq> []" and m: "m \<noteq> MethodSubscribe"
    and up: "lossless up" and down: "lossless down"
  shows "request_protocol_method py i m params (remote_reply py api up down closed) = local_call py api m params"
proof (cases "py_params py m params")
  case None
  then show ?thesis
    by (simp add: request_protocol_method_def build_request_def local_call_def boundary_attempt_def
        runtime_boundary_effect_def safe_error_from_unknown_def thrown_safe_error_def zod_error_def
        safe_error_cause_def)
next
  case (Some p)
  define r where "r = \<lparr>rq_id = i, rq_method = m, rq_params = p\<rparr>"
  define x where "x = local_call py api m params"
  have p: "py_params py m p = Some p" "opt_ok json_ok p"
    using stable Some by (auto simp: schemas_stable_def)
  have sent: "deliver up [request_json r] = [request_json r]"
    using p(2) up by (simp add: deliver_all request_json_ok r_def)
  have parsed: "parse_request (request_json r) = Some r"
    by (rule parse_request_json) (simp add: r_def i)
  have routed: "route_request py api r 0 = Some (local_outcome r x)"
    using route_request_local [of r py api] i p(1) local_call_params [OF stable Some]
    by (simp add: r_def x_def)
  have "handle_connection py api 0 Serving [request_json r] = [response_json (local_outcome r x)]"
    by (simp add: parsed routed send_frames_def) (simp add: r_def m)
  moreover have "response_id (local_outcome r x) = i" by (simp add: local_outcome_def r_def split: sum.split)
  moreover have "json_ok (response_json (local_outcome r x))"
    by (rule response_json_ok)
      (use local_call_stable [OF stable, of api m params] in \<open>auto simp: local_outcome_def x_def split: sum.splits\<close>)
  then have "deliver down [response_json (local_outcome r x)] = [response_json (local_outcome r x)]"
    using down by (simp add: deliver_all del: response_json.simps)
  moreover have "parse_response (response_json (local_outcome r x)) = Some (local_outcome r x)"
    using local_call_valid [of py api m params] i
    by (intro parse_response_json) (auto simp: local_outcome_def x_def r_def split: sum.splits)
  ultimately show ?thesis
    using Some i local_call_valid [of py api m params] local_call_stable [OF stable, of api m params]
    by (auto simp: request_protocol_method_def build_request_def remote_reply_def sent
        parse_response_message_def parse_response_result_def valid_safe local_outcome_def
        simp flip: r_def x_def split: sum.split)
qed

subsection \<open>The properties\<close>

text \<open>What a peer sends: identifiers are not empty, payloads are JSON values, errors are valid.\<close>

definition sendable_request :: "protocol_request \<Rightarrow> bool" where
  "sendable_request r = (rq_id r \<noteq> [] \<and> opt_ok json_ok (rq_params r))"

definition sendable_response :: "protocol_response \<Rightarrow> bool" where
  "sendable_response s =
     (response_id s \<noteq> [] \<and>
      (case s of SuccessResponse i v \<Rightarrow> opt_ok json_ok v | ErrorResponse i e \<Rightarrow> valid_safe_error e))"

text \<open>C18: Requests and responses survive the wire: printed as JSON, cut into any chunks, read by the
  peer and parsed by its schemas, a message comes out once and as it was, identifier, method,
  payload and every field of an error included.\<close>

theorem protocol_messages_round_trip:
  assumes "lossless chop" and "sendable_request r" and "sendable_response s"
  shows "map parse_request (deliver chop [request_json r]) = [Some r] \<and>
    map parse_response (deliver chop [response_json s]) = [Some s]"
  using request_over_wire [of chop r] response_over_wire [of chop s] assms
  by (auto simp: sendable_request_def sendable_response_def split: protocol_response.splits)

text \<open>The server answers every message of a connection that is not a subscription, malformed ones
  and those its API fails on or does not answer in time included, with exactly one response, in the
  order of the messages; a response carries the message's identifier.\<close>

lemma server_answers_every_request:
  assumes "\<forall>m \<in> set ms. request_id m \<noteq> [] \<and> \<not> subscribes m"
  shows "list_all2 answers ms (handle_connection py api k Serving ms)"
  using assms by (rule handle_connection_answers)


subsection \<open>Instances\<close>

definition sample_schemas :: payload_schemas where
  "sample_schemas =
     \<lparr>py_params = (\<lambda>m p. if opt_ok json_ok p then Some p else None),
      py_result = (\<lambda>m v. if opt_ok json_ok v \<and> v \<noteq> None then Some v else None),
      py_event = (\<lambda>ev. if json_ok ev then Some ev else None)\<rparr>"

definition sample_api :: observer_api where
  "sample_api =
     \<lparr>oa_call = (\<lambda>m p k. if m = MethodStop then ApiThrows ThrownZod else ApiReturns p),
      oa_subscribe = (\<lambda>p k. StreamEnds [])\<rparr>"

definition by_character :: "string \<Rightarrow> traffic list" where
  "by_character s = concat (map (\<lambda>c. [Arrives [c], Takes]) s)"

lemma by_character_lossless: "lossless by_character"
proof -
  have "arrived (by_character s) = s" for s
    by (induction s) (simp_all add: by_character_def)
  then show ?thesis by (simp add: lossless_def)
qed

lemma sample_schemas_stable: "schemas_stable sample_schemas"
  by (auto simp: schemas_stable_def sample_schemas_def split: if_splits)

theorem protocol_messages_round_trip_witness:
  "map parse_request (deliver by_character [request_json \<lparr>rq_id = ''r1'', rq_method = MethodReconcile,
      rq_params = Some (JObj [(''reason'', JStr ''manual'')])\<rparr>]) =
     [Some \<lparr>rq_id = ''r1'', rq_method = MethodReconcile, rq_params = Some (JObj [(''reason'', JStr ''manual'')])\<rparr>] \<and>
   map parse_response (deliver by_character [response_json (ErrorResponse ''r1'' method_failed_error)]) =
     [Some (ErrorResponse ''r1'' method_failed_error)]"
  by (rule protocol_messages_round_trip [OF by_character_lossless])
    (simp_all add: sendable_request_def sendable_response_def)


end
