(* ===== verification/ClientRuntime.thy ===== *)
theory ClientRuntime
  imports SnapshotReducer Boundary Transitions
begin

section \<open>The client runtime (packages/client/src/observerRuntime.ts, connectionState.ts)\<close>

text \<open>
  A client keeps a copy of the observer's snapshot: it subscribes to the events, applies them, and
  loads the whole snapshot after every gap and whenever an event does not carry enough. Its
  functions are split at their awaits: the subscription loop waits for the next event or for its
  back-off, the refresh chain for a snapshot, a reconcile for its answer. What arrives and when is
  open; the clock is the argument \<open>now\<close>. The hooks of the application are recorded, not called,
  and do not throw; the lengths of the back-off are not part of the model.
\<close>

subsection \<open>Connection states\<close>

datatype connection_state =
  ConnIdle | ConnLoading int | ConnConnected int | ConnReconnecting int safe_error
| ConnDisplayOnly int safe_error | ConnHalted int safe_error

definition is_connected :: "connection_state \<Rightarrow> bool" where
  "is_connected c = (case c of ConnConnected since \<Rightarrow> True | _ \<Rightarrow> False)"

definition connected_connection_state :: "connection_state \<Rightarrow> int \<Rightarrow> connection_state" where
  "connected_connection_state previous now = (if is_connected previous then previous else ConnConnected now)"

definition failure_connection_state :: "connection_state \<Rightarrow> safe_error \<Rightarrow> bool \<Rightarrow> int \<Rightarrow> connection_state" where
  "failure_connection_state previous e hasSnapshot now =
     (if hasSnapshot
      then ConnDisplayOnly (case previous of ConnDisplayOnly since _ \<Rightarrow> since | _ \<Rightarrow> now) e
      else ConnReconnecting (case previous of ConnReconnecting since _ \<Rightarrow> since | _ \<Rightarrow> now) e)"

definition halted_connection_state :: "safe_error \<Rightarrow> int \<Rightarrow> connection_state" where
  "halted_connection_state e now = ConnHalted now e"

text \<open>\<^verbatim>\<open>toSafeError\<close> of the client, with the label of the client.\<close>

definition client_subject :: "string option \<Rightarrow> string" where
  "client_subject label =
     (case label of None \<Rightarrow> ''The client'' | Some l \<Rightarrow> if length l = 0 then ''The client'' else ''The '' @ l)"

definition client_safe_error :: "string option \<Rightarrow> thrown \<Rightarrow> safe_error" where
  "client_safe_error label v =
     (case thrown_safe_error v of
        Some e \<Rightarrow> e
      | None \<Rightarrow> (case safe_error_cause v of
          Some e \<Rightarrow> e
        | None \<Rightarrow> basic_error ''ClientObserverError'' ''CLIENT_OBSERVER_OPERATION_FAILED''
            (client_subject label @ '' could not complete the observer operation.'')))"

subsection \<open>State\<close>

record client_view =
  vw_snapshot :: "snapshot option"
  vw_connection :: connection_state
  vw_inFlightRefresh :: bool

datatype refresh_source = RefreshManaged | RefreshCaller

datatype flight_outcome =
  FlightLoaded snapshot | FlightConnectFailure safe_error | FlightFailure safe_error bool

text \<open>
  A request for a refresh; a resync waits for it when it was made for an epoch. Its number, and how
  many flights had started when it was made, are only recorded.
\<close>

record refresh_request =
  rr_source :: refresh_source
  rr_resync :: "nat option"
  rr_serial :: nat
  rr_askedAt :: nat

record refresh_flight =
  rf_requests :: "refresh_request list"
  rf_source :: refresh_source
  rf_mutationsAtStart :: nat
  rf_epochAtStart :: "nat option"
  rf_number :: nat

datatype cycle_ending = CycleClean | CycleFailure | CycleHalted

datatype loop_phase =
  LoopUnstarted | LoopReady | LoopConsuming nat | LoopEnded cycle_ending | LoopSleeping | LoopFinished

datatype refresh_outcome = RefreshLoaded snapshot | RefreshConnectFailure safe_error | RefreshFailure safe_error

datatype client_hook =
  HookEvent wosm_event "apply_result option"
| HookSubscriptionError safe_error bool bool bool
| HookRefreshSettled refresh_outcome

text \<open>How the last load of a snapshot ended, and whether an event was applied while it was in the air.\<close>

datatype last_load = NoLoad | FlightLoadedLast bool | FlightFailedLast | ReconciledLast bool

text \<open>What made the connection connected: the start with a trusted snapshot, or a load.\<close>

datatype connected_by = ConnectedByStart | ConnectedByLoad bool

text \<open>
  The variables of the runtime, then what is only recorded: the hooks fired, the numbers of requests
  and flights, the requests served, whether the cycle a load in the air started under has
  gone on since (for the flight and for every reconcile), what connected the client, the last
  snapshot loaded with the events applied since, the last load, and the number of the subscription the
  observer acknowledged last: the iterator of the events connects when its first event is asked for,
  and no event arrives before the acknowledgement.
\<close>

record client =
  cl_view :: client_view
  cl_active :: bool
  cl_started :: bool
  cl_stopRequested :: bool
  cl_halted :: bool
  cl_iterator :: "nat option"
  cl_reportedError :: bool
  cl_resynced :: bool
  cl_subscriptionEpoch :: nat
  cl_activeEpoch :: "nat option"
  cl_cycleFault :: bool
  cl_flight :: "refresh_flight option"
  cl_pending :: "refresh_request list"
  cl_mutations :: nat
  cl_loop :: loop_phase
  cl_resumed :: "(nat \<times> flight_outcome) list"
  cl_reconciles :: "(nat option \<times> nat \<times> bool) list"
  cl_hooks :: "client_hook list"
  cl_serials :: nat
  cl_flights :: nat
  cl_served :: "(refresh_request \<times> nat \<times> flight_outcome) list"
  cl_flightLive :: bool
  cl_connects :: "connected_by list"
  cl_base :: "snapshot option"
  cl_since :: "wosm_event list"
  cl_lastLoad :: last_load
  cl_acknowledged :: "nat option"

definition initial_client :: "snapshot option \<Rightarrow> client" where
  "initial_client initialSnapshot =
     \<lparr>cl_view = \<lparr>vw_snapshot = initialSnapshot, vw_connection = ConnIdle, vw_inFlightRefresh = False\<rparr>,
      cl_active = False, cl_started = False, cl_stopRequested = False, cl_halted = False,
      cl_iterator = None, cl_reportedError = False, cl_resynced = (initialSnapshot \<noteq> None),
      cl_subscriptionEpoch = 0, cl_activeEpoch = None, cl_cycleFault = False, cl_flight = None,
      cl_pending = [], cl_mutations = 0, cl_loop = LoopUnstarted, cl_resumed = [], cl_reconciles = [],
      cl_hooks = [], cl_serials = 0, cl_flights = 0, cl_served = [], cl_flightLive = False,
      cl_connects = [], cl_base = initialSnapshot, cl_since = [], cl_lastLoad = NoLoad,
      cl_acknowledged = None\<rparr>"

definition fire_hook :: "client_hook \<Rightarrow> client \<Rightarrow> client" where
  "fire_hook h s = s\<lparr>cl_hooks := cl_hooks s @ [h]\<rparr>"

text \<open>After \<^verbatim>\<open>stop()\<close> was called the view is frozen.\<close>

definition swap_state :: "client_view \<Rightarrow> client \<Rightarrow> client" where
  "swap_state v s = (if cl_stopRequested s then s else s\<lparr>cl_view := v\<rparr>)"

definition apply_connection_failure :: "safe_error \<Rightarrow> int \<Rightarrow> client \<Rightarrow> client" where
  "apply_connection_failure e now s =
     swap_state ((cl_view s)\<lparr>vw_connection := failure_connection_state (vw_connection (cl_view s)) e
       (vw_snapshot (cl_view s) \<noteq> None) now\<rparr>) s"

definition apply_loaded_snapshot :: "snapshot \<Rightarrow> int \<Rightarrow> client \<Rightarrow> client" where
  "apply_loaded_snapshot snapshot now s =
     swap_state ((cl_view s)\<lparr>vw_snapshot := Some snapshot,
       vw_connection := connected_connection_state (vw_connection (cl_view s)) now\<rparr>) s"

definition halt_runtime :: "safe_error \<Rightarrow> int \<Rightarrow> client \<Rightarrow> client" where
  "halt_runtime e now s =
     (if cl_halted s then s
      else (let s = s\<lparr>cl_halted := True\<rparr>
            in swap_state ((cl_view s)\<lparr>vw_connection := halted_connection_state e now\<rparr>) s))"

text \<open>
  A loaded snapshot connects the client only when the subscription it was requested under is the
  one that is live. \<open>live\<close> is recorded: whether that cycle went on all the time.
\<close>

definition apply_loaded_outcome :: "snapshot \<Rightarrow> nat option \<Rightarrow> bool \<Rightarrow> int \<Rightarrow> client \<Rightarrow> client" where
  "apply_loaded_outcome snapshot epochAtStart live now s =
     (let subscribedThroughout = (\<not> cl_halted s \<and> epochAtStart \<noteq> None \<and> epochAtStart = cl_activeEpoch s);
          s = (if subscribedThroughout then s\<lparr>cl_resynced := True\<rparr> else s);
          s = s\<lparr>cl_base := Some snapshot, cl_since := []\<rparr>
      in if subscribedThroughout \<or> is_connected (vw_connection (cl_view s))
         then apply_loaded_snapshot snapshot now
           (if is_connected (vw_connection (cl_view s)) then s
            else s\<lparr>cl_connects := cl_connects s @ [ConnectedByLoad live]\<rparr>)
         else swap_state ((cl_view s)\<lparr>vw_snapshot := Some snapshot\<rparr>) s)"

definition set_in_flight_refresh :: "bool \<Rightarrow> client \<Rightarrow> client" where
  "set_in_flight_refresh v s =
     (if vw_inFlightRefresh (cl_view s) \<noteq> v then swap_state ((cl_view s)\<lparr>vw_inFlightRefresh := v\<rparr>) s else s)"

subsection \<open>The refresh chain\<close>

text \<open>The chain takes every request that waits and asks for a snapshot.\<close>

definition begin_flight :: "client \<Rightarrow> client" where
  "begin_flight s =
     s\<lparr>cl_flight := Some
         \<lparr>rf_requests = cl_pending s,
          rf_source = (if list_ex (\<lambda>r. rr_source r = RefreshManaged) (cl_pending s)
            then RefreshManaged else RefreshCaller),
          rf_mutationsAtStart = cl_mutations s, rf_epochAtStart = cl_activeEpoch s,
          rf_number = cl_flights s\<rparr>,
       cl_pending := [], cl_flights := cl_flights s + 1, cl_flightLive := cl_activeEpoch s \<noteq> None\<rparr>"

definition push_request :: "refresh_source \<Rightarrow> nat option \<Rightarrow> client \<Rightarrow> client" where
  "push_request source resync s =
     s\<lparr>cl_pending := cl_pending s @ [\<lparr>rr_source = source, rr_resync = resync, rr_serial = cl_serials s,
         rr_askedAt = cl_flights s\<rparr>],
       cl_serials := cl_serials s + 1\<rparr>"

definition request_refresh :: "refresh_source \<Rightarrow> nat option \<Rightarrow> client \<Rightarrow> client" where
  "request_refresh source resync s =
     (let s = push_request source resync s
      in if cl_flight s = None then begin_flight (set_in_flight_refresh True s) else s)"

definition load_flight_outcome :: "string option \<Rightarrow> thrown + snapshot \<Rightarrow> flight_outcome" where
  "load_flight_outcome label answer =
     (case answer of
        Inr snapshot \<Rightarrow> FlightLoaded snapshot
      | Inl raw \<Rightarrow>
          (let e = client_safe_error label raw
           in if is_observer_connect_error e then FlightConnectFailure e
              else FlightFailure e (is_permanent_observer_error e)))"

definition apply_flight_outcome :: "flight_outcome \<Rightarrow> refresh_source \<Rightarrow> nat option \<Rightarrow> int \<Rightarrow> client \<Rightarrow> client" where
  "apply_flight_outcome outcome source epochAtStart now s =
     (case outcome of
        FlightLoaded snapshot \<Rightarrow>
          (let s = apply_loaded_outcome snapshot epochAtStart (cl_flightLive s) now s
           in if source = RefreshManaged then fire_hook (HookRefreshSettled (RefreshLoaded snapshot)) s else s)
      | FlightFailure e permanent \<Rightarrow>
          if permanent
          then (let s = halt_runtime e now s
                in if source = RefreshManaged then fire_hook (HookRefreshSettled (RefreshFailure e)) s else s)
          else if source = RefreshCaller then s
          else fire_hook (HookRefreshSettled (RefreshFailure e)) s
      | FlightConnectFailure e \<Rightarrow>
          if source = RefreshCaller then s
          else fire_hook (HookRefreshSettled (RefreshConnectFailure e)) (apply_connection_failure e now s))"

definition flight_loaded :: "flight_outcome \<Rightarrow> bool" where
  "flight_loaded outcome = (case outcome of FlightLoaded _ \<Rightarrow> True | _ \<Rightarrow> False)"

text \<open>The resyncs that wait for requests of a flight go on with its outcome.\<close>

definition resyncs_of :: "refresh_request list \<Rightarrow> flight_outcome \<Rightarrow> (nat \<times> flight_outcome) list" where
  "resyncs_of requests outcome = map (\<lambda>epoch. (epoch, outcome)) (List.map_filter rr_resync requests)"

definition flight_returns :: "string option \<Rightarrow> thrown + snapshot \<Rightarrow> int \<Rightarrow> refresh_flight \<Rightarrow> client \<Rightarrow> client" where
  "flight_returns label answer now flight s =
     (let outcome = load_flight_outcome label answer;
          s = (if cl_stopRequested s then s
               else apply_flight_outcome outcome (rf_source flight) (rf_epochAtStart flight) now s);
          s = s\<lparr>cl_served := cl_served s @ map (\<lambda>r. (r, rf_number flight, outcome)) (rf_requests flight),
                cl_resumed := cl_resumed s @ resyncs_of (rf_requests flight) outcome\<rparr>;
          mutated = (cl_mutations s \<noteq> rf_mutationsAtStart flight);
          s = s\<lparr>cl_lastLoad := (if flight_loaded outcome then FlightLoadedLast mutated else FlightFailedLast)\<rparr>;
          s = (if \<not> cl_stopRequested s \<and> \<not> cl_halted s \<and> flight_loaded outcome \<and> mutated \<and>
                 length (cl_pending s) = 0
               then push_request RefreshManaged None s else s)
      in if length (cl_pending s) > 0 then begin_flight s
         else set_in_flight_refresh False (s\<lparr>cl_flight := None, cl_flightLive := False\<rparr>))"

subsection \<open>The subscription\<close>

definition apply_event :: "wosm_event \<Rightarrow> client \<Rightarrow> client" where
  "apply_event ev s =
     (let s = s\<lparr>cl_reportedError := False\<rparr>
      in case vw_snapshot (cl_view s) of
           None \<Rightarrow> fire_hook (HookEvent ev None) s
         | Some snapshot \<Rightarrow>
             (let application = apply_wosm_event snapshot ev;
                  s = s\<lparr>cl_mutations := cl_mutations s + 1, cl_since := cl_since s @ [ev]\<rparr>;
                  s = swap_state ((cl_view s)\<lparr>vw_snapshot := Some (ar_snapshot application)\<rparr>) s;
                  s = fire_hook (HookEvent ev (Some application)) s
              in if ar_needsSnapshotRefresh application then request_refresh RefreshManaged None s else s))"

definition handle_subscription_failure :: "string option \<Rightarrow> thrown \<Rightarrow> int \<Rightarrow> client \<Rightarrow> cycle_ending \<times> client" where
  "handle_subscription_failure label v now s =
     (let e = client_safe_error label v;
          permanent = is_permanent_observer_error e;
          s = (if permanent then halt_runtime e now s else s);
          s = (if is_observer_connect_error e
               then fire_hook (HookSubscriptionError e True False (\<not> permanent))
                 ((if permanent then s else apply_connection_failure e now s)\<lparr>cl_reportedError := False\<rparr>)
               else fire_hook (HookSubscriptionError e False (cl_reportedError s) (\<not> permanent))
                 (s\<lparr>cl_reportedError := True\<rparr>))
      in (if permanent then CycleHalted else CycleFailure, s))"

text \<open>
  A cycle begins with the subscription; unless the client is in sync, a resync is requested under it.
\<close>

definition enter_cycle :: "client \<Rightarrow> client" where
  "enter_cycle s =
     (let epoch = cl_subscriptionEpoch s + 1
      in s\<lparr>cl_subscriptionEpoch := epoch, cl_activeEpoch := Some epoch, cl_cycleFault := False\<rparr>)"

definition begin_cycle :: "client \<Rightarrow> client" where
  "begin_cycle s =
     (let s = enter_cycle s; epoch = cl_subscriptionEpoch s; s = s\<lparr>cl_iterator := Some epoch\<rparr>;
          s = (if cl_resynced s then s else request_refresh RefreshManaged (Some epoch) s)
      in s\<lparr>cl_loop := LoopConsuming epoch\<rparr>)"

text \<open>The \<^verbatim>\<open>finally\<close> of a cycle. A load in the air has no longer been subscribed throughout.\<close>

definition end_cycle :: "cycle_ending \<Rightarrow> client \<Rightarrow> client" where
  "end_cycle ending s =
     s\<lparr>cl_activeEpoch := None, cl_iterator := None, cl_loop := LoopEnded ending, cl_flightLive := False,
       cl_reconciles := map (\<lambda>(epoch, mutations, live). (epoch, mutations, False)) (cl_reconciles s)\<rparr>"

definition cycle_throws :: "string option \<Rightarrow> thrown \<Rightarrow> int \<Rightarrow> client \<Rightarrow> client" where
  "cycle_throws label v now s =
     (if \<not> cl_active s then end_cycle CycleFailure s
      else (case handle_subscription_failure label v now s of (ending, s) \<Rightarrow> end_cycle ending s))"

definition cycle_returns :: "client \<Rightarrow> client" where
  "cycle_returns s =
     end_cycle (if cl_halted s then CycleHalted else if cl_cycleFault s then CycleFailure else CycleClean) s"

text \<open>The next event, or the end of the events.\<close>

definition consume_next :: "wosm_event option \<Rightarrow> client \<Rightarrow> client" where
  "consume_next ev s =
     (if \<not> cl_active s then cycle_returns s
      else (case ev of None \<Rightarrow> cycle_returns s | Some e \<Rightarrow> apply_event e s))"

definition resync_returns :: "nat \<Rightarrow> flight_outcome \<Rightarrow> client \<Rightarrow> client" where
  "resync_returns epoch outcome s =
     (if \<not> cl_active s \<or> cl_halted s \<or> cl_activeEpoch s \<noteq> Some epoch \<or> flight_loaded outcome then s
      else s\<lparr>cl_cycleFault := True\<rparr>)"

text \<open>The loop before a cycle, and between a cycle and the back-off.\<close>

definition loop_turn :: "client \<Rightarrow> client" where
  "loop_turn s = (if cl_active s \<and> \<not> cl_halted s then begin_cycle s else s\<lparr>cl_loop := LoopFinished\<rparr>)"

definition loop_turn_throws :: "string option \<Rightarrow> thrown \<Rightarrow> int \<Rightarrow> client \<Rightarrow> client" where
  "loop_turn_throws label v now s =
     (if cl_active s \<and> \<not> cl_halted s then cycle_throws label v now (enter_cycle s) else s\<lparr>cl_loop := LoopFinished\<rparr>)"

definition loop_after_cycle :: "cycle_ending \<Rightarrow> client \<Rightarrow> client" where
  "loop_after_cycle ending s =
     (if \<not> cl_active s \<or> cl_halted s \<or> ending = CycleHalted then s\<lparr>cl_loop := LoopFinished\<rparr>
      else s\<lparr>cl_resynced := False, cl_loop := LoopSleeping\<rparr>)"

subsection \<open>The methods\<close>

definition start_client :: "int \<Rightarrow> client \<Rightarrow> client" where
  "start_client now s =
     (if cl_started s \<or> cl_stopRequested s then s
      else (let s = s\<lparr>cl_started := True, cl_active := True\<rparr>;
                s = (if vw_snapshot (cl_view s) = None
                     then swap_state ((cl_view s)\<lparr>vw_connection := ConnLoading now\<rparr>) s
                     else swap_state ((cl_view s)\<lparr>vw_connection :=
                       connected_connection_state (vw_connection (cl_view s)) now\<rparr>)
                       (if is_connected (vw_connection (cl_view s)) then s
                        else s\<lparr>cl_connects := cl_connects s @ [ConnectedByStart]\<rparr>))
            in s\<lparr>cl_loop := LoopReady\<rparr>))"

definition stop_client :: "client \<Rightarrow> client" where
  "stop_client s =
     (if cl_stopRequested s then s
      else s\<lparr>cl_stopRequested := True, cl_active := False, cl_iterator := None\<rparr>)"

definition reconcile_begins :: "client \<Rightarrow> client" where
  "reconcile_begins s =
     s\<lparr>cl_reconciles := cl_reconciles s @ [(cl_activeEpoch s, cl_mutations s, cl_activeEpoch s \<noteq> None)]\<rparr>"

text \<open>The answer to the \<open>i\<close>-th reconcile in the air; a thrown value goes to the caller.\<close>

definition reconcile_returns :: "nat \<Rightarrow> snapshot option \<Rightarrow> int \<Rightarrow> client \<Rightarrow> client" where
  "reconcile_returns i loaded now s =
     (case cl_reconciles s ! i of
        (epochAtStart, mutations, live) \<Rightarrow>
          (let s = s\<lparr>cl_reconciles := take i (cl_reconciles s) @ drop (Suc i) (cl_reconciles s)\<rparr>
           in case loaded of
                None \<Rightarrow> s
              | Some snapshot \<Rightarrow>
                  if cl_stopRequested s then s
                  else (let raced = (cl_mutations s \<noteq> mutations);
                            s = s\<lparr>cl_mutations := cl_mutations s + 1, cl_lastLoad := ReconciledLast raced\<rparr>
                        in fire_hook (HookRefreshSettled (RefreshLoaded snapshot))
                             (apply_loaded_outcome snapshot epochAtStart live now s))))"

subsection \<open>Steps\<close>

inductive client_step :: "string option \<Rightarrow> client \<Rightarrow> client \<Rightarrow> bool" for label :: "string option" where
  starts: "client_step label s (start_client now s)"
| stops: "client_step label s (stop_client s)"
| turns: "cl_loop s \<in> {LoopReady, LoopSleeping} \<Longrightarrow> client_step label s (loop_turn s)"
| turn_throws: "cl_loop s \<in> {LoopReady, LoopSleeping} \<Longrightarrow> client_step label s (loop_turn_throws label v now s)"
| acknowledged: "cl_loop s = LoopConsuming epoch \<Longrightarrow> client_step label s (s\<lparr>cl_acknowledged := Some epoch\<rparr>)"
| consumes: "cl_loop s = LoopConsuming epoch \<Longrightarrow> ev \<noteq> None \<longrightarrow> cl_acknowledged s = Some epoch \<Longrightarrow>
    client_step label s (consume_next ev s)"
| consuming_throws: "cl_loop s = LoopConsuming epoch \<Longrightarrow> client_step label s (cycle_throws label v now s)"
| continues: "cl_loop s = LoopEnded ending \<Longrightarrow> client_step label s (loop_after_cycle ending s)"
| interrupted: "cl_stopRequested s \<Longrightarrow> cl_loop s \<in> {LoopReady, LoopSleeping} \<or> cl_loop s = LoopEnded ending \<Longrightarrow>
    client_step label s (s\<lparr>cl_loop := LoopFinished\<rparr>)"
| flight_answers: "cl_flight s = Some flight \<Longrightarrow> client_step label s (flight_returns label answer now flight s)"
| resync_resumes: "cl_resumed s = (epoch, outcome) # rest \<Longrightarrow>
    client_step label s (resync_returns epoch outcome (s\<lparr>cl_resumed := rest\<rparr>))"
| refreshes: "client_step label s (request_refresh RefreshCaller None s)"
| reconciles: "client_step label s (reconcile_begins s)"
| reconciled: "i < length (cl_reconciles s) \<Longrightarrow> client_step label s (reconcile_returns i loaded now s)"

end
