(* ===== verification/ClientRuntimeProperties.thy ===== *)
theory ClientRuntimeProperties
  imports ClientRuntime
begin

section \<open>Correctness of the client runtime\<close>

text \<open>
  The invariants of the running client: a load makes it connected only when one subscription was
  live from the request to the answer; every refresh is answered by a load that was requested after
  it; what is shown is the last snapshot loaded with the events applied since, and a load that raced
  an event is followed by another; a stopped client no longer changes.
\<close>

lemmas client_updates =
  fire_hook_def swap_state_def apply_connection_failure_def apply_loaded_snapshot_def halt_runtime_def
  set_in_flight_refresh_def begin_flight_def push_request_def request_refresh_def Let_def

text \<open>What the operations leave alone.\<close>

lemma swap_state_simps [simp]:
  "cl_active (swap_state v s) = cl_active s" "cl_stopRequested (swap_state v s) = cl_stopRequested s"
  "cl_halted (swap_state v s) = cl_halted s" "cl_activeEpoch (swap_state v s) = cl_activeEpoch s"
  "cl_subscriptionEpoch (swap_state v s) = cl_subscriptionEpoch s" "cl_flight (swap_state v s) = cl_flight s"
  "cl_pending (swap_state v s) = cl_pending s" "cl_mutations (swap_state v s) = cl_mutations s"
  "cl_reconciles (swap_state v s) = cl_reconciles s" "cl_serials (swap_state v s) = cl_serials s"
  "cl_flights (swap_state v s) = cl_flights s" "cl_served (swap_state v s) = cl_served s"
  "cl_flightLive (swap_state v s) = cl_flightLive s" "cl_connects (swap_state v s) = cl_connects s"
  "cl_base (swap_state v s) = cl_base s" "cl_since (swap_state v s) = cl_since s"
  "cl_lastLoad (swap_state v s) = cl_lastLoad s" "cl_loop (swap_state v s) = cl_loop s"
  "cl_view (swap_state v s) = (if cl_stopRequested s then cl_view s else v)"
  by (simp_all add: swap_state_def)

subsection \<open>Epochs\<close>

text \<open>
  Epochs are fresh; and a load in the air that was requested under the epoch that is active has been
  subscribed throughout.
\<close>

definition epoch_seen :: "nat option \<Rightarrow> client \<Rightarrow> bool" where
  "epoch_seen e s = (\<forall>n. e = Some n \<longrightarrow> n \<le> cl_subscriptionEpoch s)"

definition load_live :: "nat option \<Rightarrow> bool \<Rightarrow> client \<Rightarrow> bool" where
  "load_live e live s = (epoch_seen e s \<and> (e \<noteq> None \<and> e = cl_activeEpoch s \<longrightarrow> live))"

definition epochs_ok :: "client \<Rightarrow> bool" where
  "epochs_ok s =
     (epoch_seen (cl_activeEpoch s) s \<and>
      (\<forall>f. cl_flight s = Some f \<longrightarrow> load_live (rf_epochAtStart f) (cl_flightLive s) s) \<and>
      (\<forall>(e, m, live) \<in> set (cl_reconciles s). load_live e live s) \<and>
      ConnectedByLoad False \<notin> set (cl_connects s))"

text \<open>The parts of the state the invariant reads.\<close>

definition epochs_same :: "client \<Rightarrow> client \<Rightarrow> bool" where
  "epochs_same s s' =
     (cl_activeEpoch s' = cl_activeEpoch s \<and> cl_subscriptionEpoch s' = cl_subscriptionEpoch s \<and>
      cl_flight s' = cl_flight s \<and> cl_flightLive s' = cl_flightLive s \<and>
      cl_reconciles s' = cl_reconciles s \<and>
      (\<forall>c \<in> set (cl_connects s'). c \<in> set (cl_connects s) \<or> c \<noteq> ConnectedByLoad False))"

lemma epochs_same_ok: "epochs_same s s' \<Longrightarrow> epochs_ok s \<Longrightarrow> epochs_ok s'"
  by (auto simp: epochs_same_def epochs_ok_def load_live_def epoch_seen_def)

lemma epochs_same_refl [simp]: "epochs_same s s"
  by (simp add: epochs_same_def)

lemma epochs_same_trans: "epochs_same s t \<Longrightarrow> epochs_same t u \<Longrightarrow> epochs_same s u"
  by (auto simp: epochs_same_def)

lemma epochs_same_intros:
  "epochs_same s (fire_hook h s)" "epochs_same s (swap_state v s)"
  "epochs_same s (apply_connection_failure e now s)" "epochs_same s (halt_runtime e now s)"
  "epochs_same s (set_in_flight_refresh b s)" "epochs_same s (push_request source resync s)"
  "epochs_same s (stop_client s)"
  "epochs_same s (start_client now s)" "epochs_same s (resync_returns epoch outcome s)"
  by (auto simp: epochs_same_def client_updates stop_client_def start_client_def resync_returns_def)

lemma epochs_apply_loaded:
  "load_live e live s \<Longrightarrow> epochs_same s (apply_loaded_outcome snapshot e live now s)"
  by (auto simp: epochs_same_def apply_loaded_outcome_def client_updates load_live_def)

lemma epochs_begin_flight: "epochs_ok s \<Longrightarrow> epochs_ok (begin_flight s)"
  by (auto simp: epochs_ok_def begin_flight_def load_live_def epoch_seen_def)

lemma epochs_request_refresh: "epochs_ok s \<Longrightarrow> epochs_ok (request_refresh source resync s)"
  unfolding request_refresh_def Let_def
  by (auto intro!: epochs_begin_flight epochs_same_ok [OF epochs_same_intros(5)] epochs_same_ok [OF epochs_same_intros(6)])

lemma epochs_flight_returns:
  assumes "epochs_ok s" "cl_flight s = Some f"
  shows "epochs_ok (flight_returns label answer now f s)"
proof -
  define outcome where "outcome = load_flight_outcome label answer"
  define s1 where "s1 = (if cl_stopRequested s then s
    else apply_flight_outcome outcome (rf_source f) (rf_epochAtStart f) now s)"
  have "load_live (rf_epochAtStart f) (cl_flightLive s) s" using assms by (simp add: epochs_ok_def)
  then have "epochs_same s s1"
    by (auto simp: s1_def apply_flight_outcome_def Let_def split: flight_outcome.split
        intro: epochs_same_trans [OF epochs_apply_loaded] epochs_same_trans [OF epochs_same_intros(3)]
          epochs_same_trans [OF epochs_same_intros(4)] epochs_same_intros epochs_apply_loaded)
  then have "epochs_ok s1" using assms(1) by (rule epochs_same_ok)
  then show ?thesis
    unfolding flight_returns_def Let_def outcome_def [symmetric] s1_def [symmetric]
    by (auto simp: epochs_ok_def client_updates load_live_def epoch_seen_def split: option.splits)
qed


lemma epochs_push: "epochs_ok s \<Longrightarrow> epochs_ok (s\<lparr>cl_resumed := r\<rparr>)" "epochs_ok s \<Longrightarrow> epochs_ok (s\<lparr>cl_loop := l\<rparr>)"
  "epochs_ok s \<Longrightarrow> epochs_ok (s\<lparr>cl_resynced := b, cl_loop := l\<rparr>)" "epochs_ok s \<Longrightarrow> epochs_ok (s\<lparr>cl_iterator := i\<rparr>)"
  "epochs_ok s \<Longrightarrow> epochs_ok (s\<lparr>cl_acknowledged := a\<rparr>)"
  by (auto simp: epochs_ok_def load_live_def epoch_seen_def)

lemma epochs_end_cycle: "epochs_ok s \<Longrightarrow> epochs_ok (end_cycle ending s)"
  by (auto simp: epochs_ok_def end_cycle_def load_live_def epoch_seen_def)

lemma epochs_enter_cycle: "epochs_ok s \<Longrightarrow> epochs_ok (enter_cycle s)"
  by (auto simp: epochs_ok_def enter_cycle_def load_live_def epoch_seen_def Let_def intro: le_SucI)

lemma epochs_begin_cycle: "epochs_ok s \<Longrightarrow> epochs_ok (begin_cycle s)"
  unfolding begin_cycle_def Let_def
  by (auto intro!: epochs_push epochs_request_refresh epochs_enter_cycle)

lemma epochs_failure:
  "handle_subscription_failure label v now s = (ending, s') \<Longrightarrow> epochs_same s s'"
  unfolding handle_subscription_failure_def Let_def
  by (auto simp: epochs_same_def client_updates split: if_splits)

lemma epochs_cycle_throws: "epochs_ok s \<Longrightarrow> epochs_ok (cycle_throws label v now s)"
  unfolding cycle_throws_def
  by (auto intro!: epochs_end_cycle dest!: epochs_failure intro: epochs_same_ok split: prod.split)

lemma epochs_apply_event: "epochs_ok s \<Longrightarrow> epochs_ok (apply_event ev s)"
proof -
  assume ok: "epochs_ok s"
  have *: "epochs_ok (fire_hook h (swap_state v (s\<lparr>cl_reportedError := False, cl_mutations := m, cl_since := es\<rparr>)))" for h v m es
    using ok by (auto simp: epochs_ok_def client_updates load_live_def epoch_seen_def)
  have "epochs_ok (fire_hook h (s\<lparr>cl_reportedError := False\<rparr>))" for h
    using ok by (auto simp: epochs_ok_def client_updates load_live_def epoch_seen_def)
  with * show ?thesis
    by (auto simp: apply_event_def Let_def intro!: epochs_request_refresh split: option.split)
qed

lemma epochs_reconcile_begins: "epochs_ok s \<Longrightarrow> epochs_ok (reconcile_begins s)"
  by (auto simp: epochs_ok_def reconcile_begins_def load_live_def epoch_seen_def)

lemma epochs_reconcile_returns:
  assumes "epochs_ok s" "i < length (cl_reconciles s)"
  shows "epochs_ok (reconcile_returns i loaded now s)"
proof -
  obtain e m live where r: "cl_reconciles s ! i = (e, m, live)" by (cases "cl_reconciles s ! i")
  then have "(e, m, live) \<in> set (cl_reconciles s)" using assms(2) by (metis nth_mem)
  then have live: "load_live e live s" using assms(1) by (auto simp: epochs_ok_def)
  define s1 where "s1 = s\<lparr>cl_reconciles := take i (cl_reconciles s) @ drop (Suc i) (cl_reconciles s)\<rparr>"
  have s1: "epochs_ok s1" using assms(1)
    by (fastforce simp: epochs_ok_def s1_def load_live_def epoch_seen_def dest: in_set_takeD in_set_dropD)
  have "epochs_ok (fire_hook h (apply_loaded_outcome snapshot e live now (s1\<lparr>cl_mutations := m', cl_lastLoad := l\<rparr>)))"
    for h snapshot m' l
  proof -
    let ?t = "s1\<lparr>cl_mutations := m', cl_lastLoad := l\<rparr>"
    have "epochs_ok ?t" "load_live e live ?t"
      using s1 live by (auto simp: epochs_ok_def load_live_def epoch_seen_def s1_def)
    then show ?thesis
      by (auto intro!: epochs_same_ok [OF epochs_same_intros(1)] epochs_same_ok [OF epochs_apply_loaded])
  qed
  with s1 show ?thesis by (simp add: reconcile_returns_def r s1_def [symmetric] Let_def split: option.split)
qed

lemma epochs_step: "client_step label s s' \<Longrightarrow> epochs_ok s \<Longrightarrow> epochs_ok s'"
proof (induction rule: client_step.induct)
  case (flight_answers s flight answer now)
  then show ?case by (blast intro: epochs_flight_returns)
next
  case (reconciled i s loaded now)
  then show ?case by (blast intro: epochs_reconcile_returns)
qed (auto simp: loop_turn_def loop_turn_throws_def consume_next_def cycle_returns_def loop_after_cycle_def
    intro!: epochs_push epochs_begin_cycle epochs_cycle_throws epochs_enter_cycle epochs_apply_event epochs_end_cycle
      epochs_request_refresh epochs_reconcile_begins epochs_same_ok [OF epochs_same_intros(7)]
      epochs_same_ok [OF epochs_same_intros(8)] epochs_same_ok [OF epochs_same_intros(9)]
    split: option.splits)

interpretation client: transition_system "\<lambda>s. \<exists>snapshot. s = initial_client snapshot" "client_step label"
  for label .

lemma reachable_epochs: "client.reachable label s \<Longrightarrow> epochs_ok s"
  by (erule client.invariant_reachable)
    (force simp: epochs_ok_def initial_client_def epoch_seen_def, rule epochs_step)


subsection \<open>Refreshes\<close>

definition flying :: "client \<Rightarrow> refresh_request list" where
  "flying s = (case cl_flight s of None \<Rightarrow> [] | Some f \<Rightarrow> rf_requests f)"

definition refreshes_ok :: "client \<Rightarrow> bool" where
  "refreshes_ok s =
     (map rr_serial (map fst (cl_served s) @ flying s @ cl_pending s) = [0..<cl_serials s] \<and>
      (\<forall>(r, n, outcome) \<in> set (cl_served s). rr_askedAt r \<le> n) \<and>
      (\<forall>f. cl_flight s = Some f \<longrightarrow> (\<forall>r \<in> set (rf_requests f). rr_askedAt r \<le> rf_number f)) \<and>
      (\<forall>r \<in> set (cl_pending s). rr_askedAt r \<le> cl_flights s) \<and>
      (cl_pending s \<noteq> [] \<longrightarrow> cl_flight s \<noteq> None) \<and>
      (\<not> cl_stopRequested s \<longrightarrow> vw_inFlightRefresh (cl_view s) = (cl_flight s \<noteq> None)))"

definition refreshes_same :: "client \<Rightarrow> client \<Rightarrow> bool" where
  "refreshes_same s s' =
     (cl_served s' = cl_served s \<and> cl_flight s' = cl_flight s \<and> cl_pending s' = cl_pending s \<and>
      cl_serials s' = cl_serials s \<and> cl_flights s' = cl_flights s \<and>
      (\<not> cl_stopRequested s' \<longrightarrow> \<not> cl_stopRequested s \<and>
        vw_inFlightRefresh (cl_view s') = vw_inFlightRefresh (cl_view s)))"

lemma refreshes_same_ok: "refreshes_same s s' \<Longrightarrow> refreshes_ok s \<Longrightarrow> refreshes_ok s'"
  by (simp add: refreshes_same_def refreshes_ok_def flying_def)

lemma refreshes_same_refl [simp]: "refreshes_same s s"
  by (simp add: refreshes_same_def)

lemma refreshes_same_trans: "refreshes_same s t \<Longrightarrow> refreshes_same t u \<Longrightarrow> refreshes_same s u"
  by (auto simp: refreshes_same_def)

lemma refreshes_same_intros:
  "refreshes_same s (fire_hook h s)" "refreshes_same s (apply_connection_failure e now s)"
  "refreshes_same s (halt_runtime e now s)" "refreshes_same s (stop_client s)"
  "refreshes_same s (start_client now s)" "refreshes_same s (resync_returns epoch outcome s)"
  "refreshes_same s (end_cycle ending s)" "refreshes_same s (enter_cycle s)"
  "refreshes_same s (reconcile_begins s)" "refreshes_same s (s\<lparr>cl_resumed := r\<rparr>)"
  "refreshes_same s (s\<lparr>cl_loop := l\<rparr>)" "refreshes_same s (s\<lparr>cl_resynced := b, cl_loop := l\<rparr>)"
  "refreshes_same s (apply_loaded_outcome snapshot ep live now s)" "refreshes_same s (s\<lparr>cl_acknowledged := a\<rparr>)"
  by (auto simp: refreshes_same_def client_updates stop_client_def start_client_def resync_returns_def
      end_cycle_def enter_cycle_def reconcile_begins_def apply_loaded_outcome_def)

lemma refreshes_failure:
  "handle_subscription_failure label v now s = (ending, s') \<Longrightarrow> refreshes_same s s'"
  unfolding handle_subscription_failure_def Let_def
  by (auto simp: refreshes_same_def client_updates split: if_splits)

lemma refreshes_cycle_throws: "refreshes_same s (cycle_throws label v now s)"
  unfolding cycle_throws_def
  by (auto split: prod.split intro: refreshes_same_intros refreshes_same_trans [OF refreshes_failure])

lemma refreshes_request_refresh: "refreshes_ok s \<Longrightarrow> refreshes_ok (request_refresh source resync s)"
  by (cases "cl_flight s") (auto simp: refreshes_ok_def flying_def client_updates)

lemma refreshes_apply_event: "refreshes_ok s \<Longrightarrow> refreshes_ok (apply_event ev s)"
proof -
  assume ok: "refreshes_ok s"
  have *: "refreshes_same s (fire_hook h (swap_state ((cl_view s)\<lparr>vw_snapshot := x\<rparr>)
      (s\<lparr>cl_reportedError := False, cl_mutations := m, cl_since := es\<rparr>)))" for h x m es
    by (auto simp: refreshes_same_def client_updates)
  have "refreshes_same s (fire_hook h (s\<lparr>cl_reportedError := False\<rparr>))" for h
    by (auto simp: refreshes_same_def client_updates)
  with * show ?thesis
    by (auto simp: apply_event_def Let_def intro!: refreshes_request_refresh intro: refreshes_same_ok [OF _ ok] split: option.split)
qed

lemma refreshes_begin_cycle: "refreshes_ok s \<Longrightarrow> refreshes_ok (begin_cycle s)"
proof -
  assume "refreshes_ok s"
  then have ok: "refreshes_ok ((enter_cycle s)\<lparr>cl_iterator := i\<rparr>)" for i
    by (auto simp: refreshes_ok_def enter_cycle_def flying_def Let_def)
  show ?thesis
    unfolding begin_cycle_def Let_def
    by (auto intro!: refreshes_same_ok [OF refreshes_same_intros(11)] refreshes_request_refresh ok)
qed

lemma refreshes_flight_returns:
  assumes "refreshes_ok s" "cl_flight s = Some f"
  shows "refreshes_ok (flight_returns label answer now f s)"
proof -
  define outcome where "outcome = load_flight_outcome label answer"
  define s1 where "s1 = (if cl_stopRequested s then s
    else apply_flight_outcome outcome (rf_source f) (rf_epochAtStart f) now s)"
  have "refreshes_same s s1"
    by (auto simp: s1_def apply_flight_outcome_def Let_def split: flight_outcome.split
        intro: refreshes_same_trans [OF refreshes_same_intros(13)] refreshes_same_trans [OF refreshes_same_intros(2)]
          refreshes_same_trans [OF refreshes_same_intros(3)] refreshes_same_intros)
  with assms have "refreshes_ok s1" "cl_flight s1 = Some f"
    using refreshes_same_ok by (blast, simp add: refreshes_same_def)
  then show ?thesis
    unfolding flight_returns_def Let_def outcome_def [symmetric] s1_def [symmetric]
    by (auto simp: refreshes_ok_def flying_def client_updates comp_def)
qed

lemma refreshes_reconcile_returns: "refreshes_same s (reconcile_returns i loaded now s)"
  by (auto simp: refreshes_same_def reconcile_returns_def Let_def client_updates apply_loaded_outcome_def
      split: prod.split option.split)

lemma refreshes_step: "client_step label s s' \<Longrightarrow> refreshes_ok s \<Longrightarrow> refreshes_ok s'"
proof (induction rule: client_step.induct)
  case (flight_answers s flight answer now)
  then show ?case by (blast intro: refreshes_flight_returns)
next
  case (reconciled i s loaded now)
  then show ?case by (blast intro: refreshes_same_ok refreshes_reconcile_returns)
qed (auto simp: loop_turn_def loop_turn_throws_def consume_next_def cycle_returns_def loop_after_cycle_def
    intro: refreshes_begin_cycle refreshes_apply_event refreshes_request_refresh
      refreshes_same_ok [OF refreshes_same_intros(4)] refreshes_same_ok [OF refreshes_same_intros(5)]
      refreshes_same_ok [OF refreshes_same_intros(7)] refreshes_same_ok [OF refreshes_same_intros(9)]
      refreshes_same_ok [OF refreshes_same_intros(11)] refreshes_same_ok [OF refreshes_same_intros(12)]
      refreshes_same_ok [OF refreshes_same_trans [OF refreshes_same_intros(10) refreshes_same_intros(6)]]
      refreshes_same_ok [OF refreshes_cycle_throws] refreshes_same_ok [OF refreshes_same_intros(14)]
      refreshes_same_ok [OF refreshes_same_trans [OF refreshes_same_intros(8) refreshes_cycle_throws]]
    split: option.split)

lemma reachable_refreshes: "client.reachable label s \<Longrightarrow> refreshes_ok s"
  by (erule client.invariant_reachable)
    (force simp: refreshes_ok_def initial_client_def flying_def, rule refreshes_step)


subsection \<open>What the client shows\<close>

definition shows_ok :: "client \<Rightarrow> bool" where
  "shows_ok s =
     ((cl_stopRequested s \<longrightarrow> \<not> cl_active s) \<and>
      vw_snapshot (cl_view s) = map_option (\<lambda>b. apply_events b (cl_since s)) (cl_base s) \<and>
      (cl_lastLoad s = FlightLoadedLast True \<and> \<not> cl_stopRequested s \<and> \<not> cl_halted s \<longrightarrow> cl_flight s \<noteq> None))"

text \<open>Steps that do not load a snapshot nor apply an event, nor finish a flight.\<close>

definition shows_same :: "client \<Rightarrow> client \<Rightarrow> bool" where
  "shows_same s s' =
     (vw_snapshot (cl_view s') = vw_snapshot (cl_view s) \<and> cl_base s' = cl_base s \<and>
      cl_since s' = cl_since s \<and> cl_lastLoad s' = cl_lastLoad s \<and>
      (cl_flight s \<noteq> None \<longrightarrow> cl_flight s' \<noteq> None) \<and>
      (cl_stopRequested s' \<and> cl_active s' \<longrightarrow> cl_stopRequested s \<and> cl_active s) \<and>
      (cl_stopRequested s \<longrightarrow> cl_stopRequested s') \<and> (cl_halted s \<longrightarrow> cl_halted s'))"

lemma shows_same_ok: "shows_same s s' \<Longrightarrow> shows_ok s \<Longrightarrow> shows_ok s'"
  by (auto simp: shows_same_def shows_ok_def)

lemma shows_same_refl [simp]: "shows_same s s"
  by (simp add: shows_same_def)

lemma shows_same_trans: "shows_same s t \<Longrightarrow> shows_same t u \<Longrightarrow> shows_same s u"
  unfolding shows_same_def by (intro conjI; metis)

lemma shows_same_intros:
  "shows_same s (fire_hook h s)" "shows_same s (apply_connection_failure e now s)"
  "shows_same s (halt_runtime e now s)" "shows_same s (stop_client s)"
  "shows_same s (start_client now s)" "shows_same s (resync_returns epoch outcome s)"
  "shows_same s (end_cycle ending s)" "shows_same s (enter_cycle s)"
  "shows_same s (reconcile_begins s)" "shows_same s (s\<lparr>cl_resumed := r\<rparr>)"
  "shows_same s (s\<lparr>cl_loop := l\<rparr>)" "shows_same s (s\<lparr>cl_resynced := b, cl_loop := l\<rparr>)"
  "shows_same s (push_request source resync s)" "shows_same s (begin_flight s)"
  "shows_same s (s\<lparr>cl_iterator := i\<rparr>)" "shows_same s (set_in_flight_refresh b s)"
  "shows_same s (s\<lparr>cl_acknowledged := a\<rparr>)"
  by (simp_all add: shows_same_def client_updates stop_client_def start_client_def resync_returns_def
      end_cycle_def enter_cycle_def reconcile_begins_def)

lemma shows_request_refresh: "shows_same s (request_refresh source resync s)"
  unfolding request_refresh_def Let_def
  by (auto intro: shows_same_intros(13) shows_same_trans [OF shows_same_intros(13) shows_same_trans [OF shows_same_intros(16) shows_same_intros(14)]])

lemma shows_failure: "handle_subscription_failure label v now s = (ending, s') \<Longrightarrow> shows_same s s'"
  unfolding handle_subscription_failure_def Let_def
  by (auto simp: shows_same_def client_updates split: if_splits)

lemma shows_cycle_throws: "shows_same s (cycle_throws label v now s)"
  unfolding cycle_throws_def
  by (auto split: prod.split intro: shows_same_intros shows_same_trans [OF shows_failure])

lemma shows_begin_cycle: "shows_same s (begin_cycle s)"
proof -
  have "shows_same s ((enter_cycle s)\<lparr>cl_iterator := i\<rparr>)" for i
    by (rule shows_same_trans [OF shows_same_intros(8) shows_same_intros(15)])
  then show ?thesis
    unfolding begin_cycle_def Let_def
    by (auto intro: shows_same_trans [OF _ shows_same_intros(11)] shows_same_trans [OF _ shows_same_trans [OF shows_request_refresh shows_same_intros(11)]])
qed

text \<open>The same without the last two conjuncts, for the steps that finish a load.\<close>

definition view_consistent :: "client \<Rightarrow> bool" where
  "view_consistent s =
     ((cl_stopRequested s \<longrightarrow> \<not> cl_active s) \<and>
      vw_snapshot (cl_view s) = map_option (\<lambda>b. apply_events b (cl_since s)) (cl_base s))"

lemma view_consistent_loaded:
  "view_consistent s \<Longrightarrow> \<not> cl_stopRequested s \<Longrightarrow> view_consistent (apply_loaded_outcome snapshot e live now s)"
  by (auto simp: view_consistent_def apply_loaded_outcome_def apply_events_def client_updates)

lemma view_consistent_same: "shows_same s s' \<Longrightarrow> view_consistent s \<Longrightarrow> view_consistent s'"
  by (auto simp: view_consistent_def shows_same_def)

lemma shows_apply_event:
  assumes "shows_ok s" "cl_active s"
  shows "shows_ok (apply_event ev s)"
proof (cases "vw_snapshot (cl_view s)")
  case None
  with assms show ?thesis by (auto simp: apply_event_def shows_ok_def client_updates)
next
  case (Some x)
  have live: "\<not> cl_stopRequested s" using assms by (auto simp: shows_ok_def)
  obtain b where b: "cl_base s = Some b" "x = apply_events b (cl_since s)"
    using Some assms(1) unfolding shows_ok_def by fastforce
  have "shows_ok (fire_hook h (swap_state ((cl_view s)\<lparr>vw_snapshot := Some (ar_snapshot (apply_wosm_event x ev))\<rparr>)
      (s\<lparr>cl_reportedError := False, cl_mutations := m, cl_since := cl_since s @ [ev]\<rparr>)))" for h m
    using live assms(1) b by (auto simp: shows_ok_def client_updates apply_events_def)
  then show ?thesis
    using Some live by (auto simp: apply_event_def Let_def intro: shows_same_ok [OF shows_request_refresh])
qed

lemma shows_flight_returns:
  assumes "shows_ok s" "cl_flight s = Some f"
  shows "shows_ok (flight_returns label answer now f s)"
proof -
  define outcome where "outcome = load_flight_outcome label answer"
  define s1 where "s1 = (if cl_stopRequested s then s
    else apply_flight_outcome outcome (rf_source f) (rf_epochAtStart f) now s)"
  have "view_consistent s" using assms(1) by (simp add: shows_ok_def view_consistent_def)
  then have "view_consistent s1"
    by (auto simp: s1_def apply_flight_outcome_def Let_def split: flight_outcome.split
        intro: view_consistent_loaded view_consistent_same shows_same_intros
          view_consistent_same [OF shows_same_trans [OF shows_same_intros(2)]]
          view_consistent_same [OF shows_same_trans [OF shows_same_intros(3)]]
          view_consistent_same [OF shows_same_intros(1)])
  then show ?thesis
    unfolding flight_returns_def Let_def outcome_def [symmetric] s1_def [symmetric]
    by (auto simp: shows_ok_def view_consistent_def client_updates)
qed

lemma shows_reconcile_returns:
  assumes "shows_ok s"
  shows "shows_ok (reconcile_returns i loaded now s)"
proof -
  obtain e m live where r: "cl_reconciles s ! i = (e, m, live)" by (cases "cl_reconciles s ! i")
  define s1 where "s1 = s\<lparr>cl_reconciles := take i (cl_reconciles s) @ drop (Suc i) (cl_reconciles s)\<rparr>"
  have s1: "shows_ok s1" "cl_stopRequested s1 = cl_stopRequested s" using assms by (auto simp: shows_ok_def s1_def)
  have "shows_ok (fire_hook h (apply_loaded_outcome snapshot e live now
      (s1\<lparr>cl_mutations := m', cl_lastLoad := ReconciledLast raced\<rparr>)))" if "\<not> cl_stopRequested s" for h snapshot m' raced
    using s1 that by (auto simp: shows_ok_def apply_loaded_outcome_def apply_events_def client_updates)
  with s1 show ?thesis
    by (simp add: reconcile_returns_def r s1_def [symmetric] Let_def split: option.split)
qed

lemma shows_step: "client_step label s s' \<Longrightarrow> shows_ok s \<Longrightarrow> shows_ok s'"
proof (induction rule: client_step.induct)
  case (flight_answers s flight answer now)
  then show ?case by (blast intro: shows_flight_returns)
next
  case (reconciled i s loaded now)
  then show ?case by (blast intro: shows_reconcile_returns)
qed (auto simp: loop_turn_def loop_turn_throws_def consume_next_def cycle_returns_def loop_after_cycle_def
    intro: shows_apply_event shows_same_ok [OF shows_begin_cycle] shows_same_ok [OF shows_request_refresh]
      shows_same_ok [OF shows_same_intros(4)] shows_same_ok [OF shows_same_intros(5)]
      shows_same_ok [OF shows_same_intros(7)] shows_same_ok [OF shows_same_intros(9)]
      shows_same_ok [OF shows_same_intros(11)] shows_same_ok [OF shows_same_intros(12)]
      shows_same_ok [OF shows_same_trans [OF shows_same_intros(10) shows_same_intros(6)]]
      shows_same_ok [OF shows_cycle_throws] shows_same_ok [OF shows_same_intros(17)]
      shows_same_ok [OF shows_same_trans [OF shows_same_intros(8) shows_cycle_throws]]
    split: option.split)

lemma reachable_shows: "client.reachable label s \<Longrightarrow> shows_ok s"
  by (erule client.invariant_reachable)
    (force simp: shows_ok_def initial_client_def apply_events_def option.map_ident, rule shows_step)

subsection \<open>A stopped client\<close>

definition frozen :: "client \<Rightarrow> client \<Rightarrow> bool" where
  "frozen s s' = (cl_stopRequested s \<longrightarrow> cl_stopRequested s' \<and> cl_view s' = cl_view s)"

lemma frozen_swap: "frozen s (swap_state v s)"
  by (simp add: frozen_def swap_state_def)

lemma frozen_refl [simp]: "frozen s s"
  by (simp add: frozen_def)

lemma frozen_trans: "frozen s t \<Longrightarrow> frozen t u \<Longrightarrow> frozen s u"
  by (auto simp: frozen_def)

lemma frozen_intros:
  "frozen s (fire_hook h s)" "frozen s (apply_connection_failure e now s)"
  "frozen s (halt_runtime e now s)" "frozen s (stop_client s)"
  "frozen s (start_client now s)" "frozen s (resync_returns epoch outcome s)"
  "frozen s (end_cycle ending s)" "frozen s (enter_cycle s)"
  "frozen s (reconcile_begins s)" "frozen s (s\<lparr>cl_resumed := r\<rparr>)"
  "frozen s (s\<lparr>cl_loop := l\<rparr>)" "frozen s (s\<lparr>cl_resynced := b, cl_loop := l\<rparr>)"
  "frozen s (push_request source resync s)" "frozen s (begin_flight s)"
  "frozen s (s\<lparr>cl_iterator := i\<rparr>)" "frozen s (apply_loaded_outcome snapshot ep live now s)"
  "frozen s (set_in_flight_refresh b s)" "frozen s (s\<lparr>cl_acknowledged := a\<rparr>)"
  by (auto simp: frozen_def client_updates stop_client_def start_client_def resync_returns_def
      end_cycle_def enter_cycle_def reconcile_begins_def apply_loaded_outcome_def)

lemma frozen_request_refresh: "frozen s (request_refresh source resync s)"
  unfolding request_refresh_def Let_def
  by (auto intro: frozen_intros(13) frozen_trans [OF frozen_intros(13) frozen_trans [OF frozen_intros(17) frozen_intros(14)]])

lemma frozen_apply_event: "frozen s (apply_event ev s)"
  by (auto simp: apply_event_def Let_def split: option.split
      intro!: frozen_trans [OF _ frozen_request_refresh] frozen_trans [OF _ frozen_intros(1)] frozen_trans [OF _ frozen_swap])
    (simp_all add: frozen_def)

lemma frozen_failure: "handle_subscription_failure label v now s = (ending, s') \<Longrightarrow> frozen s s'"
  unfolding handle_subscription_failure_def Let_def
  by (auto simp: frozen_def client_updates split: if_splits)

lemma frozen_cycle_throws: "frozen s (cycle_throws label v now s)"
  unfolding cycle_throws_def
  by (auto split: prod.split intro: frozen_intros frozen_trans [OF frozen_failure])

lemma frozen_begin_cycle: "frozen s (begin_cycle s)"
proof -
  have "frozen s ((enter_cycle s)\<lparr>cl_iterator := i\<rparr>)" for i
    by (rule frozen_trans [OF frozen_intros(8) frozen_intros(15)])
  then show ?thesis
    unfolding begin_cycle_def Let_def
    by (auto intro: frozen_trans [OF _ frozen_intros(11)] frozen_trans [OF _ frozen_trans [OF frozen_request_refresh frozen_intros(11)]])
qed

lemma frozen_flight_returns: "frozen s (flight_returns label answer now f s)"
  by (auto simp: frozen_def flight_returns_def client_updates)

lemma frozen_reconcile_returns: "frozen s (reconcile_returns i loaded now s)"
  by (auto simp: frozen_def reconcile_returns_def client_updates split: prod.split option.split)

lemma frozen_step: "client_step label s s' \<Longrightarrow> frozen s s'"
  by (induction rule: client_step.induct)
    (auto simp: loop_turn_def loop_turn_throws_def consume_next_def cycle_returns_def loop_after_cycle_def
      intro: frozen_intros frozen_request_refresh frozen_apply_event frozen_cycle_throws frozen_begin_cycle frozen_flight_returns
        frozen_reconcile_returns frozen_trans [OF frozen_intros(10) frozen_intros(6)]
        frozen_trans [OF frozen_intros(8) frozen_cycle_throws]
      split: option.split)


subsection \<open>What made the client connected\<close>

definition grounded :: "client \<Rightarrow> bool" where
  "grounded s = (is_connected (vw_connection (cl_view s)) \<longrightarrow> cl_connects s \<noteq> [])"

lemma grounded_intros:
  "grounded s \<Longrightarrow> grounded (fire_hook h s)" "grounded s \<Longrightarrow> grounded (apply_connection_failure e now s)"
  "grounded s \<Longrightarrow> grounded (halt_runtime e now s)" "grounded s \<Longrightarrow> grounded (stop_client s)"
  "grounded s \<Longrightarrow> grounded (start_client now s)" "grounded s \<Longrightarrow> grounded (resync_returns epoch outcome s)"
  "grounded s \<Longrightarrow> grounded (end_cycle ending s)" "grounded s \<Longrightarrow> grounded (enter_cycle s)"
  "grounded s \<Longrightarrow> grounded (reconcile_begins s)" "grounded s \<Longrightarrow> grounded (s\<lparr>cl_resumed := r\<rparr>)"
  "grounded s \<Longrightarrow> grounded (s\<lparr>cl_loop := l\<rparr>)" "grounded s \<Longrightarrow> grounded (s\<lparr>cl_resynced := b, cl_loop := l\<rparr>)"
  "grounded s \<Longrightarrow> grounded (request_refresh source resync s)" "grounded s \<Longrightarrow> grounded (begin_flight s)"
  "grounded s \<Longrightarrow> grounded (s\<lparr>cl_iterator := i\<rparr>)"
  "grounded s \<Longrightarrow> grounded (apply_loaded_outcome snapshot ep live now s)"
  "grounded s \<Longrightarrow> grounded (s\<lparr>cl_reportedError := b\<rparr>)" "grounded s \<Longrightarrow> grounded (s\<lparr>cl_acknowledged := a\<rparr>)"
  by (simp_all add: grounded_def client_updates stop_client_def start_client_def resync_returns_def
      end_cycle_def enter_cycle_def reconcile_begins_def apply_loaded_outcome_def
      is_connected_def connected_connection_state_def failure_connection_state_def halted_connection_state_def)

lemma grounded_failure: "handle_subscription_failure label v now s = (ending, s') \<Longrightarrow> grounded s \<Longrightarrow> grounded s'"
  unfolding handle_subscription_failure_def Let_def
  by (auto intro!: grounded_intros split: if_splits)

lemma grounded_cycle_throws: "grounded s \<Longrightarrow> grounded (cycle_throws label v now s)"
  unfolding cycle_throws_def by (auto split: prod.split intro: grounded_intros grounded_failure)

lemma grounded_begin_cycle: "grounded s \<Longrightarrow> grounded (begin_cycle s)"
  unfolding begin_cycle_def Let_def by (auto intro!: grounded_intros)

lemma grounded_apply_event: "grounded s \<Longrightarrow> grounded (apply_event ev s)"
  unfolding apply_event_def Let_def
  by (auto intro!: grounded_intros split: option.split) (simp_all add: grounded_def)

lemma grounded_flight_returns: "grounded s \<Longrightarrow> grounded (flight_returns label answer now f s)"
proof -
  assume "grounded s"
  define outcome where "outcome = load_flight_outcome label answer"
  define s1 where "s1 = (if cl_stopRequested s then s
    else apply_flight_outcome outcome (rf_source f) (rf_epochAtStart f) now s)"
  have "grounded s1" using \<open>grounded s\<close>
    by (auto simp: s1_def apply_flight_outcome_def Let_def intro!: grounded_intros split: flight_outcome.split)
  then show ?thesis
    unfolding flight_returns_def Let_def outcome_def [symmetric] s1_def [symmetric]
    by (auto simp: grounded_def client_updates)
qed

lemma grounded_reconcile_returns: "grounded s \<Longrightarrow> grounded (reconcile_returns i loaded now s)"
  unfolding reconcile_returns_def Let_def
  by (auto intro!: grounded_intros split: prod.split option.split) (simp_all add: grounded_def)

lemma grounded_step: "client_step label s s' \<Longrightarrow> grounded s \<Longrightarrow> grounded s'"
  by (induction rule: client_step.induct)
    (auto simp: loop_turn_def loop_turn_throws_def consume_next_def cycle_returns_def loop_after_cycle_def
      intro: grounded_intros grounded_apply_event grounded_cycle_throws grounded_begin_cycle
        grounded_flight_returns grounded_reconcile_returns
      split: option.split)

lemma reachable_grounded: "client.reachable label s \<Longrightarrow> grounded s"
  by (erule client.invariant_reachable)
    (force simp: grounded_def initial_client_def is_connected_def, rule grounded_step)

subsection \<open>The properties\<close>

text \<open>A first start, and the load that connects it.\<close>

definition first_snapshot :: snapshot where
  "first_snapshot =
     \<lparr>ss_generatedAt = ''2026-01-01T00:00:00Z'',
      ss_observer = \<lparr>oi_pid = 7, oi_startedAt = ''2026-01-01T00:00:00Z'', oi_version = ''1'', oi_healthy = True\<rparr>,
      ss_providerHealth = [], ss_harnesses = None, ss_projects = [], ss_rows = [], ss_sessions = [],
      ss_countProjects = 0,
      ss_counts = \<lparr>rc_worktrees = 0, rc_agents = 0, rc_working = 0, rc_idle = 0, rc_attention = 0, rc_unknown = 0\<rparr>,
      ss_alerts = [], ss_featureFlags = None, ss_orphans = None\<rparr>"

definition subscribed_client :: client where
  "subscribed_client = loop_turn (start_client 0 (initial_client None))"

definition loaded_client :: client where
  "loaded_client = flight_returns None (Inr first_snapshot) 5 (the (cl_flight subscribed_client)) subscribed_client"

lemmas client_runs =
  loaded_client_def subscribed_client_def initial_client_def start_client_def loop_turn_def begin_cycle_def
  enter_cycle_def client_updates flight_returns_def load_flight_outcome_def apply_flight_outcome_def
  apply_loaded_outcome_def flight_loaded_def resyncs_of_def List.map_filter_def is_connected_def
  connected_connection_state_def

lemma subscribed_client_reachable: "client.reachable None subscribed_client"
  unfolding subscribed_client_def
  by (intro client.reachable_step [OF client.reachable_step [OF client.reachable_init starts] turns])
    (auto simp: start_client_def initial_client_def client_updates)

lemma loaded_client_reachable: "client.reachable None loaded_client"
  unfolding loaded_client_def
  by (rule client.reachable_step [OF subscribed_client_reachable flight_answers]) (simp add: client_runs)

text \<open>C19: events are not numbered, so a client that reconnects cannot know what it missed. It is connected
  only for a reason: it started with a snapshot it trusts, or it loaded one while the same cycle of
  the subscription loop went on from the request for the snapshot to its answer, with no gap in between.
\<close>

theorem connected_only_after_resync:
  "client.reachable label s \<Longrightarrow>
   ConnectedByLoad False \<notin> set (cl_connects s) \<and>
   (is_connected (vw_connection (cl_view s)) \<longrightarrow> cl_connects s \<noteq> [])"
  using reachable_epochs [of label s] reachable_grounded [of label s] by (simp add: epochs_ok_def grounded_def)

theorem connected_only_after_resync_witness:
  "ConnectedByLoad False \<notin> set (cl_connects loaded_client) \<and> cl_connects loaded_client \<noteq> []"
proof -
  have "is_connected (vw_connection (cl_view loaded_client))" by (simp add: client_runs)
  then show ?thesis using connected_only_after_resync [OF loaded_client_reachable] by blast
qed

text \<open>No refresh is lost or answered by a stale load. Every request, in the order of asking, has been
  answered, is answered by the load in the air, or waits; who waits, waits for a load in the air; a
  request was only answered by a load asked for after it; and the client says it is refreshing exactly
  while a load is in the air.
\<close>

lemma refreshes_served_in_order:
  "client.reachable label s \<Longrightarrow>
   map rr_serial (map fst (cl_served s) @ flying s @ cl_pending s) = [0..<cl_serials s] \<and>
   (\<forall>(r, n, outcome) \<in> set (cl_served s). rr_askedAt r \<le> n) \<and>
   (cl_pending s \<noteq> [] \<longrightarrow> cl_flight s \<noteq> None) \<and>
   (\<not> cl_stopRequested s \<longrightarrow> vw_inFlightRefresh (cl_view s) = (cl_flight s \<noteq> None))"
  using reachable_refreshes [of label s] by (simp add: refreshes_ok_def)



text \<open>
  But a cycle asks for its snapshot before the observer acknowledged its subscription: the client is
  connected although it is not subscribed yet.
\<close>

lemma connected_before_subscribed:
  "client.reachable None loaded_client \<and> cl_acknowledged loaded_client = None \<and>
   vw_connection (cl_view loaded_client) = ConnConnected 5 \<and> cl_connects loaded_client = [ConnectedByLoad True]"
  using loaded_client_reachable by (simp add: client_runs)

text \<open>Nothing changes what a stopped client shows.\<close>

lemma stopped_client_is_frozen:
  "client_step label s s' \<Longrightarrow> cl_stopRequested s \<Longrightarrow> cl_stopRequested s' \<and> cl_view s' = cl_view s"
  using frozen_step [of label s s'] by (simp add: frozen_def)

text \<open>
  A client that gave up can show that it is reconnecting: an error no retry can mend ends the loop,
  then a load still in the air fails to connect.
\<close>

definition mismatch_error :: thrown where
  "mismatch_error = ThrownObject (basic_error ''ProtocolError'' ''PROTOCOL_SCHEMA_MISMATCH'' ''old observer'') None"

definition connect_error :: thrown where
  "connect_error = ThrownObject (basic_error ''ProtocolError'' ''PROTOCOL_CONNECT_FAILED'' ''no observer'') None"

definition given_up_client :: client where
  "given_up_client = loop_after_cycle CycleHalted (cycle_throws None mismatch_error 5 subscribed_client)"

definition contradicted_client :: client where
  "contradicted_client = flight_returns None (Inl connect_error) 9 (the (cl_flight given_up_client)) given_up_client"

lemmas failed_runs =
  client_runs contradicted_client_def given_up_client_def cycle_throws_def handle_subscription_failure_def
  loop_after_cycle_def end_cycle_def client_safe_error_def thrown_safe_error_def mismatch_error_def
  connect_error_def basic_error_def is_safe_error_def is_permanent_observer_error_def
  is_observer_connect_error_def failure_connection_state_def halted_connection_state_def

lemma given_up_client_reachable: "client.reachable None given_up_client"
  unfolding given_up_client_def
  by (rule client.reachable_step [OF client.reachable_step [OF subscribed_client_reachable consuming_throws] continues])
    (simp_all add: failed_runs)

lemma halted_client_reconnects:
  "client.reachable None contradicted_client \<and> cl_halted contradicted_client \<and>
   cl_loop contradicted_client = LoopFinished \<and>
   (\<exists>e. vw_connection (cl_view given_up_client) = ConnHalted 5 e) \<and>
   (\<exists>e. vw_connection (cl_view contradicted_client) = ConnReconnecting 9 e)"
proof -
  have "client.reachable None contradicted_client"
    unfolding contradicted_client_def
    by (rule client.reachable_step [OF given_up_client_reachable flight_answers]) (simp add: failed_runs)
  then show ?thesis by (simp add: failed_runs)
qed

end
