(* ===== verification/HookStore.thy ===== *)
theory HookStore
  imports Effects Commands
begin

section \<open>Hooks, their store and their spool\<close>

text \<open>
  The hooks of the tools wosm watches (packages/contracts/src/hooks.ts) are recorded in the
  observer's database (apps/observer/src/persistence, apps/observer/src/sqlite.ts) and, when the
  observer cannot be reached, in a spool directory. The database and the directory are what was
  written to them: the log of a world, to which a transaction adds all of its rows or, when the
  database fails, none.
\<close>

subsection \<open>Hook events, receipts and spool records (hooks.ts)\<close>

datatype hook_kind = HookWorktree | HookTerminal | HookHarness | HookProvider

record hook_event =
  hk_hookId :: "string option"
  hk_provider :: provider_id
  hk_kind :: hook_kind
  hk_event :: string
  hk_receivedAt :: timestamp
  hk_projectId :: "project_id option"
  hk_worktreeId :: "worktree_id option"
  hk_sessionId :: "session_id option"
  hk_payload :: "json option"

definition valid_hook_event :: "hook_event \<Rightarrow> bool" where
  "valid_hook_event e =
     (opt_ok non_empty (hk_hookId e) \<and> non_empty (hk_provider e) \<and> non_empty (hk_event e) \<and>
      ts_valid (hk_receivedAt e) \<and> opt_ok non_empty (hk_projectId e) \<and>
      opt_ok non_empty (hk_worktreeId e) \<and> opt_ok non_empty (hk_sessionId e))"

datatype hook_status = HookIngested | HookSpooled | HookRejected | HookIgnored

record hook_receipt =
  hr_hookId :: string
  hr_provider :: provider_id
  hr_event :: string
  hr_accepted :: bool
  hr_status :: hook_status
  hr_receivedAt :: timestamp
  hr_reconciled :: "bool option"
  hr_spooled :: "bool option"
  hr_deduped :: "bool option"
  hr_error :: "safe_error option"

definition valid_hook_receipt :: "hook_receipt \<Rightarrow> bool" where
  "valid_hook_receipt r =
     (non_empty (hr_hookId r) \<and> non_empty (hr_provider r) \<and> non_empty (hr_event r) \<and>
      ts_valid (hr_receivedAt r) \<and> opt_ok valid_safe_error (hr_error r))"

definition valid_correlation :: "report_correlation \<Rightarrow> bool" where
  "valid_correlation c =
     (opt_ok non_empty (rc_harnessRunId c) \<and> opt_ok non_empty (rc_sessionId c) \<and>
      opt_ok non_empty (rc_worktreeId c) \<and> opt_ok non_empty (rc_terminalTargetId c) \<and>
      opt_ok non_empty (rc_projectId c) \<and> opt_ok non_empty (rc_nativeSessionId c) \<and>
      opt_ok non_empty (rc_nativeSessionFile c) \<and> opt_ok non_empty (rc_cwd c) \<and>
      opt_ok (\<lambda>pid. 0 < pid) (rc_pid c))"

definition valid_event_report :: "event_report \<Rightarrow> bool" where
  "valid_event_report r =
     (non_empty (er_reportId r) \<and> non_empty (er_provider r) \<and> non_empty (er_eventType r) \<and>
      ts_valid (er_observedAt r) \<and> opt_ok non_empty (er_coalesceKey r) \<and>
      opt_ok valid_status (er_status r) \<and> opt_ok valid_correlation (er_correlation r))"

definition valid_report_receipt :: "report_receipt \<Rightarrow> bool" where
  "valid_report_receipt r =
     (non_empty (rr_reportId r) \<and> non_empty (rr_provider r) \<and> non_empty (rr_eventType r) \<and>
      ts_valid (rr_receivedAt r) \<and> opt_ok valid_safe_error (rr_error r))"

text \<open>A spool record holds a hook event or a harness report.\<close>

datatype spooled = SpooledHook hook_event | SpooledReport event_report

record spool_record =
  sp_spoolId :: string
  sp_createdAt :: timestamp
  sp_content :: spooled
  sp_attempts :: nat
  sp_lastError :: "safe_error option"

definition valid_spool_record :: "spool_record \<Rightarrow> bool" where
  "valid_spool_record r =
     (non_empty (sp_spoolId r) \<and> ts_valid (sp_createdAt r) \<and>
      (case sp_content r of SpooledHook e \<Rightarrow> valid_hook_event e | SpooledReport p \<Rightarrow> valid_event_report p) \<and>
      opt_ok valid_safe_error (sp_lastError r))"

text \<open>\<^verbatim>\<open>Schema.parse\<close>: what it was given, or a Zod error.\<close>

definition parsed :: "('a \<Rightarrow> bool) \<Rightarrow> 'a \<Rightarrow> ('e, 'a) action" where
  "parsed ok x = (if ok x then give x else throw zod_error)"

subsection \<open>The log\<close>

datatype dedupe_kind = DedupeHook | DedupeHarnessReport

datatype observation_payload =
  WorktreePayload worktree_observation | TerminalPayload terminal_observation
| HarnessEventPayload event_observation

record stored_observation =
  sb_provider :: provider_id
  sb_entityKey :: string
  sb_payload :: observation_payload
  sb_observedAt :: timestamp
  sb_expiresAt :: timestamp

datatype hook_effect =
  KeyClaimed dedupe_kind string
| EventStored wosm_event
| ObservationStored stored_observation
| HandleStored recovery_handle
| EventPublished wosm_event
| ReconcileRequested string
| SpoolRead string spool_record
| SpoolStored string spool_record
| SpoolRemoved string
| DeliveryTried
| LockMade
| LockRemoved
| ObserverSpawned
| ObserverKilled
| SocketRemoved

type_synonym 'a hook_action = "(hook_effect, 'a) action"

definition emit :: "'e \<Rightarrow> ('e, unit) action" where
  "emit e w = (Inr (), w\<lparr>wd_events := wd_events w @ [e]\<rparr>)"

text \<open>What the log says, for a choice that depends on it.\<close>

definition logged :: "('e list \<Rightarrow> 'a) \<Rightarrow> ('e, 'a) action" where
  "logged f w = (Inr (f (wd_events w)), w)"

lemma wp_emit [wp_rules]: "wp (emit e) Q w = Q (Inr ()) (w\<lparr>wd_events := wd_events w @ [e]\<rparr>)"
  by (simp add: wp_def emit_def)

lemma wp_logged [wp_rules]: "wp (logged f) Q w = Q (Inr (f (wd_events w))) w"
  by (simp add: wp_def logged_def)

lemma wp_parsed [wp_rules]: "wp (parsed ok x) Q w = (if ok x then Q (Inr x) w else Q (Inl zod_error) w)"
  by (simp add: parsed_def wp_rules)

subsection \<open>Transactions (sqlite.ts)\<close>

text \<open>
  The database answers, at a time, the error a transaction fails with, if it fails. The task of a
  transaction sees the rows so far.
\<close>

type_synonym database = "nat \<Rightarrow> thrown option"

definition transaction_error :: error_fallback where
  "transaction_error = error_with ''PersistenceError'' ''PERSISTENCE_TRANSACTION_FAILED''
     ''Observer SQLite transaction failed.'' None"

definition run_transaction :: "database \<Rightarrow> ('e list \<Rightarrow> 'a \<times> 'e list) \<Rightarrow> ('e, 'a) action" where
  "run_transaction db task w =
     (case db (wd_time w) of
        Some v \<Rightarrow> (Inl (ThrownObject (safe_error_from_unknown v transaction_error) None), tick w)
      | None \<Rightarrow> (case task (wd_events w) of
          (x, rows) \<Rightarrow> (Inr x, (tick w)\<lparr>wd_events := wd_events w @ rows\<rparr>)))"

lemma wp_transaction [wp_rules]:
  "wp (run_transaction db task) Q w =
     (case db (wd_time w) of
        Some v \<Rightarrow> Q (Inl (ThrownObject (safe_error_from_unknown v transaction_error) None)) (tick w)
      | None \<Rightarrow> Q (Inr (fst (task (wd_events w)))) ((tick w)\<lparr>wd_events := wd_events w @ snd (task (wd_events w))\<rparr>))"
  by (simp add: wp_def run_transaction_def split: option.split prod.split)

text \<open>A key is claimed once; rows are only written with a key that was free.\<close>

definition store_deduped :: "dedupe_kind \<Rightarrow> string \<Rightarrow> hook_effect list \<Rightarrow> hook_effect list \<Rightarrow> bool \<times> hook_effect list" where
  "store_deduped kind key rows log =
     (if KeyClaimed kind key \<in> set log then (True, []) else (False, KeyClaimed kind key # rows))"

definition record_event_with_ingress_dedupe ::
  "database \<Rightarrow> dedupe_kind \<Rightarrow> string \<Rightarrow> wosm_event \<Rightarrow> bool hook_action" where
  "record_event_with_ingress_dedupe db kind key ev =
     run_transaction db (store_deduped kind key [EventStored ev])"

definition record_event_and_observation_with_ingress_dedupe ::
  "database \<Rightarrow> dedupe_kind \<Rightarrow> string \<Rightarrow> wosm_event \<Rightarrow> stored_observation \<Rightarrow> bool hook_action" where
  "record_event_and_observation_with_ingress_dedupe db kind key ev observation =
     run_transaction db (store_deduped kind key [EventStored ev, ObservationStored observation])"

definition record_event :: "database \<Rightarrow> wosm_event \<Rightarrow> unit hook_action" where
  "record_event db ev = run_transaction db (\<lambda>log. ((), [EventStored ev]))"

definition record_provider_observation :: "database \<Rightarrow> stored_observation \<Rightarrow> unit hook_action" where
  "record_provider_observation db observation =
     run_transaction db (\<lambda>log. ((), [ObservationStored observation]))"

definition upsert_session_recovery_handle :: "database \<Rightarrow> recovery_handle \<Rightarrow> unit hook_action" where
  "upsert_session_recovery_handle db handle = run_transaction db (\<lambda>log. ((), [HandleStored handle]))"

subsection \<open>Recovery handles (sessionRecoveryHandles.ts)\<close>

text \<open>
  The table has one row per provider and target; a new report of the target refreshes its row and
  keeps what it does not say. The identity is a digest of the key, a parameter.
\<close>

definition recovery_target_value :: "resume_target \<Rightarrow> string" where
  "recovery_target_value t = (case t of NativeSession i \<Rightarrow> i | SessionFile p \<Rightarrow> p)"

definition same_target :: "recovery_handle \<Rightarrow> recovery_handle \<Rightarrow> bool" where
  "same_target a b = (rh_provider a = rh_provider b \<and> rh_target a = rh_target b)"

definition refresh_handle :: "recovery_handle \<Rightarrow> recovery_handle \<Rightarrow> recovery_handle" where
  "refresh_handle excluded old =
     old\<lparr>rh_id := rh_id excluded, rh_projectId := rh_projectId excluded,
       rh_worktreeId := rh_worktreeId excluded,
       rh_sessionId := nullish_opt (rh_sessionId excluded) (rh_sessionId old),
       rh_cwd := nullish_opt (rh_cwd excluded) (rh_cwd old),
       rh_terminalTargetId := nullish_opt (rh_terminalTargetId excluded) (rh_terminalTargetId old),
       rh_harnessRunId := nullish_opt (rh_harnessRunId excluded) (rh_harnessRunId old),
       rh_observedAt := (if code_unit_compare (rh_observedAt old) (rh_observedAt excluded) \<le> 0
         then rh_observedAt old else rh_observedAt excluded),
       rh_lastSeenAt := rh_lastSeenAt excluded\<rparr>"

definition upsert_handle :: "(recovery_handle \<Rightarrow> string) \<Rightarrow> recovery_handle list \<Rightarrow> recovery_handle \<Rightarrow> recovery_handle list" where
  "upsert_handle digest rows input =
     (let handle = input\<lparr>rh_id := digest input\<rparr>
      in if list_ex (\<lambda>row. same_target row handle) rows
         then map (\<lambda>row. if same_target row handle then refresh_handle handle row else row) rows
         else rows @ [handle])"

definition stored_handles :: "(recovery_handle \<Rightarrow> string) \<Rightarrow> hook_effect list \<Rightarrow> recovery_handle list" where
  "stored_handles digest log =
     foldl (\<lambda>rows e. case e of HandleStored h \<Rightarrow> upsert_handle digest rows h | _ \<Rightarrow> rows) [] log"

subsection \<open>Spool files\<close>

definition spool_file :: "hook_effect list \<Rightarrow> string \<Rightarrow> spool_record option" where
  "spool_file log path =
     foldl (\<lambda>file e. case e of
        SpoolStored p r \<Rightarrow> if p = path then Some r else file
      | SpoolRemoved p \<Rightarrow> if p = path then None else file
      | _ \<Rightarrow> file) None log"

text \<open>The names of the files there are, in the order they were first written.\<close>

definition spool_paths :: "hook_effect list \<Rightarrow> string list" where
  "spool_paths log =
     filter (\<lambda>path. spool_file log path \<noteq> None)
       (js_unique (List.map_filter (\<lambda>e. case e of SpoolStored p _ \<Rightarrow> Some p | _ \<Rightarrow> None) log))"

subsection \<open>Boundaries around actions\<close>

definition in_boundary :: "error_fallback \<Rightarrow> ('e, 'a) action \<Rightarrow> ('e, safe_error + 'a) action" where
  "in_boundary fallback m w = (case m w of (r, w') \<Rightarrow> (Inr (runtime_boundary_effect fallback r), w'))"

lemma wp_in_boundary [wp_rules]:
  "wp (in_boundary fallback m) Q w = wp m (\<lambda>r. Q (Inr (runtime_boundary_effect fallback r))) w"
  by (simp add: wp_def in_boundary_def split: prod.split)

text \<open>A task with a time limit: what it tried came back, threw, or did not come back in time.\<close>

definition in_timed_boundary ::
  "error_fallback \<Rightarrow> error_fallback \<Rightarrow> ('e, 'a attempt) action \<Rightarrow> ('e, safe_error + 'a) action" where
  "in_timed_boundary fallback timeoutError m =
     and_then (catching m (\<lambda>v. give (AttemptThrows v))) (\<lambda>a. give (boundary_attempt fallback (Some timeoutError) a))"

definition and_try ::
  "('e, 'a attempt) action \<Rightarrow> ('a \<Rightarrow> ('e, 'b attempt) action) \<Rightarrow> ('e, 'b attempt) action" where
  "and_try m f = and_then m (\<lambda>a. case a of
     AttemptReturns x \<Rightarrow> f x | AttemptThrows v \<Rightarrow> give (AttemptThrows v) | AttemptTimesOut \<Rightarrow> give AttemptTimesOut)"

end
