(* ===== verification/HookIngestion.thy ===== *)
theory HookIngestion
  imports HookStore
begin

section \<open>Hook ingestion (apps/observer/src/hooks/ingestion.ts, providerHookIngress.ts, spool.ts)\<close>

text \<open>
  The observer takes hook events and harness reports, from its socket and from the spool, and
  records each of them once. What providers make of a hook, the database's failures and the clock
  are the environment.
\<close>

subsection \<open>Hooks of the providers (providerHookIngress.ts)\<close>

record raw_event =
  re_provider :: provider_id
  re_event :: "json option"
  re_name :: string
  re_observedAt :: timestamp

record ingest_context =
  ic_projects :: "project_config list"
  ic_worktrees :: "worktree_observation list"
  ic_terminals :: "terminal_observation list"

type_synonym 'a ingester = "raw_event \<Rightarrow> ingest_context \<Rightarrow> nat \<Rightarrow> 'a list attempt"

record hook_providers =
  hp_worktree :: provider_id
  hp_worktreeIngest :: "worktree_observation ingester option"
  hp_terminal :: provider_id
  hp_terminalIngest :: "terminal_observation ingester option"
  hp_harnesses :: "(provider_id \<times> event_observation ingester option) list"

record hook_environment =
  he_database :: database
  he_clock :: "nat \<Rightarrow> timestamp"
  he_newId :: "nat \<Rightarrow> string"
  he_providers :: "hook_providers option"
  he_projects :: "project_config list"
  he_current :: "nat \<Rightarrow> thrown + stored_observation list"
  he_expires :: "timestamp \<Rightarrow> timestamp"
  he_scheduler :: bool

text \<open>\<^verbatim>\<open>event.payload ?? event.event\<close>: the payload when there is one that is not null, else the name.\<close>

definition raw_event_of :: "hook_event \<Rightarrow> raw_event" where
  "raw_event_of e =
     \<lparr>re_provider = hk_provider e, re_event = (if hk_payload e = Some JNull then None else hk_payload e),
      re_name = hk_event e, re_observedAt = hk_receivedAt e\<rparr>"

definition strip_terminal_provider_data :: "terminal_observation \<Rightarrow> terminal_observation" where
  "strip_terminal_provider_data t = t\<lparr>to_providerData := None\<rparr>"

definition worktree_observation_record :: "(timestamp \<Rightarrow> timestamp) \<Rightarrow> worktree_observation \<Rightarrow> stored_observation" where
  "worktree_observation_record expires w =
     \<lparr>sb_provider = wo_provider w, sb_entityKey = wo_id w, sb_payload = WorktreePayload w,
      sb_observedAt = wo_observedAt w, sb_expiresAt = expires (wo_observedAt w)\<rparr>"

definition terminal_observation_record :: "(timestamp \<Rightarrow> timestamp) \<Rightarrow> terminal_observation \<Rightarrow> stored_observation" where
  "terminal_observation_record expires t =
     \<lparr>sb_provider = to_provider t, sb_entityKey = to_id t,
      sb_payload = TerminalPayload (strip_terminal_provider_data t),
      sb_observedAt = to_observedAt t, sb_expiresAt = expires (to_observedAt t)\<rparr>"

definition harness_event_observation_record ::
  "(timestamp \<Rightarrow> timestamp) \<Rightarrow> hook_event \<Rightarrow> event_observation \<Rightarrow> stored_observation" where
  "harness_event_observation_record expires e obs =
     \<lparr>sb_provider = eo_provider obs,
      sb_entityKey = nullish (eo_harnessRunId obs) (nullish (eo_sessionId obs)
        (nullish (eo_worktreeId obs) (nullish (hk_hookId e) (hk_event e)))),
      sb_payload = HarnessEventPayload obs, sb_observedAt = eo_observedAt obs,
      sb_expiresAt = expires (eo_observedAt obs)\<rparr>"

text \<open>The last valid payload of every entity, in the order the entities come up.\<close>

definition latest_payloads :: "(observation_payload \<Rightarrow> 'a option) \<Rightarrow> stored_observation list \<Rightarrow> 'a list" where
  "latest_payloads decode observations =
     map snd (foldl (\<lambda>latest obs. case decode (sb_payload obs) of
        None \<Rightarrow> latest | Some x \<Rightarrow> rec_set (sb_entityKey obs) x latest) [] observations)"

definition decode_worktree :: "observation_payload \<Rightarrow> worktree_observation option" where
  "decode_worktree p =
     (case p of WorktreePayload w \<Rightarrow> if valid_worktree_observation w then Some w else None | _ \<Rightarrow> None)"

definition decode_terminal :: "observation_payload \<Rightarrow> terminal_observation option" where
  "decode_terminal p =
     (case p of TerminalPayload t \<Rightarrow> if valid_terminal_observation t then Some t else None | _ \<Rightarrow> None)"

text \<open>What a provider answers is an observation of the world.\<close>

definition ingest_worktree_hook ::
  "hook_environment \<Rightarrow> hook_providers \<Rightarrow> hook_event \<Rightarrow> stored_observation list attempt hook_action" where
  "ingest_worktree_hook env ps e =
     (case hp_worktreeIngest ps of
        None \<Rightarrow> give (AttemptReturns [])
      | Some ingest \<Rightarrow>
          if hp_worktree ps \<noteq> hk_provider e then give (AttemptReturns [])
          else and_try (observe (ingest (raw_event_of e)
              \<lparr>ic_projects = he_projects env, ic_worktrees = [], ic_terminals = []\<rparr>))
            (\<lambda>found. give (AttemptReturns (map (worktree_observation_record (he_expires env)) found))))"

definition ingest_terminal_hook ::
  "hook_environment \<Rightarrow> hook_providers \<Rightarrow> hook_event \<Rightarrow> stored_observation list attempt hook_action" where
  "ingest_terminal_hook env ps e =
     (case hp_terminalIngest ps of
        None \<Rightarrow> give (AttemptReturns [])
      | Some ingest \<Rightarrow>
          if hp_terminal ps \<noteq> hk_provider e then give (AttemptReturns [])
          else and_try (observe (ingest (raw_event_of e)
              \<lparr>ic_projects = he_projects env, ic_worktrees = [], ic_terminals = []\<rparr>))
            (\<lambda>found. give (AttemptReturns (map (terminal_observation_record (he_expires env)) found))))"

definition harness_event_context :: "hook_environment \<Rightarrow> ingest_context hook_action" where
  "harness_event_context env =
     and_then (and_then (observe (he_current env)) settle) (\<lambda>persisted.
       give \<lparr>ic_projects = he_projects env, ic_worktrees = latest_payloads decode_worktree persisted,
         ic_terminals = latest_payloads decode_terminal persisted\<rparr>)"

definition ingest_harness_hook ::
  "hook_environment \<Rightarrow> hook_providers \<Rightarrow> hook_event \<Rightarrow> stored_observation list attempt hook_action" where
  "ingest_harness_hook env ps e =
     (case map_of (hp_harnesses ps) (hk_provider e) of
        Some (Some ingest) \<Rightarrow>
          and_then (harness_event_context env) (\<lambda>ctx.
            and_try (observe (ingest (raw_event_of e) ctx))
              (\<lambda>found. give (AttemptReturns (map (harness_event_observation_record (he_expires env) e) found))))
      | _ \<Rightarrow> give (AttemptReturns []))"

definition route_provider_hook ::
  "hook_environment \<Rightarrow> hook_providers \<Rightarrow> hook_event \<Rightarrow> stored_observation list attempt hook_action" where
  "route_provider_hook env ps e =
     (case hk_kind e of
        HookWorktree \<Rightarrow> ingest_worktree_hook env ps e
      | HookTerminal \<Rightarrow> ingest_terminal_hook env ps e
      | HookHarness \<Rightarrow> ingest_harness_hook env ps e
      | HookProvider \<Rightarrow>
          and_try (ingest_worktree_hook env ps e) (\<lambda>worktree.
          and_try (ingest_terminal_hook env ps e) (\<lambda>terminal.
          and_try (ingest_harness_hook env ps e) (\<lambda>harness.
          give (AttemptReturns (worktree @ terminal @ harness))))))"

fun record_observations :: "database \<Rightarrow> stored_observation list \<Rightarrow> unit hook_action" where
  "record_observations db [] = give ()"
| "record_observations db (obs # rest) =
     and_then (record_provider_observation db obs) (\<lambda>_. record_observations db rest)"

definition ingest_provider_hook_event ::
  "hook_environment \<Rightarrow> hook_providers \<Rightarrow> hook_event \<Rightarrow> safe_error option hook_action" where
  "ingest_provider_hook_event env ps e =
     and_then (in_timed_boundary
         (error_with ''HookProviderIngestError'' ''HOOK_PROVIDER_INGEST_FAILED''
           ''Provider hook ingest failed.'' (Some (hk_provider e)))
         (error_with ''TimeoutError'' ''HOOK_PROVIDER_INGEST_TIMEOUT''
           ''Provider hook ingest timed out.'' (Some (hk_provider e)))
         (route_provider_hook env ps e)) (\<lambda>r.
       case r of
         Inl err \<Rightarrow> give (Some err)
       | Inr observations \<Rightarrow> and_then (record_observations (he_database env) observations) (\<lambda>_. give None))"

subsection \<open>Hook events (ingestion.ts)\<close>

definition ingested_event :: "hook_event \<Rightarrow> string \<Rightarrow> wosm_event" where
  "ingested_event e key = ProviderHookIngested (hk_receivedAt e) key (hk_provider e) (hk_event e)"

definition hook_receipt_for :: "hook_event \<Rightarrow> string \<Rightarrow> hook_status \<Rightarrow> hook_receipt" where
  "hook_receipt_for e key status =
     \<lparr>hr_hookId = key, hr_provider = hk_provider e, hr_event = hk_event e,
      hr_accepted = (status \<in> {HookIngested, HookSpooled}), hr_status = status,
      hr_receivedAt = hk_receivedAt e, hr_reconciled = None, hr_spooled = None, hr_deduped = None,
      hr_error = None\<rparr>"

definition persist_hook :: "hook_environment \<Rightarrow> hook_event \<Rightarrow> string \<Rightarrow> bool hook_action" where
  "persist_hook env e key =
     and_then (record_event_with_ingress_dedupe (he_database env) DedupeHook key (ingested_event e key))
       (\<lambda>deduped. if deduped then give True
         else and_then (emit (EventPublished (ingested_event e key))) (\<lambda>_. give False))"

definition request_hook_reconcile :: "hook_environment \<Rightarrow> bool \<Rightarrow> string \<Rightarrow> unit hook_action" where
  "request_hook_reconcile env triggerReconcile reason =
     (if triggerReconcile \<and> he_scheduler env then emit (ReconcileRequested reason) else give ())"

definition hook_persist_fallback :: "hook_event \<Rightarrow> error_fallback" where
  "hook_persist_fallback e = error_with ''HookIngestionError'' ''HOOK_INGESTION_FAILED''
     ''Observer could not persist the hook event.'' (Some (hk_provider e))"

text \<open>What follows the recording, and the receipt.\<close>

definition answer_hook ::
  "hook_environment \<Rightarrow> bool \<Rightarrow> hook_event \<Rightarrow> string \<Rightarrow> safe_error + bool \<Rightarrow> hook_receipt hook_action" where
  "answer_hook env triggerReconcile event key persisted =
     (case persisted of
        Inl err \<Rightarrow> parsed valid_hook_receipt ((hook_receipt_for event key HookRejected)\<lparr>hr_error := Some err\<rparr>)
      | Inr deduped \<Rightarrow>
          if deduped then parsed valid_hook_receipt
            ((hook_receipt_for event key HookIngested)\<lparr>hr_reconciled := Some False, hr_deduped := Some True\<rparr>)
          else
            and_then (case he_providers env of
                None \<Rightarrow> give None
              | Some ps \<Rightarrow> ingest_provider_hook_event env ps event) (\<lambda>providerError.
            and_then (request_hook_reconcile env triggerReconcile
              (''hook:'' @ hk_provider event @ '':'' @ hk_event event)) (\<lambda>_.
            parsed valid_hook_receipt ((hook_receipt_for event key HookIngested)
              \<lparr>hr_reconciled := Some False, hr_deduped := Some False, hr_error := providerError\<rparr>))))"

definition ingest_hook :: "hook_environment \<Rightarrow> bool \<Rightarrow> hook_event \<Rightarrow> hook_receipt hook_action" where
  "ingest_hook env triggerReconcile input =
     and_then (parsed valid_hook_event input) (\<lambda>parsedEvent.
     and_then (case hk_hookId parsedEvent of Some key \<Rightarrow> give key | None \<Rightarrow> observe (he_newId env)) (\<lambda>key.
     and_then (parsed valid_hook_event (parsedEvent\<lparr>hk_hookId := Some key\<rparr>)) (\<lambda>event.
     and_then (in_boundary (hook_persist_fallback event) (persist_hook env event key))
       (answer_hook env triggerReconcile event key))))"

subsection \<open>Harness reports (ingestion.ts)\<close>

definition reported_event :: "event_report \<Rightarrow> wosm_event" where
  "reported_event r =
     HarnessEventReported (er_observedAt r) (er_reportId r) (er_provider r) (er_eventType r)"

definition correlated :: "(report_correlation \<Rightarrow> 'a option) \<Rightarrow> event_report \<Rightarrow> 'a option" where
  "correlated field r = Option.bind (er_correlation r) field"

text \<open>The raw event type is read from the diagnostics, which are JSON here.\<close>

definition raw_event_type :: "json option \<Rightarrow> string option" where
  "raw_event_type diagnostics =
     (case diagnostics of
        Some (JObj entries) \<Rightarrow> (case map_of entries ''rawEventType'' of Some (JStr t) \<Rightarrow> Some t | _ \<Rightarrow> None)
      | _ \<Rightarrow> None)"

definition harness_event_observation_from_report :: "event_report \<Rightarrow> event_observation" where
  "harness_event_observation_from_report r =
     \<lparr>eo_provider = er_provider r, eo_reportId = Some (er_reportId r), eo_eventType = Some (er_eventType r),
      eo_projectId = correlated rc_projectId r, eo_sessionId = correlated rc_sessionId r,
      eo_worktreeId = correlated rc_worktreeId r, eo_terminalTargetId = correlated rc_terminalTargetId r,
      eo_harnessRunId = correlated rc_harnessRunId r, eo_nativeSessionId = correlated rc_nativeSessionId r,
      eo_nativeSessionFile = correlated rc_nativeSessionFile r, eo_cwd = correlated rc_cwd r,
      eo_pid = correlated rc_pid r, eo_status = er_status r,
      eo_rawEventType = raw_event_type (er_diagnostics r), eo_diagnostics = er_diagnostics r,
      eo_providerData = er_providerData r, eo_observedAt = er_observedAt r\<rparr>"

definition harness_event_report_entity_key :: "event_report \<Rightarrow> string" where
  "harness_event_report_entity_key r =
     nullish (correlated rc_harnessRunId r) (nullish (correlated rc_sessionId r)
       (nullish (correlated rc_worktreeId r) (er_reportId r)))"

definition report_target :: "event_report \<Rightarrow> resume_target option" where
  "report_target r =
     (case correlated rc_nativeSessionFile r of
        Some path \<Rightarrow> Some (SessionFile path)
      | None \<Rightarrow> map_option NativeSession (correlated rc_nativeSessionId r))"

definition session_recovery_handle_from_report :: "event_report \<Rightarrow> recovery_handle option" where
  "session_recovery_handle_from_report r =
     (case (correlated rc_projectId r, correlated rc_worktreeId r, report_target r) of
        (Some projectId, Some worktreeId, Some target) \<Rightarrow>
          Some \<lparr>rh_id = er_reportId r, rh_provider = er_provider r, rh_projectId = projectId,
            rh_worktreeId = worktreeId, rh_sessionId = correlated rc_sessionId r, rh_target = target,
            rh_cwd = correlated rc_cwd r, rh_terminalTargetId = correlated rc_terminalTargetId r,
            rh_harnessRunId = correlated rc_harnessRunId r, rh_observedAt = er_observedAt r,
            rh_lastSeenAt = er_observedAt r\<rparr>
      | _ \<Rightarrow> None)"

definition report_observation :: "hook_environment \<Rightarrow> event_report \<Rightarrow> stored_observation" where
  "report_observation env r =
     \<lparr>sb_provider = er_provider r, sb_entityKey = harness_event_report_entity_key r,
      sb_payload = HarnessEventPayload (harness_event_observation_from_report r),
      sb_observedAt = er_observedAt r, sb_expiresAt = he_expires env (er_observedAt r)\<rparr>"

definition persist_report :: "hook_environment \<Rightarrow> event_report \<Rightarrow> bool hook_action" where
  "persist_report env r =
     and_then (record_event_and_observation_with_ingress_dedupe (he_database env) DedupeHarnessReport
         (er_reportId r) (reported_event r) (report_observation env r)) (\<lambda>deduped.
       if deduped then give True
       else and_then (case session_recovery_handle_from_report r of
             None \<Rightarrow> give ()
           | Some handle \<Rightarrow> upsert_session_recovery_handle (he_database env) handle) (\<lambda>_.
         and_then (emit (EventPublished (reported_event r))) (\<lambda>_. give False)))"

definition report_receipt_for :: "event_report \<Rightarrow> timestamp \<Rightarrow> report_receipt_status \<Rightarrow> report_receipt" where
  "report_receipt_for r receivedAt status =
     \<lparr>rr_reportId = er_reportId r, rr_provider = er_provider r, rr_eventType = er_eventType r,
      rr_accepted = (status \<noteq> ReportRejected), rr_status = status, rr_receivedAt = receivedAt,
      rr_projected = Some False, rr_scheduledReconcile = Some False, rr_deduped = None, rr_error = None\<rparr>"

definition report_persist_fallback :: "event_report \<Rightarrow> error_fallback" where
  "report_persist_fallback r = error_with ''HarnessEventReportIngestionError''
     ''HARNESS_EVENT_REPORT_INGESTION_FAILED''
     ''Observer could not persist the harness event report.'' (Some (er_provider r))"

definition answer_report ::
  "hook_environment \<Rightarrow> bool \<Rightarrow> event_report \<Rightarrow> timestamp \<Rightarrow> safe_error + bool \<Rightarrow> report_receipt hook_action" where
  "answer_report env triggerReconcile r receivedAt persisted =
     (case persisted of
        Inl err \<Rightarrow> parsed valid_report_receipt ((report_receipt_for r receivedAt ReportRejected)\<lparr>rr_error := Some err\<rparr>)
      | Inr deduped \<Rightarrow>
          if deduped then parsed valid_report_receipt
            ((report_receipt_for r receivedAt ReportAccepted)\<lparr>rr_deduped := Some True\<rparr>)
          else
            and_then (request_hook_reconcile env triggerReconcile
              (''harness-report:'' @ er_provider r @ '':'' @ er_eventType r)) (\<lambda>_.
            parsed valid_report_receipt ((report_receipt_for r receivedAt ReportAccepted)
              \<lparr>rr_scheduledReconcile := Some (triggerReconcile \<and> he_scheduler env), rr_deduped := Some False\<rparr>)))"

definition ingest_report :: "hook_environment \<Rightarrow> bool \<Rightarrow> event_report \<Rightarrow> report_receipt hook_action" where
  "ingest_report env triggerReconcile input =
     and_then (parsed valid_event_report input) (\<lambda>r.
     and_then (observe (he_clock env)) (\<lambda>receivedAt.
     and_then (in_boundary (report_persist_fallback r) (persist_report env r))
       (answer_report env triggerReconcile r receivedAt)))"

subsection \<open>Draining the spool (spool.ts)\<close>

text \<open>
  The directory is read once; files that are not in the log are junk that cannot be parsed. Reading,
  removing and rewriting a file may fail.
\<close>

record spool_environment =
  se_dir :: string
  se_listing :: "nat \<Rightarrow> string list option"
  se_readable :: "nat \<Rightarrow> bool"
  se_removes :: "nat \<Rightarrow> thrown option"
  se_writes :: "nat \<Rightarrow> thrown option"

definition ends_with :: "string \<Rightarrow> string \<Rightarrow> bool" where
  "ends_with s suffix = (length suffix \<le> length s \<and> drop (length s - length suffix) s = suffix)"

definition drain_paths :: "spool_environment \<Rightarrow> string list \<Rightarrow> string list" where
  "drain_paths sp entries =
     map (\<lambda>entry. se_dir sp @ ''/'' @ entry) (sort_strings (filter (\<lambda>name. ends_with name ''.json'') entries))"

definition spool_record_provider :: "spool_record \<Rightarrow> provider_id" where
  "spool_record_provider r =
     (case sp_content r of SpooledHook e \<Rightarrow> hk_provider e | SpooledReport p \<Rightarrow> er_provider p)"

definition read_spool_record :: "spool_environment \<Rightarrow> string \<Rightarrow> spool_record option hook_action" where
  "read_spool_record sp path =
     and_then (observe (se_readable sp)) (\<lambda>readable.
     and_then (logged (\<lambda>log. spool_file log path)) (\<lambda>file.
       case file of
         Some r \<Rightarrow>
           if readable \<and> valid_spool_record r then and_then (emit (SpoolRead path r)) (\<lambda>_. give (Some r)) else give None
       | None \<Rightarrow> give None))"

definition failing_write :: "(nat \<Rightarrow> thrown option) \<Rightarrow> 'e \<Rightarrow> ('e, unit) action" where
  "failing_write fails e =
     and_then (observe fails) (\<lambda>failure. case failure of Some v \<Rightarrow> throw v | None \<Rightarrow> emit e)"

definition update_failed_spool_record ::
  "spool_environment \<Rightarrow> string \<Rightarrow> spool_record \<Rightarrow> safe_error option \<Rightarrow> unit hook_action" where
  "update_failed_spool_record sp path r err =
     and_then (parsed valid_spool_record (r\<lparr>sp_attempts := sp_attempts r + 1,
         sp_lastError := (if err = None then sp_lastError r else err)\<rparr>)) (\<lambda>updated.
       failing_write (se_writes sp) (SpoolStored path updated))"

text \<open>Nothing when the record was drained, else the error it failed with, if there is one.\<close>

definition drain_spool_record ::
  "(hook_event \<Rightarrow> hook_receipt hook_action) \<Rightarrow> (event_report \<Rightarrow> report_receipt hook_action) option \<Rightarrow>
     spool_record \<Rightarrow> safe_error option option hook_action" where
  "drain_spool_record ingest report r =
     (case sp_content r of
        SpooledHook e \<Rightarrow> and_then (ingest e) (\<lambda>receipt.
          give (if hr_status receipt = HookIngested then None else Some (hr_error receipt)))
      | SpooledReport p \<Rightarrow>
          (case report of
             None \<Rightarrow> give (Some (Some (safe_error_from_unknown ThrownPrimitive
               (error_with ''HookIngestionError'' ''HOOK_REPORT_SPOOL_UNSUPPORTED''
                 ''Harness event report spool records are not supported by this drain path.''
                 (Some (er_provider p))))))
           | Some report \<Rightarrow> and_then (report p) (\<lambda>receipt.
               give (if rr_status receipt = ReportAccepted then None else Some (rr_error receipt)))))"

text \<open>One file: whether it was drained.\<close>

definition drain_fallback :: "spool_record \<Rightarrow> error_fallback" where
  "drain_fallback r = error_with ''HookIngestionError'' ''HOOK_SPOOL_DRAIN_FAILED''
     ''Hook spool record could not be delivered.'' (Some (spool_record_provider r))"

definition drain_path ::
  "spool_environment \<Rightarrow> (hook_event \<Rightarrow> hook_receipt hook_action) \<Rightarrow>
     (event_report \<Rightarrow> report_receipt hook_action) option \<Rightarrow> string \<Rightarrow> bool hook_action" where
  "drain_path sp ingest report path =
     and_then (read_spool_record sp path) (\<lambda>file.
       case file of
         None \<Rightarrow> give False
       | Some r \<Rightarrow>
           catching
             (and_then (drain_spool_record ingest report r) (\<lambda>outcome.
               case outcome of
                 None \<Rightarrow> and_then (failing_write (se_removes sp) (SpoolRemoved path)) (\<lambda>_. give True)
               | Some err \<Rightarrow> and_then (update_failed_spool_record sp path r err) (\<lambda>_. give False)))
             (\<lambda>v. and_then (update_failed_spool_record sp path r
                 (Some (safe_error_from_unknown v (drain_fallback r)))) (\<lambda>_. give False)))"

fun drain_all ::
  "spool_environment \<Rightarrow> (hook_event \<Rightarrow> hook_receipt hook_action) \<Rightarrow>
     (event_report \<Rightarrow> report_receipt hook_action) option \<Rightarrow> string list \<Rightarrow> (nat \<times> nat) \<Rightarrow> (nat \<times> nat) hook_action" where
  "drain_all sp ingest report [] counts = give counts"
| "drain_all sp ingest report (path # rest) counts =
     and_then (drain_path sp ingest report path) (\<lambda>drained.
       drain_all sp ingest report rest
         (if drained then (fst counts + 1, snd counts) else (fst counts, snd counts + 1)))"

text \<open>The result: files scanned, drained and failed.\<close>

definition drain_provider_ingress_spool ::
  "hook_environment \<Rightarrow> spool_environment \<Rightarrow> (hook_event \<Rightarrow> hook_receipt hook_action) \<Rightarrow>
     (event_report \<Rightarrow> report_receipt hook_action) option \<Rightarrow> (nat \<times> nat \<times> nat) hook_action" where
  "drain_provider_ingress_spool env sp ingest report =
     and_then (observe (se_listing sp)) (\<lambda>listing.
     and_then (give (drain_paths sp (nullish listing []))) (\<lambda>paths.
     and_then (drain_all sp ingest report paths (0, 0)) (\<lambda>counts.
     and_then (if length paths > 0
        then and_then (observe (he_clock env)) (\<lambda>at.
             and_then (record_event (he_database env) (ProviderHookSpoolDrained at (fst counts) (snd counts))) (\<lambda>_.
             emit (EventPublished (ProviderHookSpoolDrained at (fst counts) (snd counts)))))
        else give ()) (\<lambda>_.
     give (length paths, fst counts, snd counts)))))"


subsection \<open>Reports from the queue and from the spool (runtime/api.ts)\<close>

text \<open>
  A recorded report is projected onto the snapshot, by the observer's core; what the projection
  comes to is the environment's here. Failing to log a failed projection is not modelled. The result
  says what reconcile to request, if any.
\<close>

type_synonym projector = "event_report \<Rightarrow> nat \<Rightarrow> thrown + (bool \<times> wosm_event list)"

fun publish_all :: "wosm_event list \<Rightarrow> unit hook_action" where
  "publish_all [] = give ()"
| "publish_all (ev # evs) = and_then (emit (EventPublished ev)) (\<lambda>_. publish_all evs)"

definition project_recorded_report ::
  "hook_environment \<Rightarrow> projector \<Rightarrow> event_report \<Rightarrow> report_receipt \<Rightarrow> (report_receipt \<times> string option) hook_action" where
  "project_recorded_report env project r receipt =
      (if \<not> rr_accepted receipt \<or> rr_deduped receipt = Some True then give (receipt, None)
       else
         and_then (in_boundary (error_with ''StatusProjectionError'' ''STATUS_PROJECTION_FAILED''
             ''Observer could not project the harness event status.'' (Some (er_provider r)))
           (and_then (observe (project r)) settle)) (\<lambda>projection.
         case projection of
           Inl err \<Rightarrow>
             and_then (parsed valid_report_receipt (receipt
               \<lparr>rr_projected := Some False, rr_scheduledReconcile := Some True, rr_error := Some err\<rparr>)) (\<lambda>receipt.
             give (receipt, Some (''harness-report:'' @ er_provider r @ '':'' @ er_eventType r)))
         | Inr (projected, events) \<Rightarrow>
             and_then (publish_all events) (\<lambda>_.
             and_then (parsed valid_report_receipt (receipt
               \<lparr>rr_projected := Some projected, rr_scheduledReconcile := Some True\<rparr>)) (\<lambda>receipt.
             give (receipt, Some (''harness-report:'' @ er_provider r @ '':'' @ er_eventType r))))))"

definition process_harness_ingress_report ::
  "hook_environment \<Rightarrow> projector \<Rightarrow> event_report \<Rightarrow> (report_receipt \<times> string option) hook_action" where
  "process_harness_ingress_report env project r =
     and_then (ingest_report env False r) (project_recorded_report env project r)"

definition report_from_spool :: "hook_environment \<Rightarrow> projector \<Rightarrow> event_report \<Rightarrow> report_receipt hook_action" where
  "report_from_spool env project r =
     and_then (process_harness_ingress_report env project r) (\<lambda>(receipt, reason).
       and_then (case reason of None \<Rightarrow> give () | Some why \<Rightarrow> emit (ReconcileRequested why)) (\<lambda>_. give receipt))"

text \<open>\<^verbatim>\<open>drainConfiguredSpool\<close>.\<close>

definition drain_configured_spool ::
  "hook_environment \<Rightarrow> projector \<Rightarrow> spool_environment option \<Rightarrow> (nat \<times> nat \<times> nat) option hook_action" where
  "drain_configured_spool env project sp =
     (case sp of
        None \<Rightarrow> give None
      | Some sp \<Rightarrow>
          and_then (in_boundary (error_with ''HookSpoolError'' ''HOOK_SPOOL_DRAIN_FAILED''
              ''Observer could not drain the hook spool.'' None)
            (drain_provider_ingress_spool env sp (ingest_hook env False) (Some (report_from_spool env project))))
            (\<lambda>result. case result of Inl e \<Rightarrow> throw_error e | Inr counts \<Rightarrow> give (Some counts)))"

end
