(* ===== verification/HookDelivery.thy ===== *)
theory HookDelivery
  imports HookIngestion
begin

section \<open>Sending hooks (packages/provider-hooks/src/sender.ts, deliveryPolicy.ts, observerStartup.ts, spool.ts)\<close>

text \<open>
  A short-lived process sends one hook to the observer. When the observer does not take it, the
  process may start the observer, tries once more, and else writes the hook to the spool. The file
  system, the sockets and the child process answer at a time; a delivery is an action of its own, so
  that it can be the observer's ingestion.
\<close>

subsection \<open>Starting the observer (observerStartup.ts)\<close>

datatype observer_status = ObserverRunning | ObserverStale | ObserverStopped safe_error | ObserverUnhealthy safe_error

text \<open>
  \<open>su_health\<close>: whether the observer says it is healthy. \<open>su_start\<close>: making the directories and spawning
  the child, which throws or not. \<open>su_waits\<close>: what waiting for its health, with its retries and within
  the time limit, comes to. \<open>su_overruns\<close>: whether the time limit of the whole start, which began
  before, ends the waiting first.
\<close>

record startup_environment =
  su_stale :: "nat \<Rightarrow> bool"
  su_health :: "nat \<Rightarrow> thrown option"
  su_removesSocket :: "nat \<Rightarrow> thrown option"
  su_mkdirs :: "nat \<Rightarrow> thrown option"
  su_spawns :: "nat \<Rightarrow> thrown option"
  su_waits :: "nat \<Rightarrow> unit attempt"
  su_overruns :: "nat \<Rightarrow> bool"

definition health_boundary :: "unit attempt \<Rightarrow> thrown + unit" where
  "health_boundary a =
     (case boundary_attempt
         (error_with ''ObserverStartupError'' ''OBSERVER_HEALTH_FAILED'' ''Observer health check failed.'' None)
         (Some (error_with ''ObserverStartupError'' ''OBSERVER_HEALTH_TIMEOUT''
           ''Observer did not report healthy before the timeout.'' None)) a of
        Inl e \<Rightarrow> Inl (ThrownObject e None) | Inr x \<Rightarrow> Inr x)"

definition get_observer_status :: "startup_environment \<Rightarrow> observer_status hook_action" where
  "get_observer_status su =
     and_then (observe (su_stale su)) (\<lambda>stale.
       if stale then give ObserverStale
       else and_then (observe (su_health su)) (\<lambda>failure. give (case failure of
         None \<Rightarrow> ObserverRunning
       | Some v \<Rightarrow> ObserverStopped (safe_error_from_unknown v
           (error_with ''ObserverConnectionError'' ''OBSERVER_NOT_RUNNING'' ''Observer is not running.'' None)))))"

text \<open>The task of the start: whether the child was spawned, and how it ended.\<close>

definition spawn_and_wait :: "startup_environment \<Rightarrow> (bool \<times> unit attempt) hook_action" where
  "spawn_and_wait su =
     and_then (observe (su_mkdirs su)) (\<lambda>failure. case failure of
       Some v \<Rightarrow> give (False, AttemptThrows v)
     | None \<Rightarrow> and_then (observe (su_spawns su)) (\<lambda>failure. case failure of
         Some v \<Rightarrow> give (False, AttemptThrows v)
       | None \<Rightarrow> and_then (emit ObserverSpawned) (\<lambda>_.
           and_then (observe (su_overruns su)) (\<lambda>overruns.
           and_then (observe (su_waits su)) (\<lambda>a. give (True,
             if overruns then AttemptTimesOut
             else (case health_boundary a of Inl v \<Rightarrow> AttemptThrows v | Inr x \<Rightarrow> AttemptReturns x)))))))"

definition start_fallback :: error_fallback where
  "start_fallback = error_with ''ObserverStartupError'' ''OBSERVER_START_FAILED'' ''Observer startup failed.'' None"

definition start_timeout :: error_fallback where
  "start_timeout = error_with ''ObserverStartupError'' ''OBSERVER_START_FAILED''
     ''Observer did not become healthy before the startup timeout.'' None"

definition start_observer :: "startup_environment \<Rightarrow> observer_status hook_action" where
  "start_observer su =
     and_then (get_observer_status su) (\<lambda>existing.
       if existing = ObserverRunning then give ObserverRunning
       else and_then (if existing = ObserverStale
           then failing_write (su_removesSocket su) SocketRemoved else give ()) (\<lambda>_.
         and_then (spawn_and_wait su) (\<lambda>(spawned, a).
           case boundary_attempt start_fallback (Some start_timeout) a of
             Inr _ \<Rightarrow> give ObserverRunning
           | Inl e \<Rightarrow> and_then (if spawned then emit ObserverKilled else give ()) (\<lambda>_.
               give (ObserverUnhealthy e)))))"

subsection \<open>The lock of the start (deliveryPolicy.ts)\<close>

datatype mkdir_answer = MkdirMade | MkdirExists | MkdirFails thrown

record lock_environment =
  lk_prepares :: "nat \<Rightarrow> thrown option"
  lk_mkdir :: "nat \<Rightarrow> mkdir_answer"
  lk_age :: "nat \<Rightarrow> int option"
  lk_removes :: "nat \<Rightarrow> thrown option"

datatype auto_start_lock = LockAcquired | LockContended | LockFailed safe_error

text \<open>A lock whose age cannot be read is stale.\<close>

definition is_auto_start_lock_stale :: "lock_environment \<Rightarrow> int \<Rightarrow> bool hook_action" where
  "is_auto_start_lock_stale lk staleMs =
     and_then (observe (lk_age lk)) (\<lambda>age. give (case age of None \<Rightarrow> True | Some ms \<Rightarrow> ms > staleMs))"

fun lock_attempts :: "lock_environment \<Rightarrow> int \<Rightarrow> nat \<Rightarrow> auto_start_lock hook_action" where
  "lock_attempts lk staleMs 0 = give LockContended"
| "lock_attempts lk staleMs (Suc n) =
     and_then (observe (lk_mkdir lk)) (\<lambda>made. case made of
       MkdirMade \<Rightarrow> and_then (emit LockMade) (\<lambda>_. give LockAcquired)
     | MkdirFails v \<Rightarrow> give (LockFailed (safe_error_from_unknown v
         (error_with ''HookAutoStartLockError'' ''HOOK_AUTOSTART_LOCK_FAILED''
           ''Observer auto-start lock could not be acquired.'' None)))
     | MkdirExists \<Rightarrow> and_then (is_auto_start_lock_stale lk staleMs) (\<lambda>stale.
         if stale then and_then (failing_write (lk_removes lk) LockRemoved) (\<lambda>_. lock_attempts lk staleMs n)
         else give LockContended))"

definition acquire_auto_start_lock :: "lock_environment \<Rightarrow> int \<Rightarrow> auto_start_lock hook_action" where
  "acquire_auto_start_lock lk staleMs =
     and_then (observe (lk_prepares lk)) (\<lambda>failure. case failure of
       Some v \<Rightarrow> give (LockFailed (safe_error_from_unknown v
         (error_with ''HookAutoStartLockError'' ''HOOK_AUTOSTART_LOCK_FAILED''
           ''Observer auto-start lock directory could not be prepared.'' None)))
     | None \<Rightarrow> lock_attempts lk staleMs 2)"

definition wait_for_contended_auto_start :: "startup_environment \<Rightarrow> (safe_error + unit) hook_action" where
  "wait_for_contended_auto_start su =
     and_then (observe (su_waits su)) (\<lambda>a. give (case health_boundary a of
       Inr _ \<Rightarrow> Inr ()
     | Inl v \<Rightarrow> Inl (safe_error_from_unknown v
         (error_with ''HookAutoStartLockError'' ''HOOK_AUTOSTART_LOCKED''
           ''Observer did not become healthy while another hook was starting it.'' None))))"

record delivery_options =
  do_autoStart :: bool
  do_startupTimeoutMs :: int
  do_rateLimitMs :: int

definition start_result :: "observer_status \<Rightarrow> safe_error + unit" where
  "start_result status =
     (case status of
        ObserverRunning \<Rightarrow> Inr ()
      | ObserverStopped e \<Rightarrow> Inl e
      | ObserverUnhealthy e \<Rightarrow> Inl e
      | ObserverStale \<Rightarrow> Inl (safe_error_from_unknown ThrownPrimitive
          (error_with ''ObserverStartupError'' ''OBSERVER_START_FAILED''
            ''Observer could not be started for provider hook delivery.'' None)))"

text \<open>\<^verbatim>\<open>try { m } finally { f }\<close>: what \<open>f\<close> throws replaces the result of \<open>m\<close>.\<close>

definition finally_do :: "('e, 'a) action \<Rightarrow> ('e, unit) action \<Rightarrow> ('e, 'a) action" where
  "finally_do m f = branching m (\<lambda>v. and_then f (\<lambda>_. throw v)) (\<lambda>x. and_then f (\<lambda>_. give x))"

definition maybe_start_observer ::
  "lock_environment \<Rightarrow> startup_environment \<Rightarrow> delivery_options \<Rightarrow> (safe_error + unit) hook_action" where
  "maybe_start_observer lk su opts =
     and_then (acquire_auto_start_lock lk (max (max (do_rateLimitMs opts) (do_startupTimeoutMs opts)) 5000)) (\<lambda>lock.
       case lock of
         LockContended \<Rightarrow> wait_for_contended_auto_start su
       | LockFailed e \<Rightarrow> give (Inl e)
       | LockAcquired \<Rightarrow>
           finally_do (and_then (start_observer su) (\<lambda>status. give (start_result status)))
             (failing_write (lk_removes lk) LockRemoved))"

subsection \<open>The policy (deliveryPolicy.ts)\<close>

record delivery_attempt =
  da_receipt :: "hook_receipt option"
  da_error :: "safe_error option"

text \<open>The receipt is logged at the end; the log never fails.\<close>

definition deliver_provider_hook_with_spooling ::
  "lock_environment \<Rightarrow> startup_environment \<Rightarrow> delivery_options \<Rightarrow> delivery_attempt hook_action \<Rightarrow>
     (safe_error option \<Rightarrow> hook_receipt hook_action) \<Rightarrow> hook_receipt hook_action" where
  "deliver_provider_hook_with_spooling lk su opts deliver spool =
     and_then deliver (\<lambda>first.
       case da_receipt first of
         Some receipt \<Rightarrow> give receipt
       | None \<Rightarrow>
           if do_autoStart opts
           then and_then (maybe_start_observer lk su opts) (\<lambda>started.
             case started of
               Inl e \<Rightarrow> spool (Some e)
             | Inr _ \<Rightarrow> and_then deliver (\<lambda>retry.
                 case da_receipt retry of
                   Some receipt \<Rightarrow> give receipt
                 | None \<Rightarrow> spool (da_error retry)))
           else spool (da_error first))"

subsection \<open>Writing the spool (provider-hooks/src/spool.ts)\<close>

text \<open>The file must not exist; \<open>sw_write\<close> answers why the directory or the file cannot be written.\<close>

record spool_writer =
  sw_dir :: string
  sw_newId :: "nat \<Rightarrow> string"
  sw_clock :: "nat \<Rightarrow> timestamp"
  sw_write :: "nat \<Rightarrow> thrown option"

definition already_there :: thrown where
  "already_there = ThrownOther None"

definition write_spool_record ::
  "spool_writer \<Rightarrow> error_fallback \<Rightarrow> spooled \<Rightarrow> safe_error option \<Rightarrow> string hook_action" where
  "write_spool_record sw fallback content err =
     and_then (observe (sw_newId sw)) (\<lambda>spoolId.
     and_then (in_boundary fallback
       (and_then (observe (sw_clock sw)) (\<lambda>createdAt.
        and_then (parsed valid_spool_record \<lparr>sp_spoolId = spoolId, sp_createdAt = createdAt,
          sp_content = content, sp_attempts = 0, sp_lastError = err\<rparr>) (\<lambda>r.
        and_then (logged (\<lambda>log. spool_file log (sw_dir sw @ ''/'' @ spoolId @ ''.json''))) (\<lambda>existing.
          if existing \<noteq> None then throw already_there
          else failing_write (sw_write sw) (SpoolStored (sw_dir sw @ ''/'' @ spoolId @ ''.json'') r)))))) (\<lambda>written.
     case written of Inl e \<Rightarrow> throw_error e | Inr _ \<Rightarrow> give spoolId))"

definition write_provider_hook_spool_record :: "spool_writer \<Rightarrow> hook_event \<Rightarrow> safe_error option \<Rightarrow> hook_receipt hook_action" where
  "write_provider_hook_spool_record sw e err =
     and_then (write_spool_record sw (error_with ''HookSpoolError'' ''HOOK_SPOOL_WRITE_FAILED''
         ''Provider hook event could not be written to the provider ingress spool.'' (Some (hk_provider e)))
         (SpooledHook e) err) (\<lambda>spoolId.
       parsed valid_hook_receipt ((hook_receipt_for e (nullish (hk_hookId e) spoolId) HookSpooled)
         \<lparr>hr_spooled := Some True, hr_error := err\<rparr>))"

definition write_harness_event_report_spool_record ::
  "spool_writer \<Rightarrow> event_report \<Rightarrow> safe_error option \<Rightarrow> report_receipt hook_action" where
  "write_harness_event_report_spool_record sw r err =
     and_then (write_spool_record sw (error_with ''HookSpoolError'' ''HOOK_REPORT_SPOOL_WRITE_FAILED''
         ''Harness event report could not be written to the hook spool.'' (Some (er_provider r)))
         (SpooledReport r) err) (\<lambda>_.
       parsed valid_report_receipt ((report_receipt_for r (er_observedAt r) ReportSpooled)\<lparr>rr_error := err\<rparr>))"

subsection \<open>Deliveries (sender.ts)\<close>

text \<open>
  The observer's answer to a request within the time limit. A receipt that is not positive is
  thrown inside the boundary, as its error or as a new one.
\<close>

definition deliver_hook ::
  "(hook_event \<Rightarrow> hook_receipt attempt hook_action) \<Rightarrow> hook_event \<Rightarrow> (safe_error + hook_receipt) hook_action" where
  "deliver_hook request e =
     in_timed_boundary
       (error_with ''HookDeliveryError'' ''HOOK_DELIVERY_FAILED''
         ''Hook event could not be delivered to the observer.'' (Some (hk_provider e)))
       (error_with ''TimeoutError'' ''HOOK_DELIVERY_TIMEOUT'' ''Hook event delivery timed out.'' (Some (hk_provider e)))
       (and_then (emit DeliveryTried) (\<lambda>_.
        and_try (request e) (\<lambda>receipt.
          if hr_status receipt = HookIngested then give (AttemptReturns receipt)
          else give (AttemptThrows (ThrownObject (case hr_error receipt of
            Some err \<Rightarrow> err
          | None \<Rightarrow> fallback_error (error_with ''HookDeliveryError'' ''HOOK_REJECTED''
              ''Observer rejected the hook event.'' (Some (hk_provider e)))) None)))))"

definition attempt_hook_delivery ::
  "(hook_event \<Rightarrow> hook_receipt attempt hook_action) \<Rightarrow> hook_event \<Rightarrow> delivery_attempt hook_action" where
  "attempt_hook_delivery request e =
     and_then (deliver_hook request e) (\<lambda>delivery. give (case delivery of
       Inr receipt \<Rightarrow>
         if hr_status receipt = HookIngested then \<lparr>da_receipt = Some receipt, da_error = None\<rparr>
         else \<lparr>da_receipt = None, da_error = hr_error receipt\<rparr>
     | Inl err \<Rightarrow> \<lparr>da_receipt = None, da_error = Some err\<rparr>))"

record sender =
  sn_locks :: lock_environment
  sn_startup :: startup_environment
  sn_spool :: spool_writer
  sn_hookId :: "nat \<Rightarrow> string"
  sn_now :: "nat \<Rightarrow> timestamp"

record hook_input =
  hi_provider :: provider_id
  hi_kind :: hook_kind
  hi_event :: string
  hi_payload :: "json option"

definition send_provider_hook_event ::
  "sender \<Rightarrow> delivery_options \<Rightarrow> (hook_event \<Rightarrow> hook_receipt attempt hook_action) \<Rightarrow> hook_input \<Rightarrow>
     hook_receipt hook_action" where
  "send_provider_hook_event sd opts request input =
     and_then (observe (sn_hookId sd)) (\<lambda>hookId.
     and_then (observe (sn_now sd)) (\<lambda>receivedAt.
     and_then (parsed valid_hook_event
       \<lparr>hk_hookId = Some hookId, hk_provider = hi_provider input, hk_kind = hi_kind input,
        hk_event = hi_event input, hk_receivedAt = receivedAt, hk_projectId = None, hk_worktreeId = None,
        hk_sessionId = None, hk_payload = hi_payload input\<rparr>) (\<lambda>e.
     deliver_provider_hook_with_spooling (sn_locks sd) (sn_startup sd) opts (attempt_hook_delivery request e)
       (write_provider_hook_spool_record (sn_spool sd) e))))"

text \<open>Harness reports take the same way; their receipts are translated to hook receipts and back.\<close>

definition hook_receipt_from_report_receipt :: "report_receipt \<Rightarrow> hook_receipt" where
  "hook_receipt_from_report_receipt r =
     (let status = (case rr_status r of ReportAccepted \<Rightarrow> HookIngested | ReportSpooled \<Rightarrow> HookSpooled | ReportRejected \<Rightarrow> HookRejected)
      in \<lparr>hr_hookId = rr_reportId r, hr_provider = rr_provider r, hr_event = rr_eventType r,
          hr_accepted = rr_accepted r, hr_status = status, hr_receivedAt = rr_receivedAt r,
          hr_reconciled = (if status = HookIngested then Some False else None),
          hr_spooled = (if status = HookSpooled then Some True else None),
          hr_deduped = rr_deduped r, hr_error = rr_error r\<rparr>)"

definition report_receipt_from_hook_receipt :: "event_report \<Rightarrow> hook_receipt \<Rightarrow> report_receipt" where
  "report_receipt_from_hook_receipt report receipt =
     \<lparr>rr_reportId = er_reportId report, rr_provider = er_provider report, rr_eventType = er_eventType report,
      rr_accepted = hr_accepted receipt,
      rr_status = (case hr_status receipt of
        HookIngested \<Rightarrow> ReportAccepted | HookSpooled \<Rightarrow> ReportSpooled | _ \<Rightarrow> ReportRejected),
      rr_receivedAt = hr_receivedAt receipt, rr_projected = Some False, rr_scheduledReconcile = Some False,
      rr_deduped = hr_deduped receipt, rr_error = hr_error receipt\<rparr>"

definition deliver_harness_event_report ::
  "(event_report \<Rightarrow> report_receipt attempt hook_action) \<Rightarrow> event_report \<Rightarrow> (safe_error + report_receipt) hook_action" where
  "deliver_harness_event_report request r =
     in_timed_boundary
       (error_with ''HookDeliveryError'' ''HOOK_REPORT_DELIVERY_FAILED''
         ''Harness event report could not be delivered to the observer.'' (Some (er_provider r)))
       (error_with ''TimeoutError'' ''HOOK_REPORT_DELIVERY_TIMEOUT''
         ''Harness event report delivery timed out.'' (Some (er_provider r)))
       (and_then (emit DeliveryTried) (\<lambda>_.
        and_try (request r) (\<lambda>receipt.
          if rr_status receipt = ReportAccepted then give (AttemptReturns receipt)
          else give (AttemptThrows (ThrownObject (case rr_error receipt of
            Some err \<Rightarrow> err
          | None \<Rightarrow> fallback_error (error_with ''HookDeliveryError'' ''HOOK_REPORT_REJECTED''
              ''Observer rejected the harness event report.'' (Some (er_provider r)))) None)))))"

definition attempt_harness_event_report_delivery ::
  "(event_report \<Rightarrow> report_receipt attempt hook_action) \<Rightarrow> event_report \<Rightarrow> delivery_attempt hook_action" where
  "attempt_harness_event_report_delivery request r =
     and_then (deliver_harness_event_report request r) (\<lambda>delivery. case delivery of
       Inr receipt \<Rightarrow>
         if rr_status receipt = ReportAccepted
         then and_then (parsed valid_hook_receipt (hook_receipt_from_report_receipt receipt))
           (\<lambda>h. give \<lparr>da_receipt = Some h, da_error = None\<rparr>)
         else give \<lparr>da_receipt = None, da_error = rr_error receipt\<rparr>
     | Inl err \<Rightarrow> give \<lparr>da_receipt = None, da_error = Some err\<rparr>)"

definition synthetic_event :: "event_report \<Rightarrow> hook_event" where
  "synthetic_event r =
     \<lparr>hk_hookId = Some (er_reportId r), hk_provider = er_provider r, hk_kind = HookHarness,
      hk_event = er_eventType r, hk_receivedAt = er_observedAt r, hk_projectId = None,
      hk_worktreeId = None, hk_sessionId = None, hk_payload = er_providerData r\<rparr>"

definition send_harness_event_report ::
  "sender \<Rightarrow> delivery_options \<Rightarrow> (event_report \<Rightarrow> report_receipt attempt hook_action) \<Rightarrow> event_report \<Rightarrow>
     report_receipt hook_action" where
  "send_harness_event_report sd opts request r =
     and_then (parsed valid_hook_event (synthetic_event r)) (\<lambda>_.
     and_then (deliver_provider_hook_with_spooling (sn_locks sd) (sn_startup sd) opts
         (attempt_harness_event_report_delivery request r)
         (\<lambda>err. and_then (write_harness_event_report_spool_record (sn_spool sd) r err)
           (\<lambda>receipt. parsed valid_hook_receipt (hook_receipt_from_report_receipt receipt)))) (\<lambda>receipt.
       give (report_receipt_from_hook_receipt r receipt)))"


subsection \<open>Requests to an observer\<close>

text \<open>
  What can become of a request: it is lost, or the time limit strikes before it arrives; it arrives
  and its answer is lost, or comes too late; it arrives and is answered. An ingestion that throws is
  answered with an error, which the client throws.
\<close>

datatype trip = TripLost thrown | TripNeverArrives | TripAnswerLost thrown | TripAnswerLate | TripAnswered

definition request_over ::
  "(nat \<Rightarrow> trip) \<Rightarrow> (thrown \<Rightarrow> thrown) \<Rightarrow> ('q \<Rightarrow> 'r hook_action) \<Rightarrow> 'q \<Rightarrow> 'r attempt hook_action" where
  "request_over trips remote handle q =
     and_then (observe trips) (\<lambda>t. case t of
       TripLost v \<Rightarrow> give (AttemptThrows v)
     | TripNeverArrives \<Rightarrow> give AttemptTimesOut
     | TripAnswerLost v \<Rightarrow> branching (handle q) (\<lambda>_. give (AttemptThrows v)) (\<lambda>_. give (AttemptThrows v))
     | TripAnswerLate \<Rightarrow> branching (handle q) (\<lambda>_. give AttemptTimesOut) (\<lambda>_. give AttemptTimesOut)
     | TripAnswered \<Rightarrow> branching (handle q) (\<lambda>v. give (AttemptThrows (remote v))) (\<lambda>r. give (AttemptReturns r)))"

end
