(* ===== verification/HookProperties.thy ===== *)
theory HookProperties
  imports HookDelivery
begin

section \<open>Correctness of the hooks' way\<close>

text \<open>
  A hook handed to the sender is recorded exactly once: at once or, through the spool, by the next
  drain that meets no failure, however often the requests or their answers were lost. Every effect of
  the way leaves the store in order, and a spool file goes away only when its hook was recorded.
\<close>

subsection \<open>Invariants of the log\<close>

text \<open>What holds of the log before an action holds after it.\<close>

definition keeps :: "('e list \<Rightarrow> bool) \<Rightarrow> ('e, 'a) action \<Rightarrow> bool" where
  "keeps I m = (\<forall>w r w'. m w = (r, w') \<longrightarrow> I (wd_events w) \<longrightarrow> I (wd_events w'))"

lemma keepsD: "keeps I m \<Longrightarrow> m w = (r, w') \<Longrightarrow> I (wd_events w) \<Longrightarrow> I (wd_events w')"
  by (auto simp: keeps_def)

named_theorems keeps_intros

lemma keeps_give [keeps_intros]: "keeps I (give x)"
  by (simp add: keeps_def give_def)

lemma keeps_throw [keeps_intros]: "keeps I (throw v)"
  by (simp add: keeps_def throw_def)

lemma keeps_throw_error [keeps_intros]: "keeps I (throw_error e)"
  by (simp add: throw_error_def keeps_throw)

lemma keeps_settle [keeps_intros]: "keeps I (settle r)"
  by (simp add: keeps_def settle_def)

lemma keeps_observe [keeps_intros]: "keeps I (observe f)"
  by (simp add: keeps_def observe_def)

lemma keeps_logged [keeps_intros]: "keeps I (logged f)"
  by (simp add: keeps_def logged_def)

lemma keeps_parsed [keeps_intros]: "keeps I (parsed ok x)"
  by (simp add: parsed_def keeps_give keeps_throw)

lemma keeps_emit: "(\<And>log. I log \<Longrightarrow> I (log @ [e])) \<Longrightarrow> keeps I (emit e)"
  by (auto simp: keeps_def emit_def)

lemma keeps_transaction: "(\<And>log. I log \<Longrightarrow> I (log @ snd (task log))) \<Longrightarrow> keeps I (run_transaction db task)"
  by (auto simp: keeps_def run_transaction_def split: option.splits prod.splits) force

lemma keeps_and_then [keeps_intros]: "keeps I m \<Longrightarrow> (\<And>x. keeps I (f x)) \<Longrightarrow> keeps I (and_then m f)"
  unfolding keeps_def and_then_def by (auto split: prod.splits sum.splits)

lemma keeps_catching [keeps_intros]: "keeps I m \<Longrightarrow> (\<And>v. keeps I (h v)) \<Longrightarrow> keeps I (catching m h)"
  unfolding keeps_def catching_def by (auto split: prod.splits sum.splits)

lemma keeps_branching [keeps_intros]:
  "keeps I m \<Longrightarrow> (\<And>v. keeps I (h v)) \<Longrightarrow> (\<And>x. keeps I (f x)) \<Longrightarrow> keeps I (branching m h f)"
  unfolding keeps_def branching_def by (auto split: prod.splits sum.splits)

lemma keeps_in_boundary [keeps_intros]: "keeps I m \<Longrightarrow> keeps I (in_boundary fallback m)"
  by (auto simp: keeps_def in_boundary_def split: prod.splits)

lemma keeps_in_timed_boundary [keeps_intros]: "keeps I m \<Longrightarrow> keeps I (in_timed_boundary fallback limit m)"
  unfolding in_timed_boundary_def by (intro keeps_intros)

lemma keeps_and_try [keeps_intros]:
  assumes "keeps I m" "\<And>x. keeps I (f x)"
  shows "keeps I (and_try m f)"
proof -
  have "keeps I (case a of AttemptReturns x \<Rightarrow> f x | AttemptThrows v \<Rightarrow> give (AttemptThrows v)
      | AttemptTimesOut \<Rightarrow> give AttemptTimesOut)" for a
    using assms(2) by (cases a) (simp_all add: keeps_give)
  then show ?thesis unfolding and_try_def by (intro keeps_and_then assms(1))
qed

lemma keeps_failing_write [keeps_intros]: "keeps I (emit e) \<Longrightarrow> keeps I (failing_write fails e)"
  unfolding failing_write_def by (intro keeps_and_then keeps_observe) (simp add: keeps_throw split: option.split)

lemma keeps_finally [keeps_intros]: "keeps I m \<Longrightarrow> keeps I f \<Longrightarrow> keeps I (finally_do m f)"
  unfolding finally_do_def by (intro keeps_intros)

lemma keeps_if [keeps_intros]: "keeps I m \<Longrightarrow> keeps I n \<Longrightarrow> keeps I (if b then m else n)"
  by simp

lemma keeps_option [keeps_intros]:
  "keeps I m \<Longrightarrow> (\<And>y. keeps I (f y)) \<Longrightarrow> keeps I (case x of None \<Rightarrow> m | Some y \<Rightarrow> f y)"
  by (simp split: option.split)

lemma keeps_sum [keeps_intros]:
  "(\<And>v. keeps I (f v)) \<Longrightarrow> (\<And>y. keeps I (g y)) \<Longrightarrow> keeps I (case x of Inl v \<Rightarrow> f v | Inr y \<Rightarrow> g y)"
  by (simp split: sum.split)

lemma keeps_prod [keeps_intros]: "(\<And>a b. keeps I (f a b)) \<Longrightarrow> keeps I (case p of (a, b) \<Rightarrow> f a b)"
  by (simp split: prod.split)


subsection \<open>Effects of the observer's side\<close>

definition event_key :: "hook_effect \<Rightarrow> (dedupe_kind \<times> string) option" where
  "event_key e =
     (case e of
        EventStored (ProviderHookIngested _ key _ _) \<Rightarrow> Some (DedupeHook, key)
      | EventStored (HarnessEventReported _ key _ _) \<Rightarrow> Some (DedupeHarnessReport, key)
      | _ \<Rightarrow> None)"

definition claimed_key :: "hook_effect \<Rightarrow> (dedupe_kind \<times> string) option" where
  "claimed_key e = (case e of KeyClaimed kind key \<Rightarrow> Some (kind, key) | _ \<Rightarrow> None)"

definition spool_effect :: "hook_effect \<Rightarrow> bool" where
  "spool_effect e = (case e of SpoolStored _ _ \<Rightarrow> True | SpoolRemoved _ \<Rightarrow> True | _ \<Rightarrow> False)"

definition plain :: "hook_effect \<Rightarrow> bool" where
  "plain e = (event_key e = None \<and> claimed_key e = None \<and> \<not> spool_effect e)"

lemma plain_simps [simp]:
  "plain (ObservationStored obs)" "plain (HandleStored handle)" "plain (EventPublished ev)"
  "plain (ReconcileRequested reason)" "plain (SpoolRead path r)" "plain DeliveryTried" "plain LockMade"
  "plain LockRemoved" "plain ObserverSpawned" "plain ObserverKilled" "plain SocketRemoved"
  "plain (EventStored (ProviderHookSpoolDrained at d f))"
  by (simp_all add: plain_def event_key_def claimed_key_def spool_effect_def)

text \<open>
  What an invariant of the log needs: plain effects keep it, a free key may be claimed with its
  event, and the changes of the spool that are allowed keep it.
\<close>

locale log_invariant =
  fixes I :: "hook_effect list \<Rightarrow> bool" and spool_ok :: "hook_effect \<Rightarrow> bool"
  assumes plain_effect: "I log \<Longrightarrow> plain e \<Longrightarrow> I (log @ [e])"
    and claim: "I log \<Longrightarrow> KeyClaimed kind key \<notin> set log \<Longrightarrow> event_key ev = Some (kind, key) \<Longrightarrow>
      I (log @ [KeyClaimed kind key, ev])"
    and spool_change: "I log \<Longrightarrow> spool_effect e \<Longrightarrow> spool_ok e \<Longrightarrow> I (log @ [e])"
begin

lemma emits: "plain e \<Longrightarrow> keeps I (emit e)"
  by (rule keeps_emit) (rule plain_effect)

lemma changes: "spool_effect e \<Longrightarrow> spool_ok e \<Longrightarrow> keeps I (emit e)"
  by (rule keeps_emit) (rule spool_change)

lemma stores_hook [keeps_intros]:
  "keeps I (record_event_with_ingress_dedupe db DedupeHook key (ingested_event e key))"
  unfolding record_event_with_ingress_dedupe_def
  by (rule keeps_transaction)
    (auto simp: store_deduped_def intro!: claim simp: event_key_def ingested_event_def)

lemma stores_report [keeps_intros]:
  "keeps I (record_event_and_observation_with_ingress_dedupe db DedupeHarnessReport (er_reportId r) (reported_event r) obs)"
proof -
  have "I (log @ [KeyClaimed DedupeHarnessReport (er_reportId r), EventStored (reported_event r), ObservationStored obs])"
    if "I log" "KeyClaimed DedupeHarnessReport (er_reportId r) \<notin> set log" for log
    using plain_effect [OF claim [OF that], of "EventStored (reported_event r)" "ObservationStored obs"]
    by (simp add: event_key_def reported_event_def)
  then show ?thesis
    unfolding record_event_and_observation_with_ingress_dedupe_def
    by (intro keeps_transaction) (simp add: store_deduped_def)
qed

lemma stores_rest [keeps_intros]:
  "keeps I (record_provider_observation db obs)" "keeps I (upsert_session_recovery_handle db handle)"
  "keeps I (record_event db (ProviderHookSpoolDrained at d f))"
  unfolding record_provider_observation_def upsert_session_recovery_handle_def record_event_def
  by (auto intro!: keeps_transaction plain_effect)

lemma records_observations [keeps_intros]: "keeps I (record_observations db observations)"
  by (induction observations) (auto intro!: keeps_intros)

lemma routes [keeps_intros]: "keeps I (route_provider_hook env ps e)"
proof -
  have "keeps I (ingest_worktree_hook env ps e)" "keeps I (ingest_terminal_hook env ps e)"
    "keeps I (ingest_harness_hook env ps e)"
    unfolding ingest_worktree_hook_def ingest_terminal_hook_def ingest_harness_hook_def harness_event_context_def
    by (auto intro!: keeps_intros split: option.split)
  then show ?thesis
    unfolding route_provider_hook_def by (auto intro!: keeps_intros split: hook_kind.split)
qed

lemma answers_hook: "keeps I (answer_hook env trigger e key persisted)"
  unfolding answer_hook_def ingest_provider_hook_event_def request_hook_reconcile_def
  by (auto intro!: keeps_intros emits split: sum.split option.split)

lemma answers_report: "keeps I (answer_report env trigger r receivedAt persisted)"
  unfolding answer_report_def request_hook_reconcile_def by (auto intro!: keeps_intros emits split: sum.split)

lemma ingests_hook [keeps_intros]: "keeps I (ingest_hook env trigger e)"
proof -
  have "keeps I (persist_hook env ev key)" for ev key
    unfolding persist_hook_def by (intro keeps_intros emits) simp
  then show ?thesis
    unfolding ingest_hook_def by (auto intro!: keeps_intros answers_hook split: option.split)
qed

lemma ingests_report [keeps_intros]: "keeps I (ingest_report env trigger r)"
proof -
  have "keeps I (persist_report env q)" for q
    unfolding persist_report_def by (intro keeps_intros emits) simp
  then show ?thesis
    unfolding ingest_report_def by (auto intro!: keeps_intros answers_report)
qed

lemma drains_path:
  assumes "\<And>r. spool_ok (SpoolStored path r)" "spool_ok (SpoolRemoved path)"
    "\<And>e. keeps I (ingest e)" "\<And>m r. report = Some m \<Longrightarrow> keeps I (m r)"
  shows "keeps I (drain_path sp ingest report path)"
proof -
  have "keeps I (emit (SpoolStored path r))" "keeps I (emit (SpoolRemoved path))" for r
    using assms(1,2) by (auto intro!: changes simp: spool_effect_def)
  moreover have "keeps I (drain_spool_record ingest report r)" for r
    unfolding drain_spool_record_def using assms(3,4)
    by (auto intro!: keeps_intros split: spooled.split option.split)
  moreover have "keeps I (read_spool_record sp path)"
    unfolding read_spool_record_def by (auto intro!: keeps_intros emits split: option.split)
  ultimately show ?thesis
    unfolding drain_path_def update_failed_spool_record_def
    by (auto intro!: keeps_intros split: option.split)
qed

end


subsection \<open>The store is in order\<close>

text \<open>Events are stored with their keys, in turn, and no key twice.\<close>

definition store_ok :: "hook_effect list \<Rightarrow> bool" where
  "store_ok log =
     (List.map_filter event_key log = List.map_filter claimed_key log \<and>
      distinct (List.map_filter claimed_key log))"

lemma map_filter_append [simp]: "List.map_filter f (xs @ ys) = List.map_filter f xs @ List.map_filter f ys"
  by (simp add: List.map_filter_def)

lemma map_filter_simps [simp]:
  "List.map_filter f [] = []"
  "List.map_filter f (x # xs) = (case f x of None \<Rightarrow> List.map_filter f xs | Some y \<Rightarrow> y # List.map_filter f xs)"
  by (simp_all add: List.map_filter_def split: option.split)

lemma claimed_in_log: "(kind, key) \<in> set (List.map_filter claimed_key log) \<longleftrightarrow> KeyClaimed kind key \<in> set log"
  by (induction log) (auto simp: claimed_key_def split: hook_effect.splits)

lemma claimed_no_event: "event_key (KeyClaimed kind key) = None" "claimed_key (EventStored ev) = None"
  "event_key e = Some k \<Longrightarrow> claimed_key e = None" "spool_effect e \<Longrightarrow> event_key e = None \<and> claimed_key e = None"
  by (auto simp: event_key_def claimed_key_def spool_effect_def split: hook_effect.splits)

interpretation store: log_invariant store_ok "\<lambda>_. True"
proof
  fix log e
  assume "store_ok log" "plain e"
  then show "store_ok (log @ [e])" by (simp add: store_ok_def plain_def)
next
  fix log kind key ev
  assume "store_ok log" "KeyClaimed kind key \<notin> set log" "event_key ev = Some (kind, key)"
  moreover have "claimed_key ev = None" using calculation(3) by (simp add: claimed_no_event)
  moreover have "claimed_key (KeyClaimed kind key) = Some (kind, key)" by (simp add: claimed_key_def)
  ultimately show "store_ok (log @ [KeyClaimed kind key, ev])"
    by (auto simp: store_ok_def claimed_no_event claimed_in_log)
next
  fix log e
  assume "store_ok log" "spool_effect e"
  then show "store_ok (log @ [e])" by (simp add: store_ok_def claimed_no_event)
qed

subsection \<open>Keys stay claimed\<close>

interpretation key: log_invariant "\<lambda>log. KeyClaimed kind key \<in> set log" "\<lambda>_. True" for kind key
  by unfold_locales auto

lemma and_then_returns:
  assumes "and_then m f w = (Inr y, w')"
  obtains x w1 where "m w = (Inr x, w1)" "f x w1 = (Inr y, w')"
  using assms by (auto simp: and_then_def split: prod.splits sum.splits)

lemma parsed_returns: "parsed ok x w = (Inr y, w') \<longleftrightarrow> ok x \<and> y = x \<and> w' = w"
  by (auto simp: parsed_def give_def throw_def)

lemma persist_hook_claims:
  assumes "persist_hook env e key w = (r, w')"
  shows "(\<forall>v. r \<noteq> Inl v) \<or> (\<forall>t. he_database env t = None) \<Longrightarrow> KeyClaimed DedupeHook key \<in> set (wd_events w')"
  using assms
  by (auto simp: persist_hook_def record_event_with_ingress_dedupe_def and_then_def run_transaction_def
      store_deduped_def give_def emit_def split: option.splits if_splits)

lemma ingest_hook_runs:
  assumes "hk_hookId e = Some key" "valid_hook_event e" "persist_hook env e key w = (p, w1)"
  shows "ingest_hook env trigger e w =
    answer_hook env trigger e key (runtime_boundary_effect (hook_persist_fallback e) p) w1"
  using assms
  by (cases e) (simp add: ingest_hook_def parsed_def and_then_def give_def in_boundary_def)

lemma ingest_hook_records:
  assumes "hk_hookId e = Some key" "ingest_hook env trigger e w = (r, w')" "valid_hook_event e"
    and "(\<exists>receipt. r = Inr receipt \<and> hr_status receipt = HookIngested) \<or> (\<forall>t. he_database env t = None)"
  shows "KeyClaimed DedupeHook key \<in> set (wd_events w')"
proof -
  obtain p w1 where p: "persist_hook env e key w = (p, w1)" by fastforce
  have after: "answer_hook env trigger e key (runtime_boundary_effect (hook_persist_fallback e) p) w1 = (r, w')"
    using assms(2) ingest_hook_runs [OF assms(1,3) p] by simp
  have "(\<forall>v. p \<noteq> Inl v) \<or> (\<forall>t. he_database env t = None)"
    using assms(4) after
    by (cases p) (auto simp: answer_hook_def runtime_boundary_effect_def parsed_returns hook_receipt_for_def)
  then have "KeyClaimed DedupeHook key \<in> set (wd_events w1)" using persist_hook_claims [OF p] by blast
  then show ?thesis using keepsD [OF key.answers_hook after] by blast
qed

lemma persist_report_claims:
  assumes "persist_report env q w = (Inr deduped, w')"
  shows "KeyClaimed DedupeHarnessReport (er_reportId q) \<in> set (wd_events w')"
  using assms
  by (auto simp: persist_report_def record_event_and_observation_with_ingress_dedupe_def and_then_def
      run_transaction_def store_deduped_def give_def emit_def upsert_session_recovery_handle_def
      split: option.splits if_splits)

lemma ingest_report_records:
  assumes "ingest_report env trigger q w = (Inr receipt, w')" "rr_status receipt = ReportAccepted"
  shows "KeyClaimed DedupeHarnessReport (er_reportId q) \<in> set (wd_events w')"
proof -
  obtain p w1 where p: "persist_report env q (tick w) = (p, w1)" by fastforce
  have after: "answer_report env trigger q (he_clock env (wd_time w))
      (runtime_boundary_effect (report_persist_fallback q) p) w1 = (Inr receipt, w')"
    using assms(1) p
    by (auto simp: ingest_report_def parsed_def and_then_def give_def throw_def observe_def in_boundary_def
        split: if_splits)
  then obtain deduped where "p = Inr deduped"
    using assms(2) by (cases p) (auto simp: answer_report_def runtime_boundary_effect_def parsed_returns report_receipt_for_def)
  then have "KeyClaimed DedupeHarnessReport (er_reportId q) \<in> set (wd_events w1)"
    using persist_report_claims p by blast
  then show ?thesis using keepsD [OF key.answers_report after] by blast
qed


subsection \<open>The spool\<close>

lemma spool_file_snoc [simp]:
  "spool_file (log @ [e]) path =
     (case e of SpoolStored p r \<Rightarrow> if p = path then Some r else spool_file log path
      | SpoolRemoved p \<Rightarrow> if p = path then None else spool_file log path
      | _ \<Rightarrow> spool_file log path)"
  by (cases e) (simp_all add: spool_file_def)

text \<open>The key a spooled record is stored under; a hook without an identity gets a new one.\<close>

definition record_key :: "spooled \<Rightarrow> (dedupe_kind \<times> string) option" where
  "record_key content =
     (case content of
        SpooledHook e \<Rightarrow> map_option (Pair DedupeHook) (hk_hookId e)
      | SpooledReport r \<Rightarrow> Some (DedupeHarnessReport, er_reportId r))"

definition recorded :: "spooled \<Rightarrow> hook_effect list \<Rightarrow> bool" where
  "recorded content log = (\<forall>kind key. record_key content = Some (kind, key) \<longrightarrow> KeyClaimed kind key \<in> set log)"

text \<open>What was in a valid file is still in it, or recorded.\<close>

definition accounted :: "string \<Rightarrow> spooled \<Rightarrow> hook_effect list \<Rightarrow> bool" where
  "accounted path content log =
     (recorded content log \<or>
      (\<exists>r. spool_file log path = Some r \<and> sp_content r = content \<and> valid_spool_record r))"

definition elsewhere :: "string \<Rightarrow> hook_effect \<Rightarrow> bool" where
  "elsewhere path e = (case e of SpoolStored p _ \<Rightarrow> p \<noteq> path | SpoolRemoved p \<Rightarrow> p \<noteq> path | _ \<Rightarrow> True)"

lemma recorded_mono: "recorded content log \<Longrightarrow> recorded content (log @ rest)"
  by (auto simp: recorded_def)

lemma plain_file: "plain e \<Longrightarrow> spool_file (log @ [e]) path = spool_file log path"
  by (auto simp: plain_def spool_effect_def split: hook_effect.splits)

lemma event_not_spool: "event_key e = Some k \<Longrightarrow> \<not> spool_effect e"
  by (auto simp: event_key_def spool_effect_def split: hook_effect.splits)

lemma no_spool_file: "\<not> spool_effect e \<Longrightarrow> spool_file (log @ [e]) path = spool_file log path"
  by (auto simp: spool_effect_def split: hook_effect.splits)

interpretation account: log_invariant "accounted path content" "elsewhere path" for path content
proof
  fix log e
  assume "accounted path content log" "plain e"
  then show "accounted path content (log @ [e])"
    by (auto simp del: spool_file_snoc simp: accounted_def plain_file intro: recorded_mono)
next
  fix log kind key ev
  assume a: "accounted path content log" "event_key ev = Some (kind, key)"
  have "spool_file (log @ [KeyClaimed kind key] @ [ev]) path = spool_file log path"
    using no_spool_file [OF event_not_spool [OF a(2)], of "log @ [KeyClaimed kind key]" path] by simp
  with a(1) show "accounted path content (log @ [KeyClaimed kind key, ev])"
    by (auto simp: accounted_def intro: recorded_mono)
next
  fix log e
  assume "accounted path content log" "spool_effect e" "elsewhere path e"
  then show "accounted path content (log @ [e])"
    by (auto simp: accounted_def elsewhere_def spool_effect_def intro: recorded_mono split: hook_effect.splits)
qed

text \<open>What draining relies on: a positive receipt means that the hook or report was recorded.\<close>

locale spool_consumer =
  fixes ingest :: "hook_event \<Rightarrow> hook_receipt hook_action"
    and report :: "event_report \<Rightarrow> report_receipt hook_action"
  assumes hook_recorded: "valid_hook_event e \<Longrightarrow> ingest e w = (Inr receipt, w') \<Longrightarrow>
      hr_status receipt = HookIngested \<Longrightarrow> recorded (SpooledHook e) (wd_events w')"
    and report_recorded: "report p w = (Inr answer, w') \<Longrightarrow> rr_status answer = ReportAccepted \<Longrightarrow>
      recorded (SpooledReport p) (wd_events w')"
    and ingest_keeps: "log_invariant I ok \<Longrightarrow> keeps I (ingest e)"
    and report_keeps: "log_invariant I ok \<Longrightarrow> keeps I (report p)"
begin

lemma drain_record_done:
  assumes "drain_spool_record ingest (Some report) r w = (Inr None, w')" "valid_spool_record r"
  shows "recorded (sp_content r) (wd_events w')"
proof (cases "sp_content r")
  case (SpooledHook e)
  with assms show ?thesis
    by (auto simp: drain_spool_record_def valid_spool_record_def elim!: and_then_returns
        simp: give_def split: if_splits intro: hook_recorded)
next
  case (SpooledReport p)
  with assms(1) show ?thesis
    by (auto simp: drain_spool_record_def elim!: and_then_returns simp: give_def split: if_splits intro: report_recorded)
qed

lemma drain_other_path:
  "path' \<noteq> path \<Longrightarrow> keeps (accounted path content) (drain_path sp ingest (Some report) path')"
  by (rule account.drains_path)
    (auto simp: elsewhere_def intro: ingest_keeps [OF account.log_invariant_axioms]
      report_keeps [OF account.log_invariant_axioms])

lemma drain_record_keeps: "keeps (accounted path content) (drain_spool_record ingest (Some report) r)"
  unfolding drain_spool_record_def
  by (auto intro!: keeps_intros ingest_keeps [OF account.log_invariant_axioms]
      report_keeps [OF account.log_invariant_axioms] split: spooled.split)

lemma update_keeps:
  assumes "sp_content r = content"
  shows "keeps (accounted path content) (update_failed_spool_record sp path r err)"
proof -
  have "accounted path content log \<Longrightarrow> accounted path content (log @ [SpoolStored path r'])"
    if "sp_content r' = content" "valid_spool_record r'" for log r'
    using that by (auto simp: accounted_def)
  then have "keeps (accounted path content) (failing_write f (SpoolStored path r'))"
    if "sp_content r' = content" "valid_spool_record r'" for f r'
    using that by (intro keeps_failing_write keeps_emit)
  then have kept: "accounted path content (wd_events w')"
    if "failing_write f (SpoolStored path r') w = (x, w')" "accounted path content (wd_events w)" "sp_content r' = content"
      "valid_spool_record r'"
    for f r' w x w'
    using that keepsD by blast
  show ?thesis
    unfolding update_failed_spool_record_def parsed_def keeps_def
    by (auto simp: and_then_def give_def throw_def assms intro: kept)
qed

lemma keeps_recorded: "keeps (recorded content) (drain_path sp ingest (Some report) path)"
proof -
  have "log_invariant (recorded content) (\<lambda>_. True)"
    by unfold_locales (auto intro: recorded_mono)
  then show ?thesis by (auto intro!: log_invariant.drains_path ingest_keeps report_keeps)
qed

lemma drain_body_keeps:
  assumes "and_then (drain_spool_record ingest (Some report) r) (\<lambda>outcome.
      case outcome of
        None \<Rightarrow> and_then (failing_write (se_removes sp) (SpoolRemoved path)) (\<lambda>_. give True)
      | Some err \<Rightarrow> and_then (update_failed_spool_record sp path r err) (\<lambda>_. give False)) w = (y, w')"
    and "accounted path (sp_content r) (wd_events w)" "valid_spool_record r"
  shows "accounted path (sp_content r) (wd_events w')"
proof -
  obtain res w2 where d: "drain_spool_record ingest (Some report) r w = (res, w2)" by fastforce
  have acc: "accounted path (sp_content r) (wd_events w2)"
    using keepsD [OF drain_record_keeps d assms(2)] .
  show ?thesis
  proof (cases res)
    case (Inl v)
    with assms(1) d acc show ?thesis by (simp add: and_then_def)
  next
    case (Inr outcome)
    show ?thesis
    proof (cases outcome)
      case None
      with d Inr have "recorded (sp_content r) (wd_events w2)" using drain_record_done assms(3) by blast
      then have "accounted path (sp_content r) (wd_events w2 @ rest)" for rest
        by (simp add: accounted_def recorded_mono)
      from this [of "[]"] this [of "[SpoolRemoved path]"] assms(1) d Inr None show ?thesis
        by (auto simp: and_then_def failing_write_def observe_def emit_def give_def throw_def split: option.splits)
    next
      case (Some err)
      have "keeps (accounted path (sp_content r)) (and_then (update_failed_spool_record sp path r err) (\<lambda>_. give False))"
        by (intro keeps_intros update_keeps) simp
      moreover have "and_then (update_failed_spool_record sp path r err) (\<lambda>_. give False) w2 = (y, w')"
        using assms(1) d Inr Some by (simp add: and_then_def)
      ultimately show ?thesis using acc keepsD by blast
    qed
  qed
qed

lemma drain_own_path:
  assumes run: "drain_path sp ingest (Some report) path w = (x, w')" and before: "accounted path content (wd_events w)"
  shows "accounted path content (wd_events w')"
proof (cases "recorded content (wd_events w)")
  case True
  with run show ?thesis using keepsD [OF keeps_recorded] accounted_def by blast
next
  case False
  then obtain r where there: "spool_file (wd_events w) path = Some r" and r: "content = sp_content r"
    using before by (auto simp: accounted_def)
  show ?thesis
  proof (cases "se_readable sp (wd_time w) \<and> valid_spool_record r")
    case False
    with run there have "wd_events w' = wd_events w"
      by (auto simp: drain_path_def read_spool_record_def and_then_def observe_def logged_def give_def)
    with before show ?thesis by simp
  next
    case True
    define w1 where "w1 = (tick w)\<lparr>wd_events := wd_events w @ [SpoolRead path r]\<rparr>"
    have acc: "accounted path (sp_content r) (wd_events w1)"
      using account.plain_effect [OF before, of "SpoolRead path r"] r by (simp add: w1_def)
    let ?body = "and_then (drain_spool_record ingest (Some report) r) (\<lambda>outcome.
      case outcome of
        None \<Rightarrow> and_then (failing_write (se_removes sp) (SpoolRemoved path)) (\<lambda>_. give True)
      | Some err \<Rightarrow> and_then (update_failed_spool_record sp path r err) (\<lambda>_. give False))"
    let ?handler = "\<lambda>v. and_then (update_failed_spool_record sp path r
      (Some (safe_error_from_unknown v (drain_fallback r)))) (\<lambda>_. give False)"
    have run1: "catching ?body ?handler w1 = (x, w')"
      using run there True
      by (simp add: drain_path_def read_spool_record_def and_then_def [where m = "observe _"]
          and_then_def [where m = "logged _"] and_then_def [where m = "emit _"] and_then_def [where m = "and_then _ _"]
          observe_def logged_def give_def emit_def w1_def)
    obtain y w2 where body: "?body w1 = (y, w2)" by fastforce
    have acc2: "accounted path (sp_content r) (wd_events w2)"
      using drain_body_keeps [OF body acc] True by blast
    show ?thesis
    proof (cases y)
      case (Inl v)
      have "keeps (accounted path (sp_content r)) (?handler v)"
        by (intro keeps_intros update_keeps) simp
      moreover have "?handler v w2 = (x, w')" using run1 body Inl by (simp add: catching_def)
      ultimately show ?thesis using acc2 keepsD r by blast
    next
      case (Inr b)
      then show ?thesis using run1 body acc2 r by (simp add: catching_def)
    qed
  qed
qed

lemma drain_path_accounts: "keeps (accounted path content) (drain_path sp ingest (Some report) p)"
  using drain_own_path drain_other_path unfolding keeps_def by (cases "p = path") blast+

lemma drain_all_accounts:
  "keeps (accounted path content) (drain_all sp ingest (Some report) paths counts)"
proof (induction paths arbitrary: counts)
  case Nil
  then show ?case by (simp add: keeps_give)
next
  case (Cons p paths)
  show ?case by (simp add: keeps_and_then Cons.IH drain_path_accounts)
qed

lemma drain_accounts:
  "keeps (accounted path content) (drain_provider_ingress_spool env sp ingest (Some report))"
  unfolding drain_provider_ingress_spool_def
  by (auto intro!: keeps_intros drain_all_accounts account.emits account.stores_rest)

end


context log_invariant
begin

lemma publishes [keeps_intros]: "keeps I (publish_all evs)"
  by (induction evs) (auto intro!: keeps_intros emits)

lemma projects_report: "keeps I (project_recorded_report env project r receipt)"
  unfolding project_recorded_report_def by (auto intro!: keeps_intros split: sum.split)

lemma processes_report [keeps_intros]: "keeps I (process_harness_ingress_report env project r)"
  unfolding process_harness_ingress_report_def by (auto intro!: keeps_intros projects_report)

lemma reports_from_spool [keeps_intros]: "keeps I (report_from_spool env project r)"
  unfolding report_from_spool_def by (auto intro!: keeps_intros emits split: option.split)

lemma drains:
  assumes "\<And>e. spool_effect e \<Longrightarrow> spool_ok e" "\<And>e. keeps I (ingest e)" "\<And>r. keeps I (report r)"
  shows "keeps I (drain_provider_ingress_spool env sp ingest (Some report))"
proof -
  have "keeps I (drain_all sp ingest (Some report) paths counts)" for paths counts
  proof (induction paths arbitrary: counts)
    case Nil
    show ?case by (simp add: keeps_give)
  next
    case (Cons p paths)
    have "keeps I (drain_path sp ingest (Some report) p)"
      by (rule drains_path) (auto intro: assms simp: spool_effect_def)
    then show ?case by (simp add: keeps_and_then Cons.IH)
  qed
  then show ?thesis
    unfolding drain_provider_ingress_spool_def by (auto intro!: keeps_intros emits)
qed

text \<open>The sender's side.\<close>

lemma attempts_hook: "(\<And>e. keeps I (request e)) \<Longrightarrow> keeps I (attempt_hook_delivery request e)"
  unfolding attempt_hook_delivery_def deliver_hook_def
  by (auto intro!: keeps_intros emits split: sum.split)

lemma requests_over: "(\<And>q. keeps I (handle q)) \<Longrightarrow> keeps I (request_over trips remote handle q)"
  unfolding request_over_def by (intro keeps_intros) (auto intro!: keeps_intros split: trip.split)

lemma starts_observer: "keeps I (start_observer su)"
proof -
  have "keeps I (spawn_and_wait su)" "keeps I (get_observer_status su)"
    unfolding spawn_and_wait_def get_observer_status_def by (auto intro!: keeps_intros emits split: option.split)
  then show ?thesis
    unfolding start_observer_def by (auto intro!: keeps_intros emits split: sum.split)
qed

lemma locks: "keeps I (lock_attempts lk ms n)"
  unfolding is_auto_start_lock_stale_def
  by (induction n)
    (auto simp: is_auto_start_lock_stale_def intro!: keeps_intros emits split: mkdir_answer.split)

lemma maybe_starts: "keeps I (maybe_start_observer lk su opts)"
  unfolding maybe_start_observer_def acquire_auto_start_lock_def wait_for_contended_auto_start_def
  by (auto intro!: keeps_intros locks starts_observer emits split: auto_start_lock.split option.split)

lemma delivers_or_spools:
  "keeps I deliver \<Longrightarrow> (\<And>err. keeps I (spool err)) \<Longrightarrow>
   keeps I (deliver_provider_hook_with_spooling lk su opts deliver spool)"
  unfolding deliver_provider_hook_with_spooling_def
  by (auto intro!: keeps_intros maybe_starts split: option.split sum.split)

lemma writes_spool:
  assumes "\<And>path r. spool_ok (SpoolStored path r)"
  shows "keeps I (write_provider_hook_spool_record sw e err)"
proof -
  have "keeps I (emit (SpoolStored path r))" for path r
    by (rule changes) (simp_all add: spool_effect_def assms)
  then show ?thesis
    unfolding write_provider_hook_spool_record_def write_spool_record_def
    by (auto intro!: keeps_intros split: sum.split)
qed

end

text \<open>What the first action of two brought about, the second leaves in place.\<close>

lemma and_then_establishes:
  assumes "and_then m f w = (Inr y, w')" "\<And>x. keeps I (f x)"
    and "\<And>x w1. m w = (Inr x, w1) \<Longrightarrow> f x w1 = (Inr y, w') \<Longrightarrow> I (wd_events w1)"
  shows "I (wd_events w')"
  using assms(1) by (rule and_then_returns) (use assms(2,3) keepsD in blast)

lemma project_recorded_report_status:
  "project_recorded_report env project r receipt w = (Inr x, w') \<Longrightarrow> rr_status (fst x) = rr_status receipt"
  unfolding project_recorded_report_def
  by (auto simp: give_def parsed_returns elim!: and_then_returns split: if_splits sum.splits prod.splits)

lemma process_report_records:
  assumes "process_harness_ingress_report env project p w = (Inr x, w')" "rr_status (fst x) = ReportAccepted"
  shows "KeyClaimed DedupeHarnessReport (er_reportId p) \<in> set (wd_events w')"
proof (rule and_then_establishes [OF assms(1) [unfolded process_harness_ingress_report_def],
      of "\<lambda>log. KeyClaimed DedupeHarnessReport (er_reportId p) \<in> set log"])
  show "keeps (\<lambda>log. KeyClaimed DedupeHarnessReport (er_reportId p) \<in> set log)
      (project_recorded_report env project p receipt)" for receipt
    by (rule key.projects_report)
next
  fix receipt w1
  assume "ingest_report env False p w = (Inr receipt, w1)" "project_recorded_report env project p receipt w1 = (Inr x, w')"
  then show "KeyClaimed DedupeHarnessReport (er_reportId p) \<in> set (wd_events w1)"
    using ingest_report_records assms(2) project_recorded_report_status by metis
qed

lemma report_from_spool_records:
  assumes "report_from_spool env project p w = (Inr answer, w')" "rr_status answer = ReportAccepted"
  shows "KeyClaimed DedupeHarnessReport (er_reportId p) \<in> set (wd_events w')"
proof (rule and_then_establishes [OF assms(1) [unfolded report_from_spool_def],
      of "\<lambda>log. KeyClaimed DedupeHarnessReport (er_reportId p) \<in> set log"])
  show "keeps (\<lambda>log. KeyClaimed DedupeHarnessReport (er_reportId p) \<in> set log)
      (case x of (receipt, reason) \<Rightarrow> and_then (case reason of None \<Rightarrow> give ()
        | Some why \<Rightarrow> emit (ReconcileRequested why)) (\<lambda>_. give receipt))" for x
    by (auto intro!: keeps_intros key.emits split: prod.split option.split)
next
  fix x w1
  assume x: "process_harness_ingress_report env project p w = (Inr x, w1)"
    and rest: "(case x of (receipt, reason) \<Rightarrow> and_then (case reason of None \<Rightarrow> give ()
        | Some why \<Rightarrow> emit (ReconcileRequested why)) (\<lambda>_. give receipt)) w1 = (Inr answer, w')"
  have "fst x = answer"
    using rest by (auto simp: and_then_def give_def emit_def split: option.splits prod.splits)
  then show "KeyClaimed DedupeHarnessReport (er_reportId p) \<in> set (wd_events w1)"
    using process_report_records [OF x] assms(2) by simp
qed

interpretation spool: spool_consumer "ingest_hook env False" "report_from_spool env project" for env project
proof
  fix e w receipt w'
  assume "valid_hook_event e" "ingest_hook env False e w = (Inr receipt, w')" "hr_status receipt = HookIngested"
  then show "recorded (SpooledHook e) (wd_events w')"
    using ingest_hook_records by (auto simp: recorded_def record_key_def)
next
  fix p w answer w'
  assume "report_from_spool env project p w = (Inr answer, w')" "rr_status answer = ReportAccepted"
  then show "recorded (SpooledReport p) (wd_events w')"
    using report_from_spool_records by (auto simp: recorded_def record_key_def)
qed (auto intro: log_invariant.ingests_hook log_invariant.reports_from_spool)


lemma spool_path_listed: "spool_file log path = Some r \<Longrightarrow> path \<in> set (spool_paths log)"
proof -
  assume "spool_file log path = Some r"
  moreover have "spool_file log path \<noteq> None \<Longrightarrow> \<exists>r. SpoolStored path r \<in> set log"
    by (induction log rule: rev_induct) (auto simp: spool_file_def split: hook_effect.splits if_splits)
  ultimately show ?thesis
    by (force simp: spool_paths_def List.map_filter_def)
qed

subsection \<open>A drain without failures\<close>

text \<open>What the first of three actions brought about, the others leave in place, whatever is thrown.\<close>

lemma catching_after:
  assumes "catching (and_then (and_then m g) k) h w = (r, w')" "m w = (x, w1)" "I (wd_events w1)"
    and "\<And>y. keeps I (g y)" "\<And>y. keeps I (k y)" "\<And>v. keeps I (h v)"
  shows "I (wd_events w')"
proof (cases x)
  case (Inl v)
  then have "h v w1 = (r, w')" using assms(1,2) by (simp add: catching_def and_then_def)
  then show ?thesis using keepsD assms(3,6) by blast
next
  case (Inr y)
  then have "catching (and_then (g y) k) h w1 = (r, w')" using assms(1,2) by (simp add: catching_def and_then_def)
  moreover have "keeps I (catching (and_then (g y) k) h)" by (intro keeps_intros assms)
  ultimately show ?thesis using keepsD assms(3) by blast
qed

lemma drain_path_records:
  assumes run: "drain_path sp (ingest_hook env False) (Some report) path w = (x, w')"
    and works: "\<forall>t. he_database env t = None" "\<forall>t. se_readable sp t"
    and key: "hk_hookId e = Some key"
    and before: "accounted path (SpooledHook e) (wd_events w)" "\<not> recorded (SpooledHook e) (wd_events w)"
  shows "KeyClaimed DedupeHook key \<in> set (wd_events w')"
proof -
  obtain r where there: "spool_file (wd_events w) path = Some r" "sp_content r = SpooledHook e" "valid_spool_record r"
    using before by (auto simp: accounted_def)
  define w1 where "w1 = (tick w)\<lparr>wd_events := wd_events w @ [SpoolRead path r]\<rparr>"
  have run1: "catching (and_then (and_then (ingest_hook env False e) (\<lambda>receipt.
        give (if hr_status receipt = HookIngested then None else Some (hr_error receipt)))) (\<lambda>outcome.
      case outcome of
        None \<Rightarrow> and_then (failing_write (se_removes sp) (SpoolRemoved path)) (\<lambda>_. give True)
      | Some err \<Rightarrow> and_then (update_failed_spool_record sp path r err) (\<lambda>_. give False)))
      (\<lambda>v. and_then (update_failed_spool_record sp path r
        (Some (safe_error_from_unknown v (drain_fallback r)))) (\<lambda>_. give False)) w1 = (x, w')"
    using run there works(2)
    by (simp add: drain_path_def read_spool_record_def drain_spool_record_def
        and_then_def [where m = "observe _"] and_then_def [where m = "logged _"] and_then_def [where m = "emit _"]
        and_then_def [where m = "and_then (observe _) _"]
        observe_def logged_def give_def emit_def w1_def)
  obtain y w2 where y: "ingest_hook env False e w1 = (y, w2)" by fastforce
  have "valid_hook_event e" using there by (simp add: valid_spool_record_def)
  then have "KeyClaimed DedupeHook key \<in> set (wd_events w2)"
    using ingest_hook_records [OF key y] works(1) by blast
  moreover have "keeps (\<lambda>log. KeyClaimed DedupeHook key \<in> set log) (emit (SpoolStored path q))"
    "keeps (\<lambda>log. KeyClaimed DedupeHook key \<in> set log) (emit (SpoolRemoved path))" for q
    by (auto intro: keeps_emit)
  ultimately show ?thesis
    using run1 y
    by (auto intro!: catching_after [where I = "\<lambda>log. KeyClaimed DedupeHook key \<in> set log", OF run1 y]
        keeps_intros simp: update_failed_spool_record_def split: option.split)
qed

lemma drain_all_records:
  assumes "drain_all sp (ingest_hook env False) (Some (report_from_spool env project)) paths counts w = (Inr result, w')"
    and works: "\<forall>t. he_database env t = None" "\<forall>t. se_readable sp t"
    and key: "hk_hookId e = Some key"
    and before: "accounted path (SpooledHook e) (wd_events w)" "path \<in> set paths \<or> recorded (SpooledHook e) (wd_events w)"
  shows "recorded (SpooledHook e) (wd_events w')"
  using assms(1) before
proof (induction paths arbitrary: counts w)
  case Nil
  then show ?case by (simp add: give_def)
next
  case (Cons p paths)
  from Cons.prems(1) obtain drained w1 where
    p: "drain_path sp (ingest_hook env False) (Some (report_from_spool env project)) p w = (Inr drained, w1)"
    and rest: "drain_all sp (ingest_hook env False) (Some (report_from_spool env project)) paths
      (if drained then (fst counts + 1, snd counts) else (fst counts, snd counts + 1)) w1 = (Inr result, w')"
    by (auto elim: and_then_returns)
  have acc: "accounted path (SpooledHook e) (wd_events w1)"
    using keepsD [OF spool.drain_path_accounts p Cons.prems(2)] .
  have "path \<in> set paths \<or> recorded (SpooledHook e) (wd_events w1)"
  proof (cases "recorded (SpooledHook e) (wd_events w)")
    case True
    then show ?thesis using keepsD [OF spool.keeps_recorded p] by blast
  next
    case False
    show ?thesis
    proof (cases "p = path")
      case True
      have "KeyClaimed DedupeHook key \<in> set (wd_events w1)"
        using drain_path_records [OF p works key] True Cons.prems(2) False by blast
      then show ?thesis using key by (simp add: recorded_def record_key_def)
    next
      case False
      then show ?thesis using Cons.prems(3) \<open>\<not> recorded (SpooledHook e) (wd_events w)\<close> by auto
    qed
  qed
  then show ?case using Cons.IH [OF rest acc] by blast
qed


subsection \<open>The sender\<close>

text \<open>A delivery with a receipt was recorded by the observer.\<close>

lemma request_over_returns:
  "request_over trips remote handle q w = (Inr (AttemptReturns r), w') \<Longrightarrow> \<exists>w1. handle q w1 = (Inr r, w')"
  unfolding request_over_def
  by (erule and_then_returns)
    (auto simp: give_def branching_def split: trip.splits prod.splits sum.splits)

lemma attempt_delivered:
  assumes "attempt_hook_delivery (request_over trips remote (ingest_hook env trigger)) e w = (Inr a, w')"
    "da_receipt a = Some receipt"
  obtains w1 where "ingest_hook env trigger e w1 = (Inr receipt, w')" "hr_status receipt = HookIngested"
proof -
  obtain w1 where r: "request_over trips remote (ingest_hook env trigger) e w1 = (Inr (AttemptReturns receipt), w')"
    and status: "hr_status receipt = HookIngested"
    using assms(1,2)
    by (auto simp: attempt_hook_delivery_def deliver_hook_def in_timed_boundary_def and_try_def
        catching_def give_def boundary_attempt_def runtime_boundary_effect_def throw_def
        elim!: and_then_returns split: prod.splits sum.splits attempt.splits if_splits)
  from request_over_returns [OF r] status that show thesis by blast
qed

lemma write_provider_hook_spool_record_done:
  assumes "write_provider_hook_spool_record sw e err w = (Inr receipt, w')" "hk_hookId e = Some key"
  shows "hr_status receipt = HookSpooled \<and> hr_hookId receipt = key \<and>
    (\<exists>r. spool_file (wd_events w') (sw_dir sw @ ''/'' @ sw_newId sw (wd_time w) @ ''.json'') = Some r \<and>
      sp_content r = SpooledHook e \<and> valid_spool_record r)"
  using assms
  by (auto simp: write_provider_hook_spool_record_def write_spool_record_def in_boundary_def parsed_returns
      runtime_boundary_effect_def failing_write_def emit_def throw_error_def throw_def give_def observe_def
      logged_def hook_receipt_for_def parsed_def nullish_def
      elim!: and_then_returns split: prod.splits sum.splits option.splits if_splits)


lemma policy_outcome:
  assumes "deliver_provider_hook_with_spooling lk su opts deliver spool w = (Inr receipt, w')"
  shows "(\<exists>w1 a. deliver w1 = (Inr a, w') \<and> da_receipt a = Some receipt) \<or> (\<exists>w1 err. spool err w1 = (Inr receipt, w'))"
  using assms unfolding deliver_provider_hook_with_spooling_def
  by (elim and_then_returns)
    (auto simp: give_def elim!: and_then_returns split: option.splits if_splits sum.splits; blast)

lemma ingest_hook_key:
  assumes "ingest_hook env trigger e w = (Inr receipt, w')" "hk_hookId e = Some key"
  shows "hr_hookId receipt = key \<and> valid_hook_event e"
proof -
  have valid: "valid_hook_event e"
    using assms(1) by (auto simp: ingest_hook_def parsed_returns elim!: and_then_returns)
  obtain p w1 where p: "persist_hook env e key w = (p, w1)" by fastforce
  then have "answer_hook env trigger e key (runtime_boundary_effect (hook_persist_fallback e) p) w1 = (Inr receipt, w')"
    using ingest_hook_runs [OF assms(2) valid p] assms(1) by simp
  then show ?thesis
    using valid by (auto simp: answer_hook_def parsed_returns hook_receipt_for_def
        elim!: and_then_returns split: sum.splits if_splits)
qed

text \<open>What the sender leaves behind: a recorded hook, or a spool file with it.\<close>

lemma send_hook_outcome:
  assumes "send_provider_hook_event sd opts (request_over trips remote (ingest_hook env trigger)) input w = (Inr receipt, w')"
  shows "(hr_status receipt = HookIngested \<and> KeyClaimed DedupeHook (hr_hookId receipt) \<in> set (wd_events w')) \<or>
    (hr_status receipt = HookSpooled \<and> (\<exists>e path. hk_hookId e = Some (hr_hookId receipt) \<and>
      hk_provider e = hi_provider input \<and> hk_event e = hi_event input \<and> hk_payload e = hi_payload input \<and>
      (\<exists>name. path = sw_dir (sn_spool sd) @ ''/'' @ name) \<and>
      (\<exists>r. spool_file (wd_events w') path = Some r \<and> sp_content r = SpooledHook e \<and> valid_spool_record r)))"
proof -
  obtain e w1 key where run: "deliver_provider_hook_with_spooling (sn_locks sd) (sn_startup sd) opts
      (attempt_hook_delivery (request_over trips remote (ingest_hook env trigger)) e)
      (write_provider_hook_spool_record (sn_spool sd) e) w1 = (Inr receipt, w')"
    and e: "valid_hook_event e" "hk_hookId e = Some key" "hk_provider e = hi_provider input"
      "hk_event e = hi_event input" "hk_payload e = hi_payload input"
    using assms by (auto simp: send_provider_hook_event_def parsed_returns elim!: and_then_returns)
  from policy_outcome [OF run] show ?thesis
  proof
    assume "\<exists>w1 a. attempt_hook_delivery (request_over trips remote (ingest_hook env trigger)) e w1 = (Inr a, w') \<and>
      da_receipt a = Some receipt"
    then obtain w2 where r: "ingest_hook env trigger e w2 = (Inr receipt, w')" "hr_status receipt = HookIngested"
      by (auto elim: attempt_delivered)
    then have "hr_hookId receipt = key" using ingest_hook_key e(2) by blast
    then show ?thesis using ingest_hook_records [OF e(2) r(1) e(1)] r(2) by blast
  next
    assume "\<exists>w1 err. write_provider_hook_spool_record (sn_spool sd) e err w1 = (Inr receipt, w')"
    then obtain w1 err where "write_provider_hook_spool_record (sn_spool sd) e err w1 = (Inr receipt, w')" by blast
    from write_provider_hook_spool_record_done [OF this e(2)] e(2-5) show ?thesis by blast
  qed
qed

lemma stored_once:
  assumes "store_ok log"
  shows "length (filter (\<lambda>x. event_key x = Some (kind, key)) log) = (if KeyClaimed kind key \<in> set log then 1 else 0)"
proof -
  have "length (filter (\<lambda>x. event_key x = Some k) l) = count_list (List.map_filter event_key l) k" for l k
    by (induction l) (auto split: option.split)
  moreover have "distinct xs \<Longrightarrow> count_list xs k = (if k \<in> set xs then 1 else 0)" for xs and k :: "dedupe_kind \<times> string"
    by (induction xs) (auto simp: count_list_0_iff)
  ultimately show ?thesis using assms by (simp add: store_ok_def claimed_in_log)
qed

lemma send_keeps_store:
  "keeps store_ok (send_provider_hook_event sd opts (request_over trips remote (ingest_hook env trigger)) input)"
  unfolding send_provider_hook_event_def
  by (intro keeps_intros store.delivers_or_spools store.attempts_hook store.requests_over store.ingests_hook
      store.writes_spool) simp

lemma drain_keeps_store:
  "keeps store_ok (drain_provider_ingress_spool env' sp (ingest_hook env False) (Some (report_from_spool env project)))"
  by (intro store.drains store.ingests_hook store.reports_from_spool) simp

lemma drain_records:
  assumes "drain_provider_ingress_spool env sp (ingest_hook env False) (Some (report_from_spool env project)) w = (Inr result, w')"
    and works: "\<forall>t. he_database env t = None" "\<forall>t. se_readable sp t"
    and listed: "\<forall>t. set (spool_paths (wd_events w)) \<subseteq> set (drain_paths sp (nullish (se_listing sp t) []))"
    and there: "spool_file (wd_events w) path = Some r" "sp_content r = SpooledHook e" "valid_spool_record r"
    and key: "hk_hookId e = Some key"
  shows "KeyClaimed DedupeHook key \<in> set (wd_events w')"
proof -
  define paths where "paths = drain_paths sp (nullish (se_listing sp (wd_time w)) [])"
  have path: "path \<in> set paths" using spool_path_listed [OF there(1)] listed by (auto simp: paths_def)
  define rest where "rest = (\<lambda>counts. and_then (if length paths > 0
        then and_then (observe (he_clock env)) (\<lambda>at.
             and_then (record_event (he_database env) (ProviderHookSpoolDrained at (fst counts) (snd counts))) (\<lambda>_.
             emit (EventPublished (ProviderHookSpoolDrained at (fst counts) (snd counts)))))
        else give ()) (\<lambda>_. give (length paths, fst counts, snd counts)))"
  have run: "and_then (drain_all sp (ingest_hook env False) (Some (report_from_spool env project)) paths (0, 0)) rest (tick w)
      = (Inr result, w')"
    using assms(1)
    by (simp add: drain_provider_ingress_spool_def and_then_def [where m = "observe _"] and_then_def [where m = "give _"]
        observe_def give_def paths_def rest_def)
  show ?thesis
  proof (rule and_then_establishes [OF run, of "\<lambda>log. KeyClaimed DedupeHook key \<in> set log"])
    show "keeps (\<lambda>log. KeyClaimed DedupeHook key \<in> set log) (rest counts)" for counts
      unfolding rest_def by (auto intro!: keeps_intros key.emits key.stores_rest)
  next
    fix counts w1
    assume "drain_all sp (ingest_hook env False) (Some (report_from_spool env project)) paths (0, 0) (tick w) = (Inr counts, w1)"
    then have "recorded (SpooledHook e) (wd_events w1)"
      by (rule drain_all_records [where path = path, OF _ works key]) (use there path in \<open>auto simp: accounted_def\<close>)
    then show "KeyClaimed DedupeHook key \<in> set (wd_events w1)" using key by (simp add: recorded_def record_key_def)
  qed
qed


subsection \<open>The properties\<close>

datatype ingress_job =
  JobHook bool hook_event | JobReport event_report | JobDrain spool_environment | JobSpool spool_writer hook_event

text \<open>Jobs one after the other, whatever becomes of each.\<close>

definition regardless :: "('e, 'a) action \<Rightarrow> ('e, unit) action" where
  "regardless m = branching m (\<lambda>_. give ()) (\<lambda>_. give ())"

fun run_job :: "hook_environment \<Rightarrow> projector \<Rightarrow> ingress_job \<Rightarrow> unit hook_action" where
  "run_job env project (JobHook trigger e) = regardless (ingest_hook env trigger e)"
| "run_job env project (JobReport r) = regardless (process_harness_ingress_report env project r)"
| "run_job env project (JobDrain sp) = regardless (drain_configured_spool env project (Some sp))"
| "run_job env project (JobSpool sw e) = regardless (write_provider_hook_spool_record sw e None)"

fun run_jobs :: "hook_environment \<Rightarrow> projector \<Rightarrow> ingress_job list \<Rightarrow> unit hook_action" where
  "run_jobs env project [] = give ()"
| "run_jobs env project (job # jobs) = and_then (run_job env project job) (\<lambda>_. run_jobs env project jobs)"

lemma job_keeps_store: "keeps store_ok (run_job env project job)"
proof (cases job)
  case (JobDrain sp)
  have "keeps store_ok (drain_configured_spool env project (Some sp))"
    unfolding drain_configured_spool_def by (auto intro!: keeps_intros drain_keeps_store split: sum.split)
  with JobDrain show ?thesis by (simp add: regardless_def keeps_intros)
qed (auto simp: regardless_def intro!: keeps_intros store.ingests_hook store.processes_report store.writes_spool)

lemma jobs_keep_store: "keeps store_ok (run_jobs env project jobs)"
  by (induction jobs) (auto intro!: keeps_intros job_keeps_store)

text \<open>C23: whatever hooks and harness reports come in, from the socket, from the spool or from both, and
  however often the database fails, the event of each identity is stored exactly when its key is
  claimed, and never twice.\<close>

theorem ingress_records_once:
  "let log = wd_events (snd (run_jobs env project jobs \<lparr>wd_time = t, wd_events = []\<rparr>))
   in length (filter (\<lambda>x. event_key x = Some (kind, key)) log) = (if KeyClaimed kind key \<in> set log then 1 else 0)"
proof -
  have "store_ok (wd_events (snd (run_jobs env project jobs \<lparr>wd_time = t, wd_events = []\<rparr>)))"
    using keepsD [OF jobs_keep_store, of env project jobs "\<lparr>wd_time = t, wd_events = []\<rparr>"
        "fst (run_jobs env project jobs \<lparr>wd_time = t, wd_events = []\<rparr>)"
        "snd (run_jobs env project jobs \<lparr>wd_time = t, wd_events = []\<rparr>)"]
    by (simp add: store_ok_def)
  then show ?thesis unfolding Let_def by (rule stored_once)
qed


text \<open>C21: a hook for which the sender returned a receipt is recorded exactly once after the next drain
  that finds the database working and the files readable and listed: its requests and their answers
  may be lost or late in any way, the observer may be started in between, and the observer's
  database may have failed before.\<close>

theorem hook_recorded_exactly_once:
  "store_ok (wd_events w) \<Longrightarrow>
   send_provider_hook_event sd opts (request_over trips remote (ingest_hook env True)) input w = (Inr receipt, w1) \<Longrightarrow>
   drain_provider_ingress_spool env' sp (ingest_hook env' False) (Some (report_from_spool env' project)) w1 =
     (Inr result, w2) \<Longrightarrow>
   \<forall>t. he_database env' t = None \<Longrightarrow> \<forall>t. se_readable sp t \<Longrightarrow>
   \<forall>t. set (spool_paths (wd_events w1)) \<subseteq> set (drain_paths sp (nullish (se_listing sp t) [])) \<Longrightarrow>
   length (filter (\<lambda>x. event_key x = Some (DedupeHook, hr_hookId receipt)) (wd_events w2)) = 1"
proof -
  assume ok: "store_ok (wd_events w)"
    and send: "send_provider_hook_event sd opts (request_over trips remote (ingest_hook env True)) input w = (Inr receipt, w1)"
    and drain: "drain_provider_ingress_spool env' sp (ingest_hook env' False) (Some (report_from_spool env' project)) w1 =
     (Inr result, w2)"
    and works: "\<forall>t. he_database env' t = None" "\<forall>t. se_readable sp t"
      "\<forall>t. set (spool_paths (wd_events w1)) \<subseteq> set (drain_paths sp (nullish (se_listing sp t) []))"
  have "store_ok (wd_events w2)"
    using keepsD [OF drain_keeps_store drain keepsD [OF send_keeps_store send ok]] .
  moreover have "KeyClaimed DedupeHook (hr_hookId receipt) \<in> set (wd_events w2)"
    using send_hook_outcome [OF send]
  proof
    assume "hr_status receipt = HookIngested \<and> KeyClaimed DedupeHook (hr_hookId receipt) \<in> set (wd_events w1)"
    moreover have "keeps (\<lambda>log. KeyClaimed DedupeHook (hr_hookId receipt) \<in> set log)
        (drain_provider_ingress_spool env' sp (ingest_hook env' False) (Some (report_from_spool env' project)))"
      by (intro key.drains key.ingests_hook key.reports_from_spool) simp
    ultimately show ?thesis using keepsD drain by blast
  qed (use drain_records [OF drain works] in blast)
  ultimately show ?thesis by (simp add: stored_once)
qed


subsection \<open>Runs\<close>

definition sample_environment :: "database \<Rightarrow> hook_environment" where
  "sample_environment db =
     \<lparr>he_database = db, he_clock = (\<lambda>t. ''2026-01-01T00:00:00Z''), he_newId = (\<lambda>t. ''hook_1''),
      he_providers = None, he_projects = [], he_current = (\<lambda>t. Inr []), he_expires = (\<lambda>at. at),
      he_scheduler = True\<rparr>"

definition sample_sender :: "lock_environment \<Rightarrow> sender" where
  "sample_sender lk =
     \<lparr>sn_locks = lk,
      sn_startup = \<lparr>su_stale = (\<lambda>t. False), su_health = (\<lambda>t. None), su_removesSocket = (\<lambda>t. None),
        su_mkdirs = (\<lambda>t. None), su_spawns = (\<lambda>t. None), su_waits = (\<lambda>t. AttemptReturns ()),
        su_overruns = (\<lambda>t. False)\<rparr>,
      sn_spool = \<lparr>sw_dir = ''/spool'', sw_newId = (\<lambda>t. ''spool_1''),
        sw_clock = (\<lambda>t. ''2026-01-01T00:00:00Z''), sw_write = (\<lambda>t. None)\<rparr>,
      sn_hookId = (\<lambda>t. ''hook_7''), sn_now = (\<lambda>t. ''2026-01-01T00:00:00Z'')\<rparr>"

definition stuck_lock :: lock_environment where
  "stuck_lock = \<lparr>lk_prepares = (\<lambda>t. None), lk_mkdir = (\<lambda>t. MkdirMade), lk_age = (\<lambda>t. None),
     lk_removes = (\<lambda>t. Some ThrownPrimitive)\<rparr>"

definition sample_hook :: hook_input where
  "sample_hook = \<lparr>hi_provider = ''worktrunk'', hi_kind = HookWorktree, hi_event = ''created'', hi_payload = None\<rparr>"

definition sample_spool :: spool_environment where
  "sample_spool = \<lparr>se_dir = ''/spool'', se_listing = (\<lambda>t. Some [''spool_1.json'']), se_readable = (\<lambda>t. True),
     se_removes = (\<lambda>t. None), se_writes = (\<lambda>t. None)\<rparr>"

definition no_world :: "hook_effect world" where
  "no_world = \<lparr>wd_time = 0, wd_events = []\<rparr>"

definition offline :: delivery_options where
  "offline = \<lparr>do_autoStart = False, do_startupTimeoutMs = 1500, do_rateLimitMs = 2000\<rparr>"

definition sent :: "(thrown + hook_receipt) \<times> hook_effect world" where
  "sent = send_provider_hook_event (sample_sender stuck_lock) offline
     (request_over (\<lambda>t. TripLost ThrownPrimitive) (\<lambda>v. v) (ingest_hook (sample_environment (\<lambda>t. None)) True))
     sample_hook no_world"

definition drained :: "(thrown + nat \<times> nat \<times> nat) \<times> hook_effect world" where
  "drained = drain_provider_ingress_spool (sample_environment (\<lambda>t. None)) sample_spool
     (ingest_hook (sample_environment (\<lambda>t. None)) False)
     (Some (report_from_spool (sample_environment (\<lambda>t. None)) (\<lambda>r t. Inr (False, [])))) (snd sent)"

lemma sent_spools:
  "isl (fst sent) = False" "hr_status (projr (fst sent)) = HookSpooled" "hr_hookId (projr (fst sent)) = ''hook_7''"
  "spool_paths (wd_events (snd sent)) = [''/spool/spool_1.json'']"
  by code_simp+

lemma drained_removes: "fst drained = Inr (1, 1, 0)" "spool_paths (wd_events (snd drained)) = []"
  by code_simp+

theorem hook_recorded_exactly_once_witness:
  "length (filter (\<lambda>x. event_key x = Some (DedupeHook, ''hook_7'')) (wd_events (snd drained))) = 1"
proof -
  have start: "store_ok (wd_events no_world)" by (simp add: no_world_def store_ok_def)
  have send: "send_provider_hook_event (sample_sender stuck_lock) offline
      (request_over (\<lambda>t. TripLost ThrownPrimitive) (\<lambda>v. v) (ingest_hook (sample_environment (\<lambda>t. None)) True))
      sample_hook no_world = (Inr (projr (fst sent)), snd sent)"
    using sent_spools(1) by (metis prod.collapse sent_def sum.collapse(2))
  have drain: "drain_provider_ingress_spool (sample_environment (\<lambda>t. None)) sample_spool
     (ingest_hook (sample_environment (\<lambda>t. None)) False)
     (Some (report_from_spool (sample_environment (\<lambda>t. None)) (\<lambda>r t. Inr (False, [])))) (snd sent) =
     (Inr (1, 1, 0), snd drained)"
    using drained_removes(1) by (metis drained_def prod.collapse)
  have listed: "drain_paths sample_spool [''spool_1.json''] = [''/spool/spool_1.json'']" by code_simp
  show ?thesis
    using hook_recorded_exactly_once [OF start send drain] sent_spools(3,4) listed
    by (simp add: sample_environment_def sample_spool_def nullish_def)
qed


text \<open>
  A report's recovery handle is lost when the database fails between the report and the handle: the
  report is rejected, and sent again it is taken for a duplicate. Its event is not published either.
\<close>

definition resumable_report :: event_report where
  "resumable_report =
     \<lparr>er_reportId = ''report_1'', er_provider = ''claude'', er_eventType = ''Stop'',
      er_observedAt = ''2026-01-01T00:00:00Z'', er_coalesceKey = None, er_status = None,
      er_correlation = Some \<lparr>rc_harnessRunId = None, rc_sessionId = None, rc_worktreeId = Some ''w1'',
        rc_terminalTargetId = None, rc_projectId = Some ''p1'', rc_nativeSessionId = Some ''n1'',
        rc_nativeSessionFile = None, rc_cwd = None, rc_pid = None\<rparr>,
      er_diagnostics = None, er_providerData = None\<rparr>"

definition reported_twice :: "report_receipt_status list \<times> hook_effect list" where
  "reported_twice =
     (let env = sample_environment (\<lambda>t. if t = 2 then Some ThrownPrimitive else None);
          (first, w) = ingest_report env True resumable_report no_world;
          (again, w) = ingest_report env True resumable_report w
      in (map (\<lambda>r. rr_status (projr r)) [first, again], wd_events w))"

lemma recovery_handle_lost:
  "session_recovery_handle_from_report resumable_report \<noteq> None \<and>
   fst reported_twice = [ReportRejected, ReportAccepted] \<and>
   (\<forall>x \<in> set (snd reported_twice). (\<forall>h. x \<noteq> HandleStored h) \<and> (\<forall>ev. x \<noteq> EventPublished ev))"
proof -
  have "snd reported_twice = [KeyClaimed DedupeHarnessReport ''report_1'', EventStored (reported_event resumable_report),
      ObservationStored (report_observation (sample_environment (\<lambda>t. None)) resumable_report)]"
    "fst reported_twice = [ReportRejected, ReportAccepted]"
    "session_recovery_handle_from_report resumable_report \<noteq> None"
    by code_simp+
  then show ?thesis by simp
qed

text \<open>When the lock cannot be removed, the sender throws before it writes the spool: the hook is lost.\<close>

lemma hook_lost_with_lock:
  "let (receipt, w) = send_provider_hook_event (sample_sender stuck_lock) (offline\<lparr>do_autoStart := True\<rparr>)
      (request_over (\<lambda>t. TripLost ThrownPrimitive) (\<lambda>v. v) (ingest_hook (sample_environment (\<lambda>t. None)) True))
      sample_hook no_world
   in isl receipt \<and> spool_paths (wd_events w) = [] \<and> wd_events w = [DeliveryTried, LockMade]"
  by code_simp

end
