(* ===== verification/EditableText.thy ===== *)
theory EditableText
  imports Prelude
begin

text \<open>
  Keys (\<^verbatim>\<open>dashboard-core/src/state/keys.ts\<close>) and the text field
  (\<^verbatim>\<open>components/EditableTextInput/editing.ts\<close>): a text and a cursor between its characters.
\<close>

subsection \<open>Keys\<close>

datatype mouse_scroll = ScrollUp | ScrollDown

record tui_key =
  k_input :: string
  k_ctrl :: bool
  k_return :: bool
  k_escape :: bool
  k_backspace :: bool
  k_delete :: bool
  k_up :: bool
  k_down :: bool
  k_left :: bool
  k_right :: bool
  k_mouse :: "mouse_scroll option"

text \<open>The flags are optional in the code and only ever compared with true.\<close>

definition typed :: "string \<Rightarrow> tui_key" where
  "typed text = \<lparr>k_input = text, k_ctrl = False, k_return = False, k_escape = False, k_backspace = False,
     k_delete = False, k_up = False, k_down = False, k_left = False, k_right = False, k_mouse = None\<rparr>"

definition escape_key :: tui_key where
  "escape_key = (typed [])\<lparr>k_escape := True\<rparr>"

definition carriage_return :: string where
  "carriage_return = [CHR 0x0D]"

definition line_feed :: string where
  "line_feed = [CHR 0x0A]"

definition return_key :: tui_key where
  "return_key = (typed carriage_return)\<lparr>k_return := True\<rparr>"

definition is_return_key :: "tui_key \<Rightarrow> bool" where
  "is_return_key key = (k_return key \<or> k_input key = carriage_return \<or> k_input key = line_feed)"

subsection \<open>The text field\<close>

record text_input =
  ti_value :: string
  ti_cursor :: int

datatype edit_action = InsertText string | EditBackspace | EditDelete | MoveCursor int

definition create_editable_text :: "string \<Rightarrow> text_input" where
  "create_editable_text text = \<lparr>ti_value = text, ti_cursor = int (length text)\<rparr>"

definition editable_text_intent :: "tui_key \<Rightarrow> edit_action option" where
  "editable_text_intent key =
     (if k_left key then Some (MoveCursor (- 1))
      else if k_right key then Some (MoveCursor 1)
      else if k_backspace key then Some EditBackspace
      else if k_delete key then Some EditDelete
      else if 0 < length (k_input key) then Some (InsertText (k_input key))
      else None)"

definition clamp_cursor :: "int \<Rightarrow> string \<Rightarrow> int" where
  "clamp_cursor cursor text = min (max 0 cursor) (int (length text))"

text \<open>\<open>slice\<close> is only applied to positions inside the text, where it is \<open>take\<close> and \<open>drop\<close>.\<close>

definition insert_editable_text :: "text_input \<Rightarrow> string \<Rightarrow> text_input" where
  "insert_editable_text s input =
     (let cursor = clamp_cursor (ti_cursor s) (ti_value s)
      in \<lparr>ti_value = take (nat cursor) (ti_value s) @ input @ drop (nat cursor) (ti_value s),
          ti_cursor = cursor + int (length input)\<rparr>)"

definition backspace_editable_text :: "text_input \<Rightarrow> text_input" where
  "backspace_editable_text s =
     (let cursor = clamp_cursor (ti_cursor s) (ti_value s)
      in if cursor = 0 then s\<lparr>ti_cursor := cursor\<rparr>
         else \<lparr>ti_value = take (nat (cursor - 1)) (ti_value s) @ drop (nat cursor) (ti_value s),
               ti_cursor = cursor - 1\<rparr>)"

definition delete_editable_text :: "text_input \<Rightarrow> text_input" where
  "delete_editable_text s =
     (let cursor = clamp_cursor (ti_cursor s) (ti_value s)
      in if int (length (ti_value s)) \<le> cursor then s\<lparr>ti_cursor := cursor\<rparr>
         else \<lparr>ti_value = take (nat cursor) (ti_value s) @ drop (nat (cursor + 1)) (ti_value s),
               ti_cursor = cursor\<rparr>)"

definition move_editable_cursor :: "text_input \<Rightarrow> int \<Rightarrow> text_input" where
  "move_editable_cursor s delta =
     s\<lparr>ti_cursor := clamp_cursor (ti_cursor s + delta) (ti_value s)\<rparr>"

fun transition_editable_text :: "text_input \<Rightarrow> edit_action \<Rightarrow> text_input" where
  "transition_editable_text s (InsertText input) = insert_editable_text s input"
| "transition_editable_text s EditBackspace = backspace_editable_text s"
| "transition_editable_text s EditDelete = delete_editable_text s"
| "transition_editable_text s (MoveCursor delta) = move_editable_cursor s delta"

subsection \<open>A text field is a list with a gap\<close>

text \<open>
  What the field promises: the text before the cursor and the text behind it. Typing and deleting
  work on the two ends that meet at the cursor.
\<close>

definition text_input_ok :: "text_input \<Rightarrow> bool" where
  "text_input_ok s = (0 \<le> ti_cursor s \<and> ti_cursor s \<le> int (length (ti_value s)))"

definition gap_of :: "text_input \<Rightarrow> string \<times> string" where
  "gap_of s = (take (nat (ti_cursor s)) (ti_value s), drop (nat (ti_cursor s)) (ti_value s))"

fun edit_gap :: "edit_action \<Rightarrow> string \<times> string \<Rightarrow> string \<times> string" where
  "edit_gap (InsertText input) (left, right) = (left @ input, right)"
| "edit_gap EditBackspace (left, right) = (butlast left, right)"
| "edit_gap EditDelete (left, right) = (left, tl right)"
| "edit_gap (MoveCursor delta) (left, right) =
     (let n = nat (min (max 0 (int (length left) + delta)) (int (length (left @ right))))
      in (take n (left @ right), drop n (left @ right)))"

lemma create_editable_text_ok: "text_input_ok (create_editable_text text)"
  by (simp add: text_input_ok_def create_editable_text_def)

lemma clamp_inside: "text_input_ok s \<Longrightarrow> clamp_cursor (ti_cursor s) (ti_value s) = ti_cursor s"
  by (simp add: text_input_ok_def clamp_cursor_def)

lemma clamp_bounds: "0 \<le> clamp_cursor c text" "clamp_cursor c text \<le> int (length text)"
  by (simp_all add: clamp_cursor_def)

lemma transition_editable_text_ok: "text_input_ok (transition_editable_text s action)"
proof -
  define c where "c = clamp_cursor (ti_cursor s) (ti_value s)"
  have "0 \<le> c" "c \<le> int (length (ti_value s))" unfolding c_def by (rule clamp_bounds)+
  then show ?thesis
    by (cases action)
      (auto simp: text_input_ok_def insert_editable_text_def backspace_editable_text_def clamp_bounds
        delete_editable_text_def move_editable_cursor_def Let_def simp flip: c_def)
qed

lemma edit_refines_gap:
  assumes "text_input_ok s"
  shows "gap_of (transition_editable_text s action) = edit_gap action (gap_of s)"
proof -
  define c where "c = nat (ti_cursor s)"
  have c: "ti_cursor s = int c" "c \<le> length (ti_value s)"
    using assms by (auto simp: c_def text_input_ok_def)
  show ?thesis
    using clamp_inside [OF assms] c
    by (cases action)
      (auto simp: gap_of_def insert_editable_text_def backspace_editable_text_def delete_editable_text_def
        move_editable_cursor_def clamp_cursor_def Let_def nat_add_distrib nat_diff_distrib butlast_take
        drop_Suc tl_drop min_absorb1 min_absorb2)
qed

end
