(* ===== verification/Names.thy ===== *)
theory Names
  imports Prelude
begin

text \<open>
  Stable names (\<^verbatim>\<open>packages/runtime/src/names.ts\<close>): a readable name made of parts, with a digest of the
  unique parts where reading it back would lose something. The digest (the hexadecimal SHA-256 of the
  parts' JSON) is the parameter \<open>digest\<close>; characters are code units below 256, as everywhere here.
\<close>

datatype name_profile = IdName | PathSegmentName | TmuxWindowName
datatype hash_mode = HashAuto | HashAlways

record name_profile_options =
  np_separator :: char
  np_fallback :: string
  np_maxLength :: nat
  np_hashLength :: nat
  np_lowercase :: bool
  np_allowed :: "char \<Rightarrow> bool"

definition is_lower_letter :: "char \<Rightarrow> bool" where
  "is_lower_letter c = (97 \<le> code_unit c \<and> code_unit c \<le> 122)"

definition is_upper_letter :: "char \<Rightarrow> bool" where
  "is_upper_letter c = (65 \<le> code_unit c \<and> code_unit c \<le> 90)"

definition is_digit_char :: "char \<Rightarrow> bool" where
  "is_digit_char c = (48 \<le> code_unit c \<and> code_unit c \<le> 57)"

definition is_alphanumeric :: "char \<Rightarrow> bool" where
  "is_alphanumeric c = (is_lower_letter c \<or> is_upper_letter c \<or> is_digit_char c)"

fun name_profiles :: "name_profile \<Rightarrow> name_profile_options" where
  "name_profiles IdName =
     \<lparr>np_separator = CHR ''_'', np_fallback = ''item'', np_maxLength = 96, np_hashLength = 10,
      np_lowercase = False, np_allowed = (\<lambda>c. is_alphanumeric c \<or> c \<in> set ''._:-'')\<rparr>"
| "name_profiles PathSegmentName =
     \<lparr>np_separator = CHR ''-'', np_fallback = ''item'', np_maxLength = 96, np_hashLength = 10,
      np_lowercase = True, np_allowed = (\<lambda>c. is_alphanumeric c \<or> c \<in> set ''._-'')\<rparr>"
| "name_profiles TmuxWindowName =
     \<lparr>np_separator = CHR ''-'', np_fallback = ''worktree'', np_maxLength = 48, np_hashLength = 10,
      np_lowercase = True, np_allowed = (\<lambda>c. is_lower_letter c \<or> is_digit_char c \<or> c \<in> set ''._-'')\<rparr>"

record name_input =
  ni_prefix :: "string option"
  ni_profile :: name_profile
  ni_display :: "string list"
  ni_unique :: "string list"
  ni_maxLength :: "nat option"
  ni_hashLength :: "nat option"
  ni_hash :: "hash_mode option"

fun collapse_separators :: "char \<Rightarrow> string \<Rightarrow> string" where
  "collapse_separators s (x # y # xs) =
     (if x = s \<and> y = s then collapse_separators s (y # xs) else x # collapse_separators s (y # xs))"
| "collapse_separators s xs = xs"

definition trim_separators :: "char \<Rightarrow> string \<Rightarrow> string" where
  "trim_separators s xs = rev (dropWhile (\<lambda>c. c = s) (rev (dropWhile (\<lambda>c. c = s) xs)))"

definition normalize_name_part :: "name_profile_options \<Rightarrow> string \<Rightarrow> string \<times> bool" where
  "normalize_name_part p part =
     (let raw = trim part;
          prepared = (if np_lowercase p then to_lower raw else raw);
          characters = map (\<lambda>c. if np_allowed p c then c else np_separator p) prepared;
          trimmed = trim_separators (np_separator p) (collapse_separators (np_separator p) characters);
          normalized = (if trimmed = [] then np_fallback p else trimmed)
      in (normalized, normalized \<noteq> raw))"

definition compact_parts :: "string list \<Rightarrow> char \<Rightarrow> string" where
  "compact_parts parts s = trim_separators s (str_join [s] (filter (\<lambda>part. part \<noteq> []) parts))"

definition truncate_name :: "string \<Rightarrow> nat \<Rightarrow> char \<Rightarrow> string" where
  "truncate_name xs maxLength s =
     (if length xs \<le> maxLength then xs else trim_separators s (take maxLength xs))"

text \<open>\<open>a || b\<close> on strings.\<close>

definition or_string :: "string \<Rightarrow> string \<Rightarrow> string" where
  "or_string a b = (if a = [] then b else a)"

definition stable_name_hash :: "(string list \<Rightarrow> string) \<Rightarrow> string list \<Rightarrow> nat \<Rightarrow> string" where
  "stable_name_hash digest parts n = take n (digest parts)"

definition stable_name :: "(string list \<Rightarrow> string) \<Rightarrow> name_input \<Rightarrow> string" where
  "stable_name digest input =
     (let p = name_profiles (ni_profile input);
          maxLength = nullish (ni_maxLength input) (np_maxLength p);
          hashLength = nullish (ni_hashLength input) (np_hashLength p);
          hashMode = nullish (ni_hash input) HashAuto;
          parts = (case ni_prefix input of None \<Rightarrow> ni_display input | Some prefix \<Rightarrow> prefix # ni_display input);
          normalizedParts = map (normalize_name_part p) parts;
          base = or_string (compact_parts (map fst normalizedParts) (np_separator p)) (np_fallback p);
          changed = list_ex snd normalizedParts;
          needsHash = (hashMode = HashAlways \<or> (hashMode = HashAuto \<and> (changed \<or> maxLength < length base)))
      in if \<not> needsHash
         then or_string (truncate_name base maxLength (np_separator p)) (take maxLength (np_fallback p))
         else let hash = stable_name_hash digest (ni_unique input) hashLength;
                  suffix = np_separator p # hash
              in if maxLength \<le> length suffix then take maxLength hash
                 else or_string (truncate_name base (maxLength - length suffix) (np_separator p)) (np_fallback p) @ suffix)"

subsection \<open>The names stay within their limits\<close>

lemma length_trim_separators: "length (trim_separators s xs) \<le> length xs"
proof -
  have "length (dropWhile (\<lambda>c. c = s) (rev (dropWhile (\<lambda>c. c = s) xs))) \<le> length (rev (dropWhile (\<lambda>c. c = s) xs))"
    by (rule length_dropWhile_le)
  also have "\<dots> \<le> length xs" by (simp add: length_dropWhile_le)
  finally show ?thesis by (simp add: trim_separators_def)
qed

lemma set_trim_separators: "set (trim_separators s xs) \<subseteq> set xs"
  unfolding trim_separators_def by (auto dest!: set_dropWhileD)

lemma trim_separators_keeps:
  assumes "c \<in> set xs" and "c \<noteq> s"
  shows "c \<in> set (trim_separators s xs)"
proof -
  have "c \<in> set (dropWhile (\<lambda>c. c = s) ys)" if "c \<in> set ys" for ys
    using that assms(2) by (induction ys) auto
  then show ?thesis
    using assms(1) by (simp add: trim_separators_def)
qed

lemma hd_trim_separators: "trim_separators s xs \<noteq> [] \<Longrightarrow> hd (trim_separators s xs) \<noteq> s"
proof -
  assume "trim_separators s xs \<noteq> []"
  moreover define ys where "ys = dropWhile (\<lambda>c. c = s) xs"
  ultimately have "rev (dropWhile (\<lambda>c. c = s) (rev ys)) \<noteq> []" by (simp add: trim_separators_def)
  moreover have "ys \<noteq> [] \<Longrightarrow> hd ys \<noteq> s"
    unfolding ys_def by (rule hd_dropWhile)
  moreover have "rev (dropWhile (\<lambda>c. c = s) (rev ys)) @ rev (takeWhile (\<lambda>c. c = s) (rev ys)) = ys"
    by (metis rev_append rev_rev_ident takeWhile_dropWhile_id)
  ultimately have "hd (rev (dropWhile (\<lambda>c. c = s) (rev ys))) \<noteq> s"
    by (metis append_is_Nil_conv hd_append2)
  then show ?thesis by (simp add: trim_separators_def ys_def)
qed

lemma length_truncate_name: "length (truncate_name xs n s) \<le> n"
  using length_trim_separators [of s "take n xs"] by (simp add: truncate_name_def)

lemma truncate_name_nonempty:
  assumes "xs \<noteq> []" "hd xs \<noteq> s" "0 < n"
  shows "truncate_name xs n s \<noteq> []"
proof -
  have "hd xs \<in> set (take n xs)" using assms(1,3) by (cases xs; cases n) auto
  from trim_separators_keeps [OF this assms(2)] assms(1) show ?thesis
    by (auto simp: truncate_name_def)
qed

lemma set_collapse_separators: "set (collapse_separators s xs) \<subseteq> set xs"
  by (induction s xs rule: collapse_separators.induct) auto

lemma separator_facts:
  "np_fallback (name_profiles p) \<noteq> []" "hd (np_fallback (name_profiles p)) \<noteq> np_separator (name_profiles p)"
  "np_allowed (name_profiles p) (np_separator (name_profiles p))"
  "\<forall>c \<in> set (np_fallback (name_profiles p)). np_allowed (name_profiles p) c"
  by (cases p; simp add: is_alphanumeric_def is_lower_letter_def code_unit_def)+

definition name_base :: "name_input \<Rightarrow> string" where
  "name_base input =
     (let p = name_profiles (ni_profile input);
          parts = (case ni_prefix input of None \<Rightarrow> ni_display input | Some prefix \<Rightarrow> prefix # ni_display input)
      in or_string (compact_parts (map (fst \<circ> normalize_name_part p) parts) (np_separator p)) (np_fallback p))"

lemma name_base_facts:
  "name_base input \<noteq> []" "hd (name_base input) \<noteq> np_separator (name_profiles (ni_profile input))"
  using hd_trim_separators separator_facts(1,2)
  by (auto simp: name_base_def Let_def or_string_def compact_parts_def)

lemma normalized_part_allowed:
  "c \<in> set (fst (normalize_name_part (name_profiles p) part)) \<Longrightarrow> np_allowed (name_profiles p) c"
  using set_trim_separators set_collapse_separators separator_facts(3,4) [of p]
  by (fastforce simp: normalize_name_part_def Let_def split: if_splits)

lemma name_base_allowed:
  "c \<in> set (name_base input) \<Longrightarrow> np_allowed (name_profiles (ni_profile input)) c"
proof -
  define p where "p = name_profiles (ni_profile input)"
  define parts where "parts = map (fst \<circ> normalize_name_part p)
    (case ni_prefix input of None \<Rightarrow> ni_display input | Some prefix \<Rightarrow> prefix # ni_display input)"
  assume "c \<in> set (name_base input)"
  then have "c \<in> set (compact_parts parts (np_separator p)) \<or> c \<in> set (np_fallback p)"
    by (auto simp: name_base_def or_string_def Let_def p_def parts_def split: if_splits)
  moreover have "c \<in> set (compact_parts parts (np_separator p)) \<Longrightarrow> c = np_separator p \<or> (\<exists>part \<in> set parts. c \<in> set part)"
    using set_trim_separators set_str_join by (fastforce simp: compact_parts_def)
  moreover have "\<exists>part \<in> set parts. c \<in> set part \<Longrightarrow> np_allowed p c"
    unfolding parts_def p_def by (auto dest: normalized_part_allowed)
  ultimately show ?thesis
    using separator_facts(3,4) unfolding p_def by blast
qed

lemma length_or_string: "length a \<le> n \<Longrightarrow> length b \<le> n \<Longrightarrow> length (or_string a b) \<le> n"
  by (simp add: or_string_def)

text \<open>What \<open>stable_name\<close> gives, with the base computed beforehand.\<close>

definition limit_of :: "name_input \<Rightarrow> nat" where
  "limit_of input = nullish (ni_maxLength input) (np_maxLength (name_profiles (ni_profile input)))"

definition digest_of :: "(string list \<Rightarrow> string) \<Rightarrow> name_input \<Rightarrow> string" where
  "digest_of digest input = stable_name_hash digest (ni_unique input)
     (nullish (ni_hashLength input) (np_hashLength (name_profiles (ni_profile input))))"

lemma stable_name_cases:
  obtains (short) "stable_name digest input =
      or_string (truncate_name (name_base input) (limit_of input) (np_separator (name_profiles (ni_profile input))))
        (take (limit_of input) (np_fallback (name_profiles (ni_profile input))))"
  | (hash) "limit_of input \<le> Suc (length (digest_of digest input))"
      "stable_name digest input = take (limit_of input) (digest_of digest input)"
  | (both) "Suc (length (digest_of digest input)) < limit_of input"
      "stable_name digest input =
         truncate_name (name_base input) (limit_of input - Suc (length (digest_of digest input)))
           (np_separator (name_profiles (ni_profile input))) @
         np_separator (name_profiles (ni_profile input)) # digest_of digest input"
proof -
  define p where "p = name_profiles (ni_profile input)"
  have base: "or_string (compact_parts (map fst (map (normalize_name_part p)
      (case ni_prefix input of None \<Rightarrow> ni_display input | Some prefix \<Rightarrow> prefix # ni_display input)))
      (np_separator p)) (np_fallback p) = name_base input"
    by (simp add: name_base_def p_def Let_def)
  have head: "truncate_name (name_base input) (limit_of input - Suc (length (digest_of digest input))) (np_separator p) \<noteq> []"
    if "Suc (length (digest_of digest input)) < limit_of input"
    unfolding p_def by (rule truncate_name_nonempty) (use that name_base_facts in auto)
  have limit: "nullish (ni_maxLength input) (np_maxLength p) = limit_of input"
    "stable_name_hash digest (ni_unique input) (nullish (ni_hashLength input) (np_hashLength p)) = digest_of digest input"
    by (simp_all add: limit_of_def digest_of_def p_def)
  obtain needs where "stable_name digest input =
      (if \<not> needs then or_string (truncate_name (name_base input) (limit_of input) (np_separator p))
         (take (limit_of input) (np_fallback p))
       else if limit_of input \<le> Suc (length (digest_of digest input)) then take (limit_of input) (digest_of digest input)
       else or_string (truncate_name (name_base input) (limit_of input - Suc (length (digest_of digest input)))
           (np_separator p)) (np_fallback p) @ np_separator p # digest_of digest input)"
    by (rule that, unfold stable_name_def Let_def p_def [symmetric] base limit length_Cons, rule refl)
  then show thesis
    using head short hash both unfolding p_def [symmetric]
    by (cases needs; cases "limit_of input \<le> Suc (length (digest_of digest input))") (auto simp: or_string_def)
qed

lemma stable_name_bound:
  "length (stable_name digest input) \<le> limit_of input"
  using length_truncate_name [of "name_base input" "limit_of input"]
    length_truncate_name [of "name_base input" "limit_of input - Suc (length (digest_of digest input))"]
  by (cases rule: stable_name_cases [of digest input]) (auto intro!: length_or_string simp: le_diff_conv2)

lemma stable_name_allowed:
  assumes "\<forall>c \<in> set (digest (ni_unique input)). np_allowed (name_profiles (ni_profile input)) c"
  shows "\<forall>c \<in> set (stable_name digest input). np_allowed (name_profiles (ni_profile input)) c"
proof -
  have "\<forall>c \<in> set (digest_of digest input). np_allowed (name_profiles (ni_profile input)) c"
    using assms by (auto simp: digest_of_def stable_name_hash_def dest: in_set_takeD)
  moreover have "\<forall>c \<in> set (truncate_name (name_base input) n s). np_allowed (name_profiles (ni_profile input)) c" for n s
    using name_base_allowed [of _ input]
    by (auto simp: truncate_name_def dest!: set_trim_separators [THEN subsetD] in_set_takeD)
  ultimately show ?thesis
    using separator_facts(3,4) [of "ni_profile input"]
    by (cases rule: stable_name_cases [of digest input]) (auto simp: or_string_def dest: in_set_takeD split: if_splits)
qed

end
