(* ===== verification/SessionFlow.thy ===== *)
theory SessionFlow
  imports Snapshots EditableText Names
begin

text \<open>
  The new-session sheet: choices by key (\<^verbatim>\<open>dashboard-core/src/selectors/selectors.ts\<close>), a wizard with a
  history of steps (\<^verbatim>\<open>flows/stepWizard.ts\<close>) and the flow itself (\<^verbatim>\<open>flows/newSession.ts\<close>).
\<close>

subsection \<open>Choices by key (selectors.ts)\<close>

definition selection_keys :: "string list" where
  "selection_keys = map (\<lambda>c. [c]) ''123456789abcdefghijklmnopqrstuvwxyz''"

type_synonym 'a keyed_choice = "string \<times> 'a"

definition key_choices :: "'a list \<Rightarrow> 'a keyed_choice list" where
  "key_choices values = zip selection_keys (take (length selection_keys) values)"

definition choice_value_by_key :: "'a keyed_choice list \<Rightarrow> string \<Rightarrow> 'a option" where
  "choice_value_by_key choices input =
     map_option snd (find (\<lambda>choice. fst choice = input) choices)"

definition is_selection_key :: "string \<Rightarrow> bool" where
  "is_selection_key input = (input \<in> set selection_keys)"

subsection \<open>Projects and harnesses to choose from (selectors.ts)\<close>

record harness_option =
  hp_id :: provider_id
  hp_label :: string
  hp_status :: health_status
  hp_createBlocked :: bool
  hp_health :: "provider_health option"

definition configured_harnesses :: "snapshot \<Rightarrow> snapshot_harness list" where
  "configured_harnesses s =
     (case ss_harnesses s of
        Some harnesses \<Rightarrow> harnesses
      | None \<Rightarrow> map (\<lambda>health. \<lparr>sn_id = ph_providerId health, sn_label = ph_providerId health\<rparr>)
                  (filter (\<lambda>health. ph_providerType health = HarnessProvider) (map snd (ss_providerHealth s))))"

definition select_harness_options :: "snapshot \<Rightarrow> harness_option list" where
  "select_harness_options s =
     (let configured = configured_harnesses s
      in map (\<lambda>i. let health = map_of (ss_providerHealth s) i
                 in \<lparr>hp_id = i, hp_label = nullish (map_option sn_label (js_map sn_id configured i)) i,
                     hp_status = (case health of Some h \<Rightarrow> ph_status h | None \<Rightarrow> HealthUnknown),
                     hp_createBlocked = (map_option ph_status health = Some Unavailable), hp_health = health\<rparr>)
          (js_unique (map sn_id configured)))"

definition select_session_project :: "snapshot \<Rightarrow> project_id \<Rightarrow> project_view option" where
  "select_session_project s projectId =
     nullish_opt (find (\<lambda>p. pv_id p = projectId) (ss_projects s))
       (case ss_projects s of [] \<Rightarrow> None | p # _ \<Rightarrow> Some p)"

subsection \<open>A wizard and its history (stepWizard.ts)\<close>

text \<open>A wizard is its current step and the steps before it, the latest last.\<close>

type_synonym 'step wizard = "'step \<times> 'step list"

definition create_wizard :: "'step \<Rightarrow> 'step wizard" where
  "create_wizard step = (step, [])"

definition enter_wizard_step :: "'step wizard \<Rightarrow> 'step \<Rightarrow> 'step wizard" where
  "enter_wizard_step w step = (step, snd w @ [fst w])"

definition reset_wizard_step :: "'step wizard \<Rightarrow> 'step \<Rightarrow> 'step wizard" where
  "reset_wizard_step w step = (step, [])"

definition back_wizard_step :: "'step wizard \<Rightarrow> 'step wizard option" where
  "back_wizard_step w = (if snd w = [] then None else Some (last (snd w), butlast (snd w)))"

subsection \<open>The flow (newSession.ts)\<close>

datatype name_source = NameGenerated | NameCustom
datatype session_step = StepReview | StepEditName | StepPickProject | StepPickAgent

text \<open>The draft of the name is there in the step \<open>StepEditName\<close> only.\<close>

record session_flow =
  sf_wizard :: "session_step wizard"
  sf_projectId :: project_id
  sf_harness :: provider_id
  sf_branch :: string
  sf_nameSource :: name_source
  sf_draft :: "text_input option"

abbreviation sf_mode :: "session_flow \<Rightarrow> session_step" where
  "sf_mode f \<equiv> fst (sf_wizard f)"

datatype session_action =
  SaEditName | SaEditInput edit_action | SaCommitName | SaPickProject | SaPickAgent
| SaChooseProject string string | SaChooseAgent string | SaCancel

datatype session_intent = SiTransition session_action | SiSubmit | SiNone

definition generated_session_branch :: "(string list \<Rightarrow> string) \<Rightarrow> project_id \<Rightarrow> string \<Rightarrow> string" where
  "generated_session_branch digest projectId token =
     stable_name digest
       \<lparr>ni_prefix = None, ni_profile = PathSegmentName, ni_display = [projectId, token],
        ni_unique = [projectId, token], ni_maxLength = None, ni_hashLength = None, ni_hash = None\<rparr>"

definition create_name_token :: "(string list \<Rightarrow> string) \<Rightarrow> string \<Rightarrow> string" where
  "create_name_token digest unique = stable_name_hash digest [''new-session'', unique] 6"

definition first_harness_option :: "snapshot \<Rightarrow> harness_option option" where
  "first_harness_option s = (case select_harness_options s of [] \<Rightarrow> None | h # _ \<Rightarrow> Some h)"

definition create_session_flow :: "(string list \<Rightarrow> string) \<Rightarrow> snapshot \<Rightarrow> string \<Rightarrow> session_flow option" where
  "create_session_flow digest s token =
     (case ss_projects s of
        [] \<Rightarrow> None
      | project # _ \<Rightarrow>
          (case first_harness_option s of
             None \<Rightarrow> None
           | Some harness \<Rightarrow>
               Some \<lparr>sf_wizard = create_wizard StepReview, sf_projectId = pv_id project,
                     sf_harness = hp_id harness, sf_branch = generated_session_branch digest (pv_id project) token,
                     sf_nameSource = NameGenerated, sf_draft = None\<rparr>))"

definition to_review_state :: "session_flow \<Rightarrow> session_flow" where
  "to_review_state f = f\<lparr>sf_wizard := reset_wizard_step (sf_wizard f) StepReview, sf_draft := None\<rparr>"

definition cancel_session_step :: "session_flow \<Rightarrow> session_flow option" where
  "cancel_session_step f =
     (case back_wizard_step (sf_wizard f) of
        None \<Rightarrow> None
      | Some previous \<Rightarrow> Some (to_review_state (f\<lparr>sf_wizard := previous\<rparr>)))"

definition commit_edited_name :: "session_flow \<Rightarrow> text_input \<Rightarrow> session_flow" where
  "commit_edited_name f draft =
     (let branch = trim (ti_value draft)
      in if length branch = 0 then to_review_state f
         else (to_review_state f)\<lparr>sf_branch := branch, sf_nameSource := NameCustom\<rparr>)"

definition select_project_by_key ::
  "(string list \<Rightarrow> string) \<Rightarrow> session_flow \<Rightarrow> snapshot \<Rightarrow> string \<Rightarrow> string \<Rightarrow> session_flow" where
  "select_project_by_key digest f s key token =
     (case choice_value_by_key (key_choices (ss_projects s)) key of
        None \<Rightarrow> f
      | Some project \<Rightarrow>
          (case first_harness_option s of
             None \<Rightarrow> f
           | Some harness \<Rightarrow>
               (to_review_state f)\<lparr>sf_projectId := pv_id project, sf_harness := hp_id harness,
                 sf_branch := (if sf_nameSource f = NameGenerated
                               then generated_session_branch digest (pv_id project) token else sf_branch f)\<rparr>))"

definition select_agent_by_key :: "session_flow \<Rightarrow> snapshot \<Rightarrow> string \<Rightarrow> session_flow" where
  "select_agent_by_key f s key =
     (case Option.bind (select_session_project s (sf_projectId f))
             (\<lambda>project. choice_value_by_key (key_choices (select_harness_options s)) key) of
        None \<Rightarrow> f
      | Some opt \<Rightarrow> (to_review_state f)\<lparr>sf_harness := hp_id opt\<rparr>)"

definition enter_session_step :: "session_flow \<Rightarrow> session_step \<Rightarrow> session_flow" where
  "enter_session_step f step = f\<lparr>sf_wizard := enter_wizard_step (sf_wizard f) step, sf_draft := None\<rparr>"

fun transition_session_flow ::
  "(string list \<Rightarrow> string) \<Rightarrow> session_flow \<Rightarrow> snapshot \<Rightarrow> session_action \<Rightarrow> session_flow option" where
  "transition_session_flow digest f s SaCancel = cancel_session_step f"
| "transition_session_flow digest f s SaEditName =
     Some ((enter_session_step f StepEditName)\<lparr>sf_draft := Some (create_editable_text [])\<rparr>)"
| "transition_session_flow digest f s (SaEditInput action) =
     Some (case sf_draft f of
             Some draft \<Rightarrow> if sf_mode f = StepEditName
                then f\<lparr>sf_draft := Some (transition_editable_text draft action)\<rparr> else f
           | None \<Rightarrow> f)"
| "transition_session_flow digest f s SaCommitName =
     Some (case sf_draft f of
             Some draft \<Rightarrow> if sf_mode f = StepEditName then commit_edited_name f draft else f
           | None \<Rightarrow> f)"
| "transition_session_flow digest f s SaPickProject = Some (enter_session_step f StepPickProject)"
| "transition_session_flow digest f s (SaChooseProject key token) =
     Some (if sf_mode f = StepPickProject then select_project_by_key digest f s key token else f)"
| "transition_session_flow digest f s SaPickAgent = Some (enter_session_step f StepPickAgent)"
| "transition_session_flow digest f s (SaChooseAgent key) =
     Some (if sf_mode f = StepPickAgent then select_agent_by_key f s key else f)"

definition review_input_intent :: "tui_key \<Rightarrow> session_intent" where
  "review_input_intent key =
     (if is_return_key key then SiSubmit
      else if k_input key = ''N'' then SiTransition SaEditName
      else if k_input key = ''P'' then SiTransition SaPickProject
      else if k_input key = ''A'' then SiTransition SaPickAgent
      else SiNone)"

definition edit_name_intent :: "tui_key \<Rightarrow> session_intent" where
  "edit_name_intent key =
     (if is_return_key key then SiTransition SaCommitName
      else case editable_text_intent key of Some action \<Rightarrow> SiTransition (SaEditInput action) | None \<Rightarrow> SiNone)"

definition picker_intent :: "tui_key \<Rightarrow> (string \<Rightarrow> session_action) \<Rightarrow> session_intent" where
  "picker_intent key act =
     (if is_selection_key (k_input key) then SiTransition (act (k_input key)) else SiNone)"

definition session_intent_for_input :: "session_flow \<Rightarrow> tui_key \<Rightarrow> string \<Rightarrow> session_intent" where
  "session_intent_for_input f key token =
     (if k_escape key then SiTransition SaCancel
      else case sf_mode f of
             StepReview \<Rightarrow> review_input_intent key
           | StepEditName \<Rightarrow> edit_name_intent key
           | StepPickProject \<Rightarrow> picker_intent key (\<lambda>k. SaChooseProject k token)
           | StepPickAgent \<Rightarrow> picker_intent key SaChooseAgent)"

definition project_not_configured :: safe_error where
  "project_not_configured =
     (basic_error ''CommandValidationError'' ''PROJECT_NOT_CONFIGURED''
       ''No project is configured for a new session.'')
       \<lparr>se_hint := Some ''Add a project to config.toml and run wosm reconcile.''\<rparr>"

definition provider_unavailable :: "string \<Rightarrow> string \<Rightarrow> provider_id \<Rightarrow> safe_error" where
  "provider_unavailable code message provider =
     (basic_error ''ProviderUnavailableError'' code message)
       \<lparr>se_hint := Some ''Run wosm doctor for provider diagnostics.'', se_provider := Some provider\<rparr>"

text \<open>The project, branch and harness to create the session with, or why it cannot be.\<close>

definition validate_session_create ::
  "snapshot \<Rightarrow> session_flow \<Rightarrow> safe_error + project_view \<times> string \<times> provider_id" where
  "validate_session_create s f =
     (case select_session_project s (sf_projectId f) of
        None \<Rightarrow> Inl project_not_configured
      | Some project \<Rightarrow>
          if ph_status (pv_health project) = Unavailable
          then Inl (nullish (ph_lastError (pv_health project))
                 (provider_unavailable ''WORKTREE_PROVIDER_UNAVAILABLE'' ''The worktree provider is unavailable.''
                    (ph_providerId (pv_health project))))
          else (case find (\<lambda>opt. hp_id opt = sf_harness f) (select_harness_options s) of
                  Some harness \<Rightarrow>
                    if hp_status harness = Unavailable
                    then Inl (nullish (Option.bind (hp_health harness) ph_lastError)
                           (provider_unavailable ''HARNESS_PROVIDER_UNAVAILABLE''
                              (''The harness provider '' @ hp_id harness @ '' is unavailable.'') (hp_id harness)))
                    else Inr (project, sf_branch f, sf_harness f)
                | None \<Rightarrow> Inr (project, sf_branch f, sf_harness f)))"

end
