(* ===== verification/ProjectFlow.thy ===== *)
theory ProjectFlow
  imports Commands SessionFlow
begin

text \<open>
  The add-project sheet (\<^verbatim>\<open>dashboard-core/src/flows/addProject/\<close>: \<^verbatim>\<open>types.ts\<close>, \<^verbatim>\<open>input.ts\<close>, \<^verbatim>\<open>rows.ts\<close>,
  \<^verbatim>\<open>state.ts\<close>, \<^verbatim>\<open>flow.ts\<close>): a folder is picked, reviewed and submitted. The folder service answers
  later, with actions of its own.
\<close>

subsection \<open>What the folder service answers (folderService.ts)\<close>

record folder_entry =
  fe_name :: string
  fe_path :: string
  fe_displayPath :: "string option"

record folder_review =
  fr_selectedPath :: string
  fr_gitRoot :: "string option"
  fr_id :: string
  fr_label :: string

record folder_search =
  fs_query :: string
  fs_entries :: "folder_entry list"
  fs_truncated :: bool

subsection \<open>States, actions and effects (types.ts)\<close>

datatype project_step = PsStart | PsChoose | PsReview | PsSuccess | PsFailed

record start_choice =
  st_label :: string
  st_path :: string
  st_detail :: string

record choose_state =
  ch_currentPath :: string
  ch_entries :: "folder_entry list"
  ch_selectedIndex :: int
  ch_filter :: string
  ch_filterMode :: bool
  ch_loading :: bool
  ch_searchEntries :: "folder_entry list"
  ch_searching :: bool
  ch_searchTruncated :: bool
  ch_searchError :: "safe_error option"
  ch_error :: "safe_error option"

record review_state =
  rv_selectedPath :: string
  rv_gitRoot :: "string option"
  rv_id :: string
  rv_label :: string
  rv_submitting :: bool
  rv_editingId :: "text_input option"

datatype project_mode =
  ModeStart "start_choice list" int
| ModeChoose choose_state
| ModeReview review_state
| ModeSuccess string string
| ModeFailed string safe_error

fun step_of_mode :: "project_mode \<Rightarrow> project_step" where
  "step_of_mode (ModeStart cs i) = PsStart"
| "step_of_mode (ModeChoose c) = PsChoose"
| "step_of_mode (ModeReview r) = PsReview"
| "step_of_mode (ModeSuccess l r) = PsSuccess"
| "step_of_mode (ModeFailed p e) = PsFailed"

record project_flow =
  pf_mode :: project_mode
  pf_history :: "project_step list"

datatype project_action =
  PaMove int | PaStartOpen | PaChooseOpen | PaChooseParent | PaChooseSelected
| PaFolderLoaded string "folder_entry list" | PaFolderLoadFailed string safe_error
| PaSearchLoaded folder_search | PaSearchFailed string safe_error
| PaReviewed folder_review | PaReviewFailed string safe_error
| PaFilterStart | PaFilterInput string | PaFilterBackspace | PaFilterClear
| PaSubmit | PaSubmitted string string | PaSubmitFailed safe_error
| PaEditIdStart | PaEditIdInput edit_action | PaEditIdCommit | PaEditIdCancel | PaBackToChoose

datatype project_effect =
  LoadDirectory string | SearchDirectories string | ReviewFolder string | SubmitProject wosm_command

subsection \<open>Filters and identifiers (input.ts)\<close>

definition normalized_filter :: "string \<Rightarrow> string" where
  "normalized_filter f = trim f"

definition pasted_path_candidate :: "string \<Rightarrow> string option" where
  "pasted_path_candidate f =
     (let p = trim f
      in if length p = 0 then None
         else if p = ''~'' \<or> starts_with ''~/'' p \<or> starts_with ''/'' p then Some p else None)"

definition search_query_for_filter :: "string \<Rightarrow> string option" where
  "search_query_for_filter f =
     (let normalized = normalized_filter f
      in if length normalized < 2 \<or> pasted_path_candidate normalized \<noteq> None then None else Some normalized)"

text \<open>\<^verbatim>\<open>replaceAll(/[^a-z0-9]+/g, "-")\<close>: a run of other characters becomes one dash.\<close>

definition id_character :: "char \<Rightarrow> bool" where
  "id_character c = (is_lower_letter c \<or> is_digit_char c)"

fun dash_runs :: "bool \<Rightarrow> string \<Rightarrow> string" where
  "dash_runs inRun [] = []"
| "dash_runs inRun (c # cs) =
     (if id_character c then c # dash_runs False cs
      else if inRun then dash_runs True cs else CHR ''-'' # dash_runs True cs)"

text \<open>\<^verbatim>\<open>replaceAll(/^-|-$/g, "")\<close>: one dash at each end; the empty rest of a single dash is left alone.\<close>

definition drop_end_dashes :: "string \<Rightarrow> string" where
  "drop_end_dashes s =
     (let s = (if s \<noteq> [] \<and> hd s = CHR ''-'' then tl s else s)
      in if s \<noteq> [] \<and> last s = CHR ''-'' then butlast s else s)"

definition normalize_project_id :: "string \<Rightarrow> string" where
  "normalize_project_id input =
     (let normalized = drop_end_dashes (dash_runs False (to_lower (trim input)))
      in if length normalized = 0 then ''project'' else normalized)"

subsection \<open>The rows of the folder list (rows.ts)\<close>

datatype folder_row_kind = RowCurrent | RowDirectory | RowSearch

record folder_row =
  fw_kind :: folder_row_kind
  fw_name :: string
  fw_path :: string
  fw_displayPath :: "string option"

definition folder_row_of :: "folder_row_kind \<Rightarrow> folder_entry \<Rightarrow> folder_row" where
  "folder_row_of kind entry =
     \<lparr>fw_kind = kind, fw_name = fe_name entry, fw_path = fe_path entry, fw_displayPath = fe_displayPath entry\<rparr>"

definition add_project_rows :: "choose_state \<Rightarrow> folder_row list" where
  "add_project_rows s =
     (let rows = \<lparr>fw_kind = RowCurrent, fw_name = ''.'', fw_path = ch_currentPath s, fw_displayPath = None\<rparr>
            # map (folder_row_of RowDirectory) (ch_entries s)
      in if length (ch_filter s) = 0 then rows
         else let filt = to_lower (ch_filter s);
                  localRows = filter (\<lambda>row. str_includes filt (to_lower (fw_name row)) \<or>
                    str_includes filt (to_lower (fw_path row))) rows;
                  seenPaths = set (map fw_path localRows)
              in localRows @ map (folder_row_of RowSearch)
                   (filter (\<lambda>entry. fe_path entry \<notin> seenPaths) (ch_searchEntries s)))"

subsection \<open>The steps (state.ts)\<close>

definition clamp_index :: "int \<Rightarrow> int \<Rightarrow> int \<Rightarrow> int" where
  "clamp_index i low high = (if high < low then low else min high (max low i))"

definition clamp_choose_selection :: "choose_state \<Rightarrow> choose_state" where
  "clamp_choose_selection s =
     s\<lparr>ch_selectedIndex := clamp_index (ch_selectedIndex s) 0 (int (length (add_project_rows s)) - 1)\<rparr>"

text \<open>\<open>wizardFieldsFor\<close>: entering another step puts the one left behind on the history.\<close>

definition enter_project_mode :: "project_flow \<Rightarrow> project_mode \<Rightarrow> project_flow" where
  "enter_project_mode f m =
     \<lparr>pf_mode = m,
      pf_history = (if step_of_mode (pf_mode f) = step_of_mode m then pf_history f
                    else snd (enter_wizard_step (step_of_mode (pf_mode f), pf_history f) (step_of_mode m)))\<rparr>"

definition start_choices :: "string \<Rightarrow> string \<Rightarrow> start_choice list" where
  "start_choices cwd homeDir =
     [\<lparr>st_label = ''current directory'', st_path = cwd, st_detail = cwd\<rparr>,
      \<lparr>st_label = ''~'', st_path = homeDir, st_detail = ''home''\<rparr>]"

definition create_project_flow :: "string \<Rightarrow> string \<Rightarrow> project_flow" where
  "create_project_flow cwd homeDir =
     (let wizard = create_wizard PsStart
      in \<lparr>pf_mode = ModeStart (start_choices cwd homeDir) 0, pf_history = snd wizard\<rparr>)"

definition choose_state_for_loaded ::
  "project_flow \<Rightarrow> string \<Rightarrow> folder_entry list \<Rightarrow> safe_error option \<Rightarrow> project_flow" where
  "choose_state_for_loaded f path entries err =
     enter_project_mode f (ModeChoose
       \<lparr>ch_currentPath = path, ch_entries = entries, ch_selectedIndex = 0, ch_filter = [],
        ch_filterMode = False, ch_loading = False, ch_searchEntries = [], ch_searching = False,
        ch_searchTruncated = False, ch_searchError = None, ch_error = err\<rparr>)"

definition review_state_for_folder :: "project_flow \<Rightarrow> folder_review \<Rightarrow> project_flow" where
  "review_state_for_folder f review =
     enter_project_mode f (ModeReview
       \<lparr>rv_selectedPath = fr_selectedPath review, rv_gitRoot = fr_gitRoot review, rv_id = fr_id review,
        rv_label = fr_label review, rv_submitting = False, rv_editingId = None\<rparr>)"

definition failed_state_for_error :: "project_flow \<Rightarrow> string \<Rightarrow> safe_error \<Rightarrow> project_flow" where
  "failed_state_for_error f selectedPath e = enter_project_mode f (ModeFailed selectedPath e)"

definition success_state_for_project :: "project_flow \<Rightarrow> string \<Rightarrow> string \<Rightarrow> project_flow" where
  "success_state_for_project f label root = enter_project_mode f (ModeSuccess label root)"

definition commit_edited_project_id :: "review_state \<Rightarrow> review_state" where
  "commit_edited_project_id r =
     r\<lparr>rv_editingId := None,
       rv_id := normalize_project_id (nullish (map_option ti_value (rv_editingId r)) (rv_id r))\<rparr>"

subsection \<open>The flow (flow.ts)\<close>

type_synonym project_transition = "project_flow \<times> project_effect list"

definition stay :: "project_flow \<Rightarrow> project_transition" where
  "stay f = (f, [])"

definition nth_opt :: "'a list \<Rightarrow> int \<Rightarrow> 'a option" where
  "nth_opt xs i = (if 0 \<le> i \<and> i < int (length xs) then Some (xs ! nat i) else None)"

definition move_selection :: "project_flow \<Rightarrow> int \<Rightarrow> project_flow" where
  "move_selection f delta =
     (case pf_mode f of
        ModeStart choices i \<Rightarrow> f\<lparr>pf_mode := ModeStart choices (clamp_index (i + delta) 0 (int (length choices) - 1))\<rparr>
      | ModeChoose c \<Rightarrow> f\<lparr>pf_mode := ModeChoose (c\<lparr>ch_selectedIndex :=
           clamp_index (ch_selectedIndex c + delta) 0 (int (length (add_project_rows c)) - 1)\<rparr>)\<rparr>
      | _ \<Rightarrow> f)"

definition start_open :: "project_flow \<Rightarrow> project_transition" where
  "start_open f =
     (case pf_mode f of
        ModeStart choices i \<Rightarrow>
          (f, (case nth_opt choices i of None \<Rightarrow> [] | Some choice \<Rightarrow> [LoadDirectory (st_path choice)]))
      | _ \<Rightarrow> stay f)"

definition choose_open :: "project_flow \<Rightarrow> project_transition" where
  "choose_open f =
     (case pf_mode f of
        ModeChoose c \<Rightarrow>
          (case nth_opt (add_project_rows c) (ch_selectedIndex c) of
             None \<Rightarrow> stay f
           | Some row \<Rightarrow> if fw_kind row = RowCurrent then stay f else (f, [LoadDirectory (fw_path row)]))
      | _ \<Rightarrow> stay f)"

definition choose_selected :: "project_flow \<Rightarrow> project_transition" where
  "choose_selected f =
     (case pf_mode f of
        ModeStart choices i \<Rightarrow> start_open f
      | ModeChoose c \<Rightarrow>
          (case nth_opt (add_project_rows c) (ch_selectedIndex c) of
             Some row \<Rightarrow> (f, [ReviewFolder (fw_path row)])
           | None \<Rightarrow>
               (case pasted_path_candidate (ch_filter c) of
                  None \<Rightarrow> stay f
                | Some p \<Rightarrow> (f, [ReviewFolder p])))
      | _ \<Rightarrow> stay f)"

definition submit_review :: "project_flow \<Rightarrow> project_transition" where
  "submit_review f =
     (case pf_mode f of
        ModeReview r \<Rightarrow>
          if rv_editingId r \<noteq> None then stay f
          else (f\<lparr>pf_mode := ModeReview (r\<lparr>rv_submitting := True\<rparr>)\<rparr>,
                [SubmitProject (AddProject (rv_selectedPath r) (Some (rv_id r)) (Some (rv_label r))
                   (if rv_gitRoot r = None then Some True else None))])
      | _ \<Rightarrow> stay f)"

definition update_filter :: "project_flow \<Rightarrow> (choose_state \<Rightarrow> string) \<Rightarrow> project_transition" where
  "update_filter f filt =
     (case pf_mode f of
        ModeChoose c \<Rightarrow>
          (let query = search_query_for_filter (filt c)
           in (f\<lparr>pf_mode := ModeChoose (clamp_choose_selection
                 (c\<lparr>ch_filter := filt c, ch_searchEntries := [], ch_searching := (query \<noteq> None),
                    ch_searchTruncated := False, ch_searchError := None\<rparr>))\<rparr>,
               case query of None \<Rightarrow> [] | Some q \<Rightarrow> [SearchDirectories q]))
      | _ \<Rightarrow> stay f)"

definition on_choose :: "project_flow \<Rightarrow> (choose_state \<Rightarrow> choose_state) \<Rightarrow> project_transition" where
  "on_choose f g = (case pf_mode f of ModeChoose c \<Rightarrow> stay (f\<lparr>pf_mode := ModeChoose (g c)\<rparr>) | _ \<Rightarrow> stay f)"

definition on_editing_id :: "project_flow \<Rightarrow> (review_state \<Rightarrow> text_input \<Rightarrow> review_state) \<Rightarrow> project_transition" where
  "on_editing_id f g =
     (case pf_mode f of
        ModeReview r \<Rightarrow>
          (case rv_editingId r of
             Some editing \<Rightarrow> stay (f\<lparr>pf_mode := ModeReview (g r editing)\<rparr>)
           | None \<Rightarrow> stay f)
      | _ \<Rightarrow> stay f)"

fun transition_project_flow ::
  "project_flow \<Rightarrow> project_action \<Rightarrow> (string \<Rightarrow> string) option \<Rightarrow> project_transition" where
  "transition_project_flow f (PaMove delta) parent = stay (move_selection f delta)"
| "transition_project_flow f PaStartOpen parent = start_open f"
| "transition_project_flow f PaChooseOpen parent = choose_open f"
| "transition_project_flow f PaChooseParent parent =
     (case pf_mode f of
        ModeChoose c \<Rightarrow> (f, [LoadDirectory (case parent of Some up \<Rightarrow> up (ch_currentPath c) | None \<Rightarrow> ch_currentPath c)])
      | _ \<Rightarrow> stay f)"
| "transition_project_flow f PaChooseSelected parent = choose_selected f"
| "transition_project_flow f (PaFolderLoaded path entries) parent =
     stay (choose_state_for_loaded f path entries None)"
| "transition_project_flow f (PaFolderLoadFailed path e) parent =
     stay (choose_state_for_loaded f path [] (Some e))"
| "transition_project_flow f (PaSearchLoaded result) parent =
     on_choose f (\<lambda>c. if fs_query result = normalized_filter (ch_filter c)
       then clamp_choose_selection (c\<lparr>ch_searchEntries := fs_entries result, ch_searching := False,
              ch_searchTruncated := fs_truncated result, ch_searchError := None\<rparr>)
       else c)"
| "transition_project_flow f (PaSearchFailed query e) parent =
     on_choose f (\<lambda>c. if query = normalized_filter (ch_filter c)
       then c\<lparr>ch_searchEntries := [], ch_searching := False, ch_searchTruncated := False, ch_searchError := Some e\<rparr>
       else c)"
| "transition_project_flow f (PaReviewed review) parent = stay (review_state_for_folder f review)"
| "transition_project_flow f (PaReviewFailed path e) parent = stay (failed_state_for_error f path e)"
| "transition_project_flow f PaFilterStart parent = on_choose f (\<lambda>c. c\<lparr>ch_filterMode := True\<rparr>)"
| "transition_project_flow f (PaFilterInput text) parent = update_filter f (\<lambda>c. ch_filter c @ text)"
| "transition_project_flow f PaFilterBackspace parent = update_filter f (\<lambda>c. butlast (ch_filter c))"
| "transition_project_flow f PaFilterClear parent =
     on_choose f (\<lambda>c. c\<lparr>ch_filter := [], ch_filterMode := False, ch_selectedIndex := 0, ch_searchEntries := [],
       ch_searching := False, ch_searchTruncated := False, ch_searchError := None\<rparr>)"
| "transition_project_flow f PaSubmit parent = submit_review f"
| "transition_project_flow f (PaSubmitted label root) parent = stay (success_state_for_project f label root)"
| "transition_project_flow f (PaSubmitFailed e) parent =
     (case pf_mode f of ModeReview r \<Rightarrow> stay (failed_state_for_error f (rv_selectedPath r) e) | _ \<Rightarrow> stay f)"
| "transition_project_flow f PaEditIdStart parent =
     (case pf_mode f of
        ModeReview r \<Rightarrow> stay (f\<lparr>pf_mode := ModeReview (r\<lparr>rv_editingId := Some (create_editable_text (rv_id r))\<rparr>)\<rparr>)
      | _ \<Rightarrow> stay f)"
| "transition_project_flow f (PaEditIdInput action) parent =
     on_editing_id f (\<lambda>r editing. r\<lparr>rv_editingId := Some (transition_editable_text editing action)\<rparr>)"
| "transition_project_flow f PaEditIdCommit parent = on_editing_id f (\<lambda>r editing. commit_edited_project_id r)"
| "transition_project_flow f PaEditIdCancel parent = on_editing_id f (\<lambda>r editing. r\<lparr>rv_editingId := None\<rparr>)"
| "transition_project_flow f PaBackToChoose parent =
     (case pf_mode f of
        ModeReview r \<Rightarrow> (f, [LoadDirectory (rv_selectedPath r)])
      | ModeFailed path e \<Rightarrow> (f, [LoadDirectory path])
      | _ \<Rightarrow> stay f)"

end
