(* ===== verification/DashboardState.thy ===== *)
theory DashboardState
  imports ProjectFlow SnapshotReducer JsonText
begin

text \<open>
  The state of the dashboard (\<^verbatim>\<open>dashboard-core/src/state\<close>: \<^verbatim>\<open>types.ts\<close>, \<^verbatim>\<open>localRows.ts\<close>, \<^verbatim>\<open>toasts.ts\<close>,
  \<^verbatim>\<open>timing.ts\<close>, \<^verbatim>\<open>screen.ts\<close>): the observer's snapshot, the rows of operations that are under way here,
  the messages shown and the screen that is open.
\<close>

subsection \<open>Rows of operations under way (localRows.ts)\<close>

datatype start_operation = OpStartAgent | OpResumeAgent

record pending_create =
  pc_localId :: string
  pc_projectId :: project_id
  pc_branch :: string
  pc_harness :: provider_id
  pc_createdAt :: timestamp
  pc_commandId :: "command_id option"

record failed_create =
  fc_localId :: string
  fc_projectId :: project_id
  fc_branch :: string
  fc_error :: safe_error
  fc_expiresAt :: int

record pending_remove =
  pm_localId :: string
  pm_projectId :: project_id
  pm_worktreeId :: worktree_id
  pm_branch :: string
  pm_createdAt :: timestamp
  pm_commandId :: "command_id option"

record pending_start =
  pst_localId :: string
  pst_operation :: "start_operation option"
  pst_projectId :: project_id
  pst_worktreeId :: worktree_id
  pst_branch :: string
  pst_createdAt :: timestamp
  pst_commandId :: "command_id option"

record pending_rename =
  prn_sessionId :: session_id
  prn_title :: string
  prn_createdAt :: timestamp
  prn_commandId :: "command_id option"

record local_rows =
  lr_pendingCreate :: "pending_create list"
  lr_failedCreate :: "failed_create list"
  lr_pendingRemove :: "pending_remove list"
  lr_pendingStart :: "pending_start list"
  lr_renames :: "pending_rename dict option"

subsection \<open>The state (types.ts)\<close>

record tui_runtime =
  tr_persistentPopup :: bool
  tr_canDismissPopup :: bool
  tr_exitOnFocusSuccess :: bool
  tr_canResolveFocusOrigin :: bool
  tr_hasFocusSuccessCallback :: bool
  tr_focusOrigin :: "focus_origin option"

record toast_entry =
  te_id :: string
  te_toast :: client_notice
  te_createdAt :: int
  te_updatedAt :: int
  te_expiresAt :: "int option"

datatype observer_connection =
  ObsConnected
| ObsReconnecting int "safe_error option"
| ObsDisplayOnly int "safe_error option"

record rename_edit =
  re_rowId :: worktree_id
  re_sessionId :: session_id
  re_currentTitle :: string
  re_draft :: text_input
  re_validationError :: "string option"

datatype tui_screen =
  ScrDashboard
| ScrHelp
| ScrSearch string
| ScrCollapse string
| ScrRemoveChoose
| ScrRemoveConfirm worktree_id bool string
| ScrRenameChoose
| ScrRenameEdit rename_edit
| ScrAddProject project_flow
| ScrNewSession session_flow

record tui_state =
  ui_snapshot :: "snapshot option"
  ui_loading :: bool
  ui_screen :: tui_screen
  ui_toasts :: "toast_entry list"
  ui_observer :: observer_connection
  ui_runtime :: tui_runtime
  ui_searchQuery :: string
  ui_collapsed :: "project_id list"
  ui_scrollOffset :: int
  ui_terminalRows :: int
  ui_localRows :: local_rows

subsection \<open>Changing the local rows (localRows.ts)\<close>

definition empty_local_rows :: local_rows where
  "empty_local_rows = \<lparr>lr_pendingCreate = [], lr_failedCreate = [], lr_pendingRemove = [], lr_pendingStart = [],
     lr_renames = Some []\<rparr>"

abbreviation update_local :: "(local_rows \<Rightarrow> local_rows) \<Rightarrow> tui_state \<Rightarrow> tui_state" where
  "update_local f s \<equiv> s\<lparr>ui_localRows := f (ui_localRows s)\<rparr>"

definition add_pending_create :: "tui_state \<Rightarrow> pending_create \<Rightarrow> tui_state" where
  "add_pending_create s row = update_local (\<lambda>l. l\<lparr>lr_pendingCreate := lr_pendingCreate l @ [row]\<rparr>) s"

definition bind_pending_create :: "tui_state \<Rightarrow> string \<Rightarrow> command_id \<Rightarrow> tui_state" where
  "bind_pending_create s localId commandId =
     update_local (\<lambda>l. l\<lparr>lr_pendingCreate := map (\<lambda>row. if pc_localId row \<noteq> localId then row
       else row\<lparr>pc_commandId := Some commandId\<rparr>) (lr_pendingCreate l)\<rparr>) s"

definition fail_pending_create :: "tui_state \<Rightarrow> string \<Rightarrow> safe_error \<Rightarrow> int \<Rightarrow> tui_state" where
  "fail_pending_create s localId e expiresAt =
     (case find (\<lambda>candidate. pc_localId candidate = localId) (lr_pendingCreate (ui_localRows s)) of
        None \<Rightarrow> s
      | Some row \<Rightarrow> update_local (\<lambda>l. l\<lparr>
            lr_pendingCreate := filter (\<lambda>candidate. pc_localId candidate \<noteq> localId) (lr_pendingCreate l),
            lr_failedCreate := lr_failedCreate l @
              [\<lparr>fc_localId = localId, fc_projectId = pc_projectId row, fc_branch = pc_branch row,
                fc_error = e, fc_expiresAt = expiresAt\<rparr>]\<rparr>) s)"

definition remove_create_row :: "tui_state \<Rightarrow> string \<Rightarrow> tui_state" where
  "remove_create_row s localId =
     update_local (\<lambda>l. l\<lparr>lr_pendingCreate := filter (\<lambda>row. pc_localId row \<noteq> localId) (lr_pendingCreate l),
       lr_failedCreate := filter (\<lambda>row. fc_localId row \<noteq> localId) (lr_failedCreate l)\<rparr>) s"

definition add_pending_remove :: "tui_state \<Rightarrow> pending_remove \<Rightarrow> tui_state" where
  "add_pending_remove s row =
     update_local (\<lambda>l. l\<lparr>lr_pendingRemove :=
       filter (\<lambda>candidate. pm_worktreeId candidate \<noteq> pm_worktreeId row) (lr_pendingRemove l) @ [row]\<rparr>) s"

definition bind_pending_remove :: "tui_state \<Rightarrow> string \<Rightarrow> command_id \<Rightarrow> tui_state" where
  "bind_pending_remove s localId commandId =
     update_local (\<lambda>l. l\<lparr>lr_pendingRemove := map (\<lambda>row. if pm_localId row \<noteq> localId then row
       else row\<lparr>pm_commandId := Some commandId\<rparr>) (lr_pendingRemove l)\<rparr>) s"

definition remove_pending_remove :: "tui_state \<Rightarrow> string \<Rightarrow> tui_state" where
  "remove_pending_remove s localId =
     update_local (\<lambda>l. l\<lparr>lr_pendingRemove := filter (\<lambda>row. pm_localId row \<noteq> localId) (lr_pendingRemove l)\<rparr>) s"

definition add_pending_start :: "tui_state \<Rightarrow> pending_start \<Rightarrow> tui_state" where
  "add_pending_start s row =
     update_local (\<lambda>l. l\<lparr>lr_pendingStart :=
       filter (\<lambda>candidate. pst_worktreeId candidate \<noteq> pst_worktreeId row) (lr_pendingStart l) @ [row]\<rparr>) s"

definition bind_pending_start :: "tui_state \<Rightarrow> string \<Rightarrow> command_id \<Rightarrow> tui_state" where
  "bind_pending_start s localId commandId =
     update_local (\<lambda>l. l\<lparr>lr_pendingStart := map (\<lambda>row. if pst_localId row \<noteq> localId then row
       else row\<lparr>pst_commandId := Some commandId\<rparr>) (lr_pendingStart l)\<rparr>) s"

definition remove_pending_start :: "tui_state \<Rightarrow> string \<Rightarrow> tui_state" where
  "remove_pending_start s localId =
     update_local (\<lambda>l. l\<lparr>lr_pendingStart := filter (\<lambda>row. pst_localId row \<noteq> localId) (lr_pendingStart l)\<rparr>) s"

definition pending_rename_titles :: "local_rows \<Rightarrow> pending_rename dict" where
  "pending_rename_titles l = nullish (lr_renames l) []"

definition with_rename_titles :: "local_rows \<Rightarrow> pending_rename dict \<Rightarrow> local_rows" where
  "with_rename_titles l titles = l\<lparr>lr_renames := (if 0 < length titles then Some titles else None)\<rparr>"

definition add_pending_rename :: "tui_state \<Rightarrow> pending_rename \<Rightarrow> tui_state" where
  "add_pending_rename s row =
     update_local (\<lambda>l. with_rename_titles l (rec_set (prn_sessionId row) row (pending_rename_titles l))) s"

definition bind_pending_rename :: "tui_state \<Rightarrow> session_id \<Rightarrow> command_id \<Rightarrow> tui_state" where
  "bind_pending_rename s sessionId commandId =
     (case map_of (pending_rename_titles (ui_localRows s)) sessionId of
        None \<Rightarrow> s
      | Some pending \<Rightarrow> update_local (\<lambda>l. with_rename_titles l
            (rec_set sessionId (pending\<lparr>prn_commandId := Some commandId\<rparr>) (pending_rename_titles l))) s)"

definition remove_pending_rename :: "tui_state \<Rightarrow> session_id \<Rightarrow> tui_state" where
  "remove_pending_rename s sessionId =
     (case map_of (pending_rename_titles (ui_localRows s)) sessionId of
        None \<Rightarrow> s
      | Some pending \<Rightarrow> update_local (\<lambda>l. with_rename_titles l (rec_del sessionId (pending_rename_titles l))) s)"

text \<open>A project and a branch are joined with a NUL character, which neither contains.\<close>

definition has_real_row :: "snapshot \<Rightarrow> project_id \<Rightarrow> string \<Rightarrow> bool" where
  "has_real_row s projectId branch =
     (projectId @ [CHR 0x00] @ branch \<in> set (map (\<lambda>row. row_projectId row @ [CHR 0x00] @ row_branch row) (ss_rows s)))"

definition prune_rename_titles :: "local_rows \<Rightarrow> snapshot \<Rightarrow> pending_rename dict" where
  "prune_rename_titles l s =
     filter (\<lambda>(sessionId, pending).
       case js_map sv_id (ss_sessions s) sessionId of
         None \<Rightarrow> False | Some session \<Rightarrow> sv_title session \<noteq> prn_title pending) (pending_rename_titles l)"

definition prune_local_rows :: "local_rows \<Rightarrow> snapshot \<Rightarrow> local_rows" where
  "prune_local_rows l s =
     with_rename_titles
       (l\<lparr>lr_pendingCreate := filter (\<lambda>row. \<not> has_real_row s (pc_projectId row) (pc_branch row)) (lr_pendingCreate l),
          lr_pendingRemove := filter (\<lambda>row. pm_worktreeId row \<in> set (map row_id (ss_rows s))) (lr_pendingRemove l),
          lr_pendingStart := filter (\<lambda>row. case js_map row_id (ss_rows s) (pst_worktreeId row) of
              None \<Rightarrow> False
            | Some realRow \<Rightarrow> row_agent realRow = None \<and>
                pst_worktreeId row \<notin> set (map sv_worktreeId (ss_sessions s))) (lr_pendingStart l)\<rparr>)
       (prune_rename_titles l s)"

subsection \<open>Messages (timing.ts, toasts.ts)\<close>

fun toast_expiry_ms :: "notice_kind \<Rightarrow> int" where
  "toast_expiry_ms NoticeSuccess = 2400"
| "toast_expiry_ms NoticeInfo = 3200"
| "toast_expiry_ms NoticeError = 8000"

definition failed_create_row_ttl_ms :: int where
  "failed_create_row_ttl_ms = 4000"

definition observer_recovery_toast_threshold_ms :: int where
  "observer_recovery_toast_threshold_ms = 1500"

fun notice_kind_text :: "notice_kind \<Rightarrow> string" where
  "notice_kind_text NoticeInfo = ''info''"
| "notice_kind_text NoticeSuccess = ''success''"
| "notice_kind_text NoticeError = ''error''"

definition json_or_null :: "string option \<Rightarrow> json" where
  "json_or_null x = (case x of None \<Rightarrow> JNull | Some t \<Rightarrow> JStr t)"

definition toast_key :: "client_notice \<Rightarrow> string" where
  "toast_key t = stringify (JArr
     [JStr (notice_kind_text (cn_kind t)), JStr (cn_message t), json_or_null (cn_hint t),
      json_or_null (cn_commandId t), json_or_null (cn_traceId t), json_or_null (cn_diagnosticId t)])"

definition toast_entry_id :: "client_notice \<Rightarrow> int \<Rightarrow> string" where
  "toast_entry_id t nowMs = print_int nowMs @ '':'' @ toast_key t"

definition expire_toasts :: "tui_state \<Rightarrow> int \<Rightarrow> tui_state" where
  "expire_toasts s nowMs =
     (let toasts = filter (\<lambda>entry. case te_expiresAt entry of None \<Rightarrow> True | Some t \<Rightarrow> nowMs < t) (ui_toasts s)
      in if length toasts = length (ui_toasts s) then s else s\<lparr>ui_toasts := toasts\<rparr>)"

definition active_toast :: "tui_state \<Rightarrow> toast_entry option" where
  "active_toast s = (if ui_toasts s = [] then None else Some (last (ui_toasts s)))"

definition last_three :: "'a list \<Rightarrow> 'a list" where
  "last_three xs = drop (length xs - 3) xs"

definition add_toast :: "tui_state \<Rightarrow> client_notice \<Rightarrow> int \<Rightarrow> tui_state" where
  "add_toast s toast nowMs =
     (let current = expire_toasts s nowMs;
          expiresAt = nowMs + toast_expiry_ms (cn_kind toast);
          entry = \<lparr>te_id = toast_entry_id toast nowMs, te_toast = toast, te_createdAt = nowMs,
                   te_updatedAt = nowMs, te_expiresAt = Some expiresAt\<rparr>;
          appended = current\<lparr>ui_toasts := last_three (ui_toasts current @ [entry])\<rparr>
      in case active_toast current of
           None \<Rightarrow> appended
         | Some active \<Rightarrow>
             if toast_key (te_toast active) = toast_key toast
             then current\<lparr>ui_toasts := map (\<lambda>entry. if te_id entry = te_id active
                    then entry\<lparr>te_toast := toast, te_updatedAt := nowMs, te_expiresAt := Some expiresAt\<rparr>
                    else entry) (ui_toasts current)\<rparr>
             else appended)"

definition add_toasts :: "tui_state \<Rightarrow> client_notice list \<Rightarrow> int \<Rightarrow> tui_state" where
  "add_toasts s toasts nowMs = foldl (\<lambda>current toast. add_toast current toast nowMs) s toasts"

definition refresh_active_toast :: "tui_state \<Rightarrow> int \<Rightarrow> tui_state" where
  "refresh_active_toast s nowMs =
     (case active_toast s of
        None \<Rightarrow> s
      | Some active \<Rightarrow>
          if te_expiresAt active = None then s
          else s\<lparr>ui_toasts := map (\<lambda>entry. if te_id entry = te_id active
                 then entry\<lparr>te_expiresAt := Some (nowMs + toast_expiry_ms (cn_kind (te_toast active)))\<rparr> else entry)
               (ui_toasts s)\<rparr>)"

definition next_toast_expiry :: "tui_state \<Rightarrow> int option" where
  "next_toast_expiry s =
     foldl (\<lambda>nxt entry. case te_expiresAt entry of
              None \<Rightarrow> nxt
            | Some t \<Rightarrow> (case nxt of None \<Rightarrow> Some t | Some n \<Rightarrow> Some (min n t))) None (ui_toasts s)"

subsection \<open>The first state and new snapshots (screen.ts)\<close>

definition initial_tui_state ::
  "snapshot option \<Rightarrow> string option \<Rightarrow> project_id list option \<Rightarrow> int option \<Rightarrow> int option \<Rightarrow> local_rows option \<Rightarrow>
     tui_runtime \<Rightarrow> tui_state" where
  "initial_tui_state initialSnapshot searchQuery collapsed scrollOffset terminalRows localRows runtime =
     \<lparr>ui_snapshot = initialSnapshot, ui_loading = (initialSnapshot = None), ui_screen = ScrDashboard,
      ui_toasts = [], ui_observer = ObsConnected, ui_runtime = runtime,
      ui_searchQuery = nullish searchQuery [], ui_collapsed = js_unique (nullish collapsed []),
      ui_scrollOffset = nullish scrollOffset 0, ui_terminalRows = nullish terminalRows 24,
      ui_localRows = nullish localRows empty_local_rows\<rparr>"

definition replace_snapshot :: "tui_state \<Rightarrow> snapshot \<Rightarrow> tui_state" where
  "replace_snapshot s snapshot =
     s\<lparr>ui_snapshot := Some snapshot, ui_loading := False,
       ui_localRows := prune_local_rows (ui_localRows s) snapshot\<rparr>"

end
