(* ===== verification/DashboardView.thy ===== *)
theory DashboardView
  imports DashboardState
begin

text \<open>
  What the dashboard shows (\<^verbatim>\<open>dashboard-core/src/selectors/selectors.ts\<close>, \<^verbatim>\<open>selectors/dashboardViewport.ts\<close>,
  \<^verbatim>\<open>components/Dashboard/layout.ts\<close>, \<^verbatim>\<open>state/dashboardScroll.ts\<close>). \<^verbatim>\<open>localeCompare\<close> and
  \<^verbatim>\<open>toLocaleLowerCase\<close> come from the host and are the fields of \<open>host_locale\<close>.
\<close>

record host_locale =
  hl_compare :: collator
  hl_lower :: "string \<Rightarrow> string"

subsection \<open>Groups of rows (selectors.ts)\<close>

record project_group =
  pg_project :: project_view
  pg_rows :: "worktree_row list"
  pg_collapsed :: bool

definition session_for_row :: "worktree_row \<Rightarrow> session_view list \<Rightarrow> session_view option" where
  "session_for_row row sessions =
     (case Option.bind (Option.bind (row_agent row) ag_sessionId)
             (\<lambda>sessionId. find (\<lambda>session. sv_id session = sessionId) sessions) of
        Some direct \<Rightarrow> Some direct
      | None \<Rightarrow> find (\<lambda>session. sv_worktreeId session = row_id row) sessions)"

definition row_display_title :: "worktree_row \<Rightarrow> session_view list \<Rightarrow> local_rows \<Rightarrow> string" where
  "row_display_title row sessions l =
     (case session_for_row row sessions of
        None \<Rightarrow> row_branch row
      | Some session \<Rightarrow>
          nullish (map_option prn_title (map_of (pending_rename_titles l) (sv_id session))) (sv_title session))"

definition compare_group_rows :: "host_locale \<Rightarrow> session_view list \<Rightarrow> local_rows \<Rightarrow> worktree_row comparison" where
  "compare_group_rows h sessions l left right =
     or_else (hl_compare h (row_display_title left sessions l) (row_display_title right sessions l))
       (or_else (hl_compare h (row_branch left) (row_branch right))
         (or_else (hl_compare h (row_path left) (row_path right))
           (hl_compare h (row_id left) (row_id right))))"

definition normalize_search :: "host_locale \<Rightarrow> string \<Rightarrow> string" where
  "normalize_search h text = hl_lower h (trim text)"

fun status_label_text :: "status_label \<Rightarrow> string" where
  "status_label_text LabelNoAgent = ''no agent''"
| "status_label_text LabelStarting = ''starting''"
| "status_label_text LabelIdle = ''idle''"
| "status_label_text LabelWorking = ''working''"
| "status_label_text LabelNeedsAttention = ''needs attention''"
| "status_label_text LabelStuck = ''stuck''"
| "status_label_text LabelExited = ''exited''"
| "status_label_text LabelUnknown = ''unknown''"

definition row_matches_search :: "host_locale \<Rightarrow> worktree_row \<Rightarrow> project_view \<Rightarrow> string \<Rightarrow> string \<Rightarrow> bool" where
  "row_matches_search h row project query displayTitle =
     (length query = 0 \<or>
      list_ex (\<lambda>text. str_includes query (normalize_search h text))
        [displayTitle, row_branch row, status_label_text (rd_statusLabel (row_display row)),
         nullish (rd_reason (row_display row)) [], nullish (map_option ag_harness (row_agent row)) [],
         nullish (map_option ta_provider (row_terminal row)) [], pv_label project])"

definition select_project_groups :: "host_locale \<Rightarrow> snapshot \<Rightarrow> tui_state \<Rightarrow> project_group list" where
  "select_project_groups h snapshot s =
     (let query = normalize_search h (ui_searchQuery s)
      in map (\<lambda>project.
           let collapsed = pv_id project \<in> set (ui_collapsed s);
               matchingRows = js_sort (compare_group_rows h (ss_sessions snapshot) (ui_localRows s))
                 (filter (\<lambda>row. row_matches_search h row project query
                      (row_display_title row (ss_sessions snapshot) (ui_localRows s)))
                   (filter (\<lambda>row. row_projectId row = pv_id project) (ss_rows snapshot)))
           in \<lparr>pg_project = project, pg_rows = (if collapsed then [] else matchingRows), pg_collapsed = collapsed\<rparr>)
         (ss_projects snapshot))"

definition select_visible_rows :: "host_locale \<Rightarrow> snapshot \<Rightarrow> tui_state \<Rightarrow> worktree_row list" where
  "select_visible_rows h snapshot s = concat (map pg_rows (select_project_groups h snapshot s))"

definition select_project_choices :: "host_locale \<Rightarrow> snapshot \<Rightarrow> tui_state \<Rightarrow> project_view keyed_choice list" where
  "select_project_choices h snapshot s = key_choices (map pg_project (select_project_groups h snapshot s))"

subsection \<open>The rows that fit (components/Dashboard/layout.ts)\<close>

definition dashboard_fixed_rows :: int where
  "dashboard_fixed_rows = sum_list [1, 1, 1, 1, 1, 1]"

definition dashboard_body_rows :: "int \<Rightarrow> int" where
  "dashboard_body_rows totalRows = max 1 (totalRows - dashboard_fixed_rows)"

definition clamp_scroll_offset :: "int \<Rightarrow> int \<Rightarrow> int \<Rightarrow> int" where
  "clamp_scroll_offset bodyRows itemCount scrollOffset =
     (let bodyRows = max 1 bodyRows;
          itemCount = max 0 itemCount;
          maxOffset = max 0 (itemCount - bodyRows)
      in min (max 0 scrollOffset) maxOffset)"

subsection \<open>The list of the dashboard (dashboardViewport.ts)\<close>

datatype create_local_row = LocalPending pending_create | LocalFailed failed_create

fun local_projectId :: "create_local_row \<Rightarrow> project_id" where
  "local_projectId (LocalPending r) = pc_projectId r"
| "local_projectId (LocalFailed r) = fc_projectId r"

fun local_branch :: "create_local_row \<Rightarrow> string" where
  "local_branch (LocalPending r) = pc_branch r"
| "local_branch (LocalFailed r) = fc_branch r"

fun local_localId :: "create_local_row \<Rightarrow> string" where
  "local_localId (LocalPending r) = pc_localId r"
| "local_localId (LocalFailed r) = fc_localId r"

fun local_harness :: "create_local_row \<Rightarrow> string" where
  "local_harness (LocalPending r) = pc_harness r"
| "local_harness (LocalFailed r) = []"

record worktree_item =
  wi_row :: worktree_row
  wi_displayTitle :: string
  wi_pendingRemove :: "pending_remove option"
  wi_pendingStart :: "pending_start option"

datatype viewport_item =
  ProjectGap project_id
| ProjectHeader project_view bool
| EmptyProject project_view
| WorktreeItem worktree_item
| CreateItem create_local_row

datatype group_row = GroupWorktree worktree_row | GroupLocal create_local_row

definition group_row_title :: "group_row \<Rightarrow> snapshot \<Rightarrow> tui_state \<Rightarrow> string" where
  "group_row_title r snapshot s =
     (case r of GroupLocal l \<Rightarrow> local_branch l
      | GroupWorktree row \<Rightarrow> row_display_title row (ss_sessions snapshot) (ui_localRows s))"

definition group_row_branch :: "group_row \<Rightarrow> string" where
  "group_row_branch r = (case r of GroupLocal l \<Rightarrow> local_branch l | GroupWorktree row \<Rightarrow> row_branch row)"

definition group_row_id :: "group_row \<Rightarrow> string" where
  "group_row_id r = (case r of GroupLocal l \<Rightarrow> local_localId l | GroupWorktree row \<Rightarrow> row_id row)"

definition group_row_rank :: "group_row \<Rightarrow> int" where
  "group_row_rank r = (case r of GroupWorktree row \<Rightarrow> 0 | GroupLocal l \<Rightarrow> 1)"

definition compare_dashboard_rows :: "host_locale \<Rightarrow> snapshot \<Rightarrow> tui_state \<Rightarrow> group_row comparison" where
  "compare_dashboard_rows h snapshot s left right =
     or_else (hl_compare h (group_row_title left snapshot s) (group_row_title right snapshot s))
       (or_else (hl_compare h (group_row_branch left) (group_row_branch right))
         (or_else (group_row_rank left - group_row_rank right)
           (hl_compare h (group_row_id left) (group_row_id right))))"

definition visible_local_rows :: "snapshot \<Rightarrow> tui_state \<Rightarrow> create_local_row list" where
  "visible_local_rows snapshot s =
     map LocalPending (filter (\<lambda>row. \<not> has_real_row snapshot (pc_projectId row) (pc_branch row))
       (lr_pendingCreate (ui_localRows s))) @
     map LocalFailed (lr_failedCreate (ui_localRows s))"

definition local_row_matches_search :: "host_locale \<Rightarrow> create_local_row \<Rightarrow> project_view \<Rightarrow> string \<Rightarrow> bool" where
  "local_row_matches_search h row project searchQuery =
     (let query = hl_lower h (trim searchQuery)
      in length query = 0 \<or>
         list_ex (\<lambda>text. str_includes query (hl_lower h text)) [local_branch row, pv_label project, local_harness row])"

definition merge_group_rows ::
  "host_locale \<Rightarrow> worktree_row list \<Rightarrow> create_local_row list \<Rightarrow> snapshot \<Rightarrow> tui_state \<Rightarrow> group_row list" where
  "merge_group_rows h rows localRows snapshot s =
     js_sort (compare_dashboard_rows h snapshot s) (map GroupWorktree rows @ map GroupLocal localRows)"

definition item_of_row :: "snapshot \<Rightarrow> tui_state \<Rightarrow> group_row \<Rightarrow> viewport_item" where
  "item_of_row snapshot s r =
     (case r of
        GroupWorktree row \<Rightarrow> WorktreeItem
          \<lparr>wi_row = row, wi_displayTitle = row_display_title row (ss_sessions snapshot) (ui_localRows s),
           wi_pendingRemove = find (\<lambda>l. pm_worktreeId l = row_id row) (lr_pendingRemove (ui_localRows s)),
           wi_pendingStart = find (\<lambda>l. pst_worktreeId l = row_id row) (lr_pendingStart (ui_localRows s))\<rparr>
      | GroupLocal l \<Rightarrow> CreateItem l)"

definition group_items ::
  "host_locale \<Rightarrow> snapshot \<Rightarrow> tui_state \<Rightarrow> create_local_row list \<Rightarrow> nat \<times> project_group \<Rightarrow> viewport_item list" where
  "group_items h snapshot s localRows indexed =
     (let (index, group) = indexed;
          gap = (if 0 < index then [ProjectGap (pv_id (pg_project group))] else []);
          items = gap @ [ProjectHeader (pg_project group) (pg_collapsed group)]
      in if pg_collapsed group then items
         else let projectLocalRows =
                    filter (\<lambda>row. local_row_matches_search h row (pg_project group) (ui_searchQuery s))
                      (filter (\<lambda>row. local_projectId row = pv_id (pg_project group)) localRows);
                  rows = merge_group_rows h (pg_rows group) projectLocalRows snapshot s
              in if length rows = 0 then items @ [EmptyProject (pg_project group)]
                 else items @ map (item_of_row snapshot s) rows)"

definition select_dashboard_items :: "host_locale \<Rightarrow> snapshot \<Rightarrow> tui_state \<Rightarrow> viewport_item list" where
  "select_dashboard_items h snapshot s =
     (let localRows = visible_local_rows snapshot s;
          groups = select_project_groups h snapshot s
      in concat (map (group_items h snapshot s localRows) (enumerate 0 groups)))"

definition display_worktree_rows :: "viewport_item list \<Rightarrow> worktree_row list" where
  "display_worktree_rows items =
     List.map_filter (\<lambda>item. case item of
         WorktreeItem i \<Rightarrow> if wi_pendingRemove i = None then Some (wi_row i) else None
       | _ \<Rightarrow> None) items"

definition starting_worktrees :: "viewport_item list \<Rightarrow> worktree_id list" where
  "starting_worktrees items =
     List.map_filter (\<lambda>item. case item of
         WorktreeItem i \<Rightarrow> if wi_pendingStart i \<noteq> None then Some (row_id (wi_row i)) else None
       | _ \<Rightarrow> None) items"

record viewport =
  vp_bodyRows :: int
  vp_scrollOffset :: int
  vp_hiddenAbove :: int
  vp_hiddenBelow :: int
  vp_items :: "viewport_item list"
  vp_visibleItems :: "viewport_item list"
  vp_rowChoices :: "worktree_row keyed_choice list"
  vp_displayRowChoices :: "worktree_row keyed_choice list"

definition select_viewport :: "host_locale \<Rightarrow> snapshot \<Rightarrow> tui_state \<Rightarrow> viewport" where
  "select_viewport h snapshot s =
     (let items = select_dashboard_items h snapshot s;
          bodyRows = dashboard_body_rows (ui_terminalRows s);
          offset = clamp_scroll_offset bodyRows (int (length items)) (ui_scrollOffset s);
          visibleItems = take (nat bodyRows) (drop (nat offset) items);
          displayRowChoices = key_choices (display_worktree_rows visibleItems);
          pendingStartWorktreeIds = set (starting_worktrees visibleItems)
      in \<lparr>vp_bodyRows = bodyRows, vp_scrollOffset = offset, vp_hiddenAbove = offset,
          vp_hiddenBelow = max 0 (int (length items) - offset - bodyRows),
          vp_items = items, vp_visibleItems = visibleItems,
          vp_rowChoices = filter (\<lambda>choice. row_id (snd choice) \<notin> pendingStartWorktreeIds) displayRowChoices,
          vp_displayRowChoices = displayRowChoices\<rparr>)"

subsection \<open>Scrolling (dashboardScroll.ts)\<close>

definition clamped_scroll_offset :: "host_locale \<Rightarrow> tui_state \<Rightarrow> int" where
  "clamped_scroll_offset h s =
     (case ui_snapshot s of
        None \<Rightarrow> 0
      | Some snapshot \<Rightarrow> clamp_scroll_offset (dashboard_body_rows (ui_terminalRows s))
          (int (length (select_dashboard_items h snapshot s))) (ui_scrollOffset s))"

definition clamp_state_scroll :: "host_locale \<Rightarrow> tui_state \<Rightarrow> tui_state" where
  "clamp_state_scroll h s =
     (let scrollOffset = clamped_scroll_offset h s
      in if scrollOffset = ui_scrollOffset s then s else s\<lparr>ui_scrollOffset := scrollOffset\<rparr>)"

definition scroll_dashboard :: "host_locale \<Rightarrow> tui_state \<Rightarrow> int \<Rightarrow> tui_state" where
  "scroll_dashboard h s delta = clamp_state_scroll h (s\<lparr>ui_scrollOffset := ui_scrollOffset s + delta\<rparr>)"

end
