(* ===== verification/DashboardKeys.thy ===== *)
theory DashboardKeys
  imports DashboardView
begin

text \<open>
  What a key does (\<^verbatim>\<open>dashboard-core/src/state\<close>): the commands for a row (\<^verbatim>\<open>commandBuilders.ts\<close>), one
  handler per screen (\<^verbatim>\<open>screens/\<close>) and the dispatch on the open screen (\<^verbatim>\<open>transition.ts\<close>). A handler gives
  the next state and what is to be done besides.
\<close>

subsection \<open>Commands for a row (commandBuilders.ts)\<close>

datatype cleanup_action = CleanCloseHarness | CleanCloseTerminal | CleanCloseAll | CleanRemoveWorktree

definition command_layout :: "string \<Rightarrow> terminal_layout" where
  "command_layout layout =
     (if layout = ''default'' then LayoutDefault
      else if layout = ''agent-only'' then LayoutAgentOnly
      else if layout = ''agent-build-shell'' then LayoutAgentBuildShell
      else LayoutDefault)"

definition project_terminal :: "project_view \<Rightarrow> terminal_options" where
  "project_terminal project =
     \<lparr>to_opt_provider = Some (pd_terminal (pv_defaults project)),
      to_opt_layout = Some (command_layout (pd_layout (pv_defaults project))),
      to_opt_focus = Some False, to_opt_origin = None\<rparr>"

definition agent_session :: "worktree_row \<Rightarrow> session_id option" where
  "agent_session row = Option.bind (row_agent row) ag_sessionId"

definition build_focus_command :: "worktree_row \<Rightarrow> focus_origin option \<Rightarrow> wosm_command" where
  "build_focus_command row origin =
     TerminalFocus \<lparr>tf_sessionId = agent_session row,
       tf_worktreeId = (if agent_session row = None then Some (row_id row) else None), tf_origin = origin\<rparr>"

definition build_start_agent_command :: "worktree_row \<Rightarrow> project_view \<Rightarrow> wosm_command" where
  "build_start_agent_command row project =
     StartAgent \<lparr>sa_projectId = pv_id project, sa_worktreeId = row_id row, sa_harness = None,
       sa_terminal = Some (project_terminal project), sa_initialPrompt = None\<rparr>"

text \<open>None is the thrown error.\<close>

definition build_resume_agent_command :: "worktree_row \<Rightarrow> project_view \<Rightarrow> wosm_command option" where
  "build_resume_agent_command row project =
     map_option (\<lambda>recovery. ResumeAgent \<lparr>re_projectId = pv_id project, re_worktreeId = row_id row,
       re_recoveryHandleId = Some (ra_handleId recovery), re_terminal = Some (project_terminal project),
       re_initialPrompt = None\<rparr>) (row_recovery row)"

definition is_running_agent_state :: "agent_state option \<Rightarrow> bool" where
  "is_running_agent_state st =
     (st \<in> {Some AgentStarting, Some AgentIdle, Some AgentWorking, Some AgentNeedsAttention,
            Some AgentStuck, Some AgentUnknown})"

definition cleanup_force_required :: "worktree_row \<Rightarrow> cleanup_action \<Rightarrow> bool" where
  "cleanup_force_required row action =
     (let running = is_running_agent_state (map_option ag_state (row_agent row))
      in if action = CleanRemoveWorktree then wr_dirty (row_worktree row) = Some True \<or> running else running)"

definition force_flag :: "bool \<Rightarrow> bool option" where
  "force_flag force = (if force then Some True else None)"

definition build_remove_worktree_command :: "worktree_row \<Rightarrow> bool \<Rightarrow> wosm_command" where
  "build_remove_worktree_command row force =
     RemoveWorktree \<lparr>rw_worktreeId = row_id row, rw_projectId = Some (row_projectId row), rw_force = force_flag force\<rparr>"

definition build_session_close_command :: "worktree_row \<Rightarrow> close_mode \<Rightarrow> bool \<Rightarrow> wosm_command option" where
  "build_session_close_command row mode force =
     map_option (\<lambda>sessionId. CloseSession sessionId mode (force_flag force)) (agent_session row)"

definition build_terminal_close_command :: "worktree_row \<Rightarrow> bool \<Rightarrow> wosm_command" where
  "build_terminal_close_command row force =
     TerminalClose \<lparr>tc_sessionId = agent_session row,
       tc_worktreeId = (if agent_session row = None then Some (row_id row) else None), tc_force = force_flag force\<rparr>"

fun build_cleanup_command :: "worktree_row \<Rightarrow> cleanup_action \<Rightarrow> bool \<Rightarrow> wosm_command option" where
  "build_cleanup_command row CleanCloseHarness force = build_session_close_command row CloseHarness force"
| "build_cleanup_command row CleanCloseTerminal force = Some (build_terminal_close_command row force)"
| "build_cleanup_command row CleanCloseAll force = build_session_close_command row CloseAll force"
| "build_cleanup_command row CleanRemoveWorktree force = Some (build_remove_worktree_command row force)"

definition build_create_session_command ::
  "project_view \<Rightarrow> string \<Rightarrow> provider_id \<Rightarrow> string option \<Rightarrow> wosm_command" where
  "build_create_session_command project branch harness initialPrompt =
     CreateSession \<lparr>cse_projectId = pv_id project, cse_branch = branch, cse_base = None, cse_source = None,
       cse_harness = \<lparr>ho_provider = Some harness, ho_mode = Some RunInteractive, ho_profile = None,
         ho_approvalPolicy = None, ho_sandboxMode = None\<rparr>,
       cse_terminal = project_terminal project,
       cse_initialPrompt = (case initialPrompt of
           Some prompt \<Rightarrow> if 0 < length prompt then Some prompt else None | None \<Rightarrow> None)\<rparr>"

definition build_primary_command_for_row ::
  "worktree_row \<Rightarrow> snapshot \<Rightarrow> focus_origin option \<Rightarrow> wosm_command option" where
  "build_primary_command_for_row row snapshot origin =
     (if row_recovery row \<noteq> None \<or> row_agent row = None
      then (case find (\<lambda>candidate. pv_id candidate = row_projectId row) (ss_projects snapshot) of
              None \<Rightarrow> None
            | Some project \<Rightarrow> if row_recovery row \<noteq> None then build_resume_agent_command row project
                else Some (build_start_agent_command row project))
      else Some (build_focus_command row origin))"

definition can_send_prompt_to_row :: "worktree_row \<Rightarrow> session_view list \<Rightarrow> bool" where
  "can_send_prompt_to_row row sessions =
     (case agent_session row of
        None \<Rightarrow> False
      | Some sessionId \<Rightarrow>
          map_option (canReceivePrompt \<circ> sh_capabilities \<circ> sv_harness)
            (find (\<lambda>candidate. sv_id candidate = sessionId) sessions) = Some True)"

definition build_send_prompt_command ::
  "worktree_row \<Rightarrow> session_view list \<Rightarrow> string \<Rightarrow> wosm_command option" where
  "build_send_prompt_command row sessions prompt =
     (if \<not> can_send_prompt_to_row row sessions then None
      else map_option (\<lambda>sessionId. SendPrompt sessionId prompt (Some HarnessNative)) (agent_session row))"

subsection \<open>Operations and transitions (operations/types.ts, transition.ts)\<close>

datatype tui_operation =
  CreateSessionOp string project_id string provider_id wosm_command
| RemoveWorktreeOp string project_id worktree_id string wosm_command
| StartAgentOp string project_id worktree_id string wosm_command
| ResumeAgentOp string project_id worktree_id string wosm_command
| RenameSessionOp session_id string wosm_command
| LoadDirectoryOp string
| ReviewFolderOp string
| SearchDirectoriesOp string
| AddProjectOp wosm_command

record tui_transition =
  tt_state :: tui_state
  tt_commands :: "wosm_command list"
  tt_operations :: "tui_operation list"
  tt_reconcileReason :: "string option"
  tt_exitCode :: "int option"
  tt_dismissPopup :: bool

text \<open>What a handler reads of its surroundings: the host, the clock, fresh identifiers.\<close>

record key_context =
  kc_host :: host_locale
  kc_digest :: "string list \<Rightarrow> string"
  kc_cwd :: string
  kc_homeDir :: string
  kc_dirname :: "string \<Rightarrow> string"
  kc_now :: timestamp
  kc_nowMs :: int
  kc_uuid :: "nat \<Rightarrow> string"

definition become :: "tui_state \<Rightarrow> tui_transition" where
  "become s = \<lparr>tt_state = s, tt_commands = [], tt_operations = [], tt_reconcileReason = None,
     tt_exitCode = None, tt_dismissPopup = False\<rparr>"

definition show_screen :: "tui_state \<Rightarrow> tui_screen \<Rightarrow> tui_transition" where
  "show_screen s scr = become (s\<lparr>ui_screen := scr\<rparr>)"

definition show_toast :: "key_context \<Rightarrow> tui_state \<Rightarrow> client_notice \<Rightarrow> tui_transition" where
  "show_toast c s toast = become (add_toast s toast (kc_nowMs c))"

subsection \<open>The dashboard (screens/dashboard.ts)\<close>

definition scroll_delta_for_key :: "tui_key \<Rightarrow> int" where
  "scroll_delta_for_key key =
     (if k_up key \<or> k_mouse key = Some ScrollUp then - 1
      else if k_down key \<or> k_mouse key = Some ScrollDown then 1 else 0)"

definition open_new_session :: "key_context \<Rightarrow> tui_state \<Rightarrow> tui_transition" where
  "open_new_session c s =
     (case ui_snapshot s of
        None \<Rightarrow> become s
      | Some snapshot \<Rightarrow>
          (case create_session_flow (kc_digest c) snapshot (create_name_token (kc_digest c) (kc_uuid c 0)) of
             None \<Rightarrow> show_toast c s (safe_error_to_notice project_not_configured)
           | Some flow \<Rightarrow> show_screen s (ScrNewSession flow)))"

definition format_project_choice_prompt :: "project_view keyed_choice list \<Rightarrow> string" where
  "format_project_choice_prompt choices =
     str_join '' '' (map (\<lambda>choice. fst choice @ '':'' @ pv_label (snd choice)) choices)"

definition open_project_collapse :: "key_context \<Rightarrow> tui_state \<Rightarrow> tui_transition" where
  "open_project_collapse c s =
     (case ui_snapshot s of
        None \<Rightarrow> become s
      | Some snapshot \<Rightarrow>
          show_screen s (ScrCollapse (format_project_choice_prompt (select_project_choices (kc_host c) snapshot s))))"

definition open_add_project :: "key_context \<Rightarrow> tui_state \<Rightarrow> tui_state" where
  "open_add_project c s = s\<lparr>ui_screen := ScrAddProject (create_project_flow (kc_cwd c) (kc_homeDir c))\<rparr>"

definition project_not_found :: "worktree_row \<Rightarrow> safe_error" where
  "project_not_found row =
     basic_error ''CommandValidationError'' ''PROJECT_NOT_FOUND''
       (''Project not found for worktree '' @ row_id row @ ''.'')"

definition start_or_resume_agent_for_row :: "key_context \<Rightarrow> tui_state \<Rightarrow> worktree_row \<Rightarrow> tui_transition" where
  "start_or_resume_agent_for_row c s row =
     (case Option.bind (ui_snapshot s)
             (\<lambda>snapshot. find (\<lambda>candidate. pv_id candidate = row_projectId row) (ss_projects snapshot)) of
        None \<Rightarrow> show_toast c s (safe_error_to_notice (project_not_found row))
      | Some project \<Rightarrow>
          (case build_resume_agent_command row project of
             Some command \<Rightarrow>
               (let localId = ''resume:'' @ row_id row
                in (become (add_pending_start s
                     \<lparr>pst_localId = localId, pst_operation = Some OpResumeAgent, pst_projectId = row_projectId row,
                      pst_worktreeId = row_id row, pst_branch = row_branch row, pst_createdAt = kc_now c,
                      pst_commandId = None\<rparr>))
                   \<lparr>tt_operations := [ResumeAgentOp localId (row_projectId row) (row_id row) (row_branch row) command]\<rparr>)
           | None \<Rightarrow>
               (let localId = ''start:'' @ row_id row
                in (become (add_pending_start s
                     \<lparr>pst_localId = localId, pst_operation = Some OpStartAgent, pst_projectId = row_projectId row,
                      pst_worktreeId = row_id row, pst_branch = row_branch row, pst_createdAt = kc_now c,
                      pst_commandId = None\<rparr>))
                   \<lparr>tt_operations := [StartAgentOp localId (row_projectId row) (row_id row) (row_branch row)
                       (build_start_agent_command row project)]\<rparr>)))"

definition chosen_row :: "key_context \<Rightarrow> tui_state \<Rightarrow> tui_key \<Rightarrow> worktree_row option" where
  "chosen_row c s key =
     (case ui_snapshot s of
        None \<Rightarrow> None
      | Some snapshot \<Rightarrow> choice_value_by_key (vp_rowChoices (select_viewport (kc_host c) snapshot s)) (k_input key))"

definition handle_dashboard_key :: "key_context \<Rightarrow> tui_state \<Rightarrow> tui_key \<Rightarrow> tui_transition" where
  "handle_dashboard_key c s key =
     (let scrollDelta = scroll_delta_for_key key
      in if scrollDelta \<noteq> 0 then become (scroll_dashboard (kc_host c) s scrollDelta)
         else if k_input key = ''H'' \<or> k_input key = ''?'' then show_screen s ScrHelp
         else if tr_persistentPopup (ui_runtime s) \<and> tr_canDismissPopup (ui_runtime s) \<and>
                 (k_input key = ''Q'' \<or> k_escape key)
         then (become s)\<lparr>tt_dismissPopup := True\<rparr>
         else if k_input key = ''Q'' then (become s)\<lparr>tt_exitCode := Some 0\<rparr>
         else if k_input key = ''/'' then show_screen s (ScrSearch [])
         else if k_input key = ''R'' then show_screen s ScrRenameChoose
         else if k_input key = ''Z'' then (become s)\<lparr>tt_reconcileReason := Some ''tui-refresh''\<rparr>
         else if k_input key = ''X'' then show_screen s ScrRemoveChoose
         else if k_input key = ''N'' then open_new_session c s
         else if k_input key = ''A'' then become (open_add_project c s)
         else if k_input key = ''C'' then open_project_collapse c s
         else case chosen_row c s key of
                None \<Rightarrow> become s
              | Some row \<Rightarrow>
                  if row_recovery row \<noteq> None \<or> row_agent row = None
                  then start_or_resume_agent_for_row c s row
                  else (become s)\<lparr>tt_commands :=
                         [build_focus_command row (tr_focusOrigin (ui_runtime s))]\<rparr>)"

subsection \<open>Help, search, folding (screens/help.ts, search.ts, projectCollapse.ts)\<close>

definition handle_help_key :: "tui_state \<Rightarrow> tui_key \<Rightarrow> tui_transition" where
  "handle_help_key s key =
     (if k_input key = ''H'' \<or> k_input key = ''?'' \<or> k_input key = ''Q'' \<or> k_escape key
      then show_screen s ScrDashboard else become s)"

definition handle_search_key :: "tui_state \<Rightarrow> string \<Rightarrow> tui_key \<Rightarrow> tui_transition" where
  "handle_search_key s query key =
     (if k_escape key then show_screen s ScrDashboard
      else if k_backspace key \<or> k_delete key then show_screen s (ScrSearch (butlast query))
      else if is_return_key key
      then become (s\<lparr>ui_searchQuery := query, ui_scrollOffset := 0, ui_screen := ScrDashboard\<rparr>)
      else if length (k_input key) = 0 then become s
      else show_screen s (ScrSearch (query @ k_input key)))"

definition toggle_project :: "project_id \<Rightarrow> project_id list \<Rightarrow> project_id list" where
  "toggle_project p collapsed = (if p \<in> set collapsed then removeAll p collapsed else collapsed @ [p])"

definition handle_project_collapse_key :: "key_context \<Rightarrow> tui_state \<Rightarrow> tui_key \<Rightarrow> tui_transition" where
  "handle_project_collapse_key c s key =
     (if k_escape key then show_screen s ScrDashboard
      else case ui_snapshot s of
             None \<Rightarrow> become s
           | Some snapshot \<Rightarrow>
               (case choice_value_by_key (select_project_choices (kc_host c) snapshot s) (k_input key) of
                  None \<Rightarrow> become s
                | Some project \<Rightarrow>
                    become (clamp_state_scroll (kc_host c)
                      (s\<lparr>ui_collapsed := toggle_project (pv_id project) (ui_collapsed s), ui_screen := ScrDashboard\<rparr>))))"

subsection \<open>Removing a worktree (screens/removeWorktree.ts)\<close>

definition remove_choose_key :: "key_context \<Rightarrow> tui_state \<Rightarrow> tui_key \<Rightarrow> tui_transition" where
  "remove_choose_key c s key =
     (if scroll_delta_for_key key \<noteq> 0 then become (scroll_dashboard (kc_host c) s (scroll_delta_for_key key))
      else case chosen_row c s key of
             None \<Rightarrow> become s
           | Some row \<Rightarrow> show_screen s (ScrRemoveConfirm (row_id row)
               (cleanup_force_required row CleanRemoveWorktree) (''remove '' @ row_branch row @ ''? Y/N'')))"

definition remove_confirm_key ::
  "key_context \<Rightarrow> tui_state \<Rightarrow> worktree_id \<Rightarrow> bool \<Rightarrow> tui_key \<Rightarrow> tui_transition" where
  "remove_confirm_key c s rowId forceRequired key =
     (let input = to_lower (k_input key)
      in if input = ''n'' \<or> k_escape key \<or> is_return_key key then show_screen s ScrDashboard
         else if input \<noteq> ''y'' then become s
         else case Option.bind (ui_snapshot s)
                     (\<lambda>snapshot. find (\<lambda>candidate. row_id candidate = rowId) (ss_rows snapshot)) of
                None \<Rightarrow> show_screen s ScrDashboard
              | Some row \<Rightarrow>
                  (let command = build_remove_worktree_command row forceRequired;
                       localId = ''remove:'' @ row_id row
                   in (become (add_pending_remove (s\<lparr>ui_screen := ScrDashboard\<rparr>)
                         \<lparr>pm_localId = localId, pm_projectId = row_projectId row, pm_worktreeId = row_id row,
                          pm_branch = row_branch row, pm_createdAt = kc_now c, pm_commandId = None\<rparr>))
                      \<lparr>tt_operations := [RemoveWorktreeOp localId (row_projectId row) (row_id row)
                          (row_branch row) command]\<rparr>))"

subsection \<open>Renaming a session (screens/renameSession.ts)\<close>

definition rename_choose_key :: "key_context \<Rightarrow> tui_state \<Rightarrow> tui_key \<Rightarrow> tui_transition" where
  "rename_choose_key c s key =
     (if k_escape key then show_screen s ScrDashboard
      else if scroll_delta_for_key key \<noteq> 0
      then become (scroll_dashboard (kc_host c) s (scroll_delta_for_key key))
      else case (ui_snapshot s, chosen_row c s key) of
             (Some snapshot, Some row) \<Rightarrow>
               (case session_for_row row (ss_sessions snapshot) of
                  None \<Rightarrow> show_toast c s \<lparr>cn_kind = NoticeError, cn_message = ''No session exists for that row.'',
                    cn_hint = None, cn_commandId = None, cn_traceId = None, cn_diagnosticId = None\<rparr>
                | Some session \<Rightarrow>
                    (let currentTitle = row_display_title row (ss_sessions snapshot) (ui_localRows s)
                     in show_screen s (ScrRenameEdit
                          \<lparr>re_rowId = row_id row, re_sessionId = sv_id session, re_currentTitle = currentTitle,
                           re_draft = create_editable_text currentTitle, re_validationError = None\<rparr>)))
           | _ \<Rightarrow> become s)"

definition submit_rename :: "key_context \<Rightarrow> tui_state \<Rightarrow> rename_edit \<Rightarrow> tui_transition" where
  "submit_rename c s r =
     (let title = trim (ti_value (re_draft r))
      in if length title = 0
         then show_screen s (ScrRenameEdit (r\<lparr>re_validationError := Some ''Session title cannot be empty.''\<rparr>))
         else if title = trim (re_currentTitle r) then show_screen s ScrDashboard
         else (become (add_pending_rename (s\<lparr>ui_screen := ScrDashboard\<rparr>)
                 \<lparr>prn_sessionId = re_sessionId r, prn_title = title, prn_createdAt = kc_now c, prn_commandId = None\<rparr>))
              \<lparr>tt_operations := [RenameSessionOp (re_sessionId r) title (RenameSession (re_sessionId r) title)]\<rparr>)"

definition rename_edit_key :: "key_context \<Rightarrow> tui_state \<Rightarrow> rename_edit \<Rightarrow> tui_key \<Rightarrow> tui_transition" where
  "rename_edit_key c s r key =
     (if k_escape key then show_screen s ScrRenameChoose
      else if is_return_key key then submit_rename c s r
      else case editable_text_intent key of
             None \<Rightarrow> become s
           | Some action \<Rightarrow> show_screen s (ScrRenameEdit
               (r\<lparr>re_draft := transition_editable_text (re_draft r) action, re_validationError := None\<rparr>)))"

subsection \<open>A new session (screens/newSession.ts)\<close>

definition submit_new_session :: "key_context \<Rightarrow> tui_state \<Rightarrow> snapshot \<Rightarrow> session_flow \<Rightarrow> tui_transition" where
  "submit_new_session c s snapshot flow =
     (case validate_session_create snapshot flow of
        Inl e \<Rightarrow> show_toast c (s\<lparr>ui_screen := ScrDashboard\<rparr>) (safe_error_to_notice e)
      | Inr (project, flowBranch, harness) \<Rightarrow>
          (let branch = trim flowBranch;
               command = build_create_session_command project branch harness None;
               localId = ''create:'' @ pv_id project @ '':'' @ create_name_token (kc_digest c) (kc_uuid c 1)
           in (become (add_pending_create (s\<lparr>ui_screen := ScrDashboard\<rparr>)
                 \<lparr>pc_localId = localId, pc_projectId = pv_id project, pc_branch = branch, pc_harness = harness,
                  pc_createdAt = kc_now c, pc_commandId = None\<rparr>))
              \<lparr>tt_operations := [CreateSessionOp localId (pv_id project) branch harness command]\<rparr>))"

definition handle_new_session_key ::
  "key_context \<Rightarrow> tui_state \<Rightarrow> session_flow \<Rightarrow> tui_key \<Rightarrow> tui_transition" where
  "handle_new_session_key c s flow key =
     (case ui_snapshot s of
        None \<Rightarrow> show_screen s ScrDashboard
      | Some snapshot \<Rightarrow>
          (case session_intent_for_input flow key (create_name_token (kc_digest c) (kc_uuid c 0)) of
             SiNone \<Rightarrow> become s
           | SiSubmit \<Rightarrow> submit_new_session c s snapshot flow
           | SiTransition action \<Rightarrow>
               (case transition_session_flow (kc_digest c) flow snapshot action of
                  None \<Rightarrow> show_screen s ScrDashboard
                | Some nextFlow \<Rightarrow> show_screen s (ScrNewSession nextFlow))))"

subsection \<open>Adding a project (screens/addProjectScreen.ts)\<close>

fun operation_of_effect :: "project_effect \<Rightarrow> tui_operation" where
  "operation_of_effect (LoadDirectory p) = LoadDirectoryOp p"
| "operation_of_effect (ReviewFolder p) = ReviewFolderOp p"
| "operation_of_effect (SearchDirectories q) = SearchDirectoriesOp q"
| "operation_of_effect (SubmitProject command) = AddProjectOp command"

definition apply_flow_transition :: "tui_state \<Rightarrow> project_transition \<Rightarrow> tui_transition" where
  "apply_flow_transition s t =
     (become (s\<lparr>ui_screen := ScrAddProject (fst t)\<rparr>))\<lparr>tt_operations := map operation_of_effect (snd t)\<rparr>"

definition apply_flow_action :: "tui_state \<Rightarrow> project_action \<Rightarrow> tui_state" where
  "apply_flow_action s action =
     (case ui_screen s of
        ScrAddProject flow \<Rightarrow> s\<lparr>ui_screen := ScrAddProject (fst (transition_project_flow flow action None))\<rparr>
      | _ \<Rightarrow> s)"

definition editing_project_id :: "project_flow \<Rightarrow> bool" where
  "editing_project_id flow = (case pf_mode flow of ModeReview r \<Rightarrow> rv_editingId r \<noteq> None | _ \<Rightarrow> False)"

definition filtering_folders :: "project_flow \<Rightarrow> bool" where
  "filtering_folders flow = (case pf_mode flow of ModeChoose c \<Rightarrow> ch_filterMode c | _ \<Rightarrow> False)"

definition has_folder_filter :: "project_flow \<Rightarrow> bool" where
  "has_folder_filter flow =
     (case pf_mode flow of ModeChoose c \<Rightarrow> ch_filterMode c \<or> 0 < length (ch_filter c) | _ \<Rightarrow> False)"

definition edit_project_id_key :: "tui_state \<Rightarrow> project_flow \<Rightarrow> tui_key \<Rightarrow> tui_transition" where
  "edit_project_id_key s flow key =
     (let act = (\<lambda>action. apply_flow_transition s (transition_project_flow flow action None))
      in if k_escape key then act PaEditIdCancel
         else if is_return_key key then act PaEditIdCommit
         else case editable_text_intent key of None \<Rightarrow> become s | Some action \<Rightarrow> act (PaEditIdInput action))"

definition project_list_key :: "key_context \<Rightarrow> tui_state \<Rightarrow> project_flow \<Rightarrow> tui_key \<Rightarrow> tui_transition" where
  "project_list_key c s flow key =
     (let act = (\<lambda>action. apply_flow_transition s (transition_project_flow flow action None));
          step = step_of_mode (pf_mode flow)
      in if k_up key then act (PaMove (- 1))
         else if k_down key then act (PaMove 1)
         else if k_right key then act (if step = PsStart then PaStartOpen else PaChooseOpen)
         else if k_left key
         then apply_flow_transition s (transition_project_flow flow PaChooseParent (Some (kc_dirname c)))
         else if k_input key = ''/'' then act PaFilterStart
         else if k_input key = ''B'' then act PaBackToChoose
         else if k_input key = ''N'' \<and> step = PsReview then act PaEditIdStart
         else case (k_input key = ''R'', pf_mode flow) of
                (True, ModeFailed path e) \<Rightarrow> (become s)\<lparr>tt_operations := [ReviewFolderOp path]\<rparr>
              | _ \<Rightarrow>
                  if is_return_key key
                  then (if step = PsReview then act PaSubmit
                        else if step = PsSuccess then show_screen s ScrDashboard
                        else act PaChooseSelected)
                  else become s)"

definition handle_add_project_key ::
  "key_context \<Rightarrow> tui_state \<Rightarrow> project_flow \<Rightarrow> tui_key \<Rightarrow> tui_transition" where
  "handle_add_project_key c s flow key =
     (let act = (\<lambda>action. apply_flow_transition s (transition_project_flow flow action None))
      in if editing_project_id flow then edit_project_id_key s flow key
         else if k_escape key
         then (if has_folder_filter flow then act PaFilterClear else show_screen s ScrDashboard)
         else if filtering_folders flow \<and> (k_backspace key \<or> k_delete key) then act PaFilterBackspace
         else if filtering_folders flow \<and> k_ctrl key \<and> k_input key = ''u'' then act PaFilterClear
         else if filtering_folders flow \<and> 0 < length (k_input key) \<and> \<not> is_return_key key
         then act (PaFilterInput (k_input key))
         else project_list_key c s flow key)"

subsection \<open>The dispatch (transition.ts)\<close>

definition handle_tui_key :: "key_context \<Rightarrow> tui_state \<Rightarrow> tui_key \<Rightarrow> tui_transition" where
  "handle_tui_key c s key =
     (if k_ctrl key \<and> k_input key = ''c'' then (become s)\<lparr>tt_exitCode := Some 0\<rparr>
      else case ui_screen s of
             ScrDashboard \<Rightarrow> handle_dashboard_key c s key
           | ScrHelp \<Rightarrow> handle_help_key s key
           | ScrSearch query \<Rightarrow> handle_search_key s query key
           | ScrCollapse prompt \<Rightarrow> handle_project_collapse_key c s key
           | ScrRemoveChoose \<Rightarrow>
               (if k_escape key then show_screen s ScrDashboard else remove_choose_key c s key)
           | ScrRemoveConfirm rowId force label \<Rightarrow>
               (if k_escape key then show_screen s ScrDashboard else remove_confirm_key c s rowId force key)
           | ScrRenameChoose \<Rightarrow> rename_choose_key c s key
           | ScrRenameEdit r \<Rightarrow> rename_edit_key c s r key
           | ScrNewSession flow \<Rightarrow> handle_new_session_key c s flow key
           | ScrAddProject flow \<Rightarrow> handle_add_project_key c s flow key)"

end
