(* ===== verification/DashboardKeymap.thy ===== *)
theory DashboardKeymap
  imports DashboardKeys
begin

text \<open>
  The table of key bindings (\<^verbatim>\<open>dashboard-core/src/state/keymap.ts\<close>), which feeds the help texts and the
  station's dispatch. It is written beside the handlers of \<open>DashboardKeys\<close>, not used by them.
\<close>

subsection \<open>Modes and patterns\<close>

datatype input_mode =
  ModeDashboard | ModeHelp | ModeSearch | ModeProjectCollapse | ModeRemoveChooseSlot | ModeRemoveConfirm
| ModeRenameChooseSlot | ModeRenameEdit | ModeNewSessionReview | ModeNewSessionEditName
| ModeNewSessionPickProject | ModeNewSessionPickAgent | ModeAddProject

definition derive_input_mode :: "tui_state \<Rightarrow> input_mode" where
  "derive_input_mode s =
     (case ui_screen s of
        ScrDashboard \<Rightarrow> ModeDashboard
      | ScrHelp \<Rightarrow> ModeHelp
      | ScrSearch q \<Rightarrow> ModeSearch
      | ScrCollapse p \<Rightarrow> ModeProjectCollapse
      | ScrRemoveChoose \<Rightarrow> ModeRemoveChooseSlot
      | ScrRemoveConfirm i f l \<Rightarrow> ModeRemoveConfirm
      | ScrRenameChoose \<Rightarrow> ModeRenameChooseSlot
      | ScrRenameEdit r \<Rightarrow> ModeRenameEdit
      | ScrNewSession flow \<Rightarrow>
          (case sf_mode flow of
             StepReview \<Rightarrow> ModeNewSessionReview
           | StepEditName \<Rightarrow> ModeNewSessionEditName
           | StepPickProject \<Rightarrow> ModeNewSessionPickProject
           | StepPickAgent \<Rightarrow> ModeNewSessionPickAgent)
      | ScrAddProject flow \<Rightarrow> ModeAddProject)"

datatype named_key =
  NamedReturn | NamedEscape | NamedBackspace | NamedDelete | NamedUp | NamedDown | NamedLeft | NamedRight

datatype key_pattern = PatChar string bool | PatNamed named_key | PatSlot | PatText
datatype binding_outcome = Handled | ExitApp | DismissPopup

record tui_binding =
  bd_id :: string
  bd_pattern :: key_pattern
  bd_action :: string
  bd_outcome :: binding_outcome
  bd_help :: "(string \<times> string) option"

definition binding ::
  "string \<Rightarrow> key_pattern \<Rightarrow> string \<Rightarrow> binding_outcome \<Rightarrow> (string \<times> string) option \<Rightarrow> tui_binding" where
  "binding i p action outcome help =
     \<lparr>bd_id = i, bd_pattern = p, bd_action = action, bd_outcome = outcome, bd_help = help\<rparr>"

definition slot_help :: "string \<times> string" where
  "slot_help = (''1-9 a-z'', ''start or focus visible row'')"

subsection \<open>The bindings of each mode\<close>

definition dashboard_bindings :: "tui_binding list" where
  "dashboard_bindings =
    [binding ''tui.dashboard.scrollUp'' (PatNamed NamedUp) ''tui.view.scrollUp'' Handled None,
     binding ''tui.dashboard.scrollDown'' (PatNamed NamedDown) ''tui.view.scrollDown'' Handled None,
     binding ''tui.dashboard.help'' (PatChar ''H'' False) ''tui.help.open'' Handled (Some (''H'', ''help'')),
     binding ''tui.dashboard.helpAlias'' (PatChar ''?'' False) ''tui.help.open'' Handled None,
     binding ''tui.dashboard.quit'' (PatChar ''Q'' False) ''tui.exit'' ExitApp (Some (''Q'', ''quit'')),
     binding ''tui.dashboard.dismissEsc'' (PatNamed NamedEscape) ''tui.popup.dismiss'' DismissPopup None,
     binding ''tui.dashboard.search'' (PatChar ''/'' False) ''tui.search.open'' Handled (Some (''/'', ''search'')),
     binding ''tui.dashboard.rename'' (PatChar ''R'' False) ''tui.rename.open'' Handled (Some (''R'', ''rename'')),
     binding ''tui.dashboard.refresh'' (PatChar ''Z'' False) ''tui.refresh'' Handled (Some (''Z'', ''refresh'')),
     binding ''tui.dashboard.remove'' (PatChar ''X'' False) ''tui.remove.open'' Handled (Some (''X'', ''rm'')),
     binding ''tui.dashboard.newSession'' (PatChar ''N'' False) ''tui.newSession.open'' Handled (Some (''N'', ''new'')),
     binding ''tui.dashboard.addProject'' (PatChar ''A'' False) ''tui.addProject.open'' Handled (Some (''A'', ''add'')),
     binding ''tui.dashboard.collapse'' (PatChar ''C'' False) ''tui.collapse.open'' Handled (Some (''C'', ''fold'')),
     binding ''tui.dashboard.slotActivate'' PatSlot ''tui.row.activateSlot'' Handled (Some slot_help)]"

definition help_bindings :: "tui_binding list" where
  "help_bindings =
    [binding ''tui.help.closeH'' (PatChar ''H'' False) ''tui.help.close'' Handled (Some (''H/?/Q/esc'', ''close help'')),
     binding ''tui.help.closeAlias'' (PatChar ''?'' False) ''tui.help.close'' Handled None,
     binding ''tui.help.closeQ'' (PatChar ''Q'' False) ''tui.help.close'' Handled None,
     binding ''tui.help.closeEsc'' (PatNamed NamedEscape) ''tui.help.close'' Handled None]"

definition search_bindings :: "tui_binding list" where
  "search_bindings =
    [binding ''tui.search.cancel'' (PatNamed NamedEscape) ''tui.search.cancel'' Handled (Some (''esc'', ''cancel'')),
     binding ''tui.search.commit'' (PatNamed NamedReturn) ''tui.search.commit'' Handled (Some (''enter'', ''apply'')),
     binding ''tui.search.deleteBack'' (PatNamed NamedBackspace) ''tui.search.deleteChar'' Handled None,
     binding ''tui.search.deleteForward'' (PatNamed NamedDelete) ''tui.search.deleteChar'' Handled None,
     binding ''tui.search.type'' PatText ''tui.search.appendText'' Handled None]"

definition project_collapse_bindings :: "tui_binding list" where
  "project_collapse_bindings =
    [binding ''tui.collapse.cancel'' (PatNamed NamedEscape) ''tui.collapse.cancel'' Handled (Some (''esc'', ''cancel'')),
     binding ''tui.collapse.toggleSlot'' PatSlot ''tui.collapse.toggleSlot'' Handled (Some (''1-9 a-z'', ''toggle project''))]"

definition remove_choose_slot_bindings :: "tui_binding list" where
  "remove_choose_slot_bindings =
    [binding ''tui.remove.cancel'' (PatNamed NamedEscape) ''tui.remove.cancel'' Handled (Some (''esc'', ''cancel'')),
     binding ''tui.remove.scrollUp'' (PatNamed NamedUp) ''tui.view.scrollUp'' Handled None,
     binding ''tui.remove.scrollDown'' (PatNamed NamedDown) ''tui.view.scrollDown'' Handled None,
     binding ''tui.remove.chooseSlot'' PatSlot ''tui.remove.chooseSlot'' Handled (Some (''1-9 a-z'', ''choose row''))]"

definition remove_confirm_bindings :: "tui_binding list" where
  "remove_confirm_bindings =
    [binding ''tui.removeConfirm.cancelEsc'' (PatNamed NamedEscape) ''tui.remove.cancel'' Handled (Some (''N/esc/enter'', ''cancel'')),
     binding ''tui.removeConfirm.cancelEnter'' (PatNamed NamedReturn) ''tui.remove.cancel'' Handled None,
     binding ''tui.removeConfirm.cancelN'' (PatChar ''N'' False) ''tui.remove.cancel'' Handled None,
     binding ''tui.removeConfirm.cancelLowerN'' (PatChar ''n'' False) ''tui.remove.cancel'' Handled None,
     binding ''tui.removeConfirm.confirmY'' (PatChar ''Y'' False) ''tui.remove.confirm'' Handled (Some (''Y'', ''confirm remove'')),
     binding ''tui.removeConfirm.confirmLowerY'' (PatChar ''y'' False) ''tui.remove.confirm'' Handled None,
     binding ''tui.removeConfirm.cancelCtrlN'' (PatChar ''n'' True) ''tui.remove.cancel'' Handled None,
     binding ''tui.removeConfirm.confirmCtrlY'' (PatChar ''y'' True) ''tui.remove.confirm'' Handled None]"

definition rename_choose_slot_bindings :: "tui_binding list" where
  "rename_choose_slot_bindings =
    [binding ''tui.rename.cancel'' (PatNamed NamedEscape) ''tui.rename.cancel'' Handled (Some (''esc'', ''cancel'')),
     binding ''tui.rename.scrollUp'' (PatNamed NamedUp) ''tui.view.scrollUp'' Handled None,
     binding ''tui.rename.scrollDown'' (PatNamed NamedDown) ''tui.view.scrollDown'' Handled None,
     binding ''tui.rename.chooseSlot'' PatSlot ''tui.rename.chooseSlot'' Handled (Some (''1-9 a-z'', ''choose row''))]"

definition rename_edit_bindings :: "tui_binding list" where
  "rename_edit_bindings =
    [binding ''tui.renameEdit.back'' (PatNamed NamedEscape) ''tui.rename.back'' Handled (Some (''esc'', ''back'')),
     binding ''tui.renameEdit.submit'' (PatNamed NamedReturn) ''tui.rename.submit'' Handled (Some (''enter'', ''rename'')),
     binding ''tui.renameEdit.backspace'' (PatNamed NamedBackspace) ''tui.rename.edit'' Handled None,
     binding ''tui.renameEdit.delete'' (PatNamed NamedDelete) ''tui.rename.edit'' Handled None,
     binding ''tui.renameEdit.cursorLeft'' (PatNamed NamedLeft) ''tui.rename.edit'' Handled None,
     binding ''tui.renameEdit.cursorRight'' (PatNamed NamedRight) ''tui.rename.edit'' Handled None,
     binding ''tui.renameEdit.type'' PatText ''tui.rename.edit'' Handled None]"

definition new_session_review_bindings :: "tui_binding list" where
  "new_session_review_bindings =
    [binding ''tui.newSession.cancel'' (PatNamed NamedEscape) ''tui.newSession.cancel'' Handled (Some (''esc'', ''cancel'')),
     binding ''tui.newSession.create'' (PatNamed NamedReturn) ''tui.newSession.submit'' Handled (Some (''enter'', ''create'')),
     binding ''tui.newSession.editName'' (PatChar ''N'' False) ''tui.newSession.editName'' Handled (Some (''N'', ''name'')),
     binding ''tui.newSession.pickProject'' (PatChar ''P'' False) ''tui.newSession.pickProject'' Handled (Some (''P'', ''project'')),
     binding ''tui.newSession.pickAgent'' (PatChar ''A'' False) ''tui.newSession.pickAgent'' Handled (Some (''A'', ''agent''))]"

definition new_session_edit_name_bindings :: "tui_binding list" where
  "new_session_edit_name_bindings =
    [binding ''tui.newSessionEdit.cancel'' (PatNamed NamedEscape) ''tui.newSession.cancel'' Handled (Some (''esc'', ''cancel'')),
     binding ''tui.newSessionEdit.commit'' (PatNamed NamedReturn) ''tui.newSession.commitName'' Handled (Some (''enter'', ''use name'')),
     binding ''tui.newSessionEdit.backspace'' (PatNamed NamedBackspace) ''tui.newSession.editInput'' Handled None,
     binding ''tui.newSessionEdit.delete'' (PatNamed NamedDelete) ''tui.newSession.editInput'' Handled None,
     binding ''tui.newSessionEdit.cursorLeft'' (PatNamed NamedLeft) ''tui.newSession.editInput'' Handled None,
     binding ''tui.newSessionEdit.cursorRight'' (PatNamed NamedRight) ''tui.newSession.editInput'' Handled None,
     binding ''tui.newSessionEdit.type'' PatText ''tui.newSession.editInput'' Handled None]"

definition new_session_pick_project_bindings :: "tui_binding list" where
  "new_session_pick_project_bindings =
    [binding ''tui.newSessionProject.cancel'' (PatNamed NamedEscape) ''tui.newSession.cancel'' Handled (Some (''esc'', ''cancel'')),
     binding ''tui.newSessionProject.choose'' PatSlot ''tui.newSession.chooseProject'' Handled (Some (''1-9 a-z'', ''choose project''))]"

definition new_session_pick_agent_bindings :: "tui_binding list" where
  "new_session_pick_agent_bindings =
    [binding ''tui.newSessionAgent.cancel'' (PatNamed NamedEscape) ''tui.newSession.cancel'' Handled (Some (''esc'', ''cancel'')),
     binding ''tui.newSessionAgent.choose'' PatSlot ''tui.newSession.chooseAgent'' Handled (Some (''1-9 a-z'', ''choose agent''))]"

definition add_project_bindings :: "tui_binding list" where
  "add_project_bindings =
    [binding ''tui.addProject.cancel'' (PatNamed NamedEscape) ''tui.addProject.key'' Handled (Some (''esc'', ''back/cancel'')),
     binding ''tui.addProject.confirm'' (PatNamed NamedReturn) ''tui.addProject.key'' Handled (Some (''enter'', ''confirm'')),
     binding ''tui.addProject.up'' (PatNamed NamedUp) ''tui.addProject.key'' Handled None,
     binding ''tui.addProject.down'' (PatNamed NamedDown) ''tui.addProject.key'' Handled None,
     binding ''tui.addProject.left'' (PatNamed NamedLeft) ''tui.addProject.key'' Handled None,
     binding ''tui.addProject.right'' (PatNamed NamedRight) ''tui.addProject.key'' Handled None,
     binding ''tui.addProject.backspace'' (PatNamed NamedBackspace) ''tui.addProject.key'' Handled None,
     binding ''tui.addProject.delete'' (PatNamed NamedDelete) ''tui.addProject.key'' Handled None,
     binding ''tui.addProject.clearLine'' (PatChar ''u'' True) ''tui.addProject.key'' Handled None,
     binding ''tui.addProject.type'' PatText ''tui.addProject.key'' Handled None]"

fun tui_keymap :: "input_mode \<Rightarrow> tui_binding list" where
  "tui_keymap ModeDashboard = dashboard_bindings"
| "tui_keymap ModeHelp = help_bindings"
| "tui_keymap ModeSearch = search_bindings"
| "tui_keymap ModeProjectCollapse = project_collapse_bindings"
| "tui_keymap ModeRemoveChooseSlot = remove_choose_slot_bindings"
| "tui_keymap ModeRemoveConfirm = remove_confirm_bindings"
| "tui_keymap ModeRenameChooseSlot = rename_choose_slot_bindings"
| "tui_keymap ModeRenameEdit = rename_edit_bindings"
| "tui_keymap ModeNewSessionReview = new_session_review_bindings"
| "tui_keymap ModeNewSessionEditName = new_session_edit_name_bindings"
| "tui_keymap ModeNewSessionPickProject = new_session_pick_project_bindings"
| "tui_keymap ModeNewSessionPickAgent = new_session_pick_agent_bindings"
| "tui_keymap ModeAddProject = add_project_bindings"

definition tui_global_bindings :: "tui_binding list" where
  "tui_global_bindings = [binding ''tui.global.exitIntent'' (PatChar ''c'' True) ''tui.exit'' ExitApp None]"

subsection \<open>Matching a key\<close>

definition is_slot_key :: "tui_key \<Rightarrow> bool" where
  "is_slot_key key = (\<not> k_return key \<and> \<not> k_escape key \<and> k_input key \<in> set selection_keys)"

fun named_pressed :: "named_key \<Rightarrow> tui_key \<Rightarrow> bool" where
  "named_pressed NamedReturn key = (k_return key \<or> k_input key = carriage_return \<or> k_input key = line_feed)"
| "named_pressed NamedEscape key = k_escape key"
| "named_pressed NamedBackspace key = k_backspace key"
| "named_pressed NamedDelete key = k_delete key"
| "named_pressed NamedUp key = k_up key"
| "named_pressed NamedDown key = k_down key"
| "named_pressed NamedLeft key = k_left key"
| "named_pressed NamedRight key = k_right key"

fun matches_pattern :: "key_pattern \<Rightarrow> tui_key \<Rightarrow> bool" where
  "matches_pattern (PatChar c ctrl) key =
     (k_input key = c \<and> ctrl = k_ctrl key \<and> \<not> k_return key \<and> \<not> k_escape key)"
| "matches_pattern (PatNamed n) key = named_pressed n key"
| "matches_pattern PatSlot key = is_slot_key key"
| "matches_pattern PatText key =
     (0 < length (k_input key) \<and> \<not> k_return key \<and> \<not> k_escape key \<and> \<not> k_backspace key \<and> \<not> k_delete key \<and>
      \<not> k_up key \<and> \<not> k_down key \<and> \<not> k_left key \<and> \<not> k_right key)"

definition matching_bindings :: "input_mode \<Rightarrow> tui_key \<Rightarrow> tui_binding list" where
  "matching_bindings mode key =
     (let globals = filter (\<lambda>b. matches_pattern (bd_pattern b) key) tui_global_bindings
      in if 0 < length globals then globals
         else filter (\<lambda>b. matches_pattern (bd_pattern b) key) (tui_keymap mode))"

definition match_binding :: "input_mode \<Rightarrow> tui_key \<Rightarrow> tui_binding option" where
  "match_binding mode key = (case matching_bindings mode key of [] \<Rightarrow> None | b # _ \<Rightarrow> Some b)"

subsection \<open>The footer\<close>

definition quit_hint_close :: string where
  "quit_hint_close = ''Q/esc:close''"

definition quit_hint_label :: "bool \<Rightarrow> string" where
  "quit_hint_label close = (if close then quit_hint_close else ''Q:quit'')"

definition dashboard_footer_label :: "int \<Rightarrow> string \<Rightarrow> bool \<Rightarrow> string" where
  "dashboard_footer_label columns quitHint firstRun =
     (let full = (if firstRun then ''A:Add Project '' @ quitHint
                  else ''N:new A:add R:rename Z:refresh 1-9/a-z:open X:rm /:search C:fold H:help '' @ quitHint);
          compactClose = quit_hint_close @ '' N:new A:add Z:refresh 1-9/a-z:open X:remove /:search H:help''
      in if quitHint = quit_hint_close \<and> columns < int (length full) then compactClose else full)"

end
