(* ===== verification/DashboardProperties.thy ===== *)
theory DashboardProperties
  imports DashboardKeymap
begin

text \<open>
  What the dashboard does with keys: only what its table of bindings says, to the row that is shown
  under the key, and every screen is left by at most two escapes; what its list shows.
\<close>

lemma become_sel [simp]:
  "tt_state (become s) = s" "tt_commands (become s) = []" "tt_operations (become s) = []"
  "tt_reconcileReason (become s) = None" "tt_exitCode (become s) = None" "tt_dismissPopup (become s) = False"
  by (simp_all add: become_def)

lemma show_screen_sel [simp]:
  "tt_state (show_screen s scr) = s\<lparr>ui_screen := scr\<rparr>" "tt_commands (show_screen s scr) = []"
  "tt_operations (show_screen s scr) = []" "tt_exitCode (show_screen s scr) = None"
  "tt_dismissPopup (show_screen s scr) = False" "tt_reconcileReason (show_screen s scr) = None"
  by (simp_all add: show_screen_def)

lemma add_toast_screen [simp]: "ui_screen (add_toast s t n) = ui_screen s"
  by (simp add: add_toast_def expire_toasts_def Let_def split: option.split)

lemma show_toast_sel [simp]:
  "ui_screen (tt_state (show_toast c s t)) = ui_screen s" "tt_commands (show_toast c s t) = []"
  "tt_operations (show_toast c s t) = []" "tt_exitCode (show_toast c s t) = None"
  "tt_dismissPopup (show_toast c s t) = False" "tt_reconcileReason (show_toast c s t) = None"
  by (simp_all add: show_toast_def)

lemma clamp_state_scroll_screen [simp]: "ui_screen (clamp_state_scroll h s) = ui_screen s"
  by (simp add: clamp_state_scroll_def Let_def)

lemma scroll_dashboard_screen [simp]: "ui_screen (scroll_dashboard h s d) = ui_screen s"
  by (simp add: scroll_dashboard_def)

lemma apply_flow_transition_sel [simp]:
  "tt_state (apply_flow_transition s t) = s\<lparr>ui_screen := ScrAddProject (fst t)\<rparr>"
  "tt_commands (apply_flow_transition s t) = []" "tt_exitCode (apply_flow_transition s t) = None"
  "tt_operations (apply_flow_transition s t) = map operation_of_effect (snd t)"
  "tt_dismissPopup (apply_flow_transition s t) = False" "tt_reconcileReason (apply_flow_transition s t) = None"
  by (simp_all add: apply_flow_transition_def)

subsection \<open>Choices by key\<close>

lemma distinct_selection_keys: "distinct selection_keys"
  by (simp add: selection_keys_def distinct_map inj_on_def)

lemma choice_value_by_key_Some:
  "choice_value_by_key choices input = Some x \<Longrightarrow> (input, x) \<in> set choices"
  by (auto simp: choice_value_by_key_def find_Some_iff in_set_conv_nth prod_eq_iff)

lemma choice_value_by_key_None: "choice_value_by_key choices input = None \<longleftrightarrow> input \<notin> fst ` set choices"
  by (auto simp: choice_value_by_key_def find_None_iff image_iff)

lemma set_zip_fstD: "(a, b) \<in> set (zip xs ys) \<Longrightarrow> a \<in> set xs \<and> b \<in> set ys"
  by (auto dest: set_zip_leftD set_zip_rightD)

lemma key_choices_mem: "(key, x) \<in> set (key_choices xs) \<Longrightarrow> key \<in> set selection_keys \<and> x \<in> set xs"
  by (auto simp: key_choices_def dest: set_zip_fstD in_set_takeD)

lemma distinct_key_choices: "distinct (map fst (key_choices xs))"
  using distinct_selection_keys by (simp add: key_choices_def map_fst_zip_take min_def)

lemma choice_needs_selection_key:
  "choice_value_by_key (key_choices xs) input = Some x \<Longrightarrow> is_selection_key input"
  by (auto simp: is_selection_key_def dest!: choice_value_by_key_Some key_choices_mem)

lemma choice_of_filtered:
  assumes "distinct (map fst choices)" "choice_value_by_key (filter P choices) input = Some x"
  shows "choice_value_by_key choices input = Some x \<and> P (input, x)"
proof -
  from assms(2) have "(input, x) \<in> set choices" "P (input, x)"
    by (auto dest: choice_value_by_key_Some)
  moreover from this(1) obtain y where y: "choice_value_by_key choices input = Some y"
    using choice_value_by_key_None [of choices input] by (metis fst_conv image_eqI not_Some_eq)
  moreover have "y = x"
    using choice_value_by_key_Some [OF y] \<open>(input, x) \<in> set choices\<close> assms(1)
    by (metis eq_key_imp_eq_value)
  ultimately show ?thesis by simp
qed

lemma chosen_row_selection_key: "chosen_row c s key = Some row \<Longrightarrow> k_input key \<in> set selection_keys"
  by (auto simp: chosen_row_def select_viewport_def Let_def split: option.splits
      dest!: choice_value_by_key_Some key_choices_mem)

subsection \<open>Only what the table says\<close>

text \<open>
  Keys as the terminal delivers them: control and the mouse apart, a key with a name carries no text
  but that of the return key.
\<close>

definition plain_key :: "tui_key \<Rightarrow> bool" where
  "plain_key key =
     (\<not> k_ctrl key \<and> k_mouse key = None \<and>
      (k_return key \<or> k_escape key \<or> k_backspace key \<or> k_delete key \<or> k_up key \<or> k_down key \<or> k_left key \<or> k_right key
       \<longrightarrow> k_input key \<in> {[], carriage_return, line_feed}))"

lemmas binding_tables =
  dashboard_bindings_def help_bindings_def search_bindings_def project_collapse_bindings_def
  remove_choose_slot_bindings_def remove_confirm_bindings_def rename_choose_slot_bindings_def
  rename_edit_bindings_def new_session_review_bindings_def new_session_edit_name_bindings_def
  new_session_pick_project_bindings_def new_session_pick_agent_bindings_def add_project_bindings_def

lemma binding_pattern [simp]: "bd_pattern (binding i p a out h) = p" "bd_outcome (binding i p a out h) = out"
  by (simp_all add: binding_def)

lemma unbound_patterns:
  assumes "match_binding mode key = None" "b \<in> set (tui_keymap mode)"
  shows "\<not> matches_pattern (bd_pattern b) key"
  using assms by (auto simp: match_binding_def matching_bindings_def filter_empty_conv split: list.splits if_splits)

definition unbound :: "input_mode \<Rightarrow> tui_key \<Rightarrow> bool" where
  "unbound mode key = (\<forall>b \<in> set (tui_keymap mode). \<not> matches_pattern (bd_pattern b) key)"

lemma unboundI: "match_binding mode key = None \<Longrightarrow> unbound mode key"
  by (simp add: unbound_def unbound_patterns)

lemma special_inputs: "carriage_return \<notin> set selection_keys" "line_feed \<notin> set selection_keys" "[] \<notin> set selection_keys"
  by (simp_all add: selection_keys_def carriage_return_def line_feed_def)

lemma plain_special:
  "plain_key key \<Longrightarrow>
     k_return key \<or> k_escape key \<or> k_backspace key \<or> k_delete key \<or> k_up key \<or> k_down key \<or> k_left key \<or> k_right key \<Longrightarrow>
     k_input key = [] \<or> k_input key = carriage_return \<or> k_input key = line_feed"
  by (simp add: plain_key_def)

lemma plain_char [simp]:
  assumes "plain_key key" "c \<noteq> CHR 0x0D" "c \<noteq> CHR 0x0A"
  shows "matches_pattern (PatChar [c] ctrl) key \<longleftrightarrow> k_input key = [c] \<and> \<not> ctrl"
  using plain_special [OF assms(1)] assms by (auto simp: carriage_return_def line_feed_def plain_key_def)

lemma plain_slot [simp]:
  assumes "plain_key key"
  shows "matches_pattern PatSlot key \<longleftrightarrow> k_input key \<in> set selection_keys"
  using plain_special [OF assms] special_inputs by (auto simp: is_slot_key_def)

lemma plain_text_unbound:
  assumes "plain_key key" "\<not> matches_pattern PatText key" "\<not> is_return_key key"
  shows "k_input key = []"
  using plain_special [OF assms(1)] assms(2,3) by (auto simp: is_return_key_def)

lemma plain_keyD: "plain_key key \<Longrightarrow> \<not> k_ctrl key \<and> k_mouse key = None"
  by (simp add: plain_key_def)

lemma unbound_dashboard:
  assumes "unbound ModeDashboard key" "plain_key key"
  shows "scroll_delta_for_key key = 0" "\<not> k_escape key" "k_input key \<notin> set selection_keys"
    "k_input key \<noteq> ''H''" "k_input key \<noteq> ''?''" "k_input key \<noteq> ''Q''" "k_input key \<noteq> ''/''" "k_input key \<noteq> ''R''"
    "k_input key \<noteq> ''Z''" "k_input key \<noteq> ''X''" "k_input key \<noteq> ''N''" "k_input key \<noteq> ''A''" "k_input key \<noteq> ''C''"
  using assms plain_keyD [OF assms(2)]
  by (simp_all add: is_return_key_def unbound_def dashboard_bindings_def scroll_delta_for_key_def del: matches_pattern.simps(1,3))

lemma no_choice: "k_input key \<notin> set selection_keys \<Longrightarrow> chosen_row c s key = None"
  using chosen_row_selection_key [of c s key] by (cases "chosen_row c s key") auto

lemma dashboard_inert:
  assumes "unbound ModeDashboard key" "plain_key key"
  shows "handle_dashboard_key c s key = become s"
  using unbound_dashboard [OF assms] by (simp add: handle_dashboard_key_def no_choice)

lemma choose_row_inert:
  assumes "unbound mode key" "plain_key key" "mode = ModeRemoveChooseSlot \<or> mode = ModeRenameChooseSlot"
  shows "scroll_delta_for_key key = 0 \<and> \<not> k_escape key \<and> k_input key \<notin> set selection_keys"
  using assms plain_keyD [OF assms(2)]
  by (elim disjE) (simp_all add: is_return_key_def unbound_def remove_choose_slot_bindings_def rename_choose_slot_bindings_def
      scroll_delta_for_key_def del: matches_pattern.simps(1,3))

lemma help_inert:
  assumes "unbound ModeHelp key" "plain_key key"
  shows "handle_help_key s key = become s"
  using assms by (simp add: handle_help_key_def unbound_def help_bindings_def del: matches_pattern.simps(1,3))

lemma search_inert:
  assumes "unbound ModeSearch key" "plain_key key"
  shows "handle_search_key s q key = become s"
proof -
  have "\<not> matches_pattern PatText key" "\<not> is_return_key key" "\<not> k_escape key" "\<not> k_backspace key" "\<not> k_delete key"
    using assms(1) by (simp_all add: is_return_key_def unbound_def search_bindings_def del: matches_pattern.simps(1,3,4))
  then show ?thesis
    using plain_text_unbound [OF assms(2)] by (simp add: handle_search_key_def)
qed

lemma no_project_choice:
  "k_input key \<notin> set selection_keys \<Longrightarrow> choice_value_by_key (select_project_choices h snap s) (k_input key) = None"
  using choice_needs_selection_key [of _ "k_input key"]
  by (metis is_selection_key_def not_Some_eq select_project_choices_def)

lemma collapse_inert:
  assumes "unbound ModeProjectCollapse key" "plain_key key"
  shows "handle_project_collapse_key c s key = become s"
proof -
  have "\<not> k_escape key" "k_input key \<notin> set selection_keys"
    using assms by (simp_all add: is_return_key_def unbound_def project_collapse_bindings_def del: matches_pattern.simps(1,3))
  then show ?thesis by (simp add: handle_project_collapse_key_def no_project_choice split: option.split)
qed

lemma code_unit_eq: "code_unit c = code_unit d \<longleftrightarrow> c = d"
  by (metis char_of_code_unit)

lemma code_unit_lower:
  "code_unit (lower_char c) =
     (if (65 \<le> code_unit c \<and> code_unit c \<le> 90) \<or> (192 \<le> code_unit c \<and> code_unit c \<le> 222 \<and> code_unit c \<noteq> 215)
      then code_unit c + 32 else code_unit c)"
  by (simp add: lower_char_def Let_def)

lemma letter_codes:
  "code_unit (CHR ''y'') = 121" "code_unit (CHR ''Y'') = 89" "code_unit (CHR ''n'') = 110" "code_unit (CHR ''N'') = 78"
  by (simp_all add: code_unit_def)

lemma lower_char_letter: "lower_char c = CHR ''y'' \<longleftrightarrow> c = CHR ''y'' \<or> c = CHR ''Y''"
  "lower_char c = CHR ''n'' \<longleftrightarrow> c = CHR ''n'' \<or> c = CHR ''N''"
  by (simp_all only: code_unit_eq [symmetric] code_unit_lower letter_codes) presburger+

lemma lower_yn:
  "to_lower t = ''y'' \<longleftrightarrow> t = ''y'' \<or> t = ''Y''" "to_lower t = ''n'' \<longleftrightarrow> t = ''n'' \<or> t = ''N''"
  by (cases t; simp add: to_lower_def lower_char_letter; auto)+

lemma confirm_inert:
  assumes "unbound ModeRemoveConfirm key" "plain_key key"
  shows "\<not> k_escape key \<and> remove_confirm_key c s i f key = become s"
proof -
  have "\<not> k_escape key" "\<not> is_return_key key" "k_input key \<noteq> ''N''" "k_input key \<noteq> ''n''" "k_input key \<noteq> ''Y''"
    "k_input key \<noteq> ''y''"
    using assms by (simp_all add: is_return_key_def unbound_def remove_confirm_bindings_def del: matches_pattern.simps(1,3))
  then show ?thesis by (simp add: remove_confirm_key_def lower_yn)
qed

lemma no_edit:
  "k_input key = [] \<Longrightarrow> \<not> k_left key \<Longrightarrow> \<not> k_right key \<Longrightarrow> \<not> k_backspace key \<Longrightarrow> \<not> k_delete key \<Longrightarrow>
     editable_text_intent key = None"
  by (simp add: editable_text_intent_def)

lemma rename_edit_inert:
  assumes "unbound ModeRenameEdit key" "plain_key key"
  shows "rename_edit_key c s r key = become s"
proof -
  have u: "\<not> matches_pattern PatText key" "\<not> is_return_key key" "\<not> k_escape key" "\<not> k_backspace key" "\<not> k_delete key"
    "\<not> k_left key" "\<not> k_right key"
    using assms(1) by (simp_all add: is_return_key_def unbound_def rename_edit_bindings_def del: matches_pattern.simps(1,3,4))
  then show ?thesis
    using no_edit [OF plain_text_unbound [OF assms(2) u(1,2)] u(6,7,4,5)] by (simp add: rename_edit_key_def)
qed

lemma new_session_inert:
  assumes "unbound (derive_input_mode s) key" "plain_key key" "ui_screen s = ScrNewSession flow" "ui_snapshot s \<noteq> None"
  shows "handle_new_session_key c s flow key = become s"
proof -
  have "session_intent_for_input flow key token = SiNone" for token
  proof (cases "sf_mode flow")
    case StepReview
    with assms(1-3) show ?thesis
      by (simp add: is_return_key_def derive_input_mode_def unbound_def new_session_review_bindings_def session_intent_for_input_def
          review_input_intent_def del: matches_pattern.simps(1,3,4))
  next
    case StepEditName
    with assms(1,3) have u: "\<not> matches_pattern PatText key" "\<not> is_return_key key" "\<not> k_escape key" "\<not> k_backspace key"
      "\<not> k_delete key" "\<not> k_left key" "\<not> k_right key"
      by (simp_all add: is_return_key_def derive_input_mode_def unbound_def new_session_edit_name_bindings_def del: matches_pattern.simps(1,3,4))
    then show ?thesis
      using StepEditName no_edit [OF plain_text_unbound [OF assms(2) u(1,2)] u(6,7,4,5)]
      by (simp add: session_intent_for_input_def edit_name_intent_def)
  qed (use assms(1-3) in \<open>simp add: derive_input_mode_def unbound_def new_session_pick_project_bindings_def
      new_session_pick_agent_bindings_def session_intent_for_input_def picker_intent_def is_selection_key_def
      del: matches_pattern.simps(1,3,4)\<close>)+
  then show ?thesis
    using assms(4) by (auto simp: handle_new_session_key_def)
qed

lemma add_project_inert:
  assumes "unbound ModeAddProject key" "plain_key key"
  shows "handle_add_project_key c s flow key = become s"
proof -
  have u: "\<not> matches_pattern PatText key" "\<not> is_return_key key" "\<not> k_escape key" "\<not> k_backspace key"
      "\<not> k_delete key" "\<not> k_left key" "\<not> k_right key" "\<not> k_up key" "\<not> k_down key"
    using assms(1) by (simp_all add: is_return_key_def unbound_def add_project_bindings_def del: matches_pattern.simps(1,3,4))
  then show ?thesis
    using plain_text_unbound [OF assms(2) u(1,2)] no_edit [of key]
    by (simp add: handle_add_project_key_def project_list_key_def edit_project_id_key_def)
qed

lemma handle_tui_key_screen:
  "\<not> (k_ctrl key \<and> k_input key = ''c'') \<Longrightarrow> handle_tui_key c s key = (case ui_screen s of
             ScrDashboard \<Rightarrow> handle_dashboard_key c s key
           | ScrHelp \<Rightarrow> handle_help_key s key
           | ScrSearch query \<Rightarrow> handle_search_key s query key
           | ScrCollapse prompt \<Rightarrow> handle_project_collapse_key c s key
           | ScrRemoveChoose \<Rightarrow>
               (if k_escape key then show_screen s ScrDashboard else remove_choose_key c s key)
           | ScrRemoveConfirm rowId force label \<Rightarrow>
               (if k_escape key then show_screen s ScrDashboard else remove_confirm_key c s rowId force key)
           | ScrRenameChoose \<Rightarrow> rename_choose_key c s key
           | ScrRenameEdit r \<Rightarrow> rename_edit_key c s r key
           | ScrNewSession flow \<Rightarrow> handle_new_session_key c s flow key
           | ScrAddProject flow \<Rightarrow> handle_add_project_key c s flow key)"
  by (simp only: handle_tui_key_def if_False)

lemma handle_tui_key_interrupt:
  "k_ctrl key \<and> k_input key = ''c'' \<Longrightarrow> handle_tui_key c s key = (become s)\<lparr>tt_exitCode := Some 0\<rparr>"
  by (simp add: handle_tui_key_def)

lemma unbound_inert:
  assumes "plain_key key" "match_binding (derive_input_mode s) key = None"
    and "\<And>flow. ui_screen s = ScrNewSession flow \<Longrightarrow> ui_snapshot s \<noteq> None"
  shows "handle_tui_key c s key = become s"
proof -
  have un: "unbound (derive_input_mode s) key" using assms(2) by (rule unboundI)
  have "\<not> k_ctrl key" using assms(1) by (simp add: plain_key_def)
  then have dispatch: "\<not> (k_ctrl key \<and> k_input key = ''c'')" by simp
  note dispatch = handle_tui_key_screen [OF this]
  show ?thesis
  proof (cases "ui_screen s")
    case ScrRemoveChoose
    with un have "unbound ModeRemoveChooseSlot key" by (simp add: derive_input_mode_def)
    from choose_row_inert [OF this assms(1)] ScrRemoveChoose show ?thesis
      by (simp add: dispatch remove_choose_key_def no_choice)
  next
    case ScrRenameChoose
    with un have "unbound ModeRenameChooseSlot key" by (simp add: derive_input_mode_def)
    from choose_row_inert [OF this assms(1)] ScrRenameChoose show ?thesis
      by (simp add: dispatch rename_choose_key_def no_choice split: option.split)
  next
    case (ScrNewSession flow)
    from new_session_inert [OF un assms(1) this assms(3) [OF this]] ScrNewSession show ?thesis by (simp add: dispatch)
  qed (use un assms(1) in \<open>simp add: dispatch derive_input_mode_def dashboard_inert help_inert search_inert
      collapse_inert confirm_inert rename_edit_inert add_project_inert\<close>)+
qed

subsection \<open>The key of a row is the key it is shown under\<close>

lemma displayed_row:
  assumes "row \<in> set (display_worktree_rows items)"
  obtains i where "WorktreeItem i \<in> set items" "wi_row i = row" "wi_pendingRemove i = None"
proof -
  from assms obtain item where "item \<in> set items"
    "(case item of WorktreeItem i \<Rightarrow> if wi_pendingRemove i = None then Some (wi_row i) else None | _ \<Rightarrow> None) = Some row"
    by (auto simp: display_worktree_rows_def map_filter_mem)
  with that show thesis by (cases item) (auto split: if_splits)
qed

lemma started_row:
  "WorktreeItem i \<in> set items \<Longrightarrow> wi_pendingStart i \<noteq> None \<Longrightarrow> row_id (wi_row i) \<in> set (starting_worktrees items)"
  unfolding starting_worktrees_def map_filter_mem by (rule bexI [of _ "WorktreeItem i"]) simp_all

lemma item_of_row_worktree:
  "item_of_row snapshot s r = WorktreeItem i \<Longrightarrow> r = GroupWorktree (wi_row i)"
  by (auto simp: item_of_row_def split: group_row.splits)

lemma group_item_row:
  assumes "WorktreeItem i \<in> set (group_items h snapshot s locals (n, g))"
  shows "wi_row i \<in> set (pg_rows g)"
proof -
  have "\<exists>r \<in> set (merge_group_rows h (pg_rows g) rows snapshot s). WorktreeItem i = item_of_row snapshot s r"
    if "WorktreeItem i \<in> item_of_row snapshot s ` set (merge_group_rows h (pg_rows g) rows snapshot s)" for rows
    using that by auto
  with assms obtain rows r where "r \<in> set (merge_group_rows h (pg_rows g) rows snapshot s)"
    "WorktreeItem i = item_of_row snapshot s r"
    by (force simp: group_items_def Let_def split: if_splits)
  moreover from this(2) have "r = GroupWorktree (wi_row i)" by (metis item_of_row_worktree)
  ultimately show ?thesis by (auto simp: merge_group_rows_def)
qed

lemma item_row_in_snapshot:
  assumes "WorktreeItem i \<in> set (select_dashboard_items h snapshot s)"
  shows "wi_row i \<in> set (ss_rows snapshot)"
proof -
  from assms obtain n g where g: "(n, g) \<in> set (enumerate 0 (select_project_groups h snapshot s))"
    "WorktreeItem i \<in> set (group_items h snapshot s (visible_local_rows snapshot s) (n, g))"
    by (auto simp: select_dashboard_items_def)
  from group_item_row [OF this(2)] have "wi_row i \<in> set (pg_rows g)" .
  moreover have "g \<in> set (select_project_groups h snapshot s)"
    using g(1) by (auto simp: in_set_enumerate_eq)
  ultimately show ?thesis
    by (auto simp: select_project_groups_def Let_def split: if_splits)
qed

definition shown_under :: "host_locale \<Rightarrow> snapshot \<Rightarrow> tui_state \<Rightarrow> string \<Rightarrow> worktree_item \<Rightarrow> bool" where
  "shown_under h snapshot s key i =
     (WorktreeItem i \<in> set (vp_visibleItems (select_viewport h snapshot s)) \<and>
      choice_value_by_key (vp_displayRowChoices (select_viewport h snapshot s)) key = Some (wi_row i))"

lemma visible_items_subset: "set (vp_visibleItems (select_viewport h snapshot s)) \<subseteq> set (select_dashboard_items h snapshot s)"
  by (auto simp: select_viewport_def Let_def dest: in_set_takeD in_set_dropD)

lemma chosen_row_shown:
  assumes "chosen_row c s key = Some row"
  obtains snapshot i where "ui_snapshot s = Some snapshot" "shown_under (kc_host c) snapshot s (k_input key) i"
    "wi_row i = row" "wi_pendingRemove i = None" "wi_pendingStart i = None" "row \<in> set (ss_rows snapshot)"
proof -
  from assms obtain snapshot where snapshot: "ui_snapshot s = Some snapshot"
    and choice: "choice_value_by_key (vp_rowChoices (select_viewport (kc_host c) snapshot s)) (k_input key) = Some row"
    by (auto simp: chosen_row_def split: option.splits)
  define vp where "vp = select_viewport (kc_host c) snapshot s"
  have choices: "vp_displayRowChoices vp = key_choices (display_worktree_rows (vp_visibleItems vp))"
    "vp_rowChoices vp = filter (\<lambda>choice. row_id (snd choice) \<notin> set (starting_worktrees (vp_visibleItems vp)))
       (vp_displayRowChoices vp)"
    by (simp_all add: vp_def select_viewport_def Let_def)
  have d: "choice_value_by_key (vp_displayRowChoices vp) (k_input key) = Some row"
    and n: "row_id row \<notin> set (starting_worktrees (vp_visibleItems vp))"
    using choice_of_filtered [OF _ choice [folded vp_def, unfolded choices(2)]] distinct_key_choices
    by (auto simp: choices(1))
  from d have "row \<in> set (display_worktree_rows (vp_visibleItems vp))"
    using choices(1) by (auto dest!: choice_value_by_key_Some key_choices_mem)
  then obtain i where i: "WorktreeItem i \<in> set (vp_visibleItems vp)" "wi_row i = row" "wi_pendingRemove i = None"
    by (rule displayed_row)
  have "row \<in> set (ss_rows snapshot)"
    using item_row_in_snapshot visible_items_subset i(1,2) unfolding vp_def by blast
  moreover have "wi_pendingStart i = None"
    using started_row [OF i(1)] i(2) n by (cases "wi_pendingStart i") auto
  ultimately show thesis
    using that [OF snapshot _ i(2,3)] d i(1,2) by (simp add: shown_under_def vp_def)
qed

definition acts_on :: "key_context \<Rightarrow> tui_state \<Rightarrow> tui_key \<Rightarrow> worktree_row \<Rightarrow> bool" where
  "acts_on c s key row =
     (\<exists>snapshot i. ui_snapshot s = Some snapshot \<and> shown_under (kc_host c) snapshot s (k_input key) i \<and>
        wi_row i = row \<and> wi_pendingRemove i = None \<and> wi_pendingStart i = None \<and> row \<in> set (ss_rows snapshot))"

lemma chosen_row_acts_on: "chosen_row c s key = Some row \<Longrightarrow> acts_on c s key row"
  by (erule chosen_row_shown) (auto simp: acts_on_def)

subsection \<open>Effects of a key, handler by handler\<close>

definition no_row_effect :: "tui_transition \<Rightarrow> bool" where
  "no_row_effect t =
     (tt_commands t = [] \<and>
      (\<forall>op \<in> set (tt_operations t). case op of
         RemoveWorktreeOp l p w b m \<Rightarrow> False | StartAgentOp l p w b m \<Rightarrow> False | ResumeAgentOp l p w b m \<Rightarrow> False
       | _ \<Rightarrow> True))"

lemma no_row_effect_simps [simp]:
  "no_row_effect (become s)" "no_row_effect (show_screen s scr)" "no_row_effect (show_toast c s t)"
  by (simp_all add: no_row_effect_def)

lemma flow_no_row_effect [simp]: "no_row_effect (apply_flow_transition s t)"
proof -
  have "case operation_of_effect e of
      RemoveWorktreeOp l p w b m \<Rightarrow> False | StartAgentOp l p w b m \<Rightarrow> False | ResumeAgentOp l p w b m \<Rightarrow> False
    | _ \<Rightarrow> True" for e
    by (cases e) simp_all
  then show ?thesis by (simp add: no_row_effect_def)
qed

lemma add_project_no_row_effect: "no_row_effect (handle_add_project_key c s flow key)"
  by (simp add: handle_add_project_key_def edit_project_id_key_def project_list_key_def Let_def
      split: option.split project_mode.split bool.split)
    (simp add: no_row_effect_def)

lemma new_session_no_row_effect: "no_row_effect (handle_new_session_key c s flow key)"
  by (simp add: handle_new_session_key_def submit_new_session_def Let_def
      split: option.split session_intent.split sum.split prod.split)
    (simp add: no_row_effect_def)

lemma small_screens_no_row_effect:
  "no_row_effect (handle_help_key s key)" "no_row_effect (handle_search_key s q key)"
  "no_row_effect (handle_project_collapse_key c s key)" "no_row_effect (remove_choose_key c s key)"
  "no_row_effect (rename_choose_key c s key)"
  by (simp_all add: handle_help_key_def handle_search_key_def handle_project_collapse_key_def remove_choose_key_def
      rename_choose_key_def Let_def split: option.split)

lemma rename_edit_no_row_effect: "no_row_effect (rename_edit_key c s r key)"
  by (simp add: rename_edit_key_def submit_rename_def Let_def split: option.split)
    (simp add: no_row_effect_def)

lemma other_screens_no_row_effect:
  assumes "ui_screen s \<noteq> ScrDashboard" "\<nexists>w f l. ui_screen s = ScrRemoveConfirm w f l"
  shows "no_row_effect (handle_tui_key c s key)"
proof (cases "k_ctrl key \<and> k_input key = ''c''")
  case True
  then show ?thesis by (simp add: handle_tui_key_def no_row_effect_def)
next
  case False
  then show ?thesis
    using assms by (cases "ui_screen s")
      (auto simp: handle_tui_key_screen add_project_no_row_effect new_session_no_row_effect small_screens_no_row_effect
        rename_edit_no_row_effect)
qed

lemma no_row_effectD:
  assumes "no_row_effect t"
  shows "tt_commands t = []" "RemoveWorktreeOp l p w b m \<notin> set (tt_operations t)"
    "StartAgentOp l p w b m \<notin> set (tt_operations t)" "ResumeAgentOp l p w b m \<notin> set (tt_operations t)"
  using assms by (fastforce simp: no_row_effect_def)+

lemma start_or_resume_effect:
  fixes c :: key_context and s :: tui_state and row :: worktree_row
  assumes "row_recovery row \<noteq> None \<or> row_agent row = None"
  defines "t \<equiv> start_or_resume_agent_for_row c s row"
  shows "tt_commands t = []" "RemoveWorktreeOp l p w b m \<notin> set (tt_operations t)"
    "StartAgentOp l p w b m \<in> set (tt_operations t) \<Longrightarrow> w = row_id row \<and> row_recovery row = None \<and> row_agent row = None \<and>
       (\<exists>project. pv_id project = row_projectId row \<and> m = build_start_agent_command row project)"
    "ResumeAgentOp l p w b m \<in> set (tt_operations t) \<Longrightarrow> w = row_id row \<and>
       (\<exists>project. pv_id project = row_projectId row \<and> build_resume_agent_command row project = Some m)"
proof -
  have project: "pv_id project = row_projectId row"
    if "Option.bind (ui_snapshot s) (\<lambda>snapshot. find (\<lambda>candidate. pv_id candidate = row_projectId row) (ss_projects snapshot))
      = Some project" for project
    using that by (auto simp: bind_eq_Some_conv find_Some_iff)
  show "tt_commands t = []" "RemoveWorktreeOp l p w b m \<notin> set (tt_operations t)"
    by (simp_all add: t_def start_or_resume_agent_for_row_def Let_def split: option.split)
  show "StartAgentOp l p w b m \<in> set (tt_operations t) \<Longrightarrow> w = row_id row \<and> row_recovery row = None \<and> row_agent row = None \<and>
       (\<exists>project. pv_id project = row_projectId row \<and> m = build_start_agent_command row project)"
    using assms(1) project
    by (auto simp: t_def start_or_resume_agent_for_row_def Let_def build_resume_agent_command_def split: option.splits)
  show "ResumeAgentOp l p w b m \<in> set (tt_operations t) \<Longrightarrow> w = row_id row \<and>
       (\<exists>project. pv_id project = row_projectId row \<and> build_resume_agent_command row project = Some m)"
    using project by (auto simp: t_def start_or_resume_agent_for_row_def Let_def split: option.splits)
qed

lemma dashboard_key_effect:
  obtains "no_row_effect (handle_dashboard_key c s key)"
  | row where "chosen_row c s key = Some row" "row_recovery row \<noteq> None \<or> row_agent row = None"
      "handle_dashboard_key c s key = start_or_resume_agent_for_row c s row"
  | row where "chosen_row c s key = Some row" "row_recovery row = None" "row_agent row \<noteq> None"
      "handle_dashboard_key c s key =
         (become s)\<lparr>tt_commands := [build_focus_command row (tr_focusOrigin (ui_runtime s))]\<rparr>"
proof -
  have quiet: "no_row_effect (open_new_session c s)" "no_row_effect (open_project_collapse c s)"
    "no_row_effect ((become s)\<lparr>tt_dismissPopup := True\<rparr>)" "no_row_effect ((become s)\<lparr>tt_exitCode := Some 0\<rparr>)"
    "no_row_effect ((become s)\<lparr>tt_reconcileReason := r\<rparr>)" for r
    by (simp_all add: open_new_session_def open_project_collapse_def no_row_effect_def split: option.split)
  define act where "act row = (if row_recovery row \<noteq> None \<or> row_agent row = None
      then start_or_resume_agent_for_row c s row
      else (become s)\<lparr>tt_commands := [build_focus_command row (tr_focusOrigin (ui_runtime s))]\<rparr>)" for row
  define P where "P t \<longleftrightarrow> no_row_effect t \<or> (\<exists>row. chosen_row c s key = Some row \<and> t = act row)" for t
  have branch: "P (if b then t else u)" if "P t" "P u" for b t u
    using that by simp
  have quietP: "no_row_effect t \<Longrightarrow> P t" for t by (simp add: P_def)
  have row: "P (case chosen_row c s key of None \<Rightarrow> become s | Some row \<Rightarrow> act row)"
    by (simp add: P_def split: option.split)
  have "P (handle_dashboard_key c s key)"
    unfolding handle_dashboard_key_def Let_def act_def [symmetric]
    by (intro branch row) (simp_all add: quiet quietP)
  then consider "no_row_effect (handle_dashboard_key c s key)"
    | r where "chosen_row c s key = Some r" "handle_dashboard_key c s key = act r"
    unfolding P_def by blast
  then show thesis
  proof cases
    case (2 r)
    then show thesis
      using that(2) [of r] that(3) [of r]
      by (cases "row_recovery r"; cases "row_agent r") (simp_all add: act_def)
  qed (rule that(1))
qed


lemma confirm_effect:
  assumes "RemoveWorktreeOp l p w b m \<in> set (tt_operations (remove_confirm_key c s rowId force key))"
  obtains row where "k_input key = ''y'' \<or> k_input key = ''Y''" "\<not> k_escape key" "row_id row = rowId" "w = rowId"
    "p = row_projectId row" "m = build_remove_worktree_command row force"
    "\<exists>snapshot. ui_snapshot s = Some snapshot \<and> row \<in> set (ss_rows snapshot)"
  using assms that unfolding remove_confirm_key_def Let_def
  by (auto simp: lower_yn find_Some_iff bind_eq_Some_conv in_set_conv_nth split: if_splits option.splits)

lemma confirm_commands: "tt_commands (remove_confirm_key c s rowId force key) = []"
  "StartAgentOp l p w b m \<notin> set (tt_operations (remove_confirm_key c s rowId force key))"
  "ResumeAgentOp l p w b m \<notin> set (tt_operations (remove_confirm_key c s rowId force key))"
  by (simp_all add: remove_confirm_key_def Let_def split: option.split)

text \<open>Where an effect on a row can come from.\<close>

lemma row_effect_cases:
  obtains (none) "no_row_effect (handle_tui_key c s key)"
  | (dashboard) "ui_screen s = ScrDashboard" "handle_tui_key c s key = handle_dashboard_key c s key"
  | (confirm) rowId force label where "ui_screen s = ScrRemoveConfirm rowId force label" "\<not> k_escape key"
      "handle_tui_key c s key = remove_confirm_key c s rowId force key"
proof (cases "k_ctrl key \<and> k_input key = ''c''")
  case True
  then have "no_row_effect (handle_tui_key c s key)" by (simp add: handle_tui_key_interrupt no_row_effect_def)
  then show thesis by (rule none)
next
  case False
  note dispatch = handle_tui_key_screen [OF this, of c s]
  consider "ui_screen s = ScrDashboard" | w f l where "ui_screen s = ScrRemoveConfirm w f l"
    | "ui_screen s \<noteq> ScrDashboard" "\<nexists>w f l. ui_screen s = ScrRemoveConfirm w f l" by blast
  then show thesis
  proof cases
    case (2 w f l)
    then show thesis
      using none confirm [OF 2] dispatch by (cases "k_escape key") simp_all
  next
    case 1
    then show thesis using dashboard dispatch by simp
  next
    case 3
    then show thesis by (rule none [OF other_screens_no_row_effect])
  qed
qed

lemma commands_act_on:
  assumes "m \<in> set (tt_commands (handle_tui_key c s key))"
  shows "\<exists>row. acts_on c s key row \<and> row_agent row \<noteq> None \<and> row_recovery row = None \<and>
    m = build_focus_command row (tr_focusOrigin (ui_runtime s))"
proof (cases rule: row_effect_cases [of c s key])
  case dashboard
  show ?thesis
    using assms start_or_resume_effect(1)
    by (cases rule: dashboard_key_effect [of c s key])
      (auto simp: dashboard no_row_effectD(1) dest: chosen_row_acts_on)
qed (use assms in \<open>auto simp: no_row_effectD confirm_commands\<close>)

lemma starts_act_on:
  assumes "StartAgentOp l p w b m \<in> set (tt_operations (handle_tui_key c s key))"
  shows "\<exists>row project. acts_on c s key row \<and> row_id row = w \<and> row_agent row = None \<and> row_recovery row = None \<and>
    pv_id project = row_projectId row \<and> m = build_start_agent_command row project"
proof (cases rule: row_effect_cases [of c s key])
  case dashboard
  show ?thesis
  proof (cases rule: dashboard_key_effect [of c s key])
    case (2 row)
    with start_or_resume_effect(3) [of row l p w b m c s] chosen_row_acts_on assms dashboard(2) show ?thesis by metis
  qed (use assms dashboard in \<open>auto simp: no_row_effectD\<close>)
qed (use assms in \<open>auto simp: no_row_effectD confirm_commands\<close>)

lemma resumes_act_on:
  assumes "ResumeAgentOp l p w b m \<in> set (tt_operations (handle_tui_key c s key))"
  shows "\<exists>row project. acts_on c s key row \<and> row_id row = w \<and> pv_id project = row_projectId row \<and>
    build_resume_agent_command row project = Some m"
proof (cases rule: row_effect_cases [of c s key])
  case dashboard
  show ?thesis
  proof (cases rule: dashboard_key_effect [of c s key])
    case (2 row)
    with start_or_resume_effect(4) [of row l p w b m c s] chosen_row_acts_on assms dashboard(2) show ?thesis by metis
  qed (use assms dashboard in \<open>auto simp: no_row_effectD\<close>)
qed (use assms in \<open>auto simp: no_row_effectD confirm_commands\<close>)

lemma removals_confirmed:
  assumes "RemoveWorktreeOp l p w b m \<in> set (tt_operations (handle_tui_key c s key))"
  shows "\<exists>force label row. ui_screen s = ScrRemoveConfirm w force label \<and> (k_input key = ''y'' \<or> k_input key = ''Y'') \<and>
    row_id row = w \<and> p = row_projectId row \<and> m = build_remove_worktree_command row force \<and>
    (\<exists>snapshot. ui_snapshot s = Some snapshot \<and> row \<in> set (ss_rows snapshot))"
proof (cases rule: row_effect_cases [of c s key])
  case dashboard
  show ?thesis
    using assms start_or_resume_effect(2)
    by (cases rule: dashboard_key_effect [of c s key]) (auto simp: dashboard no_row_effectD)
next
  case (confirm rowId force label)
  from assms [unfolded confirm(3)] show ?thesis
    by (rule confirm_effect) (use confirm(1) in blast)
qed (use assms in \<open>auto simp: no_row_effectD\<close>)


subsection \<open>What is asked before a worktree is removed\<close>

text \<open>The user types, and snapshots of the observer come in between.\<close>

datatype tui_input = PressKey key_context tui_key | NewSnapshot host_locale snapshot

fun take_input :: "tui_state \<Rightarrow> tui_input \<Rightarrow> tui_state" where
  "take_input s (PressKey c key) = tt_state (handle_tui_key c s key)"
| "take_input s (NewSnapshot h snapshot) = clamp_state_scroll h (replace_snapshot s snapshot)"

definition tui_run :: "tui_state \<Rightarrow> tui_input list \<Rightarrow> tui_state" where
  "tui_run s inputs = foldl take_input s inputs"

lemma tui_run_simps [simp]: "tui_run s [] = s" "tui_run s (xs @ [x]) = take_input (tui_run s xs) x"
  by (simp_all add: tui_run_def)

lemma replace_snapshot_screen [simp]: "ui_screen (replace_snapshot s snapshot) = ui_screen s"
  by (simp add: replace_snapshot_def)

lemma local_row_screens [simp]:
  "ui_screen (add_pending_start s r1) = ui_screen s" "ui_screen (add_pending_remove s r2) = ui_screen s"
  "ui_screen (add_pending_rename s r3) = ui_screen s" "ui_screen (add_pending_create s r4) = ui_screen s"
  by (simp_all add: add_pending_start_def add_pending_remove_def add_pending_rename_def add_pending_create_def)

lemma start_or_resume_screen [simp]: "ui_screen (tt_state (start_or_resume_agent_for_row c s row)) = ui_screen s"
  by (simp add: start_or_resume_agent_for_row_def Let_def split: option.split)

lemma screen_update [simp]: "ui_screen (tt_state (t\<lparr>tt_operations := ops\<rparr>)) = ui_screen (tt_state t)"
  "ui_screen (tt_state (t\<lparr>tt_commands := cmds\<rparr>)) = ui_screen (tt_state t)"
  by simp_all

text \<open>The screens a transition may lead to.\<close>

definition lands :: "tui_screen set \<Rightarrow> tui_transition \<Rightarrow> bool" where
  "lands A t = (ui_screen (tt_state t) \<in> A)"

lemma lands_if: "lands A t \<Longrightarrow> lands A u \<Longrightarrow> lands A (if b then t else u)"
  by simp

lemma lands_simps [simp]:
  "lands A (become s) \<longleftrightarrow> ui_screen s \<in> A" "lands A (show_screen s scr) \<longleftrightarrow> scr \<in> A"
  "lands A (show_toast c s toast) \<longleftrightarrow> ui_screen s \<in> A"
  "lands A (apply_flow_transition s t) \<longleftrightarrow> ScrAddProject (fst t) \<in> A"
  by (simp_all add: lands_def)

lemma lands_updates [simp]:
  "lands A (t\<lparr>tt_operations := ops\<rparr>) \<longleftrightarrow> lands A t" "lands A (t\<lparr>tt_commands := cmds\<rparr>) \<longleftrightarrow> lands A t"
  "lands A (t\<lparr>tt_exitCode := code\<rparr>) \<longleftrightarrow> lands A t" "lands A (t\<lparr>tt_dismissPopup := d\<rparr>) \<longleftrightarrow> lands A t"
  "lands A (t\<lparr>tt_reconcileReason := reason\<rparr>) \<longleftrightarrow> lands A t"
  by (simp_all add: lands_def)

lemma dashboard_lands:
  assumes "ui_screen s = ScrDashboard"
  shows "lands ({ScrDashboard, ScrHelp, ScrSearch [], ScrRenameChoose, ScrRemoveChoose} \<union> range ScrCollapse \<union>
    range ScrNewSession \<union> range ScrAddProject) (handle_dashboard_key c s key)"
proof -
  have row: "lands A (case chosen_row c s key of None \<Rightarrow> become s | Some row \<Rightarrow>
      (if row_recovery row \<noteq> None \<or> row_agent row = None then start_or_resume_agent_for_row c s row
       else (become s)\<lparr>tt_commands := [build_focus_command row (tr_focusOrigin (ui_runtime s))]\<rparr>))"
    if "ScrDashboard \<in> A" for A
    using that assms by (simp add: lands_def split: option.split)
  show ?thesis
    unfolding handle_dashboard_key_def Let_def
    by (intro lands_if row)
      (use assms in \<open>simp_all add: open_new_session_def open_project_collapse_def open_add_project_def split: option.split\<close>)
qed

lemma add_project_lands: "lands (insert (ui_screen s) (insert ScrDashboard (range ScrAddProject))) (handle_add_project_key c s flow key)"
  unfolding handle_add_project_key_def edit_project_id_key_def project_list_key_def Let_def
  by (auto intro!: lands_if split: option.split project_mode.split bool.split)

lemma new_session_lands: "lands (insert (ui_screen s) (insert ScrDashboard (range ScrNewSession))) (handle_new_session_key c s flow key)"
  by (simp add: handle_new_session_key_def submit_new_session_def Let_def
      split: option.split session_intent.split sum.split prod.split)

lemma rename_edit_lands:
  "lands (insert (ui_screen s) (insert ScrDashboard (insert ScrRenameChoose (range ScrRenameEdit)))) (rename_edit_key c s r key)"
  by (simp add: rename_edit_key_def submit_rename_def Let_def split: option.split)

lemma enters_confirm:
  assumes "ui_screen (tt_state (handle_tui_key c s key)) = ScrRemoveConfirm w f l" "ui_screen s \<noteq> ScrRemoveConfirm w f l"
  shows "ui_screen s = ScrRemoveChoose \<and> (\<exists>row. chosen_row c s key = Some row \<and> w = row_id row \<and>
    f = cleanup_force_required row CleanRemoveWorktree)"
proof (cases "k_ctrl key \<and> k_input key = ''c''")
  case True
  with assms show ?thesis by (simp add: handle_tui_key_interrupt)
next
  case False
  note dispatch = handle_tui_key_screen [OF False, of c s]
  show ?thesis
  proof (cases "ui_screen s")
    case ScrDashboard
    with assms(1) dispatch dashboard_lands [OF this, of c key] show ?thesis by (auto simp: lands_def)
  next
    case ScrRemoveChoose
    with assms dispatch show ?thesis
      by (auto simp: remove_choose_key_def split: if_splits option.splits)
  next
    case (ScrRemoveConfirm w' f' l')
    with assms dispatch show ?thesis
      by (simp add: remove_confirm_key_def Let_def split: if_splits option.splits)
  next
    case (ScrNewSession flow)
    with assms(1) dispatch new_session_lands [of s c flow key] show ?thesis by (auto simp: lands_def)
  next
    case (ScrAddProject flow)
    with assms(1) dispatch add_project_lands [of s c flow key] show ?thesis by (auto simp: lands_def)
  next
    case (ScrRenameEdit r)
    with assms(1) dispatch rename_edit_lands [of s c r key] show ?thesis by (auto simp: lands_def)
  qed (use assms dispatch in \<open>simp_all add: handle_help_key_def handle_search_key_def handle_project_collapse_key_def
      rename_choose_key_def Let_def split: if_splits option.splits\<close>)
qed

definition asked_for :: "tui_state \<Rightarrow> tui_input list \<Rightarrow> worktree_id \<Rightarrow> bool \<Rightarrow> bool" where
  "asked_for s0 inputs w force =
     (\<exists>before c key after row. inputs = before @ PressKey c key # after \<and>
        ui_screen (tui_run s0 before) = ScrRemoveChoose \<and> acts_on c (tui_run s0 before) key row \<and>
        row_id row = w \<and> force = cleanup_force_required row CleanRemoveWorktree)"

lemma asked_for_later: "asked_for s0 xs w f \<Longrightarrow> asked_for s0 (xs @ ys) w f"
  unfolding asked_for_def by (metis append.assoc append_Cons)

lemma confirm_was_asked:
  assumes "ui_screen s0 = ScrDashboard"
  shows "ui_screen (tui_run s0 inputs) = ScrRemoveConfirm w f l \<Longrightarrow> asked_for s0 inputs w f"
proof (induction inputs rule: rev_induct)
  case Nil
  then show ?case using assms by simp
next
  case (snoc x xs)
  show ?case
  proof (cases "ui_screen (tui_run s0 xs) = ScrRemoveConfirm w f l")
    case True
    with snoc.IH show ?thesis by (simp add: asked_for_later)
  next
    case False
    show ?thesis
    proof (cases x)
      case (PressKey c key)
      with snoc.prems False enters_confirm [of c "tui_run s0 xs" key w f l] obtain row where
        "ui_screen (tui_run s0 xs) = ScrRemoveChoose" "chosen_row c (tui_run s0 xs) key = Some row" "w = row_id row"
        "f = cleanup_force_required row CleanRemoveWorktree"
        by auto
      then show ?thesis
        unfolding asked_for_def PressKey using chosen_row_acts_on by blast
    next
      case (NewSnapshot h snapshot)
      with snoc.prems False show ?thesis by simp
    qed
  qed
qed


subsection \<open>Leaving a screen\<close>

definition only_screen :: "tui_state \<Rightarrow> tui_screen \<Rightarrow> tui_transition \<Rightarrow> bool" where
  "only_screen s scr t =
     (tt_state t = s\<lparr>ui_screen := scr\<rparr> \<and> tt_commands t = [] \<and> tt_operations t = [] \<and> tt_exitCode t = None)"

lemma only_screen_simps [simp]:
  "only_screen s scr (show_screen s scr') \<longleftrightarrow> scr = scr'"
  "only_screen s scr ((become s)\<lparr>tt_dismissPopup := d\<rparr>) \<longleftrightarrow> only_screen s scr (become s)"
  by (auto simp: only_screen_def dest: arg_cong [of _ _ ui_screen])

lemma only_screen_become: "ui_screen s = scr \<Longrightarrow> only_screen s scr (become s)"
  by (cases s) (simp add: only_screen_def)

lemma only_screen_flow: "snd t = [] \<Longrightarrow> only_screen s (ScrAddProject (fst t)) (apply_flow_transition s t)"
  by (simp add: only_screen_def)

lemma escape_key_sel [simp]:
  "k_escape escape_key" "k_input escape_key = []" "\<not> k_ctrl escape_key" "\<not> k_return escape_key" "\<not> k_up escape_key"
  "\<not> k_down escape_key" "k_mouse escape_key = None"
  by (simp_all add: escape_key_def typed_def)

text \<open>How far a screen is from the dashboard.\<close>

fun near_dashboard :: "tui_screen \<Rightarrow> bool" where
  "near_dashboard (ScrRenameEdit r) = False"
| "near_dashboard (ScrNewSession flow) = (snd (sf_wizard flow) = [])"
| "near_dashboard (ScrAddProject flow) = (\<not> editing_project_id flow \<and> \<not> has_folder_filter flow)"
| "near_dashboard _ = True"

lemma escape_from_dashboard:
  "ui_screen s = ScrDashboard \<Longrightarrow> only_screen s ScrDashboard (handle_tui_key c s escape_key)"
  using special_inputs(3)
  by (simp add: handle_tui_key_screen handle_dashboard_key_def scroll_delta_for_key_def no_choice only_screen_become)

lemma escape_near_dashboard:
  assumes "near_dashboard (ui_screen s)"
  shows "only_screen s ScrDashboard (handle_tui_key c s escape_key)"
proof (cases "ui_screen s")
  case ScrDashboard
  then show ?thesis by (rule escape_from_dashboard)
next
  case (ScrNewSession flow)
  with assms show ?thesis
    by (simp add: handle_tui_key_screen handle_new_session_key_def session_intent_for_input_def cancel_session_step_def
        back_wizard_step_def split: option.split)
next
  case (ScrAddProject flow)
  with assms show ?thesis by (simp add: handle_tui_key_screen handle_add_project_key_def)
qed (use assms in \<open>simp_all add: handle_tui_key_screen handle_help_key_def handle_search_key_def
    handle_project_collapse_key_def rename_choose_key_def\<close>)

lemma escape_comes_near:
  "\<exists>scr. near_dashboard scr \<and> only_screen s scr (handle_tui_key c s escape_key)"
proof (cases "near_dashboard (ui_screen s)")
  case True
  from escape_near_dashboard [OF this] show ?thesis by (intro exI [of _ ScrDashboard]) simp
next
  case False
  show ?thesis
  proof (cases "ui_screen s")
    case (ScrRenameEdit r)
    then show ?thesis by (intro exI [of _ ScrRenameChoose]) (simp add: handle_tui_key_screen rename_edit_key_def)
  next
    case (ScrNewSession flow)
    have "near_dashboard (ScrNewSession (to_review_state f))" for f
      by (simp add: to_review_state_def reset_wizard_step_def)
    then show ?thesis
      using ScrNewSession
      by (auto simp: handle_tui_key_screen handle_new_session_key_def session_intent_for_input_def
          cancel_session_step_def split: option.split
          intro: exI [of _ ScrDashboard])
  next
    case (ScrAddProject flow)
    define cancelled where "cancelled = transition_project_flow flow PaEditIdCancel None"
    define cleared where "cleared = transition_project_flow flow PaFilterClear None"
    have "editing_project_id flow \<Longrightarrow> near_dashboard (ScrAddProject (fst cancelled)) \<and> snd cancelled = []"
      by (auto simp: cancelled_def on_editing_id_def editing_project_id_def has_folder_filter_def stay_def
          split: project_mode.splits option.splits)
    then have cancels: "editing_project_id flow \<Longrightarrow> \<exists>scr. near_dashboard scr \<and> only_screen s scr (apply_flow_transition s cancelled)"
      using only_screen_flow [of cancelled s] by blast
    have "has_folder_filter flow \<Longrightarrow> near_dashboard (ScrAddProject (fst cleared)) \<and> snd cleared = []"
      by (auto simp: cleared_def on_choose_def editing_project_id_def has_folder_filter_def stay_def
          split: project_mode.splits)
    then have clears: "has_folder_filter flow \<Longrightarrow> \<exists>scr. near_dashboard scr \<and> only_screen s scr (apply_flow_transition s cleared)"
      using only_screen_flow [of cleared s] by blast
    have "handle_tui_key c s escape_key =
        (if editing_project_id flow then apply_flow_transition s cancelled
         else if has_folder_filter flow then apply_flow_transition s cleared else show_screen s ScrDashboard)"
      using ScrAddProject unfolding cancelled_def cleared_def
      by (simp add: handle_tui_key_screen handle_add_project_key_def edit_project_id_key_def)
    then show ?thesis
      using False ScrAddProject cancels clears by (cases "editing_project_id flow") simp_all
  qed (use False in simp_all)
qed

subsection \<open>What the list shows\<close>

definition listed_rows :: "viewport_item list \<Rightarrow> worktree_row list" where
  "listed_rows items = List.map_filter (\<lambda>item. case item of WorktreeItem i \<Rightarrow> Some (wi_row i) | _ \<Rightarrow> None) items"

lemma listed_rows_append [simp]: "listed_rows (xs @ ys) = listed_rows xs @ listed_rows ys"
  by (simp add: listed_rows_def List.map_filter_def)

lemma listed_rows_simps [simp]:
  "listed_rows [] = []" "listed_rows (WorktreeItem i # xs) = wi_row i # listed_rows xs"
  "listed_rows (ProjectGap p # xs) = listed_rows xs" "listed_rows (ProjectHeader pv b # xs) = listed_rows xs"
  "listed_rows (EmptyProject pv # xs) = listed_rows xs" "listed_rows (CreateItem l # xs) = listed_rows xs"
  by (simp_all add: listed_rows_def List.map_filter_simps)

lemma listed_group_rows:
  "listed_rows (map (item_of_row snapshot s) rs) =
     List.map_filter (\<lambda>r. case r of GroupWorktree row \<Rightarrow> Some row | GroupLocal l \<Rightarrow> None) rs"
  by (induction rs) (auto simp: item_of_row_def List.map_filter_simps split: group_row.split)

lemma mset_map_filter: "mset (List.map_filter f xs) = image_mset (the \<circ> f) (filter_mset (\<lambda>x. f x \<noteq> None) (mset xs))"
  by (simp add: List.map_filter_def)

lemma merged_worktrees:
  "mset (List.map_filter (\<lambda>r. case r of GroupWorktree row \<Rightarrow> Some row | GroupLocal l \<Rightarrow> None)
     (merge_group_rows h rows locals snapshot s)) = mset rows"
proof -
  let ?f = "\<lambda>r. case r of GroupWorktree row \<Rightarrow> Some row | GroupLocal l \<Rightarrow> None"
  have "mset (List.map_filter ?f (merge_group_rows h rows locals snapshot s)) =
      mset (List.map_filter ?f (map GroupWorktree rows @ map GroupLocal locals))"
    by (simp only: mset_map_filter merge_group_rows_def mset_js_sort)
  also have "List.map_filter ?f (map GroupWorktree rows @ map GroupLocal locals) = rows"
    by (induction rows; induction locals) (simp_all add: List.map_filter_def)
  finally show ?thesis .
qed

lemma group_items_rows:
  "mset (listed_rows (group_items h snapshot s locals (n, g))) = (if pg_collapsed g then {#} else mset (pg_rows g))"
proof -
  have "listed_rows (if 0 < n then [ProjectGap p] else []) = []" for p by simp
  moreover have "merge_group_rows h (pg_rows g) ls snapshot s = [] \<Longrightarrow> pg_rows g = []" for ls
    by (simp add: merge_group_rows_def)
  ultimately show ?thesis
    by (auto simp: group_items_def Let_def listed_group_rows merged_worktrees)
qed

lemma listed_rows_concat: "listed_rows (concat xss) = concat (map listed_rows xss)"
  by (induction xss) simp_all

lemma items_rows:
  "mset (listed_rows (select_dashboard_items h snapshot s)) =
     (\<Sum>g\<leftarrow>select_project_groups h snapshot s. if pg_collapsed g then {#} else mset (pg_rows g))"
proof -
  have "mset (concat (map (\<lambda>ng. listed_rows (group_items h snapshot s locals ng)) (enumerate n gs))) =
      (\<Sum>g\<leftarrow>gs. if pg_collapsed g then {#} else mset (pg_rows g))" for locals n gs
    by (induction gs arbitrary: n) (simp_all add: group_items_rows)
  then show ?thesis
    by (simp add: select_dashboard_items_def Let_def listed_rows_concat comp_def)
qed

text \<open>Whether the row is to be seen: its project is known and unfolded, and the search finds it.\<close>

definition row_listed :: "host_locale \<Rightarrow> snapshot \<Rightarrow> tui_state \<Rightarrow> worktree_row \<Rightarrow> bool" where
  "row_listed h snapshot s row =
     list_ex (\<lambda>project. row_projectId row = pv_id project \<and> pv_id project \<notin> set (ui_collapsed s) \<and>
       row_matches_search h row project (normalize_search h (ui_searchQuery s))
         (row_display_title row (ss_sessions snapshot) (ui_localRows s))) (ss_projects snapshot)"

lemma partition_by_project:
  assumes "distinct (map key ps)"
  shows "(\<Sum>p\<leftarrow>ps. filter_mset (\<lambda>x. of_x x = key p \<and> Q p x) M) =
    filter_mset (\<lambda>x. \<exists>p \<in> set ps. of_x x = key p \<and> Q p x) M"
  using assms
proof (induction ps)
  case (Cons p ps)
  have "filter_mset (\<lambda>x. of_x x = key p \<and> Q p x) M + filter_mset (\<lambda>x. \<exists>q \<in> set ps. of_x x = key q \<and> Q q x) M =
      filter_mset (\<lambda>x. (of_x x = key p \<and> Q p x) \<or> (\<exists>q \<in> set ps. of_x x = key q \<and> Q q x)) M"
    using Cons.prems by (induction M) (auto simp: rev_image_eqI)
  then show ?case using Cons by simp
qed simp

lemma every_row_listed:
  assumes "distinct (map pv_id (ss_projects snapshot))"
  shows "mset (listed_rows (select_dashboard_items h snapshot s)) = mset (filter (row_listed h snapshot s) (ss_rows snapshot))"
proof -
  define Q where "Q project row \<longleftrightarrow> pv_id project \<notin> set (ui_collapsed s) \<and>
    row_matches_search h row project (normalize_search h (ui_searchQuery s))
         (row_display_title row (ss_sessions snapshot) (ui_localRows s))" for project row
  have "mset (listed_rows (select_dashboard_items h snapshot s)) =
      (\<Sum>p\<leftarrow>ss_projects snapshot. filter_mset (\<lambda>row. row_projectId row = pv_id p \<and> Q p row) (mset (ss_rows snapshot)))"
    unfolding items_rows select_project_groups_def Let_def map_map comp_def
    by (intro arg_cong [where f = sum_list] map_cong refl) (auto simp: Q_def filter_filter conj_commute simp flip: mset_filter)
  also have "\<dots> = filter_mset (\<lambda>row. \<exists>p \<in> set (ss_projects snapshot). row_projectId row = pv_id p \<and> Q p row) (mset (ss_rows snapshot))"
    using assms by (rule partition_by_project)
  also have "\<dots> = mset (filter (row_listed h snapshot s) (ss_rows snapshot))"
    unfolding mset_filter by (intro filter_mset_cong refl) (auto simp: row_listed_def Q_def list_ex_iff)
  finally show ?thesis .
qed

lemma viewport_window:
  fixes h snapshot s
  defines "v \<equiv> select_viewport h snapshot s"
  shows "vp_items v = take (nat (vp_hiddenAbove v)) (vp_items v) @ vp_visibleItems v @
      drop (length (vp_items v) - nat (vp_hiddenBelow v)) (vp_items v)"
    "vp_hiddenAbove v + int (length (vp_visibleItems v)) + vp_hiddenBelow v = int (length (vp_items v))"
    "int (length (vp_visibleItems v)) = min (vp_bodyRows v) (int (length (vp_items v)))"
proof -
  define items where "items = select_dashboard_items h snapshot s"
  define b where "b = dashboard_body_rows (ui_terminalRows s)"
  define off where "off = clamp_scroll_offset b (int (length items)) (ui_scrollOffset s)"
  have v: "vp_items v = items" "vp_hiddenAbove v = off" "vp_bodyRows v = b"
    "vp_visibleItems v = take (nat b) (drop (nat off) items)" "vp_hiddenBelow v = max 0 (int (length items) - off - b)"
    by (simp_all add: v_def select_viewport_def Let_def items_def b_def off_def)
  have b: "1 \<le> b" by (simp add: b_def dashboard_body_rows_def)
  have off: "0 \<le> off" "off \<le> max 0 (int (length items) - b)"
    using b by (simp_all add: off_def clamp_scroll_offset_def Let_def)
  have len: "length (vp_visibleItems v) = min (nat b) (length items - nat off)"
    by (simp add: v min.commute)
  have below: "length items - nat (vp_hiddenBelow v) = nat off + length (vp_visibleItems v)"
    using b off unfolding len v(5) by (auto simp: max_def min_def split: if_splits)
  show "vp_items v = take (nat (vp_hiddenAbove v)) (vp_items v) @ vp_visibleItems v @
      drop (length (vp_items v) - nat (vp_hiddenBelow v)) (vp_items v)"
    unfolding v(1,2) below [unfolded v(1)]
    by (metis append_take_drop_id drop_drop add.commute v(4) append_eq_conv_conj length_take take_add)
  show "vp_hiddenAbove v + int (length (vp_visibleItems v)) + vp_hiddenBelow v = int (length (vp_items v))"
    using b off unfolding len v by (auto simp: max_def min_def split: if_splits)
  show "int (length (vp_visibleItems v)) = min (vp_bodyRows v) (int (length (vp_items v)))"
    using b off unfolding len v by (auto simp: max_def min_def split: if_splits)
qed

subsection \<open>Leaving the program\<close>

lemma exits_on_Q:
  assumes "plain_key key" "tt_exitCode (handle_tui_key c s key) \<noteq> None"
  shows "ui_screen s = ScrDashboard \<and> k_input key = ''Q''"
proof -
  have noctrl: "\<not> (k_ctrl key \<and> k_input key = ''c'')" using assms(1) by (simp add: plain_key_def)
  define P where "P t \<longleftrightarrow> (tt_exitCode t \<noteq> None \<longrightarrow> ui_screen s = ScrDashboard \<and> k_input key = ''Q'')" for t :: tui_transition
  have branch: "P (if b then t else u)" if "b \<Longrightarrow> P t" "\<not> b \<Longrightarrow> P u" for b t u
    using that by simp
  have quiet: "tt_exitCode t = None \<Longrightarrow> P t" for t by (simp add: P_def)
  have row: "tt_exitCode (case chosen_row c s key of None \<Rightarrow> become s | Some row \<Rightarrow> (if g row
      then start_or_resume_agent_for_row c s row else (become s)\<lparr>tt_commands := m row\<rparr>)) = None" for g m
    by (simp add: start_or_resume_agent_for_row_def Let_def split: option.split)
  have dash: "ui_screen s = ScrDashboard \<Longrightarrow> P (handle_dashboard_key c s key)"
    unfolding handle_dashboard_key_def Let_def
    by (intro branch) (auto simp: P_def open_new_session_def open_project_collapse_def row split: option.splits)
  have add: "tt_exitCode (handle_add_project_key c s flow key) = None" for flow
    unfolding handle_add_project_key_def edit_project_id_key_def project_list_key_def Let_def
    by (auto split: option.split project_mode.split bool.split)
  have new: "tt_exitCode (handle_new_session_key c s flow key) = None" for flow
    by (simp add: handle_new_session_key_def submit_new_session_def Let_def
        split: option.split session_intent.split sum.split prod.split)
  have others: "tt_exitCode (handle_help_key s key) = None" "tt_exitCode (handle_search_key s q key) = None"
    "tt_exitCode (handle_project_collapse_key c s key) = None" "tt_exitCode (remove_choose_key c s key) = None"
    "tt_exitCode (remove_confirm_key c s i f key) = None" "tt_exitCode (rename_choose_key c s key) = None"
    "tt_exitCode (rename_edit_key c s r key) = None" for q i f r
    by (simp_all add: handle_help_key_def handle_search_key_def handle_project_collapse_key_def remove_choose_key_def
        remove_confirm_key_def rename_choose_key_def rename_edit_key_def submit_rename_def Let_def split: option.split)
  have "P (handle_tui_key c s key)"
    using dash by (cases "ui_screen s") (simp_all add: handle_tui_key_screen [OF noctrl] quiet add new others)
  then show ?thesis using assms(2) by (simp add: P_def)
qed

lemma Q_is_bound:
  assumes "plain_key key" "k_input key = ''Q''"
  shows "\<exists>b. match_binding ModeDashboard key = Some b \<and> bd_outcome b = ExitApp"
proof -
  have flags: "\<not> k_ctrl key" "\<not> k_return key" "\<not> k_escape key" "\<not> k_up key" "\<not> k_down key"
    using assms plain_special [OF assms(1)] by (auto simp: carriage_return_def line_feed_def plain_key_def)
  show ?thesis
    unfolding match_binding_def matching_bindings_def tui_global_bindings_def tui_keymap.simps dashboard_bindings_def
    using flags assms(2) by (simp add: Let_def)
qed


subsection \<open>The properties\<close>

text \<open>C30: a key that the table of bindings does not list for the open screen changes nothing and has no effect,
  and the program is only left by a key that the table binds to leaving it. (Keys are as the terminal
  delivers them, without control and mouse.)
\<close>

theorem keys_do_what_the_table_says:
  assumes "plain_key key" and "\<forall>flow. ui_screen s = ScrNewSession flow \<longrightarrow> ui_snapshot s \<noteq> None"
  shows "(match_binding (derive_input_mode s) key = None \<longrightarrow> handle_tui_key c s key = become s) \<and>
    (tt_exitCode (handle_tui_key c s key) \<noteq> None \<longrightarrow>
      (\<exists>b. match_binding (derive_input_mode s) key = Some b \<and> bd_outcome b = ExitApp))"
  using unbound_inert [OF assms(1)] assms(2) exits_on_Q [OF assms(1)] Q_is_bound [OF assms(1)]
  by (auto simp: derive_input_mode_def)

text \<open>C31: what a key does to a row it does to the row that is shown under that key, to a row whose removal
  or start is not under way: it focuses a running agent, starts one where there is none, and resumes one
  with the row's own recovery handle.
\<close>

theorem keys_act_on_the_row_shown:
  "(\<forall>m \<in> set (tt_commands (handle_tui_key c s key)). \<exists>row. acts_on c s key row \<and>
      row_agent row \<noteq> None \<and> row_recovery row = None \<and> m = build_focus_command row (tr_focusOrigin (ui_runtime s))) \<and>
   (\<forall>l p w b m. StartAgentOp l p w b m \<in> set (tt_operations (handle_tui_key c s key)) \<longrightarrow>
      (\<exists>row project. acts_on c s key row \<and> row_id row = w \<and> row_agent row = None \<and> row_recovery row = None \<and>
         pv_id project = row_projectId row \<and> m = build_start_agent_command row project)) \<and>
   (\<forall>l p w b m. ResumeAgentOp l p w b m \<in> set (tt_operations (handle_tui_key c s key)) \<longrightarrow>
      (\<exists>row project. acts_on c s key row \<and> row_id row = w \<and> pv_id project = row_projectId row \<and>
         build_resume_agent_command row project = Some m))"
  by (intro conjI ballI allI impI) (erule commands_act_on starts_act_on resumes_act_on)+

text \<open>C32: a worktree is only removed after the user picked it on the screen for that, where it was shown under
  the key pressed, and then said yes; and it is only removed by force when it was dirty or its agent was
  running when it was picked.
\<close>

theorem removal_is_asked_for_and_confirmed:
  assumes "ui_screen s0 = ScrDashboard"
    and "RemoveWorktreeOp l p w b m \<in> set (tt_operations (handle_tui_key c (tui_run s0 inputs) key))"
  shows "\<exists>force row. asked_for s0 inputs w force \<and> k_input key \<in> {''y'', ''Y''} \<and> row_id row = w \<and>
    m = build_remove_worktree_command row force"
  using removals_confirmed [OF assms(2)] confirm_was_asked [OF assms(1)] by blast

text \<open>From every screen two escapes lead back to the dashboard, and they do nothing else: the state is the
  same but for the screen, nothing is sent and the program goes on.
\<close>

lemma two_escapes_lead_back:
  "let t = handle_tui_key c s escape_key; u = handle_tui_key c' (tt_state t) escape_key
   in tt_state u = s\<lparr>ui_screen := ScrDashboard\<rparr> \<and> tt_commands t @ tt_commands u = [] \<and>
      tt_operations t @ tt_operations u = [] \<and> tt_exitCode t = None \<and> tt_exitCode u = None"
proof -
  obtain scr where scr: "near_dashboard scr" "only_screen s scr (handle_tui_key c s escape_key)"
    using escape_comes_near by blast
  then have "only_screen (s\<lparr>ui_screen := scr\<rparr>) ScrDashboard (handle_tui_key c' (s\<lparr>ui_screen := scr\<rparr>) escape_key)"
    by (intro escape_near_dashboard) simp
  with scr(2) show ?thesis by (simp add: only_screen_def)
qed

text \<open>Every row of an unfolded project that the search finds is in the dashboard's list exactly once, and
  of the list the dashboard shows a window as high as the terminal allows, with the numbers of items
  above and below it.
\<close>

lemma dashboard_lists_every_row:
  assumes "distinct (map pv_id (ss_projects snapshot))"
  shows "let v = select_viewport h snapshot s
    in mset (listed_rows (vp_items v)) = mset (filter (row_listed h snapshot s) (ss_rows snapshot)) \<and>
       vp_items v = take (nat (vp_hiddenAbove v)) (vp_items v) @ vp_visibleItems v @
         drop (length (vp_items v) - nat (vp_hiddenBelow v)) (vp_items v) \<and>
       vp_hiddenAbove v + int (length (vp_visibleItems v)) + vp_hiddenBelow v = int (length (vp_items v)) \<and>
       int (length (vp_visibleItems v)) = min (max 1 (ui_terminalRows s - 6)) (int (length (vp_items v)))"
proof -
  have "vp_items (select_viewport h snapshot s) = select_dashboard_items h snapshot s"
    "vp_bodyRows (select_viewport h snapshot s) = max 1 (ui_terminalRows s - 6)"
    by (simp_all add: select_viewport_def Let_def dashboard_body_rows_def dashboard_fixed_rows_def)
  then show ?thesis
    using every_row_listed [OF assms, of h s] viewport_window [where h = h and snapshot = snapshot and s = s]
    unfolding Let_def by metis
qed

subsection \<open>A dashboard with one row\<close>

definition one_project :: project_view where
  "one_project = \<lparr>pv_id = ''p'', pv_label = ''P'', pv_root = ''/p'',
     pv_defaults = \<lparr>pd_harness = ''claude'', pd_terminal = ''tmux'', pd_layout = ''default''\<rparr>,
     pv_health = \<lparr>ph_providerId = ''worktrunk'', ph_providerType = WorktreeProvider, ph_status = Healthy,
       ph_lastCheckedAt = ''2026-01-01T00:00:00Z'', ph_lastError = None, ph_latencyMs = None,
       ph_capabilities = None, ph_diagnostics = None\<rparr>,
     pv_counts = \<lparr>rc_worktrees = 1, rc_agents = 0, rc_working = 0, rc_idle = 0, rc_attention = 0, rc_unknown = 0\<rparr>\<rparr>"

definition one_row :: worktree_row where
  "one_row = \<lparr>row_id = ''w'', row_projectId = ''p'', row_projectLabel = ''P'', row_branch = ''b'', row_path = ''/p/b'',
     row_worktree = \<lparr>wr_state = WtExists, wr_source = FromWorktrunk, wr_dirty = Some True, wr_ahead = None,
       wr_behind = None, wr_pr = None, wr_changeSummary = None, wr_checks = None\<rparr>,
     row_terminal = None, row_agent = None, row_recovery = None,
     row_display = \<lparr>rd_statusLabel = LabelNoAgent, rd_sortPriority = 0, rd_alert = False, rd_warning = None, rd_reason = None\<rparr>\<rparr>"

definition one_row_snapshot :: snapshot where
  "one_row_snapshot = \<lparr>ss_generatedAt = ''2026-01-01T00:00:00Z'',
     ss_observer = \<lparr>oi_pid = 7, oi_startedAt = ''2026-01-01T00:00:00Z'', oi_version = ''1'', oi_healthy = True\<rparr>,
     ss_providerHealth = [], ss_harnesses = None, ss_projects = [one_project], ss_rows = [one_row], ss_sessions = [],
     ss_countProjects = 1, ss_counts = pv_counts one_project, ss_alerts = [], ss_featureFlags = None, ss_orphans = None\<rparr>"

definition plain_host :: host_locale where
  "plain_host = \<lparr>hl_compare = (\<lambda>x y. 0), hl_lower = to_lower\<rparr>"

definition plain_context :: key_context where
  "plain_context = \<lparr>kc_host = plain_host, kc_digest = (\<lambda>parts. ''0123456789abcdef''), kc_cwd = ''/p'', kc_homeDir = ''/h'',
     kc_dirname = (\<lambda>p. p), kc_now = ''2026-01-01T00:00:00Z'', kc_nowMs = 0, kc_uuid = (\<lambda>n. ''u'')\<rparr>"

definition one_row_dashboard :: tui_state where
  "one_row_dashboard = initial_tui_state (Some one_row_snapshot) None None None None None
     \<lparr>tr_persistentPopup = False, tr_canDismissPopup = False, tr_exitOnFocusSuccess = False,
      tr_canResolveFocusOrigin = False, tr_hasFocusSuccessCallback = False, tr_focusOrigin = None\<rparr>"

definition start_op :: tui_operation where
  "start_op = StartAgentOp ''start:w'' ''p'' ''w'' ''b'' (build_start_agent_command one_row one_project)"

lemma one_row_runs:
  "tt_operations (handle_tui_key plain_context one_row_dashboard (typed ''1'')) = [start_op]"
  "tt_operations (handle_tui_key plain_context
     (tui_run one_row_dashboard [PressKey plain_context (typed ''X''), PressKey plain_context (typed ''1'')]) (typed ''y'')) =
   [RemoveWorktreeOp ''remove:w'' ''p'' ''w'' ''b'' (build_remove_worktree_command one_row True)]"
  by code_simp+

theorem keys_do_what_the_table_says_witness:
  "handle_tui_key plain_context one_row_dashboard (typed ''!'') = become one_row_dashboard"
proof -
  have "plain_key (typed ''!'')" by (simp add: plain_key_def typed_def)
  moreover have "ui_screen one_row_dashboard = ScrDashboard" by (simp add: one_row_dashboard_def initial_tui_state_def)
  moreover have "match_binding (derive_input_mode one_row_dashboard) (typed ''!'') = None" by code_simp
  ultimately show ?thesis
    using keys_do_what_the_table_says [of "typed ''!''" one_row_dashboard plain_context] by simp
qed

theorem keys_act_on_the_row_shown_witness:
  "\<exists>row project. acts_on plain_context one_row_dashboard (typed ''1'') row \<and> row_id row = ''w'' \<and> row_agent row = None \<and>
     row_recovery row = None \<and> pv_id project = row_projectId row \<and>
     build_start_agent_command one_row one_project = build_start_agent_command row project"
  using keys_act_on_the_row_shown [of plain_context one_row_dashboard "typed ''1''"]
  unfolding one_row_runs(1) start_op_def by auto

theorem removal_is_asked_for_and_confirmed_witness:
  "\<exists>force row. asked_for one_row_dashboard [PressKey plain_context (typed ''X''), PressKey plain_context (typed ''1'')] ''w'' force \<and>
     row_id row = ''w'' \<and> build_remove_worktree_command one_row True = build_remove_worktree_command row force"
proof -
  have "ui_screen one_row_dashboard = ScrDashboard" by (simp add: one_row_dashboard_def initial_tui_state_def)
  moreover have "RemoveWorktreeOp ''remove:w'' ''p'' ''w'' ''b'' (build_remove_worktree_command one_row True) \<in>
      set (tt_operations (handle_tui_key plain_context
        (tui_run one_row_dashboard [PressKey plain_context (typed ''X''), PressKey plain_context (typed ''1'')]) (typed ''y'')))"
    unfolding one_row_runs(2) by simp
  ultimately show ?thesis by (blast dest: removal_is_asked_for_and_confirmed)
qed

end
