(* ===== verification/DashboardOperations.thy ===== *)
theory DashboardOperations
  imports DashboardKeys ClientRuntime
begin

text \<open>
  The operations of the dashboard while they run (\<^verbatim>\<open>dashboard-core/src/state/operations\<close>,
  \<^verbatim>\<open>observerBridge.ts\<close>, the effects of a key in \<^verbatim>\<open>store.ts\<close>): each is an asynchronous function, split at its
  \<^verbatim>\<open>await\<close>s into a phase and what happens when the answer is there. Keys, events, snapshots and the
  answers of all operations come in any order.
\<close>

subsection \<open>Commands as they are sent (runtimeCommands.ts)\<close>

definition should_focus_session_command :: "tui_runtime \<Rightarrow> bool" where
  "should_focus_session_command r =
     (tr_persistentPopup r \<or> tr_focusOrigin r \<noteq> None \<or> tr_canResolveFocusOrigin r)"

text \<open>The origin: what \<^verbatim>\<open>resolveFocusOrigin\<close> answered, where there is one.\<close>

definition resolved_origin :: "tui_runtime \<Rightarrow> focus_origin option \<Rightarrow> focus_origin option" where
  "resolved_origin r answer =
     (if tr_canResolveFocusOrigin r then nullish_opt answer (tr_focusOrigin r) else tr_focusOrigin r)"

definition no_terminal_options :: terminal_options where
  "no_terminal_options =
     \<lparr>to_opt_provider = None, to_opt_layout = None, to_opt_focus = None, to_opt_origin = None\<rparr>"

definition terminal_with_runtime_focus :: "terminal_options \<Rightarrow> focus_origin option \<Rightarrow> terminal_options" where
  "terminal_with_runtime_focus t origin =
     (case origin of
        None \<Rightarrow> t\<lparr>to_opt_focus := Some True\<rparr>
      | Some _ \<Rightarrow> t\<lparr>to_opt_focus := Some True, to_opt_origin := origin\<rparr>)"

fun prepare_command :: "tui_runtime \<Rightarrow> focus_origin option \<Rightarrow> wosm_command \<Rightarrow> wosm_command" where
  "prepare_command r answer (CreateSession p) =
     (if \<not> should_focus_session_command r then CreateSession p
      else CreateSession (p\<lparr>cse_terminal := terminal_with_runtime_focus (cse_terminal p) (resolved_origin r answer)\<rparr>))"
| "prepare_command r answer (StartAgent p) =
     (if \<not> should_focus_session_command r then StartAgent p
      else StartAgent (p\<lparr>sa_terminal := Some (terminal_with_runtime_focus (nullish (sa_terminal p) no_terminal_options)
             (resolved_origin r answer))\<rparr>))"
| "prepare_command r answer (ResumeAgent p) =
     (if \<not> should_focus_session_command r then ResumeAgent p
      else ResumeAgent (p\<lparr>re_terminal := Some (terminal_with_runtime_focus (nullish (re_terminal p) no_terminal_options)
             (resolved_origin r answer))\<rparr>))"
| "prepare_command r answer m = m"

fun with_resolved_focus_origin :: "tui_runtime \<Rightarrow> focus_origin option \<Rightarrow> wosm_command \<Rightarrow> wosm_command" where
  "with_resolved_focus_origin r answer (TerminalFocus p) =
     (case resolved_origin r answer of None \<Rightarrow> TerminalFocus p | Some origin \<Rightarrow> TerminalFocus (p\<lparr>tf_origin := Some origin\<rparr>))"
| "with_resolved_focus_origin r answer m = m"

subsection \<open>Running operations\<close>

datatype completion = Succeeded | FailedWith safe_error

text \<open>What an operation waits for.\<close>

datatype op_phase =
  AwaitPrepared
| AwaitReceipt wosm_command
| AwaitCompletion command_id
| AwaitSnapshot
| AwaitFolder

text \<open>A task: an operation with the project that was reviewed when it began, and its phase.\<close>

record op_task =
  tk_operation :: tui_operation
  tk_reviewed :: "(string \<times> string option) option"
  tk_phase :: op_phase

text \<open>
  The store of the dashboard, the identifiers of the commands whose failure was handled, the
  operations that run, the timers that will remove a failed row, the commands still to be sent for a
  key. What follows is only recorded: for which commands a message that they failed was shown, which
  completions failed, which succeeded, for which commands the wait was lost, and which failures an event
  reported that found no row of theirs or had been handled before.
\<close>

record dashboard =
  db_tui :: tui_state
  db_handled :: "command_id list"
  db_tasks :: "op_task list"
  db_timers :: "string list"
  db_reported :: "command_id list"
  db_failed :: "command_id list"
  db_succeeded :: "tui_operation list"
  db_lost :: "command_id list"
  db_unowned :: "command_id list"

definition current_reviewed_project :: "tui_state \<Rightarrow> (string \<times> string option) option" where
  "current_reviewed_project s =
     (case ui_screen s of
        ScrAddProject flow \<Rightarrow>
          (case pf_mode flow of ModeReview r \<Rightarrow> Some (rv_label r, rv_gitRoot r) | _ \<Rightarrow> None)
      | _ \<Rightarrow> None)"

fun first_phase :: "tui_operation \<Rightarrow> op_phase" where
  "first_phase (CreateSessionOp l p b h m) = AwaitPrepared"
| "first_phase (StartAgentOp l p w b m) = AwaitPrepared"
| "first_phase (ResumeAgentOp l p w b m) = AwaitPrepared"
| "first_phase (RemoveWorktreeOp l p w b m) = AwaitReceipt m"
| "first_phase (RenameSessionOp i t m) = AwaitReceipt m"
| "first_phase (AddProjectOp m) = AwaitReceipt m"
| "first_phase (LoadDirectoryOp p) = AwaitFolder"
| "first_phase (ReviewFolderOp p) = AwaitFolder"
| "first_phase (SearchDirectoriesOp q) = AwaitFolder"

definition start_task :: "tui_state \<Rightarrow> tui_operation \<Rightarrow> op_task" where
  "start_task s op = \<lparr>tk_operation = op,
     tk_reviewed = (case op of AddProjectOp m \<Rightarrow> current_reviewed_project s | _ \<Rightarrow> None), tk_phase = first_phase op\<rparr>"

definition press_key :: "key_context \<Rightarrow> tui_key \<Rightarrow> dashboard \<Rightarrow> dashboard" where
  "press_key c key d =
     (let t = handle_tui_key c (db_tui d) key
      in d\<lparr>db_tui := tt_state t, db_tasks := db_tasks d @ map (start_task (tt_state t)) (tt_operations t)\<rparr>)"

abbreviation change_tui :: "(tui_state \<Rightarrow> tui_state) \<Rightarrow> dashboard \<Rightarrow> dashboard" where
  "change_tui f d \<equiv> d\<lparr>db_tui := f (db_tui d)\<rparr>"

subsection \<open>Messages and failed rows (localOperationRunner.ts)\<close>

definition toast_error :: "int \<Rightarrow> safe_error \<Rightarrow> dashboard \<Rightarrow> dashboard" where
  "toast_error nowMs e = change_tui (\<lambda>s. add_toast s (safe_error_to_notice e) nowMs)"

text \<open>The row an operation put up is taken down; the row of a session that is not created stays a while as failed.\<close>

fun mark_row_failed :: "int \<Rightarrow> tui_operation \<Rightarrow> safe_error \<Rightarrow> dashboard \<Rightarrow> dashboard" where
  "mark_row_failed nowMs (CreateSessionOp l p b h m) e d =
     d\<lparr>db_tui := fail_pending_create (db_tui d) l e (nowMs + failed_create_row_ttl_ms), db_timers := db_timers d @ [l]\<rparr>"
| "mark_row_failed nowMs (RemoveWorktreeOp l p w b m) e d = change_tui (\<lambda>s. remove_pending_remove s l) d"
| "mark_row_failed nowMs (StartAgentOp l p w b m) e d = change_tui (\<lambda>s. remove_pending_start s l) d"
| "mark_row_failed nowMs (ResumeAgentOp l p w b m) e d = change_tui (\<lambda>s. remove_pending_start s l) d"
| "mark_row_failed nowMs (RenameSessionOp i t m) e d = change_tui (\<lambda>s. remove_pending_rename s i) d"
| "mark_row_failed nowMs op e d = d"

fun bind_row :: "tui_operation \<Rightarrow> command_id \<Rightarrow> tui_state \<Rightarrow> tui_state" where
  "bind_row (CreateSessionOp l p b h m) i s = bind_pending_create s l i"
| "bind_row (RemoveWorktreeOp l p w b m) i s = bind_pending_remove s l i"
| "bind_row (StartAgentOp l p w b m) i s = bind_pending_start s l i"
| "bind_row (ResumeAgentOp l p w b m) i s = bind_pending_start s l i"
| "bind_row (RenameSessionOp j t m) i s = bind_pending_rename s j i"
| "bind_row op i s = s"

definition mark_handled :: "command_id \<Rightarrow> dashboard \<Rightarrow> dashboard" where
  "mark_handled i d = d\<lparr>db_handled := (if i \<in> set (db_handled d) then db_handled d else db_handled d @ [i])\<rparr>"

definition finish_task :: "nat \<Rightarrow> dashboard \<Rightarrow> dashboard" where
  "finish_task n d = d\<lparr>db_tasks := take n (db_tasks d) @ drop (Suc n) (db_tasks d)\<rparr>"

definition go_on :: "nat \<Rightarrow> op_phase \<Rightarrow> dashboard \<Rightarrow> dashboard" where
  "go_on n ph d = d\<lparr>db_tasks := (db_tasks d)[n := (db_tasks d ! n)\<lparr>tk_phase := ph\<rparr>]\<rparr>"

subsection \<open>The commands' operations (createSession.ts, removeWorktree.ts, renameSession.ts, startAgent.ts)\<close>

fun is_command_op :: "tui_operation \<Rightarrow> bool" where
  "is_command_op (CreateSessionOp l p b h m) = True"
| "is_command_op (RemoveWorktreeOp l p w b m) = True"
| "is_command_op (StartAgentOp l p w b m) = True"
| "is_command_op (ResumeAgentOp l p w b m) = True"
| "is_command_op (RenameSessionOp i t m) = True"
| "is_command_op _ = False"

fun operation_command :: "tui_operation \<Rightarrow> wosm_command option" where
  "operation_command (CreateSessionOp l p b h m) = Some m"
| "operation_command (RemoveWorktreeOp l p w b m) = Some m"
| "operation_command (StartAgentOp l p w b m) = Some m"
| "operation_command (ResumeAgentOp l p w b m) = Some m"
| "operation_command (RenameSessionOp i t m) = Some m"
| "operation_command (AddProjectOp m) = Some m"
| "operation_command _ = None"

text \<open>\<open>catch\<close>: starting, resuming and renaming mark a command that was accepted as handled, creating and removing do not.\<close>

fun marks_lost_command :: "tui_operation \<Rightarrow> bool" where
  "marks_lost_command (StartAgentOp l p w b m) = True"
| "marks_lost_command (ResumeAgentOp l p w b m) = True"
| "marks_lost_command (RenameSessionOp i t m) = True"
| "marks_lost_command _ = False"

definition fail_operation :: "int \<Rightarrow> tui_operation \<Rightarrow> safe_error \<Rightarrow> dashboard \<Rightarrow> dashboard" where
  "fail_operation nowMs op e d = toast_error nowMs e (mark_row_failed nowMs op e d)"

definition operation_throws :: "string option \<Rightarrow> int \<Rightarrow> tui_operation \<Rightarrow> command_id option \<Rightarrow> thrown \<Rightarrow> dashboard \<Rightarrow> dashboard" where
  "operation_throws label nowMs op commandId v d =
     (let d = (case commandId of
                 Some i \<Rightarrow> (if marks_lost_command op then mark_handled i d else d)
                     \<lparr>db_lost := db_lost d @ [i], db_reported := db_reported d @ [i]\<rparr>
               | None \<Rightarrow> d)
      in fail_operation nowMs op (client_safe_error label v) d)"

definition command_rejected :: "string \<Rightarrow> safe_error" where
  "command_rejected typeName =
     basic_error ''CommandExecutionError'' ''COMMAND_REJECTED'' (typeName @ '' was rejected.'')"

fun command_type_text :: "wosm_command \<Rightarrow> string" where
  "command_type_text (CreateWorktree p) = ''worktree.create''"
| "command_type_text (RemoveWorktree p) = ''worktree.remove''"
| "command_type_text (CreateSession p) = ''session.create''"
| "command_type_text (StartAgent p) = ''session.startAgent''"
| "command_type_text (ResumeAgent p) = ''session.resumeAgent''"
| "command_type_text (TerminalFocus p) = ''terminal.focus''"
| "command_type_text (TerminalClose p) = ''terminal.close''"
| "command_type_text (CloseSession s m f) = ''session.close''"
| "command_type_text (RemoveSession s w f) = ''session.remove''"
| "command_type_text (SendPrompt s p d) = ''session.sendPrompt''"
| "command_type_text (RenameSession s t) = ''session.rename''"
| "command_type_text (ObserverReconcile r) = ''observer.reconcile''"
| "command_type_text (AddProject p i l a) = ''project.add''"
| "command_type_text (RemoveProject p) = ''project.remove''"
| "command_type_text (InstallHooks p) = ''hooks.install''"

definition receipt_arrives :: "int \<Rightarrow> nat \<Rightarrow> tui_operation \<Rightarrow> wosm_command \<Rightarrow> command_receipt \<Rightarrow> dashboard \<Rightarrow> dashboard" where
  "receipt_arrives nowMs n op m receipt d =
     (if \<not> cr_accepted receipt
      then fail_operation nowMs op (nullish (cr_error receipt) (command_rejected (command_type_text m))) (finish_task n d)
      else go_on n (AwaitCompletion (cr_commandId receipt)) (change_tui (bind_row op (cr_commandId receipt)) d))"

definition completion_failed :: "int \<Rightarrow> nat \<Rightarrow> tui_operation \<Rightarrow> command_id \<Rightarrow> safe_error \<Rightarrow> dashboard \<Rightarrow> dashboard" where
  "completion_failed nowMs n op i e d =
     (let alreadyHandled = (i \<in> set (db_handled d));
          d = mark_row_failed nowMs op e (mark_handled i (finish_task n d));
          d = d\<lparr>db_failed := db_failed d @ [i]\<rparr>
      in if alreadyHandled then d else (toast_error nowMs e d)\<lparr>db_reported := db_reported d @ [i]\<rparr>)"

definition session_renamed :: client_notice where
  "session_renamed = \<lparr>cn_kind = NoticeSuccess, cn_message = ''Session renamed.'', cn_hint = None,
     cn_commandId = None, cn_traceId = None, cn_diagnosticId = None\<rparr>"

definition started_row_for_snapshot :: "snapshot option \<Rightarrow> worktree_id \<Rightarrow> worktree_row option" where
  "started_row_for_snapshot snapshot w =
     (case snapshot of
        None \<Rightarrow> None
      | Some s \<Rightarrow>
          (case find (\<lambda>candidate. row_id candidate = w) (ss_rows s) of
             None \<Rightarrow> None
           | Some row \<Rightarrow>
               if row_agent row = None \<and> \<not> list_ex (\<lambda>session. sv_worktreeId session = w) (ss_sessions s)
               then None else Some row))"

text \<open>The agent was started: its row is there, or the snapshot is loaded once more. (Focusing it is left out.)\<close>

definition catch_up :: "nat \<Rightarrow> string \<Rightarrow> worktree_id \<Rightarrow> dashboard \<Rightarrow> dashboard" where
  "catch_up n localId w d =
     (case started_row_for_snapshot (ui_snapshot (db_tui d)) w of
        Some row \<Rightarrow> finish_task n (change_tui (\<lambda>s. remove_pending_start s localId) d)
      | None \<Rightarrow> go_on n AwaitSnapshot d)"

definition caught_up :: "host_locale \<Rightarrow> nat \<Rightarrow> string \<Rightarrow> worktree_id \<Rightarrow> snapshot \<Rightarrow> dashboard \<Rightarrow> dashboard" where
  "caught_up h n localId w loaded d =
     (let d = finish_task n (change_tui (\<lambda>s. clamp_state_scroll h (replace_snapshot s loaded)) d)
      in case started_row_for_snapshot (ui_snapshot (db_tui d)) w of
           None \<Rightarrow> d
         | Some row \<Rightarrow> change_tui (\<lambda>s. remove_pending_start s localId) d)"

definition remember_success :: "tui_operation \<Rightarrow> dashboard \<Rightarrow> dashboard" where
  "remember_success op d = d\<lparr>db_succeeded := db_succeeded d @ [op]\<rparr>"

fun completion_succeeded :: "int \<Rightarrow> nat \<Rightarrow> tui_operation \<Rightarrow> dashboard \<Rightarrow> dashboard" where
  "completion_succeeded nowMs n (CreateSessionOp l p b h m) d =
     finish_task n (change_tui (\<lambda>s. remove_create_row s l) d)"
| "completion_succeeded nowMs n (StartAgentOp l p w b m) d = catch_up n l w d"
| "completion_succeeded nowMs n (ResumeAgentOp l p w b m) d = catch_up n l w d"
| "completion_succeeded nowMs n (RenameSessionOp i t m) d =
     finish_task n (change_tui (\<lambda>s. add_toast s session_renamed nowMs) d)"
| "completion_succeeded nowMs n op d = finish_task n d"

subsection \<open>Adding a project and reading folders (localOperationRunner.ts)\<close>

definition add_rejected :: safe_error where
  "add_rejected = basic_error ''CommandDispatchError'' ''PROJECT_ADD_REJECTED'' ''Project add was rejected.''"

definition submit_failed :: "nat \<Rightarrow> safe_error \<Rightarrow> dashboard \<Rightarrow> dashboard" where
  "submit_failed n e d = finish_task n (change_tui (\<lambda>s. apply_flow_action s (PaSubmitFailed e)) d)"

definition submitted_label :: "(string \<times> string option) option \<Rightarrow> wosm_command \<Rightarrow> string" where
  "submitted_label reviewed m =
     (case (reviewed, m) of
        (Some (label, root), _) \<Rightarrow> label
      | (None, AddProject p i l a) \<Rightarrow> nullish l (nullish i ''project'')
      | _ \<Rightarrow> ''project'')"

definition submitted_root :: "(string \<times> string option) option \<Rightarrow> wosm_command \<Rightarrow> string" where
  "submitted_root reviewed m =
     (case (reviewed, m) of
        (Some (label, Some root), _) \<Rightarrow> root
      | (_, AddProject p i l a) \<Rightarrow> p
      | _ \<Rightarrow> [])"

definition project_added :: "nat \<Rightarrow> op_task \<Rightarrow> wosm_command \<Rightarrow> snapshot \<Rightarrow> dashboard \<Rightarrow> dashboard" where
  "project_added n task m snapshot d =
     finish_task n (change_tui (\<lambda>s. apply_flow_action (replace_snapshot s snapshot)
       (PaSubmitted (submitted_label (tk_reviewed task) m) (submitted_root (tk_reviewed task) m))) d)"

datatype folder_answer =
  FolderRead string "folder_entry list"
| FolderReviewed folder_review
| FolderSearched folder_search
| FolderThrows thrown

fun folder_action :: "string option \<Rightarrow> tui_operation \<Rightarrow> folder_answer \<Rightarrow> project_action option" where
  "folder_action label (LoadDirectoryOp p) (FolderRead path entries) = Some (PaFolderLoaded path entries)"
| "folder_action label (LoadDirectoryOp p) (FolderThrows v) = Some (PaFolderLoadFailed p (client_safe_error label v))"
| "folder_action label (ReviewFolderOp p) (FolderReviewed review) = Some (PaReviewed review)"
| "folder_action label (ReviewFolderOp p) (FolderThrows v) = Some (PaReviewFailed p (client_safe_error label v))"
| "folder_action label (SearchDirectoriesOp q) (FolderSearched result) = Some (PaSearchLoaded result)"
| "folder_action label (SearchDirectoriesOp q) (FolderThrows v) = Some (PaSearchFailed q (client_safe_error label v))"
| "folder_action label op answer = None"

subsection \<open>Events and snapshots (observerBridge.ts)\<close>

datatype local_failure =
  FailedCreate string | FailedRemove string | FailedStart start_operation string | FailedRename session_id

definition local_command_failure :: "tui_state \<Rightarrow> command_id \<Rightarrow> local_failure option" where
  "local_command_failure s i =
     (case find (\<lambda>r. pc_commandId r = Some i) (lr_pendingCreate (ui_localRows s)) of
        Some r \<Rightarrow> Some (FailedCreate (pc_localId r))
      | None \<Rightarrow>
     (case find (\<lambda>r. pm_commandId r = Some i) (lr_pendingRemove (ui_localRows s)) of
        Some r \<Rightarrow> Some (FailedRemove (pm_localId r))
      | None \<Rightarrow>
     (case find (\<lambda>r. pst_commandId r = Some i) (lr_pendingStart (ui_localRows s)) of
        Some r \<Rightarrow> Some (FailedStart (nullish (pst_operation r) OpStartAgent) (pst_localId r))
      | None \<Rightarrow>
     (case find (\<lambda>r. prn_commandId r = Some i) (map snd (pending_rename_titles (ui_localRows s))) of
        Some r \<Rightarrow> Some (FailedRename (prn_sessionId r))
      | None \<Rightarrow> None))))"

fun mark_local_failure :: "int \<Rightarrow> local_failure \<Rightarrow> safe_error \<Rightarrow> dashboard \<Rightarrow> dashboard" where
  "mark_local_failure nowMs (FailedCreate l) e d =
     d\<lparr>db_tui := fail_pending_create (db_tui d) l e (nowMs + failed_create_row_ttl_ms), db_timers := db_timers d @ [l]\<rparr>"
| "mark_local_failure nowMs (FailedRemove l) e d = change_tui (\<lambda>s. remove_pending_remove s l) d"
| "mark_local_failure nowMs (FailedStart k l) e d = change_tui (\<lambda>s. remove_pending_start s l) d"
| "mark_local_failure nowMs (FailedRename i) e d = change_tui (\<lambda>s. remove_pending_rename s i) d"

definition connected_tui :: "tui_state \<Rightarrow> tui_state" where
  "connected_tui s = s\<lparr>ui_observer := ObsConnected\<rparr>"

definition observer_reconnected :: client_notice where
  "observer_reconnected = \<lparr>cn_kind = NoticeSuccess, cn_message = ''Observer reconnected.'', cn_hint = None,
     cn_commandId = None, cn_traceId = None, cn_diagnosticId = None\<rparr>"

definition observer_since :: "observer_connection \<Rightarrow> int option" where
  "observer_since st = (case st of ObsConnected \<Rightarrow> None | ObsReconnecting since e \<Rightarrow> Some since | ObsDisplayOnly since e \<Rightarrow> Some since)"

definition observer_connected_state :: "tui_state \<Rightarrow> int \<Rightarrow> bool \<Rightarrow> tui_state" where
  "observer_connected_state s nowMs recoveryToast =
     (case observer_since (ui_observer s) of
        Some since \<Rightarrow>
          if recoveryToast \<and> observer_recovery_toast_threshold_ms < nowMs - since
          then add_toast (connected_tui s) observer_reconnected nowMs else connected_tui s
      | None \<Rightarrow> connected_tui s)"

definition observer_connection_failure :: "tui_state \<Rightarrow> safe_error \<Rightarrow> int \<Rightarrow> tui_state" where
  "observer_connection_failure s e nowMs =
     (case ui_snapshot s of
        None \<Rightarrow> s\<lparr>ui_observer := ObsReconnecting
            (case ui_observer s of ObsReconnecting since _ \<Rightarrow> since | _ \<Rightarrow> nowMs) (Some e)\<rparr>
      | Some _ \<Rightarrow> s\<lparr>ui_loading := False, ui_observer := ObsDisplayOnly
            (case ui_observer s of ObsDisplayOnly since _ \<Rightarrow> since | _ \<Rightarrow> nowMs) (Some e)\<rparr>)"

definition snapshot_loaded_state :: "tui_state \<Rightarrow> snapshot \<Rightarrow> int \<Rightarrow> tui_state" where
  "snapshot_loaded_state s snapshot nowMs = observer_connected_state (replace_snapshot s snapshot) nowMs True"

fun failed_command_of :: "wosm_event \<Rightarrow> (command_id \<times> safe_error) option" where
  "failed_command_of (CommandFailed i e tr) = Some (i, e)"
| "failed_command_of ev = None"

text \<open>\<open>onEvent\<close>: the event applied to the client's own snapshot, where it has one.\<close>

definition on_event :: "host_locale \<Rightarrow> int \<Rightarrow> wosm_event \<Rightarrow> apply_result option \<Rightarrow> dashboard \<Rightarrow> dashboard" where
  "on_event h nowMs ev application d =
     (case application of
        None \<Rightarrow> change_tui connected_tui d
      | Some a \<Rightarrow>
          (case failed_command_of ev of
             None \<Rightarrow> change_tui (\<lambda>s. clamp_state_scroll h
                 (add_toasts (replace_snapshot (connected_tui s) (ar_snapshot a)) (ar_notices a) nowMs)) d
           | Some (i, e) \<Rightarrow>
               (let localFailure = local_command_failure (db_tui d) i;
                    suppress = (localFailure \<noteq> None \<or> i \<in> set (db_handled d));
                    d = change_tui (\<lambda>s. clamp_state_scroll h
                      (add_toasts (replace_snapshot (connected_tui s) (ar_snapshot a))
                        (if suppress then [] else ar_notices a) nowMs)) d
                in case localFailure of
                     None \<Rightarrow> if suppress then d
                       else d\<lparr>db_reported := db_reported d @ [i], db_unowned := db_unowned d @ [i]\<rparr>
                   | Some failure \<Rightarrow>
                       (toast_error nowMs e (mark_local_failure nowMs failure e (mark_handled i d)))
                         \<lparr>db_reported := db_reported d @ [i],
                           db_unowned := (if i \<in> set (db_handled d) then db_unowned d @ [i] else db_unowned d)\<rparr>)))"

definition on_subscription_error :: "int \<Rightarrow> safe_error \<Rightarrow> bool \<Rightarrow> bool \<Rightarrow> dashboard \<Rightarrow> dashboard" where
  "on_subscription_error nowMs e isConnectError alreadyReported d =
     (if isConnectError then change_tui (\<lambda>s. observer_connection_failure s e nowMs) d
      else if \<not> alreadyReported then toast_error nowMs e d else d)"

fun on_refresh_settled :: "host_locale \<Rightarrow> int \<Rightarrow> refresh_outcome \<Rightarrow> dashboard \<Rightarrow> dashboard" where
  "on_refresh_settled h nowMs (RefreshLoaded snapshot) d =
     change_tui (\<lambda>s. clamp_state_scroll h (snapshot_loaded_state s snapshot nowMs)) d"
| "on_refresh_settled h nowMs (RefreshConnectFailure e) d = change_tui (\<lambda>s. observer_connection_failure s e nowMs) d"
| "on_refresh_settled h nowMs (RefreshFailure e) d =
     change_tui (\<lambda>s. s\<lparr>ui_loading := False\<rparr>) (toast_error nowMs e d)"


subsection \<open>The runs of the dashboard\<close>

definition default_label :: "string option" where
  "default_label = Some ''TUI''"

definition plain_thrown :: "safe_error \<Rightarrow> thrown" where
  "plain_thrown e = ThrownObject e None"

definition task_is :: "dashboard \<Rightarrow> nat \<Rightarrow> tui_operation \<Rightarrow> op_phase \<Rightarrow> bool" where
  "task_is d n op ph =
     (n < length (db_tasks d) \<and> tk_operation (db_tasks d ! n) = op \<and> tk_phase (db_tasks d ! n) = ph)"

definition no_dashboard :: "tui_state \<Rightarrow> dashboard" where
  "no_dashboard s = \<lparr>db_tui = s, db_handled = [], db_tasks = [], db_timers = [], db_reported = [], db_failed = [],
     db_succeeded = [], db_lost = [], db_unowned = []\<rparr>"

text \<open>The store starts with no operation under way.\<close>

definition initial_dashboard :: "dashboard \<Rightarrow> bool" where
  "initial_dashboard d = (\<exists>initialSnapshot query collapsed offset rows runtime.
     d = no_dashboard (initial_tui_state initialSnapshot query collapsed offset rows None runtime))"

inductive dashboard_step :: "dashboard \<Rightarrow> dashboard \<Rightarrow> bool" where
  key_pressed: "dashboard_step d (press_key c key d)"
| prepared: "task_is d n op AwaitPrepared \<Longrightarrow> operation_command op = Some m \<Longrightarrow>
    dashboard_step d (go_on n (AwaitReceipt (prepare_command (ui_runtime (db_tui d)) answer m)) d)"
| prepare_throws: "task_is d n op AwaitPrepared \<Longrightarrow>
    dashboard_step d (operation_throws label nowMs op None v (finish_task n d))"
| receipt: "task_is d n op (AwaitReceipt m) \<Longrightarrow> is_command_op op \<Longrightarrow>
    dashboard_step d (receipt_arrives nowMs n op m r d)"
| dispatch_throws: "task_is d n op (AwaitReceipt m) \<Longrightarrow> is_command_op op \<Longrightarrow>
    dashboard_step d (operation_throws label nowMs op None v (finish_task n d))"
| failed: "task_is d n op (AwaitCompletion i) \<Longrightarrow> is_command_op op \<Longrightarrow>
    dashboard_step d (completion_failed nowMs n op i e d)"
| succeeded: "task_is d n op (AwaitCompletion i) \<Longrightarrow> is_command_op op \<Longrightarrow>
    dashboard_step d (completion_succeeded nowMs n op (remember_success op d))"
| wait_throws: "task_is d n op (AwaitCompletion i) \<Longrightarrow> is_command_op op \<Longrightarrow>
    dashboard_step d (operation_throws label nowMs op (Some i) v (finish_task n d))"
| start_loaded: "task_is d n op AwaitSnapshot \<Longrightarrow> op = StartAgentOp l p w b m \<or> op = ResumeAgentOp l p w b m \<Longrightarrow>
    dashboard_step d (caught_up h n l w snapshot d)"
| start_load_throws: "task_is d n op AwaitSnapshot \<Longrightarrow> op = StartAgentOp l p w b m \<or> op = ResumeAgentOp l p w b m \<Longrightarrow>
    dashboard_step d (toast_error nowMs (client_safe_error label v) (finish_task n d))"
| add_rejected: "task_is d n (AddProjectOp m) (AwaitReceipt m') \<Longrightarrow> \<not> cr_accepted (r :: command_receipt) \<Longrightarrow>
    dashboard_step d (submit_failed n (client_safe_error default_label
      (plain_thrown (nullish (cr_error r) add_rejected))) d)"
| add_accepted: "task_is d n (AddProjectOp m) (AwaitReceipt m') \<Longrightarrow> cr_accepted (r :: command_receipt) \<Longrightarrow>
    dashboard_step d (go_on n (AwaitCompletion (cr_commandId r)) d)"
| add_failed: "task_is d n (AddProjectOp m) (AwaitCompletion i) \<Longrightarrow>
    dashboard_step d (submit_failed n (client_safe_error default_label (plain_thrown e)) d)"
| add_succeeded: "task_is d n (AddProjectOp m) (AwaitCompletion i) \<Longrightarrow>
    dashboard_step d (go_on n AwaitSnapshot d)"
| add_loaded: "task_is d n (AddProjectOp m) AwaitSnapshot \<Longrightarrow>
    dashboard_step d (project_added n (db_tasks d ! n) m snapshot d)"
| add_throws: "task_is d n (AddProjectOp m) ph \<Longrightarrow>
    dashboard_step d (submit_failed n (client_safe_error label v) d)"
| folder_answers: "task_is d n op AwaitFolder \<Longrightarrow> folder_action label op answer = Some action \<Longrightarrow>
    dashboard_step d (finish_task n (change_tui (\<lambda>s. apply_flow_action s action) d))"
| event: "dashboard_step d (on_event h nowMs ev (map_option (\<lambda>s. apply_wosm_event s ev) base) d)"
| subscription_error: "dashboard_step d (on_subscription_error nowMs e isConnectError alreadyReported d)"
| refreshed: "dashboard_step d (on_refresh_settled h nowMs outcome d)"
| timer: "l \<in> set (db_timers d) \<Longrightarrow>
    dashboard_step d (change_tui (\<lambda>s. remove_create_row s l) (d\<lparr>db_timers := remove1 l (db_timers d)\<rparr>))"
| toasts_expire: "dashboard_step d (change_tui (\<lambda>s. expire_toasts s nowMs) d)"
| toasts_dismissed: "dashboard_step d (change_tui (\<lambda>s. s\<lparr>ui_toasts := []\<rparr>) d)"
| toast_refreshed: "dashboard_step d (change_tui (\<lambda>s. refresh_active_toast s nowMs) d)"
| resized: "dashboard_step d (change_tui (\<lambda>s. clamp_state_scroll h (s\<lparr>ui_terminalRows := rows\<rparr>)) d)"

end
