(* ===== verification/DashboardOperationProperties.thy ===== *)
theory DashboardOperationProperties
  imports DashboardOperations DashboardProperties Transitions
begin

text \<open>
  What holds while the dashboard's operations run, whatever comes in between: a command that failed is
  reported, and once only unless its row was gone; every row that says something is under way is right.
\<close>

interpretation tui: transition_system initial_dashboard dashboard_step .

subsection \<open>Failures and their messages\<close>

definition report_ok :: "command_id \<Rightarrow> dashboard \<Rightarrow> bool" where
  "report_ok i d =
     ((i \<in> set (db_handled d) \<longrightarrow> i \<in> set (db_reported d)) \<and> (i \<in> set (db_failed d) \<longrightarrow> i \<in> set (db_reported d)) \<and>
      count_list (db_reported d) i \<le>
         count_list (db_unowned d) i + count_list (db_lost d) i + (if i \<in> set (db_handled d) then 1 else 0))"

text \<open>The fields the reports are about.\<close>

definition same_reports :: "dashboard \<Rightarrow> dashboard \<Rightarrow> bool" where
  "same_reports d d' =
     (db_handled d' = db_handled d \<and> db_reported d' = db_reported d \<and> db_failed d' = db_failed d \<and>
      db_lost d' = db_lost d \<and> db_unowned d' = db_unowned d)"

lemma same_reports_ok: "same_reports d d' \<Longrightarrow> report_ok i d \<Longrightarrow> report_ok i d'"
  by (simp add: same_reports_def report_ok_def)

lemma mark_row_failed_reports [simp]:
  "db_handled (mark_row_failed t op e d) = db_handled d" "db_reported (mark_row_failed t op e d) = db_reported d"
  "db_failed (mark_row_failed t op e d) = db_failed d" "db_lost (mark_row_failed t op e d) = db_lost d"
  "db_unowned (mark_row_failed t op e d) = db_unowned d" "db_tasks (mark_row_failed t op e d) = db_tasks d"
  "db_succeeded (mark_row_failed t op e d) = db_succeeded d"
  by (cases op; simp)+

lemma mark_local_failure_reports [simp]:
  "db_handled (mark_local_failure t f e d) = db_handled d" "db_reported (mark_local_failure t f e d) = db_reported d"
  "db_failed (mark_local_failure t f e d) = db_failed d" "db_lost (mark_local_failure t f e d) = db_lost d"
  "db_unowned (mark_local_failure t f e d) = db_unowned d" "db_tasks (mark_local_failure t f e d) = db_tasks d"
  "db_succeeded (mark_local_failure t f e d) = db_succeeded d"
  by (cases f; simp)+

lemma completion_succeeded_same: "same_reports d (completion_succeeded t n op (remember_success op d))"
  by (cases op) (simp_all add: same_reports_def finish_task_def catch_up_def go_on_def remember_success_def split: option.split)

lemma operation_throws_ok: "report_ok j d \<Longrightarrow> report_ok j (operation_throws label t op i v (finish_task n d))"
  by (auto simp: report_ok_def operation_throws_def fail_operation_def toast_error_def mark_handled_def finish_task_def
      Let_def split: option.split if_splits)

lemma completion_failed_ok: "report_ok j d \<Longrightarrow> report_ok j (completion_failed t n op i e d)"
  by (auto simp: report_ok_def completion_failed_def toast_error_def mark_handled_def finish_task_def Let_def split: if_splits)

lemma on_event_ok: "report_ok j d \<Longrightarrow> report_ok j (on_event h t ev a d)"
proof -
  assume ok: "report_ok j d"
  then show ?thesis
  proof (cases a)
    case None
    with ok show ?thesis by (simp add: report_ok_def on_event_def)
  next
    case (Some r)
    show ?thesis
    proof (cases "failed_command_of ev")
      case None
      with Some ok show ?thesis by (simp add: report_ok_def on_event_def)
    next
      case event: (Some p)
      obtain i e where p: "p = (i, e)" by (cases p)
      show ?thesis
      proof (cases "local_command_failure (db_tui d) i")
        case None
        with Some event p ok show ?thesis
          by (cases "i \<in> set (db_handled d)") (simp_all add: report_ok_def on_event_def Let_def)
      next
        case failure: (Some f)
        with Some event p ok show ?thesis
          by (cases "i \<in> set (db_handled d)") (auto simp: report_ok_def on_event_def toast_error_def mark_handled_def Let_def)
      qed
    qed
  qed
qed

lemma receipt_same: "same_reports d (receipt_arrives t n op m r d)"
  by (simp add: same_reports_def receipt_arrives_def fail_operation_def toast_error_def finish_task_def go_on_def)

lemma refresh_same: "same_reports d (on_refresh_settled h t outcome d)"
  by (cases outcome) (simp_all add: same_reports_def toast_error_def)

lemma subscription_same: "same_reports d (on_subscription_error t e c r d)"
  by (simp add: same_reports_def on_subscription_error_def toast_error_def)

lemma caught_up_same: "same_reports d (caught_up h n l w snapshot d)"
  by (simp add: same_reports_def caught_up_def finish_task_def Let_def split: option.split)

lemma quiet_same:
  "same_reports d (press_key c key d)" "same_reports d (go_on n ph d)" "same_reports d (toast_error t e (finish_task n d))"
  "same_reports d (submit_failed n e d)" "same_reports d (project_added n task m s d)"
  "same_reports d (d\<lparr>db_tui := x\<rparr>)" "same_reports d (finish_task n (d\<lparr>db_tui := x\<rparr>))"
  "same_reports d ((d\<lparr>db_timers := ls\<rparr>)\<lparr>db_tui := x\<rparr>)"
  by (simp_all add: same_reports_def press_key_def go_on_def toast_error_def finish_task_def submit_failed_def
      project_added_def Let_def)

lemmas same_steps = completion_succeeded_same receipt_same refresh_same subscription_same caught_up_same quiet_same

lemma reports_step: "dashboard_step d d' \<Longrightarrow> report_ok j d \<Longrightarrow> report_ok j d'"
  by (erule dashboard_step.cases; hypsubst)
    (rule same_steps [THEN same_reports_ok] operation_throws_ok completion_failed_ok on_event_ok; assumption?)+

lemma initial_reports: "initial_dashboard d \<Longrightarrow> report_ok i d"
  by (auto simp: initial_dashboard_def no_dashboard_def report_ok_def)

lemma reachable_reports: "tui.reachable d \<Longrightarrow> report_ok i d"
  by (erule tui.invariant_reachable) (rule initial_reports reports_step; assumption)+

subsection \<open>Rows of operations under way\<close>

datatype row_key = CreateKey string | RemoveKey string | StartKey string | RenameKey string

fun operation_row :: "tui_operation \<Rightarrow> row_key option" where
  "operation_row (CreateSessionOp l p b h m) = Some (CreateKey l)"
| "operation_row (RemoveWorktreeOp l p w b m) = Some (RemoveKey l)"
| "operation_row (StartAgentOp l p w b m) = Some (StartKey l)"
| "operation_row (ResumeAgentOp l p w b m) = Some (StartKey l)"
| "operation_row (RenameSessionOp i t m) = Some (RenameKey i)"
| "operation_row op = None"

definition pending_keys :: "local_rows \<Rightarrow> row_key set" where
  "pending_keys l =
     CreateKey ` pc_localId ` set (lr_pendingCreate l) \<union> RemoveKey ` pm_localId ` set (lr_pendingRemove l) \<union>
     StartKey ` pst_localId ` set (lr_pendingStart l) \<union> RenameKey ` fst ` set (pending_rename_titles l)"

definition running_keys :: "dashboard \<Rightarrow> row_key set" where
  "running_keys d = {k. \<exists>t \<in> set (db_tasks d). operation_row (tk_operation t) = Some k}"

text \<open>Operations that succeeded, whose row stays until the observer's snapshot shows what they did.\<close>

definition settled_keys :: "dashboard \<Rightarrow> row_key set" where
  "settled_keys d = {k. \<exists>op \<in> set (db_succeeded d). operation_row op = Some k \<and> (\<forall>l. k \<noteq> CreateKey l)}"

definition rows_ok :: "dashboard \<Rightarrow> bool" where
  "rows_ok d =
     (pending_keys (ui_localRows (db_tui d)) \<subseteq> running_keys d \<union> settled_keys d \<and>
      fc_localId ` set (lr_failedCreate (ui_localRows (db_tui d))) \<subseteq> set (db_timers d) \<and>
      (\<forall>t \<in> set (db_tasks d). tk_phase t = AwaitSnapshot \<longrightarrow> is_command_op (tk_operation t) \<longrightarrow>
         tk_operation t \<in> set (db_succeeded d)))"

definition operation_keys :: "tui_operation list \<Rightarrow> row_key set" where
  "operation_keys ops = {k. \<exists>op \<in> set ops. operation_row op = Some k}"

subsection \<open>How the rows change\<close>

lemma toast_rows [simp]: "ui_localRows (add_toast s t n) = ui_localRows s" "ui_localRows (add_toasts s ts n) = ui_localRows s"
  "ui_localRows (expire_toasts s n) = ui_localRows s" "ui_localRows (refresh_active_toast s n) = ui_localRows s"
proof -
  show expire: "ui_localRows (expire_toasts s n) = ui_localRows s" for s :: tui_state by (simp add: expire_toasts_def Let_def)
  show one: "ui_localRows (add_toast s t n) = ui_localRows s" for s t by (simp add: add_toast_def Let_def expire split: option.split)
  show "ui_localRows (add_toasts s ts n) = ui_localRows s"
    by (induction ts arbitrary: s) (simp_all add: add_toasts_def one)
  show "ui_localRows (refresh_active_toast s n) = ui_localRows s" by (simp add: refresh_active_toast_def split: option.split)
qed

lemma view_rows [simp]: "ui_localRows (clamp_state_scroll h s) = ui_localRows s" "ui_localRows (scroll_dashboard h s n) = ui_localRows s"
  "ui_localRows (apply_flow_action s a) = ui_localRows s" "ui_localRows (connected_tui s) = ui_localRows s"
  "ui_localRows (observer_connected_state s t b) = ui_localRows s"
  "ui_localRows (observer_connection_failure s e t) = ui_localRows s" "ui_localRows (open_add_project c s) = ui_localRows s"
  by (auto simp: clamp_state_scroll_def scroll_dashboard_def apply_flow_action_def connected_tui_def
      observer_connected_state_def observer_connection_failure_def open_add_project_def Let_def
      split: option.split tui_screen.split)

lemma pending_rename_with [simp]: "pending_rename_titles (with_rename_titles l ts) = ts"
  by (simp add: pending_rename_titles_def with_rename_titles_def nullish_def)

lemma with_rename_sel [simp]:
  "lr_pendingCreate (with_rename_titles l ts) = lr_pendingCreate l" "lr_pendingRemove (with_rename_titles l ts) = lr_pendingRemove l"
  "lr_pendingStart (with_rename_titles l ts) = lr_pendingStart l" "lr_failedCreate (with_rename_titles l ts) = lr_failedCreate l"
  by (simp_all add: with_rename_titles_def)

lemma pending_rename_updates [simp]:
  "pending_rename_titles (l\<lparr>lr_pendingCreate := a\<rparr>) = pending_rename_titles l"
  "pending_rename_titles (l\<lparr>lr_failedCreate := b\<rparr>) = pending_rename_titles l"
  "pending_rename_titles (l\<lparr>lr_pendingRemove := c\<rparr>) = pending_rename_titles l"
  "pending_rename_titles (l\<lparr>lr_pendingStart := d\<rparr>) = pending_rename_titles l"
  by (simp_all add: pending_rename_titles_def)

abbreviation rows_of :: "tui_state \<Rightarrow> row_key set" where
  "rows_of s \<equiv> pending_keys (ui_localRows s)"

abbreviation failed_of :: "tui_state \<Rightarrow> string set" where
  "failed_of s \<equiv> fc_localId ` set (lr_failedCreate (ui_localRows s))"

lemma prune_rows: "pending_keys (prune_local_rows l s) \<subseteq> pending_keys l" "lr_failedCreate (prune_local_rows l s) = lr_failedCreate l"
  by (auto simp: prune_local_rows_def pending_keys_def prune_rename_titles_def)

lemma replace_rows: "rows_of (replace_snapshot s snapshot) \<subseteq> rows_of s" "failed_of (replace_snapshot s snapshot) = failed_of s"
  using prune_rows by (simp_all add: replace_snapshot_def)

lemma remove_rows:
  "rows_of (remove_create_row s l) \<subseteq> rows_of s - {CreateKey l}" "failed_of (remove_create_row s l) \<subseteq> failed_of s - {l}"
  "rows_of (remove_pending_remove s l) \<subseteq> rows_of s - {RemoveKey l}" "failed_of (remove_pending_remove s l) = failed_of s"
  "rows_of (remove_pending_start s l) \<subseteq> rows_of s - {StartKey l}" "failed_of (remove_pending_start s l) = failed_of s"
  by (auto simp: remove_create_row_def remove_pending_remove_def remove_pending_start_def pending_keys_def)

lemma remove_rename_rows:
  "rows_of (remove_pending_rename s i) \<subseteq> rows_of s - {RenameKey i}" "failed_of (remove_pending_rename s i) = failed_of s"
proof -
  show "rows_of (remove_pending_rename s i) \<subseteq> rows_of s - {RenameKey i}"
  proof (cases "map_of (pending_rename_titles (ui_localRows s)) i")
    case None
    then have "RenameKey i \<notin> rows_of s" by (auto simp: pending_keys_def map_of_eq_None_iff)
    with None show ?thesis by (simp add: remove_pending_rename_def)
  next
    case (Some p)
    then show ?thesis by (auto simp: remove_pending_rename_def pending_keys_def rec_del_def)
  qed
  show "failed_of (remove_pending_rename s i) = failed_of s" by (simp add: remove_pending_rename_def split: option.split)
qed

lemma fail_create_rows:
  "rows_of (fail_pending_create s l e t) \<subseteq> rows_of s - {CreateKey l}" "failed_of (fail_pending_create s l e t) \<subseteq> insert l (failed_of s)"
  by (auto simp: fail_pending_create_def pending_keys_def find_None_iff split: option.split)

lemma rec_set_fsts: "k \<in> fst ` set r \<Longrightarrow> fst ` set (rec_set k v r) = fst ` set r"
  using rec_set_keys [of k v r] by auto

lemma image_kept: "(\<And>x. f (g x) = f x) \<Longrightarrow> f ` set (map g xs) = f ` set xs"
  by (simp add: image_image)

lemma bind_rows [simp]: "rows_of (bind_row op i s) = rows_of s" "failed_of (bind_row op i s) = failed_of s"
proof -
  have "rows_of (bind_pending_rename s j i) = rows_of s" for j
  proof (cases "map_of (pending_rename_titles (ui_localRows s)) j")
    case (Some p)
    then have "j \<in> fst ` set (pending_rename_titles (ui_localRows s))" by (metis map_of_eq_None_iff option.distinct(1))
    with Some show ?thesis by (simp add: bind_pending_rename_def pending_keys_def rec_set_fsts)
  qed (simp add: bind_pending_rename_def)
  moreover have "failed_of (bind_pending_rename s j i) = failed_of s" for j
    by (simp add: bind_pending_rename_def split: option.split)
  ultimately show "rows_of (bind_row op i s) = rows_of s" "failed_of (bind_row op i s) = failed_of s"
    by (cases op; simp add: pending_keys_def bind_pending_create_def bind_pending_remove_def bind_pending_start_def
        image_kept del: set_map image_set)+
qed

subsection \<open>What a key adds\<close>

definition fits :: "tui_state \<Rightarrow> tui_transition \<Rightarrow> bool" where
  "fits s t = (rows_of (tt_state t) \<subseteq> rows_of s \<union> operation_keys (tt_operations t) \<and> failed_of (tt_state t) = failed_of s)"

lemma fits_if: "fits s t \<Longrightarrow> fits s u \<Longrightarrow> fits s (if b then t else u)"
  by simp

lemma fits_become: "ui_localRows s' = ui_localRows s \<Longrightarrow> fits s (become s')"
  by (simp add: fits_def become_def)

lemma fits_updates:
  "fits s t \<Longrightarrow> fits s (t\<lparr>tt_commands := a\<rparr>)" "fits s t \<Longrightarrow> fits s (t\<lparr>tt_exitCode := b\<rparr>)"
  "fits s t \<Longrightarrow> fits s (t\<lparr>tt_dismissPopup := c\<rparr>)" "fits s t \<Longrightarrow> fits s (t\<lparr>tt_reconcileReason := d\<rparr>)"
  "ui_localRows s' = ui_localRows s \<Longrightarrow> fits s ((become s')\<lparr>tt_operations := ops\<rparr>)"
  by (auto simp: fits_def become_def)

lemma fits_screens: "fits s (show_screen s scr)" "fits s (show_toast c s toast)" "fits s (apply_flow_transition s t)"
  "fits s (show_toast c (s\<lparr>ui_screen := scr\<rparr>) toast)"
  by (simp_all add: fits_def show_screen_def become_def show_toast_def apply_flow_transition_def)

lemma fits_add:
  "operation_row op = Some k \<Longrightarrow> rows_of s' \<subseteq> insert k (rows_of s) \<Longrightarrow> failed_of s' = failed_of s \<Longrightarrow>
     fits s ((become s')\<lparr>tt_operations := [op]\<rparr>)"
  by (auto simp: fits_def become_def operation_keys_def)

lemma add_rows:
  "rows_of (add_pending_create (s\<lparr>ui_screen := scr\<rparr>) c) \<subseteq> insert (CreateKey (pc_localId c)) (rows_of s)"
  "rows_of (add_pending_remove (s\<lparr>ui_screen := scr\<rparr>) m) \<subseteq> insert (RemoveKey (pm_localId m)) (rows_of s)"
  "rows_of (add_pending_start s t) \<subseteq> insert (StartKey (pst_localId t)) (rows_of s)"
  "rows_of (add_pending_rename (s\<lparr>ui_screen := scr\<rparr>) r) \<subseteq> insert (RenameKey (prn_sessionId r)) (rows_of s)"
  using rec_set_keys [of "prn_sessionId r" r "pending_rename_titles (ui_localRows s)"]
  by (auto simp: add_pending_create_def add_pending_remove_def add_pending_start_def add_pending_rename_def pending_keys_def)

lemma add_failed [simp]:
  "lr_failedCreate (ui_localRows (add_pending_create s c)) = lr_failedCreate (ui_localRows s)"
  "lr_failedCreate (ui_localRows (add_pending_remove s m)) = lr_failedCreate (ui_localRows s)"
  "lr_failedCreate (ui_localRows (add_pending_start s t)) = lr_failedCreate (ui_localRows s)"
  "lr_failedCreate (ui_localRows (add_pending_rename s r)) = lr_failedCreate (ui_localRows s)"
  by (simp_all add: add_pending_create_def add_pending_remove_def add_pending_start_def add_pending_rename_def)

lemmas fits_adds = fits_add [OF _ add_rows(1)] fits_add [OF _ add_rows(2)] fits_add [OF _ add_rows(3)] fits_add [OF _ add_rows(4)]

lemma fits_start: "fits s (start_or_resume_agent_for_row c s row)"
  by (simp add: start_or_resume_agent_for_row_def Let_def fits_become fits_screens fits_adds split: option.split)

lemma fits_dashboard: "fits s (handle_dashboard_key c s key)"
proof -
  have row: "fits s (case chosen_row c s key of None \<Rightarrow> become s | Some row \<Rightarrow>
      (if row_recovery row \<noteq> None \<or> row_agent row = None then start_or_resume_agent_for_row c s row
       else (become s)\<lparr>tt_commands := [build_focus_command row (tr_focusOrigin (ui_runtime s))]\<rparr>))"
    by (simp add: fits_start fits_become fits_updates split: option.split)
  show ?thesis
    unfolding handle_dashboard_key_def Let_def
    by (intro fits_if row)
      (simp_all add: fits_screens fits_become fits_updates open_new_session_def open_project_collapse_def split: option.split)
qed

lemma fits_remove: "fits s (remove_confirm_key c s w f key)" "fits s (remove_choose_key c s key)"
  by (simp_all add: remove_confirm_key_def remove_choose_key_def Let_def fits_screens fits_become fits_adds split: option.split)

lemma fits_rename: "fits s (rename_choose_key c s key)" "fits s (rename_edit_key c s r key)"
  by (simp_all add: rename_edit_key_def submit_rename_def rename_choose_key_def Let_def fits_screens fits_become fits_adds
      split: option.split)

lemma fits_new_session: "fits s (handle_new_session_key c s flow key)"
  by (simp add: handle_new_session_key_def submit_new_session_def Let_def fits_screens fits_become fits_adds
      split: option.split session_intent.split sum.split prod.split)

lemma fits_small: "fits s (handle_help_key s key)" "fits s (handle_search_key s q key)" "fits s (handle_project_collapse_key c s key)"
  by (simp_all add: handle_help_key_def handle_search_key_def handle_project_collapse_key_def fits_screens fits_become split: option.split)

lemma fits_add_project: "fits s (handle_add_project_key c s flow key)"
  unfolding handle_add_project_key_def edit_project_id_key_def project_list_key_def Let_def
  by (auto intro!: fits_if simp: fits_screens fits_become fits_updates split: option.split project_mode.split bool.split)

lemma key_fits: "fits s (handle_tui_key c s key)"
proof (cases "k_ctrl key \<and> k_input key = ''c''")
  case True
  then show ?thesis by (simp add: handle_tui_key_interrupt fits_updates fits_become)
next
  case False
  then show ?thesis
    by (simp add: handle_tui_key_screen fits_dashboard fits_small fits_remove fits_rename fits_new_session fits_add_project
        fits_screens split: tui_screen.split)
qed

subsection \<open>The invariant of the rows\<close>

lemma settled_mono: "set (db_succeeded d) \<subseteq> set (db_succeeded d') \<Longrightarrow> settled_keys d \<subseteq> settled_keys d'"
  by (auto simp: settled_keys_def)

text \<open>The rows shrink, the tasks stay.\<close>

lemma rows_shrink:
  assumes "rows_ok d" "rows_of (db_tui d') \<subseteq> rows_of (db_tui d)" "failed_of (db_tui d') \<subseteq> set (db_timers d')"
    "set (db_succeeded d) \<subseteq> set (db_succeeded d')" "db_tasks d' = db_tasks d"
  shows "rows_ok d'"
  using assms settled_mono [OF assms(4)] unfolding rows_ok_def running_keys_def by auto

lemma running_operations: "running_keys d = operation_keys (map tk_operation (db_tasks d))"
  by (auto simp: running_keys_def operation_keys_def)

text \<open>A task goes on to its next phase.\<close>

lemma rows_go_on:
  assumes "rows_ok d" "task_is d n op ph0"
    "ph = AwaitSnapshot \<Longrightarrow> is_command_op op \<Longrightarrow> op \<in> set (db_succeeded d)"
  shows "rows_ok (go_on n ph d)"
proof -
  have "n < length (db_tasks d)" "tk_operation (db_tasks d ! n) = op" using assms(2) by (simp_all add: task_is_def)
  then have ops: "map tk_operation (db_tasks (go_on n ph d)) = map tk_operation (db_tasks d)"
    by (simp add: go_on_def map_update list_update_same_conv)
  then have same: "running_keys (go_on n ph d) = running_keys d" by (simp add: running_operations)
  have "settled_keys (go_on n ph d) = settled_keys d" by (simp add: settled_keys_def go_on_def)
  then show ?thesis
    using assms set_update_subset_insert [of "db_tasks d" n "(db_tasks d ! n)\<lparr>tk_phase := ph\<rparr>"] same
    by (auto simp: rows_ok_def go_on_def task_is_def)
qed

text \<open>A task ends: its row is gone, or its operation succeeded.\<close>

lemma rows_finish:
  assumes "rows_ok d" "task_is d n op ph" "rows_of (db_tui d') \<subseteq> rows_of (db_tui d)" "failed_of (db_tui d') \<subseteq> set (db_timers d')"
    "set (db_succeeded d) \<subseteq> set (db_succeeded d')" "db_tasks d' = take n (db_tasks d) @ drop (Suc n) (db_tasks d)"
    "\<And>k. operation_row op = Some k \<Longrightarrow> k \<notin> rows_of (db_tui d') \<or> k \<in> settled_keys d'"
  shows "rows_ok d'"
proof -
  have n: "n < length (db_tasks d)" "tk_operation (db_tasks d ! n) = op" using assms(2) by (simp_all add: task_is_def)
  have split: "set (db_tasks d) = insert (db_tasks d ! n) (set (db_tasks d'))"
    using id_take_nth_drop [OF n(1)] assms(6) by (metis Un_insert_right list.simps(15) set_append)
  then have run: "running_keys d \<subseteq> {k. operation_row op = Some k} \<union> running_keys d'"
    using n(2) by (auto simp: running_keys_def)
  have rows: "rows_of (db_tui d) \<subseteq> running_keys d \<union> settled_keys d"
    and tasks: "\<forall>t \<in> set (db_tasks d). tk_phase t = AwaitSnapshot \<longrightarrow> is_command_op (tk_operation t) \<longrightarrow>
         tk_operation t \<in> set (db_succeeded d)" using assms(1) by (simp_all add: rows_ok_def)
  have "rows_of (db_tui d') \<subseteq> running_keys d' \<union> settled_keys d'"
  proof
    fix k assume k: "k \<in> rows_of (db_tui d')"
    with assms(3) rows have "k \<in> running_keys d \<union> settled_keys d" by blast
    then show "k \<in> running_keys d' \<union> settled_keys d'"
      using run settled_mono [OF assms(5)] assms(7) [of k] k by blast
  qed
  moreover have "\<forall>t \<in> set (db_tasks d'). tk_phase t = AwaitSnapshot \<longrightarrow> is_command_op (tk_operation t) \<longrightarrow>
         tk_operation t \<in> set (db_succeeded d')"
    using tasks split assms(5) by blast
  ultimately show ?thesis using assms(4) by (simp add: rows_ok_def)
qed

lemma failed_timers: "rows_ok d \<Longrightarrow> failed_of (db_tui d) \<subseteq> set (db_timers d)"
  by (simp add: rows_ok_def)

lemma rows_shrunk:
  "rows_of (remove_create_row s l) \<subseteq> rows_of s" "rows_of (remove_pending_remove s l) \<subseteq> rows_of s"
  "rows_of (remove_pending_start s l) \<subseteq> rows_of s" "rows_of (remove_pending_rename s i) \<subseteq> rows_of s"
  "rows_of (fail_pending_create s l e t) \<subseteq> rows_of s"
  using remove_rows(1,3,5) remove_rename_rows(1) fail_create_rows(1) by blast+

lemma failed_shrunk: "failed_of (remove_create_row s l) \<subseteq> failed_of s"
  using remove_rows(2) [of s l] by blast

lemma rows_gone [simp]:
  "CreateKey l \<notin> rows_of (remove_create_row s l)" "RemoveKey l \<notin> rows_of (remove_pending_remove s l)"
  "StartKey l \<notin> rows_of (remove_pending_start s l)" "RenameKey i \<notin> rows_of (remove_pending_rename s i)"
  "CreateKey l \<notin> rows_of (fail_pending_create s l e t)"
  using remove_rows(1,3,5) remove_rename_rows(1) fail_create_rows(1) by blast+

lemma mark_failed_rows:
  "rows_of (db_tui (mark_row_failed t op e d)) \<subseteq> rows_of (db_tui d)"
  "failed_of (db_tui d) \<subseteq> set (db_timers d) \<Longrightarrow> failed_of (db_tui (mark_row_failed t op e d)) \<subseteq> set (db_timers (mark_row_failed t op e d))"
  "operation_row op = Some k \<Longrightarrow> k \<notin> rows_of (db_tui (mark_row_failed t op e d))"
proof -
  show "rows_of (db_tui (mark_row_failed t op e d)) \<subseteq> rows_of (db_tui d)" by (cases op) (simp_all add: rows_shrunk)
  show "failed_of (db_tui (mark_row_failed t op e d)) \<subseteq> set (db_timers (mark_row_failed t op e d))" if "failed_of (db_tui d) \<subseteq> set (db_timers d)"
    using that fail_create_rows(2) [of "db_tui d" _ e]
    by (cases op) (auto simp: remove_rows remove_rename_rows simp del: image_subset_iff, blast+)
  show "operation_row op = Some k \<Longrightarrow> k \<notin> rows_of (db_tui (mark_row_failed t op e d))" by (cases op) auto
qed

lemma mark_local_rows:
  "rows_of (db_tui (mark_local_failure t f e d)) \<subseteq> rows_of (db_tui d)"
  "failed_of (db_tui d) \<subseteq> set (db_timers d) \<Longrightarrow> failed_of (db_tui (mark_local_failure t f e d)) \<subseteq> set (db_timers (mark_local_failure t f e d))"
proof -
  show "rows_of (db_tui (mark_local_failure t f e d)) \<subseteq> rows_of (db_tui d)" by (cases f) (simp_all add: rows_shrunk)
  show "failed_of (db_tui (mark_local_failure t f e d)) \<subseteq> set (db_timers (mark_local_failure t f e d))" if "failed_of (db_tui d) \<subseteq> set (db_timers d)"
    using that fail_create_rows(2) [of "db_tui d" _ e]
    by (cases f) (auto simp: remove_rows remove_rename_rows simp del: image_subset_iff, blast+)
qed

text \<open>What the invariant does not read.\<close>

lemma rows_same:
  assumes "ui_localRows (db_tui d') = ui_localRows (db_tui d)" "db_timers d' = db_timers d" "db_tasks d' = db_tasks d"
    "db_succeeded d' = db_succeeded d"
  shows "rows_ok d' = rows_ok d"
  using assms by (simp add: rows_ok_def running_keys_def settled_keys_def)

lemma rows_ok_unread [simp]:
  "rows_ok (d\<lparr>db_reported := a\<rparr>) = rows_ok d" "rows_ok (d\<lparr>db_failed := a\<rparr>) = rows_ok d" "rows_ok (d\<lparr>db_lost := a\<rparr>) = rows_ok d"
  "rows_ok (d\<lparr>db_unowned := a\<rparr>) = rows_ok d" "rows_ok (mark_handled i d) = rows_ok d" "rows_ok (toast_error t e d) = rows_ok d"
  by (rule rows_same; simp add: mark_handled_def toast_error_def)+

lemma rows_failed:
  assumes "rows_ok d" "task_is d n op ph" "db_tui e = db_tui d" "db_timers e = db_timers d" "db_succeeded e = db_succeeded d"
    "db_tasks e = take n (db_tasks d) @ drop (Suc n) (db_tasks d)"
  shows "rows_ok (mark_row_failed t op er e)"
proof (rule rows_finish [OF assms(1,2)])
  show "rows_of (db_tui (mark_row_failed t op er e)) \<subseteq> rows_of (db_tui d)"
    using mark_failed_rows(1) [of t op er e] assms(3) by simp
  show "failed_of (db_tui (mark_row_failed t op er e)) \<subseteq> set (db_timers (mark_row_failed t op er e))"
    by (rule mark_failed_rows(2)) (use failed_timers [OF assms(1)] assms(3,4) in simp)
  show "\<And>k. operation_row op = Some k \<Longrightarrow> k \<notin> rows_of (db_tui (mark_row_failed t op er e)) \<or> k \<in> settled_keys (mark_row_failed t op er e)"
    using mark_failed_rows(3) by blast
qed (use assms in simp_all)

lemma rows_throws:
  assumes "rows_ok d" "task_is d n op ph"
  shows "rows_ok (operation_throws label t op i v (finish_task n d))"
proof (cases i)
  case None
  then show ?thesis
    by (simp add: operation_throws_def fail_operation_def) (rule rows_failed [OF assms]; simp add: finish_task_def)
next
  case (Some j)
  then show ?thesis
    by (simp add: operation_throws_def fail_operation_def Let_def)
      (intro conjI impI; rule rows_failed [OF assms]; simp add: finish_task_def mark_handled_def)
qed

lemma rows_completion_failed:
  assumes "rows_ok d" "task_is d n op ph"
  shows "rows_ok (completion_failed t n op i e d)"
proof -
  have "rows_ok (mark_row_failed t op e (mark_handled i (finish_task n d)))"
    by (rule rows_failed [OF assms]; simp add: finish_task_def mark_handled_def)
  then show ?thesis by (simp add: completion_failed_def Let_def)
qed

lemma task_is_update [simp]: "task_is (d\<lparr>db_tui := s\<rparr>) n op ph = task_is d n op ph" "task_is (remember_success op' d) n op ph = task_is d n op ph"
  by (simp_all add: task_is_def remember_success_def)

lemma rows_tui: "rows_ok d \<Longrightarrow> rows_of s \<subseteq> rows_of (db_tui d) \<Longrightarrow> failed_of s \<subseteq> failed_of (db_tui d) \<Longrightarrow> rows_ok (d\<lparr>db_tui := s\<rparr>)"
  by (rule rows_shrink [of d]) (use failed_timers [of d] in simp_all)

lemma rows_receipt:
  assumes "rows_ok d" "task_is d n op (AwaitReceipt m)"
  shows "rows_ok (receipt_arrives t n op m r d)"
proof (cases "cr_accepted r")
  case True
  have "rows_ok (go_on n (AwaitCompletion (cr_commandId r)) (change_tui (bind_row op (cr_commandId r)) d))"
    by (rule rows_go_on) (use assms in \<open>simp_all add: rows_tui\<close>)
  with True show ?thesis by (simp add: receipt_arrives_def)
next
  case False
  then show ?thesis
    by (simp add: receipt_arrives_def fail_operation_def) (rule rows_failed [OF assms]; simp add: finish_task_def)
qed

lemma rows_quiet_end:
  assumes "rows_ok d" "task_is d n op ph" "rows_of s \<subseteq> rows_of (db_tui d)" "failed_of s \<subseteq> failed_of (db_tui d)"
    "\<And>k. operation_row op = Some k \<Longrightarrow> k \<notin> rows_of s \<or> k \<in> settled_keys d"
  shows "rows_ok (finish_task n (d\<lparr>db_tui := s\<rparr>))"
  by (rule rows_finish [OF assms(1,2)])
    (use assms(3-5) failed_timers [OF assms(1)] in \<open>auto simp: finish_task_def settled_keys_def\<close>)

lemma rows_key: "rows_ok d \<Longrightarrow> rows_ok (press_key c key d)"
proof -
  assume ok: "rows_ok d"
  define t where "t = handle_tui_key c (db_tui d) key"
  have fit: "rows_of (tt_state t) \<subseteq> rows_of (db_tui d) \<union> operation_keys (tt_operations t)" "failed_of (tt_state t) = failed_of (db_tui d)"
    using key_fits [of "db_tui d" c key] by (simp_all add: fits_def t_def)
  have op: "tk_operation (start_task s op) = op" "tk_phase (start_task s op) \<noteq> AwaitSnapshot" for s op
    by (simp_all add: start_task_def) (cases op; simp)
  then have "map tk_operation (db_tasks (press_key c key d)) = map tk_operation (db_tasks d) @ tt_operations t"
    by (simp add: press_key_def Let_def t_def comp_def)
  then have run: "running_keys (press_key c key d) = running_keys d \<union> operation_keys (tt_operations t)"
    by (auto simp: running_operations operation_keys_def)
  have settled: "settled_keys (press_key c key d) = settled_keys d"
    by (simp add: settled_keys_def press_key_def Let_def)
  have "rows_of (tt_state t) \<subseteq> running_keys (press_key c key d) \<union> settled_keys (press_key c key d)"
    using ok fit(1) unfolding run settled rows_ok_def by blast
  then show "rows_ok (press_key c key d)"
    using ok fit(2) op unfolding rows_ok_def by (auto simp: press_key_def Let_def t_def)
qed

lemma settled_last: "operation_row op = Some k \<Longrightarrow> (\<And>l. k \<noteq> CreateKey l) \<Longrightarrow> k \<in> settled_keys (remember_success op d)"
  by (auto simp: settled_keys_def remember_success_def)

lemma rows_remember: "rows_ok d \<Longrightarrow> rows_ok (remember_success op d)"
  by (rule rows_shrink [of d]) (use failed_timers [of d] in \<open>auto simp: remember_success_def\<close>)

lemma rows_end:
  assumes "rows_ok d" "task_is d n op ph" "\<And>k. operation_row op = Some k \<Longrightarrow> k \<in> settled_keys d"
  shows "rows_ok (finish_task n d)"
  using rows_quiet_end [OF assms(1,2), of "db_tui d"] assms(3) by simp

lemma rows_succeeded:
  assumes "rows_ok d" "task_is d n op (AwaitCompletion i)"
  shows "rows_ok (completion_succeeded t n op (remember_success op d))"
proof -
  let ?d = "remember_success op d"
  have ok: "rows_ok ?d" and task: "task_is ?d n op (AwaitCompletion i)" using assms rows_remember by simp_all
  have start: "rows_ok (catch_up n l w ?d)" if op: "operation_row op = Some (StartKey l)" for l w
  proof (cases "started_row_for_snapshot (ui_snapshot (db_tui ?d)) w")
    case None
    have "rows_ok (go_on n AwaitSnapshot ?d)"
      by (rule rows_go_on [OF ok task]) (simp add: remember_success_def)
    with None show ?thesis by (simp add: catch_up_def)
  next
    case (Some row)
    have "rows_ok (finish_task n (change_tui (\<lambda>s. remove_pending_start s l) ?d))"
      by (rule rows_quiet_end [OF ok task]) (use op in \<open>simp_all add: rows_shrunk remove_rows\<close>)
    with Some show ?thesis by (simp add: catch_up_def)
  qed
  show ?thesis
  proof (cases op)
    case (CreateSessionOp l p b h m)
    have "rows_ok (finish_task n (change_tui (\<lambda>s. remove_create_row s l) ?d))"
      by (rule rows_quiet_end [OF ok task]) (use CreateSessionOp rows_shrunk(1) failed_shrunk in \<open>simp_all add: remember_success_def\<close>)
    with CreateSessionOp show ?thesis by simp
  next
    case (RenameSessionOp j title m)
    have "rows_ok (finish_task n (change_tui (\<lambda>s. add_toast s session_renamed t) ?d))"
      by (rule rows_quiet_end [OF ok task]) (use RenameSessionOp settled_last [of op _ d] in simp_all)
    with RenameSessionOp show ?thesis by simp
  next
    case (RemoveWorktreeOp l p w b m)
    then show ?thesis using rows_end [OF ok task] settled_last [of op _ d] by simp
  qed (use start rows_end [OF ok task] in simp_all)
qed

lemma awaiting_settled:
  assumes "rows_ok d" "task_is d n op AwaitSnapshot" "op = StartAgentOp l p w b m \<or> op = ResumeAgentOp l p w b m"
    "operation_row op = Some k"
  shows "k \<in> settled_keys d"
proof -
  have "op \<in> set (db_succeeded d)"
    using assms(1-3) nth_mem [of n "db_tasks d"] unfolding rows_ok_def task_is_def by auto
  then show ?thesis using assms(3,4) unfolding settled_keys_def by auto
qed

lemma rows_caught_up:
  assumes "rows_ok d" "task_is d n op AwaitSnapshot" "op = StartAgentOp l p w b m \<or> op = ResumeAgentOp l p w b m"
  shows "rows_ok (caught_up h n l w snapshot d)"
proof -
  have "rows_ok (finish_task n (change_tui (\<lambda>s. clamp_state_scroll h (replace_snapshot s snapshot)) d))" (is "rows_ok ?e")
    by (rule rows_quiet_end [OF assms(1,2)]) (use awaiting_settled [OF assms] in \<open>simp_all add: replace_rows\<close>)
  moreover from this have "rows_ok (change_tui (\<lambda>s. remove_pending_start s l) ?e)"
    by (rule rows_tui) (simp_all add: rows_shrunk remove_rows)
  ultimately show ?thesis by (simp add: caught_up_def Let_def split: option.split)
qed

lemma folder_operation: "folder_action label op answer = Some action \<Longrightarrow> operation_row op = None"
  by (cases op; cases answer) simp_all

lemma rows_event: "rows_ok d \<Longrightarrow> rows_ok (on_event h t ev a d)"
proof (cases a)
  case None
  then show "rows_ok d \<Longrightarrow> ?thesis" by (simp add: on_event_def rows_tui)
next
  case (Some r)
  assume ok: "rows_ok d"
  have shown: "rows_ok (change_tui (\<lambda>s. clamp_state_scroll h
      (add_toasts (replace_snapshot (connected_tui s) (ar_snapshot r)) notices t)) d)" (is "rows_ok (?e notices)") for notices
    using replace_rows(1) [of "connected_tui (db_tui d)"] by (intro rows_tui ok) (simp_all add: replace_rows(2))
  have "rows_ok (mark_local_failure t f e (mark_handled i (?e notices)))" for f e i notices
  proof (rule rows_shrink [OF shown [of notices]])
    show "rows_of (db_tui (mark_local_failure t f e (mark_handled i (?e notices)))) \<subseteq> rows_of (db_tui (?e notices))"
      using mark_local_rows(1) [of t f e "mark_handled i (?e notices)"] by (simp add: mark_handled_def)
    show "failed_of (db_tui (mark_local_failure t f e (mark_handled i (?e notices))))
      \<subseteq> set (db_timers (mark_local_failure t f e (mark_handled i (?e notices))))"
      using failed_timers [OF shown [of notices]] by (intro mark_local_rows(2)) (simp add: mark_handled_def)
  qed (simp_all add: mark_handled_def)
  with shown Some show ?thesis
    by (simp add: on_event_def Let_def split: option.split prod.split)
qed

lemma rows_refresh: "rows_ok d \<Longrightarrow> rows_ok (on_refresh_settled h t outcome d)"
proof -
  assume ok: "rows_ok d"
  have "rows_ok (change_tui (\<lambda>s. s\<lparr>ui_loading := False\<rparr>) (toast_error t e d))" for e
    by (rule rows_tui) (simp_all add: ok)
  with ok show ?thesis by (cases outcome) (simp_all add: rows_tui replace_rows snapshot_loaded_state_def)
qed

lemma rows_timer:
  assumes "rows_ok d"
  shows "rows_ok (change_tui (\<lambda>s. remove_create_row s l) (d\<lparr>db_timers := remove1 l (db_timers d)\<rparr>))"
proof (rule rows_shrink [OF assms])
  have "failed_of (remove_create_row (db_tui d) l) \<subseteq> set (db_timers d) - {l}"
    using failed_timers [OF assms] remove_rows(2) [of "db_tui d" l] by blast
  moreover have "set (db_timers d) - {l} \<subseteq> set (remove1 l (db_timers d))"
    using in_set_remove1 [of _ l "db_timers d"] by blast
  ultimately show "failed_of (db_tui (change_tui (\<lambda>s. remove_create_row s l) (d\<lparr>db_timers := remove1 l (db_timers d)\<rparr>)))
    \<subseteq> set (db_timers (change_tui (\<lambda>s. remove_create_row s l) (d\<lparr>db_timers := remove1 l (db_timers d)\<rparr>)))"
    by (simp del: image_subset_iff)
qed (simp_all add: rows_shrunk)

lemma rows_step: "dashboard_step d d' \<Longrightarrow> rows_ok d \<Longrightarrow> rows_ok d'"
proof (induction rule: dashboard_step.induct)
  case (start_load_throws d n op l p w b m nowMs label v)
  then show ?case using rows_end [of d n op AwaitSnapshot] awaiting_settled [of d n op l p w b m] by simp
next
  case (folder_answers d n op label answer action)
  then show ?case using folder_operation [of label op answer action] by (intro rows_quiet_end) auto
next
  case (add_loaded d n m snapshot)
  then show ?case by (simp add: project_added_def)
      (rule rows_quiet_end [where op = "AddProjectOp m" and ph = AwaitSnapshot]; simp add: replace_rows)
next
  case (subscription_error d nowMs e isConnectError alreadyReported)
  then show ?case by (simp add: on_subscription_error_def rows_tui)
qed (rule rows_key rows_go_on rows_throws rows_receipt rows_completion_failed rows_succeeded rows_caught_up rows_event
      rows_refresh rows_timer rows_tui rows_quiet_end [folded submit_failed_def]
    | assumption | simp add: submit_failed_def)+

lemma initial_rows: "initial_dashboard d \<Longrightarrow> rows_ok d"
  by (auto simp: initial_dashboard_def no_dashboard_def rows_ok_def initial_tui_state_def empty_local_rows_def pending_keys_def
      pending_rename_titles_def nullish_def)

lemma reachable_rows: "tui.reachable d \<Longrightarrow> rows_ok d"
  by (erule tui.invariant_reachable) (rule initial_rows rows_step; assumption)+

subsection \<open>The properties\<close>



subsection \<open>An agent that cannot be started\<close>

definition accepted_receipt :: command_receipt where
  "accepted_receipt = \<lparr>cr_commandId = ''c1'', cr_traceId = None, cr_spanId = None, cr_accepted = True,
     cr_status = CommandReceiptAccepted, cr_error = None\<rparr>"

definition start_pressed :: dashboard where
  "start_pressed = press_key plain_context (typed ''1'') (no_dashboard one_row_dashboard)"

definition start_prepared :: "dashboard \<Rightarrow> dashboard" where
  "start_prepared d = go_on 0 (AwaitReceipt (prepare_command (ui_runtime (db_tui d)) None
     (build_start_agent_command one_row one_project))) d"

definition start_accepted :: "dashboard \<Rightarrow> dashboard" where
  "start_accepted d = receipt_arrives 1 0 start_op (build_start_agent_command one_row one_project) accepted_receipt d"

definition no_agent :: safe_error where
  "no_agent = basic_error ''HarnessError'' ''LAUNCH_FAILED'' ''No agent.''"

definition start_fails :: "dashboard \<Rightarrow> dashboard" where
  "start_fails d = completion_failed 2 0 start_op ''c1'' no_agent d"

definition failed_to_start :: wosm_event where
  "failed_to_start = CommandFailed ''c1'' no_agent \<lparr>tr_traceId = None, tr_spanId = None\<rparr>"

definition failure_event :: "dashboard \<Rightarrow> dashboard" where
  "failure_event d = on_event plain_host 1 failed_to_start
     (Some (apply_wosm_event one_row_snapshot failed_to_start)) d"

abbreviation start_command :: wosm_command where
  "start_command \<equiv> build_start_agent_command one_row one_project"

lemma start_tasks:
  "task_is start_pressed 0 start_op AwaitPrepared"
  "task_is (start_prepared start_pressed) 0 start_op (AwaitReceipt start_command)"
  "task_is (start_accepted (start_prepared start_pressed)) 0 start_op (AwaitCompletion ''c1'')"
  "task_is (failure_event (start_prepared start_pressed)) 0 start_op (AwaitReceipt start_command)"
  "task_is (start_accepted (failure_event (start_prepared start_pressed))) 0 start_op (AwaitCompletion ''c1'')"
  by code_simp+

lemma start_command_op: "operation_command start_op = Some start_command" "is_command_op start_op"
  by (simp_all add: start_op_def)

lemma start_reachable: "tui.reachable (start_prepared start_pressed)"
proof -
  have "tui.reachable (no_dashboard one_row_dashboard)"
    by (rule tui.reachable_init) (unfold initial_dashboard_def one_row_dashboard_def, blast)
  then have "tui.reachable start_pressed" unfolding start_pressed_def by (rule tui.reachable_step) (rule key_pressed)
  then show ?thesis
    by (rule tui.reachable_step) (unfold start_prepared_def, rule prepared [OF start_tasks(1) start_command_op(1)])
qed

lemma start_fails_reachable:
  "tui.reachable d \<Longrightarrow> task_is d 0 start_op (AwaitReceipt start_command) \<Longrightarrow>
     task_is (start_accepted d) 0 start_op (AwaitCompletion ''c1'') \<Longrightarrow> tui.reachable (start_fails (start_accepted d))"
  unfolding start_fails_def
  by (rule tui.reachable_step [OF tui.reachable_step])
    (auto simp: start_accepted_def intro: receipt failed start_command_op(2))



text \<open>The event of the failure comes before the answer to the dispatch: it finds no row, and the failure is reported twice.\<close>

lemma failure_reported_twice:
  "\<exists>d. tui.reachable d \<and> count_list (db_reported d) ''c1'' = 2 \<and> db_unowned d = [''c1'']"
proof (intro exI conjI)
  have "tui.reachable (failure_event (start_prepared start_pressed))"
    unfolding failure_event_def
    by (rule tui.reachable_step [OF start_reachable]) (use event [where base = "Some one_row_snapshot"] in simp)
  then show "tui.reachable (start_fails (start_accepted (failure_event (start_prepared start_pressed))))"
    by (rule start_fails_reachable [OF _ start_tasks(4,5)])
qed code_simp+

end
