(* ===== verification/SessionCleanup.thy ===== *)
theory SessionCleanup
  imports SessionCommands
begin

section \<open>Closing, removing and renaming (apps/observer/src/commands)\<close>

text \<open>
  The handlers that take something away: \<^verbatim>\<open>session/close.ts\<close>, \<^verbatim>\<open>session/remove.ts\<close>, \<^verbatim>\<open>worktree/remove.ts\<close>,
  \<^verbatim>\<open>terminal.ts\<close> with the guards, steps and events of \<^verbatim>\<open>cleanup\<close>, and \<^verbatim>\<open>session/rename.ts\<close>. They read the
  snapshot once, refuse what needs force, stop the agent, close its terminal, remove the worktree, and
  reconcile. A handler submits one terminal intent at most; \<open>receipts\<close> are those of the intents
  submitted before.
\<close>

subsection \<open>Surroundings\<close>

text \<open>
  What these handlers ask for beyond a session's surroundings: a harness provider's \<^verbatim>\<open>stop\<close>, if it has
  one, \<^verbatim>\<open>removeWorktree\<close> with what it says of \<^verbatim>\<open>removed\<close>, and \<^verbatim>\<open>renameSession\<close>, whether it found the session.
\<close>

record cleanup_env =
  ce_session :: session_env
  ce_stop :: "provider_id \<Rightarrow> (harness_run_id \<Rightarrow> session_id option \<Rightarrow> bool \<Rightarrow> nat \<Rightarrow> unit attempt) option"
  ce_remove :: "project_id \<Rightarrow> worktree_id \<Rightarrow> bool \<Rightarrow> nat \<Rightarrow> bool attempt"
  ce_rename :: "session_id \<Rightarrow> string \<Rightarrow> nat \<Rightarrow> thrown + bool"

abbreviation ce_runner :: "cleanup_env \<Rightarrow> intent_runner" where
  "ce_runner env \<equiv> sn_runner (ce_session env)"

abbreviation terminal_id :: "cleanup_env \<Rightarrow> provider_id" where
  "terminal_id env \<equiv> tm_id (rn_terminal (ce_runner env))"

definition is_forced :: "bool option \<Rightarrow> bool" where
  "is_forced force = (force = Some True)"

subsection \<open>Guards (cleanup/guards.ts)\<close>

definition agent_runs :: "agent_state option \<Rightarrow> bool" where
  "agent_runs st =
     (case st of
        None \<Rightarrow> False
      | Some s \<Rightarrow> s \<in> {AgentStarting, AgentIdle, AgentWorking, AgentNeedsAttention, AgentStuck, AgentUnknown})"

definition row_agent_state :: "worktree_row \<Rightarrow> agent_state option" where
  "row_agent_state row = map_option ag_state (row_agent row)"

definition row_session :: "worktree_row \<Rightarrow> session_id option" where
  "row_session row = Option.bind (row_agent row) ag_sessionId"

definition validation_error :: "string \<Rightarrow> string \<Rightarrow> string option \<Rightarrow> safe_error" where
  "validation_error code message hint =
     (basic_error ''CommandValidationError'' code message)\<lparr>se_hint := hint\<rparr>"

definition removal_refused :: "worktree_row \<Rightarrow> bool \<Rightarrow> safe_error option" where
  "removal_refused row force =
     (if wr_dirty (row_worktree row) = Some True \<and> \<not> force
      then Some ((validation_error ''WORKTREE_DIRTY_REQUIRES_FORCE''
             ''This worktree has uncommitted changes and cannot be removed without force.''
             (Some ''Review the worktree changes, or confirm the removal with force.''))
             \<lparr>se_projectId := Some (row_projectId row), se_worktreeId := Some (row_id row)\<rparr>)
      else if agent_runs (row_agent_state row) \<and> \<not> force
      then Some ((validation_error ''WORKTREE_AGENT_ACTIVE_REQUIRES_FORCE''
             ''This worktree has an active agent and cannot be removed without force.''
             (Some ''Close the agent first, or confirm the removal with force.''))
             \<lparr>se_projectId := Some (row_projectId row), se_worktreeId := Some (row_id row), se_sessionId := row_session row\<rparr>)
      else None)"

text \<open>The row's agent speaks for the session, where the row has one.\<close>

definition running_state :: "session_view option \<Rightarrow> worktree_row option \<Rightarrow> agent_state option" where
  "running_state session row =
     nullish_opt (Option.bind row row_agent_state) (map_option (os_value \<circ> sv_status) session)"

definition close_refused :: "session_view \<Rightarrow> worktree_row option \<Rightarrow> bool \<Rightarrow> safe_error option" where
  "close_refused session row force =
     (if \<not> agent_runs (running_state (Some session) row) \<or> force then None
      else Some ((validation_error ''SESSION_AGENT_ACTIVE_REQUIRES_FORCE''
             ''This session has an active agent and cannot be closed without force.''
             (Some ''Confirm the close operation with force to stop the active agent.''))
             \<lparr>se_projectId := Some (sv_projectId session), se_worktreeId := Some (sv_worktreeId session),
              se_sessionId := Some (sv_id session)\<rparr>))"

definition terminal_close_refused ::
  "worktree_row option \<Rightarrow> session_view option \<Rightarrow> bool \<Rightarrow> safe_error option" where
  "terminal_close_refused row session force =
     (if \<not> agent_runs (running_state session row) \<or> force then None
      else Some ((validation_error ''TERMINAL_CLOSE_AGENT_ACTIVE_REQUIRES_FORCE''
             ''This terminal hosts an active agent and cannot be closed without force.''
             (Some ''Confirm the close operation with force to stop or detach the active target.''))
             \<lparr>se_projectId := nullish_opt (map_option row_projectId row) (map_option sv_projectId session),
              se_worktreeId := nullish_opt (map_option row_id row) (map_option sv_worktreeId session),
              se_sessionId := nullish_opt (Option.bind row row_session) (map_option sv_id session)\<rparr>))"

definition assert_not :: "safe_error option \<Rightarrow> ('e, unit) action" where
  "assert_not refused = (case refused of None \<Rightarrow> give () | Some e \<Rightarrow> throw_error e)"

subsection \<open>What the snapshot knows (cleanup/resolve.ts)\<close>

definition session_missing :: "session_id \<Rightarrow> safe_error" where
  "session_missing sessionId =
     (validation_error ''SESSION_NOT_FOUND'' ''The requested session is not visible in the observer snapshot.''
        (Some ''Refresh the dashboard and retry.''))\<lparr>se_sessionId := Some sessionId\<rparr>"

definition snapshot_worktree_missing :: "worktree_id \<Rightarrow> project_id option \<Rightarrow> safe_error" where
  "snapshot_worktree_missing worktreeId projectId =
     (validation_error ''WORKTREE_NOT_FOUND'' ''The requested worktree is not visible in the observer snapshot.''
        (Some ''Refresh the dashboard and retry.''))\<lparr>se_worktreeId := Some worktreeId, se_projectId := projectId\<rparr>"

definition resolve_session :: "snapshot \<Rightarrow> session_id \<Rightarrow> ('e, session_view) action" where
  "resolve_session snapshot sessionId =
     (case find (\<lambda>s. sv_id s = sessionId) (ss_sessions snapshot) of
        Some session \<Rightarrow> give session | None \<Rightarrow> throw_error (session_missing sessionId))"

definition resolve_row_for_session :: "snapshot \<Rightarrow> session_view \<Rightarrow> worktree_row option" where
  "resolve_row_for_session snapshot session = find (\<lambda>r. row_id r = sv_worktreeId session) (ss_rows snapshot)"

definition resolve_row :: "snapshot \<Rightarrow> worktree_id \<Rightarrow> project_id option \<Rightarrow> ('e, worktree_row) action" where
  "resolve_row snapshot worktreeId projectId =
     (case find (\<lambda>r. row_id r = worktreeId) (ss_rows snapshot) of
        None \<Rightarrow> throw_error (snapshot_worktree_missing worktreeId projectId)
      | Some row \<Rightarrow>
          if projectId \<noteq> None \<and> Some (row_projectId row) \<noteq> projectId
          then throw_error ((validation_error ''WORKTREE_PROJECT_MISMATCH''
            ''The requested worktree belongs to a different configured project.'' None)
            \<lparr>se_projectId := projectId, se_worktreeId := Some worktreeId\<rparr>)
          else give row)"

subsection \<open>Terminal intents of commands (terminalIntents.ts)\<close>

definition terminal_closeable :: "terminal_attachment option \<Rightarrow> bool" where
  "terminal_closeable terminal =
     (case terminal of
        None \<Rightarrow> False
      | Some t \<Rightarrow> ta_closeable t = Some True \<or> ta_state t \<in> {TermOpen, TermDetached, TermUnknown, TermStale})"

definition has_closeable_terminal :: "session_view option \<Rightarrow> worktree_row option \<Rightarrow> bool" where
  "has_closeable_terminal session row =
     (terminal_closeable (map_option sv_terminal session) \<or> terminal_closeable (Option.bind row row_terminal))"

definition subject_for_session :: "session_view \<Rightarrow> worktree_row option \<Rightarrow> intent_subject" where
  "subject_for_session session row =
     \<lparr>sj_projectId = Some (nullish (map_option row_projectId row) (sv_projectId session)),
      sj_worktreeId = Some (nullish (map_option row_id row) (sv_worktreeId session)),
      sj_sessionId = Some (sv_id session)\<rparr>"

definition subject_for_worktree :: "worktree_row \<Rightarrow> intent_subject" where
  "subject_for_worktree row =
     \<lparr>sj_projectId = Some (row_projectId row), sj_worktreeId = Some (row_id row), sj_sessionId = row_session row\<rparr>"

definition subject_from_references ::
  "snapshot \<Rightarrow> session_id option \<Rightarrow> worktree_id option \<Rightarrow> ('e, intent_subject) action" where
  "subject_from_references snapshot sessionId worktreeId =
     (case sessionId of
        Some i \<Rightarrow>
          (case find (\<lambda>s. sv_id s = i) (ss_sessions snapshot) of
             Some session \<Rightarrow> give (subject_for_session session (resolve_row_for_session snapshot session))
           | None \<Rightarrow> give \<lparr>sj_projectId = None, sj_worktreeId = worktreeId, sj_sessionId = Some i\<rparr>)
      | None \<Rightarrow>
          (case worktreeId of
             Some w \<Rightarrow>
               (case find (\<lambda>r. row_id r = w) (ss_rows snapshot) of
                  Some row \<Rightarrow> give (subject_for_worktree row)
                | None \<Rightarrow> give \<lparr>sj_projectId = None, sj_worktreeId = Some w, sj_sessionId = None\<rparr>)
           | None \<Rightarrow> throw_error (validation_error ''TERMINAL_INTENT_SUBJECT_MISSING''
               ''Terminal commands require a session or worktree reference.'' None)))"

definition target_intent_for :: "cleanup_env \<Rightarrow> handler_context \<Rightarrow> intent_subject \<Rightarrow> target_intent" where
  "target_intent_for env c subject =
     \<lparr>ti_commandId = hc_commandId c, ti_terminalProvider = terminal_id env, ti_subject = subject\<rparr>"

definition close_intent :: "cleanup_env \<Rightarrow> handler_context \<Rightarrow> intent_subject \<Rightarrow> bool \<Rightarrow> terminal_intent" where
  "close_intent env c subject force =
     TerminalCloseIntent (target_intent_for env c subject) (if force then Some True else None)"

definition submit_intent_or_throw ::
  "cleanup_env \<Rightarrow> handler_context \<Rightarrow> submitted \<Rightarrow> terminal_intent \<Rightarrow> (provider_event, intent_receipt) action" where
  "submit_intent_or_throw env c receipts intent =
     receipt_or_throw (\<lambda>w. case submit_intent (ce_runner env) (handler_runtime c) intent receipts w of
       ((r, receipts'), w') \<Rightarrow> (r, w'))"

subsection \<open>Steps (cleanup/operations.ts)\<close>

definition stop_error ::
  "string \<Rightarrow> string \<Rightarrow> provider_id \<Rightarrow> worktree_id \<Rightarrow> session_id option \<Rightarrow> safe_error" where
  "stop_error code message provider worktreeId sessionId =
     (basic_error ''HarnessProviderError'' code message)
       \<lparr>se_provider := Some provider, se_worktreeId := Some worktreeId, se_sessionId := sessionId\<rparr>"

definition stop_harness_run ::
  "cleanup_env \<Rightarrow> handler_context \<Rightarrow> provider_id \<Rightarrow> harness_run_id option \<Rightarrow> session_id option \<Rightarrow> worktree_id \<Rightarrow>
     bool \<Rightarrow> bool \<Rightarrow> (provider_event, unit) action" where
  "stop_harness_run env c provider runId sessionId worktreeId force allowUnsupportedStop =
     (case runId of
        None \<Rightarrow> throw_error (stop_error ''HARNESS_RUN_MISSING''
          ''The active harness run could not be resolved for cleanup.'' provider worktreeId sessionId)
      | Some run \<Rightarrow>
          (case ce_stop env provider of
             None \<Rightarrow>
               if allowUnsupportedStop then give ()
               else throw_error (stop_error ''HARNESS_STOP_UNSUPPORTED''
                 ''The harness provider cannot stop runs.'' provider worktreeId sessionId)
           | Some stop \<Rightarrow>
               run_provider_mutation (handler_runtime c)
                 (error_with ''HarnessProviderError'' ''HARNESS_STOP_FAILED''
                   ''The harness provider failed to stop the run.'' (Some provider))
                 (Some (error_with ''TimeoutError'' ''HARNESS_STOP_TIMEOUT''
                   ''The harness provider timed out while stopping the run.'' (Some provider)))
                 (ask (stop run sessionId force) (StoppedRun provider run sessionId force))))"

definition stop_harness_for_worktree ::
  "cleanup_env \<Rightarrow> handler_context \<Rightarrow> worktree_row \<Rightarrow> bool \<Rightarrow> bool \<Rightarrow> (provider_event, unit) action" where
  "stop_harness_for_worktree env c row force allowUnsupportedStop =
     (case row_agent row of
        None \<Rightarrow> give ()
      | Some agent \<Rightarrow>
          if \<not> agent_runs (Some (ag_state agent)) then give ()
          else and_then (resolve_harness_provider (ce_session env) (ag_harness agent)) (\<lambda>_.
            stop_harness_run env c (ag_harness agent) (ag_runId agent) (ag_sessionId agent) (row_id row)
              force allowUnsupportedStop))"

definition stop_harness_for_session ::
  "cleanup_env \<Rightarrow> handler_context \<Rightarrow> session_view \<Rightarrow> worktree_row option \<Rightarrow> bool \<Rightarrow> bool \<Rightarrow>
     (provider_event, unit) action" where
  "stop_harness_for_session env c session row force allowUnsupportedStop =
     (if \<not> agent_runs (running_state (Some session) row) then give ()
      else
        let agent = Option.bind row row_agent;
            provider = nullish (map_option ag_harness agent) (sh_provider (sv_harness session));
            runId = nullish_opt (Option.bind agent ag_runId) (sh_runId (sv_harness session))
        in and_then (resolve_harness_provider (ce_session env) provider) (\<lambda>_.
           stop_harness_run env c provider runId (Some (sv_id session)) (sv_worktreeId session)
             force allowUnsupportedStop))"

definition terminal_target_missing :: "cleanup_env \<Rightarrow> session_view \<Rightarrow> safe_error" where
  "terminal_target_missing env session =
     (basic_error ''TerminalProviderError'' ''TERMINAL_TARGET_MISSING'' ''No terminal is open for this session.'')
       \<lparr>se_hint := Some ''Refresh the dashboard and retry.'', se_provider := Some (terminal_id env),
        se_sessionId := Some (sv_id session), se_worktreeId := Some (sv_worktreeId session)\<rparr>"

definition close_session_resources ::
  "cleanup_env \<Rightarrow> handler_context \<Rightarrow> submitted \<Rightarrow> session_view \<Rightarrow> worktree_row option \<Rightarrow> close_mode \<Rightarrow> bool \<Rightarrow>
     bool \<Rightarrow> (provider_event, unit) action" where
  "close_session_resources env c receipts session row mode force requireTerminalClose =
     and_then (if mode = CloseHarness \<or> mode = CloseAll
         then stop_harness_for_session env c session row force
           (mode = CloseAll \<and> force \<and> has_closeable_terminal (Some session) row)
         else give ()) (\<lambda>_.
     and_then (throw_if_aborted (hc_signal c)) (\<lambda>_.
     if mode = CloseTerminal \<or> mode = CloseAll
     then if \<not> has_closeable_terminal (Some session) row
          then if \<not> requireTerminalClose then give () else throw_error (terminal_target_missing env session)
          else and_then (submit_intent_or_throw env c receipts
                 (close_intent env c (subject_for_session session row) force)) (\<lambda>_. give ())
     else give ()))"

definition close_terminal_for_worktree ::
  "cleanup_env \<Rightarrow> handler_context \<Rightarrow> submitted \<Rightarrow> worktree_row \<Rightarrow> bool \<Rightarrow> (provider_event, unit) action" where
  "close_terminal_for_worktree env c receipts row force =
     (if \<not> has_closeable_terminal None (Some row) then give ()
      else and_then (submit_intent_or_throw env c receipts
             (close_intent env c (subject_for_worktree row) force)) (\<lambda>_. give ()))"

definition remove_worktree_through_provider ::
  "cleanup_env \<Rightarrow> handler_context \<Rightarrow> worktree_row \<Rightarrow> bool \<Rightarrow> (provider_event, unit) action" where
  "remove_worktree_through_provider env c row force =
     (let provider = sn_worktreeProvider (ce_session env) in
      and_then (run_provider_mutation (handler_runtime c)
        (error_with ''WorktreeProviderError'' ''WORKTREE_REMOVE_FAILED''
          ''The worktree provider failed to remove the worktree.'' (Some provider))
        (Some (error_with ''TimeoutError'' ''WORKTREE_REMOVE_TIMEOUT''
          ''The worktree provider timed out while removing the worktree.'' (Some provider)))
        (ask (ce_remove env (row_projectId row) (row_id row) force)
          (RequestedRemoval (row_projectId row) (row_id row) force))) (\<lambda>removed.
      if removed then give ()
      else throw_error ((basic_error ''WorktreeProviderError'' ''WORKTREE_REMOVE_NOT_CONFIRMED''
        ''The worktree provider did not confirm removal.'')
        \<lparr>se_provider := Some provider, se_projectId := Some (row_projectId row),
         se_worktreeId := Some (row_id row)\<rparr>)))"

text \<open>Stop the agent, close the terminal, remove the worktree: what removing a worktree is made of.\<close>

definition take_worktree_down ::
  "cleanup_env \<Rightarrow> handler_context \<Rightarrow> submitted \<Rightarrow> worktree_row \<Rightarrow> bool \<Rightarrow> (provider_event, unit) action" where
  "take_worktree_down env c receipts row force =
     and_then (stop_harness_for_worktree env c row force (force \<and> has_closeable_terminal None (Some row))) (\<lambda>_.
     and_then (throw_if_aborted (hc_signal c)) (\<lambda>_.
     and_then (close_terminal_for_worktree env c receipts row force) (\<lambda>_.
     and_then (throw_if_aborted (hc_signal c)) (\<lambda>_.
     remove_worktree_through_provider env c row force))))"

subsection \<open>Events (cleanup/events.ts)\<close>

definition publish_recorded :: "cleanup_env \<Rightarrow> wosm_event \<Rightarrow> (provider_event, unit) action" where
  "publish_recorded env event =
     and_then (ask_throwing (sn_recordEvent (ce_session env) event) (RecordedEvent event)) (\<lambda>_.
     publish (ce_session env) event)"

definition publish_removed_session_if_absent ::
  "cleanup_env \<Rightarrow> session_id option \<Rightarrow> snapshot \<Rightarrow> (provider_event, unit) action" where
  "publish_removed_session_if_absent env previous nextSnapshot =
     (case previous of
        None \<Rightarrow> give ()
      | Some sessionId \<Rightarrow>
          if sessionId \<in> set (map sv_id (ss_sessions nextSnapshot)) then give ()
          else publish_recorded env (SessionRemoved sessionId))"

subsection \<open>The handlers\<close>

definition session_close ::
  "cleanup_env \<Rightarrow> handler_context \<Rightarrow> submitted \<Rightarrow> session_id \<Rightarrow> close_mode \<Rightarrow> bool option \<Rightarrow>
     (provider_event, unit) action" where
  "session_close env c receipts sessionId mode force =
     and_then (throw_if_aborted (hc_signal c)) (\<lambda>_.
     and_then (observe (sn_getSnapshot (ce_session env))) (\<lambda>snapshot.
     and_then (resolve_session snapshot sessionId) (\<lambda>session.
     let row = resolve_row_for_session snapshot session in
     and_then (assert_not (close_refused session row (is_forced force))) (\<lambda>_.
     and_then (close_session_resources env c receipts session row mode (is_forced force)
         (mode = CloseTerminal \<or> mode = CloseAll)) (\<lambda>_.
     and_then (throw_if_aborted (hc_signal c)) (\<lambda>_.
     and_then (reconcile_and_publish (ce_session env) c ''command:session.close'') (\<lambda>nextSnapshot.
     publish_removed_session_if_absent env (Some (sv_id session)) nextSnapshot)))))))"

definition session_remove ::
  "cleanup_env \<Rightarrow> handler_context \<Rightarrow> submitted \<Rightarrow> session_id \<Rightarrow> bool \<Rightarrow> bool option \<Rightarrow>
     (provider_event, unit) action" where
  "session_remove env c receipts sessionId removeWorktree force =
     and_then (throw_if_aborted (hc_signal c)) (\<lambda>_.
     and_then (observe (sn_getSnapshot (ce_session env))) (\<lambda>snapshot.
     and_then (resolve_session snapshot sessionId) (\<lambda>session.
     let row = resolve_row_for_session snapshot session in
     and_then (assert_not (close_refused session row (is_forced force))) (\<lambda>_.
     and_then (if \<not> removeWorktree then give ()
         else case row of
           None \<Rightarrow> throw_error (snapshot_worktree_missing (sv_worktreeId session) (Some (sv_projectId session)))
         | Some r \<Rightarrow> assert_not (removal_refused r (is_forced force))) (\<lambda>_.
     and_then (case (removeWorktree, row) of
         (True, Some r) \<Rightarrow> take_worktree_down env c receipts r (is_forced force)
       | _ \<Rightarrow> close_session_resources env c receipts session row CloseAll (is_forced force) False) (\<lambda>_.
     and_then (throw_if_aborted (hc_signal c)) (\<lambda>_.
     and_then (reconcile_and_publish (ce_session env) c ''command:session.remove'') (\<lambda>nextSnapshot.
     and_then (publish_removed_session_if_absent env (Some (sv_id session)) nextSnapshot) (\<lambda>_.
     case (removeWorktree, row) of
       (True, Some r) \<Rightarrow> publish_recorded env (WorktreeRemoved (row_id r))
     | _ \<Rightarrow> give ())))))))))"

definition worktree_remove ::
  "cleanup_env \<Rightarrow> handler_context \<Rightarrow> submitted \<Rightarrow> remove_worktree_payload \<Rightarrow> (provider_event, unit) action" where
  "worktree_remove env c receipts payload =
     and_then (throw_if_aborted (hc_signal c)) (\<lambda>_.
     and_then (observe (sn_getSnapshot (ce_session env))) (\<lambda>snapshot.
     and_then (resolve_row snapshot (rw_worktreeId payload) (rw_projectId payload)) (\<lambda>row.
     and_then (assert_not (removal_refused row (is_forced (rw_force payload)))) (\<lambda>_.
     and_then (take_worktree_down env c receipts row (is_forced (rw_force payload))) (\<lambda>_.
     and_then (throw_if_aborted (hc_signal c)) (\<lambda>_.
     and_then (reconcile_and_publish (ce_session env) c ''command:worktree.remove'') (\<lambda>nextSnapshot.
     and_then (publish_removed_session_if_absent env (row_session row) nextSnapshot) (\<lambda>_.
     publish_recorded env (WorktreeRemoved (row_id row))))))))))"

definition terminal_focus_command ::
  "cleanup_env \<Rightarrow> handler_context \<Rightarrow> submitted \<Rightarrow> terminal_focus_payload \<Rightarrow> (provider_event, unit) action" where
  "terminal_focus_command env c receipts payload =
     and_then (throw_if_aborted (hc_signal c)) (\<lambda>_.
     and_then (observe (sn_getSnapshot (ce_session env))) (\<lambda>snapshot.
     and_then (subject_from_references snapshot (tf_sessionId payload) (tf_worktreeId payload)) (\<lambda>subject.
     and_then (submit_intent_or_throw env c receipts
         (TerminalFocusIntent (target_intent_for env c subject) (tf_origin payload))) (\<lambda>_.
     throw_if_aborted (hc_signal c)))))"

text \<open>Whose agent the guard asks about.\<close>

definition close_policy_subject ::
  "snapshot \<Rightarrow> terminal_close_payload \<Rightarrow> ('e, session_view option \<times> worktree_row option) action" where
  "close_policy_subject snapshot payload =
     (case tc_sessionId payload of
        Some i \<Rightarrow> and_then (resolve_session snapshot i) (\<lambda>session.
          give (Some session, resolve_row_for_session snapshot session))
      | None \<Rightarrow>
          (case tc_worktreeId payload of
             None \<Rightarrow> throw_error (validation_error ''TERMINAL_CLOSE_SUBJECT_MISSING''
               ''terminal.close requires a session or worktree reference.'' None)
           | Some w \<Rightarrow> and_then (resolve_row snapshot w None) (\<lambda>row.
               give (case row_session row of
                   None \<Rightarrow> None
                 | Some i \<Rightarrow> find (\<lambda>s. sv_id s = i) (ss_sessions snapshot), Some row))))"

definition terminal_close_command ::
  "cleanup_env \<Rightarrow> handler_context \<Rightarrow> submitted \<Rightarrow> terminal_close_payload \<Rightarrow> (provider_event, unit) action" where
  "terminal_close_command env c receipts payload =
     and_then (throw_if_aborted (hc_signal c)) (\<lambda>_.
     and_then (observe (sn_getSnapshot (ce_session env))) (\<lambda>snapshot.
     and_then (close_policy_subject snapshot payload) (\<lambda>resolved.
     and_then (assert_not (terminal_close_refused (snd resolved) (fst resolved) (is_forced (tc_force payload)))) (\<lambda>_.
     and_then (throw_if_aborted (hc_signal c)) (\<lambda>_.
     and_then (subject_from_references snapshot (tc_sessionId payload) (tc_worktreeId payload)) (\<lambda>subject.
     and_then (submit_intent_or_throw env c receipts
         (TerminalCloseIntent (target_intent_for env c subject) (tc_force payload))) (\<lambda>_.
     and_then (throw_if_aborted (hc_signal c)) (\<lambda>_.
     and_then (reconcile_and_publish (ce_session env) c ''command:terminal.close'') (\<lambda>nextSnapshot.
     publish_removed_session_if_absent env
       (nullish_opt (map_option sv_id (fst resolved)) (Option.bind (snd resolved) row_session)) nextSnapshot)))))))))"

definition rename_missing :: "session_id \<Rightarrow> safe_error" where
  "rename_missing sessionId =
     (validation_error ''SESSION_NOT_FOUND'' ''No current session matches the requested session id.''
        (Some ''Run wosm reconcile and retry with a current session id.''))\<lparr>se_sessionId := Some sessionId\<rparr>"

definition session_rename ::
  "cleanup_env \<Rightarrow> handler_context \<Rightarrow> session_id \<Rightarrow> string \<Rightarrow> (provider_event, unit) action" where
  "session_rename env c sessionId newTitle =
     and_then (throw_if_aborted (hc_signal c)) (\<lambda>_.
     let title = trim newTitle in
     if length title = 0
     then throw_error ((validation_error ''SESSION_TITLE_REQUIRED'' ''Session title cannot be empty.'' None)
       \<lparr>se_sessionId := Some sessionId\<rparr>)
     else
       and_then (observe (sn_getSnapshot (ce_session env))) (\<lambda>snapshot.
       if find (\<lambda>s. sv_id s = sessionId) (ss_sessions snapshot) = None
       then throw_error (rename_missing sessionId)
       else
         and_then (ask (ce_rename env sessionId title) (RenamedTitle sessionId title)) (\<lambda>r.
         and_then (settle r) (\<lambda>updated.
         if \<not> updated then throw_error (rename_missing sessionId)
         else
           and_then (throw_if_aborted (hc_signal c)) (\<lambda>_.
           and_then (reconcile_and_publish (ce_session env) c ''command:session.rename'') (\<lambda>_.
           publish_recorded env (SessionUpdated sessionId (empty_session_patch\<lparr>sp_title := Some title\<rparr>))))))))"

end
