(* ===== verification/SessionResume.thy ===== *)
theory SessionResume
  imports SessionCommands
begin

section \<open>Resuming an agent (apps/observer/src/commands/session/resumeAgent.ts)\<close>

text \<open>
  The handler that starts a lost agent again from a recovery handle: the worktree must have no agent that can still be
  reached, the handle must be of this worktree, and its harness must be able to resume. Feature flags and capabilities
  do not change while the observer runs.
\<close>

record resume_env =
  re_session :: session_env
  re_enabled :: bool
  re_canResume :: "provider_id \<Rightarrow> bool"
  re_getHandle :: "string \<Rightarrow> nat \<Rightarrow> thrown + recovery_handle option"
  re_listHandles :: "project_id \<Rightarrow> worktree_id \<Rightarrow> nat \<Rightarrow> thrown + recovery_handle list"

definition resume_validation_error ::
  "string \<Rightarrow> string \<Rightarrow> string option \<Rightarrow> project_id option \<Rightarrow> worktree_id option \<Rightarrow> session_id option \<Rightarrow> safe_error" where
  "resume_validation_error code message hint projectId worktreeId sessionId =
     (basic_error ''CommandValidationError'' code message)
       \<lparr>se_hint := hint, se_projectId := projectId, se_worktreeId := worktreeId, se_sessionId := sessionId\<rparr>"

definition terminal_is_stale_or_missing :: "worktree_row \<Rightarrow> bool" where
  "terminal_is_stale_or_missing row =
     (case row_terminal row of None \<Rightarrow> True | Some t \<Rightarrow> ta_state t = TermNone \<or> ta_state t = TermStale)"

definition assert_resume_allowed :: "worktree_row option \<Rightarrow> ('e, unit) action" where
  "assert_resume_allowed row =
     (case row of
        None \<Rightarrow> give ()
      | Some r \<Rightarrow>
          (case row_agent r of
             None \<Rightarrow> give ()
           | Some agent \<Rightarrow>
               if ag_state agent = AgentNone \<or> ag_state agent = AgentExited then give ()
               else if ag_state agent = AgentUnknown \<and> terminal_is_stale_or_missing r then give ()
               else throw_error ((basic_error ''CommandValidationError'' ''SESSION_ALREADY_HAS_AGENT''
                 ''This worktree already has a primary agent session.'')
                 \<lparr>se_hint := Some ''Focus the existing agent or close it before resuming an agent.'',
                  se_worktreeId := Some (row_id r), se_sessionId := ag_sessionId agent\<rparr>)))"

definition handle_is_actionable :: "resume_env \<Rightarrow> recovery_handle \<Rightarrow> bool" where
  "handle_is_actionable env handle =
     (map_of (rn_harnesses (sn_runner (re_session env))) (rh_provider handle) \<noteq> None \<and>
      re_canResume env (rh_provider handle))"

definition resolve_recovery_handle ::
  "resume_env \<Rightarrow> project_id \<Rightarrow> worktree_id \<Rightarrow> string option \<Rightarrow> ('e, recovery_handle) action" where
  "resolve_recovery_handle env projectId worktreeId recoveryHandleId =
     (let refuse = (\<lambda>code message hint.
          throw_error (resume_validation_error code message hint (Some projectId) (Some worktreeId) None)) in
      case recoveryHandleId of
        Some i \<Rightarrow>
          and_then (observe (re_getHandle env i)) (\<lambda>r.
          and_then (settle r) (\<lambda>found.
          case found of
            None \<Rightarrow> refuse ''SESSION_RECOVERY_HANDLE_NOT_FOUND'' ''The requested recovery handle is not available.'' None
          | Some handle \<Rightarrow>
              if rh_projectId handle \<noteq> projectId \<or> rh_worktreeId handle \<noteq> worktreeId
              then refuse ''SESSION_RECOVERY_HANDLE_MISMATCH''
                ''The requested recovery handle belongs to a different worktree.'' None
              else give handle))
      | None \<Rightarrow>
          and_then (observe (re_listHandles env projectId worktreeId)) (\<lambda>r.
          and_then (settle r) (\<lambda>listed.
          case filter (handle_is_actionable env) listed of
            [handle] \<Rightarrow> give handle
          | [] \<Rightarrow> refuse ''SESSION_RECOVERY_HANDLE_NOT_FOUND''
              ''No actionable recovery handle is available for this worktree.'' None
          | _ \<Rightarrow> refuse ''SESSION_RECOVERY_HANDLE_AMBIGUOUS''
              ''More than one recovery handle is available for this worktree.''
              (Some ''Select a specific recovery handle and retry.''))))"

definition assert_handle_matches_worktree :: "recovery_handle \<Rightarrow> worktree_observation \<Rightarrow> ('e, unit) action" where
  "assert_handle_matches_worktree handle worktree =
     (if (case rh_cwd handle of None \<Rightarrow> True | Some cwd \<Rightarrow> path_is_same_or_inside cwd (wo_path worktree)) then give ()
      else throw_error (resume_validation_error ''SESSION_RECOVERY_CWD_MISMATCH''
        ''The recovery handle was observed outside the requested worktree.'' None
        (Some (rh_projectId handle)) (Some (rh_worktreeId handle)) (rh_sessionId handle)))"

definition assert_harness_can_resume :: "resume_env \<Rightarrow> recovery_handle \<Rightarrow> ('e, unit) action" where
  "assert_harness_can_resume env handle =
     (if re_canResume env (rh_provider handle) then give ()
      else throw_error ((basic_error ''HarnessProviderError'' ''HARNESS_RESUME_UNSUPPORTED''
        ''The requested harness provider does not support agent resume.'')
        \<lparr>se_provider := Some (rh_provider handle), se_worktreeId := Some (rh_worktreeId handle),
         se_sessionId := rh_sessionId handle\<rparr>))"

definition resume_agent_intent ::
  "handler_context \<Rightarrow> project_config \<Rightarrow> worktree_observation \<Rightarrow> session_id \<Rightarrow> provider_id \<Rightarrow>
     resume_agent_payload \<Rightarrow> recovery_handle \<Rightarrow> ensure_workspace_intent" where
  "resume_agent_intent c project worktree sessionId terminalProvider payload handle =
     (let terminal = re_terminal payload in
      \<lparr>ei_commandId = hc_commandId c, ei_terminalProvider = terminalProvider, ei_project = project,
       ei_worktree = worktree, ei_sessionId = sessionId,
       ei_harness = \<lparr>wh_provider = rh_provider handle, wh_mode = Some RunInteractive, wh_profile = None,
         wh_permissionMode = None, wh_approvalPolicy = None, wh_sandboxMode = None\<rparr>,
       ei_layout = nullish (map_option terminal_layout_name (Option.bind terminal to_opt_layout))
         (pd_layout (pc_defaults project)),
       ei_focus = Option.bind terminal to_opt_focus, ei_origin = Option.bind terminal to_opt_origin,
       ei_initialPrompt = re_initialPrompt payload,
       ei_resume = Some \<lparr>rs_target = rh_target handle, rs_previousSessionId = rh_sessionId handle,
         rs_recoveryHandleId = Some (rh_id handle)\<rparr>\<rparr>)"

text \<open>The session's id is drawn only when the handle names none.\<close>

definition session_resume_agent ::
  "resume_env \<Rightarrow> handler_context \<Rightarrow> submitted \<Rightarrow> resume_agent_payload \<Rightarrow> (provider_event, unit) action" where
  "session_resume_agent env c receipts payload =
     (let sn = re_session env in
      and_then (throw_if_aborted (hc_signal c)) (\<lambda>_.
      if \<not> re_enabled env
      then throw_error (resume_validation_error ''SESSION_RESUME_DISABLED'' ''Agent resume is disabled.''
        (Some ''Enable feature_flags.sessionResumeAgent and retry.'') None None None)
      else
      and_then (find_project sn (re_projectId payload)) (\<lambda>project.
      let terminalProvider = nullish (Option.bind (re_terminal payload) to_opt_provider)
          (pd_terminal (pc_defaults project)) in
      and_then (resolve_terminal_provider sn terminalProvider) (\<lambda>_.
      and_then (observe (sn_getSnapshot sn)) (\<lambda>snapshot.
      let row = find (\<lambda>r. row_id r = re_worktreeId payload) (ss_rows snapshot) in
      and_then (validate_snapshot_row row (re_projectId payload)) (\<lambda>_.
      and_then (assert_resume_allowed row) (\<lambda>_.
      and_then (case row of
          None \<Rightarrow> lookup_worktree sn c (re_projectId payload) (re_worktreeId payload)
        | Some r \<Rightarrow> and_then (observe (clock_of sn)) (\<lambda>now.
            give (worktree_observation_from_row r (sn_worktreeProvider sn) now))) (\<lambda>worktree.
      and_then (throw_if_aborted (hc_signal c)) (\<lambda>_.
      and_then (resolve_recovery_handle env (re_projectId payload) (re_worktreeId payload)
          (re_recoveryHandleId payload)) (\<lambda>handle.
      and_then (assert_handle_matches_worktree handle worktree) (\<lambda>_.
      and_then (resolve_harness_provider sn (rh_provider handle)) (\<lambda>_.
      and_then (assert_harness_can_resume env handle) (\<lambda>_.
      and_then (case rh_sessionId handle of Some i \<Rightarrow> give i | None \<Rightarrow> observe (sn_newSessionId sn)) (\<lambda>sessionId.
      and_then (seed_session_title sn sessionId (wo_branch worktree)) (\<lambda>_.
      and_then (throw_if_aborted (hc_signal c)) (\<lambda>_.
      and_then (receipt_or_throw (submit_workspace (sn_runner sn) (handler_runtime c) receipts
          (resume_agent_intent c project worktree sessionId terminalProvider payload handle))) (\<lambda>_.
      and_then (throw_if_aborted (hc_signal c)) (\<lambda>_.
      and_then (reconcile_and_publish sn c ''command:session.resumeAgent'') (\<lambda>nextSnapshot.
      and_then (publish_session_created sn nextSnapshot sessionId) (\<lambda>_. give ()))))))))))))))))))))"

end
