(* ===== verification/CommandRouter.thy ===== *)
theory CommandRouter
  imports SessionCleanup SessionResume
begin

section \<open>The handlers by command (apps/observer/src/commands/router.ts)\<close>

text \<open>
  Which handler serves which command. The functions that edit the configuration file answer as a function of the command
  and the time (\<^verbatim>\<open>project.ts\<close> reconciles after them). The commands without a handler are those the queue rejects.
\<close>

record router_env =
  ru_cleanup :: cleanup_env
  ru_resume :: resume_env
  ru_collator :: collator
  ru_editConfig :: "wosm_command \<Rightarrow> nat \<Rightarrow> thrown + unit"

abbreviation ru_session :: "router_env \<Rightarrow> session_env" where
  "ru_session env \<equiv> ce_session (ru_cleanup env)"

definition reconcile_command ::
  "session_env \<Rightarrow> handler_context \<Rightarrow> string option \<Rightarrow> (provider_event, unit) action" where
  "reconcile_command env c reason =
     and_then (reconcile_and_publish env c (nullish reason ''command'')) (\<lambda>_. give ())"

definition edit_project_command ::
  "router_env \<Rightarrow> handler_context \<Rightarrow> wosm_command \<Rightarrow> string \<Rightarrow> (provider_event, unit) action" where
  "edit_project_command env c m reason =
     and_then (observe (ru_editConfig env m)) (\<lambda>r.
     and_then (settle r) (\<lambda>_.
     and_then (reconcile_and_publish (ru_session env) c reason) (\<lambda>_. give ())))"

fun handler_of ::
  "router_env \<Rightarrow> handler_context \<Rightarrow> submitted \<Rightarrow> wosm_command \<Rightarrow> (provider_event, unit) action option" where
  "handler_of env c receipts (ObserverReconcile reason) = Some (reconcile_command (ru_session env) c reason)"
| "handler_of env c receipts (TerminalFocus p) = Some (terminal_focus_command (ru_cleanup env) c receipts p)"
| "handler_of env c receipts (TerminalClose p) = Some (terminal_close_command (ru_cleanup env) c receipts p)"
| "handler_of env c receipts (CreateSession p) = Some (session_create (ru_session env) c receipts p)"
| "handler_of env c receipts (StartAgent p) =
     Some (session_start_agent (ru_collator env) (ru_session env) c receipts p)"
| "handler_of env c receipts (ResumeAgent p) =
     Some (session_resume_agent ((ru_resume env)\<lparr>re_session := ru_session env\<rparr>) c receipts p)"
| "handler_of env c receipts (CloseSession s m f) = Some (session_close (ru_cleanup env) c receipts s m f)"
| "handler_of env c receipts (RemoveSession s w f) = Some (session_remove (ru_cleanup env) c receipts s w f)"
| "handler_of env c receipts (RenameSession s t) = Some (session_rename (ru_cleanup env) c s t)"
| "handler_of env c receipts (RemoveWorktree p) = Some (worktree_remove (ru_cleanup env) c receipts p)"
| "handler_of env c receipts (AddProject p i l a) =
     Some (edit_project_command env c (AddProject p i l a) ''command:project.add'')"
| "handler_of env c receipts (RemoveProject p) =
     Some (edit_project_command env c (RemoveProject p) ''command:project.remove'')"
| "handler_of env c receipts (CreateWorktree p) = None"
| "handler_of env c receipts (SendPrompt s t d) = None"
| "handler_of env c receipts (InstallHooks p) = None"

end
