(* ===== verification/ActionRecords.thy ===== *)
theory ActionRecords
  imports SessionProperties
begin

section \<open>What an action adds to the record\<close>

text \<open>
  \<open>leads m P\<close>: whenever \<open>m\<close> is run, what it returns and the calls it adds to the record satisfy \<open>P\<close>. The rules follow
  the ways actions are put together, so a handler is taken apart without its world.
\<close>

definition leads :: "('e, 'a) action \<Rightarrow> (thrown + 'a \<Rightarrow> 'e list \<Rightarrow> bool) \<Rightarrow> bool" where
  "leads m P = (\<forall>w. wp m (\<lambda>r w'. \<exists>es. wd_events w' = wd_events w @ es \<and> P r es) w)"

lemma leadsI: "(\<And>w. wp m (\<lambda>r w'. \<exists>es. wd_events w' = wd_events w @ es \<and> P r es) w) \<Longrightarrow> leads m P"
  by (simp add: leads_def)

lemma leads_run: "leads m P \<Longrightarrow> m w = (r, w') \<Longrightarrow> \<exists>es. wd_events w' = wd_events w @ es \<and> P r es"
  unfolding leads_def by (blast dest: wpD)

lemma leads_mono: "leads m P \<Longrightarrow> (\<And>r es. P r es \<Longrightarrow> Q r es) \<Longrightarrow> leads m Q"
  unfolding leads_def by (blast intro: wp_mono)

lemma leads_and_then:
  assumes "leads m P" "\<And>v es. P (Inl v) es \<Longrightarrow> Q (Inl v) es"
    "\<And>x es. P (Inr x) es \<Longrightarrow> leads (f x) (\<lambda>r fs. Q r (es @ fs))"
  shows "leads (and_then m f) Q"
proof (rule leadsI)
  fix w
  show "wp (and_then m f) (\<lambda>r w'. \<exists>es. wd_events w' = wd_events w @ es \<and> Q r es) w"
    unfolding wp_and_then
  proof (rule wp_mono [OF assms(1) [unfolded leads_def, rule_format]])
    fix r :: "thrown + 'b" and w' :: "'a world"
    assume "\<exists>es. wd_events w' = wd_events w @ es \<and> P r es"
    then obtain es where es: "wd_events w' = wd_events w @ es" "P r es" by blast
    show "(case r of Inl v \<Rightarrow> \<lambda>w'. \<exists>es. wd_events w' = wd_events w @ es \<and> Q (Inl v) es
        | Inr x \<Rightarrow> wp (f x) (\<lambda>r w'. \<exists>es. wd_events w' = wd_events w @ es \<and> Q r es)) w'"
    proof (cases r)
      case (Inl v)
      with es assms(2) show ?thesis by auto
    next
      case (Inr x)
      with es(2) have "leads (f x) (\<lambda>r fs. Q r (es @ fs))" by (auto intro: assms(3))
      then have "wp (f x) (\<lambda>r w''. \<exists>fs. wd_events w'' = wd_events w' @ fs \<and> Q r (es @ fs)) w'" by (simp add: leads_def)
      then show ?thesis unfolding Inr sum.case by (rule wp_mono) (use es(1) in auto)
    qed
  qed
qed

lemma leads_simps [simp]:
  "leads (give x) P \<longleftrightarrow> P (Inr x) []" "leads (throw v) P \<longleftrightarrow> P (Inl v) []"
  "leads (throw_error e) P \<longleftrightarrow> P (Inl (ThrownObject e None)) []" "leads (settle s) P \<longleftrightarrow> P s []"
  by (auto simp: leads_def wp_rules intro: exI [of _ "\<lparr>wd_time = 0, wd_events = []\<rparr>"])

lemma leads_observe: "(\<And>t. P (Inr (f t)) []) \<Longrightarrow> leads (observe f) P"
  by (simp add: leads_def wp_rules)

lemma leads_observe_then: "(\<And>t. leads (g (f t)) P) \<Longrightarrow> leads (and_then (observe f) g) P"
  by (rule leads_and_then [where P = "\<lambda>r es. es = [] \<and> (\<exists>t. r = Inr (f t))"]) (auto intro!: leads_observe)

lemma leads_ask: "(\<And>t. P (Inr (answer t)) [event (answer t)]) \<Longrightarrow> leads (ask answer event) P"
  by (simp add: leads_def wp_rules)

lemma leads_aborted: "(\<And>r. P r []) \<Longrightarrow> leads (throw_if_aborted signal) P"
  by (simp add: leads_def wp_rules split: option.split)

lemma leads_mutation:
  assumes "\<And>v. P (Inl v) []" "\<And>v a. P (Inl v) [event a]" "\<And>x. P (Inr x) [event (AttemptReturns x)]"
  shows "leads (run_provider_mutation rt failure timeoutFailure (ask answer event)) P"
  by (rule leadsI, rule wp_mutation) (use assms in auto)

lemma and_then_first [simp]:
  "and_then (give x) f = f x" "and_then (throw_error e) f = throw_error e"
  by (simp_all add: fun_eq_iff and_then_def give_def throw_error_def throw_def)

lemma wp_first: "leads m P \<Longrightarrow> wp m (\<lambda>r w'. \<exists>es. wd_events w' = wd_events w @ es \<and> P r es) w"
  by (simp add: leads_def)

lemma wp_rest:
  "leads m P \<Longrightarrow> wd_events w' = wd_events w \<Longrightarrow> wp m (\<lambda>r w''. \<exists>es. wd_events w'' = wd_events w @ es \<and> P r es) w'"
  by (drule wp_first [where w = w']) simp

text \<open>The same for the parts of a terminal intent.\<close>

lemma leads_throws: "(\<And>v. P (Inl v) []) \<Longrightarrow> P (Inr ()) [] \<Longrightarrow> leads (throw_if_present_aborted signal) P"
  by (simp add: throw_if_present_aborted_def leads_aborted leads_def wp_rules split: option.split)

lemma leads_log: "(\<And>v. P (Inl v) []) \<Longrightarrow> P (Inr ()) [] \<Longrightarrow> leads (write_log logger) P"
  by (rule leadsI, rule wp_write_log) auto

lemma leads_rejected:
  "(\<And>v. P (Inl v) []) \<Longrightarrow> (\<And>rc e. ir_error rc = Some e \<Longrightarrow> P (Inr rc) []) \<Longrightarrow> leads (rejected rn intent v failure) P"
  by (rule leadsI, rule wp_rejected) auto

lemma leads_accepted:
  "(\<And>v. P (Inl v) []) \<Longrightarrow> (\<And>rc. P (Inr rc) []) \<Longrightarrow> leads (accepted rn intent) P"
  by (rule leadsI, rule wp_accepted) auto

lemma leads_catching:
  assumes "leads m P" "\<And>x es. P (Inr x) es \<Longrightarrow> Q (Inr x) es"
    "\<And>v es. P (Inl v) es \<Longrightarrow> leads (h v) (\<lambda>r fs. Q r (es @ fs))"
  shows "leads (catching m h) Q"
proof (rule leadsI)
  fix w
  show "wp (catching m h) (\<lambda>r w'. \<exists>es. wd_events w' = wd_events w @ es \<and> Q r es) w"
    unfolding wp_catching
  proof (rule wp_mono [OF assms(1) [unfolded leads_def, rule_format]])
    fix r :: "thrown + 'b" and w' :: "'a world"
    assume "\<exists>es. wd_events w' = wd_events w @ es \<and> P r es"
    then obtain es where es: "wd_events w' = wd_events w @ es" "P r es" by blast
    show "(case r of Inl v \<Rightarrow> wp (h v) (\<lambda>r w'. \<exists>es. wd_events w' = wd_events w @ es \<and> Q r es)
        | Inr x \<Rightarrow> \<lambda>w'. \<exists>es. wd_events w' = wd_events w @ es \<and> Q (Inr x) es) w'"
    proof (cases r)
      case (Inr x)
      with es assms(2) show ?thesis by auto
    next
      case (Inl v)
      with es(2) have "leads (h v) (\<lambda>r fs. Q r (es @ fs))" by (auto intro: assms(3))
      then have "wp (h v) (\<lambda>r w''. \<exists>fs. wd_events w'' = wd_events w' @ fs \<and> Q r (es @ fs)) w'" by (simp add: leads_def)
      then show ?thesis unfolding Inl sum.case by (rule wp_mono) (use es(1) in auto)
    qed
  qed
qed

text \<open>Every call an action makes satisfies \<open>p\<close>.\<close>

lemma leads_all_then:
  "leads m (\<lambda>r. list_all p) \<Longrightarrow> (\<And>x. leads (f x) (\<lambda>r. list_all p)) \<Longrightarrow> leads (and_then m f) (\<lambda>r. list_all p)"
  by (rule leads_and_then [where P = "\<lambda>r. list_all p"]) (auto elim: leads_mono)

lemma leads_all_catching:
  "leads m (\<lambda>r. list_all p) \<Longrightarrow> (\<And>v. leads (h v) (\<lambda>r. list_all p)) \<Longrightarrow> leads (catching m h) (\<lambda>r. list_all p)"
  by (rule leads_catching [where P = "\<lambda>r. list_all p"]) (auto elim: leads_mono)

lemma branching_then: "branching m h f = and_then (catching (and_then m (\<lambda>x. give (Inr x))) (\<lambda>v. give (Inl v)))
    (\<lambda>r. case r of Inl v \<Rightarrow> h v | Inr x \<Rightarrow> f x)"
  by (auto simp: fun_eq_iff branching_def and_then_def catching_def give_def split: prod.split sum.split)

lemma leads_all_branching:
  assumes "leads m (\<lambda>r. list_all p)" "\<And>v. leads (h v) (\<lambda>r. list_all p)" "\<And>x. leads (f x) (\<lambda>r. list_all p)"
  shows "leads (branching m h f) (\<lambda>r. list_all p)"
  unfolding branching_then
  by (intro leads_all_then leads_all_catching) (auto intro: assms split: sum.split)

lemma leads_all_best_effort:
  assumes "leads m (\<lambda>r. list_all p)"
  shows "leads (best_effort logger m) (\<lambda>r. list_all p)"
  unfolding best_effort_def
  by (intro leads_all_catching leads_all_then) (auto intro: assms leads_log)

lemma leads_all_mutation:
  "(\<And>a. p (event a)) \<Longrightarrow> leads (run_provider_mutation rt failure timeoutFailure (ask answer event)) (\<lambda>r. list_all p)"
  by (rule leads_mutation) simp_all

lemmas leads_all = leads_all_then leads_all_catching leads_all_branching leads_all_best_effort leads_all_mutation

abbreviation submitting :: "intent_runner \<Rightarrow> mutation_runtime \<Rightarrow> terminal_intent \<Rightarrow> submitted \<Rightarrow> (provider_event, intent_receipt) action" where
  "submitting rn rt intent receipts \<equiv> (\<lambda>w. case submit_intent rn rt intent receipts w of ((r, receipts'), w') \<Rightarrow> (r, w'))"

lemma leads_submitting:
  assumes "leads (submit_parsed_intent rn rt intent) P"
    and "\<And>existing. map_of receipts (intent_key intent) = Some existing \<Longrightarrow> P existing []"
    and "\<And>v. P (Inl v) []" "\<And>rc e. ir_error rc = Some e \<Longrightarrow> P (Inr rc) []"
  shows "leads (submitting rn rt intent receipts) P"
proof (cases "valid_intent intent")
  case False
  then have "submitting rn rt intent receipts =
      rejected rn intent zod_error (error_with ''CommandValidationError'' ''TERMINAL_INTENT_INVALID''
        ''The terminal intent payload is invalid.'' None)"
    unfolding submit_intent_def if_P [OF False] by (simp add: fun_eq_iff split: prod.split)
  then show ?thesis by (simp add: leads_rejected assms(3,4))
next
  case valid: True
  show ?thesis
  proof (cases "map_of receipts (intent_key intent)")
    case None
    with valid have "submitting rn rt intent receipts = submit_parsed_intent rn rt intent"
      by (simp add: submit_intent_def fun_eq_iff split: prod.split)
    then show ?thesis by (simp add: assms(1))
  next
    case (Some existing)
    with valid have "submitting rn rt intent receipts = settle existing"
      by (simp add: submit_intent_def fun_eq_iff settle_def)
    then show ?thesis by (simp add: assms(2) Some)
  qed
qed

lemma leads_all_ask_throwing: "(\<And>x. p (event x)) \<Longrightarrow> leads (ask_throwing answer event) (\<lambda>r. list_all p)"
  unfolding ask_throwing_def by (auto intro!: leads_all leads_ask split: option.split)

subsection \<open>Calls of a workspace intent\<close>

fun serves :: "ensure_workspace_intent \<Rightarrow> provider_event \<Rightarrow> bool" where
  "serves i (OpenedWorkspace request a) =
     (ow_worktree request = ei_worktree i \<and> ow_sessionId request = Some (ei_sessionId i))"
| "serves i (BuiltLaunch h request a) =
     (lr_worktree request = ei_worktree i \<and> lr_sessionId request = Some (ei_sessionId i) \<and> lr_resume request = ei_resume i)"
| "serves i (LaunchedProcess request a) = (lq_worktree request = ei_worktree i)"
| "serves i (FocusedTarget t origin a) = True"
| "serves i (ClosedTarget t a) = True"
| "serves i e = False"

lemma leads_serves: "leads (ensure_agent_workspace rn rt i) (\<lambda>r. list_all (serves i))"
  unfolding ensure_agent_workspace_def Let_def open_workspace_def launch_in_workspace_def build_launch_def
    launch_harness_in_terminal_def focus_target_best_effort_def close_opened_target_best_effort_def
  by (auto intro!: leads_all leads_rejected leads_accepted leads_throws leads_observe
      simp: build_launch_request_def split: option.split)

lemma leads_serves_parsed: "leads (submit_parsed_intent rn rt (EnsureAgentWorkspace i)) (\<lambda>r. list_all (serves i))"
  unfolding submit_parsed_intent_def run_intent_def
  by (auto intro!: leads_all leads_rejected leads_log leads_throws leads_serves)

lemma leads_serves_workspace: "leads (submit_workspace rn rt receipts i) (\<lambda>r. list_all (serves i))"
  unfolding submit_workspace_def by (rule leads_submitting [OF leads_serves_parsed]) simp_all

text \<open>A handler checks the signal and reads the snapshot first.\<close>

lemma wp_reads:
  assumes "leads (f (snap (wd_time w + 1))) P" "\<And>v. P (Inl v) []"
  shows "wp (and_then (throw_if_aborted s) (\<lambda>_. and_then (observe snap) f)) (\<lambda>r w'. \<exists>es. wd_events w' = wd_events w @ es \<and> P r es) w"
  using assms(1) [unfolded leads_def, rule_format, of "tick (tick w)"] assms(2)
  by (auto simp: wp_rules split: option.split elim!: wp_mono)

end
