(* ===== verification/SessionCleanupProperties.thy ===== *)
theory SessionCleanupProperties
  imports CommandRouter ActionRecords
begin

section \<open>What closing and removing may take away\<close>

text \<open>
  What the clean-up commands promise: without force they leave a worktree that is dirty or whose agent
  runs, and a session whose agent runs, untouched; and a worktree is removed only after its agent was
  stopped and its terminal was closed.
\<close>

subsection \<open>What needs force\<close>

fun command_force :: "wosm_command \<Rightarrow> bool" where
  "command_force (CloseSession s m f) = is_forced f"
| "command_force (RemoveSession s w f) = is_forced f"
| "command_force (RemoveWorktree p) = is_forced (rw_force p)"
| "command_force (TerminalClose p) = is_forced (tc_force p)"
| "command_force m = False"

definition session_runs :: "snapshot \<Rightarrow> session_id \<Rightarrow> bool" where
  "session_runs snapshot i =
     (case find (\<lambda>s. sv_id s = i) (ss_sessions snapshot) of
        None \<Rightarrow> False
      | Some session \<Rightarrow> agent_runs (running_state (Some session) (resolve_row_for_session snapshot session)))"

definition row_in_use :: "snapshot \<Rightarrow> worktree_id \<Rightarrow> bool" where
  "row_in_use snapshot i =
     (case find (\<lambda>r. row_id r = i) (ss_rows snapshot) of
        None \<Rightarrow> False
      | Some row \<Rightarrow> wr_dirty (row_worktree row) = Some True \<or> agent_runs (row_agent_state row))"

definition row_runs :: "snapshot \<Rightarrow> worktree_id \<Rightarrow> bool" where
  "row_runs snapshot i =
     (case find (\<lambda>r. row_id r = i) (ss_rows snapshot) of None \<Rightarrow> False | Some row \<Rightarrow> agent_runs (row_agent_state row))"

text \<open>What a command would take away is in use.\<close>

fun takes_what_is_used :: "snapshot \<Rightarrow> wosm_command \<Rightarrow> bool" where
  "takes_what_is_used snapshot (CloseSession s m f) = session_runs snapshot s"
| "takes_what_is_used snapshot (RemoveSession s w f) =
     (session_runs snapshot s \<or> w \<and> (case find (\<lambda>x. sv_id x = s) (ss_sessions snapshot) of
        None \<Rightarrow> False | Some session \<Rightarrow> row_in_use snapshot (sv_worktreeId session)))"
| "takes_what_is_used snapshot (RemoveWorktree p) = row_in_use snapshot (rw_worktreeId p)"
| "takes_what_is_used snapshot (TerminalClose p) =
     (case tc_sessionId p of
        Some s \<Rightarrow> session_runs snapshot s
      | None \<Rightarrow> (case tc_worktreeId p of None \<Rightarrow> False | Some w \<Rightarrow> row_runs snapshot w))"
| "takes_what_is_used snapshot m = False"

lemma refused_simps:
  "removal_refused row False = None \<longleftrightarrow> wr_dirty (row_worktree row) \<noteq> Some True \<and> \<not> agent_runs (row_agent_state row)"
  "close_refused session row' False = None \<longleftrightarrow> \<not> agent_runs (running_state (Some session) row')"
  "terminal_close_refused row' session' False = None \<longleftrightarrow> \<not> agent_runs (running_state session' row')"
  by (simp_all add: removal_refused_def close_refused_def terminal_close_refused_def)

lemma wp_assert_not [wp_rules]:
  "wp (assert_not e) Q w = (case e of None \<Rightarrow> Q (Inr ()) w | Some e \<Rightarrow> Q (Inl (ThrownObject e None)) w)"
  by (simp add: assert_not_def wp_rules split: option.split)

lemma row_state_speaks: "row_agent_state row = Some st \<Longrightarrow> running_state session (Some row) = Some st"
  by (simp add: running_state_def nullish_opt_def)

lemma agent_runs_Some: "agent_runs x \<Longrightarrow> \<exists>st. x = Some st"
  by (cases x) (simp_all add: agent_runs_def)

text \<open>C35: Without force, closing or removing a session, removing a worktree and closing a terminal leave what is in use
  alone: where the agent runs, or the worktree to be removed has uncommitted changes, in the snapshot the command
  reads, the command fails before anything was called.\<close>

theorem unforced_commands_spare_what_is_used:
  assumes "handler_of env c receipts m = Some handler" "handler w = (r, w')"
    and "takes_what_is_used (sn_getSnapshot (ru_session env) (wd_time w + 1)) m" and "\<not> command_force m"
  shows "(\<exists>v. r = Inl v) \<and> wd_events w' = wd_events w"
proof -
  have "wp handler (\<lambda>r w'. (\<exists>v. r = Inl v) \<and> wd_events w' = wd_events w) w"
  proof (cases m)
    case (CloseSession s mode f)
    with assms(1,3,4) show ?thesis
      by (auto simp: session_close_def wp_rules resolve_session_def session_runs_def Let_def refused_simps
          split: option.splits)
  next
    case (RemoveSession s rm f)
    with assms(1,3,4) show ?thesis
      by (auto simp: session_remove_def wp_rules resolve_session_def session_runs_def row_in_use_def
          resolve_row_for_session_def Let_def refused_simps split: option.splits)
  next
    case (RemoveWorktree p)
    with assms(1,3,4) show ?thesis
      by (auto simp: worktree_remove_def wp_rules resolve_row_def row_in_use_def Let_def refused_simps
          split: option.splits)
  next
    case (TerminalClose p)
    with assms(1,3,4) show ?thesis
      using agent_runs_Some row_state_speaks
      by (fastforce simp: terminal_close_command_def close_policy_subject_def wp_rules resolve_session_def resolve_row_def
          session_runs_def row_runs_def Let_def refused_simps split: option.splits)
  qed (use assms(3) in simp_all)
  then show ?thesis using assms(2) by (auto dest: wpD)
qed

subsection \<open>A worktree goes last\<close>

fun is_removal :: "provider_event \<Rightarrow> bool" where
  "is_removal (RequestedRemoval p i f x) = True"
| "is_removal e = False"

abbreviation keeps_worktrees :: "provider_event list \<Rightarrow> bool" where
  "keeps_worktrees es \<equiv> list_all (\<lambda>e. \<not> is_removal e) es"

text \<open>What was done before the provider was asked to remove a row's worktree.\<close>

definition agent_stopped :: "cleanup_env \<Rightarrow> worktree_row \<Rightarrow> bool \<Rightarrow> provider_event list \<Rightarrow> bool" where
  "agent_stopped env row force es =
     (agent_runs (row_agent_state row) \<longrightarrow>
        (\<exists>agent run. row_agent row = Some agent \<and> ag_runId agent = Some run \<and>
           (StoppedRun (ag_harness agent) run (ag_sessionId agent) force (AttemptReturns ()) \<in> set es \<or>
            ce_stop env (ag_harness agent) = None \<and> force \<and> has_closeable_terminal None (Some row))))"

definition terminal_closed :: "worktree_row \<Rightarrow> provider_event list \<Rightarrow> bool" where
  "terminal_closed row es = (has_closeable_terminal None (Some row) \<longrightarrow> (\<exists>i. ClosedTarget i (AttemptReturns ()) \<in> set es))"

definition ready_to_go :: "cleanup_env \<Rightarrow> worktree_row \<Rightarrow> bool \<Rightarrow> provider_event list \<Rightarrow> bool" where
  "ready_to_go env row force es =
     ((\<not> force \<longrightarrow> wr_dirty (row_worktree row) \<noteq> Some True \<and> \<not> agent_runs (row_agent_state row)) \<and>
      agent_stopped env row force es \<and> terminal_closed row es)"

definition removals_ready :: "cleanup_env \<Rightarrow> snapshot \<Rightarrow> bool \<Rightarrow> provider_event list \<Rightarrow> bool" where
  "removals_ready env snapshot force es =
     (\<forall>before p i f x after. es = before @ RequestedRemoval p i f x # after \<longrightarrow>
        f = force \<and> (\<exists>row \<in> set (ss_rows snapshot). row_projectId row = p \<and> row_id row = i \<and> ready_to_go env row force before))"

lemma removals_readyI: "keeps_worktrees es \<Longrightarrow> removals_ready env snapshot force es"
  by (auto simp: removals_ready_def)

lemma removals_ready_append:
  assumes "removals_ready env snapshot force es" "keeps_worktrees fs"
  shows "removals_ready env snapshot force (es @ fs)"
  unfolding removals_ready_def
proof (intro allI impI)
  fix before p i f x after
  assume eq: "es @ fs = before @ RequestedRemoval p i f x # after"
  then consider us where "es = before @ RequestedRemoval p i f x # us" | us where "fs = us @ RequestedRemoval p i f x # after"
    by (fastforce simp: append_eq_append_conv2 append_eq_Cons_conv)
  then show "f = force \<and> (\<exists>row \<in> set (ss_rows snapshot). row_projectId row = p \<and> row_id row = i \<and> ready_to_go env row force before)"
    using assms unfolding removals_ready_def by cases (blast, auto)
qed

lemma removals_ready_last:
  assumes "keeps_worktrees es" "row \<in> set (ss_rows snapshot)" "ready_to_go env row force es"
  shows "removals_ready env snapshot force (es @ [RequestedRemoval (row_projectId row) (row_id row) force x])"
  unfolding removals_ready_def
proof (intro allI impI)
  fix before p i f y after
  assume "es @ [RequestedRemoval (row_projectId row) (row_id row) force x] = before @ RequestedRemoval p i f y # after"
  then have "before = es \<and> RequestedRemoval p i f y = RequestedRemoval (row_projectId row) (row_id row) force x"
    using assms(1) by (cases after rule: rev_cases) auto
  with assms(2,3) show "f = force \<and> (\<exists>row \<in> set (ss_rows snapshot). row_projectId row = p \<and> row_id row = i \<and>
      ready_to_go env row force before)" by auto
qed


subsection \<open>The steps\<close>

definition close_done :: "thrown + intent_receipt \<Rightarrow> provider_event list \<Rightarrow> bool" where
  "close_done r es \<longleftrightarrow> keeps_worktrees es \<and>
     (case r of Inl v \<Rightarrow> True
      | Inr rc \<Rightarrow> ir_error rc \<noteq> None \<or> (\<exists>t. ClosedTarget t (AttemptReturns ()) \<in> set es))"

lemma close_done_simps [simp]:
  "close_done (Inl v) es \<longleftrightarrow> keeps_worktrees es"
  "close_done (Inr rc) es \<longleftrightarrow> keeps_worktrees es \<and> (ir_error rc \<noteq> None \<or> (\<exists>t. ClosedTarget t (AttemptReturns ()) \<in> set es))"
  by (simp_all add: close_done_def)

lemma leads_close_target: "leads (close_terminal rn rt i f) close_done"
proof -
  have resolve: "leads (resolve_target_for_intent rn rt subject) (\<lambda>r es. keeps_worktrees es)" for subject
    unfolding resolve_target_for_intent_def
    by (rule leads_and_then [where P = "\<lambda>r es. keeps_worktrees es"]) (auto intro: leads_mutation split: sum.split)
  have act: "leads (and_then (resolve_target_for_intent rn rt subject) (\<lambda>target.
      and_then (run_provider_mutation rt failure tf (ask (answer target) (ClosedTarget (to_id target)))) (\<lambda>_. accepted rn intent)))
      close_done" for subject failure tf answer intent
    by (rule leads_and_then [OF resolve]; (rule leads_and_then
          [where P = "\<lambda>r es. keeps_worktrees es \<and> (\<forall>x. r = Inr x \<longrightarrow> (\<exists>t. ClosedTarget t (AttemptReturns ()) \<in> set es))"])?)
      (auto intro!: leads_mutation leads_accepted)
  show ?thesis unfolding close_terminal_def act_on_target_def
    by (auto intro!: leads_rejected leads_catching [OF act])
qed

lemma leads_close_parsed: "leads (submit_parsed_intent rn rt (TerminalCloseIntent i f)) close_done"
proof -
  have reject: "leads (and_then (rejected rn intent v failure) (\<lambda>receipt. and_then (write_log l) (\<lambda>_. give receipt)))
      (\<lambda>r fs. close_done r (es @ fs))" if "keeps_worktrees es" for intent v failure l es
    by (rule leads_and_then [where P = "\<lambda>r fs. fs = [] \<and> (\<forall>rc. r = Inr rc \<longrightarrow> ir_error rc \<noteq> None)"])
      (use that in \<open>auto intro!: leads_rejected leads_and_then [where P = "\<lambda>r es. es = []"] leads_log\<close>)
  have log: "leads (and_then (write_log l) (\<lambda>_. give rc)) (\<lambda>r fs. close_done r (es @ fs))" if "close_done (Inr rc) es" for l rc es
    by (rule leads_and_then [where P = "\<lambda>r es. es = []"]) (use that in \<open>auto intro: leads_log\<close>)
  have run: "leads (and_then (throw_if_present_aborted s) (\<lambda>_.
      and_then (run_intent rn rt (TerminalCloseIntent i f)) (\<lambda>receipt. and_then (write_log l) (\<lambda>_. give receipt)))) close_done" for s l
    by (rule leads_and_then [where P = "\<lambda>r es. es = []"])
      (auto simp: run_intent_def intro!: leads_throws leads_and_then [OF leads_close_target] log simp del: close_done_simps(2))
  show ?thesis unfolding submit_parsed_intent_def
    by (rule leads_and_then [where P = "\<lambda>r es. es = []"])
      (auto intro!: leads_log leads_catching [OF run] reject simp del: close_done_simps(2))
qed

lemma leads_close:
  assumes "map_of receipts (hc_commandId c @ '':terminal.close'') = None" "ti_commandId i = hc_commandId c"
  shows "leads (submit_intent_or_throw env c receipts (TerminalCloseIntent i f))
    (\<lambda>r es. keeps_worktrees es \<and> (\<forall>rc. r = Inr rc \<longrightarrow> (\<exists>t. ClosedTarget t (AttemptReturns ()) \<in> set es)))"
proof -
  have submit: "leads (submitting rn rt (TerminalCloseIntent i f) receipts) close_done" for rn rt
    by (rule leads_submitting [OF leads_close_parsed]) (use assms in \<open>auto simp: intent_key_def\<close>)
  show ?thesis unfolding submit_intent_or_throw_def receipt_or_throw_def
    by (rule leads_and_then [OF submit]) (auto split: option.split)
qed

abbreviation keeps :: "thrown + 'a \<Rightarrow> provider_event list \<Rightarrow> bool" where
  "keeps r es \<equiv> keeps_worktrees es"

lemma leads_keeps:
  "leads (publish env e) keeps" "leads (ask_throwing answer (RecordedEvent e)) keeps"
  "leads (reconcile_and_publish env c reason) keeps"
  by (auto simp: leads_def publish_def reconcile_and_publish_def wp_rules Let_def split: option.split sum.split)

lemma leads_publish_recorded: "leads (publish_recorded cenv e) keeps"
  unfolding publish_recorded_def
  by (rule leads_and_then [OF leads_keeps(2)]) (auto intro: leads_mono [OF leads_keeps(1)])

lemma leads_publish_removed: "leads (publish_removed_session_if_absent cenv previous next_snapshot) keeps"
  unfolding publish_removed_session_if_absent_def
  by (auto intro: leads_publish_recorded split: option.split)

lemma leads_stop:
  "leads (stop_harness_for_worktree env c row force (force \<and> has_closeable_terminal None (Some row)))
    (\<lambda>r es. keeps_worktrees es \<and> (\<forall>x. r = Inr x \<longrightarrow> agent_stopped env row force es))"
  unfolding stop_harness_for_worktree_def stop_harness_run_def resolve_harness_provider_def
  by (auto simp: agent_stopped_def row_agent_state_def agent_runs_def wp_rules
    intro!: leads_mutation leads_and_then [where P = "\<lambda>r es. es = []"] split: option.split)

lemma leads_close_worktree:
  assumes "map_of receipts (hc_commandId c @ '':terminal.close'') = None"
  shows "leads (close_terminal_for_worktree env c receipts row force)
    (\<lambda>r es. keeps_worktrees es \<and> (\<forall>x. r = Inr x \<longrightarrow> terminal_closed row es))"
  unfolding close_terminal_for_worktree_def close_intent_def
  by (auto simp: terminal_closed_def target_intent_for_def intro!: leads_and_then [OF leads_close] assms)

lemma leads_remove:
  assumes "row \<in> set (ss_rows snapshot)" "ready_to_go env row force es" "keeps_worktrees es"
  shows "leads (remove_worktree_through_provider env c row force) (\<lambda>r fs. removals_ready env snapshot force (es @ fs))"
  unfolding remove_worktree_through_provider_def Let_def
  by (rule leads_and_then [where P = "\<lambda>r fs. removals_ready env snapshot force (es @ fs)"])
    (auto intro!: leads_mutation removals_readyI removals_ready_last [OF assms(3,1,2)] assms(3))

lemma leads_take_down:
  assumes "map_of receipts (hc_commandId c @ '':terminal.close'') = None" "row \<in> set (ss_rows snapshot)"
    "removal_refused row force = None"
  shows "leads (take_worktree_down env c receipts row force) (\<lambda>r es. removals_ready env snapshot force es)"
proof -
  have aborted: "leads (throw_if_aborted s) (\<lambda>r es. es = [])" for s :: abort_signal
    by (rule leads_aborted) simp
  have free: "\<not> force \<longrightarrow> wr_dirty (row_worktree row) \<noteq> Some True \<and> \<not> agent_runs (row_agent_state row)"
    using assms(3) by (cases force) (simp_all add: refused_simps)
  show ?thesis
    unfolding take_worktree_down_def
    apply (rule leads_and_then [OF leads_stop])
     apply (simp add: removals_readyI)
    apply (rule leads_and_then [OF aborted])
     apply (simp add: removals_readyI)
    apply (rule leads_and_then [OF leads_close_worktree [OF assms(1)]])
     apply (simp add: removals_readyI)
    apply (rule leads_and_then [OF aborted])
     apply (simp add: removals_readyI)
    subgoal premises prems for x es y fs z gs u hs
      using prems leads_remove [of row snapshot env force "es @ gs" c, OF assms(2)] free
      by (auto simp: ready_to_go_def agent_stopped_def terminal_closed_def)
    done
qed

lemma leads_aborted_keeps: "leads (throw_if_aborted s) keeps"
  by (rule leads_aborted) simp

lemma leads_focus: "leads (submit_intent_or_throw env c receipts (TerminalFocusIntent i origin)) keeps"
proof -
  have resolve: "leads (resolve_target_for_intent rn rt subject) keeps" for rn rt subject
    unfolding resolve_target_for_intent_def
    by (rule leads_and_then [where P = keeps]) (auto intro: leads_mutation split: sum.split)
  have focus: "leads (focus_terminal rn rt i origin) keeps" for rn rt
    unfolding focus_terminal_def act_on_target_def
    by (auto intro!: leads_rejected leads_catching [where P = keeps] leads_all_then resolve leads_mutation leads_accepted)
  have parsed: "leads (submit_parsed_intent rn rt (TerminalFocusIntent i origin)) keeps" for rn rt
    unfolding submit_parsed_intent_def run_intent_def
    by (auto intro!: leads_all_then leads_catching [where P = keeps] leads_rejected leads_log leads_throws focus)
  have "leads (submitting rn rt (TerminalFocusIntent i origin) receipts) keeps" for rn rt
    by (rule leads_submitting [OF parsed]) simp_all
  then show ?thesis unfolding submit_intent_or_throw_def receipt_or_throw_def
    by (rule leads_all_then) (simp split: option.split)
qed

lemma leads_stop_session: "leads (stop_harness_for_session env c session row force allow) keeps"
  unfolding stop_harness_for_session_def stop_harness_run_def resolve_harness_provider_def Let_def
  by (auto intro!: leads_mutation leads_and_then [where P = "\<lambda>r es. es = []"] split: option.split)

lemma leads_session_resources:
  assumes "map_of receipts (hc_commandId c @ '':terminal.close'') = None"
  shows "leads (close_session_resources env c receipts session row mode force required) keeps"
proof -
  have close: "leads (and_then (submit_intent_or_throw env c receipts
      (close_intent env c (subject_for_session session row) force)) (\<lambda>_. give ())) keeps"
    unfolding close_intent_def
    by (auto simp: target_intent_for_def intro!: leads_and_then [OF leads_close] assms)
  show ?thesis unfolding close_session_resources_def
    by (intro leads_all_then leads_aborted_keeps) (auto intro: leads_stop_session close)
qed

text \<open>What follows a removal removes nothing more.\<close>

lemma leads_after:
  assumes "leads m (\<lambda>r es. removals_ready env snapshot force es)" "\<And>x. leads (f x) keeps"
  shows "leads (and_then m f) (\<lambda>r es. removals_ready env snapshot force es)"
  by (rule leads_and_then [OF assms(1)]) (auto intro: leads_mono [OF assms(2)] removals_ready_append)

lemma leads_ready: "leads m keeps \<Longrightarrow> leads m (\<lambda>r es. removals_ready env snapshot force es)"
  by (auto elim!: leads_mono intro: removals_readyI)

subsection \<open>The handlers\<close>

lemma wp_removals:
  assumes "map_of receipts (hc_commandId c @ '':terminal.close'') = None"
  shows "wp (worktree_remove env c receipts p) (\<lambda>r w'. \<exists>es. wd_events w' = wd_events w @ es \<and>
      removals_ready env (sn_getSnapshot (ce_session env) (wd_time w + 1)) (is_forced (rw_force p)) es) w"
    and "wp (session_remove env c receipts s rm f) (\<lambda>r w'. \<exists>es. wd_events w' = wd_events w @ es \<and>
      removals_ready env (sn_getSnapshot (ce_session env) (wd_time w + 1)) (is_forced f) es) w"
proof -
  note keeps = leads_publish_recorded leads_publish_removed leads_keeps leads_aborted_keeps leads_session_resources [OF assms]
  have find_in_set: "find P xs = Some x \<Longrightarrow> x \<in> set xs" for P xs and x :: worktree_row
    by (auto simp: find_Some_iff)
  show "wp (worktree_remove env c receipts p) (\<lambda>r w'. \<exists>es. wd_events w' = wd_events w @ es \<and>
      removals_ready env (sn_getSnapshot (ce_session env) (wd_time w + 1)) (is_forced (rw_force p)) es) w"
    unfolding worktree_remove_def Let_def
    by (intro wp_reads)
       (auto simp: resolve_row_def assert_not_def removals_readyI leads_ready dest: find_in_set
         intro!: leads_after leads_take_down [OF assms] keeps leads_all_then split: option.split)
  show "wp (session_remove env c receipts s rm f) (\<lambda>r w'. \<exists>es. wd_events w' = wd_events w @ es \<and>
      removals_ready env (sn_getSnapshot (ce_session env) (wd_time w + 1)) (is_forced f) es) w"
    unfolding session_remove_def Let_def
    by (intro wp_reads; cases rm) (auto simp: resolve_session_def resolve_row_for_session_def assert_not_def removals_readyI leads_ready
           leads_session_resources [OF assms, THEN leads_ready]
         dest: find_in_set intro!: leads_after leads_take_down [OF assms] keeps leads_all_then split: option.split)+
qed

lemma closing_keeps:
  assumes "map_of receipts (hc_commandId c @ '':terminal.close'') = None"
  shows "leads (session_close env c receipts s mode f) keeps" "leads (terminal_close_command env c receipts p) keeps"
    "leads (terminal_focus_command env c receipts q) keeps" "leads (session_rename env c s t) keeps"
proof -
  note keeps = leads_publish_recorded leads_publish_removed leads_keeps leads_aborted_keeps leads_session_resources [OF assms]
  have submit: "leads (submit_intent_or_throw env c receipts (TerminalCloseIntent (target_intent_for env c subject) x)) keeps"
    for subject x by (rule leads_mono [OF leads_close [OF assms]]) (auto simp: target_intent_for_def)
  show "leads (session_close env c receipts s mode f) keeps"
    unfolding session_close_def Let_def
    by (auto simp: resolve_session_def assert_not_def intro!: keeps leads_all_then leads_observe split: option.split)
  show "leads (terminal_close_command env c receipts p) keeps"
    unfolding terminal_close_command_def
    by (auto simp: close_policy_subject_def resolve_session_def resolve_row_def subject_from_references_def assert_not_def
        intro!: keeps submit leads_all_then leads_observe split: option.split)
  show "leads (terminal_focus_command env c receipts q) keeps"
    unfolding terminal_focus_command_def
    by (auto simp: subject_from_references_def intro!: keeps leads_focus leads_all_then leads_observe split: option.split)
  show "leads (session_rename env c s t) keeps"
    unfolding session_rename_def Let_def
    by (auto intro!: keeps leads_all_then leads_observe leads_ask)
qed

lemma starting_keeps:
  "leads (session_create env c receipts p) keeps" "leads (session_start_agent lc env c receipts q) keeps"
  "leads (session_resume_agent renv c receipts u) keeps"
proof -
  have "serves i e \<Longrightarrow> \<not> is_removal e" for i e by (cases e) auto
  then have workspace: "leads (submit_workspace rn rt receipts i) keeps" for rn rt i
    by (auto intro!: leads_mono [OF leads_serves_workspace] elim!: list.pred_mono_strong)
  note steps = workspace leads_all leads_all_ask_throwing leads_aborted_keeps leads_observe leads_ask leads_log leads_keeps
  note defs = seed_session_title_def receipt_or_throw_def publish_session_created_def find_project_def
    resolve_terminal_provider_def resolve_harness_provider_def validate_snapshot_row_def lookup_worktree_def
  show "leads (session_create env c receipts p) keeps"
    unfolding session_create_def create_worktree_def start_session_def clean_up_session_def remove_worktree_best_effort_def
      delete_session_title_seed_best_effort_def defs
    by (auto intro!: steps split: option.split sum.split)
  show "leads (session_start_agent lc env c receipts q) keeps"
    unfolding session_start_agent_def start_session_def clean_up_session_def assert_no_current_agent_def Let_def
      delete_session_title_seed_best_effort_def remembered_harness_provider_for_worktree_def defs
    by (auto intro!: steps split: option.split sum.split)
  show "leads (session_resume_agent renv c receipts u) keeps"
    unfolding session_resume_agent_def assert_resume_allowed_def resolve_recovery_handle_def Let_def
      assert_handle_matches_worktree_def assert_harness_can_resume_def defs
    by (auto intro!: steps split: option.split list.split)
qed

lemma other_handlers_keep:
  assumes "handler_of env c receipts m = Some handler" "map_of receipts (hc_commandId c @ '':terminal.close'') = None"
    and "\<And>p. m \<noteq> RemoveWorktree p" "\<And>s rm f. m \<noteq> RemoveSession s rm f"
  shows "leads handler keeps"
  using assms(1,3,4)
  by (cases m) (auto simp: reconcile_command_def edit_project_command_def
      intro!: closing_keeps [OF assms(2)] starting_keeps leads_keeps leads_all_then leads_observe)


subsection \<open>A worktree to remove\<close>

definition busy_row :: worktree_row where
  "busy_row =
     \<lparr>row_id = ''wt'', row_projectId = ''web'', row_projectLabel = ''Web'', row_branch = ''b'', row_path = ''/p'',
      row_worktree = \<lparr>wr_state = WtExists, wr_source = FromWorktrunk, wr_dirty = Some False, wr_ahead = None,
        wr_behind = None, wr_pr = None, wr_changeSummary = None, wr_checks = None\<rparr>,
      row_terminal = None,
      row_agent = Some \<lparr>ag_harness = ''codex'', ag_state = AgentWorking, ag_pid = None, ag_runId = Some ''run'',
        ag_sessionId = Some ''ses'', ag_confidence = High, ag_reason = ''seen'', ag_updatedAt = ''2024-01-01T00:00:00Z''\<rparr>,
      row_recovery = None,
      row_display = \<lparr>rd_statusLabel = LabelWorking, rd_sortPriority = 0, rd_alert = False, rd_warning = None,
        rd_reason = None\<rparr>\<rparr>"

definition busy_snapshot :: snapshot where
  "busy_snapshot =
     \<lparr>ss_generatedAt = ''2024-01-01T00:00:00Z'',
      ss_observer = \<lparr>oi_pid = 1, oi_startedAt = ''2024-01-01T00:00:00Z'', oi_version = ''1'', oi_healthy = True\<rparr>,
      ss_providerHealth = [], ss_harnesses = None, ss_projects = [], ss_rows = [busy_row], ss_sessions = [],
      ss_countProjects = 1,
      ss_counts = \<lparr>rc_worktrees = 1, rc_agents = 1, rc_working = 1, rc_idle = 0, rc_attention = 0, rc_unknown = 0\<rparr>,
      ss_alerts = [], ss_featureFlags = None, ss_orphans = None\<rparr>"

definition cleanup_sample :: cleanup_env where
  "cleanup_sample =
     \<lparr>ce_session = (sample_env True)\<lparr>sn_getSnapshot := \<lambda>_. busy_snapshot\<rparr>,
      ce_stop = (\<lambda>_. Some (\<lambda>_ _ _ _. AttemptReturns ())), ce_remove = (\<lambda>_ _ _ _. AttemptReturns True),
      ce_rename = (\<lambda>_ _ _. Inr True)\<rparr>"

definition router_sample :: router_env where
  "router_sample =
     \<lparr>ru_cleanup = cleanup_sample,
      ru_resume = \<lparr>re_session = ce_session cleanup_sample, re_enabled = False, re_canResume = (\<lambda>_. False),
        re_getHandle = (\<lambda>_ _. Inr None), re_listHandles = (\<lambda>_ _ _. Inr [])\<rparr>,
      ru_collator = code_unit_compare, ru_editConfig = (\<lambda>_ _. Inr ())\<rparr>"

definition removal_sample :: "bool \<Rightarrow> wosm_command" where
  "removal_sample force = RemoveWorktree \<lparr>rw_worktreeId = ''wt'', rw_projectId = None, rw_force = Some force\<rparr>"

definition sample_removal :: "bool \<Rightarrow> (thrown + unit) \<times> provider_event world" where
  "sample_removal force = the (handler_of router_sample sample_context [] (removal_sample force)) new_world"

lemma sample_handler:
  "\<exists>handler. handler_of router_sample sample_context [] (removal_sample force) = Some handler \<and>
     handler new_world = sample_removal force"
  by (simp add: sample_removal_def removal_sample_def)

theorem unforced_commands_spare_what_is_used_witness:
  "wd_events (snd (sample_removal False)) = []"
proof -
  obtain r w' where eq: "sample_removal False = (r, w')" by (metis prod.exhaust)
  obtain handler where handler: "handler_of router_sample sample_context [] (removal_sample False) = Some handler"
      "handler new_world = (r, w')" using sample_handler [of False] eq by auto
  have "takes_what_is_used (sn_getSnapshot (ru_session router_sample) (wd_time new_world + 1)) (removal_sample False)"
    by code_simp
  from unforced_commands_spare_what_is_used [OF handler this]
  show ?thesis by (simp add: eq new_world_def is_forced_def removal_sample_def)
qed


end
