(* ===== verification/SessionResumeProperties.thy ===== *)
theory SessionResumeProperties
  imports SessionResume ActionRecords
begin

section \<open>Resuming only what was lost\<close>

text \<open>
  What \<open>session_resume_agent\<close> promises: before the first call that changes anything the worktree was found without an
  agent that can still be reached and the handle was found to fit, and the harness is asked to resume that handle.
\<close>

subsection \<open>What was checked before\<close>

definition agent_lost :: "worktree_row \<Rightarrow> bool" where
  "agent_lost row \<longleftrightarrow> (\<forall>agent. row_agent row = Some agent \<longrightarrow> ag_state agent \<in> {AgentNone, AgentExited} \<or>
     ag_state agent = AgentUnknown \<and> terminal_is_stale_or_missing row)"

definition handle_fits :: "resume_env \<Rightarrow> resume_agent_payload \<Rightarrow> recovery_handle \<Rightarrow> bool" where
  "handle_fits env payload handle \<longleftrightarrow>
     rh_projectId handle = re_projectId payload \<and> rh_worktreeId handle = re_worktreeId payload \<and>
     handle_is_actionable env handle \<and>
     (case re_recoveryHandleId payload of
        Some i \<Rightarrow> \<exists>t. re_getHandle env i t = Inr (Some handle)
      | None \<Rightarrow> \<exists>t listed. re_listHandles env (re_projectId payload) (re_worktreeId payload) t = Inr listed \<and>
          filter (handle_is_actionable env) listed = [handle])"

definition resumable ::
  "resume_env \<Rightarrow> resume_agent_payload \<Rightarrow> snapshot \<Rightarrow> recovery_handle \<Rightarrow> worktree_observation \<Rightarrow> bool" where
  "resumable env payload snapshot handle worktree \<longleftrightarrow>
     re_enabled env \<and> handle_fits env payload handle \<and>
     (\<forall>cwd. rh_cwd handle = Some cwd \<longrightarrow> path_is_same_or_inside cwd (wo_path worktree)) \<and>
     (\<forall>row. find (\<lambda>r. row_id r = re_worktreeId payload) (ss_rows snapshot) = Some row \<longrightarrow>
        row_projectId row = re_projectId payload \<and> agent_lost row \<and> wo_id worktree = row_id row \<and> wo_path worktree = row_path row)"

fun only_looks :: "provider_event \<Rightarrow> bool" where
  "only_looks (LookedUpWorktree i a) = True"
| "only_looks e = False"

fun resumes :: "recovery_handle \<Rightarrow> worktree_observation \<Rightarrow> provider_event \<Rightarrow> bool" where
  "resumes handle worktree (OpenedWorkspace request a) =
     (ow_worktree request = worktree \<and> (\<forall>i. rh_sessionId handle = Some i \<longrightarrow> ow_sessionId request = Some i))"
| "resumes handle worktree (BuiltLaunch h request a) =
     (lr_worktree request = worktree \<and>
      lr_resume request = Some \<lparr>rs_target = rh_target handle, rs_previousSessionId = rh_sessionId handle,
        rs_recoveryHandleId = Some (rh_id handle)\<rparr>)"
| "resumes handle worktree (LaunchedProcess request a) = (lq_worktree request = worktree)"
| "resumes handle worktree (SeededTitle s t x) = (\<forall>i. rh_sessionId handle = Some i \<longrightarrow> s = i)"
| "resumes handle worktree (LookedUpWorktree i a) = True"
| "resumes handle worktree (FocusedTarget t origin a) = True"
| "resumes handle worktree (ClosedTarget t a) = True"
| "resumes handle worktree (RecordedEvent e x) = True"
| "resumes handle worktree (PublishedEvent e) = True"
| "resumes handle worktree e = False"

definition resumed_well :: "resume_env \<Rightarrow> resume_agent_payload \<Rightarrow> snapshot \<Rightarrow> provider_event list \<Rightarrow> bool" where
  "resumed_well env payload snapshot es \<longleftrightarrow> list_all only_looks es \<or>
     (\<exists>handle worktree. resumable env payload snapshot handle worktree \<and> list_all (resumes handle worktree) es)"

lemma resumed_wellI: "list_all only_looks es \<Longrightarrow> resumed_well env payload snapshot es"
  by (simp add: resumed_well_def)

lemma serves_resumes:
  "serves (resume_agent_intent c project worktree i terminal payload handle) e \<Longrightarrow>
   (\<And>j. rh_sessionId handle = Some j \<Longrightarrow> i = j) \<Longrightarrow> resumes handle worktree e"
  by (cases e) (auto simp: resume_agent_intent_def Let_def)

lemma leads_resumes:
  assumes "\<And>j. rh_sessionId handle = Some j \<Longrightarrow> i = j"
  shows "leads (and_then (seed_session_title sn i title) (\<lambda>_.
      and_then (throw_if_aborted s) (\<lambda>_.
      and_then (receipt_or_throw (submit_workspace rn rt receipts
          (resume_agent_intent c project worktree i terminal payload handle))) (\<lambda>_.
      and_then (throw_if_aborted s) (\<lambda>_.
      and_then (reconcile_and_publish sn c reason) (\<lambda>nextSnapshot.
      and_then (publish_session_created sn nextSnapshot i) (\<lambda>_. give ())))))))
    (\<lambda>r. list_all (resumes handle worktree))"
proof -
  have "leads (submit_workspace rn rt receipts (resume_agent_intent c project worktree i terminal payload handle))
      (\<lambda>r. list_all (resumes handle worktree))"
    by (rule leads_mono [OF leads_serves_workspace]) (auto elim!: list.pred_mono_strong serves_resumes assms)
  then show ?thesis
    unfolding seed_session_title_def receipt_or_throw_def reconcile_and_publish_def publish_session_created_def publish_def
    using assms
    by (auto intro!: leads_all leads_all_ask_throwing leads_aborted leads_observe leads_ask split: option.split sum.split)
qed

lemma leads_resolve_handle:
  assumes "\<And>p i t listed h. re_listHandles env p i t = Inr listed \<Longrightarrow> h \<in> set listed \<Longrightarrow>
      rh_projectId h = p \<and> rh_worktreeId h = i"
  shows "leads (resolve_recovery_handle env (re_projectId payload) (re_worktreeId payload) (re_recoveryHandleId payload))
    (\<lambda>r es. es = [] \<and> (\<forall>handle. r = Inr handle \<longrightarrow> handle_is_actionable env handle \<longrightarrow> handle_fits env payload handle))"
proof (cases "re_recoveryHandleId payload")
  case (Some i)
  have found: "leads (observe (re_getHandle env i)) (\<lambda>r es. es = [] \<and> (\<exists>t. r = Inr (re_getHandle env i t)))"
    by (rule leads_observe) auto
  show ?thesis unfolding Some resolve_recovery_handle_def Let_def option.case
    by (rule leads_and_then [OF found])
      (auto simp: handle_fits_def Some intro!: leads_and_then [where P = "\<lambda>r es. es = [] \<and> (\<exists>t. r = re_getHandle env i t)"]
        split: option.split, metis)
next
  case None
  let ?list = "re_listHandles env (re_projectId payload) (re_worktreeId payload)"
  have found: "leads (observe ?list) (\<lambda>r es. es = [] \<and> (\<exists>t. r = Inr (?list t)))"
    by (rule leads_observe) auto
  have fits: "handle_fits env payload h" if "Inr listed = ?list t" "filter (handle_is_actionable env) listed = [h]" for listed t h
  proof -
    have "h \<in> set (filter (handle_is_actionable env) listed)" by (simp add: that(2))
    then have "h \<in> set listed" "handle_is_actionable env h" by auto
    moreover from this assms [OF that(1) [symmetric]] have "rh_projectId h = re_projectId payload \<and> rh_worktreeId h = re_worktreeId payload"
      by blast
    ultimately show ?thesis using that(2) that(1) [symmetric] unfolding handle_fits_def None option.case by blast
  qed
  show ?thesis unfolding None resolve_recovery_handle_def Let_def option.case
    by (rule leads_and_then [OF found])
      (auto intro!: leads_and_then [where P = "\<lambda>r es. es = [] \<and> (\<exists>t. r = ?list t)"] fits split: list.split)
qed

lemma leads_lookup: "leads (lookup_worktree sn c p i) (\<lambda>r. list_all only_looks)"
  unfolding lookup_worktree_def by (auto intro!: leads_all split: option.split)

lemma leads_row: "leads (and_then (observe f) (\<lambda>now. give (worktree_observation_from_row row provider now)))
    (\<lambda>r es. es = [] \<and> (\<forall>w. r = Inr w \<longrightarrow> wo_id w = row_id row \<and> wo_path w = row_path row))"
  by (rule leads_and_then [where P = "\<lambda>r es. es = []"]) (auto intro: leads_observe simp: worktree_observation_from_row_def)

lemma only_looks_resumes: "list_all only_looks es \<Longrightarrow> list_all (resumes handle worktree) es"
  by (erule list.pred_mono_strong) (auto elim: only_looks.elims)

text \<open>From the checked row on.\<close>

lemma leads_checked:
  assumes "\<And>p i t listed h. re_listHandles env p i t = Inr listed \<Longrightarrow> h \<in> set listed \<Longrightarrow>
      rh_projectId h = p \<and> rh_worktreeId h = i"
    and row: "\<And>row. find (\<lambda>r. row_id r = re_worktreeId payload) (ss_rows snapshot) = Some row \<Longrightarrow>
      row_projectId row = re_projectId payload \<and> agent_lost row \<and> wo_id worktree = row_id row \<and> wo_path worktree = row_path row"
    and "re_enabled env" "list_all only_looks es"
  shows "leads (and_then (resolve_recovery_handle env (re_projectId payload) (re_worktreeId payload) (re_recoveryHandleId payload)) (\<lambda>handle.
      and_then (assert_handle_matches_worktree handle worktree) (\<lambda>_.
      and_then (resolve_harness_provider (re_session env) (rh_provider handle)) (\<lambda>_.
      and_then (assert_harness_can_resume env handle) (\<lambda>_.
      and_then (case rh_sessionId handle of Some i \<Rightarrow> give i | None \<Rightarrow> observe new) (\<lambda>sessionId.
      and_then (seed_session_title sn sessionId title) (\<lambda>_.
      and_then (throw_if_aborted s) (\<lambda>_.
      and_then (receipt_or_throw (submit_workspace rn rt receipts
          (resume_agent_intent c project worktree sessionId terminal payload handle))) (\<lambda>_.
      and_then (throw_if_aborted s) (\<lambda>_.
      and_then (reconcile_and_publish sn c reason) (\<lambda>nextSnapshot.
      and_then (publish_session_created sn nextSnapshot sessionId) (\<lambda>_. give ())))))))))))) (\<lambda>r fs. resumed_well env payload snapshot (es @ fs))"
    (is "leads (and_then _ ?rest) _")
proof (rule leads_and_then [OF leads_resolve_handle [OF assms(1)]])
  fix handle and es' :: "provider_event list"
  assume fits: "es' = [] \<and> (\<forall>handle'. Inr handle = Inr handle' \<longrightarrow> handle_is_actionable env handle' \<longrightarrow> handle_fits env payload handle')"
  show "leads (?rest handle) (\<lambda>r fs. resumed_well env payload snapshot (es @ es' @ fs))"
  proof (cases "(\<forall>cwd. rh_cwd handle = Some cwd \<longrightarrow> path_is_same_or_inside cwd (wo_path worktree)) \<and> handle_is_actionable env handle")
    case True
    with fits row assms(3) have ready: "resumable env payload snapshot handle worktree" by (simp add: resumable_def)
    have seeded: "resumed_well env payload snapshot (es @ es' @ fs)" if "list_all (resumes handle worktree) fs" for fs
      using ready that fits only_looks_resumes [OF assms(4)] unfolding resumed_well_def by auto
    show ?thesis using True
      by (cases "rh_sessionId handle")
        (auto simp: assert_handle_matches_worktree_def resolve_harness_provider_def assert_harness_can_resume_def
          handle_is_actionable_def intro!: leads_observe_then leads_mono [OF leads_resumes] seeded split: option.split)
  next
    case False
    then show ?thesis using fits assms(4)
      by (auto simp: assert_handle_matches_worktree_def resolve_harness_provider_def assert_harness_can_resume_def
          handle_is_actionable_def resumed_wellI split: option.split)
  qed
qed (use assms(4) in \<open>auto intro: resumed_wellI\<close>)

text \<open>C37: Only a lost agent is resumed, and with a handle that fits. A resume command calls nothing but a look-up of the
  worktree, or resuming is enabled, the worktree's row in the snapshot (if there is one) belongs to the project and its agent is lost, the
  handle belongs to the worktree, was observed inside of it and is the one named, or the only one whose harness can
  resume; and then every workspace is opened, every title seeded and every launch built for that worktree, the session
  and the resume target of the handle. The store lists the handles of the worktree it is asked for.\<close>

theorem only_lost_agents_are_resumed:
  assumes "session_resume_agent env c receipts payload w = (r, w')"
    and "\<And>p i t listed h. re_listHandles env p i t = Inr listed \<Longrightarrow> h \<in> set listed \<Longrightarrow>
      rh_projectId h = p \<and> rh_worktreeId h = i"
  shows "\<exists>es. wd_events w' = wd_events w @ es \<and> 
    resumed_well env payload (sn_getSnapshot (re_session env) (wd_time w + 1)) es"
proof -
  define snap where "snap = sn_getSnapshot (re_session env) (Suc (wd_time w))"
  let ?Q = "resumed_well env payload snap"
  have tail: "leads (and_then (validate_snapshot_row row (re_projectId payload)) (\<lambda>_.
      and_then (assert_resume_allowed row) (\<lambda>_.
      and_then (case row of
          None \<Rightarrow> lookup_worktree (re_session env) c (re_projectId payload) (re_worktreeId payload)
        | Some r \<Rightarrow> and_then (observe (clock_of (re_session env))) (\<lambda>now.
            give (worktree_observation_from_row r (sn_worktreeProvider (re_session env)) now))) (\<lambda>worktree.
      and_then (throw_if_aborted (hc_signal c)) (\<lambda>_. rest worktree))))) (\<lambda>r. ?Q)"
    if row: "row = find (\<lambda>r. row_id r = re_worktreeId payload) (ss_rows snap)"
      and rest: "\<And>worktree es. (\<And>r. row = Some r \<Longrightarrow> row_projectId r = re_projectId payload \<and> agent_lost r \<and>
          wo_id worktree = row_id r \<and> wo_path worktree = row_path r) \<Longrightarrow> list_all only_looks es \<Longrightarrow>
        leads (rest worktree) (\<lambda>r fs. ?Q (es @ fs))"
    for row and rest :: "worktree_observation \<Rightarrow> (provider_event, unit) action"
  proof (cases row)
    case None
    then show ?thesis
      by (auto simp: validate_snapshot_row_def assert_resume_allowed_def
          intro!: leads_and_then [OF leads_lookup] leads_and_then [where P = "\<lambda>r es. es = []"] leads_aborted rest resumed_wellI)
  next
    case (Some found)
    have "leads (and_then (and_then (observe (clock_of (re_session env))) (\<lambda>now.
            give (worktree_observation_from_row found (sn_worktreeProvider (re_session env)) now))) (\<lambda>worktree.
        and_then (throw_if_aborted (hc_signal c)) (\<lambda>_. rest worktree))) (\<lambda>r. ?Q)"
      if "row_projectId found = re_projectId payload" "agent_lost found"
      by (rule leads_and_then [OF leads_row])
        (auto intro!: leads_and_then [where P = "\<lambda>r es. es = []"] leads_aborted rest [of _ "[]", simplified] resumed_wellI simp: Some that)
    then show ?thesis
      by (auto simp: Some validate_snapshot_row_def assert_resume_allowed_def agent_lost_def resumed_wellI split: option.split)
  qed
  have "wp (session_resume_agent env c receipts payload) (\<lambda>r w'. \<exists>es. wd_events w' = wd_events w @ es \<and> ?Q es) w"
    unfolding session_resume_agent_def Let_def wp_and_then [of "throw_if_aborted _"] wp_and_then [of "find_project _ _"]
      wp_and_then [of "resolve_terminal_provider _ _"] wp_and_then [of "observe _"] wp_if
    by (cases "hc_signal c (wd_time w)")
      (auto simp: wp_throw_if_aborted wp_observe wp_throw_error resumed_wellI snap_def [symmetric]
        intro!: wp_find_project wp_resolve wp_rest tail [OF refl] leads_checked [OF assms(2)])
  then show ?thesis using assms(1) by (auto simp: snap_def dest: wpD)
qed

subsection \<open>An agent to resume\<close>

definition idle_snapshot :: snapshot where
  "idle_snapshot =
     \<lparr>ss_generatedAt = ''2024-01-01T00:00:00Z'',
      ss_observer = \<lparr>oi_pid = 1, oi_startedAt = ''2024-01-01T00:00:00Z'', oi_version = ''1'', oi_healthy = True\<rparr>,
      ss_providerHealth = [], ss_harnesses = None, ss_projects = [], ss_rows = [], ss_sessions = [],
      ss_countProjects = 1,
      ss_counts = \<lparr>rc_worktrees = 0, rc_agents = 0, rc_working = 0, rc_idle = 0, rc_attention = 0, rc_unknown = 0\<rparr>,
      ss_alerts = [], ss_featureFlags = None, ss_orphans = None\<rparr>"

definition lost_handle :: recovery_handle where
  "lost_handle =
     \<lparr>rh_id = ''h'', rh_provider = ''codex'', rh_projectId = ''web'', rh_worktreeId = ''wt'', rh_sessionId = Some ''ses'',
      rh_target = NativeSession ''n'', rh_cwd = None, rh_terminalTargetId = None, rh_harnessRunId = None,
      rh_observedAt = ''2024-01-01T00:00:00Z'', rh_lastSeenAt = ''2024-01-01T00:00:00Z''\<rparr>"

definition resume_sample :: resume_env where
  "resume_sample =
     \<lparr>re_session = (sample_env True)\<lparr>sn_getSnapshot := \<lambda>_. idle_snapshot,
        sn_runner := (sample_runner True)\<lparr>rn_terminal := (rn_terminal (sample_runner True))
          \<lparr>tm_openWorkspace := \<lambda>_ _. AttemptTimesOut\<rparr>\<rparr>,
        sn_getWorktree := Some (\<lambda>_ _ _. AttemptReturns (Some (ei_worktree sample_intent)))\<rparr>,
      re_enabled = True, re_canResume = (\<lambda>_. True), re_getHandle = (\<lambda>_ _. Inr None),
      re_listHandles = (\<lambda>p i _. Inr (if p = ''web'' \<and> i = ''wt'' then [lost_handle] else []))\<rparr>"

definition sample_resumed :: "(thrown + unit) \<times> provider_event world" where
  "sample_resumed = session_resume_agent resume_sample sample_context []
     \<lparr>re_projectId = ''web'', re_worktreeId = ''wt'', re_recoveryHandleId = None, re_terminal = None,
      re_initialPrompt = None\<rparr> new_world"

theorem only_lost_agents_are_resumed_witness:
  "\<not> list_all only_looks (wd_events (snd sample_resumed)) \<and>
   (\<exists>handle worktree. list_all (resumes handle worktree) (wd_events (snd sample_resumed)) \<and> rh_id handle = ''h'')"
proof -
  obtain r w' where eq: "sample_resumed = (r, w')" by (metis prod.exhaust)
  have acts: "\<not> list_all only_looks (wd_events (snd sample_resumed))" by code_simp
  have "rh_projectId h = p \<and> rh_worktreeId h = i"
    if "re_listHandles resume_sample p i t = Inr listed" "h \<in> set listed" for p i t listed h
    using that by (auto simp: resume_sample_def lost_handle_def split: if_splits)
  from only_lost_agents_are_resumed [OF eq [unfolded sample_resumed_def] this]
  have "resumed_well resume_sample \<lparr>re_projectId = ''web'', re_worktreeId = ''wt'', re_recoveryHandleId = None, re_terminal = None,
        re_initialPrompt = None\<rparr> idle_snapshot (wd_events w')" by (auto simp: new_world_def resume_sample_def)
  with acts obtain handle worktree where "list_all (resumes handle worktree) (wd_events w')"
      "resumable resume_sample \<lparr>re_projectId = ''web'', re_worktreeId = ''wt'', re_recoveryHandleId = None, re_terminal = None,
        re_initialPrompt = None\<rparr> idle_snapshot handle worktree"
    by (auto simp: resumed_well_def eq)
  then show ?thesis using acts
    by (auto simp: eq resumable_def handle_fits_def resume_sample_def lost_handle_def split: if_splits)
qed

end
