(* ===== verification/HarnessPayload.thy ===== *)
theory HarnessPayload
  imports JsonText ObservedPaths Effects HookStore
begin

section \<open>What the harness adapters share (integrations/harness)\<close>

text \<open>
  The adapters of the harnesses read the JSON objects that their tools' hooks send: they add the identity of the wosm
  session from the environment, compact what is large, check the rest against a schema, and turn it into a report or an
  observation. This theory holds what the adapters of Codex, Claude Code and Cursor do alike; each has its own copy in the
  source. A schema is a parser that gives the parsed value or nothing.
\<close>

subsection \<open>Fields and their schemas\<close>

fun json_fields :: "json \<Rightarrow> (string \<times> json) list option" where
  "json_fields (JObj fs) = Some fs"
| "json_fields _ = None"

fun as_text :: "json \<Rightarrow> string option" where
  "as_text (JStr s) = (if s = [] then None else Some s)"
| "as_text _ = None"

fun as_string :: "json \<Rightarrow> string option" where
  "as_string (JStr s) = Some s"
| "as_string _ = None"

fun as_nullable :: "json \<Rightarrow> string option option" where
  "as_nullable JNull = Some None"
| "as_nullable (JStr s) = Some (Some s)"
| "as_nullable _ = None"

fun as_bool :: "json \<Rightarrow> bool option" where
  "as_bool (JBool b) = Some b"
| "as_bool _ = None"

fun as_texts :: "json \<Rightarrow> string list option" where
  "as_texts (JArr vs) = those (map as_text vs)"
| "as_texts _ = None"

fun as_num :: "json \<Rightarrow> int option" where
  "as_num (JNum n) = Some n"
| "as_num _ = None"

definition as_one_of :: "string list \<Rightarrow> json \<Rightarrow> string option" where
  "as_one_of options v = (case v of JStr s \<Rightarrow> if s \<in> set options then Some s else None | _ \<Rightarrow> None)"

text \<open>A field that must be there, one that may be, and one of any value.\<close>

definition need :: "(json \<Rightarrow> 'a option) \<Rightarrow> (string \<times> json) list \<Rightarrow> string \<Rightarrow> 'a option" where
  "need parse fs name = Option.bind (map_of fs name) parse"

definition may :: "(json \<Rightarrow> 'a option) \<Rightarrow> (string \<times> json) list \<Rightarrow> string \<Rightarrow> 'a option option" where
  "may parse fs name = (case map_of fs name of None \<Rightarrow> Some None | Some v \<Rightarrow> map_option Some (parse v))"

definition strict_keys :: "string list \<Rightarrow> (string \<times> json) list \<Rightarrow> bool" where
  "strict_keys names fs = (\<forall>k \<in> fst ` set fs. k \<in> set names)"

subsection \<open>The identity of the wosm session\<close>

record wosm_ids =
  wi_projectId :: "project_id option"
  wi_worktreeId :: "worktree_id option"
  wi_worktreePath :: "string option"
  wi_sessionId :: "session_id option"
  wi_terminalProvider :: "provider_id option"
  wi_terminalTargetId :: "terminal_target_id option"

definition wosm_names :: "string list" where
  "wosm_names = [''wosm_project_id'', ''wosm_worktree_id'', ''wosm_worktree_path'', ''wosm_session_id'',
     ''wosm_terminal_provider'', ''wosm_terminal_target_id'']"

definition parse_wosm_ids :: "(string \<times> json) list \<Rightarrow> wosm_ids option" where
  "parse_wosm_ids fs =
     Option.bind (may as_text fs ''wosm_project_id'') (\<lambda>project.
     Option.bind (may as_text fs ''wosm_worktree_id'') (\<lambda>worktree.
     Option.bind (may as_text fs ''wosm_worktree_path'') (\<lambda>path.
     Option.bind (may as_text fs ''wosm_session_id'') (\<lambda>session.
     Option.bind (may as_text fs ''wosm_terminal_provider'') (\<lambda>terminalProvider.
     Option.bind (may as_text fs ''wosm_terminal_target_id'') (\<lambda>terminalTarget.
       Some \<lparr>wi_projectId = project, wi_worktreeId = worktree, wi_worktreePath = path, wi_sessionId = session,
         wi_terminalProvider = terminalProvider, wi_terminalTargetId = terminalTarget\<rparr>))))))"

definition opt_field :: "string \<Rightarrow> ('a \<Rightarrow> json) \<Rightarrow> 'a option \<Rightarrow> (string \<times> json) list" where
  "opt_field name f x = (case x of None \<Rightarrow> [] | Some v \<Rightarrow> [(name, f v)])"

definition wosm_provider_data :: "wosm_ids \<Rightarrow> (string \<times> json) list" where
  "wosm_provider_data ids =
     opt_field ''wosmProjectId'' JStr (wi_projectId ids) @ opt_field ''wosmWorktreeId'' JStr (wi_worktreeId ids) @
     opt_field ''wosmWorktreePath'' JStr (wi_worktreePath ids) @ opt_field ''wosmSessionId'' JStr (wi_sessionId ids) @
     opt_field ''wosmTerminalProvider'' JStr (wi_terminalProvider ids) @
     opt_field ''wosmTerminalTargetId'' JStr (wi_terminalTargetId ids)"

text \<open>Filling in what the environment of the hook process says; a field that is there stays.\<close>

definition assign_env_field :: "string \<Rightarrow> string option \<Rightarrow> (string \<times> json) list \<Rightarrow> (string \<times> json) list" where
  "assign_env_field name v fs =
     (case v of
        None \<Rightarrow> fs
      | Some s \<Rightarrow> if map_of fs name \<noteq> None \<or> s = [] then fs else fs @ [(name, JStr s)])"

definition enrich_payload :: "(string \<Rightarrow> string option) \<Rightarrow> json \<Rightarrow> json" where
  "enrich_payload env payload =
     (case json_fields payload of
        None \<Rightarrow> payload
      | Some fs \<Rightarrow> JObj
          (assign_env_field ''wosm_terminal_target_id'' (env ''WOSM_TERMINAL_TARGET_ID'')
          (assign_env_field ''wosm_terminal_provider'' (env ''WOSM_TERMINAL_PROVIDER'')
          (assign_env_field ''wosm_session_id'' (env ''WOSM_SESSION_ID'')
          (assign_env_field ''wosm_worktree_path'' (env ''WOSM_WORKTREE_PATH'')
          (assign_env_field ''wosm_worktree_id'' (env ''WOSM_WORKTREE_ID'')
          (assign_env_field ''wosm_project_id'' (env ''WOSM_PROJECT_ID'') fs)))))))"

definition scope_text :: "json \<Rightarrow> string \<Rightarrow> string option" where
  "scope_text payload name =
     (case json_fields payload of None \<Rightarrow> None | Some fs \<Rightarrow> Option.bind (map_of fs name) as_text)"

datatype scope_decision = ScopeNotRequired | ScopeWosmEnv | ScopeMissingEnv

definition decide_scope :: "bool \<Rightarrow> json \<Rightarrow> scope_decision" where
  "decide_scope harnessKind payload =
     (if \<not> harnessKind then ScopeNotRequired
      else if scope_text payload ''wosm_session_id'' \<noteq> None \<and> scope_text payload ''wosm_worktree_id'' \<noteq> None
      then ScopeWosmEnv else ScopeMissingEnv)"

subsection \<open>Compaction\<close>

text \<open>The length in UTF-8 of a text of characters below 256.\<close>

definition utf8_length :: "string \<Rightarrow> nat" where
  "utf8_length s = sum_list (map (\<lambda>c. if code_unit c < 128 then 1 else 2) s)"

definition json_byte_count :: "json \<Rightarrow> nat" where
  "json_byte_count v = utf8_length (stringify v)"

definition compact_field_metadata :: "json \<Rightarrow> json" where
  "compact_field_metadata v = JObj [(''compacted'', JBool True), (''originalBytes'', JNum (int (json_byte_count v)))]"

definition compacted_text_placeholder :: "string \<Rightarrow> nat \<Rightarrow> string" where
  "compacted_text_placeholder name bytes = ''[wosm compacted '' @ name @ '': '' @ decimal bytes @ '' bytes]''"

record payload_compaction =
  cp_payload :: json
  cp_compacted :: bool
  cp_originalBytes :: nat
  cp_compactedBytes :: nat
  cp_omitted :: "string list"

text \<open>
  The fields of an event are copied; objects become metadata, texts a placeholder and the assistant's message null. What
  was not copied or was replaced is listed.
\<close>

definition assistant_message :: string where "assistant_message = ''last_assistant_message''"

definition replaced_field :: "string list \<Rightarrow> string list \<Rightarrow> string \<Rightarrow> json \<Rightarrow> json" where
  "replaced_field objects texts name v =
     (if name \<in> set objects then compact_field_metadata v
      else if name \<in> set texts then JStr (compacted_text_placeholder name (json_byte_count v))
      else JNull)"

definition compact_hook_payload ::
  "(string \<Rightarrow> string list) \<Rightarrow> string list \<Rightarrow> string list \<Rightarrow> json \<Rightarrow> payload_compaction" where
  "compact_hook_payload names objects texts payload =
     (case json_fields payload of
        None \<Rightarrow> \<lparr>cp_payload = payload, cp_compacted = False, cp_originalBytes = json_byte_count payload,
          cp_compactedBytes = json_byte_count payload, cp_omitted = []\<rparr>
      | Some fs \<Rightarrow>
          (let eventName = nullish (Option.bind (map_of fs ''hook_event_name'') as_string) [];
               replaced = objects @ texts @ [assistant_message];
               present = (\<lambda>name. map_option (Pair name) (map_of fs name));
               copied = List.map_filter present (filter (\<lambda>name. name \<notin> set replaced) (names eventName));
               changed = map (\<lambda>(name, v). (name, replaced_field objects texts name v)) (List.map_filter present replaced);
               output = copied @ changed;
               omitted = js_unique (filter (\<lambda>name. map_of fs name \<noteq> None \<and>
                   \<not> (name = assistant_message \<and> map_of fs name = Some JNull)) replaced @
                 filter (\<lambda>name. map_of output name = None) (map fst fs))
           in \<lparr>cp_payload = JObj output, cp_compacted = (omitted \<noteq> []), cp_originalBytes = json_byte_count payload,
               cp_compactedBytes = json_byte_count (JObj output), cp_omitted = sort_strings omitted\<rparr>))"

subsection \<open>Diagnostics\<close>

record report_diagnostics =
  dg_payloadBytes :: nat
  dg_compactedBytes :: nat
  dg_compacted :: bool
  dg_omittedFieldNames :: "string list"

text \<open>The diagnostics of a report as its JSON object; the adapters always say that nothing was truncated.\<close>

definition diagnostics_json :: "string \<Rightarrow> report_diagnostics \<Rightarrow> json" where
  "diagnostics_json rawEventType d = JObj
     ([(''rawEventType'', JStr rawEventType), (''payloadBytes'', JNum (int (dg_payloadBytes d))),
       (''compactedBytes'', JNum (int (dg_compactedBytes d))), (''compacted'', JBool (dg_compacted d)),
       (''truncated'', JBool False)] @
      (if dg_omittedFieldNames d = [] then []
       else [(''omittedFieldNames'', JArr (map JStr (dg_omittedFieldNames d)))]))"

definition compaction_diagnostics :: "payload_compaction \<Rightarrow> report_diagnostics" where
  "compaction_diagnostics c =
     \<lparr>dg_payloadBytes = cp_originalBytes c, dg_compactedBytes = cp_compactedBytes c, dg_compacted = cp_compacted c,
      dg_omittedFieldNames = cp_omitted c\<rparr>"

definition json_nullable :: "string option \<Rightarrow> json" where
  "json_nullable x = (case x of None \<Rightarrow> JNull | Some s \<Rightarrow> JStr s)"

text \<open>The part of a key that names the tool: the use of it, or else its name.\<close>

definition tool_part :: "string option \<Rightarrow> string option \<Rightarrow> string list" where
  "tool_part useId name =
     (case useId of
        Some u \<Rightarrow> [''tool:'' @ u]
      | None \<Rightarrow> (case name of None \<Rightarrow> [] | Some t \<Rightarrow> [''tool:'' @ t]))"

definition opt_part :: "string \<Rightarrow> string option \<Rightarrow> string list" where
  "opt_part prefix x = (case x of None \<Rightarrow> [] | Some s \<Rightarrow> [prefix @ s])"

subsection \<open>Which terminal and which worktree an event belongs to\<close>

definition terminal_for_id :: "terminal_target_id option \<Rightarrow> terminal_observation list \<Rightarrow> terminal_observation option" where
  "terminal_for_id targetId targets =
     (case targetId of None \<Rightarrow> None | Some i \<Rightarrow> find (\<lambda>t. to_id t = i) targets)"

definition terminal_for_cwd :: "string \<Rightarrow> terminal_observation list \<Rightarrow> terminal_observation option" where
  "terminal_for_cwd cwd targets =
     nullish_opt
       (find (\<lambda>t. case to_cwd t of None \<Rightarrow> False | Some c \<Rightarrow> same_observed_path c cwd) targets)
       (find (\<lambda>t. case to_cwd t of None \<Rightarrow> False | Some c \<Rightarrow> observed_path_is_same_or_inside cwd c) targets)"

definition worktree_for_id :: "worktree_id option \<Rightarrow> worktree_observation list \<Rightarrow> worktree_observation option" where
  "worktree_for_id worktreeId worktrees =
     (case worktreeId of None \<Rightarrow> None | Some i \<Rightarrow> find (\<lambda>w. wo_id w = i) worktrees)"

definition worktree_for_path :: "string option \<Rightarrow> worktree_observation list \<Rightarrow> worktree_observation option" where
  "worktree_for_path path worktrees =
     (case path of None \<Rightarrow> None | Some p \<Rightarrow> find (\<lambda>w. same_observed_path (wo_path w) p) worktrees)"

definition worktree_for_cwd :: "string \<Rightarrow> worktree_observation list \<Rightarrow> worktree_observation option" where
  "worktree_for_cwd cwd worktrees =
     nullish_opt (find (\<lambda>w. same_observed_path (wo_path w) cwd) worktrees)
       (find (\<lambda>w. observed_path_is_same_or_inside cwd (wo_path w)) worktrees)"

record event_correlation =
  ky_sessionId :: "session_id option"
  ky_worktreeId :: "worktree_id option"
  ky_harnessRunId :: "harness_run_id option"

text \<open>What the event says of itself comes first, then its terminal, then its worktree.\<close>

definition correlate_event ::
  "provider_id \<Rightarrow> wosm_ids \<Rightarrow> string \<Rightarrow> terminal_observation list \<Rightarrow> worktree_observation list \<Rightarrow> event_correlation" where
  "correlate_event provider ids cwd targets worktrees =
     (let terminal = nullish_opt (terminal_for_id (wi_terminalTargetId ids) targets) (terminal_for_cwd cwd targets);
          worktree = nullish_opt (worktree_for_id (wi_worktreeId ids) worktrees)
            (nullish_opt (worktree_for_path (wi_worktreePath ids) worktrees) (worktree_for_cwd cwd worktrees))
      in \<lparr>ky_sessionId = nullish_opt (wi_sessionId ids) (Option.bind terminal to_sessionId),
          ky_worktreeId = nullish_opt (wi_worktreeId ids)
            (nullish_opt (Option.bind terminal to_worktreeId) (map_option wo_id worktree)),
          ky_harnessRunId = nullish_opt (Option.bind terminal to_harnessRunId)
            (map_option (\<lambda>t. provider @ '':'' @ to_id t) terminal)\<rparr>)"

text \<open>The adapters of Cursor and OpenCode also say which terminal it was, and of which project.\<close>

record located_correlation =
  ly_projectId :: "project_id option"
  ly_sessionId :: "session_id option"
  ly_worktreeId :: "worktree_id option"
  ly_terminalTargetId :: "terminal_target_id option"
  ly_harnessRunId :: "harness_run_id option"

definition locate_event ::
  "provider_id \<Rightarrow> wosm_ids \<Rightarrow> terminal_observation option \<Rightarrow> worktree_observation option \<Rightarrow> located_correlation" where
  "locate_event provider ids terminal worktree =
     \<lparr>ly_projectId = nullish_opt (wi_projectId ids)
        (nullish_opt (Option.bind terminal to_projectId) (map_option wo_projectId worktree)),
      ly_sessionId = nullish_opt (wi_sessionId ids) (Option.bind terminal to_sessionId),
      ly_worktreeId = nullish_opt (wi_worktreeId ids)
        (nullish_opt (Option.bind terminal to_worktreeId) (map_option wo_id worktree)),
      ly_terminalTargetId = nullish_opt (wi_terminalTargetId ids) (map_option to_id terminal),
      ly_harnessRunId = (case wi_terminalTargetId ids of
          Some i \<Rightarrow> Some (provider @ '':'' @ i)
        | None \<Rightarrow> nullish_opt (Option.bind terminal to_harnessRunId)
            (map_option (\<lambda>t. provider @ '':'' @ to_id t) terminal))\<rparr>"

subsection \<open>The status of a run (classify.ts)\<close>

definition harness_status :: "agent_state \<Rightarrow> confidence \<Rightarrow> string \<Rightarrow> timestamp \<Rightarrow> observed_status" where
  "harness_status v confidence reason observedAt =
     \<lparr>os_value = v, os_confidence = confidence, os_reason = reason, os_source = SrcHarnessEvent, os_updatedAt = observedAt\<rparr>"

definition run_status :: "status_source \<Rightarrow> agent_state \<Rightarrow> confidence \<Rightarrow> string \<Rightarrow> run_observation \<Rightarrow> observed_status" where
  "run_status source v confidence reason run =
     \<lparr>os_value = v, os_confidence = confidence, os_reason = reason, os_source = source, os_updatedAt = ro_observedAt run\<rparr>"

definition classify_run_status :: "provider_id \<Rightarrow> string \<Rightarrow> run_observation \<Rightarrow> status_observation" where
  "classify_run_status provider noSignal run =
     (let status =
          (if ro_state run = AgentNeedsAttention \<and> ro_confidence run = High
           then run_status SrcHarnessEvent AgentNeedsAttention High (ro_reason run) run
           else if ro_state run = AgentExited \<and> ro_confidence run = High
           then run_status SrcHarnessProcess AgentExited High (ro_reason run) run
           else run_status SrcHarnessProcess AgentUnknown Low noSignal run)
      in \<lparr>so_provider = provider, so_runId = Some (ro_id run), so_projectId = ro_projectId run,
          so_worktreeId = ro_worktreeId run, so_sessionId = ro_sessionId run, so_status = status,
          so_observedAt = os_updatedAt status, so_providerData = ro_providerData run\<rparr>)"

subsection \<open>The events that are forwarded\<close>

record ingress_rule =
  iu_eventType :: string
  iu_statusIntents :: "agent_state list"
  iu_confidences :: "confidence list"

definition ingress_rule_of :: "string \<Rightarrow> agent_state list \<Rightarrow> confidence list \<Rightarrow> ingress_rule" where
  "ingress_rule_of eventType intents confidences =
     \<lparr>iu_eventType = eventType, iu_statusIntents = intents, iu_confidences = confidences\<rparr>"

definition rule_for :: "ingress_rule list \<Rightarrow> string \<Rightarrow> ingress_rule option" where
  "rule_for rules name = find (\<lambda>r. iu_eventType r = name) rules"

subsection \<open>Text in report ids: encodeURIComponent\<close>

definition hex_upper :: "nat \<Rightarrow> char" where
  "hex_upper d = (if d < 10 then char_of (48 + d) else char_of (55 + d))"

definition percent_byte :: "nat \<Rightarrow> string" where
  "percent_byte n = [CHR 0x25, hex_upper (n div 16), hex_upper (n mod 16)]"

definition uri_unreserved :: "char \<Rightarrow> bool" where
  "uri_unreserved c =
     (let n = code_unit c in
      48 \<le> n \<and> n \<le> 57 \<or> 65 \<le> n \<and> n \<le> 90 \<or> 97 \<le> n \<and> n \<le> 122 \<or> c \<in> set [CHR 0x2D, CHR 0x5F, CHR 0x2E, CHR 0x21, CHR 0x7E,
        CHR 0x2A, CHR 0x27, CHR 0x28, CHR 0x29])"

definition encode_uri_char :: "char \<Rightarrow> string" where
  "encode_uri_char c =
     (let n = code_unit c in
      if uri_unreserved c then [c]
      else if n < 128 then percent_byte n
      else percent_byte (192 + n div 64) @ percent_byte (128 + n mod 64))"

definition encode_uri_component :: "string \<Rightarrow> string" where
  "encode_uri_component s = concat (map encode_uri_char s)"

definition report_id_of :: "string list \<Rightarrow> string" where
  "report_id_of parts = str_join '':'' (map encode_uri_component parts)"

end
