(* ===== verification/CodexHooks.thy ===== *)
theory CodexHooks
  imports HarnessPayload
begin

section \<open>Events of Codex (integrations/harness/codex/src/events.ts, compaction.ts)\<close>

text \<open>
  The strict schema of Codex's hook events, the status an event stands for, the report it becomes, the id the report is
  recorded under, and the observation made of it.
\<close>

subsection \<open>Events and their schema\<close>

record codex_turn =
  ct_turnId :: string
  ct_agentId :: "string option"
  ct_agentType :: "string option"

datatype codex_body =
  CodexSessionStart string
| CodexUserPromptSubmit codex_turn string
| CodexPreToolUse codex_turn string "json option" string
| CodexPermissionRequest codex_turn string "json option"
| CodexPostToolUse codex_turn string string "json option" "json option"
| CodexPreCompact codex_turn string
| CodexPostCompact codex_turn string
| CodexSubagentStart string string string
| CodexSubagentStop string "string option" string string bool "string option"
| CodexStop string bool "string option"

record codex_event =
  cx_sessionId :: string
  cx_transcriptPath :: "string option"
  cx_cwd :: string
  cx_model :: string
  cx_permissionMode :: "string option"
  cx_ids :: wosm_ids
  cx_body :: codex_body

fun codex_event_name :: "codex_body \<Rightarrow> string" where
  "codex_event_name (CodexSessionStart source) = ''SessionStart''"
| "codex_event_name (CodexUserPromptSubmit t prompt) = ''UserPromptSubmit''"
| "codex_event_name (CodexPreToolUse t tool input use) = ''PreToolUse''"
| "codex_event_name (CodexPermissionRequest t tool input) = ''PermissionRequest''"
| "codex_event_name (CodexPostToolUse t tool use input response) = ''PostToolUse''"
| "codex_event_name (CodexPreCompact t trigger) = ''PreCompact''"
| "codex_event_name (CodexPostCompact t trigger) = ''PostCompact''"
| "codex_event_name (CodexSubagentStart turn agent type) = ''SubagentStart''"
| "codex_event_name (CodexSubagentStop turn path agent type active msg) = ''SubagentStop''"
| "codex_event_name (CodexStop turn active msg) = ''Stop''"

definition codex_common_names :: "string list" where
  "codex_common_names = [''session_id'', ''transcript_path'', ''cwd'', ''hook_event_name'', ''model'', ''permission_mode''] @ wosm_names"

definition codex_turn_names :: "string list" where
  "codex_turn_names = [''turn_id'', ''agent_id'', ''agent_type'']"

definition codex_sources :: "string list" where
  "codex_sources = [''startup'', ''resume'', ''clear'', ''compact'']"

definition codex_permission_modes :: "string list" where
  "codex_permission_modes = [''default'', ''acceptEdits'', ''plan'', ''dontAsk'', ''bypassPermissions'']"

definition parse_codex_turn :: "(string \<times> json) list \<Rightarrow> codex_turn option" where
  "parse_codex_turn fs =
     Option.bind (need as_text fs ''turn_id'') (\<lambda>turn.
     Option.bind (may as_text fs ''agent_id'') (\<lambda>agentId.
     Option.bind (may as_text fs ''agent_type'') (\<lambda>agentType.
       Some \<lparr>ct_turnId = turn, ct_agentId = agentId, ct_agentType = agentType\<rparr>)))"

text \<open>The fields of each event beyond the common ones, with the names its strict schema knows.\<close>

definition codex_body_names :: "string \<Rightarrow> string list" where
  "codex_body_names name =
     (if name = ''SessionStart'' then [''source'']
      else if name = ''UserPromptSubmit'' then codex_turn_names @ [''prompt'']
      else if name = ''PreToolUse'' then codex_turn_names @ [''tool_name'', ''tool_input'', ''tool_use_id'']
      else if name = ''PermissionRequest'' then codex_turn_names @ [''tool_name'', ''tool_input'']
      else if name = ''PostToolUse'' then codex_turn_names @ [''tool_name'', ''tool_use_id'', ''tool_input'', ''tool_response'']
      else if name = ''PreCompact'' \<or> name = ''PostCompact'' then codex_turn_names @ [''trigger'']
      else if name = ''SubagentStart'' then [''turn_id'', ''agent_id'', ''agent_type'']
      else if name = ''SubagentStop''
      then [''turn_id'', ''agent_transcript_path'', ''agent_id'', ''agent_type'', ''stop_hook_active'', ''last_assistant_message'']
      else if name = ''Stop'' then [''turn_id'', ''stop_hook_active'', ''last_assistant_message'']
      else [])"

definition parse_codex_body :: "string \<Rightarrow> (string \<times> json) list \<Rightarrow> codex_body option" where
  "parse_codex_body name fs =
     (if name = ''SessionStart'' then map_option CodexSessionStart (need (as_one_of codex_sources) fs ''source'')
      else if name = ''UserPromptSubmit''
      then Option.bind (parse_codex_turn fs) (\<lambda>t. map_option (CodexUserPromptSubmit t) (need as_text fs ''prompt''))
      else if name = ''PreToolUse''
      then Option.bind (parse_codex_turn fs) (\<lambda>t. Option.bind (need as_text fs ''tool_name'') (\<lambda>tool.
        map_option (CodexPreToolUse t tool (map_of fs ''tool_input'')) (need as_text fs ''tool_use_id'')))
      else if name = ''PermissionRequest''
      then Option.bind (parse_codex_turn fs) (\<lambda>t.
        map_option (\<lambda>tool. CodexPermissionRequest t tool (map_of fs ''tool_input'')) (need as_text fs ''tool_name''))
      else if name = ''PostToolUse''
      then Option.bind (parse_codex_turn fs) (\<lambda>t. Option.bind (need as_text fs ''tool_name'') (\<lambda>tool.
        map_option (\<lambda>use. CodexPostToolUse t tool use (map_of fs ''tool_input'') (map_of fs ''tool_response''))
          (need as_text fs ''tool_use_id'')))
      else if name = ''PreCompact''
      then Option.bind (parse_codex_turn fs) (\<lambda>t.
        map_option (CodexPreCompact t) (need (as_one_of [''manual'', ''auto'']) fs ''trigger''))
      else if name = ''PostCompact''
      then Option.bind (parse_codex_turn fs) (\<lambda>t.
        map_option (CodexPostCompact t) (need (as_one_of [''manual'', ''auto'']) fs ''trigger''))
      else if name = ''SubagentStart''
      then Option.bind (need as_text fs ''turn_id'') (\<lambda>turn. Option.bind (need as_text fs ''agent_id'') (\<lambda>agent.
        map_option (CodexSubagentStart turn agent) (need as_text fs ''agent_type'')))
      else if name = ''SubagentStop''
      then Option.bind (need as_text fs ''turn_id'') (\<lambda>turn.
        Option.bind (need as_nullable fs ''agent_transcript_path'') (\<lambda>path.
        Option.bind (need as_text fs ''agent_id'') (\<lambda>agent. Option.bind (need as_text fs ''agent_type'') (\<lambda>type.
        Option.bind (need as_bool fs ''stop_hook_active'') (\<lambda>active.
        map_option (CodexSubagentStop turn path agent type active) (need as_nullable fs ''last_assistant_message''))))))
      else if name = ''Stop''
      then Option.bind (need as_text fs ''turn_id'') (\<lambda>turn. Option.bind (need as_bool fs ''stop_hook_active'') (\<lambda>active.
        map_option (CodexStop turn active) (need as_nullable fs ''last_assistant_message'')))
      else None)"

definition parse_codex_event :: "json \<Rightarrow> codex_event option" where
  "parse_codex_event payload =
     Option.bind (json_fields payload) (\<lambda>fs.
     Option.bind (need as_string fs ''hook_event_name'') (\<lambda>name.
     Option.bind (need as_text fs ''session_id'') (\<lambda>sessionId.
     Option.bind (need as_nullable fs ''transcript_path'') (\<lambda>transcriptPath.
     Option.bind (need as_text fs ''cwd'') (\<lambda>cwd.
     Option.bind (need as_text fs ''model'') (\<lambda>model.
     Option.bind (may (as_one_of codex_permission_modes) fs ''permission_mode'') (\<lambda>permissionMode.
     Option.bind (parse_wosm_ids fs) (\<lambda>ids.
     Option.bind (parse_codex_body name fs) (\<lambda>body.
     if strict_keys (codex_common_names @ codex_body_names name) fs
     then Some \<lparr>cx_sessionId = sessionId, cx_transcriptPath = transcriptPath, cx_cwd = cwd, cx_model = model,
       cx_permissionMode = permissionMode, cx_ids = ids, cx_body = body\<rparr>
     else None)))))))))"

definition codex_error :: "string \<Rightarrow> string \<Rightarrow> thrown" where
  "codex_error code message =
     ThrownObject ((basic_error ''HarnessProviderError'' code (code @ '': '' @ message))\<lparr>se_provider := Some ''codex''\<rparr>) None"

definition codex_event_or_throw :: "json \<Rightarrow> thrown + codex_event" where
  "codex_event_or_throw payload =
     (case parse_codex_event payload of
        None \<Rightarrow> Inl (codex_error ''HARNESS_CODEX_EVENT_INVALID'' ''Codex hook event did not match a supported strict schema.'')
      | Some e \<Rightarrow> Inr e)"

subsection \<open>Status\<close>

fun codex_status :: "codex_body \<Rightarrow> timestamp \<Rightarrow> observed_status" where
  "codex_status (CodexSessionStart source) =
     harness_status AgentStarting High (''Codex session started from '' @ source @ ''.'')"
| "codex_status (CodexPermissionRequest t tool input) =
     harness_status AgentNeedsAttention High (''Codex requested permission for '' @ tool @ ''.'')"
| "codex_status (CodexStop turn active msg) = harness_status AgentIdle High ''Codex turn completed.''"
| "codex_status (CodexSubagentStop turn path agent type active msg) =
     harness_status AgentWorking Medium (''Codex subagent '' @ type @ '' stopped.'')"
| "codex_status (CodexPostToolUse t tool use input response) =
     harness_status AgentWorking Medium (''Codex completed '' @ tool @ ''.'')"
| "codex_status (CodexPreCompact t trigger) =
     harness_status AgentWorking Medium (''Codex is about to compact the conversation ('' @ trigger @ '').'')"
| "codex_status (CodexPostCompact t trigger) =
     harness_status AgentWorking Medium (''Codex compacted the conversation ('' @ trigger @ '').'')"
| "codex_status (CodexSubagentStart turn agent type) =
     harness_status AgentWorking Medium (''Codex started subagent '' @ type @ ''.'')"
| "codex_status (CodexPreToolUse t tool input use) =
     harness_status AgentWorking Medium (''Codex is about to use '' @ tool @ ''.'')"
| "codex_status (CodexUserPromptSubmit t prompt) = harness_status AgentWorking Medium ''Codex received a user prompt.''"

subsection \<open>What an event carries\<close>

text \<open>The fields the code looks for with \<^verbatim>\<open>in\<close>.\<close>

fun codex_turn_id :: "codex_body \<Rightarrow> string option" where
  "codex_turn_id (CodexSessionStart source) = None"
| "codex_turn_id (CodexUserPromptSubmit t prompt) = Some (ct_turnId t)"
| "codex_turn_id (CodexPreToolUse t tool input use) = Some (ct_turnId t)"
| "codex_turn_id (CodexPermissionRequest t tool input) = Some (ct_turnId t)"
| "codex_turn_id (CodexPostToolUse t tool use input response) = Some (ct_turnId t)"
| "codex_turn_id (CodexPreCompact t trigger) = Some (ct_turnId t)"
| "codex_turn_id (CodexPostCompact t trigger) = Some (ct_turnId t)"
| "codex_turn_id (CodexSubagentStart turn agent type) = Some turn"
| "codex_turn_id (CodexSubagentStop turn path agent type active msg) = Some turn"
| "codex_turn_id (CodexStop turn active msg) = Some turn"

fun codex_source :: "codex_body \<Rightarrow> string option" where
  "codex_source (CodexSessionStart source) = Some source"
| "codex_source b = None"

fun codex_tool_name :: "codex_body \<Rightarrow> string option" where
  "codex_tool_name (CodexPreToolUse t tool input use) = Some tool"
| "codex_tool_name (CodexPermissionRequest t tool input) = Some tool"
| "codex_tool_name (CodexPostToolUse t tool use input response) = Some tool"
| "codex_tool_name b = None"

fun codex_tool_use_id :: "codex_body \<Rightarrow> string option" where
  "codex_tool_use_id (CodexPreToolUse t tool input use) = Some use"
| "codex_tool_use_id (CodexPostToolUse t tool use input response) = Some use"
| "codex_tool_use_id b = None"

fun codex_turn_of :: "codex_body \<Rightarrow> codex_turn option" where
  "codex_turn_of (CodexUserPromptSubmit t prompt) = Some t"
| "codex_turn_of (CodexPreToolUse t tool input use) = Some t"
| "codex_turn_of (CodexPermissionRequest t tool input) = Some t"
| "codex_turn_of (CodexPostToolUse t tool use input response) = Some t"
| "codex_turn_of (CodexPreCompact t trigger) = Some t"
| "codex_turn_of (CodexPostCompact t trigger) = Some t"
| "codex_turn_of (CodexSubagentStart turn agent type) =
     Some \<lparr>ct_turnId = turn, ct_agentId = Some agent, ct_agentType = Some type\<rparr>"
| "codex_turn_of (CodexSubagentStop turn path agent type active msg) =
     Some \<lparr>ct_turnId = turn, ct_agentId = Some agent, ct_agentType = Some type\<rparr>"
| "codex_turn_of b = None"

definition codex_agent_id :: "codex_body \<Rightarrow> string option" where
  "codex_agent_id b = Option.bind (codex_turn_of b) ct_agentId"

definition codex_agent_type :: "codex_body \<Rightarrow> string option" where
  "codex_agent_type b = Option.bind (codex_turn_of b) ct_agentType"

fun codex_agent_transcript :: "codex_body \<Rightarrow> string option option" where
  "codex_agent_transcript (CodexSubagentStop turn path agent type active msg) = Some path"
| "codex_agent_transcript b = None"

fun codex_trigger :: "codex_body \<Rightarrow> string option" where
  "codex_trigger (CodexPreCompact t trigger) = Some trigger"
| "codex_trigger (CodexPostCompact t trigger) = Some trigger"
| "codex_trigger b = None"

definition codex_provider_data :: "codex_event \<Rightarrow> json" where
  "codex_provider_data e =
     (let b = cx_body e in JObj
       ([(''codexSessionId'', JStr (cx_sessionId e)), (''hookEventName'', JStr (codex_event_name b)),
         (''cwd'', JStr (cx_cwd e)), (''model'', JStr (cx_model e))] @
        opt_field ''permissionMode'' JStr (cx_permissionMode e) @ opt_field ''codexTurnId'' JStr (codex_turn_id b) @
        opt_field ''source'' JStr (codex_source b) @ opt_field ''toolName'' JStr (codex_tool_name b) @
        opt_field ''toolUseId'' JStr (codex_tool_use_id b) @ opt_field ''agentId'' JStr (codex_agent_id b) @
        opt_field ''agentType'' JStr (codex_agent_type b) @
        opt_field ''agentTranscriptPath'' json_nullable (codex_agent_transcript b) @
        opt_field ''trigger'' JStr (codex_trigger b) @ wosm_provider_data (cx_ids e)))"

definition codex_correlation :: "codex_event \<Rightarrow> report_correlation" where
  "codex_correlation e =
     \<lparr>rc_harnessRunId = None, rc_sessionId = wi_sessionId (cx_ids e), rc_worktreeId = wi_worktreeId (cx_ids e),
      rc_terminalTargetId = wi_terminalTargetId (cx_ids e), rc_projectId = wi_projectId (cx_ids e),
      rc_nativeSessionId = Some (cx_sessionId e), rc_nativeSessionFile = None, rc_cwd = Some (cx_cwd e), rc_pid = None\<rparr>"

definition codex_coalesce_key :: "codex_event \<Rightarrow> string option" where
  "codex_coalesce_key e =
     (let b = cx_body e;
          parts = opt_part ''turn:'' (codex_turn_id b) @ tool_part (codex_tool_use_id b) (codex_tool_name b)
      in if parts = [] then None else Some (str_join '':'' parts))"

definition codex_report_parts :: "codex_event \<Rightarrow> string list" where
  "codex_report_parts e =
     (let b = cx_body e in
      [''codex'', cx_sessionId e, codex_event_name b] @ opt_part [] (codex_turn_id b) @
      tool_part (codex_tool_use_id b) (codex_tool_name b) @ opt_part ''agent:'' (codex_agent_id b) @
      opt_part ''trigger:'' (codex_trigger b) @ opt_part ''source:'' (codex_source b))"

definition codex_report_id :: "json \<Rightarrow> thrown + string" where
  "codex_report_id payload =
     (case codex_event_or_throw payload of Inl v \<Rightarrow> Inl v | Inr e \<Rightarrow> Inr (report_id_of (codex_report_parts e)))"

definition codex_report :: "string \<Rightarrow> timestamp \<Rightarrow> json \<Rightarrow> report_diagnostics \<Rightarrow> thrown + event_report" where
  "codex_report reportId observedAt payload diagnostics =
     (case codex_event_or_throw payload of
        Inl v \<Rightarrow> Inl v
      | Inr e \<Rightarrow>
          (let report = \<lparr>er_reportId = reportId, er_provider = ''codex'', er_eventType = codex_event_name (cx_body e),
             er_observedAt = observedAt, er_coalesceKey = codex_coalesce_key e,
             er_status = Some (codex_status (cx_body e) observedAt), er_correlation = Some (codex_correlation e),
             er_diagnostics = Some (diagnostics_json (codex_event_name (cx_body e)) diagnostics),
             er_providerData = Some (codex_provider_data e)\<rparr>
           in if valid_event_report report then Inr report else Inl zod_error))"

definition codex_observation ::
  "timestamp \<Rightarrow> json \<Rightarrow> terminal_observation list \<Rightarrow> worktree_observation list \<Rightarrow> thrown + event_observation list" where
  "codex_observation observedAt payload targets worktrees =
     (case codex_event_or_throw payload of
        Inl v \<Rightarrow> Inl v
      | Inr e \<Rightarrow>
          (let correlation = correlate_event ''codex'' (cx_ids e) (cx_cwd e) targets worktrees in
           Inr [\<lparr>eo_provider = ''codex'', eo_reportId = None, eo_eventType = None, eo_projectId = None,
             eo_sessionId = ky_sessionId correlation, eo_worktreeId = ky_worktreeId correlation,
             eo_terminalTargetId = None, eo_harnessRunId = ky_harnessRunId correlation,
             eo_nativeSessionId = Some (cx_sessionId e), eo_nativeSessionFile = None, eo_cwd = None, eo_pid = None,
             eo_status = Some (codex_status (cx_body e) observedAt),
             eo_rawEventType = Some (codex_event_name (cx_body e)), eo_diagnostics = None,
             eo_providerData = Some (codex_provider_data e), eo_observedAt = observedAt\<rparr>]))"

subsection \<open>Compaction and the hook adapter (compaction.ts, hookAdapter.ts)\<close>

definition codex_names_for_event :: "string \<Rightarrow> string list" where
  "codex_names_for_event name =
     codex_common_names @
     (if name \<in> set [''SessionStart'', ''UserPromptSubmit'', ''PreToolUse'', ''PermissionRequest'', ''PostToolUse'',
         ''PreCompact'', ''PostCompact'', ''SubagentStart'', ''SubagentStop'', ''Stop'']
      then codex_body_names name
      else codex_turn_names @ [''source'', ''trigger'', ''tool_name'', ''tool_use_id''])"

definition compact_codex_payload :: "json \<Rightarrow> payload_compaction" where
  "compact_codex_payload = compact_hook_payload codex_names_for_event [''tool_input'', ''tool_response''] [''prompt'']"

definition codex_hook_report :: "timestamp \<Rightarrow> payload_compaction \<Rightarrow> thrown + event_report" where
  "codex_hook_report receivedAt compaction =
     (case codex_report_id (cp_payload compaction) of
        Inl v \<Rightarrow> Inl v
      | Inr reportId \<Rightarrow> codex_report reportId receivedAt (cp_payload compaction) (compaction_diagnostics compaction))"

end
