(* ===== verification/ClaudeHooks.thy ===== *)
theory ClaudeHooks
  imports HarnessPayload
begin

section \<open>Events of Claude Code (integrations/harness/claude/src/events.ts, ingressRules.ts, compaction.ts)\<close>

text \<open>
  Claude Code's hook events, whose schema ignores fields it does not know; the status an event stands for, if any; the
  table of the events that are forwarded; reports, their ids and observations.
\<close>

subsection \<open>Events and their schema\<close>

datatype claude_body =
  ClaudeSessionStart string
| ClaudeUserPromptSubmit string
| ClaudePreToolUse string "json option" string
| ClaudePostToolUse string string "json option" "json option" "int option"
| ClaudePermissionRequest string "json option" "json option"
| ClaudeNotification "string option" "string option"
| ClaudePreCompact "string option"
| ClaudeStop bool "string option option"
| ClaudeSessionEnd string

record claude_event =
  cl_sessionId :: string
  cl_transcriptPath :: "string option"
  cl_cwd :: string
  cl_permissionMode :: "string option"
  cl_ids :: wosm_ids
  cl_body :: claude_body

fun claude_event_name :: "claude_body \<Rightarrow> string" where
  "claude_event_name (ClaudeSessionStart source) = ''SessionStart''"
| "claude_event_name (ClaudeUserPromptSubmit prompt) = ''UserPromptSubmit''"
| "claude_event_name (ClaudePreToolUse tool input use) = ''PreToolUse''"
| "claude_event_name (ClaudePostToolUse tool use input response duration) = ''PostToolUse''"
| "claude_event_name (ClaudePermissionRequest tool input suggestions) = ''PermissionRequest''"
| "claude_event_name (ClaudeNotification type message) = ''Notification''"
| "claude_event_name (ClaudePreCompact trigger) = ''PreCompact''"
| "claude_event_name (ClaudeStop active message) = ''Stop''"
| "claude_event_name (ClaudeSessionEnd reason) = ''SessionEnd''"

definition parse_claude_body :: "string \<Rightarrow> (string \<times> json) list \<Rightarrow> claude_body option" where
  "parse_claude_body name fs =
     (if name = ''SessionStart'' then map_option ClaudeSessionStart (need as_text fs ''source'')
      else if name = ''UserPromptSubmit'' then map_option ClaudeUserPromptSubmit (need as_string fs ''prompt'')
      else if name = ''PreToolUse''
      then Option.bind (need as_text fs ''tool_name'') (\<lambda>tool.
        map_option (ClaudePreToolUse tool (map_of fs ''tool_input'')) (need as_text fs ''tool_use_id''))
      else if name = ''PostToolUse''
      then Option.bind (need as_text fs ''tool_name'') (\<lambda>tool. Option.bind (need as_text fs ''tool_use_id'') (\<lambda>use.
        map_option (ClaudePostToolUse tool use (map_of fs ''tool_input'') (map_of fs ''tool_response''))
          (may as_num fs ''duration_ms'')))
      else if name = ''PermissionRequest''
      then map_option (\<lambda>tool. ClaudePermissionRequest tool (map_of fs ''tool_input'') (map_of fs ''permission_suggestions''))
        (need as_text fs ''tool_name'')
      else if name = ''Notification''
      then Option.bind (may as_string fs ''notification_type'') (\<lambda>type.
        map_option (ClaudeNotification type) (may as_string fs ''message''))
      else if name = ''PreCompact'' then map_option ClaudePreCompact (may as_string fs ''trigger'')
      else if name = ''Stop''
      then Option.bind (need as_bool fs ''stop_hook_active'') (\<lambda>active.
        map_option (ClaudeStop active) (may as_nullable fs ''last_assistant_message''))
      else if name = ''SessionEnd'' then map_option ClaudeSessionEnd (need as_text fs ''reason'')
      else None)"

definition parse_claude_event :: "json \<Rightarrow> claude_event option" where
  "parse_claude_event payload =
     Option.bind (json_fields payload) (\<lambda>fs.
     Option.bind (need as_string fs ''hook_event_name'') (\<lambda>name.
     Option.bind (need as_text fs ''session_id'') (\<lambda>sessionId.
     Option.bind (may as_string fs ''transcript_path'') (\<lambda>transcriptPath.
     Option.bind (need as_text fs ''cwd'') (\<lambda>cwd.
     Option.bind (may as_string fs ''permission_mode'') (\<lambda>permissionMode.
     Option.bind (parse_wosm_ids fs) (\<lambda>ids.
     Option.bind (parse_claude_body name fs) (\<lambda>body.
     Some \<lparr>cl_sessionId = sessionId, cl_transcriptPath = transcriptPath, cl_cwd = cwd,
       cl_permissionMode = permissionMode, cl_ids = ids, cl_body = body\<rparr>))))))))"

definition claude_error :: "string \<Rightarrow> string \<Rightarrow> thrown" where
  "claude_error code message =
     ThrownObject ((basic_error ''HarnessProviderError'' code (code @ '': '' @ message))\<lparr>se_provider := Some ''claude''\<rparr>) None"

definition claude_event_or_throw :: "json \<Rightarrow> thrown + claude_event" where
  "claude_event_or_throw payload =
     (case parse_claude_event payload of
        None \<Rightarrow> Inl (claude_error ''HARNESS_CLAUDE_EVENT_INVALID'' ''Claude Code hook event did not match a supported schema.'')
      | Some e \<Rightarrow> Inr e)"

subsection \<open>Status\<close>

text \<open>No status: notifications of other types, and the end of a session that is cleared and starts again.\<close>

fun claude_status :: "claude_body \<Rightarrow> timestamp \<Rightarrow> observed_status option" where
  "claude_status (ClaudeSessionStart source) observedAt =
     Some (harness_status AgentStarting High (''Claude Code session started from '' @ source @ ''.'') observedAt)"
| "claude_status (ClaudePermissionRequest tool input suggestions) observedAt =
     Some (harness_status AgentNeedsAttention High (''Claude Code requested permission for '' @ tool @ ''.'') observedAt)"
| "claude_status (ClaudeNotification type message) observedAt =
     (if type = Some ''permission_prompt''
      then Some (harness_status AgentNeedsAttention High ''Claude Code is waiting for permission approval.'' observedAt)
      else if type = Some ''idle_prompt''
      then Some (harness_status AgentIdle Medium ''Claude Code is waiting for user input.'' observedAt)
      else None)"
| "claude_status (ClaudeStop active message) observedAt =
     (if active then Some (harness_status AgentWorking Medium ''A Stop hook kept Claude Code working.'' observedAt)
      else Some (harness_status AgentIdle High ''Claude Code turn completed.'' observedAt))"
| "claude_status (ClaudeSessionEnd reason) observedAt =
     (if reason = ''clear'' then None
      else Some (harness_status AgentExited High (''Claude Code session ended ('' @ reason @ '').'') observedAt))"
| "claude_status (ClaudePreToolUse tool input use) observedAt =
     Some (harness_status AgentWorking Medium (''Claude Code is about to use '' @ tool @ ''.'') observedAt)"
| "claude_status (ClaudePostToolUse tool use input response duration) observedAt =
     Some (harness_status AgentWorking Medium (''Claude Code completed '' @ tool @ ''.'') observedAt)"
| "claude_status (ClaudePreCompact trigger) observedAt =
     Some (harness_status AgentWorking Medium ''Claude Code is about to compact the conversation.'' observedAt)"
| "claude_status (ClaudeUserPromptSubmit prompt) observedAt =
     Some (harness_status AgentWorking Medium ''Claude Code received a user prompt.'' observedAt)"

subsection \<open>The events that are forwarded (ingressRules.ts)\<close>

definition claude_ingress_rules :: "ingress_rule list" where
  "claude_ingress_rules =
     [ingress_rule_of ''SessionStart'' [AgentStarting] [High], ingress_rule_of ''UserPromptSubmit'' [AgentWorking] [Medium],
      ingress_rule_of ''PreToolUse'' [AgentWorking] [Medium], ingress_rule_of ''PostToolUse'' [AgentWorking] [Medium],
      ingress_rule_of ''PermissionRequest'' [AgentNeedsAttention] [High],
      ingress_rule_of ''Notification'' [AgentNeedsAttention, AgentIdle] [Medium, High], ingress_rule_of ''PreCompact'' [AgentWorking] [Medium],
      ingress_rule_of ''Stop'' [AgentIdle, AgentWorking] [Medium, High], ingress_rule_of ''SessionEnd'' [AgentExited] [High]]"

definition claude_rule_for :: "string \<Rightarrow> ingress_rule option" where
  "claude_rule_for name = rule_for claude_ingress_rules name"

definition is_claude_forwarded :: "string \<Rightarrow> bool" where
  "is_claude_forwarded name = (claude_rule_for name \<noteq> None)"

text \<open>The name of a payload's event, if it has one.\<close>

definition hook_event_name_of :: "json \<Rightarrow> string option" where
  "hook_event_name_of payload = scope_text payload ''hook_event_name''"

subsection \<open>What an event carries\<close>

text \<open>The fields the code looks for with \<^verbatim>\<open>in\<close>.\<close>

fun claude_source :: "claude_body \<Rightarrow> string option" where
  "claude_source (ClaudeSessionStart source) = Some source"
| "claude_source b = None"

fun claude_reason :: "claude_body \<Rightarrow> string option" where
  "claude_reason (ClaudeSessionEnd reason) = Some reason"
| "claude_reason b = None"

fun claude_notification_type :: "claude_body \<Rightarrow> string option" where
  "claude_notification_type (ClaudeNotification type message) = type"
| "claude_notification_type b = None"

fun claude_tool_name :: "claude_body \<Rightarrow> string option" where
  "claude_tool_name (ClaudePreToolUse tool input use) = Some tool"
| "claude_tool_name (ClaudePostToolUse tool use input response duration) = Some tool"
| "claude_tool_name (ClaudePermissionRequest tool input suggestions) = Some tool"
| "claude_tool_name b = None"

fun claude_tool_use_id :: "claude_body \<Rightarrow> string option" where
  "claude_tool_use_id (ClaudePreToolUse tool input use) = Some use"
| "claude_tool_use_id (ClaudePostToolUse tool use input response duration) = Some use"
| "claude_tool_use_id b = None"

fun claude_duration :: "claude_body \<Rightarrow> int option" where
  "claude_duration (ClaudePostToolUse tool use input response duration) = duration"
| "claude_duration b = None"

fun claude_stop_active :: "claude_body \<Rightarrow> bool option" where
  "claude_stop_active (ClaudeStop active message) = Some active"
| "claude_stop_active b = None"

fun claude_trigger :: "claude_body \<Rightarrow> string option" where
  "claude_trigger (ClaudePreCompact trigger) = trigger"
| "claude_trigger b = None"

definition claude_provider_data :: "claude_event \<Rightarrow> json" where
  "claude_provider_data e =
     (let b = cl_body e in JObj
       ([(''claudeSessionId'', JStr (cl_sessionId e)), (''hookEventName'', JStr (claude_event_name b)),
         (''cwd'', JStr (cl_cwd e))] @
        opt_field ''transcriptPath'' JStr (cl_transcriptPath e) @ opt_field ''permissionMode'' JStr (cl_permissionMode e) @
        opt_field ''source'' JStr (claude_source b) @ opt_field ''reason'' JStr (claude_reason b) @
        opt_field ''notificationType'' JStr (claude_notification_type b) @ opt_field ''toolName'' JStr (claude_tool_name b) @
        opt_field ''toolUseId'' JStr (claude_tool_use_id b) @ opt_field ''durationMs'' JNum (claude_duration b) @
        opt_field ''stopHookActive'' JBool (claude_stop_active b) @ opt_field ''trigger'' JStr (claude_trigger b) @
        wosm_provider_data (cl_ids e)))"

definition claude_correlation :: "claude_event \<Rightarrow> report_correlation" where
  "claude_correlation e =
     \<lparr>rc_harnessRunId = map_option (\<lambda>i. ''claude:'' @ i) (wi_terminalTargetId (cl_ids e)),
      rc_sessionId = wi_sessionId (cl_ids e), rc_worktreeId = wi_worktreeId (cl_ids e),
      rc_terminalTargetId = wi_terminalTargetId (cl_ids e), rc_projectId = wi_projectId (cl_ids e),
      rc_nativeSessionId = Some (cl_sessionId e), rc_nativeSessionFile = None, rc_cwd = Some (cl_cwd e), rc_pid = None\<rparr>"

definition claude_coalesce_key :: "claude_event \<Rightarrow> string option" where
  "claude_coalesce_key e =
     (let b = cl_body e in
      case tool_part (claude_tool_use_id b) (claude_tool_name b) of [] \<Rightarrow> None | part # _ \<Rightarrow> Some part)"

text \<open>Without a turn to name, the id of a report has the time it was observed.\<close>

definition claude_report_parts :: "timestamp \<Rightarrow> claude_event \<Rightarrow> string list" where
  "claude_report_parts observedAt e =
     (let b = cl_body e in
      [''claude'', cl_sessionId e, claude_event_name b] @ tool_part (claude_tool_use_id b) (claude_tool_name b) @
      opt_part ''type:'' (claude_notification_type b) @ opt_part ''source:'' (claude_source b) @
      opt_part ''reason:'' (claude_reason b) @ [observedAt])"

definition claude_report_id :: "json \<Rightarrow> timestamp \<Rightarrow> thrown + string" where
  "claude_report_id payload observedAt =
     (case claude_event_or_throw payload of
        Inl v \<Rightarrow> Inl v
      | Inr e \<Rightarrow> Inr (report_id_of (claude_report_parts observedAt e)))"

definition claude_report :: "string \<Rightarrow> timestamp \<Rightarrow> json \<Rightarrow> report_diagnostics \<Rightarrow> thrown + event_report" where
  "claude_report reportId observedAt payload diagnostics =
     (case claude_event_or_throw payload of
        Inl v \<Rightarrow> Inl v
      | Inr e \<Rightarrow>
          (let report = \<lparr>er_reportId = reportId, er_provider = ''claude'', er_eventType = claude_event_name (cl_body e),
             er_observedAt = observedAt, er_coalesceKey = claude_coalesce_key e,
             er_status = claude_status (cl_body e) observedAt, er_correlation = Some (claude_correlation e),
             er_diagnostics = Some (diagnostics_json (claude_event_name (cl_body e)) diagnostics),
             er_providerData = Some (claude_provider_data e)\<rparr>
           in if valid_event_report report then Inr report else Inl zod_error))"

text \<open>A named event that is not forwarded is left out before its fields are looked at.\<close>

definition claude_observation ::
  "timestamp \<Rightarrow> json \<Rightarrow> terminal_observation list \<Rightarrow> worktree_observation list \<Rightarrow> thrown + event_observation list" where
  "claude_observation observedAt payload targets worktrees =
     (if (case hook_event_name_of payload of None \<Rightarrow> False | Some name \<Rightarrow> \<not> is_claude_forwarded name) then Inr []
      else case claude_event_or_throw payload of
        Inl v \<Rightarrow> Inl v
      | Inr e \<Rightarrow>
          (let correlation = correlate_event ''claude'' (cl_ids e) (cl_cwd e) targets worktrees in
           Inr [\<lparr>eo_provider = ''claude'', eo_reportId = None, eo_eventType = None, eo_projectId = None,
             eo_sessionId = ky_sessionId correlation, eo_worktreeId = ky_worktreeId correlation,
             eo_terminalTargetId = None, eo_harnessRunId = ky_harnessRunId correlation,
             eo_nativeSessionId = Some (cl_sessionId e), eo_nativeSessionFile = None, eo_cwd = None, eo_pid = None,
             eo_status = claude_status (cl_body e) observedAt,
             eo_rawEventType = Some (claude_event_name (cl_body e)), eo_diagnostics = None,
             eo_providerData = Some (claude_provider_data e), eo_observedAt = observedAt\<rparr>]))"

subsection \<open>Compaction\<close>

definition claude_common_names :: "string list" where
  "claude_common_names = [''session_id'', ''transcript_path'', ''cwd'', ''hook_event_name'', ''permission_mode''] @ wosm_names"

definition claude_names_for_event :: "string \<Rightarrow> string list" where
  "claude_names_for_event name =
     claude_common_names @
     (if name = ''SessionStart'' then [''source'']
      else if name = ''UserPromptSubmit'' then [''prompt'']
      else if name = ''PreToolUse'' then [''tool_name'', ''tool_use_id'', ''tool_input'']
      else if name = ''PostToolUse'' then [''tool_name'', ''tool_use_id'', ''duration_ms'', ''tool_input'', ''tool_response'']
      else if name = ''PermissionRequest'' then [''tool_name'', ''tool_input'', ''permission_suggestions'']
      else if name = ''Notification'' then [''notification_type'', ''message'']
      else if name = ''PreCompact'' then [''trigger'']
      else if name = ''Stop'' then [''stop_hook_active'', ''last_assistant_message'']
      else if name = ''SessionEnd'' then [''reason'']
      else [''source'', ''trigger'', ''reason'', ''notification_type'', ''tool_name'', ''tool_use_id''])"

definition compact_claude_payload :: "json \<Rightarrow> payload_compaction" where
  "compact_claude_payload =
     compact_hook_payload claude_names_for_event [''tool_input'', ''tool_response'', ''permission_suggestions'']
       [''prompt'', ''message'']"

definition claude_hook_report :: "timestamp \<Rightarrow> payload_compaction \<Rightarrow> thrown + event_report" where
  "claude_hook_report receivedAt compaction =
     (case claude_report_id (cp_payload compaction) receivedAt of
        Inl v \<Rightarrow> Inl v
      | Inr reportId \<Rightarrow> claude_report reportId receivedAt (cp_payload compaction) (compaction_diagnostics compaction))"

end
