(* ===== verification/CursorHooks.thy ===== *)
theory CursorHooks
  imports HarnessPayload
begin

section \<open>Events of Cursor (integrations/harness/cursor/src/events.ts, compaction.ts)\<close>

text \<open>
  Cursor's hook events share one schema; the name of an event is any text. A payload is compacted, which keeps the fields
  the schema knows, before it is parsed.
\<close>

subsection \<open>Compaction and the schema\<close>

datatype cursor_stop = StopCompleted | StopAborted | StopError

record cursor_event =
  cu_hookEventName :: string
  cu_sessionId :: "string option"
  cu_conversationId :: "string option"
  cu_generationId :: "string option"
  cu_transcriptPath :: "string option option"
  cu_cwd :: "string option"
  cu_workspaceRoots :: "string list option"
  cu_model :: "string option"
  cu_cursorVersion :: "string option"
  cu_status :: "cursor_stop option"
  cu_toolName :: "string option"
  cu_toolUseId :: "string option"
  cu_requestId :: "string option"
  cu_messageId :: "string option"
  cu_ids :: wosm_ids

definition cursor_retained_names :: "string list" where
  "cursor_retained_names =
     [''hook_event_name'', ''session_id'', ''conversation_id'', ''generation_id'', ''transcript_path'', ''cwd'',
      ''workspace_roots'', ''model'', ''cursor_version'', ''status'', ''tool_name'', ''tool_use_id'', ''request_id'',
      ''message_id''] @ wosm_names"

definition compact_cursor_payload :: "json \<Rightarrow> payload_compaction" where
  "compact_cursor_payload payload =
     (case json_fields payload of
        None \<Rightarrow> \<lparr>cp_payload = payload, cp_compacted = False, cp_originalBytes = json_byte_count payload,
          cp_compactedBytes = json_byte_count payload, cp_omitted = []\<rparr>
      | Some fs \<Rightarrow>
          (let output = List.map_filter (\<lambda>name. map_option (Pair name) (map_of fs name)) cursor_retained_names;
               omitted = js_unique (filter (\<lambda>name. map_of output name = None) (map fst fs))
           in \<lparr>cp_payload = JObj output, cp_compacted = (omitted \<noteq> []), cp_originalBytes = json_byte_count payload,
               cp_compactedBytes = json_byte_count (JObj output), cp_omitted = sort_strings omitted\<rparr>))"

definition as_cursor_stop :: "json \<Rightarrow> cursor_stop option" where
  "as_cursor_stop v =
     (if v = JStr ''completed'' then Some StopCompleted else if v = JStr ''aborted'' then Some StopAborted
      else if v = JStr ''error'' then Some StopError else None)"

definition cursor_stop_text :: "cursor_stop \<Rightarrow> string" where
  "cursor_stop_text s = (case s of StopCompleted \<Rightarrow> ''completed'' | StopAborted \<Rightarrow> ''aborted'' | StopError \<Rightarrow> ''error'')"

definition cursor_schema :: "json \<Rightarrow> cursor_event option" where
  "cursor_schema payload =
     Option.bind (json_fields payload) (\<lambda>fs.
     Option.bind (need as_text fs ''hook_event_name'') (\<lambda>name.
     Option.bind (may as_text fs ''session_id'') (\<lambda>sessionId.
     Option.bind (may as_text fs ''conversation_id'') (\<lambda>conversationId.
     Option.bind (may as_text fs ''generation_id'') (\<lambda>generationId.
     Option.bind (may as_nullable fs ''transcript_path'') (\<lambda>transcriptPath.
     Option.bind (may as_text fs ''cwd'') (\<lambda>cwd.
     Option.bind (may as_texts fs ''workspace_roots'') (\<lambda>roots.
     Option.bind (may as_text fs ''model'') (\<lambda>model.
     Option.bind (may as_text fs ''cursor_version'') (\<lambda>version.
     Option.bind (may as_cursor_stop fs ''status'') (\<lambda>status.
     Option.bind (may as_text fs ''tool_name'') (\<lambda>toolName.
     Option.bind (may as_text fs ''tool_use_id'') (\<lambda>toolUseId.
     Option.bind (may as_text fs ''request_id'') (\<lambda>requestId.
     Option.bind (may as_text fs ''message_id'') (\<lambda>messageId.
     Option.bind (parse_wosm_ids fs) (\<lambda>ids.
     if strict_keys cursor_retained_names fs
     then Some \<lparr>cu_hookEventName = name, cu_sessionId = sessionId, cu_conversationId = conversationId,
       cu_generationId = generationId, cu_transcriptPath = transcriptPath, cu_cwd = cwd, cu_workspaceRoots = roots,
       cu_model = model, cu_cursorVersion = version, cu_status = status, cu_toolName = toolName,
       cu_toolUseId = toolUseId, cu_requestId = requestId, cu_messageId = messageId, cu_ids = ids\<rparr>
     else None))))))))))))))))"

definition cursor_error :: "string \<Rightarrow> string \<Rightarrow> thrown" where
  "cursor_error code message =
     ThrownObject ((basic_error ''HarnessProviderError'' code (code @ '': '' @ message))\<lparr>se_provider := Some ''cursor''\<rparr>) None"

definition parse_cursor_event :: "json \<Rightarrow> thrown + cursor_event" where
  "parse_cursor_event payload =
     (case cursor_schema (cp_payload (compact_cursor_payload payload)) of
        None \<Rightarrow> Inl (cursor_error ''HARNESS_CURSOR_EVENT_INVALID'' ''Cursor hook event did not match a supported strict schema.'')
      | Some e \<Rightarrow> Inr e)"

subsection \<open>Status\<close>

definition cursor_working_reason :: "cursor_event \<Rightarrow> string \<Rightarrow> string" where
  "cursor_working_reason e verb = ''Cursor '' @ verb @ '' '' @ nullish (cu_toolName e) ''a tool'' @ ''.''"

definition cursor_stop_status :: "cursor_event \<Rightarrow> timestamp \<Rightarrow> observed_status" where
  "cursor_stop_status e =
     (if cu_status e = Some StopError then harness_status AgentNeedsAttention High ''Cursor turn ended with an error.''
      else if cu_status e = Some StopAborted then harness_status AgentIdle Medium ''Cursor turn was aborted.''
      else harness_status AgentIdle High ''Cursor turn completed.'')"

definition cursor_status :: "cursor_event \<Rightarrow> timestamp \<Rightarrow> observed_status" where
  "cursor_status e =
     (let name = cu_hookEventName e in
      if name = ''sessionStart'' then harness_status AgentStarting High ''Cursor session started.''
      else if name = ''sessionEnd'' then harness_status AgentExited High ''Cursor session ended.''
      else if name = ''stop'' then cursor_stop_status e
      else if name \<in> set [''beforeShellExecution'', ''preToolUse'', ''beforeMCPExecution'', ''beforeReadFile'',
          ''beforeTabFileRead'']
      then harness_status AgentWorking Medium (cursor_working_reason e ''is about to use'')
      else if name \<in> set [''afterShellExecution'', ''afterMCPExecution'', ''afterFileEdit'', ''afterTabFileEdit'',
          ''postToolUse'', ''postToolUseFailure'']
      then harness_status AgentWorking Medium (cursor_working_reason e ''completed'')
      else if name \<in> set [''beforeSubmitPrompt'', ''afterAgentResponse'', ''afterAgentThought'', ''preCompact'',
          ''subagentStart'', ''subagentStop'']
      then harness_status AgentWorking Medium (''Cursor emitted '' @ name @ ''.'')
      else harness_status AgentWorking Low (''Cursor emitted '' @ name @ ''.''))"

subsection \<open>What an event carries\<close>

definition cursor_cwd :: "cursor_event \<Rightarrow> string option" where
  "cursor_cwd e = nullish_opt (cu_cwd e) (nullish_opt (wi_worktreePath (cu_ids e))
     (Option.bind (cu_workspaceRoots e) (\<lambda>roots. case roots of [] \<Rightarrow> None | r # _ \<Rightarrow> Some r)))"

definition cursor_native_session :: "cursor_event \<Rightarrow> string option" where
  "cursor_native_session e = nullish_opt (cu_sessionId e) (cu_conversationId e)"

definition cursor_provider_data :: "cursor_event \<Rightarrow> json" where
  "cursor_provider_data e = JObj
     ([(''hookEventName'', JStr (cu_hookEventName e))] @
      opt_field ''cursorSessionId'' JStr (cu_sessionId e) @ opt_field ''cursorConversationId'' JStr (cu_conversationId e) @
      opt_field ''cursorGenerationId'' JStr (cu_generationId e) @
      opt_field ''transcriptPath'' json_nullable (cu_transcriptPath e) @ opt_field ''cwd'' JStr (cursor_cwd e) @
      opt_field ''workspaceRoots'' (\<lambda>roots. JArr (map JStr roots)) (cu_workspaceRoots e) @
      opt_field ''model'' JStr (cu_model e) @ opt_field ''cursorVersion'' JStr (cu_cursorVersion e) @
      opt_field ''cursorStopStatus'' (\<lambda>s. JStr (cursor_stop_text s)) (cu_status e) @
      opt_field ''toolName'' JStr (cu_toolName e) @ opt_field ''toolUseId'' JStr (cu_toolUseId e) @
      opt_field ''requestId'' JStr (cu_requestId e) @ opt_field ''messageId'' JStr (cu_messageId e) @
      wosm_provider_data (cu_ids e))"

definition cursor_correlation :: "cursor_event \<Rightarrow> report_correlation option" where
  "cursor_correlation e =
     (let correlation = \<lparr>rc_harnessRunId = map_option (\<lambda>i. ''cursor:'' @ i) (wi_terminalTargetId (cu_ids e)),
        rc_sessionId = wi_sessionId (cu_ids e), rc_worktreeId = wi_worktreeId (cu_ids e),
        rc_terminalTargetId = wi_terminalTargetId (cu_ids e), rc_projectId = wi_projectId (cu_ids e),
        rc_nativeSessionId = cursor_native_session e, rc_nativeSessionFile = None, rc_cwd = cursor_cwd e, rc_pid = None\<rparr>
      in if rc_harnessRunId correlation = None \<and> rc_sessionId correlation = None \<and> rc_worktreeId correlation = None \<and>
            rc_terminalTargetId correlation = None \<and> rc_projectId correlation = None \<and>
            rc_nativeSessionId correlation = None \<and> rc_cwd correlation = None
         then None else Some correlation)"

definition cursor_coalesce_key :: "cursor_event \<Rightarrow> string option" where
  "cursor_coalesce_key e =
     (let parts = opt_part ''native:'' (cursor_native_session e) @ opt_part ''generation:'' (cu_generationId e) @
        tool_part (cu_toolUseId e) (cu_toolName e)
      in if parts = [] then None else Some (str_join '':'' parts))"

definition cursor_terminal :: "cursor_event \<Rightarrow> terminal_observation list \<Rightarrow> terminal_observation option" where
  "cursor_terminal e targets =
     nullish_opt (terminal_for_id (wi_terminalTargetId (cu_ids e)) targets)
       (Option.bind (cursor_cwd e) (\<lambda>cwd. terminal_for_cwd cwd targets))"

text \<open>The worktree of a path is the first that contains it, be there one with just that path or not.\<close>

definition cursor_worktree :: "cursor_event \<Rightarrow> worktree_observation list \<Rightarrow> worktree_observation option" where
  "cursor_worktree e worktrees =
     nullish_opt (worktree_for_id (wi_worktreeId (cu_ids e)) worktrees)
       (nullish_opt (worktree_for_path (wi_worktreePath (cu_ids e)) worktrees)
         (Option.bind (cursor_cwd e) (\<lambda>cwd. find (\<lambda>w. observed_path_is_same_or_inside cwd (wo_path w)) worktrees)))"

definition cursor_report :: "string \<Rightarrow> timestamp \<Rightarrow> json \<Rightarrow> report_diagnostics \<Rightarrow> thrown + event_report" where
  "cursor_report reportId observedAt payload diagnostics =
     (case parse_cursor_event payload of
        Inl v \<Rightarrow> Inl v
      | Inr e \<Rightarrow>
          (let report = \<lparr>er_reportId = reportId, er_provider = ''cursor'', er_eventType = cu_hookEventName e,
             er_observedAt = observedAt, er_coalesceKey = cursor_coalesce_key e,
             er_status = Some (cursor_status e observedAt), er_correlation = cursor_correlation e,
             er_diagnostics = Some (diagnostics_json (cu_hookEventName e) diagnostics),
             er_providerData = Some (cursor_provider_data e)\<rparr>
           in if valid_event_report report then Inr report else Inl zod_error))"

definition cursor_observation ::
  "timestamp \<Rightarrow> json \<Rightarrow> terminal_observation list \<Rightarrow> worktree_observation list \<Rightarrow> thrown + event_observation list" where
  "cursor_observation observedAt payload targets worktrees =
     (case parse_cursor_event payload of
        Inl v \<Rightarrow> Inl v
      | Inr e \<Rightarrow>
          (let c = locate_event ''cursor'' (cu_ids e) (cursor_terminal e targets) (cursor_worktree e worktrees) in
           Inr [\<lparr>eo_provider = ''cursor'', eo_reportId = None, eo_eventType = None, eo_projectId = ly_projectId c,
             eo_sessionId = ly_sessionId c, eo_worktreeId = ly_worktreeId c,
             eo_terminalTargetId = ly_terminalTargetId c, eo_harnessRunId = ly_harnessRunId c,
             eo_nativeSessionId = cursor_native_session e, eo_nativeSessionFile = None, eo_cwd = cursor_cwd e,
             eo_pid = None, eo_status = Some (cursor_status e observedAt),
             eo_rawEventType = Some (cu_hookEventName e), eo_diagnostics = None,
             eo_providerData = Some (cursor_provider_data e), eo_observedAt = observedAt\<rparr>]))"

end
