(* ===== verification/HookSenders.thy ===== *)
theory HookSenders
  imports HookDelivery CodexHooks ClaudeHooks CursorHooks
begin

section \<open>Sending the hooks of the harnesses (packages/provider-hooks/src/sender.ts)\<close>

text \<open>
  The process a harness runs for a hook: it adds the identity of the wosm session, leaves the hook alone if there is none,
  compacts the payload, makes a report of it and sends the report. Whatever is thrown on the way becomes a rejected receipt.
\<close>

subsection \<open>The identity of the session (contracts/src/hooks.ts)\<close>

definition parse_hook_event_name :: "json \<Rightarrow> string option" where
  "parse_hook_event_name payload =
     Option.bind (json_fields payload) (\<lambda>fs. nullish (may as_text fs ''hook_event_name'') None)"

definition enrich_wosm_identity :: "(string \<Rightarrow> string option) \<Rightarrow> json \<Rightarrow> json" where
  "enrich_wosm_identity env payload =
     (case Option.bind (json_fields payload) parse_wosm_ids of
        None \<Rightarrow> payload
      | Some _ \<Rightarrow> enrich_payload env payload)"

definition has_wosm_ownership :: "json \<Rightarrow> bool" where
  "has_wosm_ownership payload =
     (case Option.bind (json_fields payload) parse_wosm_ids of
        None \<Rightarrow> False
      | Some ids \<Rightarrow> wi_sessionId ids \<noteq> None \<and> wi_worktreeId ids \<noteq> None)"

subsection \<open>Receipts of hooks that are not sent\<close>

definition ignored_hook_receipt :: "sender \<Rightarrow> provider_id \<Rightarrow> string \<Rightarrow> hook_receipt hook_action" where
  "ignored_hook_receipt sd provider event =
     and_then (observe (sn_hookId sd)) (\<lambda>hookId.
     and_then (observe (sn_now sd)) (\<lambda>receivedAt.
     parsed valid_hook_receipt
       \<lparr>hr_hookId = hookId, hr_provider = provider, hr_event = event, hr_accepted = False, hr_status = HookIgnored,
        hr_receivedAt = receivedAt, hr_reconciled = None, hr_spooled = None, hr_deduped = None, hr_error = None\<rparr>))"

definition rejected_hook_receipt :: "sender \<Rightarrow> provider_id \<Rightarrow> string \<Rightarrow> thrown \<Rightarrow> hook_receipt hook_action" where
  "rejected_hook_receipt sd provider event v =
     and_then (observe (sn_hookId sd)) (\<lambda>hookId.
     and_then (observe (sn_now sd)) (\<lambda>receivedAt.
     parsed valid_hook_receipt
       \<lparr>hr_hookId = hookId, hr_provider = provider, hr_event = event, hr_accepted = False, hr_status = HookRejected,
        hr_receivedAt = receivedAt, hr_reconciled = None, hr_spooled = None, hr_deduped = None,
        hr_error = Some (safe_error_from_unknown v (error_with ''HookPayloadError'' ''HOOK_REPORT_INVALID''
          ''Provider hook payload could not be normalized to a harness event report.'' (Some provider)))\<rparr>))"

text \<open>The try block of a sender: build the report, send it, translate the receipt.\<close>

definition report_or_reject ::
  "sender \<Rightarrow> delivery_options \<Rightarrow> (event_report \<Rightarrow> report_receipt attempt hook_action) \<Rightarrow> provider_id \<Rightarrow> string \<Rightarrow>
     event_report hook_action \<Rightarrow> hook_receipt hook_action" where
  "report_or_reject sd opts request provider event build =
     catching
       (and_then build (\<lambda>report. and_then (send_harness_event_report sd opts request report) (\<lambda>receipt.
          parsed valid_hook_receipt (hook_receipt_from_report_receipt receipt))))
       (rejected_hook_receipt sd provider event)"

subsection \<open>The senders\<close>

text \<open>\<open>given\<close>: ids from the caller, which come before the ones the adapters make.\<close>

definition send_codex_hook_payload ::
  "sender \<Rightarrow> delivery_options \<Rightarrow> (event_report \<Rightarrow> report_receipt attempt hook_action) \<Rightarrow> (nat \<Rightarrow> string) option \<Rightarrow>
     (string \<Rightarrow> string option) \<Rightarrow> json \<Rightarrow> hook_receipt hook_action" where
  "send_codex_hook_payload sd opts request given env payload =
     (let enriched = enrich_wosm_identity env payload;
          name = nullish (parse_hook_event_name enriched) ''unknown''
      in if \<not> has_wosm_ownership enriched then ignored_hook_receipt sd ''codex'' name
         else let compaction = compact_codex_payload enriched in
           report_or_reject sd opts request ''codex'' name
             (and_then (case given of
                 Some newId \<Rightarrow> observe newId
               | None \<Rightarrow> settle (codex_report_id (cp_payload compaction))) (\<lambda>reportId.
              and_then (observe (sn_now sd)) (\<lambda>observedAt.
              settle (codex_report reportId observedAt (cp_payload compaction) (compaction_diagnostics compaction))))))"

definition send_claude_hook_payload ::
  "sender \<Rightarrow> delivery_options \<Rightarrow> (event_report \<Rightarrow> report_receipt attempt hook_action) \<Rightarrow> (nat \<Rightarrow> string) option \<Rightarrow>
     (string \<Rightarrow> string option) \<Rightarrow> json \<Rightarrow> hook_receipt hook_action" where
  "send_claude_hook_payload sd opts request given env payload =
     (let enriched = enrich_wosm_identity env payload;
          name = nullish (parse_hook_event_name enriched) ''unknown''
      in if \<not> has_wosm_ownership enriched then ignored_hook_receipt sd ''claude'' name
         else if \<not> is_claude_forwarded name then ignored_hook_receipt sd ''claude'' name
         else let compaction = compact_claude_payload enriched in
           report_or_reject sd opts request ''claude'' name
             (and_then (observe (sn_now sd)) (\<lambda>observedAt.
              and_then (case given of
                 Some newId \<Rightarrow> observe newId
               | None \<Rightarrow> settle (claude_report_id (cp_payload compaction) observedAt)) (\<lambda>reportId.
              settle (claude_report reportId observedAt (cp_payload compaction) (compaction_diagnostics compaction))))))"

definition send_cursor_hook_payload ::
  "sender \<Rightarrow> delivery_options \<Rightarrow> (event_report \<Rightarrow> report_receipt attempt hook_action) \<Rightarrow>
     (string \<Rightarrow> string option) \<Rightarrow> json \<Rightarrow> hook_receipt hook_action" where
  "send_cursor_hook_payload sd opts request env payload =
     (let enriched = enrich_wosm_identity env payload;
          name = nullish (parse_hook_event_name enriched) ''unknown''
      in if \<not> has_wosm_ownership enriched then ignored_hook_receipt sd ''cursor'' name
         else let compaction = compact_cursor_payload enriched in
           report_or_reject sd opts request ''cursor'' name
             (and_then (observe (sn_hookId sd)) (\<lambda>reportId.
              and_then (observe (sn_now sd)) (\<lambda>observedAt.
              settle (cursor_report reportId observedAt (cp_payload compaction) (compaction_diagnostics compaction))))))"

end
