(* ===== verification/HarnessHookProperties.thy ===== *)
theory HarnessHookProperties
  imports CodexHooks
begin

section \<open>What hook payloads become\<close>

text \<open>
  What holds of the adapters of the harnesses: the id of a report tells events apart as far as it should, compacting a
  payload changes nothing of what is reported, and a payload that fits the schema is always reported.
\<close>

subsection \<open>Report ids\<close>

lemma code_unit_hex: "d < 16 \<Longrightarrow> code_unit (hex_upper d) = (if d < 10 then 48 + d else 55 + d)"
  by (simp add: hex_upper_def)

lemma hex_upper_inj: "d < 16 \<Longrightarrow> d' < 16 \<Longrightarrow> hex_upper d = hex_upper d' \<Longrightarrow> d = d'"
  by (drule arg_cong [where f = code_unit]) (simp add: code_unit_hex split: if_splits)

lemma percent_byte_inj:
  assumes "n < 256" "m < 256" "percent_byte n @ x = percent_byte m @ y"
  shows "n = m \<and> x = y"
proof -
  from assms have "n div 16 = m div 16" "n mod 16 = m mod 16"
    by (auto simp: percent_byte_def intro: hex_upper_inj)
  then show ?thesis using assms(3) by (metis append_eq_append_conv div_mult_mod_eq)
qed

lemma unreserved_not_percent: "uri_unreserved c \<Longrightarrow> c \<noteq> CHR 0x25"
  by (auto simp: uri_unreserved_def Let_def code_unit_def)

lemma code_unit_inj: "code_unit a = code_unit b \<Longrightarrow> a = b"
  by (metis char_of_code_unit)

lemma encode_uri_char_cases:
  obtains "uri_unreserved c" "encode_uri_char c = [c]"
  | "\<not> uri_unreserved c" "code_unit c < 128" "encode_uri_char c = percent_byte (code_unit c)"
  | "\<not> uri_unreserved c" "128 \<le> code_unit c"
    "encode_uri_char c = percent_byte (192 + code_unit c div 64) @ percent_byte (128 + code_unit c mod 64)"
  by (cases "uri_unreserved c"; cases "code_unit c < 128") (simp_all add: encode_uri_char_def Let_def)

lemma encode_uri_char_prefix:
  assumes "encode_uri_char a @ x = encode_uri_char b @ y"
  shows "a = b \<and> x = y"
proof -
  have head: "percent_byte n = CHR 0x25 # tl (percent_byte n)" for n by (simp add: percent_byte_def)
  have bound: "192 + code_unit c div 64 < 256" "128 + code_unit c mod 64 < 256" "128 \<le> code_unit c \<Longrightarrow> 194 \<le> 192 + code_unit c div 64" for c
    using code_unit_less [of c] by auto
  have two: "a = b" if "192 + code_unit a div 64 = 192 + code_unit b div 64" "128 + code_unit a mod 64 = 128 + code_unit b mod 64"
    using that by (intro code_unit_inj) (metis add_left_cancel div_mult_mod_eq)
  show ?thesis
  proof (cases a rule: encode_uri_char_cases)
    case 1
    with assms show ?thesis
      by (cases b rule: encode_uri_char_cases) (auto simp: percent_byte_def dest: unreserved_not_percent)
  next
    case a: 2
    show ?thesis
    proof (cases b rule: encode_uri_char_cases)
      case 1
      with a assms show ?thesis by (auto simp: percent_byte_def dest: unreserved_not_percent)
    next
      case 2
      with a assms percent_byte_inj [of "code_unit a" "code_unit b" x y] show ?thesis by (auto intro: code_unit_inj)
    next
      case 3
      with a assms percent_byte_inj [of "code_unit a" "192 + code_unit b div 64" x] bound [of b] show ?thesis by fastforce
    qed
  next
    case a: 3
    show ?thesis
    proof (cases b rule: encode_uri_char_cases)
      case 1
      with a assms show ?thesis by (auto simp: percent_byte_def dest: unreserved_not_percent)
    next
      case 2
      with a assms percent_byte_inj [of "192 + code_unit a div 64" "code_unit b" _ y] bound [of a] show ?thesis by fastforce
    next
      case 3
      with a assms have "percent_byte (192 + code_unit a div 64) @ (percent_byte (128 + code_unit a mod 64) @ x) =
          percent_byte (192 + code_unit b div 64) @ (percent_byte (128 + code_unit b mod 64) @ y)" by simp
      with percent_byte_inj [OF bound(1) bound(1) this] percent_byte_inj [OF bound(2) bound(2)] two show ?thesis by blast
    qed
  qed
qed

lemma encode_uri_char_nonempty [simp]: "encode_uri_char c \<noteq> []"
  by (cases c rule: encode_uri_char_cases) (simp_all add: percent_byte_def)

lemma encode_uri_component_inj: "encode_uri_component s = encode_uri_component t \<Longrightarrow> s = t"
proof (induction s arbitrary: t)
  case Nil
  then show ?case by (cases t) (auto simp: encode_uri_component_def)
next
  case (Cons c s)
  show ?case
  proof (cases t)
    case Nil
    with Cons.prems show ?thesis by (simp add: encode_uri_component_def)
  next
    case (Cons d u)
    with Cons.prems have "encode_uri_char c @ encode_uri_component s = encode_uri_char d @ encode_uri_component u"
      by (simp add: encode_uri_component_def)
    from encode_uri_char_prefix [OF this] Cons.IH Cons show ?thesis by blast
  qed
qed

lemma encode_uri_no_colon: "CHR '':'' \<notin> set (encode_uri_component s)"
proof -
  have hex: "d < 16 \<Longrightarrow> hex_upper d \<noteq> CHR '':''" for d
    using code_unit_hex [of d] by (auto simp: code_unit_def split: if_splits)
  have byte: "n < 256 \<Longrightarrow> CHR '':'' \<notin> set (percent_byte n)" for n
    using hex [of "n div 16"] hex [of "n mod 16"] less_mult_imp_div_less [of n 16 16] by (auto simp: percent_byte_def)
  have high: "192 + code_unit c div 64 < 256" "128 + code_unit c mod 64 < 256" for c
    using code_unit_less [of c] by auto
  have "CHR '':'' \<notin> set (encode_uri_char c)" for c
    using byte [OF code_unit_less [of c]] byte [OF high(1) [of c]] byte [OF high(2) [of c]]
    by (cases c rule: encode_uri_char_cases) (auto simp: uri_unreserved_def Let_def code_unit_def)
  then show ?thesis by (simp add: encode_uri_component_def)
qed

lemma split_at_first:
  "a @ c # u = b @ c # v \<Longrightarrow> c \<notin> set a \<Longrightarrow> c \<notin> set b \<Longrightarrow> a = b \<and> u = v"
  by (induction a arbitrary: b) (case_tac b, auto)+

lemma str_join_colon_inj:
  assumes "str_join '':'' xs = str_join '':'' ys" "xs \<noteq> []" "ys \<noteq> []"
    "\<forall>s \<in> set xs. CHR '':'' \<notin> set s" "\<forall>s \<in> set ys. CHR '':'' \<notin> set s"
  shows "xs = ys"
  using assms
proof (induction xs arbitrary: ys)
  case Nil
  then show ?case by simp
next
  case (Cons x xs)
  obtain y zs where ys: "ys = y # zs" using Cons.prems(3) by (cases ys) auto
  show ?case
  proof (cases xs)
    case Nil
    then show ?thesis using Cons.prems ys by (cases zs) auto
  next
    case x: (Cons x' xs')
    show ?thesis
    proof (cases zs)
      case Nil
      then show ?thesis using Cons.prems ys x by auto
    next
      case z: (Cons z' zs')
      with Cons.prems(1) ys x have "x @ CHR '':'' # str_join '':'' xs = y @ CHR '':'' # str_join '':'' zs" by simp
      from split_at_first [OF this] Cons.prems(4,5) ys have "x = y" "str_join '':'' xs = str_join '':'' zs" by auto
      with Cons.IH [of zs] Cons.prems(4,5) ys x z show ?thesis by auto
    qed
  qed
qed

lemma report_id_inj:
  assumes "report_id_of xs = report_id_of ys" "xs \<noteq> []" "ys \<noteq> []"
  shows "xs = ys"
proof -
  have "map encode_uri_component xs = map encode_uri_component ys"
    using assms str_join_colon_inj [of "map encode_uri_component xs" "map encode_uri_component ys"] encode_uri_no_colon
    by (auto simp: report_id_of_def)
  then show ?thesis by (rule map_injective) (rule injI, rule encode_uri_component_inj)
qed

definition codex_identity ::
  "codex_event \<Rightarrow> string \<times> string \<times> string option \<times> string option \<times> string option \<times> string option \<times> string option" where
  "codex_identity e =
     (cx_sessionId e, codex_event_name (cx_body e), codex_turn_id (cx_body e),
      nullish_opt (codex_tool_use_id (cx_body e)) (codex_tool_name (cx_body e)),
      codex_agent_id (cx_body e), codex_trigger (cx_body e), codex_source (cx_body e))"

lemma codex_parts_iff: "codex_report_parts e = codex_report_parts e' \<longleftrightarrow> codex_identity e = codex_identity e'"
  by (cases "cx_body e"; cases "cx_body e'")
    (auto simp: codex_report_parts_def codex_identity_def Let_def opt_part_def tool_part_def codex_agent_id_def nullish_opt_def
      split: option.splits)

text \<open>C26: Codex events get the same report id exactly if they are events of the same name, of one native session and turn, with
  the same use of a tool (or tool, if the event names no use), the same subagent, trigger and source. So no two tool calls
  share an id; two permission requests for the same tool in one turn do.\<close>

theorem codex_report_ids_tell_apart:
  assumes "parse_codex_event p = Some e" and "parse_codex_event p' = Some e'"
  shows "codex_report_id p = codex_report_id p' \<longleftrightarrow> codex_identity e = codex_identity e'"
proof -
  have "codex_report_parts x \<noteq> []" for x by (simp add: codex_report_parts_def Let_def)
  then have "report_id_of (codex_report_parts e) = report_id_of (codex_report_parts e') \<longleftrightarrow>
      codex_report_parts e = codex_report_parts e'"
    using report_id_inj by metis
  then show ?thesis using assms by (simp add: codex_report_id_def codex_event_or_throw_def codex_parts_iff)
qed

subsection \<open>Compaction\<close>

lemma map_of_present:
  "map_of (List.map_filter (\<lambda>name. map_option (Pair name) (m name)) names) k = (if k \<in> set names then m k else None)"
  by (induction names) (auto simp: List.map_filter_simps split: option.split)

lemma map_of_replaced:
  "map_of (map (\<lambda>(name, v). (name, f name v)) fs) k = map_option (f k) (map_of fs k)"
  by (induction fs) auto

lemma compact_lookup:
  assumes "json_fields payload = Some fs"
  obtains copy where "cp_payload (compact_hook_payload names objects texts payload) = JObj copy"
    "\<And>k. map_of copy k =
      (if k \<in> set (objects @ texts @ [assistant_message]) then map_option (replaced_field objects texts k) (map_of fs k)
       else if k \<in> set (names (nullish (Option.bind (map_of fs ''hook_event_name'') as_string) [])) then map_of fs k else None)"
proof -
  let ?replaced = "objects @ texts @ [assistant_message]"
  let ?present = "\<lambda>name. map_option (Pair name) (map_of fs name)"
  let ?name = "nullish (Option.bind (map_of fs ''hook_event_name'') as_string) []"
  let ?copied = "List.map_filter ?present (filter (\<lambda>name. name \<notin> set ?replaced) (names ?name))"
  let ?changed = "map (\<lambda>(name, v). (name, replaced_field objects texts name v)) (List.map_filter ?present ?replaced)"
  have "map_of (?copied @ ?changed) k =
      (if k \<in> set ?replaced then map_option (replaced_field objects texts k) (map_of fs k)
       else if k \<in> set (names ?name) then map_of fs k else None)" for k
    unfolding map_of_append map_add_def map_of_replaced map_of_present by (auto split: option.split)
  moreover have "cp_payload (compact_hook_payload names objects texts payload) = JObj (?copied @ ?changed)"
    using assms by (simp add: compact_hook_payload_def Let_def)
  ultimately show thesis by (rule that [rotated])
qed

text \<open>Events that differ only in what compaction replaces.\<close>

definition codex_alike :: "codex_body \<Rightarrow> codex_body \<Rightarrow> bool" where
  "codex_alike b b' \<longleftrightarrow> codex_event_name b' = codex_event_name b \<and> codex_turn_of b' = codex_turn_of b \<and>
     codex_turn_id b' = codex_turn_id b \<and> codex_source b' = codex_source b \<and> codex_tool_name b' = codex_tool_name b \<and>
     codex_tool_use_id b' = codex_tool_use_id b \<and> codex_agent_transcript b' = codex_agent_transcript b \<and>
     codex_trigger b' = codex_trigger b \<and> (\<forall>t. codex_status b' t = codex_status b t)"

lemma placeholder_text [simp]: "compacted_text_placeholder name n \<noteq> []"
  by (simp add: compacted_text_placeholder_def)

lemma ex_Some_case: "(\<exists>y. x = Some y \<and> P y) \<longleftrightarrow> (case x of None \<Rightarrow> False | Some y \<Rightarrow> P y)"
  by (simp split: option.split)

lemma parse_codex_body_compacted:
  assumes "parse_codex_body name fs = Some b"
    and lookup: "\<And>k. k \<in> set (codex_body_names name) \<Longrightarrow> map_of fs' k =
      (if k \<in> set [''tool_input'', ''tool_response'', ''prompt'', ''last_assistant_message'']
       then map_option (replaced_field [''tool_input'', ''tool_response''] [''prompt''] k) (map_of fs k) else map_of fs k)"
  shows "\<exists>b'. parse_codex_body name fs' = Some b' \<and> codex_alike b b'"
proof -
  have kept: "map_of fs' k = map_of fs k" if "k \<in> set (codex_body_names name)"
      "k \<notin> set [''tool_input'', ''tool_response'', ''prompt'', ''last_assistant_message'']" for k
    using lookup [OF that(1)] that(2) by simp
  have gone: "map_of fs' k = map_option (replaced_field [''tool_input'', ''tool_response''] [''prompt''] k) (map_of fs k)"
    if "k \<in> set (codex_body_names name)" "k \<in> set [''tool_input'', ''tool_response'', ''prompt'', ''last_assistant_message'']" for k
    using lookup [OF that(1)] that(2) by simp
  have turn: "parse_codex_turn fs' = parse_codex_turn fs" if "set codex_turn_names \<subseteq> set (codex_body_names name)"
    using that kept [of "''turn_id''"] kept [of "''agent_id''"] kept [of "''agent_type''"]
    by (simp add: parse_codex_turn_def need_def may_def codex_turn_names_def)
  note names = codex_body_names_def codex_turn_names_def need_def replaced_field_def codex_alike_def bind_eq_Some_conv
  consider "name = ''SessionStart''" | "name = ''UserPromptSubmit''" | "name = ''PreToolUse''" | "name = ''PermissionRequest''"
    | "name = ''PostToolUse''" | "name = ''PreCompact''" | "name = ''PostCompact''" | "name = ''SubagentStart''"
    | "name = ''SubagentStop''" | "name = ''Stop''"
    using assms(1) unfolding parse_codex_body_def by (auto split: if_splits)
  then show ?thesis
  proof cases
    case 1
    with assms(1) kept [of "''source''"] show ?thesis by (auto simp: parse_codex_body_def names)
  next
    case 2
    with assms(1) turn gone [of "''prompt''"] show ?thesis unfolding ex_Some_case by (auto simp: parse_codex_body_def names)
  next
    case 3
    with assms(1) turn kept [of "''tool_name''"] kept [of "''tool_use_id''"] show ?thesis
      unfolding ex_Some_case by (auto simp: parse_codex_body_def names)
  next
    case 4
    with assms(1) turn kept [of "''tool_name''"] show ?thesis unfolding ex_Some_case by (auto simp: parse_codex_body_def names)
  next
    case 5
    with assms(1) turn kept [of "''tool_name''"] kept [of "''tool_use_id''"] show ?thesis
      unfolding ex_Some_case by (auto simp: parse_codex_body_def names)
  next
    case 6
    with assms(1) turn kept [of "''trigger''"] show ?thesis unfolding ex_Some_case by (auto simp: parse_codex_body_def names)
  next
    case 7
    with assms(1) turn kept [of "''trigger''"] show ?thesis unfolding ex_Some_case by (auto simp: parse_codex_body_def names)
  next
    case 8
    with assms(1) kept [of "''turn_id''"] kept [of "''agent_id''"] kept [of "''agent_type''"] show ?thesis
      unfolding ex_Some_case by (auto simp: parse_codex_body_def names)
  next
    case 9
    with assms(1) kept [of "''turn_id''"] kept [of "''agent_id''"] kept [of "''agent_type''"]
      kept [of "''agent_transcript_path''"] kept [of "''stop_hook_active''"] gone [of "''last_assistant_message''"] show ?thesis
      unfolding ex_Some_case by (auto simp: parse_codex_body_def names)
  next
    case 10
    with assms(1) kept [of "''turn_id''"] kept [of "''stop_hook_active''"] gone [of "''last_assistant_message''"] show ?thesis
      unfolding ex_Some_case by (auto simp: parse_codex_body_def names)
  qed
qed

lemma codex_alike_facts:
  assumes "codex_alike (cx_body e) (cx_body e')" "cx_sessionId e' = cx_sessionId e" "cx_cwd e' = cx_cwd e" "cx_model e' = cx_model e"
    "cx_permissionMode e' = cx_permissionMode e" "cx_ids e' = cx_ids e"
  shows "codex_provider_data e' = codex_provider_data e" "codex_correlation e' = codex_correlation e"
    "codex_coalesce_key e' = codex_coalesce_key e" "codex_report_parts e' = codex_report_parts e"
  using assms
  by (simp_all add: codex_alike_def codex_provider_data_def codex_correlation_def codex_coalesce_key_def codex_report_parts_def
      codex_agent_id_def codex_agent_type_def Let_def)

lemma parse_codex_compacted:
  assumes "parse_codex_event p = Some e"
  obtains e' where "parse_codex_event (cp_payload (compact_codex_payload p)) = Some e'" "codex_alike (cx_body e) (cx_body e')"
    "cx_sessionId e' = cx_sessionId e" "cx_cwd e' = cx_cwd e" "cx_model e' = cx_model e"
    "cx_permissionMode e' = cx_permissionMode e" "cx_ids e' = cx_ids e"
proof -
  from assms obtain fs name body where fs: "json_fields p = Some fs" "map_of fs ''hook_event_name'' = Some (JStr name)"
    and body: "parse_codex_body name fs = Some body" "cx_body e = body"
    and strict: "strict_keys (codex_common_names @ codex_body_names name) fs"
    by (auto simp: parse_codex_event_def need_def bind_eq_Some_conv split: if_splits elim!: as_string.elims)
  let ?replaced = "[''tool_input'', ''tool_response'', ''prompt'', ''last_assistant_message'']"
  have name: "nullish (Option.bind (map_of fs ''hook_event_name'') as_string) [] = name"
    by (simp add: fs(2) nullish_def)
  obtain copy where copy: "cp_payload (compact_codex_payload p) = JObj copy"
    and lookup: "\<And>k. map_of copy k = (if k \<in> set ?replaced
        then map_option (replaced_field [''tool_input'', ''tool_response''] [''prompt''] k) (map_of fs k)
      else if k \<in> set (codex_names_for_event name) then map_of fs k else None)"
    by (rule compact_lookup [OF fs(1), of codex_names_for_event "[''tool_input'', ''tool_response'']" "[''prompt'']",
          unfolded name assistant_message_def append.simps]) (simp add: compact_codex_payload_def)
  have known: "codex_names_for_event name = codex_common_names @ codex_body_names name"
    using body(1) by (auto simp: codex_names_for_event_def parse_codex_body_def split: if_splits)
  have common: "map_of copy k = map_of fs k" if "k \<in> set codex_common_names" for k
    using that lookup [of k] known by (auto simp: codex_common_names_def wosm_names_def)
  have own: "map_of copy k = (if k \<in> set ?replaced
        then map_option (replaced_field [''tool_input'', ''tool_response''] [''prompt''] k) (map_of fs k) else map_of fs k)"
    if "k \<in> set (codex_body_names name)" for k
    using that by (simp add: lookup known)
  obtain body' where body': "parse_codex_body name copy = Some body'" "codex_alike body body'"
    using parse_codex_body_compacted [OF body(1) own] by blast
  have "strict_keys (codex_common_names @ codex_body_names name) copy"
    unfolding strict_keys_def
  proof
    fix k
    assume "k \<in> fst ` set copy"
    then have "map_of copy k \<noteq> None" by (simp add: map_of_eq_None_iff)
    then have "k \<in> set (codex_names_for_event name) \<or> map_of fs k \<noteq> None"
      using lookup [of k] by (auto split: if_splits)
    with strict known show "k \<in> set (codex_common_names @ codex_body_names name)"
      by (auto simp: strict_keys_def map_of_eq_None_iff)
  qed
  moreover have "parse_wosm_ids copy = parse_wosm_ids fs"
    using common by (simp add: parse_wosm_ids_def may_def codex_common_names_def wosm_names_def)
  moreover have "map_of copy ''session_id'' = map_of fs ''session_id''" "map_of copy ''transcript_path'' = map_of fs ''transcript_path''"
    "map_of copy ''cwd'' = map_of fs ''cwd''" "map_of copy ''model'' = map_of fs ''model''"
    "map_of copy ''hook_event_name'' = map_of fs ''hook_event_name''" "map_of copy ''permission_mode'' = map_of fs ''permission_mode''"
    by (rule common, simp add: codex_common_names_def)+
  ultimately have "parse_codex_event (JObj copy) = Some (e\<lparr>cx_body := body'\<rparr>)"
    using assms fs body body' by (cases e) (auto simp: parse_codex_event_def bind_eq_Some_conv need_def may_def split: if_splits)
  with body body' copy show thesis by (intro that [of "e\<lparr>cx_body := body'\<rparr>"]) simp_all
qed

text \<open>C25: Compaction takes nothing from what is reported. If a Codex payload fits the schema, so does what compaction makes of it,
  and the two have the same report id, become the same report (whatever the diagnostics say of their size) and the same
  observation.\<close>

theorem codex_compaction_is_transparent:
  assumes "parse_codex_event p = Some e"
  shows "codex_report_id (cp_payload (compact_codex_payload p)) = codex_report_id p \<and>
    codex_report i t (cp_payload (compact_codex_payload p)) d = codex_report i t p d \<and>
    codex_observation t (cp_payload (compact_codex_payload p)) targets worktrees = codex_observation t p targets worktrees"
proof -
  obtain e' where e': "parse_codex_event (cp_payload (compact_codex_payload p)) = Some e'" and alike: "codex_alike (cx_body e) (cx_body e')"
    "cx_sessionId e' = cx_sessionId e" "cx_cwd e' = cx_cwd e" "cx_model e' = cx_model e"
    "cx_permissionMode e' = cx_permissionMode e" "cx_ids e' = cx_ids e"
    using parse_codex_compacted [OF assms] .
  from codex_alike_facts [OF alike] alike show ?thesis
    by (simp add: codex_report_id_def codex_report_def codex_observation_def codex_event_or_throw_def assms e' Let_def codex_alike_def)
qed

subsection \<open>What fits is reported\<close>

lemma as_text_nonempty: "as_text v = Some s \<Longrightarrow> s \<noteq> []"
  by (auto elim!: as_text.elims split: if_splits)

lemma need_text: "need as_text fs k = Some s \<Longrightarrow> s \<noteq> []"
  by (auto simp: need_def bind_eq_Some_conv dest: as_text_nonempty)

lemma may_text: "may as_text fs k = Some x \<Longrightarrow> opt_ok non_empty x"
  by (auto simp: may_def opt_ok_def non_empty_def split: option.splits dest: as_text_nonempty)

definition valid_wosm_ids :: "wosm_ids \<Rightarrow> bool" where
  "valid_wosm_ids ids \<longleftrightarrow> opt_ok non_empty (wi_projectId ids) \<and> opt_ok non_empty (wi_worktreeId ids) \<and>
     opt_ok non_empty (wi_sessionId ids) \<and> opt_ok non_empty (wi_terminalTargetId ids)"

lemma parse_wosm_ids_valid: "parse_wosm_ids fs = Some ids \<Longrightarrow> valid_wosm_ids ids"
  by (auto simp: parse_wosm_ids_def valid_wosm_ids_def bind_eq_Some_conv dest: may_text)

lemma parse_codex_valid:
  "parse_codex_event p = Some e \<Longrightarrow> cx_sessionId e \<noteq> [] \<and> cx_cwd e \<noteq> [] \<and> valid_wosm_ids (cx_ids e)"
  by (auto simp: parse_codex_event_def bind_eq_Some_conv split: if_splits dest: need_text parse_wosm_ids_valid)

lemma codex_status_valid: "ts_valid t \<Longrightarrow> valid_status (codex_status b t)"
  by (cases b) (simp_all add: valid_status_def harness_status_def non_empty_def)

lemma report_id_nonempty: "report_id_of ((c # s) # parts) \<noteq> []"
  by (cases parts) (simp_all add: report_id_of_def encode_uri_component_def)

lemma codex_coalesce_nonempty: "codex_coalesce_key e = Some k \<Longrightarrow> k \<noteq> []"
  by (auto simp: codex_coalesce_key_def Let_def opt_part_def tool_part_def split: option.splits if_splits)

lemma scope_ids:
  assumes "parse_wosm_ids fs = Some ids" "json_fields p = Some fs" "decide_scope True p = ScopeWosmEnv"
  shows "wi_sessionId ids \<noteq> None \<and> wi_worktreeId ids \<noteq> None"
  using assms
  by (auto simp: parse_wosm_ids_def may_def decide_scope_def scope_text_def bind_eq_Some_conv split: option.splits if_splits)

lemma codex_report_valid:
  assumes "parse_codex_event p = Some e" "ts_valid t"
  shows "\<exists>r. codex_report (report_id_of (codex_report_parts e)) t p d = Inr r \<and> valid_event_report r \<and>
    er_reportId r = report_id_of (codex_report_parts e) \<and> er_correlation r = Some (codex_correlation e) \<and>
    er_status r = Some (codex_status (cx_body e) t) \<and> er_observedAt r = t"
proof -
  have valid: "cx_sessionId e \<noteq> []" "cx_cwd e \<noteq> []" "valid_wosm_ids (cx_ids e)"
    using parse_codex_valid [OF assms(1)] by auto
  have "opt_ok non_empty (codex_coalesce_key e)"
    using codex_coalesce_nonempty by (auto simp: opt_ok_def non_empty_def split: option.split)
  moreover have "codex_event_name b \<noteq> []" for b by (cases b) simp_all
  moreover have "report_id_of (codex_report_parts e) \<noteq> []"
    by (simp add: codex_report_parts_def Let_def report_id_nonempty)
  moreover have "valid_correlation (codex_correlation e)"
    using valid by (simp add: valid_correlation_def codex_correlation_def valid_wosm_ids_def opt_ok_def non_empty_def)
  ultimately show ?thesis
    using codex_status_valid [OF assms(2)] assms
    by (simp add: codex_report_def codex_event_or_throw_def Let_def valid_event_report_def non_empty_def opt_ok_def)
qed

text \<open>What fits the schema is reported. From a Codex payload that fits the strict schema, compacted, the adapter makes a valid
  report at a valid time: with the status of the event, under the event's id and correlated as the event says; and
  where the hook was taken to be one of wosm's, the report names its session and its worktree.\<close>

lemma codex_hooks_are_reported:
  assumes "parse_codex_event p = Some e" and "ts_valid t"
  shows "\<exists>r. codex_hook_report t (compact_codex_payload p) = Inr r \<and> valid_event_report r \<and>
    er_reportId r = report_id_of (codex_report_parts e) \<and> er_status r = Some (codex_status (cx_body e) t) \<and>
    er_correlation r = Some (codex_correlation e) \<and>
    (decide_scope True p = ScopeWosmEnv \<longrightarrow>
       rc_sessionId (codex_correlation e) \<noteq> None \<and> rc_worktreeId (codex_correlation e) \<noteq> None)"
proof -
  obtain e' where e': "parse_codex_event (cp_payload (compact_codex_payload p)) = Some e'" and alike: "codex_alike (cx_body e) (cx_body e')"
    "cx_sessionId e' = cx_sessionId e" "cx_cwd e' = cx_cwd e" "cx_model e' = cx_model e"
    "cx_permissionMode e' = cx_permissionMode e" "cx_ids e' = cx_ids e"
    using parse_codex_compacted [OF assms(1)] .
  have "rc_sessionId (codex_correlation e) \<noteq> None \<and> rc_worktreeId (codex_correlation e) \<noteq> None"
    if "decide_scope True p = ScopeWosmEnv"
    using assms(1) that
    by (auto simp: parse_codex_event_def bind_eq_Some_conv codex_correlation_def split: if_splits dest: scope_ids)
  moreover have "codex_status (cx_body e') t = codex_status (cx_body e) t" using alike(1) by (simp add: codex_alike_def)
  ultimately show ?thesis
    using codex_report_valid [OF e' assms(2), of "compaction_diagnostics (compact_codex_payload p)"] codex_alike_facts [OF alike]
    by (auto simp: codex_hook_report_def codex_report_id_def codex_event_or_throw_def e')
qed

subsection \<open>Payloads to try the properties on\<close>

definition codex_permission :: "string \<Rightarrow> json" where
  "codex_permission command = JObj
     [(''hook_event_name'', JStr ''PermissionRequest''), (''session_id'', JStr ''n''), (''transcript_path'', JNull),
      (''cwd'', JStr ''/p''), (''model'', JStr ''m''), (''turn_id'', JStr ''t1''), (''tool_name'', JStr ''Bash''),
      (''tool_input'', JObj [(''command'', JStr command)]), (''wosm_session_id'', JStr ''ses''),
      (''wosm_worktree_id'', JStr ''wt'')]"

definition codex_request :: codex_event where
  "codex_request = the (parse_codex_event (codex_permission ''ls''))"

lemma codex_permission_parses:
  "parse_codex_event (codex_permission ''ls'') = Some codex_request"
  "\<exists>e. parse_codex_event (codex_permission ''rm'') = Some e \<and> codex_identity e = codex_identity codex_request"
proof -
  have "\<not> Option.is_none (parse_codex_event (codex_permission ''ls''))" by code_simp
  then show "parse_codex_event (codex_permission ''ls'') = Some codex_request" by (auto simp: codex_request_def Option.is_none_def)
  have "case parse_codex_event (codex_permission ''rm'') of None \<Rightarrow> False
      | Some e \<Rightarrow> codex_identity e = codex_identity codex_request" by code_simp
  then show "\<exists>e. parse_codex_event (codex_permission ''rm'') = Some e \<and> codex_identity e = codex_identity codex_request"
    by (simp split: option.splits)
qed

text \<open>Two commands that ask for permission in one turn: the second is taken for the first.\<close>

theorem codex_report_ids_tell_apart_witness:
  "codex_report_id (codex_permission ''ls'') = codex_report_id (codex_permission ''rm'') \<and>
   codex_permission ''ls'' \<noteq> codex_permission ''rm''"
proof -
  obtain e where e: "parse_codex_event (codex_permission ''rm'') = Some e" "codex_identity e = codex_identity codex_request"
    using codex_permission_parses(2) by blast
  from codex_report_ids_tell_apart [OF codex_permission_parses(1) e(1)] e(2)
  show ?thesis by (simp add: codex_permission_def)
qed

theorem codex_compaction_is_transparent_witness:
  "codex_report_id (cp_payload (compact_codex_payload (codex_permission ''ls''))) = codex_report_id (codex_permission ''ls'')"
  using codex_compaction_is_transparent [OF codex_permission_parses(1)] by blast

end
