(* ===== verification/ClaudeHookProperties.thy ===== *)
theory ClaudeHookProperties
  imports HarnessHookProperties ClaudeHooks CursorHooks
begin

section \<open>What the payloads of Claude Code and of Cursor become\<close>

text \<open>
  The statuses of Claude Code's events are those the table of the forwarded events allows, and compaction takes nothing
  from what is reported; Cursor's payloads may be compacted any number of times, and fields of other versions never make
  one unreadable.
\<close>

subsection \<open>Claude Code's statuses and its table\<close>

definition allowed_by :: "ingress_rule \<Rightarrow> observed_status \<Rightarrow> bool" where
  "allowed_by r s \<longleftrightarrow> os_value s \<in> set (iu_statusIntents r) \<and> os_confidence s \<in> set (iu_confidences r)"

lemma claude_status_allowed:
  "\<exists>r. claude_rule_for (claude_event_name b) = Some r \<and> (\<forall>s. claude_status b t = Some s \<longrightarrow> allowed_by r s)"
  by (cases b)
    (simp_all add: claude_rule_for_def rule_for_def claude_ingress_rules_def ingress_rule_of_def allowed_by_def
      harness_status_def)

lemma parse_claude_body_name: "parse_claude_body name fs = Some b \<Longrightarrow> claude_event_name b = name"
  by (auto simp: parse_claude_body_def bind_eq_Some_conv split: if_splits)

lemma parse_claude_facts:
  assumes "parse_claude_event p = Some e"
  obtains fs where "json_fields p = Some fs" "map_of fs ''hook_event_name'' = Some (JStr (claude_event_name (cl_body e)))"
    "parse_claude_body (claude_event_name (cl_body e)) fs = Some (cl_body e)" "parse_wosm_ids fs = Some (cl_ids e)"
    "cl_sessionId e \<noteq> []" "cl_cwd e \<noteq> []"
proof -
  from assms obtain fs name where fs: "json_fields p = Some fs" "map_of fs ''hook_event_name'' = Some (JStr name)"
    "parse_claude_body name fs = Some (cl_body e)" "parse_wosm_ids fs = Some (cl_ids e)" "cl_sessionId e \<noteq> []" "cl_cwd e \<noteq> []"
    by (auto simp: parse_claude_event_def need_def [of as_string] bind_eq_Some_conv dest!: need_text elim!: as_string.elims)
  with parse_claude_body_name [OF fs(3)] that show thesis by metis
qed

lemma claude_name_nonempty: "claude_event_name b \<noteq> []"
  by (cases b) simp_all

text \<open>C27: What is observed of Claude Code follows the table of the forwarded events. A payload whose event is not in the table is
  not observed at all, whatever its other fields; an event that can be parsed is in the table and gives one observation,
  whose status, if it has one, has a state and a confidence that the event's row allows, as has the status of its report.\<close>

theorem claude_statuses_follow_the_table:
  "(\<forall>name. hook_event_name_of p = Some name \<longrightarrow> claude_rule_for name = None \<longrightarrow>
      claude_observation t p targets worktrees = Inr []) \<and>
   (\<forall>e. parse_claude_event p = Some e \<longrightarrow>
      (\<exists>r obs. claude_rule_for (claude_event_name (cl_body e)) = Some r \<and> claude_observation t p targets worktrees = Inr [obs] \<and>
         eo_nativeSessionId obs = Some (cl_sessionId e) \<and> eo_status obs = claude_status (cl_body e) t \<and>
         (\<forall>s. eo_status obs = Some s \<longrightarrow> allowed_by r s) \<and>
         (\<forall>i d report. claude_report i t p d = Inr report \<longrightarrow> er_status report = eo_status obs)))"
proof (intro conjI allI impI)
  fix name
  assume "hook_event_name_of p = Some name" "claude_rule_for name = None"
  then show "claude_observation t p targets worktrees = Inr []"
    by (simp add: claude_observation_def is_claude_forwarded_def)
next
  fix e
  assume e: "parse_claude_event p = Some e"
  obtain fs where "json_fields p = Some fs" "map_of fs ''hook_event_name'' = Some (JStr (claude_event_name (cl_body e)))"
    using e by (rule parse_claude_facts)
  then have "hook_event_name_of p = Some (claude_event_name (cl_body e))"
    by (simp add: hook_event_name_of_def scope_text_def claude_name_nonempty)
  moreover obtain r where "claude_rule_for (claude_event_name (cl_body e)) = Some r"
    "\<forall>s. claude_status (cl_body e) t = Some s \<longrightarrow> allowed_by r s"
    using claude_status_allowed by blast
  ultimately show "\<exists>r obs. claude_rule_for (claude_event_name (cl_body e)) = Some r \<and> claude_observation t p targets worktrees = Inr [obs] \<and>
      eo_nativeSessionId obs = Some (cl_sessionId e) \<and> eo_status obs = claude_status (cl_body e) t \<and>
      (\<forall>s. eo_status obs = Some s \<longrightarrow> allowed_by r s) \<and>
      (\<forall>i d report. claude_report i t p d = Inr report \<longrightarrow> er_status report = eo_status obs)"
    by (auto simp: claude_observation_def is_claude_forwarded_def claude_event_or_throw_def e Let_def claude_report_def
        split: if_splits)
qed

subsection \<open>Claude Code's compaction\<close>

text \<open>Events that differ only in what compaction replaces.\<close>

definition claude_alike :: "claude_body \<Rightarrow> claude_body \<Rightarrow> bool" where
  "claude_alike b b' \<longleftrightarrow> claude_event_name b' = claude_event_name b \<and> claude_source b' = claude_source b \<and>
     claude_reason b' = claude_reason b \<and> claude_notification_type b' = claude_notification_type b \<and>
     claude_tool_name b' = claude_tool_name b \<and> claude_tool_use_id b' = claude_tool_use_id b \<and>
     claude_duration b' = claude_duration b \<and> claude_stop_active b' = claude_stop_active b \<and>
     claude_trigger b' = claude_trigger b \<and> (\<forall>t. claude_status b' t = claude_status b t)"

definition claude_objects :: "string list" where
  "claude_objects = [''tool_input'', ''tool_response'', ''permission_suggestions'']"

definition claude_texts :: "string list" where
  "claude_texts = [''prompt'', ''message'']"

lemma parse_claude_body_compacted:
  assumes "parse_claude_body name fs = Some b"
    and lookup: "\<And>k. map_of fs' k =
      (if k \<in> set (claude_objects @ claude_texts @ [assistant_message])
       then map_option (replaced_field claude_objects claude_texts k) (map_of fs k)
       else if k \<in> set (claude_names_for_event name) then map_of fs k else None)"
  shows "\<exists>b'. parse_claude_body name fs' = Some b' \<and> claude_alike b b'"
proof -
  note names = claude_names_for_event_def need_def may_def replaced_field_def claude_alike_def bind_eq_Some_conv
    claude_objects_def claude_texts_def assistant_message_def
  consider "name = ''SessionStart''" | "name = ''UserPromptSubmit''" | "name = ''PreToolUse''" | "name = ''PostToolUse''"
    | "name = ''PermissionRequest''" | "name = ''Notification''" | "name = ''PreCompact''" | "name = ''Stop''" | "name = ''SessionEnd''"
    using assms(1) unfolding parse_claude_body_def by (auto split: if_splits)
  then show ?thesis
  proof cases
    case 1
    with assms(1) lookup [of "''source''"] show ?thesis by (auto simp: parse_claude_body_def names)
  next
    case 2
    with assms(1) lookup [of "''prompt''"] show ?thesis unfolding ex_Some_case by (auto simp: parse_claude_body_def names)
  next
    case 3
    with assms(1) lookup [of "''tool_name''"] lookup [of "''tool_use_id''"] show ?thesis
      unfolding ex_Some_case by (auto simp: parse_claude_body_def names)
  next
    case 4
    with assms(1) lookup [of "''tool_name''"] lookup [of "''tool_use_id''"] lookup [of "''duration_ms''"] show ?thesis
      unfolding ex_Some_case by (auto simp: parse_claude_body_def names split: option.splits)
  next
    case 5
    with assms(1) lookup [of "''tool_name''"] show ?thesis unfolding ex_Some_case by (auto simp: parse_claude_body_def names)
  next
    case 6
    with assms(1) lookup [of "''notification_type''"] lookup [of "''message''"] show ?thesis
      unfolding ex_Some_case by (auto simp: parse_claude_body_def names split: option.splits)
  next
    case 7
    with assms(1) lookup [of "''trigger''"] show ?thesis
      unfolding ex_Some_case by (auto simp: parse_claude_body_def names split: option.splits)
  next
    case 8
    with assms(1) lookup [of "''stop_hook_active''"] lookup [of "''last_assistant_message''"] show ?thesis
      unfolding ex_Some_case by (auto simp: parse_claude_body_def names split: option.splits)
  next
    case 9
    with assms(1) lookup [of "''reason''"] show ?thesis by (auto simp: parse_claude_body_def names)
  qed
qed

lemma claude_common:
  assumes "k \<in> set claude_common_names"
  shows "k \<in> set (claude_names_for_event name) \<and> k \<notin> set (claude_objects @ claude_texts @ [assistant_message])"
proof -
  have "set claude_common_names \<inter> set (claude_objects @ claude_texts @ [assistant_message]) = {}" by code_simp
  then show ?thesis using assms by (auto simp add: claude_names_for_event_def)
qed

lemma claude_alike_facts:
  assumes "claude_alike (cl_body e) (cl_body e')" "cl_sessionId e' = cl_sessionId e" "cl_cwd e' = cl_cwd e"
    "cl_transcriptPath e' = cl_transcriptPath e" "cl_permissionMode e' = cl_permissionMode e" "cl_ids e' = cl_ids e"
  shows "claude_provider_data e' = claude_provider_data e" "claude_correlation e' = claude_correlation e"
    "claude_coalesce_key e' = claude_coalesce_key e" "claude_report_parts t e' = claude_report_parts t e"
  using assms
  by (simp_all add: claude_alike_def claude_provider_data_def claude_correlation_def claude_coalesce_key_def
      claude_report_parts_def Let_def)

lemma parse_claude_compacted:
  assumes "parse_claude_event p = Some e"
  obtains e' where "parse_claude_event (cp_payload (compact_claude_payload p)) = Some e'" "claude_alike (cl_body e) (cl_body e')"
    "cl_sessionId e' = cl_sessionId e" "cl_cwd e' = cl_cwd e" "cl_transcriptPath e' = cl_transcriptPath e"
    "cl_permissionMode e' = cl_permissionMode e" "cl_ids e' = cl_ids e"
    "hook_event_name_of (cp_payload (compact_claude_payload p)) = hook_event_name_of p"
proof -
  obtain fs where fs: "json_fields p = Some fs" "map_of fs ''hook_event_name'' = Some (JStr (claude_event_name (cl_body e)))"
    "parse_claude_body (claude_event_name (cl_body e)) fs = Some (cl_body e)" "parse_wosm_ids fs = Some (cl_ids e)"
    using assms by (rule parse_claude_facts)
  have name: "nullish (Option.bind (map_of fs ''hook_event_name'') as_string) [] = claude_event_name (cl_body e)"
    by (simp add: fs(2))
  obtain copy where copy: "cp_payload (compact_claude_payload p) = JObj copy"
    and lookup: "\<And>k. map_of copy k = (if k \<in> set (claude_objects @ claude_texts @ [assistant_message])
        then map_option (replaced_field claude_objects claude_texts k) (map_of fs k)
      else if k \<in> set (claude_names_for_event (claude_event_name (cl_body e))) then map_of fs k else None)"
    by (rule compact_lookup [OF fs(1), of claude_names_for_event claude_objects claude_texts, unfolded name])
      (simp add: compact_claude_payload_def claude_objects_def claude_texts_def)
  obtain b where b: "parse_claude_body (claude_event_name (cl_body e)) copy = Some b" "claude_alike (cl_body e) b"
    using parse_claude_body_compacted [OF fs(3) lookup] by blast
  have common: "map_of copy k = map_of fs k" if "k \<in> set claude_common_names" for k
    using claude_common [OF that] by (simp add: lookup)
  have "parse_wosm_ids copy = parse_wosm_ids fs"
    using common by (simp add: parse_wosm_ids_def may_def claude_common_names_def wosm_names_def)
  moreover have same: "map_of copy ''session_id'' = map_of fs ''session_id''" "map_of copy ''transcript_path'' = map_of fs ''transcript_path''"
    "map_of copy ''cwd'' = map_of fs ''cwd''" "map_of copy ''hook_event_name'' = map_of fs ''hook_event_name''"
    "map_of copy ''permission_mode'' = map_of fs ''permission_mode''"
    by (rule common, simp add: claude_common_names_def)+
  ultimately have "parse_claude_event (JObj copy) = Some (e\<lparr>cl_body := b\<rparr>)"
    using assms fs b by (cases e) (auto simp: parse_claude_event_def bind_eq_Some_conv need_def may_def)
  moreover have "hook_event_name_of (JObj copy) = hook_event_name_of p"
    using same fs(1) by (simp add: hook_event_name_of_def scope_text_def)
  ultimately show thesis
    using b copy by (intro that [of "e\<lparr>cl_body := b\<rparr>"]) simp_all
qed

lemma claude_status_valid: "ts_valid t \<Longrightarrow> opt_ok valid_status (claude_status b t)"
  by (cases b) (simp_all add: valid_status_def harness_status_def non_empty_def opt_ok_def)

lemma claude_coalesce_nonempty: "opt_ok non_empty (claude_coalesce_key e)"
  by (auto simp: claude_coalesce_key_def Let_def opt_ok_def non_empty_def tool_part_def split: option.split)

lemma claude_report_valid:
  assumes "parse_claude_event p = Some e" "ts_valid t"
  shows "\<exists>r. claude_report (report_id_of (claude_report_parts t e)) t p d = Inr r \<and> valid_event_report r \<and>
    er_reportId r = report_id_of (claude_report_parts t e) \<and> er_correlation r = Some (claude_correlation e) \<and>
    er_status r = claude_status (cl_body e) t \<and> er_observedAt r = t"
proof -
  obtain fs where valid: "parse_wosm_ids fs = Some (cl_ids e)" "cl_sessionId e \<noteq> []" "cl_cwd e \<noteq> []"
    using assms(1) by (rule parse_claude_facts)
  have "valid_correlation (claude_correlation e)"
    using valid parse_wosm_ids_valid [OF valid(1)]
    by (auto simp: valid_correlation_def claude_correlation_def valid_wosm_ids_def opt_ok_def non_empty_def split: option.splits)
  moreover have "report_id_of (claude_report_parts t e) \<noteq> []"
    by (simp add: claude_report_parts_def Let_def report_id_nonempty)
  ultimately show ?thesis
    using claude_status_valid [OF assms(2)] claude_coalesce_nonempty assms
    by (simp add: claude_report_def claude_event_or_throw_def Let_def valid_event_report_def non_empty_def opt_ok_def
        claude_name_nonempty)
qed

text \<open>From a Claude Code payload that fits its schema, compacted, the adapter makes a valid report at a valid time: under the
  id of the event at that time, with its status, if it has one, and correlated as it says; and what is observed of the
  payload is observed of its compaction.\<close>

lemma claude_hooks_are_reported:
  assumes "parse_claude_event p = Some e" and "ts_valid t"
  shows "(\<exists>r. claude_hook_report t (compact_claude_payload p) = Inr r \<and> valid_event_report r \<and>
      er_reportId r = report_id_of (claude_report_parts t e) \<and> er_status r = claude_status (cl_body e) t \<and>
      er_correlation r = Some (claude_correlation e)) \<and>
    claude_observation t (cp_payload (compact_claude_payload p)) targets worktrees = claude_observation t p targets worktrees"
proof -
  obtain e' where e': "parse_claude_event (cp_payload (compact_claude_payload p)) = Some e'" and alike: "claude_alike (cl_body e) (cl_body e')"
    "cl_sessionId e' = cl_sessionId e" "cl_cwd e' = cl_cwd e" "cl_transcriptPath e' = cl_transcriptPath e"
    "cl_permissionMode e' = cl_permissionMode e" "cl_ids e' = cl_ids e"
    and name: "hook_event_name_of (cp_payload (compact_claude_payload p)) = hook_event_name_of p"
    using parse_claude_compacted [OF assms(1)] .
  have "claude_status (cl_body e') t = claude_status (cl_body e) t" using alike(1) by (simp add: claude_alike_def)
  then have "\<exists>r. claude_hook_report t (compact_claude_payload p) = Inr r \<and> valid_event_report r \<and>
      er_reportId r = report_id_of (claude_report_parts t e) \<and> er_status r = claude_status (cl_body e) t \<and>
      er_correlation r = Some (claude_correlation e)"
    using claude_report_valid [OF e' assms(2), of "compaction_diagnostics (compact_claude_payload p)"] claude_alike_facts [OF alike]
    by (auto simp: claude_hook_report_def claude_report_id_def claude_event_or_throw_def e')
  moreover have "claude_observation t (cp_payload (compact_claude_payload p)) targets worktrees = claude_observation t p targets worktrees"
    using claude_alike_facts [OF alike] alike
    by (simp add: claude_observation_def claude_event_or_throw_def assms(1) e' name Let_def claude_alike_def)
  ultimately show ?thesis ..
qed

subsection \<open>Cursor\<close>

definition cursor_kept :: "(string \<times> json) list \<Rightarrow> (string \<times> json) list" where
  "cursor_kept fs = List.map_filter (\<lambda>name. map_option (Pair name) (map_of fs name)) cursor_retained_names"

lemma compact_cursor_kept: "json_fields p = Some fs \<Longrightarrow> cp_payload (compact_cursor_payload p) = JObj (cursor_kept fs)"
  by (simp add: compact_cursor_payload_def cursor_kept_def Let_def)

lemma cursor_kept_lookup: "map_of (cursor_kept fs) k = (if k \<in> set cursor_retained_names then map_of fs k else None)"
  by (simp add: cursor_kept_def map_of_present)

lemma cursor_kept_cong: "(\<And>k. k \<in> set cursor_retained_names \<Longrightarrow> map_of fs k = map_of fs' k) \<Longrightarrow> cursor_kept fs = cursor_kept fs'"
  unfolding cursor_kept_def List.map_filter_def by (intro map_cong filter_cong) simp_all

lemma cursor_compacted_again:
  "compact_cursor_payload (cp_payload (compact_cursor_payload p)) =
     \<lparr>cp_payload = cp_payload (compact_cursor_payload p), cp_compacted = False,
      cp_originalBytes = json_byte_count (cp_payload (compact_cursor_payload p)),
      cp_compactedBytes = json_byte_count (cp_payload (compact_cursor_payload p)), cp_omitted = []\<rparr>"
proof (cases "json_fields p")
  case None
  then show ?thesis by (simp add: compact_cursor_payload_def)
next
  case (Some fs)
  have again: "cursor_kept (cursor_kept fs) = cursor_kept fs"
    by (rule cursor_kept_cong) (simp add: cursor_kept_lookup)
  have "filter (\<lambda>name. map_of (cursor_kept fs) name = None) (map fst (cursor_kept fs)) = []"
    by (auto simp: filter_empty_conv map_of_eq_None_iff)
  with again Some show ?thesis
    by (simp add: compact_cursor_kept [OF Some] compact_cursor_payload_def [of "JObj (cursor_kept fs)"] Let_def
        flip: cursor_kept_def) (simp add: sort_strings_def)
qed

lemma cursor_parse_kept: "json_fields p = Some fs \<Longrightarrow> parse_cursor_event p =
    (case cursor_schema (JObj (cursor_kept fs)) of
       None \<Rightarrow> Inl (cursor_error ''HARNESS_CURSOR_EVENT_INVALID'' ''Cursor hook event did not match a supported strict schema.'')
     | Some e \<Rightarrow> Inr e)"
  by (simp add: parse_cursor_event_def compact_cursor_kept)

lemma parse_cursor_compacted: "parse_cursor_event (cp_payload (compact_cursor_payload p)) = parse_cursor_event p"
  by (simp add: parse_cursor_event_def cursor_compacted_again)

lemma as_texts_nonempty: "as_texts v = Some ss \<Longrightarrow> [] \<notin> set ss"
proof (cases v)
  case (JArr vs)
  then show "as_texts v = Some ss \<Longrightarrow> [] \<notin> set ss"
    by (induction vs arbitrary: v ss) (auto dest: as_text_nonempty split: option.splits)
qed simp_all

lemma may_texts: "may as_texts fs k = Some (Some ss) \<Longrightarrow> [] \<notin> set ss"
  by (auto simp: may_def split: option.splits dest: as_texts_nonempty)

lemma parse_wosm_ids_path: "parse_wosm_ids fs = Some ids \<Longrightarrow> opt_ok non_empty (wi_worktreePath ids)"
  by (auto simp: parse_wosm_ids_def bind_eq_Some_conv dest: may_text)

lemma opt_ok_nullish: "opt_ok P a \<Longrightarrow> opt_ok P b \<Longrightarrow> opt_ok P (nullish_opt a b)"
  by (cases a) (simp_all add: nullish_opt_def)

lemma parse_cursor_valid:
  assumes "parse_cursor_event p = Inr e"
  shows "cu_hookEventName e \<noteq> [] \<and> valid_wosm_ids (cu_ids e) \<and> opt_ok non_empty (cursor_cwd e) \<and>
    opt_ok non_empty (cursor_native_session e)"
proof -
  obtain fs where fs: "need as_text fs ''hook_event_name'' = Some (cu_hookEventName e)" "parse_wosm_ids fs = Some (cu_ids e)"
    "may as_text fs ''session_id'' = Some (cu_sessionId e)" "may as_text fs ''conversation_id'' = Some (cu_conversationId e)"
    "may as_text fs ''cwd'' = Some (cu_cwd e)" "may as_texts fs ''workspace_roots'' = Some (cu_workspaceRoots e)"
    using assms
    by (auto simp: parse_cursor_event_def cursor_schema_def bind_eq_Some_conv split: option.splits if_splits)
  have "opt_ok non_empty (Option.bind (cu_workspaceRoots e) (\<lambda>roots. case roots of [] \<Rightarrow> None | r # _ \<Rightarrow> Some r))"
    using fs(6) may_texts
    by (cases "cu_workspaceRoots e") (fastforce simp: opt_ok_def non_empty_def split: list.split)+
  then have "opt_ok non_empty (cursor_cwd e)"
    using may_text [OF fs(5)] parse_wosm_ids_path [OF fs(2)] by (simp add: cursor_cwd_def opt_ok_nullish)
  moreover have "opt_ok non_empty (cursor_native_session e)"
    using may_text [OF fs(3)] may_text [OF fs(4)] by (simp add: cursor_native_session_def opt_ok_nullish)
  ultimately show ?thesis using need_text [OF fs(1)] parse_wosm_ids_valid [OF fs(2)] by blast
qed

lemma cursor_report_valid:
  assumes "parse_cursor_event p = Inr e" "reportId \<noteq> []" "ts_valid t"
  shows "\<exists>r. cursor_report reportId t p d = Inr r \<and> valid_event_report r \<and> er_reportId r = reportId \<and>
    er_status r = Some (cursor_status e t) \<and> er_correlation r = cursor_correlation e"
proof -
  note valid = parse_cursor_valid [OF assms(1)]
  have "opt_ok non_empty (cursor_coalesce_key e)"
    by (auto simp: cursor_coalesce_key_def Let_def opt_part_def tool_part_def opt_ok_def non_empty_def split: option.splits)
  moreover have "valid_status (cursor_status e t)"
    using assms(3) by (simp add: cursor_status_def cursor_stop_status_def cursor_working_reason_def harness_status_def
        valid_status_def non_empty_def Let_def)
  moreover have "opt_ok valid_correlation (cursor_correlation e)"
    using valid
    by (auto simp: cursor_correlation_def Let_def opt_ok_def valid_correlation_def valid_wosm_ids_def non_empty_def split: option.splits)
  ultimately show ?thesis
    using assms(2,3) valid
    by (simp add: cursor_report_def assms(1) Let_def valid_event_report_def opt_ok_def [of _ "Some _"] non_empty_def [of "_ :: string"])
qed


subsection \<open>Payloads to try the properties on\<close>

definition claude_notice :: "string \<Rightarrow> json" where
  "claude_notice name = JObj
     [(''hook_event_name'', JStr name), (''session_id'', JStr ''n''), (''cwd'', JStr ''/p''),
      (''notification_type'', JStr ''permission_prompt''), (''message'', JStr ''may I?'')]"

lemma claude_notice_parses: "\<exists>e. parse_claude_event (claude_notice ''Notification'') = Some e \<and>
    claude_event_name (cl_body e) = ''Notification'' \<and> map_option os_value (claude_status (cl_body e) t) = Some AgentNeedsAttention"
proof -
  have "case parse_claude_event (claude_notice ''Notification'') of None \<Rightarrow> False
      | Some e \<Rightarrow> cl_body e = ClaudeNotification (Some ''permission_prompt'') (Some ''may I?'')" by code_simp
  then show ?thesis by (auto simp: harness_status_def split: option.splits)
qed

definition noon :: timestamp where "noon = ''2026-01-01T12:00:00Z''"

theorem claude_statuses_follow_the_table_witness:
  "claude_observation noon (claude_notice ''SubagentStop'') [] [] = Inr [] \<and>
   (\<exists>obs. claude_observation noon (claude_notice ''Notification'') [] [] = Inr [obs] \<and>
      map_option os_value (eo_status obs) = Some AgentNeedsAttention)"
proof -
  have "hook_event_name_of (claude_notice ''SubagentStop'') = Some ''SubagentStop''" "claude_rule_for ''SubagentStop'' = None"
    by code_simp+
  moreover obtain e where "parse_claude_event (claude_notice ''Notification'') = Some e"
    "map_option os_value (claude_status (cl_body e) noon) = Some AgentNeedsAttention"
    using claude_notice_parses by blast
  ultimately show ?thesis
    using claude_statuses_follow_the_table [of "claude_notice ''SubagentStop''" noon "[]" "[]"]
      claude_statuses_follow_the_table [of "claude_notice ''Notification''" noon "[]" "[]"] by metis
qed

definition cursor_stopped :: "(string \<times> json) list" where
  "cursor_stopped = [(''hook_event_name'', JStr ''stop''), (''session_id'', JStr ''n''), (''status'', JStr ''error'')]"


end
