(* ===== verification/HookSenderProperties.thy ===== *)
theory HookSenderProperties
  imports HookSenders HookProperties ClaudeHookProperties
begin

section \<open>What becomes of a harness's hook\<close>

text \<open>
  The process that sends a hook always ends with a receipt, and what the receipt says is so: an accepted report was
  accepted by the observer, and a spooled one is in the spool.
\<close>

subsection \<open>Sending a report\<close>

lemma write_report_spool_done:
  assumes "write_harness_event_report_spool_record sw r err w = (Inr receipt, w')"
  shows "rr_status receipt = ReportSpooled \<and>
    (\<exists>rec. spool_file (wd_events w') (sw_dir sw @ ''/'' @ sw_newId sw (wd_time w) @ ''.json'') = Some rec \<and>
      sp_content rec = SpooledReport r \<and> valid_spool_record rec)"
  using assms
  by (auto simp: write_harness_event_report_spool_record_def write_spool_record_def in_boundary_def parsed_returns
      runtime_boundary_effect_def failing_write_def emit_def throw_error_def throw_def give_def observe_def
      logged_def report_receipt_for_def parsed_def
      elim!: and_then_returns split: prod.splits sum.splits option.splits if_splits)

lemma attempt_report_delivered:
  assumes "attempt_harness_event_report_delivery request r w = (Inr a, w')" "da_receipt a = Some receipt"
  obtains answer w1 where "request r w1 = (Inr (AttemptReturns answer), w')" "rr_status answer = ReportAccepted"
    "receipt = hook_receipt_from_report_receipt answer" "valid_hook_receipt receipt"
  using assms that
  by (auto simp: attempt_harness_event_report_delivery_def deliver_harness_event_report_def in_timed_boundary_def and_try_def
      catching_def give_def boundary_attempt_def runtime_boundary_effect_def throw_def parsed_returns
      elim!: and_then_returns split: prod.splits sum.splits attempt.splits if_splits)

definition accepted_by :: "(event_report \<Rightarrow> report_receipt attempt hook_action) \<Rightarrow> event_report \<Rightarrow> hook_effect world \<Rightarrow> bool" where
  "accepted_by request r w' \<longleftrightarrow> (\<exists>w1 answer. request r w1 = (Inr (AttemptReturns answer), w') \<and> rr_status answer = ReportAccepted)"

definition spooled_in :: "event_report \<Rightarrow> hook_effect world \<Rightarrow> bool" where
  "spooled_in r w' \<longleftrightarrow> (\<exists>path rec. spool_file (wd_events w') path = Some rec \<and> sp_content rec = SpooledReport r \<and>
     valid_spool_record rec)"

lemma send_report_outcome:
  assumes "send_harness_event_report sd opts request r w = (Inr receipt, w')" "valid_event_report r"
  shows "valid_hook_receipt (hook_receipt_from_report_receipt receipt) \<and>
    (rr_status receipt = ReportAccepted \<and> accepted_by request r w' \<or> rr_status receipt = ReportSpooled \<and> spooled_in r w')"
proof -
  obtain h w1 where run: "deliver_provider_hook_with_spooling (sn_locks sd) (sn_startup sd) opts
      (attempt_harness_event_report_delivery request r)
      (\<lambda>err. and_then (write_harness_event_report_spool_record (sn_spool sd) r err)
         (\<lambda>receipt. parsed valid_hook_receipt (hook_receipt_from_report_receipt receipt))) w1 = (Inr h, w')"
    and receipt: "receipt = report_receipt_from_hook_receipt r h"
    using assms(1) by (auto simp: send_harness_event_report_def parsed_returns give_def elim!: and_then_returns)
  have "valid_hook_receipt h \<and> (hr_status h = HookIngested \<and> accepted_by request r w' \<or> hr_status h = HookSpooled \<and> spooled_in r w')"
    using policy_outcome [OF run]
  proof
    assume "\<exists>w1 a. attempt_harness_event_report_delivery request r w1 = (Inr a, w') \<and> da_receipt a = Some h"
    then show ?thesis
      by (auto simp: accepted_by_def hook_receipt_from_report_receipt_def Let_def elim!: attempt_report_delivered)
  next
    assume "\<exists>w1 err. and_then (write_harness_event_report_spool_record (sn_spool sd) r err)
         (\<lambda>receipt. parsed valid_hook_receipt (hook_receipt_from_report_receipt receipt)) w1 = (Inr h, w')"
    then obtain w2 err rr where "write_harness_event_report_spool_record (sn_spool sd) r err w2 = (Inr rr, w')"
      "h = hook_receipt_from_report_receipt rr" "valid_hook_receipt h"
      by (auto simp: parsed_returns elim!: and_then_returns)
    with write_report_spool_done show ?thesis
      unfolding spooled_in_def by (fastforce simp: hook_receipt_from_report_receipt_def Let_def)
  qed
  then show ?thesis
    using assms(2)
    by (auto simp: receipt report_receipt_from_hook_receipt_def hook_receipt_from_report_receipt_def Let_def
        valid_hook_receipt_def valid_event_report_def)
qed

subsection \<open>The senders\<close>

text \<open>
  What a receipt says of a report: the observer accepted it, or it is in the spool, or sending it threw. Where the sender
  itself throws, sending threw and what it threw is not an error that a receipt may hold.
\<close>

definition sending_throws ::
  "sender \<Rightarrow> delivery_options \<Rightarrow> (event_report \<Rightarrow> report_receipt attempt hook_action) \<Rightarrow> event_report \<Rightarrow> bool" where
  "sending_throws sd opts request r \<longleftrightarrow> (\<exists>v w1 w2. send_harness_event_report sd opts request r w1 = (Inl v, w2))"

definition hook_settled ::
  "sender \<Rightarrow> delivery_options \<Rightarrow> (event_report \<Rightarrow> report_receipt attempt hook_action) \<Rightarrow> event_report \<Rightarrow>
     (thrown + hook_receipt) \<times> hook_effect world \<Rightarrow> bool" where
  "hook_settled sd opts request r run \<longleftrightarrow>
     (case run of
        (Inr receipt, w') \<Rightarrow>
          hr_status receipt = HookIngested \<and> accepted_by request r w' \<or> hr_status receipt = HookSpooled \<and> spooled_in r w' \<or>
          hr_status receipt = HookRejected \<and> sending_throws sd opts request r
      | (Inl v, w') \<Rightarrow> v = zod_error \<and> sending_throws sd opts request r)"

definition hook_answered :: "hook_status \<Rightarrow> hook_effect world \<Rightarrow> (thrown + hook_receipt) \<times> hook_effect world \<Rightarrow> bool" where
  "hook_answered status w run \<longleftrightarrow>
     (\<exists>receipt w'. run = (Inr receipt, w') \<and> hr_status receipt = status \<and> wd_events w' = wd_events w)"

definition usable_sender :: "sender \<Rightarrow> bool" where
  "usable_sender sd \<longleftrightarrow> (\<forall>t. sn_hookId sd t \<noteq> [] \<and> ts_valid (sn_now sd t))"

lemma hook_answeredI: "fst run = Inr receipt \<Longrightarrow> hr_status receipt = status \<Longrightarrow> wd_events (snd run) = wd_events w \<Longrightarrow>
    hook_answered status w run"
  by (cases run) (simp add: hook_answered_def)

lemma ignored_answers:
  assumes "usable_sender sd" "provider \<noteq> []" "event \<noteq> []"
  shows "hook_answered HookIgnored w (ignored_hook_receipt sd provider event w)"
  using assms
  by (simp add: hook_answered_def ignored_hook_receipt_def and_then_def observe_def parsed_def give_def usable_sender_def
      valid_hook_receipt_def non_empty_def)

definition receivable :: "provider_id \<Rightarrow> thrown \<Rightarrow> bool" where
  "receivable provider v = valid_safe_error (safe_error_from_unknown v (error_with ''HookPayloadError'' ''HOOK_REPORT_INVALID''
     ''Provider hook payload could not be normalized to a harness event report.'' (Some provider)))"

lemma rejected_answers:
  assumes "usable_sender sd" "provider \<noteq> []" "event \<noteq> []"
  shows "\<exists>receipt. hr_status receipt = HookRejected \<and> rejected_hook_receipt sd provider event v w =
    (if receivable provider v then Inr receipt else Inl zod_error, tick (tick w))"
proof (intro exI conjI)
  let ?receipt = "\<lparr>hr_hookId = sn_hookId sd (wd_time w), hr_provider = provider, hr_event = event, hr_accepted = False,
    hr_status = HookRejected, hr_receivedAt = sn_now sd (wd_time (tick w)), hr_reconciled = None, hr_spooled = None,
    hr_deduped = None, hr_error = Some (safe_error_from_unknown v (error_with ''HookPayloadError'' ''HOOK_REPORT_INVALID''
     ''Provider hook payload could not be normalized to a harness event report.'' (Some provider)))\<rparr>"
  show "rejected_hook_receipt sd provider event v w =
      (if receivable provider v then Inr ?receipt else Inl zod_error, tick (tick w))"
    using assms
    by (simp add: rejected_hook_receipt_def and_then_def observe_def parsed_def give_def throw_def usable_sender_def
        valid_hook_receipt_def non_empty_def receivable_def)
qed simp

lemma report_or_reject_built:
  assumes "usable_sender sd" "provider \<noteq> []" "event \<noteq> []" "build w = (Inr r, w1)" "valid_event_report r"
  shows "hook_settled sd opts request r (report_or_reject sd opts request provider event build w)"
proof (cases "send_harness_event_report sd opts request r w1")
  case (Pair sent w2)
  show ?thesis
  proof (cases sent)
    case (Inl v)
    with Pair assms(4) have "report_or_reject sd opts request provider event build w = rejected_hook_receipt sd provider event v w2"
      by (simp add: report_or_reject_def catching_def and_then_def)
    moreover have "sending_throws sd opts request r" using Pair Inl by (auto simp: sending_throws_def)
    ultimately show ?thesis
      using rejected_answers [OF assms(1-3), of v w2] by (auto simp: hook_settled_def)
  next
    case (Inr receipt)
    with send_report_outcome [of sd opts request r w1 receipt w2] Pair assms(5) have out:
      "valid_hook_receipt (hook_receipt_from_report_receipt receipt)"
      "rr_status receipt = ReportAccepted \<and> accepted_by request r w2 \<or> rr_status receipt = ReportSpooled \<and> spooled_in r w2"
      by auto
    then have "report_or_reject sd opts request provider event build w = (Inr (hook_receipt_from_report_receipt receipt), w2)"
      using Pair Inr assms(4) by (simp add: report_or_reject_def catching_def and_then_def parsed_def give_def)
    with out(2) show ?thesis by (auto simp: hook_settled_def hook_receipt_from_report_receipt_def Let_def)
  qed
qed

lemma report_or_reject_unbuilt:
  assumes "usable_sender sd" "provider \<noteq> []" "event \<noteq> []" "build w = (Inl v, w1)" "wd_events w1 = wd_events w"
    and "receivable provider v"
  shows "hook_answered HookRejected w (report_or_reject sd opts request provider event build w)"
  using rejected_answers [OF assms(1-3), of v w1] assms(4-6)
  by (auto simp: report_or_reject_def hook_answered_def catching_def and_then_def)

lemma compact_keeps_ids:
  assumes "json_fields p = Some fs" "set wosm_names \<subseteq> set (names (nullish (Option.bind (map_of fs ''hook_event_name'') as_string) []))"
    and "set wosm_names \<inter> set (objects @ texts @ [assistant_message]) = {}"
  obtains copy where "cp_payload (compact_hook_payload names objects texts p) = JObj copy" "parse_wosm_ids copy = parse_wosm_ids fs"
proof -
  obtain copy where copy: "cp_payload (compact_hook_payload names objects texts p) = JObj copy"
    "\<And>k. map_of copy k =
      (if k \<in> set (objects @ texts @ [assistant_message]) then map_option (replaced_field objects texts k) (map_of fs k)
       else if k \<in> set (names (nullish (Option.bind (map_of fs ''hook_event_name'') as_string) [])) then map_of fs k else None)"
    by (rule compact_lookup [OF assms(1), of names objects texts]) (rule that)
  have "map_of copy k = map_of fs k" if "k \<in> set wosm_names" for k
    using copy(2) [of k] assms(2,3) that by auto
  then have "parse_wosm_ids copy = parse_wosm_ids fs" by (simp add: parse_wosm_ids_def may_def wosm_names_def)
  with copy(1) that show thesis by blast
qed

lemma ownership_ids:
  "has_wosm_ownership p \<Longrightarrow> \<exists>fs ids. json_fields p = Some fs \<and> parse_wosm_ids fs = Some ids \<and> wi_sessionId ids \<noteq> None \<and>
     wi_worktreeId ids \<noteq> None"
  by (auto simp: has_wosm_ownership_def bind_eq_Some_conv split: option.splits)

definition attributed :: "report_correlation \<Rightarrow> bool" where
  "attributed c \<longleftrightarrow> rc_sessionId c \<noteq> None \<and> rc_worktreeId c \<noteq> None"

lemma codex_ids_kept:
  assumes "has_wosm_ownership p" "parse_codex_event (cp_payload (compact_codex_payload p)) = Some e"
  shows "attributed (codex_correlation e)"
proof -
  obtain fs ids where fs: "json_fields p = Some fs" "parse_wosm_ids fs = Some ids" "wi_sessionId ids \<noteq> None" "wi_worktreeId ids \<noteq> None"
    using ownership_ids [OF assms(1)] by blast
  have apart: "set wosm_names \<inter> set ([''tool_input'', ''tool_response''] @ [''prompt''] @ [assistant_message]) = {}" by code_simp
  obtain copy where "cp_payload (compact_codex_payload p) = JObj copy" "parse_wosm_ids copy = parse_wosm_ids fs"
    by (rule compact_keeps_ids [OF fs(1) _ apart, of codex_names_for_event, folded compact_codex_payload_def])
      (auto simp: codex_names_for_event_def codex_common_names_def compact_codex_payload_def)
  with assms(2) fs show ?thesis
    by (auto simp: parse_codex_event_def bind_eq_Some_conv attributed_def codex_correlation_def split: if_splits)
qed

lemma event_name_nonempty: "nullish (parse_hook_event_name p) ''unknown'' \<noteq> []"
  by (auto simp: parse_hook_event_name_def nullish_def bind_eq_Some_conv may_def
      dest: as_text_nonempty split: option.split option.splits)


lemma claude_ids_kept:
  assumes "has_wosm_ownership p" "parse_claude_event (cp_payload (compact_claude_payload p)) = Some e"
  shows "attributed (claude_correlation e)"
proof -
  obtain fs ids where fs: "json_fields p = Some fs" "parse_wosm_ids fs = Some ids" "wi_sessionId ids \<noteq> None" "wi_worktreeId ids \<noteq> None"
    using ownership_ids [OF assms(1)] by blast
  have apart: "set wosm_names \<inter> set ([''tool_input'', ''tool_response'', ''permission_suggestions''] @
      [''prompt'', ''message''] @ [assistant_message]) = {}" by code_simp
  obtain copy where "cp_payload (compact_claude_payload p) = JObj copy" "parse_wosm_ids copy = parse_wosm_ids fs"
    by (rule compact_keeps_ids [OF fs(1) _ apart, of claude_names_for_event, folded compact_claude_payload_def])
      (auto simp: claude_names_for_event_def claude_common_names_def compact_claude_payload_def)
  with assms(2) fs show ?thesis
    by (auto simp: parse_claude_event_def bind_eq_Some_conv attributed_def claude_correlation_def)
qed

text \<open>The same of Claude Code's hooks, of which those of events that are not forwarded are ignored as well. The id of a report
  is that of the event at the time the report says it was observed.\<close>

lemma claude_hooks_are_sent_or_spooled:
  assumes "usable_sender sd"
  shows "let p = enrich_wosm_identity env payload; run = send_claude_hook_payload sd opts request None env payload w;
      name = nullish (parse_hook_event_name p) ''unknown'' in
    if \<not> has_wosm_ownership p \<or> claude_rule_for name = None then hook_answered HookIgnored w run
    else case parse_claude_event (cp_payload (compact_claude_payload p)) of
        None \<Rightarrow> hook_answered HookRejected w run
      | Some e \<Rightarrow> \<exists>r. valid_event_report r \<and> er_reportId r = report_id_of (claude_report_parts (er_observedAt r) e) \<and>
          er_correlation r = Some (claude_correlation e) \<and> attributed (claude_correlation e) \<and>
          er_status r = claude_status (cl_body e) (er_observedAt r) \<and> hook_settled sd opts request r run"
proof -
  define p where "p = enrich_wosm_identity env payload"
  define c where "c = compact_claude_payload p"
  define name where "name = nullish (parse_hook_event_name p) ''unknown''"
  define build where "build = and_then (observe (sn_now sd)) (\<lambda>observedAt.
      and_then (settle (claude_report_id (cp_payload c) observedAt)) (\<lambda>reportId.
      settle (claude_report reportId observedAt (cp_payload c) (compaction_diagnostics c)) :: event_report hook_action))"
  have run: "send_claude_hook_payload sd opts request None env payload =
      (if \<not> has_wosm_ownership p \<or> claude_rule_for name = None then ignored_hook_receipt sd ''claude'' name
       else report_or_reject sd opts request ''claude'' name build)"
    by (simp add: send_claude_hook_payload_def Let_def build_def c_def name_def p_def is_claude_forwarded_def)
  have name: "name \<noteq> []" unfolding name_def by (rule event_name_nonempty)
  show ?thesis
  proof (cases "has_wosm_ownership p \<and> claude_rule_for name \<noteq> None")
    case False
    then show ?thesis using ignored_answers [OF assms _ name] by (auto simp: run Let_def simp flip: p_def name_def)
  next
    case owned: True
    show ?thesis
    proof (cases "parse_claude_event (cp_payload c)")
      case None
      then have "build w = (Inl (claude_error ''HARNESS_CLAUDE_EVENT_INVALID'' ''Claude Code hook event did not match a supported schema.''), tick w)"
        by (simp add: build_def and_then_def observe_def settle_def claude_report_id_def claude_event_or_throw_def)
      moreover have "receivable ''claude'' (claude_error ''HARNESS_CLAUDE_EVENT_INVALID'' ''Claude Code hook event did not match a supported schema.'')"
        by code_simp
      ultimately have "hook_answered HookRejected w (report_or_reject sd opts request ''claude'' name build w)"
        using report_or_reject_unbuilt [where provider = "''claude''" and event = name] assms name tick_simps(2) by blast
      then show ?thesis using None owned by (auto simp: run Let_def c_def simp flip: p_def name_def)
    next
      case (Some e)
      define t where "t = sn_now sd (wd_time w)"
      have t: "ts_valid t" using assms by (simp add: usable_sender_def t_def)
      obtain r where r: "claude_report (report_id_of (claude_report_parts t e)) t (cp_payload c) (compaction_diagnostics c) = Inr r"
        "valid_event_report r" "er_reportId r = report_id_of (claude_report_parts t e)" "er_correlation r = Some (claude_correlation e)"
        "er_status r = claude_status (cl_body e) t" "er_observedAt r = t"
        using claude_report_valid [OF Some t] by blast
      have "build w = (Inr r, tick w)"
        using Some r(1)
        by (simp add: build_def and_then_def settle_def observe_def claude_report_id_def claude_event_or_throw_def t_def)
      then have "hook_settled sd opts request r (report_or_reject sd opts request ''claude'' name build w)"
        using report_or_reject_built [where provider = "''claude''" and event = name] assms name r(2) by blast
      with r Some owned claude_ids_kept [of p e] show ?thesis
        by (auto simp: run Let_def c_def simp flip: p_def name_def)
    qed
  qed
qed

subsection \<open>A hook to try the properties on\<close>

definition no_answer :: "event_report \<Rightarrow> report_receipt attempt hook_action" where
  "no_answer r = give (AttemptThrows ThrownPrimitive)"


end
