(* ===== verification/OpenCodeHooks.thy ===== *)
theory OpenCodeHooks
  imports HarnessPayload
begin

section \<open>Events of OpenCode (integrations/harness/opencode/src)\<close>

text \<open>
  OpenCode's plugin sends events of its own or in a compact form. The compact form, the compaction of native events into
  it, the table of the events that carry a status, reports and observations.
\<close>

subsection \<open>The compact form (eventSchemas.ts)\<close>

definition as_event_type :: "json \<Rightarrow> string option" where
  "as_event_type v = Option.bind (as_text v) (\<lambda>s. if trim s = [] then None else Some (trim s))"

definition as_pid :: "json \<Rightarrow> int option" where
  "as_pid v = Option.bind (as_num v) (\<lambda>n. if 0 < n then Some n else None)"

definition as_property_keys :: "json \<Rightarrow> string list option" where
  "as_property_keys v = Option.bind (as_texts v) (\<lambda>ks. if length ks \<le> 128 then Some ks else None)"

record opencode_event =
  oc_eventType :: string
  oc_observedAt :: "string option"
  oc_eventId :: "string option"
  oc_cwd :: string
  oc_pid :: "int option"
  oc_sessionId :: "string option"
  oc_statusType :: "string option"
  oc_permissionReply :: "string option"
  oc_questionReply :: "string option"
  oc_requestId :: "string option"
  oc_messageId :: "string option"
  oc_partId :: "string option"
  oc_toolCallId :: "string option"
  oc_toolName :: "string option"
  oc_commandName :: "string option"
  oc_filePath :: "string option"
  oc_errorName :: "string option"
  oc_propertyKeys :: "string list option"
  oc_ids :: wosm_ids
  oc_integrationId :: "string option"
  oc_integrationVersion :: "string option"

definition opencode_names :: "string list" where
  "opencode_names =
     [''event_type'', ''observed_at'', ''event_id'', ''cwd'', ''pid'', ''opencode_session_id'', ''status_type'',
      ''permission_reply'', ''question_reply'', ''request_id'', ''message_id'', ''part_id'', ''tool_call_id'', ''tool_name'',
      ''command_name'', ''file_path'', ''error_name'', ''property_keys''] @ wosm_names @
     [''wosm_integration_id'', ''wosm_integration_version'']"

definition parse_opencode_event :: "json \<Rightarrow> opencode_event option" where
  "parse_opencode_event payload =
     Option.bind (json_fields payload) (\<lambda>fs.
     Option.bind (need as_event_type fs ''event_type'') (\<lambda>eventType.
     Option.bind (may as_text fs ''observed_at'') (\<lambda>observedAt.
     Option.bind (may as_text fs ''event_id'') (\<lambda>eventId.
     Option.bind (need as_text fs ''cwd'') (\<lambda>cwd.
     Option.bind (may as_pid fs ''pid'') (\<lambda>pid.
     Option.bind (may as_text fs ''opencode_session_id'') (\<lambda>sessionId.
     Option.bind (may as_text fs ''status_type'') (\<lambda>statusType.
     Option.bind (may as_text fs ''permission_reply'') (\<lambda>permissionReply.
     Option.bind (may as_text fs ''question_reply'') (\<lambda>questionReply.
     Option.bind (may as_text fs ''request_id'') (\<lambda>requestId.
     Option.bind (may as_text fs ''message_id'') (\<lambda>messageId.
     Option.bind (may as_text fs ''part_id'') (\<lambda>partId.
     Option.bind (may as_text fs ''tool_call_id'') (\<lambda>toolCallId.
     Option.bind (may as_text fs ''tool_name'') (\<lambda>toolName.
     Option.bind (may as_text fs ''command_name'') (\<lambda>commandName.
     Option.bind (may as_text fs ''file_path'') (\<lambda>filePath.
     Option.bind (may as_text fs ''error_name'') (\<lambda>errorName.
     Option.bind (may as_property_keys fs ''property_keys'') (\<lambda>propertyKeys.
     Option.bind (parse_wosm_ids fs) (\<lambda>ids.
     Option.bind (may as_text fs ''wosm_integration_id'') (\<lambda>integrationId.
     Option.bind (may as_text fs ''wosm_integration_version'') (\<lambda>integrationVersion.
     if strict_keys opencode_names fs
     then Some \<lparr>oc_eventType = eventType, oc_observedAt = observedAt, oc_eventId = eventId, oc_cwd = cwd, oc_pid = pid,
       oc_sessionId = sessionId, oc_statusType = statusType, oc_permissionReply = permissionReply,
       oc_questionReply = questionReply, oc_requestId = requestId, oc_messageId = messageId, oc_partId = partId,
       oc_toolCallId = toolCallId, oc_toolName = toolName, oc_commandName = commandName, oc_filePath = filePath,
       oc_errorName = errorName, oc_propertyKeys = propertyKeys, oc_ids = ids, oc_integrationId = integrationId,
       oc_integrationVersion = integrationVersion\<rparr>
     else None))))))))))))))))))))))"

text \<open>A parsed event as the object that the schema gives.\<close>

definition wosm_ids_fields :: "wosm_ids \<Rightarrow> (string \<times> json) list" where
  "wosm_ids_fields ids =
     opt_field ''wosm_project_id'' JStr (wi_projectId ids) @ opt_field ''wosm_worktree_id'' JStr (wi_worktreeId ids) @
     opt_field ''wosm_worktree_path'' JStr (wi_worktreePath ids) @ opt_field ''wosm_session_id'' JStr (wi_sessionId ids) @
     opt_field ''wosm_terminal_provider'' JStr (wi_terminalProvider ids) @
     opt_field ''wosm_terminal_target_id'' JStr (wi_terminalTargetId ids)"

definition opencode_event_fields :: "opencode_event \<Rightarrow> (string \<times> json) list" where
  "opencode_event_fields e =
     [(''event_type'', JStr (oc_eventType e))] @ opt_field ''observed_at'' JStr (oc_observedAt e) @
     opt_field ''event_id'' JStr (oc_eventId e) @ [(''cwd'', JStr (oc_cwd e))] @ opt_field ''pid'' JNum (oc_pid e) @
     opt_field ''opencode_session_id'' JStr (oc_sessionId e) @ opt_field ''status_type'' JStr (oc_statusType e) @
     opt_field ''permission_reply'' JStr (oc_permissionReply e) @ opt_field ''question_reply'' JStr (oc_questionReply e) @
     opt_field ''request_id'' JStr (oc_requestId e) @ opt_field ''message_id'' JStr (oc_messageId e) @
     opt_field ''part_id'' JStr (oc_partId e) @ opt_field ''tool_call_id'' JStr (oc_toolCallId e) @
     opt_field ''tool_name'' JStr (oc_toolName e) @ opt_field ''command_name'' JStr (oc_commandName e) @
     opt_field ''file_path'' JStr (oc_filePath e) @ opt_field ''error_name'' JStr (oc_errorName e) @
     opt_field ''property_keys'' (\<lambda>ks. JArr (map JStr ks)) (oc_propertyKeys e) @ wosm_ids_fields (oc_ids e) @
     opt_field ''wosm_integration_id'' JStr (oc_integrationId e) @
     opt_field ''wosm_integration_version'' JStr (oc_integrationVersion e)"

subsection \<open>Native events\<close>

datatype native_tool = NativeToolName string | NativeToolRef "string option" "string option"

record native_properties =
  np_sessionID :: "string option"
  np_sessionId :: "string option"
  np_cwd :: "string option"
  np_directory :: "string option"
  np_status :: "string option"
  np_reply :: "string option"
  np_answers :: "json list option"
  np_requestID :: "string option"
  np_id :: "string option"
  np_messageID :: "string option"
  np_partID :: "string option"
  np_callID :: "string option"
  np_tool :: "native_tool option"
  np_name :: "string option"
  np_permission :: "string option"
  np_command :: "string option"
  np_file :: "string option"
  np_path :: "string option"
  np_error :: "string option option"
  np_info :: "string option option"
  np_keys :: "string list"

record native_event =
  ne_id :: "string option"
  ne_type :: string
  ne_cwd :: "string option"
  ne_directory :: "string option"
  ne_pid :: "int option"
  ne_properties :: "native_properties option"
  ne_keys :: "string list"

definition as_array :: "json \<Rightarrow> json list option" where
  "as_array v = (case v of JArr vs \<Rightarrow> Some vs | _ \<Rightarrow> None)"

text \<open>The type of a status, which is a text or an object with one.\<close>

definition as_native_status :: "json \<Rightarrow> string option" where
  "as_native_status v =
     (case as_text v of
        Some s \<Rightarrow> Some s
      | None \<Rightarrow> Option.bind (json_fields v) (\<lambda>fs. need as_text fs ''type''))"

definition as_native_tool :: "json \<Rightarrow> native_tool option" where
  "as_native_tool v =
     (case as_text v of
        Some s \<Rightarrow> Some (NativeToolName s)
      | None \<Rightarrow> Option.bind (json_fields v) (\<lambda>fs.
          Option.bind (may as_text fs ''messageID'') (\<lambda>messageID.
          map_option (NativeToolRef messageID) (may as_text fs ''callID''))))"

definition as_object_with :: "string \<Rightarrow> json \<Rightarrow> string option option" where
  "as_object_with name v = Option.bind (json_fields v) (\<lambda>fs. may as_text fs name)"

definition as_native_properties :: "json \<Rightarrow> native_properties option" where
  "as_native_properties v =
     Option.bind (json_fields v) (\<lambda>fs.
     Option.bind (may as_text fs ''sessionID'') (\<lambda>sessionID.
     Option.bind (may as_text fs ''sessionId'') (\<lambda>sessionId.
     Option.bind (may as_text fs ''cwd'') (\<lambda>cwd.
     Option.bind (may as_text fs ''directory'') (\<lambda>directory.
     Option.bind (may as_native_status fs ''status'') (\<lambda>status.
     Option.bind (may as_text fs ''reply'') (\<lambda>reply.
     Option.bind (may as_array fs ''answers'') (\<lambda>answers.
     Option.bind (may as_text fs ''requestID'') (\<lambda>requestID.
     Option.bind (may as_text fs ''id'') (\<lambda>i.
     Option.bind (may as_text fs ''messageID'') (\<lambda>messageID.
     Option.bind (may as_text fs ''partID'') (\<lambda>partID.
     Option.bind (may as_text fs ''callID'') (\<lambda>callID.
     Option.bind (may as_native_tool fs ''tool'') (\<lambda>tool.
     Option.bind (may as_text fs ''name'') (\<lambda>name.
     Option.bind (may as_text fs ''permission'') (\<lambda>permission.
     Option.bind (may as_text fs ''command'') (\<lambda>command.
     Option.bind (may as_text fs ''file'') (\<lambda>filePath.
     Option.bind (may as_text fs ''path'') (\<lambda>path.
     Option.bind (may (as_object_with ''name'') fs ''error'') (\<lambda>err.
     Option.bind (may (as_object_with ''id'') fs ''info'') (\<lambda>info.
     Some \<lparr>np_sessionID = sessionID, np_sessionId = sessionId, np_cwd = cwd, np_directory = directory, np_status = status,
       np_reply = reply, np_answers = answers, np_requestID = requestID, np_id = i, np_messageID = messageID,
       np_partID = partID, np_callID = callID, np_tool = tool, np_name = name, np_permission = permission,
       np_command = command, np_file = filePath, np_path = path, np_error = err, np_info = info,
       np_keys = js_unique (map fst fs)\<rparr>)))))))))))))))))))))"

definition parse_native_event :: "json \<Rightarrow> native_event option" where
  "parse_native_event payload =
     Option.bind (json_fields payload) (\<lambda>fs.
     Option.bind (may as_text fs ''id'') (\<lambda>i.
     Option.bind (need as_event_type fs ''type'') (\<lambda>type.
     Option.bind (may as_text fs ''cwd'') (\<lambda>cwd.
     Option.bind (may as_text fs ''directory'') (\<lambda>directory.
     Option.bind (may as_pid fs ''pid'') (\<lambda>pid.
     Option.bind (may as_native_properties fs ''properties'') (\<lambda>properties.
     Some \<lparr>ne_id = i, ne_type = type, ne_cwd = cwd, ne_directory = directory, ne_pid = pid, ne_properties = properties,
       ne_keys = js_unique (map fst fs)\<rparr>)))))))"

subsection \<open>Compaction (compaction.ts)\<close>

definition no_properties :: native_properties where
  "no_properties = \<lparr>np_sessionID = None, np_sessionId = None, np_cwd = None, np_directory = None, np_status = None,
     np_reply = None, np_answers = None, np_requestID = None, np_id = None, np_messageID = None, np_partID = None,
     np_callID = None, np_tool = None, np_name = None, np_permission = None, np_command = None, np_file = None,
     np_path = None, np_error = None, np_info = None, np_keys = []\<rparr>"

definition native_tool_name :: "native_properties \<Rightarrow> string option" where
  "native_tool_name p = (case np_tool p of Some (NativeToolName s) \<Rightarrow> Some s | _ \<Rightarrow> None)"

definition native_tool_message :: "native_properties \<Rightarrow> string option" where
  "native_tool_message p = (case np_tool p of Some (NativeToolRef m c) \<Rightarrow> m | _ \<Rightarrow> None)"

definition native_tool_call :: "native_properties \<Rightarrow> string option" where
  "native_tool_call p = (case np_tool p of Some (NativeToolRef m c) \<Rightarrow> c | _ \<Rightarrow> None)"

text \<open>The payload that is made of a native event; \<open>here\<close> is the working directory of the process.\<close>

definition compacted_native_event :: "string \<Rightarrow> string option \<Rightarrow> int option \<Rightarrow> native_event \<Rightarrow> opencode_event" where
  "compacted_native_event here cwdOption pidOption e =
     (let p = nullish (ne_properties e) no_properties;
          isType = (\<lambda>t. ne_type e = t);
          when = (\<lambda>b x. if b then x else None)
      in \<lparr>oc_eventType = ne_type e, oc_observedAt = None, oc_eventId = ne_id e,
        oc_cwd = nullish (ne_cwd e) (nullish (np_cwd p) (nullish (ne_directory e) (nullish (np_directory p) (nullish cwdOption here)))),
        oc_pid = nullish_opt (ne_pid e) pidOption,
        oc_sessionId = nullish_opt (np_sessionID p) (nullish_opt (np_sessionId p) (nullish (np_info p) None)),
        oc_statusType = np_status p,
        oc_permissionReply = when (isType ''permission.replied'') (np_reply p),
        oc_questionReply = when (isType ''question.replied'')
          (if np_answers p \<noteq> None then Some ''answered'' else np_reply p),
        oc_requestId = nullish_opt (np_requestID p) (np_id p),
        oc_messageId = nullish_opt (np_messageID p) (native_tool_message p),
        oc_partId = np_partID p,
        oc_toolCallId = nullish_opt (np_callID p) (native_tool_call p),
        oc_toolName = nullish_opt (native_tool_name p) (nullish_opt (np_name p) (np_permission p)),
        oc_commandName = nullish_opt (np_command p) (when (isType ''command.executed'') (np_name p)),
        oc_filePath = nullish_opt (np_file p) (np_path p),
        oc_errorName = nullish (np_error p) None,
        oc_propertyKeys = map_option (\<lambda>ps. take 128 (sort_strings (np_keys ps))) (ne_properties e),
        oc_ids = \<lparr>wi_projectId = None, wi_worktreeId = None, wi_worktreePath = None, wi_sessionId = None,
          wi_terminalProvider = None, wi_terminalTargetId = None\<rparr>,
        oc_integrationId = None, oc_integrationVersion = None\<rparr>)"

text \<open>The properties whose value went into the payload.\<close>

definition promoted_properties :: "native_event \<Rightarrow> string list" where
  "promoted_properties e =
     (let p = nullish (ne_properties e) no_properties;
          if_there = (\<lambda>x name. if x \<noteq> None then [name] else [])
      in (if np_sessionID p \<noteq> None then [''sessionID''] else if np_sessionId p \<noteq> None then [''sessionId'']
          else if nullish (np_info p) None \<noteq> None then [''info''] else []) @
         if_there (np_status p) ''status'' @ if_there (np_reply p) ''reply'' @
         (if ne_type e = ''question.replied'' \<and> np_answers p \<noteq> None then [''answers''] else []) @
         (if np_requestID p \<noteq> None then [''requestID''] else if np_id p \<noteq> None then [''id''] else []) @
         if_there (np_messageID p) ''messageID'' @ if_there (np_partID p) ''partID'' @ if_there (np_callID p) ''callID'' @
         (if np_tool p \<noteq> None then [''tool''] else []) @
         (if native_tool_name p = None \<and> np_name p \<noteq> None then [''name''] else []) @
         (if native_tool_name p = None \<and> np_name p = None \<and> np_permission p \<noteq> None then [''permission''] else []) @
         (if np_command p \<noteq> None then [''command'']
          else if ne_type e = ''command.executed'' \<and> np_name p \<noteq> None then [''name''] else []) @
         (if np_file p \<noteq> None then [''file''] else if np_path p \<noteq> None then [''path''] else []) @
         (if nullish (np_error p) None \<noteq> None then [''error''] else []))"

definition native_top_level_names :: "string list" where
  "native_top_level_names = [''id'', ''type'', ''properties'', ''cwd'', ''directory'', ''pid'']"

definition omitted_native_names :: "native_event \<Rightarrow> string list" where
  "omitted_native_names e =
     sort_strings (js_unique (filter (\<lambda>k. k \<notin> set native_top_level_names) (ne_keys e) @
       (case ne_properties e of
          None \<Rightarrow> []
        | Some p \<Rightarrow> map (\<lambda>k. ''properties.'' @ k) (filter (\<lambda>k. k \<notin> set (promoted_properties e)) (np_keys p)))))"

text \<open>The schema is applied to the payload that was made; where that throws, so does compaction.\<close>

definition compact_opencode_payload :: "string \<Rightarrow> string option \<Rightarrow> int option \<Rightarrow> json \<Rightarrow> thrown + payload_compaction" where
  "compact_opencode_payload here cwdOption pidOption payload =
     (case parse_opencode_event payload of
        Some e \<Rightarrow> Inr \<lparr>cp_payload = JObj (opencode_event_fields e), cp_compacted = False,
          cp_originalBytes = json_byte_count payload, cp_compactedBytes = json_byte_count (JObj (opencode_event_fields e)),
          cp_omitted = []\<rparr>
      | None \<Rightarrow>
          (case parse_native_event payload of
             None \<Rightarrow> Inr \<lparr>cp_payload = payload, cp_compacted = False, cp_originalBytes = json_byte_count payload,
               cp_compactedBytes = json_byte_count payload, cp_omitted = []\<rparr>
           | Some n \<Rightarrow>
               (case parse_opencode_event (JObj (opencode_event_fields (compacted_native_event here cwdOption pidOption n))) of
                  None \<Rightarrow> Inl zod_error
                | Some e \<Rightarrow> Inr \<lparr>cp_payload = JObj (opencode_event_fields e), cp_compacted = True,
                    cp_originalBytes = json_byte_count payload,
                    cp_compactedBytes = json_byte_count (JObj (opencode_event_fields e)),
                    cp_omitted = omitted_native_names n\<rparr>)))"

subsection \<open>Status and the table of events (events.ts, ingressRules.ts)\<close>

definition opencode_permission_reason :: "opencode_event \<Rightarrow> string" where
  "opencode_permission_reason e =
     (case oc_toolName e of
        None \<Rightarrow> ''OpenCode requested permission.''
      | Some tool \<Rightarrow> ''OpenCode requested permission for '' @ tool @ ''.'')"

definition opencode_working_reason :: "opencode_event \<Rightarrow> string" where
  "opencode_working_reason e =
     (case oc_toolName e of
        Some tool \<Rightarrow> ''OpenCode is using '' @ tool @ ''.''
      | None \<Rightarrow>
          (case oc_commandName e of
             Some command \<Rightarrow> ''OpenCode executed command '' @ command @ ''.''
           | None \<Rightarrow> ''OpenCode session is working.''))"

definition opencode_session_status :: "opencode_event \<Rightarrow> timestamp \<Rightarrow> observed_status option" where
  "opencode_session_status e t =
     (if oc_statusType e = Some ''idle'' then Some (harness_status AgentIdle High ''OpenCode session status is idle.'' t)
      else if oc_statusType e = Some ''busy'' then Some (harness_status AgentWorking High ''OpenCode session status is busy.'' t)
      else if oc_statusType e = Some ''retry''
      then Some (harness_status AgentWorking Medium ''OpenCode is retrying a session step.'' t)
      else None)"

definition opencode_compacting_types :: "string list" where
  "opencode_compacting_types =
     [''session.compacted'', ''session.next.compaction.started'', ''session.next.compaction.delta'',
      ''session.next.compaction.ended'']"

definition opencode_working_types :: "string list" where
  "opencode_working_types =
     [''command.executed'', ''session.next.prompted'', ''session.next.synthetic'', ''session.next.shell.started'',
      ''session.next.shell.ended'', ''session.next.step.started'', ''session.next.step.ended'', ''session.next.step.failed'',
      ''session.next.tool.called'', ''session.next.tool.progress'', ''session.next.tool.success'',
      ''session.next.tool.failed'', ''session.next.tool.input.started'', ''session.next.tool.input.delta'',
      ''session.next.tool.input.ended'', ''tool.execute.before'', ''tool.execute.after'']"

definition opencode_status :: "opencode_event \<Rightarrow> timestamp \<Rightarrow> observed_status option" where
  "opencode_status e t =
     (let type = oc_eventType e in
      if type = ''permission.asked'' then Some (harness_status AgentNeedsAttention High (opencode_permission_reason e) t)
      else if type = ''question.asked'' then Some (harness_status AgentNeedsAttention High ''OpenCode asked a question.'' t)
      else if type = ''permission.replied''
      then Some (if oc_permissionReply e = Some ''reject''
        then harness_status AgentIdle Medium ''OpenCode permission request was rejected.'' t
        else harness_status AgentWorking High ''OpenCode permission request was approved.'' t)
      else if type = ''question.replied'' then Some (harness_status AgentWorking High ''OpenCode question was answered.'' t)
      else if type = ''question.rejected'' then Some (harness_status AgentIdle Medium ''OpenCode question was rejected.'' t)
      else if type = ''session.created'' then Some (harness_status AgentStarting Medium ''OpenCode session was created.'' t)
      else if type = ''session.deleted'' then Some (harness_status AgentExited High ''OpenCode session was deleted.'' t)
      else if type = ''session.error''
      then Some (harness_status AgentNeedsAttention High ''OpenCode reported a session error.'' t)
      else if type = ''session.idle'' then Some (harness_status AgentIdle High ''OpenCode session is idle.'' t)
      else if type = ''session.status'' then opencode_session_status e t
      else if type \<in> set opencode_compacting_types
      then Some (harness_status AgentWorking Medium ''OpenCode is compacting the session.'' t)
      else if type \<in> set opencode_working_types
      then Some (harness_status AgentWorking Medium (opencode_working_reason e) t)
      else if type = ''tui.command.execute''
      then (if oc_commandName e = Some ''session.interrupt''
        then Some (harness_status AgentIdle Medium ''OpenCode session was interrupted.'' t) else None)
      else None)"

definition opencode_ingress_rules :: "ingress_rule list" where
  "opencode_ingress_rules =
     [ingress_rule_of ''command.executed'' [AgentWorking] [Medium],
      ingress_rule_of ''permission.asked'' [AgentNeedsAttention] [High],
      ingress_rule_of ''permission.replied'' [AgentIdle, AgentWorking] [Medium, High],
      ingress_rule_of ''question.asked'' [AgentNeedsAttention] [High],
      ingress_rule_of ''question.rejected'' [AgentIdle] [Medium],
      ingress_rule_of ''question.replied'' [AgentWorking] [High],
      ingress_rule_of ''session.compacted'' [AgentWorking] [Medium],
      ingress_rule_of ''session.created'' [AgentStarting] [Medium],
      ingress_rule_of ''session.deleted'' [AgentExited] [High],
      ingress_rule_of ''session.error'' [AgentNeedsAttention] [High],
      ingress_rule_of ''session.idle'' [AgentIdle] [High],
      ingress_rule_of ''session.next.compaction.delta'' [AgentWorking] [Medium],
      ingress_rule_of ''session.next.compaction.ended'' [AgentWorking] [Medium],
      ingress_rule_of ''session.next.compaction.started'' [AgentWorking] [Medium],
      ingress_rule_of ''session.next.prompted'' [AgentWorking] [Medium],
      ingress_rule_of ''session.next.shell.ended'' [AgentWorking] [Medium],
      ingress_rule_of ''session.next.shell.started'' [AgentWorking] [Medium],
      ingress_rule_of ''session.next.step.ended'' [AgentWorking] [Medium],
      ingress_rule_of ''session.next.step.failed'' [AgentWorking] [Medium],
      ingress_rule_of ''session.next.step.started'' [AgentWorking] [Medium],
      ingress_rule_of ''session.next.synthetic'' [AgentWorking] [Medium],
      ingress_rule_of ''session.next.tool.called'' [AgentWorking] [Medium],
      ingress_rule_of ''session.next.tool.failed'' [AgentWorking] [Medium],
      ingress_rule_of ''session.next.tool.input.delta'' [AgentWorking] [Medium],
      ingress_rule_of ''session.next.tool.input.ended'' [AgentWorking] [Medium],
      ingress_rule_of ''session.next.tool.input.started'' [AgentWorking] [Medium],
      ingress_rule_of ''session.next.tool.progress'' [AgentWorking] [Medium],
      ingress_rule_of ''session.next.tool.success'' [AgentWorking] [Medium],
      ingress_rule_of ''session.status'' [AgentIdle, AgentWorking] [Medium, High],
      ingress_rule_of ''tool.execute.after'' [AgentWorking] [Medium],
      ingress_rule_of ''tool.execute.before'' [AgentWorking] [Medium],
      ingress_rule_of ''tui.command.execute'' [AgentIdle] [Medium]]"

definition opencode_rule_for :: "string \<Rightarrow> ingress_rule option" where
  "opencode_rule_for type = rule_for opencode_ingress_rules type"

subsection \<open>Reports and observations\<close>

definition opencode_error :: "string \<Rightarrow> string \<Rightarrow> thrown" where
  "opencode_error code message =
     ThrownObject ((basic_error ''HarnessProviderError'' code (code @ '': '' @ message))\<lparr>se_provider := Some ''opencode''\<rparr>) None"

definition opencode_event_or_throw :: "json \<Rightarrow> thrown + opencode_event" where
  "opencode_event_or_throw payload =
     (case parse_opencode_event payload of
        None \<Rightarrow> Inl (opencode_error ''HARNESS_OPENCODE_EVENT_INVALID''
          ''OpenCode event payload did not match the supported compact strict schema.'')
      | Some e \<Rightarrow> Inr e)"

definition normalize_opencode_type :: "string \<Rightarrow> thrown + string" where
  "normalize_opencode_type s =
     (case as_event_type (JStr s) of
        None \<Rightarrow> Inl (opencode_error ''HARNESS_OPENCODE_EVENT_INVALID'' (''Unsupported OpenCode event type: '' @ s @ ''.''))
      | Some type \<Rightarrow> Inr type)"

text \<open>The status of an event that the table has.\<close>

definition opencode_listed_status :: "opencode_event \<Rightarrow> timestamp \<Rightarrow> observed_status option" where
  "opencode_listed_status e t = (if opencode_rule_for (oc_eventType e) \<noteq> None then opencode_status e t else None)"

definition opencode_provider_data :: "opencode_event \<Rightarrow> json" where
  "opencode_provider_data e = JObj
     ([(''openCodeEventType'', JStr (oc_eventType e))] @ opt_field ''openCodeEventId'' JStr (oc_eventId e) @
      opt_field ''openCodeSessionId'' JStr (oc_sessionId e) @ opt_field ''statusType'' JStr (oc_statusType e) @
      opt_field ''permissionReply'' JStr (oc_permissionReply e) @ opt_field ''questionReply'' JStr (oc_questionReply e) @
      opt_field ''requestId'' JStr (oc_requestId e) @ opt_field ''messageId'' JStr (oc_messageId e) @
      opt_field ''partId'' JStr (oc_partId e) @ opt_field ''toolCallId'' JStr (oc_toolCallId e) @
      opt_field ''toolName'' JStr (oc_toolName e) @ opt_field ''commandName'' JStr (oc_commandName e) @
      opt_field ''filePath'' JStr (oc_filePath e) @ opt_field ''errorName'' JStr (oc_errorName e) @
      opt_field ''propertyKeys'' (\<lambda>ks. JArr (map JStr ks)) (oc_propertyKeys e) @ wosm_provider_data (oc_ids e) @
      opt_field ''wosmIntegrationId'' JStr (oc_integrationId e) @
      opt_field ''wosmIntegrationVersion'' JStr (oc_integrationVersion e))"

definition opencode_correlation :: "opencode_event \<Rightarrow> report_correlation" where
  "opencode_correlation e =
     \<lparr>rc_harnessRunId = map_option (\<lambda>i. ''opencode:'' @ i) (wi_terminalTargetId (oc_ids e)),
      rc_sessionId = wi_sessionId (oc_ids e), rc_worktreeId = wi_worktreeId (oc_ids e),
      rc_terminalTargetId = wi_terminalTargetId (oc_ids e), rc_projectId = wi_projectId (oc_ids e),
      rc_nativeSessionId = oc_sessionId e, rc_nativeSessionFile = None, rc_cwd = Some (oc_cwd e), rc_pid = oc_pid e\<rparr>"

definition opencode_coalesce_key :: "opencode_event \<Rightarrow> string option" where
  "opencode_coalesce_key e =
     (let parts = opt_part ''native:'' (oc_sessionId e) @ opt_part ''message:'' (oc_messageId e) @
        opt_part ''part:'' (oc_partId e) @ opt_part ''tool:'' (oc_toolCallId e) @ opt_part ''request:'' (oc_requestId e)
      in if parts = [] then None else Some (str_join '':'' parts))"

definition opencode_report ::
  "string \<Rightarrow> string \<Rightarrow> timestamp \<Rightarrow> json \<Rightarrow> report_diagnostics \<Rightarrow> thrown + event_report" where
  "opencode_report reportId eventType observedAt payload diagnostics =
     (case opencode_event_or_throw payload of
        Inl v \<Rightarrow> Inl v
      | Inr e \<Rightarrow>
          (case normalize_opencode_type eventType of
             Inl v \<Rightarrow> Inl v
           | Inr type \<Rightarrow>
               if oc_eventType e \<noteq> type
               then Inl (opencode_error ''HARNESS_OPENCODE_EVENT_INVALID''
                 (''OpenCode hook event name '' @ type @ '' did not match payload event_type '' @ oc_eventType e @ ''.''))
               else (let report = \<lparr>er_reportId = reportId, er_provider = ''opencode'', er_eventType = oc_eventType e,
                    er_observedAt = observedAt, er_coalesceKey = opencode_coalesce_key e,
                    er_status = opencode_listed_status e observedAt, er_correlation = Some (opencode_correlation e),
                    er_diagnostics = Some (diagnostics_json (oc_eventType e) diagnostics),
                    er_providerData = Some (opencode_provider_data e)\<rparr>
                  in if valid_event_report report then Inr report else Inl zod_error)))"

definition opencode_observation_diagnostics :: "opencode_event \<Rightarrow> payload_compaction \<Rightarrow> json option" where
  "opencode_observation_diagnostics e c =
     (if cp_omitted c = [] then None
      else Some (JObj [(''rawEventType'', JStr (oc_eventType e)), (''compacted'', JBool (cp_compacted c)),
        (''omittedFieldNames'', JArr (map JStr (cp_omitted c))), (''payloadBytes'', JNum (int (cp_originalBytes c))),
        (''compactedBytes'', JNum (int (cp_compactedBytes c)))]))"

text \<open>An event that says when it was observed is taken at its word.\<close>

definition opencode_observation ::
  "string \<Rightarrow> timestamp \<Rightarrow> json \<Rightarrow> terminal_observation list \<Rightarrow> worktree_observation list \<Rightarrow>
     thrown + event_observation list" where
  "opencode_observation here receivedAt payload targets worktrees =
     (case compact_opencode_payload here None None payload of
        Inl v \<Rightarrow> Inl v
      | Inr compaction \<Rightarrow>
          (case opencode_event_or_throw (cp_payload compaction) of
             Inl v \<Rightarrow> Inl v
           | Inr e \<Rightarrow>
               (let observedAt = nullish (oc_observedAt e) receivedAt;
                    terminal = nullish_opt (terminal_for_id (wi_terminalTargetId (oc_ids e)) targets)
                      (terminal_for_cwd (oc_cwd e) targets);
                    worktree = nullish_opt (worktree_for_id (wi_worktreeId (oc_ids e)) worktrees)
                      (nullish_opt (worktree_for_path (wi_worktreePath (oc_ids e)) worktrees)
                        (worktree_for_cwd (oc_cwd e) worktrees));
                    c = locate_event ''opencode'' (oc_ids e) terminal worktree
                in Inr [\<lparr>eo_provider = ''opencode'', eo_reportId = None, eo_eventType = None,
                  eo_projectId = ly_projectId c, eo_sessionId = ly_sessionId c, eo_worktreeId = ly_worktreeId c,
                  eo_terminalTargetId = ly_terminalTargetId c, eo_harnessRunId = ly_harnessRunId c,
                  eo_nativeSessionId = oc_sessionId e, eo_nativeSessionFile = None, eo_cwd = Some (oc_cwd e),
                  eo_pid = oc_pid e, eo_status = opencode_listed_status e observedAt,
                  eo_rawEventType = Some (oc_eventType e),
                  eo_diagnostics = opencode_observation_diagnostics e compaction,
                  eo_providerData = Some (opencode_provider_data e), eo_observedAt = observedAt\<rparr>])))"

end
