(* ===== verification/OpenCodeHookProperties.thy ===== *)
theory OpenCodeHookProperties
  imports ClaudeHookProperties OpenCodeHooks
begin

section \<open>What OpenCode's events become\<close>

text \<open>
  The table of OpenCode's events says exactly which states and confidences its events can have; compact events survive
  compaction, and native ones become compact unless a property has no name.
\<close>

subsection \<open>The table\<close>

lemmas opencode_status_simps = opencode_status_def Let_def opencode_working_types_def opencode_compacting_types_def
  opencode_session_status_def harness_status_def

lemma opencode_status_type:
  assumes "opencode_status e t = Some s"
  shows "oc_eventType e \<in> set (map iu_eventType opencode_ingress_rules)"
proof -
  have "set ([''permission.asked'', ''question.asked'', ''permission.replied'', ''question.replied'', ''question.rejected'',
      ''session.created'', ''session.deleted'', ''session.error'', ''session.idle'', ''session.status'', ''tui.command.execute''] @
      opencode_compacting_types @ opencode_working_types) \<subseteq> set (map iu_eventType opencode_ingress_rules)"
    by code_simp
  moreover have "oc_eventType e \<in> set ([''permission.asked'', ''question.asked'', ''permission.replied'', ''question.replied'',
      ''question.rejected'', ''session.created'', ''session.deleted'', ''session.error'', ''session.idle'', ''session.status'',
      ''tui.command.execute''] @ opencode_compacting_types @ opencode_working_types)"
    using assms by (auto simp: opencode_status_def Let_def split: if_splits)
  ultimately show ?thesis by blast
qed

lemma opencode_rule_of_type:
  "type \<in> set (map iu_eventType opencode_ingress_rules) \<Longrightarrow>
   \<exists>r \<in> set opencode_ingress_rules. iu_eventType r = type \<and> opencode_rule_for type = Some r"
  unfolding opencode_rule_for_def rule_for_def
  by (cases "find (\<lambda>r. iu_eventType r = type) opencode_ingress_rules") (auto simp: find_None_iff find_Some_iff)

lemma opencode_status_allowed:
  "\<forall>r \<in> set opencode_ingress_rules. \<forall>s. oc_eventType e = iu_eventType r \<longrightarrow> opencode_status e t = Some s \<longrightarrow> allowed_by r s"
  unfolding opencode_ingress_rules_def ingress_rule_of_def
  by (simp add: opencode_status_simps allowed_by_def)

text \<open>Three events that between them have every state and confidence that an event of their type can have.\<close>

definition opencode_like :: "string \<Rightarrow> string \<Rightarrow> string option \<Rightarrow> opencode_event" where
  "opencode_like type status reply =
     (compacted_native_event ''/'' None None
        \<lparr>ne_id = None, ne_type = type, ne_cwd = None, ne_directory = None, ne_pid = None, ne_properties = None, ne_keys = []\<rparr>)
     \<lparr>oc_statusType := Some status, oc_permissionReply := reply, oc_commandName := Some ''session.interrupt''\<rparr>"

definition opencode_alternatives :: "string \<Rightarrow> opencode_event list" where
  "opencode_alternatives type =
     [opencode_like type ''idle'' (Some ''reject''), opencode_like type ''busy'' None, opencode_like type ''retry'' None]"

lemma opencode_like_type [simp]: "oc_eventType (opencode_like type status reply) = type"
  by (simp add: opencode_like_def compacted_native_event_def Let_def)

lemma opencode_table_attained:
  "list_all (\<lambda>r. list_all (\<lambda>v. list_ex (\<lambda>e. map_option os_value (opencode_status e t) = Some v)
        (opencode_alternatives (iu_eventType r))) (iu_statusIntents r) \<and>
      list_all (\<lambda>v. list_ex (\<lambda>e. map_option os_confidence (opencode_status e t) = Some v)
        (opencode_alternatives (iu_eventType r))) (iu_confidences r)) opencode_ingress_rules"
  by code_simp

text \<open>The table of OpenCode's events is exact: the states it lists for a type are those that events of that type can have, and
  the confidences likewise; a type that is not listed never has a status, so that looking a type up before taking the
  status of its event changes nothing.\<close>

lemma opencode_table_is_exact:
  "((\<exists>e s. oc_eventType e = type \<and> opencode_status e t = Some s \<and> os_value s = v) \<longleftrightarrow>
      (\<exists>r. opencode_rule_for type = Some r \<and> v \<in> set (iu_statusIntents r))) \<and>
   ((\<exists>e s. oc_eventType e = type \<and> opencode_status e t = Some s \<and> os_confidence s = c) \<longleftrightarrow>
      (\<exists>r. opencode_rule_for type = Some r \<and> c \<in> set (iu_confidences r))) \<and>
   (\<forall>e. opencode_listed_status e t = opencode_status e t)"
proof -
  have listed: "\<exists>r \<in> set opencode_ingress_rules. iu_eventType r = oc_eventType e \<and>
      opencode_rule_for (oc_eventType e) = Some r \<and> allowed_by r s" if "opencode_status e t = Some s" for e s
    using opencode_rule_of_type [OF opencode_status_type [OF that]] opencode_status_allowed [of e t] that by fastforce
  have rule: "r \<in> set opencode_ingress_rules \<and> iu_eventType r = type" if "opencode_rule_for type = Some r" for r
    using that by (auto simp: opencode_rule_for_def rule_for_def find_Some_iff)
  have some_value: "\<exists>e \<in> set (opencode_alternatives type). \<exists>s. opencode_status e t = Some s \<and> os_value s = v"
    if "opencode_rule_for type = Some r" "v \<in> set (iu_statusIntents r)" for r
    using rule [OF that(1)] opencode_table_attained [of t] that(2) by (fastforce simp: list_all_iff list_ex_iff)
  have some_confidence: "\<exists>e \<in> set (opencode_alternatives type). \<exists>s. opencode_status e t = Some s \<and> os_confidence s = c"
    if "opencode_rule_for type = Some r" "c \<in> set (iu_confidences r)" for r
    using rule [OF that(1)] opencode_table_attained [of t] that(2) by (fastforce simp: list_all_iff list_ex_iff)
  have type: "oc_eventType e = type" if "e \<in> set (opencode_alternatives type)" for e
    using that by (auto simp: opencode_alternatives_def)
  have "opencode_listed_status e t = opencode_status e t" for e
    using listed [of e] by (cases "opencode_status e t") (auto simp: opencode_listed_status_def)
  moreover have "(\<exists>e s. oc_eventType e = type \<and> opencode_status e t = Some s \<and> os_value s = v) \<longleftrightarrow>
      (\<exists>r. opencode_rule_for type = Some r \<and> v \<in> set (iu_statusIntents r))"
    using listed some_value type unfolding allowed_by_def by blast
  moreover have "(\<exists>e s. oc_eventType e = type \<and> opencode_status e t = Some s \<and> os_confidence s = c) \<longleftrightarrow>
      (\<exists>r. opencode_rule_for type = Some r \<and> c \<in> set (iu_confidences r))"
    using listed some_confidence type unfolding allowed_by_def by blast
  ultimately show ?thesis by blast
qed

subsection \<open>The compact form survives\<close>

definition valid_opencode_ids :: "wosm_ids \<Rightarrow> bool" where
  "valid_opencode_ids ids \<longleftrightarrow> opt_ok non_empty (wi_projectId ids) \<and> opt_ok non_empty (wi_worktreeId ids) \<and>
     opt_ok non_empty (wi_worktreePath ids) \<and> opt_ok non_empty (wi_sessionId ids) \<and>
     opt_ok non_empty (wi_terminalProvider ids) \<and> opt_ok non_empty (wi_terminalTargetId ids)"

definition valid_opencode :: "opencode_event \<Rightarrow> bool" where
  "valid_opencode e \<longleftrightarrow> oc_eventType e \<noteq> [] \<and> trim (oc_eventType e) = oc_eventType e \<and> oc_cwd e \<noteq> [] \<and>
     opt_ok (\<lambda>n. 0 < n) (oc_pid e) \<and> list_all (opt_ok non_empty) [oc_observedAt e, oc_eventId e, oc_sessionId e, oc_statusType e,
       oc_permissionReply e, oc_questionReply e, oc_requestId e, oc_messageId e, oc_partId e, oc_toolCallId e, oc_toolName e,
       oc_commandName e, oc_filePath e, oc_errorName e, oc_integrationId e, oc_integrationVersion e] \<and>
     opt_ok (\<lambda>ks. [] \<notin> set ks \<and> length ks \<le> 128) (oc_propertyKeys e) \<and> valid_opencode_ids (oc_ids e)"

lemma map_of_opt_field: "map_of (opt_field n f x) k = (if k = n then map_option f x else None)"
  by (simp add: opt_field_def split: option.split)

lemma trim_idem: "trim (trim s) = trim s"
proof -
  let ?u = "dropWhile is_white_space s"
  let ?v = "trim_end ?u"
  have "rev ?u = takeWhile is_white_space (rev ?u) @ rev ?v" by (simp add: trim_end_def)
  then have u: "?u = ?v @ rev (takeWhile is_white_space (rev ?u))" by (metis rev_append rev_rev_ident)
  have "dropWhile is_white_space ?v = ?v"
  proof (cases ?v)
    case (Cons c r)
    with u have "?u \<noteq> []" "hd ?u = c" by (metis append_Cons list.distinct(1), metis append_Cons list.sel(1))
    then have "\<not> is_white_space c" using hd_dropWhile by blast
    with Cons show ?thesis by simp
  qed simp
  then show ?thesis by (simp add: trim_def trim_start_def)
qed

lemma those_texts: "[] \<notin> set ks \<Longrightarrow> those (map as_text (map JStr ks)) = Some ks"
  by (induction ks) auto

lemma may_text_of: "map_of fs k = map_option JStr x \<Longrightarrow> opt_ok non_empty x \<Longrightarrow> may as_text fs k = Some x"
  by (cases x) (simp_all add: may_def opt_ok_def non_empty_def)

lemma may_pid_of: "map_of fs k = map_option JNum n \<Longrightarrow> opt_ok (\<lambda>n. 0 < n) n \<Longrightarrow> may as_pid fs k = Some n"
  by (cases n) (simp_all add: may_def opt_ok_def as_pid_def)

lemma may_keys_of:
  "map_of fs k = map_option (\<lambda>ks. JArr (map JStr ks)) ks \<Longrightarrow> opt_ok (\<lambda>ks. [] \<notin> set ks \<and> length ks \<le> 128) ks \<Longrightarrow>
   may as_property_keys fs k = Some ks"
  by (cases ks) (simp_all add: may_def opt_ok_def as_property_keys_def those_texts del: map_map)

lemma opencode_lookups:
  "map_of (opencode_event_fields e) ''event_type'' = Some (JStr (oc_eventType e))"
  "map_of (opencode_event_fields e) ''cwd'' = Some (JStr (oc_cwd e))"
  "map_of (opencode_event_fields e) ''pid'' = map_option JNum (oc_pid e)"
  "map_of (opencode_event_fields e) ''observed_at'' = map_option JStr (oc_observedAt e)"
  "map_of (opencode_event_fields e) ''event_id'' = map_option JStr (oc_eventId e)"
  "map_of (opencode_event_fields e) ''opencode_session_id'' = map_option JStr (oc_sessionId e)"
  "map_of (opencode_event_fields e) ''status_type'' = map_option JStr (oc_statusType e)"
  "map_of (opencode_event_fields e) ''permission_reply'' = map_option JStr (oc_permissionReply e)"
  "map_of (opencode_event_fields e) ''question_reply'' = map_option JStr (oc_questionReply e)"
  "map_of (opencode_event_fields e) ''request_id'' = map_option JStr (oc_requestId e)"
  "map_of (opencode_event_fields e) ''message_id'' = map_option JStr (oc_messageId e)"
  "map_of (opencode_event_fields e) ''part_id'' = map_option JStr (oc_partId e)"
  "map_of (opencode_event_fields e) ''tool_call_id'' = map_option JStr (oc_toolCallId e)"
  "map_of (opencode_event_fields e) ''tool_name'' = map_option JStr (oc_toolName e)"
  "map_of (opencode_event_fields e) ''command_name'' = map_option JStr (oc_commandName e)"
  "map_of (opencode_event_fields e) ''file_path'' = map_option JStr (oc_filePath e)"
  "map_of (opencode_event_fields e) ''error_name'' = map_option JStr (oc_errorName e)"
  "map_of (opencode_event_fields e) ''property_keys'' = map_option (\<lambda>ks. JArr (map JStr ks)) (oc_propertyKeys e)"
  "map_of (opencode_event_fields e) ''wosm_integration_id'' = map_option JStr (oc_integrationId e)"
  "map_of (opencode_event_fields e) ''wosm_integration_version'' = map_option JStr (oc_integrationVersion e)"
  "map_of (opencode_event_fields e) ''wosm_project_id'' = map_option JStr (wi_projectId (oc_ids e))"
  "map_of (opencode_event_fields e) ''wosm_worktree_id'' = map_option JStr (wi_worktreeId (oc_ids e))"
  "map_of (opencode_event_fields e) ''wosm_worktree_path'' = map_option JStr (wi_worktreePath (oc_ids e))"
  "map_of (opencode_event_fields e) ''wosm_session_id'' = map_option JStr (wi_sessionId (oc_ids e))"
  "map_of (opencode_event_fields e) ''wosm_terminal_provider'' = map_option JStr (wi_terminalProvider (oc_ids e))"
  "map_of (opencode_event_fields e) ''wosm_terminal_target_id'' = map_option JStr (wi_terminalTargetId (oc_ids e))"
  by (simp_all add: opencode_event_fields_def wosm_ids_fields_def map_of_opt_field map_add_def split: option.split)

lemma opencode_fields_strict: "strict_keys opencode_names (opencode_event_fields e)"
  by (auto simp: strict_keys_def opencode_event_fields_def wosm_ids_fields_def opencode_names_def wosm_names_def opt_field_def
      split: option.splits)

lemma parse_opencode_fields: "valid_opencode e \<Longrightarrow> parse_opencode_event (JObj (opencode_event_fields e)) = Some e"
proof -
  assume valid: "valid_opencode e"
  then have type: "need as_event_type (opencode_event_fields e) ''event_type'' = Some (oc_eventType e)"
    and cwd: "need as_text (opencode_event_fields e) ''cwd'' = Some (oc_cwd e)"
    by (simp_all add: need_def opencode_lookups as_event_type_def valid_opencode_def)
  have ids: "parse_wosm_ids (opencode_event_fields e) = Some (oc_ids e)"
    using valid by (simp add: parse_wosm_ids_def may_text_of [OF opencode_lookups(21)] may_text_of [OF opencode_lookups(22)]
        may_text_of [OF opencode_lookups(23)] may_text_of [OF opencode_lookups(24)] may_text_of [OF opencode_lookups(25)]
        may_text_of [OF opencode_lookups(26)] valid_opencode_def valid_opencode_ids_def)
  show ?thesis
    unfolding parse_opencode_event_def
    using valid type cwd ids opencode_fields_strict [of e]
    by (simp add: may_text_of [OF opencode_lookups(4)] may_text_of [OF opencode_lookups(5)] may_text_of [OF opencode_lookups(6)]
        may_text_of [OF opencode_lookups(7)] may_text_of [OF opencode_lookups(8)] may_text_of [OF opencode_lookups(9)]
        may_text_of [OF opencode_lookups(10)] may_text_of [OF opencode_lookups(11)] may_text_of [OF opencode_lookups(12)]
        may_text_of [OF opencode_lookups(13)] may_text_of [OF opencode_lookups(14)] may_text_of [OF opencode_lookups(15)]
        may_text_of [OF opencode_lookups(16)] may_text_of [OF opencode_lookups(17)] may_text_of [OF opencode_lookups(19)]
        may_text_of [OF opencode_lookups(20)] may_pid_of [OF opencode_lookups(3)] may_keys_of [OF opencode_lookups(18)]
        valid_opencode_def)
qed

lemma as_event_type_valid: "as_event_type v = Some s \<Longrightarrow> s \<noteq> [] \<and> trim s = s"
  by (auto simp: as_event_type_def bind_eq_Some_conv trim_idem split: if_splits)

lemma need_event_type: "need as_event_type fs k = Some s \<Longrightarrow> s \<noteq> [] \<and> trim s = s"
  by (auto simp: need_def bind_eq_Some_conv dest: as_event_type_valid)

lemma may_pid: "may as_pid fs k = Some n \<Longrightarrow> opt_ok (\<lambda>n. 0 < n) n"
  by (auto simp: may_def opt_ok_def as_pid_def bind_eq_Some_conv split: option.splits if_splits)

lemma may_keys: "may as_property_keys fs k = Some ks \<Longrightarrow> opt_ok (\<lambda>ks. [] \<notin> set ks \<and> length ks \<le> 128) ks"
  by (auto simp: may_def opt_ok_def as_property_keys_def bind_eq_Some_conv dest: as_texts_nonempty split: option.splits if_splits)

lemma parse_opencode_ids: "parse_wosm_ids fs = Some ids \<Longrightarrow> valid_opencode_ids ids"
  by (auto simp: parse_wosm_ids_def valid_opencode_ids_def bind_eq_Some_conv dest: may_text)

lemma parse_opencode_valid: "parse_opencode_event p = Some e \<Longrightarrow> valid_opencode e"
  unfolding parse_opencode_event_def valid_opencode_def
  by (clarsimp simp: bind_eq_Some_conv split: if_splits)
    (simp add: need_event_type need_text may_text may_pid may_keys parse_opencode_ids)

subsection \<open>Native events become compact\<close>

lemma may_object_with: "may (as_object_with n) fs k = Some x \<Longrightarrow> opt_ok non_empty (nullish x None)"
  by (auto simp: may_def as_object_with_def bind_eq_Some_conv nullish_def opt_ok_def non_empty_def
      split: option.splits dest: as_text_nonempty)

lemma may_native_status: "may as_native_status fs k = Some y \<Longrightarrow> opt_ok non_empty y"
  by (auto simp: may_def as_native_status_def bind_eq_Some_conv opt_ok_def non_empty_def need_def
      split: option.splits dest: as_text_nonempty)

definition valid_native_tool :: "native_tool \<Rightarrow> bool" where
  "valid_native_tool z = (case z of NativeToolName s \<Rightarrow> s \<noteq> [] | NativeToolRef m c \<Rightarrow> opt_ok non_empty m \<and> opt_ok non_empty c)"

lemma as_native_tool_valid: "as_native_tool v = Some z \<Longrightarrow> valid_native_tool z"
  by (auto simp: as_native_tool_def valid_native_tool_def bind_eq_Some_conv dest: as_text_nonempty may_text split: option.splits)

lemma may_native_tool: "may as_native_tool fs k = Some z \<Longrightarrow> opt_ok valid_native_tool z"
  by (auto simp: may_def as_native_tool_valid split: option.splits)

definition valid_native_properties :: "native_properties \<Rightarrow> bool" where
  "valid_native_properties p \<longleftrightarrow> list_all (opt_ok non_empty) [np_sessionID p, np_sessionId p, np_cwd p, np_directory p, np_status p,
     np_reply p, np_requestID p, np_id p, np_messageID p, np_partID p, np_callID p, np_name p, np_permission p, np_command p,
     np_file p, np_path p, nullish (np_error p) None, nullish (np_info p) None] \<and> opt_ok valid_native_tool (np_tool p)"

lemma native_tool_parts:
  "opt_ok valid_native_tool (np_tool p) \<Longrightarrow>
   opt_ok non_empty (native_tool_name p) \<and> opt_ok non_empty (native_tool_message p) \<and> opt_ok non_empty (native_tool_call p)"
  by (cases "np_tool p")
    (auto simp: native_tool_name_def native_tool_message_def native_tool_call_def valid_native_tool_def non_empty_def
      split: native_tool.splits)

lemma as_native_properties_valid: "as_native_properties v = Some p \<Longrightarrow> valid_native_properties p"
  unfolding as_native_properties_def valid_native_properties_def
  by (clarsimp simp: bind_eq_Some_conv) (simp add: may_text may_object_with may_native_status may_native_tool)

lemma parse_native_valid:
  assumes "parse_native_event v = Some n"
  shows "ne_type n \<noteq> [] \<and> trim (ne_type n) = ne_type n \<and> opt_ok non_empty (ne_id n) \<and> opt_ok non_empty (ne_cwd n) \<and>
    opt_ok non_empty (ne_directory n) \<and> opt_ok (\<lambda>n. 0 < n) (ne_pid n) \<and>
    valid_native_properties (nullish (ne_properties n) no_properties)"
proof -
  have "valid_native_properties no_properties"
    by (simp add: valid_native_properties_def no_properties_def nullish_def)
  moreover have "valid_native_properties (nullish x no_properties)" if "may as_native_properties fs k = Some x" for fs k x
    using that calculation by (auto simp: may_def nullish_def split: option.splits dest: as_native_properties_valid)
  ultimately show ?thesis
    using assms
    by (clarsimp simp: parse_native_event_def bind_eq_Some_conv) (simp add: need_event_type may_text may_pid)
qed

lemma no_empty_key: "[] \<in> set (take 128 (sort_strings ks)) \<longleftrightarrow> [] \<in> set ks"
proof
  assume "[] \<in> set (take 128 (sort_strings ks))"
  then have "[] \<in> set (sort_strings ks)" by (rule in_set_takeD)
  then show "[] \<in> set ks" by (simp add: sort_strings_def)
next
  assume "[] \<in> set ks"
  then have mem: "[] \<in> set (sort_strings ks)" by (simp add: sort_strings_def)
  then obtain k ks' where ks: "sort_strings ks = k # ks'" by (cases "sort_strings ks") auto
  have "k = []"
  proof (rule ccontr)
    assume "k \<noteq> []"
    with mem ks sort_strings_sorted [of ks] have "code_unit_compare k [] \<le> 0" by auto
    with \<open>k \<noteq> []\<close> show False by (cases k) simp_all
  qed
  with ks show "[] \<in> set (take 128 (sort_strings ks))" by simp
qed

lemma compacted_native_valid:
  assumes "parse_native_event v = Some n" "here \<noteq> []" "opt_ok non_empty cwdOption" "opt_ok (\<lambda>n. 0 < n) pidOption"
  shows "valid_opencode (compacted_native_event here cwdOption pidOption n) \<longleftrightarrow>
    [] \<notin> set (np_keys (nullish (ne_properties n) no_properties))"
proof -
  have nullish: "nullish x y \<noteq> []" if "opt_ok non_empty x" "y \<noteq> []" for x :: "string option" and y
    using that by (cases x) (auto simp: nullish_def non_empty_def)
  have chosen: "opt_ok non_empty x \<Longrightarrow> opt_ok non_empty (if b then x else None)" for x b
    by simp
  have keys: "opt_ok (\<lambda>ks. [] \<notin> set ks \<and> length ks \<le> 128) (map_option (\<lambda>ps. take 128 (sort_strings (np_keys ps))) (ne_properties n)) \<longleftrightarrow>
      [] \<notin> set (np_keys (nullish (ne_properties n) no_properties))"
    by (cases "ne_properties n") (simp_all add: no_empty_key nullish_def no_properties_def)
  let ?p = "nullish (ne_properties n) no_properties"
  have p: "valid_native_properties ?p" using parse_native_valid [OF assms(1)] by blast
  then have tool: "opt_ok valid_native_tool (np_tool ?p)" by (simp add: valid_native_properties_def)
  show ?thesis
    using parse_native_valid [OF assms(1)] p native_tool_parts [OF tool] assms(2-4)
    by (simp add: compacted_native_event_def Let_def valid_opencode_def valid_opencode_ids_def keys nullish opt_ok_nullish
        valid_native_properties_def chosen) (simp add: non_empty_def)
qed

subsection \<open>Compaction settles\<close>

lemma parse_opencode_keys:
  "parse_opencode_event (JObj fs) = Some e \<Longrightarrow> may as_property_keys fs ''property_keys'' \<noteq> None"
  unfolding parse_opencode_event_def by (clarsimp simp: bind_eq_Some_conv)

lemma no_keys_with_empty: "[] \<in> set ks \<Longrightarrow> as_property_keys (JArr (map JStr ks)) = None"
proof (rule ccontr)
  assume "[] \<in> set ks" "as_property_keys (JArr (map JStr ks)) \<noteq> None"
  then obtain ks' where "as_texts (JArr (map JStr ks)) = Some ks'"
    by (auto simp: as_property_keys_def bind_eq_Some_conv)
  then have "those (map as_text (map JStr ks)) = Some ks'" by simp
  with \<open>[] \<in> set ks\<close> show False
    by (induction ks arbitrary: ks') (auto split: option.splits)
qed

lemma parse_compacted_native:
  assumes "parse_native_event v = Some n" "here \<noteq> []" "opt_ok non_empty cwdOption" "opt_ok (\<lambda>n. 0 < n) pidOption"
  shows "parse_opencode_event (JObj (opencode_event_fields (compacted_native_event here cwdOption pidOption n))) =
    (if [] \<in> set (np_keys (nullish (ne_properties n) no_properties)) then None
     else Some (compacted_native_event here cwdOption pidOption n))"
proof (cases "[] \<in> set (np_keys (nullish (ne_properties n) no_properties))")
  case True
  then obtain p where p: "ne_properties n = Some p" "[] \<in> set (np_keys p)"
    by (cases "ne_properties n") (auto simp: nullish_def no_properties_def)
  let ?fs = "opencode_event_fields (compacted_native_event here cwdOption pidOption n)"
  have "oc_propertyKeys (compacted_native_event here cwdOption pidOption n) = Some (take 128 (sort_strings (np_keys p)))"
    by (simp add: compacted_native_event_def Let_def p)
  then have "may as_property_keys ?fs ''property_keys'' = None"
    using p(2) by (simp add: may_def opencode_lookups(18) no_keys_with_empty no_empty_key del: map_map)
  then show ?thesis using True parse_opencode_keys [of ?fs] by fastforce
next
  case False
  then show ?thesis using parse_opencode_fields compacted_native_valid [OF assms] by simp
qed

lemma compact_of_compact:
  "parse_opencode_event p = Some e \<Longrightarrow>
   compact_opencode_payload here cwdOption pidOption (JObj (opencode_event_fields e)) = Inr c \<Longrightarrow>
   cp_payload c = JObj (opencode_event_fields e) \<and> \<not> cp_compacted c"
  by (simp add: compact_opencode_payload_def parse_opencode_fields [OF parse_opencode_valid] split: sum.splits) auto

text \<open>C29: Compaction settles. It throws only for a native event that has a property with an empty name, and then always. What it
  makes of any other native event is read back as the compact event made of its fields, and a compact event as what it was.
  Compacting once more, in whatever process, throws nothing and changes no payload.\<close>

theorem opencode_compaction_settles:
  assumes "here \<noteq> []" "opt_ok non_empty cwdOption" "opt_ok (\<lambda>n. 0 < n) pidOption"
  shows "((\<exists>v. compact_opencode_payload here cwdOption pidOption payload = Inl v) \<longleftrightarrow>
      parse_opencode_event payload = None \<and>
      (\<exists>n. parse_native_event payload = Some n \<and> [] \<in> set (np_keys (nullish (ne_properties n) no_properties)))) \<and>
    (\<forall>c. compact_opencode_payload here cwdOption pidOption payload = Inr c \<longrightarrow>
      parse_opencode_event (cp_payload c) =
        (if parse_opencode_event payload \<noteq> None then parse_opencode_event payload
         else map_option (compacted_native_event here cwdOption pidOption) (parse_native_event payload)) \<and>
      (\<exists>c'. compact_opencode_payload here' cwdOption' pidOption' (cp_payload c) = Inr c' \<and>
        cp_payload c' = cp_payload c \<and> \<not> cp_compacted c'))"
proof (cases "parse_opencode_event payload")
  case (Some e)
  then have "parse_opencode_event (JObj (opencode_event_fields e)) = Some e"
    by (rule parse_opencode_fields [OF parse_opencode_valid])
  with Some show ?thesis by (simp add: compact_opencode_payload_def)
next
  case None
  show ?thesis
  proof (cases "parse_native_event payload")
    case None
    with \<open>parse_opencode_event payload = None\<close> show ?thesis by (simp add: compact_opencode_payload_def)
  next
    case (Some n)
    note parse = parse_compacted_native [OF Some assms]
    with Some \<open>parse_opencode_event payload = None\<close> show ?thesis by (simp add: compact_opencode_payload_def)
  qed
qed

definition unnamed_property_event :: "string \<Rightarrow> json" where
  "unnamed_property_event name =
     JObj [(''type'', JStr ''session.idle''), (''properties'', JObj [(''sessionID'', JStr ''s''), (name, JStr ''x'')])]"

theorem opencode_compaction_settles_witness:
  "(\<exists>v. compact_opencode_payload ''/w'' None (Some 7) (unnamed_property_event []) = Inl v) \<and>
   (\<exists>c c'. compact_opencode_payload ''/w'' None (Some 7) (unnamed_property_event ''k'') = Inr c \<and> cp_compacted c \<and>
      map_option oc_sessionId (parse_opencode_event (cp_payload c)) = Some (Some ''s'') \<and>
      compact_opencode_payload ''/v'' None None (cp_payload c) = Inr c' \<and> cp_payload c' = cp_payload c)"
proof -
  have ok: "''/w'' \<noteq> []" "opt_ok non_empty (None :: string option)" "opt_ok (\<lambda>n. 0 < n) (Some (7::int))" by simp_all
  note settles = opencode_compaction_settles [OF ok, where here' = "''/v''" and cwdOption' = None and pidOption' = None]
  have none: "parse_opencode_event (unnamed_property_event name) = None" for name
    by (simp add: parse_opencode_event_def unnamed_property_event_def need_def)
  have "map_option (\<lambda>n. [] \<in> set (np_keys (nullish (ne_properties n) no_properties)))
      (parse_native_event (unnamed_property_event [])) = Some True"
    by code_simp
  then have throws: "\<exists>v. compact_opencode_payload ''/w'' None (Some 7) (unnamed_property_event []) = Inl v"
    using settles none by (fastforce simp: map_option_eq_Some)
  have "map_option (\<lambda>n. [] \<notin> set (np_keys (nullish (ne_properties n) no_properties)) \<and>
      oc_sessionId (compacted_native_event ''/w'' None (Some 7) n) = Some ''s'')
      (parse_native_event (unnamed_property_event ''k'')) = Some True"
    by code_simp
  then obtain n where n: "parse_native_event (unnamed_property_event ''k'') = Some n"
    "[] \<notin> set (np_keys (nullish (ne_properties n) no_properties))"
    "oc_sessionId (compacted_native_event ''/w'' None (Some 7) n) = Some ''s''"
    by (auto simp: map_option_eq_Some)
  then obtain c where c: "compact_opencode_payload ''/w'' None (Some 7) (unnamed_property_event ''k'') = Inr c"
    using settles [of "unnamed_property_event ''k''"] by (cases "compact_opencode_payload ''/w'' None (Some 7) (unnamed_property_event ''k'')") auto
  then have "cp_compacted c"
    using none n(1) by (auto simp: compact_opencode_payload_def split: option.splits)
  moreover have "map_option oc_sessionId (parse_opencode_event (cp_payload c)) = Some (Some ''s'')"
    using settles [of "unnamed_property_event ''k''"] c none n by simp
  ultimately show ?thesis using throws c settles [of "unnamed_property_event ''k''"] by blast
qed

end
