(* ===== verification/Spec2Isabelle.thy ===== *)
theory Spec2Isabelle
  imports GraphProperties ClientProperties IngressProperties CommandQueueProperties ReconcileScheduler ReconcileProperties AttributionProperties RowLayoutProperties LocalPaths TerminalIntentProperties SessionProperties ProtocolProperties ClientRuntimeProperties HookProperties DashboardProperties DashboardOperationProperties
    SessionCleanupProperties SessionResumeProperties HookSenderProperties
    OpenCodeHookProperties
begin

text \<open>
  wosm keeps track of AI coding agents that run in worktrees: which project, worktree, terminal and
  agent belong together and what each agent is doing. A background process, the observer
  (\<^verbatim>\<open>apps/observer\<close>), asks providers for worktrees (worktrunk), terminals (tmux) and agent runs
  (harnesses such as Claude or Codex), correlates the answers into one snapshot, projects the
  reports of the harnesses' hooks onto it as they arrive, executes the users' commands and publishes
  events. Clients (\<^verbatim>\<open>packages/client\<close>) keep a copy of the snapshot, and the terminal user interface
  (\<^verbatim>\<open>packages/dashboard-core\<close>, \<^verbatim>\<open>apps/tui\<close>) draws it.

  This development models the observer's core, the protocol between observer and clients, the client
  runtime, the hooks and the dashboard, all
  translated function by function from the TypeScript. A record stands for an object type, a
  datatype for a union, an option for an optional field, an association list in insertion order for
  an object or \<^verbatim>\<open>Map\<close> used as a dictionary, an \<open>int\<close> for a number (the code counts, compares and
  subtracts integers far below \<open>2 ^ 53\<close>), a sum for a function that may throw.

  The library
    \<^item> \<open>Prelude\<close>: the JavaScript string, array and \<^verbatim>\<open>Map\<close> operations and their laws; a stable sort over
      a comparison function, proved once in the locale \<open>js_comparator\<close>; locales \<open>collation\<close> for
      \<^verbatim>\<open>localeCompare\<close>, which the code takes from the host and the model as the parameter \<open>lc\<close>.
    \<^item> \<open>Timestamps\<close>: \<^verbatim>\<open>Date.parse\<close> on ISO 8601 date-times.
    \<^item> \<open>Transitions\<close>: transition systems, invariants by induction over the reachable states and
      coming to rest by a measure; the queues and the scheduler interpret its locales.
    \<^item> \<open>Effects\<close>: asynchronous functions against an outside world that answers as a function of the
      time, abort signals, provider mutations, conversion to safe errors
      (\<^verbatim>\<open>commands/session/shared.ts\<close>, \<^verbatim>\<open>commands/cancellation.ts\<close>, \<^verbatim>\<open>observability/src/errors.ts\<close>), and
      the weakest-precondition rules for them.

  The data (\<^verbatim>\<open>packages/contracts/src\<close>)
    \<^item> \<open>Contracts\<close>, \<open>Snapshots\<close>, \<open>Commands\<close>: observations, health, recovery handles, reports, the
      snapshot, commands, receipts, events and patches, each with the demands of its schema as a
      predicate.

  From observations to the snapshot (\<^verbatim>\<open>apps/observer/src/reconcile\<close>)
    \<^item> \<open>StatusPolicy\<close> (\<^verbatim>\<open>statusPolicy.ts\<close>), \<open>HarnessStatus\<close> (\<^verbatim>\<open>harnessEventStatus.ts\<close>),
      \<open>ObserverGraph\<close> (\<^verbatim>\<open>graph.ts\<close>): display status and counters, overlays of persisted harness events,
      the snapshot itself. \<open>GraphProperties\<close>: one row per worktree, sorted, counters that add up, best
      terminal and run chosen, nothing lost, recovery offered only when it is safe, and the result
      satisfies the snapshot schema.
    \<^item> \<open>Boundary\<close> (\<^verbatim>\<open>packages/runtime/src/boundary.ts\<close>, \<^verbatim>\<open>errors.ts\<close>): a fallible task with a time limit
      and retries. \<open>ReconcileRun\<close> (\<^verbatim>\<open>run.ts\<close>): one reconcile over the answers of all providers.
      \<open>ReconcileProperties\<close> and \<open>AttributionProperties\<close>: a reconcile returns a snapshot whatever the
      providers do and records their failures; the snapshot is the graph of what was read; terminals
      and runs are attributed to the deepest worktree that contains them.
    \<^item> \<open>LocalPaths\<close> (\<^verbatim>\<open>packages/runtime/src/paths.ts\<close>) and \<open>ObservedPaths\<close>
      (\<^verbatim>\<open>contracts/src/harnessTerminalBinding.ts\<close>): path containment, runs found by their terminal.
    \<^item> \<open>StatusProjection\<close> (\<^verbatim>\<open>statusProjection.ts\<close>): a report projected onto the snapshot.
      \<open>ProjectionProperties\<close>: one row changes and every derived field with it. \<open>SnapshotReducer\<close>
      (\<^verbatim>\<open>packages/client/src/snapshotReducer.ts\<close>) and \<open>ClientProperties\<close>: a client that applies the
      published events agrees with the observer's projection.

  Queues and timers, as step relations split at the \<^verbatim>\<open>await\<close>s
    \<^item> \<open>IngressQueue\<close> (\<^verbatim>\<open>hooks/harnessIngressQueue.ts\<close>), \<open>CommandQueue\<close> (\<^verbatim>\<open>commands/queue.ts\<close>),
      \<open>ReconcileScheduler\<close> (\<^verbatim>\<open>runtime/reconcileScheduler.ts\<close>), with \<open>IngressProperties\<close> and
      \<open>CommandQueueProperties\<close>: bounds, no report lost, commands of a scope in turn, trails of command
      states, everything settles, what a shutdown cancels and what overtakes it.

  Between observer and clients
    \<^item> \<open>JsonText\<close>: \<^verbatim>\<open>JSON.stringify\<close> and \<^verbatim>\<open>JSON.parse\<close>, with the round trip. \<open>Ndjson\<close>
      (\<^verbatim>\<open>protocol/src/transport.ts\<close>), \<open>Protocol\<close> (\<^verbatim>\<open>messages.ts\<close>, \<^verbatim>\<open>server.ts\<close>, \<^verbatim>\<open>client.ts\<close>),
      \<open>ProtocolProperties\<close>: messages survive however the socket cuts the text, every request is
      answered once under its id, and a call over the socket gives what the call itself gives.
    \<^item> \<open>ClientRuntime\<close> (\<^verbatim>\<open>packages/client/src/observerRuntime.ts\<close>, \<^verbatim>\<open>connectionState.ts\<close>), a step
      relation over the state of the runtime; fields that are only recorded (the requests served, the
      last snapshot loaded, what connected the client) are listed at the record. \<open>ClientRuntimeProperties\<close>:
      when the client is connected, that refreshes are served in order, what it shows.

  Hooks, from the hook process to the tables
    \<^item> \<open>HookStore\<close>: the tables that ingestion writes (\<^verbatim>\<open>persistence/\<close>) as the log of what was stored
      and of the files that were written and removed, one transaction at a time. \<open>HookIngestion\<close>
      (\<^verbatim>\<open>observer/src/hooks/ingestion.ts\<close>, \<^verbatim>\<open>providerHookIngress.ts\<close>, \<^verbatim>\<open>spool.ts\<close>): hooks and reports
      recorded at most once, and the spool drained. \<open>HookDelivery\<close> (\<^verbatim>\<open>packages/provider-hooks/src\<close>,
      \<^verbatim>\<open>observerStartup.ts\<close>, \<^verbatim>\<open>deliveryPolicy.ts\<close>, \<^verbatim>\<open>sender.ts\<close>, \<^verbatim>\<open>spool.ts\<close>): the hook process, which
      delivers, starts the observer or writes the spool. A request that outlives its time limit is
      carried out before what its sender does next. \<open>HookProperties\<close>: a hook is recorded once
      whichever way it comes, and a spool file stays until its record is stored.

  The harnesses' hooks (\<^verbatim>\<open>integrations/harness\<close>)
    \<^item> \<open>HarnessPayload\<close>: what the adapters share, of which each has a copy in the code: the fields of a
      payload and their schemas, the identity of the wosm session, compaction, correlation with the
      observed terminals and worktrees, report ids. \<open>CodexHooks\<close> (\<^verbatim>\<open>codex/src/events.ts\<close>,
      \<^verbatim>\<open>compaction.ts\<close>, \<^verbatim>\<open>hookAdapter.ts\<close>), \<open>ClaudeHooks\<close> (\<^verbatim>\<open>claude/src/events.ts\<close>, \<^verbatim>\<open>ingressRules.ts\<close>,
      \<^verbatim>\<open>compaction.ts\<close>), \<open>CursorHooks\<close> (\<^verbatim>\<open>cursor/src/events.ts\<close>, \<^verbatim>\<open>compaction.ts\<close>) and
      \<open>OpenCodeHooks\<close> (\<^verbatim>\<open>opencode/src/eventSchemas.ts\<close>, \<^verbatim>\<open>events.ts\<close>, \<^verbatim>\<open>ingressRules.ts\<close>, \<^verbatim>\<open>compaction.ts\<close>): the schema of a tool's
      events, the status an event stands for, the report and the observation made of it. A payload is
      an association list of JSON values whose numbers are integers; lengths in bytes and
      \<^verbatim>\<open>encodeURIComponent\<close> are those of characters below 256; the diagnostics of a report are not
      checked against their schema. \<open>HookSenders\<close> (\<^verbatim>\<open>provider-hooks/src/sender.ts\<close>): from the payload
      to the receipt.
    \<^item> \<open>HarnessHookProperties\<close>, \<open>ClaudeHookProperties\<close>, \<open>OpenCodeHookProperties\<close>,
      \<open>HookSenderProperties\<close>: which events a report id
      tells apart, compaction takes nothing from what is reported and settles, statuses follow the table of
      forwarded events, unknown fields do no harm, and every hook ends in a receipt that says what
      became of it.

  Commands that act on the outside world
    \<^item> \<open>TerminalIntents\<close> (\<^verbatim>\<open>providers/terminalIntentRunner.ts\<close>), \<open>TerminalIntentProperties\<close>: every intent
      is answered, the best terminal is picked, an opened workspace is used or closed.
    \<^item> \<open>SessionCommands\<close> (\<^verbatim>\<open>commands/session/create.ts\<close>, \<^verbatim>\<open>startAgent.ts\<close>), \<open>SessionProperties\<close>: a session
      is created whole or undone.
    \<^item> \<open>SessionCleanup\<close> (\<^verbatim>\<open>commands/session/close.ts\<close>, \<^verbatim>\<open>remove.ts\<close>, \<^verbatim>\<open>rename.ts\<close>, \<^verbatim>\<open>commands/worktree\<close>,
      \<^verbatim>\<open>commands/cleanup\<close>, \<^verbatim>\<open>commands/terminal.ts\<close>, \<^verbatim>\<open>terminalIntents.ts\<close>): closing, removing, renaming, focusing.
      \<open>SessionResume\<close> (\<^verbatim>\<open>commands/session/resumeAgent.ts\<close>): a lost agent started again. \<open>ActionRecords\<close>: a
      calculus of what an action adds to the record of calls. \<open>SessionCleanupProperties\<close>,
      \<open>SessionResumeProperties\<close>: without force nothing in use is touched, a worktree goes last, only lost
      agents are resumed. This theory relates them to the graph and to the dashboard.

  The dashboard (\<^verbatim>\<open>packages/dashboard-core\<close>)
    \<^item> \<open>RowLayout\<close> (\<^verbatim>\<open>components/WorktreeRow/layout.ts\<close>), \<open>RowLayoutProperties\<close>: every row is laid out
      and none is wider than the terminal.
    \<^item> \<open>Names\<close> (\<^verbatim>\<open>packages/runtime/src/names.ts\<close>): names within a length and an alphabet.
      \<open>EditableText\<close> (\<^verbatim>\<open>state/keys.ts\<close>, \<^verbatim>\<open>EditableTextInput/editing.ts\<close>): a text with a cursor, which refines
      the text before and the text behind it. \<open>SessionFlow\<close> (\<^verbatim>\<open>flows/newSession.ts\<close>,
      \<^verbatim>\<open>stepWizard.ts\<close>) and \<open>ProjectFlow\<close> (\<^verbatim>\<open>flows/addProject\<close>): the steps of a new session and of a new
      project.
    \<^item> \<open>DashboardState\<close> (\<^verbatim>\<open>state/types.ts\<close>, \<^verbatim>\<open>localRows.ts\<close>, \<^verbatim>\<open>toasts.ts\<close>, \<^verbatim>\<open>screen.ts\<close>),
      \<open>DashboardView\<close> (\<^verbatim>\<open>selectors\<close>, \<^verbatim>\<open>dashboardScroll.ts\<close>), \<open>DashboardKeys\<close> (\<^verbatim>\<open>commandBuilders.ts\<close>,
      \<^verbatim>\<open>screens\<close>, \<^verbatim>\<open>transition.ts\<close>) and \<open>DashboardKeymap\<close> (\<^verbatim>\<open>keymap.ts\<close>): the state, what is shown of it, what
      a key does and what the key map says it does. \<open>DashboardProperties\<close>: the key map leaves no key
      out, a key acts on the row that is shown under it, a worktree is removed only after it was asked
      for and confirmed, two escapes lead back, every row is listed.
    \<^item> \<open>DashboardOperations\<close> (\<^verbatim>\<open>state/operations\<close>, \<^verbatim>\<open>observerBridge.ts\<close>), a step relation in which keys,
      events, snapshots and the answers of all operations come in any order; the fields that are only
      recorded are listed at the record. \<open>DashboardOperationProperties\<close>: failures are reported, rows
      of operations are right.

  Bounds and termination. Every function is total: recursion over a list, or over a number of
  attempts in \<open>retry_effect\<close>, which is the number the retry policy gives. The step relations have no
  bound; that they come to rest is proved with a measure over the pending work. Only \<open>json_parse\<close>
  counts its depth: twice the length of the text and two more, and \<open>fuel_enough\<close> shows that more
  fuel never changes the result.

  What the theorems assume of the outside is stated as a hypothesis or a locale: \<open>collation\<close>
  (\<^verbatim>\<open>localeCompare\<close> is a total preorder), \<open>text_metrics\<close> (\<^verbatim>\<open>string-width\<close>, \<^verbatim>\<open>Intl.Segmenter\<close>), answers of
  providers that satisfy their schema where the snapshot's schema depends on it.

  Not modelled: what only wraps external programs, files, sockets and screens (providers, SQLite,
  the opening of sockets, set-up, the React components), logging, redaction by regular
  expressions, and the lengths of time limits. Of the harnesses: launching them, installing their
  hooks, and the events of Pi. Of the dashboard: focusing a terminal, the folder
  service and the texts of the help panel. The commands that edit the configuration, and the
  configuration itself, are left out too.
\<close>

subsection \<open>Between observer and dashboard\<close>

text \<open>C38: The observer admits the removals the dashboard asks for. While the row is as the dashboard saw it, the command
  the dashboard builds carries force exactly if the worktree is in use, and the handler goes on to take the worktree down
  without refusing it.\<close>

theorem dashboard_removals_are_admitted:
  assumes "find (\<lambda>r. row_id r = row_id row) (ss_rows (sn_getSnapshot (ru_session env) (wd_time w + 1))) = Some row"
    and "hc_signal c (wd_time w) = None"
    and "m = build_remove_worktree_command row (cleanup_force_required row CleanRemoveWorktree)"
    and "handler_of env c receipts m = Some handler"
  shows "(command_force m \<longleftrightarrow> takes_what_is_used (sn_getSnapshot (ru_session env) (wd_time w + 1)) m) \<and>
    (\<exists>f. handler w = and_then (take_worktree_down (ru_cleanup env) c receipts row (command_force m)) f (tick (tick w)))"
proof -
  have same: "is_running_agent_state st = agent_runs st" for st
    by (cases st) (auto simp: is_running_agent_state_def agent_runs_def)
  have forced: "command_force m = cleanup_force_required row CleanRemoveWorktree"
    by (simp add: assms(3) build_remove_worktree_command_def force_flag_def is_forced_def)
  have use: "cleanup_force_required row CleanRemoveWorktree \<longleftrightarrow> removal_refused row False \<noteq> None"
    by (auto simp: cleanup_force_required_def Let_def same row_agent_state_def removal_refused_def)
  have handler: "handler = worktree_remove (ru_cleanup env) c receipts \<lparr>rw_worktreeId = row_id row,
      rw_projectId = Some (row_projectId row), rw_force = force_flag (cleanup_force_required row CleanRemoveWorktree)\<rparr>"
    using assms(4) by (simp add: assms(3) build_remove_worktree_command_def)
  from use have "removal_refused row (command_force m) = None"
    by (cases "command_force m") (auto simp: forced removal_refused_def)
  then have "\<exists>f. handler w = and_then (take_worktree_down (ru_cleanup env) c receipts row (command_force m)) f (tick (tick w))"
    using assms(1,2) unfolding handler
    by (auto simp: assms(3) build_remove_worktree_command_def worktree_remove_def resolve_row_def assert_not_def
        and_then_def throw_if_aborted_def observe_def give_def tick_def fun_eq_iff)
  moreover have "takes_what_is_used (sn_getSnapshot (ru_session env) (wd_time w + 1)) m \<longleftrightarrow> command_force m"
    using assms(1) use unfolding forced
    by (simp add: assms(3) build_remove_worktree_command_def row_in_use_def refused_simps)
  ultimately show ?thesis by blast
qed

definition sample_in_use :: wosm_command where
  "sample_in_use = build_remove_worktree_command busy_row (cleanup_force_required busy_row CleanRemoveWorktree)"

theorem dashboard_removals_are_admitted_witness:
  "takes_what_is_used busy_snapshot sample_in_use \<and>
   (\<exists>handler f. handler_of router_sample sample_context [] sample_in_use = Some handler \<and>
      handler new_world = and_then (take_worktree_down cleanup_sample sample_context [] busy_row True) f (tick (tick new_world)))"
proof -
  have force: "command_force sample_in_use" by code_simp
  have "sn_getSnapshot (ru_session router_sample) t = busy_snapshot" "ss_rows busy_snapshot = [busy_row]"
      "ru_cleanup router_sample = cleanup_sample" for t
    by (simp_all add: cleanup_sample_def router_sample_def busy_snapshot_def)
  moreover obtain handler where "handler_of router_sample sample_context [] sample_in_use = Some handler"
    by (auto simp: sample_in_use_def build_remove_worktree_command_def)
  ultimately show ?thesis
    using dashboard_removals_are_admitted [of busy_row router_sample new_world sample_context, OF _ _ sample_in_use_def] force
    by (fastforce simp: sample_context_def)
qed

text \<open>C39: What the snapshot offers, the resume command takes. If a row of the snapshot offers a recovery, the command finds
  the row's agent lost, and given no handle it picks the one offered; the harnesses that can resume are those the
  snapshot was built with, and the store lists the worktree's handles among those.\<close>

theorem offered_recovery_is_accepted:
  assumes "r \<in> set (ss_rows (build_wosm_snapshot lc input))" and "row_recovery r = Some action"
    and "\<And>h. handle_is_actionable env h = can_resume (gi_harnessCapabilities input) (rh_provider h)"
    and "\<And>t. re_listHandles env (row_projectId r) (row_id r) t =
      Inr (filter (\<lambda>h. rh_projectId h = row_projectId r \<and> rh_worktreeId h = row_id r) (gi_recoveryHandles input))"
  shows "assert_resume_allowed (Some r) = give () \<and>
    (\<exists>handle. rh_id handle = ra_handleId action \<and> rh_provider handle = ra_provider action \<and>
       resolve_recovery_handle env (row_projectId r) (row_id r) None w = (Inr handle, tick w))"
proof -
  from offered_recovery [OF assms(1,2)] obtain handle where lost: "\<not> has_live_agent r"
    and handle: "filter (\<lambda>h. rh_projectId h = row_projectId r \<and> rh_worktreeId h = row_id r \<and>
        can_resume (gi_harnessCapabilities input) (rh_provider h)) (gi_recoveryHandles input) = [handle]"
      "ra_handleId action = rh_id handle" "ra_provider action = rh_provider handle"
    by blast
  from handle(1) have "filter (handle_is_actionable env)
      (filter (\<lambda>h. rh_projectId h = row_projectId r \<and> rh_worktreeId h = row_id r) (gi_recoveryHandles input)) = [handle]"
    by (simp add: assms(3) conj_assoc)
  then have "resolve_recovery_handle env (row_projectId r) (row_id r) None w = (Inr handle, tick w)"
    by (simp add: resolve_recovery_handle_def assms(4) and_then_def observe_def settle_def give_def)
  moreover have "assert_resume_allowed (Some r) = give ()"
    using lost by (auto simp: assert_resume_allowed_def has_live_agent_def terminal_is_stale_or_missing_def
        split: option.splits if_splits)
  ultimately show ?thesis using handle by auto
qed

definition offering :: resume_env where
  "offering = resume_sample
     \<lparr>re_canResume := can_resume (gi_harnessCapabilities sample_input),
      re_listHandles := \<lambda>p i _. Inr (filter (\<lambda>h. rh_projectId h = p \<and> rh_worktreeId h = i) (gi_recoveryHandles sample_input))\<rparr>"

theorem offered_recovery_is_accepted_witness:
  "\<exists>r \<in> set (ss_rows (build_wosm_snapshot code_unit_compare sample_input)). row_recovery r \<noteq> None \<and>
     assert_resume_allowed (Some r) new_world = (Inr (), new_world)"
proof -
  have "\<exists>r \<in> set (graph_rows code_unit_compare sample_input). row_recovery r \<noteq> None" by code_simp
  then obtain r action where r: "r \<in> set (ss_rows (build_wosm_snapshot code_unit_compare sample_input))"
      "row_recovery r = Some action" by auto
  have "handle_is_actionable offering h = can_resume (gi_harnessCapabilities sample_input) (rh_provider h)" for h
    by (simp add: handle_is_actionable_def offering_def resume_sample_def sample_input_def can_resume_def sample_runner_def
        split: option.split)
  moreover have "re_listHandles offering (row_projectId r) (row_id r) t =
      Inr (filter (\<lambda>h. rh_projectId h = row_projectId r \<and> rh_worktreeId h = row_id r) (gi_recoveryHandles sample_input))" for t
    by (simp add: offering_def)
  ultimately have "assert_resume_allowed (Some r) = (give () :: (provider_event, unit) action)"
    using offered_recovery_is_accepted [OF r, where env = offering and w = new_world] by blast
  with r show ?thesis by (auto simp: give_def)
qed

end
